(* ===== verification/Prelude.thy ===== *)
theory Prelude
  imports Main "HOL-Library.Word"
begin

text \<open>
  Shared vocabulary of the development.

  \<^item> machine integers of the C code at their width (\<open>u8\<close>, \<open>u16\<close>, \<open>u32\<close>, \<open>u64\<close>);
  \<^item> the error codes \<open>EXT_ERR_*\<close> of \<open>ext_buffer.h\<close>, extended by the outcomes a
    C function has besides its status code: undefined behaviour (an access outside the
    object, a value read through a pointer of another type), a write through a pointer
    that is \<open>NULL\<close>, running out of the fuel of the model, and a loop that does not return;
  \<^item> a state-and-error monad: a function of the code that works on a context structure
    and returns a status code is a function from the structure to a result and the new
    structure, and \<open>if (EXT_ERR_SUCCESS != status) return status;\<close> is \<open>bnd\<close>;
  \<^item> the little-endian accessors of \<open>LIBRARY/common/include/endian_macro.h\<close>.
\<close>

unbundle bit_operations_syntax

type_synonym u8 = "8 word"
type_synonym u16 = "16 word"
type_synonym u32 = "32 word"
type_synonym u64 = "64 word"
type_synonym bytes = "u8 list"

subsection \<open>Status codes\<close>

datatype ext_err =
    EXT_ERR_FORMAT
  | EXT_ERR_BUFSIZE
  | EXT_ERR_ALLOC
  | EXT_ERR_BAD_SWITCH
  | EXT_ERR_CHARCNV
  | UNDEFINED_BEHAVIOUR
  | NULL_WRITE
  | OUT_OF_FUEL
  | NOT_RETURNING

subsection \<open>State and error monad\<close>

definition ret :: "'a \<Rightarrow> 's \<Rightarrow> ('e + 'a) \<times> 's" where
  "ret x s = (Inr x, s)"

definition fail :: "'e \<Rightarrow> 's \<Rightarrow> ('e + 'a) \<times> 's" where
  "fail e s = (Inl e, s)"

definition bnd ::
    "('s \<Rightarrow> ('e + 'a) \<times> 's) \<Rightarrow> ('a \<Rightarrow> 's \<Rightarrow> ('e + 'b) \<times> 's) \<Rightarrow> 's \<Rightarrow> ('e + 'b) \<times> 's" where
  "bnd m k s = (case m s of (Inl e, s') \<Rightarrow> (Inl e, s') | (Inr x, s') \<Rightarrow> k x s')"

definition gets :: "('s \<Rightarrow> 'a) \<Rightarrow> 's \<Rightarrow> ('e + 'a) \<times> 's" where
  "gets f s = (Inr (f s), s)"

definition modify :: "('s \<Rightarrow> 's) \<Rightarrow> 's \<Rightarrow> ('e + unit) \<times> 's" where
  "modify f s = (Inr (), f s)"

definition seq ::
    "('s \<Rightarrow> ('e + unit) \<times> 's) \<Rightarrow> ('s \<Rightarrow> ('e + 'b) \<times> 's) \<Rightarrow> 's \<Rightarrow> ('e + 'b) \<times> 's" where
  "seq m k = bnd m (\<lambda>_. k)"

text \<open>
  \<open>for (i=0; i<n; i++) \{ status = f(pext, &a[i]); if (...) return status; \}\<close>, collecting
  the elements that are read, and the same loop over an array that is written.
\<close>

primrec repeat_n :: "nat \<Rightarrow> ('s \<Rightarrow> ('e + 'a) \<times> 's) \<Rightarrow> 's \<Rightarrow> ('e + 'a list) \<times> 's" where
  "repeat_n 0 m = ret []"
| "repeat_n (Suc n) m = bnd m (\<lambda>x. bnd (repeat_n n m) (\<lambda>xs. ret (x # xs)))"

primrec for_each :: "('a \<Rightarrow> 's \<Rightarrow> ('e + unit) \<times> 's) \<Rightarrow> 'a list \<Rightarrow> 's \<Rightarrow> ('e + unit) \<times> 's" where
  "for_each f [] = ret ()"
| "for_each f (x # xs) = seq (f x) (for_each f xs)"

text \<open>The same loops driven by the list of columns, beside the list of cells.\<close>

primrec map_each :: "('c \<Rightarrow> 's \<Rightarrow> ('e + 'a) \<times> 's) \<Rightarrow> 'c list \<Rightarrow> 's \<Rightarrow> ('e + 'a list) \<times> 's" where
  "map_each f [] = ret []"
| "map_each f (c # cs) = bnd (f c) (\<lambda>x. bnd (map_each f cs) (\<lambda>xs. ret (x # xs)))"

fun for_each2 ::
    "('c \<Rightarrow> 'a \<Rightarrow> 's \<Rightarrow> (ext_err + unit) \<times> 's) \<Rightarrow> 'c list \<Rightarrow> 'a list \<Rightarrow> 's \<Rightarrow> (ext_err + unit) \<times> 's"
where
  "for_each2 f [] xs = ret ()"
| "for_each2 f (c # cs) (x # xs) = seq (f c x) (for_each2 f cs xs)"
| "for_each2 f (c # cs) [] = fail UNDEFINED_BEHAVIOUR"

lemma for_each_cong [fundef_cong]:
  "xs = ys \<Longrightarrow> (\<And>x. x \<in> set ys \<Longrightarrow> f x = g x) \<Longrightarrow> for_each f xs = for_each g ys"
  by (induction xs arbitrary: ys) auto

text \<open>The computation rules of the monad, for evaluation on a concrete state.\<close>

named_theorems monad_defs "definitions of the state and error monad"

declare ret_def [monad_defs] fail_def [monad_defs] bnd_def [monad_defs]
  gets_def [monad_defs] modify_def [monad_defs] seq_def [monad_defs]

lemma bnd_Inr_iff:
  "bnd m k s = (Inr y, s') \<longleftrightarrow> (\<exists>x t. m s = (Inr x, t) \<and> k x t = (Inr y, s'))"
  by (auto simp: bnd_def split: prod.splits sum.splits)

lemma bnd_Inl_iff:
  "bnd m k s = (Inl e, s') \<longleftrightarrow>
     m s = (Inl e, s') \<or> (\<exists>x t. m s = (Inr x, t) \<and> k x t = (Inl e, s'))"
  by (auto simp: bnd_def split: prod.splits sum.splits)

lemma bnd_assoc: "bnd (bnd m k) l = bnd m (\<lambda>x. bnd (k x) l)"
  by (auto simp: bnd_def fun_eq_iff split: prod.splits sum.splits)

subsection \<open>Little-endian accessors\<close>

definition SVAL :: "bytes \<Rightarrow> nat \<Rightarrow> u32" where
  "SVAL buf pos = ucast (buf ! pos) OR push_bit 8 (ucast (buf ! (pos + 1)))"

definition IVAL :: "bytes \<Rightarrow> nat \<Rightarrow> u32" where
  "IVAL buf pos = SVAL buf pos OR push_bit 16 (SVAL buf (pos + 2))"

definition BVAL :: "bytes \<Rightarrow> nat \<Rightarrow> u64" where
  "BVAL buf pos = ucast (IVAL buf pos) OR push_bit 32 (ucast (IVAL buf (pos + 4)))"

definition SSVAL :: "u16 \<Rightarrow> bytes" where
  "SSVAL v = [ucast (v AND 0xFF), ucast (drop_bit 8 v)]"

definition SIVAL :: "u32 \<Rightarrow> bytes" where
  "SIVAL v = SSVAL (ucast (v AND 0xFFFF)) @ SSVAL (ucast (drop_bit 16 v))"

definition SBVAL :: "u64 \<Rightarrow> bytes" where
  "SBVAL v = SIVAL (ucast (v AND 0xFFFFFFFF)) @ SIVAL (ucast (drop_bit 32 v))"

lemma length_SSVAL [simp]: "length (SSVAL v) = 2"
  by (simp add: SSVAL_def)

lemma length_SIVAL [simp]: "length (SIVAL v) = 4"
  by (simp add: SIVAL_def)

lemma length_SBVAL [simp]: "length (SBVAL v) = 8"
  by (simp add: SBVAL_def)

lemma SVAL_append [simp]: "pos + 1 < length xs \<Longrightarrow> SVAL (xs @ ys) pos = SVAL xs pos"
  by (simp add: SVAL_def nth_append)

lemma IVAL_append [simp]: "pos + 3 < length xs \<Longrightarrow> IVAL (xs @ ys) pos = IVAL xs pos"
  by (simp add: IVAL_def)

lemma SVAL_shift: "length xs = n \<Longrightarrow> SVAL (xs @ ys) (n + pos) = SVAL ys pos"
  by (simp add: SVAL_def nth_append)

lemma IVAL_shift: "length xs = n \<Longrightarrow> IVAL (xs @ ys) (n + pos) = IVAL ys pos"
  using SVAL_shift [of xs n ys pos] SVAL_shift [of xs n ys "pos + 2"]
  by (simp add: IVAL_def add.assoc)

text \<open>Splitting a word into its low and high half and putting it together again.\<close>

lemma low_masks: "(0xFF::u16) = mask 8" "(0xFFFF::u32) = mask 16" "(0xFFFFFFFF::u64) = mask 32"
  by (simp_all add: mask_eq_exp_minus_1)

lemma word_split_16:
  "(ucast (ucast (v AND 0xFF) :: u8) OR push_bit 8 (ucast (ucast (drop_bit 8 v) :: u8)) :: u32)
     = ucast (v :: u16)"
  by (rule bit_word_eqI)
    (auto simp: bit_simps low_masks not_less dest: bit_imp_le_length,
     metis le_add_diff_inverse not_less)

lemma word_split_32:
  "(ucast (ucast (v AND 0xFFFF) :: u16) OR push_bit 16 (ucast (ucast (drop_bit 16 v) :: u16)) :: u32)
     = v"
  by (rule bit_word_eqI) (auto simp: bit_simps low_masks not_less dest: bit_imp_le_length)

lemma word_split_64:
  "(ucast (ucast (v AND 0xFFFFFFFF) :: u32) OR push_bit 32 (ucast (ucast (drop_bit 32 v) :: u32)) :: u64)
     = v"
  by (rule bit_word_eqI) (auto simp: bit_simps low_masks not_less dest: bit_imp_le_length)

lemma ucast_u16_u32 [simp]: "ucast (ucast (v :: u16) :: u32) = v"
  by (rule bit_word_eqI) (auto simp: bit_simps dest: bit_imp_le_length)

lemma unat_ucast_u16_u32 [simp]: "unat (ucast (h :: u16) :: u32) = unat h"
  by (simp add: uint_up_ucast is_up flip: nat_uint_eq)

lemma unat_ucast_u8 [simp]:
  "unat (ucast (b :: u8) :: u16) = unat b" "unat (ucast (b :: u8) :: u32) = unat b"
  by (simp_all add: uint_up_ucast is_up flip: nat_uint_eq)

lemma word_bounds:
  "unat (b :: u8) < 256" "unat (h :: u16) < 65536" "unat (w :: u32) < 4294967296"
  using unsigned_less [of b, where ?'a = nat] unsigned_less [of h, where ?'a = nat]
    unsigned_less [of w, where ?'a = nat] by simp_all

lemma SVAL_SSVAL [simp]: "SVAL (SSVAL v) 0 = ucast v"
  by (simp add: SVAL_def SSVAL_def word_split_16)

lemma IVAL_SIVAL [simp]: "IVAL (SIVAL v) 0 = v"
  using SVAL_shift [of "SSVAL (ucast (v AND 0xFFFF))" 2 "SSVAL (ucast (drop_bit 16 v))" 0]
  by (simp add: IVAL_def SIVAL_def word_split_32 flip: numeral_2_eq_2)

lemma BVAL_SBVAL [simp]: "BVAL (SBVAL v) 0 = v"
  using IVAL_shift [of "SIVAL (ucast (v AND 0xFFFFFFFF))" 4 "SIVAL (ucast (drop_bit 32 v))" 0]
  by (simp add: BVAL_def SBVAL_def word_split_64)

end
