(* ===== verification/Utf_Conv.thy ===== *)
theory Utf_Conv
  imports Prelude
begin

text \<open>
  The character set conversions of \<open>LIBRARY/common/util.c\<close> that the serialiser uses:
  \<open>utf8_to_utf16le\<close> and \<open>utf16le_to_utf8\<close>.  Both hand the text to the C library's
  \<open>iconv\<close>; its conversion is written out here for the two encodings, with the standard's
  rejections (overlong forms, surrogates as code points, values above 10FFFF, lone
  surrogates, truncated sequences).
\<close>

subsection \<open>UTF-8\<close>

definition is_scalar :: "nat \<Rightarrow> bool" where
  "is_scalar c \<longleftrightarrow> c < 0xD800 \<or> 0xE000 \<le> c \<and> c \<le> 0x10FFFF"

definition is_cont :: "u8 \<Rightarrow> bool" where
  "is_cont b \<longleftrightarrow> 0x80 \<le> unat b \<and> unat b < 0xC0"

definition utf8_2 :: "u8 \<Rightarrow> u8 \<Rightarrow> nat" where
  "utf8_2 a b = (unat a - 0xC0) * 64 + (unat b - 0x80)"

definition utf8_3 :: "u8 \<Rightarrow> u8 \<Rightarrow> u8 \<Rightarrow> nat" where
  "utf8_3 a b c = ((unat a - 0xE0) * 64 + (unat b - 0x80)) * 64 + (unat c - 0x80)"

definition utf8_4 :: "u8 \<Rightarrow> u8 \<Rightarrow> u8 \<Rightarrow> u8 \<Rightarrow> nat" where
  "utf8_4 a b c d =
     (((unat a - 0xF0) * 64 + (unat b - 0x80)) * 64 + (unat c - 0x80)) * 64 + (unat d - 0x80)"

text \<open>The first code point of a text and what is left.\<close>

definition utf8_step :: "bytes \<Rightarrow> (nat \<times> bytes) option" where
  "utf8_step s = (case s of [] \<Rightarrow> None | a # s1 \<Rightarrow>
     if unat a < 0x80 then Some (unat a, s1)
     else (case s1 of [] \<Rightarrow> None | b # s2 \<Rightarrow>
     if 0xC0 \<le> unat a \<and> unat a < 0xE0 then
       (if is_cont b \<and> 0x80 \<le> utf8_2 a b then Some (utf8_2 a b, s2) else None)
     else (case s2 of [] \<Rightarrow> None | c # s3 \<Rightarrow>
     if 0xE0 \<le> unat a \<and> unat a < 0xF0 then
       (if is_cont b \<and> is_cont c \<and> 0x800 \<le> utf8_3 a b c \<and> is_scalar (utf8_3 a b c)
        then Some (utf8_3 a b c, s3) else None)
     else (case s3 of [] \<Rightarrow> None | d # s4 \<Rightarrow>
     if 0xF0 \<le> unat a \<and> unat a < 0xF8 \<and> is_cont b \<and> is_cont c \<and> is_cont d
       \<and> 0x10000 \<le> utf8_4 a b c d \<and> is_scalar (utf8_4 a b c d)
     then Some (utf8_4 a b c d, s4) else None))))"

lemma utf8_step_shorter: "utf8_step s = Some (c, r) \<Longrightarrow> length r < length s"
  by (auto simp: utf8_step_def split: list.splits if_splits)

function utf8_decode :: "bytes \<Rightarrow> nat list option" where
  "utf8_decode s =
     (if s = [] then Some []
      else case utf8_step s of
             None \<Rightarrow> None
           | Some (c, r) \<Rightarrow> map_option ((#) c) (utf8_decode r))"
  by pat_completeness auto
termination
  by (relation "measure length") (auto dest: utf8_step_shorter)

declare utf8_decode.simps [simp del]

definition utf8_encode_cp :: "nat \<Rightarrow> bytes" where
  "utf8_encode_cp c =
     (if c < 0x80 then [of_nat c]
      else if c < 0x800 then [of_nat (0xC0 + c div 64), of_nat (0x80 + c mod 64)]
      else if c < 0x10000 then
        [of_nat (0xE0 + c div 64 div 64), of_nat (0x80 + c div 64 mod 64),
         of_nat (0x80 + c mod 64)]
      else
        [of_nat (0xF0 + c div 64 div 64 div 64), of_nat (0x80 + c div 64 div 64 mod 64),
         of_nat (0x80 + c div 64 mod 64), of_nat (0x80 + c mod 64)])"

definition utf8_encode :: "nat list \<Rightarrow> bytes" where
  "utf8_encode cps = concat (map utf8_encode_cp cps)"

lemma is_scalar_bound: "is_scalar c \<Longrightarrow> c \<le> 0x10FFFF"
  by (auto simp: is_scalar_def)

lemma unat_of_nat_u8 [simp]: "n < 256 \<Longrightarrow> unat (of_nat n :: u8) = n"
  by (simp add: unat_of_nat)

lemma digit_64: "(y::nat) < 64 \<Longrightarrow> (x * 64 + y) div 64 = x" "(y::nat) < 64 \<Longrightarrow> (x * 64 + y) mod 64 = y"
  by simp_all

text \<open>
  Every accepted sequence is the encoding of the code point it was decoded to, so the
  decoder accepts one spelling of a code point only.
\<close>

lemma utf8_encode_2:
  assumes "0xC0 \<le> unat a" "unat a < 0xE0" "is_cont b" "0x80 \<le> utf8_2 a b"
  shows "utf8_encode_cp (utf8_2 a b) = [a, b]" "is_scalar (utf8_2 a b)"
proof -
  obtain x y where xy: "unat a = 0xC0 + x" "unat b = 0x80 + y" "x < 32" "y < 64"
    using assms(1-3) by (auto simp: is_cont_def le_iff_add)
  have v: "utf8_2 a b = x * 64 + y" by (simp add: utf8_2_def xy)
  have "x * 64 + y < 0x800" using xy by simp
  then show "is_scalar (utf8_2 a b)" by (simp add: is_scalar_def v)
  have "utf8_encode_cp (x * 64 + y) = [of_nat (unat a), of_nat (unat b)]"
    using assms(4) \<open>x * 64 + y < 0x800\<close> xy
    by (simp only: utf8_encode_cp_def v digit_64) simp
  then show "utf8_encode_cp (utf8_2 a b) = [a, b]" by (simp add: v)
qed

lemma utf8_encode_3:
  assumes "0xE0 \<le> unat a" "unat a < 0xF0" "is_cont b" "is_cont c" "0x800 \<le> utf8_3 a b c"
  shows "utf8_encode_cp (utf8_3 a b c) = [a, b, c]"
proof -
  obtain x y z where xyz: "unat a = 0xE0 + x" "unat b = 0x80 + y" "unat c = 0x80 + z"
      "x < 16" "y < 64" "z < 64"
    using assms(1-4) by (auto simp: is_cont_def le_iff_add)
  have v: "utf8_3 a b c = (x * 64 + y) * 64 + z" by (simp add: utf8_3_def xyz)
  have "(x * 64 + y) * 64 + z < 0x10000" using xyz by simp
  then have "utf8_encode_cp ((x * 64 + y) * 64 + z) = [of_nat (unat a), of_nat (unat b), of_nat (unat c)]"
    using assms(5) xyz by (simp only: utf8_encode_cp_def v digit_64) simp
  then show ?thesis by (simp add: v)
qed

lemma utf8_encode_4:
  assumes "0xF0 \<le> unat a" "unat a < 0xF8" "is_cont b" "is_cont c" "is_cont d"
    "0x10000 \<le> utf8_4 a b c d"
  shows "utf8_encode_cp (utf8_4 a b c d) = [a, b, c, d]"
proof -
  obtain x y z w where xyz: "unat a = 0xF0 + x" "unat b = 0x80 + y" "unat c = 0x80 + z"
      "unat d = 0x80 + w" "x < 8" "y < 64" "z < 64" "w < 64"
    using assms(1-5) by (auto simp: is_cont_def le_iff_add)
  have v: "utf8_4 a b c d = ((x * 64 + y) * 64 + z) * 64 + w" by (simp add: utf8_4_def xyz)
  have "utf8_encode_cp (((x * 64 + y) * 64 + z) * 64 + w) =
      [of_nat (unat a), of_nat (unat b), of_nat (unat c), of_nat (unat d)]"
    using assms(6) xyz by (simp only: utf8_encode_cp_def v digit_64) simp
  then show ?thesis by (simp add: v)
qed

lemma utf8_encode_1: "unat a < 0x80 \<Longrightarrow> utf8_encode_cp (unat a) = [a] \<and> is_scalar (unat a)"
  by (simp add: utf8_encode_cp_def is_scalar_def)

lemma utf8_encode_step:
  "utf8_step s = Some (c, r) \<Longrightarrow> utf8_encode_cp c @ r = s \<and> is_scalar c"
  by (auto simp: utf8_step_def utf8_encode_1 utf8_encode_2 utf8_encode_3 utf8_encode_4
      split: list.splits if_splits)

lemma utf8_decode_sound:
  "utf8_decode s = Some cps \<Longrightarrow> utf8_encode cps = s \<and> (\<forall>c\<in>set cps. is_scalar c)"
proof (induction s arbitrary: cps rule: utf8_decode.induct)
  case (1 s)
  show ?case
  proof (cases "s = []")
    case True
    with "1.prems" show ?thesis by (auto simp: utf8_decode.simps [of "[]"] utf8_encode_def)
  next
    case False
    with "1.prems" obtain c r cps' where step: "utf8_step s = Some (c, r)"
      and rest: "utf8_decode r = Some cps'" and cps: "cps = c # cps'"
      by (auto simp: utf8_decode.simps [of s] split: option.splits)
    have "utf8_encode cps' = r \<and> (\<forall>c\<in>set cps'. is_scalar c)"
      using "1.IH" [OF False step refl rest] .
    with utf8_encode_step [OF step] show ?thesis by (simp add: cps utf8_encode_def)
  qed
qed

lemma utf8_step_append: "utf8_step s = Some (c, r) \<Longrightarrow> utf8_step (s @ t) = Some (c, r @ t)"
  by (cases s; cases "tl s"; cases "tl (tl s)"; cases "tl (tl (tl s))")
    (simp_all add: utf8_step_def split: if_splits)

lemma utf8_decode_append:
  "utf8_decode s = Some cps \<Longrightarrow> utf8_decode (s @ t) = map_option ((@) cps) (utf8_decode t)"
proof (induction s arbitrary: cps rule: utf8_decode.induct)
  case (1 s)
  show ?case
  proof (cases "s = []")
    case True
    with "1.prems" show ?thesis by (auto simp: utf8_decode.simps [of "[]"] option.map_ident_strong)
  next
    case False
    with "1.prems" obtain c r cps' where step: "utf8_step s = Some (c, r)"
      and rest: "utf8_decode r = Some cps'" and cps: "cps = c # cps'"
      by (auto simp: utf8_decode.simps [of s] split: option.splits)
    have "utf8_decode (r @ t) = map_option ((@) cps') (utf8_decode t)"
      using "1.IH" [OF False step refl rest] .
    with False utf8_step_append [OF step, of t] show ?thesis
      by (simp add: utf8_decode.simps [of "s @ t"] cps option.map_comp comp_def)
  qed
qed

lemma utf8_decode_nul: "utf8_decode [0] = Some [0]"
  by (simp add: utf8_decode.simps [of "[0]"] utf8_decode.simps [of "[]"] utf8_step_def)

lemma utf8_encode_cp_nul [simp]: "utf8_encode_cp 0 = [0]"
  by (simp add: utf8_encode_cp_def)

lemma utf8_encode_nul: "0 \<in> set cps \<Longrightarrow> 0 \<in> set (utf8_encode cps)"
  unfolding utf8_encode_def set_concat set_map by (rule UN_I [OF imageI]) auto

subsection \<open>UTF-16, little-endian\<close>

definition unit_le :: "nat \<Rightarrow> bytes" where
  "unit_le n = [of_nat (n mod 256), of_nat (n div 256)]"

definition utf16le_encode_cp :: "nat \<Rightarrow> bytes" where
  "utf16le_encode_cp c =
     (if c < 0x10000 then unit_le c
      else unit_le (0xD800 + (c - 0x10000) div 1024) @ unit_le (0xDC00 + (c - 0x10000) mod 1024))"

definition utf16le_encode :: "nat list \<Rightarrow> bytes" where
  "utf16le_encode cps = concat (map utf16le_encode_cp cps)"

fun utf16le_decode :: "bytes \<Rightarrow> nat list option" where
  "utf16le_decode [] = Some []"
| "utf16le_decode [a] = None"
| "utf16le_decode (a # b # r) =
     (let u = unat a + 256 * unat b in
      if u < 0xD800 \<or> 0xE000 \<le> u then map_option ((#) u) (utf16le_decode r)
      else if 0xDC00 \<le> u then None
      else case r of
        c # d # r' \<Rightarrow>
          (let v = unat c + 256 * unat d in
           if 0xDC00 \<le> v \<and> v < 0xE000
           then map_option ((#) (0x10000 + (u - 0xD800) * 1024 + (v - 0xDC00))) (utf16le_decode r')
           else None)
      | _ \<Rightarrow> None)"

lemma unit_le_value:
  "n < 65536 \<Longrightarrow> \<exists>a b. unit_le n = [a, b] \<and> unat a + 256 * unat b = n"
  by (auto simp: unit_le_def)

lemma utf16le_decode_encode_cp:
  assumes "is_scalar c"
  shows "utf16le_decode (utf16le_encode_cp c @ r) = map_option ((#) c) (utf16le_decode r)"
proof (cases "c < 0x10000")
  case True
  then obtain a b where ab: "unit_le c = [a, b]" "unat a + 256 * unat b = c"
    using unit_le_value [of c] by auto
  with True assms show ?thesis
    by (auto simp: utf16le_encode_cp_def Let_def is_scalar_def)
next
  case False
  define h l where "h = (c - 0x10000) div 1024" and "l = (c - 0x10000) mod 1024"
  have bnd: "h < 1024" "l < 1024" and c: "c = 0x10000 + h * 1024 + l"
    using False is_scalar_bound [OF assms] by (auto simp: h_def l_def)
  obtain a b where ab: "unit_le (0xD800 + h) = [a, b]" "unat a + 256 * unat b = 0xD800 + h"
    using unit_le_value [of "0xD800 + h"] bnd by auto
  obtain a' b' where ab': "unit_le (0xDC00 + l) = [a', b']" "unat a' + 256 * unat b' = 0xDC00 + l"
    using unit_le_value [of "0xDC00 + l"] bnd by auto
  have "utf16le_encode_cp c = [a, b, a', b']"
    using False ab ab' by (simp add: utf16le_encode_cp_def flip: h_def l_def)
  then show ?thesis
    using bnd by (simp add: ab(2) ab'(2) Let_def) (simp add: c)
qed

lemma utf16le_decode_encode:
  "\<forall>c\<in>set cps. is_scalar c \<Longrightarrow> utf16le_decode (utf16le_encode cps) = Some cps"
  by (induction cps) (auto simp: utf16le_encode_def utf16le_decode_encode_cp)

lemma length_utf16le_encode_cp: "length (utf16le_encode_cp c) \<in> {2, 4}"
  by (simp add: utf16le_encode_cp_def unit_le_def)

lemma length_utf16_le_utf8:
  "length (utf16le_encode_cp c) \<le> 2 * length (utf8_encode_cp c)"
  "length (utf8_encode_cp c) \<le> 2 * length (utf16le_encode_cp c)"
  by (simp_all add: utf16le_encode_cp_def utf8_encode_cp_def unit_le_def)

lemma length_utf16le_encode: "length (utf16le_encode cps) \<le> 2 * length (utf8_encode cps)"
proof (induction cps)
  case (Cons c cps)
  then show ?case using length_utf16_le_utf8(1) [of c] by (simp add: utf16le_encode_def utf8_encode_def)
qed (simp add: utf16le_encode_def)

lemma length_utf8_encode: "length (utf8_encode cps) \<le> 2 * length (utf16le_encode cps)"
proof (induction cps)
  case (Cons c cps)
  then show ?case using length_utf16_le_utf8(2) [of c] by (simp add: utf16le_encode_def utf8_encode_def)
qed (simp add: utf8_encode_def)

subsection \<open>The functions of util.c\<close>

text \<open>
  \<open>src\<close> is the text before its terminating NUL, which is converted with it; \<open>len\<close> is
  the capacity of \<open>dst\<close>.  \<open>None\<close> is the return value \<open>-1\<close>, \<open>Some\<close> the bytes
  written, whose number is the return value.
\<close>

definition utf8_to_utf16le :: "bytes \<Rightarrow> nat \<Rightarrow> bytes option" where
  "utf8_to_utf16le src len =
     (case utf8_decode (src @ [0]) of
        None \<Rightarrow> None
      | Some cps \<Rightarrow>
          if length (utf16le_encode cps) \<le> len then Some (utf16le_encode cps) else None)"

text \<open>The bytes written to \<open>dst\<close>, or \<open>None\<close> for \<open>FALSE\<close>.\<close>

definition utf16le_to_utf8 :: "bytes \<Rightarrow> nat \<Rightarrow> bytes option" where
  "utf16le_to_utf8 src len =
     (case utf16le_decode src of
        None \<Rightarrow> None
      | Some cps \<Rightarrow>
          if length (utf8_encode cps) \<le> len then Some (utf8_encode cps) else None)"

definition utf8_valid :: "bytes \<Rightarrow> bool" where
  "utf8_valid s \<longleftrightarrow> utf8_decode s \<noteq> None"

lemma utf8_to_utf16le_eq:
  assumes "utf8_decode s = Some cps"
  shows "utf8_to_utf16le s (2 * length s + 2) = Some (utf16le_encode (cps @ [0]))"
proof -
  have "utf8_encode cps = s" using utf8_decode_sound [OF assms] by simp
  then have "length (utf16le_encode (cps @ [0])) \<le> 2 * length s + 2"
    using length_utf16le_encode [of "cps @ [0]"] by (simp add: utf8_encode_def)
  then show ?thesis
    by (simp add: utf8_to_utf16le_def utf8_decode_append [OF assms] utf8_decode_nul)
qed

lemma utf16le_to_utf8_eq:
  assumes "utf8_decode s = Some cps"
  shows "utf16le_to_utf8 (utf16le_encode (cps @ [0])) (2 * length (utf16le_encode (cps @ [0])))
           = Some (s @ [0])"
proof -
  have sc: "utf8_encode cps = s" "\<forall>c\<in>set (cps @ [0]). is_scalar c"
    using utf8_decode_sound [OF assms] by (auto simp: is_scalar_def)
  have "utf8_encode (cps @ [0]) = s @ [0]"
    using sc(1) by (simp add: utf8_encode_def)
  then show ?thesis
    using length_utf8_encode [of "cps @ [0]"]
    by (simp add: utf16le_to_utf8_def utf16le_decode_encode [OF sc(2)])
qed

end
