(* ===== verification/Mapi_Types.thy ===== *)
theory Mapi_Types
  imports Prelude "HOL-Library.List_Lexorder"
begin

text \<open>
  The data of \<open>LIBRARY/mapi_lib/include/mapi_types.h\<close> and
  \<open>LIBRARY/common/include/common_types.h\<close>.  \<open>BINARY\<close> and the \<open>*_ARRAY\<close> structures are
  lists (their count is the length), \<open>char *\<close> is the list of the bytes before the NUL,
  a pointer that may be \<open>NULL\<close> is an option, and a \<open>void *\<close> is a value of a datatype
  with one constructor per C type it may point to.
\<close>

subsection \<open>GUID\<close>

datatype guid = GUID
  (time_low: u32) (time_mid: u16) (time_hi_and_version: u16)
  (clock_seq0: u8) (clock_seq1: u8)
  (node0: u8) (node1: u8) (node2: u8) (node3: u8) (node4: u8) (node5: u8)

definition guid_clock_seq :: "guid \<Rightarrow> bytes" where
  "guid_clock_seq g = [clock_seq0 g, clock_seq1 g]"

definition guid_node :: "guid \<Rightarrow> bytes" where
  "guid_node g = [node0 g, node1 g, node2 g, node3 g, node4 g, node5 g]"

text \<open>The 16 bytes of the structure in memory (it has no padding; little-endian).\<close>

definition guid_mem :: "guid \<Rightarrow> bytes" where
  "guid_mem g =
     SIVAL (time_low g) @ SSVAL (time_mid g) @ SSVAL (time_hi_and_version g) @
     guid_clock_seq g @ guid_node g"

lemma length_guid_mem [simp]: "length (guid_mem g) = 16"
  by (simp add: guid_mem_def guid_clock_seq_def guid_node_def)

lemma SSVAL_inject [simp]: "SSVAL v = SSVAL w \<longleftrightarrow> v = w"
  by (metis SVAL_SSVAL ucast_u16_u32)

lemma SIVAL_inject [simp]: "SIVAL v = SIVAL w \<longleftrightarrow> v = w"
  by (metis IVAL_SIVAL)

lemma guid_mem_inject [simp]: "guid_mem g = guid_mem h \<longleftrightarrow> g = h"
  by (auto simp: guid_mem_def guid_clock_seq_def guid_node_def guid.expand)

text \<open>
  \<open>memcmp\<close> of the C library: the sign of the first difference, bytes compared unsigned.
\<close>

fun memcmp :: "bytes \<Rightarrow> bytes \<Rightarrow> int" where
  "memcmp (a # as) (b # bs) = (if a < b then -1 else if b < a then 1 else memcmp as bs)"
| "memcmp _ _ = 0"

lemma memcmp_less: "length as = length bs \<Longrightarrow> memcmp as bs < 0 \<longleftrightarrow> as < bs"
  by (induction as bs rule: memcmp.induct) auto

lemma memcmp_eq: "length as = length bs \<Longrightarrow> memcmp as bs = 0 \<longleftrightarrow> as = bs"
  by (induction as bs rule: memcmp.induct) auto

instantiation guid :: linorder
begin

definition less_eq_guid :: "guid \<Rightarrow> guid \<Rightarrow> bool" where
  "g \<le> h \<longleftrightarrow> guid_mem g \<le> guid_mem h"

definition less_guid :: "guid \<Rightarrow> guid \<Rightarrow> bool" where
  "g < h \<longleftrightarrow> guid_mem g < guid_mem h"

instance
proof
  fix g h k :: guid
  show "g < h \<longleftrightarrow> g \<le> h \<and> \<not> h \<le> g"
    by (simp only: less_eq_guid_def less_guid_def less_le_not_le)
  show "g \<le> g"
    by (simp add: less_eq_guid_def)
  show "g \<le> h \<Longrightarrow> h \<le> k \<Longrightarrow> g \<le> k"
    by (auto simp: less_eq_guid_def)
  show "g \<le> h \<Longrightarrow> h \<le> g \<Longrightarrow> g = h"
    by (auto simp: less_eq_guid_def dest: antisym)
  show "g \<le> h \<or> h \<le> g"
    unfolding less_eq_guid_def by (rule linear)
qed

end

definition guid_cmp :: "guid \<Rightarrow> guid \<Rightarrow> int" where
  "guid_cmp g h = memcmp (guid_mem g) (guid_mem h)"

lemma guid_cmp_less [simp]: "guid_cmp g h < 0 \<longleftrightarrow> g < h"
  by (simp add: guid_cmp_def memcmp_less less_guid_def)

lemma guid_cmp_eq [simp]: "guid_cmp g h = 0 \<longleftrightarrow> g = h"
  by (simp add: guid_cmp_def memcmp_eq)

lemma guid_cmp_greater [simp]: "0 < guid_cmp g h \<longleftrightarrow> h < g"
  using guid_cmp_less [of g h] guid_cmp_eq [of g h] by (auto simp del: guid_cmp_less guid_cmp_eq)

text \<open>A GUID from its three integers, its clock sequence and its node.\<close>

definition make_guid :: "u32 \<Rightarrow> u16 \<Rightarrow> u16 \<Rightarrow> bytes \<Rightarrow> bytes \<Rightarrow> guid" where
  "make_guid low mid hi cs nd =
     GUID low mid hi (cs ! 0) (cs ! 1) (nd ! 0) (nd ! 1) (nd ! 2) (nd ! 3) (nd ! 4) (nd ! 5)"

lemma make_guid_parts [simp]:
  "make_guid (time_low g) (time_mid g) (time_hi_and_version g) (guid_clock_seq g) (guid_node g) = g"
  by (cases g) (simp add: make_guid_def guid_clock_seq_def guid_node_def)

end
