(* ===== verification/Ext_Pull.thy ===== *)
theory Ext_Pull
  imports Utf_Conv Mapi_Types
begin

text \<open>
  The reading side of \<open>LIBRARY/mapi_lib/ext_buffer.c\<close>: the context \<open>EXT_PULL\<close> and the
  functions \<open>ext_buffer_pull_*\<close> for the base types.

  \<open>pl_data\<close> is the memory object the pointer \<open>data\<close> points into; a read beyond its
  end is undefined behaviour, which is a result of the model, so that memory safety is a
  theorem and not an assumption.  \<open>data_size\<close>, \<open>offset\<close> and \<open>flags\<close> are 32-bit words
  with C's wrap-around.  \<open>pl_alloc\<close> answers the calls of the \<open>alloc\<close> callback (and of
  \<open>malloc\<close>): its first argument is the number of the call, its second the size, and
  \<open>False\<close> is the answer \<open>NULL\<close>.
\<close>

record ext_pull =
  pl_alloc :: "nat \<Rightarrow> nat \<Rightarrow> bool"
  pl_allocs :: nat
  pl_data :: bytes
  pl_data_size :: u32
  pl_offset :: u32
  pl_flags :: u32

type_synonym 'a pull = "ext_pull \<Rightarrow> (ext_err + 'a) \<times> ext_pull"

definition EXT_FLAG_UTF16 :: u32 where "EXT_FLAG_UTF16 = 1"
definition EXT_FLAG_WCOUNT :: u32 where "EXT_FLAG_WCOUNT = 2"
definition EXT_FLAG_TBLLMT :: u32 where "EXT_FLAG_TBLLMT = 4"

definition has_flag :: "u32 \<Rightarrow> u32 \<Rightarrow> bool" where
  "has_flag flags f \<longleftrightarrow> flags AND f \<noteq> 0"

definition ext_buffer_pull_init ::
    "bytes \<Rightarrow> u32 \<Rightarrow> (nat \<Rightarrow> nat \<Rightarrow> bool) \<Rightarrow> u32 \<Rightarrow> ext_pull" where
  "ext_buffer_pull_init pdata data_size alloc flags =
     \<lparr>pl_alloc = alloc, pl_allocs = 0, pl_data = pdata, pl_data_size = data_size,
      pl_offset = 0, pl_flags = flags\<rparr>"

subsection \<open>Moving forward, allocating, reading a slice\<close>

definition ext_buffer_pull_advance :: "u32 \<Rightarrow> unit pull" where
  "ext_buffer_pull_advance n e =
     (let e' = e\<lparr>pl_offset := pl_offset e + n\<rparr>
      in if pl_offset e' > pl_data_size e' then (Inl EXT_ERR_BUFSIZE, e') else (Inr (), e'))"

definition pull_alloc :: "nat \<Rightarrow> unit pull" where
  "pull_alloc n e =
     (let e' = e\<lparr>pl_allocs := Suc (pl_allocs e)\<rparr>
      in if pl_alloc e (pl_allocs e) n then (Inr (), e') else (Inl EXT_ERR_ALLOC, e'))"

text \<open>
  The check \<open>data_size < sizeof(T) || offset + sizeof(T) > data_size\<close> of the readers of
  a fixed size; \<open>sizeof\<close> is a \<open>size_t\<close>, so this sum does not wrap.
\<close>

definition pull_fixed :: "nat \<Rightarrow> bytes pull" where
  "pull_fixed n e =
     (let off = unat (pl_offset e); sz = unat (pl_data_size e)
      in if sz < n \<or> off + n > sz then (Inl EXT_ERR_BUFSIZE, e)
         else if off + n > length (pl_data e) then (Inl UNDEFINED_BEHAVIOUR, e)
         else (Inr (take n (drop off (pl_data e))), e\<lparr>pl_offset := pl_offset e + of_nat n\<rparr>))"

text \<open>Here \<open>n\<close> is a \<open>uint32_t\<close> and \<open>offset + n\<close> wraps.\<close>

definition ext_buffer_pull_bytes :: "u32 \<Rightarrow> bytes pull" where
  "ext_buffer_pull_bytes n e =
     (if pl_data_size e < n \<or> pl_offset e + n > pl_data_size e then (Inl EXT_ERR_BUFSIZE, e)
      else if unat (pl_offset e) + unat n > length (pl_data e) then (Inl UNDEFINED_BEHAVIOUR, e)
      else (Inr (take (unat n) (drop (unat (pl_offset e)) (pl_data e))),
            e\<lparr>pl_offset := pl_offset e + n\<rparr>))"

subsection \<open>Scalars\<close>

text \<open>
  Signed values have the same bits as the unsigned ones (\<open>sint\<close> reads them); a
  \<open>float\<close> and a \<open>double\<close> are kept as their bit patterns.
\<close>

definition ext_buffer_pull_int8 :: "u8 pull" where
  "ext_buffer_pull_int8 = bnd (pull_fixed 1) (\<lambda>b. ret (b ! 0))"

definition ext_buffer_pull_uint8 :: "u8 pull" where
  "ext_buffer_pull_uint8 = bnd (pull_fixed 1) (\<lambda>b. ret (b ! 0))"

definition ext_buffer_pull_int16 :: "u16 pull" where
  "ext_buffer_pull_int16 = bnd (pull_fixed 2) (\<lambda>b. ret (ucast (SVAL b 0)))"

definition ext_buffer_pull_uint16 :: "u16 pull" where
  "ext_buffer_pull_uint16 = bnd (pull_fixed 2) (\<lambda>b. ret (ucast (SVAL b 0)))"

definition ext_buffer_pull_int32 :: "u32 pull" where
  "ext_buffer_pull_int32 = bnd (pull_fixed 4) (\<lambda>b. ret (IVAL b 0))"

definition ext_buffer_pull_uint32 :: "u32 pull" where
  "ext_buffer_pull_uint32 = bnd (pull_fixed 4) (\<lambda>b. ret (IVAL b 0))"

definition ext_buffer_pull_int64 :: "u64 pull" where
  "ext_buffer_pull_int64 =
     bnd (pull_fixed 8) (\<lambda>b. ret (ucast (IVAL b 0) OR push_bit 32 (ucast (IVAL b 4))))"

definition ext_buffer_pull_uint64 :: "u64 pull" where
  "ext_buffer_pull_uint64 =
     bnd (pull_fixed 8) (\<lambda>b. ret (ucast (IVAL b 0) OR push_bit 32 (ucast (IVAL b 4))))"

definition ext_buffer_pull_float :: "u32 pull" where
  "ext_buffer_pull_float = bnd (pull_fixed 4) (\<lambda>b. ret (IVAL b 0))"

definition ext_buffer_pull_double :: "u64 pull" where
  "ext_buffer_pull_double = bnd (pull_fixed 8) (\<lambda>b. ret (BVAL b 0))"

definition ext_buffer_pull_bool :: "bool pull" where
  "ext_buffer_pull_bool =
     bnd (pull_fixed 1) (\<lambda>b.
       if b ! 0 = 0 then ret False
       else if b ! 0 = 1 then ret True
       else fail EXT_ERR_FORMAT)"

subsection \<open>Strings\<close>

text \<open>
  A C string is the list of its bytes before the NUL.  \<open>strnlen\<close> looks at no byte after
  the first NUL, so the read is out of bounds only when none is found inside the object.
\<close>

definition INT_MAX :: nat where "INT_MAX = 2 ^ 31 - 1"

definition ext_buffer_pull_string :: "bytes pull" where
  "ext_buffer_pull_string e =
     (if pl_offset e \<ge> pl_data_size e then (Inl EXT_ERR_BUFSIZE, e)
      else
        (let room = unat (pl_data_size e) - unat (pl_offset e);
             region = take room (drop (unat (pl_offset e)) (pl_data e));
             str = takeWhile (\<lambda>b. b \<noteq> 0) region;
             len = length str
         in if len = length region \<and> length region < room \<or> len \<ge> INT_MAX
            then (Inl UNDEFINED_BEHAVIOUR, e)
            else if len + 1 > room then (Inl EXT_ERR_BUFSIZE, e)
            else
              bnd (pull_alloc (len + 1)) (\<lambda>_.
              bnd (ext_buffer_pull_advance (of_nat (len + 1))) (\<lambda>_.
              ret str)) e))"

text \<open>The position of the first pair of zero bytes at an even distance.\<close>

fun wstring_end :: "bytes \<Rightarrow> nat option" where
  "wstring_end (a # b # r) =
     (if a = 0 \<and> b = 0 then Some 0 else map_option (\<lambda>i. i + 2) (wstring_end r))"
| "wstring_end _ = None"

definition ext_buffer_pull_wstring :: "bytes pull" where
  "ext_buffer_pull_wstring e =
     (if \<not> has_flag (pl_flags e) EXT_FLAG_UTF16 then ext_buffer_pull_string e
      else if pl_offset e \<ge> pl_data_size e then (Inl EXT_ERR_BUFSIZE, e)
      else
        (let max_len = unat (pl_data_size e) - unat (pl_offset e);
             region = take max_len (drop (unat (pl_offset e)) (pl_data e))
         in if max_len > INT_MAX then (Inl EXT_ERR_BUFSIZE, e)
            else case wstring_end region of
              None \<Rightarrow>
                (if length region < max_len then (Inl UNDEFINED_BEHAVIOUR, e)
                 else (Inl EXT_ERR_BUFSIZE, e))
            | Some i \<Rightarrow>
                if 2 * (i + 2) > INT_MAX then (Inl UNDEFINED_BEHAVIOUR, e)
                else
                  bnd (pull_alloc (2 * (i + 2))) (\<lambda>_.
                  bnd (pull_alloc (i + 2)) (\<lambda>_.
                  case utf16le_to_utf8 (take (i + 2) region) (2 * (i + 2)) of
                    None \<Rightarrow> fail EXT_ERR_CHARCNV
                  | Some dst \<Rightarrow>
                      bnd (ext_buffer_pull_advance (of_nat (i + 2))) (\<lambda>_.
                      ret (takeWhile (\<lambda>b. b \<noteq> 0) dst)))) e))"

definition ext_buffer_pull_data_blob :: "bytes pull" where
  "ext_buffer_pull_data_blob e =
     (if pl_offset e > pl_data_size e then (Inl EXT_ERR_BUFSIZE, e)
      else
        (let len = pl_data_size e - pl_offset e in
           bnd (pull_alloc (unat len)) (\<lambda>_ e.
             if unat (pl_offset e) + unat len > length (pl_data e)
             then (Inl UNDEFINED_BEHAVIOUR, e)
             else (Inr (take (unat len) (drop (unat (pl_offset e)) (pl_data e))),
                   e\<lparr>pl_offset := pl_offset e + len\<rparr>)) e))"

subsection \<open>Counted blocks and arrays\<close>

text \<open>
  \<open>BINARY\<close> is the list of its \<open>cb\<close> bytes, an array structure the list of its elements.
  The element loop is shared by all the array readers: a zero count leaves the pointer
  \<open>NULL\<close>, otherwise \<open>count\<close> elements of \<open>sizeof(T)\<close> bytes are allocated and read.
\<close>

definition pull_blob :: "u32 \<Rightarrow> bytes pull" where
  "pull_blob cb =
     (if cb = 0 then ret []
      else bnd (pull_alloc (unat cb)) (\<lambda>_. ext_buffer_pull_bytes cb))"

definition ext_buffer_pull_binary :: "bytes pull" where
  "ext_buffer_pull_binary =
     bnd (gets pl_flags) (\<lambda>flags.
       if has_flag flags EXT_FLAG_WCOUNT
       then bnd ext_buffer_pull_uint32 pull_blob
       else bnd ext_buffer_pull_uint16 (\<lambda>cb. pull_blob (ucast cb)))"

definition ext_buffer_pull_sbinary :: "bytes pull" where
  "ext_buffer_pull_sbinary = bnd ext_buffer_pull_uint16 (\<lambda>cb. pull_blob (ucast cb))"

definition ext_buffer_pull_exbinary :: "bytes pull" where
  "ext_buffer_pull_exbinary = bnd ext_buffer_pull_uint32 pull_blob"

definition pull_elems :: "nat \<Rightarrow> nat \<Rightarrow> 'a pull \<Rightarrow> 'a list pull" where
  "pull_elems sizeof count p =
     (if count = 0 then ret []
      else bnd (pull_alloc (sizeof * count)) (\<lambda>_. repeat_n count p))"

definition ext_buffer_pull_guid :: "guid pull" where
  "ext_buffer_pull_guid =
     bnd ext_buffer_pull_uint32 (\<lambda>low.
     bnd ext_buffer_pull_uint16 (\<lambda>mid.
     bnd ext_buffer_pull_uint16 (\<lambda>hi.
     bnd (ext_buffer_pull_bytes 2) (\<lambda>clock_seq.
     bnd (ext_buffer_pull_bytes 6) (\<lambda>node.
     ret (make_guid low mid hi clock_seq node))))))"

definition ext_buffer_pull_short_array :: "u16 list pull" where
  "ext_buffer_pull_short_array =
     bnd ext_buffer_pull_uint32 (\<lambda>count. pull_elems 2 (unat count) ext_buffer_pull_uint16)"

definition ext_buffer_pull_long_array :: "u32 list pull" where
  "ext_buffer_pull_long_array =
     bnd ext_buffer_pull_uint32 (\<lambda>count. pull_elems 4 (unat count) ext_buffer_pull_uint32)"

definition ext_buffer_pull_longlong_array :: "u64 list pull" where
  "ext_buffer_pull_longlong_array =
     bnd ext_buffer_pull_uint32 (\<lambda>count. pull_elems 8 (unat count) ext_buffer_pull_uint64)"

definition ext_buffer_pull_slonglong_array :: "u64 list pull" where
  "ext_buffer_pull_slonglong_array =
     bnd ext_buffer_pull_uint16 (\<lambda>count. pull_elems 8 (unat count) ext_buffer_pull_uint64)"

definition ext_buffer_pull_binary_array :: "bytes list pull" where
  "ext_buffer_pull_binary_array =
     bnd ext_buffer_pull_uint32 (\<lambda>count. pull_elems 16 (unat count) ext_buffer_pull_binary)"

definition ext_buffer_pull_string_array :: "bytes list pull" where
  "ext_buffer_pull_string_array =
     bnd ext_buffer_pull_uint32 (\<lambda>count. pull_elems 8 (unat count) ext_buffer_pull_string)"

definition ext_buffer_pull_wstring_array :: "bytes list pull" where
  "ext_buffer_pull_wstring_array =
     bnd ext_buffer_pull_uint32 (\<lambda>count. pull_elems 8 (unat count) ext_buffer_pull_wstring)"

definition ext_buffer_pull_guid_array :: "guid list pull" where
  "ext_buffer_pull_guid_array =
     bnd ext_buffer_pull_uint32 (\<lambda>count. pull_elems 16 (unat count) ext_buffer_pull_guid)"

end
