(* ===== verification/Pull_Logic.thy ===== *)
theory Pull_Logic
  imports Ext_Pull
begin

text \<open>
  Three relations on readers, each with one rule per building block, so that a statement
  about a reader of a structure is assembled from those of its fields:

  \<^item> \<open>safe b p\<close>: started on a consistent context with fewer than \<open>b\<close> bytes left, \<open>p\<close>
    neither reads out of bounds nor runs out of fuel, writes through \<open>NULL\<close> only if the
    allocator has failed, leaves the buffer and the flags alone, never moves backwards
    and, when it succeeds, leaves a consistent context;
  \<^item> \<open>reads f p bs x\<close>: under the flags \<open>f\<close>, with an allocator that succeeds, \<open>p\<close>
    started in front of the bytes \<open>bs\<close> returns \<open>x\<close> and consumes exactly \<open>bs\<close>;
  \<^item> \<open>fuel_le p q\<close>: \<open>q\<close> does the same as \<open>p\<close> wherever \<open>p\<close> does not run out of fuel.
\<close>

named_theorems safe_rules
named_theorems read_rules
named_theorems fuel_rules

subsection \<open>Consistent contexts\<close>

text \<open>
  The buffer is at least as long as \<open>data_size\<close> says and smaller than a gigabyte.  The
  offset may pass the end by an 8-bit or 16-bit length: the readers of a property name
  and of a recipient row skip one without comparing the result with \<open>data_size\<close>.
\<close>

definition pull_inv :: "ext_pull \<Rightarrow> bool" where
  "pull_inv e \<longleftrightarrow>
     unat (pl_data_size e) \<le> length (pl_data e) \<and> unat (pl_data_size e) < 2 ^ 30 \<and>
     unat (pl_offset e) \<le> unat (pl_data_size e) + 65535"

definition remaining :: "ext_pull \<Rightarrow> nat" where
  "remaining e = unat (pl_data_size e) - unat (pl_offset e)"

definition same_buffer :: "ext_pull \<Rightarrow> ext_pull \<Rightarrow> bool" where
  "same_buffer e e' \<longleftrightarrow>
     pl_data e' = pl_data e \<and> pl_data_size e' = pl_data_size e \<and>
     pl_flags e' = pl_flags e \<and> pl_alloc e' = pl_alloc e"

text \<open>The allocator never answers \<open>NULL\<close>.\<close>

definition willing :: "ext_pull \<Rightarrow> bool" where
  "willing e \<longleftrightarrow> (\<forall>n s. pl_alloc e n s)"

definition good_end :: "ext_pull \<Rightarrow> (ext_err + 'a) \<times> ext_pull \<Rightarrow> bool" where
  "good_end e r \<longleftrightarrow>
     same_buffer e (snd r) \<and>
     (case fst r of
        Inl err \<Rightarrow> err \<notin> {UNDEFINED_BEHAVIOUR, OUT_OF_FUEL, NOT_RETURNING} \<and>
          (err = NULL_WRITE \<longrightarrow> \<not> willing e)
      | Inr x \<Rightarrow> pull_inv (snd r) \<and> unat (pl_offset e) \<le> unat (pl_offset (snd r)))"

definition safe :: "nat \<Rightarrow> 'a pull \<Rightarrow> bool" where
  "safe b p \<longleftrightarrow> (\<forall>e. pull_inv e \<and> remaining e < b \<longrightarrow> good_end e (p e))"

text \<open>A success of \<open>p\<close> has consumed at least one byte.\<close>

definition consumes :: "'a pull \<Rightarrow> bool" where
  "consumes p \<longleftrightarrow>
     (\<forall>e x e'. pull_inv e \<and> p e = (Inr x, e') \<longrightarrow> remaining e' < remaining e)"

lemma same_buffer_refl [simp]: "same_buffer e e"
  by (simp add: same_buffer_def)

lemma same_buffer_trans: "same_buffer e e' \<Longrightarrow> same_buffer e' e'' \<Longrightarrow> same_buffer e e''"
  by (simp add: same_buffer_def)

lemma same_buffer_offset [simp]: "same_buffer e (e'\<lparr>pl_offset := n\<rparr>) = same_buffer e e'"
  by (simp add: same_buffer_def)

lemma same_buffer_allocs [simp]: "same_buffer e (e'\<lparr>pl_allocs := n\<rparr>) = same_buffer e e'"
  by (simp add: same_buffer_def)

lemma remaining_mono:
  "same_buffer e e' \<Longrightarrow> unat (pl_offset e) \<le> unat (pl_offset e') \<Longrightarrow> remaining e' \<le> remaining e"
  by (simp add: remaining_def same_buffer_def)

lemma pull_inv_allocs [simp]: "pull_inv (e\<lparr>pl_allocs := n\<rparr>) = pull_inv e"
  by (simp add: pull_inv_def)

lemma good_end_Inr [simp]:
  "good_end e (Inr x, e') \<longleftrightarrow>
     same_buffer e e' \<and> pull_inv e' \<and> unat (pl_offset e) \<le> unat (pl_offset e')"
  by (simp add: good_end_def)

lemma good_end_Inl [simp]:
  "good_end e (Inl err, e') \<longleftrightarrow>
     same_buffer e e' \<and> err \<notin> {UNDEFINED_BEHAVIOUR, OUT_OF_FUEL, NOT_RETURNING} \<and>
     (err = NULL_WRITE \<longrightarrow> \<not> willing e)"
  by (auto simp: good_end_def)

lemma good_end_trans:
  "same_buffer e e' \<Longrightarrow> unat (pl_offset e) \<le> unat (pl_offset e') \<Longrightarrow> good_end e' r \<Longrightarrow> good_end e r"
  by (auto simp: good_end_def same_buffer_def willing_def split: sum.splits)

subsection \<open>Rules of safe\<close>

lemma safeI:
  "(\<And>e. pull_inv e \<Longrightarrow> remaining e < b \<Longrightarrow> good_end e (p e)) \<Longrightarrow> safe b p"
  by (simp add: safe_def)

lemma safeD: "safe b p \<Longrightarrow> pull_inv e \<Longrightarrow> remaining e < b \<Longrightarrow> good_end e (p e)"
  by (simp add: safe_def)

lemma safe_0 [simp]: "safe 0 p"
  by (simp add: safe_def)

lemma safe_mono: "safe b p \<Longrightarrow> c \<le> b \<Longrightarrow> safe c p"
  by (auto simp: safe_def)

lemma safe_ret [safe_rules]: "safe b (ret x)"
  by (simp add: safe_def ret_def)

lemma safe_gets [safe_rules]: "safe b (gets f)"
  by (simp add: safe_def gets_def)

lemma safe_fail [safe_rules]:
  "err \<notin> {UNDEFINED_BEHAVIOUR, NULL_WRITE, OUT_OF_FUEL, NOT_RETURNING} \<Longrightarrow> safe b (fail err)"
  by (auto simp: safe_def fail_def)

lemma safe_bnd [safe_rules]:
  assumes "safe b p" "\<And>x. safe b (k x)"
  shows "safe b (bnd p k)"
proof (rule safeI)
  fix e assume e: "pull_inv e" "remaining e < b"
  have p: "good_end e (p e)" using assms(1) e by (rule safeD)
  show "good_end e (bnd p k e)"
  proof (cases "p e")
    case (Pair r e')
    show ?thesis
    proof (cases r)
      case (Inl err)
      with p Pair show ?thesis by (simp add: bnd_def)
    next
      case (Inr x)
      with p Pair have *: "same_buffer e e'" "pull_inv e'" "unat (pl_offset e) \<le> unat (pl_offset e')"
        by simp_all
      have "remaining e' < b" using remaining_mono [OF *(1,3)] e(2) by simp
      then have "good_end e' (k x e')" by (intro safeD [OF assms(2)] *)
      with * Pair Inr show ?thesis by (simp add: bnd_def good_end_trans)
    qed
  qed
qed

text \<open>After a reader that consumes a byte, the rest needs to be safe for one byte less only.\<close>

lemma safe_bnd_consumes:
  assumes "consumes p" "safe (Suc b) p" "\<And>x. safe b (k x)"
  shows "safe (Suc b) (bnd p k)"
proof (rule safeI)
  fix e assume e: "pull_inv e" "remaining e < Suc b"
  have p: "good_end e (p e)" using assms(2) e by (rule safeD)
  show "good_end e (bnd p k e)"
  proof (cases "p e")
    case (Pair r e')
    show ?thesis
    proof (cases r)
      case (Inl err)
      with p Pair show ?thesis by (simp add: bnd_def)
    next
      case (Inr x)
      with p Pair have *: "same_buffer e e'" "pull_inv e'" "unat (pl_offset e) \<le> unat (pl_offset e')"
        by simp_all
      have "remaining e' < remaining e"
        using assms(1) e(1) Pair Inr by (auto simp: consumes_def)
      then have "good_end e' (k x e')" using e(2) by (intro safeD [OF assms(3)] *) simp
      with * Pair Inr show ?thesis by (simp add: bnd_def good_end_trans)
    qed
  qed
qed

lemma safe_seq [safe_rules]: "safe b p \<Longrightarrow> safe b q \<Longrightarrow> safe b (seq p q)"
  unfolding seq_def by (rule safe_bnd)

lemma safe_if [safe_rules]:
  "(c \<Longrightarrow> safe b p) \<Longrightarrow> (\<not> c \<Longrightarrow> safe b q) \<Longrightarrow> safe b (if c then p else q)"
  by simp

lemma safe_repeat_n [safe_rules]: "safe b p \<Longrightarrow> safe b (repeat_n n p)"
  by (induction n) (auto intro!: safe_rules)

text \<open>
  The same without the order of the offsets: \<open>bounded p\<close> keeps a context consistent but
  may move backwards, which \<open>ext_buffer_pull_advance\<close> does when its 32-bit sum wraps.
\<close>

named_theorems bounded_rules

definition sound_end :: "ext_pull \<Rightarrow> (ext_err + 'a) \<times> ext_pull \<Rightarrow> bool" where
  "sound_end e r \<longleftrightarrow>
     same_buffer e (snd r) \<and>
     (case fst r of
        Inl err \<Rightarrow> err \<notin> {UNDEFINED_BEHAVIOUR, OUT_OF_FUEL, NOT_RETURNING} \<and>
          (err = NULL_WRITE \<longrightarrow> \<not> willing e)
      | Inr x \<Rightarrow> pull_inv (snd r))"

definition bounded :: "'a pull \<Rightarrow> bool" where
  "bounded p \<longleftrightarrow> (\<forall>e. pull_inv e \<longrightarrow> sound_end e (p e))"

lemma sound_end_Inr [simp]: "sound_end e (Inr x, e') \<longleftrightarrow> same_buffer e e' \<and> pull_inv e'"
  by (simp add: sound_end_def)

lemma sound_end_Inl [simp]:
  "sound_end e (Inl err, e') \<longleftrightarrow>
     same_buffer e e' \<and> err \<notin> {UNDEFINED_BEHAVIOUR, OUT_OF_FUEL, NOT_RETURNING} \<and>
     (err = NULL_WRITE \<longrightarrow> \<not> willing e)"
  by (auto simp: sound_end_def)

lemma good_end_sound: "good_end e r \<Longrightarrow> sound_end e r"
  by (cases r; cases "fst r") auto

lemma sound_end_trans: "same_buffer e e' \<Longrightarrow> sound_end e' r \<Longrightarrow> sound_end e r"
  by (auto simp: sound_end_def same_buffer_def willing_def split: sum.splits)

lemma boundedI: "(\<And>e. pull_inv e \<Longrightarrow> sound_end e (p e)) \<Longrightarrow> bounded p"
  by (simp add: bounded_def)

lemma boundedD: "bounded p \<Longrightarrow> pull_inv e \<Longrightarrow> sound_end e (p e)"
  by (simp add: bounded_def)

lemma bounded_safe: "(\<And>b. safe b p) \<Longrightarrow> bounded p"
  using safeD [of "Suc (remaining e)" p e for e] by (auto intro!: boundedI good_end_sound)

lemma bounded_bnd [bounded_rules]:
  assumes "bounded p" "\<And>x. bounded (k x)"
  shows "bounded (bnd p k)"
proof (rule boundedI)
  fix e assume e: "pull_inv e"
  obtain r e' where p: "p e = (r, e')" by fastforce
  show "sound_end e (bnd p k e)"
    using boundedD [OF assms(1) e] p boundedD [OF assms(2), of e']
    by (cases r) (auto simp: bnd_def intro: sound_end_trans)
qed

lemma bounded_if [bounded_rules]:
  "(c \<Longrightarrow> bounded p) \<Longrightarrow> (\<not> c \<Longrightarrow> bounded q) \<Longrightarrow> bounded (if c then p else q)"
  by simp

lemma bounded_ret [bounded_rules]: "bounded (ret x)"
  by (intro bounded_safe safe_ret)

lemma bounded_fail [bounded_rules]:
  "err \<notin> {UNDEFINED_BEHAVIOUR, NULL_WRITE, OUT_OF_FUEL, NOT_RETURNING} \<Longrightarrow> bounded (fail err)"
  by (intro bounded_safe safe_fail)

lemma bounded_repeat_n [bounded_rules]: "bounded p \<Longrightarrow> bounded (repeat_n n p)"
  by (induction n) (auto intro!: bounded_rules)

subsection \<open>The base readers\<close>

lemma unat_add_of_nat:
  "unat (a :: u32) + n < 2 ^ 32 \<Longrightarrow> unat (a + of_nat n) = unat a + n"
  by (simp add: unat_word_ariths unat_of_nat)

lemma unat_add_word:
  "unat (a :: u32) + unat b < 2 ^ 32 \<Longrightarrow> unat (a + b) = unat a + unat b"
  by (simp add: unat_word_ariths)

lemma safe_pull_alloc [safe_rules]: "safe b (pull_alloc n)"
  by (rule safeI) (simp add: pull_alloc_def Let_def)

lemma safe_pull_fixed [safe_rules]: "safe b (pull_fixed n)"
  by (rule safeI) (auto simp: pull_fixed_def Let_def pull_inv_def unat_add_of_nat)

lemma pull_bytes_no_wrap:
  "pull_inv e \<Longrightarrow> n \<le> pl_data_size e \<Longrightarrow> unat (pl_offset e + n) = unat (pl_offset e) + unat n"
  by (rule unat_add_word) (simp add: pull_inv_def word_le_nat_alt)

lemma safe_pull_bytes [safe_rules]: "safe b (ext_buffer_pull_bytes n)"
  by (rule safeI)
    (auto simp: ext_buffer_pull_bytes_def not_less pull_bytes_no_wrap word_le_nat_alt pull_inv_def)

text \<open>
  \<open>ext_buffer_pull_advance\<close> is safe for the 16-bit sizes it is called with; a 32-bit size
  could wrap around and move backwards.
\<close>

lemma safe_pull_advance [safe_rules]:
  "unat n < 2 ^ 31 \<Longrightarrow> safe b (ext_buffer_pull_advance n)"
proof (rule safeI)
  fix e assume n: "unat n < 2 ^ 31" and e: "pull_inv e"
  have "unat (pl_offset e + n) = unat (pl_offset e) + unat n"
    using n e by (intro unat_add_word) (simp add: pull_inv_def)
  with e show "good_end e (ext_buffer_pull_advance n e)"
    by (auto simp: ext_buffer_pull_advance_def Let_def pull_inv_def not_less word_le_nat_alt)
qed

lemmas pull_scalar_defs =
  ext_buffer_pull_int8_def ext_buffer_pull_uint8_def ext_buffer_pull_int16_def
  ext_buffer_pull_uint16_def ext_buffer_pull_int32_def ext_buffer_pull_uint32_def
  ext_buffer_pull_int64_def ext_buffer_pull_uint64_def ext_buffer_pull_float_def
  ext_buffer_pull_double_def ext_buffer_pull_bool_def

lemma bounded_pull_advance [bounded_rules]: "bounded (ext_buffer_pull_advance n)"
  by (rule boundedI)
    (auto simp: ext_buffer_pull_advance_def Let_def pull_inv_def not_less word_le_nat_alt)

lemma bounded_pull_alloc [bounded_rules]: "bounded (pull_alloc n)"
  by (intro bounded_safe safe_pull_alloc)

lemma bounded_pull_elems [bounded_rules]: "bounded p \<Longrightarrow> bounded (pull_elems n count p)"
  unfolding pull_elems_def by (intro bounded_rules)

lemma safe_pull_scalars [safe_rules]:
  "safe b ext_buffer_pull_int8" "safe b ext_buffer_pull_uint8"
  "safe b ext_buffer_pull_int16" "safe b ext_buffer_pull_uint16"
  "safe b ext_buffer_pull_int32" "safe b ext_buffer_pull_uint32"
  "safe b ext_buffer_pull_int64" "safe b ext_buffer_pull_uint64"
  "safe b ext_buffer_pull_float" "safe b ext_buffer_pull_double" "safe b ext_buffer_pull_bool"
  unfolding pull_scalar_defs by (intro safe_rules; simp)+

lemmas bounded_pull_scalars [bounded_rules] = safe_pull_scalars [THEN bounded_safe]

lemma consumes_pull_fixed: "0 < n \<Longrightarrow> consumes (bnd (pull_fixed n) (\<lambda>x. ret (f x)))"
  by (auto simp: consumes_def pull_fixed_def Let_def bnd_def ret_def remaining_def pull_inv_def
      unat_add_of_nat split: if_splits)

lemma consumes_scalars:
  "consumes ext_buffer_pull_uint8" "consumes ext_buffer_pull_uint16" "consumes ext_buffer_pull_uint32"
  unfolding pull_scalar_defs by (simp_all add: consumes_pull_fixed)

lemma safe_pull_blob [safe_rules]: "safe b (pull_blob cb)"
  unfolding pull_blob_def by (intro safe_rules)

lemma safe_pull_binaries [safe_rules]:
  "safe b ext_buffer_pull_binary" "safe b ext_buffer_pull_sbinary" "safe b ext_buffer_pull_exbinary"
  unfolding ext_buffer_pull_binary_def ext_buffer_pull_sbinary_def ext_buffer_pull_exbinary_def
  by (intro safe_rules)+

lemma safe_pull_elems [safe_rules]: "safe b p \<Longrightarrow> safe b (pull_elems n count p)"
  unfolding pull_elems_def by (intro safe_rules)

lemma safe_pull_guid [safe_rules]: "safe b ext_buffer_pull_guid"
  unfolding ext_buffer_pull_guid_def by (intro safe_rules)

lemma safe_pull_string [safe_rules]: "safe b ext_buffer_pull_string"
proof (rule safeI)
  fix e assume e: "pull_inv e" "remaining e < b"
  define room where "room = unat (pl_data_size e) - unat (pl_offset e)"
  define region where "region = take room (drop (unat (pl_offset e)) (pl_data e))"
  define str where "str = takeWhile (\<lambda>b. b \<noteq> 0) region"
  have len: "length region = room" "length str \<le> room" "room < 2 ^ 30"
    using e length_takeWhile_le [of "\<lambda>b. b \<noteq> 0" region]
    by (auto simp: room_def region_def str_def pull_inv_def)
  have "unat (of_nat (length str + 1) :: u32) < 2 ^ 31"
    using len by (simp add: unat_of_nat del: of_nat_add of_nat_Suc)
  then have "good_end e
     (bnd (pull_alloc (length str + 1)) (\<lambda>_.
      bnd (ext_buffer_pull_advance (of_nat (length str + 1))) (\<lambda>_. ret str)) e)"
    by (intro safeD [OF _ e] safe_rules)
  moreover have "min (length (pl_data e) - unat (pl_offset e)) room = room"
    using len(1) by (simp add: region_def)
  ultimately show "good_end e (ext_buffer_pull_string e)"
    using len
    by (simp add: ext_buffer_pull_string_def Let_def INT_MAX_def flip: room_def region_def str_def)
qed

lemma wstring_end_bound: "wstring_end s = Some i \<Longrightarrow> i + 2 \<le> length s"
  by (induction s arbitrary: i rule: wstring_end.induct) (auto split: if_splits)

lemma safe_pull_wstring [safe_rules]: "safe b ext_buffer_pull_wstring"
proof (rule safeI)
  fix e assume e: "pull_inv e" "remaining e < b"
  define max_len where "max_len = unat (pl_data_size e) - unat (pl_offset e)"
  define region where "region = take max_len (drop (unat (pl_offset e)) (pl_data e))"
  have len: "length region = max_len" "max_len < 2 ^ 30"
    using e by (auto simp: max_len_def region_def pull_inv_def)
  have m: "min (length (pl_data e) - unat (pl_offset e)) max_len = max_len"
    using len(1) by (simp add: region_def)
  have narrow: "good_end e (ext_buffer_pull_string e)"
    using safeD [OF safe_pull_string e] .
  have wide: "good_end e
      (bnd (pull_alloc (2 * (i + 2))) (\<lambda>_. bnd (pull_alloc (i + 2)) (\<lambda>_.
       case utf16le_to_utf8 (take (i + 2) region) (2 * (i + 2)) of
         None \<Rightarrow> fail EXT_ERR_CHARCNV
       | Some dst \<Rightarrow> bnd (ext_buffer_pull_advance (of_nat (i + 2))) (\<lambda>_.
           ret (takeWhile (\<lambda>b. b \<noteq> 0) dst)))) e)"
    if "wstring_end region = Some i" for i
  proof (rule safeD [OF _ e], intro safe_rules)
    have i: "i + 2 < 2 ^ 30" using wstring_end_bound [OF that] len by simp
    then have "unat (of_nat (i + 2) :: u32) < 2 ^ 31"
      by (simp add: unat_of_nat del: of_nat_add of_nat_Suc)
    then show "safe b (case utf16le_to_utf8 (take (i + 2) region) (2 * (i + 2)) of
         None \<Rightarrow> fail EXT_ERR_CHARCNV
       | Some dst \<Rightarrow> bnd (ext_buffer_pull_advance (of_nat (i + 2))) (\<lambda>_.
           ret (takeWhile (\<lambda>b. b \<noteq> 0) dst)))"
      by (auto intro!: safe_rules simp del: of_nat_add of_nat_Suc split: option.splits)
  qed
  have "2 * (i + 2) \<le> INT_MAX" if "wstring_end region = Some i" for i
    using wstring_end_bound [OF that] len by (simp add: INT_MAX_def)
  with narrow wide len m show "good_end e (ext_buffer_pull_wstring e)"
    by (auto simp: ext_buffer_pull_wstring_def Let_def INT_MAX_def
        simp del: mult_Suc_right add_2_eq_Suc' of_nat_add
        split: option.splits simp flip: max_len_def region_def)
qed

lemmas pull_array_defs =
  ext_buffer_pull_short_array_def ext_buffer_pull_long_array_def
  ext_buffer_pull_longlong_array_def ext_buffer_pull_slonglong_array_def
  ext_buffer_pull_binary_array_def ext_buffer_pull_string_array_def
  ext_buffer_pull_wstring_array_def ext_buffer_pull_guid_array_def

lemma safe_pull_arrays [safe_rules]:
  "safe b ext_buffer_pull_short_array" "safe b ext_buffer_pull_long_array"
  "safe b ext_buffer_pull_longlong_array" "safe b ext_buffer_pull_slonglong_array"
  "safe b ext_buffer_pull_binary_array" "safe b ext_buffer_pull_string_array"
  "safe b ext_buffer_pull_wstring_array" "safe b ext_buffer_pull_guid_array"
  unfolding pull_array_defs by (intro safe_rules)+

subsection \<open>Independence of the fuel\<close>

definition fuel_le :: "'a pull \<Rightarrow> 'a pull \<Rightarrow> bool" where
  "fuel_le p q \<longleftrightarrow> (\<forall>e. fst (p e) \<noteq> Inl OUT_OF_FUEL \<longrightarrow> q e = p e)"

lemma fuel_le_refl [fuel_rules]: "fuel_le p p"
  by (simp add: fuel_le_def)

lemma fuel_le_trans: "fuel_le p q \<Longrightarrow> fuel_le q r \<Longrightarrow> fuel_le p r"
  by (simp add: fuel_le_def)

lemma fuel_le_fail: "fuel_le (fail OUT_OF_FUEL) q"
  by (simp add: fuel_le_def fail_def)

lemma fuel_le_bnd [fuel_rules]:
  assumes "fuel_le p p'" "\<And>x. fuel_le (k x) (k' x)"
  shows "fuel_le (bnd p k) (bnd p' k')"
  unfolding fuel_le_def
proof (intro allI impI)
  fix e assume *: "fst (bnd p k e) \<noteq> Inl OUT_OF_FUEL"
  then have "fst (p e) \<noteq> Inl OUT_OF_FUEL"
    by (auto simp: bnd_def split: prod.splits sum.splits)
  then have "p' e = p e" using assms(1) by (simp add: fuel_le_def)
  with * assms(2) show "bnd p' k' e = bnd p k e"
    by (auto simp: bnd_def fuel_le_def split: prod.splits sum.splits)
qed

lemma fuel_le_if [fuel_rules]:
  "(c \<Longrightarrow> fuel_le p p') \<Longrightarrow> (\<not> c \<Longrightarrow> fuel_le q q') \<Longrightarrow> fuel_le (if c then p else q) (if c then p' else q')"
  by simp

lemma fuel_le_repeat_n [fuel_rules]: "fuel_le p p' \<Longrightarrow> fuel_le (repeat_n n p) (repeat_n n p')"
  by (induction n) (auto intro!: fuel_rules)

lemma fuel_le_pull_elems [fuel_rules]:
  "fuel_le p p' \<Longrightarrow> fuel_le (pull_elems n count p) (pull_elems n count p')"
  unfolding pull_elems_def by (intro fuel_rules)

subsection \<open>Reading what is there\<close>

definition in_front :: "bytes \<Rightarrow> ext_pull \<Rightarrow> bool" where
  "in_front bs e \<longleftrightarrow>
     unat (pl_offset e) + length bs \<le> unat (pl_data_size e) \<and>
     take (length bs) (drop (unat (pl_offset e)) (pl_data e)) = bs"

definition moved :: "nat \<Rightarrow> ext_pull \<Rightarrow> ext_pull \<Rightarrow> bool" where
  "moved n e e' \<longleftrightarrow> same_buffer e e' \<and> pl_offset e' = pl_offset e + of_nat n"

definition reads :: "u32 \<Rightarrow> 'a pull \<Rightarrow> bytes \<Rightarrow> 'a \<Rightarrow> bool" where
  "reads f p bs x \<longleftrightarrow>
     (\<forall>e. pull_inv e \<and> willing e \<and> pl_flags e = f \<and> in_front bs e \<longrightarrow>
        (\<exists>e'. p e = (Inr x, e') \<and> moved (length bs) e e'))"

lemma readsI:
  "(\<And>e. pull_inv e \<Longrightarrow> willing e \<Longrightarrow> pl_flags e = f \<Longrightarrow> in_front bs e \<Longrightarrow>
      \<exists>e'. p e = (Inr x, e') \<and> moved (length bs) e e') \<Longrightarrow> reads f p bs x"
  by (simp add: reads_def)

lemma readsE:
  assumes "reads f p bs x" "pull_inv e" "willing e" "pl_flags e = f" "in_front bs e"
  obtains e' where "p e = (Inr x, e')" "moved (length bs) e e'"
  using assms by (auto simp: reads_def)

lemma moved_0 [simp]: "moved 0 e e"
  by (simp add: moved_def)

lemma moved_trans: "moved m e e' \<Longrightarrow> moved n e' e'' \<Longrightarrow> moved (m + n) e e''"
  by (simp add: moved_def same_buffer_def add.assoc)

lemma in_front_offset:
  "in_front bs e \<Longrightarrow> pull_inv e \<Longrightarrow>
     unat (pl_offset e + of_nat (length bs)) = unat (pl_offset e) + length bs"
  by (intro unat_add_of_nat) (simp add: in_front_def pull_inv_def)

lemma in_front_append:
  assumes "in_front (as @ bs) e" "pull_inv e"
  shows "in_front as e" "moved (length as) e e' \<Longrightarrow> in_front bs e' \<and> pull_inv e'"
proof -
  have t: "take (length as + length bs) (drop (unat (pl_offset e)) (pl_data e)) = as @ bs"
    using assms by (simp add: in_front_def)
  then have "take (length as) (drop (unat (pl_offset e)) (pl_data e)) = as"
    by (metis append_eq_conv_conj le_add1 min.absorb1 take_take)
  then show as: "in_front as e"
    using assms by (simp add: in_front_def)
  have "take (length bs) (drop (length as + unat (pl_offset e)) (pl_data e)) = bs"
    using t by (metis add_diff_cancel_left' append_eq_conv_conj drop_drop drop_take)
  then show "in_front bs e' \<and> pull_inv e'" if "moved (length as) e e'"
    using that assms in_front_offset [OF as assms(2)]
    by (auto simp: in_front_def pull_inv_def moved_def same_buffer_def add.commute)
qed

lemma reads_ret [read_rules]: "reads f (ret x) [] x"
  by (rule readsI) (simp add: ret_def)

lemma reads_gets [read_rules]: "reads f (gets pl_flags) [] f"
  by (rule readsI) (simp add: gets_def)

lemma reads_bnd:
  assumes "reads f p as x" "reads f (k x) bs y"
  shows "reads f (bnd p k) (as @ bs) y"
proof (rule readsI)
  fix e assume e: "pull_inv e" "willing e" "pl_flags e = f" "in_front (as @ bs) e"
  obtain e' where e': "p e = (Inr x, e')" "moved (length as) e e'"
    using readsE [OF assms(1) e(1-3) in_front_append(1) [OF e(4,1)]] by blast
  have "pull_inv e'" "willing e'" "pl_flags e' = f" "in_front bs e'"
    using e in_front_append(2) [OF e(4,1) e'(2)] e'(2)
    by (auto simp: willing_def moved_def same_buffer_def)
  then obtain e'' where "k x e' = (Inr y, e'')" "moved (length bs) e' e''"
    using readsE [OF assms(2)] by blast
  with e' show "\<exists>e'. bnd p k e = (Inr y, e') \<and> moved (length (as @ bs)) e e'"
    by (auto simp: bnd_def dest: moved_trans)
qed

lemma reads_bnd_nil:
  "reads f p [] x \<Longrightarrow> reads f (k x) bs y \<Longrightarrow> reads f (bnd p k) bs y"
  using reads_bnd [of f p "[]" x k bs y] by simp

lemma reads_pull_alloc: "reads f (pull_alloc n) [] ()"
  by (rule readsI) (auto simp: pull_alloc_def willing_def Let_def moved_def)

lemma reads_pull_fixed: "length bs = n \<Longrightarrow> reads f (pull_fixed n) bs bs"
  by (rule readsI) (auto simp: pull_fixed_def Let_def in_front_def pull_inv_def moved_def)

lemma reads_pull_bytes:
  assumes "unat n = length bs"
  shows "reads f (ext_buffer_pull_bytes n) bs bs"
proof (rule readsI)
  fix e assume e: "pull_inv e" "in_front bs e"
  have n: "n \<le> pl_data_size e"
    using e(2) by (simp add: in_front_def word_le_nat_alt assms)
  have "(of_nat (length bs) :: u32) = n"
    by (simp flip: assms)
  moreover have "\<not> pl_offset e + n > pl_data_size e"
    using e(2) by (simp add: in_front_def not_less word_le_nat_alt pull_bytes_no_wrap [OF e(1) n] assms)
  moreover have "unat (pl_offset e) + unat n \<le> length (pl_data e)"
    using e by (simp add: in_front_def pull_inv_def assms)
  ultimately show "\<exists>e'. ext_buffer_pull_bytes n e = (Inr bs, e') \<and> moved (length bs) e e'"
    using e(2) n by (auto simp: ext_buffer_pull_bytes_def in_front_def not_less assms moved_def)
qed

lemma reads_repeat_n:
  "list_all2 (\<lambda>bs x. reads f p bs x) bss xs \<Longrightarrow> n = length xs \<Longrightarrow> reads f (repeat_n n p) (concat bss) xs"
proof (induction bss xs arbitrary: n rule: list_all2_induct)
  case Nil
  then show ?case by (simp add: reads_ret)
next
  case (Cons bs bss x xs)
  have "reads f (bnd (repeat_n (length xs) p) (\<lambda>xs. ret (x # xs))) (concat bss @ []) (x # xs)"
    using Cons.IH [OF refl] by (rule reads_bnd) (rule reads_ret)
  with Cons.hyps(1) Cons.prems show ?case
    by (auto intro!: reads_bnd [of f p bs x])
qed

lemma fuel_le_reads: "fuel_le p q \<Longrightarrow> reads f p bs x \<Longrightarrow> reads f q bs x"
  by (fastforce simp: reads_def fuel_le_def)

end
