(* ===== verification/Ext_Push.thy ===== *)
theory Ext_Push
  imports Ext_Pull
begin

text \<open>
  The writing side of \<open>LIBRARY/mapi_lib/ext_buffer.c\<close>: the context \<open>EXT_PUSH\<close> and the
  functions \<open>ext_buffer_push_*\<close> for the base types.

  \<open>ps_data\<close> is the block of memory \<open>data\<close> points to; a write beyond its end is undefined
  behaviour, a result of the model.  \<open>ps_realloc\<close> answers the calls of the C library's
  allocator (number of the call, size); \<open>ps_junk\<close> gives the indeterminate contents of
  fresh memory, by position.
\<close>

record ext_push =
  ps_b_alloc :: bool
  ps_data :: bytes
  ps_alloc_size :: u32
  ps_offset :: u32
  ps_flags :: u32
  ps_realloc :: "nat \<Rightarrow> nat \<Rightarrow> bool"
  ps_reallocs :: nat
  ps_junk :: "nat \<Rightarrow> u8"

type_synonym push = "ext_push \<Rightarrow> (ext_err + unit) \<times> ext_push"

definition GROWING_BLOCK_SIZE :: u32 where
  "GROWING_BLOCK_SIZE = 0x80000"

text \<open>\<open>None\<close> is the return value \<open>FALSE\<close>.\<close>

definition ext_buffer_push_init ::
    "bytes option \<Rightarrow> u32 \<Rightarrow> u32 \<Rightarrow> (nat \<Rightarrow> nat \<Rightarrow> bool) \<Rightarrow> (nat \<Rightarrow> u8) \<Rightarrow> ext_push option" where
  "ext_buffer_push_init pdata alloc_size flags realloc junk =
     (case pdata of
        None \<Rightarrow>
          (let sz = (if alloc_size = 0 then alloc_size else GROWING_BLOCK_SIZE)
           in if realloc 0 (unat sz)
              then Some \<lparr>ps_b_alloc = True, ps_data = map junk [0..<unat sz], ps_alloc_size = sz,
                         ps_offset = 0, ps_flags = flags, ps_realloc = realloc,
                         ps_reallocs = 1, ps_junk = junk\<rparr>
              else None)
      | Some buf \<Rightarrow>
          Some \<lparr>ps_b_alloc = False, ps_data = buf, ps_alloc_size = alloc_size,
                ps_offset = 0, ps_flags = flags, ps_realloc = realloc,
                ps_reallocs = 0, ps_junk = junk\<rparr>)"

subsection \<open>Room for the next write\<close>

text \<open>
  \<open>for (alloc_size=pext->alloc_size; alloc_size<size; alloc_size+=GROWING_BLOCK_SIZE);\<close>
  The 32-bit sum wraps around, so the loop need not end.
\<close>

partial_function (option) grow :: "u32 \<Rightarrow> u32 \<Rightarrow> u32 option" where
  "grow alloc_size sz =
     (if alloc_size < sz then grow (alloc_size + GROWING_BLOCK_SIZE) sz else Some alloc_size)"

definition ext_buffer_push_check_overflow ::
    "u32 \<Rightarrow> ext_push \<Rightarrow> (ext_err + bool) \<times> ext_push" where
  "ext_buffer_push_check_overflow extra_size e =
     (let sz = extra_size + ps_offset e
      in if ps_alloc_size e \<ge> sz then (Inr True, e)
         else if \<not> ps_b_alloc e then (Inr False, e)
         else case grow (ps_alloc_size e) sz of
           None \<Rightarrow> (Inl NOT_RETURNING, e)
         | Some alloc_size \<Rightarrow>
             (let e' = e\<lparr>ps_reallocs := Suc (ps_reallocs e)\<rparr>
              in if ps_realloc e (ps_reallocs e) (unat alloc_size)
                 then (Inr True,
                       e'\<lparr>ps_data := ps_data e @ map (ps_junk e) [length (ps_data e)..<unat alloc_size],
                          ps_alloc_size := alloc_size\<rparr>)
                 else (Inr False, e')))"

text \<open>The guard every writer starts with.\<close>

definition need_room :: "u32 \<Rightarrow> push" where
  "need_room n =
     bnd (ext_buffer_push_check_overflow n) (\<lambda>ok. if ok then ret () else fail EXT_ERR_BUFSIZE)"

text \<open>\<open>memcpy(data + offset, bs, n)\<close> and the moves of the offset.\<close>

definition put_bytes :: "bytes \<Rightarrow> push" where
  "put_bytes bs e =
     (let off = unat (ps_offset e)
      in if off + length bs > length (ps_data e) then (Inl UNDEFINED_BEHAVIOUR, e)
         else (Inr (), e\<lparr>ps_data := take off (ps_data e) @ bs @ drop (off + length bs) (ps_data e),
                         ps_offset := ps_offset e + of_nat (length bs)\<rparr>))"

definition ext_buffer_push_advance :: "u32 \<Rightarrow> push" where
  "ext_buffer_push_advance n =
     seq (need_room n) (modify (\<lambda>e. e\<lparr>ps_offset := ps_offset e + n\<rparr>))"

text \<open>
  A length that is written once the block after it is complete: the offset is set back to
  \<open>offset\<close>, the distance from \<open>start\<close> to the end is written by \<open>hdr\<close>, and the offset is
  restored.
\<close>

definition patch_back :: "(u32 \<Rightarrow> push) \<Rightarrow> u32 \<Rightarrow> u32 \<Rightarrow> push" where
  "patch_back hdr offset start =
     bnd (gets ps_offset) (\<lambda>offset1.
     seq (modify (\<lambda>e. e\<lparr>ps_offset := offset\<rparr>))
    (seq (hdr (offset1 - start))
         (modify (\<lambda>e. e\<lparr>ps_offset := offset1\<rparr>))))"

text \<open>
  The \<open>n\<close> bytes a caller passes with their address are passed as a list; its length is
  \<open>n\<close>.
\<close>

definition ext_buffer_push_bytes :: "bytes \<Rightarrow> push" where
  "ext_buffer_push_bytes pdata = seq (need_room (of_nat (length pdata))) (put_bytes pdata)"

subsection \<open>Scalars\<close>

definition ext_buffer_push_int8 :: "u8 \<Rightarrow> push" where
  "ext_buffer_push_int8 v = seq (need_room 1) (put_bytes [v])"

definition ext_buffer_push_uint8 :: "u8 \<Rightarrow> push" where
  "ext_buffer_push_uint8 v = seq (need_room 1) (put_bytes [v])"

definition ext_buffer_push_int16 :: "u16 \<Rightarrow> push" where
  "ext_buffer_push_int16 v = seq (need_room 2) (put_bytes (SSVAL v))"

definition ext_buffer_push_uint16 :: "u16 \<Rightarrow> push" where
  "ext_buffer_push_uint16 v = seq (need_room 2) (put_bytes (SSVAL v))"

definition ext_buffer_push_int32 :: "u32 \<Rightarrow> push" where
  "ext_buffer_push_int32 v = seq (need_room 4) (put_bytes (SIVAL v))"

definition ext_buffer_push_uint32 :: "u32 \<Rightarrow> push" where
  "ext_buffer_push_uint32 v = seq (need_room 4) (put_bytes (SIVAL v))"

definition ext_buffer_push_int64 :: "u64 \<Rightarrow> push" where
  "ext_buffer_push_int64 v =
     seq (need_room 8)
       (put_bytes (SIVAL (ucast (v AND 0xFFFFFFFF)) @ SIVAL (ucast (signed_drop_bit 32 v))))"

definition ext_buffer_push_uint64 :: "u64 \<Rightarrow> push" where
  "ext_buffer_push_uint64 v =
     seq (need_room 8)
       (put_bytes (SIVAL (ucast (v AND 0xFFFFFFFF)) @ SIVAL (ucast (drop_bit 32 v))))"

definition ext_buffer_push_float :: "u32 \<Rightarrow> push" where
  "ext_buffer_push_float v = seq (need_room 4) (put_bytes (SIVAL v))"

definition ext_buffer_push_double :: "u64 \<Rightarrow> push" where
  "ext_buffer_push_double v = seq (need_room 8) (put_bytes (SBVAL v))"

text \<open>
  \<open>BOOL\<close> is an \<open>int\<close>; \<open>TRUE\<close> is \<open>0xFFFFFFFF\<close>, \<open>FALSE\<close> is \<open>0\<close>, any other value is
  refused.
\<close>

definition ext_buffer_push_bool :: "u32 \<Rightarrow> push" where
  "ext_buffer_push_bool v =
     (if v = 0xFFFFFFFF then seq (need_room 1) (put_bytes [1])
      else if v = 0 then seq (need_room 1) (put_bytes [0])
      else fail EXT_ERR_FORMAT)"

subsection \<open>Blocks, GUIDs, strings\<close>

definition ext_buffer_push_data_blob :: "bytes \<Rightarrow> push" where
  "ext_buffer_push_data_blob blob = ext_buffer_push_bytes blob"

definition push_block :: "bytes \<Rightarrow> push" where
  "push_block r = (if length r = 0 then ret () else ext_buffer_push_bytes r)"

definition ext_buffer_push_binary :: "bytes \<Rightarrow> push" where
  "ext_buffer_push_binary r =
     bnd (gets ps_flags) (\<lambda>flags.
       if has_flag flags EXT_FLAG_WCOUNT
       then seq (ext_buffer_push_uint32 (of_nat (length r))) (push_block r)
       else if length r > 0xFFFF then fail EXT_ERR_FORMAT
       else seq (ext_buffer_push_uint16 (of_nat (length r))) (push_block r))"

definition ext_buffer_push_sbinary :: "bytes \<Rightarrow> push" where
  "ext_buffer_push_sbinary r =
     (if length r > 0xFFFF then fail EXT_ERR_FORMAT
      else seq (ext_buffer_push_uint16 (of_nat (length r))) (push_block r))"

definition ext_buffer_push_exbinary :: "bytes \<Rightarrow> push" where
  "ext_buffer_push_exbinary r =
     seq (ext_buffer_push_uint32 (of_nat (length r))) (push_block r)"

definition ext_buffer_push_guid :: "guid \<Rightarrow> push" where
  "ext_buffer_push_guid r =
     seq (ext_buffer_push_uint32 (time_low r))
    (seq (ext_buffer_push_uint16 (time_mid r))
    (seq (ext_buffer_push_uint16 (time_hi_and_version r))
    (seq (ext_buffer_push_bytes (guid_clock_seq r))
         (ext_buffer_push_bytes (guid_node r)))))"

definition ext_buffer_push_string :: "bytes \<Rightarrow> push" where
  "ext_buffer_push_string pstr =
     bnd (gets ps_flags) (\<lambda>flags.
       if has_flag flags EXT_FLAG_TBLLMT \<and> length pstr + 1 > 510
       then seq (ext_buffer_push_bytes (take 509 pstr)) (ext_buffer_push_uint8 0)
       else ext_buffer_push_bytes (pstr @ [0]))"

text \<open>
  A text that \<open>utf8_to_utf16le\<close> refuses is written as the empty string.  The temporary
  buffer comes from \<open>malloc\<close>.
\<close>

definition push_malloc :: "nat \<Rightarrow> push" where
  "push_malloc n e =
     (let e' = e\<lparr>ps_reallocs := Suc (ps_reallocs e)\<rparr>
      in if ps_realloc e (ps_reallocs e) n then (Inr (), e') else (Inl EXT_ERR_ALLOC, e'))"

definition wstring_bytes :: "u32 \<Rightarrow> bytes \<Rightarrow> bytes" where
  "wstring_bytes flags pstr =
     (let buf = (case utf8_to_utf16le pstr (2 * length pstr + 2) of
                   None \<Rightarrow> [0, 0]
                 | Some w \<Rightarrow> (if length w < 2 then [0, 0] else w))
      in if has_flag flags EXT_FLAG_TBLLMT \<and> length buf > 510
         then take 508 buf @ [0, 0]
         else buf)"

definition ext_buffer_push_wstring :: "bytes \<Rightarrow> push" where
  "ext_buffer_push_wstring pstr =
     bnd (gets ps_flags) (\<lambda>flags.
       if \<not> has_flag flags EXT_FLAG_UTF16 then ext_buffer_push_string pstr
       else seq (push_malloc (2 * length pstr + 2))
                (ext_buffer_push_bytes (wstring_bytes flags pstr)))"

subsection \<open>Arrays\<close>

definition ext_buffer_push_short_array :: "u16 list \<Rightarrow> push" where
  "ext_buffer_push_short_array r =
     seq (ext_buffer_push_uint32 (of_nat (length r))) (for_each ext_buffer_push_uint16 r)"

definition ext_buffer_push_long_array :: "u32 list \<Rightarrow> push" where
  "ext_buffer_push_long_array r =
     seq (ext_buffer_push_uint32 (of_nat (length r))) (for_each ext_buffer_push_uint32 r)"

definition ext_buffer_push_longlong_array :: "u64 list \<Rightarrow> push" where
  "ext_buffer_push_longlong_array r =
     seq (ext_buffer_push_uint32 (of_nat (length r))) (for_each ext_buffer_push_uint64 r)"

definition ext_buffer_push_slonglong_array :: "u64 list \<Rightarrow> push" where
  "ext_buffer_push_slonglong_array r =
     (if length r > 0xFFFF then fail EXT_ERR_FORMAT
      else seq (ext_buffer_push_uint16 (of_nat (length r))) (for_each ext_buffer_push_uint64 r))"

definition ext_buffer_push_binary_array :: "bytes list \<Rightarrow> push" where
  "ext_buffer_push_binary_array r =
     seq (ext_buffer_push_uint32 (of_nat (length r))) (for_each ext_buffer_push_binary r)"

definition ext_buffer_push_string_array :: "bytes list \<Rightarrow> push" where
  "ext_buffer_push_string_array r =
     seq (ext_buffer_push_uint32 (of_nat (length r))) (for_each ext_buffer_push_string r)"

definition ext_buffer_push_wstring_array :: "bytes list \<Rightarrow> push" where
  "ext_buffer_push_wstring_array r =
     seq (ext_buffer_push_uint32 (of_nat (length r))) (for_each ext_buffer_push_wstring r)"

definition ext_buffer_push_guid_array :: "guid list \<Rightarrow> push" where
  "ext_buffer_push_guid_array r =
     seq (ext_buffer_push_uint32 (of_nat (length r))) (for_each ext_buffer_push_guid r)"

end
