(* ===== verification/Codec.thy ===== *)
theory Codec
  imports Pull_Logic Ext_Push
begin

text \<open>
  What it means that a writer and a reader agree.

  \<^item> \<open>writes f q bs\<close>: under the flags \<open>f\<close>, on a context with room for them, \<open>q\<close>
    succeeds and appends exactly the bytes \<open>bs\<close>;
  \<^item> \<open>coded f p q x\<close>: there are bytes that \<open>q\<close> appends and from which \<open>p\<close> reads \<open>x\<close>
    back, consuming exactly them.

  The locale \<open>codec\<close> is the interface a structure relies on for its fields: a reader, a
  writer and the values they agree on.  It is interpreted on the base types, and the
  array functions are proved once inside it.
\<close>

named_theorems write_rules

subsection \<open>Growing the buffer\<close>

lemma unat_add_block:
  "unat (a :: u32) + 0x80000 < 2 ^ 32 \<Longrightarrow> unat (a + GROWING_BLOCK_SIZE) = unat a + 0x80000"
  unfolding GROWING_BLOCK_SIZE_def by (simp add: unat_word_ariths)

text \<open>
  The sizes the loop visits are those congruent to the first one; below the last of them that
  a word can hold it ends, with enough room, and beyond it it never does.
\<close>

definition last_size :: "u32 \<Rightarrow> nat" where
  "last_size a = 2 ^ 32 - 2 ^ 19 + unat a mod 2 ^ 19"

lemma block_parts:
  obtains q r where "unat (a :: u32) = 0x80000 * q + r" "r < 0x80000" "last_size a = 0xFFF80000 + r"
    "q < 0x2000"
proof -
  have "unat a = 0x80000 * (unat a div 0x80000) + unat a mod 0x80000" by simp
  moreover have "unat a mod 0x80000 < 0x80000" by simp
  moreover have "unat a div 0x80000 < 0x2000"
    using word_bounds(3) [of a] by (simp add: less_mult_imp_div_less)
  moreover have "last_size a = 0xFFF80000 + unat a mod 0x80000" by (simp add: last_size_def)
  ultimately show thesis using that by blast
qed

lemma last_size_bounds: "unat (a :: u32) \<le> last_size a" "last_size a < 2 ^ 32"
proof -
  obtain q r where "unat a = 0x80000 * q + r" "r < 0x80000" "last_size a = 0xFFF80000 + r" "q < 0x2000"
    by (rule block_parts)
  then show "unat a \<le> last_size a" "last_size a < 2 ^ 32" by simp_all
qed

lemma last_size_step:
  assumes "unat (a :: u32) < s" "s \<le> last_size a"
  shows "unat (a + GROWING_BLOCK_SIZE) = unat a + 0x80000 \<and>
    last_size (a + GROWING_BLOCK_SIZE) = last_size a"
proof -
  obtain q r where "unat a = 0x80000 * q + r" "r < 0x80000" "last_size a = 0xFFF80000 + r" "q < 0x2000"
    by (rule block_parts)
  moreover from this assms have "0x80000 * q < 0x80000 * 0x1FFF" by simp
  then have "q < 0x1FFF" by simp
  ultimately have "unat a + 0x80000 < 2 ^ 32" by simp
  then have "unat (a + GROWING_BLOCK_SIZE) = unat a + 0x80000" by (rule unat_add_block)
  moreover have "(unat a + 0x80000) mod 0x80000 = unat a mod 0x80000"
    by (rule mod_add_self2)
  ultimately show ?thesis by (simp add: last_size_def)
qed

lemma grow_returns:
  assumes "unat s \<le> last_size a"
  shows "\<exists>n. grow a s = Some n \<and> s \<le> n \<and> a \<le> n \<and> last_size n = last_size a"
  using assms
proof (induction "unat s - unat a" arbitrary: a rule: less_induct)
  case less
  show ?case
  proof (cases "a < s")
    case True
    then have "unat a < unat s" by (simp add: word_less_nat_alt)
    note b = last_size_step [OF this less.prems]
    with \<open>unat a < unat s\<close> have "unat s - unat (a + GROWING_BLOCK_SIZE) < unat s - unat a"
      by simp
    from less.hyps [OF this] less.prems b obtain n where n: "grow (a + GROWING_BLOCK_SIZE) s = Some n"
      "s \<le> n" "a + GROWING_BLOCK_SIZE \<le> n" "last_size n = last_size a" by auto
    moreover have "a \<le> n" using n(3) b by (simp add: word_le_nat_alt)
    ultimately show ?thesis using True by (subst grow.simps) simp
  next
    case False
    then show ?thesis by (simp add: grow.simps [of a s])
  qed
qed

lemma last_size_wraps: "unat ((a :: u32) + GROWING_BLOCK_SIZE) mod 2 ^ 19 = unat a mod 2 ^ 19"
proof -
  have "unat (a + GROWING_BLOCK_SIZE) = (unat a + 0x80000) mod 2 ^ 32"
    by (simp add: GROWING_BLOCK_SIZE_def unat_word_ariths)
  also have "\<dots> mod 2 ^ 19 = (unat a + 0x80000) mod 2 ^ 19"
    by (rule mod_mod_cancel) simp
  finally show ?thesis by simp
qed

lemma grow_some: "grow a s = Some n \<Longrightarrow> s \<le> n \<and> last_size n = last_size a"
proof (rule grow.raw_induct [where P = "\<lambda>a s n. s \<le> n \<and> last_size n = last_size a"])
  fix loop and a s n :: u32
  assume loop: "\<And>a s n. loop a s = Some n \<Longrightarrow> s \<le> n \<and> last_size n = last_size a"
    and body: "(if a < s then loop (a + GROWING_BLOCK_SIZE) s else Some a) = Some n"
  show "s \<le> n \<and> last_size n = last_size a"
  proof (cases "a < s")
    case True
    with body have "loop (a + GROWING_BLOCK_SIZE) s = Some n" by simp
    from loop [OF this] last_size_wraps [of a] show ?thesis by (simp add: last_size_def)
  next
    case False
    with body show ?thesis by auto
  qed
qed assumption

lemma grow_wraps: "last_size a < unat s \<Longrightarrow> grow a s = None"
  using grow_some [of a s] last_size_bounds(1)
  by (cases "grow a s") (auto simp: word_le_nat_alt dest: le_trans [OF _ last_size_bounds(1)])

subsection \<open>Consistent contexts\<close>

definition push_inv :: "ext_push \<Rightarrow> bool" where
  "push_inv e \<longleftrightarrow>
     length (ps_data e) = unat (ps_alloc_size e) \<and> unat (ps_offset e) \<le> unat (ps_alloc_size e)"

text \<open>What has been written so far.\<close>

definition written :: "ext_push \<Rightarrow> bytes" where
  "written e = take (unat (ps_offset e)) (ps_data e)"

definition obliging :: "ext_push \<Rightarrow> bool" where
  "obliging e \<longleftrightarrow> (\<forall>n s. ps_realloc e n s)"

definition capacity :: "ext_push \<Rightarrow> nat" where
  "capacity e = (if ps_b_alloc e then last_size (ps_alloc_size e) else unat (ps_alloc_size e))"

lemma capacity_bounds: "unat (ps_alloc_size e) \<le> capacity e" "capacity e < 2 ^ 32"
  using last_size_bounds [of "ps_alloc_size e"] word_bounds(3) [of "ps_alloc_size e"]
  by (simp_all add: capacity_def)

definition same_target :: "ext_push \<Rightarrow> ext_push \<Rightarrow> bool" where
  "same_target e e' \<longleftrightarrow>
     ps_b_alloc e' = ps_b_alloc e \<and> ps_flags e' = ps_flags e \<and>
     ps_realloc e' = ps_realloc e \<and> ps_junk e' = ps_junk e \<and> capacity e' = capacity e"

definition pushed :: "bytes \<Rightarrow> ext_push \<Rightarrow> ext_push \<Rightarrow> bool" where
  "pushed bs e e' \<longleftrightarrow>
     same_target e e' \<and> push_inv e' \<and>
     unat (ps_offset e') = unat (ps_offset e) + length bs \<and>
     written e' = written e @ bs"

text \<open>
  A buffer that would have to grow beyond what a word can count.  The guard then waits for a
  size that never comes, unless the sum of offset and length itself has wrapped around.
\<close>

definition growing :: "ext_push \<Rightarrow> bool" where
  "growing e \<longleftrightarrow> ps_b_alloc e \<and> capacity e \<le> 2 ^ 32 - 2 ^ 18"

definition overrun :: "push \<Rightarrow> ext_push \<Rightarrow> bool" where
  "overrun q e \<longleftrightarrow> fst (q e) \<in> {Inl NOT_RETURNING, Inl UNDEFINED_BEHAVIOUR}"

definition writes :: "u32 \<Rightarrow> push \<Rightarrow> bytes \<Rightarrow> bool" where
  "writes f q bs \<longleftrightarrow>
     (\<forall>e. push_inv e \<and> obliging e \<and> ps_flags e = f \<longrightarrow>
        (if unat (ps_offset e) + length bs \<le> capacity e
         then \<exists>e'. q e = (Inr (), e') \<and> pushed bs e e'
         else growing e \<longrightarrow> overrun q e))"

lemma writesI:
  "(\<And>e. push_inv e \<Longrightarrow> obliging e \<Longrightarrow> ps_flags e = f \<Longrightarrow>
        unat (ps_offset e) + length bs \<le> capacity e \<Longrightarrow>
        \<exists>e'. q e = (Inr (), e') \<and> pushed bs e e') \<Longrightarrow>
   (\<And>e. push_inv e \<Longrightarrow> obliging e \<Longrightarrow> ps_flags e = f \<Longrightarrow>
        capacity e < unat (ps_offset e) + length bs \<Longrightarrow> growing e \<Longrightarrow> overrun q e) \<Longrightarrow>
   writes f q bs"
  by (simp add: writes_def not_le)

lemma writesE:
  assumes "writes f q bs" "push_inv e" "obliging e" "ps_flags e = f"
    "unat (ps_offset e) + length bs \<le> capacity e"
  obtains e' where "q e = (Inr (), e')" "pushed bs e e'"
proof -
  have "\<exists>e'. q e = (Inr (), e') \<and> pushed bs e e'"
    using assms unfolding writes_def by (metis (full_types))
  with that show thesis by blast
qed

lemma writes_overrun:
  assumes "writes f q bs" "push_inv e" "obliging e" "ps_flags e = f"
    "capacity e < unat (ps_offset e) + length bs" "growing e"
  shows "overrun q e"
  using assms by (auto simp: writes_def)

text \<open>The bytes are those that are written, if any are.\<close>

lemma writes_unique:
  assumes "writes f q as" "writes f q bs" "length as \<le> 2 ^ 31"
  shows "as = bs"
proof -
  let ?e = "\<lparr>ps_b_alloc = True, ps_data = [], ps_alloc_size = 0, ps_offset = 0, ps_flags = f,
    ps_realloc = (\<lambda>_ _. True), ps_reallocs = 0, ps_junk = (\<lambda>_. 0)\<rparr>"
  have e: "push_inv ?e" "obliging ?e" "ps_flags ?e = f" "capacity ?e = 2 ^ 32 - 2 ^ 19"
      "growing ?e" "ps_offset ?e = 0" "written ?e = []"
    by (simp_all add: growing_def push_inv_def obliging_def capacity_def last_size_def written_def)
  then obtain e' where e': "q ?e = (Inr (), e')" "pushed as ?e e'"
    using writesE [OF assms(1) e(1-3)] assms(3) by auto
  then have "\<not> overrun q ?e" by (simp add: overrun_def)
  then have "unat (ps_offset ?e) + length bs \<le> capacity ?e"
    using writes_overrun [OF assms(2) e(1-3) _ e(5)] by (meson not_le)
  then obtain e'' where "q ?e = (Inr (), e'')" "pushed bs ?e e''"
    using writesE [OF assms(2) e(1-3)] by blast
  with e' e(7) show ?thesis by (simp add: pushed_def)
qed

lemma pushed_nil [simp]: "push_inv e \<Longrightarrow> pushed [] e e"
  by (simp add: pushed_def same_target_def)

lemma same_target_trans: "same_target e e' \<Longrightarrow> same_target e' e'' \<Longrightarrow> same_target e e''"
  by (auto simp: same_target_def)

lemma pushed_trans: "pushed as e e' \<Longrightarrow> pushed bs e' e'' \<Longrightarrow> pushed (as @ bs) e e''"
  by (auto simp: pushed_def intro: same_target_trans)

lemma pushed_context:
  "pushed bs e e' \<Longrightarrow> push_inv e' \<and> ps_flags e' = ps_flags e \<and> capacity e' = capacity e \<and>
     unat (ps_offset e') = unat (ps_offset e) + length bs"
  by (auto simp: pushed_def same_target_def)

lemma pushed_obliging: "pushed bs e e' \<Longrightarrow> obliging e \<Longrightarrow> obliging e'"
  by (simp add: pushed_def same_target_def obliging_def)

lemma in_capacity: "push_inv e \<Longrightarrow> unat (ps_offset e) \<le> capacity e"
  using capacity_bounds(1) [of e] by (simp add: push_inv_def)

lemma writes_ret [write_rules]: "writes f (ret ()) []"
  by (rule writesI) (auto simp: ret_def dest: in_capacity)

lemma overrun_seq: "overrun p e \<Longrightarrow> overrun (seq p q) e"
  by (auto simp: overrun_def seq_def bnd_def split: prod.splits)

lemma overrun_seq2: "p e = (Inr (), e') \<Longrightarrow> overrun q e' \<Longrightarrow> overrun (seq p q) e"
  by (simp add: overrun_def seq_def bnd_def)

lemma writes_seq:
  assumes "writes f p as" "writes f q bs"
  shows "writes f (seq p q) (as @ bs)"
proof (rule writesI)
  fix e assume e: "push_inv e" "obliging e" "ps_flags e = f"
    "unat (ps_offset e) + length (as @ bs) \<le> capacity e"
  from e(4) have "unat (ps_offset e) + length as \<le> capacity e" by simp
  from writesE [OF assms(1) e(1-3) this] obtain e'
    where p: "p e = (Inr (), e')" "pushed as e e'" .
  have "push_inv e'" "obliging e'" "ps_flags e' = f"
      "unat (ps_offset e') + length bs \<le> capacity e'"
    using pushed_context [OF p(2)] pushed_obliging [OF p(2)] e by auto
  from writesE [OF assms(2) this] obtain e''
    where "q e' = (Inr (), e'')" "pushed bs e' e''" .
  with p show "\<exists>e'. seq p q e = (Inr (), e') \<and> pushed (as @ bs) e e'"
    by (auto simp: seq_def bnd_def dest: pushed_trans)
next
  fix e assume e: "push_inv e" "obliging e" "ps_flags e = f"
    "capacity e < unat (ps_offset e) + length (as @ bs)" "growing e"
  show "overrun (seq p q) e"
  proof (cases "unat (ps_offset e) + length as \<le> capacity e")
    case True
    then obtain e' where p: "p e = (Inr (), e')" "pushed as e e'"
      using writesE [OF assms(1) e(1-3)] by blast
    moreover have "growing e'" using p(2) e(5) by (simp add: pushed_def same_target_def growing_def)
    moreover have "overrun q e'"
      using e pushed_context [OF p(2)] pushed_obliging [OF p(2)] \<open>growing e'\<close>
      by (intro writes_overrun [OF assms(2)]) auto
    ultimately show ?thesis by (blast intro: overrun_seq2)
  next
    case False
    then show ?thesis
      using e by (intro overrun_seq writes_overrun [OF assms(1)]) auto
  qed
qed

lemma writes_seq_nil: "writes f p [] \<Longrightarrow> writes f q bs \<Longrightarrow> writes f (seq p q) bs"
  using writes_seq [of f p "[]" q bs] by simp

lemma writes_gets: "writes f (k f) bs \<Longrightarrow> writes f (bnd (gets ps_flags) k) bs"
  by (auto simp: writes_def overrun_def bnd_def gets_def)

subsection \<open>The guard and the copy\<close>

definition roomy :: "nat \<Rightarrow> ext_push \<Rightarrow> bool" where
  "roomy n e \<longleftrightarrow> unat (ps_offset e) + n \<le> length (ps_data e)"

lemma need_room_ok:
  assumes "push_inv e" "obliging e" "unat (ps_offset e) + unat n \<le> capacity e"
  shows "\<exists>e'. need_room n e = (Inr (), e') \<and> pushed [] e e' \<and> roomy (unat n) e'"
proof -
  note cap = capacity_bounds(2) [of e]
  have sz: "unat (n + ps_offset e) = unat (ps_offset e) + unat n"
    using assms(3) cap by (subst unat_add_word) auto
  show ?thesis
  proof (cases "n + ps_offset e \<le> ps_alloc_size e")
    case True
    then have "unat (ps_offset e) + unat n \<le> length (ps_data e)"
      using sz assms(1) by (simp add: word_le_nat_alt push_inv_def)
    with True assms(1) show ?thesis
      by (simp add: need_room_def ext_buffer_push_check_overflow_def bnd_def ret_def Let_def roomy_def)
  next
    case False
    then have b: "ps_b_alloc e"
      using assms(3) sz by (auto simp: capacity_def word_le_nat_alt split: if_splits)
    then have "unat (n + ps_offset e) \<le> last_size (ps_alloc_size e)"
      using assms(3) sz by (simp add: capacity_def)
    then obtain a where a: "grow (ps_alloc_size e) (n + ps_offset e) = Some a"
      "n + ps_offset e \<le> a" "ps_alloc_size e \<le> a" "last_size a = last_size (ps_alloc_size e)"
      using grow_returns by blast
    let ?e' = "e\<lparr>ps_reallocs := Suc (ps_reallocs e),
      ps_data := ps_data e @ map (ps_junk e) [length (ps_data e)..<unat a], ps_alloc_size := a\<rparr>"
    have eq: "need_room n e = (Inr (), ?e')"
      using False b a assms(2)
      by (simp add: need_room_def ext_buffer_push_check_overflow_def bnd_def ret_def Let_def obliging_def)
    have len: "length (ps_data ?e') = unat a"
      using assms(1) a(3) by (simp add: push_inv_def word_le_nat_alt)
    then have "pushed [] e ?e'"
      using assms(1) a(2-4) b
      by (auto simp: pushed_def same_target_def push_inv_def written_def word_le_nat_alt capacity_def)
    moreover have "roomy (unat n) ?e'"
      using len a(2) sz unfolding roomy_def by (simp add: word_le_nat_alt)
    ultimately show ?thesis using eq by blast
  qed
qed

lemma put_bytes_ok:
  assumes "push_inv e" "roomy (length bs) e"
  shows "\<exists>e'. put_bytes bs e = (Inr (), e') \<and> pushed bs e e'"
proof -
  have fits: "unat (ps_offset e) + length bs \<le> unat (ps_alloc_size e)"
    using assms by (simp add: roomy_def push_inv_def)
  then have off: "unat (ps_offset e + of_nat (length bs)) = unat (ps_offset e) + length bs"
    using unsigned_less [of "ps_alloc_size e", where ?'a = nat] by (intro unat_add_of_nat) simp
  with assms fits show ?thesis
    by (auto simp: put_bytes_def Let_def roomy_def pushed_def same_target_def push_inv_def written_def
        capacity_def)
qed

lemma need_room_overrun:
  assumes "push_inv e" "capacity e < unat (ps_offset e) + unat n" "ps_b_alloc e"
    "unat (ps_offset e) + unat n < 2 ^ 32"
  shows "overrun (need_room n) e"
proof -
  have sz: "unat (n + ps_offset e) = unat (ps_offset e) + unat n"
    using assms(4) by (subst unat_add_word) auto
  then have "last_size (ps_alloc_size e) < unat (n + ps_offset e)"
    using assms(2,3) by (simp add: capacity_def)
  moreover from this have "\<not> n + ps_offset e \<le> ps_alloc_size e"
    using last_size_bounds(1) [of "ps_alloc_size e"] by (simp add: word_le_nat_alt)
  ultimately show ?thesis
    using assms(3)
    by (simp add: overrun_def need_room_def ext_buffer_push_check_overflow_def bnd_def Let_def grow_wraps)
qed

text \<open>
  A sum that wraps around passes the guard, or makes it grow in vain; what is copied then does
  not fit.
\<close>

lemma guarded_overrun:
  assumes "push_inv e" "obliging e" "capacity e < unat (ps_offset e) + length bs" "ps_b_alloc e"
    "unat n = length bs"
  shows "overrun (seq (need_room n) (put_bytes bs)) e"
proof (cases "unat (ps_offset e) + length bs < 2 ^ 32")
  case True
  then show ?thesis
    using assms by (intro overrun_seq need_room_overrun) auto
next
  case False
  have "unat (n + ps_offset e) = unat n + unat (ps_offset e) - 2 ^ 32"
    using False assms(5) word_bounds(3) [of n] word_bounds(3) [of "ps_offset e"]
    by (simp add: unat_word_ariths mod_if)
  then have "unat (n + ps_offset e) \<le> unat (ps_offset e)"
    using word_bounds(3) [of n] by simp
  then have "n + ps_offset e \<le> ps_alloc_size e"
    using assms(1) by (simp add: word_le_nat_alt push_inv_def)
  moreover have "length (ps_data e) < unat (ps_offset e) + length bs"
    using False assms(1) word_bounds(3) [of "ps_alloc_size e"] by (simp add: push_inv_def)
  ultimately show ?thesis
    by (simp add: overrun_def seq_def need_room_def ext_buffer_push_check_overflow_def bnd_def ret_def
        Let_def put_bytes_def)
qed

lemma writes_guarded:
  assumes "unat n = length bs"
  shows "writes f (seq (need_room n) (put_bytes bs)) bs"
proof (rule writesI)
  fix e assume e: "push_inv e" "obliging e" "ps_flags e = f"
    "unat (ps_offset e) + length bs \<le> capacity e"
  then obtain e' where e': "need_room n e = (Inr (), e')" "pushed [] e e'" "roomy (length bs) e'"
    using need_room_ok [OF e(1,2), of n] assms by auto
  then obtain e'' where "put_bytes bs e' = (Inr (), e'')" "pushed bs e' e''"
    using put_bytes_ok [of e' bs] pushed_context by blast
  with e' show "\<exists>e'. seq (need_room n) (put_bytes bs) e = (Inr (), e') \<and> pushed bs e e'"
    by (auto simp: seq_def bnd_def dest: pushed_trans)
qed (use assms guarded_overrun in \<open>auto simp: growing_def\<close>)

subsection \<open>The writers of the base types\<close>

lemma writes_scalars:
  "writes f (ext_buffer_push_uint8 b) [b]"
  "writes f (ext_buffer_push_uint16 h) (SSVAL h)"
  "writes f (ext_buffer_push_uint32 w) (SIVAL w)"
  "writes f (ext_buffer_push_uint64 d) (SBVAL d)"
  "writes f (ext_buffer_push_float w) (SIVAL w)"
  "writes f (ext_buffer_push_double d) (SBVAL d)"
  unfolding ext_buffer_push_uint8_def ext_buffer_push_uint16_def ext_buffer_push_uint32_def
    ext_buffer_push_uint64_def ext_buffer_push_float_def ext_buffer_push_double_def
    SBVAL_def [symmetric]
  by (rule writes_guarded; simp)+

lemma unat_of_nat_u32: "n < 2 ^ 32 \<Longrightarrow> unat (of_nat n :: u32) = n"
  by (simp add: unat_of_nat)

lemma unat_of_nat_u16: "n < 2 ^ 16 \<Longrightarrow> unat (of_nat n :: u16) = n"
  by (simp add: unat_of_nat)

lemma of_nat_nonzero:
  "0 < n \<Longrightarrow> n < 2 ^ 16 \<Longrightarrow> (of_nat n :: u16) \<noteq> 0"
  "0 < n \<Longrightarrow> n < 2 ^ 8 \<Longrightarrow> (of_nat n :: u8) \<noteq> 0"
  "0 < n \<Longrightarrow> n < 2 ^ 32 \<Longrightarrow> (of_nat n :: u32) \<noteq> 0"
  by (auto simp: word_of_nat_eq_0_iff nat_dvd_not_less)

lemma writes_bytes: "length bs < 2 ^ 32 \<Longrightarrow> writes f (ext_buffer_push_bytes bs) bs"
  unfolding ext_buffer_push_bytes_def by (rule writes_guarded) (rule unat_of_nat_u32)

lemma writes_malloc: "writes f (push_malloc n) []"
proof (rule writesI)
  fix e assume "push_inv e" "capacity e < unat (ps_offset e) + length ([] :: bytes)"
  then show "overrun (push_malloc n) e" using in_capacity [of e] by simp
qed (auto simp: push_malloc_def obliging_def Let_def pushed_def same_target_def push_inv_def
    written_def capacity_def)

subsection \<open>Lengths written back\<close>

lemma seq_assoc: "seq (seq p q) r = seq p (seq q r)"
  by (auto simp: seq_def bnd_def fun_eq_iff split: prod.splits sum.splits)

lemma bnd_seq: "bnd (gets g) (\<lambda>x. seq p (q x)) e = seq p (bnd (gets g) q) e"
  if "\<And>e'. p e = (Inr (), e') \<Longrightarrow> g e' = g e"
  using that by (auto simp: seq_def bnd_def gets_def split: prod.splits sum.splits)

text \<open>The header is written over the bytes that were skipped, the rest stays.\<close>

lemma put_back_ok:
  assumes "push_inv e" "off + length h \<le> unat (ps_offset e)" "off = unat o'" "unat n = length h"
    "hdr = seq (need_room n) (put_bytes h)"
  shows "seq (modify (\<lambda>e. e\<lparr>ps_offset := o'\<rparr>))
      (seq hdr (modify (\<lambda>e'. e'\<lparr>ps_offset := ps_offset e\<rparr>))) e =
    (Inr (), e\<lparr>ps_data := take off (ps_data e) @ h @ drop (off + length h) (ps_data e)\<rparr>)"
proof -
  have len: "off + length h \<le> unat (ps_alloc_size e)" "length (ps_data e) = unat (ps_alloc_size e)"
    using assms(1,2) by (auto simp: push_inv_def)
  have "unat (n + o') = off + length h"
    using assms(3,4) len word_bounds(3) [of "ps_alloc_size e"]
    by (subst unat_add_word) simp_all
  then have "n + o' \<le> ps_alloc_size e"
    using len by (simp add: word_le_nat_alt)
  then show ?thesis
    using len assms(3,4) unfolding assms(5)
    by (simp add: seq_def bnd_def modify_def need_room_def ext_buffer_push_check_overflow_def
        Let_def ret_def put_bytes_def)
qed

lemma take_patched:
  assumes "length h = n" "off + n + k \<le> length d"
  shows "take (off + n + k) (take off d @ h @ drop (off + n) d) = take off d @ h @ take k (drop (off + n) d)"
  using assms by (simp add: min_absorb1 add.commute add.left_commute)

lemma advance_ok:
  assumes "push_inv e" "obliging e" "unat (ps_offset e) + unat n \<le> capacity e"
  shows "\<exists>e'. ext_buffer_push_advance n e = (Inr (), e') \<and> push_inv e' \<and> obliging e' \<and>
    ps_flags e' = ps_flags e \<and> capacity e' = capacity e \<and> ps_b_alloc e' = ps_b_alloc e \<and>
    ps_offset e' = ps_offset e + n \<and> unat (ps_offset e') = unat (ps_offset e) + unat n \<and>
    take (unat (ps_offset e)) (ps_data e') = written e"
proof -
  obtain e1 where e1: "need_room n e = (Inr (), e1)" "pushed [] e e1" "roomy (unat n) e1"
    using need_room_ok [OF assms] by blast
  have off: "ps_offset e1 = ps_offset e"
    using e1(2) by (auto simp: pushed_def word_unat_eq_iff)
  have "unat (ps_offset e + n) = unat (ps_offset e) + unat n"
    using assms(3) capacity_bounds(2) [of e] by (intro unat_add_word) simp
  with e1 off assms pushed_obliging [OF e1(2) assms(2)] pushed_context [OF e1(2)] show ?thesis
    by (auto simp: ext_buffer_push_advance_def seq_def bnd_def modify_def pushed_def push_inv_def
        roomy_def obliging_def capacity_def written_def same_target_def)
qed

lemma writes_patched:
  assumes "writes f body bs" "\<And>k. hdr k = seq (need_room n) (put_bytes (h k))"
    "\<And>k. length (h k) = unat n" "unat n \<le> 4"
  shows "writes f (bnd (gets ps_offset) (\<lambda>off. seq (ext_buffer_push_advance n)
      (seq body (patch_back hdr off (off + n))))) (h (of_nat (length bs)) @ bs)"
proof (rule writesI)
  fix e assume e: "push_inv e" "obliging e" "ps_flags e = f"
    "unat (ps_offset e) + length (h (of_nat (length bs)) @ bs) \<le> capacity e"
  let ?off = "ps_offset e"
  have cap: "unat ?off + unat n + length bs \<le> capacity e"
    using e(4) assms(3) by simp
  then obtain e1 where e1: "need_room n e = (Inr (), e1)" "pushed [] e e1" "roomy (unat n) e1"
    using need_room_ok [OF e(1,2), of n] by auto
  have off1: "ps_offset e1 = ?off"
    using e1(2) by (auto simp: pushed_def word_unat_eq_iff)
  let ?e1 = "e1\<lparr>ps_offset := ?off + n\<rparr>"
  have "capacity e < 2 ^ 32" by (rule capacity_bounds)
  then have sum: "unat (?off + n) = unat ?off + unat n"
    using cap by (intro unat_add_word) simp
  have ctx1: "push_inv ?e1" "obliging ?e1" "ps_flags ?e1 = f" "capacity ?e1 = capacity e"
    using e e1 off1 sum pushed_context [OF e1(2)] pushed_obliging [OF e1(2)]
    by (auto simp: push_inv_def roomy_def obliging_def capacity_def)
  then have "unat (ps_offset ?e1) + length bs \<le> capacity ?e1"
    using cap sum by simp
  then obtain e2 where e2: "body ?e1 = (Inr (), e2)" "pushed bs ?e1 e2"
    using writesE [OF assms(1) ctx1(1-3)] by blast
  have off2: "unat (ps_offset e2) = unat ?off + unat n + length bs" and inv2: "push_inv e2"
    using e2(2) sum by (auto simp: pushed_def)
  have "ps_offset e2 = ?off + n + of_nat (length bs)"
    using off2 sum by (simp add: word_unat_eq_iff unat_word_ariths unat_of_nat mod_add_right_eq)
      (metis mod_less unsigned_less len_num1 off2 word_bounds(3))
  then have len: "ps_offset e2 - (?off + n) = of_nat (length bs)" by simp
  let ?h = "h (of_nat (length bs))"
  let ?e3 = "e2\<lparr>ps_data := take (unat ?off) (ps_data e2) @ ?h @ drop (unat ?off + length ?h) (ps_data e2)\<rparr>"
  have "seq (modify (\<lambda>e. e\<lparr>ps_offset := ?off\<rparr>))
      (seq (hdr (of_nat (length bs))) (modify (\<lambda>e. e\<lparr>ps_offset := ps_offset e2\<rparr>))) e2 = (Inr (), ?e3)"
    using off2 by (intro put_back_ok inv2 refl) (auto simp: assms(3) intro: assms(2))
  then have "patch_back hdr ?off (?off + n) e2 = (Inr (), ?e3)"
    by (simp only: patch_back_def bnd_def [of "gets ps_offset"] gets_def len prod.case sum.case)
  then have run: "bnd (gets ps_offset) (\<lambda>off. seq (ext_buffer_push_advance n)
      (seq body (patch_back hdr off (off + n)))) e = (Inr (), ?e3)"
    using e1(1) e2(1) off1
    by (simp add: bnd_def gets_def seq_def ext_buffer_push_advance_def modify_def)
  have wr: "take (unat ?off + unat n + length bs) (ps_data e2) = take (unat ?off + unat n) (ps_data e1) @ bs"
    "take (unat ?off) (ps_data e1) = written e"
    using e2(2) e1(2) off1 off2 sum by (auto simp: pushed_def written_def)
  have bound: "unat ?off + unat n + length bs \<le> length (ps_data e2)"
    "unat ?off + unat n \<le> length (ps_data e1)"
    using inv2 off2 e1(3) off1 by (simp_all add: push_inv_def roomy_def)
  have "take (unat ?off) (ps_data e2) = written e"
    using arg_cong [OF wr(1), of "take (unat ?off)"] wr(2) bound
    by (simp add: min_absorb1)
  moreover have "take (length bs) (drop (unat ?off + unat n) (ps_data e2)) = bs"
    using arg_cong [OF wr(1), of "drop (unat ?off + unat n)"] bound
    by (simp add: drop_take)
  ultimately have "written ?e3 = written e @ ?h @ bs"
    using take_patched [OF assms(3) bound(1), of "of_nat (length bs)"] off2 assms(3)
    by (simp add: written_def)
  moreover have "same_target e ?e3"
    using e1(2) e2(2) by (auto simp: pushed_def same_target_def capacity_def)
  moreover have "push_inv ?e3"
    using inv2 bound assms(3) by (simp add: push_inv_def)
  ultimately show "\<exists>e'. bnd (gets ps_offset) (\<lambda>off. seq (ext_buffer_push_advance n)
      (seq body (patch_back hdr off (off + n)))) e = (Inr (), e') \<and> pushed (?h @ bs) e e'"
    using run off2 assms(3) by (auto simp: pushed_def)
next
  fix e assume e: "push_inv e" "obliging e" "ps_flags e = f"
    "capacity e < unat (ps_offset e) + length (h (of_nat (length bs)) @ bs)" "growing e"
  have cap: "unat (ps_offset e) \<le> capacity e" "capacity e \<le> 2 ^ 32 - 2 ^ 18" "ps_b_alloc e"
    using in_capacity [OF e(1)] e(5) by (simp_all add: growing_def)
  have eq: "bnd (gets ps_offset) (\<lambda>off. seq (ext_buffer_push_advance n)
      (seq body (patch_back hdr off (off + n)))) e =
    seq (ext_buffer_push_advance n) (seq body (patch_back hdr (ps_offset e) (ps_offset e + n))) e"
    by (simp add: bnd_def gets_def)
  have "overrun (seq (ext_buffer_push_advance n)
      (seq body (patch_back hdr (ps_offset e) (ps_offset e + n)))) e"
  proof (cases "unat (ps_offset e) + unat n \<le> capacity e")
    case True
    then obtain e1 where e1: "ext_buffer_push_advance n e = (Inr (), e1)" "push_inv e1" "obliging e1"
        "ps_flags e1 = ps_flags e" "capacity e1 = capacity e" "ps_b_alloc e1 = ps_b_alloc e"
        "unat (ps_offset e1) = unat (ps_offset e) + unat n"
      using advance_ok [OF e(1,2)] by blast
    then have "overrun body e1"
      using e assms(3) by (intro writes_overrun [OF assms(1)]) (auto simp: growing_def)
    with e1(1) show ?thesis by (blast intro: overrun_seq overrun_seq2)
  next
    case False
    then have "overrun (need_room n) e"
      using cap assms(4) by (intro need_room_overrun e(1)) auto
    then show ?thesis
      by (simp add: overrun_seq ext_buffer_push_advance_def)
  qed
  with eq show "overrun (bnd (gets ps_offset) (\<lambda>off. seq (ext_buffer_push_advance n)
      (seq body (patch_back hdr off (off + n))))) e"
    by (simp add: overrun_def)
qed

subsection \<open>Agreement of a writer and a reader\<close>

definition coded :: "u32 \<Rightarrow> 'a pull \<Rightarrow> push \<Rightarrow> 'a \<Rightarrow> bool" where
  "coded f p q x \<longleftrightarrow> (\<exists>bs. writes f q bs \<and> reads f p bs x)"

named_theorems code_rules

lemma codedI: "writes f q bs \<Longrightarrow> reads f p bs x \<Longrightarrow> coded f p q x"
  by (auto simp: coded_def)

lemma coded_ret [code_rules]: "coded f (ret x) (ret ()) x"
  by (rule codedI [OF writes_ret reads_ret])

lemma coded_bnd [code_rules]:
  "coded f p q x \<Longrightarrow> coded f (k x) r y \<Longrightarrow> coded f (bnd p k) (seq q r) y"
  by (auto simp: coded_def intro: writes_seq reads_bnd)

lemma coded_last:
  "coded f p q x \<Longrightarrow> y = g x \<Longrightarrow> coded f (bnd p (\<lambda>x. ret (g x))) q y"
  using reads_bnd [of f p _ x "\<lambda>x. ret (g x)" "[]"] by (auto simp: coded_def intro: reads_ret)

lemma coded_end: "coded f p q x \<Longrightarrow> k x = ret y \<Longrightarrow> coded f (bnd p k) q y"
  using reads_bnd [of f p _ x k "[]"] by (auto simp: coded_def intro: reads_ret)

lemma coded_alloc: "coded f p q x \<Longrightarrow> coded f (bnd (pull_alloc n) (\<lambda>_. p)) q x"
  using reads_bnd_nil [OF reads_pull_alloc] by (fastforce simp: coded_def)

lemma coded_malloc: "coded f p q x \<Longrightarrow> coded f p (seq (push_malloc n) q) x"
  unfolding coded_def by (blast intro: writes_seq_nil [OF writes_malloc])

lemma coded_flags_pull: "coded f (k f) q x \<Longrightarrow> coded f (bnd (gets pl_flags) k) q x"
  unfolding coded_def by (blast intro: reads_bnd_nil [OF reads_gets])

lemma coded_flags_push: "coded f p (k f) x \<Longrightarrow> coded f p (bnd (gets ps_flags) k) x"
  unfolding coded_def by (blast intro: writes_gets)

lemma coded_bool [code_rules]:
  "(c \<Longrightarrow> coded f p q x) \<Longrightarrow> (\<not> c \<Longrightarrow> coded f p' q' x) \<Longrightarrow>
     coded f (if c then p else p') (if c then q else q') x"
  by simp

text \<open>A loop, where the values read back are related to those written by \<open>R\<close>.\<close>

lemma coded_repeat_rel:
  "\<forall>x\<in>set xs. \<exists>y. R x y \<and> coded f p (q x) y \<Longrightarrow> n = length xs \<Longrightarrow>
     \<exists>ys. list_all2 R xs ys \<and> coded f (repeat_n n p) (for_each q xs) ys"
proof (induction xs arbitrary: n)
  case Nil
  then show ?case by (auto intro: coded_ret)
next
  case (Cons x xs)
  then obtain ys where ys: "list_all2 R xs ys" "coded f (repeat_n (length xs) p) (for_each q xs) ys"
    by auto
  obtain y where y: "R x y" "coded f p (q x) y" using Cons.prems(1) by auto
  have "coded f (bnd (repeat_n (length xs) p) (\<lambda>xs. ret (y # xs))) (for_each q xs) (y # ys)"
    using ys(2) by (intro coded_last [of f _ _ ys]) auto
  with y have "coded f (repeat_n (length (x # xs)) p) (for_each q (x # xs)) (y # ys)"
    by (auto intro!: coded_bnd [of f p "q x" y])
  with ys(1) y(1) Cons.prems(2) show ?case by auto
qed

lemma coded_repeat_n:
  "\<forall>x\<in>set xs. coded f p (q x) x \<Longrightarrow> n = length xs \<Longrightarrow> coded f (repeat_n n p) (for_each q xs) xs"
  using coded_repeat_rel [of xs "(=)" f p q n] by (auto simp: list.rel_eq)

lemma coded_elems:
  "\<forall>x\<in>set xs. coded f p (q x) x \<Longrightarrow> n = length xs \<Longrightarrow>
     coded f (pull_elems sizeof n p) (for_each q xs) xs"
  unfolding pull_elems_def using coded_ret [of f "[]"] coded_repeat_n [of xs f p q n]
  by (auto intro: coded_alloc)

lemma coded_elems_rel:
  "\<forall>x\<in>set xs. \<exists>y. R x y \<and> coded f p (q x) y \<Longrightarrow> n = length xs \<Longrightarrow>
     \<exists>ys. list_all2 R xs ys \<and> coded f (pull_elems sizeof n p) (for_each q xs) ys"
  using coded_repeat_rel [of xs R f p q n] coded_ret [of f "[]"]
  by (cases xs) (auto simp: pull_elems_def intro!: coded_alloc)

text \<open>A block behind its length, which the reader of the block may use.\<close>

lemma coded_patched:
  assumes "writes f body bs" "\<And>k. hdr k = seq (need_room n) (put_bytes (h k))"
    "\<And>k. length (h k) = unat n" "unat n \<le> 4" "reads f p (h (of_nat (length bs))) l"
    "reads f (k l) bs y"
  shows "coded f (bnd p k) (bnd (gets ps_offset) (\<lambda>off. seq (ext_buffer_push_advance n)
      (seq body (patch_back hdr off (off + n))))) y"
  using writes_patched [OF assms(1-4)] reads_bnd [where k = k, OF assms(5,6)] by (rule codedI)

lemma coded_patched16:
  assumes "writes f body bs" "reads f (k (of_nat (length bs))) bs y"
  shows "coded f (bnd ext_buffer_pull_uint16 k)
    (bnd (gets ps_offset) (\<lambda>off. seq (ext_buffer_push_advance 2)
      (seq body (patch_back (\<lambda>n. ext_buffer_push_uint16 (ucast n)) off (off + 2))))) y"
proof (rule coded_patched [OF assms(1), where h = "\<lambda>n. SSVAL (ucast n)"])
  have "(ucast (of_nat (length bs) :: u32) :: u16) = of_nat (length bs)"
    by (simp add: unsigned_of_nat word_of_nat_eq_iff)
  then show "reads f ext_buffer_pull_uint16 (SSVAL (ucast (of_nat (length bs) :: u32)))
      (of_nat (length bs))"
    unfolding ext_buffer_pull_uint16_def
    using reads_bnd [OF reads_pull_fixed reads_ret, of "SSVAL (of_nat (length bs))" 2 f
        "\<lambda>b. ucast (SVAL b 0) :: u16"] by simp
qed (simp_all add: assms(2) ext_buffer_push_uint16_def)

lemma coded_patched8:
  assumes "writes f body bs" "reads f (k (of_nat (length bs))) bs y"
  shows "coded f (bnd ext_buffer_pull_uint8 k)
    (bnd (gets ps_offset) (\<lambda>off. seq (ext_buffer_push_advance 1)
      (seq body (patch_back (\<lambda>n. ext_buffer_push_uint8 (ucast n)) off (off + 1))))) y"
proof (rule coded_patched [OF assms(1), where h = "\<lambda>n. [ucast n]"])
  have "(ucast (of_nat (length bs) :: u32) :: u8) = of_nat (length bs)"
    by (simp add: unsigned_of_nat word_of_nat_eq_iff)
  then show "reads f ext_buffer_pull_uint8 [ucast (of_nat (length bs) :: u32)] (of_nat (length bs))"
    unfolding ext_buffer_pull_uint8_def
    using reads_bnd [OF reads_pull_fixed reads_ret, of "[of_nat (length bs)]" 1 f "\<lambda>b. b ! 0"] by simp
qed (simp_all add: assms(2) ext_buffer_push_uint8_def)

lemma coded_patched32:
  assumes "writes f body bs" "reads f (k (of_nat (length bs))) bs y"
  shows "coded f (bnd ext_buffer_pull_uint32 k)
    (bnd (gets ps_offset) (\<lambda>off. seq (ext_buffer_push_advance 4)
      (seq body (patch_back ext_buffer_push_uint32 off (off + 4))))) y"
proof (rule coded_patched [OF assms(1), where h = SIVAL])
  show "reads f ext_buffer_pull_uint32 (SIVAL (of_nat (length bs))) (of_nat (length bs))"
    unfolding ext_buffer_pull_uint32_def
    using reads_bnd [OF reads_pull_fixed reads_ret, of "SIVAL (of_nat (length bs))" 4 f
        "\<lambda>b. IVAL b 0"] by simp
qed (simp_all add: assms(2) ext_buffer_push_uint32_def)

text \<open>The offset may also be taken behind the bytes of the length.\<close>

lemma need_room_offset: "need_room n e = (Inr (), e') \<Longrightarrow> ps_offset e' = ps_offset e"
  by (auto simp: need_room_def ext_buffer_push_check_overflow_def bnd_def ret_def fail_def Let_def
      split: if_splits option.splits prod.splits sum.splits)

lemma advance_then_offset:
  "seq (ext_buffer_push_advance n) (bnd (gets ps_offset) k) =
     bnd (gets ps_offset) (\<lambda>off. seq (ext_buffer_push_advance n) (k (off + n)))"
proof
  fix e
  show "seq (ext_buffer_push_advance n) (bnd (gets ps_offset) k) e =
     bnd (gets ps_offset) (\<lambda>off. seq (ext_buffer_push_advance n) (k (off + n))) e"
    using need_room_offset [of n e]
    by (cases "need_room n e")
      (auto simp: seq_def bnd_def gets_def ext_buffer_push_advance_def modify_def split: sum.splits)
qed

text \<open>A loop over two arrays of which the first is only counted.\<close>

lemma for_each2_snd: "length xs = length ys \<Longrightarrow> for_each2 (\<lambda>_. q) xs ys = for_each q ys"
  by (induction xs ys rule: list_induct2) auto

lemma coded_map_each:
  "list_all2 (\<lambda>c x. coded f (p c) (q c x) x) cs xs \<Longrightarrow> coded f (map_each p cs) (for_each2 q cs xs) xs"
proof (induction rule: list_all2_induct)
  case Nil
  show ?case by (simp add: coded_ret)
next
  case (Cons c cs x xs)
  have "coded f (bnd (map_each p cs) (\<lambda>xs. ret (x # xs))) (for_each2 q cs xs) (x # xs)"
    using Cons.IH by (intro coded_last [of f _ _ xs]) auto
  with Cons.hyps(1) show ?case by (auto intro: coded_bnd [of f _ "q c x" x])
qed

lemma fuel_le_coded: "fuel_le p p' \<Longrightarrow> coded f p q x \<Longrightarrow> coded f p' q x"
  by (auto simp: coded_def dest: fuel_le_reads)

text \<open>
  What agreement gives end to end: the bytes are appended to any context with room for them, a
  context that grows has no room only if it would exceed what a word can count, and they are
  read back.
\<close>

lemma coded_roundtrip:
  assumes "coded f p q x"
  shows "\<exists>bs.
    (\<forall>e. push_inv e \<and> obliging e \<and> ps_flags e = f \<longrightarrow>
       (if unat (ps_offset e) + length bs \<le> capacity e
        then \<exists>e'. q e = (Inr (), e') \<and> push_inv e' \<and> written e' = written e @ bs
        else growing e \<longrightarrow> overrun q e)) \<and>
    (length bs < 2 ^ 30 \<longrightarrow>
       (\<forall>alloc. (\<forall>n s. alloc n s) \<longrightarrow>
          (\<exists>e'. p (ext_buffer_pull_init bs (of_nat (length bs)) alloc f) = (Inr x, e') \<and>
                unat (pl_offset e') = length bs)))"
proof -
  obtain bs where w: "writes f q bs" and r: "reads f p bs x"
    using assms by (auto simp: coded_def)
  have "if unat (ps_offset e) + length bs \<le> capacity e
      then \<exists>e'. q e = (Inr (), e') \<and> push_inv e' \<and> written e' = written e @ bs
      else growing e \<longrightarrow> overrun q e"
    if "push_inv e" "obliging e" "ps_flags e = f" for e
    using w that unfolding writes_def pushed_def by (auto split: if_splits)
  moreover have "\<exists>e'. p (ext_buffer_pull_init bs (of_nat (length bs)) alloc f) = (Inr x, e') \<and>
        unat (pl_offset e') = length bs"
    if "length bs < 2 ^ 30" "\<forall>n s. alloc n s" for alloc
  proof -
    let ?e = "ext_buffer_pull_init bs (of_nat (length bs)) alloc f"
    have len: "unat (of_nat (length bs) :: u32) = length bs"
      using that(1) by (intro unat_of_nat_u32) simp
    have "pull_inv ?e" "willing ?e" "pl_flags ?e = f" "in_front bs ?e"
      using that len by (simp_all add: ext_buffer_pull_init_def pull_inv_def willing_def in_front_def)
    from readsE [OF r this] obtain e' where "p ?e = (Inr x, e')" "moved (length bs) ?e e'" .
    with len show ?thesis by (auto simp: moved_def ext_buffer_pull_init_def)
  qed
  ultimately show ?thesis by blast
qed

text \<open>At a concrete context: what has been written is read back.\<close>

lemma roundtrip_at:
  assumes "\<exists>bs.
    (\<forall>e. push_inv e \<and> obliging e \<and> ps_flags e = f \<longrightarrow>
       (if unat (ps_offset e) + length bs \<le> capacity e
        then \<exists>e'. q e = (Inr (), e') \<and> push_inv e' \<and> written e' = written e @ bs
        else growing e \<longrightarrow> overrun q e)) \<and>
    (length bs < 2 ^ 30 \<longrightarrow>
       (\<forall>alloc. (\<forall>n s. alloc n s) \<longrightarrow>
          (\<exists>e'. p (ext_buffer_pull_init bs (of_nat (length bs)) alloc f) = (Inr x, e') \<and>
                unat (pl_offset e') = length bs)))"
    and e: "push_inv e" "obliging e" "ps_flags e = f" "growing e" "written e = []"
    and run: "q e = (Inr (), e1)" "written e1 = bs" "length bs < 2 ^ 30"
  shows "\<exists>e2. p (ext_buffer_pull_init bs (of_nat (length bs)) (\<lambda>_ _. True) f) = (Inr x, e2)"
  using assms(1)
proof (elim exE conjE)
  fix bs'
  assume w: "\<forall>e. push_inv e \<and> obliging e \<and> ps_flags e = f \<longrightarrow>
       (if unat (ps_offset e) + length bs' \<le> capacity e
        then \<exists>e'. q e = (Inr (), e') \<and> push_inv e' \<and> written e' = written e @ bs'
        else growing e \<longrightarrow> overrun q e)"
    and r: "length bs' < 2 ^ 30 \<longrightarrow>
       (\<forall>alloc. (\<forall>n s. alloc n s) \<longrightarrow>
          (\<exists>e'. p (ext_buffer_pull_init bs' (of_nat (length bs')) alloc f) = (Inr x, e') \<and>
                unat (pl_offset e') = length bs'))"
  have "\<not> overrun q e" using run(1) by (simp add: overrun_def)
  with w [rule_format, of e] e run(1,2) have "bs' = bs" by (auto split: if_splits)
  with r run(3) show ?thesis by auto
qed

end
