(* ===== verification/Base_Codec.thy ===== *)
theory Base_Codec
  imports Codec
begin

text \<open>
  The base types of \<open>ext_buffer.c\<close> agree, under the conditions a value has to meet; the
  locale \<open>codec\<close> states this interface and carries the array functions; it is interpreted
  on every base type.
\<close>

subsection \<open>Scalars, bytes, GUIDs\<close>

lemma reads_via_fixed:
  "length bs = n \<Longrightarrow> g bs = x \<Longrightarrow> reads f (bnd (pull_fixed n) (\<lambda>b. ret (g b))) bs x"
  using reads_bnd [OF reads_pull_fixed reads_ret, of bs n f g] by simp

lemma reads_scalars:
  "reads f ext_buffer_pull_uint8 [b] b"
  "reads f ext_buffer_pull_uint16 (SSVAL h) h"
  "reads f ext_buffer_pull_uint32 (SIVAL w) w"
  unfolding ext_buffer_pull_uint8_def ext_buffer_pull_uint16_def ext_buffer_pull_uint32_def
  by (rule reads_via_fixed; simp)+

lemma coded_uint8 [code_rules]: "coded f ext_buffer_pull_uint8 (ext_buffer_push_uint8 v) v"
  unfolding ext_buffer_pull_uint8_def
  by (rule codedI [OF writes_scalars(1)]) (rule reads_via_fixed; simp)

lemma coded_uint16 [code_rules]: "coded f ext_buffer_pull_uint16 (ext_buffer_push_uint16 v) v"
  unfolding ext_buffer_pull_uint16_def
  by (rule codedI [OF writes_scalars(2)]) (rule reads_via_fixed; simp)

lemma coded_uint32 [code_rules]: "coded f ext_buffer_pull_uint32 (ext_buffer_push_uint32 v) v"
  unfolding ext_buffer_pull_uint32_def
  by (rule codedI [OF writes_scalars(3)]) (rule reads_via_fixed; simp)

lemma coded_uint64 [code_rules]: "coded f ext_buffer_pull_uint64 (ext_buffer_push_uint64 v) v"
  unfolding ext_buffer_pull_uint64_def
  using BVAL_SBVAL [of v]
  by (intro codedI [OF writes_scalars(4)] reads_via_fixed) (simp_all add: BVAL_def)

lemma coded_float [code_rules]: "coded f ext_buffer_pull_float (ext_buffer_push_float v) v"
  unfolding ext_buffer_pull_float_def
  by (rule codedI [OF writes_scalars(5)]) (rule reads_via_fixed; simp)

lemma coded_double [code_rules]: "coded f ext_buffer_pull_double (ext_buffer_push_double v) v"
  unfolding ext_buffer_pull_double_def
  by (rule codedI [OF writes_scalars(6)]) (rule reads_via_fixed; simp)

lemma coded_bytes [code_rules]:
  "unat n = length bs \<Longrightarrow> coded f (ext_buffer_pull_bytes n) (ext_buffer_push_bytes bs) bs"
  using unsigned_less [of n, where ?'a = nat]
  by (intro codedI [OF writes_bytes reads_pull_bytes]) auto

lemma coded_guid [code_rules]: "coded f ext_buffer_pull_guid (ext_buffer_push_guid g) g"
  unfolding ext_buffer_pull_guid_def ext_buffer_push_guid_def
  by (rule coded_bnd coded_last code_rules |
      simp add: guid_clock_seq_def guid_node_def make_guid_def)+

subsection \<open>Strings\<close>

lemma takeWhile_terminated:
  "0 \<notin> set s \<Longrightarrow> takeWhile (\<lambda>b. b \<noteq> 0) (s @ (0 :: u8) # r) = s"
  by (induction s) auto

lemma in_front_region:
  assumes "in_front bs e" "pull_inv e"
  defines "room \<equiv> unat (pl_data_size e) - unat (pl_offset e)"
  shows "\<exists>r. take room (drop (unat (pl_offset e)) (pl_data e)) = bs @ r \<and>
    length bs + length r = room" "length bs \<le> room" "room < 2 ^ 30"
    "min (length (pl_data e) - unat (pl_offset e)) room = room"
proof -
  let ?d = "drop (unat (pl_offset e)) (pl_data e)"
  show l: "length bs \<le> room" "room < 2 ^ 30" "min (length (pl_data e) - unat (pl_offset e)) room = room"
    using assms by (auto simp: in_front_def pull_inv_def room_def)
  have "take (length bs) (take room ?d) = bs"
    using assms(1) l by (simp add: in_front_def min_absorb1)
  then have *: "take room ?d = bs @ drop (length bs) (take room ?d)"
    by (metis append_take_drop_id)
  moreover have "length (take room ?d) = room"
    using assms by (auto simp: pull_inv_def room_def)
  then have "length bs + length (drop (length bs) (take room ?d)) = room"
    using l by simp
  ultimately show "\<exists>r. take room ?d = bs @ r \<and> length bs + length r = room" by blast
qed

lemma reads_advance_ret:
  assumes "length bs = n"
  shows "reads f (bnd (ext_buffer_pull_advance (of_nat n)) (\<lambda>_. ret x)) bs x"
proof (rule readsI)
  fix e assume e: "pull_inv e" "in_front bs e"
  have "unat (pl_offset e + of_nat n) \<le> unat (pl_data_size e)"
    using in_front_offset [OF e(2,1)] e(2) assms by (simp add: in_front_def)
  then show "\<exists>e'. bnd (ext_buffer_pull_advance (of_nat n)) (\<lambda>_. ret x) e = (Inr x, e') \<and>
      moved (length bs) e e'"
    by (simp add: bnd_def ret_def ext_buffer_pull_advance_def Let_def moved_def assms
        not_less word_le_nat_alt)
qed

lemma reads_string:
  assumes "0 \<notin> set s"
  shows "reads f ext_buffer_pull_string (s @ [0]) s"
proof (rule readsI)
  fix e assume e: "pull_inv e" "willing e" "pl_flags e = f" "in_front (s @ [0]) e"
  let ?room = "unat (pl_data_size e) - unat (pl_offset e)"
  obtain r where r: "take ?room (drop (unat (pl_offset e)) (pl_data e)) = s @ 0 # r"
    "length s + 1 + length r = ?room"
    using in_front_region(1) [OF e(4,1)] by auto
  have room: "length s < ?room" "?room < 2 ^ 30" "min (length (pl_data e) - unat (pl_offset e)) ?room = ?room"
    using in_front_region(2-4) [OF e(4,1)] by simp_all
  then have "\<not> pl_data_size e \<le> pl_offset e"
    by (simp add: word_le_nat_alt)
  then have "ext_buffer_pull_string e =
      bnd (pull_alloc (length s + 1)) (\<lambda>_.
      bnd (ext_buffer_pull_advance (of_nat (length s + 1))) (\<lambda>_. ret s)) e"
    using room r(2)
    by (simp add: ext_buffer_pull_string_def Let_def r(1) takeWhile_terminated [OF assms] INT_MAX_def
        del: of_nat_Suc)
  moreover have "reads f (bnd (pull_alloc (length s + 1)) (\<lambda>_.
      bnd (ext_buffer_pull_advance (of_nat (length s + 1))) (\<lambda>_. ret s))) (s @ [0]) s"
    by (intro reads_bnd_nil [OF reads_pull_alloc] reads_advance_ret) simp
  ultimately show "\<exists>e'. ext_buffer_pull_string e = (Inr s, e') \<and> moved (length (s @ [0])) e e'"
    using readsE e by metis
qed

definition string_ok :: "u32 \<Rightarrow> bytes \<Rightarrow> bool" where
  "string_ok f s \<longleftrightarrow>
     0 \<notin> set s \<and> length s < 2 ^ 30 \<and> (has_flag f EXT_FLAG_TBLLMT \<longrightarrow> length s < 510)"

lemma coded_string: "string_ok f s \<Longrightarrow> coded f ext_buffer_pull_string (ext_buffer_push_string s) s"
  unfolding ext_buffer_push_string_def
  by (rule coded_flags_push, rule codedI [OF _ reads_string])
    (auto simp: string_ok_def intro!: writes_bytes)

subsection \<open>Wide strings\<close>

lemma length_unit_le: "length (unit_le c) = 2"
  by (simp add: unit_le_def)

lemma unit_le_nonzero: "c < 65536 \<Longrightarrow> c \<noteq> 0 \<Longrightarrow> unit_le c \<noteq> [0, 0]"
  using unit_le_value [of c] by auto

lemma wstring_end_unit:
  "c < 65536 \<Longrightarrow> c \<noteq> 0 \<Longrightarrow> wstring_end (unit_le c @ r) = map_option (\<lambda>i. i + 2) (wstring_end r)"
  using unit_le_nonzero [of c] by (auto simp: unit_le_def)

lemma wstring_end_cp:
  assumes "is_scalar c" "c \<noteq> 0"
  shows "wstring_end (utf16le_encode_cp c @ r) =
    map_option (\<lambda>i. i + length (utf16le_encode_cp c)) (wstring_end r)"
proof (cases "c < 0x10000")
  case True
  then show ?thesis
    using wstring_end_unit [of c r] assms by (simp add: utf16le_encode_cp_def unit_le_def)
next
  case False
  let ?h = "0xD800 + (c - 0x10000) div 1024" and ?l = "0xDC00 + (c - 0x10000) mod 1024"
  have "(c - 0x10000) div 1024 < 1024" "(c - 0x10000) mod 1024 < 1024"
    using False is_scalar_bound [OF assms(1)] by auto
  then have "wstring_end (unit_le ?h @ unit_le ?l @ r) = map_option (\<lambda>i. i + 4) (wstring_end r)"
    by (cases "wstring_end r") (simp_all add: wstring_end_unit)
  moreover have "utf16le_encode_cp c = unit_le ?h @ unit_le ?l"
    using False by (simp add: utf16le_encode_cp_def)
  ultimately show ?thesis by (simp add: length_unit_le)
qed

lemma wstring_end_text:
  "\<forall>c\<in>set cps. is_scalar c \<and> c \<noteq> 0 \<Longrightarrow>
     wstring_end (utf16le_encode cps @ 0 # 0 # r) = Some (length (utf16le_encode cps))"
  by (induction cps) (auto simp: utf16le_encode_def wstring_end_cp add.commute)

definition wide_ok :: "u32 \<Rightarrow> bytes \<Rightarrow> bool" where
  "wide_ok f s \<longleftrightarrow>
     utf8_valid s \<and> 0 \<notin> set s \<and> length s < 2 ^ 28 \<and>
     (has_flag f EXT_FLAG_TBLLMT \<longrightarrow> length s < 255)"

definition wstring_ok :: "u32 \<Rightarrow> bytes \<Rightarrow> bool" where
  "wstring_ok f s \<longleftrightarrow> (if has_flag f EXT_FLAG_UTF16 then wide_ok f s else string_ok f s)"

lemma utf16le_encode_nul: "utf16le_encode (cps @ [0]) = utf16le_encode cps @ [0, 0]"
  by (simp add: utf16le_encode_def utf16le_encode_cp_def unit_le_def)

lemma wstring_bytes_ok:
  assumes "wide_ok f s"
  obtains cps where "utf8_decode s = Some cps" "\<forall>c\<in>set cps. is_scalar c \<and> c \<noteq> 0"
    "wstring_bytes f s = utf16le_encode cps @ [0, 0]"
    "length (utf16le_encode cps) \<le> 2 * length s"
proof -
  obtain cps where cps: "utf8_decode s = Some cps"
    using assms by (auto simp: wide_ok_def utf8_valid_def)
  have sound: "utf8_encode cps = s" "\<forall>c\<in>set cps. is_scalar c"
    using utf8_decode_sound [OF cps] by auto
  have "0 \<notin> set cps"
    using assms utf8_encode_nul [of cps] sound(1) by (auto simp: wide_ok_def)
  with sound(2) have nz: "\<forall>c\<in>set cps. is_scalar c \<and> c \<noteq> 0"
    by metis
  have len: "length (utf16le_encode cps) \<le> 2 * length s"
    using length_utf16le_encode [of cps] sound(1) by simp
  have "wstring_bytes f s = utf16le_encode cps @ [0, 0]"
    unfolding wstring_bytes_def utf8_to_utf16le_eq [OF cps] utf16le_encode_nul
    using assms len by (auto simp: wide_ok_def Let_def)
  with cps nz len that show thesis by blast
qed

lemma reads_wide:
  assumes "wide_ok f s" "has_flag f EXT_FLAG_UTF16"
  shows "reads f ext_buffer_pull_wstring (wstring_bytes f s) s"
proof (rule readsI)
  fix e assume e: "pull_inv e" "willing e" "pl_flags e = f" "in_front (wstring_bytes f s) e"
  obtain cps where cps: "utf8_decode s = Some cps" "\<forall>c\<in>set cps. is_scalar c \<and> c \<noteq> 0"
    and w: "wstring_bytes f s = utf16le_encode cps @ [0, 0]"
    and lw: "length (utf16le_encode cps) \<le> 2 * length s"
    using wstring_bytes_ok [OF assms(1)] .
  let ?w = "utf16le_encode cps" and ?room = "unat (pl_data_size e) - unat (pl_offset e)"
  obtain r where r: "take ?room (drop (unat (pl_offset e)) (pl_data e)) = ?w @ 0 # 0 # r"
    using in_front_region(1) [OF e(4,1)] by (auto simp: w)
  have room: "length ?w + 2 \<le> ?room" "?room < 2 ^ 30" "min (length (pl_data e) - unat (pl_offset e)) ?room = ?room"
    using in_front_region(2-4) [OF e(4,1)] by (simp_all add: w)
  have "\<not> pl_data_size e \<le> pl_offset e"
    using room by (auto simp: word_le_nat_alt)
  moreover have "utf16le_to_utf8 (?w @ [0, 0]) (2 * (length ?w + 2)) = Some (s @ [0])"
    using utf16le_to_utf8_eq [OF cps(1)] by (simp add: utf16le_encode_nul)
  ultimately have "ext_buffer_pull_wstring e =
      bnd (pull_alloc (2 * (length ?w + 2))) (\<lambda>_. bnd (pull_alloc (length ?w + 2)) (\<lambda>_.
      bnd (ext_buffer_pull_advance (of_nat (length ?w + 2))) (\<lambda>_. ret s))) e"
    using room assms wide_ok_def [of f s]
    by (simp add: ext_buffer_pull_wstring_def Let_def r wstring_end_text [OF cps(2)] e(3)
        INT_MAX_def takeWhile_terminated del: of_nat_add)
  moreover have "reads f (bnd (pull_alloc (2 * (length ?w + 2))) (\<lambda>_. bnd (pull_alloc (length ?w + 2)) (\<lambda>_.
      bnd (ext_buffer_pull_advance (of_nat (length ?w + 2))) (\<lambda>_. ret s)))) (?w @ [0, 0]) s"
    by (intro reads_bnd_nil [OF reads_pull_alloc] reads_advance_ret) simp
  ultimately show "\<exists>e'. ext_buffer_pull_wstring e = (Inr s, e') \<and> moved (length (wstring_bytes f s)) e e'"
    using readsE e w by metis
qed

text \<open>The bytes of a string on the wire.\<close>

definition wire_string :: "u32 \<Rightarrow> bytes \<Rightarrow> bytes" where
  "wire_string f s = (if has_flag f EXT_FLAG_UTF16 then wstring_bytes f s else s @ [0])"

lemma writes_wstring:
  assumes "wstring_ok f s"
  shows "writes f (ext_buffer_push_wstring s) (wire_string f s)"
proof (cases "has_flag f EXT_FLAG_UTF16")
  case True
  with assms have ok: "wide_ok f s" by (simp add: wstring_ok_def)
  have "length (wstring_bytes f s) < 2 ^ 32"
    using wstring_bytes_ok [OF ok] ok by (force simp: wide_ok_def)
  with True show ?thesis
    unfolding ext_buffer_push_wstring_def wire_string_def
    by (intro writes_gets) (simp add: writes_seq_nil [OF writes_malloc] writes_bytes)
next
  case False
  with assms have ok: "string_ok f s" by (simp add: wstring_ok_def)
  have "writes f (ext_buffer_push_string s) (s @ [0])"
    unfolding ext_buffer_push_string_def
    by (intro writes_gets) (use ok in \<open>auto simp: string_ok_def intro!: writes_bytes\<close>)
  with False show ?thesis
    unfolding ext_buffer_push_wstring_def wire_string_def by (intro writes_gets) simp
qed

lemma reads_wstring:
  assumes "wstring_ok f s"
  shows "reads f ext_buffer_pull_wstring (wire_string f s) s"
proof (cases "has_flag f EXT_FLAG_UTF16")
  case True
  with assms show ?thesis by (simp add: wstring_ok_def wire_string_def reads_wide)
next
  case False
  with assms reads_string [of s f] show ?thesis
    by (simp add: reads_def ext_buffer_pull_wstring_def string_ok_def wstring_ok_def wire_string_def)
qed

lemma coded_wstring: "wstring_ok f s \<Longrightarrow> coded f ext_buffer_pull_wstring (ext_buffer_push_wstring s) s"
  by (rule codedI [OF writes_wstring reads_wstring])

subsection \<open>Counted blocks\<close>

definition binary_ok :: "u32 \<Rightarrow> bytes \<Rightarrow> bool" where
  "binary_ok f r \<longleftrightarrow>
     (if has_flag f EXT_FLAG_WCOUNT then length r < 2 ^ 32 else length r < 2 ^ 16)"

lemma coded_blob:
  "unat cb = length r \<Longrightarrow> coded f (pull_blob cb) (push_block r) r"
  unfolding pull_blob_def push_block_def
  by (cases "cb = 0") (auto simp: unat_eq_0 intro!: coded_ret coded_alloc coded_bytes)

lemma coded_exbinary: "length r < 2 ^ 32 \<Longrightarrow>
    coded f ext_buffer_pull_exbinary (ext_buffer_push_exbinary r) r"
  unfolding ext_buffer_pull_exbinary_def ext_buffer_push_exbinary_def
  by (intro coded_bnd [OF coded_uint32] coded_blob unat_of_nat_u32)

lemma coded_short_blob: "length r < 2 ^ 16 \<Longrightarrow>
    coded f (bnd ext_buffer_pull_uint16 (\<lambda>cb. pull_blob (ucast cb)))
      (seq (ext_buffer_push_uint16 (of_nat (length r))) (push_block r)) r"
  by (intro coded_bnd [OF coded_uint16] coded_blob)
    (simp only: unat_ucast_u16_u32 unat_of_nat_u16)

lemma coded_sbinary: "length r < 2 ^ 16 \<Longrightarrow>
    coded f ext_buffer_pull_sbinary (ext_buffer_push_sbinary r) r"
  unfolding ext_buffer_pull_sbinary_def ext_buffer_push_sbinary_def
  using coded_short_blob [of r f] by simp

lemma coded_binary: "binary_ok f r \<Longrightarrow>
    coded f ext_buffer_pull_binary (ext_buffer_push_binary r) r"
  unfolding ext_buffer_pull_binary_def ext_buffer_push_binary_def binary_ok_def
  using coded_short_blob [of r f] coded_exbinary [of r f]
  by (intro coded_flags_pull coded_flags_push)
    (simp add: ext_buffer_pull_exbinary_def ext_buffer_push_exbinary_def split: if_splits)

subsection \<open>The interface of a field\<close>

text \<open>
  \<open>reader\<close>: a reader that never leaves its buffer.  \<open>codec\<close>: a reader and a writer that
  agree on the values \<open>ok\<close>.  A structure relies on no more of its fields.
\<close>

locale reader =
  fixes pull :: "'a pull"
  assumes pull_bounded: "bounded pull"
begin

lemma in_bounds:
  assumes "unat n \<le> length bs" "unat n < 2 ^ 30"
  shows "fst (pull (ext_buffer_pull_init bs n alloc f))
      \<notin> {Inl UNDEFINED_BEHAVIOUR, Inl OUT_OF_FUEL, Inl NOT_RETURNING} \<and>
    ((\<forall>k s. alloc k s) \<longrightarrow> fst (pull (ext_buffer_pull_init bs n alloc f)) \<noteq> Inl NULL_WRITE)"
proof -
  let ?e = "ext_buffer_pull_init bs n alloc f"
  have "pull_inv ?e"
    using assms by (simp add: pull_inv_def ext_buffer_pull_init_def)
  moreover have "willing ?e \<longleftrightarrow> (\<forall>k s. alloc k s)"
    by (simp add: willing_def ext_buffer_pull_init_def)
  ultimately show ?thesis
    using boundedD [OF pull_bounded, of ?e] by (auto simp: sound_end_def)
qed

lemma array32_bounded: "bounded (bnd ext_buffer_pull_uint32 (\<lambda>c. pull_elems n (unat c) pull))"
  by (intro bounded_rules pull_bounded)

lemma array16_bounded: "bounded (bnd ext_buffer_pull_uint16 (\<lambda>c. pull_elems n (unat c) pull))"
  by (intro bounded_rules pull_bounded)

end

locale codec = reader pull for pull :: "'a pull" +
  fixes push :: "'a \<Rightarrow> push" and ok :: "u32 \<Rightarrow> 'a \<Rightarrow> bool"
  assumes agree: "ok f x \<Longrightarrow> coded f pull (push x) x"
begin

lemmas roundtrip = coded_roundtrip [OF agree]

lemma array32:
  "length xs < 2 ^ 32 \<Longrightarrow> \<forall>x\<in>set xs. ok f x \<Longrightarrow>
     coded f (bnd ext_buffer_pull_uint32 (\<lambda>c. pull_elems n (unat c) pull))
       (seq (ext_buffer_push_uint32 (of_nat (length xs))) (for_each push xs)) xs"
  by (intro coded_bnd [OF coded_uint32] coded_elems ballI agree unat_of_nat_u32) auto

lemma array16:
  "length xs < 2 ^ 16 \<Longrightarrow> \<forall>x\<in>set xs. ok f x \<Longrightarrow>
     coded f (bnd ext_buffer_pull_uint16 (\<lambda>c. pull_elems n (unat c) pull))
       (seq (ext_buffer_push_uint16 (of_nat (length xs))) (for_each push xs)) xs"
  by (intro coded_bnd [OF coded_uint16] coded_elems ballI agree unat_of_nat_u16) auto

end

definition any_ok :: "u32 \<Rightarrow> 'a \<Rightarrow> bool" where
  "any_ok f x \<longleftrightarrow> True"

lemma any_ok [simp]: "any_ok f x"
  by (simp add: any_ok_def)

interpretation c16: codec ext_buffer_pull_uint16 ext_buffer_push_uint16 any_ok
  by unfold_locales (auto intro: bounded_safe safe_rules code_rules)

interpretation c32: codec ext_buffer_pull_uint32 ext_buffer_push_uint32 any_ok
  by unfold_locales (auto intro: bounded_safe safe_rules code_rules)

interpretation c64: codec ext_buffer_pull_uint64 ext_buffer_push_uint64 any_ok
  by unfold_locales (auto intro: bounded_safe safe_rules code_rules)

interpretation cguid: codec ext_buffer_pull_guid ext_buffer_push_guid any_ok
  by unfold_locales (auto intro: bounded_safe safe_rules code_rules)

interpretation cstr: codec ext_buffer_pull_string ext_buffer_push_string string_ok
  by unfold_locales (auto intro: bounded_safe safe_rules coded_string)

interpretation cwstr: codec ext_buffer_pull_wstring ext_buffer_push_wstring wstring_ok
  by unfold_locales (auto intro: bounded_safe safe_rules coded_wstring)

interpretation cbin: codec ext_buffer_pull_binary ext_buffer_push_binary binary_ok
  by unfold_locales (auto intro: bounded_safe safe_rules coded_binary)

subsection \<open>The arrays of the base types\<close>

definition list_ok :: "nat \<Rightarrow> (u32 \<Rightarrow> 'a \<Rightarrow> bool) \<Rightarrow> u32 \<Rightarrow> 'a list \<Rightarrow> bool" where
  "list_ok n ok f xs \<longleftrightarrow> length xs < n \<and> (\<forall>x\<in>set xs. ok f x)"

lemma coded_arrays:
  "list_ok (2 ^ 32) any_ok f a \<Longrightarrow> coded f ext_buffer_pull_short_array (ext_buffer_push_short_array a) a"
  "list_ok (2 ^ 32) any_ok f b \<Longrightarrow> coded f ext_buffer_pull_long_array (ext_buffer_push_long_array b) b"
  "list_ok (2 ^ 32) any_ok f c \<Longrightarrow> coded f ext_buffer_pull_longlong_array (ext_buffer_push_longlong_array c) c"
  "list_ok (2 ^ 16) any_ok f c \<Longrightarrow> coded f ext_buffer_pull_slonglong_array (ext_buffer_push_slonglong_array c) c"
  "list_ok (2 ^ 32) binary_ok f d \<Longrightarrow> coded f ext_buffer_pull_binary_array (ext_buffer_push_binary_array d) d"
  "list_ok (2 ^ 32) string_ok f d \<Longrightarrow> coded f ext_buffer_pull_string_array (ext_buffer_push_string_array d) d"
  "list_ok (2 ^ 32) wstring_ok f d \<Longrightarrow> coded f ext_buffer_pull_wstring_array (ext_buffer_push_wstring_array d) d"
  "list_ok (2 ^ 32) any_ok f g \<Longrightarrow> coded f ext_buffer_pull_guid_array (ext_buffer_push_guid_array g) g"
  unfolding list_ok_def pull_array_defs ext_buffer_push_short_array_def
    ext_buffer_push_long_array_def ext_buffer_push_longlong_array_def
    ext_buffer_push_slonglong_array_def ext_buffer_push_binary_array_def
    ext_buffer_push_string_array_def ext_buffer_push_wstring_array_def
    ext_buffer_push_guid_array_def
  by (auto simp: not_less intro: c16.array32 c32.array32 c64.array32 c64.array16
      cbin.array32 cstr.array32 cwstr.array32 cguid.array32)

end
