(* ===== verification/Prop_Types.thy ===== *)
theory Prop_Types
  imports Mapi_Types
begin

text \<open>
  The property values, restrictions and rule actions of
  \<open>LIBRARY/mapi_lib/include/mapi_types.h\<close>.

  A \<open>void *\<close> member is a datatype with one constructor for every C type the code makes it
  point to; the tag beside it (\<open>type\<close>, \<open>rt\<close>, \<open>proptag\<close>) is kept as the separate member
  the structure has, so that a tag and a value that do not fit are representable.  A
  pair of a count and a pointer is a list.
\<close>

subsection \<open>Tags\<close>

definition PROPVAL_TYPE_UNSPECIFIED :: u16 where "PROPVAL_TYPE_UNSPECIFIED = 0x0000"
definition PROPVAL_TYPE_SHORT :: u16 where "PROPVAL_TYPE_SHORT = 0x0002"
definition PROPVAL_TYPE_LONG :: u16 where "PROPVAL_TYPE_LONG = 0x0003"
definition PROPVAL_TYPE_FLOAT :: u16 where "PROPVAL_TYPE_FLOAT = 0x0004"
definition PROPVAL_TYPE_DOUBLE :: u16 where "PROPVAL_TYPE_DOUBLE = 0x0005"
definition PROPVAL_TYPE_CURRENCY :: u16 where "PROPVAL_TYPE_CURRENCY = 0x0006"
definition PROPVAL_TYPE_FLOATINGTIME :: u16 where "PROPVAL_TYPE_FLOATINGTIME = 0x0007"
definition PROPVAL_TYPE_ERROR :: u16 where "PROPVAL_TYPE_ERROR = 0x000a"
definition PROPVAL_TYPE_BYTE :: u16 where "PROPVAL_TYPE_BYTE = 0x000b"
definition PROPVAL_TYPE_OBJECT :: u16 where "PROPVAL_TYPE_OBJECT = 0x000d"
definition PROPVAL_TYPE_LONGLONG :: u16 where "PROPVAL_TYPE_LONGLONG = 0x0014"
definition PROPVAL_TYPE_STRING :: u16 where "PROPVAL_TYPE_STRING = 0x001e"
definition PROPVAL_TYPE_WSTRING :: u16 where "PROPVAL_TYPE_WSTRING = 0x001f"
definition PROPVAL_TYPE_FILETIME :: u16 where "PROPVAL_TYPE_FILETIME = 0x0040"
definition PROPVAL_TYPE_GUID :: u16 where "PROPVAL_TYPE_GUID = 0x0048"
definition PROPVAL_TYPE_SVREID :: u16 where "PROPVAL_TYPE_SVREID = 0x00fb"
definition PROPVAL_TYPE_RESTRICTION :: u16 where "PROPVAL_TYPE_RESTRICTION = 0x00fd"
definition PROPVAL_TYPE_RULE :: u16 where "PROPVAL_TYPE_RULE = 0x00fe"
definition PROPVAL_TYPE_BINARY :: u16 where "PROPVAL_TYPE_BINARY = 0x0102"
definition PROPVAL_TYPE_SHORT_ARRAY :: u16 where "PROPVAL_TYPE_SHORT_ARRAY = 0x1002"
definition PROPVAL_TYPE_LONG_ARRAY :: u16 where "PROPVAL_TYPE_LONG_ARRAY = 0x1003"
definition PROPVAL_TYPE_LONGLONG_ARRAY :: u16 where "PROPVAL_TYPE_LONGLONG_ARRAY = 0x1014"
definition PROPVAL_TYPE_STRING_ARRAY :: u16 where "PROPVAL_TYPE_STRING_ARRAY = 0x101e"
definition PROPVAL_TYPE_WSTRING_ARRAY :: u16 where "PROPVAL_TYPE_WSTRING_ARRAY = 0x101f"
definition PROPVAL_TYPE_GUID_ARRAY :: u16 where "PROPVAL_TYPE_GUID_ARRAY = 0x1048"
definition PROPVAL_TYPE_BINARY_ARRAY :: u16 where "PROPVAL_TYPE_BINARY_ARRAY = 0x1102"

lemmas propval_types =
  PROPVAL_TYPE_UNSPECIFIED_def PROPVAL_TYPE_SHORT_def PROPVAL_TYPE_LONG_def
  PROPVAL_TYPE_FLOAT_def PROPVAL_TYPE_DOUBLE_def PROPVAL_TYPE_CURRENCY_def
  PROPVAL_TYPE_FLOATINGTIME_def PROPVAL_TYPE_ERROR_def PROPVAL_TYPE_BYTE_def
  PROPVAL_TYPE_OBJECT_def PROPVAL_TYPE_LONGLONG_def PROPVAL_TYPE_STRING_def
  PROPVAL_TYPE_WSTRING_def PROPVAL_TYPE_FILETIME_def PROPVAL_TYPE_GUID_def
  PROPVAL_TYPE_SVREID_def PROPVAL_TYPE_RESTRICTION_def PROPVAL_TYPE_RULE_def
  PROPVAL_TYPE_BINARY_def PROPVAL_TYPE_SHORT_ARRAY_def PROPVAL_TYPE_LONG_ARRAY_def
  PROPVAL_TYPE_LONGLONG_ARRAY_def PROPVAL_TYPE_STRING_ARRAY_def
  PROPVAL_TYPE_WSTRING_ARRAY_def PROPVAL_TYPE_GUID_ARRAY_def PROPVAL_TYPE_BINARY_ARRAY_def

definition RESTRICTION_TYPE_AND :: u8 where "RESTRICTION_TYPE_AND = 0x00"
definition RESTRICTION_TYPE_OR :: u8 where "RESTRICTION_TYPE_OR = 0x01"
definition RESTRICTION_TYPE_NOT :: u8 where "RESTRICTION_TYPE_NOT = 0x02"
definition RESTRICTION_TYPE_CONTENT :: u8 where "RESTRICTION_TYPE_CONTENT = 0x03"
definition RESTRICTION_TYPE_PROPERTY :: u8 where "RESTRICTION_TYPE_PROPERTY = 0x04"
definition RESTRICTION_TYPE_PROPCOMPARE :: u8 where "RESTRICTION_TYPE_PROPCOMPARE = 0x05"
definition RESTRICTION_TYPE_BITMASK :: u8 where "RESTRICTION_TYPE_BITMASK = 0x06"
definition RESTRICTION_TYPE_SIZE :: u8 where "RESTRICTION_TYPE_SIZE = 0x07"
definition RESTRICTION_TYPE_EXIST :: u8 where "RESTRICTION_TYPE_EXIST = 0x08"
definition RESTRICTION_TYPE_SUBOBJ :: u8 where "RESTRICTION_TYPE_SUBOBJ = 0x09"
definition RESTRICTION_TYPE_COMMENT :: u8 where "RESTRICTION_TYPE_COMMENT = 0x0a"
definition RESTRICTION_TYPE_COUNT :: u8 where "RESTRICTION_TYPE_COUNT = 0x0b"
definition RESTRICTION_TYPE_NULL :: u8 where "RESTRICTION_TYPE_NULL = 0xff"

lemmas restriction_types =
  RESTRICTION_TYPE_AND_def RESTRICTION_TYPE_OR_def RESTRICTION_TYPE_NOT_def
  RESTRICTION_TYPE_CONTENT_def RESTRICTION_TYPE_PROPERTY_def RESTRICTION_TYPE_PROPCOMPARE_def
  RESTRICTION_TYPE_BITMASK_def RESTRICTION_TYPE_SIZE_def RESTRICTION_TYPE_EXIST_def
  RESTRICTION_TYPE_SUBOBJ_def RESTRICTION_TYPE_COMMENT_def RESTRICTION_TYPE_COUNT_def
  RESTRICTION_TYPE_NULL_def

definition ACTION_TYPE_OP_MOVE :: u8 where "ACTION_TYPE_OP_MOVE = 0x1"
definition ACTION_TYPE_OP_COPY :: u8 where "ACTION_TYPE_OP_COPY = 0x2"
definition ACTION_TYPE_OP_REPLY :: u8 where "ACTION_TYPE_OP_REPLY = 0x3"
definition ACTION_TYPE_OP_OOF_REPLY :: u8 where "ACTION_TYPE_OP_OOF_REPLY = 0x4"
definition ACTION_TYPE_OP_DEFER_ACTION :: u8 where "ACTION_TYPE_OP_DEFER_ACTION = 0x5"
definition ACTION_TYPE_OP_BOUNCE :: u8 where "ACTION_TYPE_OP_BOUNCE = 0x6"
definition ACTION_TYPE_OP_FORWARD :: u8 where "ACTION_TYPE_OP_FORWARD = 0x7"
definition ACTION_TYPE_OP_DELEGATE :: u8 where "ACTION_TYPE_OP_DELEGATE = 0x8"
definition ACTION_TYPE_OP_TAG :: u8 where "ACTION_TYPE_OP_TAG = 0x9"
definition ACTION_TYPE_OP_DELETE :: u8 where "ACTION_TYPE_OP_DELETE = 0xA"
definition ACTION_TYPE_OP_MARK_AS_READ :: u8 where "ACTION_TYPE_OP_MARK_AS_READ = 0xB"

lemmas action_types =
  ACTION_TYPE_OP_MOVE_def ACTION_TYPE_OP_COPY_def ACTION_TYPE_OP_REPLY_def
  ACTION_TYPE_OP_OOF_REPLY_def ACTION_TYPE_OP_DEFER_ACTION_def ACTION_TYPE_OP_BOUNCE_def
  ACTION_TYPE_OP_FORWARD_def ACTION_TYPE_OP_DELEGATE_def ACTION_TYPE_OP_TAG_def
  ACTION_TYPE_OP_DELETE_def ACTION_TYPE_OP_MARK_AS_READ_def

subsection \<open>Identifiers inside values\<close>

text \<open>\<open>se_bin\<close> is the pointer \<open>pbin\<close>, \<open>None\<close> where it is \<open>NULL\<close>.\<close>

datatype svreid = SVREID (se_bin: "bytes option") (se_folder_id: u64) (se_message_id: u64)
  (se_instance: u32)

datatype store_entryid = STORE_ENTRYID (st_flags: u32) (st_provider_uid: bytes) (st_version: u8)
  (st_flag: u8) (st_dll_name: bytes) (st_wrapped_flags: u32) (st_wrapped_provider_uid: bytes)
  (st_wrapped_type: u32) (st_server_name: bytes) (st_mailbox_dn: bytes)

text \<open>\<open>pfolder_eid\<close> is a \<open>SVREID *\<close> or a \<open>BINARY *\<close>.\<close>

datatype folder_eid = EID_SVREID svreid | EID_BINARY bytes

datatype movecopy_action = MOVECOPY_ACTION (mc_same_store: u8)
  (mc_store_eid: "store_entryid option") (mc_folder_eid: folder_eid)

datatype reply_action = REPLY_ACTION (ra_folder_id: u64) (ra_message_id: u64) (ra_guid: guid)

subsection \<open>Values, restrictions and actions\<close>

datatype propval =
    PV_TYPED u16 propval
  | PV_SHORT u16
  | PV_LONG u32
  | PV_FLOAT u32
  | PV_DOUBLE u64
  | PV_BYTE u8
  | PV_LONGLONG u64
  | PV_STRING bytes
  | PV_SVREID svreid
  | PV_GUID guid
  | PV_RESTRICTION restriction
  | PV_RULE "action_block list"
  | PV_BINARY bytes
  | PV_SHORT_ARRAY "u16 list"
  | PV_LONG_ARRAY "u32 list"
  | PV_LONGLONG_ARRAY "u64 list"
  | PV_STRING_ARRAY "bytes list"
  | PV_GUID_ARRAY "guid list"
  | PV_BINARY_ARRAY "bytes list"
and tagged_propval = TAGGED_PROPVAL u32 propval
and restriction = RESTRICTION u8 res_data
and res_data =
    RES_NULL
  | RES_AND_OR "restriction list"
  | RES_NOT restriction
  | RES_CONTENT u32 u32 tagged_propval
  | RES_PROPERTY u8 u32 tagged_propval
  | RES_PROPCOMPARE u8 u32 u32
  | RES_BITMASK u8 u32 u32
  | RES_SIZE u8 u32 u32
  | RES_EXIST u32
  | RES_SUBOBJ u32 restriction
  | RES_COMMENT "tagged_propval list" "restriction option"
  | RES_COUNT u32 restriction
and recipient_block = RECIPIENT_BLOCK u8 "tagged_propval list"
and action_block = ACTION_BLOCK u16 u8 u32 u32 action_data
and action_data =
    AD_NONE
  | AD_MOVECOPY movecopy_action
  | AD_REPLY reply_action
  | AD_DEFER bytes
  | AD_BOUNCE u32
  | AD_FORWARDDELEGATE "recipient_block list"
  | AD_TAG tagged_propval

text \<open>
  The low half of a property tag, and its type with the multi-value-instance bits
  removed.
\<close>

definition proptag_type :: "u32 \<Rightarrow> u16" where
  "proptag_type proptag = ucast (proptag AND 0xFFFF)"

definition single_type :: "u16 \<Rightarrow> u16" where
  "single_type type = (if type AND 0x3000 = 0x3000 then type AND NOT 0x3000 else type)"

end
