(* ===== verification/Ext_Pull_Prop.thy ===== *)
theory Ext_Pull_Prop
  imports Pull_Logic Prop_Types
begin

text \<open>
  The readers of \<open>ext_buffer.c\<close> for property values, restrictions and rule actions, and
  their safety.

  \<open>ext_buffer_pull_propval\<close> and \<open>ext_buffer_pull_restriction\<close> call each other; the
  readers of the structures in between take the reader they call back as a parameter and
  the recursion is closed by two functions with fuel.  One unit of fuel is spent per
  call; \<open>pull_restriction_safe\<close> shows that the number of remaining bytes bounds the depth,
  \<open>fuel_le_propval\<close> that more fuel changes nothing.
\<close>

subsection \<open>Identifiers\<close>

definition pull_alloc_unchecked :: "nat \<Rightarrow> bool pull" where
  "pull_alloc_unchecked n e =
     (Inr (pl_alloc e (pl_allocs e) n), e\<lparr>pl_allocs := Suc (pl_allocs e)\<rparr>)"

text \<open>
  The second allocation is followed by a test of the wrong pointer, so that a failure is
  noticed only by the write through \<open>pb\<close>.
\<close>

definition ext_buffer_pull_svreid :: "svreid pull" where
  "ext_buffer_pull_svreid =
     bnd ext_buffer_pull_uint16 (\<lambda>length.
     bnd ext_buffer_pull_uint8 (\<lambda>ours.
       if ours = 0 then
         (let cb = (ucast length :: u32) - 1 in
          bnd (pull_alloc 16) (\<lambda>_.
          bnd (pull_alloc_unchecked (unat cb)) (\<lambda>pb_present.
          bnd (ext_buffer_pull_bytes cb) (\<lambda>pb.
            if \<not> pb_present \<and> cb \<noteq> 0 then fail NULL_WRITE
            else ret (SVREID (Some pb) 0 0 0)))))
       else if length \<noteq> 21 then fail EXT_ERR_FORMAT
       else
         bnd ext_buffer_pull_uint64 (\<lambda>folder_id.
         bnd ext_buffer_pull_uint64 (\<lambda>message_id.
         bnd ext_buffer_pull_uint32 (\<lambda>inst.
         ret (SVREID None folder_id message_id inst))))))"

definition ext_buffer_pull_store_entryid :: "store_entryid pull" where
  "ext_buffer_pull_store_entryid =
     bnd ext_buffer_pull_uint32 (\<lambda>flags.
     bnd (ext_buffer_pull_bytes 16) (\<lambda>provider_uid.
     bnd ext_buffer_pull_uint8 (\<lambda>version.
     bnd ext_buffer_pull_uint8 (\<lambda>flag.
     bnd (ext_buffer_pull_bytes 14) (\<lambda>dll_name.
     bnd ext_buffer_pull_uint32 (\<lambda>wrapped_flags.
     bnd (ext_buffer_pull_bytes 16) (\<lambda>wrapped_provider_uid.
     bnd ext_buffer_pull_uint32 (\<lambda>wrapped_type.
     bnd ext_buffer_pull_string (\<lambda>server_name.
     bnd ext_buffer_pull_string (\<lambda>mailbox_dn.
     ret (STORE_ENTRYID flags provider_uid version flag dll_name wrapped_flags
       wrapped_provider_uid wrapped_type server_name mailbox_dn)))))))))))"

subsection \<open>Restrictions\<close>

definition ext_buffer_pull_restriction_and_or :: "restriction pull \<Rightarrow> res_data pull" where
  "ext_buffer_pull_restriction_and_or pull_restriction =
     bnd (gets pl_flags) (\<lambda>flags.
     bnd (if has_flag flags EXT_FLAG_WCOUNT then ext_buffer_pull_uint32
          else bnd ext_buffer_pull_uint16 (\<lambda>count. ret (ucast count))) (\<lambda>count.
     bnd (pull_elems 16 (unat count) pull_restriction) (\<lambda>pres.
     ret (RES_AND_OR pres))))"

definition ext_buffer_pull_restriction_not :: "restriction pull \<Rightarrow> res_data pull" where
  "ext_buffer_pull_restriction_not pull_restriction =
     bnd pull_restriction (\<lambda>res. ret (RES_NOT res))"

definition ext_buffer_pull_restriction_content :: "tagged_propval pull \<Rightarrow> res_data pull" where
  "ext_buffer_pull_restriction_content pull_tagged_propval =
     bnd ext_buffer_pull_uint32 (\<lambda>fuzzy_level.
     bnd ext_buffer_pull_uint32 (\<lambda>proptag.
     bnd pull_tagged_propval (\<lambda>propval.
     ret (RES_CONTENT fuzzy_level proptag propval))))"

definition ext_buffer_pull_restriction_property :: "tagged_propval pull \<Rightarrow> res_data pull" where
  "ext_buffer_pull_restriction_property pull_tagged_propval =
     bnd ext_buffer_pull_uint8 (\<lambda>relop.
     bnd ext_buffer_pull_uint32 (\<lambda>proptag.
     bnd pull_tagged_propval (\<lambda>propval.
     ret (RES_PROPERTY relop proptag propval))))"

definition ext_buffer_pull_restriction_propcompare :: "res_data pull" where
  "ext_buffer_pull_restriction_propcompare =
     bnd ext_buffer_pull_uint8 (\<lambda>relop.
     bnd ext_buffer_pull_uint32 (\<lambda>proptag1.
     bnd ext_buffer_pull_uint32 (\<lambda>proptag2.
     ret (RES_PROPCOMPARE relop proptag1 proptag2))))"

definition ext_buffer_pull_restriction_bitmask :: "res_data pull" where
  "ext_buffer_pull_restriction_bitmask =
     bnd ext_buffer_pull_uint8 (\<lambda>bitmask_relop.
     bnd ext_buffer_pull_uint32 (\<lambda>proptag.
     bnd ext_buffer_pull_uint32 (\<lambda>mask.
     ret (RES_BITMASK bitmask_relop proptag mask))))"

definition ext_buffer_pull_restriction_size :: "res_data pull" where
  "ext_buffer_pull_restriction_size =
     bnd ext_buffer_pull_uint8 (\<lambda>relop.
     bnd ext_buffer_pull_uint32 (\<lambda>proptag.
     bnd ext_buffer_pull_uint32 (\<lambda>sz.
     ret (RES_SIZE relop proptag sz))))"

definition ext_buffer_pull_restriction_exist :: "res_data pull" where
  "ext_buffer_pull_restriction_exist =
     bnd ext_buffer_pull_uint32 (\<lambda>proptag. ret (RES_EXIST proptag))"

definition ext_buffer_pull_restriction_subobj :: "restriction pull \<Rightarrow> res_data pull" where
  "ext_buffer_pull_restriction_subobj pull_restriction =
     bnd ext_buffer_pull_uint32 (\<lambda>subobject.
     bnd pull_restriction (\<lambda>res.
     ret (RES_SUBOBJ subobject res)))"

definition ext_buffer_pull_restriction_comment ::
    "restriction pull \<Rightarrow> tagged_propval pull \<Rightarrow> res_data pull" where
  "ext_buffer_pull_restriction_comment pull_restriction pull_tagged_propval =
     bnd ext_buffer_pull_uint8 (\<lambda>count.
       if count = 0 then fail EXT_ERR_FORMAT
       else
         bnd (pull_elems 16 (unat count) pull_tagged_propval) (\<lambda>ppropval.
         bnd ext_buffer_pull_uint8 (\<lambda>res_present.
           if res_present \<noteq> 0
           then bnd (pull_alloc 16) (\<lambda>_.
                bnd pull_restriction (\<lambda>res.
                ret (RES_COMMENT ppropval (Some res))))
           else ret (RES_COMMENT ppropval None))))"

definition ext_buffer_pull_restriction_count :: "restriction pull \<Rightarrow> res_data pull" where
  "ext_buffer_pull_restriction_count pull_restriction =
     bnd ext_buffer_pull_uint32 (\<lambda>count.
     bnd pull_restriction (\<lambda>sub_res.
     ret (RES_COUNT count sub_res)))"

text \<open>The switch over \<open>rt\<close>: the size allocated and the reader called.\<close>

definition pull_res_data ::
    "restriction pull \<Rightarrow> tagged_propval pull \<Rightarrow> u8 \<Rightarrow> res_data pull" where
  "pull_res_data pr pt rt =
     (if rt = RESTRICTION_TYPE_AND \<or> rt = RESTRICTION_TYPE_OR
      then bnd (pull_alloc 16) (\<lambda>_. ext_buffer_pull_restriction_and_or pr)
      else if rt = RESTRICTION_TYPE_NOT
      then bnd (pull_alloc 16) (\<lambda>_. ext_buffer_pull_restriction_not pr)
      else if rt = RESTRICTION_TYPE_CONTENT
      then bnd (pull_alloc 24) (\<lambda>_. ext_buffer_pull_restriction_content pt)
      else if rt = RESTRICTION_TYPE_PROPERTY
      then bnd (pull_alloc 24) (\<lambda>_. ext_buffer_pull_restriction_property pt)
      else if rt = RESTRICTION_TYPE_PROPCOMPARE
      then bnd (pull_alloc 12) (\<lambda>_. ext_buffer_pull_restriction_propcompare)
      else if rt = RESTRICTION_TYPE_BITMASK
      then bnd (pull_alloc 12) (\<lambda>_. ext_buffer_pull_restriction_bitmask)
      else if rt = RESTRICTION_TYPE_SIZE
      then bnd (pull_alloc 12) (\<lambda>_. ext_buffer_pull_restriction_size)
      else if rt = RESTRICTION_TYPE_EXIST
      then bnd (pull_alloc 4) (\<lambda>_. ext_buffer_pull_restriction_exist)
      else if rt = RESTRICTION_TYPE_SUBOBJ
      then bnd (pull_alloc 24) (\<lambda>_. ext_buffer_pull_restriction_subobj pr)
      else if rt = RESTRICTION_TYPE_COMMENT
      then bnd (pull_alloc 24) (\<lambda>_. ext_buffer_pull_restriction_comment pr pt)
      else if rt = RESTRICTION_TYPE_COUNT
      then bnd (pull_alloc 24) (\<lambda>_. ext_buffer_pull_restriction_count pr)
      else if rt = RESTRICTION_TYPE_NULL then ret RES_NULL
      else fail EXT_ERR_BAD_SWITCH)"

definition pull_restriction_body ::
    "restriction pull \<Rightarrow> tagged_propval pull \<Rightarrow> restriction pull" where
  "pull_restriction_body pr pt =
     bnd ext_buffer_pull_uint8 (\<lambda>rt.
     bnd (pull_res_data pr pt rt) (\<lambda>pres. ret (RESTRICTION rt pres)))"

subsection \<open>Rule actions\<close>

definition ext_buffer_pull_movecopy_action :: "movecopy_action pull" where
  "ext_buffer_pull_movecopy_action =
     bnd ext_buffer_pull_uint8 (\<lambda>same_store.
     bnd ext_buffer_pull_uint16 (\<lambda>eid_size.
     bnd (if same_store = 0
          then bnd (pull_alloc 80) (\<lambda>_.
               bnd ext_buffer_pull_store_entryid (\<lambda>eid. ret (Some eid)))
          else bnd (ext_buffer_pull_advance (ucast eid_size)) (\<lambda>_. ret None)) (\<lambda>store_eid.
       if same_store \<noteq> 0
       then bnd (pull_alloc 32) (\<lambda>_.
            bnd ext_buffer_pull_svreid (\<lambda>eid.
            ret (MOVECOPY_ACTION same_store store_eid (EID_SVREID eid))))
       else bnd (pull_alloc 16) (\<lambda>_.
            bnd ext_buffer_pull_binary (\<lambda>eid.
            ret (MOVECOPY_ACTION same_store store_eid (EID_BINARY eid)))))))"

definition ext_buffer_pull_reply_action :: "reply_action pull" where
  "ext_buffer_pull_reply_action =
     bnd ext_buffer_pull_uint64 (\<lambda>template_folder_id.
     bnd ext_buffer_pull_uint64 (\<lambda>template_message_id.
     bnd ext_buffer_pull_guid (\<lambda>template_guid.
     ret (REPLY_ACTION template_folder_id template_message_id template_guid))))"

definition ext_buffer_pull_recipient_block :: "tagged_propval pull \<Rightarrow> recipient_block pull" where
  "ext_buffer_pull_recipient_block pull_tagged_propval =
     bnd ext_buffer_pull_uint8 (\<lambda>reserved.
     bnd ext_buffer_pull_uint16 (\<lambda>count.
       if count = 0 then fail EXT_ERR_FORMAT
       else bnd (pull_elems 16 (unat count) pull_tagged_propval) (\<lambda>ppropval.
            ret (RECIPIENT_BLOCK reserved ppropval))))"

definition ext_buffer_pull_forwarddelegate_action ::
    "tagged_propval pull \<Rightarrow> recipient_block list pull" where
  "ext_buffer_pull_forwarddelegate_action pull_tagged_propval =
     bnd ext_buffer_pull_uint16 (\<lambda>count.
       if count = 0 then fail EXT_ERR_FORMAT
       else pull_elems 16 (unat count) (ext_buffer_pull_recipient_block pull_tagged_propval))"

text \<open>\<open>tmp_len\<close> is a \<open>uint16_t\<close>.\<close>

definition pull_action_data :: "tagged_propval pull \<Rightarrow> u16 \<Rightarrow> u8 \<Rightarrow> action_data pull" where
  "pull_action_data pull_tagged_propval len type =
     (if type = ACTION_TYPE_OP_MOVE \<or> type = ACTION_TYPE_OP_COPY
      then bnd (pull_alloc 24) (\<lambda>_.
           bnd ext_buffer_pull_movecopy_action (\<lambda>a. ret (AD_MOVECOPY a)))
      else if type = ACTION_TYPE_OP_REPLY \<or> type = ACTION_TYPE_OP_OOF_REPLY
      then bnd (pull_alloc 32) (\<lambda>_.
           bnd ext_buffer_pull_reply_action (\<lambda>a. ret (AD_REPLY a)))
      else if type = ACTION_TYPE_OP_DEFER_ACTION
      then (let tmp_len = len - 1 - 2 * 4 in
            bnd (pull_alloc (unat tmp_len)) (\<lambda>_.
            bnd (ext_buffer_pull_bytes (ucast tmp_len)) (\<lambda>b. ret (AD_DEFER b))))
      else if type = ACTION_TYPE_OP_BOUNCE
      then bnd (pull_alloc 4) (\<lambda>_.
           bnd ext_buffer_pull_uint32 (\<lambda>c. ret (AD_BOUNCE c)))
      else if type = ACTION_TYPE_OP_FORWARD \<or> type = ACTION_TYPE_OP_DELEGATE
      then bnd (pull_alloc 16) (\<lambda>_.
           bnd (ext_buffer_pull_forwarddelegate_action pull_tagged_propval) (\<lambda>bs.
           ret (AD_FORWARDDELEGATE bs)))
      else if type = ACTION_TYPE_OP_TAG
      then bnd (pull_alloc 16) (\<lambda>_.
           bnd pull_tagged_propval (\<lambda>v. ret (AD_TAG v)))
      else if type = ACTION_TYPE_OP_DELETE \<or> type = ACTION_TYPE_OP_MARK_AS_READ
      then ret AD_NONE
      else fail EXT_ERR_BAD_SWITCH)"

definition ext_buffer_pull_action_block :: "tagged_propval pull \<Rightarrow> action_block pull" where
  "ext_buffer_pull_action_block pull_tagged_propval =
     bnd ext_buffer_pull_uint16 (\<lambda>len.
     bnd ext_buffer_pull_uint8 (\<lambda>type.
     bnd ext_buffer_pull_uint32 (\<lambda>flavor.
     bnd ext_buffer_pull_uint32 (\<lambda>flags.
     bnd (pull_action_data pull_tagged_propval len type) (\<lambda>pdata.
     ret (ACTION_BLOCK len type flavor flags pdata))))))"

definition pull_rule_actions :: "tagged_propval pull \<Rightarrow> action_block list pull" where
  "pull_rule_actions pull_tagged_propval =
     bnd ext_buffer_pull_uint16 (\<lambda>count.
       if count = 0 then fail EXT_ERR_FORMAT
       else pull_elems 24 (unat count) (ext_buffer_pull_action_block pull_tagged_propval))"

subsection \<open>Property values\<close>

definition pull_typed_body :: "(u16 \<Rightarrow> propval pull) \<Rightarrow> propval pull" where
  "pull_typed_body pull_propval =
     bnd ext_buffer_pull_uint16 (\<lambda>type.
     bnd (pull_propval type) (\<lambda>pvalue. ret (PV_TYPED type pvalue)))"

definition pull_tagged_body :: "(u16 \<Rightarrow> propval pull) \<Rightarrow> tagged_propval pull" where
  "pull_tagged_body pull_propval =
     bnd ext_buffer_pull_uint32 (\<lambda>proptag.
     bnd (pull_propval (proptag_type proptag)) (\<lambda>pvalue. ret (TAGGED_PROPVAL proptag pvalue)))"

text \<open>Allocate the value, read it, point to it.\<close>

definition pull_into :: "nat \<Rightarrow> 'a pull \<Rightarrow> ('a \<Rightarrow> propval) \<Rightarrow> propval pull" where
  "pull_into sizeof p c = bnd (pull_alloc sizeof) (\<lambda>_. bnd p (\<lambda>x. ret (c x)))"

definition pull_propval_body ::
    "(u16 \<Rightarrow> propval pull) \<Rightarrow> restriction pull \<Rightarrow> u16 \<Rightarrow> propval pull" where
  "pull_propval_body pv pr type0 =
     (let type = single_type type0 in
      if type = PROPVAL_TYPE_UNSPECIFIED
      then bnd (pull_alloc 16) (\<lambda>_. pull_typed_body pv)
      else if type = PROPVAL_TYPE_SHORT
      then pull_into 2 ext_buffer_pull_uint16 PV_SHORT
      else if type = PROPVAL_TYPE_LONG \<or> type = PROPVAL_TYPE_ERROR
      then pull_into 4 ext_buffer_pull_uint32 PV_LONG
      else if type = PROPVAL_TYPE_FLOAT
      then pull_into 4 ext_buffer_pull_float PV_FLOAT
      else if type = PROPVAL_TYPE_DOUBLE \<or> type = PROPVAL_TYPE_FLOATINGTIME
      then pull_into 8 ext_buffer_pull_double PV_DOUBLE
      else if type = PROPVAL_TYPE_BYTE
      then pull_into 1 ext_buffer_pull_uint8 PV_BYTE
      else if type = PROPVAL_TYPE_CURRENCY \<or> type = PROPVAL_TYPE_LONGLONG \<or>
        type = PROPVAL_TYPE_FILETIME
      then pull_into 8 ext_buffer_pull_uint64 PV_LONGLONG
      else if type = PROPVAL_TYPE_STRING
      then bnd ext_buffer_pull_string (\<lambda>s. ret (PV_STRING s))
      else if type = PROPVAL_TYPE_WSTRING
      then bnd ext_buffer_pull_wstring (\<lambda>s. ret (PV_STRING s))
      else if type = PROPVAL_TYPE_SVREID
      then pull_into 32 ext_buffer_pull_svreid PV_SVREID
      else if type = PROPVAL_TYPE_GUID
      then pull_into 16 ext_buffer_pull_guid PV_GUID
      else if type = PROPVAL_TYPE_RESTRICTION
      then pull_into 16 pr PV_RESTRICTION
      else if type = PROPVAL_TYPE_RULE
      then pull_into 16 (pull_rule_actions (pull_tagged_body pv)) PV_RULE
      else if type = PROPVAL_TYPE_BINARY \<or> type = PROPVAL_TYPE_OBJECT
      then pull_into 16 ext_buffer_pull_binary PV_BINARY
      else if type = PROPVAL_TYPE_SHORT_ARRAY
      then pull_into 16 ext_buffer_pull_short_array PV_SHORT_ARRAY
      else if type = PROPVAL_TYPE_LONG_ARRAY
      then pull_into 16 ext_buffer_pull_long_array PV_LONG_ARRAY
      else if type = PROPVAL_TYPE_LONGLONG_ARRAY
      then pull_into 16 ext_buffer_pull_longlong_array PV_LONGLONG_ARRAY
      else if type = PROPVAL_TYPE_STRING_ARRAY
      then pull_into 16 ext_buffer_pull_string_array PV_STRING_ARRAY
      else if type = PROPVAL_TYPE_WSTRING_ARRAY
      then pull_into 16 ext_buffer_pull_wstring_array PV_STRING_ARRAY
      else if type = PROPVAL_TYPE_GUID_ARRAY
      then pull_into 16 ext_buffer_pull_guid_array PV_GUID_ARRAY
      else if type = PROPVAL_TYPE_BINARY_ARRAY
      then pull_into 16 ext_buffer_pull_binary_array PV_BINARY_ARRAY
      else fail EXT_ERR_BAD_SWITCH)"

text \<open>Closing the recursion.\<close>

fun pull_propval :: "nat \<Rightarrow> u16 \<Rightarrow> propval pull"
  and pull_restriction :: "nat \<Rightarrow> restriction pull" where
  "pull_propval 0 type = fail OUT_OF_FUEL"
| "pull_propval (Suc n) type = pull_propval_body (pull_propval n) (pull_restriction n) type"
| "pull_restriction 0 = fail OUT_OF_FUEL"
| "pull_restriction (Suc n) =
     pull_restriction_body (pull_restriction n) (pull_tagged_body (pull_propval n))"

text \<open>The functions of the header file: two units of fuel per byte of the buffer are enough.\<close>

definition depth :: "ext_pull \<Rightarrow> nat" where
  "depth e = 2 * unat (pl_data_size e) + 2"

definition ext_buffer_pull_propval :: "u16 \<Rightarrow> propval pull" where
  "ext_buffer_pull_propval type e = pull_propval (depth e) type e"

definition ext_buffer_pull_restriction :: "restriction pull" where
  "ext_buffer_pull_restriction e = pull_restriction (depth e) e"

definition ext_buffer_pull_typed_propval :: "propval pull" where
  "ext_buffer_pull_typed_propval = pull_typed_body ext_buffer_pull_propval"

definition ext_buffer_pull_tagged_propval :: "tagged_propval pull" where
  "ext_buffer_pull_tagged_propval = pull_tagged_body ext_buffer_pull_propval"

definition ext_buffer_pull_rule_actions :: "action_block list pull" where
  "ext_buffer_pull_rule_actions = pull_rule_actions ext_buffer_pull_tagged_propval"

subsection \<open>Safety\<close>

lemma safe_alloc_unchecked:
  assumes "safe b (k True)"
    "\<And>e. pull_inv e \<Longrightarrow> remaining e < b \<Longrightarrow> \<not> willing e \<Longrightarrow> good_end e (k False e)"
  shows "safe b (bnd (pull_alloc_unchecked n) k)"
proof (rule safeI)
  fix e assume e: "pull_inv e" "remaining e < b"
  let ?e = "e\<lparr>pl_allocs := Suc (pl_allocs e)\<rparr>"
  have e': "pull_inv ?e" "remaining ?e < b" "willing ?e = willing e"
    using e by (simp_all add: remaining_def willing_def)
  have "good_end ?e (k True ?e)"
    using assms(1) e'(1,2) by (rule safeD)
  moreover have "good_end ?e (k False ?e)" if "\<not> pl_alloc e (pl_allocs e) n"
    using that e' by (intro assms(2)) (auto simp: willing_def)
  ultimately show "good_end e (bnd (pull_alloc_unchecked n) k e)"
    by (cases "pl_alloc e (pl_allocs e) n")
      (auto simp: bnd_def pull_alloc_unchecked_def intro: good_end_trans [of e ?e])
qed

lemma good_end_null_write:
  "pull_inv e \<Longrightarrow> remaining e < b \<Longrightarrow> \<not> willing e \<Longrightarrow>
     good_end e (bnd (ext_buffer_pull_bytes n) (\<lambda>x. if c x then fail NULL_WRITE else ret (g x)) e)"
  using safeD [OF safe_pull_bytes [of b n], of e]
  by (cases "ext_buffer_pull_bytes n e")
    (auto simp: bnd_def fail_def ret_def good_end_def split: sum.splits)

lemma safe_pull_svreid [safe_rules]: "safe b ext_buffer_pull_svreid"
  unfolding ext_buffer_pull_svreid_def Let_def
  by (intro safe_rules safe_alloc_unchecked; simp add: good_end_null_write safe_rules)

lemma safe_pull_store_entryid [safe_rules]: "safe b ext_buffer_pull_store_entryid"
  unfolding ext_buffer_pull_store_entryid_def by (intro safe_rules)

lemma safe_pull_movecopy_action [safe_rules]: "safe b ext_buffer_pull_movecopy_action"
  unfolding ext_buffer_pull_movecopy_action_def
  by (intro safe_rules) (simp add: less_trans [OF word_bounds(2)])

lemma safe_pull_reply_action [safe_rules]: "safe b ext_buffer_pull_reply_action"
  unfolding ext_buffer_pull_reply_action_def by (intro safe_rules)

lemmas pull_res_data_defs =
  ext_buffer_pull_restriction_and_or_def ext_buffer_pull_restriction_not_def
  ext_buffer_pull_restriction_content_def ext_buffer_pull_restriction_property_def
  ext_buffer_pull_restriction_propcompare_def ext_buffer_pull_restriction_bitmask_def
  ext_buffer_pull_restriction_size_def ext_buffer_pull_restriction_exist_def
  ext_buffer_pull_restriction_subobj_def ext_buffer_pull_restriction_comment_def
  ext_buffer_pull_restriction_count_def

lemma safe_pull_res_data: "safe b pr \<Longrightarrow> safe b pt \<Longrightarrow> safe b (pull_res_data pr pt rt)"
  unfolding pull_res_data_def pull_res_data_defs
  by (intro safe_rules; simp)

lemma safe_restriction_body:
  "safe b pr \<Longrightarrow> safe b pt \<Longrightarrow> safe (Suc b) (pull_restriction_body pr pt)"
  unfolding pull_restriction_body_def
  by (intro safe_bnd_consumes safe_bnd consumes_scalars safe_rules safe_pull_res_data)

lemma safe_pull_recipients:
  "safe b pt \<Longrightarrow> safe b (ext_buffer_pull_forwarddelegate_action pt)"
  unfolding ext_buffer_pull_forwarddelegate_action_def ext_buffer_pull_recipient_block_def
  by (intro safe_rules; simp)

lemma safe_pull_action_data [safe_rules]: "safe b pt \<Longrightarrow> safe b (pull_action_data pt len type)"
  unfolding pull_action_data_def Let_def
  by (intro safe_rules safe_pull_recipients; simp)

lemma safe_rule_actions [safe_rules]: "safe b pt \<Longrightarrow> safe b (pull_rule_actions pt)"
  unfolding pull_rule_actions_def ext_buffer_pull_action_block_def
  by (intro safe_rules; simp)

lemma safe_typed_body: "(\<And>t. safe b (pv t)) \<Longrightarrow> safe (Suc b) (pull_typed_body pv)"
  unfolding pull_typed_body_def
  by (intro safe_bnd_consumes safe_bnd consumes_scalars safe_rules)

lemma safe_tagged_body: "(\<And>t. safe b (pv t)) \<Longrightarrow> safe (Suc b) (pull_tagged_body pv)"
  unfolding pull_tagged_body_def
  by (intro safe_bnd_consumes safe_bnd consumes_scalars safe_rules)

lemma safe_pull_into [safe_rules]: "safe b p \<Longrightarrow> safe b (pull_into n p c)"
  unfolding pull_into_def by (intro safe_rules)

lemma safe_propval_body:
  "(\<And>t. safe b (pv t)) \<Longrightarrow> safe (Suc b) pr \<Longrightarrow> safe (Suc b) (pull_propval_body pv pr t)"
  unfolding pull_propval_body_def Let_def
  by (intro safe_rules safe_typed_body safe_tagged_body; simp)

text \<open>Every nested value and every nested restriction costs at least one byte.\<close>

lemma pull_propval_safe: "2 * b \<le> n \<Longrightarrow> safe b (pull_propval n t)"
  and pull_restriction_safe: "2 * b \<le> n + 1 \<Longrightarrow> safe b (pull_restriction n)"
proof (induction n arbitrary: b t)
  case 0
  { case 1 then show ?case by simp }
  { case 2 then have "b = 0" by simp then show ?case by simp }
next
  case (Suc n)
  { case 1
    then show ?case
      by (cases b) (auto intro!: safe_propval_body Suc.IH)
  }
  { case 2
    then show ?case
    proof (cases b)
      case (Suc c)
      with 2 have "2 * c \<le> n" by simp
      then have "safe c (pull_tagged_body (pull_propval n))"
        by (cases c) (auto intro!: safe_tagged_body Suc.IH)
      moreover have "safe c (pull_restriction n)"
        using \<open>2 * c \<le> n\<close> by (intro Suc.IH) simp
      ultimately show ?thesis
        using Suc by (simp add: safe_restriction_body)
    qed simp
  }
qed

lemma depth_safe:
  "pull_inv e \<Longrightarrow> good_end e (pull_propval (depth e) t e)"
  "pull_inv e \<Longrightarrow> good_end e (pull_restriction (depth e) e)"
  using safeD [OF pull_propval_safe [of "Suc (remaining e)" "depth e"], of e]
    safeD [OF pull_restriction_safe [of "Suc (remaining e)" "depth e"], of e]
  by (simp_all add: depth_def remaining_def)

lemma safe_ext_pull_propval [safe_rules]:
  "safe b (ext_buffer_pull_propval t)" "safe b ext_buffer_pull_restriction"
  by (auto intro!: safeI simp: ext_buffer_pull_propval_def ext_buffer_pull_restriction_def depth_safe)

lemma safe_ext_pull_tagged [safe_rules]:
  "safe b ext_buffer_pull_typed_propval" "safe b ext_buffer_pull_tagged_propval"
  unfolding ext_buffer_pull_typed_propval_def ext_buffer_pull_tagged_propval_def
    pull_typed_body_def pull_tagged_body_def
  by (intro safe_rules)+

lemma safe_ext_pull_rule_actions [safe_rules]: "safe b ext_buffer_pull_rule_actions"
  unfolding ext_buffer_pull_rule_actions_def by (intro safe_rules)

subsection \<open>The fuel does not matter\<close>

lemma fuel_le_restriction_body:
  "fuel_le pr pr' \<Longrightarrow> fuel_le pt pt' \<Longrightarrow>
     fuel_le (pull_restriction_body pr pt) (pull_restriction_body pr' pt')"
  unfolding pull_restriction_body_def pull_res_data_def pull_res_data_defs
  by (intro fuel_rules)

lemma fuel_le_typed_bodies:
  assumes "\<And>t. fuel_le (pv t) (pv' t)"
  shows "fuel_le (pull_typed_body pv) (pull_typed_body pv')"
    "fuel_le (pull_tagged_body pv) (pull_tagged_body pv')"
  unfolding pull_typed_body_def pull_tagged_body_def by (intro fuel_rules assms)+

lemma fuel_le_rule_actions:
  "fuel_le pt pt' \<Longrightarrow> fuel_le (pull_rule_actions pt) (pull_rule_actions pt')"
  unfolding pull_rule_actions_def ext_buffer_pull_action_block_def pull_action_data_def Let_def
    ext_buffer_pull_forwarddelegate_action_def ext_buffer_pull_recipient_block_def
  by (intro fuel_rules)

lemma fuel_le_propval_body:
  "(\<And>t. fuel_le (pv t) (pv' t)) \<Longrightarrow> fuel_le pr pr' \<Longrightarrow>
     fuel_le (pull_propval_body pv pr t) (pull_propval_body pv' pr' t)"
  unfolding pull_propval_body_def Let_def pull_into_def
  by (intro fuel_rules fuel_le_typed_bodies fuel_le_rule_actions)

lemma fuel_le_Suc:
  "fuel_le (pull_propval n t) (pull_propval (Suc n) t)"
  "fuel_le (pull_restriction n) (pull_restriction (Suc n))"
proof (induction n arbitrary: t)
  case 0
  { case 1 show ?case by (simp add: fuel_le_fail) }
  { case 2 show ?case by (simp add: fuel_le_fail) }
next
  case (Suc n)
  { case 1 show ?case
      by (subst (1 2) pull_propval.simps) (intro fuel_le_propval_body Suc.IH) }
  { case 2 show ?case
      by (subst (1 2) pull_restriction.simps)
        (intro fuel_le_restriction_body fuel_le_typed_bodies Suc.IH) }
qed

lemma fuel_le_more:
  "m \<le> n \<Longrightarrow> fuel_le (pull_propval m t) (pull_propval n t)"
  "m \<le> n \<Longrightarrow> fuel_le (pull_restriction m) (pull_restriction n)"
  by (induction n rule: nat_induct_at_least; blast intro: fuel_le_refl fuel_le_trans fuel_le_Suc)+

text \<open>Any fuel that is enough gives the result of the function of the header file.\<close>

lemma good_end_fuel: "good_end e r \<Longrightarrow> fst r \<noteq> Inl OUT_OF_FUEL"
  by (auto simp: good_end_def)

lemma ext_pull_enough_fuel:
  assumes "pull_inv e"
  shows "fst (pull_propval n t e) \<noteq> Inl OUT_OF_FUEL \<Longrightarrow>
      ext_buffer_pull_propval t e = pull_propval n t e"
    "fst (pull_restriction n e) \<noteq> Inl OUT_OF_FUEL \<Longrightarrow>
      ext_buffer_pull_restriction e = pull_restriction n e"
  using good_end_fuel [OF depth_safe(1) [OF assms]] good_end_fuel [OF depth_safe(2) [OF assms]]
    fuel_le_more [of n "depth e"] fuel_le_more [of "depth e" n]
  unfolding ext_buffer_pull_propval_def ext_buffer_pull_restriction_def fuel_le_def
  by (metis nat_le_linear)+

lemma reads_ext_pull:
  "reads f (pull_propval n t) bs v \<Longrightarrow> reads f (ext_buffer_pull_propval t) bs v"
  "reads f (pull_restriction n) bs r \<Longrightarrow> reads f ext_buffer_pull_restriction bs r"
  using ext_pull_enough_fuel
  by (auto intro!: readsI elim!: readsE) (metis fst_conv sum.distinct(1))+

end
