(* ===== verification/Ext_Push_Prop.thy ===== *)
theory Ext_Push_Prop
  imports Ext_Push Prop_Types
begin

text \<open>
  The writers of \<open>ext_buffer.c\<close> for property values, restrictions and rule actions.

  As on the reading side, the structures in between take the writers they call back as
  parameters; the recursion is closed on the structure of the value.  A \<open>void *\<close> that
  does not point to what the tag beside it says is read as another type, which is
  undefined behaviour.
\<close>

subsection \<open>Identifiers\<close>

definition ext_buffer_push_svreid :: "svreid \<Rightarrow> push" where
  "ext_buffer_push_svreid r =
     (case se_bin r of
        Some pb \<Rightarrow>
          seq (ext_buffer_push_uint16 (of_nat (length pb) + 1))
         (seq (ext_buffer_push_uint8 0)
              (ext_buffer_push_bytes pb))
      | None \<Rightarrow>
          seq (ext_buffer_push_uint16 21)
         (seq (ext_buffer_push_uint8 1)
         (seq (ext_buffer_push_uint64 (se_folder_id r))
         (seq (ext_buffer_push_uint64 (se_message_id r))
              (ext_buffer_push_uint32 (se_instance r))))))"

definition ext_buffer_push_store_entryid :: "store_entryid \<Rightarrow> push" where
  "ext_buffer_push_store_entryid r =
     seq (ext_buffer_push_uint32 (st_flags r))
    (seq (ext_buffer_push_bytes (st_provider_uid r))
    (seq (ext_buffer_push_uint8 (st_version r))
    (seq (ext_buffer_push_uint8 (st_flag r))
    (seq (ext_buffer_push_bytes (st_dll_name r))
    (seq (ext_buffer_push_uint32 (st_wrapped_flags r))
    (seq (ext_buffer_push_bytes (st_wrapped_provider_uid r))
    (seq (ext_buffer_push_uint32 (st_wrapped_type r))
    (seq (ext_buffer_push_string (st_server_name r))
         (ext_buffer_push_string (st_mailbox_dn r))))))))))"

subsection \<open>Restrictions\<close>

definition ext_buffer_push_restriction_and_or ::
    "(restriction \<Rightarrow> push) \<Rightarrow> restriction list \<Rightarrow> push" where
  "ext_buffer_push_restriction_and_or push_restriction pres =
     seq (bnd (gets ps_flags) (\<lambda>flags.
            if has_flag flags EXT_FLAG_WCOUNT
            then ext_buffer_push_uint32 (of_nat (length pres))
            else ext_buffer_push_uint16 (of_nat (length pres))))
         (for_each push_restriction pres)"

definition ext_buffer_push_restriction_not ::
    "(restriction \<Rightarrow> push) \<Rightarrow> restriction \<Rightarrow> push" where
  "ext_buffer_push_restriction_not push_restriction res = push_restriction res"

definition ext_buffer_push_restriction_content ::
    "(tagged_propval \<Rightarrow> push) \<Rightarrow> u32 \<Rightarrow> u32 \<Rightarrow> tagged_propval \<Rightarrow> push" where
  "ext_buffer_push_restriction_content push_tagged_propval fuzzy_level proptag propval =
     seq (ext_buffer_push_uint32 fuzzy_level)
    (seq (ext_buffer_push_uint32 proptag)
         (push_tagged_propval propval))"

definition ext_buffer_push_restriction_property ::
    "(tagged_propval \<Rightarrow> push) \<Rightarrow> u8 \<Rightarrow> u32 \<Rightarrow> tagged_propval \<Rightarrow> push" where
  "ext_buffer_push_restriction_property push_tagged_propval relop proptag propval =
     seq (ext_buffer_push_uint8 relop)
    (seq (ext_buffer_push_uint32 proptag)
         (push_tagged_propval propval))"

definition ext_buffer_push_restriction_propcompare :: "u8 \<Rightarrow> u32 \<Rightarrow> u32 \<Rightarrow> push" where
  "ext_buffer_push_restriction_propcompare relop proptag1 proptag2 =
     seq (ext_buffer_push_uint8 relop)
    (seq (ext_buffer_push_uint32 proptag1)
         (ext_buffer_push_uint32 proptag2))"

definition ext_buffer_push_restriction_bitmask :: "u8 \<Rightarrow> u32 \<Rightarrow> u32 \<Rightarrow> push" where
  "ext_buffer_push_restriction_bitmask bitmask_relop proptag msk =
     seq (ext_buffer_push_uint8 bitmask_relop)
    (seq (ext_buffer_push_uint32 proptag)
         (ext_buffer_push_uint32 msk))"

definition ext_buffer_push_restriction_size :: "u8 \<Rightarrow> u32 \<Rightarrow> u32 \<Rightarrow> push" where
  "ext_buffer_push_restriction_size relop proptag sz =
     seq (ext_buffer_push_uint8 relop)
    (seq (ext_buffer_push_uint32 proptag)
         (ext_buffer_push_uint32 sz))"

definition ext_buffer_push_restriction_exist :: "u32 \<Rightarrow> push" where
  "ext_buffer_push_restriction_exist proptag = ext_buffer_push_uint32 proptag"

definition ext_buffer_push_restriction_subobj ::
    "(restriction \<Rightarrow> push) \<Rightarrow> u32 \<Rightarrow> restriction \<Rightarrow> push" where
  "ext_buffer_push_restriction_subobj push_restriction subobject res =
     seq (ext_buffer_push_uint32 subobject) (push_restriction res)"

definition ext_buffer_push_restriction_comment ::
    "(restriction \<Rightarrow> push) \<Rightarrow> (tagged_propval \<Rightarrow> push) \<Rightarrow>
       tagged_propval list \<Rightarrow> restriction option \<Rightarrow> push" where
  "ext_buffer_push_restriction_comment push_restriction push_tagged_propval ppropval pres =
     (if length ppropval = 0 then fail EXT_ERR_FORMAT
      else
        seq (ext_buffer_push_uint8 (of_nat (length ppropval)))
       (seq (for_each push_tagged_propval ppropval)
            (case pres of
               Some res \<Rightarrow> seq (ext_buffer_push_uint8 1) (push_restriction res)
             | None \<Rightarrow> ext_buffer_push_uint8 0)))"

definition ext_buffer_push_restriction_count ::
    "(restriction \<Rightarrow> push) \<Rightarrow> u32 \<Rightarrow> restriction \<Rightarrow> push" where
  "ext_buffer_push_restriction_count push_restriction count sub_res =
     seq (ext_buffer_push_uint32 count) (push_restriction sub_res)"

text \<open>The switch over \<open>rt\<close>, which says what \<open>pres\<close> is taken to point to.\<close>

definition push_res_data ::
    "(restriction \<Rightarrow> push) \<Rightarrow> (tagged_propval \<Rightarrow> push) \<Rightarrow> u8 \<Rightarrow> res_data \<Rightarrow> push" where
  "push_res_data pr pt rt pres =
     (if rt = RESTRICTION_TYPE_AND \<or> rt = RESTRICTION_TYPE_OR
      then case pres of RES_AND_OR rs \<Rightarrow> ext_buffer_push_restriction_and_or pr rs
           | _ \<Rightarrow> fail UNDEFINED_BEHAVIOUR
      else if rt = RESTRICTION_TYPE_NOT
      then case pres of RES_NOT r \<Rightarrow> ext_buffer_push_restriction_not pr r
           | _ \<Rightarrow> fail UNDEFINED_BEHAVIOUR
      else if rt = RESTRICTION_TYPE_CONTENT
      then case pres of RES_CONTENT a b v \<Rightarrow> ext_buffer_push_restriction_content pt a b v
           | _ \<Rightarrow> fail UNDEFINED_BEHAVIOUR
      else if rt = RESTRICTION_TYPE_PROPERTY
      then case pres of RES_PROPERTY a b v \<Rightarrow> ext_buffer_push_restriction_property pt a b v
           | _ \<Rightarrow> fail UNDEFINED_BEHAVIOUR
      else if rt = RESTRICTION_TYPE_PROPCOMPARE
      then case pres of RES_PROPCOMPARE a b c \<Rightarrow> ext_buffer_push_restriction_propcompare a b c
           | _ \<Rightarrow> fail UNDEFINED_BEHAVIOUR
      else if rt = RESTRICTION_TYPE_BITMASK
      then case pres of RES_BITMASK a b c \<Rightarrow> ext_buffer_push_restriction_bitmask a b c
           | _ \<Rightarrow> fail UNDEFINED_BEHAVIOUR
      else if rt = RESTRICTION_TYPE_SIZE
      then case pres of RES_SIZE a b c \<Rightarrow> ext_buffer_push_restriction_size a b c
           | _ \<Rightarrow> fail UNDEFINED_BEHAVIOUR
      else if rt = RESTRICTION_TYPE_EXIST
      then case pres of RES_EXIST a \<Rightarrow> ext_buffer_push_restriction_exist a
           | _ \<Rightarrow> fail UNDEFINED_BEHAVIOUR
      else if rt = RESTRICTION_TYPE_SUBOBJ
      then case pres of RES_SUBOBJ a r \<Rightarrow> ext_buffer_push_restriction_subobj pr a r
           | _ \<Rightarrow> fail UNDEFINED_BEHAVIOUR
      else if rt = RESTRICTION_TYPE_COMMENT
      then case pres of RES_COMMENT vs r \<Rightarrow> ext_buffer_push_restriction_comment pr pt vs r
           | _ \<Rightarrow> fail UNDEFINED_BEHAVIOUR
      else if rt = RESTRICTION_TYPE_COUNT
      then case pres of RES_COUNT a r \<Rightarrow> ext_buffer_push_restriction_count pr a r
           | _ \<Rightarrow> fail UNDEFINED_BEHAVIOUR
      else if rt = RESTRICTION_TYPE_NULL then ret ()
      else fail EXT_ERR_BAD_SWITCH)"

definition push_restriction_body ::
    "(restriction \<Rightarrow> push) \<Rightarrow> (tagged_propval \<Rightarrow> push) \<Rightarrow> u8 \<Rightarrow> res_data \<Rightarrow> push" where
  "push_restriction_body pr pt rt pres = seq (ext_buffer_push_uint8 rt) (push_res_data pr pt rt pres)"

subsection \<open>Rule actions\<close>

text \<open>The 16-bit length of a block; the caller has skipped its two bytes at \<open>offset\<close>.\<close>

definition patch_length16 :: "u32 \<Rightarrow> push" where
  "patch_length16 offset = patch_back (\<lambda>n. ext_buffer_push_uint16 (ucast n)) offset (offset + 2)"

definition ext_buffer_push_movecopy_action :: "movecopy_action \<Rightarrow> push" where
  "ext_buffer_push_movecopy_action r =
     seq (ext_buffer_push_uint8 (mc_same_store r))
    (seq (if mc_same_store r = 0
          then bnd (gets ps_offset) (\<lambda>offset.
               seq (ext_buffer_push_advance 2)
                   (case mc_store_eid r of
                      None \<Rightarrow> fail EXT_ERR_FORMAT
                    | Some eid \<Rightarrow>
                        seq (ext_buffer_push_store_entryid eid) (patch_length16 offset)))
          else seq (ext_buffer_push_uint16 1) (ext_buffer_push_uint8 0))
         (if mc_same_store r \<noteq> 0
          then case mc_folder_eid r of EID_SVREID eid \<Rightarrow> ext_buffer_push_svreid eid
               | _ \<Rightarrow> fail UNDEFINED_BEHAVIOUR
          else case mc_folder_eid r of EID_BINARY eid \<Rightarrow> ext_buffer_push_binary eid
               | _ \<Rightarrow> fail UNDEFINED_BEHAVIOUR))"

definition ext_buffer_push_reply_action :: "reply_action \<Rightarrow> push" where
  "ext_buffer_push_reply_action r =
     seq (ext_buffer_push_uint64 (ra_folder_id r))
    (seq (ext_buffer_push_uint64 (ra_message_id r))
         (ext_buffer_push_guid (ra_guid r)))"

definition ext_buffer_push_recipient_block ::
    "(tagged_propval \<Rightarrow> push) \<Rightarrow> u8 \<Rightarrow> tagged_propval list \<Rightarrow> push" where
  "ext_buffer_push_recipient_block push_tagged_propval reserved ppropval =
     (if length ppropval = 0 then fail EXT_ERR_FORMAT
      else
        seq (ext_buffer_push_uint8 reserved)
       (seq (ext_buffer_push_uint16 (of_nat (length ppropval)))
            (for_each push_tagged_propval ppropval)))"

definition ext_buffer_push_forwarddelegate_action ::
    "(tagged_propval \<Rightarrow> push) \<Rightarrow> recipient_block list \<Rightarrow> push" where
  "ext_buffer_push_forwarddelegate_action push_tagged_propval pblock =
     (if length pblock = 0 then fail EXT_ERR_FORMAT
      else
        seq (ext_buffer_push_uint16 (of_nat (length pblock)))
            (for_each (\<lambda>b. case b of RECIPIENT_BLOCK reserved vs \<Rightarrow>
               ext_buffer_push_recipient_block push_tagged_propval reserved vs) pblock))"

text \<open>\<open>n\<close> bytes of an object: the copy comes after the guard.\<close>

definition push_bytes_of :: "bytes \<Rightarrow> u32 \<Rightarrow> push" where
  "push_bytes_of pdata n =
     seq (need_room n)
         (if unat n > length pdata then fail UNDEFINED_BEHAVIOUR
          else put_bytes (take (unat n) pdata))"

text \<open>A status code that is overwritten.\<close>

definition lose_status :: "push \<Rightarrow> push" where
  "lose_status q e =
     (case q e of
        (Inl err, e') \<Rightarrow>
          (if err \<in> {UNDEFINED_BEHAVIOUR, NULL_WRITE, OUT_OF_FUEL, NOT_RETURNING}
           then (Inl err, e') else (Inr (), e'))
      | (Inr x, e') \<Rightarrow> (Inr x, e'))"

text \<open>
  The \<open>case ACTION_TYPE_OP_TAG\<close> has no \<open>break\<close>: it falls through to
  \<open>status = EXT_ERR_SUCCESS\<close>.
\<close>

definition push_action_data ::
    "(tagged_propval \<Rightarrow> push) \<Rightarrow> u16 \<Rightarrow> u8 \<Rightarrow> action_data \<Rightarrow> push" where
  "push_action_data push_tagged_propval len type pdata =
     (if type = ACTION_TYPE_OP_MOVE \<or> type = ACTION_TYPE_OP_COPY
      then case pdata of AD_MOVECOPY a \<Rightarrow> ext_buffer_push_movecopy_action a
           | _ \<Rightarrow> fail UNDEFINED_BEHAVIOUR
      else if type = ACTION_TYPE_OP_REPLY \<or> type = ACTION_TYPE_OP_OOF_REPLY
      then case pdata of AD_REPLY a \<Rightarrow> ext_buffer_push_reply_action a
           | _ \<Rightarrow> fail UNDEFINED_BEHAVIOUR
      else if type = ACTION_TYPE_OP_DEFER_ACTION
      then (let tmp_len = len - 1 - 2 * 4 in
            case pdata of AD_DEFER b \<Rightarrow> push_bytes_of b (ucast tmp_len)
            | _ \<Rightarrow> fail UNDEFINED_BEHAVIOUR)
      else if type = ACTION_TYPE_OP_BOUNCE
      then case pdata of AD_BOUNCE c \<Rightarrow> ext_buffer_push_uint32 c
           | _ \<Rightarrow> fail UNDEFINED_BEHAVIOUR
      else if type = ACTION_TYPE_OP_FORWARD \<or> type = ACTION_TYPE_OP_DELEGATE
      then case pdata of AD_FORWARDDELEGATE bs \<Rightarrow>
             ext_buffer_push_forwarddelegate_action push_tagged_propval bs
           | _ \<Rightarrow> fail UNDEFINED_BEHAVIOUR
      else if type = ACTION_TYPE_OP_TAG
      then case pdata of AD_TAG v \<Rightarrow> lose_status (push_tagged_propval v)
           | _ \<Rightarrow> fail UNDEFINED_BEHAVIOUR
      else if type = ACTION_TYPE_OP_DELETE \<or> type = ACTION_TYPE_OP_MARK_AS_READ
      then ret ()
      else fail EXT_ERR_BAD_SWITCH)"

definition push_action_block_body ::
    "(tagged_propval \<Rightarrow> push) \<Rightarrow> u16 \<Rightarrow> u8 \<Rightarrow> u32 \<Rightarrow> u32 \<Rightarrow> action_data \<Rightarrow> push" where
  "push_action_block_body push_tagged_propval len type flavor flags pdata =
     bnd (gets ps_offset) (\<lambda>offset.
     seq (ext_buffer_push_advance 2)
    (seq (ext_buffer_push_uint8 type)
    (seq (ext_buffer_push_uint32 flavor)
    (seq (ext_buffer_push_uint32 flags)
    (seq (push_action_data push_tagged_propval len type pdata)
         (patch_length16 offset))))))"

definition push_rule_actions_body :: "(action_block \<Rightarrow> push) \<Rightarrow> action_block list \<Rightarrow> push" where
  "push_rule_actions_body push_action_block pblock =
     (if length pblock = 0 then fail EXT_ERR_FORMAT
      else
        seq (ext_buffer_push_uint16 (of_nat (length pblock)))
            (for_each push_action_block pblock))"

subsection \<open>Property values\<close>

definition push_propval_body ::
    "(u16 \<Rightarrow> propval \<Rightarrow> push) \<Rightarrow> (restriction \<Rightarrow> push) \<Rightarrow> (action_block list \<Rightarrow> push) \<Rightarrow>
       u16 \<Rightarrow> propval \<Rightarrow> push" where
  "push_propval_body pv pr pa type0 pval =
     (let type = single_type type0 in
      if type = PROPVAL_TYPE_UNSPECIFIED
      then case pval of PV_TYPED t v \<Rightarrow> seq (ext_buffer_push_uint16 t) (pv t v)
           | _ \<Rightarrow> fail UNDEFINED_BEHAVIOUR
      else if type = PROPVAL_TYPE_SHORT
      then case pval of PV_SHORT v \<Rightarrow> ext_buffer_push_uint16 v | _ \<Rightarrow> fail UNDEFINED_BEHAVIOUR
      else if type = PROPVAL_TYPE_LONG \<or> type = PROPVAL_TYPE_ERROR
      then case pval of PV_LONG v \<Rightarrow> ext_buffer_push_uint32 v | _ \<Rightarrow> fail UNDEFINED_BEHAVIOUR
      else if type = PROPVAL_TYPE_FLOAT
      then case pval of PV_FLOAT v \<Rightarrow> ext_buffer_push_float v | _ \<Rightarrow> fail UNDEFINED_BEHAVIOUR
      else if type = PROPVAL_TYPE_DOUBLE \<or> type = PROPVAL_TYPE_FLOATINGTIME
      then case pval of PV_DOUBLE v \<Rightarrow> ext_buffer_push_double v | _ \<Rightarrow> fail UNDEFINED_BEHAVIOUR
      else if type = PROPVAL_TYPE_BYTE
      then case pval of PV_BYTE v \<Rightarrow> ext_buffer_push_uint8 v | _ \<Rightarrow> fail UNDEFINED_BEHAVIOUR
      else if type = PROPVAL_TYPE_CURRENCY \<or> type = PROPVAL_TYPE_LONGLONG \<or>
        type = PROPVAL_TYPE_FILETIME
      then case pval of PV_LONGLONG v \<Rightarrow> ext_buffer_push_uint64 v | _ \<Rightarrow> fail UNDEFINED_BEHAVIOUR
      else if type = PROPVAL_TYPE_STRING
      then case pval of PV_STRING v \<Rightarrow> ext_buffer_push_string v | _ \<Rightarrow> fail UNDEFINED_BEHAVIOUR
      else if type = PROPVAL_TYPE_WSTRING
      then case pval of PV_STRING v \<Rightarrow> ext_buffer_push_wstring v | _ \<Rightarrow> fail UNDEFINED_BEHAVIOUR
      else if type = PROPVAL_TYPE_GUID
      then case pval of PV_GUID v \<Rightarrow> ext_buffer_push_guid v | _ \<Rightarrow> fail UNDEFINED_BEHAVIOUR
      else if type = PROPVAL_TYPE_SVREID
      then case pval of PV_SVREID v \<Rightarrow> ext_buffer_push_svreid v | _ \<Rightarrow> fail UNDEFINED_BEHAVIOUR
      else if type = PROPVAL_TYPE_RESTRICTION
      then case pval of PV_RESTRICTION v \<Rightarrow> pr v | _ \<Rightarrow> fail UNDEFINED_BEHAVIOUR
      else if type = PROPVAL_TYPE_RULE
      then case pval of PV_RULE v \<Rightarrow> pa v | _ \<Rightarrow> fail UNDEFINED_BEHAVIOUR
      else if type = PROPVAL_TYPE_BINARY \<or> type = PROPVAL_TYPE_OBJECT
      then case pval of PV_BINARY v \<Rightarrow> ext_buffer_push_binary v | _ \<Rightarrow> fail UNDEFINED_BEHAVIOUR
      else if type = PROPVAL_TYPE_SHORT_ARRAY
      then case pval of PV_SHORT_ARRAY v \<Rightarrow> ext_buffer_push_short_array v
           | _ \<Rightarrow> fail UNDEFINED_BEHAVIOUR
      else if type = PROPVAL_TYPE_LONG_ARRAY
      then case pval of PV_LONG_ARRAY v \<Rightarrow> ext_buffer_push_long_array v
           | _ \<Rightarrow> fail UNDEFINED_BEHAVIOUR
      else if type = PROPVAL_TYPE_LONGLONG_ARRAY
      then case pval of PV_LONGLONG_ARRAY v \<Rightarrow> ext_buffer_push_longlong_array v
           | _ \<Rightarrow> fail UNDEFINED_BEHAVIOUR
      else if type = PROPVAL_TYPE_STRING_ARRAY
      then case pval of PV_STRING_ARRAY v \<Rightarrow> ext_buffer_push_string_array v
           | _ \<Rightarrow> fail UNDEFINED_BEHAVIOUR
      else if type = PROPVAL_TYPE_WSTRING_ARRAY
      then case pval of PV_STRING_ARRAY v \<Rightarrow> ext_buffer_push_wstring_array v
           | _ \<Rightarrow> fail UNDEFINED_BEHAVIOUR
      else if type = PROPVAL_TYPE_GUID_ARRAY
      then case pval of PV_GUID_ARRAY v \<Rightarrow> ext_buffer_push_guid_array v
           | _ \<Rightarrow> fail UNDEFINED_BEHAVIOUR
      else if type = PROPVAL_TYPE_BINARY_ARRAY
      then case pval of PV_BINARY_ARRAY v \<Rightarrow> ext_buffer_push_binary_array v
           | _ \<Rightarrow> fail UNDEFINED_BEHAVIOUR
      else fail EXT_ERR_BAD_SWITCH)"

text \<open>
  The bodies call the writers they are given on parts of the value only; with these
  congruence rules the recursion is seen to end.
\<close>

lemma push_propval_body_cong [fundef_cong]:
  "t = t' \<Longrightarrow> v = v' \<Longrightarrow>
   (\<And>u w. v' = PV_TYPED u w \<Longrightarrow> pv u w = pv' u w) \<Longrightarrow>
   (\<And>r. v' = PV_RESTRICTION r \<Longrightarrow> pr r = pr' r) \<Longrightarrow>
   (\<And>bs. v' = PV_RULE bs \<Longrightarrow> pa bs = pa' bs) \<Longrightarrow>
   push_propval_body pv pr pa t v = push_propval_body pv' pr' pa' t' v'"
  by (cases v') (simp_all add: push_propval_body_def Let_def cong: if_cong)

lemma push_res_data_cong:
  assumes "\<And>rs r. d = RES_AND_OR rs \<Longrightarrow> r \<in> set rs \<Longrightarrow> pr r = pr' r"
    "\<And>r. d = RES_NOT r \<Longrightarrow> pr r = pr' r"
    "\<And>a b v. d = RES_CONTENT a b v \<Longrightarrow> pt v = pt' v"
    "\<And>a b v. d = RES_PROPERTY a b v \<Longrightarrow> pt v = pt' v"
    "\<And>a r. d = RES_SUBOBJ a r \<Longrightarrow> pr r = pr' r"
    "\<And>vs r v. d = RES_COMMENT vs r \<Longrightarrow> v \<in> set vs \<Longrightarrow> pt v = pt' v"
    "\<And>vs r. d = RES_COMMENT vs (Some r) \<Longrightarrow> pr r = pr' r"
    "\<And>a r. d = RES_COUNT a r \<Longrightarrow> pr r = pr' r"
  shows "push_res_data pr pt rt d = push_res_data pr' pt' rt d"
proof (cases d)
  case (RES_AND_OR rs)
  with assms(1) have "for_each pr rs = for_each pr' rs" by (intro for_each_cong) simp_all
  with RES_AND_OR show ?thesis
    by (simp add: push_res_data_def ext_buffer_push_restriction_and_or_def)
next
  case (RES_COMMENT vs r)
  with assms(6) have "for_each pt vs = for_each pt' vs" by (intro for_each_cong) simp_all
  with RES_COMMENT assms(7) show ?thesis
    by (simp add: push_res_data_def ext_buffer_push_restriction_comment_def split: option.split)
qed (simp_all cong: if_cong add: push_res_data_def assms ext_buffer_push_restriction_not_def
    ext_buffer_push_restriction_content_def ext_buffer_push_restriction_property_def
    ext_buffer_push_restriction_subobj_def ext_buffer_push_restriction_count_def)

lemma push_restriction_body_cong [fundef_cong]:
  assumes "rt = rt'" "d = d'"
    "\<And>rs r. d' = RES_AND_OR rs \<Longrightarrow> r \<in> set rs \<Longrightarrow> pr r = pr' r"
    "\<And>r. d' = RES_NOT r \<Longrightarrow> pr r = pr' r"
    "\<And>a b v. d' = RES_CONTENT a b v \<Longrightarrow> pt v = pt' v"
    "\<And>a b v. d' = RES_PROPERTY a b v \<Longrightarrow> pt v = pt' v"
    "\<And>a r. d' = RES_SUBOBJ a r \<Longrightarrow> pr r = pr' r"
    "\<And>vs r v. d' = RES_COMMENT vs r \<Longrightarrow> v \<in> set vs \<Longrightarrow> pt v = pt' v"
    "\<And>vs r. d' = RES_COMMENT vs (Some r) \<Longrightarrow> pr r = pr' r"
    "\<And>a r. d' = RES_COUNT a r \<Longrightarrow> pr r = pr' r"
  shows "push_restriction_body pr pt rt d = push_restriction_body pr' pt' rt' d'"
  unfolding push_restriction_body_def assms(1,2)
  by (rule arg_cong [where f = "seq (ext_buffer_push_uint8 rt')"], rule push_res_data_cong)
    (use assms(3-) in auto)

lemma push_action_block_body_cong [fundef_cong]:
  assumes "n = n'" "t = t'" "a = a'" "b = b'" "d = d'"
    "\<And>v. d' = AD_TAG v \<Longrightarrow> pt v = pt' v"
    "\<And>bs u vs v. d' = AD_FORWARDDELEGATE bs \<Longrightarrow> RECIPIENT_BLOCK u vs \<in> set bs \<Longrightarrow>
       v \<in> set vs \<Longrightarrow> pt v = pt' v"
  shows "push_action_block_body pt n t a b d = push_action_block_body pt' n' t' a' b' d'"
proof -
  have "for_each pt vs = for_each pt' vs"
    if "d' = AD_FORWARDDELEGATE bs" "RECIPIENT_BLOCK u vs \<in> set bs" for bs u vs
    using assms(7) [OF that] by (intro for_each_cong) simp_all
  then have "ext_buffer_push_forwarddelegate_action pt bs = ext_buffer_push_forwarddelegate_action pt' bs"
    if "d' = AD_FORWARDDELEGATE bs" for bs
    using that unfolding ext_buffer_push_forwarddelegate_action_def ext_buffer_push_recipient_block_def
    by (intro if_cong arg_cong2 [where f = seq] for_each_cong refl)
      (auto split: recipient_block.split)
  then have "push_action_data pt n' t' d' = push_action_data pt' n' t' d'"
    using assms(6) by (auto simp: push_action_data_def split: action_data.split)
  then show ?thesis by (simp add: push_action_block_body_def assms(1-5))
qed

lemma push_rule_actions_body_cong [fundef_cong]:
  "bs = bs' \<Longrightarrow> (\<And>b. b \<in> set bs' \<Longrightarrow> f b = g b) \<Longrightarrow>
     push_rule_actions_body f bs = push_rule_actions_body g bs'"
  using for_each_cong [of bs bs' f g] by (simp add: push_rule_actions_body_def)

text \<open>Closing the recursion.\<close>

fun ext_buffer_push_propval :: "u16 \<Rightarrow> propval \<Rightarrow> push"
  and ext_buffer_push_tagged_propval :: "tagged_propval \<Rightarrow> push"
  and ext_buffer_push_restriction :: "restriction \<Rightarrow> push"
  and ext_buffer_push_action_block :: "action_block \<Rightarrow> push"
  and ext_buffer_push_rule_actions :: "action_block list \<Rightarrow> push" where
  "ext_buffer_push_propval type pval =
     push_propval_body ext_buffer_push_propval ext_buffer_push_restriction
       ext_buffer_push_rule_actions type pval"
| "ext_buffer_push_tagged_propval (TAGGED_PROPVAL proptag pvalue) =
     seq (ext_buffer_push_uint32 proptag) (ext_buffer_push_propval (proptag_type proptag) pvalue)"
| "ext_buffer_push_restriction (RESTRICTION rt pres) =
     push_restriction_body ext_buffer_push_restriction ext_buffer_push_tagged_propval rt pres"
| "ext_buffer_push_action_block (ACTION_BLOCK len type flavor flags pdata) =
     push_action_block_body ext_buffer_push_tagged_propval len type flavor flags pdata"
| "ext_buffer_push_rule_actions pblock = push_rule_actions_body ext_buffer_push_action_block pblock"

definition ext_buffer_push_typed_propval :: "u16 \<Rightarrow> propval \<Rightarrow> push" where
  "ext_buffer_push_typed_propval type pvalue =
     seq (ext_buffer_push_uint16 type) (ext_buffer_push_propval type pvalue)"

end
