(* ===== verification/Prop_Codec.thy ===== *)
theory Prop_Codec
  imports Base_Codec Ext_Pull_Prop Ext_Push_Prop
begin

text \<open>
  The writers and readers of property values, restrictions and rule actions agree.

  \<open>propval_ok\<close>, \<open>restriction_ok\<close> and \<open>action_ok\<close> say which values: tags that fit the value,
  counts that fit their width, strings without a NUL and within the limits of the flags.
  A value read back is equal to the one written, except that the \<open>length\<close> of an action
  block is the one the writer has computed.
\<close>

subsection \<open>Identifiers\<close>

fun svreid_ok :: "svreid \<Rightarrow> bool" where
  "svreid_ok (SVREID (Some pb) a b c) \<longleftrightarrow> length pb + 1 < 2 ^ 16 \<and> a = 0 \<and> b = 0 \<and> c = 0"
| "svreid_ok (SVREID None a b c) \<longleftrightarrow> True"

fun store_entryid_ok :: "u32 \<Rightarrow> store_entryid \<Rightarrow> bool" where
  "store_entryid_ok f (STORE_ENTRYID a uid b c dll d wuid g srv dn) \<longleftrightarrow>
     length uid = 16 \<and> length dll = 14 \<and> length wuid = 16 \<and> string_ok f srv \<and> string_ok f dn"

lemma coded_alloc_unchecked:
  "coded f (k True) q x \<Longrightarrow> coded f (bnd (pull_alloc_unchecked n) k) q x"
proof -
  have "reads f (pull_alloc_unchecked n) [] True"
    by (rule readsI) (simp add: pull_alloc_unchecked_def willing_def moved_def)
  then show "coded f (k True) q x \<Longrightarrow> coded f (bnd (pull_alloc_unchecked n) k) q x"
    unfolding coded_def by (blast intro: reads_bnd_nil)
qed

lemma svreid_length:
  assumes "length pb + 1 < 2 ^ 16"
  shows "unat ((ucast (of_nat (length pb) + 1 :: u16) :: u32) - 1) = length pb"
proof -
  have "unat (of_nat (length pb) + 1 :: u16) = length pb + 1"
    using unat_of_nat_u16 [of "length pb + 1"] assms by (simp add: add.commute)
  then have "unat (ucast (of_nat (length pb) + 1 :: u16) :: u32) = length pb + 1"
    by simp
  then show ?thesis
    by (subst unat_sub) (auto simp: word_le_nat_alt)
qed

lemma coded_svreid:
  "svreid_ok r \<Longrightarrow> coded f ext_buffer_pull_svreid (ext_buffer_push_svreid r) r"
proof (induction r rule: svreid_ok.induct)
  case (1 pb a b c)
  then show ?case
    unfolding ext_buffer_pull_svreid_def ext_buffer_push_svreid_def Let_def
    using svreid_length [of pb]
    by (auto intro!: coded_bnd [OF coded_uint16] coded_bnd [OF coded_uint8] coded_alloc
        coded_alloc_unchecked coded_last [OF coded_bytes])
next
  case (2 a b c)
  show ?case
    unfolding ext_buffer_pull_svreid_def ext_buffer_push_svreid_def Let_def
    by (auto intro!: coded_bnd [OF coded_uint16] coded_bnd [OF coded_uint8]
        coded_bnd [OF coded_uint64] coded_last [OF coded_uint32])
qed

lemma coded_store_entryid:
  "store_entryid_ok f r \<Longrightarrow> coded f ext_buffer_pull_store_entryid (ext_buffer_push_store_entryid r) r"
  unfolding ext_buffer_pull_store_entryid_def ext_buffer_push_store_entryid_def
  by (cases r) (auto intro!: coded_bnd [OF coded_uint32] coded_bnd [OF coded_uint8]
      coded_bnd [OF coded_bytes] coded_bnd [OF coded_string] coded_last [OF coded_string])

interpretation csvreid: codec ext_buffer_pull_svreid ext_buffer_push_svreid "\<lambda>f. svreid_ok"
  by unfold_locales (auto intro: bounded_safe safe_rules coded_svreid)

interpretation cstore: codec ext_buffer_pull_store_entryid ext_buffer_push_store_entryid store_entryid_ok
  by unfold_locales (auto intro: bounded_safe safe_rules coded_store_entryid)

subsection \<open>Values and restrictions\<close>

fun propval_ok :: "u32 \<Rightarrow> u16 \<Rightarrow> propval \<Rightarrow> bool"
  and tagged_ok :: "u32 \<Rightarrow> tagged_propval \<Rightarrow> bool"
  and restriction_ok :: "u32 \<Rightarrow> restriction \<Rightarrow> bool"
  and res_data_ok :: "u32 \<Rightarrow> u8 \<Rightarrow> res_data \<Rightarrow> bool" where
  "propval_ok f t (PV_TYPED u v) \<longleftrightarrow> single_type t = PROPVAL_TYPE_UNSPECIFIED \<and> propval_ok f u v"
| "propval_ok f t (PV_SHORT v) \<longleftrightarrow> single_type t = PROPVAL_TYPE_SHORT"
| "propval_ok f t (PV_LONG v) \<longleftrightarrow> single_type t \<in> {PROPVAL_TYPE_LONG, PROPVAL_TYPE_ERROR}"
| "propval_ok f t (PV_FLOAT v) \<longleftrightarrow> single_type t = PROPVAL_TYPE_FLOAT"
| "propval_ok f t (PV_DOUBLE v) \<longleftrightarrow>
     single_type t \<in> {PROPVAL_TYPE_DOUBLE, PROPVAL_TYPE_FLOATINGTIME}"
| "propval_ok f t (PV_BYTE v) \<longleftrightarrow> single_type t = PROPVAL_TYPE_BYTE"
| "propval_ok f t (PV_LONGLONG v) \<longleftrightarrow>
     single_type t \<in> {PROPVAL_TYPE_CURRENCY, PROPVAL_TYPE_LONGLONG, PROPVAL_TYPE_FILETIME}"
| "propval_ok f t (PV_STRING s) \<longleftrightarrow>
     single_type t = PROPVAL_TYPE_STRING \<and> string_ok f s \<or>
     single_type t = PROPVAL_TYPE_WSTRING \<and> wstring_ok f s"
| "propval_ok f t (PV_SVREID r) \<longleftrightarrow> single_type t = PROPVAL_TYPE_SVREID \<and> svreid_ok r"
| "propval_ok f t (PV_GUID g) \<longleftrightarrow> single_type t = PROPVAL_TYPE_GUID"
| "propval_ok f t (PV_RESTRICTION r) \<longleftrightarrow>
     single_type t = PROPVAL_TYPE_RESTRICTION \<and> restriction_ok f r"
| "propval_ok f t (PV_RULE bs) \<longleftrightarrow> False"
| "propval_ok f t (PV_BINARY b) \<longleftrightarrow>
     single_type t \<in> {PROPVAL_TYPE_BINARY, PROPVAL_TYPE_OBJECT} \<and> binary_ok f b"
| "propval_ok f t (PV_SHORT_ARRAY a) \<longleftrightarrow>
     single_type t = PROPVAL_TYPE_SHORT_ARRAY \<and> list_ok (2 ^ 32) any_ok f a"
| "propval_ok f t (PV_LONG_ARRAY a) \<longleftrightarrow>
     single_type t = PROPVAL_TYPE_LONG_ARRAY \<and> list_ok (2 ^ 32) any_ok f a"
| "propval_ok f t (PV_LONGLONG_ARRAY a) \<longleftrightarrow>
     single_type t = PROPVAL_TYPE_LONGLONG_ARRAY \<and> list_ok (2 ^ 32) any_ok f a"
| "propval_ok f t (PV_STRING_ARRAY a) \<longleftrightarrow>
     single_type t = PROPVAL_TYPE_STRING_ARRAY \<and> list_ok (2 ^ 32) string_ok f a \<or>
     single_type t = PROPVAL_TYPE_WSTRING_ARRAY \<and> list_ok (2 ^ 32) wstring_ok f a"
| "propval_ok f t (PV_GUID_ARRAY a) \<longleftrightarrow>
     single_type t = PROPVAL_TYPE_GUID_ARRAY \<and> list_ok (2 ^ 32) any_ok f a"
| "propval_ok f t (PV_BINARY_ARRAY a) \<longleftrightarrow>
     single_type t = PROPVAL_TYPE_BINARY_ARRAY \<and> list_ok (2 ^ 32) binary_ok f a"
| "tagged_ok f (TAGGED_PROPVAL tag v) \<longleftrightarrow> propval_ok f (proptag_type tag) v"
| "restriction_ok f (RESTRICTION rt d) \<longleftrightarrow> res_data_ok f rt d"
| "res_data_ok f rt RES_NULL \<longleftrightarrow> rt = RESTRICTION_TYPE_NULL"
| "res_data_ok f rt (RES_AND_OR rs) \<longleftrightarrow>
     rt \<in> {RESTRICTION_TYPE_AND, RESTRICTION_TYPE_OR} \<and>
     length rs < (if has_flag f EXT_FLAG_WCOUNT then 2 ^ 32 else 2 ^ 16) \<and>
     (\<forall>r\<in>set rs. restriction_ok f r)"
| "res_data_ok f rt (RES_NOT r) \<longleftrightarrow> rt = RESTRICTION_TYPE_NOT \<and> restriction_ok f r"
| "res_data_ok f rt (RES_CONTENT a b v) \<longleftrightarrow> rt = RESTRICTION_TYPE_CONTENT \<and> tagged_ok f v"
| "res_data_ok f rt (RES_PROPERTY a b v) \<longleftrightarrow> rt = RESTRICTION_TYPE_PROPERTY \<and> tagged_ok f v"
| "res_data_ok f rt (RES_PROPCOMPARE a b c) \<longleftrightarrow> rt = RESTRICTION_TYPE_PROPCOMPARE"
| "res_data_ok f rt (RES_BITMASK a b c) \<longleftrightarrow> rt = RESTRICTION_TYPE_BITMASK"
| "res_data_ok f rt (RES_SIZE a b c) \<longleftrightarrow> rt = RESTRICTION_TYPE_SIZE"
| "res_data_ok f rt (RES_EXIST a) \<longleftrightarrow> rt = RESTRICTION_TYPE_EXIST"
| "res_data_ok f rt (RES_SUBOBJ a r) \<longleftrightarrow> rt = RESTRICTION_TYPE_SUBOBJ \<and> restriction_ok f r"
| "res_data_ok f rt (RES_COMMENT vs r) \<longleftrightarrow>
     rt = RESTRICTION_TYPE_COMMENT \<and> vs \<noteq> [] \<and> length vs < 2 ^ 8 \<and>
     (\<forall>v\<in>set vs. tagged_ok f v) \<and> (case r of None \<Rightarrow> True | Some r \<Rightarrow> restriction_ok f r)"
| "res_data_ok f rt (RES_COUNT a r) \<longleftrightarrow> rt = RESTRICTION_TYPE_COUNT \<and> restriction_ok f r"

lemma coded_into: "coded f p q x \<Longrightarrow> coded f (pull_into n p c) q (c x)"
  unfolding pull_into_def by (intro coded_alloc coded_last [of f p q x]) simp_all

lemma coded_and_or:
  assumes "\<forall>r\<in>set rs. coded f pr (push r) r"
    "length rs < (if has_flag f EXT_FLAG_WCOUNT then 2 ^ 32 else 2 ^ 16)"
  shows "coded f (ext_buffer_pull_restriction_and_or pr)
    (ext_buffer_push_restriction_and_or push rs) (RES_AND_OR rs)"
proof -
  let ?n = "of_nat (length rs)"
  have wide: "coded f (bnd ext_buffer_pull_uint16 (\<lambda>count. ret (ucast count :: u32)))
      (ext_buffer_push_uint16 ?n) (ucast (?n :: u16))"
    by (intro coded_last [OF coded_uint16]) simp
  show ?thesis
    unfolding ext_buffer_pull_restriction_and_or_def ext_buffer_push_restriction_and_or_def
  proof (intro coded_flags_pull)
    show "coded f
      (bnd (if has_flag f EXT_FLAG_WCOUNT then ext_buffer_pull_uint32
            else bnd ext_buffer_pull_uint16 (\<lambda>count. ret (ucast count)))
        (\<lambda>count. bnd (pull_elems 16 (unat count) pr) (\<lambda>pres. ret (RES_AND_OR pres))))
      (seq (bnd (gets ps_flags) (\<lambda>flags. if has_flag flags EXT_FLAG_WCOUNT
              then ext_buffer_push_uint32 ?n else ext_buffer_push_uint16 ?n))
        (for_each push rs)) (RES_AND_OR rs)"
      using assms
      by (cases "has_flag f EXT_FLAG_WCOUNT")
        (auto intro!: coded_bnd [OF coded_flags_push [where k = "\<lambda>flags. if has_flag flags EXT_FLAG_WCOUNT
              then ext_buffer_push_uint32 ?n else ext_buffer_push_uint16 ?n"]]
            coded_last [OF coded_elems] coded_uint32 wide
          simp: unat_of_nat_u16 unat_of_nat_u32)
  qed
qed

lemma coded_comment:
  assumes "\<forall>v\<in>set vs. coded f pt (qt v) v" "vs \<noteq> []" "length vs < 2 ^ 8"
    "\<And>r. res = Some r \<Longrightarrow> coded f pr (qr r) r"
  shows "coded f (ext_buffer_pull_restriction_comment pr pt)
    (ext_buffer_push_restriction_comment qr qt vs res) (RES_COMMENT vs res)"
proof -
  have n: "unat (of_nat (length vs) :: u8) = length vs" "(of_nat (length vs) :: u8) \<noteq> 0"
    using assms(2,3) of_nat_nonzero(2) [of "length vs"] by (auto simp: unat_of_nat)
  have last: "coded f
      (bnd ext_buffer_pull_uint8 (\<lambda>p. if p \<noteq> 0
         then bnd (pull_alloc 16) (\<lambda>_. bnd pr (\<lambda>r. ret (RES_COMMENT vs (Some r))))
         else ret (RES_COMMENT vs None)))
      (case res of None \<Rightarrow> ext_buffer_push_uint8 0
       | Some r \<Rightarrow> seq (ext_buffer_push_uint8 1) (qr r)) (RES_COMMENT vs res)"
  proof (cases res)
    case None
    then show ?thesis by (simp add: coded_end [OF coded_uint8])
  next
    case (Some r)
    have "coded f (bnd pr (\<lambda>r. ret (RES_COMMENT vs (Some r)))) (qr r) (RES_COMMENT vs (Some r))"
      by (rule coded_end [OF assms(4) [OF Some]]) simp
    with Some show ?thesis
      by (auto intro!: coded_bnd [OF coded_uint8] coded_alloc)
  qed
  show ?thesis
    unfolding ext_buffer_pull_restriction_comment_def ext_buffer_push_restriction_comment_def
    using assms(1,2) n
    by (auto intro!: coded_bnd [OF coded_uint8] coded_bnd [OF coded_elems] last)
qed

text \<open>
  With more fuel than the size of the value, by induction on the fuel.
\<close>

lemma coded_res_data:
  assumes "\<And>r. restriction_ok f r \<Longrightarrow> size r < n \<Longrightarrow> coded f pr (qr r) r"
    "\<And>v. tagged_ok f v \<Longrightarrow> size v < n \<Longrightarrow> coded f pt (qt v) v"
    "res_data_ok f rt d" "size d < n"
  shows "coded f (pull_res_data pr pt rt) (push_res_data qr qt rt d) d"
proof (cases d)
  case (RES_AND_OR rs)
  have "size r < n" if "r \<in> set rs" for r
    using size_list_estimation' [OF that order_refl, of size] assms(4) RES_AND_OR by simp
  with assms(1,3) RES_AND_OR
  have "coded f (ext_buffer_pull_restriction_and_or pr)
      (ext_buffer_push_restriction_and_or qr rs) (RES_AND_OR rs)"
    by (intro coded_and_or) auto
  with RES_AND_OR assms(3) show ?thesis
    by (auto simp: pull_res_data_def push_res_data_def restriction_types intro: coded_alloc)
next
  case (RES_COMMENT vs res)
  have "size v < n" if "v \<in> set vs" for v
    using size_list_estimation' [OF that order_refl, of size] assms(4) RES_COMMENT by simp
  with assms(1-4) RES_COMMENT
  have "coded f (ext_buffer_pull_restriction_comment pr pt)
      (ext_buffer_push_restriction_comment qr qt vs res) (RES_COMMENT vs res)"
    by (intro coded_comment) auto
  with RES_COMMENT assms(3) show ?thesis
    by (auto simp: pull_res_data_def push_res_data_def restriction_types intro: coded_alloc)
qed (use assms in \<open>auto simp: pull_res_data_def push_res_data_def restriction_types
    pull_res_data_defs ext_buffer_push_restriction_not_def
    ext_buffer_push_restriction_content_def ext_buffer_push_restriction_property_def
    ext_buffer_push_restriction_propcompare_def ext_buffer_push_restriction_bitmask_def
    ext_buffer_push_restriction_size_def ext_buffer_push_restriction_exist_def
    ext_buffer_push_restriction_subobj_def ext_buffer_push_restriction_count_def
    intro!: coded_alloc coded_ret coded_bnd [OF coded_uint8] coded_bnd [OF coded_uint32]
    coded_last [OF coded_uint32] coded_last [OF assms(1)] coded_last [OF assms(2)]\<close>)

lemma coded_propval_simple:
  assumes "propval_ok f t v" "\<And>u w. v \<noteq> PV_TYPED u w" "\<And>r. v \<noteq> PV_RESTRICTION r"
  shows "coded f (pull_propval_body pv pr t) (push_propval_body qv qr qa t v) v"
  using assms
  by (cases v)
    (auto simp: pull_propval_body_def push_propval_body_def Let_def propval_types
      intro!: coded_into coded_uint8 coded_uint16 coded_uint32 coded_uint64 coded_float
        coded_double coded_guid coded_svreid coded_binary coded_arrays
        coded_last [OF coded_string] coded_last [OF coded_wstring])

lemma coded_fuel:
  "propval_ok f t v \<Longrightarrow> size v < n \<Longrightarrow> coded f (pull_propval n t) (ext_buffer_push_propval t v) v"
  "restriction_ok f r \<Longrightarrow> size r < n \<Longrightarrow> coded f (pull_restriction n) (ext_buffer_push_restriction r) r"
proof (induction n arbitrary: t v r)
  case 0
  { case 1 then show ?case by simp }
  { case 2 then show ?case by simp }
next
  case (Suc n)
  { case 1
    show ?case
    proof (cases "(\<exists>u w. v = PV_TYPED u w) \<or> (\<exists>r. v = PV_RESTRICTION r)")
      case True
      with 1 show ?thesis
        by (auto simp: pull_propval_body_def push_propval_body_def Let_def propval_types pull_typed_body_def
            simp del: ext_buffer_push_propval.simps ext_buffer_push_restriction.simps
            simp: ext_buffer_push_propval.simps(1) [of t v]
            intro!: coded_alloc coded_bnd [OF coded_uint16] coded_last [OF Suc.IH(1)]
              coded_into Suc.IH(2))
    next
      case False
      with 1(1) coded_propval_simple [of f t v] show ?thesis
        by (subst pull_propval.simps, subst ext_buffer_push_propval.simps) blast
    qed
  }
  { case 2
    obtain rt d where r: "r = RESTRICTION rt d" by (cases r)
    have "coded f (pull_res_data (pull_restriction n) (pull_tagged_body (pull_propval n)) rt)
        (push_res_data ext_buffer_push_restriction ext_buffer_push_tagged_propval rt d) d"
    proof (rule coded_res_data [where n = n])
      fix v assume "tagged_ok f v" "size v < n"
      then show "coded f (pull_tagged_body (pull_propval n)) (ext_buffer_push_tagged_propval v) v"
        by (cases v) (auto simp: pull_tagged_body_def simp del: ext_buffer_push_propval.simps
            intro!: coded_bnd [OF coded_uint32] coded_last [OF Suc.IH(1)])
    qed (use 2 r Suc.IH(2) in auto)
    with r show ?case
      by (auto simp: pull_restriction_body_def push_restriction_body_def
          intro!: coded_bnd [OF coded_uint8] intro: coded_last)
  }
qed

lemma coded_propval:
  "propval_ok f t v \<Longrightarrow> coded f (ext_buffer_pull_propval t) (ext_buffer_push_propval t v) v"
  using coded_fuel(1) [of f t v "Suc (size v)"] reads_ext_pull(1) unfolding coded_def by blast

lemma coded_restriction:
  "restriction_ok f r \<Longrightarrow> coded f ext_buffer_pull_restriction (ext_buffer_push_restriction r) r"
  using coded_fuel(2) [of f r "Suc (size r)"] reads_ext_pull(2) unfolding coded_def by blast

lemma coded_tagged:
  "tagged_ok f v \<Longrightarrow> coded f ext_buffer_pull_tagged_propval (ext_buffer_push_tagged_propval v) v"
  unfolding ext_buffer_pull_tagged_propval_def pull_tagged_body_def
  by (cases v) (auto simp del: ext_buffer_push_propval.simps
      intro!: coded_bnd [OF coded_uint32] coded_last [OF coded_propval])

lemma coded_typed:
  "propval_ok f t v \<Longrightarrow> coded f ext_buffer_pull_typed_propval (ext_buffer_push_typed_propval t v) (PV_TYPED t v)"
  unfolding ext_buffer_pull_typed_propval_def pull_typed_body_def ext_buffer_push_typed_propval_def
  by (auto simp del: ext_buffer_push_propval.simps
      intro!: coded_bnd [OF coded_uint16] coded_last [OF coded_propval])

interpretation ctagged: codec ext_buffer_pull_tagged_propval ext_buffer_push_tagged_propval tagged_ok
  by unfold_locales (auto intro: bounded_safe safe_rules coded_tagged)

interpretation crestriction: codec ext_buffer_pull_restriction ext_buffer_push_restriction restriction_ok
  by unfold_locales (auto intro: bounded_safe safe_rules coded_restriction)

subsection \<open>Rule actions\<close>

fun movecopy_ok :: "u32 \<Rightarrow> movecopy_action \<Rightarrow> bool" where
  "movecopy_ok f (MOVECOPY_ACTION s (Some eid) (EID_BINARY b)) \<longleftrightarrow>
     s = 0 \<and> store_entryid_ok f eid \<and> binary_ok f b"
| "movecopy_ok f (MOVECOPY_ACTION s None (EID_SVREID r)) \<longleftrightarrow> s \<noteq> 0 \<and> svreid_ok r"
| "movecopy_ok f _ \<longleftrightarrow> False"

fun recipient_ok :: "u32 \<Rightarrow> recipient_block \<Rightarrow> bool" where
  "recipient_ok f (RECIPIENT_BLOCK a vs) \<longleftrightarrow>
     vs \<noteq> [] \<and> length vs < 2 ^ 16 \<and> (\<forall>v\<in>set vs. tagged_ok f v)"

fun action_data_ok :: "u32 \<Rightarrow> u16 \<Rightarrow> u8 \<Rightarrow> action_data \<Rightarrow> bool" where
  "action_data_ok f n t AD_NONE \<longleftrightarrow> t \<in> {ACTION_TYPE_OP_DELETE, ACTION_TYPE_OP_MARK_AS_READ}"
| "action_data_ok f n t (AD_MOVECOPY a) \<longleftrightarrow>
     t \<in> {ACTION_TYPE_OP_MOVE, ACTION_TYPE_OP_COPY} \<and> movecopy_ok f a"
| "action_data_ok f n t (AD_REPLY a) \<longleftrightarrow> t \<in> {ACTION_TYPE_OP_REPLY, ACTION_TYPE_OP_OOF_REPLY}"
| "action_data_ok f n t (AD_DEFER b) \<longleftrightarrow>
     t = ACTION_TYPE_OP_DEFER_ACTION \<and> length b + 9 < 2 ^ 16 \<and> unat n = length b + 9"
| "action_data_ok f n t (AD_BOUNCE c) \<longleftrightarrow> t = ACTION_TYPE_OP_BOUNCE"
| "action_data_ok f n t (AD_FORWARDDELEGATE bs) \<longleftrightarrow>
     t \<in> {ACTION_TYPE_OP_FORWARD, ACTION_TYPE_OP_DELEGATE} \<and> bs \<noteq> [] \<and> length bs < 2 ^ 16 \<and>
     (\<forall>b\<in>set bs. recipient_ok f b)"
| "action_data_ok f n t (AD_TAG v) \<longleftrightarrow> t = ACTION_TYPE_OP_TAG \<and> tagged_ok f v"

fun action_ok :: "u32 \<Rightarrow> action_block \<Rightarrow> bool" where
  "action_ok f (ACTION_BLOCK n t a b d) \<longleftrightarrow> action_data_ok f n t d"

text \<open>Equal up to the length.\<close>

fun same_action :: "action_block \<Rightarrow> action_block \<Rightarrow> bool" where
  "same_action (ACTION_BLOCK n t a b d) (ACTION_BLOCK n' t' a' b' d') \<longleftrightarrow>
     t' = t \<and> a' = a \<and> b' = b \<and> d' = d"

lemma reads_advance: "unat n = length bs \<Longrightarrow> reads f (ext_buffer_pull_advance n) bs ()"
proof -
  assume n: "unat n = length bs"
  then have eq: "(of_nat (length bs) :: u32) = n" by (simp flip: n)
  have "reads f (bnd (ext_buffer_pull_advance n) (\<lambda>_. ret ())) bs ()"
    using reads_advance_ret [OF refl, where bs = bs and f = f and x = "()"] by (simp only: eq)
  moreover have "bnd (ext_buffer_pull_advance n) (\<lambda>_. ret ()) = ext_buffer_pull_advance n"
    by (auto simp: fun_eq_iff bnd_def ret_def split: prod.splits sum.splits)
  ultimately show ?thesis by simp
qed

lemma coded_movecopy:
  assumes "movecopy_ok f a"
  shows "coded f ext_buffer_pull_movecopy_action (ext_buffer_push_movecopy_action a) a"
  using assms
proof (induction f a rule: movecopy_ok.induct)
  case (1 f s eid b)
  obtain bs where bs: "writes f (ext_buffer_push_store_entryid eid) bs"
    "reads f ext_buffer_pull_store_entryid bs eid"
    using coded_store_entryid [of f eid] 1 by (auto simp: coded_def)
  have "coded f (bnd ext_buffer_pull_uint16 (\<lambda>_.
      bnd (pull_alloc 80) (\<lambda>_. bnd ext_buffer_pull_store_entryid (\<lambda>eid. ret (Some eid)))))
    (bnd (gets ps_offset) (\<lambda>off. seq (ext_buffer_push_advance 2)
      (seq (ext_buffer_push_store_entryid eid) (patch_length16 off)))) (Some eid)"
    unfolding patch_length16_def
    using reads_bnd_nil [OF reads_pull_alloc] reads_bnd [OF bs(2) reads_ret, of Some]
    by (intro coded_patched16 [OF bs(1)]) auto
  moreover have "coded f (bnd (pull_alloc 16) (\<lambda>_. bnd ext_buffer_pull_binary (\<lambda>b.
      ret (MOVECOPY_ACTION 0 (Some eid) (EID_BINARY b)))))
    (ext_buffer_push_binary b) (MOVECOPY_ACTION 0 (Some eid) (EID_BINARY b))"
    using 1 by (auto intro!: coded_alloc coded_last [OF coded_binary])
  ultimately have "coded f
      (bnd (bnd ext_buffer_pull_uint16 (\<lambda>_. bnd (pull_alloc 80) (\<lambda>_.
          bnd ext_buffer_pull_store_entryid (\<lambda>eid. ret (Some eid))))) (\<lambda>store_eid.
        bnd (pull_alloc 16) (\<lambda>_. bnd ext_buffer_pull_binary (\<lambda>b.
          ret (MOVECOPY_ACTION 0 store_eid (EID_BINARY b))))))
      (seq (bnd (gets ps_offset) (\<lambda>off. seq (ext_buffer_push_advance 2)
        (seq (ext_buffer_push_store_entryid eid) (patch_length16 off))))
        (ext_buffer_push_binary b)) (MOVECOPY_ACTION 0 (Some eid) (EID_BINARY b))"
    by (rule coded_bnd)
  with 1 show ?case
    unfolding ext_buffer_pull_movecopy_action_def ext_buffer_push_movecopy_action_def
    by (auto simp: bnd_assoc intro!: coded_bnd [OF coded_uint8])
next
  case (2 f s r)
  have "coded f (bnd (ext_buffer_pull_advance (ucast (1 :: u16))) (\<lambda>_. ret None))
    (ext_buffer_push_uint8 0) None"
    by (intro coded_last [of f _ _ "()"] codedI [OF writes_scalars(1) reads_advance]) simp_all
  with 2 show ?case
    unfolding ext_buffer_pull_movecopy_action_def ext_buffer_push_movecopy_action_def
    by (auto simp: seq_assoc intro!: coded_bnd [OF coded_uint8] coded_bnd [OF coded_uint16]
        coded_bnd coded_alloc coded_last [OF coded_svreid])
qed simp_all

lemma coded_reply: "coded f ext_buffer_pull_reply_action (ext_buffer_push_reply_action a) a"
  unfolding ext_buffer_pull_reply_action_def ext_buffer_push_reply_action_def
  by (auto intro!: coded_bnd [OF coded_uint64] coded_last [OF coded_guid])

lemma coded_recipient:
  assumes "recipient_ok f (RECIPIENT_BLOCK a vs)"
  shows "coded f (ext_buffer_pull_recipient_block ext_buffer_pull_tagged_propval)
    (ext_buffer_push_recipient_block ext_buffer_push_tagged_propval a vs) (RECIPIENT_BLOCK a vs)"
  unfolding ext_buffer_pull_recipient_block_def ext_buffer_push_recipient_block_def
  using assms of_nat_nonzero(1) [of "length vs"]
  by (auto simp: unat_of_nat_u16 intro!: coded_bnd [OF coded_uint8] coded_bnd [OF coded_uint16]
      coded_last [OF coded_elems] coded_tagged)

lemma coded_forwarddelegate:
  assumes "bs \<noteq> []" "length bs < 2 ^ 16" "\<forall>b\<in>set bs. recipient_ok f b"
  shows "coded f (ext_buffer_pull_forwarddelegate_action ext_buffer_pull_tagged_propval)
    (ext_buffer_push_forwarddelegate_action ext_buffer_push_tagged_propval bs) bs"
proof -
  have "\<forall>b\<in>set bs. coded f (ext_buffer_pull_recipient_block ext_buffer_pull_tagged_propval)
      (case b of RECIPIENT_BLOCK a vs \<Rightarrow>
        ext_buffer_push_recipient_block ext_buffer_push_tagged_propval a vs) b"
    using assms(3)
    by (auto simp del: recipient_ok.simps split: recipient_block.split intro!: coded_recipient)
  then show ?thesis
    unfolding ext_buffer_pull_forwarddelegate_action_def ext_buffer_push_forwarddelegate_action_def
    using assms(1,2) of_nat_nonzero(1) [of "length bs"]
    by (auto simp: unat_of_nat_u16 intro!: coded_bnd [OF coded_uint16] coded_elems)
qed

lemma writes_lose_status: "writes f q bs \<Longrightarrow> writes f (lose_status q) bs"
proof (rule writesI)
  fix e assume "writes f q bs" "push_inv e" "obliging e" "ps_flags e = f"
    "unat (ps_offset e) + length bs \<le> capacity e"
  then obtain e' where "q e = (Inr (), e')" "pushed bs e e'" by (rule writesE)
  then show "\<exists>e'. lose_status q e = (Inr (), e') \<and> pushed bs e e'"
    by (simp add: lose_status_def)
next
  fix e assume "writes f q bs" "push_inv e" "obliging e" "ps_flags e = f"
    "capacity e < unat (ps_offset e) + length bs" "growing e"
  then have "overrun q e" by (rule writes_overrun)
  then show "overrun (lose_status q) e"
    by (cases "q e") (auto simp: overrun_def lose_status_def)
qed

lemma coded_lose_status: "coded f p q x \<Longrightarrow> coded f p (lose_status q) x"
  unfolding coded_def by (blast intro: writes_lose_status)

lemma writes_bytes_of:
  "unat n = length b \<Longrightarrow> writes f (push_bytes_of b n) b"
  using writes_guarded [of n b f] by (simp add: push_bytes_of_def)

lemma coded_action_data:
  assumes "action_data_ok f n t d" "\<And>b. d \<noteq> AD_DEFER b"
  shows "coded f (pull_action_data ext_buffer_pull_tagged_propval m t)
    (push_action_data ext_buffer_push_tagged_propval n t d) d"
  using assms
  by (cases d)
    (auto simp: pull_action_data_def push_action_data_def action_types
      intro!: coded_ret coded_alloc coded_last [OF coded_movecopy] coded_last [OF coded_reply]
        coded_last [OF coded_uint32] coded_last [OF coded_forwarddelegate]
        coded_lose_status coded_last [OF coded_tagged])

lemma defer_length:
  assumes "length b + 9 < 2 ^ 16" "unat (n :: u16) = length b + 9"
  shows "unat (ucast (n - 1 - 2 * 4) :: u32) = length b"
proof -
  have "9 \<le> n" using assms(2) by (simp add: word_le_nat_alt)
  then have "unat (n - 9) = length b"
    using assms(2) by (simp add: unat_sub)
  then show ?thesis by simp
qed

lemma action_data_bytes:
  assumes "action_data_ok f n t d"
  shows "\<exists>bs. writes f (push_action_data ext_buffer_push_tagged_propval n t d) bs \<and>
    reads f (pull_action_data ext_buffer_pull_tagged_propval (of_nat (9 + length bs)) t) bs d"
proof (cases "\<exists>b. d = AD_DEFER b")
  case True
  then obtain b where d: "d = AD_DEFER b" by blast
  have b: "length b + 9 < 2 ^ 16" "unat n = length b + 9" "t = ACTION_TYPE_OP_DEFER_ACTION"
    using assms d by auto
  let ?k = "ucast (of_nat (9 + length b) - 1 - 2 * 4 :: u16) :: u32"
  have "unat (of_nat (9 + length b) :: u16) = length b + 9"
    using b(1) by (subst unat_of_nat_u16) simp_all
  then have "unat ?k = length b" by (intro defer_length b(1))
  then have "reads f (bnd (ext_buffer_pull_bytes ?k) (\<lambda>b. ret (AD_DEFER b))) b (AD_DEFER b)"
    using reads_bnd [OF reads_pull_bytes reads_ret, of ?k b f AD_DEFER] by simp
  then have "reads f (pull_action_data ext_buffer_pull_tagged_propval (of_nat (9 + length b)) t) b d"
    using b(3) d
    by (simp add: pull_action_data_def action_types reads_bnd_nil [OF reads_pull_alloc] Let_def
        del: of_nat_add)
  moreover have "writes f (push_action_data ext_buffer_push_tagged_propval n t d) b"
    using b(3) d writes_bytes_of [OF defer_length [OF b(1,2)]]
    by (simp add: push_action_data_def action_types Let_def)
  ultimately show ?thesis by blast
next
  case False
  then obtain bs where bs: "writes f (push_action_data ext_buffer_push_tagged_propval n t d) bs"
    "reads f (pull_action_data ext_buffer_pull_tagged_propval 0 t) bs d"
    using coded_action_data [OF assms, of 0] by (auto simp: coded_def)
  moreover have "pull_action_data ext_buffer_pull_tagged_propval m t =
      pull_action_data ext_buffer_pull_tagged_propval 0 t" for m
    using False assms by (cases d) (auto simp: pull_action_data_def action_types)
  ultimately show ?thesis by metis
qed

lemma coded_action_block:
  assumes "action_ok f r"
  shows "\<exists>r'. same_action r r' \<and>
    coded f (ext_buffer_pull_action_block ext_buffer_pull_tagged_propval)
      (ext_buffer_push_action_block r) r'"
proof -
  obtain n t a b d where r: "r = ACTION_BLOCK n t a b d" by (cases r)
  let ?data = "push_action_data ext_buffer_push_tagged_propval n t d"
  let ?body = "seq (ext_buffer_push_uint8 t) (seq (ext_buffer_push_uint32 a)
    (seq (ext_buffer_push_uint32 b) ?data))"
  obtain bs where bs: "writes f ?data bs"
    "reads f (pull_action_data ext_buffer_pull_tagged_propval (of_nat (9 + length bs)) t) bs d"
    using action_data_bytes assms r by fastforce
  let ?all = "[t] @ SIVAL a @ SIVAL b @ bs"
  let ?k = "\<lambda>len. bnd ext_buffer_pull_uint8 (\<lambda>t. bnd ext_buffer_pull_uint32 (\<lambda>a.
    bnd ext_buffer_pull_uint32 (\<lambda>b. bnd (pull_action_data ext_buffer_pull_tagged_propval len t)
      (\<lambda>d. ret (ACTION_BLOCK len t a b d)))))"
  have w: "writes f ?body ?all"
    by (intro writes_seq writes_scalars bs)
  have data: "reads f (bnd (pull_action_data ext_buffer_pull_tagged_propval (of_nat (9 + length bs)) t)
      (\<lambda>d. ret (ACTION_BLOCK (of_nat (9 + length bs)) t a b d))) bs
      (ACTION_BLOCK (of_nat (9 + length bs)) t a b d)"
    using reads_bnd [OF bs(2) reads_ret] by simp
  have "reads f (?k (of_nat (9 + length bs))) ?all (ACTION_BLOCK (of_nat (9 + length bs)) t a b d)"
    by (rule data reads_bnd reads_scalars)+
  then have "coded f (bnd ext_buffer_pull_uint16 ?k)
    (bnd (gets ps_offset) (\<lambda>off. seq (ext_buffer_push_advance 2)
      (seq ?body (patch_back (\<lambda>n. ext_buffer_push_uint16 (ucast n)) off (off + 2)))))
    (ACTION_BLOCK (of_nat (9 + length bs)) t a b d)"
    by (intro coded_patched16 [OF w]) simp
  then show ?thesis
    unfolding r ext_buffer_push_action_block.simps push_action_block_body_def
      ext_buffer_pull_action_block_def patch_length16_def seq_assoc
    by (intro exI [of _ "ACTION_BLOCK (of_nat (9 + length bs)) t a b d"]) simp
qed

lemma coded_rule_actions:
  assumes "rs \<noteq> []" "length rs < 2 ^ 16" "\<forall>r\<in>set rs. action_ok f r"
  shows "\<exists>rs'. list_all2 same_action rs rs' \<and>
    coded f ext_buffer_pull_rule_actions (ext_buffer_push_rule_actions rs) rs'"
proof -
  obtain rs' where rs': "list_all2 same_action rs rs'"
    "coded f (pull_elems 24 (length rs) (ext_buffer_pull_action_block ext_buffer_pull_tagged_propval))
      (for_each ext_buffer_push_action_block rs) rs'"
    using coded_elems_rel [of rs same_action f "ext_buffer_pull_action_block ext_buffer_pull_tagged_propval"
        ext_buffer_push_action_block "length rs" 24] assms(3) coded_action_block by blast
  have "coded f ext_buffer_pull_rule_actions (ext_buffer_push_rule_actions rs) rs'"
    unfolding ext_buffer_pull_rule_actions_def pull_rule_actions_def ext_buffer_push_rule_actions.simps
      push_rule_actions_body_def
    using rs'(2) assms(1,2) of_nat_nonzero(1) [of "length rs"]
    by (auto simp: unat_of_nat_u16 intro!: coded_bnd [OF coded_uint16])
  with rs'(1) show ?thesis by blast
qed

end
