(* ===== verification/Struct_Types.thy ===== *)
theory Struct_Types
  imports Prop_Types
begin

text \<open>
  The structures of \<open>mapi_types.h\<close> that are built from identifiers, property tags and
  property values.  An array structure (a count and a pointer) is a list; a pointer that
  may be \<open>NULL\<close> is an option; an array of fixed length is the list of its bytes.
\<close>

record rpc_header_ext =
  rhe_version :: u16
  rhe_flags :: u16
  rhe_size :: u16
  rhe_size_actual :: u16

datatype long_term_id = LONG_TERM_ID (lt_guid: guid) (lt_global_counter: bytes) (lt_padding: u16)

definition KIND_LID :: u8 where "KIND_LID = 0x00"
definition KIND_NAME :: u8 where "KIND_NAME = 0x01"
definition KIND_NONE :: u8 where "KIND_NONE = 0xFF"

datatype property_name = PROPERTY_NAME (pn_kind: u8) (pn_guid: guid) (pn_lid: "u32 option")
  (pn_name: "bytes option")

datatype property_problem = PROPERTY_PROBLEM (pp_index: u16) (pp_proptag: u32) (pp_err: u32)

datatype xid = XID (xid_guid: guid) (xid_local_id: bytes)

datatype folder_entryid = FOLDER_ENTRYID (fe_flags: u32) (fe_provider_uid: bytes)
  (fe_folder_type: u16) (fe_database_guid: guid) (fe_global_counter: bytes) (fe_pad: bytes)

datatype message_entryid = MESSAGE_ENTRYID (me_flags: u32) (me_provider_uid: bytes)
  (me_message_type: u16) (me_folder_database_guid: guid) (me_folder_global_counter: bytes)
  (me_pad1: bytes) (me_message_database_guid: guid) (me_message_global_counter: bytes)
  (me_pad2: bytes)

subsection \<open>Extended rule actions\<close>

text \<open>The counts and lengths of these are 32 bits wide.\<close>

datatype ext_recipient_block = EXT_RECIPIENT_BLOCK u8 "tagged_propval list"

datatype ext_action_data =
    XAD_NONE
  | XAD_MOVECOPY folder_entryid
  | XAD_REPLY message_entryid guid
  | XAD_DEFER bytes
  | XAD_BOUNCE u32
  | XAD_FORWARDDELEGATE "ext_recipient_block list"
  | XAD_TAG tagged_propval

datatype ext_action_block = EXT_ACTION_BLOCK u32 u8 u32 u32 ext_action_data

subsection \<open>Rows\<close>

definition FLAGGED_PROPVAL_FLAG_AVAILABLE :: u8 where "FLAGGED_PROPVAL_FLAG_AVAILABLE = 0x0"
definition FLAGGED_PROPVAL_FLAG_UNAVAILABLE :: u8 where "FLAGGED_PROPVAL_FLAG_UNAVAILABLE = 0x1"
definition FLAGGED_PROPVAL_FLAG_ERROR :: u8 where "FLAGGED_PROPVAL_FLAG_ERROR = 0xA"

text \<open>
  The \<open>void *pvalue\<close> of a flagged value points to a value, or to a \<open>TYPED_PROPVAL\<close> whose
  own \<open>pvalue\<close> may be \<open>NULL\<close>.
\<close>

datatype flagged_value = FV_NULL | FV_VALUE propval | FV_TYPED u16 "propval option"

datatype flagged_propval = FLAGGED_PROPVAL (fp_flag: u8) (fp_value: flagged_value)

definition PROPERTY_ROW_FLAG_NONE :: u8 where "PROPERTY_ROW_FLAG_NONE = 0x00"
definition PROPERTY_ROW_FLAG_FLAGGED :: u8 where "PROPERTY_ROW_FLAG_FLAGGED = 0x01"

datatype row_cell = CELL_VALUE propval | CELL_FLAGGED flagged_propval

datatype property_row = PROPERTY_ROW (pr_flag: u8) (pr_cells: "row_cell list")

datatype sort_order = SORT_ORDER (so_type: u16) (so_propid: u16) (so_table_sort: u8)

datatype sortorder_set = SORTORDER_SET (ss_ccategories: u16) (ss_cexpanded: u16)
  (ss_sort: "sort_order list")

definition STRING_TYPE_NONE :: u8 where "STRING_TYPE_NONE = 0x0"
definition STRING_TYPE_EMPTY :: u8 where "STRING_TYPE_EMPTY = 0x1"
definition STRING_TYPE_STRING8 :: u8 where "STRING_TYPE_STRING8 = 0x2"
definition STRING_TYPE_UNICODE_REDUCED :: u8 where "STRING_TYPE_UNICODE_REDUCED = 0x3"
definition STRING_TYPE_UNICODE :: u8 where "STRING_TYPE_UNICODE = 0x4"

datatype typed_string = TYPED_STRING (ts_type: u8) (ts_string: "bytes option")

lemmas struct_tags =
  KIND_LID_def KIND_NAME_def KIND_NONE_def
  FLAGGED_PROPVAL_FLAG_AVAILABLE_def FLAGGED_PROPVAL_FLAG_UNAVAILABLE_def
  FLAGGED_PROPVAL_FLAG_ERROR_def PROPERTY_ROW_FLAG_NONE_def PROPERTY_ROW_FLAG_FLAGGED_def
  STRING_TYPE_NONE_def STRING_TYPE_EMPTY_def STRING_TYPE_STRING8_def
  STRING_TYPE_UNICODE_REDUCED_def STRING_TYPE_UNICODE_def

end
