(* ===== verification/Ext_Pull_Struct.thy ===== *)
theory Ext_Pull_Struct
  imports Ext_Pull_Prop Struct_Types
begin

text \<open>
  The readers of \<open>ext_buffer.c\<close> for identifiers, property names, arrays of properties,
  extended rule actions, rows and sort orders, and their safety.
\<close>

subsection \<open>Headers, identifiers, arrays\<close>

definition ext_buffer_pull_rpc_header_ext :: "rpc_header_ext pull" where
  "ext_buffer_pull_rpc_header_ext =
     bnd ext_buffer_pull_uint16 (\<lambda>version.
     bnd ext_buffer_pull_uint16 (\<lambda>flags.
     bnd ext_buffer_pull_uint16 (\<lambda>sz.
     bnd ext_buffer_pull_uint16 (\<lambda>size_actual.
     ret \<lparr>rhe_version = version, rhe_flags = flags, rhe_size = sz,
          rhe_size_actual = size_actual\<rparr>))))"

definition ext_buffer_pull_long_term_id :: "long_term_id pull" where
  "ext_buffer_pull_long_term_id =
     bnd ext_buffer_pull_guid (\<lambda>guid.
     bnd (ext_buffer_pull_bytes 6) (\<lambda>global_counter.
     bnd ext_buffer_pull_uint16 (\<lambda>padding.
     ret (LONG_TERM_ID guid global_counter padding))))"

definition ext_buffer_pull_long_term_id_array :: "long_term_id list pull" where
  "ext_buffer_pull_long_term_id_array =
     bnd ext_buffer_pull_uint16 (\<lambda>count.
     pull_elems 24 (unat count) ext_buffer_pull_long_term_id)"

definition ext_buffer_pull_long_term_id_rang :: "(long_term_id \<times> long_term_id) pull" where
  "ext_buffer_pull_long_term_id_rang =
     bnd ext_buffer_pull_long_term_id (\<lambda>min.
     bnd ext_buffer_pull_long_term_id (\<lambda>max.
     ret (min, max)))"

definition ext_buffer_pull_proptag_array :: "u32 list pull" where
  "ext_buffer_pull_proptag_array =
     bnd ext_buffer_pull_uint16 (\<lambda>count. pull_elems 4 (unat count) ext_buffer_pull_uint32)"

text \<open>
  A part whose length \<open>n\<close> is known: read it, fail when it is longer, skip the rest of it.
  The new offset is not compared with \<open>data_size\<close>.
\<close>

definition pull_within :: "u32 \<Rightarrow> 'a pull \<Rightarrow> 'a pull" where
  "pull_within n p =
     bnd (gets pl_offset) (\<lambda>start.
     bnd p (\<lambda>x.
     bnd (gets pl_offset) (\<lambda>now.
       if now > start + n then fail EXT_ERR_FORMAT
       else bnd (modify (\<lambda>e. e\<lparr>pl_offset := start + n\<rparr>)) (\<lambda>_. ret x))))"

definition ext_buffer_pull_property_name :: "property_name pull" where
  "ext_buffer_pull_property_name =
     bnd ext_buffer_pull_uint8 (\<lambda>kind.
     bnd ext_buffer_pull_guid (\<lambda>guid.
       if kind = KIND_LID then
         bnd (pull_alloc 4) (\<lambda>_.
         bnd ext_buffer_pull_uint32 (\<lambda>lid.
         ret (PROPERTY_NAME kind guid (Some lid) None)))
       else if kind = KIND_NAME then
         bnd ext_buffer_pull_uint8 (\<lambda>name_size.
           if name_size < 2 then fail EXT_ERR_FORMAT
           else bnd (pull_within (ucast name_size) ext_buffer_pull_wstring) (\<lambda>name.
                ret (PROPERTY_NAME kind guid None (Some name))))
       else ret (PROPERTY_NAME kind guid None None)))"

definition ext_buffer_pull_propname_array :: "property_name list pull" where
  "ext_buffer_pull_propname_array =
     bnd ext_buffer_pull_uint16 (\<lambda>count.
     pull_elems 40 (unat count) ext_buffer_pull_property_name)"

definition ext_buffer_pull_propid_array :: "u16 list pull" where
  "ext_buffer_pull_propid_array =
     bnd ext_buffer_pull_uint16 (\<lambda>count. pull_elems 2 (unat count) ext_buffer_pull_uint16)"

definition ext_buffer_pull_tpropval_array :: "tagged_propval list pull" where
  "ext_buffer_pull_tpropval_array =
     bnd ext_buffer_pull_uint16 (\<lambda>count.
     pull_elems 16 (unat count) ext_buffer_pull_tagged_propval)"

definition ext_buffer_pull_tarray_set :: "tagged_propval list list pull" where
  "ext_buffer_pull_tarray_set =
     bnd ext_buffer_pull_uint32 (\<lambda>count.
     pull_elems 8 (unat count)
       (bnd (pull_alloc 16) (\<lambda>_. ext_buffer_pull_tpropval_array)))"

definition ext_buffer_pull_property_problem :: "property_problem pull" where
  "ext_buffer_pull_property_problem =
     bnd ext_buffer_pull_uint16 (\<lambda>index.
     bnd ext_buffer_pull_uint32 (\<lambda>proptag.
     bnd ext_buffer_pull_uint32 (\<lambda>err.
     ret (PROPERTY_PROBLEM index proptag err))))"

text \<open>Here a count of zero is not treated apart: \<open>alloc(0)\<close> is called.\<close>

definition ext_buffer_pull_problem_array :: "property_problem list pull" where
  "ext_buffer_pull_problem_array =
     bnd ext_buffer_pull_uint16 (\<lambda>count.
     bnd (pull_alloc (12 * unat count)) (\<lambda>_.
     repeat_n (unat count) ext_buffer_pull_property_problem))"

definition ext_buffer_pull_xid :: "u8 \<Rightarrow> xid pull" where
  "ext_buffer_pull_xid sz =
     (if sz < 17 \<or> sz > 24 then fail EXT_ERR_FORMAT
      else
        bnd ext_buffer_pull_guid (\<lambda>guid.
        bnd (ext_buffer_pull_bytes (ucast sz - 16)) (\<lambda>local_id.
        ret (XID guid local_id))))"

definition ext_buffer_pull_folder_entryid :: "folder_entryid pull" where
  "ext_buffer_pull_folder_entryid =
     bnd ext_buffer_pull_uint32 (\<lambda>flags.
     bnd (ext_buffer_pull_bytes 16) (\<lambda>provider_uid.
     bnd ext_buffer_pull_uint16 (\<lambda>folder_type.
     bnd ext_buffer_pull_guid (\<lambda>database_guid.
     bnd (ext_buffer_pull_bytes 6) (\<lambda>global_counter.
     bnd (ext_buffer_pull_bytes 2) (\<lambda>pad.
     ret (FOLDER_ENTRYID flags provider_uid folder_type database_guid global_counter pad)))))))"

definition ext_buffer_pull_message_entryid :: "message_entryid pull" where
  "ext_buffer_pull_message_entryid =
     bnd ext_buffer_pull_uint32 (\<lambda>flags.
     bnd (ext_buffer_pull_bytes 16) (\<lambda>provider_uid.
     bnd ext_buffer_pull_uint16 (\<lambda>message_type.
     bnd ext_buffer_pull_guid (\<lambda>folder_database_guid.
     bnd (ext_buffer_pull_bytes 6) (\<lambda>folder_global_counter.
     bnd (ext_buffer_pull_bytes 2) (\<lambda>pad1.
     bnd ext_buffer_pull_guid (\<lambda>message_database_guid.
     bnd (ext_buffer_pull_bytes 6) (\<lambda>message_global_counter.
     bnd (ext_buffer_pull_bytes 2) (\<lambda>pad2.
     ret (MESSAGE_ENTRYID flags provider_uid message_type folder_database_guid
       folder_global_counter pad1 message_database_guid message_global_counter pad2))))))))))"

subsection \<open>Extended rule actions\<close>

definition ext_buffer_pull_ext_movecopy_action :: "folder_entryid pull" where
  "ext_buffer_pull_ext_movecopy_action =
     bnd ext_buffer_pull_uint32 (\<lambda>sz.
       if sz = 0 then fail EXT_ERR_FORMAT
       else
         bnd (ext_buffer_pull_advance sz) (\<lambda>_.
         bnd ext_buffer_pull_uint32 (\<lambda>sz.
           if sz \<noteq> 46 then fail EXT_ERR_FORMAT else ext_buffer_pull_folder_entryid)))"

definition ext_buffer_pull_ext_reply_action :: "(message_entryid \<times> guid) pull" where
  "ext_buffer_pull_ext_reply_action =
     bnd ext_buffer_pull_uint32 (\<lambda>sz.
       if sz \<noteq> 70 then fail EXT_ERR_FORMAT
       else
         bnd ext_buffer_pull_message_entryid (\<lambda>message_eid.
         bnd ext_buffer_pull_guid (\<lambda>template_guid.
         ret (message_eid, template_guid))))"

definition ext_buffer_pull_ext_recipient_block :: "ext_recipient_block pull" where
  "ext_buffer_pull_ext_recipient_block =
     bnd ext_buffer_pull_uint8 (\<lambda>reserved.
     bnd ext_buffer_pull_uint32 (\<lambda>count.
       if count = 0 then fail EXT_ERR_FORMAT
       else bnd (pull_elems 16 (unat count) ext_buffer_pull_tagged_propval) (\<lambda>ppropval.
            ret (EXT_RECIPIENT_BLOCK reserved ppropval))))"

definition ext_buffer_pull_ext_forwarddelegate_action :: "ext_recipient_block list pull" where
  "ext_buffer_pull_ext_forwarddelegate_action =
     bnd ext_buffer_pull_uint32 (\<lambda>count.
       if count = 0 then fail EXT_ERR_FORMAT
       else pull_elems 16 (unat count) ext_buffer_pull_ext_recipient_block)"

definition pull_ext_action_data :: "u32 \<Rightarrow> u8 \<Rightarrow> ext_action_data pull" where
  "pull_ext_action_data len type =
     (if type = ACTION_TYPE_OP_MOVE \<or> type = ACTION_TYPE_OP_COPY
      then bnd (pull_alloc 48) (\<lambda>_.
           bnd ext_buffer_pull_ext_movecopy_action (\<lambda>a. ret (XAD_MOVECOPY a)))
      else if type = ACTION_TYPE_OP_REPLY \<or> type = ACTION_TYPE_OP_OOF_REPLY
      then bnd (pull_alloc 88) (\<lambda>_.
           bnd ext_buffer_pull_ext_reply_action (\<lambda>(a, g). ret (XAD_REPLY a g)))
      else if type = ACTION_TYPE_OP_DEFER_ACTION
      then (let tmp_len = len - 1 - 4 in
            bnd (pull_alloc (unat tmp_len)) (\<lambda>_.
            bnd (ext_buffer_pull_bytes tmp_len) (\<lambda>b. ret (XAD_DEFER b))))
      else if type = ACTION_TYPE_OP_BOUNCE
      then bnd (pull_alloc 4) (\<lambda>_.
           bnd ext_buffer_pull_uint32 (\<lambda>c. ret (XAD_BOUNCE c)))
      else if type = ACTION_TYPE_OP_FORWARD \<or> type = ACTION_TYPE_OP_DELEGATE
      then bnd (pull_alloc 16) (\<lambda>_.
           bnd ext_buffer_pull_ext_forwarddelegate_action (\<lambda>bs. ret (XAD_FORWARDDELEGATE bs)))
      else if type = ACTION_TYPE_OP_TAG
      then bnd (pull_alloc 16) (\<lambda>_.
           bnd ext_buffer_pull_tagged_propval (\<lambda>v. ret (XAD_TAG v)))
      else if type = ACTION_TYPE_OP_DELETE \<or> type = ACTION_TYPE_OP_MARK_AS_READ
      then ret XAD_NONE
      else fail EXT_ERR_BAD_SWITCH)"

definition ext_buffer_pull_ext_action_block :: "ext_action_block pull" where
  "ext_buffer_pull_ext_action_block =
     bnd ext_buffer_pull_uint32 (\<lambda>len.
     bnd ext_buffer_pull_uint8 (\<lambda>type.
     bnd ext_buffer_pull_uint32 (\<lambda>flavor.
     bnd ext_buffer_pull_uint32 (\<lambda>flags.
     bnd (pull_ext_action_data len type) (\<lambda>pdata.
     ret (EXT_ACTION_BLOCK len type flavor flags pdata))))))"

definition ext_buffer_pull_ext_rule_actions :: "ext_action_block list pull" where
  "ext_buffer_pull_ext_rule_actions =
     bnd ext_buffer_pull_uint32 (\<lambda>count.
       if count = 0 then fail EXT_ERR_FORMAT
       else pull_elems 24 (unat count) ext_buffer_pull_ext_action_block)"

definition ext_buffer_pull_namedproperty_information :: "(u16 list \<times> property_name list) pull" where
  "ext_buffer_pull_namedproperty_information =
     bnd ext_buffer_pull_uint16 (\<lambda>count.
       if count = 0 then ret ([], [])
       else
         bnd (pull_alloc (2 * unat count)) (\<lambda>_.
         bnd (pull_alloc (40 * unat count)) (\<lambda>_.
         bnd (repeat_n (unat count) ext_buffer_pull_uint16) (\<lambda>propids.
         bnd ext_buffer_pull_uint32 (\<lambda>sz.
         bnd (pull_within sz (repeat_n (unat count) ext_buffer_pull_property_name)) (\<lambda>propnames.
         ret (propids, propnames)))))))"

subsection \<open>Rows\<close>

definition ext_buffer_pull_flagged_propval :: "u16 \<Rightarrow> flagged_propval pull" where
  "ext_buffer_pull_flagged_propval type0 =
     bnd (if type0 = PROPVAL_TYPE_UNSPECIFIED
          then bnd ext_buffer_pull_uint16 (\<lambda>type.
               bnd (pull_alloc 16) (\<lambda>_.
               ret (type, FV_TYPED type)))
          else ret (type0, \<lambda>v. case v of None \<Rightarrow> FV_NULL | Some v \<Rightarrow> FV_VALUE v)) (\<lambda>(type, ppvalue).
     bnd ext_buffer_pull_uint8 (\<lambda>flag.
       if flag = FLAGGED_PROPVAL_FLAG_AVAILABLE
       then bnd (ext_buffer_pull_propval type) (\<lambda>v. ret (FLAGGED_PROPVAL flag (ppvalue (Some v))))
       else if flag = FLAGGED_PROPVAL_FLAG_UNAVAILABLE
       then ret (FLAGGED_PROPVAL flag (ppvalue None))
       else if flag = FLAGGED_PROPVAL_FLAG_ERROR
       then bnd (pull_alloc 4) (\<lambda>_.
            bnd ext_buffer_pull_uint32 (\<lambda>err.
            ret (FLAGGED_PROPVAL flag (ppvalue (Some (PV_LONG err))))))
       else fail EXT_ERR_BAD_SWITCH))"

definition ext_buffer_pull_property_row :: "u32 list \<Rightarrow> property_row pull" where
  "ext_buffer_pull_property_row pcolumns =
     bnd ext_buffer_pull_uint8 (\<lambda>flag.
     bnd (pull_alloc (8 * length pcolumns)) (\<lambda>_.
       if flag = PROPERTY_ROW_FLAG_NONE
       then bnd (map_each (\<lambda>tag.
              bnd (ext_buffer_pull_propval (proptag_type tag)) (\<lambda>v. ret (CELL_VALUE v))) pcolumns)
              (\<lambda>cells. ret (PROPERTY_ROW flag cells))
       else if flag = PROPERTY_ROW_FLAG_FLAGGED
       then bnd (map_each (\<lambda>tag.
              bnd (pull_alloc 16) (\<lambda>_.
              bnd (ext_buffer_pull_flagged_propval (proptag_type tag)) (\<lambda>v.
              ret (CELL_FLAGGED v)))) pcolumns)
              (\<lambda>cells. ret (PROPERTY_ROW flag cells))
       else fail EXT_ERR_BAD_SWITCH))"

text \<open>After \<open>prows = NULL\<close> for a count of zero there is no return: \<open>alloc(0)\<close> is called.\<close>

definition ext_buffer_pull_proprow_set :: "u32 list \<Rightarrow> property_row list pull" where
  "ext_buffer_pull_proprow_set pcolumns =
     bnd ext_buffer_pull_uint16 (\<lambda>count.
     bnd (pull_alloc (16 * unat count)) (\<lambda>_.
     repeat_n (unat count) (ext_buffer_pull_property_row pcolumns)))"

definition ext_buffer_pull_sort_order :: "sort_order pull" where
  "ext_buffer_pull_sort_order =
     bnd ext_buffer_pull_uint16 (\<lambda>type.
       if type AND 0x1000 \<noteq> 0 \<and> type AND 0x2000 = 0 then fail EXT_ERR_FORMAT
       else
         bnd ext_buffer_pull_uint16 (\<lambda>propid.
         bnd ext_buffer_pull_uint8 (\<lambda>table_sort.
         ret (SORT_ORDER type propid table_sort))))"

definition ext_buffer_pull_sortorder_set :: "sortorder_set pull" where
  "ext_buffer_pull_sortorder_set =
     bnd ext_buffer_pull_uint16 (\<lambda>count.
     bnd ext_buffer_pull_uint16 (\<lambda>ccategories.
     bnd ext_buffer_pull_uint16 (\<lambda>cexpanded.
       if count = 0 \<or> ccategories > count \<or> cexpanded > ccategories then fail EXT_ERR_FORMAT
       else
         bnd (pull_alloc (6 * unat count)) (\<lambda>_.
         bnd (repeat_n (unat count) ext_buffer_pull_sort_order) (\<lambda>psort.
         ret (SORTORDER_SET ccategories cexpanded psort))))))"

definition ext_buffer_pull_typed_string :: "typed_string pull" where
  "ext_buffer_pull_typed_string =
     bnd ext_buffer_pull_uint8 (\<lambda>string_type.
       if string_type = STRING_TYPE_NONE \<or> string_type = STRING_TYPE_EMPTY
       then ret (TYPED_STRING string_type None)
       else if string_type = STRING_TYPE_STRING8 \<or> string_type = STRING_TYPE_UNICODE_REDUCED
       then bnd ext_buffer_pull_string (\<lambda>s. ret (TYPED_STRING string_type (Some s)))
       else if string_type = STRING_TYPE_UNICODE
       then bnd ext_buffer_pull_wstring (\<lambda>s. ret (TYPED_STRING string_type (Some s)))
       else fail EXT_ERR_BAD_SWITCH)"

subsection \<open>Safety\<close>

text \<open>
  \<open>safe_in\<close>: safe when started inside the buffer, as after a scalar that was read.
\<close>

definition safe_in :: "nat \<Rightarrow> 'a pull \<Rightarrow> bool" where
  "safe_in b p \<longleftrightarrow>
     (\<forall>e. pull_inv e \<and> remaining e < b \<and> unat (pl_offset e) \<le> unat (pl_data_size e) \<longrightarrow>
        good_end e (p e))"

lemma safe_inD:
  "safe_in b p \<Longrightarrow> pull_inv e \<Longrightarrow> remaining e < b \<Longrightarrow> unat (pl_offset e) \<le> unat (pl_data_size e) \<Longrightarrow>
     good_end e (p e)"
  by (simp add: safe_in_def)

lemma safe_in_safe: "safe b p \<Longrightarrow> safe_in b p"
  by (simp add: safe_in_def safe_def)

lemma safe_bnd_fixed:
  assumes "\<And>x. safe_in b (k x)"
  shows "safe b (bnd (bnd (pull_fixed n) (\<lambda>x. ret (g x))) k)"
proof (rule safeI)
  fix e assume e: "pull_inv e" "remaining e < b"
  show "good_end e (bnd (bnd (pull_fixed n) (\<lambda>x. ret (g x))) k e)"
  proof (cases "pull_fixed n e")
    case (Pair r e')
    show ?thesis
    proof (cases r)
      case (Inl err)
      with safeD [OF safe_pull_fixed [of b n] e] Pair show ?thesis by (simp add: bnd_def)
    next
      case (Inr x)
      then have eq: "e' = e\<lparr>pl_offset := pl_offset e + of_nat n\<rparr>"
        and fits: "unat (pl_offset e) + n \<le> unat (pl_data_size e)"
        using Pair by (auto simp: pull_fixed_def Let_def split: if_splits)
      have off: "unat (pl_offset e + of_nat n) = unat (pl_offset e) + n"
        using fits e(1) by (intro unat_add_of_nat) (simp add: pull_inv_def)
      have "pull_inv e'" "remaining e' < b" "unat (pl_offset e') \<le> unat (pl_data_size e')"
        "same_buffer e e'" "unat (pl_offset e) \<le> unat (pl_offset e')"
        using e fits off by (auto simp: eq pull_inv_def remaining_def)
      then show ?thesis
        using safe_inD [OF assms, of e' "g x"] Pair Inr
        by (auto simp: bnd_def ret_def intro: good_end_trans)
    qed
  qed
qed

lemma safe_bnd_uint8: "(\<And>x. safe_in b (k x)) \<Longrightarrow> safe b (bnd ext_buffer_pull_uint8 k)"
  unfolding ext_buffer_pull_uint8_def by (rule safe_bnd_fixed)

lemma pull_within_end:
  assumes "pull_inv e" "good_end e (p e)" "unat (pl_offset e) \<le> unat (pl_data_size e)"
    "unat n \<le> 65535"
  shows "good_end e (pull_within n p e)"
proof (cases "p e")
  case (Pair r e')
  have sum: "unat (pl_offset e + n) = unat (pl_offset e) + unat n"
    using assms(1,4) by (intro unat_add_word) (simp add: pull_inv_def)
  show ?thesis
  proof (cases r)
    case (Inl err)
    with assms(2) Pair show ?thesis by (auto simp: pull_within_def bnd_def gets_def)
  next
    case (Inr x)
    with assms Pair sum show ?thesis
      by (auto simp: pull_within_def bnd_def gets_def modify_def ret_def fail_def pull_inv_def
          same_buffer_def)
  qed
qed

lemma safe_in_pull_within:
  "safe b p \<Longrightarrow> unat n \<le> 65535 \<Longrightarrow> safe_in b (pull_within n p)"
  unfolding safe_in_def by (auto intro!: pull_within_end intro: safeD)

lemma safe_in_bnd: "safe_in b p \<Longrightarrow> (\<And>x. safe b (k x)) \<Longrightarrow> safe_in b (bnd p k)"
  unfolding safe_in_def
proof (intro allI impI, elim conjE)
  fix e assume *: "\<forall>e. pull_inv e \<and> remaining e < b \<and> unat (pl_offset e) \<le> unat (pl_data_size e) \<longrightarrow>
      good_end e (p e)" and k: "\<And>x. safe b (k x)"
    and e: "pull_inv e" "remaining e < b" "unat (pl_offset e) \<le> unat (pl_data_size e)"
  obtain r e' where p: "p e = (r, e')" by fastforce
  with * e have stop: "good_end e (r, e')" by auto
  show "good_end e (bnd p k e)"
  proof (cases r)
    case (Inr x)
    with stop have "same_buffer e e'" "pull_inv e'" "unat (pl_offset e) \<le> unat (pl_offset e')"
      by auto
    moreover from this e have "remaining e' < b" using remaining_mono [of e e'] by simp
    ultimately show ?thesis
      using safeD [OF k, of e' x] p Inr by (auto simp: bnd_def intro: good_end_trans)
  qed (use p stop in \<open>simp add: bnd_def\<close>)
qed

lemma safe_pull_rpc_header_ext [safe_rules]: "safe b ext_buffer_pull_rpc_header_ext"
  unfolding ext_buffer_pull_rpc_header_ext_def by (intro safe_rules)

lemma safe_pull_long_term_ids [safe_rules]:
  "safe b ext_buffer_pull_long_term_id" "safe b ext_buffer_pull_long_term_id_array"
  "safe b ext_buffer_pull_long_term_id_rang"
  unfolding ext_buffer_pull_long_term_id_array_def ext_buffer_pull_long_term_id_rang_def
    ext_buffer_pull_long_term_id_def
  by (intro safe_rules)+

lemma safe_pull_property_name [safe_rules]: "safe b ext_buffer_pull_property_name"
proof -
  have name: "safe b (bnd ext_buffer_pull_uint8 (\<lambda>name_size.
      if name_size < 2 then fail EXT_ERR_FORMAT
      else bnd (pull_within (ucast name_size) ext_buffer_pull_wstring) (\<lambda>name. ret (c name))))"
    for c :: "bytes \<Rightarrow> property_name"
  proof (rule safe_bnd_uint8)
    fix sz :: u8
    have "unat (ucast sz :: u32) \<le> 65535" using word_bounds(1) [of sz] by simp
    then have "safe_in b (bnd (pull_within (ucast sz) ext_buffer_pull_wstring) (\<lambda>name. ret (c name)))"
      by (intro safe_in_bnd safe_in_pull_within safe_rules)
    then show "safe_in b (if sz < 2 then fail EXT_ERR_FORMAT
      else bnd (pull_within (ucast sz) ext_buffer_pull_wstring) (\<lambda>name. ret (c name)))"
      by (simp add: safe_in_safe safe_fail)
  qed
  show ?thesis
    unfolding ext_buffer_pull_property_name_def by (intro safe_rules name)
qed

lemma safe_pull_arrays16 [safe_rules]:
  "safe b ext_buffer_pull_proptag_array" "safe b ext_buffer_pull_propname_array"
  "safe b ext_buffer_pull_propid_array" "safe b ext_buffer_pull_tpropval_array"
  unfolding ext_buffer_pull_proptag_array_def ext_buffer_pull_propname_array_def
    ext_buffer_pull_propid_array_def ext_buffer_pull_tpropval_array_def
  by (intro safe_rules)+

lemma safe_pull_tarray_set [safe_rules]: "safe b ext_buffer_pull_tarray_set"
  unfolding ext_buffer_pull_tarray_set_def by (intro safe_rules)

lemma safe_pull_problem_array [safe_rules]: "safe b ext_buffer_pull_problem_array"
  unfolding ext_buffer_pull_problem_array_def ext_buffer_pull_property_problem_def
  by (intro safe_rules)

lemma safe_pull_xid [safe_rules]: "safe b (ext_buffer_pull_xid sz)"
  unfolding ext_buffer_pull_xid_def by (intro safe_rules; simp)

lemma safe_pull_entryids [safe_rules]:
  "safe b ext_buffer_pull_folder_entryid" "safe b ext_buffer_pull_message_entryid"
  unfolding ext_buffer_pull_folder_entryid_def ext_buffer_pull_message_entryid_def
  by (intro safe_rules)+

lemma safe_map_each [safe_rules]: "(\<And>c. safe b (p c)) \<Longrightarrow> safe b (map_each p cs)"
  by (induction cs) (auto intro!: safe_rules)

lemma safe_pull_flagged_propval [safe_rules]: "safe b (ext_buffer_pull_flagged_propval type)"
  unfolding ext_buffer_pull_flagged_propval_def
  by (intro safe_bnd safe_if safe_rules; (simp split: prod.split; intro allI impI)?)
    (auto intro!: safe_rules)

lemma safe_pull_rows [safe_rules]:
  "safe b (ext_buffer_pull_property_row cols)" "safe b (ext_buffer_pull_proprow_set cols)"
  unfolding ext_buffer_pull_proprow_set_def ext_buffer_pull_property_row_def
  by (intro safe_rules; simp)+

lemma safe_pull_sort_orders [safe_rules]:
  "safe b ext_buffer_pull_sort_order" "safe b ext_buffer_pull_sortorder_set"
  unfolding ext_buffer_pull_sortorder_set_def ext_buffer_pull_sort_order_def
  by (intro safe_rules; simp)+

lemma safe_pull_typed_string [safe_rules]: "safe b ext_buffer_pull_typed_string"
  unfolding ext_buffer_pull_typed_string_def by (intro safe_rules; simp)

text \<open>The readers that use a 32-bit length to move are bounded, but may move backwards.\<close>

lemma bounded_pull_ext_movecopy_action: "bounded ext_buffer_pull_ext_movecopy_action"
  unfolding ext_buffer_pull_ext_movecopy_action_def
  by (intro bounded_rules bounded_safe [OF safe_pull_entryids(1)]; simp)

lemma safe_pull_ext_parts [safe_rules]:
  "safe b ext_buffer_pull_ext_reply_action" "safe b ext_buffer_pull_ext_forwarddelegate_action"
  unfolding ext_buffer_pull_ext_reply_action_def ext_buffer_pull_ext_forwarddelegate_action_def
    ext_buffer_pull_ext_recipient_block_def
  by (intro safe_rules; simp)+

lemma bounded_pull_ext_action_data: "bounded (pull_ext_action_data len type)"
  unfolding pull_ext_action_data_def Let_def
  by (intro bounded_rules bounded_pull_ext_movecopy_action
      bounded_safe [OF safe_pull_ext_parts(1)] bounded_safe [OF safe_pull_ext_parts(2)]
      bounded_safe [OF safe_pull_bytes] bounded_safe [OF safe_ext_pull_tagged(2)])
    (auto split: prod.split intro: bounded_rules)

lemma bounded_pull_ext_rule_actions: "bounded ext_buffer_pull_ext_rule_actions"
  unfolding ext_buffer_pull_ext_rule_actions_def ext_buffer_pull_ext_action_block_def
  by (intro bounded_rules bounded_pull_ext_action_data; simp)

text \<open>
  Reading named properties is safe by itself.  The offset it leaves behind may lie
  anywhere, as \<open>offset + size\<close> is not compared with \<open>data_size\<close>.
\<close>

definition harmless_end :: "ext_pull \<Rightarrow> (ext_err + 'a) \<times> ext_pull \<Rightarrow> bool" where
  "harmless_end e r \<longleftrightarrow>
     (case fst r of
        Inl err \<Rightarrow> err \<notin> {UNDEFINED_BEHAVIOUR, OUT_OF_FUEL, NOT_RETURNING} \<and>
          (err = NULL_WRITE \<longrightarrow> \<not> willing e)
      | Inr x \<Rightarrow> True)"

definition harmless :: "'a pull \<Rightarrow> bool" where
  "harmless p \<longleftrightarrow> (\<forall>e. pull_inv e \<longrightarrow> harmless_end e (p e))"

lemma harmlessI: "(\<And>e. pull_inv e \<Longrightarrow> harmless_end e (p e)) \<Longrightarrow> harmless p"
  by (simp add: harmless_def)

lemma harmlessD: "harmless p \<Longrightarrow> pull_inv e \<Longrightarrow> harmless_end e (p e)"
  by (simp add: harmless_def)

lemma sound_end_harmless: "sound_end e r \<Longrightarrow> harmless_end e r"
  by (auto simp: sound_end_def harmless_end_def split: sum.splits)

lemma harmless_bnd:
  assumes "bounded p" "\<And>x. harmless (k x)"
  shows "harmless (bnd p k)"
proof (rule harmlessI)
  fix e assume e: "pull_inv e"
  obtain r e' where p: "p e = (r, e')" by fastforce
  have s: "sound_end e (r, e')" using boundedD [OF assms(1) e] p by simp
  show "harmless_end e (bnd p k e)"
  proof (cases r)
    case (Inl err)
    with p s show ?thesis by (simp add: bnd_def harmless_end_def)
  next
    case (Inr x)
    with s have "harmless_end e' (k x e')" "willing e' = willing e"
      using harmlessD [OF assms(2), of e' x] by (auto simp: same_buffer_def willing_def)
    with p Inr show ?thesis by (auto simp: bnd_def harmless_end_def split: sum.splits)
  qed
qed

lemma harmless_bounded: "bounded p \<Longrightarrow> harmless p"
  by (intro harmlessI sound_end_harmless boundedD)

lemma harmless_within:
  assumes "bounded p"
  shows "harmless (bnd (pull_within n p) (\<lambda>x. ret (g x)))"
proof (rule harmlessI)
  fix e assume e: "pull_inv e"
  obtain r e' where p: "p e = (r, e')" by fastforce
  have "sound_end e (r, e')" using boundedD [OF assms e] p by simp
  with p show "harmless_end e (bnd (pull_within n p) (\<lambda>x. ret (g x)) e)"
    by (cases r) (auto simp: pull_within_def bnd_def gets_def modify_def ret_def fail_def
        harmless_end_def)
qed

lemma harmless_pull_namedproperty: "harmless ext_buffer_pull_namedproperty_information"
proof -
  have "bounded ext_buffer_pull_property_name"
    by (intro bounded_safe safe_pull_property_name)
  then have rest: "harmless (bnd (pull_alloc a) (\<lambda>_. bnd (pull_alloc b) (\<lambda>_.
      bnd (repeat_n n ext_buffer_pull_uint16) (\<lambda>ids. bnd ext_buffer_pull_uint32 (\<lambda>sz.
      bnd (pull_within sz (repeat_n n ext_buffer_pull_property_name)) (\<lambda>names. ret (ids, names)))))))"
    for a b n
    by (intro harmless_bnd harmless_within bounded_rules)
  show ?thesis
    unfolding ext_buffer_pull_namedproperty_information_def
    by (intro harmless_bnd bounded_rules) (simp add: rest harmless_bounded bounded_ret)
qed

end
