(* ===== verification/Ext_Push_Struct.thy ===== *)
theory Ext_Push_Struct
  imports Ext_Push_Prop Struct_Types
begin

text \<open>
  The writers of \<open>ext_buffer.c\<close> for identifiers, property names, arrays of properties,
  extended rule actions, rows and sort orders.
\<close>

subsection \<open>Headers, identifiers, arrays\<close>

definition ext_buffer_push_rpc_header_ext :: "rpc_header_ext \<Rightarrow> push" where
  "ext_buffer_push_rpc_header_ext r =
     seq (ext_buffer_push_uint16 (rhe_version r))
    (seq (ext_buffer_push_uint16 (rhe_flags r))
    (seq (ext_buffer_push_uint16 (rhe_size r))
         (ext_buffer_push_uint16 (rhe_size_actual r))))"

definition ext_buffer_push_long_term_id :: "long_term_id \<Rightarrow> push" where
  "ext_buffer_push_long_term_id r =
     seq (ext_buffer_push_guid (lt_guid r))
    (seq (ext_buffer_push_bytes (lt_global_counter r))
         (ext_buffer_push_uint16 (lt_padding r)))"

definition ext_buffer_push_long_term_id_array :: "long_term_id list \<Rightarrow> push" where
  "ext_buffer_push_long_term_id_array r =
     seq (ext_buffer_push_uint16 (of_nat (length r))) (for_each ext_buffer_push_long_term_id r)"

definition ext_buffer_push_long_term_id_rang :: "long_term_id \<times> long_term_id \<Rightarrow> push" where
  "ext_buffer_push_long_term_id_rang r =
     seq (ext_buffer_push_long_term_id (fst r)) (ext_buffer_push_long_term_id (snd r))"

definition ext_buffer_push_proptag_array :: "u32 list \<Rightarrow> push" where
  "ext_buffer_push_proptag_array r =
     seq (ext_buffer_push_uint16 (of_nat (length r))) (for_each ext_buffer_push_uint32 r)"

text \<open>\<open>plid\<close> and \<open>pname\<close> are followed without a test.  \<open>name_size\<close> is a \<open>uint8_t\<close>.\<close>

definition ext_buffer_push_property_name :: "property_name \<Rightarrow> push" where
  "ext_buffer_push_property_name r =
     seq (ext_buffer_push_uint8 (pn_kind r))
    (seq (ext_buffer_push_guid (pn_guid r))
         (if pn_kind r = KIND_LID then
            (case pn_lid r of
               Some lid \<Rightarrow> ext_buffer_push_uint32 lid
             | None \<Rightarrow> fail UNDEFINED_BEHAVIOUR)
          else if pn_kind r = KIND_NAME then
            bnd (gets ps_offset) (\<lambda>offset.
            seq (ext_buffer_push_advance 1)
           (seq (case pn_name r of
                   Some name \<Rightarrow> ext_buffer_push_wstring name
                 | None \<Rightarrow> fail UNDEFINED_BEHAVIOUR)
                (patch_back (\<lambda>n. ext_buffer_push_uint8 (ucast n)) offset (offset + 1))))
          else ret ()))"

definition ext_buffer_push_propname_array :: "property_name list \<Rightarrow> push" where
  "ext_buffer_push_propname_array r =
     seq (ext_buffer_push_uint16 (of_nat (length r))) (for_each ext_buffer_push_property_name r)"

definition ext_buffer_push_propid_array :: "u16 list \<Rightarrow> push" where
  "ext_buffer_push_propid_array r =
     seq (ext_buffer_push_uint16 (of_nat (length r))) (for_each ext_buffer_push_uint16 r)"

definition ext_buffer_push_tpropval_array :: "tagged_propval list \<Rightarrow> push" where
  "ext_buffer_push_tpropval_array r =
     seq (ext_buffer_push_uint16 (of_nat (length r))) (for_each ext_buffer_push_tagged_propval r)"

definition ext_buffer_push_tarray_set :: "tagged_propval list list \<Rightarrow> push" where
  "ext_buffer_push_tarray_set r =
     seq (ext_buffer_push_uint32 (of_nat (length r))) (for_each ext_buffer_push_tpropval_array r)"

definition ext_buffer_push_property_problem :: "property_problem \<Rightarrow> push" where
  "ext_buffer_push_property_problem r =
     seq (ext_buffer_push_uint16 (pp_index r))
    (seq (ext_buffer_push_uint32 (pp_proptag r))
         (ext_buffer_push_uint32 (pp_err r)))"

definition ext_buffer_push_problem_array :: "property_problem list \<Rightarrow> push" where
  "ext_buffer_push_problem_array r =
     seq (ext_buffer_push_uint16 (of_nat (length r))) (for_each ext_buffer_push_property_problem r)"

text \<open>\<open>local_id\<close> is an array of eight bytes; \<open>size - 16\<close> of them are written.\<close>

definition ext_buffer_push_xid :: "u8 \<Rightarrow> xid \<Rightarrow> push" where
  "ext_buffer_push_xid sz pxid =
     (if sz < 17 \<or> sz > 24 then fail EXT_ERR_FORMAT
      else
        seq (ext_buffer_push_guid (xid_guid pxid))
            (push_bytes_of (xid_local_id pxid) (ucast sz - 16)))"

definition ext_buffer_push_folder_entryid :: "folder_entryid \<Rightarrow> push" where
  "ext_buffer_push_folder_entryid r =
     seq (ext_buffer_push_uint32 (fe_flags r))
    (seq (ext_buffer_push_bytes (fe_provider_uid r))
    (seq (ext_buffer_push_uint16 (fe_folder_type r))
    (seq (ext_buffer_push_guid (fe_database_guid r))
    (seq (ext_buffer_push_bytes (fe_global_counter r))
         (ext_buffer_push_bytes (fe_pad r))))))"

definition ext_buffer_push_message_entryid :: "message_entryid \<Rightarrow> push" where
  "ext_buffer_push_message_entryid r =
     seq (ext_buffer_push_uint32 (me_flags r))
    (seq (ext_buffer_push_bytes (me_provider_uid r))
    (seq (ext_buffer_push_uint16 (me_message_type r))
    (seq (ext_buffer_push_guid (me_folder_database_guid r))
    (seq (ext_buffer_push_bytes (me_folder_global_counter r))
    (seq (ext_buffer_push_bytes (me_pad1 r))
    (seq (ext_buffer_push_guid (me_message_database_guid r))
    (seq (ext_buffer_push_bytes (me_message_global_counter r))
         (ext_buffer_push_bytes (me_pad2 r)))))))))"

subsection \<open>Extended rule actions\<close>

definition ext_buffer_push_ext_movecopy_action :: "folder_entryid \<Rightarrow> push" where
  "ext_buffer_push_ext_movecopy_action r =
     seq (ext_buffer_push_uint32 1)
    (seq (ext_buffer_push_uint8 0)
    (seq (ext_buffer_push_uint32 46)
         (ext_buffer_push_folder_entryid r)))"

definition ext_buffer_push_ext_reply_action :: "message_entryid \<Rightarrow> guid \<Rightarrow> push" where
  "ext_buffer_push_ext_reply_action message_eid template_guid =
     seq (ext_buffer_push_uint32 70)
    (seq (ext_buffer_push_message_entryid message_eid)
         (ext_buffer_push_guid template_guid))"

definition ext_buffer_push_ext_recipient_block :: "u8 \<Rightarrow> tagged_propval list \<Rightarrow> push" where
  "ext_buffer_push_ext_recipient_block reserved ppropval =
     (if length ppropval = 0 then fail EXT_ERR_FORMAT
      else
        seq (ext_buffer_push_uint8 reserved)
       (seq (ext_buffer_push_uint32 (of_nat (length ppropval)))
            (for_each ext_buffer_push_tagged_propval ppropval)))"

definition ext_buffer_push_ext_forwarddelegate_action :: "ext_recipient_block list \<Rightarrow> push" where
  "ext_buffer_push_ext_forwarddelegate_action pblock =
     (if length pblock = 0 then fail EXT_ERR_FORMAT
      else
        seq (ext_buffer_push_uint32 (of_nat (length pblock)))
            (for_each (\<lambda>b. case b of EXT_RECIPIENT_BLOCK reserved vs \<Rightarrow>
               ext_buffer_push_ext_recipient_block reserved vs) pblock))"

text \<open>As in \<open>push_action_data\<close>, the case of a tag loses its status.\<close>

definition push_ext_action_data :: "u32 \<Rightarrow> u8 \<Rightarrow> ext_action_data \<Rightarrow> push" where
  "push_ext_action_data len type pdata =
     (if type = ACTION_TYPE_OP_MOVE \<or> type = ACTION_TYPE_OP_COPY
      then case pdata of XAD_MOVECOPY a \<Rightarrow> ext_buffer_push_ext_movecopy_action a
           | _ \<Rightarrow> fail UNDEFINED_BEHAVIOUR
      else if type = ACTION_TYPE_OP_REPLY \<or> type = ACTION_TYPE_OP_OOF_REPLY
      then case pdata of XAD_REPLY a g \<Rightarrow> ext_buffer_push_ext_reply_action a g
           | _ \<Rightarrow> fail UNDEFINED_BEHAVIOUR
      else if type = ACTION_TYPE_OP_DEFER_ACTION
      then (let tmp_len = len - 1 - 4 in
            case pdata of XAD_DEFER b \<Rightarrow> push_bytes_of b tmp_len
            | _ \<Rightarrow> fail UNDEFINED_BEHAVIOUR)
      else if type = ACTION_TYPE_OP_BOUNCE
      then case pdata of XAD_BOUNCE c \<Rightarrow> ext_buffer_push_uint32 c
           | _ \<Rightarrow> fail UNDEFINED_BEHAVIOUR
      else if type = ACTION_TYPE_OP_FORWARD \<or> type = ACTION_TYPE_OP_DELEGATE
      then case pdata of XAD_FORWARDDELEGATE bs \<Rightarrow> ext_buffer_push_ext_forwarddelegate_action bs
           | _ \<Rightarrow> fail UNDEFINED_BEHAVIOUR
      else if type = ACTION_TYPE_OP_TAG
      then case pdata of XAD_TAG v \<Rightarrow> lose_status (ext_buffer_push_tagged_propval v)
           | _ \<Rightarrow> fail UNDEFINED_BEHAVIOUR
      else if type = ACTION_TYPE_OP_DELETE \<or> type = ACTION_TYPE_OP_MARK_AS_READ
      then ret ()
      else fail EXT_ERR_BAD_SWITCH)"

text \<open>Here the offset is taken after the four bytes of the length.\<close>

fun ext_buffer_push_ext_action_block :: "ext_action_block \<Rightarrow> push" where
  "ext_buffer_push_ext_action_block (EXT_ACTION_BLOCK len type flavor flags pdata) =
     seq (ext_buffer_push_advance 4)
    (bnd (gets ps_offset) (\<lambda>offset.
     seq (ext_buffer_push_uint8 type)
    (seq (ext_buffer_push_uint32 flavor)
    (seq (ext_buffer_push_uint32 flags)
    (seq (push_ext_action_data len type pdata)
         (patch_back ext_buffer_push_uint32 (offset - 4) offset))))))"

definition ext_buffer_push_ext_rule_actions :: "ext_action_block list \<Rightarrow> push" where
  "ext_buffer_push_ext_rule_actions r =
     seq (ext_buffer_push_uint32 (of_nat (length r)))
         (for_each ext_buffer_push_ext_action_block r)"

text \<open>Two arrays of \<open>count\<close> elements each.\<close>

definition ext_buffer_push_namedproperty_information :: "u16 list \<times> property_name list \<Rightarrow> push" where
  "ext_buffer_push_namedproperty_information r =
     seq (ext_buffer_push_uint16 (of_nat (length (fst r))))
    (seq (for_each ext_buffer_push_uint16 (fst r))
    (bnd (gets ps_offset) (\<lambda>offset.
     seq (ext_buffer_push_advance 4)
    (seq (for_each2 (\<lambda>_. ext_buffer_push_property_name) (fst r) (snd r))
         (patch_back ext_buffer_push_uint32 offset (offset + 4))))))"

subsection \<open>Rows\<close>

text \<open>
  What \<open>pvalue\<close> and \<open>type\<close> are after the first \<open>if\<close>: \<open>None\<close> is the variable that was
  not assigned or a pointer that is \<open>NULL\<close>.  With \<open>PROPVAL_TYPE_UNSPECIFIED\<close> and a flag
  other than the two tested, \<open>r->pvalue\<close> is read as a \<open>TYPED_PROPVAL\<close>.
\<close>

definition flagged_target ::
    "u16 \<Rightarrow> flagged_propval \<Rightarrow> ext_err + (u16 \<times> propval option)" where
  "flagged_target type r =
     (if type = PROPVAL_TYPE_UNSPECIFIED then
        (if fp_flag r = FLAGGED_PROPVAL_FLAG_UNAVAILABLE then Inr (0, None)
         else if fp_flag r = FLAGGED_PROPVAL_FLAG_ERROR
         then Inr (PROPVAL_TYPE_ERROR, case fp_value r of FV_VALUE v \<Rightarrow> Some v | _ \<Rightarrow> None)
         else case fp_value r of FV_TYPED t v \<Rightarrow> Inr (t, v) | _ \<Rightarrow> Inl UNDEFINED_BEHAVIOUR)
      else Inr (type, case fp_value r of FV_VALUE v \<Rightarrow> Some v | _ \<Rightarrow> None))"

definition ext_buffer_push_flagged_propval :: "u16 \<Rightarrow> flagged_propval \<Rightarrow> push" where
  "ext_buffer_push_flagged_propval type0 r =
     (case flagged_target type0 r of
        Inl err \<Rightarrow> fail err
      | Inr (type, pvalue) \<Rightarrow>
          seq (if type0 = PROPVAL_TYPE_UNSPECIFIED then ext_buffer_push_uint16 type else ret ())
         (seq (ext_buffer_push_uint8 (fp_flag r))
              (if fp_flag r = FLAGGED_PROPVAL_FLAG_AVAILABLE
               then case pvalue of
                      Some v \<Rightarrow> ext_buffer_push_propval type v
                    | None \<Rightarrow> fail UNDEFINED_BEHAVIOUR
               else if fp_flag r = FLAGGED_PROPVAL_FLAG_UNAVAILABLE then ret ()
               else if fp_flag r = FLAGGED_PROPVAL_FLAG_ERROR
               then case pvalue of
                      Some (PV_LONG err) \<Rightarrow> ext_buffer_push_uint32 err
                    | _ \<Rightarrow> fail UNDEFINED_BEHAVIOUR
               else fail EXT_ERR_BAD_SWITCH)))"

definition ext_buffer_push_property_row :: "u32 list \<Rightarrow> property_row \<Rightarrow> push" where
  "ext_buffer_push_property_row pcolumns r =
     seq (ext_buffer_push_uint8 (pr_flag r))
         (if pr_flag r = PROPERTY_ROW_FLAG_NONE
          then for_each2 (\<lambda>tag cell. case cell of
                 CELL_VALUE v \<Rightarrow> ext_buffer_push_propval (proptag_type tag) v
               | CELL_FLAGGED v \<Rightarrow> fail UNDEFINED_BEHAVIOUR) pcolumns (pr_cells r)
          else if pr_flag r = PROPERTY_ROW_FLAG_FLAGGED
          then for_each2 (\<lambda>tag cell. case cell of
                 CELL_FLAGGED v \<Rightarrow> ext_buffer_push_flagged_propval (proptag_type tag) v
               | CELL_VALUE v \<Rightarrow> fail UNDEFINED_BEHAVIOUR) pcolumns (pr_cells r)
          else fail EXT_ERR_BAD_SWITCH)"

definition ext_buffer_push_proprow_set :: "u32 list \<Rightarrow> property_row list \<Rightarrow> push" where
  "ext_buffer_push_proprow_set pcolumns r =
     seq (ext_buffer_push_uint16 (of_nat (length r)))
         (for_each (ext_buffer_push_property_row pcolumns) r)"

definition ext_buffer_push_sort_order :: "sort_order \<Rightarrow> push" where
  "ext_buffer_push_sort_order r =
     (if so_type r AND 0x1000 \<noteq> 0 \<and> so_type r AND 0x2000 = 0 then fail EXT_ERR_FORMAT
      else
        seq (ext_buffer_push_uint16 (so_type r))
       (seq (ext_buffer_push_uint16 (so_propid r))
            (ext_buffer_push_uint8 (so_table_sort r))))"

definition ext_buffer_push_sortorder_set :: "sortorder_set \<Rightarrow> push" where
  "ext_buffer_push_sortorder_set r =
     (if length (ss_sort r) = 0 \<or> unat (ss_ccategories r) > length (ss_sort r) \<or>
        ss_cexpanded r > ss_ccategories r then fail EXT_ERR_FORMAT
      else
        seq (ext_buffer_push_uint16 (of_nat (length (ss_sort r))))
       (seq (ext_buffer_push_uint16 (ss_ccategories r))
       (seq (ext_buffer_push_uint16 (ss_cexpanded r))
            (for_each ext_buffer_push_sort_order (ss_sort r)))))"

definition ext_buffer_push_typed_string :: "typed_string \<Rightarrow> push" where
  "ext_buffer_push_typed_string r =
     seq (ext_buffer_push_uint8 (ts_type r))
         (if ts_type r = STRING_TYPE_NONE \<or> ts_type r = STRING_TYPE_EMPTY then ret ()
          else if ts_type r = STRING_TYPE_STRING8 \<or> ts_type r = STRING_TYPE_UNICODE_REDUCED
          then case ts_string r of Some s \<Rightarrow> ext_buffer_push_string s
               | None \<Rightarrow> fail UNDEFINED_BEHAVIOUR
          else if ts_type r = STRING_TYPE_UNICODE
          then case ts_string r of Some s \<Rightarrow> ext_buffer_push_wstring s
               | None \<Rightarrow> fail UNDEFINED_BEHAVIOUR
          else fail EXT_ERR_BAD_SWITCH)"

end
