(* ===== verification/Struct_Codec.thy ===== *)
theory Struct_Codec
  imports Prop_Codec Ext_Pull_Struct Ext_Push_Struct
begin

text \<open>
  The writers and readers of the structures agree, and each of them is an instance of the
  interface \<open>codec\<close>, from which the arrays follow.

  Not in the interface, because the code does not agree with itself there: a deferred
  action of the extended rule actions, named properties without any property, and a
  flagged error in a column without type; see the root theory.
\<close>

subsection \<open>Identifiers\<close>

lemma coded_rpc_header_ext:
  "coded f ext_buffer_pull_rpc_header_ext (ext_buffer_push_rpc_header_ext r) r"
  unfolding ext_buffer_pull_rpc_header_ext_def ext_buffer_push_rpc_header_ext_def
  by (auto intro!: coded_bnd [OF coded_uint16] coded_last [OF coded_uint16])

definition long_term_id_ok :: "long_term_id \<Rightarrow> bool" where
  "long_term_id_ok r \<longleftrightarrow> length (lt_global_counter r) = 6"

lemma coded_long_term_id:
  "long_term_id_ok r \<Longrightarrow> coded f ext_buffer_pull_long_term_id (ext_buffer_push_long_term_id r) r"
  unfolding ext_buffer_pull_long_term_id_def ext_buffer_push_long_term_id_def long_term_id_ok_def
  by (cases r) (auto intro!: coded_bnd [OF coded_guid] coded_bnd [OF coded_bytes]
      coded_last [OF coded_uint16])

lemma coded_long_term_id_rang:
  "long_term_id_ok a \<Longrightarrow> long_term_id_ok b \<Longrightarrow>
     coded f ext_buffer_pull_long_term_id_rang (ext_buffer_push_long_term_id_rang (a, b)) (a, b)"
  unfolding ext_buffer_pull_long_term_id_rang_def ext_buffer_push_long_term_id_rang_def
  by (auto intro!: coded_bnd [OF coded_long_term_id] coded_last [OF coded_long_term_id])

definition folder_entryid_ok :: "folder_entryid \<Rightarrow> bool" where
  "folder_entryid_ok r \<longleftrightarrow> length (fe_provider_uid r) = 16 \<and>
     length (fe_global_counter r) = 6 \<and> length (fe_pad r) = 2"

lemma coded_folder_entryid:
  "folder_entryid_ok r \<Longrightarrow> coded f ext_buffer_pull_folder_entryid (ext_buffer_push_folder_entryid r) r"
  unfolding ext_buffer_pull_folder_entryid_def ext_buffer_push_folder_entryid_def folder_entryid_ok_def
  by (cases r) (auto intro!: coded_bnd [OF coded_uint32] coded_bnd [OF coded_uint16]
      coded_bnd [OF coded_bytes] coded_bnd [OF coded_guid] coded_last [OF coded_bytes])

definition message_entryid_ok :: "message_entryid \<Rightarrow> bool" where
  "message_entryid_ok r \<longleftrightarrow> length (me_provider_uid r) = 16 \<and>
     length (me_folder_global_counter r) = 6 \<and> length (me_pad1 r) = 2 \<and>
     length (me_message_global_counter r) = 6 \<and> length (me_pad2 r) = 2"

lemma coded_message_entryid:
  "message_entryid_ok r \<Longrightarrow>
     coded f ext_buffer_pull_message_entryid (ext_buffer_push_message_entryid r) r"
  unfolding ext_buffer_pull_message_entryid_def ext_buffer_push_message_entryid_def
    message_entryid_ok_def
  by (cases r) (auto intro!: coded_bnd [OF coded_uint32] coded_bnd [OF coded_uint16]
      coded_bnd [OF coded_bytes] coded_bnd [OF coded_guid] coded_last [OF coded_bytes])

text \<open>The size of an \<open>XID\<close> is passed beside it.\<close>

lemma coded_xid:
  assumes "unat sz = 16 + length (xid_local_id r)" "17 \<le> unat sz" "unat sz \<le> 24"
  shows "coded f (ext_buffer_pull_xid sz) (ext_buffer_push_xid sz r) r"
proof -
  have "unat (ucast sz :: u32) = 16 + length (xid_local_id r)"
    using assms(1) by simp
  then have n: "unat (ucast sz - 16 :: u32) = length (xid_local_id r)"
    by (subst unat_sub) (simp_all add: word_le_nat_alt del: unat_ucast_u8)
  moreover have "\<not> sz < 17" "\<not> 24 < sz"
    using assms by (auto simp: word_less_nat_alt)
  ultimately show ?thesis
    unfolding ext_buffer_pull_xid_def ext_buffer_push_xid_def
    using codedI [OF writes_bytes_of [OF n] reads_pull_bytes [OF n]]
    by (cases r) (auto intro!: coded_bnd [OF coded_guid] coded_last)
qed

subsection \<open>Property names\<close>

fun property_name_ok :: "u32 \<Rightarrow> property_name \<Rightarrow> bool" where
  "property_name_ok f (PROPERTY_NAME k g lid name) \<longleftrightarrow>
     (if k = KIND_LID then lid \<noteq> None \<and> name = None
      else if k = KIND_NAME then lid = None \<and>
        (case name of None \<Rightarrow> False
         | Some s \<Rightarrow> wstring_ok f s \<and> 2 \<le> length (wire_string f s) \<and> length (wire_string f s) \<le> 255)
      else lid = None \<and> name = None)"

lemma reads_pull_within:
  assumes "reads f p bs x" "of_nat (length bs) = n"
  shows "reads f (pull_within n p) bs x"
proof (rule readsI)
  fix e assume e: "pull_inv e" "willing e" "pl_flags e = f" "in_front bs e"
  obtain e' where e': "p e = (Inr x, e')" "moved (length bs) e e'"
    using readsE [OF assms(1) e] .
  note n = assms(2)
  have eq: "pl_offset e' = pl_offset e + n" "same_buffer e e'"
    using e'(2) by (auto simp: moved_def n)
  then have "e'\<lparr>pl_offset := pl_offset e + n\<rparr> = e'"
    by (simp flip: eq(1))
  with e'(1) eq show "\<exists>e'. pull_within n p e = (Inr x, e') \<and> moved (length bs) e e'"
    by (auto simp: pull_within_def bnd_def gets_def modify_def ret_def moved_def n)
qed

lemma coded_name:
  assumes "wstring_ok f s" "2 \<le> length (wire_string f s)" "length (wire_string f s) \<le> 255"
  shows "coded f (bnd ext_buffer_pull_uint8 (\<lambda>name_size.
      if name_size < 2 then fail EXT_ERR_FORMAT
      else bnd (pull_within (ucast name_size) ext_buffer_pull_wstring) (\<lambda>name. ret (c name))))
    (bnd (gets ps_offset) (\<lambda>off. seq (ext_buffer_push_advance 1)
      (seq (ext_buffer_push_wstring s)
        (patch_back (\<lambda>n. ext_buffer_push_uint8 (ucast n)) off (off + 1))))) (c s)"
proof (rule coded_patched8 [OF writes_wstring [OF assms(1)]])
  let ?n = "of_nat (length (wire_string f s)) :: u8"
  have n: "unat ?n = length (wire_string f s)"
    using assms(3) by (simp add: unat_of_nat)
  then have "unat (ucast ?n :: u32) = length (wire_string f s)"
    by (simp del: of_nat_numeral)
  moreover have "of_nat (unat (ucast ?n :: u32)) = (ucast ?n :: u32)" by simp
  ultimately have "of_nat (length (wire_string f s)) = (ucast ?n :: u32)" by simp
  then have "reads f (pull_within (ucast ?n) ext_buffer_pull_wstring) (wire_string f s) s"
    by (intro reads_pull_within reads_wstring assms(1))
  then have "reads f (bnd (pull_within (ucast ?n) ext_buffer_pull_wstring) (\<lambda>name. ret (c name)))
      (wire_string f s) (c s)"
    using reads_bnd [OF _ reads_ret, of f _ "wire_string f s" s c] by simp
  moreover have "\<not> ?n < 2"
    using n assms(2) by (simp add: word_less_nat_alt)
  ultimately show "reads f (if ?n < 2 then fail EXT_ERR_FORMAT
      else bnd (pull_within (ucast ?n) ext_buffer_pull_wstring) (\<lambda>name. ret (c name)))
    (wire_string f s) (c s)"
    by simp
qed

lemma coded_property_name:
  assumes "property_name_ok f r"
  shows "coded f ext_buffer_pull_property_name (ext_buffer_push_property_name r) r"
proof (cases r)
  case (PROPERTY_NAME k g lid name)
  consider (lid) i where "k = KIND_LID" "lid = Some i" "name = None"
    | (name) s where "k = KIND_NAME" "lid = None" "name = Some s" "wstring_ok f s"
      "2 \<le> length (wire_string f s)" "length (wire_string f s) \<le> 255"
    | (none) "k \<noteq> KIND_LID" "k \<noteq> KIND_NAME" "lid = None" "name = None"
    using assms PROPERTY_NAME by (auto split: if_splits option.splits)
  then show ?thesis
  proof cases
    case lid
    then show ?thesis
      unfolding ext_buffer_pull_property_name_def ext_buffer_push_property_name_def PROPERTY_NAME
      by (auto intro!: coded_bnd [OF coded_uint8] coded_bnd [OF coded_guid] coded_alloc
          coded_last [OF coded_uint32])
  next
    case name
    then show ?thesis
      unfolding ext_buffer_pull_property_name_def ext_buffer_push_property_name_def PROPERTY_NAME
      by (auto simp: struct_tags intro!: coded_bnd [OF coded_uint8 _, where r = "seq _ _"]
          coded_bnd [OF coded_guid] coded_name)
  next
    case none
    then show ?thesis
      unfolding ext_buffer_pull_property_name_def ext_buffer_push_property_name_def PROPERTY_NAME
      by (auto intro!: coded_bnd [OF coded_uint8] coded_bnd [OF coded_guid] coded_ret)
  qed
qed

subsection \<open>Rows and sort orders\<close>

fun flagged_ok :: "u32 \<Rightarrow> u16 \<Rightarrow> flagged_propval \<Rightarrow> bool" where
  "flagged_ok f t (FLAGGED_PROPVAL flag FV_NULL) \<longleftrightarrow>
     t \<noteq> PROPVAL_TYPE_UNSPECIFIED \<and> flag = FLAGGED_PROPVAL_FLAG_UNAVAILABLE"
| "flagged_ok f t (FLAGGED_PROPVAL flag (FV_VALUE v)) \<longleftrightarrow>
     t \<noteq> PROPVAL_TYPE_UNSPECIFIED \<and>
     (flag = FLAGGED_PROPVAL_FLAG_AVAILABLE \<and> propval_ok f t v \<or>
      flag = FLAGGED_PROPVAL_FLAG_ERROR \<and> (\<exists>c. v = PV_LONG c))"
| "flagged_ok f t (FLAGGED_PROPVAL flag (FV_TYPED u None)) \<longleftrightarrow>
     t = PROPVAL_TYPE_UNSPECIFIED \<and> flag = FLAGGED_PROPVAL_FLAG_UNAVAILABLE \<and> u = 0"
| "flagged_ok f t (FLAGGED_PROPVAL flag (FV_TYPED u (Some v))) \<longleftrightarrow>
     t = PROPVAL_TYPE_UNSPECIFIED \<and> flag = FLAGGED_PROPVAL_FLAG_AVAILABLE \<and> propval_ok f u v"

lemmas flagged_flags =
  FLAGGED_PROPVAL_FLAG_AVAILABLE_def FLAGGED_PROPVAL_FLAG_UNAVAILABLE_def
  FLAGGED_PROPVAL_FLAG_ERROR_def

lemma coded_no_prefix: "coded f p q x \<Longrightarrow> coded f p (seq (ret ()) q) x"
  unfolding coded_def by (blast intro: writes_seq_nil [OF writes_ret])

lemma bnd_ret [simp]: "bnd (ret x) k = k x"
  by (simp add: fun_eq_iff bnd_def ret_def)

lemma coded_flagged_propval:
  "flagged_ok f t r \<Longrightarrow> coded f (ext_buffer_pull_flagged_propval t) (ext_buffer_push_flagged_propval t r) r"
proof (induction f t r rule: flagged_ok.induct)
  case (1 f t flag)
  then show ?case
    unfolding ext_buffer_pull_flagged_propval_def ext_buffer_push_flagged_propval_def
    by (auto simp: flagged_target_def flagged_flags
        intro!: coded_no_prefix coded_bnd [OF coded_uint8] coded_ret)
next
  case (2 f t flag v)
  then show ?case
    unfolding ext_buffer_pull_flagged_propval_def ext_buffer_push_flagged_propval_def
    by (auto simp: flagged_target_def flagged_flags simp del: ext_buffer_push_propval.simps
        intro!: coded_no_prefix coded_bnd [OF coded_uint8] coded_last [OF coded_propval]
          coded_alloc coded_last [OF coded_uint32])
next
  case (3 f t flag u)
  then show ?case
    unfolding ext_buffer_pull_flagged_propval_def ext_buffer_push_flagged_propval_def
    by (auto simp: flagged_target_def flagged_flags bnd_assoc
        intro!: coded_bnd [OF coded_uint16] coded_alloc coded_bnd [OF coded_uint8] coded_ret)
next
  case (4 f t flag u v)
  then show ?case
    unfolding ext_buffer_pull_flagged_propval_def ext_buffer_push_flagged_propval_def
    by (auto simp: flagged_target_def flagged_flags bnd_assoc simp del: ext_buffer_push_propval.simps
        intro!: coded_bnd [OF coded_uint16] coded_alloc coded_bnd [OF coded_uint8]
          coded_last [OF coded_propval])
qed

fun cell_ok :: "u32 \<Rightarrow> u8 \<Rightarrow> u32 \<Rightarrow> row_cell \<Rightarrow> bool" where
  "cell_ok f flag tag (CELL_VALUE v) \<longleftrightarrow>
     flag = PROPERTY_ROW_FLAG_NONE \<and> propval_ok f (proptag_type tag) v"
| "cell_ok f flag tag (CELL_FLAGGED v) \<longleftrightarrow>
     flag = PROPERTY_ROW_FLAG_FLAGGED \<and> flagged_ok f (proptag_type tag) v"

fun row_ok :: "u32 list \<Rightarrow> u32 \<Rightarrow> property_row \<Rightarrow> bool" where
  "row_ok cols f (PROPERTY_ROW flag cells) \<longleftrightarrow>
     flag \<in> {PROPERTY_ROW_FLAG_NONE, PROPERTY_ROW_FLAG_FLAGGED} \<and>
     list_all2 (cell_ok f flag) cols cells"

lemma coded_property_row:
  assumes "row_ok cols f r"
  shows "coded f (ext_buffer_pull_property_row cols) (ext_buffer_push_property_row cols r) r"
proof (cases r)
  case (PROPERTY_ROW flag cells)
  have cells: "list_all2 (cell_ok f flag) cols cells"
    using assms PROPERTY_ROW by simp
  show ?thesis
  proof (cases "flag = PROPERTY_ROW_FLAG_NONE")
    case True
    have "coded f (bnd (ext_buffer_pull_propval (proptag_type tag)) (\<lambda>v. ret (CELL_VALUE v)))
        (case c of CELL_VALUE v \<Rightarrow> ext_buffer_push_propval (proptag_type tag) v
         | CELL_FLAGGED v \<Rightarrow> fail UNDEFINED_BEHAVIOUR) c" if "cell_ok f flag tag c" for tag c
      using that True
      by (cases c) (auto simp: struct_tags simp del: ext_buffer_push_propval.simps
          intro!: coded_last [OF coded_propval])
    from coded_map_each [OF list_all2_mono [OF cells this]] True show ?thesis
      unfolding ext_buffer_pull_property_row_def ext_buffer_push_property_row_def PROPERTY_ROW
      by (auto intro!: coded_bnd [OF coded_uint8] coded_alloc coded_last [where x = cells])
  next
    case False
    have "coded f (bnd (pull_alloc 16) (\<lambda>_. bnd (ext_buffer_pull_flagged_propval (proptag_type tag))
          (\<lambda>v. ret (CELL_FLAGGED v))))
        (case c of CELL_VALUE v \<Rightarrow> fail UNDEFINED_BEHAVIOUR
         | CELL_FLAGGED v \<Rightarrow> ext_buffer_push_flagged_propval (proptag_type tag) v) c"
      if "cell_ok f flag tag c" for tag c
      using that False
      by (cases c) (auto intro!: coded_alloc coded_last [OF coded_flagged_propval])
    from coded_map_each [OF list_all2_mono [OF cells this]] False assms show ?thesis
      unfolding ext_buffer_pull_property_row_def ext_buffer_push_property_row_def PROPERTY_ROW
      by (auto intro!: coded_bnd [OF coded_uint8] coded_alloc coded_last [where x = cells]
          simp: struct_tags)
  qed
qed

definition sort_order_ok :: "sort_order \<Rightarrow> bool" where
  "sort_order_ok r \<longleftrightarrow> so_type r AND 0x1000 = 0 \<or> so_type r AND 0x2000 \<noteq> 0"

lemma coded_sort_order:
  "sort_order_ok r \<Longrightarrow> coded f ext_buffer_pull_sort_order (ext_buffer_push_sort_order r) r"
  unfolding ext_buffer_pull_sort_order_def ext_buffer_push_sort_order_def sort_order_ok_def
  by (cases r) (auto intro!: coded_bnd [OF coded_uint16] coded_last [OF coded_uint8])

definition sortorder_set_ok :: "sortorder_set \<Rightarrow> bool" where
  "sortorder_set_ok r \<longleftrightarrow>
     ss_sort r \<noteq> [] \<and> length (ss_sort r) < 2 ^ 16 \<and>
     unat (ss_ccategories r) \<le> length (ss_sort r) \<and> ss_cexpanded r \<le> ss_ccategories r \<and>
     (\<forall>s\<in>set (ss_sort r). sort_order_ok s)"

lemma coded_sortorder_set:
  assumes "sortorder_set_ok r"
  shows "coded f ext_buffer_pull_sortorder_set (ext_buffer_push_sortorder_set r) r"
proof (cases r)
  case (SORTORDER_SET cc ce ss)
  have n: "unat (of_nat (length ss) :: u16) = length ss" "(of_nat (length ss) :: u16) \<noteq> 0"
    using assms SORTORDER_SET of_nat_nonzero(1) [of "length ss"]
    by (auto simp: sortorder_set_ok_def unat_of_nat_u16)
  have "\<not> of_nat (length ss) < cc" "\<not> cc < ce" "ss \<noteq> []" "\<not> length ss < unat cc"
    using assms SORTORDER_SET n(1)
    by (auto simp: sortorder_set_ok_def word_less_nat_alt word_le_nat_alt)
  moreover have "coded f (bnd (repeat_n (length ss) ext_buffer_pull_sort_order)
      (\<lambda>psort. ret (SORTORDER_SET cc ce psort)))
    (for_each ext_buffer_push_sort_order ss) (SORTORDER_SET cc ce ss)"
    using assms SORTORDER_SET
    by (auto simp: sortorder_set_ok_def intro!: coded_last [OF coded_repeat_n] coded_sort_order)
  ultimately show ?thesis
    unfolding ext_buffer_pull_sortorder_set_def ext_buffer_push_sortorder_set_def SORTORDER_SET
    using n by (auto intro!: coded_bnd [OF coded_uint16] coded_alloc)
qed

fun typed_string_ok :: "u32 \<Rightarrow> typed_string \<Rightarrow> bool" where
  "typed_string_ok f (TYPED_STRING t None) \<longleftrightarrow> t \<in> {STRING_TYPE_NONE, STRING_TYPE_EMPTY}"
| "typed_string_ok f (TYPED_STRING t (Some s)) \<longleftrightarrow>
     t \<in> {STRING_TYPE_STRING8, STRING_TYPE_UNICODE_REDUCED} \<and> string_ok f s \<or>
     t = STRING_TYPE_UNICODE \<and> wstring_ok f s"

lemma coded_typed_string:
  "typed_string_ok f r \<Longrightarrow> coded f ext_buffer_pull_typed_string (ext_buffer_push_typed_string r) r"
  unfolding ext_buffer_pull_typed_string_def ext_buffer_push_typed_string_def
  by (induction f r rule: typed_string_ok.induct)
    (auto simp: struct_tags intro!: coded_bnd [OF coded_uint8] coded_ret
      coded_last [OF coded_string] coded_last [OF coded_wstring])

subsection \<open>The interface, and the arrays\<close>

interpretation cltid: codec ext_buffer_pull_long_term_id ext_buffer_push_long_term_id
    "\<lambda>f. long_term_id_ok"
  by unfold_locales (auto intro: bounded_safe safe_rules coded_long_term_id)

interpretation cname: codec ext_buffer_pull_property_name ext_buffer_push_property_name
    property_name_ok
  by unfold_locales (auto intro: bounded_safe safe_rules coded_property_name)

interpretation cfeid: codec ext_buffer_pull_folder_entryid ext_buffer_push_folder_entryid
    "\<lambda>f. folder_entryid_ok"
  by unfold_locales (auto intro: bounded_safe safe_rules coded_folder_entryid)

interpretation cmeid: codec ext_buffer_pull_message_entryid ext_buffer_push_message_entryid
    "\<lambda>f. message_entryid_ok"
  by unfold_locales (auto intro: bounded_safe safe_rules coded_message_entryid)

interpretation csort: codec ext_buffer_pull_sortorder_set ext_buffer_push_sortorder_set
    "\<lambda>f. sortorder_set_ok"
  by unfold_locales (auto intro: bounded_safe safe_rules coded_sortorder_set)

interpretation ctstr: codec ext_buffer_pull_typed_string ext_buffer_push_typed_string
    typed_string_ok
  by unfold_locales (auto intro: bounded_safe safe_rules coded_typed_string)

interpretation crow: codec "ext_buffer_pull_property_row cols" "ext_buffer_push_property_row cols"
    "row_ok cols" for cols
  by unfold_locales (auto intro: bounded_safe safe_rules coded_property_row)

lemma coded_tpropval_array:
  "list_ok (2 ^ 16) tagged_ok f r \<Longrightarrow>
     coded f ext_buffer_pull_tpropval_array (ext_buffer_push_tpropval_array r) r"
  unfolding list_ok_def ext_buffer_pull_tpropval_array_def ext_buffer_push_tpropval_array_def
  by (auto intro: ctagged.array16)

interpretation ctpv: codec ext_buffer_pull_tpropval_array ext_buffer_push_tpropval_array
    "list_ok (2 ^ 16) tagged_ok"
  by unfold_locales (auto intro: bounded_safe safe_rules coded_tpropval_array)

lemma coded_tarray_set:
  assumes "list_ok (2 ^ 32) (list_ok (2 ^ 16) tagged_ok) f r"
  shows "coded f ext_buffer_pull_tarray_set (ext_buffer_push_tarray_set r) r"
proof -
  note r = assms [unfolded list_ok_def [of "2 ^ 32"]]
  show ?thesis
    unfolding ext_buffer_pull_tarray_set_def ext_buffer_push_tarray_set_def
    using r unat_of_nat_u32 [of "length r"]
    by (intro coded_bnd [OF coded_uint32] coded_elems ballI coded_alloc coded_tpropval_array) auto
qed

interpretation ctas: codec ext_buffer_pull_tarray_set ext_buffer_push_tarray_set
    "list_ok (2 ^ 32) (list_ok (2 ^ 16) tagged_ok)"
  by unfold_locales (auto intro: bounded_safe safe_rules coded_tarray_set)

lemma coded_arrays16:
  "list_ok (2 ^ 16) any_ok f a \<Longrightarrow> coded f ext_buffer_pull_proptag_array (ext_buffer_push_proptag_array a) a"
  "list_ok (2 ^ 16) any_ok f b \<Longrightarrow> coded f ext_buffer_pull_propid_array (ext_buffer_push_propid_array b) b"
  "list_ok (2 ^ 16) property_name_ok f c \<Longrightarrow>
     coded f ext_buffer_pull_propname_array (ext_buffer_push_propname_array c) c"
  "list_ok (2 ^ 16) (\<lambda>f. long_term_id_ok) f d \<Longrightarrow>
     coded f ext_buffer_pull_long_term_id_array (ext_buffer_push_long_term_id_array d) d"
  unfolding list_ok_def ext_buffer_pull_proptag_array_def ext_buffer_push_proptag_array_def
    ext_buffer_pull_propid_array_def ext_buffer_push_propid_array_def
    ext_buffer_pull_propname_array_def ext_buffer_push_propname_array_def
    ext_buffer_pull_long_term_id_array_def ext_buffer_push_long_term_id_array_def
  by (auto intro: c32.array16 c16.array16 cname.array16 cltid.array16)

lemma coded_problem_array:
  assumes "length r < 2 ^ 16"
  shows "coded f ext_buffer_pull_problem_array (ext_buffer_push_problem_array r) r"
proof -
  have "coded f ext_buffer_pull_property_problem (ext_buffer_push_property_problem p) p" for p
    unfolding ext_buffer_pull_property_problem_def ext_buffer_push_property_problem_def
    by (cases p) (auto intro!: coded_bnd [OF coded_uint16] coded_bnd [OF coded_uint32]
        coded_last [OF coded_uint32])
  then show ?thesis
    unfolding ext_buffer_pull_problem_array_def ext_buffer_push_problem_array_def
    using unat_of_nat_u16 [OF assms]
    by (auto intro!: coded_bnd [OF coded_uint16] coded_alloc coded_repeat_n)
qed

lemma coded_proprow_set:
  "list_ok (2 ^ 16) (row_ok cols) f r \<Longrightarrow>
     coded f (ext_buffer_pull_proprow_set cols) (ext_buffer_push_proprow_set cols r) r"
  unfolding ext_buffer_pull_proprow_set_def ext_buffer_push_proprow_set_def list_ok_def
  using unat_of_nat_u16 [of "length r"]
  by (auto intro!: coded_bnd [OF coded_uint16] coded_alloc coded_repeat_n coded_property_row)

text \<open>Named properties, of which there is at least one.\<close>

lemma coded_namedproperty:
  assumes "ids \<noteq> []" "length names = length ids" "length ids < 2 ^ 16"
    "\<forall>n\<in>set names. property_name_ok f n"
  shows "coded f ext_buffer_pull_namedproperty_information
    (ext_buffer_push_namedproperty_information (ids, names)) (ids, names)"
proof -
  have n: "unat (of_nat (length ids) :: u16) = length ids" "(of_nat (length ids) :: u16) \<noteq> 0"
    using assms(1,3) of_nat_nonzero(1) [of "length ids"] by (auto simp: unat_of_nat_u16)
  obtain bs where bs: "writes f (for_each ext_buffer_push_property_name names) bs"
    "reads f (repeat_n (length ids) ext_buffer_pull_property_name) bs names"
    using coded_repeat_n [of names f ext_buffer_pull_property_name ext_buffer_push_property_name]
      assms(2,4) coded_property_name by (auto simp: coded_def)
  have "reads f (bnd (pull_within (of_nat (length bs))
        (repeat_n (length ids) ext_buffer_pull_property_name)) (\<lambda>ns. ret (ids, ns))) bs (ids, names)"
    using reads_bnd [OF reads_pull_within [OF bs(2) refl] reads_ret, of "\<lambda>ns. (ids, ns)"] by simp
  then have "coded f (bnd ext_buffer_pull_uint32 (\<lambda>sz. bnd (pull_within sz
        (repeat_n (length ids) ext_buffer_pull_property_name)) (\<lambda>ns. ret (ids, ns))))
    (bnd (gets ps_offset) (\<lambda>off. seq (ext_buffer_push_advance 4)
      (seq (for_each ext_buffer_push_property_name names)
        (patch_back ext_buffer_push_uint32 off (off + 4))))) (ids, names)"
    by (rule coded_patched32 [OF bs(1)])
  moreover have "coded f (repeat_n (length ids) ext_buffer_pull_uint16)
      (for_each ext_buffer_push_uint16 ids) ids"
    by (rule coded_repeat_n) (auto intro: coded_uint16)
  ultimately show ?thesis
    unfolding ext_buffer_pull_namedproperty_information_def
      ext_buffer_push_namedproperty_information_def
    using n assms(2)
    by (auto simp: for_each2_snd intro!: coded_bnd [OF coded_uint16] coded_alloc
        coded_bnd [of f _ "for_each ext_buffer_push_uint16 ids" ids])
qed

subsection \<open>Extended rule actions\<close>

fun ext_recipient_ok :: "u32 \<Rightarrow> ext_recipient_block \<Rightarrow> bool" where
  "ext_recipient_ok f (EXT_RECIPIENT_BLOCK a vs) \<longleftrightarrow>
     vs \<noteq> [] \<and> length vs < 2 ^ 32 \<and> (\<forall>v\<in>set vs. tagged_ok f v)"

fun ext_action_data_ok :: "u32 \<Rightarrow> u8 \<Rightarrow> ext_action_data \<Rightarrow> bool" where
  "ext_action_data_ok f t XAD_NONE \<longleftrightarrow> t \<in> {ACTION_TYPE_OP_DELETE, ACTION_TYPE_OP_MARK_AS_READ}"
| "ext_action_data_ok f t (XAD_MOVECOPY a) \<longleftrightarrow>
     t \<in> {ACTION_TYPE_OP_MOVE, ACTION_TYPE_OP_COPY} \<and> folder_entryid_ok a"
| "ext_action_data_ok f t (XAD_REPLY a g) \<longleftrightarrow>
     t \<in> {ACTION_TYPE_OP_REPLY, ACTION_TYPE_OP_OOF_REPLY} \<and> message_entryid_ok a"
| "ext_action_data_ok f t (XAD_DEFER b) \<longleftrightarrow> False"
| "ext_action_data_ok f t (XAD_BOUNCE c) \<longleftrightarrow> t = ACTION_TYPE_OP_BOUNCE"
| "ext_action_data_ok f t (XAD_FORWARDDELEGATE bs) \<longleftrightarrow>
     t \<in> {ACTION_TYPE_OP_FORWARD, ACTION_TYPE_OP_DELEGATE} \<and> bs \<noteq> [] \<and> length bs < 2 ^ 32 \<and>
     (\<forall>b\<in>set bs. ext_recipient_ok f b)"
| "ext_action_data_ok f t (XAD_TAG v) \<longleftrightarrow> t = ACTION_TYPE_OP_TAG \<and> tagged_ok f v"

fun ext_action_ok :: "u32 \<Rightarrow> ext_action_block \<Rightarrow> bool" where
  "ext_action_ok f (EXT_ACTION_BLOCK n t a b d) \<longleftrightarrow> ext_action_data_ok f t d"

fun same_ext_action :: "ext_action_block \<Rightarrow> ext_action_block \<Rightarrow> bool" where
  "same_ext_action (EXT_ACTION_BLOCK n t a b d) (EXT_ACTION_BLOCK n' t' a' b' d') \<longleftrightarrow>
     t' = t \<and> a' = a \<and> b' = b \<and> d' = d"

lemma coded_ext_movecopy:
  "folder_entryid_ok a \<Longrightarrow>
     coded f ext_buffer_pull_ext_movecopy_action (ext_buffer_push_ext_movecopy_action a) a"
  unfolding ext_buffer_pull_ext_movecopy_action_def ext_buffer_push_ext_movecopy_action_def
  by (auto intro!: coded_bnd [OF coded_uint32] coded_folder_entryid
      coded_bnd [OF codedI [OF writes_scalars(1) reads_advance]])

lemma coded_ext_reply:
  "message_entryid_ok a \<Longrightarrow>
     coded f ext_buffer_pull_ext_reply_action (ext_buffer_push_ext_reply_action a g) (a, g)"
  unfolding ext_buffer_pull_ext_reply_action_def ext_buffer_push_ext_reply_action_def
  by (auto intro!: coded_bnd [OF coded_uint32] coded_bnd [OF coded_message_entryid]
      coded_last [OF coded_guid])

lemma coded_ext_recipient:
  assumes "ext_recipient_ok f (EXT_RECIPIENT_BLOCK a vs)"
  shows "coded f ext_buffer_pull_ext_recipient_block
    (ext_buffer_push_ext_recipient_block a vs) (EXT_RECIPIENT_BLOCK a vs)"
  unfolding ext_buffer_pull_ext_recipient_block_def ext_buffer_push_ext_recipient_block_def
  using assms of_nat_nonzero(3) [of "length vs"]
  by (auto simp: unat_of_nat_u32 intro!: coded_bnd [OF coded_uint8] coded_bnd [OF coded_uint32]
      coded_last [OF coded_elems] coded_tagged)

lemma coded_ext_forwarddelegate:
  assumes "bs \<noteq> []" "length bs < 2 ^ 32" "\<forall>b\<in>set bs. ext_recipient_ok f b"
  shows "coded f ext_buffer_pull_ext_forwarddelegate_action
    (ext_buffer_push_ext_forwarddelegate_action bs) bs"
proof -
  have "\<forall>b\<in>set bs. coded f ext_buffer_pull_ext_recipient_block
      (case b of EXT_RECIPIENT_BLOCK a vs \<Rightarrow> ext_buffer_push_ext_recipient_block a vs) b"
    using assms(3)
    by (auto simp del: ext_recipient_ok.simps split: ext_recipient_block.split
        intro!: coded_ext_recipient)
  then show ?thesis
    unfolding ext_buffer_pull_ext_forwarddelegate_action_def
      ext_buffer_push_ext_forwarddelegate_action_def
    using assms(1,2) of_nat_nonzero(3) [of "length bs"]
    by (auto simp: unat_of_nat_u32 intro!: coded_bnd [OF coded_uint32] coded_elems)
qed

lemma coded_ext_action_data:
  assumes "ext_action_data_ok f t d"
  shows "coded f (pull_ext_action_data m t) (push_ext_action_data n t d) d"
proof (cases d)
  case (XAD_REPLY a g)
  have "coded f (bnd ext_buffer_pull_ext_reply_action (\<lambda>(a, g). ret (XAD_REPLY a g)))
      (ext_buffer_push_ext_reply_action a g) (XAD_REPLY a g)"
    using assms XAD_REPLY by (intro coded_end [OF coded_ext_reply]) auto
  then show ?thesis
    using assms XAD_REPLY
    by (auto simp: pull_ext_action_data_def push_ext_action_data_def action_types intro!: coded_alloc)
qed (use assms in \<open>auto simp: pull_ext_action_data_def push_ext_action_data_def action_types
    intro!: coded_ret coded_alloc coded_last [OF coded_ext_movecopy]
      coded_last [OF coded_uint32] coded_last [OF coded_ext_forwarddelegate]
      coded_lose_status coded_last [OF coded_tagged]\<close>)

lemma coded_ext_action_block:
  assumes "ext_action_ok f r"
  shows "\<exists>r'. same_ext_action r r' \<and>
    coded f ext_buffer_pull_ext_action_block (ext_buffer_push_ext_action_block r) r'"
proof -
  obtain n t a b d where r: "r = EXT_ACTION_BLOCK n t a b d" by (cases r)
  let ?data = "push_ext_action_data n t d"
  obtain bs where bs: "writes f ?data bs" "reads f (pull_ext_action_data 0 t) bs d"
    using coded_ext_action_data [of f t d 0 n] assms r by (auto simp: coded_def)
  have indep: "pull_ext_action_data m t = pull_ext_action_data 0 t" for m
    using assms r by (cases d) (auto simp: pull_ext_action_data_def action_types)
  have data: "reads f (bnd (pull_ext_action_data m t)
      (\<lambda>d. ret (EXT_ACTION_BLOCK m t a b d))) bs (EXT_ACTION_BLOCK m t a b d)" for m
    using reads_bnd [OF bs(2) reads_ret, of "\<lambda>d. EXT_ACTION_BLOCK m t a b d"]
    by (simp add: indep [of m])
  let ?body = "seq (ext_buffer_push_uint8 t) (seq (ext_buffer_push_uint32 a)
    (seq (ext_buffer_push_uint32 b) ?data))"
  let ?all = "[t] @ SIVAL a @ SIVAL b @ bs"
  let ?k = "\<lambda>len. bnd ext_buffer_pull_uint8 (\<lambda>t. bnd ext_buffer_pull_uint32 (\<lambda>a.
    bnd ext_buffer_pull_uint32 (\<lambda>b. bnd (pull_ext_action_data len t)
      (\<lambda>d. ret (EXT_ACTION_BLOCK len t a b d)))))"
  have w: "writes f ?body ?all"
    by (intro writes_seq writes_scalars bs)
  have "reads f (?k m) ?all (EXT_ACTION_BLOCK m t a b d)" for m
    by (rule data reads_bnd reads_scalars)+
  then have "coded f (bnd ext_buffer_pull_uint32 ?k)
    (bnd (gets ps_offset) (\<lambda>off. seq (ext_buffer_push_advance 4)
      (seq ?body (patch_back ext_buffer_push_uint32 off (off + 4)))))
    (EXT_ACTION_BLOCK (of_nat (length ?all)) t a b d)"
    by (intro coded_patched32 [OF w])
  then show ?thesis
    unfolding r ext_buffer_push_ext_action_block.simps advance_then_offset
      ext_buffer_pull_ext_action_block_def seq_assoc
    by (intro exI [of _ "EXT_ACTION_BLOCK (of_nat (length ?all)) t a b d"]) simp
qed

lemma coded_ext_rule_actions:
  assumes "rs \<noteq> []" "length rs < 2 ^ 32" "\<forall>r\<in>set rs. ext_action_ok f r"
  shows "\<exists>rs'. list_all2 same_ext_action rs rs' \<and>
    coded f ext_buffer_pull_ext_rule_actions (ext_buffer_push_ext_rule_actions rs) rs'"
proof -
  obtain rs' where rs': "list_all2 same_ext_action rs rs'"
    "coded f (pull_elems 24 (length rs) ext_buffer_pull_ext_action_block)
      (for_each ext_buffer_push_ext_action_block rs) rs'"
    using coded_elems_rel [of rs same_ext_action f ext_buffer_pull_ext_action_block
        ext_buffer_push_ext_action_block "length rs" 24] assms(3) coded_ext_action_block by blast
  have "coded f ext_buffer_pull_ext_rule_actions (ext_buffer_push_ext_rule_actions rs) rs'"
    unfolding ext_buffer_pull_ext_rule_actions_def ext_buffer_push_ext_rule_actions_def
    using rs'(2) assms(1,2) of_nat_nonzero(3) [of "length rs"]
    by (auto simp: unat_of_nat_u32 intro!: coded_bnd [OF coded_uint32])
  with rs'(1) show ?thesis by blast
qed

end
