(* ===== verification/Wire_Properties.thy ===== *)
theory Wire_Properties
  imports Struct_Codec
begin

text \<open>
  The properties of \<open>LIBRARY/mapi_lib/ext_buffer.c\<close>, each a short derivation from the library:
  round trips of the structures, the bounds of the readers, the fuel of the recursive readers
  and the growth of the buffer of the writers.

  \<open>read_back f push pull x y\<close>: under the flags \<open>f\<close> there are bytes that \<open>push x\<close> appends to any
  consistent context with room for them (a buffer that grows has no room only if it would
  exceed 4 GiB, and then \<open>push x\<close> does not return), and from which, with an allocator that
  does not fail, \<open>pull\<close> reads \<open>y\<close> and consumes all of them.
\<close>

definition read_back :: "u32 \<Rightarrow> ('a \<Rightarrow> push) \<Rightarrow> 'b pull \<Rightarrow> 'a \<Rightarrow> 'b \<Rightarrow> bool" where
  "read_back f push pull x y \<longleftrightarrow>
     (\<exists>bs.
       (\<forall>e. push_inv e \<and> obliging e \<and> ps_flags e = f \<longrightarrow>
          (if unat (ps_offset e) + length bs \<le> capacity e
           then \<exists>e'. push x e = (Inr (), e') \<and> push_inv e' \<and> written e' = written e @ bs
           else growing e \<longrightarrow> overrun (push x) e)) \<and>
       (length bs < 2 ^ 30 \<longrightarrow>
          (\<forall>alloc. (\<forall>n s. alloc n s) \<longrightarrow>
             (\<exists>e'. pull (ext_buffer_pull_init bs (of_nat (length bs)) alloc f) = (Inr y, e') \<and>
                   unat (pl_offset e') = length bs))))"

lemma coded_read_back: "coded f pull (push x) y \<Longrightarrow> read_back f push pull x y"
  unfolding read_back_def by (rule coded_roundtrip)

text \<open>A reader that stays inside its buffer and comes back.\<close>

definition in_bounds :: "'a pull \<Rightarrow> ext_pull \<Rightarrow> bool" where
  "in_bounds pull e \<longleftrightarrow>
     fst (pull e) \<notin> {Inl UNDEFINED_BEHAVIOUR, Inl OUT_OF_FUEL, Inl NOT_RETURNING} \<and>
     (fst (pull e) = Inl NULL_WRITE \<longrightarrow> (\<exists>n s. \<not> pl_alloc e n s))"

lemma bounded_in_bounds:
  assumes "bounded p" "unat n \<le> length bs" "unat n < 2 ^ 30"
  shows "in_bounds p (ext_buffer_pull_init bs n alloc f)"
proof -
  let ?e = "ext_buffer_pull_init bs n alloc f"
  have "pull_inv ?e"
    using assms(2,3) by (simp add: pull_inv_def ext_buffer_pull_init_def)
  then show ?thesis
    using boundedD [OF assms(1), of ?e] by (auto simp: in_bounds_def sound_end_def willing_def)
qed

section \<open>Round trips\<close>

text \<open>
  A restriction, however deeply its parts are nested, is read back unchanged.
\<close>

lemma restriction_read_back:
  assumes "restriction_ok f r"
  shows "read_back f ext_buffer_push_restriction ext_buffer_pull_restriction r r"
  using assms by (intro coded_read_back coded_restriction)

lemma restriction_read_back_example:
  "let r = RESTRICTION RESTRICTION_TYPE_AND (RES_AND_OR
      [RESTRICTION RESTRICTION_TYPE_EXIST (RES_EXIST 7),
       RESTRICTION RESTRICTION_TYPE_PROPERTY (RES_PROPERTY 4 3 (TAGGED_PROPVAL 3 (PV_LONG 9)))])
   in read_back 0 ext_buffer_push_restriction ext_buffer_pull_restriction r r"
  unfolding Let_def
  by (rule restriction_read_back)
    (simp add: proptag_type_def single_type_def propval_types restriction_types has_flag_def)



text \<open>
  A list of extended rule actions without deferred ones is read back with the same actions.
\<close>

theorem ext_rule_actions_read_back:
  assumes "rs \<noteq> []" "length rs < 2 ^ 32" "\<forall>r\<in>set rs. ext_action_ok f r"
  shows "\<exists>rs'. list_all2 same_ext_action rs rs' \<and>
    read_back f ext_buffer_push_ext_rule_actions ext_buffer_pull_ext_rule_actions rs rs'"
proof -
  from coded_ext_rule_actions [OF assms] obtain rs' where
    "list_all2 same_ext_action rs rs'" "coded f ext_buffer_pull_ext_rule_actions (ext_buffer_push_ext_rule_actions rs) rs'" by blast
  then show ?thesis by (intro exI [of _ rs'] conjI coded_read_back)
qed

theorem ext_rule_actions_read_back_witness:
  "\<exists>rs'. list_all2 same_ext_action [EXT_ACTION_BLOCK 0 ACTION_TYPE_OP_BOUNCE 1 2 (XAD_BOUNCE 13)] rs' \<and>
    read_back 0 ext_buffer_push_ext_rule_actions ext_buffer_pull_ext_rule_actions
      [EXT_ACTION_BLOCK 0 ACTION_TYPE_OP_BOUNCE 1 2 (XAD_BOUNCE 13)] rs'"
  by (rule ext_rule_actions_read_back) simp_all

text \<open>
  A row of a table is read back with the columns it was written with, whether its cells
  are plain or flagged.
\<close>

lemma property_row_read_back:
  assumes "row_ok cols f r"
  shows "read_back f (ext_buffer_push_property_row cols) (ext_buffer_pull_property_row cols) r r"
  using assms by (intro coded_read_back coded_property_row)

lemma property_row_read_back_example:
  "let r = PROPERTY_ROW PROPERTY_ROW_FLAG_FLAGGED
      [CELL_FLAGGED (FLAGGED_PROPVAL FLAGGED_PROPVAL_FLAG_UNAVAILABLE FV_NULL),
       CELL_FLAGGED (FLAGGED_PROPVAL FLAGGED_PROPVAL_FLAG_AVAILABLE (FV_VALUE (PV_LONG 5)))]
   in read_back 0 (ext_buffer_push_property_row [0x37001F, 0x360003])
        (ext_buffer_pull_property_row [0x37001F, 0x360003]) r r"
  unfolding Let_def
  by (rule property_row_read_back)
    (simp add: proptag_type_def single_type_def propval_types)

text \<open>
  Named properties, at least one, are read back: the ids, then the names behind the size
  the writer patches in.
\<close>

theorem named_properties_read_back:
  assumes "ids \<noteq> []" "length names = length ids" "length ids < 2 ^ 16"
    "\<forall>n\<in>set names. property_name_ok f n"
  shows "read_back f ext_buffer_push_namedproperty_information
    ext_buffer_pull_namedproperty_information (ids, names) (ids, names)"
  using coded_namedproperty [OF assms] by (rule coded_read_back)

theorem named_properties_read_back_witness:
  "read_back 0 ext_buffer_push_namedproperty_information ext_buffer_pull_namedproperty_information
     ([0x8001], [PROPERTY_NAME KIND_LID (make_guid 1 2 3 [4, 5] [6, 7, 8, 9, 10, 11]) (Some 3) None]) ([0x8001], [PROPERTY_NAME KIND_LID (make_guid 1 2 3 [4, 5] [6, 7, 8, 9, 10, 11]) (Some 3) None])"
  by (rule named_properties_read_back) simp_all

text \<open>
  A wide string is read back, in UTF-16 or as it is, according to the flag.
\<close>

lemma wstring_read_back:
  assumes "wstring_ok f s"
  shows "read_back f ext_buffer_push_wstring ext_buffer_pull_wstring s s"
  using assms by (intro coded_read_back coded_wstring)

lemma wstring_read_back_example:
  "read_back EXT_FLAG_UTF16 ext_buffer_push_wstring ext_buffer_pull_wstring
     [0xC3, 0xA9, 0x21] [0xC3, 0xA9, 0x21]"
  by (rule wstring_read_back)
    (simp add: wstring_ok_def wide_ok_def has_flag_def EXT_FLAG_UTF16_def EXT_FLAG_TBLLMT_def
      utf8_valid_def utf8_decode.simps utf8_step_def is_cont_def utf8_2_def)

section \<open>Bounds\<close>

text \<open>
  Reading rule actions, of either kind, from any bytes whatsoever stays inside the buffer
  and returns, although the lengths in the bytes are not checked against each other; a write
  through \<open>NULL\<close> needs an allocator that has failed.
\<close>

theorem rule_actions_in_bounds:
  assumes "unat n \<le> length bs" "unat n < 2 ^ 30"
  shows "in_bounds ext_buffer_pull_rule_actions (ext_buffer_pull_init bs n alloc f) \<and>
    in_bounds ext_buffer_pull_ext_rule_actions (ext_buffer_pull_init bs n alloc f)"
  by (intro conjI bounded_in_bounds assms bounded_pull_ext_rule_actions
      bounded_safe [OF safe_ext_pull_rule_actions])

theorem rule_actions_in_bounds_witness:
  "in_bounds ext_buffer_pull_rule_actions (ext_buffer_pull_init [255, 255, 255, 255, 0, 0] 6 (\<lambda>_ _. False) 0) \<and>
   in_bounds ext_buffer_pull_ext_rule_actions (ext_buffer_pull_init [255, 255, 255, 255, 0, 0] 6 (\<lambda>_ _. False) 0)"
  by (rule rule_actions_in_bounds) simp_all

text \<open>
  C22. The recursion of the readers ends: a depth of twice the size of the data is enough,
  and with that depth or more the result is always the same.
\<close>

theorem restriction_reader_terminates:
  assumes "pull_inv e" "2 * unat (pl_data_size e) + 2 \<le> n"
  shows "pull_restriction n e = ext_buffer_pull_restriction e \<and>
    fst (ext_buffer_pull_restriction e) \<noteq> Inl OUT_OF_FUEL"
proof -
  have fuel: "fst (ext_buffer_pull_restriction e) \<noteq> Inl OUT_OF_FUEL"
    using good_end_fuel [OF depth_safe(2) [OF assms(1)]] by (simp add: ext_buffer_pull_restriction_def)
  moreover have "fuel_le (pull_restriction (depth e)) (pull_restriction n)"
    using assms(2) by (intro fuel_le_more(2)) (simp add: depth_def)
  ultimately show ?thesis
    by (auto simp: fuel_le_def ext_buffer_pull_restriction_def)
qed

theorem restriction_reader_terminates_witness:
  "pull_restriction 10 (ext_buffer_pull_init [2, 2, 0] 3 (\<lambda>_ _. True) 0) =
     ext_buffer_pull_restriction (ext_buffer_pull_init [2, 2, 0] 3 (\<lambda>_ _. True) 0) \<and>
   fst (ext_buffer_pull_restriction (ext_buffer_pull_init [2, 2, 0] 3 (\<lambda>_ _. True) 0)) \<noteq> Inl OUT_OF_FUEL"
  by (rule restriction_reader_terminates) (simp_all add: pull_inv_def ext_buffer_pull_init_def)

text \<open>
  C23. The guard of the writers: in a consistent context, unless the sum of the size and the
  offset comes within one growing block of 4 GiB, the loop that grows the buffer ends, and an
  answer \<open>TRUE\<close> means that there is room for the bytes and that nothing written is lost.
\<close>

theorem check_overflow_makes_room:
  assumes "push_inv e" "unat extra + unat (ps_offset e) \<le> 2 ^ 32 - 2 ^ 19"
  shows "\<exists>b e'. ext_buffer_push_check_overflow extra e = (Inr b, e') \<and>
    push_inv e' \<and> written e' = written e \<and>
    (b \<longrightarrow> unat (ps_offset e) + unat extra \<le> length (ps_data e')) \<and>
    (\<not> b \<longrightarrow> \<not> ps_b_alloc e \<or> \<not> obliging e)"
proof -
  have sz: "unat (extra + ps_offset e) = unat extra + unat (ps_offset e)"
    using assms(2) by (intro unat_add_word) simp
  consider (fits) "extra + ps_offset e \<le> ps_alloc_size e"
    | (fixed) "\<not> extra + ps_offset e \<le> ps_alloc_size e" "\<not> ps_b_alloc e"
    | (grows) "\<not> extra + ps_offset e \<le> ps_alloc_size e" "ps_b_alloc e" by blast
  then show ?thesis
  proof cases
    case grows
    obtain a where a: "grow (ps_alloc_size e) (extra + ps_offset e) = Some a"
      "extra + ps_offset e \<le> a" "ps_alloc_size e \<le> a"
      using grow_returns [of "extra + ps_offset e" "ps_alloc_size e"] assms(2) sz
      by (auto simp: last_size_def)
    have "length (ps_data e) \<le> unat a" "unat (ps_offset e) + unat extra \<le> unat a"
      using assms(1) a sz by (auto simp: push_inv_def word_le_nat_alt)
    with grows a assms(1) show ?thesis
      by (auto simp: ext_buffer_push_check_overflow_def Let_def push_inv_def written_def
          obliging_def word_le_nat_alt)
  qed (use assms(1) sz in \<open>auto simp: ext_buffer_push_check_overflow_def Let_def push_inv_def word_le_nat_alt\<close>)
qed

theorem check_overflow_makes_room_witness:
  "\<exists>e b e'. ext_buffer_push_init None 0 0 (\<lambda>_ _. True) (\<lambda>_. 0) = Some e \<and>
     ext_buffer_push_check_overflow 100 e = (Inr b, e') \<and> b \<and> 100 \<le> length (ps_data e')"
proof -
  let ?e = "the (ext_buffer_push_init None 0 0 (\<lambda>_ _. True) (\<lambda>_. 0))"
  have e: "ext_buffer_push_init None 0 0 (\<lambda>_ _. True) (\<lambda>_. 0) = Some ?e" "push_inv ?e"
    "ps_offset ?e = 0" "ps_b_alloc ?e" "obliging ?e"
    by (simp_all add: ext_buffer_push_init_def push_inv_def obliging_def)
  from check_overflow_makes_room [OF e(2), of 100] e show ?thesis by auto
qed

end
