(* ===== verification/Rop_Util.thy ===== *)
theory Rop_Util
  imports Mapi_Types
begin

text \<open>
  \<open>LIBRARY/mapi_lib/rop_util.c\<close>: identifiers of objects, GUIDs of users and domains, file
  times, and the serialisation of GUIDs.

  An identifier is a 64-bit word whose bytes in memory are the replica id (two bytes,
  little-endian) and the global counter (six bytes, most significant first).  The code
  tests the byte order of the machine; the model is the little-endian branch, with the
  bytes of a \<open>uint64_t\<close> in memory given by \<open>SBVAL\<close> and read back by \<open>BVAL\<close>.
\<close>

definition rop_util_get_replid :: "u64 \<Rightarrow> u16" where
  "rop_util_get_replid eid = ucast (eid AND 0xFFFF)"

definition rop_util_get_gc_value :: "u64 \<Rightarrow> u64" where
  "rop_util_get_gc_value eid =
     (let b = SBVAL eid in BVAL [b ! 7, b ! 6, b ! 5, b ! 4, b ! 3, b ! 2, 0, 0] 0)"

definition rop_util_get_gc_array :: "u64 \<Rightarrow> bytes" where
  "rop_util_get_gc_array eid = take 6 (drop 2 (SBVAL eid))"

definition rop_util_value_to_gc :: "u64 \<Rightarrow> bytes" where
  "rop_util_value_to_gc v =
     (let b = SBVAL v in [b ! 5, b ! 4, b ! 3, b ! 2, b ! 1, b ! 0])"

definition rop_util_gc_to_value :: "bytes \<Rightarrow> u64" where
  "rop_util_gc_to_value gc = BVAL [gc ! 5, gc ! 4, gc ! 3, gc ! 2, gc ! 1, gc ! 0, 0, 0] 0"

definition rop_util_make_eid :: "u16 \<Rightarrow> bytes \<Rightarrow> u64" where
  "rop_util_make_eid replid gc = BVAL ([0, 0] @ gc) 0 OR ucast replid"

definition rop_util_make_eid_ex :: "u16 \<Rightarrow> u64 \<Rightarrow> u64" where
  "rop_util_make_eid_ex replid v = rop_util_make_eid replid (rop_util_value_to_gc v)"

definition rop_util_make_user_guid :: "u32 \<Rightarrow> guid" where
  "rop_util_make_user_guid user_id =
     GUID user_id 0x18a5 0x6f7b 0xbc 0xdc 0xea 0x1e 0xd0 0x3c 0x56 0x57"

definition rop_util_make_domain_guid :: "u32 \<Rightarrow> guid" where
  "rop_util_make_domain_guid domain_id =
     GUID domain_id 0x0afb 0x7df6 0x91 0x92 0x49 0x88 0x6a 0xa7 0x38 0xce"

text \<open>The result is an \<open>int\<close>, \<open>-1\<close> for a GUID of another kind.\<close>

definition rop_util_make_user_id :: "guid \<Rightarrow> u32" where
  "rop_util_make_user_id g =
     (if time_mid g \<noteq> 0x18a5 \<or> time_hi_and_version g \<noteq> 0x6f7b \<or>
         clock_seq0 g \<noteq> 0xbc \<or> clock_seq1 g \<noteq> 0xdc \<or>
         node0 g \<noteq> 0xea \<or> node1 g \<noteq> 0x1e \<or> node2 g \<noteq> 0xd0 \<or>
         node3 g \<noteq> 0x3c \<or> node4 g \<noteq> 0x56 \<or> node5 g \<noteq> 0x57
      then -1 else time_low g)"

definition rop_util_make_domain_id :: "guid \<Rightarrow> u32" where
  "rop_util_make_domain_id g =
     (if time_mid g \<noteq> 0x0afb \<or> time_hi_and_version g \<noteq> 0x7df6 \<or>
         clock_seq0 g \<noteq> 0x91 \<or> clock_seq1 g \<noteq> 0x92 \<or>
         node0 g \<noteq> 0x49 \<or> node1 g \<noteq> 0x88 \<or> node2 g \<noteq> 0x6a \<or>
         node3 g \<noteq> 0xa7 \<or> node4 g \<noteq> 0x38 \<or> node5 g \<noteq> 0xce
      then -1 else time_low g)"

definition TIME_FIXUP_CONSTANT_INT :: u64 where
  "TIME_FIXUP_CONSTANT_INT = 11644473600"

text \<open>A \<open>time_t\<close> has the same 64 bits as the \<open>uint64_t\<close> it is converted to.\<close>

definition rop_util_unix_to_nttime :: "u64 \<Rightarrow> u64" where
  "rop_util_unix_to_nttime unix_time = (unix_time + TIME_FIXUP_CONSTANT_INT) * 10000000"

definition rop_util_nttime_to_unix :: "u64 \<Rightarrow> u64" where
  "rop_util_nttime_to_unix nt_time = nt_time div 10000000 - TIME_FIXUP_CONSTANT_INT"

text \<open>\<open>None\<close> where fewer than 16 bytes are there to be read.\<close>

definition rop_util_binary_to_guid :: "bytes \<Rightarrow> guid option" where
  "rop_util_binary_to_guid pb =
     (if length pb < 16 then None
      else Some (make_guid (IVAL pb 0) (ucast (SVAL pb 4)) (ucast (SVAL pb 6))
                   (take 2 (drop 8 pb)) (take 6 (drop 10 pb))))"

text \<open>The bytes appended to the binary; the caller provides the room.\<close>

definition rop_util_guid_to_binary :: "guid \<Rightarrow> bytes \<Rightarrow> bytes" where
  "rop_util_guid_to_binary g pb =
     pb @ SIVAL (time_low g) @ SSVAL (time_mid g) @ SSVAL (time_hi_and_version g) @
     guid_clock_seq g @ guid_node g"

definition PROVIDER_UID_ADDRESS_BOOK :: int where "PROVIDER_UID_ADDRESS_BOOK = 1"
definition PROVIDER_UID_PUBLIC :: int where "PROVIDER_UID_PUBLIC = 2"
definition PROVIDER_UID_ONE_OFF :: int where "PROVIDER_UID_ONE_OFF = 3"
definition PROVIDER_UID_STORE :: int where "PROVIDER_UID_STORE = 4"
definition PROVIDER_UID_WRAPPED_PRIVATE :: int where "PROVIDER_UID_WRAPPED_PRIVATE = 5"
definition PROVIDER_UID_WRAPPED_PUBLIC :: int where "PROVIDER_UID_WRAPPED_PUBLIC = 6"

definition rop_util_get_provider_uid :: "int \<Rightarrow> bytes option" where
  "rop_util_get_provider_uid provider_type =
     (if provider_type = PROVIDER_UID_ADDRESS_BOOK then Some
        [0xDC, 0xA7, 0x40, 0xC8, 0xC0, 0x42, 0x10, 0x1A,
         0xB4, 0xB9, 0x08, 0x00, 0x2B, 0x2F, 0xE1, 0x82]
      else if provider_type = PROVIDER_UID_PUBLIC then Some
        [0x1A, 0x44, 0x73, 0x90, 0xAA, 0x66, 0x11, 0xCD,
         0x9B, 0xC8, 0x00, 0xAA, 0x00, 0x2F, 0xC4, 0x5A]
      else if provider_type = PROVIDER_UID_ONE_OFF then Some
        [0x81, 0x2B, 0x1F, 0xA4, 0xBE, 0xA3, 0x10, 0x19,
         0x9D, 0x6E, 0x00, 0xDD, 0x01, 0x0F, 0x54, 0x02]
      else if provider_type = PROVIDER_UID_STORE then Some
        [0x38, 0xA1, 0xBB, 0x10, 0x05, 0xE5, 0x10, 0x1A,
         0xA1, 0xBB, 0x08, 0x00, 0x2B, 0x2A, 0x56, 0xC2]
      else if provider_type = PROVIDER_UID_WRAPPED_PRIVATE then Some
        [0x1B, 0x55, 0xFA, 0x20, 0xAA, 0x66, 0x11, 0xCD,
         0x9B, 0xC8, 0x00, 0xAA, 0x00, 0x2F, 0xC4, 0x5A]
      else if provider_type = PROVIDER_UID_WRAPPED_PUBLIC then Some
        [0x1C, 0x83, 0x02, 0x10, 0xAA, 0x66, 0x11, 0xCD,
         0x9B, 0xC8, 0x00, 0xAA, 0x00, 0x2F, 0xC4, 0x5A]
      else None)"

subsection \<open>Words and their bytes\<close>

lemma bit_SVAL: "bit (SVAL bs p) n \<longleftrightarrow> n < 16 \<and> bit (bs ! (p + n div 8)) (n mod 8)"
proof -
  consider "n < 8" | m where "n = m + 8" "m < 8" | "16 \<le> n"
  proof -
    assume *: "n < 8 \<Longrightarrow> thesis" "\<And>m. n = m + 8 \<Longrightarrow> m < 8 \<Longrightarrow> thesis" "16 \<le> n \<Longrightarrow> thesis"
    show thesis using * (2) [of "n - 8"] * (1,3) by linarith
  qed
  then show ?thesis
  proof cases
    case (2 m)
    then have "n div 8 = 1" "n mod 8 = m" by presburger+
    with 2 show ?thesis by (auto simp: SVAL_def bit_simps dest: bit_imp_le_length)
  qed (auto simp: SVAL_def bit_simps dest: bit_imp_le_length)
qed

lemma bit_IVAL: "bit (IVAL bs p) n \<longleftrightarrow> n < 32 \<and> bit (bs ! (p + n div 8)) (n mod 8)"
proof (cases "n < 16")
  case True
  then show ?thesis by (auto simp: IVAL_def bit_simps bit_SVAL)
next
  case False
  then obtain m where m: "n = m + 16" by (metis add.commute le_add_diff_inverse not_less)
  then have "n div 8 = m div 8 + 2" "n mod 8 = m mod 8" by presburger+
  then show ?thesis
    by (auto simp: IVAL_def bit_simps bit_SVAL m add.commute add.left_commute)
qed

lemma bit_BVAL: "bit (BVAL bs p) n \<longleftrightarrow> n < 64 \<and> bit (bs ! (p + n div 8)) (n mod 8)"
proof (cases "n < 32")
  case True
  then show ?thesis by (auto simp: BVAL_def bit_simps bit_IVAL)
next
  case False
  then obtain m where m: "n = m + 32" by (metis add.commute le_add_diff_inverse not_less)
  then have "n div 8 = m div 8 + 4" "n mod 8 = m mod 8" by presburger+
  then show ?thesis
    by (auto simp: BVAL_def bit_simps bit_IVAL m ac_simps)
qed

lemma bit_SBVAL:
  assumes "i < 8" "k < 8"
  shows "bit (SBVAL v ! i) k \<longleftrightarrow> bit v (8 * i + k)"
proof -
  have "(8 * i + k) div 8 = i" "(8 * i + k) mod 8 = k" using assms by presburger+
  then show ?thesis using bit_BVAL [of "SBVAL v" 0 "8 * i + k"] assms by simp
qed

lemma SBVAL_BVAL:
  assumes "length bs = 8"
  shows "SBVAL (BVAL bs 0) = bs"
proof (rule nth_equalityI)
  fix i assume "i < length (SBVAL (BVAL bs 0))"
  then have i: "i < 8" by simp
  show "SBVAL (BVAL bs 0) ! i = bs ! i"
  proof (rule bit_word_eqI)
    fix k assume "k < LENGTH(8)"
    then have k: "k < 8" by simp
    then have n: "8 * i + k < 64" "(8 * i + k) div 8 = i" "(8 * i + k) mod 8 = k"
      using i by (simp_all add: div_add1_eq)
    have "bit (SBVAL (BVAL bs 0) ! i) k = bit (BVAL bs 0) (8 * i + k)"
      by (rule bit_SBVAL [OF i k])
    also have "\<dots> = bit (bs ! i) k"
      by (simp only: bit_BVAL n add_0 simp_thms)
    finally show "bit (SBVAL (BVAL bs 0) ! i) k = bit (bs ! i) k" .
  qed
qed (simp add: assms)

lemma BVAL_take:
  assumes "k \<le> 8"
  shows "BVAL (take k (SBVAL v) @ replicate (8 - k) 0) 0 = take_bit (8 * k) v"
proof (rule bit_word_eqI)
  fix n assume "n < LENGTH(64)"
  then have n: "n < 64" by simp
  then have i: "n div 8 < 8" "n mod 8 < 8" "8 * (n div 8) + n mod 8 = n" by simp_all
  have k: "n < 8 * k \<longleftrightarrow> n div 8 < k" by linarith
  have "(take k (SBVAL v) @ replicate (8 - k) 0) ! (n div 8) = (if n div 8 < k then SBVAL v ! (n div 8) else 0)"
    using assms i by (simp add: nth_append)
  with bit_SBVAL [OF i(1,2), of v]
  show "bit (BVAL (take k (SBVAL v) @ replicate (8 - k) 0) 0) n = bit (take_bit (8 * k) v) n"
    unfolding bit_BVAL bit_take_bit_iff k i(3) using n by simp
qed

subsection \<open>Identifiers\<close>

lemma SBVAL_nth_list:
  "SBVAL v = [SBVAL v ! 0, SBVAL v ! 1, SBVAL v ! 2, SBVAL v ! 3,
    SBVAL v ! 4, SBVAL v ! 5, SBVAL v ! 6, SBVAL v ! 7]"
  by (simp add: SBVAL_def SIVAL_def SSVAL_def)

lemma list_6: "length gc = 6 \<Longrightarrow> gc = [gc ! 0, gc ! 1, gc ! 2, gc ! 3, gc ! 4, gc ! 5]"
  by (cases gc; simp) (auto simp: length_Suc_conv numeral_eq_Suc)

lemma value_to_gc_rev: "rop_util_value_to_gc v = rev (take 6 (SBVAL v))"
  unfolding rop_util_value_to_gc_def Let_def
  by (subst (7) SBVAL_nth_list) simp

lemma get_gc_array_eq:
  "rop_util_get_gc_array v = [SBVAL v ! 2, SBVAL v ! 3, SBVAL v ! 4, SBVAL v ! 5, SBVAL v ! 6, SBVAL v ! 7]"
  unfolding rop_util_get_gc_array_def by (subst (1) SBVAL_nth_list) simp

lemma length_gc [simp]:
  "length (rop_util_value_to_gc v) = 6" "length (rop_util_get_gc_array v) = 6"
  by (simp_all add: rop_util_value_to_gc_def rop_util_get_gc_array_def Let_def)

lemma gc_to_value_rev:
  "length gc = 6 \<Longrightarrow> rop_util_gc_to_value gc = BVAL (rev gc @ [0, 0]) 0"
  unfolding rop_util_gc_to_value_def by (subst (7) list_6) simp_all

lemma get_gc_value_array: "rop_util_get_gc_value v = rop_util_gc_to_value (rop_util_get_gc_array v)"
  unfolding rop_util_get_gc_value_def rop_util_gc_to_value_def get_gc_array_eq Let_def by simp

text \<open>The value and the six bytes of a counter determine each other.\<close>

lemma gc_to_value_to_gc: "length gc = 6 \<Longrightarrow> rop_util_value_to_gc (rop_util_gc_to_value gc) = gc"
  by (simp add: value_to_gc_rev gc_to_value_rev SBVAL_BVAL)

lemma value_to_gc_to_value: "rop_util_gc_to_value (rop_util_value_to_gc v) = take_bit 48 v"
  using BVAL_take [of 6 v]
  by (simp add: gc_to_value_rev value_to_gc_rev [of v] numeral_2_eq_2)

lemma make_eid_bytes:
  assumes "length gc = 6"
  shows "rop_util_make_eid r gc = BVAL (SSVAL r @ gc) 0"
proof (rule bit_word_eqI)
  fix n assume "n < LENGTH(64)"
  then have n: "n < 64" by simp
  have r: "bit r n = (n < 16 \<and> bit (SSVAL r ! (n div 8)) (n mod 8))"
    using bit_SVAL [of "SSVAL r" 0 n] by (auto simp: bit_simps dest: bit_imp_le_length)
  have len: "n div 8 < 2 \<longleftrightarrow> n < 16" by presburger
  have zero: "\<not> bit (([0, 0] @ gc) ! (n div 8)) (n mod 8)" if "n < 16"
    using that len by (cases "n div 8") (auto simp: less_Suc_eq numeral_2_eq_2)
  show "bit (rop_util_make_eid r gc) n = bit (BVAL (SSVAL r @ gc) 0) n"
  proof (cases "n < 16")
    case True
    with len have "(SSVAL r @ gc) ! (n div 8) = SSVAL r ! (n div 8)"
      by (simp add: nth_append)
    with True n zero r show ?thesis
      by (simp add: rop_util_make_eid_def bit_simps bit_BVAL)
  next
    case False
    with len have "(SSVAL r @ gc) ! (n div 8) = ([0, 0] @ gc) ! (n div 8)"
      by (simp add: nth_append numeral_2_eq_2)
    with False n r show ?thesis
      by (simp add: rop_util_make_eid_def bit_simps bit_BVAL)
  qed
qed

lemma bit_0xFFFF:
  "bit (0xFFFF :: u64) n \<longleftrightarrow> n < 16" "bit (0xFFFF :: u16) n \<longleftrightarrow> n < 16"
  "bit (0xFFFF :: int) n \<longleftrightarrow> n < 16"
proof -
  have *: "(0xFFFF :: int) = mask 16" "(0xFFFF :: u64) = mask 16" "(0xFFFF :: u16) = mask 16"
    by (simp_all add: mask_eq_exp_minus_1)
  show "bit (0xFFFF :: u64) n \<longleftrightarrow> n < 16" unfolding * bit_mask_iff by auto
  show "bit (0xFFFF :: u16) n \<longleftrightarrow> n < 16" unfolding * bit_mask_iff by auto
  show "bit (0xFFFF :: int) n \<longleftrightarrow> n < 16" unfolding * bit_mask_iff by auto
qed

lemma get_replid_make_eid [simp]:
  "length gc = 6 \<Longrightarrow> rop_util_get_replid (rop_util_make_eid r gc) = r"
proof (rule bit_word_eqI)
  fix n assume gc: "length gc = 6" and "n < LENGTH(16)"
  then have n: "n < 16" by simp
  then have "n div 8 < 2" by presburger
  moreover have "bit (0xFFFF :: u64) n"
    using n by (simp add: bit_0xFFFF)
  ultimately show "bit (rop_util_get_replid (rop_util_make_eid r gc)) n = bit r n"
    using n gc bit_SVAL [of "SSVAL r" 0 n]
    by (simp add: rop_util_get_replid_def make_eid_bytes bit_simps bit_BVAL nth_append)
qed

lemma get_gc_array_make_eid [simp]:
  "length gc = 6 \<Longrightarrow> rop_util_get_gc_array (rop_util_make_eid r gc) = gc"
  by (simp add: rop_util_get_gc_array_def make_eid_bytes SBVAL_BVAL)

lemma get_gc_value_make_eid_ex: "rop_util_get_gc_value (rop_util_make_eid_ex r v) = take_bit 48 v"
  by (simp add: get_gc_value_array rop_util_make_eid_ex_def value_to_gc_to_value)

lemma get_gc_value_bound: "unat (rop_util_get_gc_value eid) < 2 ^ 48"
proof -
  have "rop_util_get_gc_value eid = take_bit 48 (rop_util_get_gc_value eid)"
    using value_to_gc_to_value [of "rop_util_get_gc_value eid"] gc_to_value_to_gc [of "rop_util_get_gc_array eid"]
    by (simp add: get_gc_value_array)
  then have "unat (rop_util_get_gc_value eid) = take_bit 48 (unat (rop_util_get_gc_value eid))"
    by (metis unsigned_take_bit_eq)
  then show ?thesis by (metis take_bit_nat_less_exp)
qed

lemma take_2_SBVAL: "take 2 (SBVAL eid) = SSVAL (rop_util_get_replid eid)"
proof -
  have "ucast (ucast (eid AND 0xFFFFFFFF) AND (0xFFFF :: u32)) = rop_util_get_replid eid"
    by (rule bit_word_eqI)
      (auto simp: rop_util_get_replid_def bit_simps low_masks bit_0xFFFF)
  then show ?thesis by (simp add: SBVAL_def SIVAL_def)
qed

lemma make_eid_ex_parts:
  "rop_util_make_eid_ex (rop_util_get_replid eid) (rop_util_get_gc_value eid) = eid"
proof -
  have "rop_util_make_eid_ex (rop_util_get_replid eid) (rop_util_get_gc_value eid) =
      BVAL (SSVAL (rop_util_get_replid eid) @ rop_util_get_gc_array eid) 0"
    by (simp add: rop_util_make_eid_ex_def get_gc_value_array gc_to_value_to_gc make_eid_bytes)
  also have "SSVAL (rop_util_get_replid eid) = take 2 (SBVAL eid)"
    by (simp add: take_2_SBVAL)
  also have "take 2 (SBVAL eid) @ rop_util_get_gc_array eid = SBVAL eid"
    by (simp add: rop_util_get_gc_array_def flip: take_add)
  finally show ?thesis by simp
qed

subsection \<open>Users, domains, times\<close>

lemma make_user_id_guid: "rop_util_make_user_id (rop_util_make_user_guid n) = n"
  by (simp add: rop_util_make_user_id_def rop_util_make_user_guid_def)

lemma make_domain_id_guid: "rop_util_make_domain_id (rop_util_make_domain_guid n) = n"
  by (simp add: rop_util_make_domain_id_def rop_util_make_domain_guid_def)

lemma make_user_id_of_domain: "rop_util_make_user_id (rop_util_make_domain_guid n) = -1"
  by (simp add: rop_util_make_user_id_def rop_util_make_domain_guid_def)

lemma make_user_id_other:
  "rop_util_make_user_id g \<noteq> -1 \<Longrightarrow> g = rop_util_make_user_guid (time_low g)"
  by (cases g) (simp add: rop_util_make_user_id_def rop_util_make_user_guid_def split: if_splits)

lemma unat_of_nat_64: "n < 2 ^ 64 \<Longrightarrow> unat (of_nat n :: u64) = n"
  by (simp add: unsigned_of_nat take_bit_nat_eq_self)

lemma nttime_to_unix_to_nttime:
  assumes "unat t + 11644473600 < 2 ^ 64 div 10000000"
  shows "rop_util_nttime_to_unix (rop_util_unix_to_nttime t) = t"
proof -
  have "t = of_nat (unat t)" by simp
  moreover define k where "k = unat t"
  ultimately have t: "t = of_nat k" and k: "k + 11644473600 < 2 ^ 64 div 10000000"
    using assms by auto
  have "unat (of_nat ((k + 11644473600) * 10000000) :: u64) = (k + 11644473600) * 10000000"
    by (rule unat_of_nat_64) (use k in simp)
  moreover have "(t + TIME_FIXUP_CONSTANT_INT) * 10000000 = of_nat ((k + 11644473600) * 10000000)"
    by (simp add: t TIME_FIXUP_CONSTANT_INT_def)
  ultimately have "unat ((t + TIME_FIXUP_CONSTANT_INT) * 10000000) = (k + 11644473600) * 10000000"
    by simp
  then have "unat ((t + TIME_FIXUP_CONSTANT_INT) * 10000000 div 10000000) = k + 11644473600"
    by (simp add: unat_div)
  then have "(t + TIME_FIXUP_CONSTANT_INT) * 10000000 div 10000000 = of_nat (k + 11644473600)"
    using unat_of_nat_64 [of "k + 11644473600"] k by (simp only: word_unat_eq_iff)
  then show ?thesis
    by (simp add: rop_util_nttime_to_unix_def rop_util_unix_to_nttime_def TIME_FIXUP_CONSTANT_INT_def t)
qed

subsection \<open>GUIDs as bytes\<close>

lemma binary_to_guid_mem: "rop_util_binary_to_guid (guid_mem g @ bs) = Some g"
proof -
  have "IVAL (guid_mem g @ bs) 0 = time_low g"
    by (simp add: guid_mem_def)
  moreover have "SVAL (guid_mem g @ bs) 4 = ucast (time_mid g)"
    using SVAL_shift [of "SIVAL (time_low g)" 4 _ 0] by (simp add: guid_mem_def)
  moreover have "SVAL (guid_mem g @ bs) 6 = ucast (time_hi_and_version g)"
    using SVAL_shift [of "SIVAL (time_low g) @ SSVAL (time_mid g)" 6 _ 0]
    by (simp add: guid_mem_def)
  moreover have "take 2 (drop 8 (guid_mem g @ bs)) = guid_clock_seq g"
    "take 6 (drop 10 (guid_mem g @ bs)) = guid_node g"
    by (simp_all add: guid_mem_def guid_clock_seq_def guid_node_def drop_Cons' drop_append)
  moreover have "length (guid_node g) = 6" by (simp add: guid_node_def)
  ultimately show ?thesis
    by (simp add: rop_util_binary_to_guid_def)
qed

lemma guid_to_binary_mem: "rop_util_guid_to_binary g pb = pb @ guid_mem g"
  by (simp add: rop_util_guid_to_binary_def guid_mem_def)

end
