(* ===== verification/Pcl.thy ===== *)
theory Pcl
  imports Rop_Util "HOL-Library.Monad_Syntax"
begin

text \<open>
  \<open>LIBRARY/mapi_lib/pcl.c\<close>: the predecessor change list, a list of change keys sorted by
  the replica GUID (the order of \<open>memcmp\<close> on the structure) with one key per replica.

  A \<open>PCL\<close> is the list of its nodes.  The \<open>local_id\<close> of a key stands for the
  \<open>size - 16\<close> bytes that are in use.  The answers of \<open>malloc\<close> are an argument of
  every function that allocates a node; \<open>pcl_serialize\<close> yields \<open>Inl\<close> where it writes
  past the end of its buffer.
\<close>

record xid =
  guid :: guid
  local_id :: bytes

record sized_xid =
  xid_size :: u8
  xid :: xid

type_synonym pcl = "sized_xid list"

definition pcl_init :: pcl where
  "pcl_init = []"

subsection \<open>Change keys\<close>

text \<open>\<open>for (i = 0; i < size - 16; i++) ret_val |= local_id[i] << (size - 16 - 1 - i) * 8;\<close>\<close>

definition pcl_convert_local_id :: "sized_xid \<Rightarrow> u64" where
  "pcl_convert_local_id pxid =
     fold (\<lambda>i ret_val. ret_val OR
             push_bit ((unat (xid_size pxid) - 16 - 1 - i) * 8) (ucast (local_id (xid pxid) ! i)))
       [0..<unat (xid_size pxid) - 16] 0"

fun pcl_append :: "bool \<Rightarrow> pcl \<Rightarrow> sized_xid \<Rightarrow> bool \<times> pcl" where
  "pcl_append mem [] pxid = (if mem then (True, [pxid]) else (False, []))"
| "pcl_append mem (pxnode # nodes) pxid =
     (let cmp_ret = guid_cmp (guid (xid pxnode)) (guid (xid pxid)) in
      if cmp_ret < 0 then
        (let (r, nodes') = pcl_append mem nodes pxid in (r, pxnode # nodes'))
      else if cmp_ret = 0 then
        if xid_size pxid \<noteq> xid_size pxnode then (False, pxnode # nodes)
        else if pcl_convert_local_id pxid > pcl_convert_local_id pxnode then
          (True, pxnode \<lparr>xid := (xid pxnode) \<lparr>local_id := local_id (xid pxid)\<rparr>\<rparr> # nodes)
        else (True, pxnode # nodes)
      else if mem then (True, pxid # pxnode # nodes)
      else (False, pxnode # nodes))"

fun pcl_merge :: "(nat \<Rightarrow> bool) \<Rightarrow> pcl \<Rightarrow> pcl \<Rightarrow> bool \<times> pcl" where
  "pcl_merge mem ppcl1 [] = (True, ppcl1)"
| "pcl_merge mem ppcl1 (pxnode # nodes) =
     (let (r, ppcl1') = pcl_append (mem 0) ppcl1 pxnode in
      if r then pcl_merge (\<lambda>n. mem (Suc n)) ppcl1' nodes else (False, ppcl1'))"

subsection \<open>Comparison\<close>

fun pcl_check_included :: "pcl \<Rightarrow> sized_xid \<Rightarrow> bool" where
  "pcl_check_included [] pxid = False"
| "pcl_check_included (pxnode # nodes) pxid =
     (let cmp_ret = guid_cmp (guid (xid pxnode)) (guid (xid pxid)) in
      if cmp_ret < 0 then pcl_check_included nodes pxid
      else if cmp_ret > 0 then False
      else if xid_size pxid \<noteq> xid_size pxnode then False
      else if pcl_convert_local_id pxnode \<ge> pcl_convert_local_id pxid then True
      else pcl_check_included nodes pxid)"

definition PCL_CONFLICT :: u32 where "PCL_CONFLICT = 0"
definition PCL_INCLUDE :: u32 where "PCL_INCLUDE = 1"
definition PCL_INCLUDED :: u32 where "PCL_INCLUDED = 2"
definition PCL_IDENTICAL :: u32 where "PCL_IDENTICAL = 3"

definition pcl_compare :: "pcl \<Rightarrow> pcl \<Rightarrow> u32" where
  "pcl_compare ppcl1 ppcl2 =
     (let ret_val = (if list_all (pcl_check_included ppcl2) ppcl1
                     then PCL_CONFLICT OR PCL_INCLUDED else PCL_CONFLICT)
      in if list_all (pcl_check_included ppcl1) ppcl2 then ret_val OR PCL_INCLUDE else ret_val)"

subsection \<open>Serialisation\<close>

definition pcl_push_xid :: "bytes \<Rightarrow> u8 \<Rightarrow> xid \<Rightarrow> bytes" where
  "pcl_push_xid pb sz pxid =
     rop_util_guid_to_binary (guid pxid) pb @ take (unat sz - 16) (local_id pxid)"

definition pcl_push_sized_xid :: "bytes \<Rightarrow> sized_xid \<Rightarrow> bytes" where
  "pcl_push_sized_xid pb pxid = pcl_push_xid (pb @ [xid_size pxid]) (xid_size pxid) (xid pxid)"

fun pcl_serialize_loop :: "bytes \<Rightarrow> pcl \<Rightarrow> ext_err + bytes option" where
  "pcl_serialize_loop buff [] = Inr (Some buff)"
| "pcl_serialize_loop buff (pxid # nodes) =
     (if xid_size pxid < 17 \<or> xid_size pxid > 24 \<or> 0x8000 < length buff + unat (xid_size pxid) then Inr None
      else if 0x8000 < length buff + 1 + unat (xid_size pxid) then Inl UNDEFINED_BEHAVIOUR
      else pcl_serialize_loop (pcl_push_sized_xid buff pxid) nodes)"

text \<open>\<open>mem1\<close> and \<open>mem2\<close> answer the allocations of the \<open>BINARY\<close> and of its bytes.\<close>

definition pcl_serialize :: "bool \<Rightarrow> bool \<Rightarrow> pcl \<Rightarrow> ext_err + bytes option" where
  "pcl_serialize mem1 mem2 ppcl =
     (case pcl_serialize_loop [] ppcl of
        Inl e \<Rightarrow> Inl e
      | Inr None \<Rightarrow> Inr None
      | Inr (Some buff) \<Rightarrow>
          if \<not> mem1 then Inr None
          else if length buff = 0 then Inr (Some [])
          else if \<not> mem2 then Inr None
          else Inr (Some buff))"

text \<open>The offset is a \<open>uint16_t\<close> here and wraps; the GUID is read at its place.\<close>

definition pcl_pull_xid :: "bytes \<Rightarrow> u16 \<Rightarrow> u8 \<Rightarrow> xid option" where
  "pcl_pull_xid pb offset sz = do {
     g \<leftarrow> rop_util_binary_to_guid (drop (unat offset) pb);
     (if length pb < unat offset + unat sz then None
      else Some \<lparr>guid = g, local_id = take (unat sz - 16) (drop (unat offset + 16) pb)\<rparr>)
   }"

text \<open>\<open>None\<close> is the return value 0, otherwise the number of bytes with the key.\<close>

definition pcl_pull_sized_xid :: "bytes \<Rightarrow> u16 \<Rightarrow> (u8 \<times> sized_xid) option" where
  "pcl_pull_sized_xid pb offset =
     (if length pb \<le> unat offset then None
      else let sz = pb ! unat offset in
        if sz < 17 \<or> sz > 24 \<or> unat offset + 1 + unat sz > length pb then None
        else do {
          x \<leftarrow> pcl_pull_xid pb (offset + 1) sz;
          Some (sz + 1, \<lparr>xid_size = sz, xid = x\<rparr>)
        })"

text \<open>
  The loop of \<open>pcl_deserialize\<close>; \<open>None\<close> where it does not return (the \<open>uint16_t\<close> offset
  can come back to an earlier position of a longer binary).
\<close>

partial_function (option) pcl_deserialize_loop ::
    "(nat \<Rightarrow> bool) \<Rightarrow> bytes \<Rightarrow> u16 \<Rightarrow> pcl \<Rightarrow> (bool \<times> pcl) option" where
  "pcl_deserialize_loop mem pb offset ppcl =
     (case pcl_pull_sized_xid pb offset of
        None \<Rightarrow> Some (False, ppcl)
      | Some (offset1, x) \<Rightarrow>
          (let (r, ppcl') = pcl_append (mem 0) ppcl x;
               offset' = offset + ucast offset1
           in if \<not> r then Some (False, ppcl')
              else if length pb = unat offset' then Some (True, ppcl')
              else pcl_deserialize_loop (\<lambda>n. mem (Suc n)) pb offset' ppcl'))"

definition pcl_deserialize :: "(nat \<Rightarrow> bool) \<Rightarrow> pcl \<Rightarrow> bytes \<Rightarrow> (bool \<times> pcl) option" where
  "pcl_deserialize mem ppcl pbin = pcl_deserialize_loop mem pbin 0 ppcl"

subsection \<open>Well-formed lists and what they stand for\<close>

definition xid_ok :: "sized_xid \<Rightarrow> bool" where
  "xid_ok x \<longleftrightarrow> 17 \<le> xid_size x \<and> xid_size x \<le> 24 \<and>
     length (local_id (xid x)) = unat (xid_size x) - 16"

abbreviation replica :: "sized_xid \<Rightarrow> guid" where
  "replica x \<equiv> guid (xid x)"

definition pcl_sorted :: "pcl \<Rightarrow> bool" where
  "pcl_sorted p \<longleftrightarrow> sorted_wrt (\<lambda>x y. replica x < replica y) p"

definition pcl_ok :: "pcl \<Rightarrow> bool" where
  "pcl_ok p \<longleftrightarrow> pcl_sorted p \<and> list_all xid_ok p"

text \<open>
  The contract: a partial map from replicas to the width and the value of the last change
  seen from it, ordered pointwise.
\<close>

type_synonym versions = "guid \<rightharpoonup> u8 \<times> u64"

definition pcl_abs :: "pcl \<Rightarrow> versions" where
  "pcl_abs p = map_of (map (\<lambda>x. (replica x, (xid_size x, pcl_convert_local_id x))) p)"

definition versions_le :: "versions \<Rightarrow> versions \<Rightarrow> bool" where
  "versions_le f g \<longleftrightarrow> (\<forall>k s v. f k = Some (s, v) \<longrightarrow> (\<exists>w. g k = Some (s, w) \<and> v \<le> w))"

definition version_join :: "(u8 \<times> u64) option \<Rightarrow> (u8 \<times> u64) option \<Rightarrow> (u8 \<times> u64) option" where
  "version_join a b =
     (case a of None \<Rightarrow> b
      | Some (s, v) \<Rightarrow> (case b of None \<Rightarrow> a | Some (t, w) \<Rightarrow> Some (t, max v w)))"

definition versions_agree :: "versions \<Rightarrow> versions \<Rightarrow> bool" where
  "versions_agree f g \<longleftrightarrow> (\<forall>k s v t w. f k = Some (s, v) \<longrightarrow> g k = Some (t, w) \<longrightarrow> s = t)"

lemma pcl_abs_simps [simp]:
  "pcl_abs [] = Map.empty"
  "pcl_abs (x # p) = (pcl_abs p)(replica x \<mapsto> (xid_size x, pcl_convert_local_id x))"
  by (simp_all add: pcl_abs_def)

lemma pcl_abs_None: "pcl_abs p k = None \<longleftrightarrow> k \<notin> replica ` set p"
  by (induction p) auto

lemma pcl_sorted_simps [simp]:
  "pcl_sorted []"
  "pcl_sorted (x # p) \<longleftrightarrow> (\<forall>y \<in> set p. replica x < replica y) \<and> pcl_sorted p"
  by (simp_all add: pcl_sorted_def)

lemma pcl_abs_less: "\<forall>y \<in> set p. k < replica y \<Longrightarrow> pcl_abs p k = None"
  by (auto simp: pcl_abs_None)

lemma convert_local_id_cong:
  "xid_size x = xid_size y \<Longrightarrow> local_id (xid x) = local_id (xid y) \<Longrightarrow>
     pcl_convert_local_id x = pcl_convert_local_id y"
  by (simp add: pcl_convert_local_id_def)

subsection \<open>Appending and merging\<close>

lemma append_before:
  "replica n < replica x \<Longrightarrow>
     pcl_append mem (n # p) x = (fst (pcl_append mem p x), n # snd (pcl_append mem p x))"
  by (simp add: case_prod_beta)

lemma append_found:
  "replica n = replica x \<Longrightarrow>
     pcl_append mem (n # p) x =
       (if xid_size x \<noteq> xid_size n then (False, n # p)
        else (True, (if pcl_convert_local_id n < pcl_convert_local_id x then x else n) # p))"
  by (cases x; cases n) (auto simp: Let_def intro: sized_xid.equality xid.equality)

lemma append_here:
  "replica x < replica n \<Longrightarrow>
     pcl_append mem (n # p) x = (if mem then (True, x # n # p) else (False, n # p))"
  by (auto simp: Let_def)

declare pcl_append.simps(2) [simp del]
lemmas append_cases = linorder_cases [where x = "replica _" and y = "replica _"]

lemma append_failed: "\<not> fst (pcl_append mem p x) \<Longrightarrow> snd (pcl_append mem p x) = p"
proof (induction p)
  case (Cons n p)
  then show ?case
    by (cases "replica n" "replica x" rule: linorder_cases)
      (auto simp: append_before append_found append_here split: if_splits)
qed (simp split: if_splits)

lemma append_replicas:
  "fst (pcl_append mem p x) \<Longrightarrow>
     replica ` set (snd (pcl_append mem p x)) = insert (replica x) (replica ` set p)"
proof (induction p)
  case (Cons n p)
  then show ?case
    by (cases "replica n" "replica x" rule: linorder_cases)
      (auto simp: append_before append_found append_here split: if_splits)
qed (simp split: if_splits)

lemma append_replicas_subset:
  "y \<in> set (snd (pcl_append mem p x)) \<Longrightarrow> replica y \<in> insert (replica x) (replica ` set p)"
  using append_replicas [of mem p x] append_failed [of mem p x]
  by (cases "fst (pcl_append mem p x)") auto

lemma append_sorted: "pcl_sorted p \<Longrightarrow> pcl_sorted (snd (pcl_append mem p x))"
proof (induction p)
  case (Cons n p)
  show ?case
  proof (cases "replica n" "replica x" rule: linorder_cases)
    case less
    then have "\<forall>y \<in> set (snd (pcl_append mem p x)). replica n < replica y"
      using Cons.prems append_replicas_subset by fastforce
    with less Cons show ?thesis by (simp add: append_before)
  qed (use Cons.prems in \<open>auto simp: append_found append_here\<close>)
qed simp

lemma append_xid_ok:
  "list_all xid_ok p \<Longrightarrow> xid_ok x \<Longrightarrow> list_all xid_ok (snd (pcl_append mem p x))"
proof (induction p)
  case (Cons n p)
  then show ?case
    by (cases "replica n" "replica x" rule: linorder_cases)
      (auto simp: append_before append_found append_here)
qed simp

lemma append_ok: "pcl_ok p \<Longrightarrow> xid_ok x \<Longrightarrow> pcl_ok (snd (pcl_append mem p x))"
  using append_sorted append_xid_ok by (auto simp: pcl_ok_def)

lemma append_result:
  "pcl_sorted p \<Longrightarrow>
     fst (pcl_append mem p x) \<longleftrightarrow>
       (case pcl_abs p (replica x) of None \<Rightarrow> mem | Some (s, v) \<Rightarrow> s = xid_size x)"
proof (induction p)
  case (Cons n p)
  show ?case
  proof (cases "replica n" "replica x" rule: linorder_cases)
    case greater
    then have "pcl_abs p (replica x) = None"
      using Cons.prems by (auto intro!: pcl_abs_less)
    with greater show ?thesis by (auto simp: append_here)
  qed (use Cons in \<open>auto simp: append_before append_found\<close>)
qed simp

lemma append_abs:
  "pcl_sorted p \<Longrightarrow> fst (pcl_append mem p x) \<Longrightarrow>
     pcl_abs (snd (pcl_append mem p x)) = (pcl_abs p)(replica x :=
       version_join (pcl_abs p (replica x)) (Some (xid_size x, pcl_convert_local_id x)))"
proof (induction p)
  case (Cons n p)
  show ?case
  proof (cases "replica n" "replica x" rule: linorder_cases)
    case less
    with Cons show ?thesis by (auto simp: append_before fun_eq_iff)
  next
    case equal
    with Cons.prems show ?thesis
      by (auto simp: append_found version_join_def max_def split: if_splits)
  next
    case greater
    then have "pcl_abs p (replica x) = None"
      using Cons.prems by (auto intro!: pcl_abs_less)
    with greater Cons.prems show ?thesis
      by (auto simp: append_here version_join_def split: if_splits)
  qed
qed (auto simp: version_join_def split: if_splits)

lemma merge_step:
  "pcl_merge mem p (x # q) =
     (if fst (pcl_append (mem 0) p x)
      then pcl_merge (\<lambda>n. mem (Suc n)) (snd (pcl_append (mem 0) p x)) q
      else (False, snd (pcl_append (mem 0) p x)))"
  by (simp add: case_prod_beta)

declare pcl_merge.simps(2) [simp del]

lemma merge_ok: "pcl_ok p \<Longrightarrow> list_all xid_ok q \<Longrightarrow> pcl_ok (snd (pcl_merge mem p q))"
  by (induction q arbitrary: mem p) (simp_all add: merge_step append_ok)

lemma merge_abs:
  "pcl_sorted p \<Longrightarrow> pcl_sorted q \<Longrightarrow> fst (pcl_merge mem p q) \<Longrightarrow>
     pcl_abs (snd (pcl_merge mem p q)) = (\<lambda>k. version_join (pcl_abs p k) (pcl_abs q k))"
proof (induction q arbitrary: mem p)
  case Nil
  then show ?case by (simp add: version_join_def fun_eq_iff split: option.split)
next
  case (Cons x q)
  have "pcl_abs q (replica x) = None"
    using Cons.prems(2) by (auto intro!: pcl_abs_less)
  moreover have "fst (pcl_append (mem 0) p x)" "fst (pcl_merge (\<lambda>n. mem (Suc n)) (snd (pcl_append (mem 0) p x)) q)"
    using Cons.prems(3) by (auto simp: merge_step split: if_splits)
  ultimately show ?case
    using Cons.prems Cons.IH [of "snd (pcl_append (mem 0) p x)" "\<lambda>n. mem (Suc n)"]
    by (simp add: merge_step append_sorted append_abs fun_eq_iff) (simp add: version_join_def split: option.split)
qed

lemma merge_result:
  "pcl_sorted p \<Longrightarrow> pcl_sorted q \<Longrightarrow>
     fst (pcl_merge (\<lambda>_. True) p q) \<longleftrightarrow> versions_agree (pcl_abs p) (pcl_abs q)"
proof (induction q arbitrary: p)
  case (Cons x q)
  have q: "pcl_abs q (replica x) = None"
    using Cons.prems(2) by (auto intro!: pcl_abs_less)
  show ?case
  proof (cases "fst (pcl_append True p x)")
    case True
    with Cons.prems have s: "pcl_abs p (replica x) = None \<or> (\<exists>v. pcl_abs p (replica x) = Some (xid_size x, v))"
      by (auto simp: append_result split: option.splits)
    have "fst (pcl_merge (\<lambda>_. True) p (x # q)) \<longleftrightarrow>
        versions_agree (pcl_abs (snd (pcl_append True p x))) (pcl_abs q)"
      using Cons True by (simp add: merge_step append_sorted)
    also have "\<dots> \<longleftrightarrow> versions_agree (pcl_abs p) (pcl_abs (x # q))"
      using q s Cons.prems True
      by (auto simp: versions_agree_def append_abs)
    finally show ?thesis .
  next
    case False
    with Cons.prems show ?thesis
      by (auto simp: merge_step append_result versions_agree_def split: option.splits)
  qed
qed (simp add: versions_agree_def)

lemma append_with_memory: "fst (pcl_append mem p x) \<Longrightarrow> pcl_append True p x = pcl_append mem p x"
proof (induction p)
  case (Cons n p)
  then show ?case
    by (cases "replica n" "replica x" rule: linorder_cases)
      (auto simp: append_before append_found append_here split: if_splits)
qed (auto split: if_splits)

lemma merge_with_memory:
  "fst (pcl_merge mem p q) \<Longrightarrow> pcl_merge (\<lambda>_. True) p q = pcl_merge mem p q"
proof (induction q arbitrary: mem p)
  case (Cons x q)
  then have "fst (pcl_append (mem 0) p x)"
    by (auto simp: merge_step split: if_splits)
  with Cons append_with_memory [OF this] show ?case by (simp add: merge_step)
qed simp

subsection \<open>Comparing\<close>

lemma check_included_iff:
  "pcl_sorted p \<Longrightarrow>
     pcl_check_included p x \<longleftrightarrow>
       (\<exists>v. pcl_abs p (replica x) = Some (xid_size x, v) \<and> pcl_convert_local_id x \<le> v)"
proof (induction p)
  case (Cons n p)
  have *: "pcl_abs p (replica x) = None" if "replica x \<le> replica n"
    using Cons.prems that by (auto intro!: pcl_abs_less dest: le_less_trans)
  show ?case
    by (cases "replica n" "replica x" rule: linorder_cases)
      (use Cons * in \<open>auto simp: Let_def\<close>)
qed simp

lemma versions_leD: "versions_le f g \<Longrightarrow> f k = Some (s, v) \<Longrightarrow> \<exists>w. g k = Some (s, w) \<and> v \<le> w"
  by (auto simp: versions_le_def)

lemma versions_le_upd:
  assumes "f k = None"
  shows "versions_le (f(k \<mapsto> (s, v))) g \<longleftrightarrow> (\<exists>w. g k = Some (s, w) \<and> v \<le> w) \<and> versions_le f g"
proof
  assume *: "versions_le (f(k \<mapsto> (s, v))) g"
  have "versions_le f g"
    unfolding versions_le_def
  proof (intro allI impI)
    fix l t u assume "f l = Some (t, u)"
    with assms have "(f(k \<mapsto> (s, v))) l = Some (t, u)" by auto
    then show "\<exists>w. g l = Some (t, w) \<and> u \<le> w" by (rule versions_leD [OF *])
  qed
  with versions_leD [OF *, of k s v]
  show "(\<exists>w. g k = Some (s, w) \<and> v \<le> w) \<and> versions_le f g" by simp
next
  assume *: "(\<exists>w. g k = Some (s, w) \<and> v \<le> w) \<and> versions_le f g"
  show "versions_le (f(k \<mapsto> (s, v))) g"
    unfolding versions_le_def
  proof (intro allI impI)
    fix l t u assume "(f(k \<mapsto> (s, v))) l = Some (t, u)"
    then show "\<exists>w. g l = Some (t, w) \<and> u \<le> w"
      using * versions_leD [of f g l t u] by (cases "l = k") auto
  qed
qed

lemma all_included_iff:
  "pcl_sorted p \<Longrightarrow> pcl_sorted q \<Longrightarrow>
     list_all (pcl_check_included q) p \<longleftrightarrow> versions_le (pcl_abs p) (pcl_abs q)"
proof (induction p)
  case (Cons x p)
  have "pcl_abs p (replica x) = None"
    using Cons.prems(1) by (auto intro!: pcl_abs_less)
  note upd = versions_le_upd [where f = "pcl_abs p", OF this]
  show ?case
    unfolding pcl_abs_simps upd using Cons by (simp add: check_included_iff)
qed (simp add: versions_le_def)

lemma compare_abs:
  "pcl_sorted p \<Longrightarrow> pcl_sorted q \<Longrightarrow>
     pcl_compare p q =
       (if versions_le (pcl_abs p) (pcl_abs q) then PCL_INCLUDED else 0) OR
       (if versions_le (pcl_abs q) (pcl_abs p) then PCL_INCLUDE else 0)"
  by (simp add: pcl_compare_def all_included_iff PCL_CONFLICT_def PCL_INCLUDED_def PCL_INCLUDE_def)

lemma versions_le_antisym: "versions_le f g \<Longrightarrow> versions_le g f \<Longrightarrow> f = g"
proof
  fix k assume *: "versions_le f g" "versions_le g f"
  show "f k = g k"
  proof (cases "f k")
    case None
    then show ?thesis using * by (cases "g k") (fastforce simp: versions_le_def)+
  next
    case (Some a)
    then obtain s v where sv: "f k = Some (s, v)" by (cases a) auto
    then obtain w where w: "g k = Some (s, w)" "v \<le> w"
      using *(1) unfolding versions_le_def by blast
    then obtain v' where "f k = Some (s, v')" "w \<le> v'"
      using *(2) unfolding versions_le_def by blast
    with sv w show ?thesis by simp
  qed
qed

lemma versions_le_join:
  "versions_agree f g \<Longrightarrow> versions_le f (\<lambda>k. version_join (f k) (g k))"
  "versions_le g (\<lambda>k. version_join (f k) (g k))"
  by (fastforce simp: versions_le_def version_join_def versions_agree_def split: option.splits)+

lemma versions_join_least:
  assumes "versions_le f h" "versions_le g h"
  shows "versions_le (\<lambda>k. version_join (f k) (g k)) h"
  unfolding versions_le_def
proof (intro allI impI)
  fix k s v assume j: "version_join (f k) (g k) = Some (s, v)"
  have f: "\<exists>w. h k = Some (a, w) \<and> b \<le> w" if "f k = Some (a, b)" for a b
    using assms(1) that unfolding versions_le_def by blast
  have g: "\<exists>w. h k = Some (a, w) \<and> b \<le> w" if "g k = Some (a, b)" for a b
    using assms(2) that unfolding versions_le_def by blast
  from j f g show "\<exists>w. h k = Some (s, w) \<and> v \<le> w"
    by (cases "f k"; cases "g k") (fastforce simp: version_join_def max_def)+
qed

subsection \<open>Keys are determined by their width and their value\<close>

lemma bit_fold_or:
  "bit (fold (\<lambda>i a. a OR h i) is (a :: u64)) n \<longleftrightarrow> bit a n \<or> (\<exists>i \<in> set is. bit (h i) n)"
  by (induction "is" arbitrary: a) (auto simp: bit_or_iff)

lemma bit_convert_local_id:
  assumes x: "xid_ok x" and i: "i < unat (xid_size x) - 16" and k: "k < 8"
  shows "bit (pcl_convert_local_id x) ((unat (xid_size x) - 16 - 1 - i) * 8 + k) \<longleftrightarrow>
    bit (local_id (xid x) ! i) k"
proof -
  define m where "m = unat (xid_size x) - 16"
  have m: "m \<le> 8" using x by (auto simp: m_def xid_ok_def word_le_nat_alt)
  have i': "i < m" using i by (simp add: m_def)
  define n where "n = (m - 1 - i) * 8 + k"
  have n: "n < 64" using m i' k unfolding n_def by linarith
  have byte: "bit (push_bit ((m - 1 - j) * 8) (ucast (local_id (xid x) ! j)) :: u64) n \<longleftrightarrow>
      j = i \<and> bit (local_id (xid x) ! i) k" if j: "j < m" for j
  proof (cases "j = i")
    case True
    with n k show ?thesis by (simp add: bit_simps n_def)
  next
    case False
    then have "(m - 1 - j) * 8 > n \<or> 8 \<le> n - (m - 1 - j) * 8"
      using j i' k unfolding n_def by linarith
    with False show ?thesis by (auto simp: bit_simps dest!: bit_imp_le_length)
  qed
  show ?thesis
    unfolding pcl_convert_local_id_def bit_fold_or m_def [symmetric] n_def [symmetric]
    using byte i' by auto
qed

lemma local_id_determined:
  assumes "xid_ok x" "xid_ok y" "xid_size x = xid_size y" "pcl_convert_local_id x = pcl_convert_local_id y"
  shows "local_id (xid x) = local_id (xid y)"
proof (rule nth_equalityI)
  show "length (local_id (xid x)) = length (local_id (xid y))"
    using assms by (simp add: xid_ok_def)
  fix i assume "i < length (local_id (xid x))"
  then have i: "i < unat (xid_size x) - 16" using assms by (simp add: xid_ok_def)
  show "local_id (xid x) ! i = local_id (xid y) ! i"
  proof (rule bit_word_eqI)
    fix k assume "k < LENGTH(8)"
    then show "bit (local_id (xid x) ! i) k = bit (local_id (xid y) ! i) k"
      using bit_convert_local_id [OF assms(1) i, of k] bit_convert_local_id [OF assms(2), of i k] i assms(3,4)
      by simp
  qed
qed

lemma pcl_abs_inject:
  "pcl_ok p \<Longrightarrow> pcl_ok q \<Longrightarrow> pcl_abs p = pcl_abs q \<Longrightarrow> p = q"
proof (induction p arbitrary: q)
  case Nil
  then show ?case
    by (cases q) (simp_all add: fun_eq_iff, metis option.distinct(1))
next
  case (Cons x p)
  have x: "pcl_abs q (replica x) = Some (xid_size x, pcl_convert_local_id x)"
    using Cons.prems(3) by (metis fun_upd_same pcl_abs_simps(2))
  then obtain y q' where q: "q = y # q'" by (cases q) auto
  have y: "pcl_abs (x # p) (replica y) = Some (xid_size y, pcl_convert_local_id y)"
    unfolding Cons.prems(3) q by simp
  have "replica y \<in> replica ` set (x # p)" using y by (metis option.distinct(1) pcl_abs_None)
  moreover have "replica x \<in> replica ` set q" using x by (metis option.distinct(1) pcl_abs_None)
  ultimately have same: "replica x = replica y"
    using Cons.prems(1,2) q by (fastforce simp: pcl_ok_def dest: less_trans)
  have eqs: "xid_size x = xid_size y" "pcl_convert_local_id x = pcl_convert_local_id y"
    using x unfolding q same pcl_abs_simps by simp_all
  then have "local_id (xid x) = local_id (xid y)"
    using local_id_determined [of x y] Cons.prems(1,2) q by (simp add: pcl_ok_def)
  with same have "xid x = xid y" by (simp add: xid.equality)
  with eqs(1) have "x = y" by (simp add: sized_xid.equality)
  moreover have "pcl_abs p = pcl_abs q'"
  proof
    fix k
    show "pcl_abs p k = pcl_abs q' k"
    proof (cases "k = replica x")
      case True
      then have "pcl_abs p k = None" "pcl_abs q' k = None"
        using Cons.prems(1,2) q same by (auto simp: pcl_ok_def intro!: pcl_abs_less)
      then show ?thesis by simp
    next
      case False
      then show ?thesis using fun_cong [OF Cons.prems(3), of k] q same by simp
    qed
  qed
  ultimately show ?case
    using Cons.IH [of q'] Cons.prems(1,2) q by (simp add: pcl_ok_def)
qed

subsection \<open>Serialised form\<close>

definition pcl_bytes :: "pcl \<Rightarrow> bytes" where
  "pcl_bytes p = concat (map (pcl_push_sized_xid []) p)"

lemma pcl_bytes_simps [simp]:
  "pcl_bytes [] = []" "pcl_bytes (x # p) = pcl_push_sized_xid [] x @ pcl_bytes p"
  "pcl_bytes (p @ q) = pcl_bytes p @ pcl_bytes q"
  by (simp_all add: pcl_bytes_def)

lemma push_sized_xid_append: "pcl_push_sized_xid pb x = pb @ pcl_push_sized_xid [] x"
  by (simp add: pcl_push_sized_xid_def pcl_push_xid_def guid_to_binary_mem)

lemma xid_sizes:
  assumes "xid_ok x"
  shows "17 \<le> unat (xid_size x)" "unat (xid_size x) \<le> 24"
    "\<not> xid_size x < 17" "\<not> 24 < xid_size x"
  using assms by (auto simp: xid_ok_def word_le_nat_alt word_less_nat_alt)

lemma push_sized_xid:
  "xid_ok x \<Longrightarrow> pcl_push_sized_xid [] x = xid_size x # guid_mem (replica x) @ local_id (xid x)"
  by (simp add: pcl_push_sized_xid_def pcl_push_xid_def guid_to_binary_mem xid_ok_def)

lemma length_push_sized_xid: "xid_ok x \<Longrightarrow> length (pcl_push_sized_xid [] x) = unat (xid_size x) + 1"
  using xid_sizes(1) [of x] by (simp add: push_sized_xid) (simp add: xid_ok_def)

lemma length_pcl_bytes: "list_all xid_ok p \<Longrightarrow> length (pcl_bytes p) = (\<Sum>x\<leftarrow>p. unat (xid_size x) + 1)"
  by (induction p) (simp_all add: length_push_sized_xid)

lemma serialize_loop_ok:
  "list_all xid_ok p \<Longrightarrow> length buff + length (pcl_bytes p) \<le> 0x8000 \<Longrightarrow>
     pcl_serialize_loop buff p = Inr (Some (buff @ pcl_bytes p))"
proof (induction p arbitrary: buff)
  case (Cons x p)
  with xid_sizes [of x] length_push_sized_xid [of x] show ?case
    by (simp add: push_sized_xid_append [of buff])
qed simp

lemma serialize_loop_too_long:
  "list_all xid_ok p \<Longrightarrow> length buff \<le> 0x8000 \<Longrightarrow> 0x8000 < length buff + length (pcl_bytes p) \<Longrightarrow>
     pcl_serialize_loop buff p \<in> {Inr None, Inl UNDEFINED_BEHAVIOUR}"
proof (induction p arbitrary: buff)
  case (Cons x p)
  show ?case
  proof (cases "0x8000 < length buff + 1 + unat (xid_size x)")
    case False
    with Cons.IH [of "pcl_push_sized_xid buff x"] Cons.prems length_push_sized_xid [of x]
    show ?thesis by (simp add: push_sized_xid_append [of buff])
  qed auto
qed simp

lemma serialize_small:
  assumes "list_all xid_ok p" "length (pcl_bytes p) \<le> 0x8000"
  shows "pcl_serialize True True p = Inr (Some (pcl_bytes p))"
  using serialize_loop_ok [of p "[]"] assms by (simp add: pcl_serialize_def)

text \<open>The missing byte of the test: a key whose last byte falls just outside the buffer.\<close>

lemma serialize_loop_append:
  "list_all xid_ok p \<Longrightarrow> length buff + length (pcl_bytes p) \<le> 0x8000 \<Longrightarrow>
     pcl_serialize_loop buff (p @ q) = pcl_serialize_loop (buff @ pcl_bytes p) q"
proof (induction p arbitrary: buff)
  case (Cons x p)
  with xid_sizes [of x] length_push_sized_xid [of x] show ?case
    by (simp add: push_sized_xid_append [of buff])
qed simp

lemma serialize_overflow:
  assumes "list_all xid_ok p" "xid_ok x" "length (pcl_bytes p) + unat (xid_size x) = 0x8000"
  shows "pcl_serialize mem1 mem2 (p @ x # q) = Inl UNDEFINED_BEHAVIOUR"
  using serialize_loop_append [of p "[]" "x # q"] assms xid_sizes [of x] by (simp add: pcl_serialize_def)

subsection \<open>Reading back\<close>

lemma pull_xid_length: "pcl_pull_xid pb offset sz = Some y \<Longrightarrow> length (local_id y) = unat sz - 16"
  by (auto simp: pcl_pull_xid_def split: if_splits bind_splits)

lemma pull_sized_xid_ok:
  assumes "pcl_pull_sized_xid pb offset = Some (n, x)"
  shows "xid_ok x" "unat n = unat (xid_size x) + 1"
    "unat offset + unat n \<le> length pb"
proof -
  define sz where "sz = pb ! unat offset"
  have *: "17 \<le> unat sz" "unat sz \<le> 24" "unat offset + 1 + unat sz \<le> length pb"
    "pcl_pull_xid pb (offset + 1) sz = Some (xid x)" "xid_size x = sz" "n = sz + 1"
    using assms
    by (auto simp: pcl_pull_sized_xid_def Let_def sz_def word_less_nat_alt
        split: if_splits bind_splits)
  then have "unat (sz + 1) = unat sz + 1"
    by (simp add: unat_word_ariths)
  with * show "unat n = unat (xid_size x) + 1" "unat offset + unat n \<le> length pb"
    by simp_all
  show "xid_ok x"
    using * pull_xid_length by (auto simp: xid_ok_def word_le_nat_alt)
qed

lemma pull_sized_xid_push:
  assumes "xid_ok x" "length pb1 < 65535"
  shows "pcl_pull_sized_xid (pb1 @ pcl_push_sized_xid [] x @ pb2) (of_nat (length pb1)) =
    Some (xid_size x + 1, x)"
proof -
  have o: "unat (of_nat (length pb1) :: u16) = length pb1"
    "unat (of_nat (length pb1) + 1 :: u16) = length pb1 + 1"
    using assms(2) by (simp_all add: unsigned_of_nat take_bit_nat_eq_self unat_word_ariths)
  show ?thesis
    using xid_sizes [OF assms(1)] assms(1)
    by (simp add: pcl_pull_sized_xid_def pcl_pull_xid_def o push_sized_xid Let_def nth_append
        binary_to_guid_mem xid_ok_def)
qed

lemma append_last: "\<forall>y \<in> set p. replica y < replica x \<Longrightarrow> pcl_append True p x = (True, p @ [x])"
  by (induction p) (simp_all add: append_before)

lemma deserialize_loop_bytes:
  assumes "pcl_ok (ps @ qs)" "qs \<noteq> []" "length (pcl_bytes (ps @ qs)) < 65536"
  shows "pcl_deserialize_loop (\<lambda>_. True) (pcl_bytes (ps @ qs)) (of_nat (length (pcl_bytes ps))) ps =
    Some (True, ps @ qs)"
  using assms
proof (induction qs arbitrary: ps)
  case (Cons x qs)
  have x: "xid_ok x" "\<forall>y \<in> set ps. replica y < replica x"
    using Cons.prems(1) by (auto simp: pcl_ok_def pcl_sorted_def sorted_wrt_append)
  note len = length_push_sized_xid [OF x(1)]
  let ?n = "length (pcl_bytes ps)"
  have n: "?n < 65535" using Cons.prems(3) len xid_sizes(1) [OF x(1)] by simp
  have pull: "pcl_pull_sized_xid (pcl_bytes (ps @ x # qs)) (of_nat ?n) = Some (xid_size x + 1, x)"
    using pull_sized_xid_push [OF x(1) n, of "pcl_bytes qs"] by simp
  have one: "unat (xid_size x + 1) = unat (xid_size x) + 1"
    using xid_sizes(2) [OF x(1)] by (simp add: unat_word_ariths)
  have "ucast (xid_size x + 1) = (of_nat (unat (xid_size x + 1)) :: u16)"
    by simp
  then have next_offset: "of_nat ?n + ucast (xid_size x + 1) = (of_nat (length (pcl_bytes (ps @ [x]))) :: u16)"
    unfolding one using len by simp
  have last: "pcl_append True ps x = (True, ps @ [x])"
    by (rule append_last) (use x in blast)
  have "length (pcl_bytes (ps @ [x])) < 65536"
    using Cons.prems(3) by simp
  then have "unat (of_nat (length (pcl_bytes (ps @ [x]))) :: u16) = length (pcl_bytes (ps @ [x]))"
    by (simp add: unsigned_of_nat take_bit_nat_eq_self del: pcl_bytes_simps)
  moreover have "length (pcl_bytes (ps @ x # qs)) = length (pcl_bytes (ps @ [x])) + length (pcl_bytes qs)"
    by simp
  moreover have "pcl_bytes qs = [] \<longleftrightarrow> qs = []"
    by (cases qs) (simp_all add: push_sized_xid_append [of "[_]"] pcl_push_sized_xid_def pcl_push_xid_def guid_to_binary_mem)
  ultimately have "length (pcl_bytes (ps @ x # qs)) = unat (of_nat (length (pcl_bytes (ps @ [x]))) :: u16) \<longleftrightarrow> qs = []"
    by simp
  with Cons.IH [of "ps @ [x]"] Cons.prems(1,3) show ?case
    by (subst pcl_deserialize_loop.simps) (simp add: pull last next_offset del: pcl_bytes_simps(3))
qed simp

lemma deserialize_bytes:
  "pcl_ok p \<Longrightarrow> p \<noteq> [] \<Longrightarrow> length (pcl_bytes p) < 65536 \<Longrightarrow>
     pcl_deserialize (\<lambda>_. True) pcl_init (pcl_bytes p) = Some (True, p)"
  using deserialize_loop_bytes [of "[]" p] by (simp add: pcl_deserialize_def pcl_init_def)

lemma deserialize_loop_returns:
  "length pb < 65536 \<Longrightarrow> pcl_deserialize_loop mem pb offset p \<noteq> None"
proof (induction "length pb - unat offset" arbitrary: mem offset p rule: less_induct)
  case less
  show ?case
  proof (cases "pcl_pull_sized_xid pb offset")
    case None
    then show ?thesis by (subst pcl_deserialize_loop.simps) (simp del: not_None_eq)
  next
    case (Some nx)
    obtain n x where nx: "nx = (n, x)" by force
    note ok = pull_sized_xid_ok [OF Some [unfolded nx]] and len = xid_sizes(1) [of x]
    have "unat (offset + ucast n) = unat offset + unat n"
      using ok(3) less.prems by (simp add: unat_word_ariths)
    with ok len have "length pb - unat (offset + ucast n) < length pb - unat offset"
      by simp
    from less.hyps [OF this less.prems] show ?thesis
      by (subst pcl_deserialize_loop.simps) (simp add: Some nx Let_def case_prod_beta del: not_None_eq)
  qed
qed

lemma deserialize_loop_ok:
  "pcl_deserialize_loop mem pb offset p = Some y \<Longrightarrow> pcl_ok p \<longrightarrow> pcl_ok (snd y)"
proof (erule pcl_deserialize_loop.raw_induct [rotated], intro impI)
  fix loop mem pb offset p and y :: "bool \<times> pcl"
  assume IH: "\<And>mem pb offset p y. loop mem pb offset p = Some y \<Longrightarrow> pcl_ok p \<longrightarrow> pcl_ok (snd y)"
    and y: "(case pcl_pull_sized_xid pb offset of
        None \<Rightarrow> Some (False, p)
      | Some (offset1, x) \<Rightarrow>
          (let (r, ppcl') = pcl_append (mem 0) p x;
               offset' = offset + ucast offset1
           in if \<not> r then Some (False, ppcl')
              else if length pb = unat offset' then Some (True, ppcl')
              else loop (\<lambda>n. mem (Suc n)) pb offset' ppcl')) = Some y"
    and p: "pcl_ok p"
  show "pcl_ok (snd y)"
  proof (cases "pcl_pull_sized_xid pb offset")
    case None
    with y p show ?thesis by auto
  next
    case (Some nx)
    obtain n x where nx: "nx = (n, x)" by force
    note ok = append_ok [OF p pull_sized_xid_ok(1) [OF Some [unfolded nx]], of "mem 0"]
    with IH y Some nx show ?thesis
      by (auto simp: Let_def case_prod_beta split: if_splits)
  qed
qed

end
