(* ===== verification/Id_Properties.thy ===== *)
theory Id_Properties
  imports Pcl
begin

text \<open>
  The properties of \<open>LIBRARY/mapi_lib/rop_util.c\<close> and \<open>LIBRARY/mapi_lib/pcl.c\<close>: entry ids are
  a replica id and a counter, change lists are maps from replicas to their last change.
\<close>

section \<open>Identifiers\<close>

text \<open>
  C24. Every entry id is exactly its replica id and its 48-bit counter: they can be taken out
  and put together again in both directions and in both forms.
\<close>

theorem eid_parts:
  assumes "length gc = 6"
  shows "rop_util_make_eid_ex (rop_util_get_replid eid) (rop_util_get_gc_value eid) = eid \<and>
    unat (rop_util_get_gc_value eid) < 2 ^ 48 \<and>
    rop_util_get_replid (rop_util_make_eid r gc) = r \<and>
    rop_util_get_gc_array (rop_util_make_eid r gc) = gc \<and>
    rop_util_get_gc_value (rop_util_make_eid r gc) = rop_util_gc_to_value gc \<and>
    rop_util_value_to_gc (rop_util_gc_to_value gc) = gc"
  using assms make_eid_ex_parts [of eid] get_gc_value_bound [of eid]
  by (simp add: get_gc_value_array gc_to_value_to_gc)

theorem eid_parts_witness:
  "rop_util_get_replid (rop_util_make_eid 5 [0, 0, 0, 0, 1, 2]) = 5 \<and>
   rop_util_get_gc_array (rop_util_make_eid 5 [0, 0, 0, 0, 1, 2]) = [0, 0, 0, 0, 1, 2]"
  using eid_parts [of "[0, 0, 0, 0, 1, 2]" 0 5] by simp

text \<open>
  The GUIDs made from a user id and from a domain id give it back, the two kinds are never
  confused, and a GUID taken for a user's is one that was made for it.
\<close>

theorem store_guids:
  "rop_util_make_user_id (rop_util_make_user_guid n) = n \<and>
   rop_util_make_domain_id (rop_util_make_domain_guid n) = n \<and>
   rop_util_make_user_id (rop_util_make_domain_guid m) = -1 \<and>
   rop_util_make_user_guid n \<noteq> rop_util_make_domain_guid m \<and>
   (rop_util_make_user_id g = -1 \<or> g = rop_util_make_user_guid (time_low g))"
proof (intro conjI)
  show "rop_util_make_user_guid n \<noteq> rop_util_make_domain_guid m"
    by (simp add: rop_util_make_user_guid_def rop_util_make_domain_guid_def)
qed (use make_user_id_other [of g] in
      \<open>auto simp: make_user_id_guid make_domain_id_guid make_user_id_of_domain\<close>)

text \<open>
  A Unix time that has a file time in 64 bits survives the conversion and back.
\<close>

theorem nttime_read_back:
  assumes "unat t + 11644473600 < 2 ^ 64 div 10000000"
  shows "rop_util_nttime_to_unix (rop_util_unix_to_nttime t) = t"
  using assms by (rule nttime_to_unix_to_nttime)

theorem nttime_read_back_witness:
  "rop_util_nttime_to_unix (rop_util_unix_to_nttime 1700000000) = 1700000000"
  by (rule nttime_read_back) simp

section \<open>Change lists\<close>

text \<open>
  C25. Adding a change key keeps the list sorted with one key per replica, and what it does is
  the maximum of two versions: it fails only without memory for a new replica or for a key of
  another size, and then changes nothing.
\<close>

theorem pcl_append_refines:
  assumes "pcl_ok p" "xid_ok x" "pcl_append mem p x = (b, p')"
  shows "pcl_ok p' \<and>
    (b \<longleftrightarrow> (case pcl_abs p (replica x) of None \<Rightarrow> mem | Some (s, v) \<Rightarrow> s = xid_size x)) \<and>
    (if b then pcl_abs p' = (pcl_abs p)(replica x :=
       version_join (pcl_abs p (replica x)) (Some (xid_size x, pcl_convert_local_id x)))
     else p' = p)"
proof -
  have p: "pcl_sorted p" using assms(1) by (simp add: pcl_ok_def)
  show ?thesis
    using append_ok [OF assms(1,2), of mem] append_result [OF p, of mem x]
      append_abs [OF p, of mem x] append_failed [of mem p x] assms(3)
    by simp
qed

theorem pcl_append_refines_witness:
  "\<exists>p'. pcl_append True [] \<lparr>xid_size = 17, xid = \<lparr>guid = rop_util_make_user_guid 1, local_id = [9]\<rparr>\<rparr> = (True, p') \<and>
     pcl_abs p' (rop_util_make_user_guid 1) = Some (17, 9)"
proof -
  let ?x = "\<lparr>xid_size = 17, xid = \<lparr>guid = rop_util_make_user_guid 1, local_id = [9]\<rparr>\<rparr>"
  have "pcl_append True [] ?x = (True, [?x])" "pcl_ok []" "xid_ok ?x" "pcl_convert_local_id ?x = 9"
    by (simp_all add: pcl_ok_def xid_ok_def pcl_convert_local_id_def)
  from pcl_append_refines [OF this(2,3,1)] this show ?thesis by (simp add: version_join_def)
qed

text \<open>
  C26. A merge that succeeds is the join of the two lists: it includes both, and every list that
  includes both includes it.  With memory it succeeds exactly if the sizes agree.
\<close>

theorem pcl_merge_join:
  assumes "pcl_ok p" "pcl_ok q" "pcl_merge mem p q = (True, m)"
  shows "pcl_ok m \<and>
    pcl_abs m = (\<lambda>k. version_join (pcl_abs p k) (pcl_abs q k)) \<and>
    versions_le (pcl_abs p) (pcl_abs m) \<and> versions_le (pcl_abs q) (pcl_abs m) \<and>
    (\<forall>r. versions_le (pcl_abs p) (pcl_abs r) \<and> versions_le (pcl_abs q) (pcl_abs r) \<longrightarrow>
       versions_le (pcl_abs m) (pcl_abs r)) \<and>
    (fst (pcl_merge (\<lambda>_. True) p q) \<longleftrightarrow> versions_agree (pcl_abs p) (pcl_abs q))"
proof -
  have s: "pcl_sorted p" "pcl_sorted q" and q: "list_all xid_ok q"
    using assms(1,2) by (auto simp: pcl_ok_def)
  have abs: "pcl_abs m = (\<lambda>k. version_join (pcl_abs p k) (pcl_abs q k))"
    using merge_abs [OF s, of mem] assms(3) by simp
  have agree: "versions_agree (pcl_abs p) (pcl_abs q)"
    using merge_with_memory [of mem p q] assms(3) merge_result [OF s] by simp
  show ?thesis
    using merge_ok [OF assms(1) q, of mem] assms(3) merge_result [OF s] abs
      versions_le_join(1) [OF agree] versions_le_join(2) [of "pcl_abs q" "pcl_abs p"]
      versions_join_least [of "pcl_abs p" _ "pcl_abs q"]
    by auto
qed

theorem pcl_merge_join_witness:
  "\<exists>p q m. pcl_merge (\<lambda>_. True) p q = (True, m) \<and> pcl_abs p \<noteq> pcl_abs q \<and>
     versions_le (pcl_abs p) (pcl_abs m) \<and> versions_le (pcl_abs q) (pcl_abs m)"
proof -
  let ?x = "\<lambda>b. \<lparr>xid_size = 17, xid = \<lparr>guid = rop_util_make_user_guid 1, local_id = [b]\<rparr>\<rparr>"
  have x: "pcl_convert_local_id (?x b) = ucast b" for b
    by (simp add: pcl_convert_local_id_def)
  have m: "pcl_merge (\<lambda>_. True) [?x 3] [?x 9] = (True, [?x 9])"
    using x [of 3] x [of 9] by (simp add: merge_step append_found)
  have ok: "pcl_ok [?x b]" for b
    by (simp add: pcl_ok_def xid_ok_def)
  have "pcl_abs [?x 3] (rop_util_make_user_guid 1) \<noteq> pcl_abs [?x 9] (rop_util_make_user_guid 1)"
    using x [of 3] x [of 9] by simp
  then have "pcl_abs [?x 3] \<noteq> pcl_abs [?x 9]" by metis
  with pcl_merge_join [OF ok ok m] m show ?thesis by blast
qed

text \<open>
  C27. The comparison tells how the maps are ordered, and identical means equal lists.
\<close>

theorem pcl_compare_order:
  assumes "pcl_ok p" "pcl_ok q"
  shows "pcl_compare p q =
    (if p = q then PCL_IDENTICAL
     else if versions_le (pcl_abs p) (pcl_abs q) then PCL_INCLUDED
     else if versions_le (pcl_abs q) (pcl_abs p) then PCL_INCLUDE
     else PCL_CONFLICT)"
proof -
  have s: "pcl_sorted p" "pcl_sorted q"
    using assms by (auto simp: pcl_ok_def)
  have "p = q \<longleftrightarrow> versions_le (pcl_abs p) (pcl_abs q) \<and> versions_le (pcl_abs q) (pcl_abs p)"
    using pcl_abs_inject [OF assms] versions_le_antisym [of "pcl_abs p" "pcl_abs q"]
    by (auto simp: versions_le_def)
  then show ?thesis
    unfolding compare_abs [OF s]
    by (auto simp: PCL_CONFLICT_def PCL_INCLUDE_def PCL_INCLUDED_def PCL_IDENTICAL_def)
qed

theorem pcl_compare_order_witness:
  "pcl_compare [] [\<lparr>xid_size = 17, xid = \<lparr>guid = rop_util_make_user_guid 1, local_id = [3]\<rparr>\<rparr>] = PCL_INCLUDED"
  using pcl_compare_order [of "[]" "[\<lparr>xid_size = 17, xid = \<lparr>guid = rop_util_make_user_guid 1, local_id = [3]\<rparr>\<rparr>]"]
  by (simp add: pcl_ok_def xid_ok_def versions_le_def)



text \<open>
  C29. Whatever bytes arrive, fewer than 64 KiB of them, reading a change list from them ends
  and leaves a well-formed list.
\<close>

theorem pcl_deserialize_returns:
  assumes "length pb < 65536" "pcl_ok p"
  shows "\<exists>b p'. pcl_deserialize mem p pb = Some (b, p') \<and> pcl_ok p'"
proof -
  obtain y where y: "pcl_deserialize_loop mem pb 0 p = Some y"
    using deserialize_loop_returns [OF assms(1), of mem 0 p] by blast
  then have "pcl_ok (snd y)" using deserialize_loop_ok [OF y] assms(2) by blast
  with y show ?thesis by (cases y) (simp add: pcl_deserialize_def)
qed

theorem pcl_deserialize_returns_witness:
  "\<exists>b p'. pcl_deserialize (\<lambda>_. False) [] [17, 255, 255] = Some (b, p') \<and> pcl_ok p'"
  by (rule pcl_deserialize_returns) (simp_all add: pcl_ok_def)

text \<open>
  C30. The bound of the buffer leaves out the byte of the length: a key that ends exactly one
  byte behind the 32 KiB is written past the end of the buffer.
\<close>

theorem pcl_serialize_overflows:
  assumes "list_all xid_ok p" "xid_ok x" "(\<Sum>x\<leftarrow>p. unat (xid_size x) + 1) + unat (xid_size x) = 0x8000"
  shows "pcl_serialize mem1 mem2 (p @ x # q) = Inl UNDEFINED_BEHAVIOUR"
  using serialize_overflow [OF assms(1,2)] assms(3) length_pcl_bytes [OF assms(1)] by simp

theorem pcl_serialize_overflows_witness:
  "let x = \<lambda>n. \<lparr>xid_size = n, xid = \<lparr>guid = rop_util_make_user_guid 1, local_id = replicate (unat n - 16) 0\<rparr>\<rparr>
   in pcl_serialize True True (replicate 1310 (x 24) @ [x 18]) = Inl UNDEFINED_BEHAVIOUR"
  unfolding Let_def
  by (rule pcl_serialize_overflows) (simp_all add: xid_ok_def list_all_iff map_replicate_const sum_list_replicate)

end
