(* ===== verification/Idset.thy ===== *)
theory Idset
  imports Rop_Util
begin

text \<open>
  \<open>LIBRARY/mapi_lib/idset.c\<close>, the set of object identifiers: per replica a list of ranges
  of global counters.  This theory holds the data and the operations on it, the encoding
  is in \<open>Idset_Codec\<close>.

  The nodes of the \<open>repl_list\<close> are of the two types of the code; the flags \<open>b_serialize\<close> and
  \<open>repl_type\<close> say which of them the code casts to (\<open>idset_kind\<close>).  The replica mapping is
  the callback that the user of an \<open>IDSET\<close> registers, one function per direction.  The
  answers of \<open>malloc\<close> are arguments: \<open>mem1\<close> for a replica node, \<open>mem2\<close> for a range node.
\<close>

record range_node =
  low_value :: u64
  high_value :: u64

type_synonym globset = "range_node list"

datatype repl_node =
    REPLID_NODE u16 (range_list: globset)
  | REPLGUID_NODE guid (range_list: globset)

record replica_mapping =
  to_guid :: "bytes option \<Rightarrow> u16 \<Rightarrow> guid option"
  to_replid :: "bytes option \<Rightarrow> guid \<Rightarrow> u16 option"

record idset =
  pparam :: "bytes option"
  mapping :: "replica_mapping option"
  b_serialize :: bool
  repl_type :: u8
  repl_list :: "repl_node list"

definition REPL_TYPE_ID :: u8 where "REPL_TYPE_ID = 0"
definition REPL_TYPE_GUID :: u8 where "REPL_TYPE_GUID = 1"

definition idset_init :: "bool \<Rightarrow> u8 \<Rightarrow> idset" where
  "idset_init ser rt =
     \<lparr>pparam = None, mapping = None, b_serialize = ser, repl_type = rt, repl_list = []\<rparr>"

text \<open>
  The result on success is not set by the code (there is no \<open>return\<close> at the end of
  \<open>idset_register_mapping\<close>); \<open>None\<close> stands for it.
\<close>

definition idset_register_mapping ::
    "bool \<Rightarrow> idset \<Rightarrow> bytes option \<Rightarrow> replica_mapping option \<Rightarrow> bool option \<times> idset" where
  "idset_register_mapping mem pset param m =
     (if pparam pset \<noteq> None \<or> mapping pset \<noteq> None then (Some False, pset)
      else case param of
          None \<Rightarrow> (None, pset \<lparr>pparam := None, mapping := m\<rparr>)
        | Some pb \<Rightarrow>
            if length pb = 0 then (None, pset \<lparr>pparam := None, mapping := m\<rparr>)
            else if \<not> mem then (Some False, pset)
            else (None, pset \<lparr>pparam := Some pb, mapping := m\<rparr>))"

definition idset_clear :: "idset \<Rightarrow> idset" where
  "idset_clear pset = pset \<lparr>repl_list := []\<rparr>"

definition idset_check_empty :: "idset \<Rightarrow> bool" where
  "idset_check_empty pset \<longleftrightarrow> length (repl_list pset) = 0"

fun has_replid :: "u16 \<Rightarrow> repl_node \<Rightarrow> bool" where
  "has_replid r (REPLID_NODE k g) \<longleftrightarrow> r = k"
| "has_replid r (REPLGUID_NODE k g) \<longleftrightarrow> False"

fun set_range_list :: "globset \<Rightarrow> repl_node \<Rightarrow> repl_node" where
  "set_range_list g (REPLID_NODE k h) = REPLID_NODE k g"
| "set_range_list g (REPLGUID_NODE k h) = REPLGUID_NODE k g"

text \<open>
  The search for the node of a replica, with a new node at the tail where there is none,
  and the rest of the function on the range list of the node.
\<close>

fun on_replid ::
    "bool \<Rightarrow> u16 \<Rightarrow> (globset \<Rightarrow> bool \<times> globset) \<Rightarrow> repl_node list \<Rightarrow> bool \<times> repl_node list" where
  "on_replid mem1 r f [] =
     (if mem1 then let (b, g) = f [] in (b, [REPLID_NODE r g]) else (False, []))"
| "on_replid mem1 r f (node # nodes) =
     (if has_replid r node then
        let (b, g) = f (range_list node) in (b, set_range_list g node # nodes)
      else let (b, nodes') = on_replid mem1 r f nodes in (b, node # nodes'))"

subsection \<open>Adding one value\<close>

text \<open>The loop over the range nodes; \<open>bef\<close> are the nodes before the current one, the last first.\<close>

fun append_value :: "bool \<Rightarrow> range_node list \<Rightarrow> range_node list \<Rightarrow> u64 \<Rightarrow> bool \<times> globset" where
  "append_value mem2 bef [] v =
     (if mem2 then (True, rev bef @ [\<lparr>low_value = v, high_value = v\<rparr>]) else (False, rev bef))"
| "append_value mem2 bef (n # rs) v =
     (if v \<ge> low_value n \<and> v \<le> high_value n then (True, rev bef @ n # rs)
      else if v = low_value n - 1 then
        (let n' = n \<lparr>low_value := v\<rparr> in
         case bef of
           [] \<Rightarrow> (True, n' # rs)
         | p # bef' \<Rightarrow>
             if high_value p \<ge> low_value n' then
               (True, rev bef' @ n' \<lparr>low_value := low_value p\<rparr> # rs)
             else (True, rev bef @ n' # rs))
      else if v = high_value n + 1 then
        (let n' = n \<lparr>high_value := v\<rparr> in
         case rs of
           [] \<Rightarrow> (True, rev bef @ [n'])
         | q # rs' \<Rightarrow>
             if low_value q \<le> high_value n' then
               (True, rev bef @ n' \<lparr>high_value := high_value q\<rparr> # rs')
             else (True, rev bef @ n' # rs))
      else if low_value n > v then
        if mem2 then (True, rev bef @ \<lparr>low_value = v, high_value = v\<rparr> # n # rs)
        else (False, rev bef @ n # rs)
      else append_value mem2 (n # bef) rs v)"

definition idset_append_internal :: "bool \<Rightarrow> bool \<Rightarrow> idset \<Rightarrow> u16 \<Rightarrow> u64 \<Rightarrow> bool \<times> idset" where
  "idset_append_internal mem1 mem2 pset replid v =
     (if \<not> b_serialize pset then (False, pset)
      else let (b, l) = on_replid mem1 replid (\<lambda>g. append_value mem2 [] g v) (repl_list pset)
        in (b, pset \<lparr>repl_list := l\<rparr>))"

definition idset_append :: "bool \<Rightarrow> bool \<Rightarrow> idset \<Rightarrow> u64 \<Rightarrow> bool \<times> idset" where
  "idset_append mem1 mem2 pset eid =
     idset_append_internal mem1 mem2 pset (rop_util_get_replid eid) (rop_util_get_gc_value eid)"

subsection \<open>Adding a range\<close>

text \<open>
  The loop once \<open>prange_node1\<close> is set (it is \<open>t\<close>): the node after a removed one is
  stepped over.
\<close>

fun extend_range :: "u64 \<Rightarrow> range_node \<Rightarrow> range_node list \<Rightarrow> range_node list \<Rightarrow> globset" where
  "extend_range hi t mid [] = t # rev mid"
| "extend_range hi t mid (n # rs) =
     (if hi = low_value n then t \<lparr>high_value := high_value n\<rparr> # rev mid @ rs
      else if hi < low_value n then t # rev mid @ n # rs
      else case rs of
          [] \<Rightarrow> t # rev mid
        | m # rs' \<Rightarrow> extend_range hi t (m # mid) rs')"

fun append_range :: "bool \<Rightarrow> u64 \<Rightarrow> u64 \<Rightarrow> range_node list \<Rightarrow> bool \<times> globset" where
  "append_range mem2 lo hi [] =
     (if mem2 then (True, [\<lparr>low_value = lo, high_value = hi\<rparr>]) else (False, []))"
| "append_range mem2 lo hi (n # rs) =
     (if lo = high_value n then (True, extend_range hi (n \<lparr>high_value := hi\<rparr>) [] rs)
      else if lo > high_value n \<and> (rs = [] \<or> hi \<le> low_value (hd rs)) then
        if mem2 then (True, n # extend_range hi \<lparr>low_value = lo, high_value = hi\<rparr> [] rs)
        else (False, n # rs)
      else let (b, rs') = append_range mem2 lo hi rs in (b, n # rs'))"

definition idset_append_range :: "bool \<Rightarrow> bool \<Rightarrow> idset \<Rightarrow> u16 \<Rightarrow> u64 \<Rightarrow> u64 \<Rightarrow> bool \<times> idset" where
  "idset_append_range mem1 mem2 pset replid lo hi =
     (if \<not> b_serialize pset then (False, pset)
      else if lo > hi then (False, pset)
      else let (b, l) = on_replid mem1 replid (append_range mem2 lo hi) (repl_list pset)
        in (b, pset \<lparr>repl_list := l\<rparr>))"

subsection \<open>The first values of a replica\<close>

text \<open>\<open>prange_node\<close> is the last node of the list, once there is one.\<close>

fun batch_ranges :: "(nat \<Rightarrow> bool) \<Rightarrow> globset \<Rightarrow> u64 list \<Rightarrow> bool \<times> globset" where
  "batch_ranges mem g [] = (True, g)"
| "batch_ranges mem g (v # vs) =
     (if g \<noteq> [] \<and> high_value (last g) + 1 = v then
        batch_ranges mem (butlast g @ [(last g) \<lparr>high_value := v\<rparr>]) vs
      else if mem 0 then
        batch_ranges (\<lambda>k. mem (Suc k)) (g @ [\<lparr>low_value = v, high_value = v\<rparr>]) vs
      else (False, g))"

text \<open>The difference of two 64-bit values is returned as an \<open>int\<close>.\<close>

definition idset_qsort_cmp :: "u64 \<Rightarrow> u64 \<Rightarrow> int" where
  "idset_qsort_cmp v1 v2 = sint (ucast (v1 - v2) :: u32)"

text \<open>\<open>qsort\<close> is the function of the C library.\<close>

definition idset_batch_append ::
    "((u64 \<Rightarrow> u64 \<Rightarrow> int) \<Rightarrow> u64 list \<Rightarrow> u64 list) \<Rightarrow> bool \<Rightarrow> (nat \<Rightarrow> bool) \<Rightarrow> idset \<Rightarrow>
       u16 \<Rightarrow> u64 list \<Rightarrow> bool \<times> idset" where
  "idset_batch_append qsort mem1 mem pset replid pvalues =
     (if \<not> b_serialize pset then (False, pset)
      else if length pvalues = 0 then (False, pset)
      else let values = qsort idset_qsort_cmp pvalues in
        if list_ex (has_replid replid) (repl_list pset) then (False, pset)
        else if \<not> mem1 then (False, pset)
        else let (b, g) = batch_ranges mem [] values
          in (b, pset \<lparr>repl_list := repl_list pset @ [REPLID_NODE replid g]\<rparr>))"

subsection \<open>Removing a value\<close>

fun remove_value :: "bool \<Rightarrow> u64 \<Rightarrow> range_node list \<Rightarrow> globset" where
  "remove_value mem2 v [] = []"
| "remove_value mem2 v (n # rs) =
     (if v = low_value n \<and> v = high_value n then rs
      else if v = low_value n then n \<lparr>low_value := low_value n + 1\<rparr> # rs
      else if v = high_value n then n \<lparr>high_value := high_value n - 1\<rparr> # rs
      else if v > low_value n \<and> v < high_value n then
        if mem2 then
          n \<lparr>low_value := v + 1\<rparr> # \<lparr>low_value = low_value n, high_value = v - 1\<rparr> # rs
        else n # rs
      else n # remove_value mem2 v rs)"

fun on_found :: "u16 \<Rightarrow> (globset \<Rightarrow> globset) \<Rightarrow> repl_node list \<Rightarrow> repl_node list" where
  "on_found r f [] = []"
| "on_found r f (node # nodes) =
     (if has_replid r node then set_range_list (f (range_list node)) node # nodes
      else node # on_found r f nodes)"

definition idset_remove :: "bool \<Rightarrow> idset \<Rightarrow> u64 \<Rightarrow> idset" where
  "idset_remove mem2 pset eid =
     (if \<not> b_serialize pset then pset
      else pset \<lparr>repl_list := on_found (rop_util_get_replid eid)
                   (remove_value mem2 (rop_util_get_gc_value eid)) (repl_list pset)\<rparr>)"

subsection \<open>Putting two sets together\<close>

text \<open>\<open>mem k\<close> holds the answers to the allocations of the \<open>k\<close>-th call.\<close>

fun concat_ranges ::
    "(nat \<Rightarrow> bool \<times> bool) \<Rightarrow> idset \<Rightarrow> u16 \<Rightarrow> range_node list \<Rightarrow> bool \<times> idset" where
  "concat_ranges mem dst r [] = (True, dst)"
| "concat_ranges mem dst r (n # rs) =
     (let (b, dst') =
        (if high_value n = low_value n
         then idset_append_internal (fst (mem 0)) (snd (mem 0)) dst r (low_value n)
         else idset_append_range (fst (mem 0)) (snd (mem 0)) dst r (low_value n) (high_value n))
      in if b then concat_ranges (\<lambda>k. mem (Suc k)) dst' r rs else (False, dst'))"

fun concat_nodes ::
    "(nat \<Rightarrow> bool \<times> bool) \<Rightarrow> idset \<Rightarrow> repl_node list \<Rightarrow> bool \<times> idset" where
  "concat_nodes mem dst [] = (True, dst)"
| "concat_nodes mem dst (REPLID_NODE r g # nodes) =
     (let (b, dst') = concat_ranges mem dst r g
      in if b then concat_nodes (\<lambda>k. mem (k + length g)) dst' nodes else (False, dst'))"
| "concat_nodes mem dst (REPLGUID_NODE r g # nodes) = concat_nodes mem dst nodes"

definition idset_concatenate :: "(nat \<Rightarrow> bool \<times> bool) \<Rightarrow> idset \<Rightarrow> idset \<Rightarrow> bool \<times> idset" where
  "idset_concatenate mem dst src =
     (if \<not> b_serialize dst \<or> \<not> b_serialize src then (False, dst)
      else concat_nodes mem dst (repl_list src))"

subsection \<open>Reading a set\<close>

definition in_range :: "u64 \<Rightarrow> range_node \<Rightarrow> bool" where
  "in_range v n \<longleftrightarrow> v \<ge> low_value n \<and> v \<le> high_value n"

definition idset_hint :: "idset \<Rightarrow> u64 \<Rightarrow> bool" where
  "idset_hint pset eid =
     (if \<not> b_serialize pset \<and> repl_type pset = REPL_TYPE_GUID then False
      else case find (has_replid (rop_util_get_replid eid)) (repl_list pset) of
          None \<Rightarrow> False
        | Some node \<Rightarrow> list_ex (in_range (rop_util_get_gc_value eid)) (range_list node))"

text \<open>
  The range list of a replica in a set of either kind: \<open>None\<close> where the function returns
  \<open>FALSE\<close>, \<open>Some None\<close> where no node belongs to the replica.
\<close>

fun find_replguid ::
    "(guid \<Rightarrow> u16 option) \<Rightarrow> u16 \<Rightarrow> repl_node list \<Rightarrow> globset option option" where
  "find_replguid m r [] = Some None"
| "find_replguid m r (REPLGUID_NODE k g # nodes) =
     (case m k of
        None \<Rightarrow> None
      | Some tmp_replid \<Rightarrow> if tmp_replid = r then Some (Some g) else find_replguid m r nodes)"
| "find_replguid m r (REPLID_NODE k g # nodes) = find_replguid m r nodes"

definition repl_ranges :: "idset \<Rightarrow> u16 \<Rightarrow> globset option option" where
  "repl_ranges pset r =
     (if \<not> b_serialize pset \<and> repl_type pset = REPL_TYPE_GUID then
        case mapping pset of
          None \<Rightarrow> None
        | Some m \<Rightarrow> find_replguid (to_replid m (pparam pset)) r (repl_list pset)
      else Some (map_option range_list (find (has_replid r) (repl_list pset))))"

definition idset_get_repl_first_max :: "idset \<Rightarrow> u16 \<Rightarrow> u64 option" where
  "idset_get_repl_first_max pset r =
     (case repl_ranges pset r of
        None \<Rightarrow> None
      | Some None \<Rightarrow> Some (rop_util_make_eid_ex r 0)
      | Some (Some []) \<Rightarrow> Some (rop_util_make_eid_ex r 0)
      | Some (Some (n # rs)) \<Rightarrow> Some (rop_util_make_eid_ex r (high_value n)))"

text \<open>
  The calls of the callback, in order.  The loop over a range that ends at the largest
  64-bit value does not end (\<open>NOT_RETURNING\<close>).
\<close>

definition range_eids :: "u16 \<Rightarrow> range_node \<Rightarrow> u64 list" where
  "range_eids r n =
     map (\<lambda>k. rop_util_make_eid_ex r (of_nat k)) [unat (low_value n)..<Suc (unat (high_value n))]"

definition idset_enum_repl :: "idset \<Rightarrow> u16 \<Rightarrow> ext_err + u64 list option" where
  "idset_enum_repl pset r =
     (case repl_ranges pset r of
        None \<Rightarrow> Inr None
      | Some None \<Rightarrow> Inr (Some [])
      | Some (Some g) \<Rightarrow>
          if list_ex (\<lambda>n. high_value n = -1) g then Inl NOT_RETURNING
          else Inr (Some (concat (map (range_eids r) g))))"

fun replids_of :: "(guid \<Rightarrow> u16 option) \<Rightarrow> repl_node list \<Rightarrow> bool \<times> u16 list" where
  "replids_of m [] = (True, [])"
| "replids_of m (REPLID_NODE r g # nodes) = (let (b, rs) = replids_of m nodes in (b, r # rs))"
| "replids_of m (REPLGUID_NODE k g # nodes) =
     (case m k of
        None \<Rightarrow> (False, [])
      | Some r \<Rightarrow> let (b, rs) = replids_of m nodes in (b, r # rs))"

definition idset_enum_replist :: "idset \<Rightarrow> bool \<times> u16 list" where
  "idset_enum_replist pset =
     (if \<not> b_serialize pset \<and> repl_type pset = REPL_TYPE_GUID then
        case mapping pset of
          None \<Rightarrow> (False, [])
        | Some m \<Rightarrow> replids_of (to_replid m (pparam pset)) (repl_list pset)
      else replids_of (\<lambda>_. None) (repl_list pset))"

end
