(* ===== verification/Idset_Codec.thy ===== *)
theory Idset_Codec
  imports Idset
begin

text \<open>
  The encoding of \<open>LIBRARY/mapi_lib/idset.c\<close>: range lists as commands for a stack of common
  bytes, and whole sets as replica ids or GUIDs with their range lists.

  The writer appends to a growing \<open>BINARY\<close>; \<open>None\<close> as an error is the return value \<open>FALSE\<close>.
  The reader takes its bytes as a list and ends in \<open>FAULT\<close> where the code reads outside of them
  or writes outside of its six bytes (\<open>common_bytes\<close>).  The answers of \<open>malloc\<close> and \<open>realloc\<close>
  are consumed in the order of the calls.  Offsets and lengths are those of a binary below
  4 GiB, where the \<open>uint32_t\<close> of the code do not wrap.
\<close>

subsection \<open>Writing\<close>

record bin_writer =
  bin :: bytes
  heap :: "nat \<Rightarrow> bool"

type_synonym idset_writer = "bin_writer \<Rightarrow> (ext_err option + unit) \<times> bin_writer"

definition idset_write_to_binary :: "bytes \<Rightarrow> idset_writer" where
  "idset_write_to_binary pb s =
     (let cb = length (bin s); alloc_len = (cb div 4096 + 1) * 4096 in
      if cb + length pb \<ge> alloc_len then
        if heap s 0 then (Inr (), s \<lparr>bin := bin s @ pb, heap := \<lambda>k. heap s (Suc k)\<rparr>)
        else (Inl None, s \<lparr>heap := \<lambda>k. heap s (Suc k)\<rparr>)
      else (Inr (), s \<lparr>bin := bin s @ pb\<rparr>))"

definition idset_encoding_push_command :: "nat \<Rightarrow> bytes \<Rightarrow> idset_writer" where
  "idset_encoding_push_command len common_bytes =
     (if len > 6 then fail None
      else seq (idset_write_to_binary [of_nat len])
             (idset_write_to_binary (take len common_bytes)))"

definition idset_encoding_pop_command :: idset_writer where
  "idset_encoding_pop_command = idset_write_to_binary [0x50]"

definition idset_encode_bitmask_command :: "u8 \<Rightarrow> u8 \<Rightarrow> idset_writer" where
  "idset_encode_bitmask_command start_value bitmask =
     seq (idset_write_to_binary [0x42])
       (seq (idset_write_to_binary [start_value]) (idset_write_to_binary [bitmask]))"

definition idset_encode_range_command :: "nat \<Rightarrow> bytes \<Rightarrow> bytes \<Rightarrow> idset_writer" where
  "idset_encode_range_command len low_bytes high_bytes =
     (if len > 6 \<or> len = 0 then fail None
      else seq (idset_write_to_binary [0x52])
             (seq (idset_write_to_binary (take len low_bytes))
                (idset_write_to_binary (take len high_bytes))))"

definition idset_encode_end_command :: idset_writer where
  "idset_encode_end_command = idset_write_to_binary [0]"

text \<open>The length of the common prefix: \<open>for (...) if (a[i] != b[i]) break;\<close>\<close>

fun common_length :: "bytes \<Rightarrow> bytes \<Rightarrow> nat" where
  "common_length (a # as) (b # bs) = (if a \<noteq> b then 0 else Suc (common_length as bs))"
| "common_length _ _ = 0"

text \<open>The body of the loop over the ranges, below \<open>stack_length\<close> common bytes.\<close>

definition encode_range_node :: "nat \<Rightarrow> range_node \<Rightarrow> idset_writer" where
  "encode_range_node stack_length n =
     (let common_bytes = rop_util_value_to_gc (low_value n) in
      if high_value n = low_value n then
        idset_encoding_push_command (6 - stack_length) (drop stack_length common_bytes)
      else
        let common_bytes1 = rop_util_value_to_gc (high_value n);
            i = stack_length + common_length (drop stack_length common_bytes) (drop stack_length common_bytes1)
        in seq (if stack_length \<noteq> i
                then idset_encoding_push_command (i - stack_length) (drop stack_length common_bytes)
                else ret ())
             (seq (idset_encode_range_command (6 - i) (drop i common_bytes) (drop i common_bytes1))
                (if stack_length \<noteq> i then idset_encoding_pop_command else ret ())))"

definition idset_encoding_globset :: "globset \<Rightarrow> idset_writer" where
  "idset_encoding_globset g =
     (case g of
        [] \<Rightarrow> fail (Some UNDEFINED_BEHAVIOUR)
      | [n] \<Rightarrow>
          seq (if high_value n = low_value n
               then idset_encoding_push_command 6 (rop_util_value_to_gc (low_value n))
               else idset_encode_range_command 6 (rop_util_value_to_gc (low_value n))
                      (rop_util_value_to_gc (high_value n)))
            idset_encode_end_command
      | _ \<Rightarrow>
          (let common_bytes = rop_util_value_to_gc (low_value (hd g));
               stack_length = common_length common_bytes (rop_util_value_to_gc (high_value (last g)))
           in seq (if stack_length \<noteq> 0
                   then idset_encoding_push_command stack_length common_bytes else ret ())
                (seq (for_each (encode_range_node stack_length) g)
                   (seq (if stack_length \<noteq> 0 then idset_encoding_pop_command else ret ())
                      idset_encode_end_command))))"

definition idset_write_uint16 :: "u16 \<Rightarrow> idset_writer" where
  "idset_write_uint16 v = idset_write_to_binary (SSVAL v)"

definition idset_write_uint32 :: "u32 \<Rightarrow> idset_writer" where
  "idset_write_uint32 v = idset_write_to_binary (SIVAL v)"

definition idset_write_guid :: "guid \<Rightarrow> idset_writer" where
  "idset_write_guid g =
     seq (idset_write_uint32 (time_low g))
       (seq (idset_write_uint16 (time_mid g))
          (seq (idset_write_uint16 (time_hi_and_version g))
             (seq (idset_write_to_binary (guid_clock_seq g)) (idset_write_to_binary (guid_node g)))))"

fun serialize_replid_node :: "repl_node \<Rightarrow> idset_writer" where
  "serialize_replid_node (REPLID_NODE r g) =
     (if length g = 0 then ret () else seq (idset_write_uint16 r) (idset_encoding_globset g))"
| "serialize_replid_node (REPLGUID_NODE k g) = fail (Some UNDEFINED_BEHAVIOUR)"

fun serialize_replguid_node :: "(u16 \<Rightarrow> guid option) \<Rightarrow> repl_node \<Rightarrow> idset_writer" where
  "serialize_replguid_node m (REPLID_NODE r g) =
     (if length g = 0 then ret ()
      else case m r of
          None \<Rightarrow> fail None
        | Some k \<Rightarrow> seq (idset_write_guid k) (idset_encoding_globset g))"
| "serialize_replguid_node m (REPLGUID_NODE k g) = fail (Some UNDEFINED_BEHAVIOUR)"

text \<open>
  \<open>idset_init_binary\<close> allocates twice.  The result is \<open>Inr None\<close> for \<open>NULL\<close>.
\<close>

definition idset_init_binary :: "(nat \<Rightarrow> bool) \<Rightarrow> bin_writer option" where
  "idset_init_binary mem =
     (if mem 0 \<and> mem 1 then Some \<lparr>bin = [], heap = (\<lambda>k. mem (k + 2))\<rparr> else None)"

definition run_writer :: "(nat \<Rightarrow> bool) \<Rightarrow> idset_writer \<Rightarrow> ext_err + bytes option" where
  "run_writer mem w =
     (case idset_init_binary mem of
        None \<Rightarrow> Inr None
      | Some s \<Rightarrow>
          (case w s of
             (Inl None, s') \<Rightarrow> Inr None
           | (Inl (Some e), s') \<Rightarrow> Inl e
           | (Inr _, s') \<Rightarrow> Inr (Some (bin s'))))"

definition idset_serialize_replid :: "(nat \<Rightarrow> bool) \<Rightarrow> idset \<Rightarrow> ext_err + bytes option" where
  "idset_serialize_replid mem pset =
     (if \<not> b_serialize pset then Inr None
      else run_writer mem (for_each serialize_replid_node (repl_list pset)))"

definition idset_serialize_replguid :: "(nat \<Rightarrow> bool) \<Rightarrow> idset \<Rightarrow> ext_err + bytes option" where
  "idset_serialize_replguid mem pset =
     (if \<not> b_serialize pset then Inr None
      else case mapping pset of
          None \<Rightarrow> Inr None
        | Some m \<Rightarrow>
            run_writer mem (for_each (serialize_replguid_node (to_guid m (pparam pset))) (repl_list pset)))"

definition idset_serialize :: "(nat \<Rightarrow> bool) \<Rightarrow> idset \<Rightarrow> ext_err + bytes option" where
  "idset_serialize mem pset =
     (if repl_type pset = REPL_TYPE_ID then idset_serialize_replid mem pset
      else idset_serialize_replguid mem pset)"

subsection \<open>Reading a range list\<close>

record globset_reader =
  offset :: nat
  stack :: "bytes list"
  ranges :: globset
  mallocs :: "nat \<Rightarrow> bool"

text \<open>How the loop is left: by a \<open>return\<close>, or by an access outside of an object.\<close>

datatype decode_exit = RETURN nat | FAULT ext_err

type_synonym 'a decoder = "globset_reader \<Rightarrow> (decode_exit + 'a) \<times> globset_reader"

definition malloc :: "bool decoder" where
  "malloc s = (Inr (mallocs s 0), s \<lparr>mallocs := \<lambda>k. mallocs s (Suc k)\<rparr>)"

definition take_bytes :: "bytes \<Rightarrow> nat \<Rightarrow> bytes decoder" where
  "take_bytes pb n s =
     (if offset s + n \<le> length pb
      then (Inr (take n (drop (offset s) pb)), s \<lparr>offset := offset s + n\<rparr>)
      else (Inl (FAULT UNDEFINED_BEHAVIOUR), s))"

definition idset_statck_push :: "bytes \<Rightarrow> unit decoder" where
  "idset_statck_push bs =
     bnd malloc (\<lambda>b. if \<not> b then ret ()
       else bnd malloc (\<lambda>b1. if \<not> b1 then ret () else modify (\<lambda>s. s \<lparr>stack := stack s @ [bs]\<rparr>)))"

definition idset_statck_pop :: "unit decoder" where
  "idset_statck_pop = modify (\<lambda>s. s \<lparr>stack := butlast (stack s)\<rparr>)"

text \<open>The copies into \<open>common_bytes[6]\<close> are not bounded by the code.\<close>

definition idset_statck_get_common_bytes :: "bytes decoder" where
  "idset_statck_get_common_bytes =
     bnd (gets (\<lambda>s. concat (stack s))) (\<lambda>bs.
       if length bs > 6 then fail (FAULT UNDEFINED_BEHAVIOUR) else ret bs)"

definition add_range :: "range_node \<Rightarrow> unit decoder" where
  "add_range n = modify (\<lambda>s. s \<lparr>ranges := ranges s @ [n]\<rparr>)"

definition decode_push :: "bytes \<Rightarrow> nat \<Rightarrow> unit decoder" where
  "decode_push pb command =
     bnd (take_bytes pb command) (\<lambda>bs.
     seq (idset_statck_push bs)
       (bnd idset_statck_get_common_bytes (\<lambda>common_bytes.
          if length common_bytes = 6 then
            bnd malloc (\<lambda>b.
              if \<not> b then fail (RETURN 0)
              else let v = rop_util_gc_to_value common_bytes
                in seq (add_range \<lparr>low_value = v, high_value = v\<rparr>) idset_statck_pop)
          else if length common_bytes > 6 then fail (RETURN 0)
          else ret ())))"

text \<open>\<open>for (i = 0; i < 8; i++)\<close>; the last argument is \<open>prange_node\<close>.\<close>

fun decode_bits :: "u64 \<Rightarrow> u8 \<Rightarrow> nat list \<Rightarrow> range_node option \<Rightarrow> unit decoder" where
  "decode_bits low bitmask [] prange =
     (case prange of None \<Rightarrow> ret () | Some n \<Rightarrow> add_range n)"
| "decode_bits low bitmask (i # is) prange =
     (if bit bitmask i then
        case prange of
          None \<Rightarrow> bnd malloc (\<lambda>b.
            if \<not> b then fail (RETURN 0)
            else let v = low + of_nat i + 1
              in decode_bits low bitmask is (Some \<lparr>low_value = v, high_value = v\<rparr>))
        | Some n \<Rightarrow> decode_bits low bitmask is (Some (n \<lparr>high_value := high_value n + 1\<rparr>))
      else
        case prange of
          None \<Rightarrow> decode_bits low bitmask is None
        | Some n \<Rightarrow> seq (add_range n) (decode_bits low bitmask is None))"

definition decode_bitmask :: "bytes \<Rightarrow> unit decoder" where
  "decode_bitmask pb =
     bnd (take_bytes pb 1) (\<lambda>start_value.
     bnd (take_bytes pb 1) (\<lambda>bitmask.
     bnd idset_statck_get_common_bytes (\<lambda>common_bytes.
       if length common_bytes \<noteq> 5 then fail (RETURN 0)
       else bnd malloc (\<lambda>b.
         if \<not> b then fail (RETURN 0)
         else let low = rop_util_gc_to_value (common_bytes @ start_value)
           in decode_bits low (bitmask ! 0) [0..<8] (Some \<lparr>low_value = low, high_value = low\<rparr>)))))"

definition decode_range :: "bytes \<Rightarrow> unit decoder" where
  "decode_range pb =
     bnd malloc (\<lambda>b.
       if \<not> b then fail (RETURN 0)
       else bnd idset_statck_get_common_bytes (\<lambda>common_bytes.
         if length common_bytes > 5 then fail (RETURN 0)
         else bnd (take_bytes pb (6 - length common_bytes)) (\<lambda>low.
           bnd (take_bytes pb (6 - length common_bytes)) (\<lambda>high.
             add_range \<lparr>low_value = rop_util_gc_to_value (common_bytes @ low),
                        high_value = rop_util_gc_to_value (common_bytes @ high)\<rparr>))))"

definition decode_command :: "bytes \<Rightarrow> unit decoder" where
  "decode_command pb =
     bnd (take_bytes pb 1) (\<lambda>c. let command = c ! 0 in
       if command = 0 then bnd (gets offset) (\<lambda>n. fail (RETURN n))
       else if command \<le> 6 then decode_push pb (unat command)
       else if command = 0x42 then decode_bitmask pb
       else if command = 0x50 then idset_statck_pop
       else if command = 0x52 then decode_range pb
       else ret ())"

text \<open>Every command moves the offset on, so the loop ends.\<close>

lemmas decoder_defs = bnd_def ret_def fail_def gets_def modify_def seq_def malloc_def take_bytes_def
  add_range_def idset_statck_get_common_bytes_def idset_statck_pop_def idset_statck_push_def

definition forward :: "'a decoder \<Rightarrow> bool" where
  "forward m \<longleftrightarrow> (\<forall>s x s'. m s = (x, s') \<longrightarrow> offset s \<le> offset s')"

lemma forward_simps [simp]:
  "forward (ret x)" "forward (fail e)" "forward (gets h)" "forward malloc" "forward (take_bytes pb n)"
  "forward (add_range r)" "forward (modify (\<lambda>s. s\<lparr>stack := f s\<rparr>))"
  by (auto simp: forward_def decoder_defs split: if_splits)

lemma forward_bnd: "forward m \<Longrightarrow> (\<And>x. forward (k x)) \<Longrightarrow> forward (bnd m k)"
  unfolding forward_def bnd_def by (fastforce split: prod.splits sum.splits dest: le_trans)

lemma forward_seq: "forward m \<Longrightarrow> forward k \<Longrightarrow> forward (seq m k)"
  by (simp add: seq_def forward_bnd)

lemma forward_if: "(c \<Longrightarrow> forward m) \<Longrightarrow> (\<not> c \<Longrightarrow> forward k) \<Longrightarrow> forward (if c then m else k)"
  by simp

lemmas forward_rules = forward_bnd forward_seq forward_if

lemma forward_bits: "forward (decode_bits low bitmask is prange)"
  by (induction low bitmask "is" prange rule: decode_bits.induct)
    (auto simp: Let_def intro!: forward_rules split: option.splits)

lemma forward_parts:
  "forward (decode_push pb n)" "forward (decode_bitmask pb)" "forward (decode_range pb)"
  "forward idset_statck_pop"
  by (auto simp: decode_push_def decode_bitmask_def decode_range_def Let_def idset_statck_push_def
      idset_statck_pop_def idset_statck_get_common_bytes_def forward_bits intro!: forward_rules)

lemma decode_command_forward:
  assumes "decode_command pb s = (Inr x, s')"
  shows "offset s < offset s'"
proof -
  let ?rest = "\<lambda>c :: bytes. let command = c ! 0 in
       if command = 0 then bnd (gets offset) (\<lambda>n. fail (RETURN n))
       else if command \<le> 6 then decode_push pb (unat command)
       else if command = 0x42 then decode_bitmask pb
       else if command = 0x50 then idset_statck_pop
       else if command = 0x52 then decode_range pb
       else ret ()"
  have "forward (?rest c)" for c
    by (auto simp: Let_def forward_parts intro!: forward_rules)
  moreover obtain c t where "take_bytes pb 1 s = (Inr c, t)" "?rest c t = (Inr x, s')"
    using assms unfolding decode_command_def bnd_Inr_iff by blast
  ultimately have "offset t \<le> offset s'" "offset t = offset s + 1"
    unfolding forward_def take_bytes_def by (metis, auto split: if_splits)
  then show "offset s < offset s'" by simp
qed

function decode_loop :: "bytes \<Rightarrow> globset_reader \<Rightarrow> decode_exit \<times> globset_reader" where
  "decode_loop pb s =
     (if offset s < length pb then
        case decode_command pb s of
          (Inl e, s') \<Rightarrow> (e, s')
        | (Inr _, s') \<Rightarrow> decode_loop pb s'
      else (RETURN 0, s))"
  by pat_completeness auto
termination
  by (relation "measure (\<lambda>(pb, s). length pb - offset s)")
    (auto dest!: sym [of _ "decode_command _ _"] decode_command_forward split: if_splits)

declare decode_loop.simps [simp del]

text \<open>The result is the number of bytes read, 0 for an error, and the ranges.\<close>

definition idset_decoding_globset ::
    "(nat \<Rightarrow> bool) \<Rightarrow> bytes \<Rightarrow> (ext_err + nat) \<times> globset \<times> (nat \<Rightarrow> bool)" where
  "idset_decoding_globset mem pb =
     (case decode_loop pb \<lparr>offset = 0, stack = [], ranges = [], mallocs = mem\<rparr> of
        (RETURN n, s) \<Rightarrow> (Inr n, ranges s, mallocs s)
      | (FAULT e, s) \<Rightarrow> (Inl e, ranges s, mallocs s))"

subsection \<open>Reading a set\<close>

definition idset_read_guid :: "bytes \<Rightarrow> nat \<Rightarrow> guid" where
  "idset_read_guid pb off =
     make_guid (IVAL pb off) (ucast (SVAL pb (off + 4))) (ucast (SVAL pb (off + 6)))
       (take 2 (drop (off + 8) pb)) (take 6 (drop (off + 10) pb))"

text \<open>
  One turn of the loop of \<open>idset_deserialize\<close> on the rest of the binary: the new node and
  the bytes that are left, where the loop goes on.
\<close>

definition deserialize_node ::
    "(nat \<Rightarrow> bool) \<Rightarrow> u8 \<Rightarrow> bytes \<Rightarrow>
       ext_err + (bool \<times> repl_node option \<times> bytes \<times> (nat \<Rightarrow> bool))" where
  "deserialize_node mem rt pb =
     (if \<not> mem 0 then Inr (False, None, pb, mem)
      else let n = (if rt = REPL_TYPE_ID then 2 else 16) in
        if length pb < n then Inl UNDEFINED_BEHAVIOUR
        else if n \<ge> length pb then Inr (False, None, pb, mem)
        else case idset_decoding_globset (\<lambda>k. mem (Suc k)) (drop n pb) of
            (Inl e, g, mem') \<Rightarrow> Inl e
          | (Inr len, g, mem') \<Rightarrow>
              Inr (len \<noteq> 0,
                   Some (if rt = REPL_TYPE_ID then REPLID_NODE (ucast (SVAL pb 0)) g
                         else REPLGUID_NODE (idset_read_guid pb 0) g),
                   drop (n + len) pb, mem'))"

lemma deserialize_node_shorter:
  "deserialize_node mem rt pb = Inr (b, node, pb', mem') \<Longrightarrow> b \<Longrightarrow> length pb' < length pb"
  by (auto simp: deserialize_node_def Let_def split: if_splits prod.splits sum.splits)

function deserialize_loop ::
    "(nat \<Rightarrow> bool) \<Rightarrow> u8 \<Rightarrow> bytes \<Rightarrow> ext_err + (bool \<times> repl_node list)" where
  "deserialize_loop mem rt pb =
     (if pb = [] then Inr (True, [])
      else case deserialize_node mem rt pb of
          Inl e \<Rightarrow> Inl e
        | Inr (b, node, pb', mem') \<Rightarrow>
            let nodes = (case node of None \<Rightarrow> [] | Some n \<Rightarrow> [n]) in
            if b then case deserialize_loop mem' rt pb' of
                Inl e \<Rightarrow> Inl e
              | Inr (b', nodes') \<Rightarrow> Inr (b', nodes @ nodes')
            else Inr (False, nodes))"
  by pat_completeness auto
termination
  by (relation "measure (\<lambda>(mem, rt, pb). length pb)") (auto dest: deserialize_node_shorter)

declare deserialize_loop.simps [simp del]

definition idset_deserialize :: "(nat \<Rightarrow> bool) \<Rightarrow> idset \<Rightarrow> bytes \<Rightarrow> ext_err + (bool \<times> idset)" where
  "idset_deserialize mem pset pbin =
     (if b_serialize pset then Inr (False, pset)
      else case deserialize_loop mem (repl_type pset) pbin of
          Inl e \<Rightarrow> Inl e
        | Inr (b, nodes) \<Rightarrow> Inr (b, pset \<lparr>repl_list := repl_list pset @ nodes\<rparr>))"

text \<open>\<open>None\<close> is the jump to \<open>CLEAN_TEMP_LIST\<close>; \<open>mem k\<close> answers for the \<open>k\<close>-th node.
  All nodes are of the type that the flags of the set say.\<close>

fun convert_nodes :: "(nat \<Rightarrow> bool) \<Rightarrow> (guid \<Rightarrow> u16 option) \<Rightarrow> repl_node list \<Rightarrow> repl_node list option" where
  "convert_nodes mem m [] = Some []"
| "convert_nodes mem m (REPLGUID_NODE k g # nodes) =
     (case m k of
        None \<Rightarrow> None
      | Some r \<Rightarrow>
          if \<not> mem 0 then None
          else map_option ((#) (REPLID_NODE r g)) (convert_nodes (\<lambda>k. mem (Suc k)) m nodes))"
| "convert_nodes mem m (REPLID_NODE r g # nodes) = None"

definition idset_convert :: "(nat \<Rightarrow> bool) \<Rightarrow> idset \<Rightarrow> bool \<times> idset" where
  "idset_convert mem pset =
     (if b_serialize pset then (False, pset)
      else if repl_type pset = REPL_TYPE_GUID then
        case mapping pset of
          None \<Rightarrow> (False, pset)
        | Some m \<Rightarrow>
            (case convert_nodes mem (to_replid m (pparam pset)) (repl_list pset) of
               None \<Rightarrow> (False, pset)
             | Some nodes \<Rightarrow> (True, pset \<lparr>repl_list := nodes, b_serialize := True\<rparr>))
      else (True, pset \<lparr>b_serialize := True\<rparr>))"

end
