(* ===== verification/Id_Collection.thy ===== *)
theory Id_Collection
  imports Prelude
begin

text \<open>
  The contract that the containers of \<open>LIBRARY/mapi_lib\<close> share (\<open>idset.c\<close>, \<open>eid_array.c\<close>,
  \<open>proptag_array.c\<close>): a function that adds one element and answers whether it could.
  An answer \<open>FALSE\<close> leaves the elements as they were.  The second locale adds the query.
\<close>

fun add_all :: "('s \<Rightarrow> 'e \<Rightarrow> bool \<times> 's) \<Rightarrow> 's \<Rightarrow> 'e list \<Rightarrow> bool \<times> 's" where
  "add_all add s [] = (True, s)"
| "add_all add s (x # xs) =
     (let (b, s') = add s x in if b then add_all add s' xs else (False, s'))"

locale id_collection =
  fixes ok :: "'s \<Rightarrow> bool" and elems :: "'s \<Rightarrow> 'e set" and add :: "'s \<Rightarrow> 'e \<Rightarrow> bool \<times> 's"
  assumes add_ok: "ok s \<Longrightarrow> ok (snd (add s x))"
    and add_elems: "ok s \<Longrightarrow> fst (add s x) \<Longrightarrow> elems (snd (add s x)) = insert x (elems s)"
    and add_failed: "ok s \<Longrightarrow> \<not> fst (add s x) \<Longrightarrow> elems (snd (add s x)) = elems s"
begin

lemma add_all_ok: "ok s \<Longrightarrow> ok (snd (add_all add s xs))"
  by (induction xs arbitrary: s) (auto simp: case_prod_beta add_ok)

lemma add_all_elems:
  "ok s \<Longrightarrow> fst (add_all add s xs) \<Longrightarrow> elems (snd (add_all add s xs)) = elems s \<union> set xs"
proof (induction xs arbitrary: s)
  case (Cons x xs)
  then have "fst (add s x)" "fst (add_all add (snd (add s x)) xs)"
    by (auto simp: case_prod_beta split: if_splits)
  with Cons show ?case
    by (simp add: case_prod_beta add_ok add_elems)
qed simp

text \<open>However far it got, nothing is lost and nothing else comes in.\<close>

lemma add_all_between:
  "ok s \<Longrightarrow> elems s \<subseteq> elems (snd (add_all add s xs)) \<and>
     elems (snd (add_all add s xs)) \<subseteq> elems s \<union> set xs"
proof (induction xs arbitrary: s)
  case (Cons x xs)
  show ?case
  proof (cases "fst (add s x)")
    case True
    with Cons.prems Cons.IH [OF add_ok [OF Cons.prems], of x] show ?thesis
      by (simp add: case_prod_beta add_elems)
  qed (use Cons.prems in \<open>auto simp: case_prod_beta add_failed\<close>)
qed simp

end

locale id_lookup = id_collection ok elems add
  for ok :: "'s \<Rightarrow> bool" and elems :: "'s \<Rightarrow> 'e set" and add :: "'s \<Rightarrow> 'e \<Rightarrow> bool \<times> 's" +
  fixes empty :: 's and has :: "'s \<Rightarrow> 'e \<Rightarrow> bool"
  assumes empty_ok: "ok empty" and empty_elems: "elems empty = {}"
    and has_iff: "ok s \<Longrightarrow> has s x \<longleftrightarrow> x \<in> elems s"
begin

lemma has_added:
  "fst (add_all add empty xs) \<Longrightarrow> has (snd (add_all add empty xs)) x \<longleftrightarrow> x \<in> set xs"
  using has_iff [OF add_all_ok [OF empty_ok], of xs x] add_all_elems [OF empty_ok, of xs] empty_elems
  by simp

lemma has_only_added: "has (snd (add_all add empty xs)) x \<Longrightarrow> x \<in> set xs"
  using has_iff [OF add_all_ok [OF empty_ok], of xs x] add_all_between [OF empty_ok, of xs] empty_elems
  by auto

end

end
