(* ===== verification/Idset_Logic.thy ===== *)
theory Idset_Logic
  imports Idset Id_Collection
begin

text \<open>
  What the operations on range lists do to the set of counters they stand for, and which
  of them keep the lists sorted.  Everything is stated over natural numbers: \<open>lo\<close> and \<open>hi\<close>
  are the ends of a range, \<open>members\<close> the numbers in a list of ranges.
\<close>

abbreviation lo :: "range_node \<Rightarrow> nat" where "lo n \<equiv> unat (low_value n)"
abbreviation hi :: "range_node \<Rightarrow> nat" where "hi n \<equiv> unat (high_value n)"

definition members :: "globset \<Rightarrow> nat set" where
  "members g = (\<Union>n \<in> set g. {lo n..hi n})"

text \<open>A counter has 48 bits.\<close>

definition counter :: "u64 \<Rightarrow> bool" where
  "counter v \<longleftrightarrow> unat v < 2 ^ 48"

definition range_ok :: "range_node \<Rightarrow> bool" where
  "range_ok n \<longleftrightarrow> lo n \<le> hi n \<and> counter (high_value n)"

definition globset_ok :: "globset \<Rightarrow> bool" where
  "globset_ok g \<longleftrightarrow> list_all range_ok g \<and> sorted_wrt (\<lambda>m n. hi m < lo n) g"

text \<open>The weaker property that removing keeps.\<close>

definition ranges_disjoint :: "globset \<Rightarrow> bool" where
  "ranges_disjoint g \<longleftrightarrow> list_all range_ok g \<and> sorted_wrt (\<lambda>m n. hi m < lo n \<or> hi n < lo m) g"

lemma members_simps [simp]:
  "members [] = {}" "members (n # g) = {lo n..hi n} \<union> members g"
  "members (g @ h) = members g \<union> members h" "members (rev g) = members g"
  by (auto simp: members_def)

lemma globset_ok_simps [simp]:
  "globset_ok []"
  "globset_ok (n # g) \<longleftrightarrow> range_ok n \<and> (\<forall>m \<in> set g. hi n < lo m) \<and> globset_ok g"
  by (auto simp: globset_ok_def)

lemma globset_ok_append:
  "globset_ok (g @ h) \<longleftrightarrow> globset_ok g \<and> globset_ok h \<and> (\<forall>m \<in> set g. \<forall>n \<in> set h. hi m < lo n)"
  by (induction g) auto

lemma globset_ok_rev_Cons:
  "globset_ok (rev (n # g) @ h) \<longleftrightarrow> globset_ok (rev g @ n # h)"
  by simp

lemma ranges_disjoint_simps [simp]:
  "ranges_disjoint []"
  "ranges_disjoint (n # g) \<longleftrightarrow>
     range_ok n \<and> (\<forall>m \<in> set g. hi n < lo m \<or> hi m < lo n) \<and> ranges_disjoint g"
  by (auto simp: ranges_disjoint_def)

lemma globset_ok_disjoint: "globset_ok g \<Longrightarrow> ranges_disjoint g"
  by (induction g) auto

lemma members_all: "list_all (\<lambda>n. hi n < b) g \<Longrightarrow> k \<in> members g \<Longrightarrow> k < b"
  by (auto simp: members_def list_all_iff)

lemma in_range_iff: "in_range v n \<longleftrightarrow> unat v \<in> {lo n..hi n}"
  by (simp add: in_range_def word_le_nat_alt)

lemma list_ex_in_range: "list_ex (in_range v) g \<longleftrightarrow> unat v \<in> members g"
  by (induction g) (auto simp: in_range_iff)

text \<open>The comparisons of the code, where nothing wraps.\<close>

lemma succ_iff: "counter h \<Longrightarrow> v = h + 1 \<longleftrightarrow> unat v = unat h + 1"
  by (auto simp: counter_def word_unat_eq_iff unat_word_ariths)

lemma pred_iff: "counter v \<Longrightarrow> counter l \<Longrightarrow> v = l - 1 \<longleftrightarrow> unat l = unat v + 1"
  using succ_iff [of v l] by (auto simp: algebra_simps)

lemma unat_succ [simp]: "counter v \<Longrightarrow> unat (v + 1) = unat v + 1"
  using succ_iff by blast

lemma unat_pred: "0 < unat v \<Longrightarrow> unat (v - 1) = unat v - 1"
  by (simp add: unat_minus_one word_unat_eq_iff)

lemma range_okD: "range_ok n \<Longrightarrow> lo n \<le> hi n" "range_ok n \<Longrightarrow> counter (high_value n)"
  "range_ok n \<Longrightarrow> counter (low_value n)"
  by (auto simp: range_ok_def counter_def)

lemma range_ok_make:
  "range_ok \<lparr>low_value = l, high_value = h\<rparr> \<longleftrightarrow> unat l \<le> unat h \<and> counter h"
  by (simp add: range_ok_def)

subsection \<open>Adding one value\<close>

lemma append_value_spec:
  assumes "globset_ok (rev bef @ rs)" "\<forall>p \<in> set bef. hi p + 1 < unat v" "counter v"
  shows "(fst (append_value mem bef rs v) \<longrightarrow>
      globset_ok (snd (append_value mem bef rs v)) \<and>
      members (snd (append_value mem bef rs v)) = insert (unat v) (members (rev bef @ rs))) \<and>
    (\<not> fst (append_value mem bef rs v) \<longrightarrow> \<not> mem \<and> snd (append_value mem bef rs v) = rev bef @ rs)"
  using assms
proof (induction mem bef rs v rule: append_value.induct)
  case (1 mem bef v)
  then show ?case
    by (auto simp: globset_ok_append range_ok_make)
next
  case (2 mem bef n rs v)
  have n: "range_ok n" "globset_ok rs" "\<forall>m \<in> set rs. hi n < lo m" "globset_ok (rev bef)"
    "\<forall>p \<in> set bef. hi p < lo n" "\<forall>p \<in> set bef. \<forall>m \<in> set rs. hi p < lo m"
    using "2.prems"(1) by (auto simp: globset_ok_append)
  note cmp = word_le_nat_alt word_less_nat_alt pred_iff [OF "2.prems"(3) range_okD(3) [OF n(1)]]
    succ_iff [OF range_okD(2) [OF n(1)]]
  consider (inside) "lo n \<le> unat v" "unat v \<le> hi n" | (below) "lo n = unat v + 1"
    | (above) "unat v = hi n + 1" | (before) "unat v + 1 < lo n" | (after) "hi n + 1 < unat v"
    using range_okD(1) [OF n(1)] by linarith
  then show ?case
  proof cases
    case inside
    then show ?thesis using "2.prems" by (auto simp: cmp)
  next
    case below
    have "bef = p # bef' \<Longrightarrow> \<not> high_value p \<ge> v" for p bef'
      using "2.prems"(2) by (simp add: cmp)
    with below have "append_value mem bef (n # rs) v = (True, rev bef @ n\<lparr>low_value := v\<rparr> # rs)"
      by (auto simp: cmp Let_def split: list.split)
    with below n "2.prems" show ?thesis
      by (auto simp: globset_ok_append range_ok_def)
  next
    case above
    show ?thesis
    proof (cases "\<exists>q rs'. rs = q # rs' \<and> low_value q \<le> v")
      case True
      then obtain q rs' where q: "rs = q # rs'" "low_value q \<le> v" by blast
      with n above have "lo q = unat v" by (auto simp: cmp)
      with above q have "append_value mem bef (n # rs) v =
          (True, rev bef @ n\<lparr>high_value := high_value q\<rparr> # rs')"
        using range_okD(1) [OF n(1)] by (auto simp: cmp)
      with above n q \<open>lo q = unat v\<close> show ?thesis
        by (auto simp: globset_ok_append range_ok_def)
    next
      case False
      with above have "append_value mem bef (n # rs) v = (True, rev bef @ n\<lparr>high_value := v\<rparr> # rs)"
        using range_okD(1) [OF n(1)] by (auto simp: cmp Let_def split: list.split)
      with above n False "2.prems"(3) show ?thesis
        by (cases rs) (auto simp: globset_ok_append range_ok_def cmp)
    qed
  next
    case before
    then have "append_value mem bef (n # rs) v =
        (if mem then (True, rev bef @ \<lparr>low_value = v, high_value = v\<rparr> # n # rs) else (False, rev bef @ n # rs))"
      using range_okD(1) [OF n(1)] by (auto simp: cmp)
    moreover have "\<forall>m \<in> set rs. unat v < lo m"
      using before n(3) range_okD(1) [OF n(1)] by fastforce
    moreover have "\<forall>p \<in> set bef. hi p < unat v" using "2.prems"(2) by auto
    ultimately show ?thesis using before n "2.prems"
      by (simp add: globset_ok_append range_ok_make del: append_value.simps)
  next
    case after
    then have "append_value mem bef (n # rs) v = append_value mem (n # bef) rs v"
      using range_okD(1) [OF n(1)] by (auto simp: cmp)
    moreover have "\<forall>p \<in> set (n # bef). hi p + 1 < unat v"
      using "2.prems"(2) after by simp
    moreover have "\<not> (low_value n \<le> v \<and> v \<le> high_value n)" "v \<noteq> low_value n - 1"
      "v \<noteq> high_value n + 1" "\<not> v < low_value n"
      using after range_okD(1) [OF n(1)] by (auto simp: cmp)
    ultimately show ?thesis
      using "2.IH" "2.prems" by auto
  qed
qed

lemma append_value_ok:
  assumes "globset_ok g" "counter v" "append_value mem [] g v = (b, h)"
  shows "b \<Longrightarrow> globset_ok h \<and> members h = insert (unat v) (members g)"
    "\<not> b \<Longrightarrow> \<not> mem \<and> h = g"
  using append_value_spec [of "[]" g v mem] assms by auto

subsection \<open>Adding a range\<close>

lemma extend_range_members:
  assumes "lo t \<le> hi t" "unat h = hi t" "list_all range_ok rs"
  shows "{lo t..hi t} \<subseteq> members (extend_range h t mid rs) \<and>
    members (extend_range h t mid rs) \<subseteq> {lo t..hi t} \<union> members mid \<union> members rs"
  using assms
proof (induction h t mid rs rule: extend_range.induct)
  case (2 h t mid n rs)
  consider "h = low_value n" | "h < low_value n" | "\<not> h < low_value n" "h \<noteq> low_value n" "rs = []"
    | m rs' where "\<not> h < low_value n" "h \<noteq> low_value n" "rs = m # rs'"
    by (cases rs) auto
  then show ?case
  proof cases
    case 1
    with "2.prems" have "lo n = hi t" "lo n \<le> hi n" by (auto simp: range_ok_def)
    with 1 "2.prems"(1) show ?thesis by auto
  next
    case (4 m rs')
    with 2 have *: "{lo t..hi t} \<subseteq> members (extend_range h t (m # mid) rs')"
      "members (extend_range h t (m # mid) rs') \<subseteq> {lo t..hi t} \<union> members (m # mid) \<union> members rs'"
      by auto
    have "{lo t..hi t} \<union> members (m # mid) \<union> members rs' \<subseteq> {lo t..hi t} \<union> members mid \<union> members (n # rs)"
      using 4 by auto
    from subset_trans [OF *(2) this] *(1) show ?thesis using 4 by (simp del: members_simps)
  qed auto
qed auto

text \<open>A node that is not stepped over stays where the new range ends before it.\<close>

lemma extend_range_apart:
  assumes "\<forall>n \<in> set rs. unat h < lo n"
  shows "extend_range h t mid rs = t # rev mid @ rs"
  using assms by (cases rs) (auto simp: word_less_nat_alt)

lemma between: "A \<subseteq> B \<Longrightarrow> B \<subseteq> A \<union> C \<Longrightarrow> B \<subseteq> M \<and> M \<subseteq> B \<union> R \<Longrightarrow> A \<subseteq> M \<and> M \<subseteq> A \<union> (C \<union> R)"
  for A :: "'a set"
  by blast

lemma append_range_covers:
  assumes "unat l \<le> unat h" "fst (append_range mem l h g)" "list_all range_ok g"
  shows "{unat l..unat h} \<subseteq> members (snd (append_range mem l h g))"
    "members (snd (append_range mem l h g)) \<subseteq> {unat l..unat h} \<union> members g"
proof -
  have "{unat l..unat h} \<subseteq> members (snd (append_range mem l h g)) \<and>
    members (snd (append_range mem l h g)) \<subseteq> {unat l..unat h} \<union> members g"
    using assms
  proof (induction mem l h g rule: append_range.induct)
    case (2 mem l h n rs)
    consider (touch) "l = high_value n"
      | (new) "l \<noteq> high_value n" "l > high_value n \<and> (rs = [] \<or> h \<le> low_value (hd rs))"
      | (further) "l \<noteq> high_value n" "\<not> (l > high_value n \<and> (rs = [] \<or> h \<le> low_value (hd rs)))" by blast
    then show ?case
    proof cases
      case touch
      have "lo n \<le> unat l" using touch "2.prems"(3) by (simp add: range_ok_def)
      then have sub: "{unat l..unat h} \<subseteq> {lo n..unat h}" "{lo n..unat h} \<subseteq> {unat l..unat h} \<union> {lo n..hi n}"
        using touch by auto
      define M where "M = members (extend_range h (n\<lparr>high_value := h\<rparr>) [] rs)"
      have "lo n \<le> unat h" "list_all range_ok rs"
        using \<open>lo n \<le> unat l\<close> "2.prems"(1,3) by auto
      moreover have t: "lo (n\<lparr>high_value := h\<rparr>) = lo n" "hi (n\<lparr>high_value := h\<rparr>) = unat h" by simp_all
      ultimately have "{lo n..unat h} \<subseteq> M \<and> M \<subseteq> {lo n..unat h} \<union> members rs"
        using extend_range_members [of "n\<lparr>high_value := h\<rparr>" h rs "[]", unfolded t members_simps Un_empty_right]
        unfolding M_def by (simp only: simp_thms)
      note between [OF sub this]
      moreover have "members (snd (append_range mem l h (n # rs))) = M"
        using touch by (simp add: M_def)
      ultimately show ?thesis by (simp only: members_simps)
    next
      case new
      define t M where "t = \<lparr>low_value = l, high_value = h\<rparr>" and "M = members (extend_range h t [] rs)"
      have t: "lo t = unat l" "hi t = unat h" by (simp_all add: t_def)
      have "{unat l..unat h} \<subseteq> M \<and> M \<subseteq> {unat l..unat h} \<union> members rs"
        using extend_range_members [of t h rs "[]", unfolded t members_simps Un_empty_right] "2.prems"(1,3)
        unfolding M_def by (simp only: simp_thms list.pred_inject)
      then have "{unat l..unat h} \<subseteq> {lo n..hi n} \<union> M" "{lo n..hi n} \<union> M \<subseteq> {unat l..unat h} \<union> ({lo n..hi n} \<union> members rs)"
        by (meson Un_least le_supI1 le_supI2 order_trans sup_mono order_refl)+
      moreover have "members (snd (append_range mem l h (n # rs))) = {lo n..hi n} \<union> M"
        using new "2.prems"(2) by (simp add: M_def t_def split: if_splits)
      ultimately show ?thesis by (simp only: members_simps)
    next
      case further
      with 2 show ?thesis by (auto simp: case_prod_beta)
    qed
  qed (auto split: if_splits)
  then show "{unat l..unat h} \<subseteq> members (snd (append_range mem l h g))"
    "members (snd (append_range mem l h g)) \<subseteq> {unat l..unat h} \<union> members g" by simp_all
qed

text \<open>
  Nothing is lost where no range of the list meets the new one, and the list stays sorted
  where it is empty or its first range lies below.
\<close>

lemma append_range_apart:
  assumes "unat l \<le> unat h" "counter h" "fst (append_range mem l h g)" "globset_ok g"
    "\<forall>n \<in> set g. hi n < unat l \<or> unat h < lo n"
  shows "members (snd (append_range mem l h g)) = {unat l..unat h} \<union> members g"
    "(g = [] \<or> hi (hd g) < unat l) \<Longrightarrow> globset_ok (snd (append_range mem l h g))"
proof -
  have "members (snd (append_range mem l h g)) = {unat l..unat h} \<union> members g \<and>
    ((g = [] \<or> hi (hd g) < unat l) \<longrightarrow>
       globset_ok (snd (append_range mem l h g)) \<and>
       lo ` set (snd (append_range mem l h g)) \<subseteq> insert (unat l) (lo ` set g))"
    using assms
  proof (induction mem l h g rule: append_range.induct)
    case (1 mem l h)
    then show ?case by (auto simp: range_ok_make split: if_splits)
  next
    case (2 mem l h n rs)
    have n: "range_ok n" "globset_ok rs" "\<forall>m \<in> set rs. hi n < lo m" using "2.prems"(4) by auto
    have ne: "l \<noteq> high_value n" using "2.prems"(1,5) range_okD(1) [OF n(1)] by auto
    show ?case
    proof (cases "l > high_value n \<and> (rs = [] \<or> h \<le> low_value (hd rs))")
      case True
      have "unat h < lo m" if "m \<in> set rs" for m
      proof (cases rs)
        case (Cons q rs')
        with True "2.prems"(1,5) range_okD(1) [of q] n(2) have "unat h < lo q"
          by (auto simp: word_le_nat_alt word_less_nat_alt)
        moreover have "lo q \<le> lo m"
          using n(2) Cons that range_okD(1) [of q] by auto
        ultimately show ?thesis by simp
      qed (use that in simp)
      with True ne n "2.prems"(1-3) extend_range_apart [of rs h "\<lparr>low_value = l, high_value = h\<rparr>" "[]"]
      show ?thesis by (auto simp: word_less_nat_alt range_ok_make split: if_splits)
    next
      case False
      have step: "append_range mem l h (n # rs) = (fst (append_range mem l h rs), n # snd (append_range mem l h rs))"
        unfolding append_range.simps if_not_P [OF ne] if_not_P [OF False] by (simp add: case_prod_beta)
      then have "fst (append_range mem l h rs)" using "2.prems"(3) by simp
      from "2.IH" [OF ne False "2.prems"(1,2) this n(2)] "2.prems"(5)
      have IH: "members (snd (append_range mem l h rs)) = {unat l..unat h} \<union> members rs"
        "(rs = [] \<or> hi (hd rs) < unat l) \<Longrightarrow> globset_ok (snd (append_range mem l h rs)) \<and>
          lo ` set (snd (append_range mem l h rs)) \<subseteq> insert (unat l) (lo ` set rs)"
        by simp_all
      have "rs = [] \<or> hi (hd rs) < unat l" if "hi n < unat l"
        using False that "2.prems"(5) by (cases rs) (auto simp: word_less_nat_alt word_le_nat_alt)
      with IH(2) have ok: "globset_ok (snd (append_range mem l h rs))"
        and sub: "lo ` set (snd (append_range mem l h rs)) \<subseteq> insert (unat l) (lo ` set rs)"
        if "hi n < unat l" using that by blast+
      have "\<forall>m \<in> set (snd (append_range mem l h rs)). hi n < lo m" if "hi n < unat l"
        using sub [OF that] n(3) that by auto
      moreover note step
      moreover have "lo ` set (n # snd (append_range mem l h rs)) \<subseteq> insert (unat l) (lo ` set (n # rs))" if "hi n < unat l"
        using sub [OF that] by (simp only: list.set image_insert) blast
      ultimately show ?thesis
        using IH(1) ok n(1) by (simp del: append_range.simps) blast
    qed
  qed
  then show "members (snd (append_range mem l h g)) = {unat l..unat h} \<union> members g"
    "(g = [] \<or> hi (hd g) < unat l) \<Longrightarrow> globset_ok (snd (append_range mem l h g))" by simp_all
qed

declare append_range.simps(2) [simp del]

subsection \<open>Removing one value\<close>

text \<open>The five ways a value can lie to a range, and what the loop does in each.\<close>

lemma remove_value_eqs:
  assumes "lo n \<le> hi n"
  shows "unat v = lo n \<Longrightarrow> unat v = hi n \<Longrightarrow> remove_value mem v (n # rs) = rs"
    "unat v = lo n \<Longrightarrow> lo n < hi n \<Longrightarrow>
       remove_value mem v (n # rs) = n\<lparr>low_value := low_value n + 1\<rparr> # rs"
    "unat v = hi n \<Longrightarrow> lo n < hi n \<Longrightarrow>
       remove_value mem v (n # rs) = n\<lparr>high_value := high_value n - 1\<rparr> # rs"
    "lo n < unat v \<Longrightarrow> unat v < hi n \<Longrightarrow>
       remove_value mem v (n # rs) =
         (if mem then n\<lparr>low_value := v + 1\<rparr> # \<lparr>low_value = low_value n, high_value = v - 1\<rparr> # rs
          else n # rs)"
    "unat v \<notin> {lo n..hi n} \<Longrightarrow> remove_value mem v (n # rs) = n # remove_value mem v rs"
  using assms by (auto simp: word_unat_eq_iff word_less_nat_alt)

lemma value_range_cases:
  assumes "lo n \<le> hi n"
  obtains (both) "v = lo n" "v = hi n" | (low) "v = lo n" "lo n < hi n"
    | (high) "v = hi n" "lo n < hi n" | (mid) "lo n < v" "v < hi n"
    | (out) "v \<notin> {lo n..hi n}"
  using assms by fastforce

declare remove_value.simps(2) [simp del]

lemma Diff_out: "v \<notin> A \<Longrightarrow> A \<union> (B - {v}) = (A \<union> B) - {v}" for A :: "nat set"
  by blast

lemma remove_value_members:
  assumes "ranges_disjoint g" "counter v"
  shows "members (remove_value True v g) = members g - {unat v}"
  using assms(1)
proof (induction g)
  case (Cons n rs)
  then have n: "range_ok n" "lo n \<le> hi n" "ranges_disjoint rs" "\<forall>m \<in> set rs. hi n < lo m \<or> hi m < lo n"
    by (auto simp: range_ok_def)
  have rs: "unat v \<notin> members rs" if "unat v \<in> {lo n..hi n}"
    using that n(4) by (fastforce simp: members_def)
  note eqs = remove_value_eqs [OF n(2), of v True rs]
  from n(2) show ?case
  proof (cases rule: value_range_cases [where v = "unat v"])
    case out
    show ?thesis
      unfolding eqs(5) [OF out] members_simps Cons.IH [OF n(3)] by (rule Diff_out [OF out])
  next
    case both
    with rs show ?thesis by (auto simp: eqs)
  next
    case low
    have "members [n\<lparr>low_value := low_value n + 1\<rparr>] = {lo n..hi n} - {unat v}"
      using low range_okD(3) [OF n(1)] by auto
    with rs low show ?thesis by (auto simp: eqs)
  next
    case high
    have "members [n\<lparr>high_value := high_value n - 1\<rparr>] = {lo n..hi n} - {unat v}"
      using high unat_pred [of "high_value n"] by auto
    with rs high show ?thesis by (auto simp: eqs)
  next
    case mid
    have "members [n\<lparr>low_value := v + 1\<rparr>, \<lparr>low_value = low_value n, high_value = v - 1\<rparr>] =
        {lo n..hi n} - {unat v}"
      using mid unat_pred [of v] unat_succ [OF assms(2)] by auto
    with rs mid show ?thesis by (auto simp: eqs)
  qed
qed simp

text \<open>What is left of a range lies inside it; an interior value puts the upper half first.\<close>

definition inside :: "globset \<Rightarrow> globset \<Rightarrow> bool" where
  "inside g h \<longleftrightarrow> (\<forall>m \<in> set g. \<exists>n \<in> set h. lo n \<le> lo m \<and> hi m \<le> hi n)"

lemma inside_refl: "inside g g" "inside g (n # g)"
  by (auto simp: inside_def)

lemma inside_Cons:
  "lo n \<le> lo m \<Longrightarrow> hi m \<le> hi n \<Longrightarrow> inside g (n # h) \<Longrightarrow> inside (m # g) (n # h)"
  "inside g h \<Longrightarrow> inside g (n # h)"
  by (auto simp: inside_def)

lemma remove_value_inside:
  assumes "list_all range_ok g" "counter v"
  shows "inside (remove_value mem v g) g \<and> list_all range_ok (remove_value mem v g)"
  using assms(1)
proof (induction g)
  case (Cons n rs)
  then have n: "range_ok n" "lo n \<le> hi n" "list_all range_ok rs"
    using range_okD(1) [of n] by simp_all
  note eqs = remove_value_eqs [OF n(2), of v mem rs]
  from n(2) show ?case
  proof (cases rule: value_range_cases [where v = "unat v"])
    case low
    then show ?thesis
      using n range_okD [OF n(1)] by (auto simp: eqs range_ok_def list_all_iff intro!: inside_Cons(1) inside_refl)
  next
    case high
    then show ?thesis
      using n range_okD [OF n(1)] unat_pred [of "high_value n"]
      by (auto simp: eqs range_ok_def list_all_iff counter_def intro!: inside_Cons(1) inside_refl)
  next
    case mid
    then show ?thesis
      using n range_okD [OF n(1)] unat_pred [of v] unat_succ [OF assms(2)]
      by (auto simp: eqs range_ok_def list_all_iff counter_def intro!: inside_Cons(1) inside_refl)
  next
    case both
    with n show ?thesis by (simp add: eqs inside_refl)
  next
    case out
    with n Cons.IH show ?thesis by (simp add: eqs inside_Cons)
  qed
qed (simp add: inside_def)

lemma apart_inside:
  assumes "inside g h" "\<forall>m \<in> set h. b < lo m \<or> hi m < a"
  shows "\<forall>m \<in> set g. b < lo m \<or> hi m < a"
proof
  fix m assume "m \<in> set g"
  then obtain n where "n \<in> set h" "lo n \<le> lo m" "hi m \<le> hi n"
    using assms(1) by (auto simp: inside_def)
  with assms(2) show "b < lo m \<or> hi m < a" by fastforce
qed

lemma remove_value_disjoint:
  assumes "ranges_disjoint g" "counter v"
  shows "ranges_disjoint (remove_value mem v g)"
  using assms(1)
proof (induction g)
  case (Cons n rs)
  then have n: "range_ok n" "lo n \<le> hi n" "ranges_disjoint rs" "\<forall>m \<in> set rs. hi n < lo m \<or> hi m < lo n"
    by (auto simp: range_ok_def)
  note eqs = remove_value_eqs [OF n(2), of v mem rs]
  from n(2) show ?case
  proof (cases rule: value_range_cases [where v = "unat v"])
    case low
    then show ?thesis
      using n range_okD [OF n(1)] by (fastforce simp: eqs range_ok_def)
  next
    case high
    then show ?thesis
      using n range_okD [OF n(1)] unat_pred [of "high_value n"]
      by (fastforce simp: eqs range_ok_def counter_def)
  next
    case mid
    then show ?thesis
      using n range_okD [OF n(1)] unat_pred [of v] unat_succ [OF assms(2)]
      by (fastforce simp: eqs range_ok_def counter_def)
  next
    case out
    have "inside (remove_value mem v rs) rs"
      using remove_value_inside [of rs v mem] n(3) assms(2) by (simp add: ranges_disjoint_def)
    with out n Cons.IH [OF n(3)] show ?thesis
      using apart_inside [of _ rs "hi n" "lo n"] by (simp add: eqs)
  qed (use n in \<open>simp add: eqs\<close>)
qed simp

text \<open>A list stays sorted where the value is an end of its range, or in none.\<close>

definition splits :: "nat \<Rightarrow> globset \<Rightarrow> bool" where
  "splits k g \<longleftrightarrow> (\<exists>n \<in> set g. lo n < k \<and> k < hi n)"

lemma remove_value_sorted:
  assumes "globset_ok g" "counter v" "\<not> splits (unat v) g"
  shows "globset_ok (remove_value mem v g)"
  using assms(1,3)
proof (induction g)
  case (Cons n rs)
  then have n: "range_ok n" "lo n \<le> hi n" "globset_ok rs" "\<forall>m \<in> set rs. hi n < lo m" "\<not> splits (unat v) rs"
    by (auto simp: range_ok_def splits_def)
  note eqs = remove_value_eqs [OF n(2), of v mem rs]
  from n(2) show ?case
  proof (cases rule: value_range_cases [where v = "unat v"])
    case low
    then show ?thesis
      using n range_okD [OF n(1)] by (fastforce simp: eqs range_ok_def)
  next
    case high
    then show ?thesis
      using n range_okD [OF n(1)] unat_pred [of "high_value n"]
      by (fastforce simp: eqs range_ok_def counter_def)
  next
    case mid
    with Cons.prems(2) show ?thesis by (simp add: splits_def)
  next
    case out
    have "inside (remove_value mem v rs) rs"
      using remove_value_inside [of rs v mem] n(3) assms(2) by (simp add: globset_ok_def)
    then have "\<forall>m \<in> set (remove_value mem v rs). hi n < lo m"
      using n(4) by (fastforce simp: inside_def)
    with out n Cons.IH show ?thesis by (simp add: eqs)
  qed (use n in \<open>simp add: eqs\<close>)
qed simp

subsection \<open>Values given for the first time\<close>

lemma batch_ranges_members:
  assumes "\<forall>n \<in> set g. range_ok n" "\<forall>v \<in> set vs. counter v" "fst (batch_ranges mem g vs)"
  shows "members (snd (batch_ranges mem g vs)) = members g \<union> unat ` set vs"
  using assms
proof (induction mem g vs rule: batch_ranges.induct)
  case (2 mem g v vs)
  show ?case
  proof (cases "g \<noteq> [] \<and> high_value (last g) + 1 = v")
    case True
    then have g: "g = butlast g @ [last g]" "range_ok (last g)" using "2.prems"(1) by auto
    have v: "unat v = hi (last g) + 1" using True range_okD(2) [OF g(2)] by auto
    have "members (butlast g @ [(last g)\<lparr>high_value := v\<rparr>]) = insert (unat v) (members (butlast g @ [last g]))"
      using v range_okD(1) [OF g(2)] by auto
    moreover have "\<forall>n \<in> set (butlast g @ [(last g)\<lparr>high_value := v\<rparr>]). range_ok n"
      using g(2) v "2.prems"(1,2) by (auto simp: range_ok_def dest: in_set_butlastD)
    ultimately show ?thesis
      using "2.IH"(1) [OF True] "2.prems"(2,3) True g(1) by simp
  next
    case False
    with "2.prems"(3) have "mem 0" by (auto split: if_splits)
    with "2.IH"(2) [OF False] "2.prems" False show ?thesis by (auto simp: range_ok_make)
  qed
qed simp

subsection \<open>The whole set\<close>

text \<open>The counters of a replica, in the first node that belongs to it.\<close>

definition ids :: "idset \<Rightarrow> u16 \<Rightarrow> nat set" where
  "ids s r = (case find (has_replid r) (repl_list s) of None \<Rightarrow> {} | Some n \<Rightarrow> members (range_list n))"

fun is_replid_node :: "repl_node \<Rightarrow> bool" where
  "is_replid_node (REPLID_NODE r g) \<longleftrightarrow> True"
| "is_replid_node (REPLGUID_NODE k g) \<longleftrightarrow> False"

definition idset_inv :: "(globset \<Rightarrow> bool) \<Rightarrow> idset \<Rightarrow> bool" where
  "idset_inv P s \<longleftrightarrow> b_serialize s \<and>
     (\<forall>n \<in> set (repl_list s). is_replid_node n \<and> P (range_list n))"

abbreviation idset_ok :: "idset \<Rightarrow> bool" where "idset_ok \<equiv> idset_inv globset_ok"

lemma has_replid_set_range_list [simp]: "has_replid r (set_range_list g n) = has_replid r n"
  by (cases n) auto

lemma range_list_set_range_list [simp]: "range_list (set_range_list g n) = g"
  by (cases n) auto

lemma is_replid_node_set_range_list [simp]: "is_replid_node (set_range_list g n) = is_replid_node n"
  by (cases n) auto

lemma has_replid_unique: "has_replid k n \<Longrightarrow> has_replid r n \<Longrightarrow> k = r"
  by (cases n) auto

lemma find_on_replid:
  "find (has_replid r) (snd (on_replid mem r f nodes)) =
     (case find (has_replid r) nodes of
        None \<Rightarrow> if mem then Some (REPLID_NODE r (snd (f []))) else None
      | Some n \<Rightarrow> Some (set_range_list (snd (f (range_list n))) n))"
  by (induction nodes) (simp_all add: case_prod_beta)

lemma find_on_replid_other:
  "k \<noteq> r \<Longrightarrow> find (has_replid k) (snd (on_replid mem r f nodes)) = find (has_replid k) nodes"
proof (induction nodes)
  case (Cons n nodes)
  then have "has_replid r n \<Longrightarrow> \<not> has_replid k n"
    using has_replid_unique by blast
  with Cons show ?case by (cases "has_replid r n") (simp_all add: case_prod_beta)
qed (simp add: case_prod_beta)

lemma fst_on_replid:
  "fst (on_replid mem r f nodes) \<longleftrightarrow>
     (case find (has_replid r) nodes of None \<Rightarrow> mem \<and> fst (f []) | Some n \<Rightarrow> fst (f (range_list n)))"
  by (induction nodes) (auto simp: case_prod_beta)

lemma on_replid_nodes:
  assumes "\<forall>n \<in> set nodes. is_replid_node n \<and> P (range_list n)" "\<And>g. P g \<Longrightarrow> P (snd (f g))" "P []"
  shows "\<forall>n \<in> set (snd (on_replid mem r f nodes)). is_replid_node n \<and> P (range_list n)"
  using assms by (induction nodes) (auto simp: case_prod_beta)

lemma find_on_found:
  "find (has_replid k) (on_found r f nodes) =
     (if k = r then map_option (\<lambda>n. set_range_list (f (range_list n)) n) (find (has_replid r) nodes)
      else find (has_replid k) nodes)"
proof (induction nodes)
  case (Cons n nodes)
  have "has_replid k n \<Longrightarrow> has_replid r n \<Longrightarrow> k = r" by (cases n) auto
  with Cons show ?case by auto
qed simp

lemma on_found_nodes:
  assumes "\<forall>n \<in> set nodes. is_replid_node n \<and> P (range_list n)"
    "\<And>n. find (has_replid r) nodes = Some n \<Longrightarrow> P (range_list n) \<Longrightarrow> P (f (range_list n))"
  shows "\<forall>n \<in> set (on_found r f nodes). is_replid_node n \<and> P (range_list n)"
  using assms by (induction nodes) (auto split: if_splits)

lemma found_inv:
  assumes "idset_inv P s" "find (has_replid r) (repl_list s) = Some n"
  shows "P (range_list n)"
  using assms by (auto simp: idset_inv_def find_Some_iff)

lemma hint_iff:
  assumes "b_serialize s"
  shows "idset_hint s eid \<longleftrightarrow> unat (rop_util_get_gc_value eid) \<in> ids s (rop_util_get_replid eid)"
  using assms by (simp add: idset_hint_def ids_def list_ex_in_range split: option.split)

lemma counter_gc_value [simp]: "counter (rop_util_get_gc_value eid)"
  using get_gc_value_bound by (simp add: counter_def)

lemma eid_eq_iff:
  "rop_util_get_replid x = rop_util_get_replid y \<and> unat (rop_util_get_gc_value x) = unat (rop_util_get_gc_value y)
     \<longleftrightarrow> x = y"
  by (metis make_eid_ex_parts word_unat_eq_iff)

lemma ids_on_replid:
  assumes "s' = s\<lparr>repl_list := snd (on_replid m r f (repl_list s))\<rparr>"
  shows "k \<noteq> r \<Longrightarrow> ids s' k = ids s k"
    "ids s' r = (case find (has_replid r) (repl_list s) of
        None \<Rightarrow> if m then members (snd (f [])) else {}
      | Some n \<Rightarrow> members (snd (f (range_list n))))"
  by (auto simp: assms ids_def find_on_replid find_on_replid_other split: option.split)

lemma append_internal_step:
  assumes "b_serialize s"
  shows "idset_append_internal m1 m2 s r v =
    (fst (on_replid m1 r (\<lambda>g. append_value m2 [] g v) (repl_list s)),
     s\<lparr>repl_list := snd (on_replid m1 r (\<lambda>g. append_value m2 [] g v) (repl_list s))\<rparr>)"
  using assms by (simp add: idset_append_internal_def case_prod_beta)

lemma append_internal_ok:
  assumes "idset_ok s" "counter v"
  shows "idset_ok (snd (idset_append_internal m1 m2 s r v))"
    "m1 \<Longrightarrow> m2 \<Longrightarrow> fst (idset_append_internal m1 m2 s r v)"
proof -
  let ?f = "\<lambda>g. append_value m2 [] g v"
  have s: "b_serialize s" "\<forall>n \<in> set (repl_list s). is_replid_node n \<and> globset_ok (range_list n)"
    using assms(1) by (auto simp: idset_inv_def)
  have f: "globset_ok g \<Longrightarrow> globset_ok (snd (?f g))" "m2 \<Longrightarrow> globset_ok g \<Longrightarrow> fst (?f g)" for g
    using append_value_spec [of "[]" g v m2] assms(2) by auto
  show "idset_ok (snd (idset_append_internal m1 m2 s r v))"
    using on_replid_nodes [of "repl_list s" globset_ok ?f m1 r] f(1) s
    by (simp add: append_internal_step idset_inv_def)
  show "m1 \<Longrightarrow> m2 \<Longrightarrow> fst (idset_append_internal m1 m2 s r v)"
    using f(2) found_inv [OF assms(1)] s(1)
    by (auto simp: append_internal_step fst_on_replid split: option.split)
qed

lemma append_internal_ids:
  assumes "idset_ok s" "counter v"
  shows "ids (snd (idset_append_internal m1 m2 s r v)) =
    (if fst (idset_append_internal m1 m2 s r v) then (ids s)(r := insert (unat v) (ids s r)) else ids s)"
proof
  fix k
  let ?f = "\<lambda>g. append_value m2 [] g v"
  have ser: "b_serialize s" using assms(1) by (simp add: idset_inv_def)
  have f: "globset_ok g \<Longrightarrow>
      members (snd (?f g)) = (if fst (?f g) then insert (unat v) (members g) else members g)" for g
    using append_value_spec [of "[]" g v m2] assms(2) by auto
  note step = append_internal_step [OF ser, of m1 m2 r v]
  have *: "ids (snd (idset_append_internal m1 m2 s r v)) r =
      (if fst (idset_append_internal m1 m2 s r v) then insert (unat v) (ids s r) else ids s r)"
    unfolding step fst_conv snd_conv ids_on_replid(2) [OF refl] fst_on_replid
    using f found_inv [OF assms(1)] by (auto simp: ids_def simp del: append_value.simps split: option.split)
  show "ids (snd (idset_append_internal m1 m2 s r v)) k =
      (if fst (idset_append_internal m1 m2 s r v) then (ids s)(r := insert (unat v) (ids s r)) else ids s) k"
    using * ids_on_replid(1) [OF refl, where k = k and r = r and s = s and m = m1 and f = ?f] by (cases "k = r") (auto simp: step)
qed

lemma remove_ids:
  assumes "idset_inv ranges_disjoint s"
  shows "idset_inv ranges_disjoint (idset_remove m s eid)"
    "ids (idset_remove True s eid) = (ids s)(rop_util_get_replid eid :=
       ids s (rop_util_get_replid eid) - {unat (rop_util_get_gc_value eid)})"
proof -
  have s: "b_serialize s" "\<forall>n \<in> set (repl_list s). is_replid_node n \<and> ranges_disjoint (range_list n)"
    using assms by (auto simp: idset_inv_def)
  show "idset_inv ranges_disjoint (idset_remove m s eid)"
    using s on_found_nodes [OF s(2), where f = "remove_value m (rop_util_get_gc_value eid)"]
    by (simp add: idset_inv_def idset_remove_def remove_value_disjoint)
  show "ids (idset_remove True s eid) = (ids s)(rop_util_get_replid eid :=
       ids s (rop_util_get_replid eid) - {unat (rop_util_get_gc_value eid)})"
    using s(1) found_inv [OF assms] remove_value_members
    by (auto simp: fun_eq_iff ids_def idset_remove_def find_on_found split: option.splits)
qed

subsection \<open>Adding a range of a replica\<close>

lemma append_range_step:
  assumes "b_serialize s" "l \<le> h"
  shows "idset_append_range m1 m2 s r l h =
    (fst (on_replid m1 r (append_range m2 l h) (repl_list s)),
     s\<lparr>repl_list := snd (on_replid m1 r (append_range m2 l h) (repl_list s))\<rparr>)"
  using assms leD [OF assms(2)] by (simp add: idset_append_range_def case_prod_beta)

lemma members_below:
  "list_all range_ok g \<Longrightarrow> \<forall>k \<in> members g. k < b \<Longrightarrow> \<forall>n \<in> set g. hi n < b"
  by (fastforce simp: members_def list_all_iff range_ok_def)

lemma append_range_above:
  assumes "l \<le> h" "counter h" "globset_ok g" "\<forall>k \<in> members g. k < unat l"
  shows "globset_ok (snd (append_range True l h g)) \<and>
    members (snd (append_range True l h g)) = {unat l..unat h} \<union> members g \<and>
    fst (append_range True l h g)"
proof -
  have below: "\<forall>n \<in> set g. hi n < unat l"
    using members_below [of g] assms(3,4) by (auto simp: globset_ok_def)
  then have first: "g = [] \<or> hi (hd g) < unat l" by (cases g) auto
  have "fst (append_range True l h g)"
    by (induction g) (auto simp: append_range.simps(2) case_prod_beta)
  moreover have "unat l \<le> unat h" using assms(1) by (simp add: word_le_nat_alt)
  ultimately show ?thesis
    using append_range_apart [of l h True g] assms(2,3) below first by auto
qed

lemma idset_append_range_above:
  assumes "idset_ok s" "l \<le> h" "counter h" "\<forall>k \<in> ids s r. k < unat l"
  shows "fst (idset_append_range True True s r l h)"
    "idset_ok (snd (idset_append_range True True s r l h))"
    "ids (snd (idset_append_range True True s r l h)) = (ids s)(r := {unat l..unat h} \<union> ids s r)"
proof -
  let ?f = "append_range True l h"
  have s: "b_serialize s" "\<forall>n \<in> set (repl_list s). is_replid_node n \<and> globset_ok (range_list n)"
    using assms(1) by (auto simp: idset_inv_def)
  note step = append_range_step [OF s(1) assms(2), of True True r]
  have f: "globset_ok (snd (?f g)) \<and> members (snd (?f g)) = {unat l..unat h} \<union> members g \<and> fst (?f g)"
    if "find (has_replid r) (repl_list s) = Some n \<and> g = range_list n \<or> g = []" for g n
    using append_range_above [OF assms(2,3), of g] found_inv [OF assms(1), of r n] that assms(4)
    by (auto simp: ids_def split: option.splits)
  have nodes: "\<forall>n \<in> set (snd (on_replid True r ?f ns)). is_replid_node n \<and> globset_ok (range_list n)"
    if "\<forall>n \<in> set ns. is_replid_node n \<and> globset_ok (range_list n)"
      "\<And>n. find (has_replid r) ns = Some n \<Longrightarrow> globset_ok (snd (?f (range_list n)))" for ns
    using that f [where g = "[]"] by (induction ns) (auto simp: case_prod_beta)
  show "idset_ok (snd (idset_append_range True True s r l h))"
    using nodes [OF s(2)] f s(1) by (auto simp: step idset_inv_def)
  show "fst (idset_append_range True True s r l h)"
    unfolding step fst_conv fst_on_replid using f by (auto split: option.split)
  have *: "ids (snd (idset_append_range True True s r l h)) r = {unat l..unat h} \<union> ids s r"
    unfolding step snd_conv ids_on_replid(2) [OF refl]
    using f by (auto simp: ids_def split: option.split)
  show "ids (snd (idset_append_range True True s r l h)) = (ids s)(r := {unat l..unat h} \<union> ids s r)"
  proof
    fix k
    show "ids (snd (idset_append_range True True s r l h)) k = ((ids s)(r := {unat l..unat h} \<union> ids s r)) k"
      using * ids_on_replid(1) [OF refl, where k = k and r = r and s = s and m = True and f = ?f]
      by (cases "k = r") (auto simp: step)
  qed
qed

subsection \<open>Putting two sets together\<close>

definition distinct_replids :: "repl_node list \<Rightarrow> bool" where
  "distinct_replids nodes \<longleftrightarrow> sorted_wrt (\<lambda>m n. \<forall>r. \<not> (has_replid r m \<and> has_replid r n)) nodes"

lemma distinct_replids_simps [simp]:
  "distinct_replids []"
  "distinct_replids (REPLID_NODE r g # nodes) \<longleftrightarrow>
     find (has_replid r) nodes = None \<and> distinct_replids nodes"
  by (auto simp: distinct_replids_def find_None_iff)

lemma concat_ranges_ids:
  assumes "idset_ok dst" "globset_ok g" "\<forall>k \<in> ids dst r. \<forall>n \<in> set g. k < lo n"
  shows "fst (concat_ranges (\<lambda>_. (True, True)) dst r g) \<and>
    idset_ok (snd (concat_ranges (\<lambda>_. (True, True)) dst r g)) \<and>
    ids (snd (concat_ranges (\<lambda>_. (True, True)) dst r g)) = (ids dst)(r := ids dst r \<union> members g)"
  using assms
proof (induction g arbitrary: dst)
  case (Cons n g)
  define d where "d = (if high_value n = low_value n
    then idset_append_internal True True dst r (low_value n)
    else idset_append_range True True dst r (low_value n) (high_value n))"
  have n: "range_ok n" "globset_ok g" "\<forall>m \<in> set g. hi n < lo m" using Cons.prems(2) by auto
  have d: "fst d" "idset_ok (snd d)" "ids (snd d) = (ids dst)(r := ids dst r \<union> {lo n..hi n})"
    using append_internal_ok [OF Cons.prems(1) range_okD(3) [OF n(1)], of True True r]
      append_internal_ids [OF Cons.prems(1) range_okD(3) [OF n(1)], of True True r]
      idset_append_range_above [OF Cons.prems(1) _ range_okD(2) [OF n(1)], of "low_value n" r]
      range_okD(1) [OF n(1)] Cons.prems(3)
    by (auto simp: d_def word_le_nat_alt Un_commute)
  have step: "concat_ranges (\<lambda>_. (True, True)) dst r (n # g) = concat_ranges (\<lambda>_. (True, True)) (snd d) r g"
    using d(1) unfolding concat_ranges.simps fst_conv snd_conv d_def by (simp only: case_prod_beta Let_def if_True)
  have "k < lo m" if "k \<in> ids (snd d) r" "m \<in> set g" for k m
  proof -
    from that(1) have "k \<in> ids dst r \<or> k \<le> hi n" by (simp add: d(3)) blast
    with Cons.prems(3) n(3) that(2) show ?thesis by fastforce
  qed
  with Cons.IH [OF d(2) n(2)]
  have IH: "fst (concat_ranges (\<lambda>_. (True, True)) (snd d) r g)"
    "idset_ok (snd (concat_ranges (\<lambda>_. (True, True)) (snd d) r g))"
    "ids (snd (concat_ranges (\<lambda>_. (True, True)) (snd d) r g)) = (ids (snd d))(r := ids (snd d) r \<union> members g)"
    by blast+
  have "(ids (snd d))(r := ids (snd d) r \<union> members g) = (ids dst)(r := ids dst r \<union> members (n # g))"
    unfolding d(3) fun_upd_same fun_upd_upd members_simps by (simp only: Un_assoc)
  with IH show ?case unfolding step by (simp only: simp_thms)
qed simp

lemma concat_nodes_ids:
  assumes "idset_ok dst" "\<forall>n \<in> set nodes. is_replid_node n \<and> globset_ok (range_list n)"
    "distinct_replids nodes" "\<forall>r. find (has_replid r) nodes \<noteq> None \<longrightarrow> ids dst r = {}"
  shows "fst (concat_nodes (\<lambda>_. (True, True)) dst nodes) \<and>
    idset_ok (snd (concat_nodes (\<lambda>_. (True, True)) dst nodes)) \<and>
    (\<forall>r. ids (snd (concat_nodes (\<lambda>_. (True, True)) dst nodes)) r =
       ids dst r \<union> (case find (has_replid r) nodes of None \<Rightarrow> {} | Some n \<Rightarrow> members (range_list n)))"
  using assms
proof (induction nodes arbitrary: dst)
  case (Cons node nodes)
  then obtain k g where node: "node = REPLID_NODE k g" by (cases node) auto
  define d where "d = concat_ranges (\<lambda>_. (True, True)) dst k g"
  have k: "ids dst k = {}" using Cons.prems(4) node by auto
  then have d: "fst d" "idset_ok (snd d)" "ids (snd d) = (ids dst)(k := members g)"
    using concat_ranges_ids [OF Cons.prems(1), of g k] Cons.prems(2) node by (auto simp: d_def)
  have "\<forall>r. find (has_replid r) nodes \<noteq> None \<longrightarrow> ids (snd d) r = {}"
    using Cons.prems(3,4) node d(3) by auto
  with Cons.IH [OF d(2)] Cons.prems(2,3) node d(1,3) k show ?case
    by (auto simp: case_prod_beta simp flip: d_def split: option.split)
qed simp

text \<open>Into a set that has no counters of the replicas of the other.\<close>

lemma concatenate_ids:
  assumes "idset_ok dst" "idset_ok src" "distinct_replids (repl_list src)"
    "\<forall>r. find (has_replid r) (repl_list src) \<noteq> None \<longrightarrow> ids dst r = {}"
  shows "fst (idset_concatenate (\<lambda>_. (True, True)) dst src)"
    "idset_ok (snd (idset_concatenate (\<lambda>_. (True, True)) dst src))"
    "ids (snd (idset_concatenate (\<lambda>_. (True, True)) dst src)) r = ids dst r \<union> ids src r"
proof -
  have "b_serialize dst" "b_serialize src" "\<forall>n \<in> set (repl_list src). is_replid_node n \<and> globset_ok (range_list n)"
    using assms(1,2) by (auto simp: idset_inv_def)
  with concat_nodes_ids [OF assms(1) _ assms(3,4)] show "fst (idset_concatenate (\<lambda>_. (True, True)) dst src)"
    "idset_ok (snd (idset_concatenate (\<lambda>_. (True, True)) dst src))"
    "ids (snd (idset_concatenate (\<lambda>_. (True, True)) dst src)) r = ids dst r \<union> ids src r"
    by (simp_all add: idset_concatenate_def ids_def)
qed

subsection \<open>Identifiers\<close>

lemma append_hint:
  assumes "idset_ok s"
  shows "idset_ok (snd (idset_append m1 m2 s e))"
    "idset_hint (snd (idset_append m1 m2 s e)) x \<longleftrightarrow>
       (fst (idset_append m1 m2 s e) \<and> x = e) \<or> idset_hint s x"
    "m1 \<Longrightarrow> m2 \<Longrightarrow> fst (idset_append m1 m2 s e)"
proof -
  let ?a = "idset_append_internal m1 m2 s (rop_util_get_replid e) (rop_util_get_gc_value e)"
  note a = append_internal_ok [OF assms counter_gc_value, of m1 m2 "rop_util_get_replid e" e]
    append_internal_ids [OF assms counter_gc_value, of m1 m2 "rop_util_get_replid e" e]
  show "idset_ok (snd (idset_append m1 m2 s e))" "m1 \<Longrightarrow> m2 \<Longrightarrow> fst (idset_append m1 m2 s e)"
    using a(1,2) by (simp_all add: idset_append_def)
  have "b_serialize s" "b_serialize (snd ?a)" using a(1) assms by (auto simp: idset_inv_def)
  with a(3) eid_eq_iff [of x e] show "idset_hint (snd (idset_append m1 m2 s e)) x \<longleftrightarrow>
       (fst (idset_append m1 m2 s e) \<and> x = e) \<or> idset_hint s x"
    by (auto simp: idset_append_def hint_iff split: if_splits)
qed

lemma remove_hint:
  assumes "idset_inv ranges_disjoint s"
  shows "idset_hint (idset_remove True s e) x \<longleftrightarrow> idset_hint s x \<and> x \<noteq> e"
proof -
  have "b_serialize s" "b_serialize (idset_remove True s e)"
    using assms by (auto simp: idset_inv_def idset_remove_def)
  with remove_ids(2) [OF assms, of e] eid_eq_iff [of x e] show ?thesis
    by (auto simp: hint_iff split: if_splits)
qed

lemma idset_ok_disjoint: "idset_ok s \<Longrightarrow> idset_inv ranges_disjoint s"
  using globset_ok_disjoint by (auto simp: idset_inv_def)

lemma init_ok: "idset_ok (idset_init True rt)" "\<not> idset_hint (idset_init True rt) e"
  by (simp_all add: idset_inv_def idset_init_def idset_hint_def)

end
