(* ===== verification/Idset_History.thy ===== *)
theory Idset_History
  imports Idset_Logic
begin

text \<open>
  What a set answers after any history of operations, beside the plain set of identifiers
  it stands for.  A step that keeps the range lists sorted may be an addition, a range above
  all counters of its replica, or the removal of an identifier that is not in the interior of
  a range; the last lemmas show what the code does after an interior removal.
\<close>

subsection \<open>The contract of a collection\<close>

definition idset_elems :: "idset \<Rightarrow> u64 set" where
  "idset_elems s = {e. idset_hint s e}"

lemma idset_collection:
  "id_collection idset_ok idset_elems (idset_append m1 m2)"
proof
  fix s e assume s: "idset_ok s"
  show "idset_ok (snd (idset_append m1 m2 s e))"
    by (rule append_hint(1) [OF s])
  show "fst (idset_append m1 m2 s e) \<Longrightarrow>
      idset_elems (snd (idset_append m1 m2 s e)) = insert e (idset_elems s)"
    "\<not> fst (idset_append m1 m2 s e) \<Longrightarrow>
      idset_elems (snd (idset_append m1 m2 s e)) = idset_elems s"
    using append_hint(2) [OF s, of m1 m2 e] by (auto simp: idset_elems_def)
qed

interpretation idset_lookup:
  id_lookup idset_ok idset_elems "idset_append m1 m2" "idset_init True rt" idset_hint
  for m1 m2 rt
  using idset_collection
  by (auto simp: id_lookup_def id_lookup_axioms_def init_ok idset_elems_def)

subsection \<open>Histories\<close>

definition in_interior :: "idset \<Rightarrow> u64 \<Rightarrow> bool" where
  "in_interior s e \<longleftrightarrow>
     (\<exists>n. find (has_replid (rop_util_get_replid e)) (repl_list s) = Some n \<and>
          splits (unat (rop_util_get_gc_value e)) (range_list n))"

definition eids :: "u16 \<Rightarrow> nat set \<Rightarrow> u64 set" where
  "eids r K = {e. rop_util_get_replid e = r \<and> unat (rop_util_get_gc_value e) \<in> K}"

inductive idset_built :: "idset \<Rightarrow> u64 set \<Rightarrow> bool" where
  init: "idset_built (idset_init True rt) {}"
| clear: "idset_built s E \<Longrightarrow> idset_built (idset_clear s) {}"
| append: "idset_built s E \<Longrightarrow> idset_append m1 m2 s e = (True, s') \<Longrightarrow> idset_built s' (insert e E)"
| refused: "idset_built s E \<Longrightarrow> idset_append m1 m2 s e = (False, s') \<Longrightarrow> idset_built s' E"
| range: "idset_built s E \<Longrightarrow> l \<le> h \<Longrightarrow> counter h \<Longrightarrow> \<forall>k \<in> ids s r. k < unat l \<Longrightarrow>
    idset_append_range True True s r l h = (True, s') \<Longrightarrow>
    idset_built s' (eids r {unat l..unat h} \<union> E)"
| remove: "idset_built s E \<Longrightarrow> \<not> in_interior s e \<Longrightarrow> idset_built (idset_remove m s e) (E - {e})"

inductive_cases idset_builtE: "idset_built s E"

lemma remove_no_split:
  "globset_ok g \<Longrightarrow> \<not> splits (unat v) g \<Longrightarrow> remove_value m v g = remove_value True v g"
proof (induction g)
  case (Cons n g)
  then have n: "lo n \<le> hi n" "\<not> splits (unat v) g" "\<not> (lo n < unat v \<and> unat v < hi n)"
    by (auto simp: range_ok_def splits_def)
  from n(1) show ?case
    by (cases rule: value_range_cases [where v = "unat v"])
      (use n Cons in \<open>simp_all add: remove_value_eqs [OF n(1)]\<close>)
qed simp

lemma on_found_cong:
  "(\<And>n. find (has_replid r) nodes = Some n \<Longrightarrow> f (range_list n) = g (range_list n)) \<Longrightarrow>
     on_found r f nodes = on_found r g nodes"
  by (induction nodes) auto

lemma remove_ok:
  assumes "idset_ok s" "\<not> in_interior s e"
  shows "idset_ok (idset_remove m s e)" "idset_remove m s e = idset_remove True s e"
proof -
  have s: "b_serialize s" "\<forall>n \<in> set (repl_list s). is_replid_node n \<and> globset_ok (range_list n)"
    using assms(1) by (auto simp: idset_inv_def)
  have split: "\<not> splits (unat (rop_util_get_gc_value e)) (range_list n)"
    if "find (has_replid (rop_util_get_replid e)) (repl_list s) = Some n" for n
    using assms(2) that by (auto simp: in_interior_def)
  show "idset_ok (idset_remove m s e)"
    using s on_found_nodes [OF s(2), where f = "remove_value m (rop_util_get_gc_value e)" and r = "rop_util_get_replid e"] split
    by (simp add: idset_inv_def idset_remove_def remove_value_sorted)
  show "idset_remove m s e = idset_remove True s e"
  proof -
    have "on_found (rop_util_get_replid e) (remove_value m (rop_util_get_gc_value e)) (repl_list s) =
      on_found (rop_util_get_replid e) (remove_value True (rop_util_get_gc_value e)) (repl_list s)"
    proof (rule on_found_cong)
      fix n assume n: "find (has_replid (rop_util_get_replid e)) (repl_list s) = Some n"
      show "remove_value m (rop_util_get_gc_value e) (range_list n) =
          remove_value True (rop_util_get_gc_value e) (range_list n)"
        by (rule remove_no_split [OF found_inv [OF assms(1) n] split [OF n]])
    qed
    then show ?thesis by (simp only: idset_remove_def)
  qed
qed

lemma append_range_hint:
  assumes "idset_ok s" "l \<le> h" "counter h" "\<forall>k \<in> ids s r. k < unat l"
  shows "idset_hint (snd (idset_append_range True True s r l h)) e \<longleftrightarrow>
    e \<in> eids r {unat l..unat h} \<or> idset_hint s e"
proof -
  note a = idset_append_range_above [OF assms]
  have "b_serialize s" "b_serialize (snd (idset_append_range True True s r l h))"
    using assms(1) a(2) by (auto simp: idset_inv_def)
  with a(3) show ?thesis by (auto simp: hint_iff eids_def)
qed

lemma built_ok: "idset_built s E \<Longrightarrow> idset_ok s \<and> idset_elems s = E"
proof (induction rule: idset_built.induct)
  case (clear s E)
  then show ?case by (auto simp: idset_inv_def idset_clear_def idset_elems_def idset_hint_def)
next
  case (append s E m1 m2 e s')
  then show ?case
    using append_hint [of s m1 m2 e] by (auto simp: idset_elems_def)
next
  case (refused s E m1 m2 e s')
  then show ?case
    using append_hint [of s m1 m2 e] by (auto simp: idset_elems_def)
next
  case (range s E l h r s')
  then show ?case
    using idset_append_range_above(2) [of s l h r] append_range_hint [of s l h r]
    by (auto simp: idset_elems_def)
next
  case (remove s E e m)
  then show ?case
    using remove_ok [of s e m] remove_hint [OF idset_ok_disjoint, of s e]
    by (auto simp: idset_elems_def)
qed (auto simp: init_ok idset_elems_def)

subsection \<open>The first values of a replica\<close>

lemma batch_ranges_memory: "fst (batch_ranges (\<lambda>_. True) g vs)"
  by (induction vs arbitrary: g) auto

lemma batch_ranges_sorted:
  assumes "globset_ok g" "\<forall>v \<in> set vs. counter v" "sorted_wrt (<) (map unat vs)"
    "\<forall>n \<in> set g. \<forall>v \<in> set vs. hi n < unat v"
  shows "globset_ok (snd (batch_ranges mem g vs))"
  using assms
proof (induction mem g vs rule: batch_ranges.induct)
  case (2 mem g v vs)
  show ?case
  proof (cases "g \<noteq> [] \<and> high_value (last g) + 1 = v")
    case True
    then have g: "g = butlast g @ [last g]" by simp
    with "2.prems"(1) have ok: "globset_ok (butlast g @ [last g])" by simp
    then have "range_ok (last g)" by (simp add: globset_ok_append)
    then have v: "unat v = hi (last g) + 1" using True range_okD(2) [of "last g"] by auto
    have "globset_ok (butlast g @ [(last g)\<lparr>high_value := v\<rparr>])"
      using ok "2.prems"(2) v by (auto simp: globset_ok_append range_ok_def)
    moreover have "\<forall>n \<in> set (butlast g @ [(last g)\<lparr>high_value := v\<rparr>]). \<forall>w \<in> set vs. hi n < unat w"
      using "2.prems"(3,4) by (auto dest: in_set_butlastD)
    ultimately show ?thesis
      using "2.IH"(1) [OF True] "2.prems"(2,3) True by simp
  next
    case False
    have "globset_ok (g @ [\<lparr>low_value = v, high_value = v\<rparr>])"
      using "2.prems" by (auto simp: globset_ok_append range_ok_make)
    with "2.IH"(2) [OF False] "2.prems" False show ?thesis by auto
  qed
qed simp

lemma find_snoc:
  "find P (xs @ [x]) = (case find P xs of None \<Rightarrow> if P x then Some x else None | Some y \<Rightarrow> Some y)"
  by (induction xs) auto

lemma batch_append_ids:
  assumes "b_serialize s" "vs \<noteq> []" "\<forall>v \<in> set vs. counter v"
    "find (has_replid r) (repl_list s) = None" "set (qsort idset_qsort_cmp vs) = set vs"
  shows "fst (idset_batch_append qsort True (\<lambda>_. True) s r vs) \<and>
    ids (snd (idset_batch_append qsort True (\<lambda>_. True) s r vs)) = (ids s)(r := unat ` set vs)"
proof -
  let ?g = "snd (batch_ranges (\<lambda>_. True) [] (qsort idset_qsort_cmp vs))"
  have "\<not> list_ex (has_replid r) (repl_list s)"
    using assms(4) by (auto simp: find_None_iff list_ex_iff)
  then have e: "idset_batch_append qsort True (\<lambda>_. True) s r vs =
      (True, s\<lparr>repl_list := repl_list s @ [REPLID_NODE r ?g]\<rparr>)"
    using assms(1,2) batch_ranges_memory [of "[]"]
    by (simp add: idset_batch_append_def Let_def case_prod_beta prod_eq_iff)
  have "members ?g = unat ` set vs"
    using batch_ranges_members [of "[]" "qsort idset_qsort_cmp vs" "\<lambda>_. True"] assms(3,5) batch_ranges_memory
    by simp
  with assms(4) show ?thesis
    unfolding e by (auto simp: fun_eq_iff ids_def find_snoc split: option.splits)
qed

text \<open>Below a distance of \<open>2 ^ 31\<close> the comparison for \<open>qsort\<close> has the right sign.\<close>

lemma qsort_cmp_near:
  assumes "\<bar>int (unat v) - int (unat w)\<bar> < 2 ^ 31"
  shows "idset_qsort_cmp v w = int (unat v) - int (unat w)"
proof -
  let ?d = "int (unat v) - int (unat w)"
  have d: "v - w = word_of_int ?d" by transfer simp
  have "(ucast (word_of_int i :: u64) :: u32) = word_of_int i" for i
    by transfer (simp add: take_bit_take_bit)
  then have "idset_qsort_cmp v w = signed_take_bit 31 ?d"
    by (simp only: idset_qsort_cmp_def d sint_sbintrunc') simp
  also have "\<dots> = ?d"
    using assms by (intro signed_take_bit_int_eq_self) auto
  finally show ?thesis .
qed

subsection \<open>Replicas are found once\<close>

lemma on_replid_distinct:
  "distinct_replids nodes \<Longrightarrow> \<forall>n \<in> set nodes. is_replid_node n \<Longrightarrow>
     distinct_replids (snd (on_replid m r f nodes))"
proof (induction nodes)
  case (Cons n nodes)
  then obtain k g where n: "n = REPLID_NODE k g" by (cases n) auto
  with Cons show ?case
    by (auto simp: case_prod_beta find_on_replid_other)
qed (simp add: case_prod_beta)

lemma on_found_distinct:
  "distinct_replids nodes \<Longrightarrow> \<forall>n \<in> set nodes. is_replid_node n \<Longrightarrow>
     distinct_replids (on_found r f nodes)"
proof (induction nodes)
  case (Cons n nodes)
  then obtain k g where n: "n = REPLID_NODE k g" by (cases n) auto
  with Cons show ?case
    by (auto simp: find_on_found)
qed simp

lemma built_distinct: "idset_built s E \<Longrightarrow> distinct_replids (repl_list s)"
proof (induction rule: idset_built.induct)
  case (append s E m1 m2 e s')
  then have "b_serialize s" "\<forall>n \<in> set (repl_list s). is_replid_node n"
    using built_ok by (auto simp: idset_inv_def)
  with append show ?case
    by (auto simp: idset_append_def append_internal_step on_replid_distinct)
next
  case (refused s E m1 m2 e s')
  then have "b_serialize s" "\<forall>n \<in> set (repl_list s). is_replid_node n"
    using built_ok by (auto simp: idset_inv_def)
  with refused show ?case
    by (auto simp: idset_append_def append_internal_step on_replid_distinct)
next
  case (range s E l h r s')
  then have "b_serialize s" "\<forall>n \<in> set (repl_list s). is_replid_node n"
    using built_ok by (auto simp: idset_inv_def)
  with range show ?case
    by (auto simp: append_range_step on_replid_distinct)
next
  case (remove s E e m)
  then have "b_serialize s" "\<forall>n \<in> set (repl_list s). is_replid_node n"
    using built_ok by (auto simp: idset_inv_def)
  with remove show ?case
    by (auto simp: idset_remove_def on_found_distinct)
qed (simp_all add: idset_init_def idset_clear_def)

end
