(* ===== verification/Idset_Roundtrip.thy ===== *)
theory Idset_Roundtrip
  imports Idset_Codec Idset_History
begin

text \<open>
  Writing range lists and sets and reading them back.  The first part says which bytes the
  writer appends, the second what the reader does on each kind of command, the third puts
  them together for sorted lists of ranges.
\<close>

subsection \<open>What is written\<close>

definition writes_bin :: "idset_writer \<Rightarrow> bytes \<Rightarrow> bool" where
  "writes_bin w bs \<longleftrightarrow>
     (\<forall>s. heap s = (\<lambda>_. True) \<longrightarrow> w s = (Inr (), s \<lparr>bin := bin s @ bs\<rparr>))"

lemma heap_all_shift: "heap s = (\<lambda>_. True) \<Longrightarrow> s\<lparr>bin := b, heap := \<lambda>k. heap s (Suc k)\<rparr> = s\<lparr>bin := b\<rparr>"
  by (cases s) simp

lemma writes_bin_write: "writes_bin (idset_write_to_binary bs) bs"
  by (auto simp: writes_bin_def idset_write_to_binary_def Let_def heap_all_shift)

lemma writes_bin_ret: "writes_bin (ret ()) []"
  by (simp add: writes_bin_def ret_def)

lemma writes_bin_seq: "writes_bin v bs \<Longrightarrow> writes_bin w cs \<Longrightarrow> writes_bin (seq v w) (bs @ cs)"
  by (auto simp: writes_bin_def seq_def bnd_def)

lemma writes_bin_if:
  "(c \<Longrightarrow> writes_bin v bs) \<Longrightarrow> (\<not> c \<Longrightarrow> writes_bin w cs) \<Longrightarrow>
     writes_bin (if c then v else w) (if c then bs else cs)"
  by simp

lemma writes_bin_for_each:
  "(\<And>x. x \<in> set xs \<Longrightarrow> writes_bin (f x) (g x)) \<Longrightarrow> writes_bin (for_each f xs) (concat (map g xs))"
  by (induction xs) (auto simp: writes_bin_ret intro: writes_bin_seq)

definition push_bytes :: "nat \<Rightarrow> bytes \<Rightarrow> bytes" where
  "push_bytes n bs = of_nat n # take n bs"

definition range_bytes :: "nat \<Rightarrow> bytes \<Rightarrow> bytes \<Rightarrow> bytes" where
  "range_bytes n bs cs = 0x52 # take n bs @ take n cs"

definition node_bytes :: "nat \<Rightarrow> range_node \<Rightarrow> bytes" where
  "node_bytes sl n =
     (let gl = drop sl (rop_util_value_to_gc (low_value n));
          gh = drop sl (rop_util_value_to_gc (high_value n));
          i = common_length gl gh
      in if high_value n = low_value n then push_bytes (6 - sl) gl
         else (if i = 0 then [] else push_bytes i gl) @
           range_bytes (6 - (sl + i)) (drop i gl) (drop i gh) @ (if i = 0 then [] else [0x50]))"

definition globset_bytes :: "globset \<Rightarrow> bytes" where
  "globset_bytes g =
     (case g of
        [n] \<Rightarrow>
          (if high_value n = low_value n then push_bytes 6 (rop_util_value_to_gc (low_value n))
           else range_bytes 6 (rop_util_value_to_gc (low_value n)) (rop_util_value_to_gc (high_value n))) @ [0]
      | _ \<Rightarrow>
          (let gl = rop_util_value_to_gc (low_value (hd g));
               sl = common_length gl (rop_util_value_to_gc (high_value (last g)))
           in (if sl = 0 then [] else push_bytes sl gl) @ concat (map (node_bytes sl) g) @
              (if sl = 0 then [] else [0x50]) @ [0]))"

lemma common_length_le: "common_length as bs \<le> length as" "common_length as bs \<le> length bs"
  by (induction as bs rule: common_length.induct) auto

lemma common_length_take: "n \<le> common_length as bs \<Longrightarrow> take n as = take n bs"
  by (induction as bs arbitrary: n rule: common_length.induct) (auto simp: take_Cons' split: if_splits)

lemma common_length_full: "length as = length bs \<Longrightarrow> common_length as bs = length as \<longleftrightarrow> as = bs"
  by (induction as bs rule: common_length.induct) auto

lemma writes_bin_push:
  "n \<le> 6 \<Longrightarrow> writes_bin (idset_encoding_push_command n bs) (push_bytes n bs)"
  using writes_bin_seq [OF writes_bin_write writes_bin_write, of "[of_nat n]" "take n bs"]
  by (simp add: idset_encoding_push_command_def push_bytes_def)

lemma writes_bin_range:
  "0 < n \<Longrightarrow> n \<le> 6 \<Longrightarrow> writes_bin (idset_encode_range_command n bs cs) (range_bytes n bs cs)"
  using writes_bin_seq [OF writes_bin_write writes_bin_seq [OF writes_bin_write writes_bin_write],
      of "[0x52]" "take n bs" "take n cs"]
  by (simp add: idset_encode_range_command_def range_bytes_def)

lemma writes_bin_commands:
  "writes_bin idset_encoding_pop_command [0x50]" "writes_bin idset_encode_end_command [0]"
  by (simp_all add: idset_encoding_pop_command_def idset_encode_end_command_def writes_bin_write)

text \<open>The counter of a value and the value of a counter.\<close>

lemma gc_value: "counter v \<Longrightarrow> rop_util_gc_to_value (rop_util_value_to_gc v) = v"
  by (simp add: value_to_gc_to_value counter_def word_unat_eq_iff unsigned_take_bit_eq take_bit_nat_eq_self)

lemma gc_eq_iff: "counter v \<Longrightarrow> counter w \<Longrightarrow> rop_util_value_to_gc v = rop_util_value_to_gc w \<longleftrightarrow> v = w"
  by (metis gc_value)

lemma common_less:
  assumes "counter v" "counter w" "v \<noteq> w"
  shows "common_length (rop_util_value_to_gc v) (rop_util_value_to_gc w) < 6"
  using common_length_full [of "rop_util_value_to_gc v" "rop_util_value_to_gc w"]
    common_length_le(1) [of "rop_util_value_to_gc v" "rop_util_value_to_gc w"] assms
  by (auto simp: gc_eq_iff le_less)

lemma common_drop_less:
  assumes "counter v" "counter w" "v \<noteq> w" "sl \<le> 5"
    "take sl (rop_util_value_to_gc v) = take sl (rop_util_value_to_gc w)"
  shows "sl + common_length (drop sl (rop_util_value_to_gc v)) (drop sl (rop_util_value_to_gc w)) < 6"
proof -
  have "drop sl (rop_util_value_to_gc v) \<noteq> drop sl (rop_util_value_to_gc w)"
    using assms by (metis append_take_drop_id gc_eq_iff)
  then show ?thesis
    using common_length_full [of "drop sl (rop_util_value_to_gc v)" "drop sl (rop_util_value_to_gc w)"]
      common_length_le(1) [of "drop sl (rop_util_value_to_gc v)" "drop sl (rop_util_value_to_gc w)"] assms(4)
    by (auto simp: le_less)
qed

lemma writes_bin_node:
  assumes "range_ok n" "sl \<le> 5"
    "take sl (rop_util_value_to_gc (low_value n)) = take sl (rop_util_value_to_gc (high_value n))"
  shows "writes_bin (encode_range_node sl n) (node_bytes sl n)"
proof (cases "high_value n = low_value n")
  case True
  then show ?thesis
    by (simp add: encode_range_node_def node_bytes_def writes_bin_push)
next
  case False
  let ?gl = "drop sl (rop_util_value_to_gc (low_value n))"
  let ?gh = "drop sl (rop_util_value_to_gc (high_value n))"
  define i where "i = common_length ?gl ?gh"
  have i: "sl + i < 6"
    using common_drop_less [OF range_okD(3) [OF assms(1)] range_okD(2) [OF assms(1)] _ assms(2,3)] False
    by (auto simp: i_def)
  have "writes_bin (if sl \<noteq> sl + i then idset_encoding_push_command i ?gl else ret ())
      (if i = 0 then [] else push_bytes i ?gl)"
    using i by (auto simp: writes_bin_ret intro: writes_bin_push)
  moreover have "writes_bin (if sl \<noteq> sl + i then idset_encoding_pop_command else ret ())
      (if i = 0 then [] else [0x50])"
    by (auto simp: writes_bin_ret writes_bin_commands)
  moreover have "writes_bin (idset_encode_range_command (6 - (sl + i)) (drop i ?gl) (drop i ?gh))
      (range_bytes (6 - (sl + i)) (drop i ?gl) (drop i ?gh))"
    using i by (intro writes_bin_range) auto
  ultimately have "writes_bin (seq (if sl \<noteq> sl + i then idset_encoding_push_command i ?gl else ret ())
      (seq (idset_encode_range_command (6 - (sl + i)) (drop i ?gl) (drop i ?gh))
        (if sl \<noteq> sl + i then idset_encoding_pop_command else ret ())))
      ((if i = 0 then [] else push_bytes i ?gl) @
       range_bytes (6 - (sl + i)) (drop i ?gl) (drop i ?gh) @ (if i = 0 then [] else [0x50]))"
    by (intro writes_bin_seq)
  with False show ?thesis
    by (simp add: encode_range_node_def node_bytes_def Let_def add.commute
        split del: if_split cong: if_cong flip: i_def)
qed

subsection \<open>Which bytes a list of ranges has in common\<close>

lemma bit_gc:
  assumes "i < 6" "k < 8"
  shows "bit (rop_util_value_to_gc v ! i) k \<longleftrightarrow> bit v (8 * (5 - i) + k)"
proof -
  have "rop_util_value_to_gc v ! i = SBVAL v ! (5 - i)"
    using assms(1) by (simp add: value_to_gc_rev rev_nth)
  then show ?thesis using assms bit_SBVAL [of "5 - i" k v] by simp
qed

lemma take_gc_iff:
  assumes "counter v" "counter w" "m \<le> 6"
  shows "take m (rop_util_value_to_gc v) = take m (rop_util_value_to_gc w) \<longleftrightarrow>
    unat v div 2 ^ (8 * (6 - m)) = unat w div 2 ^ (8 * (6 - m))"
proof -
  have high: "\<not> bit v n" "\<not> bit w n" if "48 \<le> n" for n
  proof -
    have "v = take_bit 48 v" "w = take_bit 48 w"
      using assms(1,2) by (simp_all add: counter_def word_unat_eq_iff unsigned_take_bit_eq take_bit_nat_eq_self)
    then show "\<not> bit v n" "\<not> bit w n" using that by (metis bit_take_bit_iff not_less)+
  qed
  have "take m (rop_util_value_to_gc v) = take m (rop_util_value_to_gc w) \<longleftrightarrow>
      (\<forall>i < m. \<forall>k < 8. bit v (8 * (5 - i) + k) = bit w (8 * (5 - i) + k))"
  proof -
    have "take m (rop_util_value_to_gc v) = take m (rop_util_value_to_gc w) \<longleftrightarrow>
        (\<forall>i < m. rop_util_value_to_gc v ! i = rop_util_value_to_gc w ! i)"
      using assms(3) by (auto simp: list_eq_iff_nth_eq)
    also have "\<dots> \<longleftrightarrow> (\<forall>i < m. \<forall>k < 8. bit (rop_util_value_to_gc v ! i) k = bit (rop_util_value_to_gc w ! i) k)"
      by (auto simp: bit_eq_iff bit_imp_le_length) 
    finally show ?thesis using assms(3) by (auto simp: bit_gc)
  qed
  also have "\<dots> \<longleftrightarrow> (\<forall>n \<ge> 8 * (6 - m). bit v n = bit w n)"
  proof (rule iffI; intro allI impI)
    fix n assume *: "\<forall>i < m. \<forall>k < 8. bit v (8 * (5 - i) + k) = bit w (8 * (5 - i) + k)" "8 * (6 - m) \<le> n"
    show "bit v n = bit w n"
    proof (cases "n < 48")
      case True
      then have "n div 8 \<le> 5" by linarith
      then have "5 - n div 8 < m" "n mod 8 < 8" "8 * (5 - (5 - n div 8)) + n mod 8 = n"
        using *(2) assms(3) by (linarith, simp, simp)
      then show ?thesis using *(1) by metis
    next
      case False
      then show ?thesis using high [of n] by simp
    qed
  next
    fix i k :: nat assume *: "\<forall>n \<ge> 8 * (6 - m). bit v n = bit w n" "i < m" "k < 8"
    have "8 * (6 - m) \<le> 8 * (5 - i) + k" using *(2) assms(3) by linarith
    then show "bit v (8 * (5 - i) + k) = bit w (8 * (5 - i) + k)" using *(1) by blast
  qed
  also have "\<dots> \<longleftrightarrow> drop_bit (8 * (6 - m)) (unat v) = drop_bit (8 * (6 - m)) (unat w)"
  proof -
    have "(\<forall>n \<ge> 8 * (6 - m). bit v n = bit w n) \<longleftrightarrow>
        (\<forall>n. bit v (8 * (6 - m) + n) = bit w (8 * (6 - m) + n))"
      by (metis le_add1 le_add_diff_inverse)
    then show ?thesis by (simp add: bit_eq_iff bit_drop_bit_eq bit_unsigned_iff)
  qed
  finally show ?thesis by (simp add: drop_bit_eq_div)
qed

lemma take_gc_between:
  assumes "counter u" "counter w" "m \<le> 6" "unat u \<le> unat v" "unat v \<le> unat w"
    "take m (rop_util_value_to_gc u) = take m (rop_util_value_to_gc w)"
  shows "take m (rop_util_value_to_gc v) = take m (rop_util_value_to_gc u)"
proof -
  have v: "counter v" using assms(2,5) by (simp add: counter_def)
  have "unat u div 2 ^ (8 * (6 - m)) \<le> unat v div 2 ^ (8 * (6 - m))"
    "unat v div 2 ^ (8 * (6 - m)) \<le> unat w div 2 ^ (8 * (6 - m))"
    using assms(4,5) by (simp_all add: div_le_mono)
  then show ?thesis
    using assms(1-3,6) v by (simp add: take_gc_iff)
qed

lemma globset_between:
  assumes "globset_ok g" "n \<in> set g"
  shows "lo (hd g) \<le> lo n" "hi n \<le> hi (last g)"
proof -
  show "lo (hd g) \<le> lo n"
    using assms by (cases g) (auto simp: range_ok_def dest!: bspec)
  show "hi n \<le> hi (last g)"
    using assms
  proof (induction g)
    case (Cons a g)
    show ?case
    proof (cases "g = []")
      case False
      then have last: "last g \<in> set g" by simp
      then have "range_ok (last g)" "hi a < lo (last g)"
        using Cons.prems(1) by (auto simp: globset_ok_def list_all_iff)
      then have "hi a \<le> hi (last g)" using range_okD(1) by fastforce
      with Cons False show ?thesis by auto
    qed (use Cons in auto)
  qed simp
qed

text \<open>The common bytes of a sorted list of at least two ranges.\<close>

lemma globset_common:
  assumes "globset_ok g" "2 \<le> length g" "n \<in> set g"
    and sl: "sl = common_length (rop_util_value_to_gc (low_value (hd g))) (rop_util_value_to_gc (high_value (last g)))"
  shows "sl \<le> 5"
    "take sl (rop_util_value_to_gc (low_value n)) = take sl (rop_util_value_to_gc (low_value (hd g)))"
    "take sl (rop_util_value_to_gc (high_value n)) = take sl (rop_util_value_to_gc (low_value (hd g)))"
proof -
  have ends: "hd g \<in> set g" "last g \<in> set g" "g \<noteq> []" using assms(2) by (cases g; simp)+
  have ok: "range_ok (hd g)" "range_ok (last g)" "range_ok n"
    using assms(1,3) ends by (auto simp: globset_ok_def list_all_iff)
  obtain a b g' where g: "g = a # b # g'" using assms(2) by (cases g; cases "tl g") auto
  have "hi a < lo b" "lo b \<le> hi b" "hi b \<le> hi (last g)"
    using assms(1) globset_between(2) [OF assms(1), of b] g by (auto simp: range_ok_def)
  then have ne: "low_value (hd g) \<noteq> high_value (last g)"
    using assms(1) g by (auto simp: range_ok_def)
  then show "sl \<le> 5"
    using common_less [OF range_okD(3) [OF ok(1)] range_okD(2) [OF ok(2)]] sl by simp
  have common: "take sl (rop_util_value_to_gc (low_value (hd g))) = take sl (rop_util_value_to_gc (high_value (last g)))"
    by (rule common_length_take) (simp add: sl)
  have m: "sl \<le> 6" using \<open>sl \<le> 5\<close> by simp
  note between = take_gc_between [OF range_okD(3) [OF ok(1)] range_okD(2) [OF ok(2)] m _ _ common]
  show "take sl (rop_util_value_to_gc (low_value n)) = take sl (rop_util_value_to_gc (low_value (hd g)))"
    "take sl (rop_util_value_to_gc (high_value n)) = take sl (rop_util_value_to_gc (low_value (hd g)))"
    by (rule between; use globset_between [OF assms(1,3)] range_okD(1) [OF ok(3)] in linarith)+
qed

lemma many_ranges:
  assumes "2 \<le> length g"
  shows "idset_encoding_globset g =
     (let common_bytes = rop_util_value_to_gc (low_value (hd g));
          stack_length = common_length common_bytes (rop_util_value_to_gc (high_value (last g)))
      in seq (if stack_length \<noteq> 0
              then idset_encoding_push_command stack_length common_bytes else ret ())
           (seq (for_each (encode_range_node stack_length) g)
              (seq (if stack_length \<noteq> 0 then idset_encoding_pop_command else ret ())
                 idset_encode_end_command)))"
    "globset_bytes g =
     (let gl = rop_util_value_to_gc (low_value (hd g));
          sl = common_length gl (rop_util_value_to_gc (high_value (last g)))
      in (if sl = 0 then [] else push_bytes sl gl) @ concat (map (node_bytes sl) g) @
         (if sl = 0 then [] else [0x50]) @ [0])"
proof -
  obtain a b g' where g: "g = a # b # g'" using assms by (cases g; cases "tl g") auto
  show "idset_encoding_globset g =
     (let common_bytes = rop_util_value_to_gc (low_value (hd g));
          stack_length = common_length common_bytes (rop_util_value_to_gc (high_value (last g)))
      in seq (if stack_length \<noteq> 0
              then idset_encoding_push_command stack_length common_bytes else ret ())
           (seq (for_each (encode_range_node stack_length) g)
              (seq (if stack_length \<noteq> 0 then idset_encoding_pop_command else ret ())
                 idset_encode_end_command)))"
    unfolding g idset_encoding_globset_def list.case by (rule refl)
  show "globset_bytes g =
     (let gl = rop_util_value_to_gc (low_value (hd g));
          sl = common_length gl (rop_util_value_to_gc (high_value (last g)))
      in (if sl = 0 then [] else push_bytes sl gl) @ concat (map (node_bytes sl) g) @
         (if sl = 0 then [] else [0x50]) @ [0])"
    unfolding g globset_bytes_def list.case by (rule refl)
qed

lemma writes_bin_globset:
  assumes "globset_ok g" "g \<noteq> []"
  shows "writes_bin (idset_encoding_globset g) (globset_bytes g)"
proof (cases "length g = 1")
  case True
  then obtain n where g: "g = [n]" by (cases g) auto
  then show ?thesis
    by (auto simp: idset_encoding_globset_def globset_bytes_def
        intro!: writes_bin_seq writes_bin_push writes_bin_range writes_bin_commands)
next
  case False
  with assms(2) have len: "2 \<le> length g" by (cases g) (auto simp: Suc_le_eq)
  define sl where "sl = common_length (rop_util_value_to_gc (low_value (hd g))) (rop_util_value_to_gc (high_value (last g)))"
  have "writes_bin (encode_range_node sl n) (node_bytes sl n)" if "n \<in> set g" for n
    using globset_common [OF assms(1) len that sl_def] assms(1) that
    by (intro writes_bin_node) (auto simp: globset_ok_def list_all_iff)
  then have each: "writes_bin (for_each (encode_range_node sl) g) (concat (map (node_bytes sl) g))"
    by (rule writes_bin_for_each)
  have "sl \<le> 5" using globset_common(1) [OF assms(1) len _ sl_def] len by (cases g) auto
  then have "writes_bin (if sl \<noteq> 0 then idset_encoding_push_command sl (rop_util_value_to_gc (low_value (hd g))) else ret ())
      (if sl = 0 then [] else push_bytes sl (rop_util_value_to_gc (low_value (hd g))))"
    "writes_bin (if sl \<noteq> 0 then idset_encoding_pop_command else ret ()) (if sl = 0 then [] else [0x50])"
    by (auto simp: writes_bin_ret writes_bin_commands intro: writes_bin_push)
  from writes_bin_seq [OF this(1) writes_bin_seq [OF each writes_bin_seq [OF this(2) writes_bin_commands(2)]]]
  show ?thesis
    unfolding many_ranges [OF len] Let_def sl_def [symmetric] .
qed

subsection \<open>What is read\<close>

definition reader_at :: "nat \<Rightarrow> bytes list \<Rightarrow> globset \<Rightarrow> globset_reader" where
  "reader_at p K g = \<lparr>offset = p, stack = K, ranges = g, mallocs = (\<lambda>_. True)\<rparr>"

text \<open>The bytes \<open>bs\<close> take the reader from one stack and list of ranges to the next.\<close>

definition reads_bin :: "bytes \<Rightarrow> bytes list \<Rightarrow> globset \<Rightarrow> bytes list \<Rightarrow> globset \<Rightarrow> bool" where
  "reads_bin bs K g K' g' \<longleftrightarrow>
     (\<forall>pb p rest. drop p pb = bs @ rest \<longrightarrow>
        decode_loop pb (reader_at p K g) = decode_loop pb (reader_at (p + length bs) K' g'))"

lemma reads_bin_nil: "reads_bin [] K g K g"
  by (simp add: reads_bin_def)

lemma reads_bin_append:
  assumes "reads_bin bs K g K' g'" "reads_bin cs K' g' K'' g''"
  shows "reads_bin (bs @ cs) K g K'' g''"
  unfolding reads_bin_def
proof (intro allI impI)
  fix pb :: bytes and p rest assume d: "drop p pb = (bs @ cs) @ rest"
  then have "drop (p + length bs) pb = cs @ rest"
    by (metis append.assoc append_eq_conv_conj drop_drop add.commute)
  with d assms show "decode_loop pb (reader_at p K g) = decode_loop pb (reader_at (p + length (bs @ cs)) K'' g'')"
    unfolding reads_bin_def by (simp add: add.assoc)
qed

lemma drop_Cons_length: "drop p pb = c # rest \<Longrightarrow> p < length pb"
  by (metis drop_all list.distinct(1) not_less)

lemma drop_append_length: "drop p pb = bs @ rest \<Longrightarrow> bs \<noteq> [] \<Longrightarrow> p + length bs \<le> length pb"
  using drop_Cons_length by (metis add.commute length_append length_drop le_add1 le_add_diff_inverse
      less_imp_le_nat neq_Nil_conv append_Cons nat_add_left_cancel_le)

lemma take_bytes_at:
  assumes "drop p pb = bs @ rest" "length bs = n" "n \<noteq> 0"
  shows "take_bytes pb n (reader_at p K g) = (Inr bs, reader_at (p + n) K g)"
proof -
  have "p + n \<le> length pb" using drop_append_length [OF assms(1)] assms(2,3) by auto
  with assms show ?thesis by (simp add: take_bytes_def reader_at_def)
qed

lemma malloc_at [simp]: "malloc (reader_at p K g) = (Inr True, reader_at p K g)"
  by (simp add: malloc_def reader_at_def)

lemma add_range_at [simp]: "add_range n (reader_at p K g) = (Inr (), reader_at p K (g @ [n]))"
  by (simp add: add_range_def modify_def reader_at_def)

lemma pop_at [simp]: "idset_statck_pop (reader_at p K g) = (Inr (), reader_at p (butlast K) g)"
  by (simp add: idset_statck_pop_def modify_def reader_at_def)

lemma push_at [simp]: "idset_statck_push bs (reader_at p K g) = (Inr (), reader_at p (K @ [bs]) g)"
  by (simp add: idset_statck_push_def bnd_def modify_def malloc_def reader_at_def)

lemma common_at [simp]:
  "idset_statck_get_common_bytes (reader_at p K g) =
     (if length (concat K) > 6 then Inl (FAULT UNDEFINED_BEHAVIOUR) else Inr (concat K), reader_at p K g)"
  by (simp add: idset_statck_get_common_bytes_def bnd_def gets_def fail_def ret_def reader_at_def)

lemma loop_at:
  assumes "drop p pb = c # rest"
    "decode_command pb (reader_at p K g) = (Inr (), s')"
  shows "decode_loop pb (reader_at p K g) = decode_loop pb s'"
  using drop_Cons_length [OF assms(1)] assms(2)
  by (subst decode_loop.simps) (simp add: reader_at_def)

lemma command_at:
  assumes "drop p pb = c # rest"
  shows "decode_command pb (reader_at p K g) =
    (if c = 0 then bnd (gets offset) (\<lambda>n. fail (RETURN n))
     else if c \<le> 6 then decode_push pb (unat c)
     else if c = 0x42 then decode_bitmask pb
     else if c = 0x50 then idset_statck_pop
     else if c = 0x52 then decode_range pb
     else ret ()) (reader_at (p + 1) K g)"
  using take_bytes_at [of p pb "[c]" rest 1 K g] assms
  by (simp add: decode_command_def bnd_def Let_def)

lemma drop_Suc_tail: "drop p pb = c # rest \<Longrightarrow> drop (p + 1) pb = rest"
  by (metis Suc_eq_plus1 drop_Suc list.sel(3) tl_drop)

lemma small_command:
  assumes "1 \<le> n" "n \<le> 6"
  shows "(of_nat n :: u8) \<noteq> 0" "(of_nat n :: u8) \<le> 6" "unat (of_nat n :: u8) = n"
proof -
  show u: "unat (of_nat n :: u8) = n" using assms by (simp add: unsigned_of_nat take_bit_nat_eq_self)
  show "(of_nat n :: u8) \<noteq> 0" "(of_nat n :: u8) \<le> 6"
    using u assms by (auto simp: word_le_nat_alt word_unat_eq_iff)
qed

lemma reads_bin_push:
  assumes "1 \<le> n" "n \<le> length bs" "length (concat K) + n < 6"
  shows "reads_bin (push_bytes n bs) K g (K @ [take n bs]) g"
  unfolding reads_bin_def push_bytes_def
proof (intro allI impI)
  fix pb :: bytes and p rest assume d: "drop p pb = (of_nat n # take n bs) @ rest"
  then have d': "drop p pb = of_nat n # take n bs @ rest" by simp
  note t = take_bytes_at [OF drop_Suc_tail [OF d'], of n]
  have "decode_command pb (reader_at p K g) = (Inr (), reader_at (p + 1 + n) (K @ [take n bs]) g)"
    using assms small_command [of n] t
    by (simp add: command_at [OF d'] decode_push_def bnd_def seq_def ret_def)
  from loop_at [OF d' this] assms show "decode_loop pb (reader_at p K g) =
      decode_loop pb (reader_at (p + length (of_nat n # take n bs)) (K @ [take n bs]) g)"
    by (simp add: min_def)
qed

lemma reads_bin_value:
  assumes "1 \<le> n" "n \<le> length bs" "length (concat K) + n = 6"
  shows "reads_bin (push_bytes n bs) K g K
    (g @ [\<lparr>low_value = rop_util_gc_to_value (concat K @ take n bs),
           high_value = rop_util_gc_to_value (concat K @ take n bs)\<rparr>])"
  unfolding reads_bin_def push_bytes_def
proof (intro allI impI)
  fix pb :: bytes and p rest assume d: "drop p pb = (of_nat n # take n bs) @ rest"
  then have d': "drop p pb = of_nat n # take n bs @ rest" by simp
  note t = take_bytes_at [OF drop_Suc_tail [OF d'], of n]
  let ?v = "rop_util_gc_to_value (concat K @ take n bs)"
  have "n \<le> 6" using assms(3) by simp
  then have "decode_command pb (reader_at p K g) =
      (Inr (), reader_at (p + 1 + n) K (g @ [\<lparr>low_value = ?v, high_value = ?v\<rparr>]))"
    using assms small_command [of n] t
    by (simp add: command_at [OF d'] decode_push_def bnd_def seq_def ret_def Let_def)
  from loop_at [OF d' this] assms show "decode_loop pb (reader_at p K g) =
      decode_loop pb (reader_at (p + length (of_nat n # take n bs)) K (g @ [\<lparr>low_value = ?v, high_value = ?v\<rparr>]))"
    by (simp add: min_def)
qed

lemma reads_bin_range:
  assumes "length (concat K) \<le> 5" "length (concat K) + n = 6" "length bs = n" "length cs = n"
  shows "reads_bin (range_bytes n bs cs) K g K
    (g @ [\<lparr>low_value = rop_util_gc_to_value (concat K @ bs),
           high_value = rop_util_gc_to_value (concat K @ cs)\<rparr>])"
  unfolding reads_bin_def range_bytes_def
proof (intro allI impI)
  fix pb :: bytes and p rest assume d: "drop p pb = (0x52 # take n bs @ take n cs) @ rest"
  then have d': "drop p pb = 0x52 # bs @ cs @ rest" using assms by simp
  have n: "6 - length (concat K) = n" "n \<noteq> 0" using assms by auto
  have t: "take_bytes pb n (reader_at (p + 1) K g) = (Inr bs, reader_at (p + 1 + n) K g)"
    using take_bytes_at [OF drop_Suc_tail [OF d'] assms(3) n(2)] by simp
  have "drop (p + 1 + n) pb = cs @ rest"
    using drop_Suc_tail [OF d'] assms(3) by (metis append_eq_conv_conj drop_drop add.commute)
  from take_bytes_at [OF this assms(4) n(2)]
  have t': "take_bytes pb n (reader_at (p + 1 + n) K g) = (Inr cs, reader_at (p + 1 + n + n) K g)" by simp
  have "decode_command pb (reader_at p K g) =
      (Inr (), reader_at (p + 1 + n + n) K (g @ [\<lparr>low_value = rop_util_gc_to_value (concat K @ bs),
           high_value = rop_util_gc_to_value (concat K @ cs)\<rparr>]))"
    using assms t t' n by (simp add: command_at [OF d'] decode_range_def bnd_def)
  from loop_at [OF d' this] assms show "decode_loop pb (reader_at p K g) =
      decode_loop pb (reader_at (p + length (0x52 # take n bs @ take n cs)) K
        (g @ [\<lparr>low_value = rop_util_gc_to_value (concat K @ bs),
           high_value = rop_util_gc_to_value (concat K @ cs)\<rparr>]))"
    by (simp add: algebra_simps)
qed

lemma reads_bin_pop: "reads_bin [0x50] (K @ [bs]) g K g"
  unfolding reads_bin_def
proof (intro allI impI)
  fix pb :: bytes and p rest assume d: "drop p pb = [0x50] @ rest"
  then have d': "drop p pb = 0x50 # rest" by simp
  have "decode_command pb (reader_at p (K @ [bs]) g) = (Inr (), reader_at (p + 1) K g)"
    by (simp add: command_at [OF d'] word_le_nat_alt)
  from loop_at [OF d' this] show "decode_loop pb (reader_at p (K @ [bs]) g) =
      decode_loop pb (reader_at (p + length [0x50 :: u8]) K g)" by simp
qed

lemma loop_end:
  assumes "drop p pb = 0 # rest"
  shows "decode_loop pb (reader_at p K g) = (RETURN (p + 1), reader_at (p + 1) K g)"
proof -
  have "decode_command pb (reader_at p K g) = (Inl (RETURN (p + 1)), reader_at (p + 1) K g)"
    by (simp add: command_at [OF assms] bnd_def gets_def fail_def) (simp add: reader_at_def)
  with drop_Cons_length [OF assms] show ?thesis
    by (subst decode_loop.simps) (simp add: reader_at_def)
qed

subsection \<open>A list of ranges\<close>

lemma range_eta [simp]: "\<lparr>low_value = low_value n, high_value = high_value n\<rparr> = (n :: range_node)"
  by (cases n) simp

lemma range_same: "high_value n = low_value n \<Longrightarrow> \<lparr>low_value = low_value n, high_value = low_value n\<rparr> = n"
  by (cases n) simp

lemma reads_bin_node:
  assumes "range_ok n" "sl \<le> 5"
    "concat K = take sl (rop_util_value_to_gc (low_value n))"
    "take sl (rop_util_value_to_gc (low_value n)) = take sl (rop_util_value_to_gc (high_value n))"
  shows "reads_bin (node_bytes sl n) K g K (g @ [n])"
proof -
  define gl gh where "gl = drop sl (rop_util_value_to_gc (low_value n))"
    and "gh = drop sl (rop_util_value_to_gc (high_value n))"
  note vals = gc_value [OF range_okD(3) [OF assms(1)]] gc_value [OF range_okD(2) [OF assms(1)]]
  have lens: "length gl = 6 - sl" "length gh = 6 - sl" "length (concat K) = sl"
    using assms(2,3) by (simp_all add: gl_def gh_def)
  have whole: "concat K @ gl = rop_util_value_to_gc (low_value n)" "concat K @ gh = rop_util_value_to_gc (high_value n)"
  proof -
    show "concat K @ gl = rop_util_value_to_gc (low_value n)"
      unfolding gl_def assms(3) by (rule append_take_drop_id)
    show "concat K @ gh = rop_util_value_to_gc (high_value n)"
      unfolding gh_def assms(3) assms(4) by (rule append_take_drop_id)
  qed
  show ?thesis
  proof (cases "high_value n = low_value n")
    case True
    have "node_bytes sl n = push_bytes (6 - sl) gl"
      using True by (simp add: node_bytes_def gl_def)
    moreover have "1 \<le> 6 - sl" "6 - sl \<le> length gl" "length (concat K) + (6 - sl) = 6"
      using lens assms(2) by auto
    from reads_bin_value [OF this, of g]
    have "reads_bin (push_bytes (6 - sl) gl) K g K (g @ [n])"
      using lens(1) by (simp add: whole vals range_same [OF True])
    ultimately show ?thesis by simp
  next
    case False
    define i where "i = common_length gl gh"
    have i: "sl + i < 6"
      using common_drop_less [OF range_okD(3) [OF assms(1)] range_okD(2) [OF assms(1)] _ assms(2,4)] False
      by (auto simp: i_def gl_def gh_def)
    have bytes: "node_bytes sl n = (if i = 0 then [] else push_bytes i gl) @
        range_bytes (6 - (sl + i)) (drop i gl) (drop i gh) @ (if i = 0 then [] else [0x50])"
      using False by (simp add: node_bytes_def Let_def i_def gl_def gh_def)
    have range: "reads_bin (range_bytes (6 - (sl + i)) (drop i gl) (drop i gh)) K' g K' (g @ [n])"
      if K': "concat K' = concat K @ take i gl" for K'
    proof -
      have same: "take i gl = take i gh" by (rule common_length_take) (simp add: i_def)
      have "concat K' @ drop i gl = concat K @ gl" "concat K' @ drop i gh = concat K @ gh"
        unfolding K' append.assoc by (simp, simp add: same)
      moreover have "length (concat K') \<le> 5" "length (concat K') + (6 - (sl + i)) = 6"
        "length (drop i gl) = 6 - (sl + i)" "length (drop i gh) = 6 - (sl + i)"
        using i lens K' by auto
      from reads_bin_range [OF this, of g] show ?thesis
        using calculation by (simp add: whole vals)
    qed
    show ?thesis
    proof (cases "i = 0")
      case True
      then show ?thesis using range [of K] by (simp add: bytes)
    next
      case False
      have "1 \<le> i" "i \<le> length gl" "length (concat K) + i < 6" using False i lens by auto
      from reads_bin_append [OF reads_bin_push [OF this, of g]
          reads_bin_append [OF range [of "K @ [take i gl]"] reads_bin_pop]]
      show ?thesis using False by (simp add: bytes)
    qed
  qed
qed

lemma reads_bin_nodes:
  assumes "\<forall>n \<in> set g. range_ok n \<and> concat K = take sl (rop_util_value_to_gc (low_value n)) \<and>
    take sl (rop_util_value_to_gc (low_value n)) = take sl (rop_util_value_to_gc (high_value n))" "sl \<le> 5"
  shows "reads_bin (concat (map (node_bytes sl) g)) K h K (h @ g)"
  using assms(1)
proof (induction g arbitrary: h)
  case (Cons n g)
  then have "reads_bin (node_bytes sl n) K h K (h @ [n])"
    using assms(2) by (intro reads_bin_node) auto
  with Cons.IH [of "h @ [n]"] Cons.prems reads_bin_append show ?case by fastforce
qed (simp add: reads_bin_nil)

lemma reads_bin_globset:
  assumes "globset_ok g" "g \<noteq> []"
  shows "\<exists>bs. globset_bytes g = bs @ [0] \<and> reads_bin bs [] [] [] g"
proof (cases "length g = 1")
  case True
  then obtain n where g: "g = [n]" by (cases g) auto
  have n: "range_ok n" using assms(1) g by simp
  note vals = gc_value [OF range_okD(3) [OF n]] gc_value [OF range_okD(2) [OF n]]
  show ?thesis
  proof (cases "high_value n = low_value n")
    case True
    have "reads_bin (push_bytes 6 (rop_util_value_to_gc (low_value n))) [] [] [] [n]"
      using reads_bin_value [of 6 "rop_util_value_to_gc (low_value n)" "[]" "[]"]
      by (simp add: vals range_same [OF True])
    with True g show ?thesis by (auto simp: globset_bytes_def)
  next
    case False
    have "reads_bin (range_bytes 6 (rop_util_value_to_gc (low_value n)) (rop_util_value_to_gc (high_value n))) [] [] [] [n]"
      using reads_bin_range [of "[]" 6 "rop_util_value_to_gc (low_value n)" "rop_util_value_to_gc (high_value n)" "[]"]
      by (simp add: vals)
    with False g show ?thesis by (auto simp: globset_bytes_def)
  qed
next
  case False
  with assms(2) have len: "2 \<le> length g" by (cases g) (auto simp: Suc_le_eq)
  define gl where "gl = rop_util_value_to_gc (low_value (hd g))"
  define sl where "sl = common_length gl (rop_util_value_to_gc (high_value (last g)))"
  note common = globset_common [OF assms(1) len _ sl_def [unfolded gl_def], folded gl_def]
  have "sl \<le> 5" using common(1) len by (cases g) auto
  define K where "K = (if sl = 0 then [] else [take sl gl])"
  have K: "concat K = take sl gl" by (simp add: K_def)
  have "reads_bin (if sl = 0 then [] else push_bytes sl gl) [] [] K []"
    using reads_bin_push [of sl gl "[]" "[]"] \<open>sl \<le> 5\<close> by (auto simp: K_def reads_bin_nil gl_def)
  moreover have "\<forall>n \<in> set g. range_ok n \<and> concat K = take sl (rop_util_value_to_gc (low_value n)) \<and>
      take sl (rop_util_value_to_gc (low_value n)) = take sl (rop_util_value_to_gc (high_value n))"
    using common(2,3) assms(1) by (auto simp: K globset_ok_def list_all_iff)
  then have "reads_bin (concat (map (node_bytes sl) g)) K [] K g"
    using reads_bin_nodes [of g K sl "[]"] \<open>sl \<le> 5\<close> by simp
  moreover have "reads_bin (if sl = 0 then [] else [0x50]) K g [] g"
    using reads_bin_pop [of "[]" "take sl gl" g] by (simp add: K_def reads_bin_nil)
  ultimately have "reads_bin ((if sl = 0 then [] else push_bytes sl gl) @ concat (map (node_bytes sl) g) @
      (if sl = 0 then [] else [0x50])) [] [] [] g"
    by (blast intro: reads_bin_append)
  moreover have "globset_bytes g = ((if sl = 0 then [] else push_bytes sl gl) @ concat (map (node_bytes sl) g) @
      (if sl = 0 then [] else [0x50])) @ [0]"
    unfolding many_ranges(2) [OF len] Let_def gl_def [symmetric] sl_def [symmetric] by simp
  ultimately show ?thesis by blast
qed

lemma decoding_globset:
  assumes "globset_ok g" "g \<noteq> []"
  shows "idset_decoding_globset (\<lambda>_. True) (globset_bytes g @ rest) =
    (Inr (length (globset_bytes g)), g, \<lambda>_. True)"
proof -
  obtain bs where bs: "globset_bytes g = bs @ [0]" "reads_bin bs [] [] [] g"
    using reads_bin_globset [OF assms] by blast
  have "decode_loop (bs @ 0 # rest) (reader_at 0 [] []) = decode_loop (bs @ 0 # rest) (reader_at (0 + length bs) [] g)"
    using bs(2) unfolding reads_bin_def by (metis drop_0)
  also have "\<dots> = (RETURN (length bs + 1), reader_at (length bs + 1) [] g)"
    using loop_end [of "length bs" "bs @ 0 # rest" rest "[]" g] by simp
  finally show ?thesis
    by (simp add: idset_decoding_globset_def bs(1) reader_at_def)
qed

subsection \<open>A set\<close>

fun replid_node_bytes :: "repl_node \<Rightarrow> bytes" where
  "replid_node_bytes (REPLID_NODE r g) = (if g = [] then [] else SSVAL r @ globset_bytes g)"
| "replid_node_bytes (REPLGUID_NODE k g) = []"

lemma run_writer_all: "writes_bin w bs \<Longrightarrow> run_writer (\<lambda>_. True) w = Inr (Some bs)"
  by (simp add: run_writer_def idset_init_binary_def writes_bin_def)

lemma serialize_replid:
  assumes "idset_ok s"
  shows "idset_serialize_replid (\<lambda>_. True) s = Inr (Some (concat (map replid_node_bytes (repl_list s))))"
proof -
  have "writes_bin (serialize_replid_node n) (replid_node_bytes n)" if "n \<in> set (repl_list s)" for n
  proof -
    have "is_replid_node n" "globset_ok (range_list n)"
      using assms that by (auto simp: idset_inv_def)
    then obtain r g where n: "n = REPLID_NODE r g" "globset_ok g" by (cases n) auto
    then show ?thesis
      using writes_bin_seq [OF writes_bin_write writes_bin_globset [OF n(2)], of "SSVAL r"]
      by (auto simp: idset_write_uint16_def writes_bin_ret)
  qed
  then have "writes_bin (for_each serialize_replid_node (repl_list s)) (concat (map replid_node_bytes (repl_list s)))"
    by (rule writes_bin_for_each)
  with assms show ?thesis
    by (simp add: idset_serialize_replid_def idset_inv_def run_writer_all)
qed

lemma globset_bytes_nonempty: "globset_ok g \<Longrightarrow> g \<noteq> [] \<Longrightarrow> globset_bytes g \<noteq> []"
  using reads_bin_globset [of g] by auto

lemma deserialize_replid:
  assumes "\<forall>n \<in> set nodes. is_replid_node n \<and> globset_ok (range_list n)"
  shows "deserialize_loop (\<lambda>_. True) REPL_TYPE_ID (concat (map replid_node_bytes nodes)) =
    Inr (True, filter (\<lambda>n. range_list n \<noteq> []) nodes)"
  using assms
proof (induction nodes)
  case Nil
  then show ?case by (subst deserialize_loop.simps) simp
next
  case (Cons n nodes)
  obtain r g where n: "n = REPLID_NODE r g" "globset_ok g"
    using Cons.prems by (cases n) auto
  show ?case
  proof (cases "g = []")
    case True
    with Cons n show ?thesis by simp
  next
    case False
    let ?rest = "concat (map replid_node_bytes nodes)"
    have "deserialize_node (\<lambda>_. True) REPL_TYPE_ID (SSVAL r @ globset_bytes g @ ?rest) =
        Inr (True, Some (REPLID_NODE r g), ?rest, \<lambda>_. True)"
      using decoding_globset [OF n(2) False, of ?rest] globset_bytes_nonempty [OF n(2) False]
      by (simp add: deserialize_node_def)
    moreover have "SSVAL r @ globset_bytes g @ ?rest \<noteq> []" by (simp add: SSVAL_def)
    ultimately have "deserialize_loop (\<lambda>_. True) REPL_TYPE_ID (SSVAL r @ globset_bytes g @ ?rest) =
        Inr (True, REPLID_NODE r g # filter (\<lambda>n. range_list n \<noteq> []) nodes)"
      using Cons by (subst deserialize_loop.simps) simp
    with n False show ?thesis by simp
  qed
qed

lemma ids_filter:
  assumes "distinct_replids nodes" "\<forall>n \<in> set nodes. is_replid_node n"
  shows "(case find (has_replid r) (filter (\<lambda>n. range_list n \<noteq> []) nodes) of
      None \<Rightarrow> {} | Some n \<Rightarrow> members (range_list n)) =
    (case find (has_replid r) nodes of None \<Rightarrow> {} | Some n \<Rightarrow> members (range_list n))"
  using assms
proof (induction nodes)
  case (Cons n nodes)
  then obtain k g where n: "n = REPLID_NODE k g" by (cases n) auto
  show ?case
  proof (cases "r = k \<and> g = []")
    case True
    with Cons.prems n have "find (has_replid r) nodes = None" by simp
    then have "find (has_replid r) (filter (\<lambda>n. range_list n \<noteq> []) nodes) = None"
      by (auto simp: find_None_iff)
    with True n show ?thesis by simp
  qed (use Cons n in auto)
qed simp

lemma set_roundtrip:
  assumes "idset_ok s" "distinct_replids (repl_list s)"
  shows "\<exists>bs s1 s2. idset_serialize_replid (\<lambda>_. True) s = Inr (Some bs) \<and>
    idset_deserialize (\<lambda>_. True) (idset_init False REPL_TYPE_ID) bs = Inr (True, s1) \<and>
    idset_convert (\<lambda>_. True) s1 = (True, s2) \<and> idset_ok s2 \<and>
    (\<forall>e. idset_hint s1 e = idset_hint s e \<and> idset_hint s2 e = idset_hint s e)"
proof -
  have nodes: "\<forall>n \<in> set (repl_list s). is_replid_node n \<and> globset_ok (range_list n)" "b_serialize s"
    using assms(1) by (auto simp: idset_inv_def)
  define s1 where "s1 = idset_init False REPL_TYPE_ID \<lparr>repl_list := filter (\<lambda>n. range_list n \<noteq> []) (repl_list s)\<rparr>"
  define s2 where "s2 = s1\<lparr>b_serialize := True\<rparr>"
  have types: "REPL_TYPE_ID \<noteq> REPL_TYPE_GUID" by (simp add: REPL_TYPE_ID_def REPL_TYPE_GUID_def)
  have "idset_deserialize (\<lambda>_. True) (idset_init False REPL_TYPE_ID) (concat (map replid_node_bytes (repl_list s))) = Inr (True, s1)"
    using deserialize_replid [OF nodes(1)] by (simp add: idset_deserialize_def idset_init_def s1_def)
  moreover have "idset_convert (\<lambda>_. True) s1 = (True, s2)"
    using types by (simp add: idset_convert_def s1_def s2_def idset_init_def)
  moreover have "idset_ok s2"
    using nodes(1) by (simp add: idset_inv_def s2_def s1_def)
  moreover have "idset_hint s2 e = idset_hint s e" for e
  proof -
    have "ids s2 r = ids s r" for r
      using ids_filter [OF assms(2), of r] nodes(1) by (simp add: ids_def s2_def s1_def)
    then show ?thesis using nodes(2) by (simp add: hint_iff s2_def)
  qed
  moreover have "idset_hint s1 e = idset_hint s2 e" for e
    using types by (simp add: idset_hint_def s1_def s2_def idset_init_def)
  ultimately show ?thesis
    using serialize_replid [OF assms(1)] by blast
qed

subsection \<open>The bitmask command\<close>

text \<open>A set bit \<open>i\<close> stands for the value \<open>i + 1\<close> above the start; runs become one range.\<close>

definition bitmask_members :: "nat \<Rightarrow> u8 \<Rightarrow> nat \<Rightarrow> nat set" where
  "bitmask_members low bm i = {low + j + 1 | j. i \<le> j \<and> j < 8 \<and> bit bm j}"

lemma bitmask_members_step:
  "i < 8 \<Longrightarrow> bitmask_members low bm i =
     (if bit bm i then {low + i + 1} else {}) \<union> bitmask_members low bm (Suc i)"
  by (auto simp: bitmask_members_def) (metis Suc_leI le_antisym not_less_eq_eq)+

lemma decode_bits_members:
  assumes "unat low + 9 < 2 ^ 48" "i \<le> 8"
    "\<And>n. pr = Some n \<Longrightarrow> lo n \<le> hi n \<and> hi n = unat low + i"
  shows "\<exists>h. decode_bits low bm [i..<8] pr (reader_at p K g) = (Inr (), reader_at p K (g @ h)) \<and>
    members h = (case pr of None \<Rightarrow> {} | Some n \<Rightarrow> {lo n..hi n}) \<union> bitmask_members (unat low) bm i"
  using assms(2,3)
proof (induction "8 - i" arbitrary: i pr g)
  case 0
  then have "i = 8" by simp
  then show ?case
    by (cases pr) (auto simp: ret_def bitmask_members_def intro: exI [of _ "[]"] exI [of _ "[_]"])
next
  case (Suc k)
  then have i: "i < 8" "k = 8 - Suc i" "[i..<8] = i # [Suc i..<8]" by (simp_all add: upt_conv_Cons)
  have v: "unat (low + of_nat i + 1) = unat low + i + 1"
  proof -
    have "unat (low + (of_nat i + 1)) = unat low + (i + 1)"
      using assms(1) i(1) by (simp add: unat_word_ariths unsigned_of_nat take_bit_nat_eq_self)
    then show ?thesis by (simp add: add.assoc)
  qed
  note IH = Suc.hyps(1) [OF i(2)]
  show ?case
  proof (cases pr)
    case None
    let ?n = "\<lparr>low_value = low + of_nat i + 1, high_value = low + of_nat i + 1\<rparr>"
    show ?thesis
    proof (cases "bit bm i")
      case True
      with None i(3) have "decode_bits low bm [i..<8] pr (reader_at p K g) =
          decode_bits low bm [Suc i..<8] (Some ?n) (reader_at p K g)"
        by (simp add: bnd_def Let_def)
      with IH [of "Some ?n" g] i(1) True None show ?thesis
        by (auto simp: v bitmask_members_step [of i])
    next
      case False
      with None i(3) have "decode_bits low bm [i..<8] pr (reader_at p K g) =
          decode_bits low bm [Suc i..<8] None (reader_at p K g)" by simp
      with IH [of None g] i(1) False None show ?thesis
        by (auto simp: bitmask_members_step [of i])
    qed
  next
    case (Some n)
    then have n: "lo n \<le> hi n" "hi n = unat low + i" using Suc.prems(2) by auto
    show ?thesis
    proof (cases "bit bm i")
      case True
      have h: "unat (high_value n + 1) = unat low + i + 1"
        using n(2) assms(1) i(1) by (subst unat_succ) (auto simp: counter_def)
      from True Some i(3) have "decode_bits low bm [i..<8] pr (reader_at p K g) =
          decode_bits low bm [Suc i..<8] (Some (n\<lparr>high_value := high_value n + 1\<rparr>)) (reader_at p K g)"
        by simp
      with IH [of "Some (n\<lparr>high_value := high_value n + 1\<rparr>)" g] i(1) True Some n h show ?thesis
        by (auto simp: bitmask_members_step [of i])
    next
      case False
      from False Some i(3) have "decode_bits low bm [i..<8] pr (reader_at p K g) =
          decode_bits low bm [Suc i..<8] None (reader_at p K (g @ [n]))"
        by (simp add: seq_def bnd_def)
      with IH [of None "g @ [n]"] i(1) False Some obtain h where
        "decode_bits low bm [i..<8] pr (reader_at p K g) = (Inr (), reader_at p K (g @ n # h))"
        "members h = bitmask_members (unat low) bm (Suc i)" by auto
      with Some i(1) False show ?thesis
        by (intro exI [of _ "n # h"]) (simp add: bitmask_members_step [of i])
    qed
  qed
qed

end
