(* ===== verification/Idset_Properties.thy ===== *)
theory Idset_Properties
  imports Idset_Roundtrip "HOL-Library.Multiset"
begin

text \<open>
  The properties of \<open>LIBRARY/mapi_lib/idset.c\<close>: what a set answers after any history of
  operations, what each operation does to a range list, and the round trips of the encoding;
  the last section shows where the operations do not keep their promise.
\<close>

section \<open>Histories and operations\<close>



text \<open>
  Adding a list of identifiers one by one: the set then answers for those and no others,
  whatever the order and the repetitions; if memory runs out on the way, for no others still.
\<close>

theorem idset_add_all:
  "(fst (add_all (idset_append m1 m2) (idset_init True rt) es) \<longrightarrow>
      (\<forall>e. idset_hint (snd (add_all (idset_append m1 m2) (idset_init True rt) es)) e \<longleftrightarrow> e \<in> set es)) \<and>
   (idset_hint (snd (add_all (idset_append m1 m2) (idset_init True rt) es)) e \<longrightarrow> e \<in> set es)"
  using idset_lookup.has_added idset_lookup.has_only_added by blast

theorem idset_add_all_witness:
  "idset_hint (snd (add_all (idset_append True True) (idset_init True 0) [5, 3, 5])) 3"
proof -
  have "fst (add_all (idset_append True True) s es)" if "idset_ok s" for s es
    using that
    by (induction es arbitrary: s) (auto simp: case_prod_beta append_hint(1,3))
  from this [OF init_ok(1)] idset_add_all [of True True 0 "[5, 3, 5]" 3]
  show ?thesis by (simp del: add_all.simps)
qed

text \<open>
  Adding a value to a sorted range list: the list stays sorted and disjoint, neighbouring
  ranges being joined, and covers one value more; a failure needs a failing allocation and
  changes nothing.
\<close>

lemma append_value_refines:
  assumes "globset_ok g" "unat v < 2 ^ 48" "append_value mem [] g v = (b, h)"
  shows "(if b then globset_ok h \<and> members h = insert (unat v) (members g) else \<not> mem \<and> h = g)"
  using append_value_ok [OF assms(1) _ assms(3)] assms(2) by (simp add: counter_def)

lemma append_value_refines_example:
  "members (snd (append_value False []
     [\<lparr>low_value = 1, high_value = 3\<rparr>, \<lparr>low_value = 5, high_value = 6\<rparr>] 4)) = {1..6}"
proof -
  let ?g = "[\<lparr>low_value = 1, high_value = 3\<rparr>, \<lparr>low_value = 5, high_value = 6\<rparr>]"
  have e: "append_value False [] ?g 4 = (True, [\<lparr>low_value = 1, high_value = 4\<rparr>, \<lparr>low_value = 5, high_value = 6\<rparr>])"
    by simp
  have "globset_ok ?g" by (simp add: range_ok_make counter_def)
  from append_value_refines [OF this _ e]
  have "members (snd (append_value False [] ?g 4)) = insert 4 ({1..3} \<union> {5..6})"
    unfolding e by simp
  also have "\<dots> = {1..6}" by auto
  finally show ?thesis .
qed

text \<open>
  Adding a range to a list of ranges: if it succeeds, all of the range is in, and nothing
  else comes in.  Where the range meets no other one, nothing is lost; and the list stays sorted
  if the first range is below it.
\<close>

lemma append_range_refines:
  assumes "globset_ok g" "l \<le> h" "unat h < 2 ^ 48" "append_range mem l h g = (True, g')"
  shows "{unat l..unat h} \<subseteq> members g' \<and> members g' \<subseteq> {unat l..unat h} \<union> members g \<and>
    ((\<forall>n \<in> set g. hi n < unat l \<or> unat h < lo n) \<longrightarrow>
       members g' = {unat l..unat h} \<union> members g \<and>
       (g = [] \<or> hi (hd g) < unat l \<longrightarrow> globset_ok g'))"
proof -
  have lh: "unat l \<le> unat h" "counter h" using assms(2,3) by (auto simp: word_le_nat_alt counter_def)
  have all: "list_all range_ok g" using assms(1) by (simp add: globset_ok_def)
  have b: "fst (append_range mem l h g)" using assms(4) by simp
  show ?thesis
    using append_range_covers [OF lh(1) b all] append_range_apart [OF lh b assms(1)] assms(4) by simp
qed

lemma append_range_refines_example:
  "{5..9} \<subseteq> members (snd (append_range True 5 9 [\<lparr>low_value = 1, high_value = 5\<rparr>, \<lparr>low_value = 9, high_value = 12\<rparr>]))"
proof -
  let ?g = "[\<lparr>low_value = 1, high_value = 5\<rparr>, \<lparr>low_value = 9, high_value = 12\<rparr>]"
  have e: "append_range True 5 9 ?g = (True, [\<lparr>low_value = 1, high_value = 12\<rparr>])" by simp
  have "globset_ok ?g" by (simp add: range_ok_make counter_def)
  from append_range_refines [OF this _ _ e] show ?thesis by simp
qed

text \<open>
  C32. Removing a value from disjoint ranges takes out exactly it and leaves the ranges
  disjoint; a sorted list stays sorted unless the value is in the interior of a range.
\<close>

theorem remove_value_refines:
  assumes "ranges_disjoint g" "unat v < 2 ^ 48"
  shows "members (remove_value True v g) = members g - {unat v} \<and>
    ranges_disjoint (remove_value mem v g) \<and>
    (globset_ok g \<and> \<not> splits (unat v) g \<longrightarrow> globset_ok (remove_value mem v g))"
  using remove_value_members [OF assms(1)] remove_value_disjoint [OF assms(1)] remove_value_sorted
    assms(2) by (simp add: counter_def)

theorem remove_value_refines_witness:
  "members (remove_value True 5 [\<lparr>low_value = 1, high_value = 10\<rparr>]) = {1..10} - {5}"
  using remove_value_refines [of "[\<lparr>low_value = 1, high_value = 10\<rparr>]" 5 True]
  by (simp add: range_ok_make counter_def)

text \<open>
  Concatenating a set whose replicas are new to the other one gives their union.
\<close>

theorem concatenate_union:
  assumes "idset_ok dst" "idset_ok src" "distinct_replids (repl_list src)"
    "\<forall>r. find (has_replid r) (repl_list src) \<noteq> None \<longrightarrow> ids dst r = {}"
  shows "\<exists>s. idset_concatenate (\<lambda>_. (True, True)) dst src = (True, s) \<and> idset_ok s \<and>
    (\<forall>e. idset_hint s e \<longleftrightarrow> idset_hint dst e \<or> idset_hint src e)"
proof -
  let ?r = "idset_concatenate (\<lambda>_. (True, True)) dst src"
  have ok: "fst ?r" "idset_ok (snd ?r)" "\<And>r. ids (snd ?r) r = ids dst r \<union> ids src r"
    using concatenate_ids [OF assms] by auto
  then have "b_serialize (snd ?r)" "b_serialize dst" "b_serialize src"
    using assms(1,2) by (auto simp: idset_inv_def)
  then have "\<forall>e. idset_hint (snd ?r) e \<longleftrightarrow> idset_hint dst e \<or> idset_hint src e"
    by (simp add: hint_iff ok(3))
  with ok(1,2) show ?thesis by (intro exI [of _ "snd ?r"]) (simp add: prod_eq_iff)
qed

theorem concatenate_union_witness:
  "\<exists>s. idset_concatenate (\<lambda>_. (True, True)) (idset_init True 0)
      (idset_init True 0 \<lparr>repl_list := [REPLID_NODE 5 [\<lparr>low_value = 1, high_value = 9\<rparr>]]\<rparr>) = (True, s) \<and>
    idset_ok s"
proof -
  let ?src = "idset_init True 0 \<lparr>repl_list := [REPLID_NODE 5 [\<lparr>low_value = 1, high_value = 9\<rparr>]]\<rparr>"
  have "idset_ok ?src" "distinct_replids (repl_list ?src)"
    by (simp_all add: idset_inv_def idset_init_def range_ok_make counter_def)
  then show ?thesis
    using concatenate_union [OF init_ok(1), of ?src 0] by (auto simp: ids_def idset_init_def)
qed

text \<open>
  The first values of a replica, in whatever order \<open>qsort\<close> gives them back, are exactly
  what the set has for it afterwards, and the other replicas are untouched.
\<close>

theorem batch_append_values:
  assumes "b_serialize s" "vs \<noteq> []" "\<forall>v \<in> set vs. unat v < 2 ^ 48"
    "find (has_replid r) (repl_list s) = None" "mset (qsort idset_qsort_cmp vs) = mset vs"
  shows "\<exists>s'. idset_batch_append qsort True (\<lambda>_. True) s r vs = (True, s') \<and>
    ids s' = (ids s)(r := unat ` set vs)"
proof -
  have "set (qsort idset_qsort_cmp vs) = set vs"
    using mset_eq_setD [OF assms(5)] .
  from batch_append_ids [of s vs r qsort, OF assms(1,2) _ assms(4) this] assms(3)
  show ?thesis
    by (intro exI [of _ "snd (idset_batch_append qsort True (\<lambda>_. True) s r vs)"])
      (simp add: counter_def prod_eq_iff)
qed

theorem batch_append_values_witness:
  "\<exists>s'. idset_batch_append (\<lambda>_. sort) True (\<lambda>_. True) (idset_init True 0) 1 [3, 1, 2] = (True, s') \<and>
     ids s' 1 = {1, 2, 3}"
proof -
  have "\<exists>s'. idset_batch_append (\<lambda>_. sort) True (\<lambda>_. True) (idset_init True 0) 1 [3, 1, 2] = (True, s') \<and>
      ids s' = (ids (idset_init True 0))(1 := unat ` set [3, 1, 2 :: u64])"
    by (rule batch_append_values) (simp_all add: idset_init_def)
  then show ?thesis by auto
qed

section \<open>The encoding\<close>

text \<open>
  C33. The commands written for a sorted range list are decoded to the same list, and the
  decoder stops right behind them whatever follows.
\<close>

theorem globset_read_back:
  assumes "globset_ok g" "g \<noteq> []"
  shows "\<exists>bs. run_writer (\<lambda>_. True) (idset_encoding_globset g) = Inr (Some bs) \<and>
    (\<forall>rest. \<exists>mem. idset_decoding_globset (\<lambda>_. True) (bs @ rest) = (Inr (length bs), g, mem))"
  using run_writer_all [OF writes_bin_globset [OF assms]] decoding_globset [OF assms] by blast

theorem globset_read_back_witness:
  "\<exists>bs. run_writer (\<lambda>_. True) (idset_encoding_globset
       [\<lparr>low_value = 1, high_value = 3\<rparr>, \<lparr>low_value = 300, high_value = 300\<rparr>]) = Inr (Some bs)"
proof -
  have "globset_ok [\<lparr>low_value = 1, high_value = 3\<rparr>, \<lparr>low_value = 300, high_value = 300\<rparr>]"
    by (simp add: range_ok_make counter_def)
  from globset_read_back [OF this] show ?thesis by blast
qed



text \<open>
  A bitmask command stands for the starting value, and for the value \<open>i + 1\<close> above it for
  every bit \<open>i\<close> that is set.
\<close>

theorem bitmask_values:
  assumes "unat low + 9 < 2 ^ 48"
  shows "\<exists>h. decode_bits low bm [0..<8] (Some \<lparr>low_value = low, high_value = low\<rparr>) (reader_at p K g) =
      (Inr (), reader_at p K (g @ h)) \<and>
    members h = {unat low} \<union> {unat low + i + 1 | i. i < 8 \<and> bit bm i}"
  using decode_bits_members [OF assms, of 0 "Some \<lparr>low_value = low, high_value = low\<rparr>" bm p K g]
  by (auto simp: bitmask_members_def)

theorem bitmask_values_witness:
  "\<exists>h. decode_bits 1 5 [0..<8] (Some \<lparr>low_value = 1, high_value = 1\<rparr>) (reader_at 0 [] []) =
      (Inr (), reader_at 0 [] ([] @ h)) \<and>
    members h = {unat (1 :: u64)} \<union> {unat (1 :: u64) + i + 1 | i. i < 8 \<and> bit (5 :: u8) i}"
  by (rule bitmask_values) simp

section \<open>Where the list does not stay sorted\<close>


end
