(* ===== verification/Prop_Compare.thy ===== *)
theory Prop_Compare
  imports Prop_Types
begin

text \<open>
  \<open>propval_compare_relop\<close> of \<open>LIBRARY/mapi_lib/propval.c\<close> and \<open>guid_compare\<close> of
  \<open>LIBRARY/common/guid.c\<close>: the relational operators of restrictions on two values of a
  property type.  A value of another C type than the property type says is read through the
  wrong pointer, which is undefined behaviour.
\<close>

section \<open>Operators\<close>

definition RELOP_LT :: u8 where "RELOP_LT = 0x00"
definition RELOP_LE :: u8 where "RELOP_LE = 0x01"
definition RELOP_GT :: u8 where "RELOP_GT = 0x02"
definition RELOP_GE :: u8 where "RELOP_GE = 0x03"
definition RELOP_EQ :: u8 where "RELOP_EQ = 0x04"
definition RELOP_NE :: u8 where "RELOP_NE = 0x05"

lemmas relops = RELOP_LT_def RELOP_LE_def RELOP_GT_def RELOP_GE_def RELOP_EQ_def RELOP_NE_def

text \<open>The six cases on the sign of a comparison, and any other operator.\<close>

definition relop_sign :: "u8 \<Rightarrow> int \<Rightarrow> bool" where
  "relop_sign relop c =
     (if relop = RELOP_LT then c < 0
      else if relop = RELOP_LE then c \<le> 0
      else if relop = RELOP_GT then c > 0
      else if relop = RELOP_GE then c \<ge> 0
      else if relop = RELOP_EQ then c = 0
      else if relop = RELOP_NE then c \<noteq> 0
      else False)"

text \<open>The six cases on two integers.\<close>

definition relop_word :: "u8 \<Rightarrow> 'a::len word \<Rightarrow> 'a word \<Rightarrow> bool" where
  "relop_word relop a b =
     (if relop = RELOP_LT then a < b
      else if relop = RELOP_LE then a \<le> b
      else if relop = RELOP_GT then a > b
      else if relop = RELOP_GE then a \<ge> b
      else if relop = RELOP_EQ then a = b
      else if relop = RELOP_NE then a \<noteq> b
      else False)"

text \<open>The case \<open>RELOP_LE\<close> of \<open>PROPVAL_TYPE_SHORT\<close> runs on into \<open>RELOP_GT\<close>.\<close>

definition relop_short :: "u8 \<Rightarrow> u16 \<Rightarrow> u16 \<Rightarrow> bool" where
  "relop_short relop a b =
     (if relop = RELOP_LT then a < b
      else if relop = RELOP_LE then (if a \<le> b then True else a > b)
      else if relop = RELOP_GT then a > b
      else if relop = RELOP_GE then a \<ge> b
      else if relop = RELOP_EQ then a = b
      else if relop = RELOP_NE then a \<noteq> b
      else False)"

subsection \<open>Floating-point numbers\<close>

text \<open>
  A \<open>float\<close> or \<open>double\<close> is its IEEE 754 bit pattern; \<open>inf_bits\<close> is the pattern of infinity, above
  which a magnitude is not a number.
\<close>

definition ieee_magnitude :: "'a::len word \<Rightarrow> nat" where
  "ieee_magnitude x = unat (take_bit (LENGTH('a) - 1) x)"

definition ieee_key :: "'a::len word \<Rightarrow> int" where
  "ieee_key x =
     (if bit x (LENGTH('a) - 1) then - int (ieee_magnitude x) else int (ieee_magnitude x))"

definition ieee_unordered :: "nat \<Rightarrow> 'a::len word \<Rightarrow> 'a word \<Rightarrow> bool" where
  "ieee_unordered inf_bits a b \<longleftrightarrow> ieee_magnitude a > inf_bits \<or> ieee_magnitude b > inf_bits"

definition relop_ieee :: "nat \<Rightarrow> u8 \<Rightarrow> 'a::len word \<Rightarrow> 'a word \<Rightarrow> bool" where
  "relop_ieee inf_bits relop a b =
     (if ieee_unordered inf_bits a b then relop = RELOP_NE else relop_sign relop (ieee_key a - ieee_key b))"

subsection \<open>Strings and GUIDs\<close>

text \<open>\<open>strcasecmp\<close> of the C library in the C locale.\<close>

definition to_lower :: "u8 \<Rightarrow> u8" where
  "to_lower c = (if 0x41 \<le> c \<and> c \<le> 0x5A then c + 0x20 else c)"

fun strcasecmp :: "bytes \<Rightarrow> bytes \<Rightarrow> int" where
  "strcasecmp [] [] = 0"
| "strcasecmp [] (b # bs) = - uint (to_lower b)"
| "strcasecmp (a # as) [] = uint (to_lower a)"
| "strcasecmp (a # as) (b # bs) =
     (if to_lower a = to_lower b then strcasecmp as bs
      else uint (to_lower a) - uint (to_lower b))"

definition guid_compare :: "guid \<Rightarrow> guid \<Rightarrow> int" where
  "guid_compare u1 u2 =
     (if time_low u1 \<noteq> time_low u2 then (if time_low u1 > time_low u2 then 1 else -1)
      else if time_mid u1 \<noteq> time_mid u2 then (if time_mid u1 > time_mid u2 then 1 else -1)
      else if time_hi_and_version u1 \<noteq> time_hi_and_version u2 then
        (if time_hi_and_version u1 > time_hi_and_version u2 then 1 else -1)
      else if clock_seq0 u1 \<noteq> clock_seq0 u2 then (if clock_seq0 u1 > clock_seq0 u2 then 1 else -1)
      else if clock_seq1 u1 \<noteq> clock_seq1 u2 then (if clock_seq1 u1 > clock_seq1 u2 then 1 else -1)
      else memcmp (guid_node u1) (guid_node u2))"

subsection \<open>Binaries and server ids\<close>

text \<open>\<open>memcmp\<close> over the bytes of the shorter one, as the four ordering cases have it.\<close>

definition binary_prefix_cmp :: "bytes \<Rightarrow> bytes \<Rightarrow> int" where
  "binary_prefix_cmp b1 b2 =
     (if length b1 > length b2 then memcmp (take (length b2) b1) b2
      else memcmp b1 (take (length b1) b2))"

definition relop_binary :: "u8 \<Rightarrow> bytes \<Rightarrow> bytes \<Rightarrow> bool" where
  "relop_binary relop b1 b2 =
     (if relop = RELOP_LT then
        (if length b1 = 0 \<and> length b2 \<noteq> 0 then True
         else if length b1 = 0 \<or> length b2 = 0 then False
         else binary_prefix_cmp b1 b2 < 0)
      else if relop = RELOP_LE then
        (if length b1 = 0 then True
         else if length b2 = 0 then False
         else binary_prefix_cmp b1 b2 \<le> 0)
      else if relop = RELOP_GT then
        (if length b1 \<noteq> 0 \<and> length b2 = 0 then True
         else if length b1 = 0 \<or> length b2 = 0 then False
         else binary_prefix_cmp b1 b2 > 0)
      else if relop = RELOP_GE then
        (if length b2 = 0 then True
         else if length b1 = 0 then False
         else binary_prefix_cmp b1 b2 \<ge> 0)
      else if relop = RELOP_EQ then
        (if length b1 \<noteq> length b2 then False else memcmp b1 b2 = 0)
      else if relop = RELOP_NE then
        (if length b1 \<noteq> length b2 then True else memcmp b1 b2 \<noteq> 0)
      else False)"

fun relop_svreid :: "u8 \<Rightarrow> svreid \<Rightarrow> svreid \<Rightarrow> bool" where
  "relop_svreid relop (SVREID bin1 folder1 message1 instance1) (SVREID bin2 folder2 message2 instance2) =
     (if relop = RELOP_EQ then
        (case (bin1, bin2) of
           (None, Some _) \<Rightarrow> False
         | (Some _, None) \<Rightarrow> False
         | (Some b1, Some b2) \<Rightarrow>
             if length b1 \<noteq> length b2 then False
             else if length b1 = 0 then True
             else memcmp b1 b2 = 0
         | (None, None) \<Rightarrow>
             if folder1 \<noteq> folder2 then False
             else if message1 \<noteq> message2 then False
             else if instance1 \<noteq> instance2 then False
             else True)
      else if relop = RELOP_NE then
        (case (bin1, bin2) of
           (None, Some _) \<Rightarrow> True
         | (Some _, None) \<Rightarrow> True
         | (Some b1, Some b2) \<Rightarrow>
             if length b1 \<noteq> length b2 then True
             else if length b1 = 0 then False
             else memcmp b1 b2 \<noteq> 0
         | (None, None) \<Rightarrow>
             if folder1 = folder2 then False
             else if message1 = message2 then False
             else if instance1 = instance2 then False
             else True)
      else False)"

subsection \<open>Arrays\<close>

text \<open>\<open>sz\<close> gives the bytes of an element; \<open>memcmp\<close> runs over the whole arrays.\<close>

definition relop_array :: "('a \<Rightarrow> bytes) \<Rightarrow> u8 \<Rightarrow> 'a list \<Rightarrow> 'a list \<Rightarrow> bool" where
  "relop_array sz relop a1 a2 =
     (if relop = RELOP_EQ then
        (if length a1 \<noteq> length a2 then False
         else memcmp (concat (map sz a1)) (concat (map sz a2)) = 0)
      else if relop = RELOP_NE then
        (if length a1 \<noteq> length a2 then True
         else memcmp (concat (map sz a1)) (concat (map sz a2)) \<noteq> 0)
      else False)"

text \<open>The loop over the elements, ended by the first that differs.\<close>

definition relop_each :: "('a \<Rightarrow> 'a \<Rightarrow> bool) \<Rightarrow> u8 \<Rightarrow> 'a list \<Rightarrow> 'a list \<Rightarrow> bool" where
  "relop_each differ relop a1 a2 =
     (if relop = RELOP_EQ then
        (if length a1 \<noteq> length a2 then False else list_all2 (\<lambda>x y. \<not> differ x y) a1 a2)
      else if relop = RELOP_NE then
        (if length a1 \<noteq> length a2 then True else \<not> list_all2 (\<lambda>x y. \<not> differ x y) a1 a2)
      else False)"

definition binary_differs :: "bytes \<Rightarrow> bytes \<Rightarrow> bool" where
  "binary_differs b1 b2 \<longleftrightarrow> (if length b1 \<noteq> length b2 then True else memcmp b1 b2 \<noteq> 0)"

section \<open>The function\<close>

text \<open>A value of another C type matters for the operators that read it.\<close>

definition wrong_type :: "u8 list \<Rightarrow> u8 \<Rightarrow> ext_err + bool" where
  "wrong_type ops relop = (if relop \<in> set ops then Inl UNDEFINED_BEHAVIOUR else Inr False)"

definition six_ops :: "u8 list" where
  "six_ops = [RELOP_LT, RELOP_LE, RELOP_GT, RELOP_GE, RELOP_EQ, RELOP_NE]"

definition two_ops :: "u8 list" where
  "two_ops = [RELOP_EQ, RELOP_NE]"

definition propval_compare_relop :: "u8 \<Rightarrow> u16 \<Rightarrow> propval \<Rightarrow> propval \<Rightarrow> ext_err + bool" where
  "propval_compare_relop relop proptype v1 v2 =
     (if proptype = PROPVAL_TYPE_SHORT then
        (case (v1, v2) of (PV_SHORT a, PV_SHORT b) \<Rightarrow> Inr (relop_short relop a b)
         | _ \<Rightarrow> wrong_type six_ops relop)
      else if proptype = PROPVAL_TYPE_LONG \<or> proptype = PROPVAL_TYPE_ERROR then
        (case (v1, v2) of (PV_LONG a, PV_LONG b) \<Rightarrow> Inr (relop_word relop a b)
         | _ \<Rightarrow> wrong_type six_ops relop)
      else if proptype = PROPVAL_TYPE_BYTE then
        (case (v1, v2) of (PV_BYTE a, PV_BYTE b) \<Rightarrow> Inr (relop_word relop a b)
         | _ \<Rightarrow> wrong_type six_ops relop)
      else if proptype = PROPVAL_TYPE_CURRENCY \<or> proptype = PROPVAL_TYPE_LONGLONG \<or>
          proptype = PROPVAL_TYPE_FILETIME then
        (case (v1, v2) of (PV_LONGLONG a, PV_LONGLONG b) \<Rightarrow> Inr (relop_word relop a b)
         | _ \<Rightarrow> wrong_type six_ops relop)
      else if proptype = PROPVAL_TYPE_FLOAT then
        (case (v1, v2) of (PV_FLOAT a, PV_FLOAT b) \<Rightarrow> Inr (relop_ieee 0x7F800000 relop a b)
         | _ \<Rightarrow> wrong_type six_ops relop)
      else if proptype = PROPVAL_TYPE_DOUBLE \<or> proptype = PROPVAL_TYPE_FLOATINGTIME then
        (case (v1, v2) of (PV_DOUBLE a, PV_DOUBLE b) \<Rightarrow> Inr (relop_ieee 0x7FF0000000000000 relop a b)
         | _ \<Rightarrow> wrong_type six_ops relop)
      else if proptype = PROPVAL_TYPE_STRING \<or> proptype = PROPVAL_TYPE_WSTRING then
        (case (v1, v2) of (PV_STRING a, PV_STRING b) \<Rightarrow> Inr (relop_sign relop (strcasecmp a b))
         | _ \<Rightarrow> wrong_type six_ops relop)
      else if proptype = PROPVAL_TYPE_GUID then
        (case (v1, v2) of (PV_GUID a, PV_GUID b) \<Rightarrow> Inr (relop_sign relop (guid_compare a b))
         | _ \<Rightarrow> wrong_type six_ops relop)
      else if proptype = PROPVAL_TYPE_BINARY then
        (case (v1, v2) of (PV_BINARY a, PV_BINARY b) \<Rightarrow> Inr (relop_binary relop a b)
         | _ \<Rightarrow> wrong_type six_ops relop)
      else if proptype = PROPVAL_TYPE_SVREID then
        (case (v1, v2) of (PV_SVREID a, PV_SVREID b) \<Rightarrow> Inr (relop_svreid relop a b)
         | _ \<Rightarrow> wrong_type two_ops relop)
      else if proptype = PROPVAL_TYPE_SHORT_ARRAY then
        (case (v1, v2) of (PV_SHORT_ARRAY a, PV_SHORT_ARRAY b) \<Rightarrow> Inr (relop_array SSVAL relop a b)
         | _ \<Rightarrow> wrong_type two_ops relop)
      else if proptype = PROPVAL_TYPE_LONG_ARRAY then
        (case (v1, v2) of (PV_LONG_ARRAY a, PV_LONG_ARRAY b) \<Rightarrow> Inr (relop_array SIVAL relop a b)
         | _ \<Rightarrow> wrong_type two_ops relop)
      else if proptype = PROPVAL_TYPE_LONGLONG_ARRAY then
        (case (v1, v2) of (PV_LONGLONG_ARRAY a, PV_LONGLONG_ARRAY b) \<Rightarrow> Inr (relop_array SBVAL relop a b)
         | _ \<Rightarrow> wrong_type two_ops relop)
      else if proptype = PROPVAL_TYPE_STRING_ARRAY \<or> proptype = PROPVAL_TYPE_WSTRING_ARRAY then
        (case (v1, v2) of
           (PV_STRING_ARRAY a, PV_STRING_ARRAY b) \<Rightarrow>
             Inr (relop_each (\<lambda>x y. strcasecmp x y \<noteq> 0) relop a b)
         | _ \<Rightarrow> wrong_type two_ops relop)
      else if proptype = PROPVAL_TYPE_BINARY_ARRAY then
        (case (v1, v2) of
           (PV_BINARY_ARRAY a, PV_BINARY_ARRAY b) \<Rightarrow> Inr (relop_each binary_differs relop a b)
         | _ \<Rightarrow> wrong_type two_ops relop)
      else Inr False)"

section \<open>The operators of a total order\<close>

text \<open>
  The types whose values the code compares by a total order, and the order: the sequences
  of numbers that are compared one after the other.
\<close>

fun comparable :: "u16 \<Rightarrow> propval \<Rightarrow> bool" where
  "comparable t (PV_LONG a) \<longleftrightarrow> t \<in> {PROPVAL_TYPE_LONG, PROPVAL_TYPE_ERROR}"
| "comparable t (PV_BYTE a) \<longleftrightarrow> t = PROPVAL_TYPE_BYTE"
| "comparable t (PV_LONGLONG a) \<longleftrightarrow>
     t \<in> {PROPVAL_TYPE_CURRENCY, PROPVAL_TYPE_LONGLONG, PROPVAL_TYPE_FILETIME}"
| "comparable t (PV_FLOAT a) \<longleftrightarrow> t = PROPVAL_TYPE_FLOAT \<and> ieee_magnitude a \<le> 0x7F800000"
| "comparable t (PV_DOUBLE a) \<longleftrightarrow>
     t \<in> {PROPVAL_TYPE_DOUBLE, PROPVAL_TYPE_FLOATINGTIME} \<and> ieee_magnitude a \<le> 0x7FF0000000000000"
| "comparable t (PV_STRING s) \<longleftrightarrow> t \<in> {PROPVAL_TYPE_STRING, PROPVAL_TYPE_WSTRING} \<and> 0 \<notin> set s"
| "comparable t (PV_GUID g) \<longleftrightarrow> t = PROPVAL_TYPE_GUID"
| "comparable t _ \<longleftrightarrow> False"

fun compare_key :: "propval \<Rightarrow> int list" where
  "compare_key (PV_LONG a) = [uint a]"
| "compare_key (PV_BYTE a) = [uint a]"
| "compare_key (PV_LONGLONG a) = [uint a]"
| "compare_key (PV_FLOAT a) = [ieee_key a]"
| "compare_key (PV_DOUBLE a) = [ieee_key a]"
| "compare_key (PV_STRING s) = map (\<lambda>c. uint (to_lower c)) s"
| "compare_key (PV_GUID g) =
     [uint (time_low g), uint (time_mid g), uint (time_hi_and_version g), uint (clock_seq0 g),
      uint (clock_seq1 g)] @ map (\<lambda>b. uint b) (guid_node g)"
| "compare_key _ = []"

text \<open>\<open>c\<close> is a comparison of two keys.\<close>

definition compares :: "int \<Rightarrow> 'a::ord \<Rightarrow> 'a \<Rightarrow> bool" where
  "compares c x y \<longleftrightarrow> (c < 0 \<longleftrightarrow> x < y) \<and> (c = 0 \<longleftrightarrow> x = y)"

lemma relop_word_sign: "relop_word relop a b = relop_sign relop (uint a - uint b)"
  by (simp add: relop_word_def relop_sign_def word_less_def word_le_def word_uint_eq_iff)

lemma compares_diff: "compares (a - b) [a] [b]"
  by (auto simp: compares_def)

lemma uint_pos: "0 < uint x \<longleftrightarrow> x \<noteq> 0"
  by (metis uint_0_iff uint_ge_0 less_le)

lemma to_lower_zero: "to_lower c = 0 \<longleftrightarrow> c = 0"
  by (auto simp: to_lower_def word_le_nat_alt unat_word_ariths word_unat_eq_iff)

lemma compares_strcasecmp:
  "0 \<notin> set a \<Longrightarrow> 0 \<notin> set b \<Longrightarrow>
     compares (strcasecmp a b) (map (\<lambda>c. uint (to_lower c)) a) (map (\<lambda>c. uint (to_lower c)) b)"
proof (induction a b rule: strcasecmp.induct)
  case (2 b bs)
  then have "0 < uint (to_lower b)" using to_lower_zero [of b] by (simp add: uint_pos)
  then show ?case by (simp add: compares_def)
next
  case (3 a as)
  then have "0 < uint (to_lower a)" using to_lower_zero [of a] by (simp add: uint_pos)
  then show ?case by (simp add: compares_def)
next
  case (4 a as b bs)
  show ?case
  proof (cases "to_lower a = to_lower b")
    case True
    with 4 show ?thesis by (simp add: compares_def)
  next
    case False
    then have "uint (to_lower a) \<noteq> uint (to_lower b)" by (simp add: word_uint_eq_iff)
    with False show ?thesis by (simp add: compares_def)
  qed
qed (simp add: compares_def)

lemma compares_memcmp:
  "length a = length b \<Longrightarrow> compares (memcmp a b) (map (\<lambda>c. uint c) a) (map (\<lambda>c. uint c) b)"
proof (induction a b rule: memcmp.induct)
  case (1 a as b bs)
  then show ?case
    by (cases a b rule: linorder_cases) (auto simp: compares_def word_less_def)
qed (auto simp: compares_def)

lemma compares_Cons:
  "compares c xs ys \<Longrightarrow>
     compares (if v \<noteq> w then (if v > w then 1 else -1) else c)
       (uint (v :: 'a::len word) # xs) (uint w # ys)"
  by (cases v w rule: linorder_cases) (auto simp: compares_def word_less_def)

lemma compares_guid: "compares (guid_compare g h) (compare_key (PV_GUID g)) (compare_key (PV_GUID h))"
  unfolding guid_compare_def compare_key.simps append.simps
  by (intro compares_Cons compares_memcmp) (simp add: guid_node_def)

lemma relop_ieee_sign:
  "ieee_magnitude a \<le> i \<Longrightarrow> ieee_magnitude b \<le> i \<Longrightarrow>
     relop_ieee i relop a b = relop_sign relop (ieee_key a - ieee_key b)"
  by (simp add: relop_ieee_def ieee_unordered_def)

text \<open>Every operator looks at one comparison, which is that of the keys.\<close>

fun compare_value :: "propval \<Rightarrow> propval \<Rightarrow> int" where
  "compare_value (PV_LONG a) w = (case w of PV_LONG b \<Rightarrow> uint a - uint b | _ \<Rightarrow> 0)"
| "compare_value (PV_BYTE a) w = (case w of PV_BYTE b \<Rightarrow> uint a - uint b | _ \<Rightarrow> 0)"
| "compare_value (PV_LONGLONG a) w = (case w of PV_LONGLONG b \<Rightarrow> uint a - uint b | _ \<Rightarrow> 0)"
| "compare_value (PV_FLOAT a) w = (case w of PV_FLOAT b \<Rightarrow> ieee_key a - ieee_key b | _ \<Rightarrow> 0)"
| "compare_value (PV_DOUBLE a) w = (case w of PV_DOUBLE b \<Rightarrow> ieee_key a - ieee_key b | _ \<Rightarrow> 0)"
| "compare_value (PV_STRING a) w = (case w of PV_STRING b \<Rightarrow> strcasecmp a b | _ \<Rightarrow> 0)"
| "compare_value (PV_GUID a) w = (case w of PV_GUID b \<Rightarrow> guid_compare a b | _ \<Rightarrow> 0)"
| "compare_value _ w = 0"

lemma comparable_cases:
  assumes "comparable t v" "comparable t w"
  obtains a b where "v = PV_LONG a" "w = PV_LONG b" "t \<in> {PROPVAL_TYPE_LONG, PROPVAL_TYPE_ERROR}"
  | a b where "v = PV_BYTE a" "w = PV_BYTE b" "t = PROPVAL_TYPE_BYTE"
  | a b where "v = PV_LONGLONG a" "w = PV_LONGLONG b"
      "t \<in> {PROPVAL_TYPE_CURRENCY, PROPVAL_TYPE_LONGLONG, PROPVAL_TYPE_FILETIME}"
  | a b where "v = PV_FLOAT a" "w = PV_FLOAT b" "t = PROPVAL_TYPE_FLOAT"
      "ieee_magnitude a \<le> 0x7F800000" "ieee_magnitude b \<le> 0x7F800000"
  | a b where "v = PV_DOUBLE a" "w = PV_DOUBLE b" "t \<in> {PROPVAL_TYPE_DOUBLE, PROPVAL_TYPE_FLOATINGTIME}"
      "ieee_magnitude a \<le> 0x7FF0000000000000" "ieee_magnitude b \<le> 0x7FF0000000000000"
  | a b where "v = PV_STRING a" "w = PV_STRING b" "t \<in> {PROPVAL_TYPE_STRING, PROPVAL_TYPE_WSTRING}"
      "0 \<notin> set a" "0 \<notin> set b"
  | a b where "v = PV_GUID a" "w = PV_GUID b" "t = PROPVAL_TYPE_GUID"
  using assms by (cases v; cases w) (auto simp: propval_types)

lemma compare_relop_value:
  assumes "comparable t v" "comparable t w"
  shows "propval_compare_relop relop t v w = Inr (relop_sign relop (compare_value v w))"
  using assms
  by (cases rule: comparable_cases)
    (auto simp: propval_compare_relop_def propval_types relop_word_sign relop_ieee_sign)

lemma compares_value:
  assumes "comparable t v" "comparable t w"
  shows "compares (compare_value v w) (compare_key v) (compare_key w)"
  using assms
  by (cases rule: comparable_cases)
    (simp_all add: compares_diff compares_strcasecmp compares_guid [unfolded compare_key.simps append.simps])

end
