(* ===== verification/Prop_Dup.thy ===== *)
theory Prop_Dup
  imports Prop_Types
begin

text \<open>
  Copying and releasing property values: \<open>propval_dup\<close> and \<open>propval_free\<close> of
  \<open>LIBRARY/mapi_lib/propval.c\<close> with the functions of \<open>restriction.c\<close> and \<open>rule_actions.c\<close>
  they call.

  The heap is seen as the number of blocks that are allocated and the answers of the
  allocator to come.  \<open>free\<close> with no block left is undefined behaviour; \<open>stale\<close> is what
  a fresh block holds where the code does not write it.  A copy is an option, \<open>None\<close> where
  the code returns \<open>NULL\<close>; the pointer of an empty array or binary is \<open>NULL\<close>.
\<close>

section \<open>The heap\<close>

record dup_heap =
  grants :: "nat \<Rightarrow> bool"
  live :: nat
  stale :: u64

type_synonym 'a dup = "dup_heap \<Rightarrow> (ext_err + 'a) \<times> dup_heap"

definition dup_malloc :: "bool dup" where
  "dup_malloc h =
     (Inr (grants h 0),
      h \<lparr>grants := \<lambda>k. grants h (Suc k), live := live h + (if grants h 0 then 1 else 0)\<rparr>)"

definition dup_free :: "unit dup" where
  "dup_free h =
     (if live h = 0 then (Inl UNDEFINED_BEHAVIOUR, h) else (Inr (), h \<lparr>live := live h - 1\<rparr>))"

text \<open>\<open>p = malloc(...); if (NULL == p) return NULL; *p = x; return p;\<close>\<close>

definition dup_block :: "'a \<Rightarrow> 'a option dup" where
  "dup_block x = bnd dup_malloc (\<lambda>b. ret (if b then Some x else None))"

text \<open>A block whose members are filled next, and released if that fails.\<close>

definition in_struct :: "'a option dup \<Rightarrow> 'a option dup" where
  "in_struct m =
     bnd dup_malloc (\<lambda>b.
       if \<not> b then ret None
       else bnd m (\<lambda>r. case r of None \<Rightarrow> seq dup_free (ret None) | Some x \<Rightarrow> ret (Some x)))"

definition map_dup :: "('a \<Rightarrow> 'b) \<Rightarrow> 'a option dup \<Rightarrow> 'b option dup" where
  "map_dup f m = bnd m (\<lambda>r. ret (map_option f r))"

text \<open>
  The loop over an array; where an element fails, those before it are released, the last first
  (\<open>for (i -= 1; i >= 0; i--)\<close>).
\<close>

primrec dup_each :: "('a \<Rightarrow> 'a option dup) \<Rightarrow> ('a \<Rightarrow> unit dup) \<Rightarrow> 'a list \<Rightarrow> 'a list \<Rightarrow> 'a list option dup" where
  "dup_each d f don [] = ret (Some (rev don))"
| "dup_each d f don (x # xs) =
     bnd (d x) (\<lambda>r.
       case r of
         None \<Rightarrow> seq (for_each f don) (ret None)
       | Some y \<Rightarrow> dup_each d f (y # don) xs)"

lemma dup_each_cong [fundef_cong]:
  assumes "xs = ys" "don = don'" "f = f'" "\<And>x. x \<in> set ys \<Longrightarrow> d x = d' x"
  shows "dup_each d f don xs = dup_each d' f' don' ys"
proof -
  have "(\<And>x. x \<in> set xs \<Longrightarrow> d x = d' x) \<Longrightarrow> dup_each d f e xs = dup_each d' f e xs" for e xs
    by (induction xs arbitrary: e) (auto cong: option.case_cong)
  with assms show ?thesis by blast
qed

section \<open>Releasing\<close>

text \<open>The content of a binary or of an array of scalars, unless its pointer is \<open>NULL\<close>.\<close>

definition content_free :: "'a list \<Rightarrow> unit dup" where
  "content_free xs = (if xs = [] then ret () else dup_free)"

fun svreid_free :: "svreid \<Rightarrow> unit dup" where
  "svreid_free (SVREID None folder message inst) = dup_free"
| "svreid_free (SVREID (Some b) folder message inst) = seq (content_free b) (seq dup_free dup_free)"

definition string_array_free :: "bytes list \<Rightarrow> unit dup" where
  "string_array_free ss = seq (for_each (\<lambda>_. dup_free) ss) (seq (content_free ss) dup_free)"

definition binary_array_free :: "bytes list \<Rightarrow> unit dup" where
  "binary_array_free bs = seq (for_each content_free bs) (seq (content_free bs) dup_free)"

definition store_entryid_free :: "store_entryid \<Rightarrow> unit dup" where
  "store_entryid_free eid = seq dup_free (seq dup_free dup_free)"

fun movecopy_action_free :: "movecopy_action \<Rightarrow> unit dup" where
  "movecopy_action_free (MOVECOPY_ACTION same eid folder) =
     seq (case eid of None \<Rightarrow> ret () | Some e \<Rightarrow> store_entryid_free e)
       (seq (case folder of
               EID_SVREID r \<Rightarrow> if same = 1 then svreid_free r else fail UNDEFINED_BEHAVIOUR
             | EID_BINARY b \<Rightarrow>
                 if same = 1 then fail UNDEFINED_BEHAVIOUR else seq (content_free b) dup_free)
          dup_free)"

text \<open>
  The types whose values hold further blocks; the value of any other type is one block, and
  nothing in it is read.
\<close>

definition deep_types :: "u16 list" where
  "deep_types =
     [PROPVAL_TYPE_UNSPECIFIED, PROPVAL_TYPE_RESTRICTION, PROPVAL_TYPE_RULE, PROPVAL_TYPE_SVREID,
      PROPVAL_TYPE_BINARY, PROPVAL_TYPE_OBJECT, PROPVAL_TYPE_SHORT_ARRAY, PROPVAL_TYPE_LONG_ARRAY,
      PROPVAL_TYPE_LONGLONG_ARRAY, PROPVAL_TYPE_STRING_ARRAY, PROPVAL_TYPE_WSTRING_ARRAY,
      PROPVAL_TYPE_GUID_ARRAY, PROPVAL_TYPE_BINARY_ARRAY]"

definition free_other :: "u16 \<Rightarrow> unit dup" where
  "free_other type = (if type \<in> set deep_types then fail UNDEFINED_BEHAVIOUR else dup_free)"

text \<open>
  The same for the parts of a restriction and of an action: the types whose data holds further
  blocks, and those whose data is one block; for any other type nothing is done.
\<close>

definition restriction_free_other :: "u8 \<Rightarrow> unit dup" where
  "restriction_free_other rt =
     (if rt \<in> {RESTRICTION_TYPE_AND, RESTRICTION_TYPE_OR, RESTRICTION_TYPE_NOT,
        RESTRICTION_TYPE_CONTENT, RESTRICTION_TYPE_PROPERTY, RESTRICTION_TYPE_SUBOBJ,
        RESTRICTION_TYPE_COMMENT, RESTRICTION_TYPE_COUNT} then fail UNDEFINED_BEHAVIOUR
      else if rt \<in> {RESTRICTION_TYPE_PROPCOMPARE, RESTRICTION_TYPE_BITMASK, RESTRICTION_TYPE_SIZE,
        RESTRICTION_TYPE_EXIST} then dup_free
      else ret ())"

definition restriction_free_null :: "u8 \<Rightarrow> unit dup" where
  "restriction_free_null rt =
     (if rt \<in> {RESTRICTION_TYPE_AND, RESTRICTION_TYPE_OR, RESTRICTION_TYPE_NOT,
        RESTRICTION_TYPE_CONTENT, RESTRICTION_TYPE_PROPERTY, RESTRICTION_TYPE_SUBOBJ,
        RESTRICTION_TYPE_COMMENT, RESTRICTION_TYPE_COUNT} then fail UNDEFINED_BEHAVIOUR
      else ret ())"

definition action_free_other :: "u8 \<Rightarrow> unit dup" where
  "action_free_other type =
     (if type \<in> {ACTION_TYPE_OP_MOVE, ACTION_TYPE_OP_COPY, ACTION_TYPE_OP_FORWARD,
        ACTION_TYPE_OP_DELEGATE, ACTION_TYPE_OP_TAG} then fail UNDEFINED_BEHAVIOUR
      else if type \<in> {ACTION_TYPE_OP_REPLY, ACTION_TYPE_OP_OOF_REPLY, ACTION_TYPE_OP_DEFER_ACTION,
        ACTION_TYPE_OP_BOUNCE} then dup_free
      else ret ())"

fun propval_free :: "u16 \<Rightarrow> propval \<Rightarrow> unit dup"
  and tagged_free :: "tagged_propval \<Rightarrow> unit dup"
  and restriction_free :: "restriction \<Rightarrow> unit dup"
  and restriction_free_inline :: "restriction \<Rightarrow> unit dup"
  and restriction_free_by_type :: "u8 \<Rightarrow> res_data \<Rightarrow> unit dup"
  and recipient_block_free_internal :: "recipient_block \<Rightarrow> unit dup"
  and action_block_free_internal :: "action_block \<Rightarrow> unit dup"
  and action_data_free :: "u8 \<Rightarrow> action_data \<Rightarrow> unit dup" where
  "propval_free type (PV_TYPED t v) =
     (if type = PROPVAL_TYPE_UNSPECIFIED then seq (propval_free t v) dup_free else free_other type)"
| "propval_free type (PV_SVREID r) =
     (if type = PROPVAL_TYPE_SVREID then svreid_free r else free_other type)"
| "propval_free type (PV_RESTRICTION r) =
     (if type = PROPVAL_TYPE_RESTRICTION then restriction_free r else free_other type)"
| "propval_free type (PV_RULE pblock) =
     (if type = PROPVAL_TYPE_RULE
      then seq (for_each action_block_free_internal pblock) (seq dup_free dup_free)
      else free_other type)"
| "propval_free type (PV_BINARY b) =
     (if type = PROPVAL_TYPE_BINARY \<or> type = PROPVAL_TYPE_OBJECT then seq (content_free b) dup_free
      else free_other type)"
| "propval_free type (PV_SHORT_ARRAY a) =
     (if type = PROPVAL_TYPE_SHORT_ARRAY then seq (content_free a) dup_free else free_other type)"
| "propval_free type (PV_LONG_ARRAY a) =
     (if type = PROPVAL_TYPE_LONG_ARRAY then seq (content_free a) dup_free else free_other type)"
| "propval_free type (PV_LONGLONG_ARRAY a) =
     (if type = PROPVAL_TYPE_LONGLONG_ARRAY then seq (content_free a) dup_free else free_other type)"
| "propval_free type (PV_STRING_ARRAY a) =
     (if type = PROPVAL_TYPE_STRING_ARRAY \<or> type = PROPVAL_TYPE_WSTRING_ARRAY
      then string_array_free a else free_other type)"
| "propval_free type (PV_GUID_ARRAY a) =
     (if type = PROPVAL_TYPE_GUID_ARRAY then seq (content_free a) dup_free else free_other type)"
| "propval_free type (PV_BINARY_ARRAY a) =
     (if type = PROPVAL_TYPE_BINARY_ARRAY then binary_array_free a else free_other type)"
| "propval_free type _ = free_other type"
| "tagged_free (TAGGED_PROPVAL tag v) = propval_free (proptag_type tag) v"
| "restriction_free (RESTRICTION rt d) = seq (restriction_free_by_type rt d) dup_free"
| "restriction_free_inline (RESTRICTION rt d) = restriction_free_by_type rt d"
| "restriction_free_by_type rt RES_NULL =
     restriction_free_null rt"
| "restriction_free_by_type rt (RES_AND_OR rs) =
     (if rt = RESTRICTION_TYPE_AND \<or> rt = RESTRICTION_TYPE_OR
      then seq (for_each restriction_free_inline rs) (seq dup_free dup_free)
      else restriction_free_other rt)"
| "restriction_free_by_type rt (RES_NOT r) =
     (if rt = RESTRICTION_TYPE_NOT then seq (restriction_free_inline r) dup_free
      else restriction_free_other rt)"
| "restriction_free_by_type rt (RES_CONTENT a b v) =
     (if rt = RESTRICTION_TYPE_CONTENT then seq (tagged_free v) dup_free
      else restriction_free_other rt)"
| "restriction_free_by_type rt (RES_PROPERTY a b v) =
     (if rt = RESTRICTION_TYPE_PROPERTY then seq (tagged_free v) dup_free
      else restriction_free_other rt)"
| "restriction_free_by_type rt (RES_PROPCOMPARE a b c) =
     restriction_free_other rt"
| "restriction_free_by_type rt (RES_BITMASK a b c) =
     restriction_free_other rt"
| "restriction_free_by_type rt (RES_SIZE a b c) =
     restriction_free_other rt"
| "restriction_free_by_type rt (RES_EXIST a) =
     restriction_free_other rt"
| "restriction_free_by_type rt (RES_SUBOBJ a r) =
     (if rt = RESTRICTION_TYPE_SUBOBJ then seq (restriction_free_inline r) dup_free
      else restriction_free_other rt)"
| "restriction_free_by_type rt (RES_COMMENT vs r) =
     (if rt = RESTRICTION_TYPE_COMMENT
      then seq (for_each tagged_free vs)
             (seq dup_free (seq (case r of None \<Rightarrow> ret () | Some r \<Rightarrow> restriction_free r) dup_free))
      else restriction_free_other rt)"
| "restriction_free_by_type rt (RES_COUNT a r) =
     (if rt = RESTRICTION_TYPE_COUNT then seq (restriction_free_inline r) dup_free
      else restriction_free_other rt)"
| "recipient_block_free_internal (RECIPIENT_BLOCK a vs) = seq (for_each tagged_free vs) dup_free"
| "action_block_free_internal (ACTION_BLOCK len type flavor flags d) = action_data_free type d"
| "action_data_free type AD_NONE =
     (if type \<in> {ACTION_TYPE_OP_MOVE, ACTION_TYPE_OP_COPY, ACTION_TYPE_OP_FORWARD,
        ACTION_TYPE_OP_DELEGATE, ACTION_TYPE_OP_TAG} then fail UNDEFINED_BEHAVIOUR else ret ())"
| "action_data_free type (AD_MOVECOPY a) =
     (if type = ACTION_TYPE_OP_MOVE \<or> type = ACTION_TYPE_OP_COPY then movecopy_action_free a
      else action_free_other type)"
| "action_data_free type (AD_REPLY a) =
     action_free_other type"
| "action_data_free type (AD_DEFER b) =
     action_free_other type"
| "action_data_free type (AD_BOUNCE c) =
     action_free_other type"
| "action_data_free type (AD_FORWARDDELEGATE bs) =
     (if type = ACTION_TYPE_OP_FORWARD \<or> type = ACTION_TYPE_OP_DELEGATE
      then seq (for_each recipient_block_free_internal bs) (seq dup_free dup_free)
      else action_free_other type)"
| "action_data_free type (AD_TAG v) =
     (if type = ACTION_TYPE_OP_TAG then seq (tagged_free v) dup_free else action_free_other type)"

section \<open>Copying\<close>

text \<open>A structure with a content of its own, unless that is empty.\<close>

definition content_dup :: "'a list \<Rightarrow> 'a list option dup" where
  "content_dup xs = in_struct (if xs = [] then ret (Some []) else dup_block xs)"

text \<open>With \<open>pbin\<close> set, the other members of the copy are not written.\<close>

fun svreid_dup :: "svreid \<Rightarrow> svreid option dup" where
  "svreid_dup (SVREID None folder message inst) = dup_block (SVREID None folder message inst)"
| "svreid_dup (SVREID (Some b) folder message inst) =
     bnd (gets stale) (\<lambda>j. map_dup (\<lambda>b. SVREID (Some b) j j (ucast j)) (in_struct (content_dup b)))"

definition string_array_dup :: "bytes list \<Rightarrow> bytes list option dup" where
  "string_array_dup ss =
     in_struct (if ss = [] then ret (Some []) else in_struct (dup_each dup_block (\<lambda>_. dup_free) [] ss))"

text \<open>The array is allocated with \<open>sizeof(uint32_t)\<close> for every GUID and filled with whole ones.\<close>

definition guid_array_dup :: "guid list \<Rightarrow> guid list option dup" where
  "guid_array_dup gs =
     in_struct (if gs = [] then ret (Some [])
       else bnd dup_malloc (\<lambda>b.
         if \<not> b then ret None
         else if 4 * length gs < 16 * length gs then fail UNDEFINED_BEHAVIOUR
         else ret (Some gs)))"

definition binary_array_dup :: "bytes list \<Rightarrow> bytes list option dup" where
  "binary_array_dup bs =
     in_struct (if bs = [] then ret (Some [])
       else in_struct (dup_each (\<lambda>b. if b = [] then ret (Some []) else dup_block b) content_free [] bs))"

subsection \<open>Parts of rule actions\<close>

text \<open>The structure is copied, then each of its two strings.\<close>

definition store_entryid_dup :: "store_entryid \<Rightarrow> store_entryid option dup" where
  "store_entryid_dup eid =
     in_struct
       (bnd (dup_block (st_server_name eid)) (\<lambda>r.
          case r of
            None \<Rightarrow> ret None
          | Some s \<Rightarrow> bnd (dup_block (st_mailbox_dn eid)) (\<lambda>r.
              case r of
                None \<Rightarrow> seq dup_free (ret None)
              | Some m \<Rightarrow> ret (Some eid))))"

text \<open>The type of the folder id follows from \<open>same_store\<close> being 1 or not.\<close>

fun movecopy_action_dup :: "movecopy_action \<Rightarrow> movecopy_action option dup" where
  "movecopy_action_dup (MOVECOPY_ACTION same eid folder) =
     in_struct
       (bnd (case eid of None \<Rightarrow> ret (Some None) | Some e \<Rightarrow> map_dup Some (store_entryid_dup e)) (\<lambda>r.
          case r of
            None \<Rightarrow> ret None
          | Some eid' \<Rightarrow>
              bnd (case folder of
                     EID_SVREID s \<Rightarrow>
                       if same = 1 then map_dup EID_SVREID (svreid_dup s) else fail UNDEFINED_BEHAVIOUR
                   | EID_BINARY b \<Rightarrow>
                       if same = 1 then fail UNDEFINED_BEHAVIOUR else map_dup EID_BINARY (content_dup b)) (\<lambda>r.
                case r of
                  None \<Rightarrow> seq (case eid' of None \<Rightarrow> ret () | Some e \<Rightarrow> store_entryid_free e) (ret None)
                | Some folder' \<Rightarrow> ret (Some (MOVECOPY_ACTION same eid' folder')))))"

section \<open>Values\<close>

text \<open>
  A value of another C type than its property type is read through the wrong pointer, unless
  the type is unknown, for which \<open>NULL\<close> is returned.
\<close>

definition known_types :: "u16 list" where
  "known_types = deep_types @
     [PROPVAL_TYPE_SHORT, PROPVAL_TYPE_LONG, PROPVAL_TYPE_FLOAT, PROPVAL_TYPE_DOUBLE,
      PROPVAL_TYPE_CURRENCY, PROPVAL_TYPE_FLOATINGTIME, PROPVAL_TYPE_ERROR, PROPVAL_TYPE_BYTE,
      PROPVAL_TYPE_LONGLONG, PROPVAL_TYPE_STRING, PROPVAL_TYPE_WSTRING, PROPVAL_TYPE_FILETIME,
      PROPVAL_TYPE_GUID]"

definition dup_other :: "u16 \<Rightarrow> 'a option dup" where
  "dup_other type = (if type \<in> set known_types then fail UNDEFINED_BEHAVIOUR else ret None)"

definition restriction_dup_other :: "u8 \<Rightarrow> 'a option dup" where
  "restriction_dup_other rt =
     (if rt \<le> RESTRICTION_TYPE_COUNT then fail UNDEFINED_BEHAVIOUR else ret None)"

definition action_dup_other :: "u8 \<Rightarrow> action_data option dup" where
  "action_dup_other type =
     (if type = ACTION_TYPE_OP_DELETE \<or> type = ACTION_TYPE_OP_MARK_AS_READ then ret (Some AD_NONE)
      else if 0 < type \<and> type \<le> ACTION_TYPE_OP_TAG then fail UNDEFINED_BEHAVIOUR
      else ret None)"

text \<open>The length says how much of a deferred action is copied.\<close>

definition defer_dup :: "u16 \<Rightarrow> bytes \<Rightarrow> bytes option dup" where
  "defer_dup len b =
     (let tmp_len = unat (len - 1 - 4 - 4) in
      bnd dup_malloc (\<lambda>ok.
        if \<not> ok then ret None
        else if length b < tmp_len then fail UNDEFINED_BEHAVIOUR
        else ret (Some (take tmp_len b))))"

text \<open>
  In \<open>recipient_block_dup_internal\<close> the pointer that is tested after \<open>malloc\<close> is that of the
  original; \<open>rule_actions_dup\<close> does not release the structure where the array fails.
\<close>

fun propval_dup :: "u16 \<Rightarrow> propval \<Rightarrow> propval option dup"
  and tagged_dup :: "tagged_propval \<Rightarrow> tagged_propval option dup"
  and restriction_dup :: "restriction \<Rightarrow> restriction option dup"
  and restriction_dup_inline :: "restriction \<Rightarrow> restriction option dup"
  and restriction_dup_by_type :: "u8 \<Rightarrow> res_data \<Rightarrow> res_data option dup"
  and recipient_block_dup_internal :: "recipient_block \<Rightarrow> recipient_block option dup"
  and action_block_dup_internal :: "action_block \<Rightarrow> action_block option dup"
  and action_data_dup :: "u16 \<Rightarrow> u8 \<Rightarrow> action_data \<Rightarrow> action_data option dup" where
  "propval_dup type (PV_TYPED t v) =
     (if type = PROPVAL_TYPE_UNSPECIFIED then in_struct (map_dup (PV_TYPED t) (propval_dup t v))
      else dup_other type)"
| "propval_dup type (PV_SHORT a) =
     (if type = PROPVAL_TYPE_SHORT then dup_block (PV_SHORT a) else dup_other type)"
| "propval_dup type (PV_LONG a) =
     (if type = PROPVAL_TYPE_ERROR \<or> type = PROPVAL_TYPE_LONG then dup_block (PV_LONG a)
      else dup_other type)"
| "propval_dup type (PV_FLOAT a) =
     (if type = PROPVAL_TYPE_FLOAT then dup_block (PV_FLOAT a) else dup_other type)"
| "propval_dup type (PV_DOUBLE a) =
     (if type = PROPVAL_TYPE_DOUBLE \<or> type = PROPVAL_TYPE_FLOATINGTIME then dup_block (PV_DOUBLE a)
      else dup_other type)"
| "propval_dup type (PV_BYTE a) =
     (if type = PROPVAL_TYPE_BYTE then dup_block (PV_BYTE a) else dup_other type)"
| "propval_dup type (PV_LONGLONG a) =
     (if type = PROPVAL_TYPE_CURRENCY \<or> type = PROPVAL_TYPE_LONGLONG \<or> type = PROPVAL_TYPE_FILETIME
      then dup_block (PV_LONGLONG a) else dup_other type)"
| "propval_dup type (PV_STRING s) =
     (if type = PROPVAL_TYPE_STRING \<or> type = PROPVAL_TYPE_WSTRING then dup_block (PV_STRING s)
      else dup_other type)"
| "propval_dup type (PV_GUID g) =
     (if type = PROPVAL_TYPE_GUID then dup_block (PV_GUID g) else dup_other type)"
| "propval_dup type (PV_SVREID r) =
     (if type = PROPVAL_TYPE_SVREID then map_dup PV_SVREID (svreid_dup r) else dup_other type)"
| "propval_dup type (PV_RESTRICTION r) =
     (if type = PROPVAL_TYPE_RESTRICTION then map_dup PV_RESTRICTION (restriction_dup r)
      else dup_other type)"
| "propval_dup type (PV_RULE pblock) =
     (if type = PROPVAL_TYPE_RULE then
        if pblock = [] then ret None
        else bnd dup_malloc (\<lambda>b.
          if \<not> b then ret None
          else bnd dup_malloc (\<lambda>b.
            if \<not> b then ret None
            else bnd (dup_each action_block_dup_internal action_block_free_internal [] pblock) (\<lambda>r.
              case r of
                None \<Rightarrow> seq dup_free (seq dup_free (ret None))
              | Some bs \<Rightarrow> ret (Some (PV_RULE bs)))))
      else dup_other type)"
| "propval_dup type (PV_BINARY b) =
     (if type = PROPVAL_TYPE_BINARY \<or> type = PROPVAL_TYPE_OBJECT then map_dup PV_BINARY (content_dup b)
      else dup_other type)"
| "propval_dup type (PV_SHORT_ARRAY a) =
     (if type = PROPVAL_TYPE_SHORT_ARRAY then map_dup PV_SHORT_ARRAY (content_dup a) else dup_other type)"
| "propval_dup type (PV_LONG_ARRAY a) =
     (if type = PROPVAL_TYPE_LONG_ARRAY then map_dup PV_LONG_ARRAY (content_dup a) else dup_other type)"
| "propval_dup type (PV_LONGLONG_ARRAY a) =
     (if type = PROPVAL_TYPE_LONGLONG_ARRAY then map_dup PV_LONGLONG_ARRAY (content_dup a)
      else dup_other type)"
| "propval_dup type (PV_STRING_ARRAY a) =
     (if type = PROPVAL_TYPE_STRING_ARRAY \<or> type = PROPVAL_TYPE_WSTRING_ARRAY
      then map_dup PV_STRING_ARRAY (string_array_dup a) else dup_other type)"
| "propval_dup type (PV_GUID_ARRAY a) =
     (if type = PROPVAL_TYPE_GUID_ARRAY then map_dup PV_GUID_ARRAY (guid_array_dup a) else dup_other type)"
| "propval_dup type (PV_BINARY_ARRAY a) =
     (if type = PROPVAL_TYPE_BINARY_ARRAY then map_dup PV_BINARY_ARRAY (binary_array_dup a)
      else dup_other type)"
| "tagged_dup (TAGGED_PROPVAL tag v) = map_dup (TAGGED_PROPVAL tag) (propval_dup (proptag_type tag) v)"
| "restriction_dup (RESTRICTION rt d) = in_struct (map_dup (RESTRICTION rt) (restriction_dup_by_type rt d))"
| "restriction_dup_inline (RESTRICTION rt d) = map_dup (RESTRICTION rt) (restriction_dup_by_type rt d)"
| "restriction_dup_by_type rt RES_NULL = restriction_dup_other rt"
| "restriction_dup_by_type rt (RES_AND_OR rs) =
     (if rt = RESTRICTION_TYPE_AND \<or> rt = RESTRICTION_TYPE_OR
      then map_dup RES_AND_OR
             (in_struct (in_struct (dup_each restriction_dup_inline restriction_free_inline [] rs)))
      else restriction_dup_other rt)"
| "restriction_dup_by_type rt (RES_NOT r) =
     (if rt = RESTRICTION_TYPE_NOT then map_dup RES_NOT (in_struct (restriction_dup_inline r))
      else restriction_dup_other rt)"
| "restriction_dup_by_type rt (RES_CONTENT a b v) =
     (if rt = RESTRICTION_TYPE_CONTENT then map_dup (RES_CONTENT a b) (in_struct (tagged_dup v))
      else restriction_dup_other rt)"
| "restriction_dup_by_type rt (RES_PROPERTY a b v) =
     (if rt = RESTRICTION_TYPE_PROPERTY then map_dup (RES_PROPERTY a b) (in_struct (tagged_dup v))
      else restriction_dup_other rt)"
| "restriction_dup_by_type rt (RES_PROPCOMPARE a b c) =
     (if rt = RESTRICTION_TYPE_PROPCOMPARE then dup_block (RES_PROPCOMPARE a b c)
      else restriction_dup_other rt)"
| "restriction_dup_by_type rt (RES_BITMASK a b c) =
     (if rt = RESTRICTION_TYPE_BITMASK then dup_block (RES_BITMASK a b c) else restriction_dup_other rt)"
| "restriction_dup_by_type rt (RES_SIZE a b c) =
     (if rt = RESTRICTION_TYPE_SIZE then dup_block (RES_SIZE a b c) else restriction_dup_other rt)"
| "restriction_dup_by_type rt (RES_EXIST a) =
     (if rt = RESTRICTION_TYPE_EXIST then dup_block (RES_EXIST a) else restriction_dup_other rt)"
| "restriction_dup_by_type rt (RES_SUBOBJ a r) =
     (if rt = RESTRICTION_TYPE_SUBOBJ then map_dup (RES_SUBOBJ a) (in_struct (restriction_dup_inline r))
      else restriction_dup_other rt)"
| "restriction_dup_by_type rt (RES_COMMENT vs res) =
     (if rt = RESTRICTION_TYPE_COMMENT then
        in_struct (in_struct (bnd (dup_each tagged_dup tagged_free [] vs) (\<lambda>r.
          case r of
            None \<Rightarrow> ret None
          | Some vs' \<Rightarrow>
              (case res of
                 None \<Rightarrow> ret (Some (RES_COMMENT vs' None))
               | Some res \<Rightarrow>
                   bnd (restriction_dup res) (\<lambda>r.
                     case r of
                       None \<Rightarrow> seq (for_each tagged_free vs') (ret None)
                     | Some res' \<Rightarrow> ret (Some (RES_COMMENT vs' (Some res'))))))))
      else restriction_dup_other rt)"
| "restriction_dup_by_type rt (RES_COUNT a r) =
     (if rt = RESTRICTION_TYPE_COUNT then map_dup (RES_COUNT a) (in_struct (restriction_dup_inline r))
      else restriction_dup_other rt)"
| "recipient_block_dup_internal (RECIPIENT_BLOCK a vs) =
     (if vs = [] then ret None
      else bnd dup_malloc (\<lambda>b.
        if \<not> b then fail NULL_WRITE
        else bnd (dup_each tagged_dup tagged_free [] vs) (\<lambda>r.
          case r of
            None \<Rightarrow> seq dup_free (ret None)
          | Some vs' \<Rightarrow> ret (Some (RECIPIENT_BLOCK a vs')))))"
| "action_block_dup_internal (ACTION_BLOCK len type flavor flags d) =
     map_dup (ACTION_BLOCK len type flavor flags) (action_data_dup len type d)"
| "action_data_dup len type AD_NONE = action_dup_other type"
| "action_data_dup len type (AD_MOVECOPY a) =
     (if type = ACTION_TYPE_OP_MOVE \<or> type = ACTION_TYPE_OP_COPY
      then map_dup AD_MOVECOPY (movecopy_action_dup a) else action_dup_other type)"
| "action_data_dup len type (AD_REPLY a) =
     (if type = ACTION_TYPE_OP_REPLY \<or> type = ACTION_TYPE_OP_OOF_REPLY then dup_block (AD_REPLY a)
      else action_dup_other type)"
| "action_data_dup len type (AD_DEFER b) =
     (if type = ACTION_TYPE_OP_DEFER_ACTION then map_dup AD_DEFER (defer_dup len b)
      else action_dup_other type)"
| "action_data_dup len type (AD_BOUNCE c) =
     (if type = ACTION_TYPE_OP_BOUNCE then dup_block (AD_BOUNCE c) else action_dup_other type)"
| "action_data_dup len type (AD_FORWARDDELEGATE bs) =
     (if type = ACTION_TYPE_OP_FORWARD \<or> type = ACTION_TYPE_OP_DELEGATE then
        if bs = [] then ret None
        else map_dup AD_FORWARDDELEGATE
          (in_struct (in_struct (dup_each recipient_block_dup_internal recipient_block_free_internal [] bs)))
      else action_dup_other type)"
| "action_data_dup len type (AD_TAG v) =
     (if type = ACTION_TYPE_OP_TAG then map_dup AD_TAG (in_struct (tagged_dup v))
      else action_dup_other type)"

end
