(* ===== verification/Prop_Dup_Logic.thy ===== *)
theory Prop_Dup_Logic
  imports Prop_Dup
begin

text \<open>
  What copying and releasing do to the heap.

  \<^item> \<open>frees f n\<close>: \<open>f\<close> releases exactly \<open>n\<close> blocks;
  \<^item> \<open>dups d P n m\<close>: \<open>d\<close> yields a result with \<open>P\<close> in \<open>n\<close> fresh blocks, or, only if an
    allocation fails, \<open>None\<close> and then releases the \<open>m\<close> blocks its caller gave it to clean up.
\<close>

definition frees :: "unit dup \<Rightarrow> nat \<Rightarrow> bool" where
  "frees f n \<longleftrightarrow> (\<forall>h. n \<le> live h \<longrightarrow> f h = (Inr (), h \<lparr>live := live h - n\<rparr>))"

definition dup_end :: "('a \<Rightarrow> bool) \<Rightarrow> nat \<Rightarrow> nat \<Rightarrow> dup_heap \<Rightarrow> (ext_err + 'a option) \<times> dup_heap \<Rightarrow> bool" where
  "dup_end P n m h out \<longleftrightarrow>
     (\<exists>r h' k. out = (Inr r, h') \<and> grants h' = (\<lambda>i. grants h (i + k)) \<and>
        (case r of
           None \<Rightarrow> live h' = live h - m \<and> (\<exists>i. \<not> grants h i)
         | Some x \<Rightarrow> P x \<and> live h' = live h + n))"

definition dups :: "'a option dup \<Rightarrow> ('a \<Rightarrow> bool) \<Rightarrow> nat \<Rightarrow> nat \<Rightarrow> bool" where
  "dups d P n m \<longleftrightarrow> (\<forall>h. m \<le> live h \<longrightarrow> dup_end P n m h (d h))"

named_theorems frees_rules
named_theorems dups_rules

subsection \<open>Rules\<close>

lemma frees_ret [frees_rules]: "frees (ret ()) 0"
  by (simp add: frees_def ret_def)

lemma frees_free [frees_rules]: "frees dup_free 1"
  by (simp add: frees_def dup_free_def)

lemma frees_seq [frees_rules]: "frees f m \<Longrightarrow> frees g n \<Longrightarrow> frees (seq f g) (m + n)"
  by (auto simp: frees_def seq_def bnd_def)

lemma frees_for_each [frees_rules]:
  "(\<And>x. x \<in> set xs \<Longrightarrow> frees (f x) (w x)) \<Longrightarrow> frees (for_each f xs) (sum_list (map w xs))"
proof (induction xs)
  case (Cons x xs)
  then have "frees (f x) (w x)" "frees (for_each f xs) (sum_list (map w xs))" by auto
  from frees_seq [OF this] show ?case by simp
qed (simp add: frees_ret)

lemma frees_cong: "frees f m \<Longrightarrow> m = n \<Longrightarrow> frees f n"
  by simp

lemma dup_end_None:
  "grants h' = (\<lambda>i. grants h (i + k)) \<Longrightarrow> live h' = live h - m \<Longrightarrow> \<not> grants h i \<Longrightarrow>
     dup_end P n m h (Inr None, h')"
  unfolding dup_end_def by auto

lemma dup_end_Some:
  "grants h' = (\<lambda>i. grants h (i + k)) \<Longrightarrow> live h' = live h + n \<Longrightarrow> P x \<Longrightarrow>
     dup_end P n m h (Inr (Some x), h')"
  unfolding dup_end_def by auto

lemma dups_cases:
  assumes "dups d P n m" "m \<le> live (h :: dup_heap)"
  obtains (none) h' k i where "d h = (Inr None, h')" "grants h' = (\<lambda>i. grants h (i + k))"
      "live h' = live h - m" "\<not> grants h i"
  | (some) x h' k where "d h = (Inr (Some x), h')" "grants h' = (\<lambda>i. grants h (i + k))"
      "live h' = live h + n" "P x"
proof -
  have "dup_end P n m h (d h)" using assms by (simp add: dups_def)
  then obtain r h' k where d: "d h = (Inr r, h')" "grants h' = (\<lambda>i. grants h (i + k))"
    "case r of None \<Rightarrow> live h' = live h - m \<and> (\<exists>i. \<not> grants h i) | Some x \<Rightarrow> P x \<and> live h' = live h + n"
    unfolding dup_end_def by blast
  show thesis
  proof (cases r)
    case None
    with d show ?thesis by (auto intro: none)
  next
    case (Some x)
    with d show ?thesis by (auto intro: some)
  qed
qed

lemma dupsI: "(\<And>h. m \<le> live h \<Longrightarrow> dup_end P n m h (d h)) \<Longrightarrow> dups d P n m"
  by (simp add: dups_def)

lemma dups_mono:
  assumes "dups d P n m" "\<And>x. P x \<Longrightarrow> Q x" "n = n'"
  shows "dups d Q n' m"
proof (rule dupsI)
  fix h :: dup_heap assume "m \<le> live h"
  with assms(1) show "dup_end Q n' m h (d h)"
  proof (cases rule: dups_cases)
    case (some x h' k)
    with assms show ?thesis by (auto intro!: dup_end_Some [where k = k])
  qed (simp add: dup_end_None)
qed

lemma dups_Some: "P x \<Longrightarrow> dups (ret (Some x)) P 0 m"
  by (rule dupsI) (simp add: ret_def dup_end_Some [where k = 0])

lemma dups_block:
  assumes "P x"
  shows "dups (dup_block x) P 1 0"
proof (rule dupsI)
  fix h :: dup_heap
  show "dup_end P 1 0 h (dup_block x h)"
    using assms
    by (auto simp: dup_block_def dup_malloc_def bnd_def ret_def
        intro: dup_end_None [where k = 1] dup_end_Some [where k = 1])
qed

lemma dups_bnd:
  assumes "dups d P n m" "\<And>x. P x \<Longrightarrow> dups (k x) Q n' (m + n)"
  shows "dups (bnd d (\<lambda>r. case r of None \<Rightarrow> ret None | Some x \<Rightarrow> k x)) Q (n + n') m"
proof (rule dupsI)
  fix h :: dup_heap assume m: "m \<le> live h"
  with assms(1) show "dup_end Q (n + n') m h (bnd d (\<lambda>r. case r of None \<Rightarrow> ret None | Some x \<Rightarrow> k x) h)"
  proof (cases rule: dups_cases)
    case (none h' k i)
    then show ?thesis by (simp add: bnd_def ret_def dup_end_None)
  next
    case (some x h' j)
    with m have "m + n \<le> live h'" by simp
    with assms(2) [OF some(4)] show ?thesis
    proof (cases rule: dups_cases)
      case (none h'' k i)
      with some show ?thesis
        by (auto simp: bnd_def add.assoc intro!: dup_end_None [where k = "k + j" and i = "i + j"])
    next
      case (some y h'' k)
      with \<open>d h = _\<close> \<open>grants h' = _\<close> \<open>live h' = _\<close> show ?thesis
        by (auto simp: bnd_def add.assoc intro!: dup_end_Some [where k = "k + j"])
    qed
  qed
qed

lemma dups_cleanup:
  assumes "dups d P n m" "frees f c" "\<And>x. P x \<Longrightarrow> Q (g x)"
  shows "dups (bnd d (\<lambda>r. case r of None \<Rightarrow> seq f (ret None) | Some x \<Rightarrow> ret (Some (g x)))) Q n (m + c)"
proof (rule dupsI)
  fix h :: dup_heap assume m: "m + c \<le> live h"
  then have "m \<le> live h" by simp
  with assms(1) show "dup_end Q n (m + c) h
      (bnd d (\<lambda>r. case r of None \<Rightarrow> seq f (ret None) | Some x \<Rightarrow> ret (Some (g x))) h)"
  proof (cases rule: dups_cases)
    case (none h' k i)
    with m have "f h' = (Inr (), h' \<lparr>live := live h' - c\<rparr>)"
      using assms(2) by (simp add: frees_def)
    with none show ?thesis
      by (auto simp: bnd_def seq_def ret_def intro!: dup_end_None [where k = k and i = i])
  next
    case (some x h' k)
    with assms(3) show ?thesis by (auto simp: bnd_def ret_def intro!: dup_end_Some [where k = k])
  qed
qed

lemma dups_malloc:
  assumes "dups m P n 1"
  shows "dups (bnd dup_malloc (\<lambda>b. if \<not> b then ret None else m)) P (Suc n) 0"
proof (rule dupsI)
  fix h :: dup_heap
  let ?h = "h \<lparr>grants := \<lambda>k. grants h (Suc k), live := Suc (live h)\<rparr>"
  show "dup_end P (Suc n) 0 h (bnd dup_malloc (\<lambda>b. if \<not> b then ret None else m) h)"
  proof (cases "grants h 0")
    case False
    then show ?thesis
      by (auto simp: bnd_def dup_malloc_def ret_def intro!: dup_end_None [where k = 1 and i = 0])
  next
    case True
    have "1 \<le> live ?h" by simp
    with assms show ?thesis
    proof (cases rule: dups_cases)
      case (none h' k i)
      with True show ?thesis
        by (auto simp: bnd_def dup_malloc_def intro!: dup_end_None [where k = "Suc k" and i = "Suc i"])
    next
      case (some x h' k)
      with True show ?thesis
        by (auto simp: bnd_def dup_malloc_def intro!: dup_end_Some [where k = "Suc k"])
    qed
  qed
qed

lemma dups_in_struct:
  assumes "dups m P n 0"
  shows "dups (in_struct m) P (Suc n) 0"
  unfolding in_struct_def
  by (rule dups_malloc) (use dups_cleanup [OF assms frees_free, of P "\<lambda>x. x"] in simp)

lemma dups_map:
  assumes "dups m P n c" "\<And>x. P x \<Longrightarrow> Q (f x)"
  shows "dups (map_dup f m) Q n c"
proof -
  have "map_dup f m = bnd m (\<lambda>r. case r of None \<Rightarrow> ret None | Some x \<Rightarrow> ret (Some (f x)))"
    unfolding map_dup_def by (rule arg_cong [where f = "bnd m"]) (auto split: option.split)
  moreover have "dups (bnd m (\<lambda>r. case r of None \<Rightarrow> ret None | Some x \<Rightarrow> ret (Some (f x)))) Q (n + 0) c"
    by (rule dups_bnd [OF assms(1)]) (intro dups_Some assms(2))
  ultimately show ?thesis by simp
qed

lemma dups_each_gen:
  assumes "\<And>x. x \<in> set xs \<Longrightarrow> dups (d x) (C x) (w x) 0"
    "\<And>x y. x \<in> set xs \<Longrightarrow> C x y \<Longrightarrow> frees (f y) (w x)" "frees (for_each f don) m"
  shows "dups (dup_each d f don xs) (\<lambda>ys. \<exists>zs. ys = rev don @ zs \<and> list_all2 C xs zs)
    (sum_list (map w xs)) m"
  using assms
proof (induction xs arbitrary: don m)
  case Nil
  show ?case by (simp add: dups_Some)
next
  case (Cons x xs)
  let ?Q = "\<lambda>ys. \<exists>zs. ys = rev don @ zs \<and> list_all2 C (x # xs) zs"
  show ?case
  proof (rule dupsI)
    fix h :: dup_heap assume m: "m \<le> live h"
    have "dups (d x) (C x) (w x) 0" "0 \<le> live h" using Cons.prems(1) by simp_all
    then show "dup_end ?Q (sum_list (map w (x # xs))) m h (dup_each d f don (x # xs) h)"
    proof (cases rule: dups_cases)
      case (none h' k i)
      then have "for_each f don h' = (Inr (), h' \<lparr>live := live h' - m\<rparr>)"
        using Cons.prems(3) m by (simp add: frees_def)
      with none show ?thesis
        by (auto simp: bnd_def seq_def ret_def intro!: dup_end_None [where k = k and i = i])
    next
      case (some y h' j)
      have "frees (for_each f (y # don)) (w x + m)"
        using Cons.prems(2) [of x y] some(4) Cons.prems(3) by (simp add: frees_seq)
      from Cons.IH [OF _ _ this] Cons.prems(1,2)
      have "dups (dup_each d f (y # don) xs)
          (\<lambda>ys. \<exists>zs. ys = rev (y # don) @ zs \<and> list_all2 C xs zs) (sum_list (map w xs)) (w x + m)"
        by simp
      moreover have "w x + m \<le> live h'" using some(3) m by simp
      ultimately show ?thesis
      proof (cases rule: dups_cases)
        case (none h'' k i)
        with some show ?thesis
          by (auto simp: bnd_def add.assoc intro!: dup_end_None [where k = "k + j" and i = "i + j"])
      next
        case (some ys h'' k)
        with \<open>d x h = _\<close> \<open>grants h' = _\<close> \<open>live h' = _\<close> \<open>C x y\<close> show ?thesis
          by (auto simp: bnd_def add.assoc intro!: dup_end_Some [where k = "k + j"])
      qed
    qed
  qed
qed

lemma dups_each:
  assumes "\<And>x. x \<in> set xs \<Longrightarrow> dups (d x) (C x) (w x) 0"
    "\<And>x y. x \<in> set xs \<Longrightarrow> C x y \<Longrightarrow> frees (f y) (w x)"
  shows "dups (dup_each d f [] xs) (list_all2 C xs) (sum_list (map w xs)) 0"
  using dups_each_gen [of xs d C w f "[]" 0, OF assms] frees_ret by simp

section \<open>Values\<close>

text \<open>
  Values whose parts are of the types that their tags say.  Left out are rule actions, arrays
  of GUIDs, which are not copied as they should, and restrictions of the type
  \<open>RESTRICTION_TYPE_NULL\<close>, for which there is no copy.
\<close>

fun dup_ok :: "u16 \<Rightarrow> propval \<Rightarrow> bool"
  and dup_tagged_ok :: "tagged_propval \<Rightarrow> bool"
  and dup_restriction_ok :: "restriction \<Rightarrow> bool"
  and dup_res_ok :: "u8 \<Rightarrow> res_data \<Rightarrow> bool" where
  "dup_ok t (PV_TYPED u v) \<longleftrightarrow> t = PROPVAL_TYPE_UNSPECIFIED \<and> dup_ok u v"
| "dup_ok t (PV_SHORT v) \<longleftrightarrow> t = PROPVAL_TYPE_SHORT"
| "dup_ok t (PV_LONG v) \<longleftrightarrow> t \<in> {PROPVAL_TYPE_LONG, PROPVAL_TYPE_ERROR}"
| "dup_ok t (PV_FLOAT v) \<longleftrightarrow> t = PROPVAL_TYPE_FLOAT"
| "dup_ok t (PV_DOUBLE v) \<longleftrightarrow> t \<in> {PROPVAL_TYPE_DOUBLE, PROPVAL_TYPE_FLOATINGTIME}"
| "dup_ok t (PV_BYTE v) \<longleftrightarrow> t = PROPVAL_TYPE_BYTE"
| "dup_ok t (PV_LONGLONG v) \<longleftrightarrow>
     t \<in> {PROPVAL_TYPE_CURRENCY, PROPVAL_TYPE_LONGLONG, PROPVAL_TYPE_FILETIME}"
| "dup_ok t (PV_STRING s) \<longleftrightarrow> t \<in> {PROPVAL_TYPE_STRING, PROPVAL_TYPE_WSTRING}"
| "dup_ok t (PV_SVREID r) \<longleftrightarrow> t = PROPVAL_TYPE_SVREID"
| "dup_ok t (PV_GUID g) \<longleftrightarrow> t = PROPVAL_TYPE_GUID"
| "dup_ok t (PV_RESTRICTION r) \<longleftrightarrow> t = PROPVAL_TYPE_RESTRICTION \<and> dup_restriction_ok r"
| "dup_ok t (PV_RULE bs) \<longleftrightarrow> False"
| "dup_ok t (PV_BINARY b) \<longleftrightarrow> t \<in> {PROPVAL_TYPE_BINARY, PROPVAL_TYPE_OBJECT}"
| "dup_ok t (PV_SHORT_ARRAY a) \<longleftrightarrow> t = PROPVAL_TYPE_SHORT_ARRAY"
| "dup_ok t (PV_LONG_ARRAY a) \<longleftrightarrow> t = PROPVAL_TYPE_LONG_ARRAY"
| "dup_ok t (PV_LONGLONG_ARRAY a) \<longleftrightarrow> t = PROPVAL_TYPE_LONGLONG_ARRAY"
| "dup_ok t (PV_STRING_ARRAY a) \<longleftrightarrow> t \<in> {PROPVAL_TYPE_STRING_ARRAY, PROPVAL_TYPE_WSTRING_ARRAY}"
| "dup_ok t (PV_GUID_ARRAY a) \<longleftrightarrow> t = PROPVAL_TYPE_GUID_ARRAY \<and> a = []"
| "dup_ok t (PV_BINARY_ARRAY a) \<longleftrightarrow> t = PROPVAL_TYPE_BINARY_ARRAY"
| "dup_tagged_ok (TAGGED_PROPVAL tag v) \<longleftrightarrow> dup_ok (proptag_type tag) v"
| "dup_restriction_ok (RESTRICTION rt d) \<longleftrightarrow> dup_res_ok rt d"
| "dup_res_ok rt RES_NULL \<longleftrightarrow> False"
| "dup_res_ok rt (RES_AND_OR rs) \<longleftrightarrow>
     rt \<in> {RESTRICTION_TYPE_AND, RESTRICTION_TYPE_OR} \<and> (\<forall>r\<in>set rs. dup_restriction_ok r)"
| "dup_res_ok rt (RES_NOT r) \<longleftrightarrow> rt = RESTRICTION_TYPE_NOT \<and> dup_restriction_ok r"
| "dup_res_ok rt (RES_CONTENT a b v) \<longleftrightarrow> rt = RESTRICTION_TYPE_CONTENT \<and> dup_tagged_ok v"
| "dup_res_ok rt (RES_PROPERTY a b v) \<longleftrightarrow> rt = RESTRICTION_TYPE_PROPERTY \<and> dup_tagged_ok v"
| "dup_res_ok rt (RES_PROPCOMPARE a b c) \<longleftrightarrow> rt = RESTRICTION_TYPE_PROPCOMPARE"
| "dup_res_ok rt (RES_BITMASK a b c) \<longleftrightarrow> rt = RESTRICTION_TYPE_BITMASK"
| "dup_res_ok rt (RES_SIZE a b c) \<longleftrightarrow> rt = RESTRICTION_TYPE_SIZE"
| "dup_res_ok rt (RES_EXIST a) \<longleftrightarrow> rt = RESTRICTION_TYPE_EXIST"
| "dup_res_ok rt (RES_SUBOBJ a r) \<longleftrightarrow> rt = RESTRICTION_TYPE_SUBOBJ \<and> dup_restriction_ok r"
| "dup_res_ok rt (RES_COMMENT vs r) \<longleftrightarrow>
     rt = RESTRICTION_TYPE_COMMENT \<and> (\<forall>v\<in>set vs. dup_tagged_ok v) \<and>
     (case r of None \<Rightarrow> True | Some r \<Rightarrow> dup_restriction_ok r)"
| "dup_res_ok rt (RES_COUNT a r) \<longleftrightarrow> rt = RESTRICTION_TYPE_COUNT \<and> dup_restriction_ok r"

text \<open>The number of blocks that a value on the heap is made of.\<close>

definition content_blocks :: "'a list \<Rightarrow> nat" where
  "content_blocks xs = (if xs = [] then 0 else 1)"

fun svreid_blocks :: "svreid \<Rightarrow> nat" where
  "svreid_blocks (SVREID None f m i) = 1"
| "svreid_blocks (SVREID (Some b) f m i) = content_blocks b + 2"

fun blocks :: "propval \<Rightarrow> nat"
  and tagged_blocks :: "tagged_propval \<Rightarrow> nat"
  and inline_blocks :: "restriction \<Rightarrow> nat"
  and res_blocks :: "res_data \<Rightarrow> nat" where
  "blocks (PV_TYPED u v) = blocks v + 1"
| "blocks (PV_SVREID r) = svreid_blocks r"
| "blocks (PV_RESTRICTION r) = inline_blocks r + 1"
| "blocks (PV_BINARY b) = content_blocks b + 1"
| "blocks (PV_SHORT_ARRAY a) = content_blocks a + 1"
| "blocks (PV_LONG_ARRAY a) = content_blocks a + 1"
| "blocks (PV_LONGLONG_ARRAY a) = content_blocks a + 1"
| "blocks (PV_STRING_ARRAY a) = length a + (content_blocks a + 1)"
| "blocks (PV_BINARY_ARRAY a) = sum_list (map content_blocks a) + (content_blocks a + 1)"
| "blocks _ = 1"
| "tagged_blocks (TAGGED_PROPVAL tag v) = blocks v"
| "inline_blocks (RESTRICTION rt d) = res_blocks d"
| "res_blocks (RES_AND_OR rs) = sum_list (map inline_blocks rs) + (1 + 1)"
| "res_blocks (RES_NOT r) = inline_blocks r + 1"
| "res_blocks (RES_CONTENT a b v) = tagged_blocks v + 1"
| "res_blocks (RES_PROPERTY a b v) = tagged_blocks v + 1"
| "res_blocks (RES_SUBOBJ a r) = inline_blocks r + 1"
| "res_blocks (RES_COMMENT vs r) =
     sum_list (map tagged_blocks vs) + (1 + ((case r of None \<Rightarrow> 0 | Some r \<Rightarrow> inline_blocks r + 1) + 1))"
| "res_blocks (RES_COUNT a r) = inline_blocks r + 1"
| "res_blocks _ = 1"

text \<open>A copy: equal, up to the members of a server id beside its binary.\<close>

fun svreid_copy :: "svreid \<Rightarrow> svreid \<Rightarrow> bool" where
  "svreid_copy (SVREID None f m i) r \<longleftrightarrow> r = SVREID None f m i"
| "svreid_copy (SVREID (Some b) f m i) r \<longleftrightarrow> se_bin r = Some b"

fun copy :: "propval \<Rightarrow> propval \<Rightarrow> bool"
  and tagged_copy :: "tagged_propval \<Rightarrow> tagged_propval \<Rightarrow> bool"
  and restriction_copy :: "restriction \<Rightarrow> restriction \<Rightarrow> bool"
  and res_copy :: "res_data \<Rightarrow> res_data \<Rightarrow> bool" where
  "copy (PV_TYPED u v) w \<longleftrightarrow> (\<exists>v'. w = PV_TYPED u v' \<and> copy v v')"
| "copy (PV_SVREID r) w \<longleftrightarrow> (\<exists>r'. w = PV_SVREID r' \<and> svreid_copy r r')"
| "copy (PV_RESTRICTION r) w \<longleftrightarrow> (\<exists>r'. w = PV_RESTRICTION r' \<and> restriction_copy r r')"
| "copy v w \<longleftrightarrow> w = v"
| "tagged_copy (TAGGED_PROPVAL tag v) w \<longleftrightarrow> (\<exists>v'. w = TAGGED_PROPVAL tag v' \<and> copy v v')"
| "restriction_copy (RESTRICTION rt d) w \<longleftrightarrow> (\<exists>d'. w = RESTRICTION rt d' \<and> res_copy d d')"
| "res_copy (RES_AND_OR rs) w \<longleftrightarrow> (\<exists>rs'. w = RES_AND_OR rs' \<and> list_all2 restriction_copy rs rs')"
| "res_copy (RES_NOT r) w \<longleftrightarrow> (\<exists>r'. w = RES_NOT r' \<and> restriction_copy r r')"
| "res_copy (RES_CONTENT a b v) w \<longleftrightarrow> (\<exists>v'. w = RES_CONTENT a b v' \<and> tagged_copy v v')"
| "res_copy (RES_PROPERTY a b v) w \<longleftrightarrow> (\<exists>v'. w = RES_PROPERTY a b v' \<and> tagged_copy v v')"
| "res_copy (RES_SUBOBJ a r) w \<longleftrightarrow> (\<exists>r'. w = RES_SUBOBJ a r' \<and> restriction_copy r r')"
| "res_copy (RES_COMMENT vs r) w \<longleftrightarrow>
     (\<exists>vs' r'. w = RES_COMMENT vs' r' \<and> list_all2 tagged_copy vs vs' \<and>
        (case r of None \<Rightarrow> r' = None | Some r \<Rightarrow> (\<exists>x. r' = Some x \<and> restriction_copy r x)))"
| "res_copy (RES_COUNT a r) w \<longleftrightarrow> (\<exists>r'. w = RES_COUNT a r' \<and> restriction_copy r r')"
| "res_copy d w \<longleftrightarrow> w = d"

lemmas dup_types = propval_types restriction_types

lemma frees_content: "frees (content_free xs) (content_blocks xs)"
  using frees_ret frees_free by (auto simp: content_free_def content_blocks_def)

lemma frees_svreid: "frees (svreid_free r) (svreid_blocks r)"
proof (induction r rule: svreid_free.induct)
  case (2 b f m i)
  show ?case
    using frees_seq [OF frees_content frees_seq [OF frees_free frees_free]] by simp
qed (use frees_free in simp)

lemma frees_strings: "frees (string_array_free a) (length a + (content_blocks a + 1))"
proof -
  have "frees (for_each (\<lambda>_. dup_free) a) (length a)"
    using frees_for_each [of a "\<lambda>_. dup_free" "\<lambda>_. 1"] frees_free by (simp add: sum_list_triv)
  then show ?thesis
    unfolding string_array_free_def by (intro frees_seq frees_content frees_free)
qed

lemma frees_binaries:
  "frees (binary_array_free a) (sum_list (map content_blocks a) + (content_blocks a + 1))"
  unfolding binary_array_free_def by (intro frees_seq frees_for_each frees_content frees_free)

lemma restriction_free_inline: "restriction_free r = seq (restriction_free_inline r) dup_free"
  by (cases r) simp

lemma free_frees:
  "dup_ok t v \<Longrightarrow> frees (propval_free t v) (blocks v)"
  "dup_tagged_ok w \<Longrightarrow> frees (tagged_free w) (tagged_blocks w)"
  "dup_restriction_ok r \<Longrightarrow> frees (restriction_free_inline r) (inline_blocks r)"
  "dup_res_ok rt d \<Longrightarrow> frees (restriction_free_by_type rt d) (res_blocks d)"
proof (induction t v and w and r and rt d
    rule: dup_ok_dup_tagged_ok_dup_restriction_ok_dup_res_ok.induct)
  case (18 t a)
  have "frees (seq (content_free ([] :: guid list)) dup_free) (0 + 1)"
    using frees_seq [OF frees_content frees_free, of "[] :: guid list"] by (simp add: content_blocks_def)
  with 18 show ?case by (simp add: dup_types)
next
  case (23 rt rs)
  then have "frees (for_each restriction_free_inline rs) (sum_list (map inline_blocks rs))"
    by (intro frees_for_each) auto
  from frees_seq [OF this frees_seq [OF frees_free frees_free]] 23 show ?case
    by (auto simp: dup_types)
next
  case (32 rt vs r)
  have opt: "frees (case r of None \<Rightarrow> ret () | Some r \<Rightarrow> restriction_free r)
      (case r of None \<Rightarrow> 0 | Some r \<Rightarrow> inline_blocks r + 1)"
    using 32 by (cases r) (auto simp: restriction_free_inline simp del: One_nat_def
        intro!: frees_ret frees_seq frees_free)
  have "frees (for_each tagged_free vs) (sum_list (map tagged_blocks vs))"
    using 32 by (intro frees_for_each) auto
  from frees_seq [OF this frees_seq [OF frees_free frees_seq [OF opt frees_free]]] 32 show ?case
    by (cases r) (simp_all add: dup_types)
qed (auto simp: free_other_def deep_types_def dup_types restriction_free_other_def restriction_free_inline
    simp del: One_nat_def
    intro!: frees_seq frees_free frees_content frees_svreid frees_strings frees_binaries frees_for_each)

text \<open>A copy has as many blocks as the original, and values of the same types.\<close>

lemma svreid_copy_blocks: "svreid_copy r r' \<Longrightarrow> svreid_blocks r' = svreid_blocks r"
proof (induction r r' rule: svreid_copy.induct)
  case (2 b f m i r)
  then show ?case by (cases r) simp
qed simp

lemma list_copies:
  assumes "list_all2 C xs ys" "\<And>x y. x \<in> set xs \<Longrightarrow> C x y \<Longrightarrow> Q y \<and> w y = (w x :: nat)"
  shows "(\<forall>y\<in>set ys. Q y) \<and> sum_list (map w ys) = sum_list (map w xs)"
  using assms
proof (induction rule: list_all2_induct)
  case (Cons x xs y ys)
  have "Q y \<and> w y = w x" by (rule Cons.prems) (use Cons in simp_all)
  moreover have "(\<forall>y\<in>set ys. Q y) \<and> sum_list (map w ys) = sum_list (map w xs)"
    by (rule Cons.IH) (rule Cons.prems, simp_all)
  ultimately show ?case by simp
qed simp

lemma copy_keeps:
  "dup_ok t v \<Longrightarrow> copy v x \<Longrightarrow> dup_ok t x \<and> blocks x = blocks v"
  "dup_tagged_ok w \<Longrightarrow> tagged_copy w y \<Longrightarrow> dup_tagged_ok y \<and> tagged_blocks y = tagged_blocks w"
  "dup_restriction_ok r \<Longrightarrow> restriction_copy r z \<Longrightarrow>
     dup_restriction_ok z \<and> inline_blocks z = inline_blocks r"
  "dup_res_ok rt d \<Longrightarrow> res_copy d e \<Longrightarrow> dup_res_ok rt e \<and> res_blocks e = res_blocks d"
proof (induction t v and w and r and rt d arbitrary: x and y and z and e
    rule: dup_ok_dup_tagged_ok_dup_restriction_ok_dup_res_ok.induct)
  case (23 rt rs)
  then obtain rs' where e: "e = RES_AND_OR rs'" "list_all2 restriction_copy rs rs'" by auto
  have "(\<forall>z\<in>set rs'. dup_restriction_ok z) \<and> sum_list (map inline_blocks rs') = sum_list (map inline_blocks rs)"
  proof (rule list_copies [OF e(2)])
    fix a b assume a: "a \<in> set rs" "restriction_copy a b"
    with 23(2) have "dup_restriction_ok a" by simp
    from 23(1) [OF a(1) this a(2)] show "dup_restriction_ok b \<and> inline_blocks b = inline_blocks a" .
  qed
  with 23 e show ?case by auto
next
  case (32 rt vs r)
  then obtain vs' r' where e: "e = RES_COMMENT vs' r'" "list_all2 tagged_copy vs vs'"
    "case r of None \<Rightarrow> r' = None | Some r \<Rightarrow> (\<exists>x. r' = Some x \<and> restriction_copy r x)" by auto
  have "(\<forall>z\<in>set vs'. dup_tagged_ok z) \<and> sum_list (map tagged_blocks vs') = sum_list (map tagged_blocks vs)"
  proof (rule list_copies [OF e(2)])
    fix a b assume a: "a \<in> set vs" "tagged_copy a b"
    with 32(3) have "dup_tagged_ok a" by simp
    from 32(1) [OF a(1) this a(2)] show "dup_tagged_ok b \<and> tagged_blocks b = tagged_blocks a" .
  qed
  with 32 e show ?case by (cases r) auto
qed (auto simp: svreid_copy_blocks)

section \<open>What copying yields\<close>

lemma dups_gets:
  assumes "\<And>j. dups (k j) P n m"
  shows "dups (bnd (gets g) k) P n m"
proof (rule dupsI)
  fix h :: dup_heap assume "m \<le> live h"
  with assms [of "g h"] show "dup_end P n m h (bnd (gets g) k h)"
    by (simp add: dups_def bnd_def gets_def)
qed

lemma dups_content: "dups (content_dup xs) (\<lambda>ys. ys = xs) (content_blocks xs + 1) 0"
  using dups_in_struct [OF dups_Some, of "\<lambda>ys. ys = xs" xs]
    dups_in_struct [OF dups_block, of "\<lambda>ys. ys = xs" xs]
  by (cases "xs = []") (simp_all add: content_dup_def content_blocks_def)

lemma dups_svreid: "dups (svreid_dup r) (svreid_copy r) (svreid_blocks r) 0"
proof (induction r rule: svreid_dup.induct)
  case (1 f m i)
  show ?case unfolding svreid_dup.simps svreid_blocks.simps by (rule dups_block) simp
next
  case (2 b f m i)
  have "dups (map_dup (\<lambda>b. SVREID (Some b) j j (ucast j)) (in_struct (content_dup b)))
      (svreid_copy (SVREID (Some b) f m i)) (Suc (content_blocks b + 1)) 0" for j
    by (rule dups_map [OF dups_in_struct [OF dups_content]]) simp
  from dups_gets [where k = "\<lambda>j. map_dup (\<lambda>b. SVREID (Some b) j j (ucast j)) (in_struct (content_dup b))",
      OF this]
  show ?case unfolding svreid_dup.simps by (rule dups_mono) simp_all
qed

lemma dups_list:
  assumes "\<And>x. dups (d x) (\<lambda>y. y = x) (w x) 0" "\<And>x. frees (f x) (w x)"
  shows "dups (dup_each d f [] xs) (\<lambda>ys. ys = xs) (sum_list (map w xs)) 0"
  by (rule dups_mono [OF dups_each [where C = "\<lambda>x y. y = x"]])
    (use assms in \<open>auto simp: list_all2_conv_all_nth intro: nth_equalityI\<close>)

lemma dups_strings:
  "dups (string_array_dup ss) (\<lambda>ys. ys = ss) (length ss + (content_blocks ss + 1)) 0"
proof (cases "ss = []")
  case True
  then show ?thesis
    using dups_in_struct [OF dups_Some, of "\<lambda>ys. ys = ss" ss]
    by (simp add: string_array_dup_def content_blocks_def)
next
  case False
  have "dups (dup_each dup_block (\<lambda>_. dup_free) [] ss) (\<lambda>ys. ys = ss) (sum_list (map (\<lambda>_. 1) ss)) 0"
    by (rule dups_list) (simp_all only: dups_block frees_free)
  from dups_in_struct [OF dups_in_struct [OF this]] False show ?thesis
    by (simp add: string_array_dup_def content_blocks_def sum_list_triv)
qed

lemma dups_binaries:
  "dups (binary_array_dup bs) (\<lambda>ys. ys = bs) (sum_list (map content_blocks bs) + (content_blocks bs + 1)) 0"
proof (cases "bs = []")
  case True
  then show ?thesis
    using dups_in_struct [OF dups_Some, of "\<lambda>ys. ys = bs" bs]
    by (simp add: binary_array_dup_def content_blocks_def)
next
  case False
  have "dups (dup_each (\<lambda>b. if b = [] then ret (Some []) else dup_block b) content_free [] bs)
      (\<lambda>ys. ys = bs) (sum_list (map content_blocks bs)) 0"
    by (rule dups_list [OF _ frees_content])
      (auto simp: content_blocks_def dups_Some dups_block simp del: One_nat_def)
  from dups_in_struct [OF dups_in_struct [OF this]] False show ?thesis
    by (simp add: binary_array_dup_def content_blocks_def)
qed

lemma dups_leaf:
  assumes "dups d (\<lambda>y. y = x) n 0" "P (f x)"
  shows "dups (map_dup f d) P n 0"
  by (rule dups_map [OF assms(1)]) (simp add: assms(2))

lemma restriction_dup_inline: "restriction_dup r = in_struct (restriction_dup_inline r)"
  by (cases r) simp

lemma dups_part:
  assumes "dups d P n 0" "\<And>x. P x \<Longrightarrow> Q (f x)"
  shows "dups (map_dup f (in_struct d)) Q (n + 1) 0"
  unfolding Suc_eq_plus1 [symmetric] by (rule dups_map [OF dups_in_struct [OF assms(1)]]) (rule assms(2))

lemma dup_copies:
  "dup_ok t v \<Longrightarrow> dups (propval_dup t v) (copy v) (blocks v) 0"
  "dup_tagged_ok w \<Longrightarrow> dups (tagged_dup w) (tagged_copy w) (tagged_blocks w) 0"
  "dup_restriction_ok r \<Longrightarrow> dups (restriction_dup_inline r) (restriction_copy r) (inline_blocks r) 0"
  "dup_res_ok rt d \<Longrightarrow> dups (restriction_dup_by_type rt d) (res_copy d) (res_blocks d) 0"
proof (induction t v and w and r and rt d
    rule: dup_ok_dup_tagged_ok_dup_restriction_ok_dup_res_ok.induct)
  case (1 t u v)
  then have "dups (map_dup (PV_TYPED u) (propval_dup u v)) (copy (PV_TYPED u v)) (blocks v) 0"
    by (intro dups_map) auto
  from dups_in_struct [OF this] have "dups (propval_dup t (PV_TYPED u v)) (copy (PV_TYPED u v)) (Suc (blocks v)) 0"
    using 1 by (simp del: copy.simps)
  then show ?case by (rule dups_mono) simp_all
next
  case (9 t r)
  then show ?case by (auto intro: dups_map [OF dups_svreid])
next
  case (11 t r)
  then have "dups (restriction_dup_inline r) (restriction_copy r) (inline_blocks r) 0" by simp
  from dups_in_struct [OF this] have "dups (map_dup PV_RESTRICTION (restriction_dup r))
      (copy (PV_RESTRICTION r)) (Suc (inline_blocks r)) 0"
    unfolding restriction_dup_inline by (rule dups_map) simp
  then have "dups (propval_dup t (PV_RESTRICTION r)) (copy (PV_RESTRICTION r)) (Suc (inline_blocks r)) 0"
    using 11 by (simp add: dup_types del: copy.simps)
  then show ?case by (rule dups_mono) simp_all
next
  case (18 t a)
  have "dups (in_struct (ret (Some ([] :: guid list)))) (\<lambda>ys. ys = []) (Suc 0) 0"
    by (intro dups_in_struct dups_Some) simp
  moreover have "copy (PV_GUID_ARRAY []) (PV_GUID_ARRAY [])" by simp
  ultimately have "dups (map_dup PV_GUID_ARRAY (in_struct (ret (Some [])))) (copy (PV_GUID_ARRAY [])) (Suc 0) 0"
    by (rule dups_leaf)
  then have "dups (propval_dup t (PV_GUID_ARRAY a)) (copy (PV_GUID_ARRAY a)) (Suc 0) 0"
    using 18 by (simp add: dup_types guid_array_dup_def del: copy.simps)
  then show ?case by (rule dups_mono) simp_all
next
  case (20 tag v)
  then show ?case by (auto intro: dups_map)
next
  case (21 rt d)
  then show ?case by (auto intro: dups_map)
next
  case (23 rt rs)
  have "dups (dup_each restriction_dup_inline restriction_free_inline [] rs)
      (list_all2 restriction_copy rs) (sum_list (map inline_blocks rs)) 0"
  proof (rule dups_each)
    fix x assume x: "x \<in> set rs"
    with 23(2) have ok: "dup_restriction_ok x" by simp
    then show "dups (restriction_dup_inline x) (restriction_copy x) (inline_blocks x) 0"
      using 23(1) x by simp
    fix y assume "restriction_copy x y"
    from copy_keeps(3) [OF ok this] show "frees (restriction_free_inline y) (inline_blocks x)"
      using free_frees(3) by metis
  qed
  from dups_map [OF dups_in_struct [OF dups_in_struct [OF this]], of "res_copy (RES_AND_OR rs)" RES_AND_OR]
  have "dups (restriction_dup_by_type rt (RES_AND_OR rs)) (res_copy (RES_AND_OR rs))
      (Suc (Suc (sum_list (map inline_blocks rs)))) 0"
    using 23(2) by auto
  then show ?case by (rule dups_mono) simp_all
next
  case (32 rt vs r)
  let ?k = "\<lambda>vs'. case r of None \<Rightarrow> ret (Some (RES_COMMENT vs' None))
    | Some res \<Rightarrow> bnd (restriction_dup res) (\<lambda>r. case r of
        None \<Rightarrow> seq (for_each tagged_free vs') (ret None)
      | Some res' \<Rightarrow> ret (Some (RES_COMMENT vs' (Some res'))))"
  let ?n = "sum_list (map tagged_blocks vs)"
  have "dups (dup_each tagged_dup tagged_free [] vs) (list_all2 tagged_copy vs) ?n 0"
  proof (rule dups_each)
    fix x assume x: "x \<in> set vs"
    with 32(3) have ok: "dup_tagged_ok x" by simp
    then show "dups (tagged_dup x) (tagged_copy x) (tagged_blocks x) 0"
      using 32(1) x by simp
    fix y assume "tagged_copy x y"
    from copy_keeps(2) [OF ok this] show "frees (tagged_free y) (tagged_blocks x)"
      using free_frees(2) by metis
  qed
  moreover have "dups (?k vs') (res_copy (RES_COMMENT vs r))
      (case r of None \<Rightarrow> 0 | Some r \<Rightarrow> inline_blocks r + 1) (0 + ?n)"
    if c: "list_all2 tagged_copy vs vs'" for vs'
  proof (cases r)
    case None
    with c show ?thesis by (simp add: dups_Some)
  next
    case (Some res)
    have ok: "\<And>v. v \<in> set vs \<Longrightarrow> dup_tagged_ok v" using 32(3) by simp
    have "(\<forall>y\<in>set vs'. dup_tagged_ok y) \<and> sum_list (map tagged_blocks vs') = ?n"
      by (rule list_copies [OF c]) (use ok copy_keeps(2) in blast)
    then have "frees (for_each tagged_free vs') ?n"
      using frees_for_each [of vs' tagged_free tagged_blocks] free_frees(2) by metis
    moreover have "dups (restriction_dup res) (restriction_copy res) (Suc (inline_blocks res)) 0"
      unfolding restriction_dup_inline by (rule dups_in_struct) (use 32 Some in simp)
    ultimately have "dups (?k vs') (res_copy (RES_COMMENT vs r)) (Suc (inline_blocks res)) (0 + ?n)"
      unfolding Some option.case by (intro dups_cleanup) (use c Some in auto)
    with Some show ?thesis by (simp del: res_copy.simps)
  qed
  ultimately have "dups (bnd (dup_each tagged_dup tagged_free [] vs)
      (\<lambda>r. case r of None \<Rightarrow> ret None | Some vs' \<Rightarrow> ?k vs')) (res_copy (RES_COMMENT vs r))
      (?n + (case r of None \<Rightarrow> 0 | Some r \<Rightarrow> inline_blocks r + 1)) 0"
    by (rule dups_bnd)
  from dups_in_struct [OF dups_in_struct [OF this]]
  have "dups (restriction_dup_by_type rt (RES_COMMENT vs r)) (res_copy (RES_COMMENT vs r))
      (Suc (Suc (?n + (case r of None \<Rightarrow> 0 | Some r \<Rightarrow> inline_blocks r + 1)))) 0"
    using 32(3) by (simp del: res_copy.simps)
  then show ?case by (rule dups_mono) simp_all
qed (auto simp: dup_types simp del: One_nat_def add_Suc_right
    intro!: dups_part dups_block dups_leaf [OF dups_content] dups_leaf [OF dups_strings]
      dups_leaf [OF dups_binaries])

end
