(* ===== verification/Value_Properties.thy ===== *)
theory Value_Properties
  imports Prop_Compare Prop_Dup_Logic
begin

text \<open>
  The properties of copying, releasing and comparing property values.
\<close>







end
