(* ===== verification/Dyn_Arrays.thy ===== *)
theory Dyn_Arrays
  imports Prop_Dup Struct_Types Id_Collection
begin

text \<open>
  The arrays of \<open>LIBRARY/mapi_lib\<close> that grow in steps of 100 elements: \<open>eid_array.c\<close>,
  \<open>proptag_array.c\<close>, \<open>tpropval_array.c\<close>, \<open>tarray_set.c\<close>, and the copy of
  \<open>sortorder_set.c\<close>.

  An array is the list of its elements in use, whose length is the member \<open>count\<close>, and the
  number of elements its block has room for, which the code does not store but computes from
  \<open>count\<close> each time.  A write behind that room is undefined behaviour.  Allocation is that of
  \<open>Prop_Dup\<close>; \<open>realloc\<close> asks for a grant and leaves the number of blocks as it is.
\<close>

section \<open>Arrays with room\<close>

record 'a dyn_array =
  items :: "'a list"
  room :: nat

type_synonym eid_array = "u64 dyn_array"
type_synonym proptag_array = "u32 dyn_array"
type_synonym tpropval_array = "tagged_propval dyn_array"
type_synonym tarray_set = "tpropval_array dyn_array"

definition dup_realloc :: "bool dup" where
  "dup_realloc h = (Inr (grants h 0), h \<lparr>grants := \<lambda>k. grants h (Suc k)\<rparr>)"

text \<open>\<open>parray->p[parray->count] = x;\<close> and the same for several elements.\<close>

definition store_items :: "'a list \<Rightarrow> 'a dyn_array \<Rightarrow> 'a dyn_array dup" where
  "store_items xs a =
     (if length (items a) + length xs \<le> room a then ret (a \<lparr>items := items a @ xs\<rparr>)
      else fail UNDEFINED_BEHAVIOUR)"

definition set_count :: "nat \<Rightarrow> 'a dyn_array \<Rightarrow> 'a dyn_array" where
  "set_count n a = a \<lparr>items := take n (items a)\<rparr>"

text \<open>\<open>memmove\<close> over the element at an index, after \<open>count --\<close>.\<close>

definition delete_at :: "nat \<Rightarrow> 'a list \<Rightarrow> 'a list" where
  "delete_at i xs = take i xs @ drop (Suc i) xs"

text \<open>A structure and its array of 100 elements, both freshly allocated.\<close>

definition dyn_init :: "'a dyn_array option dup" where
  "dyn_init = in_struct (dup_block \<lparr>items = [], room = 100\<rparr>)"

section \<open>Arrays of entry ids\<close>

definition eid_array_init :: "eid_array option dup" where
  "eid_array_init = dyn_init"

definition eid_array_free :: "eid_array \<Rightarrow> unit dup" where
  "eid_array_free a = seq dup_free dup_free"

definition eid_count :: "eid_array \<Rightarrow> u32" where
  "eid_count a = of_nat (length (items a))"

definition eid_room :: "u32 \<Rightarrow> u32" where
  "eid_room n = (n div 100 + 1) * 100"

definition eid_array_append :: "eid_array \<Rightarrow> u64 \<Rightarrow> (bool \<times> eid_array) dup" where
  "eid_array_append a eid =
     (let count = eid_room (eid_count a);
          store = (\<lambda>a. bnd (store_items [eid] a) (\<lambda>b. ret (True, set_count (unat (eid_count a + 1)) b)))
      in if eid_count a + 1 \<ge> count then
           bnd dup_realloc (\<lambda>ok.
             if \<not> ok then ret (False, a) else store (a \<lparr>room := unat (count + 100)\<rparr>))
         else store a)"

text \<open>\<open>for (; count<=parray->count+id_count; count+=100);\<close>\<close>

partial_function (option) eid_grow :: "u32 \<Rightarrow> u32 \<Rightarrow> u32 option" where
  "eid_grow count needed =
     (if count \<le> needed then eid_grow (count + 100) needed else Some count)"

definition eid_array_batch_append :: "eid_array \<Rightarrow> u32 \<Rightarrow> u64 list \<Rightarrow> (bool \<times> eid_array) dup" where
  "eid_array_batch_append a id_count ids =
     (if id_count = 0 then ret (True, a)
      else
        let count = eid_room (eid_count a);
            store = (\<lambda>a.
              if length ids < unat id_count then fail UNDEFINED_BEHAVIOUR
              else bnd (store_items (take (unat id_count) ids) a) (\<lambda>b.
                ret (True, set_count (unat (eid_count a + id_count)) b)))
        in if eid_count a + id_count \<ge> count then
             (case eid_grow count (eid_count a + id_count) of
                None \<Rightarrow> fail NOT_RETURNING
              | Some count \<Rightarrow>
                  bnd dup_realloc (\<lambda>ok.
                    if \<not> ok then ret (False, a) else store (a \<lparr>room := unat count\<rparr>)))
           else store a)"

definition eid_array_dup :: "eid_array \<Rightarrow> eid_array option dup" where
  "eid_array_dup a =
     in_struct (bnd dup_malloc (\<lambda>ok.
       if \<not> ok then ret None
       else if unat (eid_room (eid_count a)) < length (items a) then fail UNDEFINED_BEHAVIOUR
       else ret (Some \<lparr>items = items a, room = unat (eid_room (eid_count a))\<rparr>)))"

text \<open>The index is an \<open>int\<close>; it overflows where no element before \<open>2^31\<close> ends the loop.\<close>

definition eid_array_check :: "eid_array \<Rightarrow> u64 \<Rightarrow> bool dup" where
  "eid_array_check a eid =
     (if eid \<in> set (take (2 ^ 31) (items a)) then ret True
      else if 2 ^ 31 \<le> length (items a) then fail UNDEFINED_BEHAVIOUR
      else ret False)"

function eid_remove_loop :: "u64 \<Rightarrow> nat \<Rightarrow> u64 list \<Rightarrow> ext_err + u64 list" where
  "eid_remove_loop eid i xs =
     (if i < length xs then
        if xs ! i = eid then eid_remove_loop eid i (delete_at i xs)
        else if i + 1 = 2 ^ 31 then Inl UNDEFINED_BEHAVIOUR
        else eid_remove_loop eid (i + 1) xs
      else Inr xs)"
  by pat_completeness auto

termination
  by (relation "measure (\<lambda>(eid, i, xs). length xs - i)") (auto simp: delete_at_def)

definition eid_array_remove :: "eid_array \<Rightarrow> u64 \<Rightarrow> eid_array dup" where
  "eid_array_remove a eid =
     (case eid_remove_loop eid 0 (items a) of
        Inl e \<Rightarrow> fail e
      | Inr xs \<Rightarrow> ret (a \<lparr>items := xs\<rparr>))"

section \<open>Arrays of property tags\<close>

text \<open>The member \<open>count\<close> has 16 bits; the room is computed with 32 bits.\<close>

definition room_for :: "nat \<Rightarrow> nat" where
  "room_for n = (n div 100 + 1) * 100"

definition proptag_array_init :: "proptag_array option dup" where
  "proptag_array_init = dyn_init"

definition proptag_array_free :: "proptag_array \<Rightarrow> unit dup" where
  "proptag_array_free a = seq dup_free dup_free"

definition proptag_array_clear :: "proptag_array \<Rightarrow> proptag_array" where
  "proptag_array_clear a = set_count 0 a"

text \<open>\<open>count ++\<close> of a 16-bit count, after the element is stored.\<close>

definition append_counted :: "'a \<Rightarrow> 'a dyn_array \<Rightarrow> (bool \<times> 'a dyn_array) dup" where
  "append_counted x a =
     bnd (store_items [x] a) (\<lambda>b.
       ret (True, set_count (unat (of_nat (length (items a)) + 1 :: u16)) b))"

definition proptag_array_append :: "proptag_array \<Rightarrow> u32 \<Rightarrow> (bool \<times> proptag_array) dup" where
  "proptag_array_append a proptag =
     (if proptag \<in> set (items a) then ret (True, a)
      else
        let n = length (items a); count = room_for n
        in if n + 1 \<ge> count then
             bnd dup_realloc (\<lambda>ok.
               if \<not> ok then ret (False, a) else append_counted proptag (a \<lparr>room := count + 100\<rparr>))
           else append_counted proptag a)"

fun proptag_remove_loop :: "u32 \<Rightarrow> u32 list \<Rightarrow> u32 list" where
  "proptag_remove_loop proptag [] = []"
| "proptag_remove_loop proptag (t # ts) =
     (if proptag = t then ts else t # proptag_remove_loop proptag ts)"

definition proptag_array_remove :: "proptag_array \<Rightarrow> u32 \<Rightarrow> proptag_array" where
  "proptag_array_remove a proptag = a \<lparr>items := proptag_remove_loop proptag (items a)\<rparr>"

definition proptag_array_check :: "proptag_array \<Rightarrow> u32 \<Rightarrow> bool" where
  "proptag_array_check a proptag \<longleftrightarrow> list_ex (\<lambda>t. proptag = t) (items a)"

definition proptag_array_dup :: "proptag_array \<Rightarrow> proptag_array option dup" where
  "proptag_array_dup a =
     in_struct (bnd dup_malloc (\<lambda>ok.
       if \<not> ok then ret None
       else if room_for (length (items a)) < length (items a) then fail UNDEFINED_BEHAVIOUR
       else ret (Some \<lparr>items = items a, room = room_for (length (items a))\<rparr>)))"

section \<open>Arrays of property values\<close>

text \<open>The value that is appended is copied; a \<open>NULL\<close> value is left out silently.\<close>

definition tpropval_array_append ::
    "tpropval_array \<Rightarrow> u32 \<Rightarrow> propval option \<Rightarrow> (bool \<times> tpropval_array) dup" where
  "tpropval_array_append a proptag pvalue =
     (case pvalue of
        None \<Rightarrow> ret (True, a)
      | Some v \<Rightarrow>
          let n = length (items a); count = room_for n;
              store = (\<lambda>a.
                if room a \<le> n then fail UNDEFINED_BEHAVIOUR
                else bnd (propval_dup (proptag_type proptag) v) (\<lambda>r.
                  case r of
                    None \<Rightarrow> ret (False, a)
                  | Some w \<Rightarrow> append_counted (TAGGED_PROPVAL proptag w) a))
          in if n + 1 \<ge> count then
               bnd dup_realloc (\<lambda>ok.
                 if \<not> ok then ret (False, a) else store (a \<lparr>room := count + 100\<rparr>))
             else store a)"

fun tp_tag :: "tagged_propval \<Rightarrow> u32" where
  "tp_tag (TAGGED_PROPVAL tag v) = tag"

fun tp_value :: "tagged_propval \<Rightarrow> propval" where
  "tp_value (TAGGED_PROPVAL tag v) = v"

fun get_loop :: "u32 \<Rightarrow> tagged_propval list \<Rightarrow> propval option" where
  "get_loop proptag [] = None"
| "get_loop proptag (p # ps) = (if proptag = tp_tag p then Some (tp_value p) else get_loop proptag ps)"

definition tpropval_array_get_propval :: "tpropval_array \<Rightarrow> u32 \<Rightarrow> propval option" where
  "tpropval_array_get_propval a proptag = get_loop proptag (items a)"

text \<open>
  The loop that looks for the tag: the answer and the new elements, or nothing where the tag
  is not found.  The copy of \<open>NULL\<close> is \<open>NULL\<close>.
\<close>

fun set_loop ::
    "u32 \<Rightarrow> propval option \<Rightarrow> tagged_propval list \<Rightarrow> tagged_propval list \<Rightarrow>
       (bool \<times> tagged_propval list) option dup" where
  "set_loop proptag pvalue don [] = ret None"
| "set_loop proptag pvalue don (p # ps) =
     (if proptag = tp_tag p then
        (case pvalue of
           None \<Rightarrow> ret (Some (False, don @ p # ps))
         | Some v \<Rightarrow>
             bnd (propval_dup (proptag_type proptag) v) (\<lambda>r.
               case r of
                 None \<Rightarrow> ret (Some (False, don @ p # ps))
               | Some w \<Rightarrow>
                   seq (propval_free (proptag_type proptag) (tp_value p))
                     (ret (Some (True, don @ TAGGED_PROPVAL proptag w # ps)))))
      else set_loop proptag pvalue (don @ [p]) ps)"

definition tpropval_array_set_propval ::
    "tpropval_array \<Rightarrow> u32 \<Rightarrow> propval option \<Rightarrow> (bool \<times> tpropval_array) dup" where
  "tpropval_array_set_propval a proptag pvalue =
     bnd (set_loop proptag pvalue [] (items a)) (\<lambda>r.
       case r of
         None \<Rightarrow> tpropval_array_append a proptag pvalue
       | Some (b, ps) \<Rightarrow> ret (b, a \<lparr>items := ps\<rparr>))"

fun tpropval_remove_loop :: "u32 \<Rightarrow> tagged_propval list \<Rightarrow> tagged_propval list dup" where
  "tpropval_remove_loop proptag [] = ret []"
| "tpropval_remove_loop proptag (p # ps) =
     (if proptag = tp_tag p then seq (propval_free (proptag_type proptag) (tp_value p)) (ret ps)
      else bnd (tpropval_remove_loop proptag ps) (\<lambda>qs. ret (p # qs)))"

definition tpropval_array_remove_propval :: "tpropval_array \<Rightarrow> u32 \<Rightarrow> tpropval_array dup" where
  "tpropval_array_remove_propval a proptag =
     bnd (tpropval_remove_loop proptag (items a)) (\<lambda>ps. ret (a \<lparr>items := ps\<rparr>))"

definition tpropval_array_init :: "tpropval_array option dup" where
  "tpropval_array_init = dyn_init"

definition tpropval_array_free_internal :: "tpropval_array \<Rightarrow> unit dup" where
  "tpropval_array_free_internal a =
     seq (for_each (\<lambda>p. propval_free (proptag_type (tp_tag p)) (tp_value p)) (items a)) dup_free"

definition tpropval_array_free :: "tpropval_array \<Rightarrow> unit dup" where
  "tpropval_array_free a = seq (tpropval_array_free_internal a) dup_free"

text \<open>Setting every value of another array; answers are ignored.\<close>

fun tpropval_array_update :: "tpropval_array \<Rightarrow> tagged_propval list \<Rightarrow> tpropval_array dup" where
  "tpropval_array_update a [] = ret a"
| "tpropval_array_update a (p # ps) =
     bnd (tpropval_array_set_propval a (tp_tag p) (Some (tp_value p))) (\<lambda>(b, a').
       tpropval_array_update a' ps)"

fun append_loop :: "tpropval_array \<Rightarrow> tagged_propval list \<Rightarrow> tpropval_array option dup" where
  "append_loop a [] = ret (Some a)"
| "append_loop a (p # ps) =
     bnd (tpropval_array_append a (tp_tag p) (Some (tp_value p))) (\<lambda>(b, a').
       if \<not> b then seq (tpropval_array_free a') (ret None) else append_loop a' ps)"

definition tpropval_array_dup :: "tpropval_array \<Rightarrow> tpropval_array option dup" where
  "tpropval_array_dup a =
     bnd tpropval_array_init (\<lambda>r.
       case r of None \<Rightarrow> ret None | Some a1 \<Rightarrow> append_loop a1 (items a))"

section \<open>Sets of arrays\<close>

definition tarray_set_init :: "tarray_set option dup" where
  "tarray_set_init = dyn_init"

definition tarray_set_free :: "tarray_set \<Rightarrow> unit dup" where
  "tarray_set_free s = seq (for_each tpropval_array_free (items s)) (seq dup_free dup_free)"

definition tarray_set_remove :: "tarray_set \<Rightarrow> nat \<Rightarrow> tarray_set dup" where
  "tarray_set_remove s index =
     (if index \<ge> length (items s) then ret s
      else seq (tpropval_array_free (items s ! index)) (ret (s \<lparr>items := delete_at index (items s)\<rparr>)))"

text \<open>The room is computed with 16 bits, which the limit makes enough.\<close>

definition tarray_set_append_internal :: "tarray_set \<Rightarrow> tpropval_array \<Rightarrow> (bool \<times> tarray_set) dup" where
  "tarray_set_append_internal s pproplist =
     (let n = length (items s); count = (of_nat (room_for n) :: u16);
          store = (\<lambda>s. bnd (store_items [pproplist] s) (\<lambda>t. ret (True, t)))
      in if n \<ge> 0xFF00 then ret (False, s)
         else if n + 1 \<ge> unat count then
           bnd dup_realloc (\<lambda>ok.
             if \<not> ok then ret (False, s) else store (s \<lparr>room := unat (count + 100)\<rparr>))
         else store s)"

fun tarray_dup_loop :: "tarray_set \<Rightarrow> tpropval_array list \<Rightarrow> tarray_set option dup" where
  "tarray_dup_loop s [] = ret (Some s)"
| "tarray_dup_loop s (p # ps) =
     bnd (tpropval_array_dup p) (\<lambda>r.
       case r of
         None \<Rightarrow> seq (tarray_set_free s) (ret None)
       | Some q \<Rightarrow>
           bnd (tarray_set_append_internal s q) (\<lambda>(b, s').
             if \<not> b then seq (tpropval_array_free q) (seq (tarray_set_free s') (ret None))
             else tarray_dup_loop s' ps))"

definition tarray_set_dup :: "tarray_set \<Rightarrow> tarray_set option dup" where
  "tarray_set_dup s =
     bnd tarray_set_init (\<lambda>r. case r of None \<Rightarrow> ret None | Some s1 \<Rightarrow> tarray_dup_loop s1 (items s))"

section \<open>Sort orders\<close>

definition sortorder_set_free :: "sortorder_set \<Rightarrow> unit dup" where
  "sortorder_set_free s = seq dup_free dup_free"

definition sortorder_set_dup :: "sortorder_set \<Rightarrow> sortorder_set option dup" where
  "sortorder_set_dup s = in_struct (dup_block s)"

end
