(* ===== verification/Dyn_Logic.thy ===== *)
theory Dyn_Logic
  imports Prop_Dup_Logic Dyn_Arrays
begin

text \<open>
  What the operations on the growing arrays do.  \<open>runs d h Q\<close>: from the heap \<open>h\<close>, \<open>d\<close> returns
  without undefined behaviour, and \<open>Q\<close> holds of its result and of the heap it leaves.
  \<open>starved h\<close>: some allocation to come fails.
\<close>

definition later :: "dup_heap \<Rightarrow> dup_heap \<Rightarrow> bool" where
  "later h h' \<longleftrightarrow> (\<exists>k. grants h' = (\<lambda>i. grants h (i + k)))"

definition starved :: "dup_heap \<Rightarrow> bool" where
  "starved h \<longleftrightarrow> (\<exists>i. \<not> grants h i)"

definition runs :: "'a dup \<Rightarrow> dup_heap \<Rightarrow> ('a \<Rightarrow> dup_heap \<Rightarrow> bool) \<Rightarrow> bool" where
  "runs d h Q \<longleftrightarrow> (\<exists>r h'. d h = (Inr r, h') \<and> later h h' \<and> Q r h')"

lemma later_same: "grants h' = grants h \<Longrightarrow> later h h'"
  unfolding later_def by (rule exI [of _ 0]) simp

lemma later_trans [trans]: "later h h' \<Longrightarrow> later h' h'' \<Longrightarrow> later h h''"
  unfolding later_def
proof (elim exE)
  fix j k
  assume "grants h' = (\<lambda>i. grants h (i + j))" "grants h'' = (\<lambda>i. grants h' (i + k))"
  then have "grants h'' = (\<lambda>i. grants h (i + (k + j)))" by (simp add: add.assoc)
  then show "\<exists>k. grants h'' = (\<lambda>i. grants h (i + k))" ..
qed

lemma starved_later: "later h h' \<Longrightarrow> starved h' \<Longrightarrow> starved h"
  by (auto simp: later_def starved_def)

lemma runs_ret: "Q x h \<Longrightarrow> runs (ret x) h Q"
  by (simp add: runs_def ret_def later_same)

lemma runs_bnd:
  assumes "runs m h P" "\<And>r h'. later h h' \<Longrightarrow> P r h' \<Longrightarrow> runs (k r) h' Q"
  shows "runs (bnd m k) h Q"
proof -
  from assms(1) obtain r h' where r: "m h = (Inr r, h')" "later h h'" "P r h'"
    by (auto simp: runs_def)
  from assms(2) [OF r(2,3)] obtain s h'' where "k r h' = (Inr s, h'')" "later h' h''" "Q s h''"
    by (auto simp: runs_def)
  with r show ?thesis by (auto simp: runs_def bnd_def intro: later_trans)
qed

lemma runs_mono: "runs m h P \<Longrightarrow> (\<And>r h'. later h h' \<Longrightarrow> P r h' \<Longrightarrow> Q r h') \<Longrightarrow> runs m h Q"
  by (auto simp: runs_def)

lemma runs_seq:
  assumes "runs m h P" "\<And>h'. later h h' \<Longrightarrow> P () h' \<Longrightarrow> runs k h' Q"
  shows "runs (seq m k) h Q"
  unfolding seq_def by (rule runs_bnd [OF assms(1)]) (simp add: assms(2))

lemma runs_realloc: "runs dup_realloc h (\<lambda>ok h'. live h' = live h \<and> (ok \<or> starved h))"
proof -
  have "later h (h \<lparr>grants := \<lambda>k. grants h (Suc k)\<rparr>)"
    unfolding later_def by (rule exI [of _ 1]) simp
  then show ?thesis by (auto simp: runs_def dup_realloc_def starved_def)
qed

lemma frees_runs: "frees f n \<Longrightarrow> n \<le> live h \<Longrightarrow> runs f h (\<lambda>_ h'. live h' = live h - n)"
  by (simp add: frees_def runs_def later_same)

lemma runs_dups:
  assumes "dups d P n m" "m \<le> live h"
  shows "runs d h (\<lambda>r h'. case r of None \<Rightarrow> live h' = live h - m \<and> starved h
    | Some x \<Rightarrow> P x \<and> live h' = live h + n)"
  using assms
  by (cases rule: dups_cases) (auto simp: runs_def later_def starved_def)

lemma dups_runs:
  assumes "\<And>h. m \<le> live h \<Longrightarrow> runs d h (\<lambda>r h'. case r of
      None \<Rightarrow> live h' = live h - m \<and> starved h | Some x \<Rightarrow> P x \<and> live h' = live h + n)"
  shows "dups d P n m"
proof (rule dupsI)
  fix h :: dup_heap assume "m \<le> live h"
  from assms [OF this] show "dup_end P n m h (d h)"
    unfolding runs_def later_def starved_def dup_end_def by blast
qed

section \<open>Room\<close>

text \<open>What the code relies on where it computes the room of an array from its count.\<close>

definition dyn_ok :: "'a dyn_array \<Rightarrow> bool" where
  "dyn_ok a \<longleftrightarrow> room_for (length (items a)) \<le> room a"

lemma room_for_gt: "n < room_for n"
  unfolding room_for_def by presburger

lemma room_for_mono: "m \<le> n \<Longrightarrow> room_for m \<le> room_for n"
  by (simp add: room_for_def div_le_mono)

lemma room_for_step:
  assumes "n + k < c" "c mod 100 = 0"
  shows "room_for (n + k) \<le> c"
proof -
  have c: "c div 100 * 100 = c" using div_mult_mod_eq [of c 100] assms(2) by simp
  then have "(n + k) div 100 < c div 100" using assms(1) by (intro less_mult_imp_div_less) simp
  then have "room_for (n + k) \<le> c div 100 * 100" unfolding room_for_def by simp
  with c show ?thesis by simp
qed

lemma room_for_100: "room_for n mod 100 = 0"
  by (simp add: room_for_def)

lemma dyn_ok_grown:
  assumes "room_for (length (items a)) \<le> Suc (length (items a))"
  shows "dyn_ok (a \<lparr>room := room_for (length (items a)) + 100, items := items a @ [x]\<rparr>)"
  using room_for_step [of "length (items a)" 1 "room_for (length (items a)) + 100"] room_for_gt [of "length (items a)"]
  by (simp add: dyn_ok_def room_for_100)

lemma dyn_ok_next:
  assumes "dyn_ok a" "Suc (length (items a)) < room_for (length (items a))"
  shows "dyn_ok (a \<lparr>items := items a @ [x]\<rparr>)"
  using room_for_step [of "length (items a)" 1 "room_for (length (items a))"] assms
  by (simp add: dyn_ok_def room_for_100)

lemma dyn_ok_fewer: "dyn_ok a \<Longrightarrow> length xs \<le> length (items a) \<Longrightarrow> dyn_ok (a \<lparr>items := xs\<rparr>)"
  using room_for_mono by (fastforce simp: dyn_ok_def)

lemma dyn_init_ok: "dups dyn_init (\<lambda>a. items a = [] \<and> dyn_ok a) 2 0"
proof -
  have "dups dyn_init (\<lambda>a. items a = [] \<and> dyn_ok a) (Suc 1) 0"
    unfolding dyn_init_def
    by (intro dups_in_struct dups_block) (simp add: dyn_ok_def room_for_def)
  then show ?thesis by (simp add: numeral_2_eq_2)
qed

text \<open>The shape that the functions appending one element share.\<close>

lemma runs_grow:
  assumes "\<And>h'. later h h' \<Longrightarrow> live h' = live h \<Longrightarrow> full \<Longrightarrow> runs (store (a \<lparr>room := c\<rparr>)) h' Q"
    "\<And>h'. later h h' \<Longrightarrow> live h' = live h \<Longrightarrow> starved h \<Longrightarrow> Q (False, a) h'"
    "\<not> full \<Longrightarrow> runs (store a) h Q"
  shows "runs (if full then bnd dup_realloc (\<lambda>ok.
      if \<not> ok then ret (False, a) else store (a \<lparr>room := c\<rparr>)) else store a) h Q"
proof (cases full)
  case True
  have "runs (bnd dup_realloc (\<lambda>ok.
      if \<not> ok then ret (False, a) else store (a \<lparr>room := c\<rparr>))) h Q"
  proof (rule runs_bnd [OF runs_realloc])
    fix ok h' assume "later h h'" "live h' = live h \<and> (ok \<or> starved h)"
    with True assms(1,2) show "runs (if \<not> ok then ret (False, a) else store (a \<lparr>room := c\<rparr>)) h' Q"
      by (cases ok) (auto intro: runs_ret)
  qed
  with True show ?thesis by simp
qed (use assms(3) in simp)

lemma runs_store:
  assumes "length (items a) + length xs \<le> room a" "Q (f (a \<lparr>items := items a @ xs\<rparr>)) h"
  shows "runs (bnd (store_items xs a) (\<lambda>b. ret (f b))) h Q"
  using assms by (simp add: store_items_def bnd_def ret_def runs_def later_same)

end
