(* ===== verification/Dyn_Ids.thy ===== *)
theory Dyn_Ids
  imports Dyn_Logic
begin

text \<open>
  Arrays of entry ids as lists and arrays of property tags as sets: what each operation does,
  as long as the array stays below the number of elements its count can hold.
\<close>

section \<open>Entry ids\<close>

definition eid_ok :: "eid_array \<Rightarrow> bool" where
  "eid_ok a \<longleftrightarrow> dyn_ok a \<and> length (items a) < 2 ^ 31"

lemma eid_count_unat: "length (items a) < 2 ^ 31 \<Longrightarrow> unat (eid_count a) = length (items a)"
  by (simp add: eid_count_def unat_of_nat)

lemma eid_room_unat:
  assumes "unat n < 2 ^ 31"
  shows "unat (eid_room n) = room_for (unat n)"
proof -
  have d: "unat (n div 100) = unat n div 100" by (simp add: unat_div)
  have b: "unat n div 100 + 1 < 2 ^ 25" using assms by simp
  then have "unat (n div 100 + 1) = unat n div 100 + 1"
    using unat_add_lem [of "n div 100" 1] d by simp
  moreover have "(unat n div 100 + 1) * 100 < 2 ^ 32" using b by simp
  ultimately show ?thesis
    using unat_mult_lem [of "n div 100 + 1" 100] by (simp add: eid_room_def room_for_def)
qed

lemma eid_counts:
  assumes "length (items a) < 2 ^ 31" "k \<le> 2 ^ 30"
  shows "unat (eid_count a + of_nat k) = length (items a) + k"
proof -
  have "unat (of_nat k :: u32) = k" using assms(2) by (simp add: unat_of_nat)
  moreover have "length (items a) + k < 2 ^ 32" using assms by simp
  ultimately show ?thesis
    using unat_add_lem [of "eid_count a" "of_nat k"] eid_count_unat [OF assms(1)] by simp
qed

lemma eid_append_runs:
  assumes "eid_ok a"
  shows "runs (eid_array_append a eid) h (\<lambda>(b, a') h'. live h' = live h \<and>
    (if b then dyn_ok a' \<and> items a' = items a @ [eid] else a' = a \<and> starved h))"
proof -
  let ?n = "length (items a)"
  from assms have n: "?n < 2 ^ 31" "dyn_ok a" by (simp_all add: eid_ok_def)
  have c: "unat (eid_room (eid_count a)) = room_for ?n"
    using eid_room_unat [of "eid_count a"] eid_count_unat [OF n(1)] n(1) by simp
  have s: "unat (eid_count a + 1) = Suc ?n" using eid_counts [OF n(1), of 1] by simp
  have room: "room_for ?n \<le> ?n + 100"
    unfolding room_for_def by presburger
  have g: "unat (eid_room (eid_count a) + 100) = room_for ?n + 100"
    using unat_add_lem [of "eid_room (eid_count a)" 100] c room n(1) by simp
  have e: "eid_count (a \<lparr>room := r\<rparr>) = eid_count a" for r by (simp add: eid_count_def)
  show ?thesis
    unfolding eid_array_append_def Let_def
  proof (rule runs_grow)
    fix h' :: dup_heap assume h: "live h' = live h" and "eid_room (eid_count a) \<le> eid_count a + 1"
    then have "room_for ?n \<le> Suc ?n" using c s by (simp add: word_le_nat_alt)
    from dyn_ok_grown [OF this] show "runs (bnd (store_items [eid] (a \<lparr>room := unat (eid_room (eid_count a) + 100)\<rparr>))
        (\<lambda>b. ret (True, set_count (unat (eid_count (a \<lparr>room := unat (eid_room (eid_count a) + 100)\<rparr>) + 1)) b))) h'
        (\<lambda>(b, a') h'. live h' = live h \<and>
          (if b then dyn_ok a' \<and> items a' = items a @ [eid] else a' = a \<and> starved h))"
      using h room_for_gt [of ?n] by (auto simp: e s g set_count_def intro!: runs_store)
  next
    assume "\<not> eid_room (eid_count a) \<le> eid_count a + 1"
    then have "Suc ?n < room_for ?n" using c s by (simp add: word_le_nat_alt)
    with n(2) dyn_ok_next [OF n(2) this]
    show "runs (bnd (store_items [eid] a) (\<lambda>b. ret (True, set_count (unat (eid_count a + 1)) b))) h
        (\<lambda>(b, a') h'. live h' = live h \<and>
          (if b then dyn_ok a' \<and> items a' = items a @ [eid] else a' = a \<and> starved h))"
      by (auto simp: s set_count_def dyn_ok_def intro!: runs_store)
  qed simp
qed

lemma eid_grow_ends:
  assumes "unat needed < 2 ^ 32 - 200"
  shows "\<exists>c. eid_grow count needed = Some c \<and> needed < c \<and>
    (\<exists>k. unat c = unat count + k * 100)"
proof (induction "unat needed - unat count" arbitrary: count rule: less_induct)
  case less
  show ?case
  proof (cases "count \<le> needed")
    case False
    then show ?thesis by (subst eid_grow.simps) (auto intro: exI [of _ 0])
  next
    case True
    then have s: "unat (count + 100) = unat count + 100"
      using unat_add_lem [of count 100] assms by (simp add: word_le_nat_alt)
    then have "unat needed - unat (count + 100) < unat needed - unat count \<or> unat count = unat needed"
      using True by (auto simp: word_le_nat_alt)
    then show ?thesis
    proof
      assume "unat needed - unat (count + 100) < unat needed - unat count"
      from less [OF this] obtain c k where c: "eid_grow (count + 100) needed = Some c" "needed < c"
        "unat c = unat count + 100 + k * 100"
        unfolding s by blast
      moreover from c(3) have "unat c = unat count + Suc k * 100" by simp
      moreover have "eid_grow count needed = eid_grow (count + 100) needed"
        using True by (subst eid_grow.simps) simp
      ultimately show ?thesis by metis
    next
      assume eq: "unat count = unat needed"
      have "eid_grow count needed = eid_grow (count + 100) needed"
        using True by (subst eid_grow.simps) simp
      moreover have "eid_grow (count + 100) needed = Some (count + 100)"
        using s eq by (subst eid_grow.simps) (simp add: word_le_nat_alt)
      moreover have "needed < count + 100" using s eq by (simp add: word_less_nat_alt)
      ultimately show ?thesis using s by (auto intro!: exI [of _ 1])
    qed
  qed
qed

text \<open>Where the new count is one of the last below \<open>2^32\<close>, the loop does not end.\<close>

lemma eid_batch_runs:
  assumes "eid_ok a" "length ids < 2 ^ 30" "id_count = of_nat (length ids)"
  shows "runs (eid_array_batch_append a id_count ids) h (\<lambda>(b, a') h'. live h' = live h \<and>
    (if b then dyn_ok a' \<and> items a' = items a @ ids else a' = a \<and> starved h))"
proof (cases "ids = []")
  case True
  with assms show ?thesis by (auto simp: eid_array_batch_append_def eid_ok_def intro!: runs_ret)
next
  case False
  let ?n = "length (items a)" and ?k = "length ids"
  from assms have n: "?n < 2 ^ 31" "dyn_ok a" by (simp_all add: eid_ok_def)
  have k: "unat id_count = ?k" using assms(2,3) by (simp add: unat_of_nat)
  then have nz: "id_count \<noteq> 0" using False by auto
  have c: "unat (eid_room (eid_count a)) = room_for ?n"
    using eid_room_unat [of "eid_count a"] eid_count_unat [OF n(1)] n(1) by simp
  have s: "unat (eid_count a + id_count) = ?n + ?k"
    using eid_counts [OF n(1), of ?k] assms(2,3) by simp
  have e: "eid_count (a \<lparr>room := r\<rparr>) = eid_count a" for r by (simp add: eid_count_def)
  obtain g j where g: "eid_grow (eid_room (eid_count a)) (eid_count a + id_count) = Some g"
    "?n + ?k < unat g" "unat g = room_for ?n + j * 100"
    using eid_grow_ends [of "eid_count a + id_count" "eid_room (eid_count a)"] s n(1) assms(2) c
    by (auto simp: word_less_nat_alt)
  let ?Q = "\<lambda>(b, a') h'. live h' = live h \<and>
    (if b then dyn_ok a' \<and> items a' = items a @ ids else a' = a \<and> starved h)"
  have store: "runs (if length ids < unat id_count then fail UNDEFINED_BEHAVIOUR
      else bnd (store_items (take (unat id_count) ids) b) (\<lambda>d.
        ret (True, set_count (unat (eid_count b + id_count)) d))) h' ?Q"
    if b: "b = a \<lparr>room := r\<rparr>" "?n + ?k < r" "r mod 100 = 0 \<or> room_for (?n + ?k) \<le> r" "live h' = live h" for b r h'
    using b room_for_step [of ?n ?k r]
    by (auto simp: k e s set_count_def dyn_ok_def intro!: runs_store)
  have "runs (if eid_room (eid_count a) \<le> eid_count a + id_count then
      bnd dup_realloc (\<lambda>ok. if \<not> ok then ret (False, a) else
        (\<lambda>b. if length ids < unat id_count then fail UNDEFINED_BEHAVIOUR
          else bnd (store_items (take (unat id_count) ids) b) (\<lambda>d.
            ret (True, set_count (unat (eid_count b + id_count)) d))) (a \<lparr>room := unat g\<rparr>))
      else (\<lambda>b. if length ids < unat id_count then fail UNDEFINED_BEHAVIOUR
          else bnd (store_items (take (unat id_count) ids) b) (\<lambda>d.
            ret (True, set_count (unat (eid_count b + id_count)) d))) a) h ?Q"
  proof (rule runs_grow)
    fix h' :: dup_heap assume "live h' = live h"
    then show "runs (if length ids < unat id_count then fail UNDEFINED_BEHAVIOUR
      else bnd (store_items (take (unat id_count) ids) (a \<lparr>room := unat g\<rparr>)) (\<lambda>d.
        ret (True, set_count (unat (eid_count (a \<lparr>room := unat g\<rparr>) + id_count)) d))) h' ?Q"
      using g by (intro store [OF refl]) (simp_all add: room_for_def)
  next
    assume "\<not> eid_room (eid_count a) \<le> eid_count a + id_count"
    then have l: "?n + ?k < room_for ?n" using c s by (simp add: word_le_nat_alt)
    then show "runs (if length ids < unat id_count then fail UNDEFINED_BEHAVIOUR
      else bnd (store_items (take (unat id_count) ids) a) (\<lambda>d.
        ret (True, set_count (unat (eid_count a + id_count)) d))) h ?Q"
      using n(2) room_for_step [OF l room_for_100]
      by (intro store [of _ "room a"]) (auto simp: dyn_ok_def)
  qed simp
  then show ?thesis
    unfolding eid_array_batch_append_def Let_def if_not_P [OF nz] g(1) option.case .
qed

declare eid_remove_loop.simps [simp del]

lemma eid_remove_loop_filter:
  "length xs < 2 ^ 31 \<Longrightarrow>
     eid_remove_loop eid i xs = Inr (take i xs @ filter (\<lambda>x. x \<noteq> eid) (drop i xs))"
proof (induction eid i xs rule: eid_remove_loop.induct)
  case (1 eid i xs)
  show ?case
  proof (cases "i < length xs")
    case False
    then show ?thesis by (subst eid_remove_loop.simps) simp
  next
    case i: True
    then have d: "drop i xs = xs ! i # drop (Suc i) xs" by (simp add: Cons_nth_drop_Suc)
    show ?thesis
    proof (cases "xs ! i = eid")
      case True
      have t: "take i (delete_at i xs) = take i xs" "drop i (delete_at i xs) = drop (Suc i) xs"
        "length (delete_at i xs) < length xs"
        using i by (simp_all add: delete_at_def)
      with 1(1) [OF i True] 1(3) have
        "eid_remove_loop eid i (delete_at i xs) = Inr (take i xs @ filter (\<lambda>x. x \<noteq> eid) (drop (Suc i) xs))"
        by simp
      with i True d show ?thesis by (subst eid_remove_loop.simps) simp
    next
      case False
      have n: "i + 1 \<noteq> 2 ^ 31" using i 1(3) by simp
      with 1(2) [OF i False n 1(3)] have
        "eid_remove_loop eid (i + 1) xs = Inr (take (Suc i) xs @ filter (\<lambda>x. x \<noteq> eid) (drop (Suc i) xs))"
        by simp
      with i False n d show ?thesis
        by (subst eid_remove_loop.simps) (simp add: take_Suc_conv_app_nth)
    qed
  qed
qed

lemma eid_remove_runs:
  assumes "eid_ok a"
  shows "eid_array_remove a eid h =
    (Inr (a \<lparr>items := filter (\<lambda>x. x \<noteq> eid) (items a)\<rparr>), h)"
    "eid_ok (a \<lparr>items := filter (\<lambda>x. x \<noteq> eid) (items a)\<rparr>)"
proof -
  have n: "length (items a) < 2 ^ 31" "dyn_ok a" using assms by (simp_all add: eid_ok_def)
  show "eid_array_remove a eid h = (Inr (a \<lparr>items := filter (\<lambda>x. x \<noteq> eid) (items a)\<rparr>), h)"
    unfolding eid_array_remove_def eid_remove_loop_filter [OF n(1)] by (simp add: ret_def)
  have "length (filter (\<lambda>x. x \<noteq> eid) (items a)) < 2 ^ 31"
    using length_filter_le n(1) by (rule le_less_trans)
  with dyn_ok_fewer [OF n(2) length_filter_le]
  show "eid_ok (a \<lparr>items := filter (\<lambda>x. x \<noteq> eid) (items a)\<rparr>)" by (simp add: eid_ok_def)
qed

lemma eid_check_runs:
  "eid_ok a \<Longrightarrow> eid_array_check a eid h = (Inr (eid \<in> set (items a)), h)"
  by (simp add: eid_array_check_def eid_ok_def ret_def)

lemma eid_dup_dups:
  assumes "eid_ok a"
  shows "dups (eid_array_dup a) (\<lambda>b. items b = items a \<and> eid_ok b) 2 0"
proof -
  let ?n = "length (items a)"
  have n: "?n < 2 ^ 31" using assms by (simp add: eid_ok_def)
  then have "unat (eid_room (eid_count a)) = room_for ?n"
    using eid_room_unat [of "eid_count a"] eid_count_unat [OF n] by simp
  then have "eid_array_dup a =
      in_struct (dup_block \<lparr>items = items a, room = room_for ?n\<rparr>)"
    using room_for_gt [of ?n]
    by (simp add: eid_array_dup_def dup_block_def if_distrib [of ret] cong: if_cong)
      (rule arg_cong [where f = in_struct], rule arg_cong [where f = "bnd dup_malloc"], auto)
  moreover have "dups (in_struct (dup_block \<lparr>items = items a, room = room_for ?n\<rparr>))
      (\<lambda>b. items b = items a \<and> eid_ok b) (Suc 1) 0"
    by (intro dups_in_struct dups_block) (use n in \<open>simp add: eid_ok_def dyn_ok_def\<close>)
  ultimately show ?thesis by (simp add: numeral_2_eq_2)
qed

section \<open>Property tags\<close>

definition proptag_ok :: "proptag_array \<Rightarrow> bool" where
  "proptag_ok a \<longleftrightarrow> dyn_ok a \<and> length (items a) < 2 ^ 16 \<and> distinct (items a)"

lemma runs_append_counted:
  assumes "length (items a) < 65535" "length (items a) < room a" "Q (True, a \<lparr>items := items a @ [x]\<rparr>) h"
  shows "runs (append_counted x a) h Q"
proof -
  have "unat (of_nat (length (items a)) + 1 :: u16) = Suc (length (items a))"
    using assms(1) unat_add_lem [of "of_nat (length (items a)) :: u16" 1] by (simp add: unat_of_nat)
  then show ?thesis
    unfolding append_counted_def by (intro runs_store) (use assms in \<open>simp_all add: set_count_def\<close>)
qed

lemma proptag_append_runs:
  assumes "proptag_ok a" "length (items a) < 65535"
  shows "runs (proptag_array_append a tag) h (\<lambda>(b, a') h'. live h' = live h \<and> proptag_ok a' \<and>
    (if b then items a' = (if tag \<in> set (items a) then items a else items a @ [tag])
     else a' = a \<and> starved h))"
proof (cases "tag \<in> set (items a)")
  case True
  with assms show ?thesis by (simp add: proptag_array_append_def runs_ret)
next
  case new: False
  let ?n = "length (items a)"
  from assms have n: "dyn_ok a" "distinct (items a)" by (simp_all add: proptag_ok_def)
  show ?thesis
    unfolding proptag_array_append_def Let_def if_not_P [OF new]
  proof (rule runs_grow)
    fix h' :: dup_heap assume h: "live h' = live h" and "room_for ?n \<le> ?n + 1"
    then have "room_for ?n \<le> Suc ?n" by simp
    from dyn_ok_grown [OF this] show "runs (append_counted tag (a \<lparr>room := room_for ?n + 100\<rparr>)) h'
        (\<lambda>(b, a') h'. live h' = live h \<and> proptag_ok a' \<and>
          (if b then items a' = items a @ [tag] else a' = a \<and> starved h))"
      using h room_for_gt [of ?n] assms(2) n(2) new
      by (intro runs_append_counted) (auto simp: proptag_ok_def)
  next
    assume "\<not> room_for ?n \<le> ?n + 1"
    then have "Suc ?n < room_for ?n" by simp
    with n(1) dyn_ok_next [OF n(1) this]
    show "runs (append_counted tag a) h (\<lambda>(b, a') h'. live h' = live h \<and> proptag_ok a' \<and>
          (if b then items a' = items a @ [tag] else a' = a \<and> starved h))"
      using assms(2) n(2) new by (intro runs_append_counted) (auto simp: proptag_ok_def dyn_ok_def)
  qed (simp add: assms(1))
qed

lemma proptag_remove_loop_eq: "proptag_remove_loop t xs = remove1 t xs"
  by (induction xs) auto

lemma proptag_remove_ok:
  assumes "proptag_ok a"
  shows "proptag_ok (proptag_array_remove a t)"
    "set (items (proptag_array_remove a t)) = set (items a) - {t}"
proof -
  have l: "length (remove1 t (items a)) \<le> length (items a)" by (simp add: length_remove1)
  moreover have "dyn_ok a" using assms by (simp add: proptag_ok_def)
  ultimately have "dyn_ok (a \<lparr>items := remove1 t (items a)\<rparr>)" by (intro dyn_ok_fewer)
  with l assms show "proptag_ok (proptag_array_remove a t)"
    by (simp add: proptag_ok_def proptag_array_remove_def proptag_remove_loop_eq)
  show "set (items (proptag_array_remove a t)) = set (items a) - {t}"
    using assms by (simp add: proptag_ok_def proptag_array_remove_def proptag_remove_loop_eq set_remove1_eq)
qed

lemma proptag_clear_ok: "proptag_ok a \<Longrightarrow> proptag_ok (proptag_array_clear a)"
  using dyn_ok_fewer [of a "[]"] by (simp add: proptag_ok_def proptag_array_clear_def set_count_def)

lemma proptag_check_iff: "proptag_array_check a t \<longleftrightarrow> t \<in> set (items a)"
  by (auto simp: proptag_array_check_def list_ex_iff)

lemma proptag_dup_dups:
  assumes "proptag_ok a"
  shows "dups (proptag_array_dup a) (\<lambda>b. items b = items a \<and> proptag_ok b) 2 0"
proof -
  let ?n = "length (items a)"
  have "proptag_array_dup a = in_struct (dup_block \<lparr>items = items a, room = room_for ?n\<rparr>)"
    using room_for_gt [of ?n]
    by (simp add: proptag_array_dup_def dup_block_def if_distrib [of ret] cong: if_cong)
      (rule arg_cong [where f = in_struct], rule arg_cong [where f = "bnd dup_malloc"], auto)
  moreover have "dups (in_struct (dup_block \<lparr>items = items a, room = room_for ?n\<rparr>))
      (\<lambda>b. items b = items a \<and> proptag_ok b) (Suc 1) 0"
    by (intro dups_in_struct dups_block) (use assms in \<open>simp add: proptag_ok_def dyn_ok_def\<close>)
  ultimately show ?thesis by (simp add: numeral_2_eq_2)
qed

section \<open>The contract of the containers\<close>

text \<open>A client that stops appending before the count would wrap around.\<close>

definition add_below :: "nat \<Rightarrow> ('a dyn_array \<Rightarrow> 'a \<Rightarrow> (bool \<times> 'a dyn_array) dup) \<Rightarrow>
    'a dyn_array \<times> dup_heap \<Rightarrow> 'a \<Rightarrow> bool \<times> 'a dyn_array \<times> dup_heap" where
  "add_below n app s x =
     (if n \<le> length (items (fst s)) then (False, s)
      else case app (fst s) x (snd s) of
        (Inr (b, a), h) \<Rightarrow> (b, a, h)
      | (Inl e, h) \<Rightarrow> (False, fst s, h))"

lemma add_below_runs:
  assumes "runs (app a x) h (\<lambda>(b, a') h'. Q b a')" "n > length (items a)"
  obtains b a' h' where "add_below n app (a, h) x = (b, a', h')" "Q b a'"
proof -
  from assms(1) obtain r h' where "app a x h = (Inr r, h')" "case r of (b, a') \<Rightarrow> Q b a'"
    by (auto simp: runs_def)
  with assms(2) that show thesis by (cases r) (simp add: add_below_def)
qed

interpretation proptag_lookup: id_lookup "\<lambda>s. proptag_ok (fst s)" "\<lambda>s. set (items (fst s))"
  "add_below 65535 proptag_array_append" "(\<lparr>items = [], room = 100\<rparr>, h)"
  "\<lambda>s. proptag_array_check (fst s)"
  for h
proof -
  have add: "proptag_ok (fst (snd (add_below 65535 proptag_array_append s x))) \<and>
      set (items (fst (snd (add_below 65535 proptag_array_append s x)))) =
        (if fst (add_below 65535 proptag_array_append s x) then insert x (set (items (fst s)))
         else set (items (fst s)))"
    if "proptag_ok (fst s)" for s x
  proof (cases "65535 \<le> length (items (fst s))")
    case False
    obtain a h where s: "s = (a, h)" by (cases s)
    have "runs (proptag_array_append a x) h (\<lambda>(b, a') h'. proptag_ok a' \<and>
        set (items a') = (if b then insert x (set (items a)) else set (items a)))"
      by (rule runs_mono [OF proptag_append_runs]) (use False that s in \<open>auto split: if_splits\<close>)
    then show ?thesis
      using False s by (elim add_below_runs [where n = 65535]) auto
  qed (use that in \<open>simp add: add_below_def\<close>)
  show "id_lookup (\<lambda>s. proptag_ok (fst s)) (\<lambda>s. set (items (fst s)))
      (add_below 65535 proptag_array_append) (\<lparr>items = [], room = 100\<rparr>, h)
      (\<lambda>s. proptag_array_check (fst s))" for h
    by unfold_locales
      (use add in \<open>auto simp: proptag_check_iff proptag_ok_def dyn_ok_def room_for_def\<close>)
qed

interpretation eid_lookup: id_lookup "\<lambda>s. eid_ok (fst s)" "\<lambda>s. set (items (fst s))"
  "add_below (2 ^ 31 - 1) eid_array_append" "(\<lparr>items = [], room = 100\<rparr>, h)"
  "\<lambda>s e. fst (eid_array_check (fst s) e (snd s)) = Inr True"
  for h
proof -
  have add: "eid_ok (fst (snd (add_below (2 ^ 31 - 1) eid_array_append s x))) \<and>
      set (items (fst (snd (add_below (2 ^ 31 - 1) eid_array_append s x)))) =
        (if fst (add_below (2 ^ 31 - 1) eid_array_append s x) then insert x (set (items (fst s)))
         else set (items (fst s)))"
    if "eid_ok (fst s)" for s x
  proof (cases "2 ^ 31 - 1 \<le> length (items (fst s))")
    case False
    obtain a h where s: "s = (a, h)" by (cases s)
    have "runs (eid_array_append a x) h (\<lambda>(b, a') h'. eid_ok a' \<and>
        set (items a') = (if b then insert x (set (items a)) else set (items a)))"
      by (rule runs_mono [OF eid_append_runs])
        (use False that s in \<open>auto simp: eid_ok_def split: if_splits\<close>)
    then show ?thesis
      using False s by (elim add_below_runs [where n = "2 ^ 31 - 1"]) auto
  qed (use that in \<open>simp add: add_below_def\<close>)
  show "id_lookup (\<lambda>s. eid_ok (fst s)) (\<lambda>s. set (items (fst s)))
      (add_below (2 ^ 31 - 1) eid_array_append) (\<lparr>items = [], room = 100\<rparr>, h)
      (\<lambda>s e. fst (eid_array_check (fst s) e (snd s)) = Inr True)" for h
    by unfold_locales
      (use add in \<open>auto simp: eid_check_runs eid_ok_def dyn_ok_def room_for_def\<close>)
qed

end
