(* ===== verification/Dyn_Values.thy ===== *)
theory Dyn_Values
  imports Dyn_Ids
begin

text \<open>
  Arrays of property values and sets of such arrays: a map from tags to values, whose blocks
  belong to the array.
\<close>

definition tp_ok :: "tpropval_array \<Rightarrow> bool" where
  "tp_ok a \<longleftrightarrow> dyn_ok a \<and> length (items a) < 2 ^ 16 \<and> (\<forall>p\<in>set (items a). dup_tagged_ok p)"

definition item_blocks :: "tagged_propval list \<Rightarrow> nat" where
  "item_blocks ps = sum_list (map tagged_blocks ps)"

definition array_blocks :: "tpropval_array \<Rightarrow> nat" where
  "array_blocks a = item_blocks (items a) + (1 + 1)"

lemma tp_collapse [simp]: "TAGGED_PROPVAL (tp_tag p) (tp_value p) = p"
  by (cases p) simp

lemma tagged_by_parts:
  "dup_tagged_ok p \<longleftrightarrow> dup_ok (proptag_type (tp_tag p)) (tp_value p)"
  "tagged_blocks p = blocks (tp_value p)"
  "tagged_free p = propval_free (proptag_type (tp_tag p)) (tp_value p)"
  "tagged_copy p q \<longleftrightarrow> tp_tag q = tp_tag p \<and> copy (tp_value p) (tp_value q)"
  by (cases p; cases q; auto)+

lemma dup_frees:
  assumes "dup_ok t v" "copy v w"
  shows "dup_ok t w" "blocks w = blocks v" "frees (propval_free t w) (blocks v)"
  using copy_keeps(1) [OF assms] free_frees(1) [of t w] by auto

subsection \<open>Appending\<close>

lemma tpropval_append_runs:
  assumes "tp_ok a" "dup_ok (proptag_type tag) v" "length (items a) < 65535"
  shows "runs (tpropval_array_append a tag (Some v)) h (\<lambda>(b, a') h'. tp_ok a' \<and>
    (if b then (\<exists>w. copy v w \<and> items a' = items a @ [TAGGED_PROPVAL tag w]) \<and> live h' = live h + blocks v
     else items a' = items a \<and> live h' = live h \<and> starved h))"
proof -
  let ?n = "length (items a)"
  let ?store = "\<lambda>a. if room a \<le> ?n then fail UNDEFINED_BEHAVIOUR
    else bnd (propval_dup (proptag_type tag) v) (\<lambda>r. case r of
        None \<Rightarrow> ret (False, a)
      | Some w \<Rightarrow> append_counted (TAGGED_PROPVAL tag w) a)"
  let ?Q = "\<lambda>(b, a') h'. tp_ok a' \<and>
    (if b then (\<exists>w. copy v w \<and> items a' = items a @ [TAGGED_PROPVAL tag w]) \<and> live h' = live h + blocks v
     else items a' = items a \<and> live h' = live h \<and> starved h)"
  from assms have a: "dyn_ok a" "\<forall>p\<in>set (items a). dup_tagged_ok p" by (simp_all add: tp_ok_def)
  have store: "runs (?store b) h' ?Q"
    if b: "items b = items a" "?n < room b" "dyn_ok b" "\<And>x. dyn_ok (b \<lparr>items := items a @ [x]\<rparr>)"
      and h: "later h h'" "live h' = live h" for b h'
  proof -
    have "runs (bnd (propval_dup (proptag_type tag) v) (\<lambda>r. case r of
        None \<Rightarrow> ret (False, b)
      | Some w \<Rightarrow> append_counted (TAGGED_PROPVAL tag w) b)) h' ?Q"
    proof (rule runs_bnd [OF runs_dups [OF dup_copies(1) [OF assms(2)]]])
      fix r h'' assume later: "later h' h''" and r: "case r of None \<Rightarrow> live h'' = live h' - 0 \<and> starved h'
        | Some x \<Rightarrow> copy v x \<and> live h'' = live h' + blocks v"
      show "runs (case r of None \<Rightarrow> ret (False, b) | Some w \<Rightarrow> append_counted (TAGGED_PROPVAL tag w) b) h'' ?Q"
      proof (cases r)
        case None
        with r h b(1,3) assms(1) show ?thesis
          using starved_later [OF h(1)] by (auto simp: tp_ok_def intro: runs_ret)
      next
        case (Some w)
        then show ?thesis
          using r h(2) b(1,2) b(4) assms(2,3) a(2) copy_keeps(1) [OF assms(2), of w]
          by (auto simp: tp_ok_def intro!: runs_append_counted)
      qed
    qed simp
    with b(2) show ?thesis by simp
  qed
  have grown: "runs (?store (a \<lparr>room := room_for ?n + 100\<rparr>)) h' ?Q"
    if "later h h'" "live h' = live h" "room_for ?n \<le> ?n + 1" for h'
  proof (rule store)
    show "dyn_ok (a \<lparr>room := room_for ?n + 100\<rparr>)" by (simp add: dyn_ok_def)
    show "dyn_ok (a \<lparr>room := room_for ?n + 100, items := items a @ [x]\<rparr>)" for x
      by (rule dyn_ok_grown) (use that in simp)
  qed (use that room_for_gt [of ?n] in simp_all)
  have same: "runs (?store a) h ?Q" if "\<not> room_for ?n \<le> ?n + 1"
  proof (rule store)
    show "dyn_ok (a \<lparr>items := items a @ [x]\<rparr>)" for x
      by (rule dyn_ok_next [OF a(1)]) (use that in simp)
    show "?n < room a" using a(1) room_for_gt [of ?n] by (simp add: dyn_ok_def)
  qed (simp_all add: a(1) later_same)
  show ?thesis
    unfolding tpropval_array_append_def Let_def option.case
    by (rule runs_grow) (use grown same assms(1) in \<open>simp_all split del: if_split\<close>)
qed

subsection \<open>Setting and removing\<close>

fun put_item :: "u32 \<Rightarrow> propval \<Rightarrow> tagged_propval list \<Rightarrow> tagged_propval list" where
  "put_item tag w [] = [TAGGED_PROPVAL tag w]"
| "put_item tag w (p # ps) = (if tag = tp_tag p then TAGGED_PROPVAL tag w # ps else p # put_item tag w ps)"

lemma get_put: "get_loop t (put_item tag w ps) = (if t = tag then Some w else get_loop t ps)"
  by (induction ps) auto

lemma get_loop_None: "get_loop tag ps = None \<longleftrightarrow> (\<forall>p\<in>set ps. tp_tag p \<noteq> tag)"
  by (induction ps) auto

lemma put_new: "get_loop tag ps = None \<Longrightarrow> put_item tag w ps = ps @ [TAGGED_PROPVAL tag w]"
  by (induction ps) (auto split: if_splits)

lemma length_put: "get_loop tag ps \<noteq> None \<Longrightarrow> length (put_item tag w ps) = length ps"
  by (induction ps) (auto split: if_splits)

lemma put_ok: "\<forall>p\<in>set ps. dup_tagged_ok p \<Longrightarrow> dup_ok (proptag_type tag) w \<Longrightarrow>
    \<forall>p\<in>set (put_item tag w ps). dup_tagged_ok p"
  by (induction ps) auto

lemma set_loop_runs:
  assumes "dup_ok (proptag_type tag) v" "\<forall>p\<in>set ps. dup_tagged_ok p" "item_blocks ps \<le> live h"
  shows "runs (set_loop tag (Some v) don ps) h (\<lambda>r h'. case r of
      None \<Rightarrow> get_loop tag ps = None \<and> live h' = live h
    | Some (b, qs) \<Rightarrow> get_loop tag ps \<noteq> None \<and>
        (if b then (\<exists>w. copy v w \<and> qs = don @ put_item tag w ps \<and>
            live h' + item_blocks ps = live h + item_blocks (put_item tag w ps))
         else qs = don @ ps \<and> live h' = live h \<and> starved h))"
  using assms
proof (induction ps arbitrary: don)
  case Nil
  then show ?case by (simp add: runs_ret)
next
  case (Cons p ps)
  show ?case
  proof (cases "tag = tp_tag p")
    case True
    let ?Q = "\<lambda>r h'. case r of
      None \<Rightarrow> get_loop tag (p # ps) = None \<and> live h' = live h
    | Some (b, qs) \<Rightarrow> get_loop tag (p # ps) \<noteq> None \<and>
        (if b then (\<exists>w. copy v w \<and> qs = don @ put_item tag w (p # ps) \<and>
            live h' + item_blocks (p # ps) = live h + item_blocks (put_item tag w (p # ps)))
         else qs = don @ p # ps \<and> live h' = live h \<and> starved h)"
    have "runs (bnd (propval_dup (proptag_type tag) v) (\<lambda>r. case r of
        None \<Rightarrow> ret (Some (False, don @ p # ps))
      | Some w \<Rightarrow> seq (propval_free (proptag_type tag) (tp_value p))
          (ret (Some (True, don @ TAGGED_PROPVAL tag w # ps))))) h ?Q"
    proof (rule runs_bnd [OF runs_dups [OF dup_copies(1) [OF Cons.prems(1)]]])
      fix r h' assume later: "later h h'" and r: "case r of None \<Rightarrow> live h' = live h - 0 \<and> starved h
        | Some x \<Rightarrow> copy v x \<and> live h' = live h + blocks v"
      show "runs (case r of None \<Rightarrow> ret (Some (False, don @ p # ps))
        | Some w \<Rightarrow> seq (propval_free (proptag_type tag) (tp_value p))
            (ret (Some (True, don @ TAGGED_PROPVAL tag w # ps)))) h' ?Q"
      proof (cases r)
        case None
        with r True show ?thesis by (auto intro: runs_ret)
      next
        case (Some w)
        with r have w: "copy v w" "live h' = live h + blocks v" by auto
        have "frees (propval_free (proptag_type tag) (tp_value p)) (tagged_blocks p)"
          using Cons.prems(2) free_frees(1) [of "proptag_type tag" "tp_value p"] True
          by (simp add: tagged_by_parts)
        moreover have "tagged_blocks p \<le> live h'" using w(2) Cons.prems(3) by (simp add: item_blocks_def)
        ultimately have "runs (seq (propval_free (proptag_type tag) (tp_value p))
            (ret (Some (True, don @ TAGGED_PROPVAL tag w # ps)))) h' ?Q"
          using w Cons.prems(3) dup_frees(2) [OF Cons.prems(1) w(1)] True
          by (intro runs_seq [OF frees_runs] runs_ret) (auto simp: item_blocks_def intro!: exI [of _ w])
        with Some show ?thesis by simp
      qed
    qed simp
    then show ?thesis unfolding set_loop.simps(2) if_P [OF True] option.case .
  next
    case False
    have "runs (set_loop tag (Some v) (don @ [p]) ps) h (\<lambda>r h'. case r of
      None \<Rightarrow> get_loop tag ps = None \<and> live h' = live h
    | Some (b, qs) \<Rightarrow> get_loop tag ps \<noteq> None \<and>
        (if b then (\<exists>w. copy v w \<and> qs = (don @ [p]) @ put_item tag w ps \<and>
            live h' + item_blocks ps = live h + item_blocks (put_item tag w ps))
         else qs = (don @ [p]) @ ps \<and> live h' = live h \<and> starved h))"
      using Cons by (simp add: item_blocks_def)
    then have "runs (set_loop tag (Some v) (don @ [p]) ps) h (\<lambda>r h'. case r of
      None \<Rightarrow> get_loop tag (p # ps) = None \<and> live h' = live h
    | Some (b, qs) \<Rightarrow> get_loop tag (p # ps) \<noteq> None \<and>
        (if b then (\<exists>w. copy v w \<and> qs = don @ put_item tag w (p # ps) \<and>
            live h' + item_blocks (p # ps) = live h + item_blocks (put_item tag w (p # ps)))
         else qs = don @ p # ps \<and> live h' = live h \<and> starved h))"
      by (rule runs_mono) (use False in \<open>auto simp: item_blocks_def split: option.splits\<close>)
    with False show ?thesis by simp
  qed
qed

text \<open>Setting a value stores a copy under its tag, whether the tag was there or not.\<close>

lemma tpropval_set_runs:
  assumes "tp_ok a" "dup_ok (proptag_type tag) v" "length (items a) < 65535"
    "item_blocks (items a) \<le> live h"
  shows "runs (tpropval_array_set_propval a tag (Some v)) h (\<lambda>(b, a') h'. tp_ok a' \<and>
    (if b then (\<exists>w. copy v w \<and> items a' = put_item tag w (items a) \<and>
        live h' + item_blocks (items a) = live h + item_blocks (items a'))
     else items a' = items a \<and> live h' = live h \<and> starved h))"
  unfolding tpropval_array_set_propval_def
proof (rule runs_bnd [OF set_loop_runs])
  show "dup_ok (proptag_type tag) v" "item_blocks (items a) \<le> live h" by fact+
  have ok: "dyn_ok a" "length (items a) < 2 ^ 16" "\<forall>p\<in>set (items a). dup_tagged_ok p"
    using assms(1) by (simp_all add: tp_ok_def)
  then show "\<forall>p\<in>set (items a). dup_tagged_ok p" by simp
  fix r h' assume later: "later h h'" and r: "case r of
      None \<Rightarrow> get_loop tag (items a) = None \<and> live h' = live h
    | Some (b, qs) \<Rightarrow> get_loop tag (items a) \<noteq> None \<and>
        (if b then (\<exists>w. copy v w \<and> qs = [] @ put_item tag w (items a) \<and>
            live h' + item_blocks (items a) = live h + item_blocks (put_item tag w (items a)))
         else qs = [] @ items a \<and> live h' = live h \<and> starved h)"
  let ?Q = "\<lambda>(b, a') h'. tp_ok a' \<and>
    (if b then (\<exists>w. copy v w \<and> items a' = put_item tag w (items a) \<and>
        live h' + item_blocks (items a) = live h + item_blocks (items a'))
     else items a' = items a \<and> live h' = live h \<and> starved h)"
  show "runs (case r of None \<Rightarrow> tpropval_array_append a tag (Some v)
    | Some (b, ps) \<Rightarrow> ret (b, a \<lparr>items := ps\<rparr>)) h' ?Q"
  proof (cases r)
    case None
    with r have n: "get_loop tag (items a) = None" "live h' = live h" by simp_all
    have "runs (tpropval_array_append a tag (Some v)) h' ?Q"
    proof (rule runs_mono [OF tpropval_append_runs [OF assms(1-3)]], goal_cases)
      case (1 s h'')
      then show ?case
        using n starved_later [OF later] dup_frees(2) [OF assms(2)]
        by (cases s) (auto simp: put_new item_blocks_def tagged_by_parts split: if_splits)
    qed
    with None show ?thesis by simp
  next
    case (Some s)
    obtain b qs where s: "s = (b, qs)" by (cases s)
    show ?thesis
    proof (cases b)
      case True
      with r Some s obtain w where w: "copy v w" "qs = put_item tag w (items a)"
        "live h' + item_blocks (items a) = live h + item_blocks qs" "get_loop tag (items a) \<noteq> None"
        by auto
      then have "tp_ok (a \<lparr>items := qs\<rparr>)"
        using ok put_ok [OF ok(3) dup_frees(1) [OF assms(2) w(1)]]
        by (simp add: tp_ok_def length_put dyn_ok_def)
      with w True Some s show ?thesis by (auto intro!: runs_ret)
    next
      case False
      with r Some s assms(1) show ?thesis by (auto intro!: runs_ret)
    qed
  qed
qed

lemma remove_loop_runs:
  assumes "\<forall>p\<in>set ps. dup_tagged_ok p" "item_blocks ps \<le> live h"
  shows "runs (tpropval_remove_loop tag ps) h (\<lambda>qs h'.
    live h' + item_blocks ps = live h + item_blocks qs \<and> length qs \<le> length ps \<and>
    (\<exists>xs ys. ps = xs @ ys \<and> get_loop tag xs = None \<and> qs = xs @ drop 1 ys \<and>
       (ys = [] \<or> tp_tag (hd ys) = tag)))"
  using assms
proof (induction ps)
  case Nil
  then show ?case by (auto intro!: runs_ret)
next
  case (Cons p ps)
  show ?case
  proof (cases "tag = tp_tag p")
    case True
    have fr: "frees (propval_free (proptag_type tag) (tp_value p)) (tagged_blocks p)"
      using Cons.prems(1) free_frees(1) [of "proptag_type tag" "tp_value p"] True
      by (simp add: tagged_by_parts)
    have "runs (seq (propval_free (proptag_type tag) (tp_value p)) (ret ps)) h (\<lambda>qs h'.
        live h' + item_blocks (p # ps) = live h + item_blocks qs \<and> qs = ps)"
      using Cons.prems(2)
      by (intro runs_seq [OF frees_runs [OF fr]] runs_ret) (simp_all add: item_blocks_def)
    then have "runs (tpropval_remove_loop tag (p # ps)) h (\<lambda>qs h'.
        live h' + item_blocks (p # ps) = live h + item_blocks qs \<and> qs = ps)"
      using True by simp
    then show ?thesis
      by (rule runs_mono) (use True in \<open>auto intro: exI [of _ "[]"]\<close>)
  next
    case False
    have "runs (bnd (tpropval_remove_loop tag ps) (\<lambda>qs. ret (p # qs))) h (\<lambda>qs h'.
        live h' + item_blocks (p # ps) = live h + item_blocks qs \<and> length qs \<le> length (p # ps) \<and>
        (\<exists>xs ys. p # ps = xs @ ys \<and> get_loop tag xs = None \<and> qs = xs @ drop 1 ys \<and>
           (ys = [] \<or> tp_tag (hd ys) = tag)))"
    proof (rule runs_bnd [OF Cons.IH])
      fix r and h' :: dup_heap assume "live h' + item_blocks ps = live h + item_blocks r \<and> length r \<le> length ps \<and>
        (\<exists>xs ys. ps = xs @ ys \<and> get_loop tag xs = None \<and> r = xs @ drop 1 ys \<and>
           (ys = [] \<or> tp_tag (hd ys) = tag))"
      then obtain xs ys where "ps = xs @ ys" "get_loop tag xs = None" "r = xs @ drop 1 ys"
        "ys = [] \<or> tp_tag (hd ys) = tag" "live h' + item_blocks ps = live h + item_blocks r"
        "length r \<le> length ps" by blast
      with False show "runs (ret (p # r)) h' (\<lambda>qs h'.
        live h' + item_blocks (p # ps) = live h + item_blocks qs \<and> length qs \<le> length (p # ps) \<and>
        (\<exists>xs ys. p # ps = xs @ ys \<and> get_loop tag xs = None \<and> qs = xs @ drop 1 ys \<and>
           (ys = [] \<or> tp_tag (hd ys) = tag)))"
        by (intro runs_ret conjI exI [of _ "p # xs"] exI [of _ ys]) (simp_all add: item_blocks_def)
    qed (use Cons.prems in \<open>simp_all add: item_blocks_def\<close>)
    with False show ?thesis by simp
  qed
qed

lemma get_append: "get_loop t (xs @ ys) = (case get_loop t xs of None \<Rightarrow> get_loop t ys | r \<Rightarrow> r)"
  by (induction xs) auto

lemma tpropval_remove_runs:
  assumes "tp_ok a" "item_blocks (items a) \<le> live h"
  shows "runs (tpropval_array_remove_propval a tag) h (\<lambda>a' h'. tp_ok a' \<and>
    live h' + item_blocks (items a) = live h + item_blocks (items a') \<and>
    (\<forall>t. t \<noteq> tag \<longrightarrow> get_loop t (items a') = get_loop t (items a)) \<and>
    (distinct (map tp_tag (items a)) \<longrightarrow>
       distinct (map tp_tag (items a')) \<and> get_loop tag (items a') = None))"
  unfolding tpropval_array_remove_propval_def
proof (rule runs_bnd [OF remove_loop_runs])
  show "\<forall>p\<in>set (items a). dup_tagged_ok p" "item_blocks (items a) \<le> live h"
    using assms by (simp_all add: tp_ok_def)
  fix qs and h' :: dup_heap assume "live h' + item_blocks (items a) = live h + item_blocks qs \<and>
    length qs \<le> length (items a) \<and>
    (\<exists>xs ys. items a = xs @ ys \<and> get_loop tag xs = None \<and> qs = xs @ drop 1 ys \<and>
       (ys = [] \<or> tp_tag (hd ys) = tag))"
  then obtain xs ys where l: "live h' + item_blocks (items a) = live h + item_blocks qs"
    "length qs \<le> length (items a)" and q: "items a = xs @ ys" "get_loop tag xs = None"
    "qs = xs @ drop 1 ys" "ys = [] \<or> tp_tag (hd ys) = tag" by blast
  have "tp_ok (a \<lparr>items := qs\<rparr>)"
    using assms(1) l(2) q dyn_ok_fewer [of a qs] set_drop_subset [of 1 ys] by (auto simp: tp_ok_def)
  moreover have "get_loop t qs = get_loop t (items a)" if "t \<noteq> tag" for t
    using q that by (cases ys) (auto simp: get_append split: option.splits)
  moreover have "distinct (map tp_tag qs) \<and> get_loop tag qs = None"
    if "distinct (map tp_tag (items a))"
  proof -
    have "tag \<notin> tp_tag ` set qs" "distinct (map tp_tag qs)"
      using that q by (cases ys; auto simp: get_loop_None)+
    then show ?thesis by (auto simp: get_loop_None)
  qed
  ultimately show "runs (ret (a \<lparr>items := qs\<rparr>)) h' (\<lambda>a' h'. tp_ok a' \<and>
    live h' + item_blocks (items a) = live h + item_blocks (items a') \<and>
    (\<forall>t. t \<noteq> tag \<longrightarrow> get_loop t (items a') = get_loop t (items a)) \<and>
    (distinct (map tp_tag (items a)) \<longrightarrow>
       distinct (map tp_tag (items a')) \<and> get_loop tag (items a') = None))"
    using l(1) by (intro runs_ret) simp
qed

lemma distinct_put:
  "distinct (map tp_tag ps) \<Longrightarrow> distinct (map tp_tag (put_item tag w ps)) \<and>
     tp_tag ` set (put_item tag w ps) = insert tag (tp_tag ` set ps)"
  by (induction ps) auto

subsection \<open>Releasing and copying\<close>

lemma frees_tpropval_array: "tp_ok a \<Longrightarrow> frees (tpropval_array_free a) (array_blocks a)"
proof -
  assume "tp_ok a"
  then have "frees (for_each (\<lambda>p. propval_free (proptag_type (tp_tag p)) (tp_value p)) (items a))
      (item_blocks (items a))"
    unfolding item_blocks_def using free_frees(1)
    by (intro frees_for_each) (simp add: tp_ok_def tagged_by_parts)
  from frees_seq [OF frees_seq [OF this frees_free] frees_free] show ?thesis
    by (simp add: tpropval_array_free_def tpropval_array_free_internal_def array_blocks_def)
qed

lemma append_loop_dups:
  assumes "tp_ok a" "length (items a) + length ps \<le> 65535" "\<forall>p\<in>set ps. dup_tagged_ok p"
  shows "dups (append_loop a ps)
    (\<lambda>b. tp_ok b \<and> (\<exists>qs. items b = items a @ qs \<and> list_all2 tagged_copy ps qs))
    (item_blocks ps) (array_blocks a)"
  using assms
proof (induction ps arbitrary: a)
  case Nil
  then show ?case by (auto simp: item_blocks_def intro: dups_Some)
next
  case (Cons p ps)
  let ?P = "\<lambda>b. tp_ok b \<and> (\<exists>qs. items b = items a @ qs \<and> list_all2 tagged_copy (p # ps) qs)"
  let ?R = "\<lambda>h r h'. case r of None \<Rightarrow> live h' = live h - array_blocks a \<and> starved h
      | Some x \<Rightarrow> ?P x \<and> live h' = live h + item_blocks (p # ps)"
  have ok: "dup_ok (proptag_type (tp_tag p)) (tp_value p)"
    using Cons.prems(3) by (simp add: tagged_by_parts)
  show ?case
  proof (rule dups_runs)
    fix h :: dup_heap assume m: "array_blocks a \<le> live h"
    show "runs (append_loop a (p # ps)) h (?R h)"
      unfolding append_loop.simps
    proof (rule runs_bnd [OF tpropval_append_runs [OF Cons.prems(1) ok]])
      show "length (items a) < 65535" using Cons.prems(2) by simp
      fix r h' assume later: "later h h'" and r: "(\<lambda>(b, a') h'. tp_ok a' \<and>
        (if b then (\<exists>w. copy (tp_value p) w \<and> items a' = items a @ [TAGGED_PROPVAL (tp_tag p) w]) \<and>
           live h' = live h + blocks (tp_value p)
         else items a' = items a \<and> live h' = live h \<and> starved h)) r h'"
      obtain b a' where ba: "r = (b, a')" by (cases r)
      show "runs (case r of (b, a') \<Rightarrow>
          if \<not> b then seq (tpropval_array_free a') (ret None) else append_loop a' ps) h' (?R h)"
      proof (cases b)
        case False
        with r ba have a': "tp_ok a'" "array_blocks a' = array_blocks a" "live h' = live h" "starved h"
          by (auto simp: array_blocks_def)
        have "runs (seq (tpropval_array_free a') (ret None)) h' (?R h)"
          using a' m by (intro runs_seq [OF frees_runs [OF frees_tpropval_array]] runs_ret) simp_all
        with False ba show ?thesis by simp
      next
        case True
        with r ba obtain w where w: "copy (tp_value p) w" "tp_ok a'" "live h' = live h + blocks (tp_value p)"
          "items a' = items a @ [TAGGED_PROPVAL (tp_tag p) w]" by auto
        have bl: "array_blocks a' = array_blocks a + tagged_blocks p"
          using dup_frees(2) [OF ok w(1)] w(4)
          by (simp add: array_blocks_def item_blocks_def tagged_by_parts)
        have "dups (append_loop a' ps)
            (\<lambda>b. tp_ok b \<and> (\<exists>qs. items b = items a' @ qs \<and> list_all2 tagged_copy ps qs))
            (item_blocks ps) (array_blocks a')"
          by (rule Cons.IH) (use Cons.prems(2,3) w in simp_all)
        then have "runs (append_loop a' ps) h' (?R h)"
        proof (rule runs_mono [OF runs_dups])
          show "array_blocks a' \<le> live h'" using m bl w(3) by (simp add: tagged_by_parts)
          fix s and h'' :: dup_heap assume "case s of None \<Rightarrow> live h'' = live h' - array_blocks a' \<and> starved h'
            | Some x \<Rightarrow> (tp_ok x \<and> (\<exists>qs. items x = items a' @ qs \<and> list_all2 tagged_copy ps qs)) \<and>
                live h'' = live h' + item_blocks ps"
          then show "?R h s h''"
            using w(1,3,4) bl starved_later [OF later]
            by (cases s) (auto simp: tagged_by_parts item_blocks_def)
        qed
        with True ba show ?thesis by simp
      qed
    qed
  qed
qed

lemma tpropval_dup_dups:
  assumes "tp_ok a"
  shows "dups (tpropval_array_dup a)
    (\<lambda>b. tp_ok b \<and> list_all2 tagged_copy (items a) (items b)) (array_blocks a) 0"
proof -
  have "dups (bnd dyn_init (\<lambda>r. case r of None \<Rightarrow> ret None | Some a1 \<Rightarrow> append_loop a1 (items a)))
    (\<lambda>b. tp_ok b \<and> list_all2 tagged_copy (items a) (items b)) (2 + item_blocks (items a)) 0"
  proof (rule dups_bnd [OF dyn_init_ok])
    fix a1 :: tpropval_array assume a1: "items a1 = [] \<and> dyn_ok a1"
    then have ok: "tp_ok a1" by (simp add: tp_ok_def)
    show "dups (append_loop a1 (items a)) (\<lambda>b. tp_ok b \<and> list_all2 tagged_copy (items a) (items b))
        (item_blocks (items a)) (0 + 2)"
    proof (rule dups_mono)
      show "dups (append_loop a1 (items a))
        (\<lambda>b. tp_ok b \<and> (\<exists>qs. items b = items a1 @ qs \<and> list_all2 tagged_copy (items a) qs))
        (item_blocks (items a)) (0 + 2)"
        using append_loop_dups [OF ok, of "items a"] assms a1
        by (simp add: tp_ok_def array_blocks_def item_blocks_def del: One_nat_def)
    qed (use a1 in auto)
  qed
  then show ?thesis
    by (simp add: tpropval_array_dup_def tpropval_array_init_def array_blocks_def)
qed

subsection \<open>Updating\<close>

lemma length_put_le: "length (put_item tag w ps) \<le> Suc (length ps)"
  by (induction ps) auto

lemma tpropval_update_runs:
  assumes "tp_ok a" "\<forall>p\<in>set ps. dup_tagged_ok p" "length (items a) + length ps \<le> 65535"
    "item_blocks (items a) \<le> live h"
  shows "runs (tpropval_array_update a ps) h (\<lambda>a' h'. tp_ok a' \<and>
    live h' + item_blocks (items a) = live h + item_blocks (items a') \<and>
    (\<not> starved h \<longrightarrow> (\<forall>t. case get_loop t (rev ps) of
        None \<Rightarrow> get_loop t (items a') = get_loop t (items a)
      | Some v \<Rightarrow> (\<exists>w. get_loop t (items a') = Some w \<and> copy v w))))"
  using assms
proof (induction ps arbitrary: a h)
  case Nil
  then show ?case by (auto intro!: runs_ret)
next
  case (Cons p ps)
  have ok: "dup_ok (proptag_type (tp_tag p)) (tp_value p)"
    using Cons.prems(2) by (simp add: tagged_by_parts)
  let ?Q = "\<lambda>a' h'. tp_ok a' \<and>
    live h' + item_blocks (items a) = live h + item_blocks (items a') \<and>
    (\<not> starved h \<longrightarrow> (\<forall>t. case get_loop t (rev (p # ps)) of
        None \<Rightarrow> get_loop t (items a') = get_loop t (items a)
      | Some v \<Rightarrow> (\<exists>w. get_loop t (items a') = Some w \<and> copy v w)))"
  show ?case
    unfolding tpropval_array_update.simps
  proof (rule runs_bnd [OF tpropval_set_runs [OF Cons.prems(1) ok _ Cons.prems(4)]])
    show "length (items a) < 65535" using Cons.prems(3) by simp
    fix r and h1 :: dup_heap assume later: "later h h1" and "(\<lambda>(b, a') h'. tp_ok a' \<and>
      (if b then (\<exists>w. copy (tp_value p) w \<and> items a' = put_item (tp_tag p) w (items a) \<and>
          live h' + item_blocks (items a) = live h + item_blocks (items a'))
       else items a' = items a \<and> live h' = live h \<and> starved h)) r h1"
    then obtain b a1 where r: "r = (b, a1)" "tp_ok a1"
      "if b then (\<exists>w. copy (tp_value p) w \<and> items a1 = put_item (tp_tag p) w (items a) \<and>
          live h1 + item_blocks (items a) = live h + item_blocks (items a1))
       else items a1 = items a \<and> live h1 = live h \<and> starved h" by (cases r) auto
    have len: "length (items a1) + length ps \<le> 65535"
    proof -
      have "length (items a1) \<le> Suc (length (items a))"
        using r(3) length_put_le by (auto split: if_splits)
      with Cons.prems(3) show ?thesis by simp
    qed
    have l1: "live h1 + item_blocks (items a) = live h + item_blocks (items a1)"
      using r(3) by (auto split: if_splits)
    have "runs (tpropval_array_update a1 ps) h1 ?Q"
    proof (rule runs_mono [OF Cons.IH [OF r(2) _ len]])
      show "\<forall>p\<in>set ps. dup_tagged_ok p" using Cons.prems(2) by simp
      show "item_blocks (items a1) \<le> live h1" using l1 Cons.prems(4) by simp
      fix a' and h' :: dup_heap assume a': "tp_ok a' \<and>
        live h' + item_blocks (items a1) = live h1 + item_blocks (items a') \<and>
        (\<not> starved h1 \<longrightarrow> (\<forall>t. case get_loop t (rev ps) of
            None \<Rightarrow> get_loop t (items a') = get_loop t (items a1)
          | Some v \<Rightarrow> (\<exists>w. get_loop t (items a') = Some w \<and> copy v w)))"
      have "case get_loop t (rev (p # ps)) of
        None \<Rightarrow> get_loop t (items a') = get_loop t (items a)
      | Some v \<Rightarrow> (\<exists>w. get_loop t (items a') = Some w \<and> copy v w)" if "\<not> starved h" for t
      proof -
        from that r(3) obtain w where w: "copy (tp_value p) w" "items a1 = put_item (tp_tag p) w (items a)"
          by (auto split: if_splits)
        have "case get_loop t (rev ps) of
            None \<Rightarrow> get_loop t (items a') = get_loop t (items a1)
          | Some v \<Rightarrow> (\<exists>w. get_loop t (items a') = Some w \<and> copy v w)"
          using a' that starved_later [OF later] by blast
        then show ?thesis
          using w by (auto simp: get_append get_put split: option.splits)
      qed
      with a' l1 show "?Q a' h'" by auto
    qed
    then show "runs (case r of (b, a') \<Rightarrow> tpropval_array_update a' ps) h1 ?Q"
      by (simp only: r prod.case)
  qed
qed

section \<open>Sets of arrays\<close>

definition set_blocks :: "tpropval_array list \<Rightarrow> nat" where
  "set_blocks ps = sum_list (map array_blocks ps)"

definition array_copy :: "tpropval_array \<Rightarrow> tpropval_array \<Rightarrow> bool" where
  "array_copy a b \<longleftrightarrow> list_all2 tagged_copy (items a) (items b)"

lemma room_for_le: "room_for n \<le> n + 100"
  unfolding room_for_def by presburger

lemma tarray_append_runs:
  assumes "dyn_ok s" "length (items s) < 0xFF00"
  shows "runs (tarray_set_append_internal s q) h (\<lambda>(b, s') h'. live h' = live h \<and>
    (if b then dyn_ok s' \<and> items s' = items s @ [q] else s' = s \<and> starved h))"
proof -
  let ?n = "length (items s)"
  have c: "unat (of_nat (room_for ?n) :: u16) = room_for ?n"
    using room_for_le [of ?n] assms(2) by (simp add: unat_of_nat)
  have g: "unat ((of_nat (room_for ?n) :: u16) + 100) = room_for ?n + 100"
    using unat_add_lem [of "of_nat (room_for ?n) :: u16" 100] c room_for_le [of ?n] assms(2) by simp
  have lim: "\<not> 0xFF00 \<le> ?n" using assms(2) by simp
  show ?thesis
    unfolding tarray_set_append_internal_def Let_def if_not_P [OF lim]
  proof (rule runs_grow)
    fix h' :: dup_heap assume h: "live h' = live h"
      and "unat (of_nat (room_for ?n) :: u16) \<le> ?n + 1"
    then have "room_for ?n \<le> Suc ?n" using c by simp
    from dyn_ok_grown [OF this]
    show "runs (bnd (store_items [q] (s \<lparr>room := unat ((of_nat (room_for ?n) :: u16) + 100)\<rparr>)) (\<lambda>t. ret (True, t))) h'
      (\<lambda>(b, s') h'. live h' = live h \<and>
        (if b then dyn_ok s' \<and> items s' = items s @ [q] else s' = s \<and> starved h))"
      using h room_for_gt [of ?n] by (intro runs_store) (simp_all add: g)
  next
    assume "\<not> unat (of_nat (room_for ?n) :: u16) \<le> ?n + 1"
    then have "Suc ?n < room_for ?n" using c by simp
    with assms(1) dyn_ok_next [OF assms(1) this]
    show "runs (bnd (store_items [q] s) (\<lambda>t. ret (True, t))) h
      (\<lambda>(b, s') h'. live h' = live h \<and>
        (if b then dyn_ok s' \<and> items s' = items s @ [q] else s' = s \<and> starved h))"
      by (intro runs_store) (simp_all add: dyn_ok_def)
  qed simp
qed

lemma frees_tarray_set:
  assumes "\<forall>a\<in>set (items s). tp_ok a"
  shows "frees (tarray_set_free s) (set_blocks (items s) + (1 + 1))"
  unfolding tarray_set_free_def set_blocks_def
  by (intro frees_seq frees_for_each frees_free) (use assms frees_tpropval_array in blast)

lemma tarray_dup_loop_dups:
  assumes "dyn_ok s" "\<forall>a\<in>set (items s). tp_ok a" "\<forall>a\<in>set ps. tp_ok a"
    "length (items s) + length ps \<le> 0xFF00"
  shows "dups (tarray_dup_loop s ps)
    (\<lambda>t. dyn_ok t \<and> (\<forall>a\<in>set (items t). tp_ok a) \<and>
       (\<exists>qs. items t = items s @ qs \<and> list_all2 array_copy ps qs))
    (set_blocks ps) (set_blocks (items s) + (1 + 1))"
  using assms
proof (induction ps arbitrary: s)
  case Nil
  then show ?case by (auto simp: set_blocks_def intro: dups_Some)
next
  case (Cons p ps)
  let ?P = "\<lambda>s ps t. dyn_ok t \<and> (\<forall>a\<in>set (items t). tp_ok a) \<and>
       (\<exists>qs. items t = items s @ qs \<and> list_all2 array_copy ps qs)"
  let ?own = "set_blocks (items s) + (1 + 1)"
  let ?R = "\<lambda>h r h'. case r of None \<Rightarrow> live h' = live h - ?own \<and> starved h
      | Some x \<Rightarrow> ?P s (p # ps) x \<and> live h' = live h + set_blocks (p # ps)"
  have p: "tp_ok p" using Cons.prems(3) by simp
  have len: "length (items s) < 0xFF00" using Cons.prems(4) by simp
  show ?case
  proof (rule dups_runs)
    fix h :: dup_heap assume m: "?own \<le> live h"
    show "runs (tarray_dup_loop s (p # ps)) h (?R h)"
      unfolding tarray_dup_loop.simps
    proof (rule runs_bnd [OF runs_dups [OF tpropval_dup_dups [OF p]]])
      fix r and h1 :: dup_heap assume later: "later h h1"
        and r: "case r of None \<Rightarrow> live h1 = live h - 0 \<and> starved h
          | Some q \<Rightarrow> (tp_ok q \<and> list_all2 tagged_copy (items p) (items q)) \<and>
              live h1 = live h + array_blocks p"
      show "runs (case r of None \<Rightarrow> seq (tarray_set_free s) (ret None)
        | Some q \<Rightarrow> bnd (tarray_set_append_internal s q) (\<lambda>(b, s').
            if \<not> b then seq (tpropval_array_free q) (seq (tarray_set_free s') (ret None))
            else tarray_dup_loop s' ps)) h1 (?R h)"
      proof (cases r)
        case None
        then have "runs (seq (tarray_set_free s) (ret None)) h1 (?R h)"
          using r m by (intro runs_seq [OF frees_runs [OF frees_tarray_set [OF Cons.prems(2)]]] runs_ret) simp_all
        with None show ?thesis by simp
      next
        case (Some q)
        with r have q: "tp_ok q" "array_copy p q" "live h1 = live h + array_blocks p"
          by (simp_all add: array_copy_def)
        have bq: "array_blocks q = array_blocks p"
          using list_copies [of tagged_copy "items p" "items q" "\<lambda>_. True" tagged_blocks] q(2) p copy_keeps(2)
          by (simp add: array_copy_def array_blocks_def item_blocks_def tp_ok_def)
        have "runs (bnd (tarray_set_append_internal s q) (\<lambda>(b, s').
            if \<not> b then seq (tpropval_array_free q) (seq (tarray_set_free s') (ret None))
            else tarray_dup_loop s' ps)) h1 (?R h)"
        proof (rule runs_bnd [OF tarray_append_runs [OF Cons.prems(1) len]])
          fix r2 and h2 :: dup_heap assume later2: "later h1 h2" and "(\<lambda>(b, s') h'. live h' = live h1 \<and>
            (if b then dyn_ok s' \<and> items s' = items s @ [q] else s' = s \<and> starved h1)) r2 h2"
          then obtain b s' where r2: "r2 = (b, s')" "live h2 = live h1"
            "if b then dyn_ok s' \<and> items s' = items s @ [q] else s' = s \<and> starved h1"
            by (cases r2) auto
          show "runs (case r2 of (b, s') \<Rightarrow>
            if \<not> b then seq (tpropval_array_free q) (seq (tarray_set_free s') (ret None))
            else tarray_dup_loop s' ps) h2 (?R h)"
          proof (cases b)
            case False
            have "runs (seq (tpropval_array_free q) (seq (tarray_set_free s) (ret None))) h2 (?R h)"
              using r2 False q(3) m bq starved_later [OF later]
              by (intro runs_seq [OF frees_runs [OF frees_tpropval_array [OF q(1)]]]
                  runs_seq [OF frees_runs [OF frees_tarray_set [OF Cons.prems(2)]]] runs_ret) simp_all
            with False r2 show ?thesis by simp
          next
            case True
            with r2 have s': "dyn_ok s'" "items s' = items s @ [q]" by simp_all
            have "dups (tarray_dup_loop s' ps) (?P s' ps) (set_blocks ps) (set_blocks (items s') + (1 + 1))"
              by (rule Cons.IH) (use s' Cons.prems q(1) in simp_all)
            then have "runs (tarray_dup_loop s' ps) h2 (?R h)"
            proof (rule runs_mono [OF runs_dups])
              have bs: "set_blocks (items s') = set_blocks (items s) + array_blocks p"
                using s'(2) bq by (simp add: set_blocks_def)
              show "set_blocks (items s') + (1 + 1) \<le> live h2" using bs r2(2) q(3) m by simp
              fix t and h3 :: dup_heap
              assume "case t of None \<Rightarrow> live h3 = live h2 - (set_blocks (items s') + (1 + 1)) \<and> starved h2
                | Some x \<Rightarrow> ?P s' ps x \<and> live h3 = live h2 + set_blocks ps"
              then show "?R h t h3"
                using bs r2(2) q(2,3) s'(2) starved_later [OF later] starved_later [OF later2]
                by (cases t) (auto simp: set_blocks_def)
            qed
            with True r2 show ?thesis by simp
          qed
        qed
        with Some show ?thesis by simp
      qed
    qed simp
  qed
qed

lemma tarray_dup_dups:
  assumes "\<forall>a\<in>set (items s). tp_ok a" "length (items s) \<le> 0xFF00"
  shows "dups (tarray_set_dup s)
    (\<lambda>t. dyn_ok t \<and> (\<forall>a\<in>set (items t). tp_ok a) \<and> list_all2 array_copy (items s) (items t))
    (2 + set_blocks (items s)) 0"
  unfolding tarray_set_dup_def tarray_set_init_def
proof (rule dups_bnd [OF dyn_init_ok])
  fix s1 :: tarray_set assume s1: "items s1 = [] \<and> dyn_ok s1"
  have "dups (tarray_dup_loop s1 (items s))
    (\<lambda>t. dyn_ok t \<and> (\<forall>a\<in>set (items t). tp_ok a) \<and>
       (\<exists>qs. items t = items s1 @ qs \<and> list_all2 array_copy (items s) qs))
    (set_blocks (items s)) (0 + 2)"
    using tarray_dup_loop_dups [of s1 "items s"] s1 assms
    by (simp add: set_blocks_def del: One_nat_def)
  then show "dups (tarray_dup_loop s1 (items s))
    (\<lambda>t. dyn_ok t \<and> (\<forall>a\<in>set (items t). tp_ok a) \<and> list_all2 array_copy (items s) (items t))
    (set_blocks (items s)) (0 + 2)"
    by (rule dups_mono) (use s1 in auto)
qed

end
