(* ===== verification/Array_Properties.thy ===== *)
theory Array_Properties
  imports Dyn_Values
begin

text \<open>
  The properties of the growing arrays, over the histories of an array: what it can be after
  it was set up and operations of the code were applied to it.
\<close>

lemma runs_result: "runs d h Q \<Longrightarrow> d h = (Inr r, h') \<Longrightarrow> Q r h'"
  by (simp add: runs_def)

lemma runs_returns: "runs d h Q \<Longrightarrow> \<exists>r h'. d h = (Inr r, h')"
  by (auto simp: runs_def)

lemma dups_result: "dups d P n 0 \<Longrightarrow> d h = (Inr (Some x), h') \<Longrightarrow> P x \<and> live h' = live h + n"
  using runs_result [OF runs_dups [of d P n 0 h]] by fastforce

lemma dups_returns: "dups d P n 0 \<Longrightarrow> \<exists>r h'. d h = (Inr r, h')"
  using runs_returns [OF runs_dups [of d P n 0 h]] by simp

section \<open>Entry ids\<close>

inductive eid_built :: "eid_array \<Rightarrow> u64 list \<Rightarrow> bool" where
  init: "eid_array_init h = (Inr (Some a), h') \<Longrightarrow> eid_built a []"
| app: "eid_built a xs \<Longrightarrow> length xs < 2 ^ 31 - 1 \<Longrightarrow> eid_array_append a e h = (Inr (b, a'), h') \<Longrightarrow>
     eid_built a' (if b then xs @ [e] else xs)"
| batch: "eid_built a xs \<Longrightarrow> length xs + length ids < 2 ^ 31 \<Longrightarrow> length ids < 2 ^ 30 \<Longrightarrow>
     eid_array_batch_append a (of_nat (length ids)) ids h = (Inr (b, a'), h') \<Longrightarrow>
     eid_built a' (if b then xs @ ids else xs)"
| rem: "eid_built a xs \<Longrightarrow> eid_array_remove a e h = (Inr a', h') \<Longrightarrow>
     eid_built a' (filter (\<lambda>x. x \<noteq> e) xs)"
| dup: "eid_built a xs \<Longrightarrow> eid_array_dup a h = (Inr (Some a'), h') \<Longrightarrow> eid_built a' xs"

lemma eid_built_ok: "eid_built a xs \<Longrightarrow> eid_ok a \<and> items a = xs"
proof (induction rule: eid_built.induct)
  case (init h a h')
  then show ?case
    using dups_result [OF dyn_init_ok init [unfolded eid_array_init_def]] by (simp add: eid_ok_def)
next
  case (app a xs e h b a' h')
  then show ?case
    using runs_result [OF eid_append_runs app(3)] by (auto simp: eid_ok_def)
next
  case (batch a xs ids h b a' h')
  then show ?case
    using runs_result [OF eid_batch_runs [OF _ batch(3) refl] batch(4)] by (auto simp: eid_ok_def)
next
  case (rem a xs e h a' h')
  then show ?case using eid_remove_runs [of a e] by auto
next
  case (dup a xs h a' h')
  then show ?case using dups_result [OF eid_dup_dups dup(2)] by auto
qed

text \<open>
  C39. Whatever was appended to an array of entry ids, one by one or in batches, removed from it
  or copied: it holds exactly that list, a lookup answers for exactly its elements, and
  appending, with the room computed from the count alone, never writes behind the block.
\<close>

theorem eid_array_history:
  assumes "eid_built a xs"
  shows "items a = xs \<and> (\<forall>e h. eid_array_check a e h = (Inr (e \<in> set xs), h)) \<and>
    length xs < room a \<and> (\<forall>e h. \<exists>b a' h'. eid_array_append a e h = (Inr (b, a'), h'))"
proof -
  have a: "eid_ok a" "items a = xs" using eid_built_ok [OF assms] by simp_all
  moreover have "length xs < room a"
    using a room_for_gt [of "length xs"] by (simp add: eid_ok_def dyn_ok_def)
  moreover have "\<exists>b a' h'. eid_array_append a e h = (Inr (b, a'), h')" for e h
    using runs_returns [OF eid_append_runs [OF a(1), of e h]] by fast
  ultimately show ?thesis by (simp add: eid_check_runs)
qed

theorem eid_array_history_witness:
  "\<exists>a. eid_built a [7] \<and> eid_array_check a 7 \<lparr>grants = \<lambda>i. True, live = 0, stale = 0\<rparr> =
    (Inr True, \<lparr>grants = \<lambda>i. True, live = 0, stale = 0\<rparr>)"
proof -
  let ?h = "\<lparr>grants = \<lambda>i. True, live = 0, stale = 0\<rparr>"
  let ?a = "\<lparr>items = [], room = 100\<rparr> :: eid_array"
  have "eid_array_init ?h = (Inr (Some ?a), ?h \<lparr>live := 2\<rparr>)"
    by (simp add: eid_array_init_def dyn_init_def in_struct_def dup_block_def dup_malloc_def bnd_def ret_def)
  then have a: "eid_built ?a []" by (rule eid_built.init)
  obtain b a' h' where r: "eid_array_append ?a 7 ?h = (Inr (b, a'), h')"
    using eid_array_history [OF a] by blast
  have "b" using runs_result [OF eid_append_runs r] eid_built_ok [OF a]
    by (auto simp: starved_def split: if_splits)
  with eid_built.app [OF a _ r] have "eid_built a' [7]" by simp
  with eid_array_history [OF this] show ?thesis by auto
qed

section \<open>Property tags\<close>

inductive proptags_built :: "proptag_array \<Rightarrow> u32 set \<Rightarrow> bool" where
  init: "proptag_array_init h = (Inr (Some a), h') \<Longrightarrow> proptags_built a {}"
| app: "proptags_built a S \<Longrightarrow> card S < 65535 \<Longrightarrow> proptag_array_append a t h = (Inr (b, a'), h') \<Longrightarrow>
     proptags_built a' (if b then insert t S else S)"
| rem: "proptags_built a S \<Longrightarrow> proptags_built (proptag_array_remove a t) (S - {t})"
| clear: "proptags_built a S \<Longrightarrow> proptags_built (proptag_array_clear a) {}"
| dup: "proptags_built a S \<Longrightarrow> proptag_array_dup a h = (Inr (Some a'), h') \<Longrightarrow> proptags_built a' S"

lemma proptags_built_ok: "proptags_built a S \<Longrightarrow> proptag_ok a \<and> set (items a) = S"
proof (induction rule: proptags_built.induct)
  case (init h a h')
  then show ?case
    using dups_result [OF dyn_init_ok init [unfolded proptag_array_init_def]] by (simp add: proptag_ok_def)
next
  case (app a S t h b a' h')
  then have "length (items a) < 65535" by (auto simp: proptag_ok_def distinct_card)
  with app show ?case
    using runs_result [OF proptag_append_runs app(3)] by (auto split: if_splits)
next
  case (rem a S t)
  then show ?case using proptag_remove_ok by blast
next
  case (clear a S)
  then show ?case using proptag_clear_ok by (auto simp: proptag_array_clear_def set_count_def)
next
  case (dup a S h a' h')
  then show ?case using dups_result [OF proptag_dup_dups dup(2)] by auto
qed

text \<open>
  Whatever was appended to an array of property tags, removed from it, cleared or copied:
  it is a set, without duplicates, and a lookup answers for exactly its elements.
\<close>

lemma proptag_array_history:
  assumes "proptags_built a S"
  shows "set (items a) = S \<and> distinct (items a) \<and> proptag_array_check a t = (t \<in> S) \<and>
    length (items a) < room a \<and>
    (card S < 65535 \<longrightarrow> (\<exists>b a' h'. proptag_array_append a t h = (Inr (b, a'), h')))"
proof -
  have a: "proptag_ok a" "set (items a) = S" using proptags_built_ok [OF assms] by simp_all
  have "\<exists>b a' h'. proptag_array_append a t h = (Inr (b, a'), h')" if "card S < 65535"
  proof -
    have "length (items a) < 65535" using a that by (auto simp: proptag_ok_def distinct_card)
    from runs_returns [OF proptag_append_runs [OF a(1) this, of t h]] show ?thesis by fast
  qed
  with a show ?thesis
    using room_for_gt [of "length (items a)"] by (auto simp: proptag_check_iff proptag_ok_def dyn_ok_def)
qed

lemma proptag_array_history_example:
  "\<exists>a. proptags_built a {7} \<and> proptag_array_check a 7 \<and> \<not> proptag_array_check a 8"
proof -
  let ?h = "\<lparr>grants = \<lambda>i. True, live = 0, stale = 0\<rparr>"
  let ?a = "\<lparr>items = [], room = 100\<rparr> :: proptag_array"
  have "proptag_array_init ?h = (Inr (Some ?a), ?h \<lparr>live := 2\<rparr>)"
    by (simp add: proptag_array_init_def dyn_init_def in_struct_def dup_block_def dup_malloc_def bnd_def ret_def)
  then have a: "proptags_built ?a {}" by (rule proptags_built.init)
  obtain b a' h' where r: "proptag_array_append ?a 7 ?h = (Inr (b, a'), h')"
    using proptag_array_history [OF a, of 7 ?h] by auto
  have "b" using runs_result [OF proptag_append_runs r] proptags_built_ok [OF a]
    by (auto simp: starved_def split: if_splits)
  with proptags_built.app [OF a _ r] have "proptags_built a' {7}" by simp
  with proptag_array_history [OF this] show ?thesis by auto
qed

section \<open>Property values\<close>








section \<open>Sets of arrays\<close>

text \<open>
  A set of property arrays is copied completely or not at all, even where an allocation
  fails in the middle of a value of some array; the copy has the values of the original under the
  same tags, and releasing it restores the heap.
\<close>

lemma tarray_set_dup_free:
  assumes "\<forall>a\<in>set (items s). tp_ok a" "length (items s) \<le> 0xFF00"
  shows "\<exists>r h'. tarray_set_dup s h = (Inr r, h') \<and>
    (case r of
       None \<Rightarrow> live h' = live h \<and> (\<exists>i. \<not> grants h i)
     | Some t \<Rightarrow> list_all2 array_copy (items s) (items t) \<and>
         tarray_set_free t h' = (Inr (), h' \<lparr>live := live h\<rparr>))"
proof -
  from runs_dups [OF tarray_dup_dups [OF assms], of h]
  obtain r h' where r: "tarray_set_dup s h = (Inr r, h')"
    "case r of None \<Rightarrow> live h' = live h - 0 \<and> starved h
     | Some t \<Rightarrow> (dyn_ok t \<and> (\<forall>a\<in>set (items t). tp_ok a) \<and> list_all2 array_copy (items s) (items t)) \<and>
         live h' = live h + (2 + set_blocks (items s))"
    unfolding runs_def by blast
  have "tarray_set_free t h' = (Inr (), h' \<lparr>live := live h\<rparr>)"
    if t: "r = Some t" for t
  proof -
    have c: "list_all2 array_copy (items s) (items t)" "\<forall>a\<in>set (items t). tp_ok a"
      "live h' = live h + (2 + set_blocks (items s))" using r(2) t by simp_all
    have "array_blocks y = array_blocks x" if "x \<in> set (items s)" "array_copy x y" for x y
      using list_copies [of tagged_copy "items x" "items y" "\<lambda>_. True" tagged_blocks] that assms(1) copy_keeps(2)
      by (simp add: array_copy_def array_blocks_def item_blocks_def tp_ok_def)
    then have "set_blocks (items t) = set_blocks (items s)"
      using list_copies [OF c(1), of "\<lambda>_. True" array_blocks] by (simp add: set_blocks_def)
    with frees_tarray_set [OF c(2)] c(3) show ?thesis by (simp add: frees_def)
  qed
  with r show ?thesis by (intro exI [of _ r] exI [of _ h']) (auto simp: starved_def split: option.splits)
qed

lemma tarray_set_dup_free_example:
  "\<exists>h'. tarray_set_dup \<lparr>items = [\<lparr>items = [TAGGED_PROPVAL 0x00010003 (PV_LONG 5)], room = 100\<rparr>], room = 100\<rparr>
      \<lparr>grants = \<lambda>i. i < 4, live = 9, stale = 0\<rparr> = (Inr None, h') \<and> live h' = 9"
proof -
  let ?s = "\<lparr>items = [\<lparr>items = [TAGGED_PROPVAL 0x00010003 (PV_LONG 5)], room = 100\<rparr>], room = 100\<rparr>"
  let ?h = "\<lparr>grants = \<lambda>i. i < 4, live = 9, stale = 0\<rparr>"
  have "\<forall>a\<in>set (items ?s). tp_ok a" "length (items ?s) \<le> 0xFF00"
    by (simp_all add: tp_ok_def dyn_ok_def room_for_def proptag_type_def dup_types)
  from tarray_set_dup_free [OF this, of ?h] obtain r h' where r: "tarray_set_dup ?s ?h = (Inr r, h')"
    "case r of None \<Rightarrow> live h' = live ?h \<and> (\<exists>i. \<not> grants ?h i)
     | Some t \<Rightarrow> list_all2 array_copy (items ?s) (items t) \<and>
         tarray_set_free t h' = (Inr (), h' \<lparr>live := live ?h\<rparr>)"
    by blast
  have "r = None"
    using r(1)
    by (simp add: tarray_set_dup_def tarray_set_init_def tpropval_array_dup_def tpropval_array_init_def
        dyn_init_def in_struct_def dup_block_def dup_malloc_def dup_free_def tpropval_array_append_def
        tpropval_array_free_def tpropval_array_free_internal_def tarray_set_free_def room_for_def
        proptag_type_def dup_types bnd_def seq_def ret_def)
  with r show ?thesis by auto
qed

end
