(* ===== verification/Ext_Message.thy ===== *)
theory Ext_Message
  imports Struct_Codec
begin

text \<open>
  Messages as \<open>ext_buffer.c\<close> sends them between the servers: the properties of a message, the
  rows of its recipients and the list of its attachments, which may embed messages again; the
  rows of permission and rule tables and arrays of identifiers.

  \<open>ext_buffer_pull_message_content\<close> and \<open>ext_buffer_pull_attachment_list\<close> call each other.  As in
  \<open>Ext_Pull_Prop\<close> the recursion is closed by a function with fuel; a message costs at least two
  bytes, so the size of the buffer bounds its depth (\<open>pull_message_safe\<close>) and more fuel changes
  nothing (\<open>fuel_le_message\<close>).

  \<^item> \<open>safe_pull_message\<close>: reading never leaves the buffer;
  \<^item> \<open>coded_message\<close>: what was written is read back.
\<close>

subsection \<open>Data\<close>

datatype message_content =
    MESSAGE_CONTENT (mc_proplist: "tagged_propval list")
      (mc_prcpts: "tagged_propval list list option")
      (mc_pattachments: "attachment_content list option")
and attachment_content =
    ATTACHMENT_CONTENT (ac_proplist: "tagged_propval list") (ac_pembedded: "message_content option")

datatype permission_data = PERMISSION_DATA (pd_flags: u8) (pd_propvals: "tagged_propval list")

datatype rule_data = RULE_DATA (rd_flags: u8) (rd_propvals: "tagged_propval list")

subsection \<open>Pointers\<close>

text \<open>
  A structure behind a pointer is allocated before it is read; a pointer that may be \<open>NULL\<close> is
  preceded by a byte that tells, and any byte but 0 announces a value.
\<close>

definition pull_pointer :: "nat \<Rightarrow> 'a pull \<Rightarrow> 'a pull" where
  "pull_pointer sizeof p = bnd (pull_alloc sizeof) (\<lambda>_. p)"

definition pull_optional :: "'a pull \<Rightarrow> 'a option pull" where
  "pull_optional p =
     bnd ext_buffer_pull_uint8 (\<lambda>tmp_byte.
       if tmp_byte = 0 then ret None else bnd p (\<lambda>x. ret (Some x)))"

definition push_optional :: "('a \<Rightarrow> push) \<Rightarrow> 'a option \<Rightarrow> push" where
  "push_optional q x =
     (case x of None \<Rightarrow> ext_buffer_push_uint8 0 | Some y \<Rightarrow> seq (ext_buffer_push_uint8 1) (q y))"

lemma push_optional_cong [fundef_cong]:
  "x = x' \<Longrightarrow> (\<And>y. x' = Some y \<Longrightarrow> q y = q' y) \<Longrightarrow> push_optional q x = push_optional q' x'"
  by (simp add: push_optional_def split: option.split)

text \<open>A field of type \<open>BOOL\<close> that is \<open>TRUE\<close> or \<open>FALSE\<close>.\<close>

definition push_BOOL :: "bool \<Rightarrow> push" where
  "push_BOOL b = ext_buffer_push_bool (if b then 0xFFFFFFFF else 0)"

subsection \<open>Reading\<close>

definition ext_buffer_pull_permission_data :: "permission_data pull" where
  "ext_buffer_pull_permission_data =
     bnd ext_buffer_pull_uint8 (\<lambda>flags.
     bnd ext_buffer_pull_tpropval_array (\<lambda>propvals.
     ret (PERMISSION_DATA flags propvals)))"

definition ext_buffer_pull_rule_data :: "rule_data pull" where
  "ext_buffer_pull_rule_data =
     bnd ext_buffer_pull_uint8 (\<lambda>flags.
     bnd ext_buffer_pull_tpropval_array (\<lambda>propvals.
     ret (RULE_DATA flags propvals)))"

definition ext_buffer_pull_eid_array :: "u64 list pull" where
  "ext_buffer_pull_eid_array =
     bnd ext_buffer_pull_uint32 (\<lambda>count. pull_elems 8 (unat count) ext_buffer_pull_uint64)"

text \<open>The body of the loop, and the list; no case is made of a count of 0 here.\<close>

definition pull_attachment_content :: "message_content pull \<Rightarrow> attachment_content pull" where
  "pull_attachment_content pull_message =
     bnd ext_buffer_pull_tpropval_array (\<lambda>proplist.
     bnd (pull_optional (pull_pointer 32 pull_message)) (\<lambda>pembedded.
     ret (ATTACHMENT_CONTENT proplist pembedded)))"

definition ext_buffer_pull_attachment_list ::
    "message_content pull \<Rightarrow> attachment_content list pull" where
  "ext_buffer_pull_attachment_list pull_message =
     bnd ext_buffer_pull_uint16 (\<lambda>count.
     bnd (pull_alloc (8 * unat count)) (\<lambda>_.
     repeat_n (unat count) (pull_pointer 24 (pull_attachment_content pull_message))))"

definition pull_message_body :: "message_content pull \<Rightarrow> message_content pull" where
  "pull_message_body pull_message =
     bnd ext_buffer_pull_tpropval_array (\<lambda>proplist.
     bnd (pull_optional (pull_pointer 16 ext_buffer_pull_tarray_set)) (\<lambda>prcpts.
     bnd (pull_optional (pull_pointer 16 (ext_buffer_pull_attachment_list pull_message)))
       (\<lambda>pattachments.
     ret (MESSAGE_CONTENT proplist prcpts pattachments))))"

fun pull_message :: "nat \<Rightarrow> message_content pull" where
  "pull_message 0 = fail OUT_OF_FUEL"
| "pull_message (Suc n) = pull_message_body (pull_message n)"

text \<open>The function of the header file: one unit of fuel per byte of the buffer is enough.\<close>

definition message_depth :: "ext_pull \<Rightarrow> nat" where
  "message_depth e = unat (pl_data_size e) + 1"

definition ext_buffer_pull_message_content :: "message_content pull" where
  "ext_buffer_pull_message_content e = pull_message (message_depth e) e"

subsection \<open>Writing\<close>

fun ext_buffer_push_permission_data :: "permission_data \<Rightarrow> push" where
  "ext_buffer_push_permission_data (PERMISSION_DATA flags propvals) =
     seq (ext_buffer_push_uint8 flags) (ext_buffer_push_tpropval_array propvals)"

fun ext_buffer_push_rule_data :: "rule_data \<Rightarrow> push" where
  "ext_buffer_push_rule_data (RULE_DATA flags propvals) =
     seq (ext_buffer_push_uint8 flags) (ext_buffer_push_tpropval_array propvals)"

definition ext_buffer_push_eid_array :: "u64 list \<Rightarrow> push" where
  "ext_buffer_push_eid_array pids =
     seq (ext_buffer_push_uint32 (of_nat (length pids))) (for_each ext_buffer_push_uint64 pids)"

text \<open>\<open>count\<close> is a \<open>uint16_t\<close>.\<close>

fun ext_buffer_push_message_content :: "message_content \<Rightarrow> push"
  and ext_buffer_push_attachment_list :: "attachment_content list \<Rightarrow> push"
  and push_attachment_content :: "attachment_content \<Rightarrow> push" where
  "ext_buffer_push_message_content (MESSAGE_CONTENT proplist prcpts pattachments) =
     seq (ext_buffer_push_tpropval_array proplist)
    (seq (push_optional ext_buffer_push_tarray_set prcpts)
         (push_optional ext_buffer_push_attachment_list pattachments))"
| "ext_buffer_push_attachment_list pplist =
     seq (ext_buffer_push_uint16 (of_nat (length pplist)))
         (for_each push_attachment_content pplist)"
| "push_attachment_content (ATTACHMENT_CONTENT proplist pembedded) =
     seq (ext_buffer_push_tpropval_array proplist)
         (push_optional ext_buffer_push_message_content pembedded)"

subsection \<open>Safety\<close>

lemma safe_pointer [safe_rules]: "safe b p \<Longrightarrow> safe b (pull_pointer n p)"
  unfolding pull_pointer_def by (intro safe_rules)

lemma safe_optional [safe_rules]: "safe b p \<Longrightarrow> safe b (pull_optional p)"
  unfolding pull_optional_def by (intro safe_rules)

lemma safe_pull_rows_data [safe_rules]:
  "safe b ext_buffer_pull_permission_data" "safe b ext_buffer_pull_rule_data"
  "safe b ext_buffer_pull_eid_array"
  unfolding ext_buffer_pull_permission_data_def ext_buffer_pull_rule_data_def
    ext_buffer_pull_eid_array_def
  by (intro safe_rules)+

lemma safe_attachment_list:
  "safe b pm \<Longrightarrow> safe b (ext_buffer_pull_attachment_list pm)"
  unfolding ext_buffer_pull_attachment_list_def pull_attachment_content_def by (intro safe_rules)

lemma safe_optional_consumes: "safe b p \<Longrightarrow> safe (Suc b) (pull_optional p)"
  unfolding pull_optional_def
  by (intro safe_bnd_consumes consumes_scalars safe_pull_scalars safe_if safe_ret safe_bnd)

lemma safe_message_body: "safe b pm \<Longrightarrow> safe (Suc b) (pull_message_body pm)"
  unfolding pull_message_body_def
  by (intro safe_bnd safe_rules(8-) safe_optional_consumes safe_pointer safe_attachment_list safe_ret)

lemma pull_message_safe: "b \<le> n \<Longrightarrow> safe b (pull_message n)"
proof (induction n arbitrary: b)
  case (Suc n)
  then show ?case by (cases b) (auto intro!: safe_message_body)
qed simp

lemma safe_pull_message [safe_rules]: "safe b ext_buffer_pull_message_content"
proof (rule safeI)
  fix e assume "pull_inv e" "remaining e < b"
  then show "good_end e (ext_buffer_pull_message_content e)"
    using safeD [OF pull_message_safe [of "Suc (remaining e)" "message_depth e"], of e]
    by (simp add: ext_buffer_pull_message_content_def message_depth_def remaining_def)
qed

subsection \<open>The fuel does not matter\<close>

lemma fuel_le_message_body: "fuel_le p p' \<Longrightarrow> fuel_le (pull_message_body p) (pull_message_body p')"
  unfolding pull_message_body_def pull_optional_def pull_pointer_def
    ext_buffer_pull_attachment_list_def pull_attachment_content_def
  by (intro fuel_rules)

lemma fuel_le_message:
  assumes "m \<le> n"
  shows "fuel_le (pull_message m) (pull_message n)"
proof -
  have "fuel_le (pull_message k) (pull_message (Suc k))" for k
    by (induction k) (simp_all add: fuel_le_fail fuel_le_message_body)
  with assms show ?thesis
    by (induction n rule: nat_induct_at_least) (blast intro: fuel_le_refl fuel_le_trans)+
qed

lemma pull_message_enough_fuel:
  assumes "pull_inv e" "fst (pull_message n e) \<noteq> Inl OUT_OF_FUEL"
  shows "ext_buffer_pull_message_content e = pull_message n e"
proof -
  have "fst (pull_message (message_depth e) e) \<noteq> Inl OUT_OF_FUEL"
    using good_end_fuel [OF safeD [OF safe_pull_message assms(1) lessI]]
    by (simp add: ext_buffer_pull_message_content_def)
  with assms(2) fuel_le_message [of n "message_depth e"] fuel_le_message [of "message_depth e" n]
  show ?thesis
    unfolding ext_buffer_pull_message_content_def fuel_le_def by (metis nat_le_linear)
qed

lemma reads_pull_message:
  "reads f (pull_message n) bs x \<Longrightarrow> reads f ext_buffer_pull_message_content bs x"
  using pull_message_enough_fuel
  by (auto intro!: readsI elim!: readsE) (metis fst_conv sum.distinct(1))

subsection \<open>Round trips\<close>

definition option_ok :: "(u32 \<Rightarrow> 'a \<Rightarrow> bool) \<Rightarrow> u32 \<Rightarrow> 'a option \<Rightarrow> bool" where
  "option_ok ok f x \<longleftrightarrow> (case x of None \<Rightarrow> True | Some y \<Rightarrow> ok f y)"

lemma option_ok_cong [fundef_cong]:
  "f = f' \<Longrightarrow> x = x' \<Longrightarrow> (\<And>y. x' = Some y \<Longrightarrow> ok f' y = ok' f' y) \<Longrightarrow>
     option_ok ok f x = option_ok ok' f' x'"
  by (simp add: option_ok_def split: option.split)

lemma list_ok_cong [fundef_cong]:
  "n = n' \<Longrightarrow> f = f' \<Longrightarrow> xs = xs' \<Longrightarrow> (\<And>x. x \<in> set xs' \<Longrightarrow> ok f' x = ok' f' x) \<Longrightarrow>
     list_ok n ok f xs = list_ok n' ok' f' xs'"
  by (auto simp: list_ok_def)

lemma coded_pointer: "coded f p q x \<Longrightarrow> coded f (pull_pointer n p) q x"
  unfolding pull_pointer_def by (rule coded_alloc)

lemma coded_optional:
  "(\<And>y. x = Some y \<Longrightarrow> coded f p (q y) y) \<Longrightarrow> coded f (pull_optional p) (push_optional q x) x"
  unfolding pull_optional_def push_optional_def
  by (cases x) (auto intro!: coded_end [OF coded_uint8] coded_bnd [OF coded_uint8] intro: coded_last)

lemma coded_BOOL: "coded f ext_buffer_pull_bool (push_BOOL b) b"
proof -
  have "writes f (push_BOOL b) [if b then 1 else 0]"
    using writes_scalars(1) [of f "if b then 1 else 0"]
    by (auto simp: push_BOOL_def ext_buffer_push_bool_def ext_buffer_push_uint8_def)
  moreover have "reads f ext_buffer_pull_bool [if b then 1 else 0] b"
    unfolding ext_buffer_pull_bool_def
    using reads_bnd [OF reads_pull_fixed reads_ret, of "[if b then 1 else 0]" 1 f "\<lambda>_. b"]
    by (auto simp: reads_def bnd_def pull_fixed_def Let_def ret_def in_front_def)
  ultimately show ?thesis by (rule codedI)
qed

definition permission_data_ok :: "u32 \<Rightarrow> permission_data \<Rightarrow> bool" where
  "permission_data_ok f r \<longleftrightarrow> list_ok (2 ^ 16) tagged_ok f (pd_propvals r)"

definition rule_data_ok :: "u32 \<Rightarrow> rule_data \<Rightarrow> bool" where
  "rule_data_ok f r \<longleftrightarrow> list_ok (2 ^ 16) tagged_ok f (rd_propvals r)"

lemma coded_permission_data: "permission_data_ok f r \<Longrightarrow>
    coded f ext_buffer_pull_permission_data (ext_buffer_push_permission_data r) r"
  unfolding ext_buffer_pull_permission_data_def permission_data_ok_def
  by (cases r) (auto intro!: coded_bnd [OF coded_uint8] coded_last [OF coded_tpropval_array])

lemma coded_rule_data: "rule_data_ok f r \<Longrightarrow>
    coded f ext_buffer_pull_rule_data (ext_buffer_push_rule_data r) r"
  unfolding ext_buffer_pull_rule_data_def rule_data_ok_def
  by (cases r) (auto intro!: coded_bnd [OF coded_uint8] coded_last [OF coded_tpropval_array])

lemma coded_eid_array: "list_ok (2 ^ 32) any_ok f r \<Longrightarrow>
    coded f ext_buffer_pull_eid_array (ext_buffer_push_eid_array r) r"
  unfolding ext_buffer_pull_eid_array_def ext_buffer_push_eid_array_def list_ok_def
  by (auto intro: c64.array32)

fun message_ok :: "u32 \<Rightarrow> message_content \<Rightarrow> bool"
  and attachment_ok :: "u32 \<Rightarrow> attachment_content \<Rightarrow> bool" where
  "message_ok f (MESSAGE_CONTENT props rcpts atts) \<longleftrightarrow>
     list_ok (2 ^ 16) tagged_ok f props \<and>
     option_ok (list_ok (2 ^ 32) (list_ok (2 ^ 16) tagged_ok)) f rcpts \<and>
     option_ok (list_ok (2 ^ 16) attachment_ok) f atts"
| "attachment_ok f (ATTACHMENT_CONTENT props embedded) \<longleftrightarrow>
     list_ok (2 ^ 16) tagged_ok f props \<and> option_ok message_ok f embedded"

lemma coded_attachment:
  assumes "attachment_ok f a"
    "\<And>m. ac_pembedded a = Some m \<Longrightarrow> message_ok f m \<Longrightarrow>
       coded f pm (ext_buffer_push_message_content m) m"
  shows "coded f (pull_attachment_content pm) (push_attachment_content a) a"
  using assms unfolding pull_attachment_content_def
  by (cases a) (auto simp: option_ok_def intro!: coded_bnd [OF coded_tpropval_array]
      coded_last [OF coded_optional] coded_pointer)

lemma coded_attachment_list:
  assumes "list_ok (2 ^ 16) attachment_ok f as"
    "\<And>a m. a \<in> set as \<Longrightarrow> ac_pembedded a = Some m \<Longrightarrow> message_ok f m \<Longrightarrow>
       coded f pm (ext_buffer_push_message_content m) m"
  shows "coded f (ext_buffer_pull_attachment_list pm) (ext_buffer_push_attachment_list as) as"
  using assms unfolding ext_buffer_pull_attachment_list_def
  by (auto simp: list_ok_def unat_of_nat_u16 intro!: coded_bnd [OF coded_uint16] coded_alloc
      coded_repeat_n coded_pointer coded_attachment)

lemma size_embedded: "ac_pembedded a = Some m \<Longrightarrow> size m < size a"
  by (cases a) simp

lemma coded_message_fuel:
  "message_ok f m \<Longrightarrow> size m < n \<Longrightarrow> coded f (pull_message n) (ext_buffer_push_message_content m) m"
proof (induction n arbitrary: m)
  case (Suc n)
  obtain props rcpts atts where m: "m = MESSAGE_CONTENT props rcpts atts" by (cases m)
  have "size m' < n" if "atts = Some as" "a \<in> set as" "ac_pembedded a = Some m'" for as a m'
    using size_list_estimation' [OF that(2) order_refl, of size] size_embedded [OF that(3)]
      Suc.prems(2) m that(1) by simp
  with Suc.IH have "coded f (ext_buffer_pull_attachment_list (pull_message n))
      (ext_buffer_push_attachment_list as) as" if "atts = Some as" for as
    using Suc.prems(1) m that by (intro coded_attachment_list) (auto simp: option_ok_def)
  then show ?case
    using Suc.prems(1) m unfolding pull_message.simps pull_message_body_def
    by (auto simp: option_ok_def simp del: ext_buffer_push_attachment_list.simps
        intro!: coded_bnd [OF coded_tpropval_array] coded_bnd [OF coded_optional]
          coded_last [OF coded_optional] coded_pointer coded_tarray_set)
qed simp

lemma coded_message:
  "message_ok f m \<Longrightarrow> coded f ext_buffer_pull_message_content (ext_buffer_push_message_content m) m"
  using coded_message_fuel [of f m "Suc (size m)"] reads_pull_message
  unfolding coded_def by blast

interpretation cmsg: codec ext_buffer_pull_message_content ext_buffer_push_message_content message_ok
  by unfold_locales (auto intro: bounded_safe safe_rules coded_message)

interpretation cperm: codec ext_buffer_pull_permission_data ext_buffer_push_permission_data
    permission_data_ok
  by unfold_locales (auto intro: bounded_safe safe_rules coded_permission_data)

interpretation crule: codec ext_buffer_pull_rule_data ext_buffer_push_rule_data rule_data_ok
  by unfold_locales (auto intro: bounded_safe safe_rules coded_rule_data)

interpretation ceid: codec ext_buffer_pull_eid_array ext_buffer_push_eid_array
    "list_ok (2 ^ 32) any_ok"
  by unfold_locales (auto intro: bounded_safe safe_rules coded_eid_array)

end
