(* ===== verification/Exmdb_Base.thy ===== *)
theory Exmdb_Base
  imports Ext_Message Idset_Roundtrip
begin

text \<open>
  What the readers and writers of \<open>exmdb_ext.c\<close> are put together from, besides the functions of
  \<open>ext_buffer.c\<close>: loops over a counted array, the \<open>switch\<close> over a call id, sets of identifiers
  inside a request, and the two ways in which some of them lose a status code.

  \<open>sent f p q x\<close> weakens \<open>coded f p q x\<close>: the writer may leave bytes behind those that the reader
  consumes.  At the end of a datagram nobody notices.
\<close>

subsection \<open>Arrays and switches\<close>

definition pull_counted16 :: "nat \<Rightarrow> 'a pull \<Rightarrow> 'a list pull" where
  "pull_counted16 sizeof p =
     bnd ext_buffer_pull_uint16 (\<lambda>count. pull_elems sizeof (unat count) p)"

definition pull_counted32 :: "nat \<Rightarrow> 'a pull \<Rightarrow> 'a list pull" where
  "pull_counted32 sizeof p =
     bnd ext_buffer_pull_uint32 (\<lambda>count. pull_elems sizeof (unat count) p)"

definition push_counted16 :: "('a \<Rightarrow> push) \<Rightarrow> 'a list \<Rightarrow> push" where
  "push_counted16 q xs = seq (ext_buffer_push_uint16 (of_nat (length xs))) (for_each q xs)"

definition push_counted32 :: "('a \<Rightarrow> push) \<Rightarrow> 'a list \<Rightarrow> push" where
  "push_counted32 q xs = seq (ext_buffer_push_uint32 (of_nat (length xs))) (for_each q xs)"

text \<open>A switch is the table of its labels with the code behind them.\<close>

definition switch :: "('k \<times> 'a) list \<Rightarrow> 'a \<Rightarrow> 'k \<Rightarrow> 'a" where
  "switch cases otherwise k = (case map_of cases k of Some x \<Rightarrow> x | None \<Rightarrow> otherwise)"

definition pull_as :: "('a \<Rightarrow> 'b) \<Rightarrow> 'k \<times> 'a pull \<Rightarrow> 'k \<times> 'b pull" where
  "pull_as c kp = (fst kp, bnd (snd kp) (\<lambda>x. ret (c x)))"

subsection \<open>Lost status codes\<close>

definition fault :: "ext_err \<Rightarrow> bool" where
  "fault err \<longleftrightarrow> err \<in> {UNDEFINED_BEHAVIOUR, NULL_WRITE, OUT_OF_FUEL, NOT_RETURNING}"

text \<open>
  \<open>if (EXT_ERR_SUCCESS != status) return EXT_ERR_SUCCESS;\<close>: the caller is told that the
  structure, of which the rest is as it was (\<open>stale\<close>), has been read.
\<close>

definition pull_or_quit :: "'a pull \<Rightarrow> 'b \<Rightarrow> ('a \<Rightarrow> 'b pull) \<Rightarrow> 'b pull" where
  "pull_or_quit p stale k e =
     (case p e of
        (Inl err, e') \<Rightarrow> if fault err then (Inl err, e') else (Inr stale, e')
      | (Inr x, e') \<Rightarrow> k x e')"

definition push_or_quit :: "push \<Rightarrow> push \<Rightarrow> push" where
  "push_or_quit q k e =
     (case q e of
        (Inl err, e') \<Rightarrow> if fault err then (Inl err, e') else (Inr (), e')
      | (Inr _, e') \<Rightarrow> k e')"

text \<open>The status is not looked at: the next statement follows in any case.\<close>

definition pull_regardless :: "'a \<Rightarrow> 'a pull \<Rightarrow> 'a pull" where
  "pull_regardless stale p = pull_or_quit p stale ret"

definition push_regardless :: "push \<Rightarrow> push" where
  "push_regardless q = push_or_quit q (ret ())"

subsection \<open>What surrounds a call\<close>

text \<open>
  The contents of the request structure before it is read, by field, as far as they can be
  seen afterwards; the uninitialised \<open>tmp_byte\<close> of a reader; and the answers of \<open>malloc\<close> to the
  functions of \<open>idset.c\<close>, by set and number of the call.
\<close>

record exmdb_env =
  stale_username :: "bytes option"
  stale_account :: bytes
  stale_cpid :: u32
  stale_folder_id :: u64
  stale_message_id :: u64
  stale_timer_id :: u32
  stale_byte :: u8
  idset_mem :: "nat \<Rightarrow> nat \<Rightarrow> bool"

definition pull_idset :: "(nat \<Rightarrow> bool) \<Rightarrow> idset pull" where
  "pull_idset mem =
     bnd ext_buffer_pull_exbinary (\<lambda>tmp_bin.
       if \<not> mem 0 then fail EXT_ERR_ALLOC
       else case idset_deserialize (\<lambda>k. mem (Suc k)) (idset_init False REPL_TYPE_ID) tmp_bin of
           Inl err \<Rightarrow> fail err
         | Inr (b, pset) \<Rightarrow> if b then ret pset else fail EXT_ERR_FORMAT)"

definition push_idset :: "(nat \<Rightarrow> bool) \<Rightarrow> idset \<Rightarrow> push" where
  "push_idset mem pset =
     (case idset_serialize_replid mem pset of
        Inl err \<Rightarrow> fail err
      | Inr None \<Rightarrow> fail EXT_ERR_ALLOC
      | Inr (Some pbin) \<Rightarrow> ext_buffer_push_exbinary pbin)"

text \<open>What the receiver holds of a set: its ranges, in a set that is not yet converted.\<close>

definition idset_received :: "idset \<Rightarrow> idset" where
  "idset_received s =
     idset_init False REPL_TYPE_ID\<lparr>repl_list := filter (\<lambda>n. range_list n \<noteq> []) (repl_list s)\<rparr>"

subsection \<open>Safety\<close>

lemma safe_counted [safe_rules]:
  "safe b p \<Longrightarrow> safe b (pull_counted16 n p)" "safe b p \<Longrightarrow> safe b (pull_counted32 n p)"
  unfolding pull_counted16_def pull_counted32_def by (auto intro!: safe_rules)

lemma safe_switch:
  "(\<And>p. p \<in> snd ` set cases \<Longrightarrow> safe b p) \<Longrightarrow> safe b d \<Longrightarrow> safe b (switch cases d k)"
  by (force simp: switch_def split: option.split dest: map_of_SomeD)

text \<open>A reader that has failed has left a consistent context behind.\<close>

definition tidy :: "'a pull \<Rightarrow> bool" where
  "tidy p \<longleftrightarrow> (\<forall>e err e'. pull_inv e \<and> p e = (Inl err, e') \<longrightarrow>
     pull_inv e' \<and> unat (pl_offset e) \<le> unat (pl_offset e'))"

lemma tidy_scalars:
  "tidy ext_buffer_pull_uint8" "tidy ext_buffer_pull_uint32" "tidy ext_buffer_pull_uint64"
  by (auto simp: tidy_def pull_scalar_defs bnd_def ret_def pull_fixed_def Let_def split: if_splits)

lemma room_no_wrap:
  assumes "pl_data_size e < pl_offset e + of_nat (Suc n)" "pull_inv e"
    "Suc n \<le> unat (pl_data_size e) - unat (pl_offset e)"
  shows False
proof -
  have "unat (pl_offset e) + Suc n \<le> unat (pl_data_size e)" using assms(3) by simp
  then have "unat (pl_offset e + of_nat (Suc n)) = unat (pl_offset e) + Suc n"
    using word_bounds(3) [of "pl_data_size e"] by (intro unat_add_of_nat) simp
  with assms show ?thesis by (simp add: word_less_nat_alt del: of_nat_Suc)
qed

lemma tidy_string: "tidy ext_buffer_pull_string"
  by (auto simp: tidy_def ext_buffer_pull_string_def Let_def bnd_def pull_alloc_def not_less
      ext_buffer_pull_advance_def fail_def ret_def simp del: of_nat_Suc
      dest: room_no_wrap split: if_splits)

lemma safe_or_quit:
  assumes "safe b p" "tidy p" "\<And>x. safe b (k x)"
  shows "safe b (pull_or_quit p stale k)"
proof (rule safeI)
  fix e assume e: "pull_inv e" "remaining e < b"
  obtain r e' where r: "p e = (r, e')" by fastforce
  have good: "good_end e (r, e')" using safeD [OF assms(1) e] r by simp
  show "good_end e (pull_or_quit p stale k e)"
  proof (cases r)
    case (Inl err)
    with good r e assms(2) show ?thesis
      by (auto simp: pull_or_quit_def tidy_def fault_def)
  next
    case (Inr x)
    with good have "same_buffer e e'" "pull_inv e'" "unat (pl_offset e) \<le> unat (pl_offset e')"
      by simp_all
    moreover have "remaining e' < b"
      using remaining_mono [OF calculation(1,3)] e(2) by simp
    ultimately show ?thesis
      using r Inr safeD [OF assms(3), of e'] by (simp add: pull_or_quit_def good_end_trans)
  qed
qed

lemma safe_regardless: "safe b p \<Longrightarrow> tidy p \<Longrightarrow> safe b (pull_regardless x p)"
  unfolding pull_regardless_def by (intro safe_or_quit safe_ret)

subsection \<open>Round trips\<close>

named_theorems field_rules "agreement of the fields of a datagram"

definition sent :: "u32 \<Rightarrow> 'a pull \<Rightarrow> push \<Rightarrow> 'a \<Rightarrow> bool" where
  "sent f p q x \<longleftrightarrow> (\<exists>bs js. writes f q (bs @ js) \<and> reads f p bs x)"

lemma coded_sent: "coded f p q x \<Longrightarrow> sent f p q x"
  unfolding coded_def sent_def by (metis append_Nil2)

lemma sent_bnd: "coded f p q x \<Longrightarrow> sent f (k x) r y \<Longrightarrow> sent f (bnd p k) (seq q r) y"
  unfolding coded_def sent_def by (metis append.assoc reads_bnd writes_seq)

lemma sent_last: "sent f p q x \<Longrightarrow> sent f (bnd p (\<lambda>x. ret (g x))) q (g x)"
  unfolding sent_def using reads_bnd [OF _ reads_ret, of f p _ x g] by force

text \<open>A value that is read narrower than it was written.\<close>

lemma first_byte: "SBVAL (ucast (v :: u8)) = v # tl (SBVAL (ucast v))"
proof -
  have "(ucast ((ucast ((ucast ((ucast v :: u64) AND 0xFFFFFFFF) :: u32) AND 0xFFFF) :: u16) AND 0xFF) :: u8) = v"
    by (rule bit_word_eqI) (auto simp: bit_simps low_masks dest: bit_imp_le_length)
  then show ?thesis by (simp add: SBVAL_def SIVAL_def SSVAL_def)
qed

lemma sent_narrow: "sent f ext_buffer_pull_uint8 (ext_buffer_push_uint64 (ucast v)) v"
  using writes_scalars(4) [of f "ucast v"] reads_scalars(1) [of f v] first_byte [of v]
  unfolding sent_def by (metis append_Cons append_Nil)

lemma reads_or_quit:
  "reads f p as x \<Longrightarrow> reads f (k x) bs y \<Longrightarrow> reads f (pull_or_quit p stale k) (as @ bs) y"
proof (rule readsI)
  fix e assume *: "reads f p as x" "reads f (k x) bs y"
    "pull_inv e" "willing e" "pl_flags e = f" "in_front (as @ bs) e"
  then have "in_front as e" by (blast intro: in_front_append)
  with * obtain e' where e': "p e = (Inr x, e')" by (auto elim: readsE)
  then have "pull_or_quit p stale k e = bnd p k e"
    by (simp add: pull_or_quit_def bnd_def)
  moreover have "reads f (bnd p k) (as @ bs) y"
    using *(1,2) by (rule reads_bnd)
  ultimately show "\<exists>e'. pull_or_quit p stale k e = (Inr y, e') \<and> moved (length (as @ bs)) e e'"
    using * by (metis readsE)
qed

lemma push_or_quit_seq:
  "(\<And>err. fst (q e) = Inl err \<Longrightarrow> fault err) \<Longrightarrow> push_or_quit q k e = seq q k e"
  by (cases "q e") (auto simp: push_or_quit_def seq_def bnd_def split: sum.split)

lemma writes_or_quit:
  assumes "writes f q as" "writes f k bs"
  shows "writes f (push_or_quit q k) (as @ bs)"
proof -
  have eq: "push_or_quit q k e = seq q k e"
    if e: "push_inv e" "obliging e" "ps_flags e = f"
      and room: "unat (ps_offset e) + length as \<le> capacity e \<or> growing e" for e
  proof (rule push_or_quit_seq)
    fix err assume err: "fst (q e) = Inl err"
    show "fault err"
    proof (cases "unat (ps_offset e) + length as \<le> capacity e")
      case True
      with err show ?thesis by (auto elim: writesE [OF assms(1) e])
    next
      case False
      with room have "overrun q e"
        by (intro writes_overrun [OF assms(1) e]) auto
      with err show ?thesis by (auto simp: overrun_def fault_def)
    qed
  qed
  have whole: "writes f (seq q k) (as @ bs)"
    using assms by (rule writes_seq)
  show ?thesis
  proof (rule writesI)
    fix e assume e: "push_inv e" "obliging e" "ps_flags e = f"
      "unat (ps_offset e) + length (as @ bs) \<le> capacity e"
    moreover from e obtain e' where "seq q k e = (Inr (), e')" "pushed (as @ bs) e e'"
      by (rule writesE [OF whole])
    ultimately show "\<exists>e'. push_or_quit q k e = (Inr (), e') \<and> pushed (as @ bs) e e'"
      using eq [OF e(1-3)] by auto
  next
    fix e assume e: "push_inv e" "obliging e" "ps_flags e = f"
      "capacity e < unat (ps_offset e) + length (as @ bs)" "growing e"
    then show "overrun (push_or_quit q k) e"
      using eq [OF e(1-3)] writes_overrun [OF whole e] by (simp add: overrun_def)
  qed
qed

lemma coded_or_quit:
  "coded f p q x \<Longrightarrow> coded f (k x) r y \<Longrightarrow>
     coded f (pull_or_quit p stale k) (push_or_quit q r) y"
  unfolding coded_def by (blast intro: reads_or_quit writes_or_quit)

lemma coded_regardless_push: "coded f p q x \<Longrightarrow> coded f p (push_regardless q) x"
  unfolding coded_def push_regardless_def
  by (metis append_Nil2 writes_or_quit writes_ret)

lemma coded_regardless_pull: "coded f p q x \<Longrightarrow> coded f (pull_regardless y p) q x"
  unfolding coded_def pull_regardless_def
  by (metis append_Nil2 reads_or_quit reads_ret)

text \<open>The label that was written selects the reader that belongs to it.\<close>

lemma switch_hit: "distinct (map fst cases) \<Longrightarrow> (k, x) \<in> set cases \<Longrightarrow> switch cases d k = x"
  by (simp add: switch_def)

lemma switch_miss: "k \<notin> fst ` set cases \<Longrightarrow> switch cases d k = d"
  by (simp add: switch_def flip: map_of_eq_None_iff)

lemma map_fst_pull_as [simp]: "map fst (map (pull_as c) cases) = map fst cases"
  by (simp add: pull_as_def comp_def)

lemma pull_as_mem: "(k, p) \<in> set cases \<Longrightarrow> (k, bnd p (\<lambda>x. ret (c x))) \<in> set (map (pull_as c) cases)"
  by (force simp: pull_as_def)

lemma coded_int32: "coded f ext_buffer_pull_int32 (ext_buffer_push_int32 v) v"
  using coded_uint32 [of f v]
  by (simp add: ext_buffer_pull_int32_def ext_buffer_push_int32_def
      ext_buffer_pull_uint32_def ext_buffer_push_uint32_def)

definition props_ok :: "u32 \<Rightarrow> tagged_propval list \<Rightarrow> bool" where
  "props_ok = list_ok (2 ^ 16) tagged_ok"

definition rows_ok :: "u32 \<Rightarrow> tagged_propval list list \<Rightarrow> bool" where
  "rows_ok = list_ok (2 ^ 32) props_ok"

lemma coded_props:
  "props_ok f r \<Longrightarrow> coded f ext_buffer_pull_tpropval_array (ext_buffer_push_tpropval_array r) r"
  by (simp add: props_ok_def coded_tpropval_array)

lemma coded_rows:
  "rows_ok f r \<Longrightarrow> coded f ext_buffer_pull_tarray_set (ext_buffer_push_tarray_set r) r"
  by (simp add: rows_ok_def props_ok_def coded_tarray_set)

lemma coded_problems: "list_ok (2 ^ 16) any_ok f r \<Longrightarrow>
    coded f ext_buffer_pull_problem_array (ext_buffer_push_problem_array r) r"
  by (simp add: list_ok_def coded_problem_array)

lemma coded_optional_ok:
  "(\<And>y. ok f y \<Longrightarrow> coded f p (q y) y) \<Longrightarrow> option_ok ok f x \<Longrightarrow>
     coded f (pull_optional p) (push_optional q x) x"
  by (auto simp: option_ok_def intro: coded_optional)

lemma coded_counted:
  "(\<And>y. ok f y \<Longrightarrow> coded f p (q y) y) \<Longrightarrow> list_ok (2 ^ 16) ok f xs \<Longrightarrow>
     coded f (pull_counted16 n p) (push_counted16 q xs) xs"
  "(\<And>y. ok f y \<Longrightarrow> coded f p (q y) y) \<Longrightarrow> list_ok (2 ^ 32) ok f xs \<Longrightarrow>
     coded f (pull_counted32 n p) (push_counted32 q xs) xs"
  unfolding pull_counted16_def push_counted16_def pull_counted32_def push_counted32_def
  by (auto simp: list_ok_def unat_of_nat_u16 unat_of_nat_u32
      intro!: coded_bnd [OF coded_uint16] coded_bnd [OF coded_uint32] coded_elems)

lemma coded_optional_fields [field_rules]:
  "option_ok string_ok f s \<Longrightarrow>
     coded f (pull_optional ext_buffer_pull_string) (push_optional ext_buffer_push_string s) s"
  "option_ok restriction_ok f r \<Longrightarrow>
     coded f (pull_optional (pull_pointer n ext_buffer_pull_restriction))
       (push_optional ext_buffer_push_restriction r) r"
  "option_ok (\<lambda>f. sortorder_set_ok) f o' \<Longrightarrow>
     coded f (pull_optional (pull_pointer n ext_buffer_pull_sortorder_set))
       (push_optional ext_buffer_push_sortorder_set o') o'"
  "option_ok message_ok f m \<Longrightarrow>
     coded f (pull_optional (pull_pointer n ext_buffer_pull_message_content))
       (push_optional ext_buffer_push_message_content m) m"
  "coded f (pull_optional (pull_pointer n ext_buffer_pull_uint32))
       (push_optional ext_buffer_push_uint32 w) w"
  "coded f (pull_optional (pull_pointer n ext_buffer_pull_uint64))
       (push_optional ext_buffer_push_uint64 d) d"
  by (auto simp: option_ok_def intro!: coded_optional coded_pointer coded_string coded_restriction
      coded_sortorder_set coded_message coded_uint32 coded_uint64)

lemma coded_counted_fields [field_rules]:
  "list_ok (2 ^ 16) permission_data_ok f ps \<Longrightarrow>
     coded f (pull_counted16 n ext_buffer_pull_permission_data)
       (push_counted16 ext_buffer_push_permission_data ps) ps"
  "list_ok (2 ^ 16) rule_data_ok f rs \<Longrightarrow>
     coded f (pull_counted16 n ext_buffer_pull_rule_data)
       (push_counted16 ext_buffer_push_rule_data rs) rs"
  "list_ok (2 ^ 32) props_ok f ts \<Longrightarrow>
     coded f (pull_counted32 n ext_buffer_pull_tpropval_array)
       (push_counted32 ext_buffer_push_tpropval_array ts) ts"
  by (rule coded_counted; use coded_permission_data coded_rule_data coded_props in blast)+

lemmas [field_rules] =
  coded_uint8 coded_uint16 coded_uint32 coded_uint64 coded_int32 coded_BOOL coded_guid
  coded_string coded_arrays16(1-3) coded_arrays coded_eid_array coded_props coded_rows
  coded_problems coded_message coded_restriction coded_sortorder_set

lemma attachment_parts:
  "attachment_ok f a \<Longrightarrow> props_ok f (ac_proplist a)"
  "attachment_ok f a \<Longrightarrow> option_ok message_ok f (ac_pembedded a)"
  by (cases a; simp add: props_ok_def)+

text \<open>A set of identifiers arrives with the same members.\<close>

lemma coded_idset:
  assumes "idset_ok s" "mem = (\<lambda>_. True)" "length (concat (map replid_node_bytes (repl_list s))) < 2 ^ 32"
  shows "coded f (pull_idset mem) (push_idset mem s) (idset_received s)"
proof -
  let ?bs = "concat (map replid_node_bytes (repl_list s))"
  have "push_idset mem s = ext_buffer_push_exbinary ?bs"
    using serialize_replid [OF assms(1)] assms(2) by (simp add: push_idset_def)
  moreover have "idset_deserialize (\<lambda>k. True) (idset_init False REPL_TYPE_ID) ?bs =
      Inr (True, idset_received s)"
    using assms(1) deserialize_replid [of "repl_list s"]
    by (simp add: idset_deserialize_def idset_init_def idset_received_def idset_inv_def)
  ultimately show ?thesis
    unfolding pull_idset_def assms(2) by (auto intro: coded_end [OF coded_exbinary [OF assms(3)]])
qed

definition idset_sendable :: "idset \<Rightarrow> bool" where
  "idset_sendable s \<longleftrightarrow>
     idset_ok s \<and> length (concat (map replid_node_bytes (repl_list s))) < 2 ^ 32"

lemma coded_optional_map:
  "(\<And>y. x = Some y \<Longrightarrow> coded f p (q y) (g y)) \<Longrightarrow>
     coded f (pull_optional p) (push_optional q x) (map_option g x)"
  unfolding pull_optional_def push_optional_def
  by (cases x) (auto intro!: coded_end [OF coded_uint8] coded_bnd [OF coded_uint8] intro: coded_last)

lemma coded_idsets:
  assumes "idset_mem env = (\<lambda>_ _. True)"
  shows "idset_sendable s \<Longrightarrow>
      coded f (pull_idset (idset_mem env k)) (push_idset (idset_mem env k) s) (idset_received s)"
    "option_ok (\<lambda>f. idset_sendable) f t \<Longrightarrow>
      coded f (pull_optional (pull_idset (idset_mem env k)))
        (push_optional (push_idset (idset_mem env k)) t) (map_option idset_received t)"
  using assms coded_idset [of _ "\<lambda>_. True" f]
  by (auto simp: idset_sendable_def option_ok_def intro!: coded_optional_map)

end
