(* ===== verification/Exmdb_Types.thy ===== *)
theory Exmdb_Types
  imports Exmdb_Base
begin

text \<open>
  The data of the protocol between the servers and the store
  (\<open>exmdb_provider/common_util/common_util.h\<close>): the call ids, the requests \<open>REQ_*\<close> and the
  responses \<open>RESP_*\<close>.

  In the code the call id selects a member of the union \<open>REQUEST_PAYLOAD\<close> or
  \<open>RESPONSE_PAYLOAD\<close>; here the constructor carries the members of the structure, in their
  order, and determines the call id.  The unions are split by subject to keep the types at a
  size the system handles well.  A pointer that may be \<open>NULL\<close> is an option, a counted array is
  a list; an attachment keeps its own structure.
\<close>

subsection \<open>Call ids\<close>

definition CALL_ID_CONNECT :: u8 where "CALL_ID_CONNECT = 0x00"
definition CALL_ID_LISTEN_NOTIFICATION :: u8 where "CALL_ID_LISTEN_NOTIFICATION = 0x01"
definition CALL_ID_PING_STORE :: u8 where "CALL_ID_PING_STORE = 0x02"
definition CALL_ID_GET_ALL_NAMED_PROPIDS :: u8 where "CALL_ID_GET_ALL_NAMED_PROPIDS = 0x03"
definition CALL_ID_GET_NAMED_PROPIDS :: u8 where "CALL_ID_GET_NAMED_PROPIDS = 0x04"
definition CALL_ID_GET_NAMED_PROPNAMES :: u8 where "CALL_ID_GET_NAMED_PROPNAMES = 0x05"
definition CALL_ID_GET_MAPPING_GUID :: u8 where "CALL_ID_GET_MAPPING_GUID = 0x06"
definition CALL_ID_GET_MAPPING_REPLID :: u8 where "CALL_ID_GET_MAPPING_REPLID = 0x07"
definition CALL_ID_GET_STORE_ALL_PROPTAGS :: u8 where "CALL_ID_GET_STORE_ALL_PROPTAGS = 0x08"
definition CALL_ID_GET_STORE_PROPERTIES :: u8 where "CALL_ID_GET_STORE_PROPERTIES = 0x09"
definition CALL_ID_SET_STORE_PROPERTIES :: u8 where "CALL_ID_SET_STORE_PROPERTIES = 0x0a"
definition CALL_ID_REMOVE_STORE_PROPERTIES :: u8 where "CALL_ID_REMOVE_STORE_PROPERTIES = 0x0b"
definition CALL_ID_CHECK_MAILBOX_PERMISSION :: u8 where "CALL_ID_CHECK_MAILBOX_PERMISSION = 0x0c"
definition CALL_ID_GET_FOLDER_BY_CLASS :: u8 where "CALL_ID_GET_FOLDER_BY_CLASS = 0x0d"
definition CALL_ID_SET_FOLDER_BY_CLASS :: u8 where "CALL_ID_SET_FOLDER_BY_CLASS = 0x0e"
definition CALL_ID_GET_FOLDER_CLASS_TABLE :: u8 where "CALL_ID_GET_FOLDER_CLASS_TABLE = 0x0f"
definition CALL_ID_CHECK_FOLDER_ID :: u8 where "CALL_ID_CHECK_FOLDER_ID = 0x10"
definition CALL_ID_QUERY_FOLDER_MESSAGES :: u8 where "CALL_ID_QUERY_FOLDER_MESSAGES = 0x11"
definition CALL_ID_CHECK_FOLDER_DELETED :: u8 where "CALL_ID_CHECK_FOLDER_DELETED = 0x12"
definition CALL_ID_GET_FOLDER_BY_NAME :: u8 where "CALL_ID_GET_FOLDER_BY_NAME = 0x13"
definition CALL_ID_CHECK_FOLDER_PERMISSION :: u8 where "CALL_ID_CHECK_FOLDER_PERMISSION = 0x14"
definition CALL_ID_CREATE_FOLDER_BY_PROPERTIES :: u8 where "CALL_ID_CREATE_FOLDER_BY_PROPERTIES = 0x15"
definition CALL_ID_GET_FOLDER_ALL_PROPTAGS :: u8 where "CALL_ID_GET_FOLDER_ALL_PROPTAGS = 0x16"
definition CALL_ID_GET_FOLDER_PROPERTIES :: u8 where "CALL_ID_GET_FOLDER_PROPERTIES = 0x17"
definition CALL_ID_SET_FOLDER_PROPERTIES :: u8 where "CALL_ID_SET_FOLDER_PROPERTIES = 0x18"
definition CALL_ID_REMOVE_FOLDER_PROPERTIES :: u8 where "CALL_ID_REMOVE_FOLDER_PROPERTIES = 0x19"
definition CALL_ID_DELETE_FOLDER :: u8 where "CALL_ID_DELETE_FOLDER = 0x1a"
definition CALL_ID_EMPTY_FOLDER :: u8 where "CALL_ID_EMPTY_FOLDER = 0x1b"
definition CALL_ID_CHECK_FOLDER_CYCLE :: u8 where "CALL_ID_CHECK_FOLDER_CYCLE = 0x1c"
definition CALL_ID_COPY_FOLDER_INTERNAL :: u8 where "CALL_ID_COPY_FOLDER_INTERNAL = 0x1d"
definition CALL_ID_GET_SEARCH_CRITERIA :: u8 where "CALL_ID_GET_SEARCH_CRITERIA = 0x1e"
definition CALL_ID_SET_SEARCH_CRITERIA :: u8 where "CALL_ID_SET_SEARCH_CRITERIA = 0x1f"
definition CALL_ID_MOVECOPY_MESSAGE :: u8 where "CALL_ID_MOVECOPY_MESSAGE = 0x20"
definition CALL_ID_MOVECOPY_MESSAGES :: u8 where "CALL_ID_MOVECOPY_MESSAGES = 0x21"
definition CALL_ID_MOVECOPY_FOLDER :: u8 where "CALL_ID_MOVECOPY_FOLDER = 0x22"
definition CALL_ID_DELETE_MESSAGES :: u8 where "CALL_ID_DELETE_MESSAGES = 0x23"
definition CALL_ID_GET_MESSAGE_BRIEF :: u8 where "CALL_ID_GET_MESSAGE_BRIEF = 0x24"
definition CALL_ID_SUM_HIERARCHY :: u8 where "CALL_ID_SUM_HIERARCHY = 0x25"
definition CALL_ID_LOAD_HIERARCHY_TABLE :: u8 where "CALL_ID_LOAD_HIERARCHY_TABLE = 0x26"
definition CALL_ID_SUM_CONTENT :: u8 where "CALL_ID_SUM_CONTENT = 0x27"
definition CALL_ID_LOAD_CONTENT_TABLE :: u8 where "CALL_ID_LOAD_CONTENT_TABLE = 0x28"
definition CALL_ID_LOAD_PERMISSION_TABLE :: u8 where "CALL_ID_LOAD_PERMISSION_TABLE = 0x29"
definition CALL_ID_LOAD_RULE_TABLE :: u8 where "CALL_ID_LOAD_RULE_TABLE = 0x2a"
definition CALL_ID_UNLOAD_TABLE :: u8 where "CALL_ID_UNLOAD_TABLE = 0x2b"
definition CALL_ID_SUM_TABLE :: u8 where "CALL_ID_SUM_TABLE = 0x2c"
definition CALL_ID_QUERY_TABLE :: u8 where "CALL_ID_QUERY_TABLE = 0x2d"
definition CALL_ID_MATCH_TABLE :: u8 where "CALL_ID_MATCH_TABLE = 0x2e"
definition CALL_ID_LOCATE_TABLE :: u8 where "CALL_ID_LOCATE_TABLE = 0x2f"
definition CALL_ID_READ_TABLE_ROW :: u8 where "CALL_ID_READ_TABLE_ROW = 0x30"
definition CALL_ID_MARK_TABLE :: u8 where "CALL_ID_MARK_TABLE = 0x31"
definition CALL_ID_GET_TABLE_ALL_PROPTAGS :: u8 where "CALL_ID_GET_TABLE_ALL_PROPTAGS = 0x32"
definition CALL_ID_EXPAND_TABLE :: u8 where "CALL_ID_EXPAND_TABLE = 0x33"
definition CALL_ID_COLLAPSE_TABLE :: u8 where "CALL_ID_COLLAPSE_TABLE = 0x34"
definition CALL_ID_STORE_TABLE_STATE :: u8 where "CALL_ID_STORE_TABLE_STATE = 0x35"
definition CALL_ID_RESTORE_TABLE_STATE :: u8 where "CALL_ID_RESTORE_TABLE_STATE = 0x36"
definition CALL_ID_CHECK_MESSAGE :: u8 where "CALL_ID_CHECK_MESSAGE = 0x37"
definition CALL_ID_CHECK_MESSAGE_DELETED :: u8 where "CALL_ID_CHECK_MESSAGE_DELETED = 0x38"
definition CALL_ID_LOAD_MESSAGE_INSTANCE :: u8 where "CALL_ID_LOAD_MESSAGE_INSTANCE = 0x39"
definition CALL_ID_LOAD_EMBEDDED_INSTANCE :: u8 where "CALL_ID_LOAD_EMBEDDED_INSTANCE = 0x3a"
definition CALL_ID_GET_EMBEDED_CN :: u8 where "CALL_ID_GET_EMBEDED_CN = 0x3b"
definition CALL_ID_RELOAD_MESSAGE_INSTANCE :: u8 where "CALL_ID_RELOAD_MESSAGE_INSTANCE = 0x3c"
definition CALL_ID_CLEAR_MESSAGE_INSTANCE :: u8 where "CALL_ID_CLEAR_MESSAGE_INSTANCE = 0x3d"
definition CALL_ID_READ_MESSAGE_INSTANCE :: u8 where "CALL_ID_READ_MESSAGE_INSTANCE = 0x3e"
definition CALL_ID_WRITE_MESSAGE_INSTANCE :: u8 where "CALL_ID_WRITE_MESSAGE_INSTANCE = 0x3f"
definition CALL_ID_LOAD_ATTACHMENT_INSTANCE :: u8 where "CALL_ID_LOAD_ATTACHMENT_INSTANCE = 0x40"
definition CALL_ID_CREATE_ATTACHMENT_INSTANCE :: u8 where "CALL_ID_CREATE_ATTACHMENT_INSTANCE = 0x41"
definition CALL_ID_READ_ATTACHMENT_INSTANCE :: u8 where "CALL_ID_READ_ATTACHMENT_INSTANCE = 0x42"
definition CALL_ID_WRITE_ATTACHMENT_INSTANCE :: u8 where "CALL_ID_WRITE_ATTACHMENT_INSTANCE = 0x43"
definition CALL_ID_DELETE_MESSAGE_INSTANCE_ATTACHMENT :: u8 where "CALL_ID_DELETE_MESSAGE_INSTANCE_ATTACHMENT = 0x44"
definition CALL_ID_FLUSH_INSTANCE :: u8 where "CALL_ID_FLUSH_INSTANCE = 0x45"
definition CALL_ID_UNLOAD_INSTANCE :: u8 where "CALL_ID_UNLOAD_INSTANCE = 0x46"
definition CALL_ID_GET_INSTANCE_ALL_PROPTAGS :: u8 where "CALL_ID_GET_INSTANCE_ALL_PROPTAGS = 0x47"
definition CALL_ID_GET_INSTANCE_PROPERTIES :: u8 where "CALL_ID_GET_INSTANCE_PROPERTIES = 0x48"
definition CALL_ID_SET_INSTANCE_PROPERTIES :: u8 where "CALL_ID_SET_INSTANCE_PROPERTIES = 0x49"
definition CALL_ID_REMOVE_INSTANCE_PROPERTIES :: u8 where "CALL_ID_REMOVE_INSTANCE_PROPERTIES = 0x4a"
definition CALL_ID_CHECK_INSTANCE_CYCLE :: u8 where "CALL_ID_CHECK_INSTANCE_CYCLE = 0x4b"
definition CALL_ID_EMPTY_MESSAGE_INSTANCE_RCPTS :: u8 where "CALL_ID_EMPTY_MESSAGE_INSTANCE_RCPTS = 0x4c"
definition CALL_ID_GET_MESSAGE_INSTANCE_RCPTS_NUM :: u8 where "CALL_ID_GET_MESSAGE_INSTANCE_RCPTS_NUM = 0x4d"
definition CALL_ID_GET_MESSAGE_INSTANCE_RCPTS_ALL_PROPTAGS :: u8 where "CALL_ID_GET_MESSAGE_INSTANCE_RCPTS_ALL_PROPTAGS = 0x4e"
definition CALL_ID_GET_MESSAGE_INSTANCE_RCPTS :: u8 where "CALL_ID_GET_MESSAGE_INSTANCE_RCPTS = 0x4f"
definition CALL_ID_UPDATE_MESSAGE_INSTANCE_RCPTS :: u8 where "CALL_ID_UPDATE_MESSAGE_INSTANCE_RCPTS = 0x50"
definition CALL_ID_EMPTY_MESSAGE_INSTANCE_ATTACHMENTS :: u8 where "CALL_ID_EMPTY_MESSAGE_INSTANCE_ATTACHMENTS = 0x51"
definition CALL_ID_GET_MESSAGE_INSTANCE_ATTACHMENTS_NUM :: u8 where "CALL_ID_GET_MESSAGE_INSTANCE_ATTACHMENTS_NUM = 0x52"
definition CALL_ID_GET_MESSAGE_INSTANCE_ATTACHMENT_TABLE_ALL_PROPTAGS :: u8 where "CALL_ID_GET_MESSAGE_INSTANCE_ATTACHMENT_TABLE_ALL_PROPTAGS = 0x53"
definition CALL_ID_QUERY_MESSAGE_INSTANCE_ATTACHMENT_TABLE :: u8 where "CALL_ID_QUERY_MESSAGE_INSTANCE_ATTACHMENT_TABLE = 0x54"
definition CALL_ID_SET_MESSAGE_INSTANCE_CONFLICT :: u8 where "CALL_ID_SET_MESSAGE_INSTANCE_CONFLICT = 0x55"
definition CALL_ID_GET_MESSAGE_RCPTS :: u8 where "CALL_ID_GET_MESSAGE_RCPTS = 0x56"
definition CALL_ID_GET_MESSAGE_PROPERTIES :: u8 where "CALL_ID_GET_MESSAGE_PROPERTIES = 0x57"
definition CALL_ID_SET_MESSAGE_PROPERTIES :: u8 where "CALL_ID_SET_MESSAGE_PROPERTIES = 0x58"
definition CALL_ID_SET_MESSAGE_READ_STATE :: u8 where "CALL_ID_SET_MESSAGE_READ_STATE = 0x59"
definition CALL_ID_REMOVE_MESSAGE_PROPERTIES :: u8 where "CALL_ID_REMOVE_MESSAGE_PROPERTIES = 0x5a"
definition CALL_ID_ALLOCATE_MESSAGE_ID :: u8 where "CALL_ID_ALLOCATE_MESSAGE_ID = 0x5b"
definition CALL_ID_ALLOCATE_CN :: u8 where "CALL_ID_ALLOCATE_CN = 0x5c"
definition CALL_ID_MARK_MODIFIED :: u8 where "CALL_ID_MARK_MODIFIED = 0x5d"
definition CALL_ID_GET_MESSAGE_GROUP_ID :: u8 where "CALL_ID_GET_MESSAGE_GROUP_ID = 0x5e"
definition CALL_ID_SET_MESSAGE_GROUP_ID :: u8 where "CALL_ID_SET_MESSAGE_GROUP_ID = 0x5f"
definition CALL_ID_SAVE_CHANGE_INDICES :: u8 where "CALL_ID_SAVE_CHANGE_INDICES = 0x60"
definition CALL_ID_GET_CHANGE_INDICES :: u8 where "CALL_ID_GET_CHANGE_INDICES = 0x61"
definition CALL_ID_TRY_MARK_SUBMIT :: u8 where "CALL_ID_TRY_MARK_SUBMIT = 0x62"
definition CALL_ID_CLEAR_SUBMIT :: u8 where "CALL_ID_CLEAR_SUBMIT = 0x63"
definition CALL_ID_LINK_MESSAGE :: u8 where "CALL_ID_LINK_MESSAGE = 0x64"
definition CALL_ID_UNLINK_MESSAGE :: u8 where "CALL_ID_UNLINK_MESSAGE = 0x65"
definition CALL_ID_RULE_NEW_MESSAGE :: u8 where "CALL_ID_RULE_NEW_MESSAGE = 0x66"
definition CALL_ID_SET_MESSAGE_TIMER :: u8 where "CALL_ID_SET_MESSAGE_TIMER = 0x67"
definition CALL_ID_GET_MESSAGE_TIMER :: u8 where "CALL_ID_GET_MESSAGE_TIMER = 0x68"
definition CALL_ID_EMPTY_FOLDER_PERMISSION :: u8 where "CALL_ID_EMPTY_FOLDER_PERMISSION = 0x69"
definition CALL_ID_UPDATE_FOLDER_PERMISSION :: u8 where "CALL_ID_UPDATE_FOLDER_PERMISSION = 0x6a"
definition CALL_ID_EMPTY_FOLDER_RULE :: u8 where "CALL_ID_EMPTY_FOLDER_RULE = 0x6b"
definition CALL_ID_UPDATE_FOLDER_RULE :: u8 where "CALL_ID_UPDATE_FOLDER_RULE = 0x6c"
definition CALL_ID_DELIVERY_MESSAGE :: u8 where "CALL_ID_DELIVERY_MESSAGE = 0x6d"
definition CALL_ID_WRITE_MESSAGE :: u8 where "CALL_ID_WRITE_MESSAGE = 0x6e"
definition CALL_ID_READ_MESSAGE :: u8 where "CALL_ID_READ_MESSAGE = 0x6f"
definition CALL_ID_GET_CONTENT_SYNC :: u8 where "CALL_ID_GET_CONTENT_SYNC = 0x70"
definition CALL_ID_GET_HIERARCHY_SYNC :: u8 where "CALL_ID_GET_HIERARCHY_SYNC = 0x71"
definition CALL_ID_ALLOCATE_IDS :: u8 where "CALL_ID_ALLOCATE_IDS = 0x72"
definition CALL_ID_SUBSCRIBE_NOTIFICATION :: u8 where "CALL_ID_SUBSCRIBE_NOTIFICATION = 0x73"
definition CALL_ID_UNSUBSCRIBE_NOTIFICATION :: u8 where "CALL_ID_UNSUBSCRIBE_NOTIFICATION = 0x74"
definition CALL_ID_TRANSPORT_NEW_MAIL :: u8 where "CALL_ID_TRANSPORT_NEW_MAIL = 0x75"
definition CALL_ID_RELOAD_CONTENT_TABLE :: u8 where "CALL_ID_RELOAD_CONTENT_TABLE = 0x76"
definition CALL_ID_COPY_INSTANCE_RCPTS :: u8 where "CALL_ID_COPY_INSTANCE_RCPTS = 0x77"
definition CALL_ID_COPY_INSTANCE_ATTACHMENTS :: u8 where "CALL_ID_COPY_INSTANCE_ATTACHMENTS = 0x78"
definition CALL_ID_CHECK_CONTACT_ADDRESS :: u8 where "CALL_ID_CHECK_CONTACT_ADDRESS = 0x79"
definition CALL_ID_GET_PUBLIC_FOLDER_UNREAD_COUNT :: u8 where "CALL_ID_GET_PUBLIC_FOLDER_UNREAD_COUNT = 0x7a"
definition CALL_ID_UNLOAD_STORE :: u8 where "CALL_ID_UNLOAD_STORE = 0x80"

lemmas call_ids =
  CALL_ID_CONNECT_def CALL_ID_LISTEN_NOTIFICATION_def CALL_ID_PING_STORE_def
  CALL_ID_GET_ALL_NAMED_PROPIDS_def CALL_ID_GET_NAMED_PROPIDS_def CALL_ID_GET_NAMED_PROPNAMES_def
  CALL_ID_GET_MAPPING_GUID_def CALL_ID_GET_MAPPING_REPLID_def CALL_ID_GET_STORE_ALL_PROPTAGS_def
  CALL_ID_GET_STORE_PROPERTIES_def CALL_ID_SET_STORE_PROPERTIES_def
  CALL_ID_REMOVE_STORE_PROPERTIES_def CALL_ID_CHECK_MAILBOX_PERMISSION_def
  CALL_ID_GET_FOLDER_BY_CLASS_def CALL_ID_SET_FOLDER_BY_CLASS_def
  CALL_ID_GET_FOLDER_CLASS_TABLE_def CALL_ID_CHECK_FOLDER_ID_def
  CALL_ID_QUERY_FOLDER_MESSAGES_def CALL_ID_CHECK_FOLDER_DELETED_def
  CALL_ID_GET_FOLDER_BY_NAME_def CALL_ID_CHECK_FOLDER_PERMISSION_def
  CALL_ID_CREATE_FOLDER_BY_PROPERTIES_def CALL_ID_GET_FOLDER_ALL_PROPTAGS_def
  CALL_ID_GET_FOLDER_PROPERTIES_def CALL_ID_SET_FOLDER_PROPERTIES_def
  CALL_ID_REMOVE_FOLDER_PROPERTIES_def CALL_ID_DELETE_FOLDER_def CALL_ID_EMPTY_FOLDER_def
  CALL_ID_CHECK_FOLDER_CYCLE_def CALL_ID_COPY_FOLDER_INTERNAL_def CALL_ID_GET_SEARCH_CRITERIA_def
  CALL_ID_SET_SEARCH_CRITERIA_def CALL_ID_MOVECOPY_MESSAGE_def CALL_ID_MOVECOPY_MESSAGES_def
  CALL_ID_MOVECOPY_FOLDER_def CALL_ID_DELETE_MESSAGES_def CALL_ID_GET_MESSAGE_BRIEF_def
  CALL_ID_SUM_HIERARCHY_def CALL_ID_LOAD_HIERARCHY_TABLE_def CALL_ID_SUM_CONTENT_def
  CALL_ID_LOAD_CONTENT_TABLE_def CALL_ID_LOAD_PERMISSION_TABLE_def CALL_ID_LOAD_RULE_TABLE_def
  CALL_ID_UNLOAD_TABLE_def CALL_ID_SUM_TABLE_def CALL_ID_QUERY_TABLE_def CALL_ID_MATCH_TABLE_def
  CALL_ID_LOCATE_TABLE_def CALL_ID_READ_TABLE_ROW_def CALL_ID_MARK_TABLE_def
  CALL_ID_GET_TABLE_ALL_PROPTAGS_def CALL_ID_EXPAND_TABLE_def CALL_ID_COLLAPSE_TABLE_def
  CALL_ID_STORE_TABLE_STATE_def CALL_ID_RESTORE_TABLE_STATE_def CALL_ID_CHECK_MESSAGE_def
  CALL_ID_CHECK_MESSAGE_DELETED_def CALL_ID_LOAD_MESSAGE_INSTANCE_def
  CALL_ID_LOAD_EMBEDDED_INSTANCE_def CALL_ID_GET_EMBEDED_CN_def
  CALL_ID_RELOAD_MESSAGE_INSTANCE_def CALL_ID_CLEAR_MESSAGE_INSTANCE_def
  CALL_ID_READ_MESSAGE_INSTANCE_def CALL_ID_WRITE_MESSAGE_INSTANCE_def
  CALL_ID_LOAD_ATTACHMENT_INSTANCE_def CALL_ID_CREATE_ATTACHMENT_INSTANCE_def
  CALL_ID_READ_ATTACHMENT_INSTANCE_def CALL_ID_WRITE_ATTACHMENT_INSTANCE_def
  CALL_ID_DELETE_MESSAGE_INSTANCE_ATTACHMENT_def CALL_ID_FLUSH_INSTANCE_def
  CALL_ID_UNLOAD_INSTANCE_def CALL_ID_GET_INSTANCE_ALL_PROPTAGS_def
  CALL_ID_GET_INSTANCE_PROPERTIES_def CALL_ID_SET_INSTANCE_PROPERTIES_def
  CALL_ID_REMOVE_INSTANCE_PROPERTIES_def CALL_ID_CHECK_INSTANCE_CYCLE_def
  CALL_ID_EMPTY_MESSAGE_INSTANCE_RCPTS_def CALL_ID_GET_MESSAGE_INSTANCE_RCPTS_NUM_def
  CALL_ID_GET_MESSAGE_INSTANCE_RCPTS_ALL_PROPTAGS_def CALL_ID_GET_MESSAGE_INSTANCE_RCPTS_def
  CALL_ID_UPDATE_MESSAGE_INSTANCE_RCPTS_def CALL_ID_EMPTY_MESSAGE_INSTANCE_ATTACHMENTS_def
  CALL_ID_GET_MESSAGE_INSTANCE_ATTACHMENTS_NUM_def
  CALL_ID_GET_MESSAGE_INSTANCE_ATTACHMENT_TABLE_ALL_PROPTAGS_def
  CALL_ID_QUERY_MESSAGE_INSTANCE_ATTACHMENT_TABLE_def CALL_ID_SET_MESSAGE_INSTANCE_CONFLICT_def
  CALL_ID_GET_MESSAGE_RCPTS_def CALL_ID_GET_MESSAGE_PROPERTIES_def
  CALL_ID_SET_MESSAGE_PROPERTIES_def CALL_ID_SET_MESSAGE_READ_STATE_def
  CALL_ID_REMOVE_MESSAGE_PROPERTIES_def CALL_ID_ALLOCATE_MESSAGE_ID_def CALL_ID_ALLOCATE_CN_def
  CALL_ID_MARK_MODIFIED_def CALL_ID_GET_MESSAGE_GROUP_ID_def CALL_ID_SET_MESSAGE_GROUP_ID_def
  CALL_ID_SAVE_CHANGE_INDICES_def CALL_ID_GET_CHANGE_INDICES_def CALL_ID_TRY_MARK_SUBMIT_def
  CALL_ID_CLEAR_SUBMIT_def CALL_ID_LINK_MESSAGE_def CALL_ID_UNLINK_MESSAGE_def
  CALL_ID_RULE_NEW_MESSAGE_def CALL_ID_SET_MESSAGE_TIMER_def CALL_ID_GET_MESSAGE_TIMER_def
  CALL_ID_EMPTY_FOLDER_PERMISSION_def CALL_ID_UPDATE_FOLDER_PERMISSION_def
  CALL_ID_EMPTY_FOLDER_RULE_def CALL_ID_UPDATE_FOLDER_RULE_def CALL_ID_DELIVERY_MESSAGE_def
  CALL_ID_WRITE_MESSAGE_def CALL_ID_READ_MESSAGE_def CALL_ID_GET_CONTENT_SYNC_def
  CALL_ID_GET_HIERARCHY_SYNC_def CALL_ID_ALLOCATE_IDS_def CALL_ID_SUBSCRIBE_NOTIFICATION_def
  CALL_ID_UNSUBSCRIBE_NOTIFICATION_def CALL_ID_TRANSPORT_NEW_MAIL_def
  CALL_ID_RELOAD_CONTENT_TABLE_def CALL_ID_COPY_INSTANCE_RCPTS_def
  CALL_ID_COPY_INSTANCE_ATTACHMENTS_def CALL_ID_CHECK_CONTACT_ADDRESS_def
  CALL_ID_GET_PUBLIC_FOLDER_UNREAD_COUNT_def CALL_ID_UNLOAD_STORE_def

subsection \<open>Requests\<close>

datatype (plugins only: code) store_request =
    REQ_CONNECT bytes bytes bool
  | REQ_LISTEN_NOTIFICATION bytes
  | REQ_PING_STORE
  | REQ_GET_ALL_NAMED_PROPIDS
  | REQ_GET_NAMED_PROPIDS bool "property_name list"
  | REQ_GET_NAMED_PROPNAMES "u16 list"
  | REQ_GET_MAPPING_GUID u16
  | REQ_GET_MAPPING_REPLID guid
  | REQ_GET_STORE_ALL_PROPTAGS
  | REQ_GET_STORE_PROPERTIES u32 "u32 list"
  | REQ_SET_STORE_PROPERTIES u32 "tagged_propval list"
  | REQ_REMOVE_STORE_PROPERTIES "u32 list"
  | REQ_CHECK_MAILBOX_PERMISSION bytes
  | REQ_GET_FOLDER_BY_CLASS bytes
  | REQ_SET_FOLDER_BY_CLASS u64 bytes
  | REQ_GET_FOLDER_CLASS_TABLE

datatype (plugins only: code) folder_request =
    REQ_CHECK_FOLDER_ID u64
  | REQ_QUERY_FOLDER_MESSAGES u64
  | REQ_CHECK_FOLDER_DELETED u64
  | REQ_GET_FOLDER_BY_NAME u64 bytes
  | REQ_CHECK_FOLDER_PERMISSION u64 bytes
  | REQ_CREATE_FOLDER_BY_PROPERTIES u32 "tagged_propval list"
  | REQ_GET_FOLDER_ALL_PROPTAGS u64
  | REQ_GET_FOLDER_PROPERTIES u32 u64 "u32 list"
  | REQ_SET_FOLDER_PROPERTIES u32 u64 "tagged_propval list"
  | REQ_REMOVE_FOLDER_PROPERTIES u64 "u32 list"
  | REQ_DELETE_FOLDER u32 u64 bool
  | REQ_EMPTY_FOLDER u32 "bytes option" u64 bool bool bool bool
  | REQ_CHECK_FOLDER_CYCLE u64 u64
  | REQ_COPY_FOLDER_INTERNAL u32 u32 bool "bytes option" u64 bool bool bool u64
  | REQ_GET_SEARCH_CRITERIA u64
  | REQ_SET_SEARCH_CRITERIA u32 u64 u32 "restriction option" "u64 list"
  | REQ_MOVECOPY_MESSAGE u32 u32 u64 u64 u64 bool
  | REQ_MOVECOPY_MESSAGES u32 u32 bool "bytes option" u64 u64 bool "u64 list"
  | REQ_MOVECOPY_FOLDER u32 u32 bool "bytes option" u64 u64 u64 bytes bool
  | REQ_DELETE_MESSAGES u32 u32 "bytes option" u64 "u64 list" bool
  | REQ_GET_MESSAGE_BRIEF u32 u64
  | REQ_SUM_HIERARCHY u64 "bytes option" bool

datatype (plugins only: code) table_request =
    REQ_LOAD_HIERARCHY_TABLE u64 "bytes option" u8 "restriction option"
  | REQ_SUM_CONTENT u64 bool bool
  | REQ_LOAD_CONTENT_TABLE u32 u64 "bytes option" u8 "restriction option" "sortorder_set option"
  | REQ_RELOAD_CONTENT_TABLE u32
  | REQ_LOAD_PERMISSION_TABLE u64 u8
  | REQ_LOAD_RULE_TABLE u64 u8 "restriction option"
  | REQ_UNLOAD_TABLE u32
  | REQ_SUM_TABLE u32
  | REQ_QUERY_TABLE "bytes option" u32 u32 "u32 list" u32 u32
  | REQ_MATCH_TABLE "bytes option" u32 u32 bool u32 restriction "u32 list"
  | REQ_LOCATE_TABLE u32 u64 u32
  | REQ_READ_TABLE_ROW "bytes option" u32 u32 "u32 list" u64 u32
  | REQ_MARK_TABLE u32 u32
  | REQ_GET_TABLE_ALL_PROPTAGS u32
  | REQ_EXPAND_TABLE u32 u64
  | REQ_COLLAPSE_TABLE u32 u64
  | REQ_STORE_TABLE_STATE u32 u64 u32
  | REQ_RESTORE_TABLE_STATE u32 u32

datatype (plugins only: code) instance_request =
    REQ_CHECK_MESSAGE u64 u64
  | REQ_CHECK_MESSAGE_DELETED u64
  | REQ_LOAD_MESSAGE_INSTANCE "bytes option" u32 bool u64 u64
  | REQ_LOAD_EMBEDDED_INSTANCE bool u32
  | REQ_GET_EMBEDED_CN u32
  | REQ_RELOAD_MESSAGE_INSTANCE u32
  | REQ_CLEAR_MESSAGE_INSTANCE u32
  | REQ_READ_MESSAGE_INSTANCE u32
  | REQ_WRITE_MESSAGE_INSTANCE u32 message_content bool
  | REQ_LOAD_ATTACHMENT_INSTANCE u32 u32
  | REQ_CREATE_ATTACHMENT_INSTANCE u32
  | REQ_READ_ATTACHMENT_INSTANCE u32
  | REQ_WRITE_ATTACHMENT_INSTANCE u32 attachment_content bool
  | REQ_DELETE_MESSAGE_INSTANCE_ATTACHMENT u32 u32
  | REQ_FLUSH_INSTANCE u32 "bytes option"
  | REQ_UNLOAD_INSTANCE u32
  | REQ_GET_INSTANCE_ALL_PROPTAGS u32
  | REQ_GET_INSTANCE_PROPERTIES u32 u32 "u32 list"
  | REQ_SET_INSTANCE_PROPERTIES u32 "tagged_propval list"
  | REQ_REMOVE_INSTANCE_PROPERTIES u32 "u32 list"
  | REQ_CHECK_INSTANCE_CYCLE u32 u32

datatype (plugins only: code) content_request =
    REQ_EMPTY_MESSAGE_INSTANCE_RCPTS u32
  | REQ_GET_MESSAGE_INSTANCE_RCPTS_NUM u32
  | REQ_GET_MESSAGE_INSTANCE_RCPTS_ALL_PROPTAGS u32
  | REQ_GET_MESSAGE_INSTANCE_RCPTS u32 u32 u16
  | REQ_UPDATE_MESSAGE_INSTANCE_RCPTS u32 "tagged_propval list list"
  | REQ_COPY_INSTANCE_RCPTS bool u32 u32
  | REQ_EMPTY_MESSAGE_INSTANCE_ATTACHMENTS u32
  | REQ_GET_MESSAGE_INSTANCE_ATTACHMENTS_NUM u32
  | REQ_GET_MESSAGE_INSTANCE_ATTACHMENT_TABLE_ALL_PROPTAGS u32
  | REQ_QUERY_MESSAGE_INSTANCE_ATTACHMENT_TABLE u32 "u32 list" u32 u32
  | REQ_COPY_INSTANCE_ATTACHMENTS bool u32 u32
  | REQ_SET_MESSAGE_INSTANCE_CONFLICT u32 message_content

datatype (plugins only: code) message_request =
    REQ_GET_MESSAGE_RCPTS u64
  | REQ_GET_MESSAGE_PROPERTIES "bytes option" u32 u64 "u32 list"
  | REQ_SET_MESSAGE_PROPERTIES "bytes option" u32 u64 "tagged_propval list"
  | REQ_SET_MESSAGE_READ_STATE "bytes option" u64 u8
  | REQ_REMOVE_MESSAGE_PROPERTIES u32 u64 "u32 list"
  | REQ_ALLOCATE_MESSAGE_ID u64
  | REQ_ALLOCATE_CN
  | REQ_GET_MESSAGE_GROUP_ID u64
  | REQ_SET_MESSAGE_GROUP_ID u64 u32
  | REQ_SAVE_CHANGE_INDICES u64 u64 "u32 list" "u32 list"
  | REQ_GET_CHANGE_INDICES u64 u64
  | REQ_MARK_MODIFIED u64
  | REQ_TRY_MARK_SUBMIT u64
  | REQ_CLEAR_SUBMIT u64 bool
  | REQ_LINK_MESSAGE u32 u64 u64
  | REQ_UNLINK_MESSAGE u32 u64 u64
  | REQ_RULE_NEW_MESSAGE "bytes option" bytes u32 u64 u64
  | REQ_SET_MESSAGE_TIMER u64 u32
  | REQ_GET_MESSAGE_TIMER u64

datatype (plugins only: code) service_request =
    REQ_EMPTY_FOLDER_PERMISSION u64
  | REQ_UPDATE_FOLDER_PERMISSION u64 bool "permission_data list"
  | REQ_EMPTY_FOLDER_RULE u64
  | REQ_UPDATE_FOLDER_RULE u64 "rule_data list"
  | REQ_DELIVERY_MESSAGE bytes bytes u32 message_content bytes
  | REQ_WRITE_MESSAGE bytes u32 u64 message_content
  | REQ_READ_MESSAGE "bytes option" u32 u64
  | REQ_GET_CONTENT_SYNC u64 "bytes option" idset "idset option" "idset option" "idset option" u32 "restriction option" bool
  | REQ_GET_HIERARCHY_SYNC u64 "bytes option" idset "idset option"
  | REQ_ALLOCATE_IDS u32
  | REQ_SUBSCRIBE_NOTIFICATION u16 bool u64 u64
  | REQ_UNSUBSCRIBE_NOTIFICATION u32
  | REQ_TRANSPORT_NEW_MAIL u64 u64 u32 bytes
  | REQ_CHECK_CONTACT_ADDRESS bytes
  | REQ_GET_PUBLIC_FOLDER_UNREAD_COUNT bytes u64
  | REQ_UNLOAD_STORE

text \<open>\<open>dir\<close> is not set by the two calls that are not about a store.\<close>

datatype (plugins only: code) request_payload =
    STORE_REQUEST store_request
  | FOLDER_REQUEST folder_request
  | TABLE_REQUEST table_request
  | INSTANCE_REQUEST instance_request
  | CONTENT_REQUEST content_request
  | MESSAGE_REQUEST message_request
  | SERVICE_REQUEST service_request

datatype exmdb_request = EXMDB_REQUEST (rq_dir: "bytes option") (rq_payload: request_payload)

primrec store_request_id :: "store_request \<Rightarrow> u8" where
  "store_request_id (REQ_CONNECT prefix remote_id b_private) = CALL_ID_CONNECT"
| "store_request_id (REQ_LISTEN_NOTIFICATION remote_id) = CALL_ID_LISTEN_NOTIFICATION"
| "store_request_id REQ_PING_STORE = CALL_ID_PING_STORE"
| "store_request_id REQ_GET_ALL_NAMED_PROPIDS = CALL_ID_GET_ALL_NAMED_PROPIDS"
| "store_request_id (REQ_GET_NAMED_PROPIDS b_create ppropnames) = CALL_ID_GET_NAMED_PROPIDS"
| "store_request_id (REQ_GET_NAMED_PROPNAMES ppropids) = CALL_ID_GET_NAMED_PROPNAMES"
| "store_request_id (REQ_GET_MAPPING_GUID replid) = CALL_ID_GET_MAPPING_GUID"
| "store_request_id (REQ_GET_MAPPING_REPLID guid) = CALL_ID_GET_MAPPING_REPLID"
| "store_request_id REQ_GET_STORE_ALL_PROPTAGS = CALL_ID_GET_STORE_ALL_PROPTAGS"
| "store_request_id (REQ_GET_STORE_PROPERTIES cpid pproptags) = CALL_ID_GET_STORE_PROPERTIES"
| "store_request_id (REQ_SET_STORE_PROPERTIES cpid ppropvals) = CALL_ID_SET_STORE_PROPERTIES"
| "store_request_id (REQ_REMOVE_STORE_PROPERTIES pproptags) = CALL_ID_REMOVE_STORE_PROPERTIES"
| "store_request_id (REQ_CHECK_MAILBOX_PERMISSION username) = CALL_ID_CHECK_MAILBOX_PERMISSION"
| "store_request_id (REQ_GET_FOLDER_BY_CLASS str_class) = CALL_ID_GET_FOLDER_BY_CLASS"
| "store_request_id (REQ_SET_FOLDER_BY_CLASS folder_id str_class) = CALL_ID_SET_FOLDER_BY_CLASS"
| "store_request_id REQ_GET_FOLDER_CLASS_TABLE = CALL_ID_GET_FOLDER_CLASS_TABLE"

primrec folder_request_id :: "folder_request \<Rightarrow> u8" where
  "folder_request_id (REQ_CHECK_FOLDER_ID folder_id) = CALL_ID_CHECK_FOLDER_ID"
| "folder_request_id (REQ_QUERY_FOLDER_MESSAGES folder_id) = CALL_ID_QUERY_FOLDER_MESSAGES"
| "folder_request_id (REQ_CHECK_FOLDER_DELETED folder_id) = CALL_ID_CHECK_FOLDER_DELETED"
| "folder_request_id (REQ_GET_FOLDER_BY_NAME parent_id str_name) = CALL_ID_GET_FOLDER_BY_NAME"
| "folder_request_id (REQ_CHECK_FOLDER_PERMISSION folder_id username) = CALL_ID_CHECK_FOLDER_PERMISSION"
| "folder_request_id (REQ_CREATE_FOLDER_BY_PROPERTIES cpid pproperties) = CALL_ID_CREATE_FOLDER_BY_PROPERTIES"
| "folder_request_id (REQ_GET_FOLDER_ALL_PROPTAGS folder_id) = CALL_ID_GET_FOLDER_ALL_PROPTAGS"
| "folder_request_id (REQ_GET_FOLDER_PROPERTIES cpid folder_id pproptags) = CALL_ID_GET_FOLDER_PROPERTIES"
| "folder_request_id (REQ_SET_FOLDER_PROPERTIES cpid folder_id pproperties) = CALL_ID_SET_FOLDER_PROPERTIES"
| "folder_request_id (REQ_REMOVE_FOLDER_PROPERTIES folder_id pproptags) = CALL_ID_REMOVE_FOLDER_PROPERTIES"
| "folder_request_id (REQ_DELETE_FOLDER cpid folder_id b_hard) = CALL_ID_DELETE_FOLDER"
| "folder_request_id (REQ_EMPTY_FOLDER cpid username folder_id b_hard b_normal b_fai b_sub) = CALL_ID_EMPTY_FOLDER"
| "folder_request_id (REQ_CHECK_FOLDER_CYCLE src_fid dst_fid) = CALL_ID_CHECK_FOLDER_CYCLE"
| "folder_request_id (REQ_COPY_FOLDER_INTERNAL account_id cpid b_guest username src_fid b_normal b_fai b_sub dst_fid) = CALL_ID_COPY_FOLDER_INTERNAL"
| "folder_request_id (REQ_GET_SEARCH_CRITERIA folder_id) = CALL_ID_GET_SEARCH_CRITERIA"
| "folder_request_id (REQ_SET_SEARCH_CRITERIA cpid folder_id search_flags prestriction pfolder_ids) = CALL_ID_SET_SEARCH_CRITERIA"
| "folder_request_id (REQ_MOVECOPY_MESSAGE account_id cpid message_id dst_fid dst_id b_move) = CALL_ID_MOVECOPY_MESSAGE"
| "folder_request_id (REQ_MOVECOPY_MESSAGES account_id cpid b_guest username src_fid dst_fid b_copy pmessage_ids) = CALL_ID_MOVECOPY_MESSAGES"
| "folder_request_id (REQ_MOVECOPY_FOLDER account_id cpid b_guest username src_pid src_fid dst_fid str_new b_copy) = CALL_ID_MOVECOPY_FOLDER"
| "folder_request_id (REQ_DELETE_MESSAGES account_id cpid username folder_id pmessage_ids b_hard) = CALL_ID_DELETE_MESSAGES"
| "folder_request_id (REQ_GET_MESSAGE_BRIEF cpid message_id) = CALL_ID_GET_MESSAGE_BRIEF"
| "folder_request_id (REQ_SUM_HIERARCHY folder_id username b_depth) = CALL_ID_SUM_HIERARCHY"

primrec table_request_id :: "table_request \<Rightarrow> u8" where
  "table_request_id (REQ_LOAD_HIERARCHY_TABLE folder_id username table_flags prestriction) = CALL_ID_LOAD_HIERARCHY_TABLE"
| "table_request_id (REQ_SUM_CONTENT folder_id b_fai b_deleted) = CALL_ID_SUM_CONTENT"
| "table_request_id (REQ_LOAD_CONTENT_TABLE cpid folder_id username table_flags prestriction psorts) = CALL_ID_LOAD_CONTENT_TABLE"
| "table_request_id (REQ_RELOAD_CONTENT_TABLE table_id) = CALL_ID_RELOAD_CONTENT_TABLE"
| "table_request_id (REQ_LOAD_PERMISSION_TABLE folder_id table_flags) = CALL_ID_LOAD_PERMISSION_TABLE"
| "table_request_id (REQ_LOAD_RULE_TABLE folder_id table_flags prestriction) = CALL_ID_LOAD_RULE_TABLE"
| "table_request_id (REQ_UNLOAD_TABLE table_id) = CALL_ID_UNLOAD_TABLE"
| "table_request_id (REQ_SUM_TABLE table_id) = CALL_ID_SUM_TABLE"
| "table_request_id (REQ_QUERY_TABLE username cpid table_id pproptags start_pos row_needed) = CALL_ID_QUERY_TABLE"
| "table_request_id (REQ_MATCH_TABLE username cpid table_id b_forward start_pos pres pproptags) = CALL_ID_MATCH_TABLE"
| "table_request_id (REQ_LOCATE_TABLE table_id inst_id inst_num) = CALL_ID_LOCATE_TABLE"
| "table_request_id (REQ_READ_TABLE_ROW username cpid table_id pproptags inst_id inst_num) = CALL_ID_READ_TABLE_ROW"
| "table_request_id (REQ_MARK_TABLE table_id position) = CALL_ID_MARK_TABLE"
| "table_request_id (REQ_GET_TABLE_ALL_PROPTAGS table_id) = CALL_ID_GET_TABLE_ALL_PROPTAGS"
| "table_request_id (REQ_EXPAND_TABLE table_id inst_id) = CALL_ID_EXPAND_TABLE"
| "table_request_id (REQ_COLLAPSE_TABLE table_id inst_id) = CALL_ID_COLLAPSE_TABLE"
| "table_request_id (REQ_STORE_TABLE_STATE table_id inst_id inst_num) = CALL_ID_STORE_TABLE_STATE"
| "table_request_id (REQ_RESTORE_TABLE_STATE table_id state_id) = CALL_ID_RESTORE_TABLE_STATE"

primrec instance_request_id :: "instance_request \<Rightarrow> u8" where
  "instance_request_id (REQ_CHECK_MESSAGE folder_id message_id) = CALL_ID_CHECK_MESSAGE"
| "instance_request_id (REQ_CHECK_MESSAGE_DELETED message_id) = CALL_ID_CHECK_MESSAGE_DELETED"
| "instance_request_id (REQ_LOAD_MESSAGE_INSTANCE username cpid b_new folder_id message_id) = CALL_ID_LOAD_MESSAGE_INSTANCE"
| "instance_request_id (REQ_LOAD_EMBEDDED_INSTANCE b_new attachment_instance_id) = CALL_ID_LOAD_EMBEDDED_INSTANCE"
| "instance_request_id (REQ_GET_EMBEDED_CN instance_id) = CALL_ID_GET_EMBEDED_CN"
| "instance_request_id (REQ_RELOAD_MESSAGE_INSTANCE instance_id) = CALL_ID_RELOAD_MESSAGE_INSTANCE"
| "instance_request_id (REQ_CLEAR_MESSAGE_INSTANCE instance_id) = CALL_ID_CLEAR_MESSAGE_INSTANCE"
| "instance_request_id (REQ_READ_MESSAGE_INSTANCE instance_id) = CALL_ID_READ_MESSAGE_INSTANCE"
| "instance_request_id (REQ_WRITE_MESSAGE_INSTANCE instance_id pmsgctnt b_force) = CALL_ID_WRITE_MESSAGE_INSTANCE"
| "instance_request_id (REQ_LOAD_ATTACHMENT_INSTANCE message_instance_id attachment_num) = CALL_ID_LOAD_ATTACHMENT_INSTANCE"
| "instance_request_id (REQ_CREATE_ATTACHMENT_INSTANCE message_instance_id) = CALL_ID_CREATE_ATTACHMENT_INSTANCE"
| "instance_request_id (REQ_READ_ATTACHMENT_INSTANCE instance_id) = CALL_ID_READ_ATTACHMENT_INSTANCE"
| "instance_request_id (REQ_WRITE_ATTACHMENT_INSTANCE instance_id pattctnt b_force) = CALL_ID_WRITE_ATTACHMENT_INSTANCE"
| "instance_request_id (REQ_DELETE_MESSAGE_INSTANCE_ATTACHMENT message_instance_id attachment_num) = CALL_ID_DELETE_MESSAGE_INSTANCE_ATTACHMENT"
| "instance_request_id (REQ_FLUSH_INSTANCE instance_id account) = CALL_ID_FLUSH_INSTANCE"
| "instance_request_id (REQ_UNLOAD_INSTANCE instance_id) = CALL_ID_UNLOAD_INSTANCE"
| "instance_request_id (REQ_GET_INSTANCE_ALL_PROPTAGS instance_id) = CALL_ID_GET_INSTANCE_ALL_PROPTAGS"
| "instance_request_id (REQ_GET_INSTANCE_PROPERTIES size_limit instance_id pproptags) = CALL_ID_GET_INSTANCE_PROPERTIES"
| "instance_request_id (REQ_SET_INSTANCE_PROPERTIES instance_id pproperties) = CALL_ID_SET_INSTANCE_PROPERTIES"
| "instance_request_id (REQ_REMOVE_INSTANCE_PROPERTIES instance_id pproptags) = CALL_ID_REMOVE_INSTANCE_PROPERTIES"
| "instance_request_id (REQ_CHECK_INSTANCE_CYCLE src_instance_id dst_instance_id) = CALL_ID_CHECK_INSTANCE_CYCLE"

primrec content_request_id :: "content_request \<Rightarrow> u8" where
  "content_request_id (REQ_EMPTY_MESSAGE_INSTANCE_RCPTS instance_id) = CALL_ID_EMPTY_MESSAGE_INSTANCE_RCPTS"
| "content_request_id (REQ_GET_MESSAGE_INSTANCE_RCPTS_NUM instance_id) = CALL_ID_GET_MESSAGE_INSTANCE_RCPTS_NUM"
| "content_request_id (REQ_GET_MESSAGE_INSTANCE_RCPTS_ALL_PROPTAGS instance_id) = CALL_ID_GET_MESSAGE_INSTANCE_RCPTS_ALL_PROPTAGS"
| "content_request_id (REQ_GET_MESSAGE_INSTANCE_RCPTS instance_id row_id need_count) = CALL_ID_GET_MESSAGE_INSTANCE_RCPTS"
| "content_request_id (REQ_UPDATE_MESSAGE_INSTANCE_RCPTS instance_id pset) = CALL_ID_UPDATE_MESSAGE_INSTANCE_RCPTS"
| "content_request_id (REQ_COPY_INSTANCE_RCPTS b_force src_instance_id dst_instance_id) = CALL_ID_COPY_INSTANCE_RCPTS"
| "content_request_id (REQ_EMPTY_MESSAGE_INSTANCE_ATTACHMENTS instance_id) = CALL_ID_EMPTY_MESSAGE_INSTANCE_ATTACHMENTS"
| "content_request_id (REQ_GET_MESSAGE_INSTANCE_ATTACHMENTS_NUM instance_id) = CALL_ID_GET_MESSAGE_INSTANCE_ATTACHMENTS_NUM"
| "content_request_id (REQ_GET_MESSAGE_INSTANCE_ATTACHMENT_TABLE_ALL_PROPTAGS instance_id) = CALL_ID_GET_MESSAGE_INSTANCE_ATTACHMENT_TABLE_ALL_PROPTAGS"
| "content_request_id (REQ_QUERY_MESSAGE_INSTANCE_ATTACHMENT_TABLE instance_id pproptags start_pos row_needed) = CALL_ID_QUERY_MESSAGE_INSTANCE_ATTACHMENT_TABLE"
| "content_request_id (REQ_COPY_INSTANCE_ATTACHMENTS b_force src_instance_id dst_instance_id) = CALL_ID_COPY_INSTANCE_ATTACHMENTS"
| "content_request_id (REQ_SET_MESSAGE_INSTANCE_CONFLICT instance_id pmsgctnt) = CALL_ID_SET_MESSAGE_INSTANCE_CONFLICT"

primrec message_request_id :: "message_request \<Rightarrow> u8" where
  "message_request_id (REQ_GET_MESSAGE_RCPTS message_id) = CALL_ID_GET_MESSAGE_RCPTS"
| "message_request_id (REQ_GET_MESSAGE_PROPERTIES username cpid message_id pproptags) = CALL_ID_GET_MESSAGE_PROPERTIES"
| "message_request_id (REQ_SET_MESSAGE_PROPERTIES username cpid message_id pproperties) = CALL_ID_SET_MESSAGE_PROPERTIES"
| "message_request_id (REQ_SET_MESSAGE_READ_STATE username message_id mark_as_read) = CALL_ID_SET_MESSAGE_READ_STATE"
| "message_request_id (REQ_REMOVE_MESSAGE_PROPERTIES cpid message_id pproptags) = CALL_ID_REMOVE_MESSAGE_PROPERTIES"
| "message_request_id (REQ_ALLOCATE_MESSAGE_ID folder_id) = CALL_ID_ALLOCATE_MESSAGE_ID"
| "message_request_id REQ_ALLOCATE_CN = CALL_ID_ALLOCATE_CN"
| "message_request_id (REQ_GET_MESSAGE_GROUP_ID message_id) = CALL_ID_GET_MESSAGE_GROUP_ID"
| "message_request_id (REQ_SET_MESSAGE_GROUP_ID message_id group_id) = CALL_ID_SET_MESSAGE_GROUP_ID"
| "message_request_id (REQ_SAVE_CHANGE_INDICES message_id cn pindices pungroup_proptags) = CALL_ID_SAVE_CHANGE_INDICES"
| "message_request_id (REQ_GET_CHANGE_INDICES message_id cn) = CALL_ID_GET_CHANGE_INDICES"
| "message_request_id (REQ_MARK_MODIFIED message_id) = CALL_ID_MARK_MODIFIED"
| "message_request_id (REQ_TRY_MARK_SUBMIT message_id) = CALL_ID_TRY_MARK_SUBMIT"
| "message_request_id (REQ_CLEAR_SUBMIT message_id b_unsent) = CALL_ID_CLEAR_SUBMIT"
| "message_request_id (REQ_LINK_MESSAGE cpid folder_id message_id) = CALL_ID_LINK_MESSAGE"
| "message_request_id (REQ_UNLINK_MESSAGE cpid folder_id message_id) = CALL_ID_UNLINK_MESSAGE"
| "message_request_id (REQ_RULE_NEW_MESSAGE username account cpid folder_id message_id) = CALL_ID_RULE_NEW_MESSAGE"
| "message_request_id (REQ_SET_MESSAGE_TIMER message_id timer_id) = CALL_ID_SET_MESSAGE_TIMER"
| "message_request_id (REQ_GET_MESSAGE_TIMER message_id) = CALL_ID_GET_MESSAGE_TIMER"

primrec service_request_id :: "service_request \<Rightarrow> u8" where
  "service_request_id (REQ_EMPTY_FOLDER_PERMISSION folder_id) = CALL_ID_EMPTY_FOLDER_PERMISSION"
| "service_request_id (REQ_UPDATE_FOLDER_PERMISSION folder_id b_freebusy prow) = CALL_ID_UPDATE_FOLDER_PERMISSION"
| "service_request_id (REQ_EMPTY_FOLDER_RULE folder_id) = CALL_ID_EMPTY_FOLDER_RULE"
| "service_request_id (REQ_UPDATE_FOLDER_RULE folder_id prow) = CALL_ID_UPDATE_FOLDER_RULE"
| "service_request_id (REQ_DELIVERY_MESSAGE from_address account cpid pmsg pdigest) = CALL_ID_DELIVERY_MESSAGE"
| "service_request_id (REQ_WRITE_MESSAGE account cpid folder_id pmsgctnt) = CALL_ID_WRITE_MESSAGE"
| "service_request_id (REQ_READ_MESSAGE username cpid message_id) = CALL_ID_READ_MESSAGE"
| "service_request_id (REQ_GET_CONTENT_SYNC folder_id username pgiven pseen pseen_fai pread cpid prestriction b_ordered) = CALL_ID_GET_CONTENT_SYNC"
| "service_request_id (REQ_GET_HIERARCHY_SYNC folder_id username pgiven pseen) = CALL_ID_GET_HIERARCHY_SYNC"
| "service_request_id (REQ_ALLOCATE_IDS count) = CALL_ID_ALLOCATE_IDS"
| "service_request_id (REQ_SUBSCRIBE_NOTIFICATION notificaton_type b_whole folder_id message_id) = CALL_ID_SUBSCRIBE_NOTIFICATION"
| "service_request_id (REQ_UNSUBSCRIBE_NOTIFICATION sub_id) = CALL_ID_UNSUBSCRIBE_NOTIFICATION"
| "service_request_id (REQ_TRANSPORT_NEW_MAIL folder_id message_id message_flags pstr_class) = CALL_ID_TRANSPORT_NEW_MAIL"
| "service_request_id (REQ_CHECK_CONTACT_ADDRESS paddress) = CALL_ID_CHECK_CONTACT_ADDRESS"
| "service_request_id (REQ_GET_PUBLIC_FOLDER_UNREAD_COUNT username folder_id) = CALL_ID_GET_PUBLIC_FOLDER_UNREAD_COUNT"
| "service_request_id REQ_UNLOAD_STORE = CALL_ID_UNLOAD_STORE"

primrec request_call_id :: "request_payload \<Rightarrow> u8" where
  "request_call_id (STORE_REQUEST p) = store_request_id p"
| "request_call_id (FOLDER_REQUEST p) = folder_request_id p"
| "request_call_id (TABLE_REQUEST p) = table_request_id p"
| "request_call_id (INSTANCE_REQUEST p) = instance_request_id p"
| "request_call_id (CONTENT_REQUEST p) = content_request_id p"
| "request_call_id (MESSAGE_REQUEST p) = message_request_id p"
| "request_call_id (SERVICE_REQUEST p) = service_request_id p"

subsection \<open>Responses\<close>

datatype (plugins only: code) store_response =
    RESP_PING_STORE
  | RESP_GET_ALL_NAMED_PROPIDS "u16 list"
  | RESP_GET_NAMED_PROPIDS "u16 list"
  | RESP_GET_NAMED_PROPNAMES "property_name list"
  | RESP_GET_MAPPING_GUID bool guid
  | RESP_GET_MAPPING_REPLID bool u16
  | RESP_GET_STORE_ALL_PROPTAGS "u32 list"
  | RESP_GET_STORE_PROPERTIES "tagged_propval list"
  | RESP_SET_STORE_PROPERTIES "property_problem list"
  | RESP_REMOVE_STORE_PROPERTIES
  | RESP_CHECK_MAILBOX_PERMISSION u32
  | RESP_GET_FOLDER_BY_CLASS u64 bytes
  | RESP_SET_FOLDER_BY_CLASS bool
  | RESP_GET_FOLDER_CLASS_TABLE "tagged_propval list list"

datatype (plugins only: code) folder_response =
    RESP_CHECK_FOLDER_ID bool
  | RESP_QUERY_FOLDER_MESSAGES "tagged_propval list list"
  | RESP_CHECK_FOLDER_DELETED bool
  | RESP_GET_FOLDER_BY_NAME u64
  | RESP_CHECK_FOLDER_PERMISSION u32
  | RESP_CREATE_FOLDER_BY_PROPERTIES u64
  | RESP_GET_FOLDER_ALL_PROPTAGS "u32 list"
  | RESP_GET_FOLDER_PROPERTIES "tagged_propval list"
  | RESP_SET_FOLDER_PROPERTIES "property_problem list"
  | RESP_REMOVE_FOLDER_PROPERTIES
  | RESP_DELETE_FOLDER bool
  | RESP_EMPTY_FOLDER bool
  | RESP_CHECK_FOLDER_CYCLE bool
  | RESP_COPY_FOLDER_INTERNAL bool bool
  | RESP_GET_SEARCH_CRITERIA u32 "restriction option" "u64 list"
  | RESP_SET_SEARCH_CRITERIA bool
  | RESP_MOVECOPY_MESSAGE bool
  | RESP_MOVECOPY_MESSAGES bool
  | RESP_MOVECOPY_FOLDER bool bool
  | RESP_DELETE_MESSAGES bool
  | RESP_GET_MESSAGE_BRIEF "message_content option"
  | RESP_SUM_HIERARCHY u32

datatype (plugins only: code) table_response =
    RESP_LOAD_HIERARCHY_TABLE u32 u32
  | RESP_SUM_CONTENT u32
  | RESP_LOAD_CONTENT_TABLE u32 u32
  | RESP_RELOAD_CONTENT_TABLE
  | RESP_LOAD_PERMISSION_TABLE u32 u32
  | RESP_LOAD_RULE_TABLE u32 u32
  | RESP_UNLOAD_TABLE
  | RESP_SUM_TABLE u32
  | RESP_QUERY_TABLE "tagged_propval list list"
  | RESP_MATCH_TABLE u32 "tagged_propval list"
  | RESP_LOCATE_TABLE u32 u32
  | RESP_READ_TABLE_ROW "tagged_propval list"
  | RESP_MARK_TABLE u64 u32 u32
  | RESP_GET_TABLE_ALL_PROPTAGS "u32 list"
  | RESP_EXPAND_TABLE bool u32 u32
  | RESP_COLLAPSE_TABLE bool u32 u32
  | RESP_STORE_TABLE_STATE u32
  | RESP_RESTORE_TABLE_STATE u32

datatype (plugins only: code) instance_response =
    RESP_CHECK_MESSAGE bool
  | RESP_CHECK_MESSAGE_DELETED bool
  | RESP_LOAD_MESSAGE_INSTANCE u32
  | RESP_LOAD_EMBEDDED_INSTANCE u32
  | RESP_GET_EMBEDED_CN "u64 option"
  | RESP_RELOAD_MESSAGE_INSTANCE bool
  | RESP_CLEAR_MESSAGE_INSTANCE
  | RESP_READ_MESSAGE_INSTANCE message_content
  | RESP_WRITE_MESSAGE_INSTANCE "u32 list" "property_problem list"
  | RESP_LOAD_ATTACHMENT_INSTANCE u32
  | RESP_CREATE_ATTACHMENT_INSTANCE u32 u32
  | RESP_READ_ATTACHMENT_INSTANCE attachment_content
  | RESP_WRITE_ATTACHMENT_INSTANCE "property_problem list"
  | RESP_DELETE_MESSAGE_INSTANCE_ATTACHMENT
  | RESP_FLUSH_INSTANCE bool
  | RESP_UNLOAD_INSTANCE
  | RESP_GET_INSTANCE_ALL_PROPTAGS "u32 list"
  | RESP_GET_INSTANCE_PROPERTIES "tagged_propval list"
  | RESP_SET_INSTANCE_PROPERTIES "property_problem list"
  | RESP_REMOVE_INSTANCE_PROPERTIES "property_problem list"
  | RESP_CHECK_INSTANCE_CYCLE bool

datatype (plugins only: code) content_response =
    RESP_EMPTY_MESSAGE_INSTANCE_RCPTS
  | RESP_GET_MESSAGE_INSTANCE_RCPTS_NUM u16
  | RESP_GET_MESSAGE_INSTANCE_RCPTS_ALL_PROPTAGS "u32 list"
  | RESP_GET_MESSAGE_INSTANCE_RCPTS "tagged_propval list list"
  | RESP_UPDATE_MESSAGE_INSTANCE_RCPTS
  | RESP_COPY_INSTANCE_RCPTS bool
  | RESP_EMPTY_MESSAGE_INSTANCE_ATTACHMENTS
  | RESP_GET_MESSAGE_INSTANCE_ATTACHMENTS_NUM u16
  | RESP_GET_MESSAGE_INSTANCE_ATTACHMENT_TABLE_ALL_PROPTAGS "u32 list"
  | RESP_QUERY_MESSAGE_INSTANCE_ATTACHMENT_TABLE "tagged_propval list list"
  | RESP_COPY_INSTANCE_ATTACHMENTS bool
  | RESP_SET_MESSAGE_INSTANCE_CONFLICT

datatype (plugins only: code) message_response =
    RESP_GET_MESSAGE_RCPTS "tagged_propval list list"
  | RESP_GET_MESSAGE_PROPERTIES "tagged_propval list"
  | RESP_SET_MESSAGE_PROPERTIES "property_problem list"
  | RESP_SET_MESSAGE_READ_STATE u64
  | RESP_REMOVE_MESSAGE_PROPERTIES
  | RESP_ALLOCATE_MESSAGE_ID u64
  | RESP_ALLOCATE_CN u64
  | RESP_GET_MESSAGE_GROUP_ID "u32 option"
  | RESP_SET_MESSAGE_GROUP_ID
  | RESP_SAVE_CHANGE_INDICES
  | RESP_GET_CHANGE_INDICES "u32 list" "u32 list"
  | RESP_MARK_MODIFIED
  | RESP_TRY_MARK_SUBMIT bool
  | RESP_CLEAR_SUBMIT
  | RESP_LINK_MESSAGE bool
  | RESP_UNLINK_MESSAGE
  | RESP_RULE_NEW_MESSAGE
  | RESP_SET_MESSAGE_TIMER
  | RESP_GET_MESSAGE_TIMER "u32 option"

datatype (plugins only: code) service_response =
    RESP_EMPTY_FOLDER_PERMISSION
  | RESP_UPDATE_FOLDER_PERMISSION
  | RESP_EMPTY_FOLDER_RULE
  | RESP_UPDATE_FOLDER_RULE bool
  | RESP_DELIVERY_MESSAGE u32
  | RESP_WRITE_MESSAGE bool
  | RESP_READ_MESSAGE "message_content option"
  | RESP_GET_CONTENT_SYNC u32 u64 u32 u64 "u64 list" "u64 list" u64 "u64 list" "u64 list" "u64 list" "u64 list" "u64 list" u64
  | RESP_GET_HIERARCHY_SYNC "tagged_propval list list" u64 "u64 list" "u64 list"
  | RESP_ALLOCATE_IDS u64
  | RESP_SUBSCRIBE_NOTIFICATION u32
  | RESP_UNSUBSCRIBE_NOTIFICATION
  | RESP_TRANSPORT_NEW_MAIL
  | RESP_CHECK_CONTACT_ADDRESS bool
  | RESP_GET_PUBLIC_FOLDER_UNREAD_COUNT u32
  | RESP_UNLOAD_STORE

datatype (plugins only: code) response_payload =
    STORE_RESPONSE store_response
  | FOLDER_RESPONSE folder_response
  | TABLE_RESPONSE table_response
  | INSTANCE_RESPONSE instance_response
  | CONTENT_RESPONSE content_response
  | MESSAGE_RESPONSE message_response
  | SERVICE_RESPONSE service_response

primrec store_response_id :: "store_response \<Rightarrow> u8" where
  "store_response_id RESP_PING_STORE = CALL_ID_PING_STORE"
| "store_response_id (RESP_GET_ALL_NAMED_PROPIDS propids) = CALL_ID_GET_ALL_NAMED_PROPIDS"
| "store_response_id (RESP_GET_NAMED_PROPIDS propids) = CALL_ID_GET_NAMED_PROPIDS"
| "store_response_id (RESP_GET_NAMED_PROPNAMES propnames) = CALL_ID_GET_NAMED_PROPNAMES"
| "store_response_id (RESP_GET_MAPPING_GUID b_found guid) = CALL_ID_GET_MAPPING_GUID"
| "store_response_id (RESP_GET_MAPPING_REPLID b_found replid) = CALL_ID_GET_MAPPING_REPLID"
| "store_response_id (RESP_GET_STORE_ALL_PROPTAGS proptags) = CALL_ID_GET_STORE_ALL_PROPTAGS"
| "store_response_id (RESP_GET_STORE_PROPERTIES propvals) = CALL_ID_GET_STORE_PROPERTIES"
| "store_response_id (RESP_SET_STORE_PROPERTIES problems) = CALL_ID_SET_STORE_PROPERTIES"
| "store_response_id RESP_REMOVE_STORE_PROPERTIES = CALL_ID_REMOVE_STORE_PROPERTIES"
| "store_response_id (RESP_CHECK_MAILBOX_PERMISSION permission) = CALL_ID_CHECK_MAILBOX_PERMISSION"
| "store_response_id (RESP_GET_FOLDER_BY_CLASS eid str_explicit) = CALL_ID_GET_FOLDER_BY_CLASS"
| "store_response_id (RESP_SET_FOLDER_BY_CLASS b_result) = CALL_ID_SET_FOLDER_BY_CLASS"
| "store_response_id (RESP_GET_FOLDER_CLASS_TABLE table) = CALL_ID_GET_FOLDER_CLASS_TABLE"

primrec folder_response_id :: "folder_response \<Rightarrow> u8" where
  "folder_response_id (RESP_CHECK_FOLDER_ID b_exist) = CALL_ID_CHECK_FOLDER_ID"
| "folder_response_id (RESP_QUERY_FOLDER_MESSAGES tset) = CALL_ID_QUERY_FOLDER_MESSAGES"
| "folder_response_id (RESP_CHECK_FOLDER_DELETED b_del) = CALL_ID_CHECK_FOLDER_DELETED"
| "folder_response_id (RESP_GET_FOLDER_BY_NAME folder_id) = CALL_ID_GET_FOLDER_BY_NAME"
| "folder_response_id (RESP_CHECK_FOLDER_PERMISSION permission) = CALL_ID_CHECK_FOLDER_PERMISSION"
| "folder_response_id (RESP_CREATE_FOLDER_BY_PROPERTIES folder_id) = CALL_ID_CREATE_FOLDER_BY_PROPERTIES"
| "folder_response_id (RESP_GET_FOLDER_ALL_PROPTAGS proptags) = CALL_ID_GET_FOLDER_ALL_PROPTAGS"
| "folder_response_id (RESP_GET_FOLDER_PROPERTIES propvals) = CALL_ID_GET_FOLDER_PROPERTIES"
| "folder_response_id (RESP_SET_FOLDER_PROPERTIES problems) = CALL_ID_SET_FOLDER_PROPERTIES"
| "folder_response_id RESP_REMOVE_FOLDER_PROPERTIES = CALL_ID_REMOVE_FOLDER_PROPERTIES"
| "folder_response_id (RESP_DELETE_FOLDER b_result) = CALL_ID_DELETE_FOLDER"
| "folder_response_id (RESP_EMPTY_FOLDER b_partial) = CALL_ID_EMPTY_FOLDER"
| "folder_response_id (RESP_CHECK_FOLDER_CYCLE b_cycle) = CALL_ID_CHECK_FOLDER_CYCLE"
| "folder_response_id (RESP_COPY_FOLDER_INTERNAL b_collid b_partial) = CALL_ID_COPY_FOLDER_INTERNAL"
| "folder_response_id (RESP_GET_SEARCH_CRITERIA search_status prestriction folder_ids) = CALL_ID_GET_SEARCH_CRITERIA"
| "folder_response_id (RESP_SET_SEARCH_CRITERIA b_result) = CALL_ID_SET_SEARCH_CRITERIA"
| "folder_response_id (RESP_MOVECOPY_MESSAGE b_result) = CALL_ID_MOVECOPY_MESSAGE"
| "folder_response_id (RESP_MOVECOPY_MESSAGES b_partial) = CALL_ID_MOVECOPY_MESSAGES"
| "folder_response_id (RESP_MOVECOPY_FOLDER b_exist b_partial) = CALL_ID_MOVECOPY_FOLDER"
| "folder_response_id (RESP_DELETE_MESSAGES b_partial) = CALL_ID_DELETE_MESSAGES"
| "folder_response_id (RESP_GET_MESSAGE_BRIEF pbrief) = CALL_ID_GET_MESSAGE_BRIEF"
| "folder_response_id (RESP_SUM_HIERARCHY count) = CALL_ID_SUM_HIERARCHY"

primrec table_response_id :: "table_response \<Rightarrow> u8" where
  "table_response_id (RESP_LOAD_HIERARCHY_TABLE table_id row_count) = CALL_ID_LOAD_HIERARCHY_TABLE"
| "table_response_id (RESP_SUM_CONTENT count) = CALL_ID_SUM_CONTENT"
| "table_response_id (RESP_LOAD_CONTENT_TABLE table_id row_count) = CALL_ID_LOAD_CONTENT_TABLE"
| "table_response_id RESP_RELOAD_CONTENT_TABLE = CALL_ID_RELOAD_CONTENT_TABLE"
| "table_response_id (RESP_LOAD_PERMISSION_TABLE table_id row_count) = CALL_ID_LOAD_PERMISSION_TABLE"
| "table_response_id (RESP_LOAD_RULE_TABLE table_id row_count) = CALL_ID_LOAD_RULE_TABLE"
| "table_response_id RESP_UNLOAD_TABLE = CALL_ID_UNLOAD_TABLE"
| "table_response_id (RESP_SUM_TABLE rows) = CALL_ID_SUM_TABLE"
| "table_response_id (RESP_QUERY_TABLE tset) = CALL_ID_QUERY_TABLE"
| "table_response_id (RESP_MATCH_TABLE position propvals) = CALL_ID_MATCH_TABLE"
| "table_response_id (RESP_LOCATE_TABLE position row_type) = CALL_ID_LOCATE_TABLE"
| "table_response_id (RESP_READ_TABLE_ROW propvals) = CALL_ID_READ_TABLE_ROW"
| "table_response_id (RESP_MARK_TABLE inst_id inst_num row_type) = CALL_ID_MARK_TABLE"
| "table_response_id (RESP_GET_TABLE_ALL_PROPTAGS proptags) = CALL_ID_GET_TABLE_ALL_PROPTAGS"
| "table_response_id (RESP_EXPAND_TABLE b_found position row_count) = CALL_ID_EXPAND_TABLE"
| "table_response_id (RESP_COLLAPSE_TABLE b_found position row_count) = CALL_ID_COLLAPSE_TABLE"
| "table_response_id (RESP_STORE_TABLE_STATE state_id) = CALL_ID_STORE_TABLE_STATE"
| "table_response_id (RESP_RESTORE_TABLE_STATE position) = CALL_ID_RESTORE_TABLE_STATE"

primrec instance_response_id :: "instance_response \<Rightarrow> u8" where
  "instance_response_id (RESP_CHECK_MESSAGE b_exist) = CALL_ID_CHECK_MESSAGE"
| "instance_response_id (RESP_CHECK_MESSAGE_DELETED b_del) = CALL_ID_CHECK_MESSAGE_DELETED"
| "instance_response_id (RESP_LOAD_MESSAGE_INSTANCE instance_id) = CALL_ID_LOAD_MESSAGE_INSTANCE"
| "instance_response_id (RESP_LOAD_EMBEDDED_INSTANCE instance_id) = CALL_ID_LOAD_EMBEDDED_INSTANCE"
| "instance_response_id (RESP_GET_EMBEDED_CN pcn) = CALL_ID_GET_EMBEDED_CN"
| "instance_response_id (RESP_RELOAD_MESSAGE_INSTANCE b_result) = CALL_ID_RELOAD_MESSAGE_INSTANCE"
| "instance_response_id RESP_CLEAR_MESSAGE_INSTANCE = CALL_ID_CLEAR_MESSAGE_INSTANCE"
| "instance_response_id (RESP_READ_MESSAGE_INSTANCE msgctnt) = CALL_ID_READ_MESSAGE_INSTANCE"
| "instance_response_id (RESP_WRITE_MESSAGE_INSTANCE proptags problems) = CALL_ID_WRITE_MESSAGE_INSTANCE"
| "instance_response_id (RESP_LOAD_ATTACHMENT_INSTANCE instance_id) = CALL_ID_LOAD_ATTACHMENT_INSTANCE"
| "instance_response_id (RESP_CREATE_ATTACHMENT_INSTANCE instance_id attachment_num) = CALL_ID_CREATE_ATTACHMENT_INSTANCE"
| "instance_response_id (RESP_READ_ATTACHMENT_INSTANCE attctnt) = CALL_ID_READ_ATTACHMENT_INSTANCE"
| "instance_response_id (RESP_WRITE_ATTACHMENT_INSTANCE problems) = CALL_ID_WRITE_ATTACHMENT_INSTANCE"
| "instance_response_id RESP_DELETE_MESSAGE_INSTANCE_ATTACHMENT = CALL_ID_DELETE_MESSAGE_INSTANCE_ATTACHMENT"
| "instance_response_id (RESP_FLUSH_INSTANCE b_result) = CALL_ID_FLUSH_INSTANCE"
| "instance_response_id RESP_UNLOAD_INSTANCE = CALL_ID_UNLOAD_INSTANCE"
| "instance_response_id (RESP_GET_INSTANCE_ALL_PROPTAGS proptags) = CALL_ID_GET_INSTANCE_ALL_PROPTAGS"
| "instance_response_id (RESP_GET_INSTANCE_PROPERTIES propvals) = CALL_ID_GET_INSTANCE_PROPERTIES"
| "instance_response_id (RESP_SET_INSTANCE_PROPERTIES problems) = CALL_ID_SET_INSTANCE_PROPERTIES"
| "instance_response_id (RESP_REMOVE_INSTANCE_PROPERTIES problems) = CALL_ID_REMOVE_INSTANCE_PROPERTIES"
| "instance_response_id (RESP_CHECK_INSTANCE_CYCLE b_cycle) = CALL_ID_CHECK_INSTANCE_CYCLE"

primrec content_response_id :: "content_response \<Rightarrow> u8" where
  "content_response_id RESP_EMPTY_MESSAGE_INSTANCE_RCPTS = CALL_ID_EMPTY_MESSAGE_INSTANCE_RCPTS"
| "content_response_id (RESP_GET_MESSAGE_INSTANCE_RCPTS_NUM num) = CALL_ID_GET_MESSAGE_INSTANCE_RCPTS_NUM"
| "content_response_id (RESP_GET_MESSAGE_INSTANCE_RCPTS_ALL_PROPTAGS proptags) = CALL_ID_GET_MESSAGE_INSTANCE_RCPTS_ALL_PROPTAGS"
| "content_response_id (RESP_GET_MESSAGE_INSTANCE_RCPTS tset) = CALL_ID_GET_MESSAGE_INSTANCE_RCPTS"
| "content_response_id RESP_UPDATE_MESSAGE_INSTANCE_RCPTS = CALL_ID_UPDATE_MESSAGE_INSTANCE_RCPTS"
| "content_response_id (RESP_COPY_INSTANCE_RCPTS b_result) = CALL_ID_COPY_INSTANCE_RCPTS"
| "content_response_id RESP_EMPTY_MESSAGE_INSTANCE_ATTACHMENTS = CALL_ID_EMPTY_MESSAGE_INSTANCE_ATTACHMENTS"
| "content_response_id (RESP_GET_MESSAGE_INSTANCE_ATTACHMENTS_NUM num) = CALL_ID_GET_MESSAGE_INSTANCE_ATTACHMENTS_NUM"
| "content_response_id (RESP_GET_MESSAGE_INSTANCE_ATTACHMENT_TABLE_ALL_PROPTAGS proptags) = CALL_ID_GET_MESSAGE_INSTANCE_ATTACHMENT_TABLE_ALL_PROPTAGS"
| "content_response_id (RESP_QUERY_MESSAGE_INSTANCE_ATTACHMENT_TABLE tset) = CALL_ID_QUERY_MESSAGE_INSTANCE_ATTACHMENT_TABLE"
| "content_response_id (RESP_COPY_INSTANCE_ATTACHMENTS b_result) = CALL_ID_COPY_INSTANCE_ATTACHMENTS"
| "content_response_id RESP_SET_MESSAGE_INSTANCE_CONFLICT = CALL_ID_SET_MESSAGE_INSTANCE_CONFLICT"

primrec message_response_id :: "message_response \<Rightarrow> u8" where
  "message_response_id (RESP_GET_MESSAGE_RCPTS tset) = CALL_ID_GET_MESSAGE_RCPTS"
| "message_response_id (RESP_GET_MESSAGE_PROPERTIES propvals) = CALL_ID_GET_MESSAGE_PROPERTIES"
| "message_response_id (RESP_SET_MESSAGE_PROPERTIES problems) = CALL_ID_SET_MESSAGE_PROPERTIES"
| "message_response_id (RESP_SET_MESSAGE_READ_STATE read_cn) = CALL_ID_SET_MESSAGE_READ_STATE"
| "message_response_id RESP_REMOVE_MESSAGE_PROPERTIES = CALL_ID_REMOVE_MESSAGE_PROPERTIES"
| "message_response_id (RESP_ALLOCATE_MESSAGE_ID message_id) = CALL_ID_ALLOCATE_MESSAGE_ID"
| "message_response_id (RESP_ALLOCATE_CN cn) = CALL_ID_ALLOCATE_CN"
| "message_response_id (RESP_GET_MESSAGE_GROUP_ID pgroup_id) = CALL_ID_GET_MESSAGE_GROUP_ID"
| "message_response_id RESP_SET_MESSAGE_GROUP_ID = CALL_ID_SET_MESSAGE_GROUP_ID"
| "message_response_id RESP_SAVE_CHANGE_INDICES = CALL_ID_SAVE_CHANGE_INDICES"
| "message_response_id (RESP_GET_CHANGE_INDICES indices ungroup_proptags) = CALL_ID_GET_CHANGE_INDICES"
| "message_response_id RESP_MARK_MODIFIED = CALL_ID_MARK_MODIFIED"
| "message_response_id (RESP_TRY_MARK_SUBMIT b_marked) = CALL_ID_TRY_MARK_SUBMIT"
| "message_response_id RESP_CLEAR_SUBMIT = CALL_ID_CLEAR_SUBMIT"
| "message_response_id (RESP_LINK_MESSAGE b_result) = CALL_ID_LINK_MESSAGE"
| "message_response_id RESP_UNLINK_MESSAGE = CALL_ID_UNLINK_MESSAGE"
| "message_response_id RESP_RULE_NEW_MESSAGE = CALL_ID_RULE_NEW_MESSAGE"
| "message_response_id RESP_SET_MESSAGE_TIMER = CALL_ID_SET_MESSAGE_TIMER"
| "message_response_id (RESP_GET_MESSAGE_TIMER ptimer_id) = CALL_ID_GET_MESSAGE_TIMER"

primrec service_response_id :: "service_response \<Rightarrow> u8" where
  "service_response_id RESP_EMPTY_FOLDER_PERMISSION = CALL_ID_EMPTY_FOLDER_PERMISSION"
| "service_response_id RESP_UPDATE_FOLDER_PERMISSION = CALL_ID_UPDATE_FOLDER_PERMISSION"
| "service_response_id RESP_EMPTY_FOLDER_RULE = CALL_ID_EMPTY_FOLDER_RULE"
| "service_response_id (RESP_UPDATE_FOLDER_RULE b_exceed) = CALL_ID_UPDATE_FOLDER_RULE"
| "service_response_id (RESP_DELIVERY_MESSAGE result) = CALL_ID_DELIVERY_MESSAGE"
| "service_response_id (RESP_WRITE_MESSAGE b_result) = CALL_ID_WRITE_MESSAGE"
| "service_response_id (RESP_READ_MESSAGE pmsgctnt) = CALL_ID_READ_MESSAGE"
| "service_response_id (RESP_GET_CONTENT_SYNC fai_count fai_total normal_count normal_total updated_mids chg_mids last_cn given_mids deleted_mids nolonger_mids read_mids unread_mids last_readcn) = CALL_ID_GET_CONTENT_SYNC"
| "service_response_id (RESP_GET_HIERARCHY_SYNC fldchgs last_cn given_fids deleted_fids) = CALL_ID_GET_HIERARCHY_SYNC"
| "service_response_id (RESP_ALLOCATE_IDS begin_eid) = CALL_ID_ALLOCATE_IDS"
| "service_response_id (RESP_SUBSCRIBE_NOTIFICATION sub_id) = CALL_ID_SUBSCRIBE_NOTIFICATION"
| "service_response_id RESP_UNSUBSCRIBE_NOTIFICATION = CALL_ID_UNSUBSCRIBE_NOTIFICATION"
| "service_response_id RESP_TRANSPORT_NEW_MAIL = CALL_ID_TRANSPORT_NEW_MAIL"
| "service_response_id (RESP_CHECK_CONTACT_ADDRESS b_found) = CALL_ID_CHECK_CONTACT_ADDRESS"
| "service_response_id (RESP_GET_PUBLIC_FOLDER_UNREAD_COUNT count) = CALL_ID_GET_PUBLIC_FOLDER_UNREAD_COUNT"
| "service_response_id RESP_UNLOAD_STORE = CALL_ID_UNLOAD_STORE"

primrec response_call_id :: "response_payload \<Rightarrow> u8" where
  "response_call_id (STORE_RESPONSE p) = store_response_id p"
| "response_call_id (FOLDER_RESPONSE p) = folder_response_id p"
| "response_call_id (TABLE_RESPONSE p) = table_response_id p"
| "response_call_id (INSTANCE_RESPONSE p) = instance_response_id p"
| "response_call_id (CONTENT_RESPONSE p) = content_response_id p"
| "response_call_id (MESSAGE_RESPONSE p) = message_response_id p"
| "response_call_id (SERVICE_RESPONSE p) = service_response_id p"

end
