(* ===== verification/Exmdb_Request.thy ===== *)
theory Exmdb_Request
  imports Exmdb_Types
begin

text \<open>
  The readers and writers of the requests in \<open>exmdb_ext.c\<close>, call by call, and the two switches
  over the call id in \<open>exmdb_ext_pull_request\<close> and \<open>exmdb_ext_push_request\<close>.

  The union is filled through the member of the call, so the structure is read as a value; a
  member is allocated before it is read where the structure holds a pointer to it.  A call
  without arguments is a label with nothing to read or write.
\<close>

subsection \<open>The store\<close>

definition exmdb_ext_pull_connect_request :: "store_request pull" where
  "exmdb_ext_pull_connect_request =
     bnd ext_buffer_pull_string (\<lambda>prefix.
     bnd ext_buffer_pull_string (\<lambda>remote_id.
     bnd ext_buffer_pull_bool (\<lambda>b_private.
     ret (REQ_CONNECT prefix remote_id b_private))))"

definition exmdb_ext_push_connect_request ::
    "bytes \<Rightarrow> bytes \<Rightarrow> bool \<Rightarrow> push" where
  "exmdb_ext_push_connect_request prefix remote_id b_private =
     seq (ext_buffer_push_string prefix)
    (seq (ext_buffer_push_string remote_id)
         (push_BOOL b_private))"

definition exmdb_ext_pull_listen_notification_request :: "store_request pull" where
  "exmdb_ext_pull_listen_notification_request =
     bnd ext_buffer_pull_string (\<lambda>remote_id.
     ret (REQ_LISTEN_NOTIFICATION remote_id))"

definition exmdb_ext_push_listen_notification_request :: "bytes \<Rightarrow> push" where
  "exmdb_ext_push_listen_notification_request remote_id =
     ext_buffer_push_string remote_id"

definition exmdb_ext_pull_get_named_propids_request :: "store_request pull" where
  "exmdb_ext_pull_get_named_propids_request =
     bnd ext_buffer_pull_bool (\<lambda>b_create.
     bnd (pull_pointer 16 ext_buffer_pull_propname_array) (\<lambda>ppropnames.
     ret (REQ_GET_NAMED_PROPIDS b_create ppropnames)))"

definition exmdb_ext_push_get_named_propids_request ::
    "bool \<Rightarrow> property_name list \<Rightarrow> push" where
  "exmdb_ext_push_get_named_propids_request b_create ppropnames =
     seq (push_BOOL b_create)
         (ext_buffer_push_propname_array ppropnames)"

definition exmdb_ext_pull_get_named_propnames_request :: "store_request pull" where
  "exmdb_ext_pull_get_named_propnames_request =
     bnd (pull_pointer 16 ext_buffer_pull_propid_array) (\<lambda>ppropids.
     ret (REQ_GET_NAMED_PROPNAMES ppropids))"

definition exmdb_ext_push_get_named_propnames_request :: "u16 list \<Rightarrow> push" where
  "exmdb_ext_push_get_named_propnames_request ppropids =
     ext_buffer_push_propid_array ppropids"

definition exmdb_ext_pull_get_mapping_guid_request :: "store_request pull" where
  "exmdb_ext_pull_get_mapping_guid_request =
     bnd ext_buffer_pull_uint16 (\<lambda>replid.
     ret (REQ_GET_MAPPING_GUID replid))"

definition exmdb_ext_push_get_mapping_guid_request :: "u16 \<Rightarrow> push" where
  "exmdb_ext_push_get_mapping_guid_request replid =
     ext_buffer_push_uint16 replid"

definition exmdb_ext_pull_get_mapping_replid_request :: "store_request pull" where
  "exmdb_ext_pull_get_mapping_replid_request =
     bnd ext_buffer_pull_guid (\<lambda>guid.
     ret (REQ_GET_MAPPING_REPLID guid))"

definition exmdb_ext_push_get_mapping_replid_request :: "guid \<Rightarrow> push" where
  "exmdb_ext_push_get_mapping_replid_request guid =
     ext_buffer_push_guid guid"

definition exmdb_ext_pull_get_store_properties_request :: "store_request pull" where
  "exmdb_ext_pull_get_store_properties_request =
     bnd ext_buffer_pull_uint32 (\<lambda>cpid.
     bnd (pull_pointer 16 ext_buffer_pull_proptag_array) (\<lambda>pproptags.
     ret (REQ_GET_STORE_PROPERTIES cpid pproptags)))"

definition exmdb_ext_push_get_store_properties_request ::
    "u32 \<Rightarrow> u32 list \<Rightarrow> push" where
  "exmdb_ext_push_get_store_properties_request cpid pproptags =
     seq (ext_buffer_push_uint32 cpid)
         (ext_buffer_push_proptag_array pproptags)"

definition exmdb_ext_pull_set_store_properties_request :: "store_request pull" where
  "exmdb_ext_pull_set_store_properties_request =
     bnd ext_buffer_pull_uint32 (\<lambda>cpid.
     bnd (pull_pointer 16 ext_buffer_pull_tpropval_array) (\<lambda>ppropvals.
     ret (REQ_SET_STORE_PROPERTIES cpid ppropvals)))"

definition exmdb_ext_push_set_store_properties_request ::
    "u32 \<Rightarrow> tagged_propval list \<Rightarrow> push" where
  "exmdb_ext_push_set_store_properties_request cpid ppropvals =
     seq (ext_buffer_push_uint32 cpid)
         (ext_buffer_push_tpropval_array ppropvals)"

definition exmdb_ext_pull_remove_store_properties_request :: "store_request pull" where
  "exmdb_ext_pull_remove_store_properties_request =
     bnd (pull_pointer 16 ext_buffer_pull_proptag_array) (\<lambda>pproptags.
     ret (REQ_REMOVE_STORE_PROPERTIES pproptags))"

definition exmdb_ext_push_remove_store_properties_request :: "u32 list \<Rightarrow> push" where
  "exmdb_ext_push_remove_store_properties_request pproptags =
     ext_buffer_push_proptag_array pproptags"

definition exmdb_ext_pull_check_mailbox_permission_request :: "store_request pull" where
  "exmdb_ext_pull_check_mailbox_permission_request =
     bnd ext_buffer_pull_string (\<lambda>username.
     ret (REQ_CHECK_MAILBOX_PERMISSION username))"

definition exmdb_ext_push_check_mailbox_permission_request :: "bytes \<Rightarrow> push" where
  "exmdb_ext_push_check_mailbox_permission_request username =
     ext_buffer_push_string username"

definition exmdb_ext_pull_get_folder_by_class_request :: "store_request pull" where
  "exmdb_ext_pull_get_folder_by_class_request =
     bnd ext_buffer_pull_string (\<lambda>str_class.
     ret (REQ_GET_FOLDER_BY_CLASS str_class))"

definition exmdb_ext_push_get_folder_by_class_request :: "bytes \<Rightarrow> push" where
  "exmdb_ext_push_get_folder_by_class_request str_class =
     ext_buffer_push_string str_class"

definition exmdb_ext_pull_set_folder_by_class_request :: "store_request pull" where
  "exmdb_ext_pull_set_folder_by_class_request =
     bnd ext_buffer_pull_uint64 (\<lambda>folder_id.
     bnd ext_buffer_pull_string (\<lambda>str_class.
     ret (REQ_SET_FOLDER_BY_CLASS folder_id str_class)))"

definition exmdb_ext_push_set_folder_by_class_request ::
    "u64 \<Rightarrow> bytes \<Rightarrow> push" where
  "exmdb_ext_push_set_folder_by_class_request folder_id str_class =
     seq (ext_buffer_push_uint64 folder_id)
         (ext_buffer_push_string str_class)"

definition store_request_cases :: "(u8 \<times> store_request pull) list" where
  "store_request_cases =
    [(CALL_ID_CONNECT, exmdb_ext_pull_connect_request),
     (CALL_ID_LISTEN_NOTIFICATION, exmdb_ext_pull_listen_notification_request),
     (CALL_ID_PING_STORE, ret REQ_PING_STORE),
     (CALL_ID_GET_ALL_NAMED_PROPIDS, ret REQ_GET_ALL_NAMED_PROPIDS),
     (CALL_ID_GET_NAMED_PROPIDS, exmdb_ext_pull_get_named_propids_request),
     (CALL_ID_GET_NAMED_PROPNAMES, exmdb_ext_pull_get_named_propnames_request),
     (CALL_ID_GET_MAPPING_GUID, exmdb_ext_pull_get_mapping_guid_request),
     (CALL_ID_GET_MAPPING_REPLID, exmdb_ext_pull_get_mapping_replid_request),
     (CALL_ID_GET_STORE_ALL_PROPTAGS, ret REQ_GET_STORE_ALL_PROPTAGS),
     (CALL_ID_GET_STORE_PROPERTIES, exmdb_ext_pull_get_store_properties_request),
     (CALL_ID_SET_STORE_PROPERTIES, exmdb_ext_pull_set_store_properties_request),
     (CALL_ID_REMOVE_STORE_PROPERTIES, exmdb_ext_pull_remove_store_properties_request),
     (CALL_ID_CHECK_MAILBOX_PERMISSION, exmdb_ext_pull_check_mailbox_permission_request),
     (CALL_ID_GET_FOLDER_BY_CLASS, exmdb_ext_pull_get_folder_by_class_request),
     (CALL_ID_SET_FOLDER_BY_CLASS, exmdb_ext_pull_set_folder_by_class_request),
     (CALL_ID_GET_FOLDER_CLASS_TABLE, ret REQ_GET_FOLDER_CLASS_TABLE)]"

primrec push_store_request :: "store_request \<Rightarrow> push" where
  "push_store_request (REQ_CONNECT prefix remote_id b_private) =
     exmdb_ext_push_connect_request prefix remote_id b_private"
| "push_store_request (REQ_LISTEN_NOTIFICATION remote_id) =
     exmdb_ext_push_listen_notification_request remote_id"
| "push_store_request REQ_PING_STORE = ret ()"
| "push_store_request REQ_GET_ALL_NAMED_PROPIDS = ret ()"
| "push_store_request (REQ_GET_NAMED_PROPIDS b_create ppropnames) =
     exmdb_ext_push_get_named_propids_request b_create ppropnames"
| "push_store_request (REQ_GET_NAMED_PROPNAMES ppropids) =
     exmdb_ext_push_get_named_propnames_request ppropids"
| "push_store_request (REQ_GET_MAPPING_GUID replid) =
     exmdb_ext_push_get_mapping_guid_request replid"
| "push_store_request (REQ_GET_MAPPING_REPLID guid) =
     exmdb_ext_push_get_mapping_replid_request guid"
| "push_store_request REQ_GET_STORE_ALL_PROPTAGS = ret ()"
| "push_store_request (REQ_GET_STORE_PROPERTIES cpid pproptags) =
     exmdb_ext_push_get_store_properties_request cpid pproptags"
| "push_store_request (REQ_SET_STORE_PROPERTIES cpid ppropvals) =
     exmdb_ext_push_set_store_properties_request cpid ppropvals"
| "push_store_request (REQ_REMOVE_STORE_PROPERTIES pproptags) =
     exmdb_ext_push_remove_store_properties_request pproptags"
| "push_store_request (REQ_CHECK_MAILBOX_PERMISSION username) =
     exmdb_ext_push_check_mailbox_permission_request username"
| "push_store_request (REQ_GET_FOLDER_BY_CLASS str_class) =
     exmdb_ext_push_get_folder_by_class_request str_class"
| "push_store_request (REQ_SET_FOLDER_BY_CLASS folder_id str_class) =
     exmdb_ext_push_set_folder_by_class_request folder_id str_class"
| "push_store_request REQ_GET_FOLDER_CLASS_TABLE = ret ()"

subsection \<open>Folders\<close>

definition exmdb_ext_pull_check_folder_id_request :: "folder_request pull" where
  "exmdb_ext_pull_check_folder_id_request =
     bnd ext_buffer_pull_uint64 (\<lambda>folder_id.
     ret (REQ_CHECK_FOLDER_ID folder_id))"

definition exmdb_ext_push_check_folder_id_request :: "u64 \<Rightarrow> push" where
  "exmdb_ext_push_check_folder_id_request folder_id =
     ext_buffer_push_uint64 folder_id"

definition exmdb_ext_pull_query_folder_messages_request :: "folder_request pull" where
  "exmdb_ext_pull_query_folder_messages_request =
     bnd ext_buffer_pull_uint64 (\<lambda>folder_id.
     ret (REQ_QUERY_FOLDER_MESSAGES folder_id))"

definition exmdb_ext_push_query_folder_messages_request :: "u64 \<Rightarrow> push" where
  "exmdb_ext_push_query_folder_messages_request folder_id =
     ext_buffer_push_uint64 folder_id"

definition exmdb_ext_pull_check_folder_deleted_request :: "folder_request pull" where
  "exmdb_ext_pull_check_folder_deleted_request =
     bnd ext_buffer_pull_uint64 (\<lambda>folder_id.
     ret (REQ_CHECK_FOLDER_DELETED folder_id))"

definition exmdb_ext_push_check_folder_deleted_request :: "u64 \<Rightarrow> push" where
  "exmdb_ext_push_check_folder_deleted_request folder_id =
     ext_buffer_push_uint64 folder_id"

definition exmdb_ext_pull_get_folder_by_name_request :: "folder_request pull" where
  "exmdb_ext_pull_get_folder_by_name_request =
     bnd ext_buffer_pull_uint64 (\<lambda>parent_id.
     bnd ext_buffer_pull_string (\<lambda>str_name.
     ret (REQ_GET_FOLDER_BY_NAME parent_id str_name)))"

definition exmdb_ext_push_get_folder_by_name_request ::
    "u64 \<Rightarrow> bytes \<Rightarrow> push" where
  "exmdb_ext_push_get_folder_by_name_request parent_id str_name =
     seq (ext_buffer_push_uint64 parent_id)
         (ext_buffer_push_string str_name)"

definition exmdb_ext_pull_check_folder_permission_request :: "folder_request pull" where
  "exmdb_ext_pull_check_folder_permission_request =
     bnd ext_buffer_pull_uint64 (\<lambda>folder_id.
     bnd ext_buffer_pull_string (\<lambda>username.
     ret (REQ_CHECK_FOLDER_PERMISSION folder_id username)))"

definition exmdb_ext_push_check_folder_permission_request ::
    "u64 \<Rightarrow> bytes \<Rightarrow> push" where
  "exmdb_ext_push_check_folder_permission_request folder_id username =
     seq (ext_buffer_push_uint64 folder_id)
         (ext_buffer_push_string username)"

definition exmdb_ext_pull_create_folder_by_properties_request :: "folder_request pull" where
  "exmdb_ext_pull_create_folder_by_properties_request =
     bnd ext_buffer_pull_uint32 (\<lambda>cpid.
     bnd (pull_pointer 16 ext_buffer_pull_tpropval_array) (\<lambda>pproperties.
     ret (REQ_CREATE_FOLDER_BY_PROPERTIES cpid pproperties)))"

definition exmdb_ext_push_create_folder_by_properties_request ::
    "u32 \<Rightarrow> tagged_propval list \<Rightarrow> push" where
  "exmdb_ext_push_create_folder_by_properties_request cpid pproperties =
     seq (ext_buffer_push_uint32 cpid)
         (ext_buffer_push_tpropval_array pproperties)"

definition exmdb_ext_pull_get_folder_all_proptags_request :: "folder_request pull" where
  "exmdb_ext_pull_get_folder_all_proptags_request =
     bnd ext_buffer_pull_uint64 (\<lambda>folder_id.
     ret (REQ_GET_FOLDER_ALL_PROPTAGS folder_id))"

definition exmdb_ext_push_get_folder_all_proptags_request :: "u64 \<Rightarrow> push" where
  "exmdb_ext_push_get_folder_all_proptags_request folder_id =
     ext_buffer_push_uint64 folder_id"

definition exmdb_ext_pull_get_folder_properties_request :: "folder_request pull" where
  "exmdb_ext_pull_get_folder_properties_request =
     bnd ext_buffer_pull_uint32 (\<lambda>cpid.
     bnd ext_buffer_pull_uint64 (\<lambda>folder_id.
     bnd (pull_pointer 16 ext_buffer_pull_proptag_array) (\<lambda>pproptags.
     ret (REQ_GET_FOLDER_PROPERTIES cpid folder_id pproptags))))"

definition exmdb_ext_push_get_folder_properties_request ::
    "u32 \<Rightarrow> u64 \<Rightarrow> u32 list \<Rightarrow> push" where
  "exmdb_ext_push_get_folder_properties_request cpid folder_id pproptags =
     seq (ext_buffer_push_uint32 cpid)
    (seq (ext_buffer_push_uint64 folder_id)
         (ext_buffer_push_proptag_array pproptags))"

definition exmdb_ext_pull_set_folder_properties_request :: "folder_request pull" where
  "exmdb_ext_pull_set_folder_properties_request =
     bnd ext_buffer_pull_uint32 (\<lambda>cpid.
     bnd ext_buffer_pull_uint64 (\<lambda>folder_id.
     bnd (pull_pointer 16 ext_buffer_pull_tpropval_array) (\<lambda>pproperties.
     ret (REQ_SET_FOLDER_PROPERTIES cpid folder_id pproperties))))"

definition exmdb_ext_push_set_folder_properties_request ::
    "u32 \<Rightarrow> u64 \<Rightarrow> tagged_propval list \<Rightarrow> push" where
  "exmdb_ext_push_set_folder_properties_request cpid folder_id pproperties =
     seq (ext_buffer_push_uint32 cpid)
    (seq (ext_buffer_push_uint64 folder_id)
         (ext_buffer_push_tpropval_array pproperties))"

definition exmdb_ext_pull_remove_folder_properties_request :: "folder_request pull" where
  "exmdb_ext_pull_remove_folder_properties_request =
     bnd ext_buffer_pull_uint64 (\<lambda>folder_id.
     bnd (pull_pointer 16 ext_buffer_pull_proptag_array) (\<lambda>pproptags.
     ret (REQ_REMOVE_FOLDER_PROPERTIES folder_id pproptags)))"

definition exmdb_ext_push_remove_folder_properties_request ::
    "u64 \<Rightarrow> u32 list \<Rightarrow> push" where
  "exmdb_ext_push_remove_folder_properties_request folder_id pproptags =
     seq (ext_buffer_push_uint64 folder_id)
         (ext_buffer_push_proptag_array pproptags)"

definition exmdb_ext_pull_delete_folder_request :: "folder_request pull" where
  "exmdb_ext_pull_delete_folder_request =
     bnd ext_buffer_pull_uint32 (\<lambda>cpid.
     bnd ext_buffer_pull_uint64 (\<lambda>folder_id.
     bnd ext_buffer_pull_bool (\<lambda>b_hard.
     ret (REQ_DELETE_FOLDER cpid folder_id b_hard))))"

definition exmdb_ext_push_delete_folder_request ::
    "u32 \<Rightarrow> u64 \<Rightarrow> bool \<Rightarrow> push" where
  "exmdb_ext_push_delete_folder_request cpid folder_id b_hard =
     seq (ext_buffer_push_uint32 cpid)
    (seq (ext_buffer_push_uint64 folder_id)
         (push_BOOL b_hard))"

definition exmdb_ext_pull_empty_folder_request :: "folder_request pull" where
  "exmdb_ext_pull_empty_folder_request =
     bnd ext_buffer_pull_uint32 (\<lambda>cpid.
     bnd (pull_optional ext_buffer_pull_string) (\<lambda>username.
     bnd ext_buffer_pull_uint64 (\<lambda>folder_id.
     bnd ext_buffer_pull_bool (\<lambda>b_hard.
     bnd ext_buffer_pull_bool (\<lambda>b_normal.
     bnd ext_buffer_pull_bool (\<lambda>b_fai.
     bnd ext_buffer_pull_bool (\<lambda>b_sub.
     ret (REQ_EMPTY_FOLDER cpid username folder_id b_hard b_normal b_fai b_sub))))))))"

definition exmdb_ext_push_empty_folder_request ::
    "u32 \<Rightarrow> bytes option \<Rightarrow> u64 \<Rightarrow> bool \<Rightarrow>
       bool \<Rightarrow> bool \<Rightarrow> bool \<Rightarrow> push" where
  "exmdb_ext_push_empty_folder_request cpid username folder_id b_hard b_normal b_fai b_sub =
     seq (ext_buffer_push_uint32 cpid)
    (seq (push_optional ext_buffer_push_string username)
    (seq (ext_buffer_push_uint64 folder_id)
    (seq (push_BOOL b_hard)
    (seq (push_BOOL b_normal)
    (seq (push_BOOL b_fai)
         (push_BOOL b_sub))))))"

definition exmdb_ext_pull_check_folder_cycle_request :: "folder_request pull" where
  "exmdb_ext_pull_check_folder_cycle_request =
     bnd ext_buffer_pull_uint64 (\<lambda>src_fid.
     bnd ext_buffer_pull_uint64 (\<lambda>dst_fid.
     ret (REQ_CHECK_FOLDER_CYCLE src_fid dst_fid)))"

definition exmdb_ext_push_check_folder_cycle_request ::
    "u64 \<Rightarrow> u64 \<Rightarrow> push" where
  "exmdb_ext_push_check_folder_cycle_request src_fid dst_fid =
     seq (ext_buffer_push_uint64 src_fid)
         (ext_buffer_push_uint64 dst_fid)"

definition exmdb_ext_pull_copy_folder_internal_request :: "folder_request pull" where
  "exmdb_ext_pull_copy_folder_internal_request =
     bnd ext_buffer_pull_uint32 (\<lambda>account_id.
     bnd ext_buffer_pull_uint32 (\<lambda>cpid.
     bnd ext_buffer_pull_bool (\<lambda>b_guest.
     bnd (pull_optional ext_buffer_pull_string) (\<lambda>username.
     bnd ext_buffer_pull_uint64 (\<lambda>src_fid.
     bnd ext_buffer_pull_bool (\<lambda>b_normal.
     bnd ext_buffer_pull_bool (\<lambda>b_fai.
     bnd ext_buffer_pull_bool (\<lambda>b_sub.
     bnd ext_buffer_pull_uint64 (\<lambda>dst_fid.
     ret (REQ_COPY_FOLDER_INTERNAL account_id cpid b_guest username src_fid b_normal b_fai b_sub
       dst_fid))))))))))"

definition exmdb_ext_push_copy_folder_internal_request ::
    "u32 \<Rightarrow> u32 \<Rightarrow> bool \<Rightarrow> bytes option \<Rightarrow>
       u64 \<Rightarrow> bool \<Rightarrow> bool \<Rightarrow> bool \<Rightarrow>
       u64 \<Rightarrow> push" where
  "exmdb_ext_push_copy_folder_internal_request account_id cpid b_guest username src_fid b_normal
       b_fai b_sub dst_fid =
     seq (ext_buffer_push_uint32 account_id)
    (seq (ext_buffer_push_uint32 cpid)
    (seq (push_BOOL b_guest)
    (seq (push_optional ext_buffer_push_string username)
    (seq (ext_buffer_push_uint64 src_fid)
    (seq (push_BOOL b_normal)
    (seq (push_BOOL b_fai)
    (seq (push_BOOL b_sub)
         (ext_buffer_push_uint64 dst_fid))))))))"

definition exmdb_ext_pull_get_search_criteria_request :: "folder_request pull" where
  "exmdb_ext_pull_get_search_criteria_request =
     bnd ext_buffer_pull_uint64 (\<lambda>folder_id.
     ret (REQ_GET_SEARCH_CRITERIA folder_id))"

definition exmdb_ext_push_get_search_criteria_request :: "u64 \<Rightarrow> push" where
  "exmdb_ext_push_get_search_criteria_request folder_id =
     ext_buffer_push_uint64 folder_id"

definition exmdb_ext_pull_set_search_criteria_request :: "folder_request pull" where
  "exmdb_ext_pull_set_search_criteria_request =
     bnd ext_buffer_pull_uint32 (\<lambda>cpid.
     bnd ext_buffer_pull_uint64 (\<lambda>folder_id.
     bnd ext_buffer_pull_uint32 (\<lambda>search_flags.
     bnd (pull_optional (pull_pointer 16 ext_buffer_pull_restriction)) (\<lambda>prestriction.
     bnd (pull_pointer 16 ext_buffer_pull_longlong_array) (\<lambda>pfolder_ids.
     ret (REQ_SET_SEARCH_CRITERIA cpid folder_id search_flags prestriction pfolder_ids))))))"

definition exmdb_ext_push_set_search_criteria_request ::
    "u32 \<Rightarrow> u64 \<Rightarrow> u32 \<Rightarrow> restriction option \<Rightarrow>
       u64 list \<Rightarrow> push" where
  "exmdb_ext_push_set_search_criteria_request cpid folder_id search_flags prestriction pfolder_ids =
     seq (ext_buffer_push_uint32 cpid)
    (seq (ext_buffer_push_uint64 folder_id)
    (seq (ext_buffer_push_uint32 search_flags)
    (seq (push_optional ext_buffer_push_restriction prestriction)
         (ext_buffer_push_longlong_array pfolder_ids))))"

definition exmdb_ext_pull_movecopy_message_request :: "folder_request pull" where
  "exmdb_ext_pull_movecopy_message_request =
     bnd ext_buffer_pull_uint32 (\<lambda>account_id.
     bnd ext_buffer_pull_uint32 (\<lambda>cpid.
     bnd ext_buffer_pull_uint64 (\<lambda>message_id.
     bnd ext_buffer_pull_uint64 (\<lambda>dst_fid.
     bnd ext_buffer_pull_uint64 (\<lambda>dst_id.
     bnd ext_buffer_pull_bool (\<lambda>b_move.
     ret (REQ_MOVECOPY_MESSAGE account_id cpid message_id dst_fid dst_id b_move)))))))"

definition exmdb_ext_push_movecopy_message_request ::
    "u32 \<Rightarrow> u32 \<Rightarrow> u64 \<Rightarrow> u64 \<Rightarrow> u64 \<Rightarrow>
       bool \<Rightarrow> push" where
  "exmdb_ext_push_movecopy_message_request account_id cpid message_id dst_fid dst_id b_move =
     seq (ext_buffer_push_uint32 account_id)
    (seq (ext_buffer_push_uint32 cpid)
    (seq (ext_buffer_push_uint64 message_id)
    (seq (ext_buffer_push_uint64 dst_fid)
    (seq (ext_buffer_push_uint64 dst_id)
         (push_BOOL b_move)))))"

definition exmdb_ext_pull_movecopy_messages_request :: "folder_request pull" where
  "exmdb_ext_pull_movecopy_messages_request =
     bnd ext_buffer_pull_uint32 (\<lambda>account_id.
     bnd ext_buffer_pull_uint32 (\<lambda>cpid.
     bnd ext_buffer_pull_bool (\<lambda>b_guest.
     bnd (pull_optional ext_buffer_pull_string) (\<lambda>username.
     bnd ext_buffer_pull_uint64 (\<lambda>src_fid.
     bnd ext_buffer_pull_uint64 (\<lambda>dst_fid.
     bnd ext_buffer_pull_bool (\<lambda>b_copy.
     bnd (pull_pointer 16 ext_buffer_pull_eid_array) (\<lambda>pmessage_ids.
     ret (REQ_MOVECOPY_MESSAGES account_id cpid b_guest username src_fid dst_fid b_copy
       pmessage_ids)))))))))"

definition exmdb_ext_push_movecopy_messages_request ::
    "u32 \<Rightarrow> u32 \<Rightarrow> bool \<Rightarrow> bytes option \<Rightarrow>
       u64 \<Rightarrow> u64 \<Rightarrow> bool \<Rightarrow> u64 list \<Rightarrow> push" where
  "exmdb_ext_push_movecopy_messages_request account_id cpid b_guest username src_fid dst_fid
       b_copy pmessage_ids =
     seq (ext_buffer_push_uint32 account_id)
    (seq (ext_buffer_push_uint32 cpid)
    (seq (push_BOOL b_guest)
    (seq (push_optional ext_buffer_push_string username)
    (seq (ext_buffer_push_uint64 src_fid)
    (seq (ext_buffer_push_uint64 dst_fid)
    (seq (push_BOOL b_copy)
         (ext_buffer_push_eid_array pmessage_ids)))))))"

definition exmdb_ext_pull_movecopy_folder_request :: "folder_request pull" where
  "exmdb_ext_pull_movecopy_folder_request =
     bnd ext_buffer_pull_uint32 (\<lambda>account_id.
     bnd ext_buffer_pull_uint32 (\<lambda>cpid.
     bnd ext_buffer_pull_bool (\<lambda>b_guest.
     bnd (pull_optional ext_buffer_pull_string) (\<lambda>username.
     bnd ext_buffer_pull_uint64 (\<lambda>src_pid.
     bnd ext_buffer_pull_uint64 (\<lambda>src_fid.
     bnd ext_buffer_pull_uint64 (\<lambda>dst_fid.
     bnd ext_buffer_pull_string (\<lambda>str_new.
     bnd ext_buffer_pull_bool (\<lambda>b_copy.
     ret (REQ_MOVECOPY_FOLDER account_id cpid b_guest username src_pid src_fid dst_fid str_new
       b_copy))))))))))"

definition exmdb_ext_push_movecopy_folder_request ::
    "u32 \<Rightarrow> u32 \<Rightarrow> bool \<Rightarrow> bytes option \<Rightarrow>
       u64 \<Rightarrow> u64 \<Rightarrow> u64 \<Rightarrow> bytes \<Rightarrow>
       bool \<Rightarrow> push" where
  "exmdb_ext_push_movecopy_folder_request account_id cpid b_guest username src_pid src_fid dst_fid
       str_new b_copy =
     seq (ext_buffer_push_uint32 account_id)
    (seq (ext_buffer_push_uint32 cpid)
    (seq (push_BOOL b_guest)
    (seq (push_optional ext_buffer_push_string username)
    (seq (ext_buffer_push_uint64 src_pid)
    (seq (ext_buffer_push_uint64 src_fid)
    (seq (ext_buffer_push_uint64 dst_fid)
    (seq (ext_buffer_push_string str_new)
         (push_BOOL b_copy))))))))"

definition exmdb_ext_pull_delete_messages_request :: "folder_request pull" where
  "exmdb_ext_pull_delete_messages_request =
     bnd ext_buffer_pull_uint32 (\<lambda>account_id.
     bnd ext_buffer_pull_uint32 (\<lambda>cpid.
     bnd (pull_optional ext_buffer_pull_string) (\<lambda>username.
     bnd ext_buffer_pull_uint64 (\<lambda>folder_id.
     bnd (pull_pointer 16 ext_buffer_pull_eid_array) (\<lambda>pmessage_ids.
     bnd ext_buffer_pull_bool (\<lambda>b_hard.
     ret (REQ_DELETE_MESSAGES account_id cpid username folder_id pmessage_ids b_hard)))))))"

definition exmdb_ext_push_delete_messages_request ::
    "u32 \<Rightarrow> u32 \<Rightarrow> bytes option \<Rightarrow> u64 \<Rightarrow>
       u64 list \<Rightarrow> bool \<Rightarrow> push" where
  "exmdb_ext_push_delete_messages_request account_id cpid username folder_id pmessage_ids b_hard =
     seq (ext_buffer_push_uint32 account_id)
    (seq (ext_buffer_push_uint32 cpid)
    (seq (push_optional ext_buffer_push_string username)
    (seq (ext_buffer_push_uint64 folder_id)
    (seq (ext_buffer_push_eid_array pmessage_ids)
         (push_BOOL b_hard)))))"

definition exmdb_ext_pull_get_message_brief_request :: "folder_request pull" where
  "exmdb_ext_pull_get_message_brief_request =
     bnd ext_buffer_pull_uint32 (\<lambda>cpid.
     bnd ext_buffer_pull_uint64 (\<lambda>message_id.
     ret (REQ_GET_MESSAGE_BRIEF cpid message_id)))"

definition exmdb_ext_push_get_message_brief_request ::
    "u32 \<Rightarrow> u64 \<Rightarrow> push" where
  "exmdb_ext_push_get_message_brief_request cpid message_id =
     seq (ext_buffer_push_uint32 cpid)
         (ext_buffer_push_uint64 message_id)"

definition exmdb_ext_pull_sum_hierarchy_request :: "folder_request pull" where
  "exmdb_ext_pull_sum_hierarchy_request =
     bnd ext_buffer_pull_uint64 (\<lambda>folder_id.
     bnd (pull_optional ext_buffer_pull_string) (\<lambda>username.
     bnd ext_buffer_pull_bool (\<lambda>b_depth.
     ret (REQ_SUM_HIERARCHY folder_id username b_depth))))"

definition exmdb_ext_push_sum_hierarchy_request ::
    "u64 \<Rightarrow> bytes option \<Rightarrow> bool \<Rightarrow> push" where
  "exmdb_ext_push_sum_hierarchy_request folder_id username b_depth =
     seq (ext_buffer_push_uint64 folder_id)
    (seq (push_optional ext_buffer_push_string username)
         (push_BOOL b_depth))"

definition folder_request_cases :: "(u8 \<times> folder_request pull) list" where
  "folder_request_cases =
    [(CALL_ID_CHECK_FOLDER_ID, exmdb_ext_pull_check_folder_id_request),
     (CALL_ID_QUERY_FOLDER_MESSAGES, exmdb_ext_pull_query_folder_messages_request),
     (CALL_ID_CHECK_FOLDER_DELETED, exmdb_ext_pull_check_folder_deleted_request),
     (CALL_ID_GET_FOLDER_BY_NAME, exmdb_ext_pull_get_folder_by_name_request),
     (CALL_ID_CHECK_FOLDER_PERMISSION, exmdb_ext_pull_check_folder_permission_request),
     (CALL_ID_CREATE_FOLDER_BY_PROPERTIES, exmdb_ext_pull_create_folder_by_properties_request),
     (CALL_ID_GET_FOLDER_ALL_PROPTAGS, exmdb_ext_pull_get_folder_all_proptags_request),
     (CALL_ID_GET_FOLDER_PROPERTIES, exmdb_ext_pull_get_folder_properties_request),
     (CALL_ID_SET_FOLDER_PROPERTIES, exmdb_ext_pull_set_folder_properties_request),
     (CALL_ID_REMOVE_FOLDER_PROPERTIES, exmdb_ext_pull_remove_folder_properties_request),
     (CALL_ID_DELETE_FOLDER, exmdb_ext_pull_delete_folder_request),
     (CALL_ID_EMPTY_FOLDER, exmdb_ext_pull_empty_folder_request),
     (CALL_ID_CHECK_FOLDER_CYCLE, exmdb_ext_pull_check_folder_cycle_request),
     (CALL_ID_COPY_FOLDER_INTERNAL, exmdb_ext_pull_copy_folder_internal_request),
     (CALL_ID_GET_SEARCH_CRITERIA, exmdb_ext_pull_get_search_criteria_request),
     (CALL_ID_SET_SEARCH_CRITERIA, exmdb_ext_pull_set_search_criteria_request),
     (CALL_ID_MOVECOPY_MESSAGE, exmdb_ext_pull_movecopy_message_request),
     (CALL_ID_MOVECOPY_MESSAGES, exmdb_ext_pull_movecopy_messages_request),
     (CALL_ID_MOVECOPY_FOLDER, exmdb_ext_pull_movecopy_folder_request),
     (CALL_ID_DELETE_MESSAGES, exmdb_ext_pull_delete_messages_request),
     (CALL_ID_GET_MESSAGE_BRIEF, exmdb_ext_pull_get_message_brief_request),
     (CALL_ID_SUM_HIERARCHY, exmdb_ext_pull_sum_hierarchy_request)]"

primrec push_folder_request :: "folder_request \<Rightarrow> push" where
  "push_folder_request (REQ_CHECK_FOLDER_ID folder_id) =
     exmdb_ext_push_check_folder_id_request folder_id"
| "push_folder_request (REQ_QUERY_FOLDER_MESSAGES folder_id) =
     exmdb_ext_push_query_folder_messages_request folder_id"
| "push_folder_request (REQ_CHECK_FOLDER_DELETED folder_id) =
     exmdb_ext_push_check_folder_deleted_request folder_id"
| "push_folder_request (REQ_GET_FOLDER_BY_NAME parent_id str_name) =
     exmdb_ext_push_get_folder_by_name_request parent_id str_name"
| "push_folder_request (REQ_CHECK_FOLDER_PERMISSION folder_id username) =
     exmdb_ext_push_check_folder_permission_request folder_id username"
| "push_folder_request (REQ_CREATE_FOLDER_BY_PROPERTIES cpid pproperties) =
     exmdb_ext_push_create_folder_by_properties_request cpid pproperties"
| "push_folder_request (REQ_GET_FOLDER_ALL_PROPTAGS folder_id) =
     exmdb_ext_push_get_folder_all_proptags_request folder_id"
| "push_folder_request (REQ_GET_FOLDER_PROPERTIES cpid folder_id pproptags) =
     exmdb_ext_push_get_folder_properties_request cpid folder_id pproptags"
| "push_folder_request (REQ_SET_FOLDER_PROPERTIES cpid folder_id pproperties) =
     exmdb_ext_push_set_folder_properties_request cpid folder_id pproperties"
| "push_folder_request (REQ_REMOVE_FOLDER_PROPERTIES folder_id pproptags) =
     exmdb_ext_push_remove_folder_properties_request folder_id pproptags"
| "push_folder_request (REQ_DELETE_FOLDER cpid folder_id b_hard) =
     exmdb_ext_push_delete_folder_request cpid folder_id b_hard"
| "push_folder_request (REQ_EMPTY_FOLDER cpid username folder_id b_hard b_normal b_fai b_sub) =
     exmdb_ext_push_empty_folder_request cpid username folder_id b_hard b_normal b_fai b_sub"
| "push_folder_request (REQ_CHECK_FOLDER_CYCLE src_fid dst_fid) =
     exmdb_ext_push_check_folder_cycle_request src_fid dst_fid"
| "push_folder_request (REQ_COPY_FOLDER_INTERNAL account_id cpid b_guest username src_fid b_normal
       b_fai b_sub dst_fid) =
     exmdb_ext_push_copy_folder_internal_request account_id cpid b_guest username src_fid b_normal
       b_fai b_sub dst_fid"
| "push_folder_request (REQ_GET_SEARCH_CRITERIA folder_id) =
     exmdb_ext_push_get_search_criteria_request folder_id"
| "push_folder_request (REQ_SET_SEARCH_CRITERIA cpid folder_id search_flags prestriction
       pfolder_ids) =
     exmdb_ext_push_set_search_criteria_request cpid folder_id search_flags prestriction
       pfolder_ids"
| "push_folder_request (REQ_MOVECOPY_MESSAGE account_id cpid message_id dst_fid dst_id b_move) =
     exmdb_ext_push_movecopy_message_request account_id cpid message_id dst_fid dst_id b_move"
| "push_folder_request (REQ_MOVECOPY_MESSAGES account_id cpid b_guest username src_fid dst_fid
       b_copy pmessage_ids) =
     exmdb_ext_push_movecopy_messages_request account_id cpid b_guest username src_fid dst_fid
       b_copy pmessage_ids"
| "push_folder_request (REQ_MOVECOPY_FOLDER account_id cpid b_guest username src_pid src_fid dst_fid
       str_new b_copy) =
     exmdb_ext_push_movecopy_folder_request account_id cpid b_guest username src_pid src_fid
       dst_fid str_new b_copy"
| "push_folder_request (REQ_DELETE_MESSAGES account_id cpid username folder_id pmessage_ids b_hard) =
     exmdb_ext_push_delete_messages_request account_id cpid username folder_id pmessage_ids b_hard"
| "push_folder_request (REQ_GET_MESSAGE_BRIEF cpid message_id) =
     exmdb_ext_push_get_message_brief_request cpid message_id"
| "push_folder_request (REQ_SUM_HIERARCHY folder_id username b_depth) =
     exmdb_ext_push_sum_hierarchy_request folder_id username b_depth"

subsection \<open>Tables\<close>

definition exmdb_ext_pull_load_hierarchy_table_request :: "table_request pull" where
  "exmdb_ext_pull_load_hierarchy_table_request =
     bnd ext_buffer_pull_uint64 (\<lambda>folder_id.
     bnd (pull_optional ext_buffer_pull_string) (\<lambda>username.
     bnd ext_buffer_pull_uint8 (\<lambda>table_flags.
     bnd (pull_optional (pull_pointer 16 ext_buffer_pull_restriction)) (\<lambda>prestriction.
     ret (REQ_LOAD_HIERARCHY_TABLE folder_id username table_flags prestriction)))))"

definition exmdb_ext_push_load_hierarchy_table_request ::
    "u64 \<Rightarrow> bytes option \<Rightarrow> u8 \<Rightarrow>
       restriction option \<Rightarrow> push" where
  "exmdb_ext_push_load_hierarchy_table_request folder_id username table_flags prestriction =
     seq (ext_buffer_push_uint64 folder_id)
    (seq (push_optional ext_buffer_push_string username)
    (seq (ext_buffer_push_uint8 table_flags)
         (push_optional ext_buffer_push_restriction prestriction)))"

definition exmdb_ext_pull_sum_content_request :: "table_request pull" where
  "exmdb_ext_pull_sum_content_request =
     bnd ext_buffer_pull_uint64 (\<lambda>folder_id.
     bnd ext_buffer_pull_bool (\<lambda>b_fai.
     bnd ext_buffer_pull_bool (\<lambda>b_deleted.
     ret (REQ_SUM_CONTENT folder_id b_fai b_deleted))))"

definition exmdb_ext_push_sum_content_request ::
    "u64 \<Rightarrow> bool \<Rightarrow> bool \<Rightarrow> push" where
  "exmdb_ext_push_sum_content_request folder_id b_fai b_deleted =
     seq (ext_buffer_push_uint64 folder_id)
    (seq (push_BOOL b_fai)
         (push_BOOL b_deleted))"

definition exmdb_ext_pull_load_content_table_request :: "table_request pull" where
  "exmdb_ext_pull_load_content_table_request =
     bnd ext_buffer_pull_uint32 (\<lambda>cpid.
     bnd ext_buffer_pull_uint64 (\<lambda>folder_id.
     bnd (pull_optional ext_buffer_pull_string) (\<lambda>username.
     bnd ext_buffer_pull_uint8 (\<lambda>table_flags.
     bnd (pull_optional (pull_pointer 16 ext_buffer_pull_restriction)) (\<lambda>prestriction.
     bnd (pull_optional (pull_pointer 16 ext_buffer_pull_sortorder_set)) (\<lambda>psorts.
     ret (REQ_LOAD_CONTENT_TABLE cpid folder_id username table_flags prestriction psorts)))))))"

definition exmdb_ext_push_load_content_table_request ::
    "u32 \<Rightarrow> u64 \<Rightarrow> bytes option \<Rightarrow> u8 \<Rightarrow>
       restriction option \<Rightarrow> sortorder_set option \<Rightarrow> push" where
  "exmdb_ext_push_load_content_table_request cpid folder_id username table_flags prestriction
       psorts =
     seq (ext_buffer_push_uint32 cpid)
    (seq (ext_buffer_push_uint64 folder_id)
    (seq (push_optional ext_buffer_push_string username)
    (seq (ext_buffer_push_uint8 table_flags)
    (seq (push_optional ext_buffer_push_restriction prestriction)
         (push_optional ext_buffer_push_sortorder_set psorts)))))"

definition exmdb_ext_pull_reload_content_table_request :: "table_request pull" where
  "exmdb_ext_pull_reload_content_table_request =
     bnd ext_buffer_pull_uint32 (\<lambda>table_id.
     ret (REQ_RELOAD_CONTENT_TABLE table_id))"

definition exmdb_ext_push_reload_content_table_request :: "u32 \<Rightarrow> push" where
  "exmdb_ext_push_reload_content_table_request table_id =
     ext_buffer_push_uint32 table_id"

definition exmdb_ext_pull_load_permission_table_request :: "table_request pull" where
  "exmdb_ext_pull_load_permission_table_request =
     bnd ext_buffer_pull_uint64 (\<lambda>folder_id.
     bnd ext_buffer_pull_uint8 (\<lambda>table_flags.
     ret (REQ_LOAD_PERMISSION_TABLE folder_id table_flags)))"

definition exmdb_ext_push_load_permission_table_request ::
    "u64 \<Rightarrow> u8 \<Rightarrow> push" where
  "exmdb_ext_push_load_permission_table_request folder_id table_flags =
     seq (ext_buffer_push_uint64 folder_id)
         (ext_buffer_push_uint8 table_flags)"

definition exmdb_ext_pull_load_rule_table_request :: "table_request pull" where
  "exmdb_ext_pull_load_rule_table_request =
     bnd ext_buffer_pull_uint64 (\<lambda>folder_id.
     bnd ext_buffer_pull_uint8 (\<lambda>table_flags.
     bnd (pull_optional (pull_pointer 16 ext_buffer_pull_restriction)) (\<lambda>prestriction.
     ret (REQ_LOAD_RULE_TABLE folder_id table_flags prestriction))))"

definition exmdb_ext_push_load_rule_table_request ::
    "u64 \<Rightarrow> u8 \<Rightarrow> restriction option \<Rightarrow> push" where
  "exmdb_ext_push_load_rule_table_request folder_id table_flags prestriction =
     seq (ext_buffer_push_uint64 folder_id)
    (seq (ext_buffer_push_uint8 table_flags)
         (push_optional ext_buffer_push_restriction prestriction))"

definition exmdb_ext_pull_unload_table_request :: "table_request pull" where
  "exmdb_ext_pull_unload_table_request =
     bnd ext_buffer_pull_uint32 (\<lambda>table_id.
     ret (REQ_UNLOAD_TABLE table_id))"

definition exmdb_ext_push_unload_table_request :: "u32 \<Rightarrow> push" where
  "exmdb_ext_push_unload_table_request table_id =
     ext_buffer_push_uint32 table_id"

definition exmdb_ext_pull_sum_table_request :: "table_request pull" where
  "exmdb_ext_pull_sum_table_request =
     bnd ext_buffer_pull_uint32 (\<lambda>table_id.
     ret (REQ_SUM_TABLE table_id))"

definition exmdb_ext_push_sum_table_request :: "u32 \<Rightarrow> push" where
  "exmdb_ext_push_sum_table_request table_id =
     ext_buffer_push_uint32 table_id"

definition exmdb_ext_pull_query_table_request :: "table_request pull" where
  "exmdb_ext_pull_query_table_request =
     bnd (pull_optional ext_buffer_pull_string) (\<lambda>username.
     bnd ext_buffer_pull_uint32 (\<lambda>cpid.
     bnd ext_buffer_pull_uint32 (\<lambda>table_id.
     bnd (pull_pointer 16 ext_buffer_pull_proptag_array) (\<lambda>pproptags.
     bnd ext_buffer_pull_uint32 (\<lambda>start_pos.
     bnd ext_buffer_pull_int32 (\<lambda>row_needed.
     ret (REQ_QUERY_TABLE username cpid table_id pproptags start_pos row_needed)))))))"

definition exmdb_ext_push_query_table_request ::
    "bytes option \<Rightarrow> u32 \<Rightarrow> u32 \<Rightarrow> u32 list \<Rightarrow>
       u32 \<Rightarrow> u32 \<Rightarrow> push" where
  "exmdb_ext_push_query_table_request username cpid table_id pproptags start_pos row_needed =
     seq (push_optional ext_buffer_push_string username)
    (seq (ext_buffer_push_uint32 cpid)
    (seq (ext_buffer_push_uint32 table_id)
    (seq (ext_buffer_push_proptag_array pproptags)
    (seq (ext_buffer_push_uint32 start_pos)
         (ext_buffer_push_int32 row_needed)))))"

definition exmdb_ext_pull_match_table_request :: "table_request pull" where
  "exmdb_ext_pull_match_table_request =
     bnd (pull_optional ext_buffer_pull_string) (\<lambda>username.
     bnd ext_buffer_pull_uint32 (\<lambda>cpid.
     bnd ext_buffer_pull_uint32 (\<lambda>table_id.
     bnd ext_buffer_pull_bool (\<lambda>b_forward.
     bnd ext_buffer_pull_uint32 (\<lambda>start_pos.
     bnd (pull_pointer 16 ext_buffer_pull_restriction) (\<lambda>pres.
     bnd (pull_pointer 16 ext_buffer_pull_proptag_array) (\<lambda>pproptags.
     ret (REQ_MATCH_TABLE username cpid table_id b_forward start_pos pres pproptags))))))))"

definition exmdb_ext_push_match_table_request ::
    "bytes option \<Rightarrow> u32 \<Rightarrow> u32 \<Rightarrow> bool \<Rightarrow>
       u32 \<Rightarrow> restriction \<Rightarrow> u32 list \<Rightarrow> push" where
  "exmdb_ext_push_match_table_request username cpid table_id b_forward start_pos pres pproptags =
     seq (push_optional ext_buffer_push_string username)
    (seq (ext_buffer_push_uint32 cpid)
    (seq (ext_buffer_push_uint32 table_id)
    (seq (push_BOOL b_forward)
    (seq (ext_buffer_push_uint32 start_pos)
    (seq (ext_buffer_push_restriction pres)
         (ext_buffer_push_proptag_array pproptags))))))"

definition exmdb_ext_pull_locate_table_request :: "table_request pull" where
  "exmdb_ext_pull_locate_table_request =
     bnd ext_buffer_pull_uint32 (\<lambda>table_id.
     bnd ext_buffer_pull_uint64 (\<lambda>inst_id.
     bnd ext_buffer_pull_uint32 (\<lambda>inst_num.
     ret (REQ_LOCATE_TABLE table_id inst_id inst_num))))"

definition exmdb_ext_push_locate_table_request ::
    "u32 \<Rightarrow> u64 \<Rightarrow> u32 \<Rightarrow> push" where
  "exmdb_ext_push_locate_table_request table_id inst_id inst_num =
     seq (ext_buffer_push_uint32 table_id)
    (seq (ext_buffer_push_uint64 inst_id)
         (ext_buffer_push_uint32 inst_num))"

definition exmdb_ext_pull_read_table_row_request :: "table_request pull" where
  "exmdb_ext_pull_read_table_row_request =
     bnd (pull_optional ext_buffer_pull_string) (\<lambda>username.
     bnd ext_buffer_pull_uint32 (\<lambda>cpid.
     bnd ext_buffer_pull_uint32 (\<lambda>table_id.
     bnd (pull_pointer 16 ext_buffer_pull_proptag_array) (\<lambda>pproptags.
     bnd ext_buffer_pull_uint64 (\<lambda>inst_id.
     bnd ext_buffer_pull_uint32 (\<lambda>inst_num.
     ret (REQ_READ_TABLE_ROW username cpid table_id pproptags inst_id inst_num)))))))"

definition exmdb_ext_push_read_table_row_request ::
    "bytes option \<Rightarrow> u32 \<Rightarrow> u32 \<Rightarrow> u32 list \<Rightarrow>
       u64 \<Rightarrow> u32 \<Rightarrow> push" where
  "exmdb_ext_push_read_table_row_request username cpid table_id pproptags inst_id inst_num =
     seq (push_optional ext_buffer_push_string username)
    (seq (ext_buffer_push_uint32 cpid)
    (seq (ext_buffer_push_uint32 table_id)
    (seq (ext_buffer_push_proptag_array pproptags)
    (seq (ext_buffer_push_uint64 inst_id)
         (ext_buffer_push_uint32 inst_num)))))"

definition exmdb_ext_pull_mark_table_request :: "table_request pull" where
  "exmdb_ext_pull_mark_table_request =
     bnd ext_buffer_pull_uint32 (\<lambda>table_id.
     bnd ext_buffer_pull_uint32 (\<lambda>position.
     ret (REQ_MARK_TABLE table_id position)))"

definition exmdb_ext_push_mark_table_request :: "u32 \<Rightarrow> u32 \<Rightarrow> push" where
  "exmdb_ext_push_mark_table_request table_id position =
     seq (ext_buffer_push_uint32 table_id)
         (ext_buffer_push_uint32 position)"

definition exmdb_ext_pull_get_table_all_proptags_request :: "table_request pull" where
  "exmdb_ext_pull_get_table_all_proptags_request =
     bnd ext_buffer_pull_uint32 (\<lambda>table_id.
     ret (REQ_GET_TABLE_ALL_PROPTAGS table_id))"

definition exmdb_ext_push_get_table_all_proptags_request :: "u32 \<Rightarrow> push" where
  "exmdb_ext_push_get_table_all_proptags_request table_id =
     ext_buffer_push_uint32 table_id"

definition exmdb_ext_pull_expand_table_request :: "table_request pull" where
  "exmdb_ext_pull_expand_table_request =
     bnd ext_buffer_pull_uint32 (\<lambda>table_id.
     bnd ext_buffer_pull_uint64 (\<lambda>inst_id.
     ret (REQ_EXPAND_TABLE table_id inst_id)))"

definition exmdb_ext_push_expand_table_request :: "u32 \<Rightarrow> u64 \<Rightarrow> push" where
  "exmdb_ext_push_expand_table_request table_id inst_id =
     seq (ext_buffer_push_uint32 table_id)
         (ext_buffer_push_uint64 inst_id)"

definition exmdb_ext_pull_collapse_table_request :: "table_request pull" where
  "exmdb_ext_pull_collapse_table_request =
     bnd ext_buffer_pull_uint32 (\<lambda>table_id.
     bnd ext_buffer_pull_uint64 (\<lambda>inst_id.
     ret (REQ_COLLAPSE_TABLE table_id inst_id)))"

definition exmdb_ext_push_collapse_table_request :: "u32 \<Rightarrow> u64 \<Rightarrow> push" where
  "exmdb_ext_push_collapse_table_request table_id inst_id =
     seq (ext_buffer_push_uint32 table_id)
         (ext_buffer_push_uint64 inst_id)"

definition exmdb_ext_pull_store_table_state_request :: "table_request pull" where
  "exmdb_ext_pull_store_table_state_request =
     bnd ext_buffer_pull_uint32 (\<lambda>table_id.
     bnd ext_buffer_pull_uint64 (\<lambda>inst_id.
     bnd ext_buffer_pull_uint32 (\<lambda>inst_num.
     ret (REQ_STORE_TABLE_STATE table_id inst_id inst_num))))"

definition exmdb_ext_push_store_table_state_request ::
    "u32 \<Rightarrow> u64 \<Rightarrow> u32 \<Rightarrow> push" where
  "exmdb_ext_push_store_table_state_request table_id inst_id inst_num =
     seq (ext_buffer_push_uint32 table_id)
    (seq (ext_buffer_push_uint64 inst_id)
         (ext_buffer_push_uint32 inst_num))"

definition exmdb_ext_pull_restore_table_state_request :: "table_request pull" where
  "exmdb_ext_pull_restore_table_state_request =
     bnd ext_buffer_pull_uint32 (\<lambda>table_id.
     bnd ext_buffer_pull_uint32 (\<lambda>state_id.
     ret (REQ_RESTORE_TABLE_STATE table_id state_id)))"

definition exmdb_ext_push_restore_table_state_request ::
    "u32 \<Rightarrow> u32 \<Rightarrow> push" where
  "exmdb_ext_push_restore_table_state_request table_id state_id =
     seq (ext_buffer_push_uint32 table_id)
         (ext_buffer_push_uint32 state_id)"

definition table_request_cases :: "(u8 \<times> table_request pull) list" where
  "table_request_cases =
    [(CALL_ID_LOAD_HIERARCHY_TABLE, exmdb_ext_pull_load_hierarchy_table_request),
     (CALL_ID_SUM_CONTENT, exmdb_ext_pull_sum_content_request),
     (CALL_ID_LOAD_CONTENT_TABLE, exmdb_ext_pull_load_content_table_request),
     (CALL_ID_RELOAD_CONTENT_TABLE, exmdb_ext_pull_reload_content_table_request),
     (CALL_ID_LOAD_PERMISSION_TABLE, exmdb_ext_pull_load_permission_table_request),
     (CALL_ID_LOAD_RULE_TABLE, exmdb_ext_pull_load_rule_table_request),
     (CALL_ID_UNLOAD_TABLE, exmdb_ext_pull_unload_table_request),
     (CALL_ID_SUM_TABLE, exmdb_ext_pull_sum_table_request),
     (CALL_ID_QUERY_TABLE, exmdb_ext_pull_query_table_request),
     (CALL_ID_MATCH_TABLE, exmdb_ext_pull_match_table_request),
     (CALL_ID_LOCATE_TABLE, exmdb_ext_pull_locate_table_request),
     (CALL_ID_READ_TABLE_ROW, exmdb_ext_pull_read_table_row_request),
     (CALL_ID_MARK_TABLE, exmdb_ext_pull_mark_table_request),
     (CALL_ID_GET_TABLE_ALL_PROPTAGS, exmdb_ext_pull_get_table_all_proptags_request),
     (CALL_ID_EXPAND_TABLE, exmdb_ext_pull_expand_table_request),
     (CALL_ID_COLLAPSE_TABLE, exmdb_ext_pull_collapse_table_request),
     (CALL_ID_STORE_TABLE_STATE, exmdb_ext_pull_store_table_state_request),
     (CALL_ID_RESTORE_TABLE_STATE, exmdb_ext_pull_restore_table_state_request)]"

primrec push_table_request :: "table_request \<Rightarrow> push" where
  "push_table_request (REQ_LOAD_HIERARCHY_TABLE folder_id username table_flags prestriction) =
     exmdb_ext_push_load_hierarchy_table_request folder_id username table_flags prestriction"
| "push_table_request (REQ_SUM_CONTENT folder_id b_fai b_deleted) =
     exmdb_ext_push_sum_content_request folder_id b_fai b_deleted"
| "push_table_request (REQ_LOAD_CONTENT_TABLE cpid folder_id username table_flags prestriction
       psorts) =
     exmdb_ext_push_load_content_table_request cpid folder_id username table_flags prestriction
       psorts"
| "push_table_request (REQ_RELOAD_CONTENT_TABLE table_id) =
     exmdb_ext_push_reload_content_table_request table_id"
| "push_table_request (REQ_LOAD_PERMISSION_TABLE folder_id table_flags) =
     exmdb_ext_push_load_permission_table_request folder_id table_flags"
| "push_table_request (REQ_LOAD_RULE_TABLE folder_id table_flags prestriction) =
     exmdb_ext_push_load_rule_table_request folder_id table_flags prestriction"
| "push_table_request (REQ_UNLOAD_TABLE table_id) =
     exmdb_ext_push_unload_table_request table_id"
| "push_table_request (REQ_SUM_TABLE table_id) = exmdb_ext_push_sum_table_request table_id"
| "push_table_request (REQ_QUERY_TABLE username cpid table_id pproptags start_pos row_needed) =
     exmdb_ext_push_query_table_request username cpid table_id pproptags start_pos row_needed"
| "push_table_request (REQ_MATCH_TABLE username cpid table_id b_forward start_pos pres pproptags) =
     exmdb_ext_push_match_table_request username cpid table_id b_forward start_pos pres pproptags"
| "push_table_request (REQ_LOCATE_TABLE table_id inst_id inst_num) =
     exmdb_ext_push_locate_table_request table_id inst_id inst_num"
| "push_table_request (REQ_READ_TABLE_ROW username cpid table_id pproptags inst_id inst_num) =
     exmdb_ext_push_read_table_row_request username cpid table_id pproptags inst_id inst_num"
| "push_table_request (REQ_MARK_TABLE table_id position) =
     exmdb_ext_push_mark_table_request table_id position"
| "push_table_request (REQ_GET_TABLE_ALL_PROPTAGS table_id) =
     exmdb_ext_push_get_table_all_proptags_request table_id"
| "push_table_request (REQ_EXPAND_TABLE table_id inst_id) =
     exmdb_ext_push_expand_table_request table_id inst_id"
| "push_table_request (REQ_COLLAPSE_TABLE table_id inst_id) =
     exmdb_ext_push_collapse_table_request table_id inst_id"
| "push_table_request (REQ_STORE_TABLE_STATE table_id inst_id inst_num) =
     exmdb_ext_push_store_table_state_request table_id inst_id inst_num"
| "push_table_request (REQ_RESTORE_TABLE_STATE table_id state_id) =
     exmdb_ext_push_restore_table_state_request table_id state_id"

subsection \<open>Message and attachment instances\<close>

definition exmdb_ext_pull_check_message_request :: "instance_request pull" where
  "exmdb_ext_pull_check_message_request =
     bnd ext_buffer_pull_uint64 (\<lambda>folder_id.
     bnd ext_buffer_pull_uint64 (\<lambda>message_id.
     ret (REQ_CHECK_MESSAGE folder_id message_id)))"

definition exmdb_ext_push_check_message_request :: "u64 \<Rightarrow> u64 \<Rightarrow> push" where
  "exmdb_ext_push_check_message_request folder_id message_id =
     seq (ext_buffer_push_uint64 folder_id)
         (ext_buffer_push_uint64 message_id)"

definition exmdb_ext_pull_check_message_deleted_request :: "instance_request pull" where
  "exmdb_ext_pull_check_message_deleted_request =
     bnd ext_buffer_pull_uint64 (\<lambda>message_id.
     ret (REQ_CHECK_MESSAGE_DELETED message_id))"

definition exmdb_ext_push_check_message_deleted_request :: "u64 \<Rightarrow> push" where
  "exmdb_ext_push_check_message_deleted_request message_id =
     ext_buffer_push_uint64 message_id"

definition exmdb_ext_pull_load_message_instance_request :: "instance_request pull" where
  "exmdb_ext_pull_load_message_instance_request =
     bnd (pull_optional ext_buffer_pull_string) (\<lambda>username.
     bnd ext_buffer_pull_uint32 (\<lambda>cpid.
     bnd ext_buffer_pull_bool (\<lambda>b_new.
     bnd ext_buffer_pull_uint64 (\<lambda>folder_id.
     bnd ext_buffer_pull_uint64 (\<lambda>message_id.
     ret (REQ_LOAD_MESSAGE_INSTANCE username cpid b_new folder_id message_id))))))"

definition exmdb_ext_push_load_message_instance_request ::
    "bytes option \<Rightarrow> u32 \<Rightarrow> bool \<Rightarrow> u64 \<Rightarrow>
       u64 \<Rightarrow> push" where
  "exmdb_ext_push_load_message_instance_request username cpid b_new folder_id message_id =
     seq (push_optional ext_buffer_push_string username)
    (seq (ext_buffer_push_uint32 cpid)
    (seq (push_BOOL b_new)
    (seq (ext_buffer_push_uint64 folder_id)
         (ext_buffer_push_uint64 message_id))))"

definition exmdb_ext_pull_load_embedded_instance_request :: "instance_request pull" where
  "exmdb_ext_pull_load_embedded_instance_request =
     bnd ext_buffer_pull_bool (\<lambda>b_new.
     bnd ext_buffer_pull_uint32 (\<lambda>attachment_instance_id.
     ret (REQ_LOAD_EMBEDDED_INSTANCE b_new attachment_instance_id)))"

definition exmdb_ext_push_load_embedded_instance_request ::
    "bool \<Rightarrow> u32 \<Rightarrow> push" where
  "exmdb_ext_push_load_embedded_instance_request b_new attachment_instance_id =
     seq (push_BOOL b_new)
         (ext_buffer_push_uint32 attachment_instance_id)"

definition exmdb_ext_pull_get_embeded_cn_request :: "instance_request pull" where
  "exmdb_ext_pull_get_embeded_cn_request =
     bnd ext_buffer_pull_uint32 (\<lambda>instance_id.
     ret (REQ_GET_EMBEDED_CN instance_id))"

definition exmdb_ext_push_get_embeded_cn_request :: "u32 \<Rightarrow> push" where
  "exmdb_ext_push_get_embeded_cn_request instance_id =
     ext_buffer_push_uint32 instance_id"

definition exmdb_ext_pull_reload_message_instance_request :: "instance_request pull" where
  "exmdb_ext_pull_reload_message_instance_request =
     bnd ext_buffer_pull_uint32 (\<lambda>instance_id.
     ret (REQ_RELOAD_MESSAGE_INSTANCE instance_id))"

definition exmdb_ext_push_reload_message_instance_request :: "u32 \<Rightarrow> push" where
  "exmdb_ext_push_reload_message_instance_request instance_id =
     ext_buffer_push_uint32 instance_id"

definition exmdb_ext_pull_clear_message_instance_request :: "instance_request pull" where
  "exmdb_ext_pull_clear_message_instance_request =
     bnd ext_buffer_pull_uint32 (\<lambda>instance_id.
     ret (REQ_CLEAR_MESSAGE_INSTANCE instance_id))"

definition exmdb_ext_push_clear_message_instance_request :: "u32 \<Rightarrow> push" where
  "exmdb_ext_push_clear_message_instance_request instance_id =
     ext_buffer_push_uint32 instance_id"

definition exmdb_ext_pull_read_message_instance_request :: "instance_request pull" where
  "exmdb_ext_pull_read_message_instance_request =
     bnd ext_buffer_pull_uint32 (\<lambda>instance_id.
     ret (REQ_READ_MESSAGE_INSTANCE instance_id))"

definition exmdb_ext_push_read_message_instance_request :: "u32 \<Rightarrow> push" where
  "exmdb_ext_push_read_message_instance_request instance_id =
     ext_buffer_push_uint32 instance_id"

definition exmdb_ext_pull_write_message_instance_request :: "instance_request pull" where
  "exmdb_ext_pull_write_message_instance_request =
     bnd ext_buffer_pull_uint32 (\<lambda>instance_id.
     bnd (pull_pointer 32 ext_buffer_pull_message_content) (\<lambda>pmsgctnt.
     bnd ext_buffer_pull_bool (\<lambda>b_force.
     ret (REQ_WRITE_MESSAGE_INSTANCE instance_id pmsgctnt b_force))))"

definition exmdb_ext_push_write_message_instance_request ::
    "u32 \<Rightarrow> message_content \<Rightarrow> bool \<Rightarrow> push" where
  "exmdb_ext_push_write_message_instance_request instance_id pmsgctnt b_force =
     seq (ext_buffer_push_uint32 instance_id)
    (seq (ext_buffer_push_message_content pmsgctnt)
         (push_BOOL b_force))"

definition exmdb_ext_pull_load_attachment_instance_request :: "instance_request pull" where
  "exmdb_ext_pull_load_attachment_instance_request =
     bnd ext_buffer_pull_uint32 (\<lambda>message_instance_id.
     bnd ext_buffer_pull_uint32 (\<lambda>attachment_num.
     ret (REQ_LOAD_ATTACHMENT_INSTANCE message_instance_id attachment_num)))"

definition exmdb_ext_push_load_attachment_instance_request ::
    "u32 \<Rightarrow> u32 \<Rightarrow> push" where
  "exmdb_ext_push_load_attachment_instance_request message_instance_id attachment_num =
     seq (ext_buffer_push_uint32 message_instance_id)
         (ext_buffer_push_uint32 attachment_num)"

definition exmdb_ext_pull_create_attachment_instance_request :: "instance_request pull" where
  "exmdb_ext_pull_create_attachment_instance_request =
     bnd ext_buffer_pull_uint32 (\<lambda>message_instance_id.
     ret (REQ_CREATE_ATTACHMENT_INSTANCE message_instance_id))"

definition exmdb_ext_push_create_attachment_instance_request :: "u32 \<Rightarrow> push" where
  "exmdb_ext_push_create_attachment_instance_request message_instance_id =
     ext_buffer_push_uint32 message_instance_id"

definition exmdb_ext_pull_read_attachment_instance_request :: "instance_request pull" where
  "exmdb_ext_pull_read_attachment_instance_request =
     bnd ext_buffer_pull_uint32 (\<lambda>instance_id.
     ret (REQ_READ_ATTACHMENT_INSTANCE instance_id))"

definition exmdb_ext_push_read_attachment_instance_request :: "u32 \<Rightarrow> push" where
  "exmdb_ext_push_read_attachment_instance_request instance_id =
     ext_buffer_push_uint32 instance_id"

definition exmdb_ext_pull_write_attachment_instance_request :: "instance_request pull" where
  "exmdb_ext_pull_write_attachment_instance_request =
     bnd ext_buffer_pull_uint32 (\<lambda>instance_id.
     bnd (pull_alloc 24) (\<lambda>_.
     bnd ext_buffer_pull_tpropval_array (\<lambda>pattctnt_proplist.
     bnd (pull_optional (pull_pointer 32 ext_buffer_pull_message_content))
       (\<lambda>pattctnt_pembedded.
     bnd ext_buffer_pull_bool (\<lambda>b_force.
     ret (REQ_WRITE_ATTACHMENT_INSTANCE instance_id (ATTACHMENT_CONTENT pattctnt_proplist
       pattctnt_pembedded) b_force))))))"

definition exmdb_ext_push_write_attachment_instance_request ::
    "u32 \<Rightarrow> attachment_content \<Rightarrow> bool \<Rightarrow> push" where
  "exmdb_ext_push_write_attachment_instance_request instance_id pattctnt b_force =
     seq (ext_buffer_push_uint32 instance_id)
    (seq (ext_buffer_push_tpropval_array (ac_proplist pattctnt))
    (seq (push_optional ext_buffer_push_message_content (ac_pembedded pattctnt))
         (push_BOOL b_force)))"

definition exmdb_ext_pull_delete_message_instance_attachment_request ::
    "instance_request pull" where
  "exmdb_ext_pull_delete_message_instance_attachment_request =
     bnd ext_buffer_pull_uint32 (\<lambda>message_instance_id.
     bnd ext_buffer_pull_uint32 (\<lambda>attachment_num.
     ret (REQ_DELETE_MESSAGE_INSTANCE_ATTACHMENT message_instance_id attachment_num)))"

definition exmdb_ext_push_delete_message_instance_attachment_request ::
    "u32 \<Rightarrow> u32 \<Rightarrow> push" where
  "exmdb_ext_push_delete_message_instance_attachment_request message_instance_id attachment_num =
     seq (ext_buffer_push_uint32 message_instance_id)
         (ext_buffer_push_uint32 attachment_num)"

definition exmdb_ext_pull_flush_instance_request :: "instance_request pull" where
  "exmdb_ext_pull_flush_instance_request =
     bnd ext_buffer_pull_uint32 (\<lambda>instance_id.
     bnd (pull_optional ext_buffer_pull_string) (\<lambda>account.
     ret (REQ_FLUSH_INSTANCE instance_id account)))"

definition exmdb_ext_push_flush_instance_request ::
    "u32 \<Rightarrow> bytes option \<Rightarrow> push" where
  "exmdb_ext_push_flush_instance_request instance_id account =
     seq (ext_buffer_push_uint32 instance_id)
         (push_optional ext_buffer_push_string account)"

definition exmdb_ext_pull_unload_instance_request :: "instance_request pull" where
  "exmdb_ext_pull_unload_instance_request =
     bnd ext_buffer_pull_uint32 (\<lambda>instance_id.
     ret (REQ_UNLOAD_INSTANCE instance_id))"

definition exmdb_ext_push_unload_instance_request :: "u32 \<Rightarrow> push" where
  "exmdb_ext_push_unload_instance_request instance_id =
     ext_buffer_push_uint32 instance_id"

definition exmdb_ext_pull_get_instance_all_proptags_request :: "instance_request pull" where
  "exmdb_ext_pull_get_instance_all_proptags_request =
     bnd ext_buffer_pull_uint32 (\<lambda>instance_id.
     ret (REQ_GET_INSTANCE_ALL_PROPTAGS instance_id))"

definition exmdb_ext_push_get_instance_all_proptags_request :: "u32 \<Rightarrow> push" where
  "exmdb_ext_push_get_instance_all_proptags_request instance_id =
     ext_buffer_push_uint32 instance_id"

definition exmdb_ext_pull_get_instance_properties_request :: "instance_request pull" where
  "exmdb_ext_pull_get_instance_properties_request =
     bnd ext_buffer_pull_uint32 (\<lambda>size_limit.
     bnd ext_buffer_pull_uint32 (\<lambda>instance_id.
     bnd (pull_pointer 16 ext_buffer_pull_proptag_array) (\<lambda>pproptags.
     ret (REQ_GET_INSTANCE_PROPERTIES size_limit instance_id pproptags))))"

definition exmdb_ext_push_get_instance_properties_request ::
    "u32 \<Rightarrow> u32 \<Rightarrow> u32 list \<Rightarrow> push" where
  "exmdb_ext_push_get_instance_properties_request size_limit instance_id pproptags =
     seq (ext_buffer_push_uint32 size_limit)
    (seq (ext_buffer_push_uint32 instance_id)
         (ext_buffer_push_proptag_array pproptags))"

definition exmdb_ext_pull_set_instance_properties_request :: "instance_request pull" where
  "exmdb_ext_pull_set_instance_properties_request =
     bnd ext_buffer_pull_uint32 (\<lambda>instance_id.
     bnd (pull_pointer 16 ext_buffer_pull_tpropval_array) (\<lambda>pproperties.
     ret (REQ_SET_INSTANCE_PROPERTIES instance_id pproperties)))"

definition exmdb_ext_push_set_instance_properties_request ::
    "u32 \<Rightarrow> tagged_propval list \<Rightarrow> push" where
  "exmdb_ext_push_set_instance_properties_request instance_id pproperties =
     seq (ext_buffer_push_uint32 instance_id)
         (ext_buffer_push_tpropval_array pproperties)"

definition exmdb_ext_pull_remove_instance_properties_request :: "instance_request pull" where
  "exmdb_ext_pull_remove_instance_properties_request =
     bnd ext_buffer_pull_uint32 (\<lambda>instance_id.
     bnd (pull_pointer 16 ext_buffer_pull_proptag_array) (\<lambda>pproptags.
     ret (REQ_REMOVE_INSTANCE_PROPERTIES instance_id pproptags)))"

definition exmdb_ext_push_remove_instance_properties_request ::
    "u32 \<Rightarrow> u32 list \<Rightarrow> push" where
  "exmdb_ext_push_remove_instance_properties_request instance_id pproptags =
     seq (ext_buffer_push_uint32 instance_id)
         (ext_buffer_push_proptag_array pproptags)"

definition exmdb_ext_pull_check_instance_cycle_request :: "instance_request pull" where
  "exmdb_ext_pull_check_instance_cycle_request =
     bnd ext_buffer_pull_uint32 (\<lambda>src_instance_id.
     bnd ext_buffer_pull_uint32 (\<lambda>dst_instance_id.
     ret (REQ_CHECK_INSTANCE_CYCLE src_instance_id dst_instance_id)))"

definition exmdb_ext_push_check_instance_cycle_request ::
    "u32 \<Rightarrow> u32 \<Rightarrow> push" where
  "exmdb_ext_push_check_instance_cycle_request src_instance_id dst_instance_id =
     seq (ext_buffer_push_uint32 src_instance_id)
         (ext_buffer_push_uint32 dst_instance_id)"

definition instance_request_cases :: "(u8 \<times> instance_request pull) list" where
  "instance_request_cases =
    [(CALL_ID_CHECK_MESSAGE, exmdb_ext_pull_check_message_request),
     (CALL_ID_CHECK_MESSAGE_DELETED, exmdb_ext_pull_check_message_deleted_request),
     (CALL_ID_LOAD_MESSAGE_INSTANCE, exmdb_ext_pull_load_message_instance_request),
     (CALL_ID_LOAD_EMBEDDED_INSTANCE, exmdb_ext_pull_load_embedded_instance_request),
     (CALL_ID_GET_EMBEDED_CN, exmdb_ext_pull_get_embeded_cn_request),
     (CALL_ID_RELOAD_MESSAGE_INSTANCE, exmdb_ext_pull_reload_message_instance_request),
     (CALL_ID_CLEAR_MESSAGE_INSTANCE, exmdb_ext_pull_clear_message_instance_request),
     (CALL_ID_READ_MESSAGE_INSTANCE, exmdb_ext_pull_read_message_instance_request),
     (CALL_ID_WRITE_MESSAGE_INSTANCE, exmdb_ext_pull_write_message_instance_request),
     (CALL_ID_LOAD_ATTACHMENT_INSTANCE, exmdb_ext_pull_load_attachment_instance_request),
     (CALL_ID_CREATE_ATTACHMENT_INSTANCE, exmdb_ext_pull_create_attachment_instance_request),
     (CALL_ID_READ_ATTACHMENT_INSTANCE, exmdb_ext_pull_read_attachment_instance_request),
     (CALL_ID_WRITE_ATTACHMENT_INSTANCE, exmdb_ext_pull_write_attachment_instance_request),
     (CALL_ID_DELETE_MESSAGE_INSTANCE_ATTACHMENT, exmdb_ext_pull_delete_message_instance_attachment_request),
     (CALL_ID_FLUSH_INSTANCE, exmdb_ext_pull_flush_instance_request),
     (CALL_ID_UNLOAD_INSTANCE, exmdb_ext_pull_unload_instance_request),
     (CALL_ID_GET_INSTANCE_ALL_PROPTAGS, exmdb_ext_pull_get_instance_all_proptags_request),
     (CALL_ID_GET_INSTANCE_PROPERTIES, exmdb_ext_pull_get_instance_properties_request),
     (CALL_ID_SET_INSTANCE_PROPERTIES, exmdb_ext_pull_set_instance_properties_request),
     (CALL_ID_REMOVE_INSTANCE_PROPERTIES, exmdb_ext_pull_remove_instance_properties_request),
     (CALL_ID_CHECK_INSTANCE_CYCLE, exmdb_ext_pull_check_instance_cycle_request)]"

primrec push_instance_request :: "instance_request \<Rightarrow> push" where
  "push_instance_request (REQ_CHECK_MESSAGE folder_id message_id) =
     exmdb_ext_push_check_message_request folder_id message_id"
| "push_instance_request (REQ_CHECK_MESSAGE_DELETED message_id) =
     exmdb_ext_push_check_message_deleted_request message_id"
| "push_instance_request (REQ_LOAD_MESSAGE_INSTANCE username cpid b_new folder_id message_id) =
     exmdb_ext_push_load_message_instance_request username cpid b_new folder_id message_id"
| "push_instance_request (REQ_LOAD_EMBEDDED_INSTANCE b_new attachment_instance_id) =
     exmdb_ext_push_load_embedded_instance_request b_new attachment_instance_id"
| "push_instance_request (REQ_GET_EMBEDED_CN instance_id) =
     exmdb_ext_push_get_embeded_cn_request instance_id"
| "push_instance_request (REQ_RELOAD_MESSAGE_INSTANCE instance_id) =
     exmdb_ext_push_reload_message_instance_request instance_id"
| "push_instance_request (REQ_CLEAR_MESSAGE_INSTANCE instance_id) =
     exmdb_ext_push_clear_message_instance_request instance_id"
| "push_instance_request (REQ_READ_MESSAGE_INSTANCE instance_id) =
     exmdb_ext_push_read_message_instance_request instance_id"
| "push_instance_request (REQ_WRITE_MESSAGE_INSTANCE instance_id pmsgctnt b_force) =
     exmdb_ext_push_write_message_instance_request instance_id pmsgctnt b_force"
| "push_instance_request (REQ_LOAD_ATTACHMENT_INSTANCE message_instance_id attachment_num) =
     exmdb_ext_push_load_attachment_instance_request message_instance_id attachment_num"
| "push_instance_request (REQ_CREATE_ATTACHMENT_INSTANCE message_instance_id) =
     exmdb_ext_push_create_attachment_instance_request message_instance_id"
| "push_instance_request (REQ_READ_ATTACHMENT_INSTANCE instance_id) =
     exmdb_ext_push_read_attachment_instance_request instance_id"
| "push_instance_request (REQ_WRITE_ATTACHMENT_INSTANCE instance_id pattctnt b_force) =
     exmdb_ext_push_write_attachment_instance_request instance_id pattctnt b_force"
| "push_instance_request (REQ_DELETE_MESSAGE_INSTANCE_ATTACHMENT message_instance_id attachment_num) =
     exmdb_ext_push_delete_message_instance_attachment_request message_instance_id attachment_num"
| "push_instance_request (REQ_FLUSH_INSTANCE instance_id account) =
     exmdb_ext_push_flush_instance_request instance_id account"
| "push_instance_request (REQ_UNLOAD_INSTANCE instance_id) =
     exmdb_ext_push_unload_instance_request instance_id"
| "push_instance_request (REQ_GET_INSTANCE_ALL_PROPTAGS instance_id) =
     exmdb_ext_push_get_instance_all_proptags_request instance_id"
| "push_instance_request (REQ_GET_INSTANCE_PROPERTIES size_limit instance_id pproptags) =
     exmdb_ext_push_get_instance_properties_request size_limit instance_id pproptags"
| "push_instance_request (REQ_SET_INSTANCE_PROPERTIES instance_id pproperties) =
     exmdb_ext_push_set_instance_properties_request instance_id pproperties"
| "push_instance_request (REQ_REMOVE_INSTANCE_PROPERTIES instance_id pproptags) =
     exmdb_ext_push_remove_instance_properties_request instance_id pproptags"
| "push_instance_request (REQ_CHECK_INSTANCE_CYCLE src_instance_id dst_instance_id) =
     exmdb_ext_push_check_instance_cycle_request src_instance_id dst_instance_id"

subsection \<open>Recipients and attachments of an instance\<close>

definition exmdb_ext_pull_empty_message_instance_rcpts_request :: "content_request pull" where
  "exmdb_ext_pull_empty_message_instance_rcpts_request =
     bnd ext_buffer_pull_uint32 (\<lambda>instance_id.
     ret (REQ_EMPTY_MESSAGE_INSTANCE_RCPTS instance_id))"

definition exmdb_ext_push_empty_message_instance_rcpts_request :: "u32 \<Rightarrow> push" where
  "exmdb_ext_push_empty_message_instance_rcpts_request instance_id =
     ext_buffer_push_uint32 instance_id"

definition exmdb_ext_pull_get_message_instance_rcpts_num_request :: "content_request pull" where
  "exmdb_ext_pull_get_message_instance_rcpts_num_request =
     bnd ext_buffer_pull_uint32 (\<lambda>instance_id.
     ret (REQ_GET_MESSAGE_INSTANCE_RCPTS_NUM instance_id))"

definition exmdb_ext_push_get_message_instance_rcpts_num_request :: "u32 \<Rightarrow> push" where
  "exmdb_ext_push_get_message_instance_rcpts_num_request instance_id =
     ext_buffer_push_uint32 instance_id"

definition exmdb_ext_pull_get_message_instance_rcpts_all_proptags_request ::
    "content_request pull" where
  "exmdb_ext_pull_get_message_instance_rcpts_all_proptags_request =
     bnd ext_buffer_pull_uint32 (\<lambda>instance_id.
     ret (REQ_GET_MESSAGE_INSTANCE_RCPTS_ALL_PROPTAGS instance_id))"

definition exmdb_ext_push_get_message_instance_rcpts_all_proptags_request ::
    "u32 \<Rightarrow> push" where
  "exmdb_ext_push_get_message_instance_rcpts_all_proptags_request instance_id =
     ext_buffer_push_uint32 instance_id"

definition exmdb_ext_pull_get_message_instance_rcpts_request :: "content_request pull" where
  "exmdb_ext_pull_get_message_instance_rcpts_request =
     bnd ext_buffer_pull_uint32 (\<lambda>instance_id.
     bnd ext_buffer_pull_uint32 (\<lambda>row_id.
     bnd ext_buffer_pull_uint16 (\<lambda>need_count.
     ret (REQ_GET_MESSAGE_INSTANCE_RCPTS instance_id row_id need_count))))"

definition exmdb_ext_push_get_message_instance_rcpts_request ::
    "u32 \<Rightarrow> u32 \<Rightarrow> u16 \<Rightarrow> push" where
  "exmdb_ext_push_get_message_instance_rcpts_request instance_id row_id need_count =
     seq (ext_buffer_push_uint32 instance_id)
    (seq (ext_buffer_push_uint32 row_id)
         (ext_buffer_push_uint16 need_count))"

definition exmdb_ext_pull_update_message_instance_rcpts_request :: "content_request pull" where
  "exmdb_ext_pull_update_message_instance_rcpts_request =
     bnd ext_buffer_pull_uint32 (\<lambda>instance_id.
     bnd (pull_pointer 16 ext_buffer_pull_tarray_set) (\<lambda>pset.
     ret (REQ_UPDATE_MESSAGE_INSTANCE_RCPTS instance_id pset)))"

definition exmdb_ext_push_update_message_instance_rcpts_request ::
    "u32 \<Rightarrow> tagged_propval list list \<Rightarrow> push" where
  "exmdb_ext_push_update_message_instance_rcpts_request instance_id pset =
     seq (ext_buffer_push_uint32 instance_id)
         (ext_buffer_push_tarray_set pset)"

definition exmdb_ext_pull_copy_instance_rcpts_request :: "content_request pull" where
  "exmdb_ext_pull_copy_instance_rcpts_request =
     bnd ext_buffer_pull_bool (\<lambda>b_force.
     bnd ext_buffer_pull_uint32 (\<lambda>src_instance_id.
     bnd ext_buffer_pull_uint32 (\<lambda>dst_instance_id.
     ret (REQ_COPY_INSTANCE_RCPTS b_force src_instance_id dst_instance_id))))"

definition exmdb_ext_push_copy_instance_rcpts_request ::
    "bool \<Rightarrow> u32 \<Rightarrow> u32 \<Rightarrow> push" where
  "exmdb_ext_push_copy_instance_rcpts_request b_force src_instance_id dst_instance_id =
     seq (push_BOOL b_force)
    (seq (ext_buffer_push_uint32 src_instance_id)
         (ext_buffer_push_uint32 dst_instance_id))"

definition exmdb_ext_pull_empty_message_instance_attachments_request :: "content_request pull" where
  "exmdb_ext_pull_empty_message_instance_attachments_request =
     bnd ext_buffer_pull_uint32 (\<lambda>instance_id.
     ret (REQ_EMPTY_MESSAGE_INSTANCE_ATTACHMENTS instance_id))"

definition exmdb_ext_push_empty_message_instance_attachments_request ::
    "u32 \<Rightarrow> push" where
  "exmdb_ext_push_empty_message_instance_attachments_request instance_id =
     ext_buffer_push_uint32 instance_id"

definition exmdb_ext_pull_get_message_instance_attachments_num_request ::
    "content_request pull" where
  "exmdb_ext_pull_get_message_instance_attachments_num_request =
     bnd ext_buffer_pull_uint32 (\<lambda>instance_id.
     ret (REQ_GET_MESSAGE_INSTANCE_ATTACHMENTS_NUM instance_id))"

definition exmdb_ext_push_get_message_instance_attachments_num_request ::
    "u32 \<Rightarrow> push" where
  "exmdb_ext_push_get_message_instance_attachments_num_request instance_id =
     ext_buffer_push_uint32 instance_id"

definition exmdb_ext_pull_get_message_instance_attachment_table_all_proptags_request ::
    "content_request pull" where
  "exmdb_ext_pull_get_message_instance_attachment_table_all_proptags_request =
     bnd ext_buffer_pull_uint32 (\<lambda>instance_id.
     ret (REQ_GET_MESSAGE_INSTANCE_ATTACHMENT_TABLE_ALL_PROPTAGS instance_id))"

definition exmdb_ext_push_get_message_instance_attachment_table_all_proptags_request ::
    "u32 \<Rightarrow> push" where
  "exmdb_ext_push_get_message_instance_attachment_table_all_proptags_request instance_id =
     ext_buffer_push_uint32 instance_id"

definition exmdb_ext_pull_query_message_instance_attachment_table_request ::
    "content_request pull" where
  "exmdb_ext_pull_query_message_instance_attachment_table_request =
     bnd ext_buffer_pull_uint32 (\<lambda>instance_id.
     bnd (pull_pointer 16 ext_buffer_pull_proptag_array) (\<lambda>pproptags.
     bnd ext_buffer_pull_uint32 (\<lambda>start_pos.
     bnd ext_buffer_pull_int32 (\<lambda>row_needed.
     ret (REQ_QUERY_MESSAGE_INSTANCE_ATTACHMENT_TABLE instance_id pproptags start_pos
       row_needed)))))"

definition exmdb_ext_push_query_message_instance_attachment_table_request ::
    "u32 \<Rightarrow> u32 list \<Rightarrow> u32 \<Rightarrow> u32 \<Rightarrow> push" where
  "exmdb_ext_push_query_message_instance_attachment_table_request instance_id pproptags start_pos
       row_needed =
     seq (ext_buffer_push_uint32 instance_id)
    (seq (ext_buffer_push_proptag_array pproptags)
    (seq (ext_buffer_push_uint32 start_pos)
         (ext_buffer_push_int32 row_needed)))"

definition exmdb_ext_pull_copy_instance_attachments_request :: "content_request pull" where
  "exmdb_ext_pull_copy_instance_attachments_request =
     bnd ext_buffer_pull_bool (\<lambda>b_force.
     bnd ext_buffer_pull_uint32 (\<lambda>src_instance_id.
     bnd ext_buffer_pull_uint32 (\<lambda>dst_instance_id.
     ret (REQ_COPY_INSTANCE_ATTACHMENTS b_force src_instance_id dst_instance_id))))"

definition exmdb_ext_push_copy_instance_attachments_request ::
    "bool \<Rightarrow> u32 \<Rightarrow> u32 \<Rightarrow> push" where
  "exmdb_ext_push_copy_instance_attachments_request b_force src_instance_id dst_instance_id =
     seq (push_BOOL b_force)
    (seq (ext_buffer_push_uint32 src_instance_id)
         (ext_buffer_push_uint32 dst_instance_id))"

definition exmdb_ext_pull_set_message_instance_conflict_request :: "content_request pull" where
  "exmdb_ext_pull_set_message_instance_conflict_request =
     bnd ext_buffer_pull_uint32 (\<lambda>instance_id.
     bnd (pull_pointer 32 ext_buffer_pull_message_content) (\<lambda>pmsgctnt.
     ret (REQ_SET_MESSAGE_INSTANCE_CONFLICT instance_id pmsgctnt)))"

definition exmdb_ext_push_set_message_instance_conflict_request ::
    "u32 \<Rightarrow> message_content \<Rightarrow> push" where
  "exmdb_ext_push_set_message_instance_conflict_request instance_id pmsgctnt =
     seq (ext_buffer_push_uint32 instance_id)
         (ext_buffer_push_message_content pmsgctnt)"

definition content_request_cases :: "(u8 \<times> content_request pull) list" where
  "content_request_cases =
    [(CALL_ID_EMPTY_MESSAGE_INSTANCE_RCPTS, exmdb_ext_pull_empty_message_instance_rcpts_request),
     (CALL_ID_GET_MESSAGE_INSTANCE_RCPTS_NUM, exmdb_ext_pull_get_message_instance_rcpts_num_request),
     (CALL_ID_GET_MESSAGE_INSTANCE_RCPTS_ALL_PROPTAGS, exmdb_ext_pull_get_message_instance_rcpts_all_proptags_request),
     (CALL_ID_GET_MESSAGE_INSTANCE_RCPTS, exmdb_ext_pull_get_message_instance_rcpts_request),
     (CALL_ID_UPDATE_MESSAGE_INSTANCE_RCPTS, exmdb_ext_pull_update_message_instance_rcpts_request),
     (CALL_ID_COPY_INSTANCE_RCPTS, exmdb_ext_pull_copy_instance_rcpts_request),
     (CALL_ID_EMPTY_MESSAGE_INSTANCE_ATTACHMENTS, exmdb_ext_pull_empty_message_instance_attachments_request),
     (CALL_ID_GET_MESSAGE_INSTANCE_ATTACHMENTS_NUM, exmdb_ext_pull_get_message_instance_attachments_num_request),
     (CALL_ID_GET_MESSAGE_INSTANCE_ATTACHMENT_TABLE_ALL_PROPTAGS, exmdb_ext_pull_get_message_instance_attachment_table_all_proptags_request),
     (CALL_ID_QUERY_MESSAGE_INSTANCE_ATTACHMENT_TABLE, exmdb_ext_pull_query_message_instance_attachment_table_request),
     (CALL_ID_COPY_INSTANCE_ATTACHMENTS, exmdb_ext_pull_copy_instance_attachments_request),
     (CALL_ID_SET_MESSAGE_INSTANCE_CONFLICT, exmdb_ext_pull_set_message_instance_conflict_request)]"

primrec push_content_request :: "content_request \<Rightarrow> push" where
  "push_content_request (REQ_EMPTY_MESSAGE_INSTANCE_RCPTS instance_id) =
     exmdb_ext_push_empty_message_instance_rcpts_request instance_id"
| "push_content_request (REQ_GET_MESSAGE_INSTANCE_RCPTS_NUM instance_id) =
     exmdb_ext_push_get_message_instance_rcpts_num_request instance_id"
| "push_content_request (REQ_GET_MESSAGE_INSTANCE_RCPTS_ALL_PROPTAGS instance_id) =
     exmdb_ext_push_get_message_instance_rcpts_all_proptags_request instance_id"
| "push_content_request (REQ_GET_MESSAGE_INSTANCE_RCPTS instance_id row_id need_count) =
     exmdb_ext_push_get_message_instance_rcpts_request instance_id row_id need_count"
| "push_content_request (REQ_UPDATE_MESSAGE_INSTANCE_RCPTS instance_id pset) =
     exmdb_ext_push_update_message_instance_rcpts_request instance_id pset"
| "push_content_request (REQ_COPY_INSTANCE_RCPTS b_force src_instance_id dst_instance_id) =
     exmdb_ext_push_copy_instance_rcpts_request b_force src_instance_id dst_instance_id"
| "push_content_request (REQ_EMPTY_MESSAGE_INSTANCE_ATTACHMENTS instance_id) =
     exmdb_ext_push_empty_message_instance_attachments_request instance_id"
| "push_content_request (REQ_GET_MESSAGE_INSTANCE_ATTACHMENTS_NUM instance_id) =
     exmdb_ext_push_get_message_instance_attachments_num_request instance_id"
| "push_content_request (REQ_GET_MESSAGE_INSTANCE_ATTACHMENT_TABLE_ALL_PROPTAGS instance_id) =
     exmdb_ext_push_get_message_instance_attachment_table_all_proptags_request instance_id"
| "push_content_request (REQ_QUERY_MESSAGE_INSTANCE_ATTACHMENT_TABLE instance_id pproptags start_pos
       row_needed) =
     exmdb_ext_push_query_message_instance_attachment_table_request instance_id pproptags
       start_pos row_needed"
| "push_content_request (REQ_COPY_INSTANCE_ATTACHMENTS b_force src_instance_id dst_instance_id) =
     exmdb_ext_push_copy_instance_attachments_request b_force src_instance_id dst_instance_id"
| "push_content_request (REQ_SET_MESSAGE_INSTANCE_CONFLICT instance_id pmsgctnt) =
     exmdb_ext_push_set_message_instance_conflict_request instance_id pmsgctnt"

subsection \<open>Messages\<close>

definition exmdb_ext_pull_get_message_rcpts_request :: "message_request pull" where
  "exmdb_ext_pull_get_message_rcpts_request =
     bnd ext_buffer_pull_uint64 (\<lambda>message_id.
     ret (REQ_GET_MESSAGE_RCPTS message_id))"

definition exmdb_ext_push_get_message_rcpts_request :: "u64 \<Rightarrow> push" where
  "exmdb_ext_push_get_message_rcpts_request message_id =
     ext_buffer_push_uint64 message_id"

definition exmdb_ext_pull_get_message_properties_request :: "message_request pull" where
  "exmdb_ext_pull_get_message_properties_request =
     bnd (pull_optional ext_buffer_pull_string) (\<lambda>username.
     bnd ext_buffer_pull_uint32 (\<lambda>cpid.
     bnd ext_buffer_pull_uint64 (\<lambda>message_id.
     bnd (pull_pointer 16 ext_buffer_pull_proptag_array) (\<lambda>pproptags.
     ret (REQ_GET_MESSAGE_PROPERTIES username cpid message_id pproptags)))))"

definition exmdb_ext_push_get_message_properties_request ::
    "bytes option \<Rightarrow> u32 \<Rightarrow> u64 \<Rightarrow> u32 list \<Rightarrow>
       push" where
  "exmdb_ext_push_get_message_properties_request username cpid message_id pproptags =
     seq (push_optional ext_buffer_push_string username)
    (seq (ext_buffer_push_uint32 cpid)
    (seq (ext_buffer_push_uint64 message_id)
         (ext_buffer_push_proptag_array pproptags)))"

definition exmdb_ext_pull_set_message_properties_request :: "message_request pull" where
  "exmdb_ext_pull_set_message_properties_request =
     bnd (pull_optional ext_buffer_pull_string) (\<lambda>username.
     bnd ext_buffer_pull_uint32 (\<lambda>cpid.
     bnd ext_buffer_pull_uint64 (\<lambda>message_id.
     bnd (pull_pointer 16 ext_buffer_pull_tpropval_array) (\<lambda>pproperties.
     ret (REQ_SET_MESSAGE_PROPERTIES username cpid message_id pproperties)))))"

definition exmdb_ext_push_set_message_properties_request ::
    "bytes option \<Rightarrow> u32 \<Rightarrow> u64 \<Rightarrow>
       tagged_propval list \<Rightarrow> push" where
  "exmdb_ext_push_set_message_properties_request username cpid message_id pproperties =
     seq (push_optional ext_buffer_push_string username)
    (seq (ext_buffer_push_uint32 cpid)
    (seq (ext_buffer_push_uint64 message_id)
         (ext_buffer_push_tpropval_array pproperties)))"

definition exmdb_ext_pull_set_message_read_state_request :: "message_request pull" where
  "exmdb_ext_pull_set_message_read_state_request =
     bnd (pull_optional ext_buffer_pull_string) (\<lambda>username.
     bnd ext_buffer_pull_uint64 (\<lambda>message_id.
     bnd ext_buffer_pull_uint8 (\<lambda>mark_as_read.
     ret (REQ_SET_MESSAGE_READ_STATE username message_id mark_as_read))))"

definition exmdb_ext_push_set_message_read_state_request ::
    "bytes option \<Rightarrow> u64 \<Rightarrow> u8 \<Rightarrow> push" where
  "exmdb_ext_push_set_message_read_state_request username message_id mark_as_read =
     seq (push_optional ext_buffer_push_string username)
    (seq (ext_buffer_push_uint64 message_id)
         (ext_buffer_push_uint64 (ucast mark_as_read)))"

definition exmdb_ext_pull_remove_message_properties_request :: "message_request pull" where
  "exmdb_ext_pull_remove_message_properties_request =
     bnd ext_buffer_pull_uint32 (\<lambda>cpid.
     bnd ext_buffer_pull_uint64 (\<lambda>message_id.
     bnd (pull_pointer 16 ext_buffer_pull_proptag_array) (\<lambda>pproptags.
     ret (REQ_REMOVE_MESSAGE_PROPERTIES cpid message_id pproptags))))"

definition exmdb_ext_push_remove_message_properties_request ::
    "u32 \<Rightarrow> u64 \<Rightarrow> u32 list \<Rightarrow> push" where
  "exmdb_ext_push_remove_message_properties_request cpid message_id pproptags =
     seq (ext_buffer_push_uint32 cpid)
    (seq (ext_buffer_push_uint64 message_id)
         (ext_buffer_push_proptag_array pproptags))"

definition exmdb_ext_pull_allocate_message_id_request :: "message_request pull" where
  "exmdb_ext_pull_allocate_message_id_request =
     bnd ext_buffer_pull_uint64 (\<lambda>folder_id.
     ret (REQ_ALLOCATE_MESSAGE_ID folder_id))"

definition exmdb_ext_push_allocate_message_id_request :: "u64 \<Rightarrow> push" where
  "exmdb_ext_push_allocate_message_id_request folder_id =
     ext_buffer_push_uint64 folder_id"

definition exmdb_ext_pull_get_message_group_id_request :: "message_request pull" where
  "exmdb_ext_pull_get_message_group_id_request =
     bnd ext_buffer_pull_uint64 (\<lambda>message_id.
     ret (REQ_GET_MESSAGE_GROUP_ID message_id))"

definition exmdb_ext_push_get_message_group_id_request :: "u64 \<Rightarrow> push" where
  "exmdb_ext_push_get_message_group_id_request message_id =
     ext_buffer_push_uint64 message_id"

definition exmdb_ext_pull_set_message_group_id_request :: "message_request pull" where
  "exmdb_ext_pull_set_message_group_id_request =
     bnd ext_buffer_pull_uint64 (\<lambda>message_id.
     bnd ext_buffer_pull_uint32 (\<lambda>group_id.
     ret (REQ_SET_MESSAGE_GROUP_ID message_id group_id)))"

definition exmdb_ext_push_set_message_group_id_request ::
    "u64 \<Rightarrow> u32 \<Rightarrow> push" where
  "exmdb_ext_push_set_message_group_id_request message_id group_id =
     seq (ext_buffer_push_uint64 message_id)
         (ext_buffer_push_uint32 group_id)"

definition exmdb_ext_pull_save_change_indices_request :: "message_request pull" where
  "exmdb_ext_pull_save_change_indices_request =
     bnd ext_buffer_pull_uint64 (\<lambda>message_id.
     bnd ext_buffer_pull_uint64 (\<lambda>cn.
     bnd (pull_pointer 16 ext_buffer_pull_proptag_array) (\<lambda>pindices.
     bnd (pull_pointer 16 ext_buffer_pull_proptag_array) (\<lambda>pungroup_proptags.
     ret (REQ_SAVE_CHANGE_INDICES message_id cn pindices pungroup_proptags)))))"

definition exmdb_ext_push_save_change_indices_request ::
    "u64 \<Rightarrow> u64 \<Rightarrow> u32 list \<Rightarrow> u32 list \<Rightarrow> push" where
  "exmdb_ext_push_save_change_indices_request message_id cn pindices pungroup_proptags =
     seq (ext_buffer_push_uint64 message_id)
    (seq (ext_buffer_push_uint64 cn)
    (seq (ext_buffer_push_proptag_array pindices)
         (ext_buffer_push_proptag_array pungroup_proptags)))"

definition exmdb_ext_pull_get_change_indices_request :: "message_request pull" where
  "exmdb_ext_pull_get_change_indices_request =
     bnd ext_buffer_pull_uint64 (\<lambda>message_id.
     bnd ext_buffer_pull_uint64 (\<lambda>cn.
     ret (REQ_GET_CHANGE_INDICES message_id cn)))"

definition exmdb_ext_push_get_change_indices_request ::
    "u64 \<Rightarrow> u64 \<Rightarrow> push" where
  "exmdb_ext_push_get_change_indices_request message_id cn =
     seq (ext_buffer_push_uint64 message_id)
         (ext_buffer_push_uint64 cn)"

definition exmdb_ext_pull_mark_modified_request :: "message_request pull" where
  "exmdb_ext_pull_mark_modified_request =
     bnd ext_buffer_pull_uint64 (\<lambda>message_id.
     ret (REQ_MARK_MODIFIED message_id))"

definition exmdb_ext_push_mark_modified_request :: "u64 \<Rightarrow> push" where
  "exmdb_ext_push_mark_modified_request message_id =
     ext_buffer_push_uint64 message_id"

definition exmdb_ext_pull_try_mark_submit_request :: "message_request pull" where
  "exmdb_ext_pull_try_mark_submit_request =
     bnd ext_buffer_pull_uint64 (\<lambda>message_id.
     ret (REQ_TRY_MARK_SUBMIT message_id))"

definition exmdb_ext_push_try_mark_submit_request :: "u64 \<Rightarrow> push" where
  "exmdb_ext_push_try_mark_submit_request message_id =
     ext_buffer_push_uint64 message_id"

definition exmdb_ext_pull_clear_submit_request :: "message_request pull" where
  "exmdb_ext_pull_clear_submit_request =
     bnd ext_buffer_pull_uint64 (\<lambda>message_id.
     bnd ext_buffer_pull_bool (\<lambda>b_unsent.
     ret (REQ_CLEAR_SUBMIT message_id b_unsent)))"

definition exmdb_ext_push_clear_submit_request :: "u64 \<Rightarrow> bool \<Rightarrow> push" where
  "exmdb_ext_push_clear_submit_request message_id b_unsent =
     seq (ext_buffer_push_uint64 message_id)
         (push_BOOL b_unsent)"

definition exmdb_ext_pull_link_message_request :: "message_request pull" where
  "exmdb_ext_pull_link_message_request =
     bnd ext_buffer_pull_uint32 (\<lambda>cpid.
     bnd ext_buffer_pull_uint64 (\<lambda>folder_id.
     bnd ext_buffer_pull_uint64 (\<lambda>message_id.
     ret (REQ_LINK_MESSAGE cpid folder_id message_id))))"

definition exmdb_ext_push_link_message_request ::
    "u32 \<Rightarrow> u64 \<Rightarrow> u64 \<Rightarrow> push" where
  "exmdb_ext_push_link_message_request cpid folder_id message_id =
     seq (ext_buffer_push_uint32 cpid)
    (seq (ext_buffer_push_uint64 folder_id)
         (ext_buffer_push_uint64 message_id))"

definition exmdb_ext_pull_unlink_message_request :: "message_request pull" where
  "exmdb_ext_pull_unlink_message_request =
     bnd ext_buffer_pull_uint32 (\<lambda>cpid.
     bnd ext_buffer_pull_uint64 (\<lambda>folder_id.
     bnd ext_buffer_pull_uint64 (\<lambda>message_id.
     ret (REQ_UNLINK_MESSAGE cpid folder_id message_id))))"

definition exmdb_ext_push_unlink_message_request ::
    "u32 \<Rightarrow> u64 \<Rightarrow> u64 \<Rightarrow> push" where
  "exmdb_ext_push_unlink_message_request cpid folder_id message_id =
     seq (ext_buffer_push_uint32 cpid)
    (seq (ext_buffer_push_uint64 folder_id)
         (ext_buffer_push_uint64 message_id))"

definition rule_new_message_tail :: "exmdb_env \<Rightarrow> bytes option \<Rightarrow> message_request pull" where
  "rule_new_message_tail env username =
     pull_or_quit ext_buffer_pull_string
       (REQ_RULE_NEW_MESSAGE username (stale_account env) (stale_cpid env)
         (stale_folder_id env) (stale_message_id env)) (\<lambda>account.
     pull_or_quit ext_buffer_pull_uint32
       (REQ_RULE_NEW_MESSAGE username account (stale_cpid env)
         (stale_folder_id env) (stale_message_id env)) (\<lambda>cpid.
     pull_or_quit ext_buffer_pull_uint64
       (REQ_RULE_NEW_MESSAGE username account cpid
         (stale_folder_id env) (stale_message_id env)) (\<lambda>folder_id.
     bnd ext_buffer_pull_uint64 (\<lambda>message_id.
     ret (REQ_RULE_NEW_MESSAGE username account cpid folder_id message_id)))))"

definition exmdb_ext_pull_rule_new_message_request :: "exmdb_env \<Rightarrow> message_request pull" where
  "exmdb_ext_pull_rule_new_message_request env =
     (let stale = REQ_RULE_NEW_MESSAGE (stale_username env) (stale_account env) (stale_cpid env)
        (stale_folder_id env) (stale_message_id env) in
      pull_or_quit ext_buffer_pull_uint8 stale (\<lambda>tmp_byte.
        if tmp_byte = 0 then rule_new_message_tail env None
        else pull_or_quit ext_buffer_pull_string stale (\<lambda>username.
          rule_new_message_tail env (Some username))))"

definition exmdb_ext_push_rule_new_message_request ::
    "bytes option \<Rightarrow> bytes \<Rightarrow> u32 \<Rightarrow> u64 \<Rightarrow> u64 \<Rightarrow> push" where
  "exmdb_ext_push_rule_new_message_request username account cpid folder_id message_id =
     (let tail = push_or_quit (ext_buffer_push_string account)
        (push_or_quit (ext_buffer_push_uint32 cpid)
        (push_or_quit (ext_buffer_push_uint64 folder_id)
           (ext_buffer_push_uint64 message_id))) in
      case username of
        None \<Rightarrow> push_or_quit (ext_buffer_push_uint8 0) tail
      | Some s \<Rightarrow> push_or_quit (ext_buffer_push_uint8 1)
          (push_or_quit (ext_buffer_push_string s) tail))"

definition exmdb_ext_pull_set_message_timer_request :: "exmdb_env \<Rightarrow> message_request pull" where
  "exmdb_ext_pull_set_message_timer_request env =
     pull_or_quit ext_buffer_pull_uint64
       (REQ_SET_MESSAGE_TIMER (stale_message_id env) (stale_timer_id env)) (\<lambda>message_id.
     bnd ext_buffer_pull_uint32 (\<lambda>timer_id.
     ret (REQ_SET_MESSAGE_TIMER message_id timer_id)))"

definition exmdb_ext_push_set_message_timer_request :: "u64 \<Rightarrow> u32 \<Rightarrow> push" where
  "exmdb_ext_push_set_message_timer_request message_id timer_id =
     push_or_quit (ext_buffer_push_uint64 message_id)
       (ext_buffer_push_uint32 timer_id)"

definition exmdb_ext_pull_get_message_timer_request :: "message_request pull" where
  "exmdb_ext_pull_get_message_timer_request =
     bnd ext_buffer_pull_uint64 (\<lambda>message_id.
     ret (REQ_GET_MESSAGE_TIMER message_id))"

definition exmdb_ext_push_get_message_timer_request :: "u64 \<Rightarrow> push" where
  "exmdb_ext_push_get_message_timer_request message_id =
     ext_buffer_push_uint64 message_id"

definition message_request_cases :: "exmdb_env \<Rightarrow> (u8 \<times> message_request pull) list" where
  "message_request_cases env =
    [(CALL_ID_GET_MESSAGE_RCPTS, exmdb_ext_pull_get_message_rcpts_request),
     (CALL_ID_GET_MESSAGE_PROPERTIES, exmdb_ext_pull_get_message_properties_request),
     (CALL_ID_SET_MESSAGE_PROPERTIES, exmdb_ext_pull_set_message_properties_request),
     (CALL_ID_SET_MESSAGE_READ_STATE, exmdb_ext_pull_set_message_read_state_request),
     (CALL_ID_REMOVE_MESSAGE_PROPERTIES, exmdb_ext_pull_remove_message_properties_request),
     (CALL_ID_ALLOCATE_MESSAGE_ID, exmdb_ext_pull_allocate_message_id_request),
     (CALL_ID_ALLOCATE_CN, ret REQ_ALLOCATE_CN),
     (CALL_ID_GET_MESSAGE_GROUP_ID, exmdb_ext_pull_get_message_group_id_request),
     (CALL_ID_SET_MESSAGE_GROUP_ID, exmdb_ext_pull_set_message_group_id_request),
     (CALL_ID_SAVE_CHANGE_INDICES, exmdb_ext_pull_save_change_indices_request),
     (CALL_ID_GET_CHANGE_INDICES, exmdb_ext_pull_get_change_indices_request),
     (CALL_ID_MARK_MODIFIED, exmdb_ext_pull_mark_modified_request),
     (CALL_ID_TRY_MARK_SUBMIT, exmdb_ext_pull_try_mark_submit_request),
     (CALL_ID_CLEAR_SUBMIT, exmdb_ext_pull_clear_submit_request),
     (CALL_ID_LINK_MESSAGE, exmdb_ext_pull_link_message_request),
     (CALL_ID_UNLINK_MESSAGE, exmdb_ext_pull_unlink_message_request),
     (CALL_ID_RULE_NEW_MESSAGE, exmdb_ext_pull_rule_new_message_request env),
     (CALL_ID_SET_MESSAGE_TIMER, exmdb_ext_pull_set_message_timer_request env),
     (CALL_ID_GET_MESSAGE_TIMER, exmdb_ext_pull_get_message_timer_request)]"

primrec push_message_request :: "message_request \<Rightarrow> push" where
  "push_message_request (REQ_GET_MESSAGE_RCPTS message_id) =
     exmdb_ext_push_get_message_rcpts_request message_id"
| "push_message_request (REQ_GET_MESSAGE_PROPERTIES username cpid message_id pproptags) =
     exmdb_ext_push_get_message_properties_request username cpid message_id pproptags"
| "push_message_request (REQ_SET_MESSAGE_PROPERTIES username cpid message_id pproperties) =
     exmdb_ext_push_set_message_properties_request username cpid message_id pproperties"
| "push_message_request (REQ_SET_MESSAGE_READ_STATE username message_id mark_as_read) =
     exmdb_ext_push_set_message_read_state_request username message_id mark_as_read"
| "push_message_request (REQ_REMOVE_MESSAGE_PROPERTIES cpid message_id pproptags) =
     exmdb_ext_push_remove_message_properties_request cpid message_id pproptags"
| "push_message_request (REQ_ALLOCATE_MESSAGE_ID folder_id) =
     exmdb_ext_push_allocate_message_id_request folder_id"
| "push_message_request REQ_ALLOCATE_CN = ret ()"
| "push_message_request (REQ_GET_MESSAGE_GROUP_ID message_id) =
     exmdb_ext_push_get_message_group_id_request message_id"
| "push_message_request (REQ_SET_MESSAGE_GROUP_ID message_id group_id) =
     exmdb_ext_push_set_message_group_id_request message_id group_id"
| "push_message_request (REQ_SAVE_CHANGE_INDICES message_id cn pindices pungroup_proptags) =
     exmdb_ext_push_save_change_indices_request message_id cn pindices pungroup_proptags"
| "push_message_request (REQ_GET_CHANGE_INDICES message_id cn) =
     exmdb_ext_push_get_change_indices_request message_id cn"
| "push_message_request (REQ_MARK_MODIFIED message_id) =
     exmdb_ext_push_mark_modified_request message_id"
| "push_message_request (REQ_TRY_MARK_SUBMIT message_id) =
     exmdb_ext_push_try_mark_submit_request message_id"
| "push_message_request (REQ_CLEAR_SUBMIT message_id b_unsent) =
     exmdb_ext_push_clear_submit_request message_id b_unsent"
| "push_message_request (REQ_LINK_MESSAGE cpid folder_id message_id) =
     exmdb_ext_push_link_message_request cpid folder_id message_id"
| "push_message_request (REQ_UNLINK_MESSAGE cpid folder_id message_id) =
     exmdb_ext_push_unlink_message_request cpid folder_id message_id"
| "push_message_request (REQ_RULE_NEW_MESSAGE username account cpid folder_id message_id) =
     exmdb_ext_push_rule_new_message_request username account cpid folder_id message_id"
| "push_message_request (REQ_SET_MESSAGE_TIMER message_id timer_id) =
     exmdb_ext_push_set_message_timer_request message_id timer_id"
| "push_message_request (REQ_GET_MESSAGE_TIMER message_id) =
     exmdb_ext_push_get_message_timer_request message_id"

subsection \<open>Permissions, rules, delivery, synchronization, notification\<close>

definition exmdb_ext_pull_empty_folder_permission_request :: "service_request pull" where
  "exmdb_ext_pull_empty_folder_permission_request =
     bnd ext_buffer_pull_uint64 (\<lambda>folder_id.
     ret (REQ_EMPTY_FOLDER_PERMISSION folder_id))"

definition exmdb_ext_push_empty_folder_permission_request :: "u64 \<Rightarrow> push" where
  "exmdb_ext_push_empty_folder_permission_request folder_id =
     ext_buffer_push_uint64 folder_id"

definition exmdb_ext_pull_update_folder_permission_request :: "service_request pull" where
  "exmdb_ext_pull_update_folder_permission_request =
     bnd ext_buffer_pull_uint64 (\<lambda>folder_id.
     bnd ext_buffer_pull_bool (\<lambda>b_freebusy.
     bnd (pull_counted16 24 ext_buffer_pull_permission_data) (\<lambda>prow.
     ret (REQ_UPDATE_FOLDER_PERMISSION folder_id b_freebusy prow))))"

definition exmdb_ext_push_update_folder_permission_request ::
    "u64 \<Rightarrow> bool \<Rightarrow> permission_data list \<Rightarrow> push" where
  "exmdb_ext_push_update_folder_permission_request folder_id b_freebusy prow =
     seq (ext_buffer_push_uint64 folder_id)
    (seq (push_BOOL b_freebusy)
         (push_counted16 ext_buffer_push_permission_data prow))"

definition exmdb_ext_pull_empty_folder_rule_request :: "service_request pull" where
  "exmdb_ext_pull_empty_folder_rule_request =
     bnd ext_buffer_pull_uint64 (\<lambda>folder_id.
     ret (REQ_EMPTY_FOLDER_RULE folder_id))"

definition exmdb_ext_push_empty_folder_rule_request :: "u64 \<Rightarrow> push" where
  "exmdb_ext_push_empty_folder_rule_request folder_id =
     ext_buffer_push_uint64 folder_id"

definition exmdb_ext_pull_update_folder_rule_request :: "service_request pull" where
  "exmdb_ext_pull_update_folder_rule_request =
     bnd ext_buffer_pull_uint64 (\<lambda>folder_id.
     bnd (pull_counted16 24 ext_buffer_pull_rule_data) (\<lambda>prow.
     ret (REQ_UPDATE_FOLDER_RULE folder_id prow)))"

definition exmdb_ext_push_update_folder_rule_request ::
    "u64 \<Rightarrow> rule_data list \<Rightarrow> push" where
  "exmdb_ext_push_update_folder_rule_request folder_id prow =
     seq (ext_buffer_push_uint64 folder_id)
         (push_counted16 ext_buffer_push_rule_data prow)"

definition exmdb_ext_pull_delivery_message_request :: "service_request pull" where
  "exmdb_ext_pull_delivery_message_request =
     bnd ext_buffer_pull_string (\<lambda>from_address.
     bnd ext_buffer_pull_string (\<lambda>account.
     bnd ext_buffer_pull_uint32 (\<lambda>cpid.
     bnd (pull_pointer 32 ext_buffer_pull_message_content) (\<lambda>pmsg.
     bnd ext_buffer_pull_string (\<lambda>pdigest.
     ret (REQ_DELIVERY_MESSAGE from_address account cpid pmsg pdigest))))))"

definition exmdb_ext_push_delivery_message_request ::
    "bytes \<Rightarrow> bytes \<Rightarrow> u32 \<Rightarrow> message_content \<Rightarrow>
       bytes \<Rightarrow> push" where
  "exmdb_ext_push_delivery_message_request from_address account cpid pmsg pdigest =
     seq (ext_buffer_push_string from_address)
    (seq (ext_buffer_push_string account)
    (seq (ext_buffer_push_uint32 cpid)
    (seq (ext_buffer_push_message_content pmsg)
         (ext_buffer_push_string pdigest))))"

definition exmdb_ext_pull_write_message_request :: "service_request pull" where
  "exmdb_ext_pull_write_message_request =
     bnd ext_buffer_pull_string (\<lambda>account.
     bnd ext_buffer_pull_uint32 (\<lambda>cpid.
     bnd ext_buffer_pull_uint64 (\<lambda>folder_id.
     bnd (pull_pointer 32 ext_buffer_pull_message_content) (\<lambda>pmsgctnt.
     ret (REQ_WRITE_MESSAGE account cpid folder_id pmsgctnt)))))"

definition exmdb_ext_push_write_message_request ::
    "bytes \<Rightarrow> u32 \<Rightarrow> u64 \<Rightarrow> message_content \<Rightarrow>
       push" where
  "exmdb_ext_push_write_message_request account cpid folder_id pmsgctnt =
     seq (ext_buffer_push_string account)
    (seq (ext_buffer_push_uint32 cpid)
    (seq (ext_buffer_push_uint64 folder_id)
         (ext_buffer_push_message_content pmsgctnt)))"

definition exmdb_ext_pull_read_message_request :: "service_request pull" where
  "exmdb_ext_pull_read_message_request =
     bnd (pull_optional ext_buffer_pull_string) (\<lambda>username.
     bnd ext_buffer_pull_uint32 (\<lambda>cpid.
     bnd ext_buffer_pull_uint64 (\<lambda>message_id.
     ret (REQ_READ_MESSAGE username cpid message_id))))"

definition exmdb_ext_push_read_message_request ::
    "bytes option \<Rightarrow> u32 \<Rightarrow> u64 \<Rightarrow> push" where
  "exmdb_ext_push_read_message_request username cpid message_id =
     seq (push_optional ext_buffer_push_string username)
    (seq (ext_buffer_push_uint32 cpid)
         (ext_buffer_push_uint64 message_id))"

definition exmdb_ext_pull_get_content_sync_request :: "exmdb_env \<Rightarrow> service_request pull" where
  "exmdb_ext_pull_get_content_sync_request env =
     bnd ext_buffer_pull_uint64 (\<lambda>folder_id.
     bnd (pull_optional ext_buffer_pull_string) (\<lambda>username.
     bnd (pull_idset (idset_mem env 0)) (\<lambda>pgiven.
     bnd (pull_optional (pull_idset (idset_mem env 1))) (\<lambda>pseen.
     bnd (pull_optional (pull_idset (idset_mem env 2))) (\<lambda>pseen_fai.
     bnd (pull_optional (pull_idset (idset_mem env 3))) (\<lambda>pread.
     bnd ext_buffer_pull_uint32 (\<lambda>cpid.
     bnd (pull_optional (pull_pointer 16 ext_buffer_pull_restriction)) (\<lambda>prestriction.
     bnd ext_buffer_pull_bool (\<lambda>b_ordered.
     ret (REQ_GET_CONTENT_SYNC folder_id username pgiven pseen pseen_fai pread cpid
       prestriction b_ordered))))))))))"

definition exmdb_ext_push_get_content_sync_request ::
    "exmdb_env \<Rightarrow> u64 \<Rightarrow> bytes option \<Rightarrow> idset \<Rightarrow> idset option \<Rightarrow> idset option \<Rightarrow>
       idset option \<Rightarrow> u32 \<Rightarrow> restriction option \<Rightarrow> bool \<Rightarrow> push" where
  "exmdb_ext_push_get_content_sync_request env folder_id username pgiven pseen pseen_fai pread
       cpid prestriction b_ordered =
     seq (push_regardless (ext_buffer_push_uint64 folder_id))
    (seq (push_optional ext_buffer_push_string username)
    (seq (push_idset (idset_mem env 0) pgiven)
    (seq (push_optional (push_idset (idset_mem env 1)) pseen)
    (seq (push_optional (push_idset (idset_mem env 2)) pseen_fai)
    (seq (push_optional (push_idset (idset_mem env 3)) pread)
    (seq (ext_buffer_push_uint32 cpid)
    (seq (push_optional ext_buffer_push_restriction prestriction)
         (push_BOOL b_ordered))))))))"

definition exmdb_ext_pull_get_hierarchy_sync_request :: "exmdb_env \<Rightarrow> service_request pull" where
  "exmdb_ext_pull_get_hierarchy_sync_request env =
     bnd ext_buffer_pull_uint64 (\<lambda>folder_id.
     bnd (pull_optional ext_buffer_pull_string) (\<lambda>username.
     bnd (pull_idset (idset_mem env 0)) (\<lambda>pgiven.
     bnd (pull_optional (pull_idset (idset_mem env 1))) (\<lambda>pseen.
     ret (REQ_GET_HIERARCHY_SYNC folder_id username pgiven pseen)))))"

definition exmdb_ext_push_get_hierarchy_sync_request ::
    "exmdb_env \<Rightarrow> u64 \<Rightarrow> bytes option \<Rightarrow> idset \<Rightarrow> idset option \<Rightarrow> push" where
  "exmdb_ext_push_get_hierarchy_sync_request env folder_id username pgiven pseen =
     seq (push_regardless (ext_buffer_push_uint64 folder_id))
    (seq (push_optional ext_buffer_push_string username)
    (seq (push_idset (idset_mem env 0) pgiven)
         (push_optional (push_idset (idset_mem env 1)) pseen)))"

definition exmdb_ext_pull_allocate_ids_request :: "service_request pull" where
  "exmdb_ext_pull_allocate_ids_request =
     bnd ext_buffer_pull_uint32 (\<lambda>count.
     ret (REQ_ALLOCATE_IDS count))"

definition exmdb_ext_push_allocate_ids_request :: "u32 \<Rightarrow> push" where
  "exmdb_ext_push_allocate_ids_request count =
     ext_buffer_push_uint32 count"

definition exmdb_ext_pull_subscribe_notification_request :: "service_request pull" where
  "exmdb_ext_pull_subscribe_notification_request =
     bnd ext_buffer_pull_uint16 (\<lambda>notificaton_type.
     bnd ext_buffer_pull_bool (\<lambda>b_whole.
     bnd ext_buffer_pull_uint64 (\<lambda>folder_id.
     bnd ext_buffer_pull_uint64 (\<lambda>message_id.
     ret (REQ_SUBSCRIBE_NOTIFICATION notificaton_type b_whole folder_id message_id)))))"

definition exmdb_ext_push_subscribe_notification_request ::
    "u16 \<Rightarrow> bool \<Rightarrow> u64 \<Rightarrow> u64 \<Rightarrow> push" where
  "exmdb_ext_push_subscribe_notification_request notificaton_type b_whole folder_id message_id =
     seq (ext_buffer_push_uint16 notificaton_type)
    (seq (push_BOOL b_whole)
    (seq (ext_buffer_push_uint64 folder_id)
         (ext_buffer_push_uint64 message_id)))"

definition exmdb_ext_pull_unsubscribe_notification_request :: "service_request pull" where
  "exmdb_ext_pull_unsubscribe_notification_request =
     bnd ext_buffer_pull_uint32 (\<lambda>sub_id.
     ret (REQ_UNSUBSCRIBE_NOTIFICATION sub_id))"

definition exmdb_ext_push_unsubscribe_notification_request :: "u32 \<Rightarrow> push" where
  "exmdb_ext_push_unsubscribe_notification_request sub_id =
     ext_buffer_push_uint32 sub_id"

definition exmdb_ext_pull_transport_new_mail_request :: "service_request pull" where
  "exmdb_ext_pull_transport_new_mail_request =
     bnd ext_buffer_pull_uint64 (\<lambda>folder_id.
     bnd ext_buffer_pull_uint64 (\<lambda>message_id.
     bnd ext_buffer_pull_uint32 (\<lambda>message_flags.
     bnd ext_buffer_pull_string (\<lambda>pstr_class.
     ret (REQ_TRANSPORT_NEW_MAIL folder_id message_id message_flags pstr_class)))))"

definition exmdb_ext_push_transport_new_mail_request ::
    "u64 \<Rightarrow> u64 \<Rightarrow> u32 \<Rightarrow> bytes \<Rightarrow> push" where
  "exmdb_ext_push_transport_new_mail_request folder_id message_id message_flags pstr_class =
     seq (ext_buffer_push_uint64 folder_id)
    (seq (ext_buffer_push_uint64 message_id)
    (seq (ext_buffer_push_uint32 message_flags)
         (ext_buffer_push_string pstr_class)))"

definition exmdb_ext_pull_check_contact_address_request :: "service_request pull" where
  "exmdb_ext_pull_check_contact_address_request =
     bnd ext_buffer_pull_string (\<lambda>paddress.
     ret (REQ_CHECK_CONTACT_ADDRESS paddress))"

definition exmdb_ext_push_check_contact_address_request :: "bytes \<Rightarrow> push" where
  "exmdb_ext_push_check_contact_address_request paddress =
     ext_buffer_push_string paddress"

definition exmdb_ext_pull_get_public_folder_unread_count_request :: "service_request pull" where
  "exmdb_ext_pull_get_public_folder_unread_count_request =
     bnd ext_buffer_pull_string (\<lambda>username.
     bnd ext_buffer_pull_uint64 (\<lambda>folder_id.
     ret (REQ_GET_PUBLIC_FOLDER_UNREAD_COUNT username folder_id)))"

definition exmdb_ext_push_get_public_folder_unread_count_request ::
    "bytes \<Rightarrow> u64 \<Rightarrow> push" where
  "exmdb_ext_push_get_public_folder_unread_count_request username folder_id =
     seq (ext_buffer_push_string username)
         (ext_buffer_push_uint64 folder_id)"

definition service_request_cases :: "exmdb_env \<Rightarrow> (u8 \<times> service_request pull) list" where
  "service_request_cases env =
    [(CALL_ID_EMPTY_FOLDER_PERMISSION, exmdb_ext_pull_empty_folder_permission_request),
     (CALL_ID_UPDATE_FOLDER_PERMISSION, exmdb_ext_pull_update_folder_permission_request),
     (CALL_ID_EMPTY_FOLDER_RULE, exmdb_ext_pull_empty_folder_rule_request),
     (CALL_ID_UPDATE_FOLDER_RULE, exmdb_ext_pull_update_folder_rule_request),
     (CALL_ID_DELIVERY_MESSAGE, exmdb_ext_pull_delivery_message_request),
     (CALL_ID_WRITE_MESSAGE, exmdb_ext_pull_write_message_request),
     (CALL_ID_READ_MESSAGE, exmdb_ext_pull_read_message_request),
     (CALL_ID_GET_CONTENT_SYNC, exmdb_ext_pull_get_content_sync_request env),
     (CALL_ID_GET_HIERARCHY_SYNC, exmdb_ext_pull_get_hierarchy_sync_request env),
     (CALL_ID_ALLOCATE_IDS, exmdb_ext_pull_allocate_ids_request),
     (CALL_ID_SUBSCRIBE_NOTIFICATION, exmdb_ext_pull_subscribe_notification_request),
     (CALL_ID_UNSUBSCRIBE_NOTIFICATION, exmdb_ext_pull_unsubscribe_notification_request),
     (CALL_ID_TRANSPORT_NEW_MAIL, exmdb_ext_pull_transport_new_mail_request),
     (CALL_ID_CHECK_CONTACT_ADDRESS, exmdb_ext_pull_check_contact_address_request),
     (CALL_ID_GET_PUBLIC_FOLDER_UNREAD_COUNT, exmdb_ext_pull_get_public_folder_unread_count_request),
     (CALL_ID_UNLOAD_STORE, ret REQ_UNLOAD_STORE)]"

primrec push_service_request :: "exmdb_env \<Rightarrow> service_request \<Rightarrow> push" where
  "push_service_request env (REQ_EMPTY_FOLDER_PERMISSION folder_id) =
     exmdb_ext_push_empty_folder_permission_request folder_id"
| "push_service_request env (REQ_UPDATE_FOLDER_PERMISSION folder_id b_freebusy prow) =
     exmdb_ext_push_update_folder_permission_request folder_id b_freebusy prow"
| "push_service_request env (REQ_EMPTY_FOLDER_RULE folder_id) =
     exmdb_ext_push_empty_folder_rule_request folder_id"
| "push_service_request env (REQ_UPDATE_FOLDER_RULE folder_id prow) =
     exmdb_ext_push_update_folder_rule_request folder_id prow"
| "push_service_request env (REQ_DELIVERY_MESSAGE from_address account cpid pmsg pdigest) =
     exmdb_ext_push_delivery_message_request from_address account cpid pmsg pdigest"
| "push_service_request env (REQ_WRITE_MESSAGE account cpid folder_id pmsgctnt) =
     exmdb_ext_push_write_message_request account cpid folder_id pmsgctnt"
| "push_service_request env (REQ_READ_MESSAGE username cpid message_id) =
     exmdb_ext_push_read_message_request username cpid message_id"
| "push_service_request env (REQ_GET_CONTENT_SYNC folder_id username pgiven pseen pseen_fai pread
       cpid prestriction b_ordered) =
     exmdb_ext_push_get_content_sync_request env folder_id username pgiven pseen pseen_fai pread
       cpid prestriction b_ordered"
| "push_service_request env (REQ_GET_HIERARCHY_SYNC folder_id username pgiven pseen) =
     exmdb_ext_push_get_hierarchy_sync_request env folder_id username pgiven pseen"
| "push_service_request env (REQ_ALLOCATE_IDS count) =
     exmdb_ext_push_allocate_ids_request count"
| "push_service_request env (REQ_SUBSCRIBE_NOTIFICATION notificaton_type b_whole folder_id
       message_id) =
     exmdb_ext_push_subscribe_notification_request notificaton_type b_whole folder_id message_id"
| "push_service_request env (REQ_UNSUBSCRIBE_NOTIFICATION sub_id) =
     exmdb_ext_push_unsubscribe_notification_request sub_id"
| "push_service_request env (REQ_TRANSPORT_NEW_MAIL folder_id message_id message_flags pstr_class) =
     exmdb_ext_push_transport_new_mail_request folder_id message_id message_flags pstr_class"
| "push_service_request env (REQ_CHECK_CONTACT_ADDRESS paddress) =
     exmdb_ext_push_check_contact_address_request paddress"
| "push_service_request env (REQ_GET_PUBLIC_FOLDER_UNREAD_COUNT username folder_id) =
     exmdb_ext_push_get_public_folder_unread_count_request username folder_id"
| "push_service_request env REQ_UNLOAD_STORE = ret ()"

subsection \<open>The switches\<close>

text \<open>The two calls without a store come first, by \<open>if\<close>.\<close>

definition request_cases :: "exmdb_env \<Rightarrow> (u8 \<times> request_payload pull) list" where
  "request_cases env =
     map (pull_as STORE_REQUEST) store_request_cases @
     map (pull_as FOLDER_REQUEST) folder_request_cases @
     map (pull_as TABLE_REQUEST) table_request_cases @
     map (pull_as INSTANCE_REQUEST) instance_request_cases @
     map (pull_as CONTENT_REQUEST) content_request_cases @
     map (pull_as MESSAGE_REQUEST) (message_request_cases env) @
     map (pull_as SERVICE_REQUEST) (service_request_cases env)"

definition pull_request_payload :: "exmdb_env \<Rightarrow> u8 \<Rightarrow> request_payload pull" where
  "pull_request_payload env call_id =
     switch (request_cases env) (fail EXT_ERR_BAD_SWITCH) call_id"

primrec push_request_payload :: "exmdb_env \<Rightarrow> request_payload \<Rightarrow> push" where
  "push_request_payload env (STORE_REQUEST p) = push_store_request p"
| "push_request_payload env (FOLDER_REQUEST p) = push_folder_request p"
| "push_request_payload env (TABLE_REQUEST p) = push_table_request p"
| "push_request_payload env (INSTANCE_REQUEST p) = push_instance_request p"
| "push_request_payload env (CONTENT_REQUEST p) = push_content_request p"
| "push_request_payload env (MESSAGE_REQUEST p) = push_message_request p"
| "push_request_payload env (SERVICE_REQUEST p) = push_service_request env p"

definition without_store :: "u8 \<Rightarrow> bool" where
  "without_store call_id \<longleftrightarrow> call_id = CALL_ID_CONNECT \<or> call_id = CALL_ID_LISTEN_NOTIFICATION"

definition pull_request :: "exmdb_env \<Rightarrow> exmdb_request pull" where
  "pull_request env =
     bnd ext_buffer_pull_uint8 (\<lambda>call_id.
       if without_store call_id
       then bnd (pull_request_payload env call_id) (\<lambda>payload. ret (EXMDB_REQUEST None payload))
       else
         bnd ext_buffer_pull_string (\<lambda>dir.
         bnd (pull_request_payload env call_id) (\<lambda>payload.
         ret (EXMDB_REQUEST (Some dir) payload))))"

text \<open>A store that is not named is a string behind a \<open>NULL\<close> pointer.\<close>

definition push_request :: "exmdb_env \<Rightarrow> exmdb_request \<Rightarrow> push" where
  "push_request env r =
     seq (ext_buffer_push_uint8 (request_call_id (rq_payload r)))
       (if without_store (request_call_id (rq_payload r))
        then push_request_payload env (rq_payload r)
        else case rq_dir r of
            None \<Rightarrow> fail UNDEFINED_BEHAVIOUR
          | Some dir \<Rightarrow> seq (ext_buffer_push_string dir) (push_request_payload env (rq_payload r)))"

end
