(* ===== verification/Exmdb_Request_Codec.thy ===== *)
theory Exmdb_Request_Codec
  imports Exmdb_Request
begin

text \<open>
  The readers and writers of the requests, call by call: reading stays within the buffer
  (\<open>safe_*\<close>) and gives back what was written (\<open>coded_*\<close>), where \<open>*_request_ok\<close> says which
  requests can be written.  \<open>sent_*\<close> collects the calls of a group under its part of the switch.

  Two calls are not in \<open>safe_service_requests\<close>: the sets of identifiers inside the requests for
  a synchronization are read by \<open>idset_deserialize\<close>, which does not check its bounds.
\<close>

subsection \<open>The store\<close>

primrec store_request_ok :: "u32 \<Rightarrow> store_request \<Rightarrow> bool" where
  "store_request_ok f (REQ_CONNECT prefix remote_id b_private) \<longleftrightarrow>
     string_ok f prefix \<and> string_ok f remote_id"
| "store_request_ok f (REQ_LISTEN_NOTIFICATION remote_id) \<longleftrightarrow>
     string_ok f remote_id"
| "store_request_ok f REQ_PING_STORE \<longleftrightarrow>
     True"
| "store_request_ok f REQ_GET_ALL_NAMED_PROPIDS \<longleftrightarrow>
     True"
| "store_request_ok f (REQ_GET_NAMED_PROPIDS b_create ppropnames) \<longleftrightarrow>
     list_ok (2 ^ 16) property_name_ok f ppropnames"
| "store_request_ok f (REQ_GET_NAMED_PROPNAMES ppropids) \<longleftrightarrow>
     list_ok (2 ^ 16) any_ok f ppropids"
| "store_request_ok f (REQ_GET_MAPPING_GUID replid) \<longleftrightarrow>
     True"
| "store_request_ok f (REQ_GET_MAPPING_REPLID guid) \<longleftrightarrow>
     True"
| "store_request_ok f REQ_GET_STORE_ALL_PROPTAGS \<longleftrightarrow>
     True"
| "store_request_ok f (REQ_GET_STORE_PROPERTIES cpid pproptags) \<longleftrightarrow>
     list_ok (2 ^ 16) any_ok f pproptags"
| "store_request_ok f (REQ_SET_STORE_PROPERTIES cpid ppropvals) \<longleftrightarrow>
     props_ok f ppropvals"
| "store_request_ok f (REQ_REMOVE_STORE_PROPERTIES pproptags) \<longleftrightarrow>
     list_ok (2 ^ 16) any_ok f pproptags"
| "store_request_ok f (REQ_CHECK_MAILBOX_PERMISSION username) \<longleftrightarrow>
     string_ok f username"
| "store_request_ok f (REQ_GET_FOLDER_BY_CLASS str_class) \<longleftrightarrow>
     string_ok f str_class"
| "store_request_ok f (REQ_SET_FOLDER_BY_CLASS folder_id str_class) \<longleftrightarrow>
     string_ok f str_class"
| "store_request_ok f REQ_GET_FOLDER_CLASS_TABLE \<longleftrightarrow>
     True"

lemmas store_request_readers =
  exmdb_ext_pull_connect_request_def
  exmdb_ext_pull_listen_notification_request_def
  exmdb_ext_pull_get_named_propids_request_def
  exmdb_ext_pull_get_named_propnames_request_def
  exmdb_ext_pull_get_mapping_guid_request_def
  exmdb_ext_pull_get_mapping_replid_request_def
  exmdb_ext_pull_get_store_properties_request_def
  exmdb_ext_pull_set_store_properties_request_def
  exmdb_ext_pull_remove_store_properties_request_def
  exmdb_ext_pull_check_mailbox_permission_request_def
  exmdb_ext_pull_get_folder_by_class_request_def
  exmdb_ext_pull_set_folder_by_class_request_def

lemmas store_request_writers =
  exmdb_ext_push_connect_request_def
  exmdb_ext_push_listen_notification_request_def
  exmdb_ext_push_get_named_propids_request_def
  exmdb_ext_push_get_named_propnames_request_def
  exmdb_ext_push_get_mapping_guid_request_def
  exmdb_ext_push_get_mapping_replid_request_def
  exmdb_ext_push_get_store_properties_request_def
  exmdb_ext_push_set_store_properties_request_def
  exmdb_ext_push_remove_store_properties_request_def
  exmdb_ext_push_check_mailbox_permission_request_def
  exmdb_ext_push_get_folder_by_class_request_def
  exmdb_ext_push_set_folder_by_class_request_def

lemma safe_store_requests [safe_rules]:
  "safe b exmdb_ext_pull_connect_request"
  "safe b exmdb_ext_pull_listen_notification_request"
  "safe b exmdb_ext_pull_get_named_propids_request"
  "safe b exmdb_ext_pull_get_named_propnames_request"
  "safe b exmdb_ext_pull_get_mapping_guid_request"
  "safe b exmdb_ext_pull_get_mapping_replid_request"
  "safe b exmdb_ext_pull_get_store_properties_request"
  "safe b exmdb_ext_pull_set_store_properties_request"
  "safe b exmdb_ext_pull_remove_store_properties_request"
  "safe b exmdb_ext_pull_check_mailbox_permission_request"
  "safe b exmdb_ext_pull_get_folder_by_class_request"
  "safe b exmdb_ext_pull_set_folder_by_class_request"
  unfolding store_request_readers Let_def
  by (intro safe_rules)+

lemma coded_store_requests:
  "string_ok f prefix \<Longrightarrow> string_ok f remote_id \<Longrightarrow>
     coded f exmdb_ext_pull_connect_request
       (exmdb_ext_push_connect_request prefix remote_id b_private)
       (REQ_CONNECT prefix remote_id b_private)"
  "string_ok f remote_id \<Longrightarrow>
     coded f exmdb_ext_pull_listen_notification_request
       (exmdb_ext_push_listen_notification_request remote_id)
       (REQ_LISTEN_NOTIFICATION remote_id)"
  "list_ok (2 ^ 16) property_name_ok f ppropnames \<Longrightarrow>
     coded f exmdb_ext_pull_get_named_propids_request
       (exmdb_ext_push_get_named_propids_request b_create ppropnames)
       (REQ_GET_NAMED_PROPIDS b_create ppropnames)"
  "list_ok (2 ^ 16) any_ok f ppropids \<Longrightarrow>
     coded f exmdb_ext_pull_get_named_propnames_request
       (exmdb_ext_push_get_named_propnames_request ppropids)
       (REQ_GET_NAMED_PROPNAMES ppropids)"
  "coded f exmdb_ext_pull_get_mapping_guid_request
       (exmdb_ext_push_get_mapping_guid_request replid)
       (REQ_GET_MAPPING_GUID replid)"
  "coded f exmdb_ext_pull_get_mapping_replid_request
       (exmdb_ext_push_get_mapping_replid_request guid)
       (REQ_GET_MAPPING_REPLID guid)"
  "list_ok (2 ^ 16) any_ok f pproptags \<Longrightarrow>
     coded f exmdb_ext_pull_get_store_properties_request
       (exmdb_ext_push_get_store_properties_request cpid pproptags)
       (REQ_GET_STORE_PROPERTIES cpid pproptags)"
  "props_ok f ppropvals \<Longrightarrow>
     coded f exmdb_ext_pull_set_store_properties_request
       (exmdb_ext_push_set_store_properties_request cpid ppropvals)
       (REQ_SET_STORE_PROPERTIES cpid ppropvals)"
  "list_ok (2 ^ 16) any_ok f pproptags \<Longrightarrow>
     coded f exmdb_ext_pull_remove_store_properties_request
       (exmdb_ext_push_remove_store_properties_request pproptags)
       (REQ_REMOVE_STORE_PROPERTIES pproptags)"
  "string_ok f username \<Longrightarrow>
     coded f exmdb_ext_pull_check_mailbox_permission_request
       (exmdb_ext_push_check_mailbox_permission_request username)
       (REQ_CHECK_MAILBOX_PERMISSION username)"
  "string_ok f str_class \<Longrightarrow>
     coded f exmdb_ext_pull_get_folder_by_class_request
       (exmdb_ext_push_get_folder_by_class_request str_class)
       (REQ_GET_FOLDER_BY_CLASS str_class)"
  "string_ok f str_class \<Longrightarrow>
     coded f exmdb_ext_pull_set_folder_by_class_request
       (exmdb_ext_push_set_folder_by_class_request folder_id str_class)
       (REQ_SET_FOLDER_BY_CLASS folder_id str_class)"
  unfolding store_request_readers store_request_writers
  by (rule coded_alloc coded_bnd coded_last field_rules coded_pointer attachment_parts refl | assumption | simp)+

lemma sent_store_request:
  "store_request_ok f r \<Longrightarrow>
     \<exists>p. (store_request_id r, p) \<in> set store_request_cases \<and>
       sent f p (push_store_request r) r"
  by (cases r) (auto simp: store_request_cases_def call_ids
      intro!: coded_sent [OF coded_ret] coded_store_requests [THEN coded_sent])

subsection \<open>Folders\<close>

primrec folder_request_ok :: "u32 \<Rightarrow> folder_request \<Rightarrow> bool" where
  "folder_request_ok f (REQ_CHECK_FOLDER_ID folder_id) \<longleftrightarrow>
     True"
| "folder_request_ok f (REQ_QUERY_FOLDER_MESSAGES folder_id) \<longleftrightarrow>
     True"
| "folder_request_ok f (REQ_CHECK_FOLDER_DELETED folder_id) \<longleftrightarrow>
     True"
| "folder_request_ok f (REQ_GET_FOLDER_BY_NAME parent_id str_name) \<longleftrightarrow>
     string_ok f str_name"
| "folder_request_ok f (REQ_CHECK_FOLDER_PERMISSION folder_id username) \<longleftrightarrow>
     string_ok f username"
| "folder_request_ok f (REQ_CREATE_FOLDER_BY_PROPERTIES cpid pproperties) \<longleftrightarrow>
     props_ok f pproperties"
| "folder_request_ok f (REQ_GET_FOLDER_ALL_PROPTAGS folder_id) \<longleftrightarrow>
     True"
| "folder_request_ok f (REQ_GET_FOLDER_PROPERTIES cpid folder_id pproptags) \<longleftrightarrow>
     list_ok (2 ^ 16) any_ok f pproptags"
| "folder_request_ok f (REQ_SET_FOLDER_PROPERTIES cpid folder_id pproperties) \<longleftrightarrow>
     props_ok f pproperties"
| "folder_request_ok f (REQ_REMOVE_FOLDER_PROPERTIES folder_id pproptags) \<longleftrightarrow>
     list_ok (2 ^ 16) any_ok f pproptags"
| "folder_request_ok f (REQ_DELETE_FOLDER cpid folder_id b_hard) \<longleftrightarrow>
     True"
| "folder_request_ok f (REQ_EMPTY_FOLDER cpid username folder_id b_hard b_normal b_fai b_sub)
       \<longleftrightarrow>
     option_ok string_ok f username"
| "folder_request_ok f (REQ_CHECK_FOLDER_CYCLE src_fid dst_fid) \<longleftrightarrow>
     True"
| "folder_request_ok f (REQ_COPY_FOLDER_INTERNAL account_id cpid b_guest username src_fid b_normal
       b_fai b_sub dst_fid) \<longleftrightarrow>
     option_ok string_ok f username"
| "folder_request_ok f (REQ_GET_SEARCH_CRITERIA folder_id) \<longleftrightarrow>
     True"
| "folder_request_ok f (REQ_SET_SEARCH_CRITERIA cpid folder_id search_flags prestriction
       pfolder_ids) \<longleftrightarrow>
     option_ok restriction_ok f prestriction \<and> list_ok (2 ^ 32) any_ok f pfolder_ids"
| "folder_request_ok f (REQ_MOVECOPY_MESSAGE account_id cpid message_id dst_fid dst_id b_move)
       \<longleftrightarrow>
     True"
| "folder_request_ok f (REQ_MOVECOPY_MESSAGES account_id cpid b_guest username src_fid dst_fid
       b_copy pmessage_ids) \<longleftrightarrow>
     option_ok string_ok f username \<and> list_ok (2 ^ 32) any_ok f pmessage_ids"
| "folder_request_ok f (REQ_MOVECOPY_FOLDER account_id cpid b_guest username src_pid src_fid dst_fid
       str_new b_copy) \<longleftrightarrow>
     option_ok string_ok f username \<and> string_ok f str_new"
| "folder_request_ok f (REQ_DELETE_MESSAGES account_id cpid username folder_id pmessage_ids b_hard)
       \<longleftrightarrow>
     option_ok string_ok f username \<and> list_ok (2 ^ 32) any_ok f pmessage_ids"
| "folder_request_ok f (REQ_GET_MESSAGE_BRIEF cpid message_id) \<longleftrightarrow>
     True"
| "folder_request_ok f (REQ_SUM_HIERARCHY folder_id username b_depth) \<longleftrightarrow>
     option_ok string_ok f username"

lemmas folder_request_readers =
  exmdb_ext_pull_check_folder_id_request_def
  exmdb_ext_pull_query_folder_messages_request_def
  exmdb_ext_pull_check_folder_deleted_request_def
  exmdb_ext_pull_get_folder_by_name_request_def
  exmdb_ext_pull_check_folder_permission_request_def
  exmdb_ext_pull_create_folder_by_properties_request_def
  exmdb_ext_pull_get_folder_all_proptags_request_def
  exmdb_ext_pull_get_folder_properties_request_def
  exmdb_ext_pull_set_folder_properties_request_def
  exmdb_ext_pull_remove_folder_properties_request_def
  exmdb_ext_pull_delete_folder_request_def
  exmdb_ext_pull_empty_folder_request_def
  exmdb_ext_pull_check_folder_cycle_request_def
  exmdb_ext_pull_copy_folder_internal_request_def
  exmdb_ext_pull_get_search_criteria_request_def
  exmdb_ext_pull_set_search_criteria_request_def
  exmdb_ext_pull_movecopy_message_request_def
  exmdb_ext_pull_movecopy_messages_request_def
  exmdb_ext_pull_movecopy_folder_request_def
  exmdb_ext_pull_delete_messages_request_def
  exmdb_ext_pull_get_message_brief_request_def
  exmdb_ext_pull_sum_hierarchy_request_def

lemmas folder_request_writers =
  exmdb_ext_push_check_folder_id_request_def
  exmdb_ext_push_query_folder_messages_request_def
  exmdb_ext_push_check_folder_deleted_request_def
  exmdb_ext_push_get_folder_by_name_request_def
  exmdb_ext_push_check_folder_permission_request_def
  exmdb_ext_push_create_folder_by_properties_request_def
  exmdb_ext_push_get_folder_all_proptags_request_def
  exmdb_ext_push_get_folder_properties_request_def
  exmdb_ext_push_set_folder_properties_request_def
  exmdb_ext_push_remove_folder_properties_request_def
  exmdb_ext_push_delete_folder_request_def
  exmdb_ext_push_empty_folder_request_def
  exmdb_ext_push_check_folder_cycle_request_def
  exmdb_ext_push_copy_folder_internal_request_def
  exmdb_ext_push_get_search_criteria_request_def
  exmdb_ext_push_set_search_criteria_request_def
  exmdb_ext_push_movecopy_message_request_def
  exmdb_ext_push_movecopy_messages_request_def
  exmdb_ext_push_movecopy_folder_request_def
  exmdb_ext_push_delete_messages_request_def
  exmdb_ext_push_get_message_brief_request_def
  exmdb_ext_push_sum_hierarchy_request_def

lemma safe_folder_requests [safe_rules]:
  "safe b exmdb_ext_pull_check_folder_id_request"
  "safe b exmdb_ext_pull_query_folder_messages_request"
  "safe b exmdb_ext_pull_check_folder_deleted_request"
  "safe b exmdb_ext_pull_get_folder_by_name_request"
  "safe b exmdb_ext_pull_check_folder_permission_request"
  "safe b exmdb_ext_pull_create_folder_by_properties_request"
  "safe b exmdb_ext_pull_get_folder_all_proptags_request"
  "safe b exmdb_ext_pull_get_folder_properties_request"
  "safe b exmdb_ext_pull_set_folder_properties_request"
  "safe b exmdb_ext_pull_remove_folder_properties_request"
  "safe b exmdb_ext_pull_delete_folder_request"
  "safe b exmdb_ext_pull_empty_folder_request"
  "safe b exmdb_ext_pull_check_folder_cycle_request"
  "safe b exmdb_ext_pull_copy_folder_internal_request"
  "safe b exmdb_ext_pull_get_search_criteria_request"
  "safe b exmdb_ext_pull_set_search_criteria_request"
  "safe b exmdb_ext_pull_movecopy_message_request"
  "safe b exmdb_ext_pull_movecopy_messages_request"
  "safe b exmdb_ext_pull_movecopy_folder_request"
  "safe b exmdb_ext_pull_delete_messages_request"
  "safe b exmdb_ext_pull_get_message_brief_request"
  "safe b exmdb_ext_pull_sum_hierarchy_request"
  unfolding folder_request_readers Let_def
  by (intro safe_rules)+

lemma coded_folder_requests:
  "coded f exmdb_ext_pull_check_folder_id_request
       (exmdb_ext_push_check_folder_id_request folder_id)
       (REQ_CHECK_FOLDER_ID folder_id)"
  "coded f exmdb_ext_pull_query_folder_messages_request
       (exmdb_ext_push_query_folder_messages_request folder_id)
       (REQ_QUERY_FOLDER_MESSAGES folder_id)"
  "coded f exmdb_ext_pull_check_folder_deleted_request
       (exmdb_ext_push_check_folder_deleted_request folder_id)
       (REQ_CHECK_FOLDER_DELETED folder_id)"
  "string_ok f str_name \<Longrightarrow>
     coded f exmdb_ext_pull_get_folder_by_name_request
       (exmdb_ext_push_get_folder_by_name_request parent_id str_name)
       (REQ_GET_FOLDER_BY_NAME parent_id str_name)"
  "string_ok f username \<Longrightarrow>
     coded f exmdb_ext_pull_check_folder_permission_request
       (exmdb_ext_push_check_folder_permission_request folder_id username)
       (REQ_CHECK_FOLDER_PERMISSION folder_id username)"
  "props_ok f pproperties \<Longrightarrow>
     coded f exmdb_ext_pull_create_folder_by_properties_request
       (exmdb_ext_push_create_folder_by_properties_request cpid pproperties)
       (REQ_CREATE_FOLDER_BY_PROPERTIES cpid pproperties)"
  "coded f exmdb_ext_pull_get_folder_all_proptags_request
       (exmdb_ext_push_get_folder_all_proptags_request folder_id)
       (REQ_GET_FOLDER_ALL_PROPTAGS folder_id)"
  "list_ok (2 ^ 16) any_ok f pproptags \<Longrightarrow>
     coded f exmdb_ext_pull_get_folder_properties_request
       (exmdb_ext_push_get_folder_properties_request cpid folder_id pproptags)
       (REQ_GET_FOLDER_PROPERTIES cpid folder_id pproptags)"
  "props_ok f pproperties \<Longrightarrow>
     coded f exmdb_ext_pull_set_folder_properties_request
       (exmdb_ext_push_set_folder_properties_request cpid folder_id pproperties)
       (REQ_SET_FOLDER_PROPERTIES cpid folder_id pproperties)"
  "list_ok (2 ^ 16) any_ok f pproptags \<Longrightarrow>
     coded f exmdb_ext_pull_remove_folder_properties_request
       (exmdb_ext_push_remove_folder_properties_request folder_id pproptags)
       (REQ_REMOVE_FOLDER_PROPERTIES folder_id pproptags)"
  "coded f exmdb_ext_pull_delete_folder_request
       (exmdb_ext_push_delete_folder_request cpid folder_id b_hard)
       (REQ_DELETE_FOLDER cpid folder_id b_hard)"
  "option_ok string_ok f username' \<Longrightarrow>
     coded f exmdb_ext_pull_empty_folder_request
       (exmdb_ext_push_empty_folder_request cpid username' folder_id b_hard b_normal b_fai b_sub)
       (REQ_EMPTY_FOLDER cpid username' folder_id b_hard b_normal b_fai b_sub)"
  "coded f exmdb_ext_pull_check_folder_cycle_request
       (exmdb_ext_push_check_folder_cycle_request src_fid dst_fid)
       (REQ_CHECK_FOLDER_CYCLE src_fid dst_fid)"
  "option_ok string_ok f username' \<Longrightarrow>
     coded f exmdb_ext_pull_copy_folder_internal_request
       (exmdb_ext_push_copy_folder_internal_request account_id cpid b_guest username' src_fid
       b_normal b_fai b_sub dst_fid)
       (REQ_COPY_FOLDER_INTERNAL account_id cpid b_guest username' src_fid b_normal b_fai b_sub
       dst_fid)"
  "coded f exmdb_ext_pull_get_search_criteria_request
       (exmdb_ext_push_get_search_criteria_request folder_id)
       (REQ_GET_SEARCH_CRITERIA folder_id)"
  "option_ok restriction_ok f prestriction \<Longrightarrow> list_ok (2 ^ 32) any_ok f pfolder_ids
       \<Longrightarrow>
     coded f exmdb_ext_pull_set_search_criteria_request
       (exmdb_ext_push_set_search_criteria_request cpid folder_id search_flags prestriction
       pfolder_ids)
       (REQ_SET_SEARCH_CRITERIA cpid folder_id search_flags prestriction pfolder_ids)"
  "coded f exmdb_ext_pull_movecopy_message_request
       (exmdb_ext_push_movecopy_message_request account_id cpid message_id dst_fid dst_id b_move)
       (REQ_MOVECOPY_MESSAGE account_id cpid message_id dst_fid dst_id b_move)"
  "option_ok string_ok f username' \<Longrightarrow> list_ok (2 ^ 32) any_ok f pmessage_ids
       \<Longrightarrow>
     coded f exmdb_ext_pull_movecopy_messages_request
       (exmdb_ext_push_movecopy_messages_request account_id cpid b_guest username' src_fid dst_fid
       b_copy pmessage_ids)
       (REQ_MOVECOPY_MESSAGES account_id cpid b_guest username' src_fid dst_fid b_copy
       pmessage_ids)"
  "option_ok string_ok f username' \<Longrightarrow> string_ok f str_new \<Longrightarrow>
     coded f exmdb_ext_pull_movecopy_folder_request
       (exmdb_ext_push_movecopy_folder_request account_id cpid b_guest username' src_pid src_fid
       dst_fid str_new b_copy)
       (REQ_MOVECOPY_FOLDER account_id cpid b_guest username' src_pid src_fid dst_fid str_new
       b_copy)"
  "option_ok string_ok f username' \<Longrightarrow> list_ok (2 ^ 32) any_ok f pmessage_ids
       \<Longrightarrow>
     coded f exmdb_ext_pull_delete_messages_request
       (exmdb_ext_push_delete_messages_request account_id cpid username' folder_id pmessage_ids
       b_hard)
       (REQ_DELETE_MESSAGES account_id cpid username' folder_id pmessage_ids b_hard)"
  "coded f exmdb_ext_pull_get_message_brief_request
       (exmdb_ext_push_get_message_brief_request cpid message_id)
       (REQ_GET_MESSAGE_BRIEF cpid message_id)"
  "option_ok string_ok f username' \<Longrightarrow>
     coded f exmdb_ext_pull_sum_hierarchy_request
       (exmdb_ext_push_sum_hierarchy_request folder_id username' b_depth)
       (REQ_SUM_HIERARCHY folder_id username' b_depth)"
  unfolding folder_request_readers folder_request_writers
  by (rule coded_alloc coded_bnd coded_last field_rules coded_pointer attachment_parts refl | assumption | simp)+

lemma sent_folder_request:
  "folder_request_ok f r \<Longrightarrow>
     \<exists>p. (folder_request_id r, p) \<in> set folder_request_cases \<and>
       sent f p (push_folder_request r) r"
  by (cases r) (auto simp: folder_request_cases_def call_ids
      intro!: coded_sent [OF coded_ret] coded_folder_requests [THEN coded_sent])

subsection \<open>Tables\<close>

primrec table_request_ok :: "u32 \<Rightarrow> table_request \<Rightarrow> bool" where
  "table_request_ok f (REQ_LOAD_HIERARCHY_TABLE folder_id username table_flags prestriction)
       \<longleftrightarrow>
     option_ok string_ok f username \<and> option_ok restriction_ok f prestriction"
| "table_request_ok f (REQ_SUM_CONTENT folder_id b_fai b_deleted) \<longleftrightarrow>
     True"
| "table_request_ok f (REQ_LOAD_CONTENT_TABLE cpid folder_id username table_flags prestriction
       psorts) \<longleftrightarrow>
     option_ok string_ok f username \<and> option_ok restriction_ok f prestriction \<and>
       option_ok (\<lambda>f. sortorder_set_ok) f psorts"
| "table_request_ok f (REQ_RELOAD_CONTENT_TABLE table_id) \<longleftrightarrow>
     True"
| "table_request_ok f (REQ_LOAD_PERMISSION_TABLE folder_id table_flags) \<longleftrightarrow>
     True"
| "table_request_ok f (REQ_LOAD_RULE_TABLE folder_id table_flags prestriction) \<longleftrightarrow>
     option_ok restriction_ok f prestriction"
| "table_request_ok f (REQ_UNLOAD_TABLE table_id) \<longleftrightarrow>
     True"
| "table_request_ok f (REQ_SUM_TABLE table_id) \<longleftrightarrow>
     True"
| "table_request_ok f (REQ_QUERY_TABLE username cpid table_id pproptags start_pos row_needed)
       \<longleftrightarrow>
     option_ok string_ok f username \<and> list_ok (2 ^ 16) any_ok f pproptags"
| "table_request_ok f (REQ_MATCH_TABLE username cpid table_id b_forward start_pos pres pproptags)
       \<longleftrightarrow>
     option_ok string_ok f username \<and> restriction_ok f pres \<and> list_ok (2 ^ 16) any_ok f
       pproptags"
| "table_request_ok f (REQ_LOCATE_TABLE table_id inst_id inst_num) \<longleftrightarrow>
     True"
| "table_request_ok f (REQ_READ_TABLE_ROW username cpid table_id pproptags inst_id inst_num)
       \<longleftrightarrow>
     option_ok string_ok f username \<and> list_ok (2 ^ 16) any_ok f pproptags"
| "table_request_ok f (REQ_MARK_TABLE table_id position) \<longleftrightarrow>
     True"
| "table_request_ok f (REQ_GET_TABLE_ALL_PROPTAGS table_id) \<longleftrightarrow>
     True"
| "table_request_ok f (REQ_EXPAND_TABLE table_id inst_id) \<longleftrightarrow>
     True"
| "table_request_ok f (REQ_COLLAPSE_TABLE table_id inst_id) \<longleftrightarrow>
     True"
| "table_request_ok f (REQ_STORE_TABLE_STATE table_id inst_id inst_num) \<longleftrightarrow>
     True"
| "table_request_ok f (REQ_RESTORE_TABLE_STATE table_id state_id) \<longleftrightarrow>
     True"

lemmas table_request_readers =
  exmdb_ext_pull_load_hierarchy_table_request_def
  exmdb_ext_pull_sum_content_request_def
  exmdb_ext_pull_load_content_table_request_def
  exmdb_ext_pull_reload_content_table_request_def
  exmdb_ext_pull_load_permission_table_request_def
  exmdb_ext_pull_load_rule_table_request_def
  exmdb_ext_pull_unload_table_request_def
  exmdb_ext_pull_sum_table_request_def
  exmdb_ext_pull_query_table_request_def
  exmdb_ext_pull_match_table_request_def
  exmdb_ext_pull_locate_table_request_def
  exmdb_ext_pull_read_table_row_request_def
  exmdb_ext_pull_mark_table_request_def
  exmdb_ext_pull_get_table_all_proptags_request_def
  exmdb_ext_pull_expand_table_request_def
  exmdb_ext_pull_collapse_table_request_def
  exmdb_ext_pull_store_table_state_request_def
  exmdb_ext_pull_restore_table_state_request_def

lemmas table_request_writers =
  exmdb_ext_push_load_hierarchy_table_request_def
  exmdb_ext_push_sum_content_request_def
  exmdb_ext_push_load_content_table_request_def
  exmdb_ext_push_reload_content_table_request_def
  exmdb_ext_push_load_permission_table_request_def
  exmdb_ext_push_load_rule_table_request_def
  exmdb_ext_push_unload_table_request_def
  exmdb_ext_push_sum_table_request_def
  exmdb_ext_push_query_table_request_def
  exmdb_ext_push_match_table_request_def
  exmdb_ext_push_locate_table_request_def
  exmdb_ext_push_read_table_row_request_def
  exmdb_ext_push_mark_table_request_def
  exmdb_ext_push_get_table_all_proptags_request_def
  exmdb_ext_push_expand_table_request_def
  exmdb_ext_push_collapse_table_request_def
  exmdb_ext_push_store_table_state_request_def
  exmdb_ext_push_restore_table_state_request_def

lemma safe_table_requests [safe_rules]:
  "safe b exmdb_ext_pull_load_hierarchy_table_request"
  "safe b exmdb_ext_pull_sum_content_request"
  "safe b exmdb_ext_pull_load_content_table_request"
  "safe b exmdb_ext_pull_reload_content_table_request"
  "safe b exmdb_ext_pull_load_permission_table_request"
  "safe b exmdb_ext_pull_load_rule_table_request"
  "safe b exmdb_ext_pull_unload_table_request"
  "safe b exmdb_ext_pull_sum_table_request"
  "safe b exmdb_ext_pull_query_table_request"
  "safe b exmdb_ext_pull_match_table_request"
  "safe b exmdb_ext_pull_locate_table_request"
  "safe b exmdb_ext_pull_read_table_row_request"
  "safe b exmdb_ext_pull_mark_table_request"
  "safe b exmdb_ext_pull_get_table_all_proptags_request"
  "safe b exmdb_ext_pull_expand_table_request"
  "safe b exmdb_ext_pull_collapse_table_request"
  "safe b exmdb_ext_pull_store_table_state_request"
  "safe b exmdb_ext_pull_restore_table_state_request"
  unfolding table_request_readers Let_def
  by (intro safe_rules)+

lemma coded_table_requests:
  "option_ok string_ok f username \<Longrightarrow> option_ok restriction_ok f prestriction
       \<Longrightarrow>
     coded f exmdb_ext_pull_load_hierarchy_table_request
       (exmdb_ext_push_load_hierarchy_table_request folder_id username table_flags prestriction)
       (REQ_LOAD_HIERARCHY_TABLE folder_id username table_flags prestriction)"
  "coded f exmdb_ext_pull_sum_content_request
       (exmdb_ext_push_sum_content_request folder_id b_fai b_deleted)
       (REQ_SUM_CONTENT folder_id b_fai b_deleted)"
  "option_ok string_ok f username \<Longrightarrow> option_ok restriction_ok f prestriction
       \<Longrightarrow> option_ok (\<lambda>f. sortorder_set_ok) f psorts \<Longrightarrow>
     coded f exmdb_ext_pull_load_content_table_request
       (exmdb_ext_push_load_content_table_request cpid folder_id username table_flags prestriction
       psorts)
       (REQ_LOAD_CONTENT_TABLE cpid folder_id username table_flags prestriction psorts)"
  "coded f exmdb_ext_pull_reload_content_table_request
       (exmdb_ext_push_reload_content_table_request table_id)
       (REQ_RELOAD_CONTENT_TABLE table_id)"
  "coded f exmdb_ext_pull_load_permission_table_request
       (exmdb_ext_push_load_permission_table_request folder_id table_flags)
       (REQ_LOAD_PERMISSION_TABLE folder_id table_flags)"
  "option_ok restriction_ok f prestriction \<Longrightarrow>
     coded f exmdb_ext_pull_load_rule_table_request
       (exmdb_ext_push_load_rule_table_request folder_id table_flags prestriction)
       (REQ_LOAD_RULE_TABLE folder_id table_flags prestriction)"
  "coded f exmdb_ext_pull_unload_table_request
       (exmdb_ext_push_unload_table_request table_id)
       (REQ_UNLOAD_TABLE table_id)"
  "coded f exmdb_ext_pull_sum_table_request
       (exmdb_ext_push_sum_table_request table_id)
       (REQ_SUM_TABLE table_id)"
  "option_ok string_ok f username \<Longrightarrow> list_ok (2 ^ 16) any_ok f pproptags
       \<Longrightarrow>
     coded f exmdb_ext_pull_query_table_request
       (exmdb_ext_push_query_table_request username cpid table_id pproptags start_pos row_needed)
       (REQ_QUERY_TABLE username cpid table_id pproptags start_pos row_needed)"
  "option_ok string_ok f username \<Longrightarrow> restriction_ok f pres \<Longrightarrow>
       list_ok (2 ^ 16) any_ok f pproptags \<Longrightarrow>
     coded f exmdb_ext_pull_match_table_request
       (exmdb_ext_push_match_table_request username cpid table_id b_forward start_pos pres
       pproptags)
       (REQ_MATCH_TABLE username cpid table_id b_forward start_pos pres pproptags)"
  "coded f exmdb_ext_pull_locate_table_request
       (exmdb_ext_push_locate_table_request table_id inst_id inst_num)
       (REQ_LOCATE_TABLE table_id inst_id inst_num)"
  "option_ok string_ok f username \<Longrightarrow> list_ok (2 ^ 16) any_ok f pproptags
       \<Longrightarrow>
     coded f exmdb_ext_pull_read_table_row_request
       (exmdb_ext_push_read_table_row_request username cpid table_id pproptags inst_id inst_num)
       (REQ_READ_TABLE_ROW username cpid table_id pproptags inst_id inst_num)"
  "coded f exmdb_ext_pull_mark_table_request
       (exmdb_ext_push_mark_table_request table_id position)
       (REQ_MARK_TABLE table_id position)"
  "coded f exmdb_ext_pull_get_table_all_proptags_request
       (exmdb_ext_push_get_table_all_proptags_request table_id)
       (REQ_GET_TABLE_ALL_PROPTAGS table_id)"
  "coded f exmdb_ext_pull_expand_table_request
       (exmdb_ext_push_expand_table_request table_id inst_id)
       (REQ_EXPAND_TABLE table_id inst_id)"
  "coded f exmdb_ext_pull_collapse_table_request
       (exmdb_ext_push_collapse_table_request table_id inst_id)
       (REQ_COLLAPSE_TABLE table_id inst_id)"
  "coded f exmdb_ext_pull_store_table_state_request
       (exmdb_ext_push_store_table_state_request table_id inst_id inst_num)
       (REQ_STORE_TABLE_STATE table_id inst_id inst_num)"
  "coded f exmdb_ext_pull_restore_table_state_request
       (exmdb_ext_push_restore_table_state_request table_id state_id)
       (REQ_RESTORE_TABLE_STATE table_id state_id)"
  unfolding table_request_readers table_request_writers
  by (rule coded_alloc coded_bnd coded_last field_rules coded_pointer attachment_parts refl | assumption | simp)+

lemma sent_table_request:
  "table_request_ok f r \<Longrightarrow>
     \<exists>p. (table_request_id r, p) \<in> set table_request_cases \<and>
       sent f p (push_table_request r) r"
  by (cases r) (auto simp: table_request_cases_def call_ids
      intro!: coded_sent [OF coded_ret] coded_table_requests [THEN coded_sent])

subsection \<open>Message and attachment instances\<close>

primrec instance_request_ok :: "u32 \<Rightarrow> instance_request \<Rightarrow> bool" where
  "instance_request_ok f (REQ_CHECK_MESSAGE folder_id message_id) \<longleftrightarrow>
     True"
| "instance_request_ok f (REQ_CHECK_MESSAGE_DELETED message_id) \<longleftrightarrow>
     True"
| "instance_request_ok f (REQ_LOAD_MESSAGE_INSTANCE username cpid b_new folder_id message_id)
       \<longleftrightarrow>
     option_ok string_ok f username"
| "instance_request_ok f (REQ_LOAD_EMBEDDED_INSTANCE b_new attachment_instance_id)
       \<longleftrightarrow>
     True"
| "instance_request_ok f (REQ_GET_EMBEDED_CN instance_id) \<longleftrightarrow>
     True"
| "instance_request_ok f (REQ_RELOAD_MESSAGE_INSTANCE instance_id) \<longleftrightarrow>
     True"
| "instance_request_ok f (REQ_CLEAR_MESSAGE_INSTANCE instance_id) \<longleftrightarrow>
     True"
| "instance_request_ok f (REQ_READ_MESSAGE_INSTANCE instance_id) \<longleftrightarrow>
     True"
| "instance_request_ok f (REQ_WRITE_MESSAGE_INSTANCE instance_id pmsgctnt b_force)
       \<longleftrightarrow>
     message_ok f pmsgctnt"
| "instance_request_ok f (REQ_LOAD_ATTACHMENT_INSTANCE message_instance_id attachment_num)
       \<longleftrightarrow>
     True"
| "instance_request_ok f (REQ_CREATE_ATTACHMENT_INSTANCE message_instance_id) \<longleftrightarrow>
     True"
| "instance_request_ok f (REQ_READ_ATTACHMENT_INSTANCE instance_id) \<longleftrightarrow>
     True"
| "instance_request_ok f (REQ_WRITE_ATTACHMENT_INSTANCE instance_id pattctnt b_force)
       \<longleftrightarrow>
     attachment_ok f pattctnt"
| "instance_request_ok f (REQ_DELETE_MESSAGE_INSTANCE_ATTACHMENT message_instance_id attachment_num)
       \<longleftrightarrow>
     True"
| "instance_request_ok f (REQ_FLUSH_INSTANCE instance_id account) \<longleftrightarrow>
     option_ok string_ok f account"
| "instance_request_ok f (REQ_UNLOAD_INSTANCE instance_id) \<longleftrightarrow>
     True"
| "instance_request_ok f (REQ_GET_INSTANCE_ALL_PROPTAGS instance_id) \<longleftrightarrow>
     True"
| "instance_request_ok f (REQ_GET_INSTANCE_PROPERTIES size_limit instance_id pproptags)
       \<longleftrightarrow>
     list_ok (2 ^ 16) any_ok f pproptags"
| "instance_request_ok f (REQ_SET_INSTANCE_PROPERTIES instance_id pproperties) \<longleftrightarrow>
     props_ok f pproperties"
| "instance_request_ok f (REQ_REMOVE_INSTANCE_PROPERTIES instance_id pproptags) \<longleftrightarrow>
     list_ok (2 ^ 16) any_ok f pproptags"
| "instance_request_ok f (REQ_CHECK_INSTANCE_CYCLE src_instance_id dst_instance_id)
       \<longleftrightarrow>
     True"

lemmas instance_request_readers =
  exmdb_ext_pull_check_message_request_def
  exmdb_ext_pull_check_message_deleted_request_def
  exmdb_ext_pull_load_message_instance_request_def
  exmdb_ext_pull_load_embedded_instance_request_def
  exmdb_ext_pull_get_embeded_cn_request_def
  exmdb_ext_pull_reload_message_instance_request_def
  exmdb_ext_pull_clear_message_instance_request_def
  exmdb_ext_pull_read_message_instance_request_def
  exmdb_ext_pull_write_message_instance_request_def
  exmdb_ext_pull_load_attachment_instance_request_def
  exmdb_ext_pull_create_attachment_instance_request_def
  exmdb_ext_pull_read_attachment_instance_request_def
  exmdb_ext_pull_write_attachment_instance_request_def
  exmdb_ext_pull_delete_message_instance_attachment_request_def
  exmdb_ext_pull_flush_instance_request_def
  exmdb_ext_pull_unload_instance_request_def
  exmdb_ext_pull_get_instance_all_proptags_request_def
  exmdb_ext_pull_get_instance_properties_request_def
  exmdb_ext_pull_set_instance_properties_request_def
  exmdb_ext_pull_remove_instance_properties_request_def
  exmdb_ext_pull_check_instance_cycle_request_def

lemmas instance_request_writers =
  exmdb_ext_push_check_message_request_def
  exmdb_ext_push_check_message_deleted_request_def
  exmdb_ext_push_load_message_instance_request_def
  exmdb_ext_push_load_embedded_instance_request_def
  exmdb_ext_push_get_embeded_cn_request_def
  exmdb_ext_push_reload_message_instance_request_def
  exmdb_ext_push_clear_message_instance_request_def
  exmdb_ext_push_read_message_instance_request_def
  exmdb_ext_push_write_message_instance_request_def
  exmdb_ext_push_load_attachment_instance_request_def
  exmdb_ext_push_create_attachment_instance_request_def
  exmdb_ext_push_read_attachment_instance_request_def
  exmdb_ext_push_write_attachment_instance_request_def
  exmdb_ext_push_delete_message_instance_attachment_request_def
  exmdb_ext_push_flush_instance_request_def
  exmdb_ext_push_unload_instance_request_def
  exmdb_ext_push_get_instance_all_proptags_request_def
  exmdb_ext_push_get_instance_properties_request_def
  exmdb_ext_push_set_instance_properties_request_def
  exmdb_ext_push_remove_instance_properties_request_def
  exmdb_ext_push_check_instance_cycle_request_def

lemma safe_instance_requests [safe_rules]:
  "safe b exmdb_ext_pull_check_message_request"
  "safe b exmdb_ext_pull_check_message_deleted_request"
  "safe b exmdb_ext_pull_load_message_instance_request"
  "safe b exmdb_ext_pull_load_embedded_instance_request"
  "safe b exmdb_ext_pull_get_embeded_cn_request"
  "safe b exmdb_ext_pull_reload_message_instance_request"
  "safe b exmdb_ext_pull_clear_message_instance_request"
  "safe b exmdb_ext_pull_read_message_instance_request"
  "safe b exmdb_ext_pull_write_message_instance_request"
  "safe b exmdb_ext_pull_load_attachment_instance_request"
  "safe b exmdb_ext_pull_create_attachment_instance_request"
  "safe b exmdb_ext_pull_read_attachment_instance_request"
  "safe b exmdb_ext_pull_write_attachment_instance_request"
  "safe b exmdb_ext_pull_delete_message_instance_attachment_request"
  "safe b exmdb_ext_pull_flush_instance_request"
  "safe b exmdb_ext_pull_unload_instance_request"
  "safe b exmdb_ext_pull_get_instance_all_proptags_request"
  "safe b exmdb_ext_pull_get_instance_properties_request"
  "safe b exmdb_ext_pull_set_instance_properties_request"
  "safe b exmdb_ext_pull_remove_instance_properties_request"
  "safe b exmdb_ext_pull_check_instance_cycle_request"
  unfolding instance_request_readers Let_def
  by (intro safe_rules)+

lemma coded_instance_requests:
  "coded f exmdb_ext_pull_check_message_request
       (exmdb_ext_push_check_message_request folder_id message_id)
       (REQ_CHECK_MESSAGE folder_id message_id)"
  "coded f exmdb_ext_pull_check_message_deleted_request
       (exmdb_ext_push_check_message_deleted_request message_id)
       (REQ_CHECK_MESSAGE_DELETED message_id)"
  "option_ok string_ok f username \<Longrightarrow>
     coded f exmdb_ext_pull_load_message_instance_request
       (exmdb_ext_push_load_message_instance_request username cpid b_new folder_id message_id)
       (REQ_LOAD_MESSAGE_INSTANCE username cpid b_new folder_id message_id)"
  "coded f exmdb_ext_pull_load_embedded_instance_request
       (exmdb_ext_push_load_embedded_instance_request b_new attachment_instance_id)
       (REQ_LOAD_EMBEDDED_INSTANCE b_new attachment_instance_id)"
  "coded f exmdb_ext_pull_get_embeded_cn_request
       (exmdb_ext_push_get_embeded_cn_request instance_id)
       (REQ_GET_EMBEDED_CN instance_id)"
  "coded f exmdb_ext_pull_reload_message_instance_request
       (exmdb_ext_push_reload_message_instance_request instance_id)
       (REQ_RELOAD_MESSAGE_INSTANCE instance_id)"
  "coded f exmdb_ext_pull_clear_message_instance_request
       (exmdb_ext_push_clear_message_instance_request instance_id)
       (REQ_CLEAR_MESSAGE_INSTANCE instance_id)"
  "coded f exmdb_ext_pull_read_message_instance_request
       (exmdb_ext_push_read_message_instance_request instance_id)
       (REQ_READ_MESSAGE_INSTANCE instance_id)"
  "message_ok f pmsgctnt \<Longrightarrow>
     coded f exmdb_ext_pull_write_message_instance_request
       (exmdb_ext_push_write_message_instance_request instance_id pmsgctnt b_force)
       (REQ_WRITE_MESSAGE_INSTANCE instance_id pmsgctnt b_force)"
  "coded f exmdb_ext_pull_load_attachment_instance_request
       (exmdb_ext_push_load_attachment_instance_request message_instance_id attachment_num)
       (REQ_LOAD_ATTACHMENT_INSTANCE message_instance_id attachment_num)"
  "coded f exmdb_ext_pull_create_attachment_instance_request
       (exmdb_ext_push_create_attachment_instance_request message_instance_id)
       (REQ_CREATE_ATTACHMENT_INSTANCE message_instance_id)"
  "coded f exmdb_ext_pull_read_attachment_instance_request
       (exmdb_ext_push_read_attachment_instance_request instance_id)
       (REQ_READ_ATTACHMENT_INSTANCE instance_id)"
  "attachment_ok f pattctnt \<Longrightarrow>
     coded f exmdb_ext_pull_write_attachment_instance_request
       (exmdb_ext_push_write_attachment_instance_request instance_id pattctnt b_force)
       (REQ_WRITE_ATTACHMENT_INSTANCE instance_id pattctnt b_force)"
  "coded f exmdb_ext_pull_delete_message_instance_attachment_request
       (exmdb_ext_push_delete_message_instance_attachment_request message_instance_id
       attachment_num)
       (REQ_DELETE_MESSAGE_INSTANCE_ATTACHMENT message_instance_id attachment_num)"
  "option_ok string_ok f account \<Longrightarrow>
     coded f exmdb_ext_pull_flush_instance_request
       (exmdb_ext_push_flush_instance_request instance_id account)
       (REQ_FLUSH_INSTANCE instance_id account)"
  "coded f exmdb_ext_pull_unload_instance_request
       (exmdb_ext_push_unload_instance_request instance_id)
       (REQ_UNLOAD_INSTANCE instance_id)"
  "coded f exmdb_ext_pull_get_instance_all_proptags_request
       (exmdb_ext_push_get_instance_all_proptags_request instance_id)
       (REQ_GET_INSTANCE_ALL_PROPTAGS instance_id)"
  "list_ok (2 ^ 16) any_ok f pproptags \<Longrightarrow>
     coded f exmdb_ext_pull_get_instance_properties_request
       (exmdb_ext_push_get_instance_properties_request size_limit instance_id pproptags)
       (REQ_GET_INSTANCE_PROPERTIES size_limit instance_id pproptags)"
  "props_ok f pproperties \<Longrightarrow>
     coded f exmdb_ext_pull_set_instance_properties_request
       (exmdb_ext_push_set_instance_properties_request instance_id pproperties)
       (REQ_SET_INSTANCE_PROPERTIES instance_id pproperties)"
  "list_ok (2 ^ 16) any_ok f pproptags \<Longrightarrow>
     coded f exmdb_ext_pull_remove_instance_properties_request
       (exmdb_ext_push_remove_instance_properties_request instance_id pproptags)
       (REQ_REMOVE_INSTANCE_PROPERTIES instance_id pproptags)"
  "coded f exmdb_ext_pull_check_instance_cycle_request
       (exmdb_ext_push_check_instance_cycle_request src_instance_id dst_instance_id)
       (REQ_CHECK_INSTANCE_CYCLE src_instance_id dst_instance_id)"
  unfolding instance_request_readers instance_request_writers
  by (rule coded_alloc coded_bnd coded_last field_rules coded_pointer attachment_parts refl | assumption | simp)+

lemma sent_instance_request:
  "instance_request_ok f r \<Longrightarrow>
     \<exists>p. (instance_request_id r, p) \<in> set instance_request_cases \<and>
       sent f p (push_instance_request r) r"
  by (cases r) (auto simp: instance_request_cases_def call_ids
      intro!: coded_sent [OF coded_ret] coded_instance_requests [THEN coded_sent])

subsection \<open>Recipients and attachments of an instance\<close>

primrec content_request_ok :: "u32 \<Rightarrow> content_request \<Rightarrow> bool" where
  "content_request_ok f (REQ_EMPTY_MESSAGE_INSTANCE_RCPTS instance_id) \<longleftrightarrow>
     True"
| "content_request_ok f (REQ_GET_MESSAGE_INSTANCE_RCPTS_NUM instance_id) \<longleftrightarrow>
     True"
| "content_request_ok f (REQ_GET_MESSAGE_INSTANCE_RCPTS_ALL_PROPTAGS instance_id)
       \<longleftrightarrow>
     True"
| "content_request_ok f (REQ_GET_MESSAGE_INSTANCE_RCPTS instance_id row_id need_count)
       \<longleftrightarrow>
     True"
| "content_request_ok f (REQ_UPDATE_MESSAGE_INSTANCE_RCPTS instance_id pset) \<longleftrightarrow>
     rows_ok f pset"
| "content_request_ok f (REQ_COPY_INSTANCE_RCPTS b_force src_instance_id dst_instance_id)
       \<longleftrightarrow>
     True"
| "content_request_ok f (REQ_EMPTY_MESSAGE_INSTANCE_ATTACHMENTS instance_id) \<longleftrightarrow>
     True"
| "content_request_ok f (REQ_GET_MESSAGE_INSTANCE_ATTACHMENTS_NUM instance_id) \<longleftrightarrow>
     True"
| "content_request_ok f (REQ_GET_MESSAGE_INSTANCE_ATTACHMENT_TABLE_ALL_PROPTAGS instance_id)
       \<longleftrightarrow>
     True"
| "content_request_ok f (REQ_QUERY_MESSAGE_INSTANCE_ATTACHMENT_TABLE instance_id pproptags start_pos
       row_needed) \<longleftrightarrow>
     list_ok (2 ^ 16) any_ok f pproptags"
| "content_request_ok f (REQ_COPY_INSTANCE_ATTACHMENTS b_force src_instance_id dst_instance_id)
       \<longleftrightarrow>
     True"
| "content_request_ok f (REQ_SET_MESSAGE_INSTANCE_CONFLICT instance_id pmsgctnt) \<longleftrightarrow>
     message_ok f pmsgctnt"

lemmas content_request_readers =
  exmdb_ext_pull_empty_message_instance_rcpts_request_def
  exmdb_ext_pull_get_message_instance_rcpts_num_request_def
  exmdb_ext_pull_get_message_instance_rcpts_all_proptags_request_def
  exmdb_ext_pull_get_message_instance_rcpts_request_def
  exmdb_ext_pull_update_message_instance_rcpts_request_def
  exmdb_ext_pull_copy_instance_rcpts_request_def
  exmdb_ext_pull_empty_message_instance_attachments_request_def
  exmdb_ext_pull_get_message_instance_attachments_num_request_def
  exmdb_ext_pull_get_message_instance_attachment_table_all_proptags_request_def
  exmdb_ext_pull_query_message_instance_attachment_table_request_def
  exmdb_ext_pull_copy_instance_attachments_request_def
  exmdb_ext_pull_set_message_instance_conflict_request_def

lemmas content_request_writers =
  exmdb_ext_push_empty_message_instance_rcpts_request_def
  exmdb_ext_push_get_message_instance_rcpts_num_request_def
  exmdb_ext_push_get_message_instance_rcpts_all_proptags_request_def
  exmdb_ext_push_get_message_instance_rcpts_request_def
  exmdb_ext_push_update_message_instance_rcpts_request_def
  exmdb_ext_push_copy_instance_rcpts_request_def
  exmdb_ext_push_empty_message_instance_attachments_request_def
  exmdb_ext_push_get_message_instance_attachments_num_request_def
  exmdb_ext_push_get_message_instance_attachment_table_all_proptags_request_def
  exmdb_ext_push_query_message_instance_attachment_table_request_def
  exmdb_ext_push_copy_instance_attachments_request_def
  exmdb_ext_push_set_message_instance_conflict_request_def

lemma safe_content_requests [safe_rules]:
  "safe b exmdb_ext_pull_empty_message_instance_rcpts_request"
  "safe b exmdb_ext_pull_get_message_instance_rcpts_num_request"
  "safe b exmdb_ext_pull_get_message_instance_rcpts_all_proptags_request"
  "safe b exmdb_ext_pull_get_message_instance_rcpts_request"
  "safe b exmdb_ext_pull_update_message_instance_rcpts_request"
  "safe b exmdb_ext_pull_copy_instance_rcpts_request"
  "safe b exmdb_ext_pull_empty_message_instance_attachments_request"
  "safe b exmdb_ext_pull_get_message_instance_attachments_num_request"
  "safe b exmdb_ext_pull_get_message_instance_attachment_table_all_proptags_request"
  "safe b exmdb_ext_pull_query_message_instance_attachment_table_request"
  "safe b exmdb_ext_pull_copy_instance_attachments_request"
  "safe b exmdb_ext_pull_set_message_instance_conflict_request"
  unfolding content_request_readers Let_def
  by (intro safe_rules)+

lemma coded_content_requests:
  "coded f exmdb_ext_pull_empty_message_instance_rcpts_request
       (exmdb_ext_push_empty_message_instance_rcpts_request instance_id)
       (REQ_EMPTY_MESSAGE_INSTANCE_RCPTS instance_id)"
  "coded f exmdb_ext_pull_get_message_instance_rcpts_num_request
       (exmdb_ext_push_get_message_instance_rcpts_num_request instance_id)
       (REQ_GET_MESSAGE_INSTANCE_RCPTS_NUM instance_id)"
  "coded f exmdb_ext_pull_get_message_instance_rcpts_all_proptags_request
       (exmdb_ext_push_get_message_instance_rcpts_all_proptags_request instance_id)
       (REQ_GET_MESSAGE_INSTANCE_RCPTS_ALL_PROPTAGS instance_id)"
  "coded f exmdb_ext_pull_get_message_instance_rcpts_request
       (exmdb_ext_push_get_message_instance_rcpts_request instance_id row_id need_count)
       (REQ_GET_MESSAGE_INSTANCE_RCPTS instance_id row_id need_count)"
  "rows_ok f pset \<Longrightarrow>
     coded f exmdb_ext_pull_update_message_instance_rcpts_request
       (exmdb_ext_push_update_message_instance_rcpts_request instance_id pset)
       (REQ_UPDATE_MESSAGE_INSTANCE_RCPTS instance_id pset)"
  "coded f exmdb_ext_pull_copy_instance_rcpts_request
       (exmdb_ext_push_copy_instance_rcpts_request b_force src_instance_id dst_instance_id)
       (REQ_COPY_INSTANCE_RCPTS b_force src_instance_id dst_instance_id)"
  "coded f exmdb_ext_pull_empty_message_instance_attachments_request
       (exmdb_ext_push_empty_message_instance_attachments_request instance_id)
       (REQ_EMPTY_MESSAGE_INSTANCE_ATTACHMENTS instance_id)"
  "coded f exmdb_ext_pull_get_message_instance_attachments_num_request
       (exmdb_ext_push_get_message_instance_attachments_num_request instance_id)
       (REQ_GET_MESSAGE_INSTANCE_ATTACHMENTS_NUM instance_id)"
  "coded f exmdb_ext_pull_get_message_instance_attachment_table_all_proptags_request
       (exmdb_ext_push_get_message_instance_attachment_table_all_proptags_request instance_id)
       (REQ_GET_MESSAGE_INSTANCE_ATTACHMENT_TABLE_ALL_PROPTAGS instance_id)"
  "list_ok (2 ^ 16) any_ok f pproptags \<Longrightarrow>
     coded f exmdb_ext_pull_query_message_instance_attachment_table_request
       (exmdb_ext_push_query_message_instance_attachment_table_request instance_id pproptags
       start_pos row_needed)
       (REQ_QUERY_MESSAGE_INSTANCE_ATTACHMENT_TABLE instance_id pproptags start_pos row_needed)"
  "coded f exmdb_ext_pull_copy_instance_attachments_request
       (exmdb_ext_push_copy_instance_attachments_request b_force src_instance_id dst_instance_id)
       (REQ_COPY_INSTANCE_ATTACHMENTS b_force src_instance_id dst_instance_id)"
  "message_ok f pmsgctnt \<Longrightarrow>
     coded f exmdb_ext_pull_set_message_instance_conflict_request
       (exmdb_ext_push_set_message_instance_conflict_request instance_id pmsgctnt)
       (REQ_SET_MESSAGE_INSTANCE_CONFLICT instance_id pmsgctnt)"
  unfolding content_request_readers content_request_writers
  by (rule coded_alloc coded_bnd coded_last field_rules coded_pointer attachment_parts refl | assumption | simp)+

lemma sent_content_request:
  "content_request_ok f r \<Longrightarrow>
     \<exists>p. (content_request_id r, p) \<in> set content_request_cases \<and>
       sent f p (push_content_request r) r"
  by (cases r) (auto simp: content_request_cases_def call_ids
      intro!: coded_sent [OF coded_ret] coded_content_requests [THEN coded_sent])

subsection \<open>Messages\<close>

primrec message_request_ok :: "u32 \<Rightarrow> message_request \<Rightarrow> bool" where
  "message_request_ok f (REQ_GET_MESSAGE_RCPTS message_id) \<longleftrightarrow>
     True"
| "message_request_ok f (REQ_GET_MESSAGE_PROPERTIES username cpid message_id pproptags)
       \<longleftrightarrow>
     option_ok string_ok f username \<and> list_ok (2 ^ 16) any_ok f pproptags"
| "message_request_ok f (REQ_SET_MESSAGE_PROPERTIES username cpid message_id pproperties)
       \<longleftrightarrow>
     option_ok string_ok f username \<and> props_ok f pproperties"
| "message_request_ok f (REQ_SET_MESSAGE_READ_STATE username message_id mark_as_read)
       \<longleftrightarrow>
     option_ok string_ok f username"
| "message_request_ok f (REQ_REMOVE_MESSAGE_PROPERTIES cpid message_id pproptags)
       \<longleftrightarrow>
     list_ok (2 ^ 16) any_ok f pproptags"
| "message_request_ok f (REQ_ALLOCATE_MESSAGE_ID folder_id) \<longleftrightarrow>
     True"
| "message_request_ok f REQ_ALLOCATE_CN \<longleftrightarrow>
     True"
| "message_request_ok f (REQ_GET_MESSAGE_GROUP_ID message_id) \<longleftrightarrow>
     True"
| "message_request_ok f (REQ_SET_MESSAGE_GROUP_ID message_id group_id) \<longleftrightarrow>
     True"
| "message_request_ok f (REQ_SAVE_CHANGE_INDICES message_id cn pindices pungroup_proptags)
       \<longleftrightarrow>
     list_ok (2 ^ 16) any_ok f pindices \<and> list_ok (2 ^ 16) any_ok f pungroup_proptags"
| "message_request_ok f (REQ_GET_CHANGE_INDICES message_id cn) \<longleftrightarrow>
     True"
| "message_request_ok f (REQ_MARK_MODIFIED message_id) \<longleftrightarrow>
     True"
| "message_request_ok f (REQ_TRY_MARK_SUBMIT message_id) \<longleftrightarrow>
     True"
| "message_request_ok f (REQ_CLEAR_SUBMIT message_id b_unsent) \<longleftrightarrow>
     True"
| "message_request_ok f (REQ_LINK_MESSAGE cpid folder_id message_id) \<longleftrightarrow>
     True"
| "message_request_ok f (REQ_UNLINK_MESSAGE cpid folder_id message_id) \<longleftrightarrow>
     True"
| "message_request_ok f (REQ_RULE_NEW_MESSAGE username account cpid folder_id message_id)
       \<longleftrightarrow>
     option_ok string_ok f username \<and> string_ok f account"
| "message_request_ok f (REQ_SET_MESSAGE_TIMER message_id timer_id) \<longleftrightarrow>
     True"
| "message_request_ok f (REQ_GET_MESSAGE_TIMER message_id) \<longleftrightarrow>
     True"

lemmas message_request_readers =
  exmdb_ext_pull_get_message_rcpts_request_def
  exmdb_ext_pull_get_message_properties_request_def
  exmdb_ext_pull_set_message_properties_request_def
  exmdb_ext_pull_set_message_read_state_request_def
  exmdb_ext_pull_remove_message_properties_request_def
  exmdb_ext_pull_allocate_message_id_request_def
  exmdb_ext_pull_get_message_group_id_request_def
  exmdb_ext_pull_set_message_group_id_request_def
  exmdb_ext_pull_save_change_indices_request_def
  exmdb_ext_pull_get_change_indices_request_def
  exmdb_ext_pull_mark_modified_request_def
  exmdb_ext_pull_try_mark_submit_request_def
  exmdb_ext_pull_clear_submit_request_def
  exmdb_ext_pull_link_message_request_def
  exmdb_ext_pull_unlink_message_request_def
  exmdb_ext_pull_rule_new_message_request_def
  rule_new_message_tail_def
  exmdb_ext_pull_set_message_timer_request_def
  exmdb_ext_pull_get_message_timer_request_def

lemmas message_request_writers =
  exmdb_ext_push_get_message_rcpts_request_def
  exmdb_ext_push_get_message_properties_request_def
  exmdb_ext_push_set_message_properties_request_def
  exmdb_ext_push_set_message_read_state_request_def
  exmdb_ext_push_remove_message_properties_request_def
  exmdb_ext_push_allocate_message_id_request_def
  exmdb_ext_push_get_message_group_id_request_def
  exmdb_ext_push_set_message_group_id_request_def
  exmdb_ext_push_save_change_indices_request_def
  exmdb_ext_push_get_change_indices_request_def
  exmdb_ext_push_mark_modified_request_def
  exmdb_ext_push_try_mark_submit_request_def
  exmdb_ext_push_clear_submit_request_def
  exmdb_ext_push_link_message_request_def
  exmdb_ext_push_unlink_message_request_def
  exmdb_ext_push_rule_new_message_request_def
  exmdb_ext_push_set_message_timer_request_def
  exmdb_ext_push_get_message_timer_request_def

lemma safe_message_requests [safe_rules]:
  "safe b exmdb_ext_pull_get_message_rcpts_request"
  "safe b exmdb_ext_pull_get_message_properties_request"
  "safe b exmdb_ext_pull_set_message_properties_request"
  "safe b exmdb_ext_pull_set_message_read_state_request"
  "safe b exmdb_ext_pull_remove_message_properties_request"
  "safe b exmdb_ext_pull_allocate_message_id_request"
  "safe b exmdb_ext_pull_get_message_group_id_request"
  "safe b exmdb_ext_pull_set_message_group_id_request"
  "safe b exmdb_ext_pull_save_change_indices_request"
  "safe b exmdb_ext_pull_get_change_indices_request"
  "safe b exmdb_ext_pull_mark_modified_request"
  "safe b exmdb_ext_pull_try_mark_submit_request"
  "safe b exmdb_ext_pull_clear_submit_request"
  "safe b exmdb_ext_pull_link_message_request"
  "safe b exmdb_ext_pull_unlink_message_request"
  "safe b (exmdb_ext_pull_rule_new_message_request env)"
  "safe b (exmdb_ext_pull_set_message_timer_request env)"
  "safe b exmdb_ext_pull_get_message_timer_request"
  unfolding message_request_readers Let_def
  by (intro safe_rules safe_or_quit safe_regardless tidy_scalars tidy_string)+

lemma coded_message_requests:
  "coded f exmdb_ext_pull_get_message_rcpts_request
       (exmdb_ext_push_get_message_rcpts_request message_id)
       (REQ_GET_MESSAGE_RCPTS message_id)"
  "option_ok string_ok f username \<Longrightarrow> list_ok (2 ^ 16) any_ok f pproptags
       \<Longrightarrow>
     coded f exmdb_ext_pull_get_message_properties_request
       (exmdb_ext_push_get_message_properties_request username cpid message_id pproptags)
       (REQ_GET_MESSAGE_PROPERTIES username cpid message_id pproptags)"
  "option_ok string_ok f username \<Longrightarrow> props_ok f pproperties \<Longrightarrow>
     coded f exmdb_ext_pull_set_message_properties_request
       (exmdb_ext_push_set_message_properties_request username cpid message_id pproperties)
       (REQ_SET_MESSAGE_PROPERTIES username cpid message_id pproperties)"
  "list_ok (2 ^ 16) any_ok f pproptags \<Longrightarrow>
     coded f exmdb_ext_pull_remove_message_properties_request
       (exmdb_ext_push_remove_message_properties_request cpid message_id pproptags)
       (REQ_REMOVE_MESSAGE_PROPERTIES cpid message_id pproptags)"
  "coded f exmdb_ext_pull_allocate_message_id_request
       (exmdb_ext_push_allocate_message_id_request folder_id)
       (REQ_ALLOCATE_MESSAGE_ID folder_id)"
  "coded f exmdb_ext_pull_get_message_group_id_request
       (exmdb_ext_push_get_message_group_id_request message_id)
       (REQ_GET_MESSAGE_GROUP_ID message_id)"
  "coded f exmdb_ext_pull_set_message_group_id_request
       (exmdb_ext_push_set_message_group_id_request message_id group_id)
       (REQ_SET_MESSAGE_GROUP_ID message_id group_id)"
  "list_ok (2 ^ 16) any_ok f pindices \<Longrightarrow> list_ok (2 ^ 16) any_ok f
       pungroup_proptags \<Longrightarrow>
     coded f exmdb_ext_pull_save_change_indices_request
       (exmdb_ext_push_save_change_indices_request message_id cn pindices pungroup_proptags)
       (REQ_SAVE_CHANGE_INDICES message_id cn pindices pungroup_proptags)"
  "coded f exmdb_ext_pull_get_change_indices_request
       (exmdb_ext_push_get_change_indices_request message_id cn)
       (REQ_GET_CHANGE_INDICES message_id cn)"
  "coded f exmdb_ext_pull_mark_modified_request
       (exmdb_ext_push_mark_modified_request message_id)
       (REQ_MARK_MODIFIED message_id)"
  "coded f exmdb_ext_pull_try_mark_submit_request
       (exmdb_ext_push_try_mark_submit_request message_id)
       (REQ_TRY_MARK_SUBMIT message_id)"
  "coded f exmdb_ext_pull_clear_submit_request
       (exmdb_ext_push_clear_submit_request message_id b_unsent)
       (REQ_CLEAR_SUBMIT message_id b_unsent)"
  "coded f exmdb_ext_pull_link_message_request
       (exmdb_ext_push_link_message_request cpid folder_id message_id)
       (REQ_LINK_MESSAGE cpid folder_id message_id)"
  "coded f exmdb_ext_pull_unlink_message_request
       (exmdb_ext_push_unlink_message_request cpid folder_id message_id)
       (REQ_UNLINK_MESSAGE cpid folder_id message_id)"
  "coded f exmdb_ext_pull_get_message_timer_request
       (exmdb_ext_push_get_message_timer_request message_id)
       (REQ_GET_MESSAGE_TIMER message_id)"
  unfolding message_request_readers message_request_writers
  by (rule coded_alloc coded_bnd coded_last field_rules coded_pointer attachment_parts refl | assumption | simp)+

lemma coded_set_message_timer:
  "coded f (exmdb_ext_pull_set_message_timer_request env)
     (exmdb_ext_push_set_message_timer_request message_id timer_id)
     (REQ_SET_MESSAGE_TIMER message_id timer_id)"
  unfolding exmdb_ext_pull_set_message_timer_request_def
    exmdb_ext_push_set_message_timer_request_def
  by (rule coded_or_quit coded_last field_rules refl)+

lemma coded_rule_new_message:
  assumes "option_ok string_ok f username" "string_ok f account"
  shows "coded f (exmdb_ext_pull_rule_new_message_request env)
     (exmdb_ext_push_rule_new_message_request username account cpid folder_id message_id)
     (REQ_RULE_NEW_MESSAGE username account cpid folder_id message_id)"
proof -
  have "coded f (rule_new_message_tail env username)
      (push_or_quit (ext_buffer_push_string account)
      (push_or_quit (ext_buffer_push_uint32 cpid)
      (push_or_quit (ext_buffer_push_uint64 folder_id) (ext_buffer_push_uint64 message_id))))
      (REQ_RULE_NEW_MESSAGE username account cpid folder_id message_id)"
    unfolding rule_new_message_tail_def
    by (rule coded_or_quit coded_last field_rules assms refl)+
  with assms(1) show ?thesis
    unfolding exmdb_ext_pull_rule_new_message_request_def
      exmdb_ext_push_rule_new_message_request_def Let_def
    by (cases username)
      (auto simp: option_ok_def intro!: coded_or_quit [OF coded_uint8] coded_or_quit [OF coded_string])
qed

text \<open>The flag is written in eight bytes and read from the first of them.\<close>

lemma sent_set_message_read_state:
  "option_ok string_ok f username \<Longrightarrow>
     sent f exmdb_ext_pull_set_message_read_state_request
       (exmdb_ext_push_set_message_read_state_request username message_id mark_as_read)
       (REQ_SET_MESSAGE_READ_STATE username message_id mark_as_read)"
  unfolding exmdb_ext_pull_set_message_read_state_request_def
    exmdb_ext_push_set_message_read_state_request_def
  by (rule sent_bnd field_rules sent_last [OF sent_narrow] | assumption)+

lemma sent_message_request:
  "message_request_ok f r \<Longrightarrow>
     \<exists>p. (message_request_id r, p) \<in> set (message_request_cases env) \<and>
       sent f p (push_message_request r) r"
  by (cases r) (auto simp: message_request_cases_def call_ids
      intro!: coded_sent [OF coded_ret] sent_set_message_read_state
        coded_sent [OF coded_set_message_timer] coded_sent [OF coded_rule_new_message]
        coded_message_requests [THEN coded_sent])

subsection \<open>Permissions, rules, delivery, synchronization, notification\<close>

primrec service_request_ok :: "u32 \<Rightarrow> service_request \<Rightarrow> bool" where
  "service_request_ok f (REQ_EMPTY_FOLDER_PERMISSION folder_id) \<longleftrightarrow>
     True"
| "service_request_ok f (REQ_UPDATE_FOLDER_PERMISSION folder_id b_freebusy prow) \<longleftrightarrow>
     list_ok (2 ^ 16) permission_data_ok f prow"
| "service_request_ok f (REQ_EMPTY_FOLDER_RULE folder_id) \<longleftrightarrow>
     True"
| "service_request_ok f (REQ_UPDATE_FOLDER_RULE folder_id prow) \<longleftrightarrow>
     list_ok (2 ^ 16) rule_data_ok f prow"
| "service_request_ok f (REQ_DELIVERY_MESSAGE from_address account cpid pmsg pdigest)
       \<longleftrightarrow>
     string_ok f from_address \<and> string_ok f account \<and> message_ok f pmsg \<and> string_ok
       f pdigest"
| "service_request_ok f (REQ_WRITE_MESSAGE account cpid folder_id pmsgctnt) \<longleftrightarrow>
     string_ok f account \<and> message_ok f pmsgctnt"
| "service_request_ok f (REQ_READ_MESSAGE username cpid message_id) \<longleftrightarrow>
     option_ok string_ok f username"
| "service_request_ok f (REQ_GET_CONTENT_SYNC folder_id username pgiven pseen pseen_fai pread cpid
       prestriction b_ordered) \<longleftrightarrow>
     option_ok string_ok f username \<and> idset_sendable pgiven \<and> option_ok (\<lambda>f.
       idset_sendable) f pseen \<and> option_ok (\<lambda>f. idset_sendable) f pseen_fai \<and>
       option_ok (\<lambda>f. idset_sendable) f pread \<and> option_ok restriction_ok f
       prestriction"
| "service_request_ok f (REQ_GET_HIERARCHY_SYNC folder_id username pgiven pseen) \<longleftrightarrow>
     option_ok string_ok f username \<and> idset_sendable pgiven \<and> option_ok (\<lambda>f.
       idset_sendable) f pseen"
| "service_request_ok f (REQ_ALLOCATE_IDS count) \<longleftrightarrow>
     True"
| "service_request_ok f (REQ_SUBSCRIBE_NOTIFICATION notificaton_type b_whole folder_id message_id)
       \<longleftrightarrow>
     True"
| "service_request_ok f (REQ_UNSUBSCRIBE_NOTIFICATION sub_id) \<longleftrightarrow>
     True"
| "service_request_ok f (REQ_TRANSPORT_NEW_MAIL folder_id message_id message_flags pstr_class)
       \<longleftrightarrow>
     string_ok f pstr_class"
| "service_request_ok f (REQ_CHECK_CONTACT_ADDRESS paddress) \<longleftrightarrow>
     string_ok f paddress"
| "service_request_ok f (REQ_GET_PUBLIC_FOLDER_UNREAD_COUNT username folder_id) \<longleftrightarrow>
     string_ok f username"
| "service_request_ok f REQ_UNLOAD_STORE \<longleftrightarrow>
     True"

lemmas service_request_readers =
  exmdb_ext_pull_empty_folder_permission_request_def
  exmdb_ext_pull_update_folder_permission_request_def
  exmdb_ext_pull_empty_folder_rule_request_def
  exmdb_ext_pull_update_folder_rule_request_def
  exmdb_ext_pull_delivery_message_request_def
  exmdb_ext_pull_write_message_request_def
  exmdb_ext_pull_read_message_request_def
  exmdb_ext_pull_get_content_sync_request_def
  exmdb_ext_pull_get_hierarchy_sync_request_def
  exmdb_ext_pull_allocate_ids_request_def
  exmdb_ext_pull_subscribe_notification_request_def
  exmdb_ext_pull_unsubscribe_notification_request_def
  exmdb_ext_pull_transport_new_mail_request_def
  exmdb_ext_pull_check_contact_address_request_def
  exmdb_ext_pull_get_public_folder_unread_count_request_def

lemmas service_request_writers =
  exmdb_ext_push_empty_folder_permission_request_def
  exmdb_ext_push_update_folder_permission_request_def
  exmdb_ext_push_empty_folder_rule_request_def
  exmdb_ext_push_update_folder_rule_request_def
  exmdb_ext_push_delivery_message_request_def
  exmdb_ext_push_write_message_request_def
  exmdb_ext_push_read_message_request_def
  exmdb_ext_push_get_content_sync_request_def
  exmdb_ext_push_get_hierarchy_sync_request_def
  exmdb_ext_push_allocate_ids_request_def
  exmdb_ext_push_subscribe_notification_request_def
  exmdb_ext_push_unsubscribe_notification_request_def
  exmdb_ext_push_transport_new_mail_request_def
  exmdb_ext_push_check_contact_address_request_def
  exmdb_ext_push_get_public_folder_unread_count_request_def

lemma safe_service_requests [safe_rules]:
  "safe b exmdb_ext_pull_empty_folder_permission_request"
  "safe b exmdb_ext_pull_update_folder_permission_request"
  "safe b exmdb_ext_pull_empty_folder_rule_request"
  "safe b exmdb_ext_pull_update_folder_rule_request"
  "safe b exmdb_ext_pull_delivery_message_request"
  "safe b exmdb_ext_pull_write_message_request"
  "safe b exmdb_ext_pull_read_message_request"
  "safe b exmdb_ext_pull_allocate_ids_request"
  "safe b exmdb_ext_pull_subscribe_notification_request"
  "safe b exmdb_ext_pull_unsubscribe_notification_request"
  "safe b exmdb_ext_pull_transport_new_mail_request"
  "safe b exmdb_ext_pull_check_contact_address_request"
  "safe b exmdb_ext_pull_get_public_folder_unread_count_request"
  unfolding service_request_readers Let_def
  by (intro safe_rules safe_or_quit safe_regardless tidy_scalars tidy_string)+

lemma coded_service_requests:
  "coded f exmdb_ext_pull_empty_folder_permission_request
       (exmdb_ext_push_empty_folder_permission_request folder_id)
       (REQ_EMPTY_FOLDER_PERMISSION folder_id)"
  "list_ok (2 ^ 16) permission_data_ok f prow \<Longrightarrow>
     coded f exmdb_ext_pull_update_folder_permission_request
       (exmdb_ext_push_update_folder_permission_request folder_id b_freebusy prow)
       (REQ_UPDATE_FOLDER_PERMISSION folder_id b_freebusy prow)"
  "coded f exmdb_ext_pull_empty_folder_rule_request
       (exmdb_ext_push_empty_folder_rule_request folder_id)
       (REQ_EMPTY_FOLDER_RULE folder_id)"
  "list_ok (2 ^ 16) rule_data_ok f prow' \<Longrightarrow>
     coded f exmdb_ext_pull_update_folder_rule_request
       (exmdb_ext_push_update_folder_rule_request folder_id prow')
       (REQ_UPDATE_FOLDER_RULE folder_id prow')"
  "string_ok f from_address \<Longrightarrow> string_ok f account \<Longrightarrow> message_ok f
       pmsg \<Longrightarrow> string_ok f pdigest \<Longrightarrow>
     coded f exmdb_ext_pull_delivery_message_request
       (exmdb_ext_push_delivery_message_request from_address account cpid pmsg pdigest)
       (REQ_DELIVERY_MESSAGE from_address account cpid pmsg pdigest)"
  "string_ok f account \<Longrightarrow> message_ok f pmsgctnt \<Longrightarrow>
     coded f exmdb_ext_pull_write_message_request
       (exmdb_ext_push_write_message_request account cpid folder_id pmsgctnt)
       (REQ_WRITE_MESSAGE account cpid folder_id pmsgctnt)"
  "option_ok string_ok f username \<Longrightarrow>
     coded f exmdb_ext_pull_read_message_request
       (exmdb_ext_push_read_message_request username cpid message_id)
       (REQ_READ_MESSAGE username cpid message_id)"
  "coded f exmdb_ext_pull_allocate_ids_request
       (exmdb_ext_push_allocate_ids_request count)
       (REQ_ALLOCATE_IDS count)"
  "coded f exmdb_ext_pull_subscribe_notification_request
       (exmdb_ext_push_subscribe_notification_request notificaton_type b_whole folder_id message_id)
       (REQ_SUBSCRIBE_NOTIFICATION notificaton_type b_whole folder_id message_id)"
  "coded f exmdb_ext_pull_unsubscribe_notification_request
       (exmdb_ext_push_unsubscribe_notification_request sub_id)
       (REQ_UNSUBSCRIBE_NOTIFICATION sub_id)"
  "string_ok f pstr_class \<Longrightarrow>
     coded f exmdb_ext_pull_transport_new_mail_request
       (exmdb_ext_push_transport_new_mail_request folder_id message_id message_flags pstr_class)
       (REQ_TRANSPORT_NEW_MAIL folder_id message_id message_flags pstr_class)"
  "string_ok f paddress \<Longrightarrow>
     coded f exmdb_ext_pull_check_contact_address_request
       (exmdb_ext_push_check_contact_address_request paddress)
       (REQ_CHECK_CONTACT_ADDRESS paddress)"
  "string_ok f username' \<Longrightarrow>
     coded f exmdb_ext_pull_get_public_folder_unread_count_request
       (exmdb_ext_push_get_public_folder_unread_count_request username' folder_id)
       (REQ_GET_PUBLIC_FOLDER_UNREAD_COUNT username' folder_id)"
  unfolding service_request_readers service_request_writers
  by (rule coded_alloc coded_bnd coded_last field_rules coded_pointer attachment_parts refl | assumption | simp)+

text \<open>Sets of identifiers arrive as the ranges they consist of.\<close>

definition service_received :: "service_request \<Rightarrow> service_request" where
  "service_received r =
     (case r of
        REQ_GET_CONTENT_SYNC folder_id username pgiven pseen pseen_fai pread cpid prestriction
            b_ordered \<Rightarrow>
          REQ_GET_CONTENT_SYNC folder_id username (idset_received pgiven)
            (map_option idset_received pseen) (map_option idset_received pseen_fai)
            (map_option idset_received pread) cpid prestriction b_ordered
      | REQ_GET_HIERARCHY_SYNC folder_id username pgiven pseen \<Rightarrow>
          REQ_GET_HIERARCHY_SYNC folder_id username (idset_received pgiven)
            (map_option idset_received pseen)
      | _ \<Rightarrow> r)"

lemma coded_sync_requests:
  assumes "idset_mem env = (\<lambda>_ _. True)"
  shows "option_ok string_ok f username \<Longrightarrow> idset_sendable pgiven \<Longrightarrow>
      option_ok (\<lambda>f. idset_sendable) f pseen \<Longrightarrow> option_ok (\<lambda>f. idset_sendable) f pseen_fai \<Longrightarrow>
      option_ok (\<lambda>f. idset_sendable) f pread \<Longrightarrow> option_ok restriction_ok f prestriction \<Longrightarrow>
      coded f (exmdb_ext_pull_get_content_sync_request env)
        (exmdb_ext_push_get_content_sync_request env folder_id username pgiven pseen pseen_fai
          pread cpid prestriction b_ordered)
        (REQ_GET_CONTENT_SYNC folder_id username (idset_received pgiven)
          (map_option idset_received pseen) (map_option idset_received pseen_fai)
          (map_option idset_received pread) cpid prestriction b_ordered)"
    "option_ok string_ok f username \<Longrightarrow> idset_sendable pgiven \<Longrightarrow>
      option_ok (\<lambda>f. idset_sendable) f pseen \<Longrightarrow>
      coded f (exmdb_ext_pull_get_hierarchy_sync_request env)
        (exmdb_ext_push_get_hierarchy_sync_request env folder_id username pgiven pseen)
        (REQ_GET_HIERARCHY_SYNC folder_id username (idset_received pgiven)
          (map_option idset_received pseen))"
  unfolding exmdb_ext_pull_get_content_sync_request_def exmdb_ext_push_get_content_sync_request_def
    exmdb_ext_pull_get_hierarchy_sync_request_def exmdb_ext_push_get_hierarchy_sync_request_def
  by (rule coded_bnd coded_last coded_regardless_push coded_idsets assms field_rules refl
      | assumption)+

lemma sent_service_request:
  "idset_mem env = (\<lambda>_ _. True) \<Longrightarrow> service_request_ok f r \<Longrightarrow>
     \<exists>p. (service_request_id r, p) \<in> set (service_request_cases env) \<and>
       sent f p (push_service_request env r) (service_received r)"
  by (cases r) (auto simp: service_request_cases_def call_ids service_received_def
      intro!: coded_sent [OF coded_ret] coded_sent [OF coded_sync_requests(1)] coded_sent [OF coded_sync_requests(2)]
        coded_service_requests [THEN coded_sent])

end
