(* ===== verification/Exmdb_Response.thy ===== *)
theory Exmdb_Response
  imports Exmdb_Types
begin

text \<open>
  The readers and writers of the responses in \<open>exmdb_ext.c\<close>, call by call, and the two switches
  over the call id in \<open>exmdb_ext_pull_response\<close> and \<open>exmdb_ext_push_response\<close>.  The call id is not
  part of the datagram: the reader knows which call it has made.
\<close>

subsection \<open>The store\<close>

definition exmdb_ext_pull_get_all_named_propids_response :: "store_response pull" where
  "exmdb_ext_pull_get_all_named_propids_response =
     bnd ext_buffer_pull_propid_array (\<lambda>propids.
     ret (RESP_GET_ALL_NAMED_PROPIDS propids))"

definition exmdb_ext_push_get_all_named_propids_response :: "u16 list \<Rightarrow> push" where
  "exmdb_ext_push_get_all_named_propids_response propids =
     ext_buffer_push_propid_array propids"

definition exmdb_ext_pull_get_named_propids_response :: "store_response pull" where
  "exmdb_ext_pull_get_named_propids_response =
     bnd ext_buffer_pull_propid_array (\<lambda>propids.
     ret (RESP_GET_NAMED_PROPIDS propids))"

definition exmdb_ext_push_get_named_propids_response :: "u16 list \<Rightarrow> push" where
  "exmdb_ext_push_get_named_propids_response propids =
     ext_buffer_push_propid_array propids"

definition exmdb_ext_pull_get_named_propnames_response :: "store_response pull" where
  "exmdb_ext_pull_get_named_propnames_response =
     bnd ext_buffer_pull_propname_array (\<lambda>propnames.
     ret (RESP_GET_NAMED_PROPNAMES propnames))"

definition exmdb_ext_push_get_named_propnames_response ::
    "property_name list \<Rightarrow> push" where
  "exmdb_ext_push_get_named_propnames_response propnames =
     ext_buffer_push_propname_array propnames"

definition exmdb_ext_pull_get_mapping_guid_response :: "store_response pull" where
  "exmdb_ext_pull_get_mapping_guid_response =
     bnd ext_buffer_pull_bool (\<lambda>b_found.
     bnd ext_buffer_pull_guid (\<lambda>guid.
     ret (RESP_GET_MAPPING_GUID b_found guid)))"

definition exmdb_ext_push_get_mapping_guid_response ::
    "bool \<Rightarrow> guid \<Rightarrow> push" where
  "exmdb_ext_push_get_mapping_guid_response b_found guid =
     seq (push_BOOL b_found)
         (ext_buffer_push_guid guid)"

definition exmdb_ext_pull_get_mapping_replid_response :: "store_response pull" where
  "exmdb_ext_pull_get_mapping_replid_response =
     bnd ext_buffer_pull_bool (\<lambda>b_found.
     bnd ext_buffer_pull_uint16 (\<lambda>replid.
     ret (RESP_GET_MAPPING_REPLID b_found replid)))"

definition exmdb_ext_push_get_mapping_replid_response ::
    "bool \<Rightarrow> u16 \<Rightarrow> push" where
  "exmdb_ext_push_get_mapping_replid_response b_found replid =
     seq (push_BOOL b_found)
         (ext_buffer_push_uint16 replid)"

definition exmdb_ext_pull_get_store_all_proptags_response :: "store_response pull" where
  "exmdb_ext_pull_get_store_all_proptags_response =
     bnd ext_buffer_pull_proptag_array (\<lambda>proptags.
     ret (RESP_GET_STORE_ALL_PROPTAGS proptags))"

definition exmdb_ext_push_get_store_all_proptags_response :: "u32 list \<Rightarrow> push" where
  "exmdb_ext_push_get_store_all_proptags_response proptags =
     ext_buffer_push_proptag_array proptags"

definition exmdb_ext_pull_get_store_properties_response :: "store_response pull" where
  "exmdb_ext_pull_get_store_properties_response =
     bnd ext_buffer_pull_tpropval_array (\<lambda>propvals.
     ret (RESP_GET_STORE_PROPERTIES propvals))"

definition exmdb_ext_push_get_store_properties_response ::
    "tagged_propval list \<Rightarrow> push" where
  "exmdb_ext_push_get_store_properties_response propvals =
     ext_buffer_push_tpropval_array propvals"

definition exmdb_ext_pull_set_store_properties_response :: "store_response pull" where
  "exmdb_ext_pull_set_store_properties_response =
     bnd ext_buffer_pull_problem_array (\<lambda>problems.
     ret (RESP_SET_STORE_PROPERTIES problems))"

definition exmdb_ext_push_set_store_properties_response ::
    "property_problem list \<Rightarrow> push" where
  "exmdb_ext_push_set_store_properties_response problems =
     ext_buffer_push_problem_array problems"

definition exmdb_ext_pull_check_mailbox_permission_response :: "store_response pull" where
  "exmdb_ext_pull_check_mailbox_permission_response =
     bnd ext_buffer_pull_uint32 (\<lambda>permission.
     ret (RESP_CHECK_MAILBOX_PERMISSION permission))"

definition exmdb_ext_push_check_mailbox_permission_response :: "u32 \<Rightarrow> push" where
  "exmdb_ext_push_check_mailbox_permission_response permission =
     ext_buffer_push_uint32 permission"

definition exmdb_ext_pull_get_folder_by_class_response :: "store_response pull" where
  "exmdb_ext_pull_get_folder_by_class_response =
     bnd ext_buffer_pull_uint64 (\<lambda>eid.
     bnd ext_buffer_pull_string (\<lambda>str_explicit.
     ret (RESP_GET_FOLDER_BY_CLASS eid str_explicit)))"

definition exmdb_ext_push_get_folder_by_class_response ::
    "u64 \<Rightarrow> bytes \<Rightarrow> push" where
  "exmdb_ext_push_get_folder_by_class_response eid str_explicit =
     seq (ext_buffer_push_uint64 eid)
         (ext_buffer_push_string str_explicit)"

definition exmdb_ext_pull_set_folder_by_class_response :: "store_response pull" where
  "exmdb_ext_pull_set_folder_by_class_response =
     bnd ext_buffer_pull_bool (\<lambda>b_result.
     ret (RESP_SET_FOLDER_BY_CLASS b_result))"

definition exmdb_ext_push_set_folder_by_class_response :: "bool \<Rightarrow> push" where
  "exmdb_ext_push_set_folder_by_class_response b_result =
     push_BOOL b_result"

definition exmdb_ext_pull_get_folder_class_table_response :: "store_response pull" where
  "exmdb_ext_pull_get_folder_class_table_response =
     bnd ext_buffer_pull_tarray_set (\<lambda>table.
     ret (RESP_GET_FOLDER_CLASS_TABLE table))"

definition exmdb_ext_push_get_folder_class_table_response ::
    "tagged_propval list list \<Rightarrow> push" where
  "exmdb_ext_push_get_folder_class_table_response table =
     ext_buffer_push_tarray_set table"

definition store_response_cases :: "(u8 \<times> store_response pull) list" where
  "store_response_cases =
    [(CALL_ID_PING_STORE, ret RESP_PING_STORE),
     (CALL_ID_GET_ALL_NAMED_PROPIDS, exmdb_ext_pull_get_all_named_propids_response),
     (CALL_ID_GET_NAMED_PROPIDS, exmdb_ext_pull_get_named_propids_response),
     (CALL_ID_GET_NAMED_PROPNAMES, exmdb_ext_pull_get_named_propnames_response),
     (CALL_ID_GET_MAPPING_GUID, exmdb_ext_pull_get_mapping_guid_response),
     (CALL_ID_GET_MAPPING_REPLID, exmdb_ext_pull_get_mapping_replid_response),
     (CALL_ID_GET_STORE_ALL_PROPTAGS, exmdb_ext_pull_get_store_all_proptags_response),
     (CALL_ID_GET_STORE_PROPERTIES, exmdb_ext_pull_get_store_properties_response),
     (CALL_ID_SET_STORE_PROPERTIES, exmdb_ext_pull_set_store_properties_response),
     (CALL_ID_REMOVE_STORE_PROPERTIES, ret RESP_REMOVE_STORE_PROPERTIES),
     (CALL_ID_CHECK_MAILBOX_PERMISSION, exmdb_ext_pull_check_mailbox_permission_response),
     (CALL_ID_GET_FOLDER_BY_CLASS, exmdb_ext_pull_get_folder_by_class_response),
     (CALL_ID_SET_FOLDER_BY_CLASS, exmdb_ext_pull_set_folder_by_class_response),
     (CALL_ID_GET_FOLDER_CLASS_TABLE, exmdb_ext_pull_get_folder_class_table_response)]"

primrec push_store_response :: "store_response \<Rightarrow> push" where
  "push_store_response RESP_PING_STORE = ret ()"
| "push_store_response (RESP_GET_ALL_NAMED_PROPIDS propids) =
     exmdb_ext_push_get_all_named_propids_response propids"
| "push_store_response (RESP_GET_NAMED_PROPIDS propids) =
     exmdb_ext_push_get_named_propids_response propids"
| "push_store_response (RESP_GET_NAMED_PROPNAMES propnames) =
     exmdb_ext_push_get_named_propnames_response propnames"
| "push_store_response (RESP_GET_MAPPING_GUID b_found guid) =
     exmdb_ext_push_get_mapping_guid_response b_found guid"
| "push_store_response (RESP_GET_MAPPING_REPLID b_found replid) =
     exmdb_ext_push_get_mapping_replid_response b_found replid"
| "push_store_response (RESP_GET_STORE_ALL_PROPTAGS proptags) =
     exmdb_ext_push_get_store_all_proptags_response proptags"
| "push_store_response (RESP_GET_STORE_PROPERTIES propvals) =
     exmdb_ext_push_get_store_properties_response propvals"
| "push_store_response (RESP_SET_STORE_PROPERTIES problems) =
     exmdb_ext_push_set_store_properties_response problems"
| "push_store_response RESP_REMOVE_STORE_PROPERTIES = ret ()"
| "push_store_response (RESP_CHECK_MAILBOX_PERMISSION permission) =
     exmdb_ext_push_check_mailbox_permission_response permission"
| "push_store_response (RESP_GET_FOLDER_BY_CLASS eid str_explicit) =
     exmdb_ext_push_get_folder_by_class_response eid str_explicit"
| "push_store_response (RESP_SET_FOLDER_BY_CLASS b_result) =
     exmdb_ext_push_set_folder_by_class_response b_result"
| "push_store_response (RESP_GET_FOLDER_CLASS_TABLE table) =
     exmdb_ext_push_get_folder_class_table_response table"

subsection \<open>Folders\<close>

definition exmdb_ext_pull_check_folder_id_response :: "folder_response pull" where
  "exmdb_ext_pull_check_folder_id_response =
     bnd ext_buffer_pull_bool (\<lambda>b_exist.
     ret (RESP_CHECK_FOLDER_ID b_exist))"

definition exmdb_ext_push_check_folder_id_response :: "bool \<Rightarrow> push" where
  "exmdb_ext_push_check_folder_id_response b_exist =
     push_BOOL b_exist"

definition exmdb_ext_pull_query_folder_messages_response :: "folder_response pull" where
  "exmdb_ext_pull_query_folder_messages_response =
     bnd ext_buffer_pull_tarray_set (\<lambda>tset.
     ret (RESP_QUERY_FOLDER_MESSAGES tset))"

definition exmdb_ext_push_query_folder_messages_response ::
    "tagged_propval list list \<Rightarrow> push" where
  "exmdb_ext_push_query_folder_messages_response tset =
     ext_buffer_push_tarray_set tset"

definition exmdb_ext_pull_check_folder_deleted_response :: "folder_response pull" where
  "exmdb_ext_pull_check_folder_deleted_response =
     bnd ext_buffer_pull_bool (\<lambda>b_del.
     ret (RESP_CHECK_FOLDER_DELETED b_del))"

definition exmdb_ext_push_check_folder_deleted_response :: "bool \<Rightarrow> push" where
  "exmdb_ext_push_check_folder_deleted_response b_del =
     push_BOOL b_del"

definition exmdb_ext_pull_get_folder_by_name_response :: "folder_response pull" where
  "exmdb_ext_pull_get_folder_by_name_response =
     bnd ext_buffer_pull_uint64 (\<lambda>folder_id.
     ret (RESP_GET_FOLDER_BY_NAME folder_id))"

definition exmdb_ext_push_get_folder_by_name_response :: "u64 \<Rightarrow> push" where
  "exmdb_ext_push_get_folder_by_name_response folder_id =
     ext_buffer_push_uint64 folder_id"

definition exmdb_ext_pull_check_folder_permission_response :: "folder_response pull" where
  "exmdb_ext_pull_check_folder_permission_response =
     bnd ext_buffer_pull_uint32 (\<lambda>permission.
     ret (RESP_CHECK_FOLDER_PERMISSION permission))"

definition exmdb_ext_push_check_folder_permission_response :: "u32 \<Rightarrow> push" where
  "exmdb_ext_push_check_folder_permission_response permission =
     ext_buffer_push_uint32 permission"

definition exmdb_ext_pull_create_folder_by_properties_response :: "folder_response pull" where
  "exmdb_ext_pull_create_folder_by_properties_response =
     bnd ext_buffer_pull_uint64 (\<lambda>folder_id.
     ret (RESP_CREATE_FOLDER_BY_PROPERTIES folder_id))"

definition exmdb_ext_push_create_folder_by_properties_response :: "u64 \<Rightarrow> push" where
  "exmdb_ext_push_create_folder_by_properties_response folder_id =
     ext_buffer_push_uint64 folder_id"

definition exmdb_ext_pull_get_folder_all_proptags_response :: "folder_response pull" where
  "exmdb_ext_pull_get_folder_all_proptags_response =
     bnd ext_buffer_pull_proptag_array (\<lambda>proptags.
     ret (RESP_GET_FOLDER_ALL_PROPTAGS proptags))"

definition exmdb_ext_push_get_folder_all_proptags_response :: "u32 list \<Rightarrow> push" where
  "exmdb_ext_push_get_folder_all_proptags_response proptags =
     ext_buffer_push_proptag_array proptags"

definition exmdb_ext_pull_get_folder_properties_response :: "folder_response pull" where
  "exmdb_ext_pull_get_folder_properties_response =
     bnd ext_buffer_pull_tpropval_array (\<lambda>propvals.
     ret (RESP_GET_FOLDER_PROPERTIES propvals))"

definition exmdb_ext_push_get_folder_properties_response ::
    "tagged_propval list \<Rightarrow> push" where
  "exmdb_ext_push_get_folder_properties_response propvals =
     ext_buffer_push_tpropval_array propvals"

definition exmdb_ext_pull_set_folder_properties_response :: "folder_response pull" where
  "exmdb_ext_pull_set_folder_properties_response =
     bnd ext_buffer_pull_problem_array (\<lambda>problems.
     ret (RESP_SET_FOLDER_PROPERTIES problems))"

definition exmdb_ext_push_set_folder_properties_response ::
    "property_problem list \<Rightarrow> push" where
  "exmdb_ext_push_set_folder_properties_response problems =
     ext_buffer_push_problem_array problems"

definition exmdb_ext_pull_delete_folder_response :: "folder_response pull" where
  "exmdb_ext_pull_delete_folder_response =
     bnd ext_buffer_pull_bool (\<lambda>b_result.
     ret (RESP_DELETE_FOLDER b_result))"

definition exmdb_ext_push_delete_folder_response :: "bool \<Rightarrow> push" where
  "exmdb_ext_push_delete_folder_response b_result =
     push_BOOL b_result"

definition exmdb_ext_pull_empty_folder_response :: "folder_response pull" where
  "exmdb_ext_pull_empty_folder_response =
     bnd ext_buffer_pull_bool (\<lambda>b_partial.
     ret (RESP_EMPTY_FOLDER b_partial))"

definition exmdb_ext_push_empty_folder_response :: "bool \<Rightarrow> push" where
  "exmdb_ext_push_empty_folder_response b_partial =
     push_BOOL b_partial"

definition exmdb_ext_pull_check_folder_cycle_response :: "folder_response pull" where
  "exmdb_ext_pull_check_folder_cycle_response =
     bnd ext_buffer_pull_bool (\<lambda>b_cycle.
     ret (RESP_CHECK_FOLDER_CYCLE b_cycle))"

definition exmdb_ext_push_check_folder_cycle_response :: "bool \<Rightarrow> push" where
  "exmdb_ext_push_check_folder_cycle_response b_cycle =
     push_BOOL b_cycle"

definition exmdb_ext_pull_copy_folder_internal_response :: "folder_response pull" where
  "exmdb_ext_pull_copy_folder_internal_response =
     bnd ext_buffer_pull_bool (\<lambda>b_collid.
     bnd ext_buffer_pull_bool (\<lambda>b_partial.
     ret (RESP_COPY_FOLDER_INTERNAL b_collid b_partial)))"

definition exmdb_ext_push_copy_folder_internal_response ::
    "bool \<Rightarrow> bool \<Rightarrow> push" where
  "exmdb_ext_push_copy_folder_internal_response b_collid b_partial =
     seq (push_BOOL b_collid)
         (push_BOOL b_partial)"

definition exmdb_ext_pull_get_search_criteria_response :: "folder_response pull" where
  "exmdb_ext_pull_get_search_criteria_response =
     bnd ext_buffer_pull_uint32 (\<lambda>search_status.
     bnd (pull_optional (pull_pointer 16 ext_buffer_pull_restriction)) (\<lambda>prestriction.
     bnd ext_buffer_pull_longlong_array (\<lambda>folder_ids.
     ret (RESP_GET_SEARCH_CRITERIA search_status prestriction folder_ids))))"

definition exmdb_ext_push_get_search_criteria_response ::
    "u32 \<Rightarrow> restriction option \<Rightarrow> u64 list \<Rightarrow> push" where
  "exmdb_ext_push_get_search_criteria_response search_status prestriction folder_ids =
     seq (ext_buffer_push_uint32 search_status)
    (seq (push_optional ext_buffer_push_restriction prestriction)
         (ext_buffer_push_longlong_array folder_ids))"

definition exmdb_ext_pull_set_search_criteria_response :: "folder_response pull" where
  "exmdb_ext_pull_set_search_criteria_response =
     bnd ext_buffer_pull_bool (\<lambda>b_result.
     ret (RESP_SET_SEARCH_CRITERIA b_result))"

definition exmdb_ext_push_set_search_criteria_response :: "bool \<Rightarrow> push" where
  "exmdb_ext_push_set_search_criteria_response b_result =
     push_BOOL b_result"

definition exmdb_ext_pull_movecopy_message_response :: "folder_response pull" where
  "exmdb_ext_pull_movecopy_message_response =
     bnd ext_buffer_pull_bool (\<lambda>b_result.
     ret (RESP_MOVECOPY_MESSAGE b_result))"

definition exmdb_ext_push_movecopy_message_response :: "bool \<Rightarrow> push" where
  "exmdb_ext_push_movecopy_message_response b_result =
     push_BOOL b_result"

definition exmdb_ext_pull_movecopy_messages_response :: "folder_response pull" where
  "exmdb_ext_pull_movecopy_messages_response =
     bnd ext_buffer_pull_bool (\<lambda>b_partial.
     ret (RESP_MOVECOPY_MESSAGES b_partial))"

definition exmdb_ext_push_movecopy_messages_response :: "bool \<Rightarrow> push" where
  "exmdb_ext_push_movecopy_messages_response b_partial =
     push_BOOL b_partial"

definition exmdb_ext_pull_movecopy_folder_response :: "folder_response pull" where
  "exmdb_ext_pull_movecopy_folder_response =
     bnd ext_buffer_pull_bool (\<lambda>b_exist.
     bnd ext_buffer_pull_bool (\<lambda>b_partial.
     ret (RESP_MOVECOPY_FOLDER b_exist b_partial)))"

definition exmdb_ext_push_movecopy_folder_response ::
    "bool \<Rightarrow> bool \<Rightarrow> push" where
  "exmdb_ext_push_movecopy_folder_response b_exist b_partial =
     seq (push_BOOL b_exist)
         (push_BOOL b_partial)"

definition exmdb_ext_pull_delete_messages_response :: "folder_response pull" where
  "exmdb_ext_pull_delete_messages_response =
     bnd ext_buffer_pull_bool (\<lambda>b_partial.
     ret (RESP_DELETE_MESSAGES b_partial))"

definition exmdb_ext_push_delete_messages_response :: "bool \<Rightarrow> push" where
  "exmdb_ext_push_delete_messages_response b_partial =
     push_BOOL b_partial"

definition exmdb_ext_pull_get_message_brief_response :: "exmdb_env \<Rightarrow> folder_response pull" where
  "exmdb_ext_pull_get_message_brief_response env =
     bnd (pull_regardless (stale_byte env) ext_buffer_pull_uint8) (\<lambda>tmp_byte.
       if tmp_byte = 0 then ret (RESP_GET_MESSAGE_BRIEF None)
       else bnd (pull_pointer 32 ext_buffer_pull_message_content) (\<lambda>pbrief.
         ret (RESP_GET_MESSAGE_BRIEF (Some pbrief))))"

definition exmdb_ext_push_get_message_brief_response :: "message_content option \<Rightarrow> push" where
  "exmdb_ext_push_get_message_brief_response pbrief =
     push_optional ext_buffer_push_message_content pbrief"

definition exmdb_ext_pull_sum_hierarchy_response :: "folder_response pull" where
  "exmdb_ext_pull_sum_hierarchy_response =
     bnd ext_buffer_pull_uint32 (\<lambda>count.
     ret (RESP_SUM_HIERARCHY count))"

definition exmdb_ext_push_sum_hierarchy_response :: "u32 \<Rightarrow> push" where
  "exmdb_ext_push_sum_hierarchy_response count =
     ext_buffer_push_uint32 count"

definition folder_response_cases :: "exmdb_env \<Rightarrow> (u8 \<times> folder_response pull) list" where
  "folder_response_cases env =
    [(CALL_ID_CHECK_FOLDER_ID, exmdb_ext_pull_check_folder_id_response),
     (CALL_ID_QUERY_FOLDER_MESSAGES, exmdb_ext_pull_query_folder_messages_response),
     (CALL_ID_CHECK_FOLDER_DELETED, exmdb_ext_pull_check_folder_deleted_response),
     (CALL_ID_GET_FOLDER_BY_NAME, exmdb_ext_pull_get_folder_by_name_response),
     (CALL_ID_CHECK_FOLDER_PERMISSION, exmdb_ext_pull_check_folder_permission_response),
     (CALL_ID_CREATE_FOLDER_BY_PROPERTIES, exmdb_ext_pull_create_folder_by_properties_response),
     (CALL_ID_GET_FOLDER_ALL_PROPTAGS, exmdb_ext_pull_get_folder_all_proptags_response),
     (CALL_ID_GET_FOLDER_PROPERTIES, exmdb_ext_pull_get_folder_properties_response),
     (CALL_ID_SET_FOLDER_PROPERTIES, exmdb_ext_pull_set_folder_properties_response),
     (CALL_ID_REMOVE_FOLDER_PROPERTIES, ret RESP_REMOVE_FOLDER_PROPERTIES),
     (CALL_ID_DELETE_FOLDER, exmdb_ext_pull_delete_folder_response),
     (CALL_ID_EMPTY_FOLDER, exmdb_ext_pull_empty_folder_response),
     (CALL_ID_CHECK_FOLDER_CYCLE, exmdb_ext_pull_check_folder_cycle_response),
     (CALL_ID_COPY_FOLDER_INTERNAL, exmdb_ext_pull_copy_folder_internal_response),
     (CALL_ID_GET_SEARCH_CRITERIA, exmdb_ext_pull_get_search_criteria_response),
     (CALL_ID_SET_SEARCH_CRITERIA, exmdb_ext_pull_set_search_criteria_response),
     (CALL_ID_MOVECOPY_MESSAGE, exmdb_ext_pull_movecopy_message_response),
     (CALL_ID_MOVECOPY_MESSAGES, exmdb_ext_pull_movecopy_messages_response),
     (CALL_ID_MOVECOPY_FOLDER, exmdb_ext_pull_movecopy_folder_response),
     (CALL_ID_DELETE_MESSAGES, exmdb_ext_pull_delete_messages_response),
     (CALL_ID_GET_MESSAGE_BRIEF, exmdb_ext_pull_get_message_brief_response env),
     (CALL_ID_SUM_HIERARCHY, exmdb_ext_pull_sum_hierarchy_response)]"

primrec push_folder_response :: "folder_response \<Rightarrow> push" where
  "push_folder_response (RESP_CHECK_FOLDER_ID b_exist) =
     exmdb_ext_push_check_folder_id_response b_exist"
| "push_folder_response (RESP_QUERY_FOLDER_MESSAGES tset) =
     exmdb_ext_push_query_folder_messages_response tset"
| "push_folder_response (RESP_CHECK_FOLDER_DELETED b_del) =
     exmdb_ext_push_check_folder_deleted_response b_del"
| "push_folder_response (RESP_GET_FOLDER_BY_NAME folder_id) =
     exmdb_ext_push_get_folder_by_name_response folder_id"
| "push_folder_response (RESP_CHECK_FOLDER_PERMISSION permission) =
     exmdb_ext_push_check_folder_permission_response permission"
| "push_folder_response (RESP_CREATE_FOLDER_BY_PROPERTIES folder_id) =
     exmdb_ext_push_create_folder_by_properties_response folder_id"
| "push_folder_response (RESP_GET_FOLDER_ALL_PROPTAGS proptags) =
     exmdb_ext_push_get_folder_all_proptags_response proptags"
| "push_folder_response (RESP_GET_FOLDER_PROPERTIES propvals) =
     exmdb_ext_push_get_folder_properties_response propvals"
| "push_folder_response (RESP_SET_FOLDER_PROPERTIES problems) =
     exmdb_ext_push_set_folder_properties_response problems"
| "push_folder_response RESP_REMOVE_FOLDER_PROPERTIES = ret ()"
| "push_folder_response (RESP_DELETE_FOLDER b_result) =
     exmdb_ext_push_delete_folder_response b_result"
| "push_folder_response (RESP_EMPTY_FOLDER b_partial) =
     exmdb_ext_push_empty_folder_response b_partial"
| "push_folder_response (RESP_CHECK_FOLDER_CYCLE b_cycle) =
     exmdb_ext_push_check_folder_cycle_response b_cycle"
| "push_folder_response (RESP_COPY_FOLDER_INTERNAL b_collid b_partial) =
     exmdb_ext_push_copy_folder_internal_response b_collid b_partial"
| "push_folder_response (RESP_GET_SEARCH_CRITERIA search_status prestriction folder_ids) =
     exmdb_ext_push_get_search_criteria_response search_status prestriction folder_ids"
| "push_folder_response (RESP_SET_SEARCH_CRITERIA b_result) =
     exmdb_ext_push_set_search_criteria_response b_result"
| "push_folder_response (RESP_MOVECOPY_MESSAGE b_result) =
     exmdb_ext_push_movecopy_message_response b_result"
| "push_folder_response (RESP_MOVECOPY_MESSAGES b_partial) =
     exmdb_ext_push_movecopy_messages_response b_partial"
| "push_folder_response (RESP_MOVECOPY_FOLDER b_exist b_partial) =
     exmdb_ext_push_movecopy_folder_response b_exist b_partial"
| "push_folder_response (RESP_DELETE_MESSAGES b_partial) =
     exmdb_ext_push_delete_messages_response b_partial"
| "push_folder_response (RESP_GET_MESSAGE_BRIEF pbrief) =
     exmdb_ext_push_get_message_brief_response pbrief"
| "push_folder_response (RESP_SUM_HIERARCHY count) =
     exmdb_ext_push_sum_hierarchy_response count"

subsection \<open>Tables\<close>

definition exmdb_ext_pull_load_hierarchy_table_response :: "table_response pull" where
  "exmdb_ext_pull_load_hierarchy_table_response =
     bnd ext_buffer_pull_uint32 (\<lambda>table_id.
     bnd ext_buffer_pull_uint32 (\<lambda>row_count.
     ret (RESP_LOAD_HIERARCHY_TABLE table_id row_count)))"

definition exmdb_ext_push_load_hierarchy_table_response ::
    "u32 \<Rightarrow> u32 \<Rightarrow> push" where
  "exmdb_ext_push_load_hierarchy_table_response table_id row_count =
     seq (ext_buffer_push_uint32 table_id)
         (ext_buffer_push_uint32 row_count)"

definition exmdb_ext_pull_sum_content_response :: "table_response pull" where
  "exmdb_ext_pull_sum_content_response =
     bnd ext_buffer_pull_uint32 (\<lambda>count.
     ret (RESP_SUM_CONTENT count))"

definition exmdb_ext_push_sum_content_response :: "u32 \<Rightarrow> push" where
  "exmdb_ext_push_sum_content_response count =
     ext_buffer_push_uint32 count"

definition exmdb_ext_pull_load_content_table_response :: "table_response pull" where
  "exmdb_ext_pull_load_content_table_response =
     bnd ext_buffer_pull_uint32 (\<lambda>table_id.
     bnd ext_buffer_pull_uint32 (\<lambda>row_count.
     ret (RESP_LOAD_CONTENT_TABLE table_id row_count)))"

definition exmdb_ext_push_load_content_table_response ::
    "u32 \<Rightarrow> u32 \<Rightarrow> push" where
  "exmdb_ext_push_load_content_table_response table_id row_count =
     seq (ext_buffer_push_uint32 table_id)
         (ext_buffer_push_uint32 row_count)"

definition exmdb_ext_pull_load_permission_table_response :: "table_response pull" where
  "exmdb_ext_pull_load_permission_table_response =
     bnd ext_buffer_pull_uint32 (\<lambda>table_id.
     bnd ext_buffer_pull_uint32 (\<lambda>row_count.
     ret (RESP_LOAD_PERMISSION_TABLE table_id row_count)))"

definition exmdb_ext_push_load_permission_table_response ::
    "u32 \<Rightarrow> u32 \<Rightarrow> push" where
  "exmdb_ext_push_load_permission_table_response table_id row_count =
     seq (ext_buffer_push_uint32 table_id)
         (ext_buffer_push_uint32 row_count)"

definition exmdb_ext_pull_load_rule_table_response :: "table_response pull" where
  "exmdb_ext_pull_load_rule_table_response =
     bnd ext_buffer_pull_uint32 (\<lambda>table_id.
     bnd ext_buffer_pull_uint32 (\<lambda>row_count.
     ret (RESP_LOAD_RULE_TABLE table_id row_count)))"

definition exmdb_ext_push_load_rule_table_response ::
    "u32 \<Rightarrow> u32 \<Rightarrow> push" where
  "exmdb_ext_push_load_rule_table_response table_id row_count =
     seq (ext_buffer_push_uint32 table_id)
         (ext_buffer_push_uint32 row_count)"

definition exmdb_ext_pull_sum_table_response :: "table_response pull" where
  "exmdb_ext_pull_sum_table_response =
     bnd ext_buffer_pull_uint32 (\<lambda>rows.
     ret (RESP_SUM_TABLE rows))"

definition exmdb_ext_push_sum_table_response :: "u32 \<Rightarrow> push" where
  "exmdb_ext_push_sum_table_response rows =
     ext_buffer_push_uint32 rows"

definition exmdb_ext_pull_query_table_response :: "table_response pull" where
  "exmdb_ext_pull_query_table_response =
     bnd ext_buffer_pull_tarray_set (\<lambda>tset.
     ret (RESP_QUERY_TABLE tset))"

definition exmdb_ext_push_query_table_response ::
    "tagged_propval list list \<Rightarrow> push" where
  "exmdb_ext_push_query_table_response tset =
     ext_buffer_push_tarray_set tset"

definition exmdb_ext_pull_match_table_response :: "table_response pull" where
  "exmdb_ext_pull_match_table_response =
     bnd ext_buffer_pull_int32 (\<lambda>position.
     bnd ext_buffer_pull_tpropval_array (\<lambda>propvals.
     ret (RESP_MATCH_TABLE position propvals)))"

definition exmdb_ext_push_match_table_response ::
    "u32 \<Rightarrow> tagged_propval list \<Rightarrow> push" where
  "exmdb_ext_push_match_table_response position propvals =
     seq (ext_buffer_push_int32 position)
         (ext_buffer_push_tpropval_array propvals)"

definition exmdb_ext_pull_locate_table_response :: "table_response pull" where
  "exmdb_ext_pull_locate_table_response =
     bnd ext_buffer_pull_int32 (\<lambda>position.
     bnd ext_buffer_pull_uint32 (\<lambda>row_type.
     ret (RESP_LOCATE_TABLE position row_type)))"

definition exmdb_ext_push_locate_table_response :: "u32 \<Rightarrow> u32 \<Rightarrow> push" where
  "exmdb_ext_push_locate_table_response position row_type =
     seq (ext_buffer_push_int32 position)
         (ext_buffer_push_uint32 row_type)"

definition exmdb_ext_pull_read_table_row_response :: "table_response pull" where
  "exmdb_ext_pull_read_table_row_response =
     bnd ext_buffer_pull_tpropval_array (\<lambda>propvals.
     ret (RESP_READ_TABLE_ROW propvals))"

definition exmdb_ext_push_read_table_row_response :: "tagged_propval list \<Rightarrow> push" where
  "exmdb_ext_push_read_table_row_response propvals =
     ext_buffer_push_tpropval_array propvals"

definition exmdb_ext_pull_mark_table_response :: "table_response pull" where
  "exmdb_ext_pull_mark_table_response =
     bnd ext_buffer_pull_uint64 (\<lambda>inst_id.
     bnd ext_buffer_pull_uint32 (\<lambda>inst_num.
     bnd ext_buffer_pull_uint32 (\<lambda>row_type.
     ret (RESP_MARK_TABLE inst_id inst_num row_type))))"

definition exmdb_ext_push_mark_table_response ::
    "u64 \<Rightarrow> u32 \<Rightarrow> u32 \<Rightarrow> push" where
  "exmdb_ext_push_mark_table_response inst_id inst_num row_type =
     seq (ext_buffer_push_uint64 inst_id)
    (seq (ext_buffer_push_uint32 inst_num)
         (ext_buffer_push_uint32 row_type))"

definition exmdb_ext_pull_get_table_all_proptags_response :: "table_response pull" where
  "exmdb_ext_pull_get_table_all_proptags_response =
     bnd ext_buffer_pull_proptag_array (\<lambda>proptags.
     ret (RESP_GET_TABLE_ALL_PROPTAGS proptags))"

definition exmdb_ext_push_get_table_all_proptags_response :: "u32 list \<Rightarrow> push" where
  "exmdb_ext_push_get_table_all_proptags_response proptags =
     ext_buffer_push_proptag_array proptags"

definition exmdb_ext_pull_expand_table_response :: "table_response pull" where
  "exmdb_ext_pull_expand_table_response =
     bnd ext_buffer_pull_bool (\<lambda>b_found.
     bnd ext_buffer_pull_int32 (\<lambda>position.
     bnd ext_buffer_pull_uint32 (\<lambda>row_count.
     ret (RESP_EXPAND_TABLE b_found position row_count))))"

definition exmdb_ext_push_expand_table_response ::
    "bool \<Rightarrow> u32 \<Rightarrow> u32 \<Rightarrow> push" where
  "exmdb_ext_push_expand_table_response b_found position row_count =
     seq (push_BOOL b_found)
    (seq (ext_buffer_push_int32 position)
         (ext_buffer_push_uint32 row_count))"

definition exmdb_ext_pull_collapse_table_response :: "table_response pull" where
  "exmdb_ext_pull_collapse_table_response =
     bnd ext_buffer_pull_bool (\<lambda>b_found.
     bnd ext_buffer_pull_int32 (\<lambda>position.
     bnd ext_buffer_pull_uint32 (\<lambda>row_count.
     ret (RESP_COLLAPSE_TABLE b_found position row_count))))"

definition exmdb_ext_push_collapse_table_response ::
    "bool \<Rightarrow> u32 \<Rightarrow> u32 \<Rightarrow> push" where
  "exmdb_ext_push_collapse_table_response b_found position row_count =
     seq (push_BOOL b_found)
    (seq (ext_buffer_push_int32 position)
         (ext_buffer_push_uint32 row_count))"

definition exmdb_ext_pull_store_table_state_response :: "table_response pull" where
  "exmdb_ext_pull_store_table_state_response =
     bnd ext_buffer_pull_uint32 (\<lambda>state_id.
     ret (RESP_STORE_TABLE_STATE state_id))"

definition exmdb_ext_push_store_table_state_response :: "u32 \<Rightarrow> push" where
  "exmdb_ext_push_store_table_state_response state_id =
     ext_buffer_push_uint32 state_id"

definition exmdb_ext_pull_restore_table_state_response :: "table_response pull" where
  "exmdb_ext_pull_restore_table_state_response =
     bnd ext_buffer_pull_int32 (\<lambda>position.
     ret (RESP_RESTORE_TABLE_STATE position))"

definition exmdb_ext_push_restore_table_state_response :: "u32 \<Rightarrow> push" where
  "exmdb_ext_push_restore_table_state_response position =
     ext_buffer_push_int32 position"

definition table_response_cases :: "(u8 \<times> table_response pull) list" where
  "table_response_cases =
    [(CALL_ID_LOAD_HIERARCHY_TABLE, exmdb_ext_pull_load_hierarchy_table_response),
     (CALL_ID_SUM_CONTENT, exmdb_ext_pull_sum_content_response),
     (CALL_ID_LOAD_CONTENT_TABLE, exmdb_ext_pull_load_content_table_response),
     (CALL_ID_RELOAD_CONTENT_TABLE, ret RESP_RELOAD_CONTENT_TABLE),
     (CALL_ID_LOAD_PERMISSION_TABLE, exmdb_ext_pull_load_permission_table_response),
     (CALL_ID_LOAD_RULE_TABLE, exmdb_ext_pull_load_rule_table_response),
     (CALL_ID_UNLOAD_TABLE, ret RESP_UNLOAD_TABLE),
     (CALL_ID_SUM_TABLE, exmdb_ext_pull_sum_table_response),
     (CALL_ID_QUERY_TABLE, exmdb_ext_pull_query_table_response),
     (CALL_ID_MATCH_TABLE, exmdb_ext_pull_match_table_response),
     (CALL_ID_LOCATE_TABLE, exmdb_ext_pull_locate_table_response),
     (CALL_ID_READ_TABLE_ROW, exmdb_ext_pull_read_table_row_response),
     (CALL_ID_MARK_TABLE, exmdb_ext_pull_mark_table_response),
     (CALL_ID_GET_TABLE_ALL_PROPTAGS, exmdb_ext_pull_get_table_all_proptags_response),
     (CALL_ID_EXPAND_TABLE, exmdb_ext_pull_expand_table_response),
     (CALL_ID_COLLAPSE_TABLE, exmdb_ext_pull_collapse_table_response),
     (CALL_ID_STORE_TABLE_STATE, exmdb_ext_pull_store_table_state_response),
     (CALL_ID_RESTORE_TABLE_STATE, exmdb_ext_pull_restore_table_state_response)]"

primrec push_table_response :: "table_response \<Rightarrow> push" where
  "push_table_response (RESP_LOAD_HIERARCHY_TABLE table_id row_count) =
     exmdb_ext_push_load_hierarchy_table_response table_id row_count"
| "push_table_response (RESP_SUM_CONTENT count) = exmdb_ext_push_sum_content_response count"
| "push_table_response (RESP_LOAD_CONTENT_TABLE table_id row_count) =
     exmdb_ext_push_load_content_table_response table_id row_count"
| "push_table_response RESP_RELOAD_CONTENT_TABLE = ret ()"
| "push_table_response (RESP_LOAD_PERMISSION_TABLE table_id row_count) =
     exmdb_ext_push_load_permission_table_response table_id row_count"
| "push_table_response (RESP_LOAD_RULE_TABLE table_id row_count) =
     exmdb_ext_push_load_rule_table_response table_id row_count"
| "push_table_response RESP_UNLOAD_TABLE = ret ()"
| "push_table_response (RESP_SUM_TABLE rows) = exmdb_ext_push_sum_table_response rows"
| "push_table_response (RESP_QUERY_TABLE tset) = exmdb_ext_push_query_table_response tset"
| "push_table_response (RESP_MATCH_TABLE position propvals) =
     exmdb_ext_push_match_table_response position propvals"
| "push_table_response (RESP_LOCATE_TABLE position row_type) =
     exmdb_ext_push_locate_table_response position row_type"
| "push_table_response (RESP_READ_TABLE_ROW propvals) =
     exmdb_ext_push_read_table_row_response propvals"
| "push_table_response (RESP_MARK_TABLE inst_id inst_num row_type) =
     exmdb_ext_push_mark_table_response inst_id inst_num row_type"
| "push_table_response (RESP_GET_TABLE_ALL_PROPTAGS proptags) =
     exmdb_ext_push_get_table_all_proptags_response proptags"
| "push_table_response (RESP_EXPAND_TABLE b_found position row_count) =
     exmdb_ext_push_expand_table_response b_found position row_count"
| "push_table_response (RESP_COLLAPSE_TABLE b_found position row_count) =
     exmdb_ext_push_collapse_table_response b_found position row_count"
| "push_table_response (RESP_STORE_TABLE_STATE state_id) =
     exmdb_ext_push_store_table_state_response state_id"
| "push_table_response (RESP_RESTORE_TABLE_STATE position) =
     exmdb_ext_push_restore_table_state_response position"

subsection \<open>Message and attachment instances\<close>

definition exmdb_ext_pull_check_message_response :: "instance_response pull" where
  "exmdb_ext_pull_check_message_response =
     bnd ext_buffer_pull_bool (\<lambda>b_exist.
     ret (RESP_CHECK_MESSAGE b_exist))"

definition exmdb_ext_push_check_message_response :: "bool \<Rightarrow> push" where
  "exmdb_ext_push_check_message_response b_exist =
     push_BOOL b_exist"

definition exmdb_ext_pull_check_message_deleted_response :: "instance_response pull" where
  "exmdb_ext_pull_check_message_deleted_response =
     bnd ext_buffer_pull_bool (\<lambda>b_del.
     ret (RESP_CHECK_MESSAGE_DELETED b_del))"

definition exmdb_ext_push_check_message_deleted_response :: "bool \<Rightarrow> push" where
  "exmdb_ext_push_check_message_deleted_response b_del =
     push_BOOL b_del"

definition exmdb_ext_pull_load_message_instance_response :: "instance_response pull" where
  "exmdb_ext_pull_load_message_instance_response =
     bnd ext_buffer_pull_uint32 (\<lambda>instance_id.
     ret (RESP_LOAD_MESSAGE_INSTANCE instance_id))"

definition exmdb_ext_push_load_message_instance_response :: "u32 \<Rightarrow> push" where
  "exmdb_ext_push_load_message_instance_response instance_id =
     ext_buffer_push_uint32 instance_id"

definition exmdb_ext_pull_load_embedded_instance_response :: "instance_response pull" where
  "exmdb_ext_pull_load_embedded_instance_response =
     bnd ext_buffer_pull_uint32 (\<lambda>instance_id.
     ret (RESP_LOAD_EMBEDDED_INSTANCE instance_id))"

definition exmdb_ext_push_load_embedded_instance_response :: "u32 \<Rightarrow> push" where
  "exmdb_ext_push_load_embedded_instance_response instance_id =
     ext_buffer_push_uint32 instance_id"

definition exmdb_ext_pull_get_embeded_cn_response :: "instance_response pull" where
  "exmdb_ext_pull_get_embeded_cn_response =
     bnd (pull_optional (pull_pointer 8 ext_buffer_pull_uint64)) (\<lambda>pcn.
     ret (RESP_GET_EMBEDED_CN pcn))"

definition exmdb_ext_push_get_embeded_cn_response :: "u64 option \<Rightarrow> push" where
  "exmdb_ext_push_get_embeded_cn_response pcn =
     push_optional ext_buffer_push_uint64 pcn"

definition exmdb_ext_pull_reload_message_instance_response :: "instance_response pull" where
  "exmdb_ext_pull_reload_message_instance_response =
     bnd ext_buffer_pull_bool (\<lambda>b_result.
     ret (RESP_RELOAD_MESSAGE_INSTANCE b_result))"

definition exmdb_ext_push_reload_message_instance_response :: "bool \<Rightarrow> push" where
  "exmdb_ext_push_reload_message_instance_response b_result =
     push_BOOL b_result"

definition exmdb_ext_pull_read_message_instance_response :: "instance_response pull" where
  "exmdb_ext_pull_read_message_instance_response =
     bnd ext_buffer_pull_message_content (\<lambda>msgctnt.
     ret (RESP_READ_MESSAGE_INSTANCE msgctnt))"

definition exmdb_ext_push_read_message_instance_response ::
    "message_content \<Rightarrow> push" where
  "exmdb_ext_push_read_message_instance_response msgctnt =
     ext_buffer_push_message_content msgctnt"

definition exmdb_ext_pull_write_message_instance_response :: "instance_response pull" where
  "exmdb_ext_pull_write_message_instance_response =
     bnd ext_buffer_pull_proptag_array (\<lambda>proptags.
     bnd ext_buffer_pull_problem_array (\<lambda>problems.
     ret (RESP_WRITE_MESSAGE_INSTANCE proptags problems)))"

definition exmdb_ext_push_write_message_instance_response ::
    "u32 list \<Rightarrow> property_problem list \<Rightarrow> push" where
  "exmdb_ext_push_write_message_instance_response proptags problems =
     seq (ext_buffer_push_proptag_array proptags)
         (ext_buffer_push_problem_array problems)"

definition exmdb_ext_pull_load_attachment_instance_response :: "instance_response pull" where
  "exmdb_ext_pull_load_attachment_instance_response =
     bnd ext_buffer_pull_uint32 (\<lambda>instance_id.
     ret (RESP_LOAD_ATTACHMENT_INSTANCE instance_id))"

definition exmdb_ext_push_load_attachment_instance_response :: "u32 \<Rightarrow> push" where
  "exmdb_ext_push_load_attachment_instance_response instance_id =
     ext_buffer_push_uint32 instance_id"

definition exmdb_ext_pull_create_attachment_instance_response :: "instance_response pull" where
  "exmdb_ext_pull_create_attachment_instance_response =
     bnd ext_buffer_pull_uint32 (\<lambda>instance_id.
     bnd ext_buffer_pull_uint32 (\<lambda>attachment_num.
     ret (RESP_CREATE_ATTACHMENT_INSTANCE instance_id attachment_num)))"

definition exmdb_ext_push_create_attachment_instance_response ::
    "u32 \<Rightarrow> u32 \<Rightarrow> push" where
  "exmdb_ext_push_create_attachment_instance_response instance_id attachment_num =
     seq (ext_buffer_push_uint32 instance_id)
         (ext_buffer_push_uint32 attachment_num)"

definition exmdb_ext_pull_read_attachment_instance_response :: "instance_response pull" where
  "exmdb_ext_pull_read_attachment_instance_response =
     bnd ext_buffer_pull_tpropval_array (\<lambda>attctnt_proplist.
     bnd (pull_optional (pull_pointer 32 ext_buffer_pull_message_content))
       (\<lambda>attctnt_pembedded.
     ret (RESP_READ_ATTACHMENT_INSTANCE (ATTACHMENT_CONTENT attctnt_proplist attctnt_pembedded))))"

definition exmdb_ext_push_read_attachment_instance_response ::
    "attachment_content \<Rightarrow> push" where
  "exmdb_ext_push_read_attachment_instance_response attctnt =
     seq (ext_buffer_push_tpropval_array (ac_proplist attctnt))
         (push_optional ext_buffer_push_message_content (ac_pembedded attctnt))"

definition exmdb_ext_pull_write_attachment_instance_response :: "instance_response pull" where
  "exmdb_ext_pull_write_attachment_instance_response =
     bnd ext_buffer_pull_problem_array (\<lambda>problems.
     ret (RESP_WRITE_ATTACHMENT_INSTANCE problems))"

definition exmdb_ext_push_write_attachment_instance_response ::
    "property_problem list \<Rightarrow> push" where
  "exmdb_ext_push_write_attachment_instance_response problems =
     ext_buffer_push_problem_array problems"

definition exmdb_ext_pull_flush_instance_response :: "instance_response pull" where
  "exmdb_ext_pull_flush_instance_response =
     bnd ext_buffer_pull_bool (\<lambda>b_result.
     ret (RESP_FLUSH_INSTANCE b_result))"

definition exmdb_ext_push_flush_instance_response :: "bool \<Rightarrow> push" where
  "exmdb_ext_push_flush_instance_response b_result =
     push_BOOL b_result"

definition exmdb_ext_pull_get_instance_all_proptags_response :: "instance_response pull" where
  "exmdb_ext_pull_get_instance_all_proptags_response =
     bnd ext_buffer_pull_proptag_array (\<lambda>proptags.
     ret (RESP_GET_INSTANCE_ALL_PROPTAGS proptags))"

definition exmdb_ext_push_get_instance_all_proptags_response :: "u32 list \<Rightarrow> push" where
  "exmdb_ext_push_get_instance_all_proptags_response proptags =
     ext_buffer_push_proptag_array proptags"

definition exmdb_ext_pull_get_instance_properties_response :: "instance_response pull" where
  "exmdb_ext_pull_get_instance_properties_response =
     bnd ext_buffer_pull_tpropval_array (\<lambda>propvals.
     ret (RESP_GET_INSTANCE_PROPERTIES propvals))"

definition exmdb_ext_push_get_instance_properties_response ::
    "tagged_propval list \<Rightarrow> push" where
  "exmdb_ext_push_get_instance_properties_response propvals =
     ext_buffer_push_tpropval_array propvals"

definition exmdb_ext_pull_set_instance_properties_response :: "instance_response pull" where
  "exmdb_ext_pull_set_instance_properties_response =
     bnd ext_buffer_pull_problem_array (\<lambda>problems.
     ret (RESP_SET_INSTANCE_PROPERTIES problems))"

definition exmdb_ext_push_set_instance_properties_response ::
    "property_problem list \<Rightarrow> push" where
  "exmdb_ext_push_set_instance_properties_response problems =
     ext_buffer_push_problem_array problems"

definition exmdb_ext_pull_remove_instance_properties_response :: "instance_response pull" where
  "exmdb_ext_pull_remove_instance_properties_response =
     bnd ext_buffer_pull_problem_array (\<lambda>problems.
     ret (RESP_REMOVE_INSTANCE_PROPERTIES problems))"

definition exmdb_ext_push_remove_instance_properties_response ::
    "property_problem list \<Rightarrow> push" where
  "exmdb_ext_push_remove_instance_properties_response problems =
     ext_buffer_push_problem_array problems"

definition exmdb_ext_pull_check_instance_cycle_response :: "instance_response pull" where
  "exmdb_ext_pull_check_instance_cycle_response =
     bnd ext_buffer_pull_bool (\<lambda>b_cycle.
     ret (RESP_CHECK_INSTANCE_CYCLE b_cycle))"

definition exmdb_ext_push_check_instance_cycle_response :: "bool \<Rightarrow> push" where
  "exmdb_ext_push_check_instance_cycle_response b_cycle =
     push_BOOL b_cycle"

definition instance_response_cases :: "(u8 \<times> instance_response pull) list" where
  "instance_response_cases =
    [(CALL_ID_CHECK_MESSAGE, exmdb_ext_pull_check_message_response),
     (CALL_ID_CHECK_MESSAGE_DELETED, exmdb_ext_pull_check_message_deleted_response),
     (CALL_ID_LOAD_MESSAGE_INSTANCE, exmdb_ext_pull_load_message_instance_response),
     (CALL_ID_LOAD_EMBEDDED_INSTANCE, exmdb_ext_pull_load_embedded_instance_response),
     (CALL_ID_GET_EMBEDED_CN, exmdb_ext_pull_get_embeded_cn_response),
     (CALL_ID_RELOAD_MESSAGE_INSTANCE, exmdb_ext_pull_reload_message_instance_response),
     (CALL_ID_CLEAR_MESSAGE_INSTANCE, ret RESP_CLEAR_MESSAGE_INSTANCE),
     (CALL_ID_READ_MESSAGE_INSTANCE, exmdb_ext_pull_read_message_instance_response),
     (CALL_ID_WRITE_MESSAGE_INSTANCE, exmdb_ext_pull_write_message_instance_response),
     (CALL_ID_LOAD_ATTACHMENT_INSTANCE, exmdb_ext_pull_load_attachment_instance_response),
     (CALL_ID_CREATE_ATTACHMENT_INSTANCE, exmdb_ext_pull_create_attachment_instance_response),
     (CALL_ID_READ_ATTACHMENT_INSTANCE, exmdb_ext_pull_read_attachment_instance_response),
     (CALL_ID_WRITE_ATTACHMENT_INSTANCE, exmdb_ext_pull_write_attachment_instance_response),
     (CALL_ID_DELETE_MESSAGE_INSTANCE_ATTACHMENT, ret RESP_DELETE_MESSAGE_INSTANCE_ATTACHMENT),
     (CALL_ID_FLUSH_INSTANCE, exmdb_ext_pull_flush_instance_response),
     (CALL_ID_UNLOAD_INSTANCE, ret RESP_UNLOAD_INSTANCE),
     (CALL_ID_GET_INSTANCE_ALL_PROPTAGS, exmdb_ext_pull_get_instance_all_proptags_response),
     (CALL_ID_GET_INSTANCE_PROPERTIES, exmdb_ext_pull_get_instance_properties_response),
     (CALL_ID_SET_INSTANCE_PROPERTIES, exmdb_ext_pull_set_instance_properties_response),
     (CALL_ID_REMOVE_INSTANCE_PROPERTIES, exmdb_ext_pull_remove_instance_properties_response),
     (CALL_ID_CHECK_INSTANCE_CYCLE, exmdb_ext_pull_check_instance_cycle_response)]"

primrec push_instance_response :: "instance_response \<Rightarrow> push" where
  "push_instance_response (RESP_CHECK_MESSAGE b_exist) =
     exmdb_ext_push_check_message_response b_exist"
| "push_instance_response (RESP_CHECK_MESSAGE_DELETED b_del) =
     exmdb_ext_push_check_message_deleted_response b_del"
| "push_instance_response (RESP_LOAD_MESSAGE_INSTANCE instance_id) =
     exmdb_ext_push_load_message_instance_response instance_id"
| "push_instance_response (RESP_LOAD_EMBEDDED_INSTANCE instance_id) =
     exmdb_ext_push_load_embedded_instance_response instance_id"
| "push_instance_response (RESP_GET_EMBEDED_CN pcn) =
     exmdb_ext_push_get_embeded_cn_response pcn"
| "push_instance_response (RESP_RELOAD_MESSAGE_INSTANCE b_result) =
     exmdb_ext_push_reload_message_instance_response b_result"
| "push_instance_response RESP_CLEAR_MESSAGE_INSTANCE = ret ()"
| "push_instance_response (RESP_READ_MESSAGE_INSTANCE msgctnt) =
     exmdb_ext_push_read_message_instance_response msgctnt"
| "push_instance_response (RESP_WRITE_MESSAGE_INSTANCE proptags problems) =
     exmdb_ext_push_write_message_instance_response proptags problems"
| "push_instance_response (RESP_LOAD_ATTACHMENT_INSTANCE instance_id) =
     exmdb_ext_push_load_attachment_instance_response instance_id"
| "push_instance_response (RESP_CREATE_ATTACHMENT_INSTANCE instance_id attachment_num) =
     exmdb_ext_push_create_attachment_instance_response instance_id attachment_num"
| "push_instance_response (RESP_READ_ATTACHMENT_INSTANCE attctnt) =
     exmdb_ext_push_read_attachment_instance_response attctnt"
| "push_instance_response (RESP_WRITE_ATTACHMENT_INSTANCE problems) =
     exmdb_ext_push_write_attachment_instance_response problems"
| "push_instance_response RESP_DELETE_MESSAGE_INSTANCE_ATTACHMENT = ret ()"
| "push_instance_response (RESP_FLUSH_INSTANCE b_result) =
     exmdb_ext_push_flush_instance_response b_result"
| "push_instance_response RESP_UNLOAD_INSTANCE = ret ()"
| "push_instance_response (RESP_GET_INSTANCE_ALL_PROPTAGS proptags) =
     exmdb_ext_push_get_instance_all_proptags_response proptags"
| "push_instance_response (RESP_GET_INSTANCE_PROPERTIES propvals) =
     exmdb_ext_push_get_instance_properties_response propvals"
| "push_instance_response (RESP_SET_INSTANCE_PROPERTIES problems) =
     exmdb_ext_push_set_instance_properties_response problems"
| "push_instance_response (RESP_REMOVE_INSTANCE_PROPERTIES problems) =
     exmdb_ext_push_remove_instance_properties_response problems"
| "push_instance_response (RESP_CHECK_INSTANCE_CYCLE b_cycle) =
     exmdb_ext_push_check_instance_cycle_response b_cycle"

subsection \<open>Recipients and attachments of an instance\<close>

definition exmdb_ext_pull_get_message_instance_rcpts_num_response :: "content_response pull" where
  "exmdb_ext_pull_get_message_instance_rcpts_num_response =
     bnd ext_buffer_pull_uint16 (\<lambda>num.
     ret (RESP_GET_MESSAGE_INSTANCE_RCPTS_NUM num))"

definition exmdb_ext_push_get_message_instance_rcpts_num_response :: "u16 \<Rightarrow> push" where
  "exmdb_ext_push_get_message_instance_rcpts_num_response num =
     ext_buffer_push_uint16 num"

definition exmdb_ext_pull_get_message_instance_rcpts_all_proptags_response ::
    "content_response pull" where
  "exmdb_ext_pull_get_message_instance_rcpts_all_proptags_response =
     bnd ext_buffer_pull_proptag_array (\<lambda>proptags.
     ret (RESP_GET_MESSAGE_INSTANCE_RCPTS_ALL_PROPTAGS proptags))"

definition exmdb_ext_push_get_message_instance_rcpts_all_proptags_response ::
    "u32 list \<Rightarrow> push" where
  "exmdb_ext_push_get_message_instance_rcpts_all_proptags_response proptags =
     ext_buffer_push_proptag_array proptags"

definition exmdb_ext_pull_get_message_instance_rcpts_response :: "content_response pull" where
  "exmdb_ext_pull_get_message_instance_rcpts_response =
     bnd ext_buffer_pull_tarray_set (\<lambda>tset.
     ret (RESP_GET_MESSAGE_INSTANCE_RCPTS tset))"

definition exmdb_ext_push_get_message_instance_rcpts_response ::
    "tagged_propval list list \<Rightarrow> push" where
  "exmdb_ext_push_get_message_instance_rcpts_response tset =
     ext_buffer_push_tarray_set tset"

definition exmdb_ext_pull_copy_instance_rcpts_response :: "content_response pull" where
  "exmdb_ext_pull_copy_instance_rcpts_response =
     bnd ext_buffer_pull_bool (\<lambda>b_result.
     ret (RESP_COPY_INSTANCE_RCPTS b_result))"

definition exmdb_ext_push_copy_instance_rcpts_response :: "bool \<Rightarrow> push" where
  "exmdb_ext_push_copy_instance_rcpts_response b_result =
     push_BOOL b_result"

definition exmdb_ext_pull_get_message_instance_attachments_num_response ::
    "content_response pull" where
  "exmdb_ext_pull_get_message_instance_attachments_num_response =
     bnd ext_buffer_pull_uint16 (\<lambda>num.
     ret (RESP_GET_MESSAGE_INSTANCE_ATTACHMENTS_NUM num))"

definition exmdb_ext_push_get_message_instance_attachments_num_response ::
    "u16 \<Rightarrow> push" where
  "exmdb_ext_push_get_message_instance_attachments_num_response num =
     ext_buffer_push_uint16 num"

definition exmdb_ext_pull_get_message_instance_attachment_table_all_proptags_response ::
    "content_response pull" where
  "exmdb_ext_pull_get_message_instance_attachment_table_all_proptags_response =
     bnd ext_buffer_pull_proptag_array (\<lambda>proptags.
     ret (RESP_GET_MESSAGE_INSTANCE_ATTACHMENT_TABLE_ALL_PROPTAGS proptags))"

definition exmdb_ext_push_get_message_instance_attachment_table_all_proptags_response ::
    "u32 list \<Rightarrow> push" where
  "exmdb_ext_push_get_message_instance_attachment_table_all_proptags_response proptags =
     ext_buffer_push_proptag_array proptags"

definition exmdb_ext_pull_query_message_instance_attachment_table_response ::
    "content_response pull" where
  "exmdb_ext_pull_query_message_instance_attachment_table_response =
     bnd ext_buffer_pull_tarray_set (\<lambda>tset.
     ret (RESP_QUERY_MESSAGE_INSTANCE_ATTACHMENT_TABLE tset))"

definition exmdb_ext_push_query_message_instance_attachment_table_response ::
    "tagged_propval list list \<Rightarrow> push" where
  "exmdb_ext_push_query_message_instance_attachment_table_response tset =
     ext_buffer_push_tarray_set tset"

definition exmdb_ext_pull_copy_instance_attachments_response :: "content_response pull" where
  "exmdb_ext_pull_copy_instance_attachments_response =
     bnd ext_buffer_pull_bool (\<lambda>b_result.
     ret (RESP_COPY_INSTANCE_ATTACHMENTS b_result))"

definition exmdb_ext_push_copy_instance_attachments_response :: "bool \<Rightarrow> push" where
  "exmdb_ext_push_copy_instance_attachments_response b_result =
     push_BOOL b_result"

definition content_response_cases :: "(u8 \<times> content_response pull) list" where
  "content_response_cases =
    [(CALL_ID_EMPTY_MESSAGE_INSTANCE_RCPTS, ret RESP_EMPTY_MESSAGE_INSTANCE_RCPTS),
     (CALL_ID_GET_MESSAGE_INSTANCE_RCPTS_NUM, exmdb_ext_pull_get_message_instance_rcpts_num_response),
     (CALL_ID_GET_MESSAGE_INSTANCE_RCPTS_ALL_PROPTAGS, exmdb_ext_pull_get_message_instance_rcpts_all_proptags_response),
     (CALL_ID_GET_MESSAGE_INSTANCE_RCPTS, exmdb_ext_pull_get_message_instance_rcpts_response),
     (CALL_ID_UPDATE_MESSAGE_INSTANCE_RCPTS, ret RESP_UPDATE_MESSAGE_INSTANCE_RCPTS),
     (CALL_ID_COPY_INSTANCE_RCPTS, exmdb_ext_pull_copy_instance_rcpts_response),
     (CALL_ID_EMPTY_MESSAGE_INSTANCE_ATTACHMENTS, ret RESP_EMPTY_MESSAGE_INSTANCE_ATTACHMENTS),
     (CALL_ID_GET_MESSAGE_INSTANCE_ATTACHMENTS_NUM, exmdb_ext_pull_get_message_instance_attachments_num_response),
     (CALL_ID_GET_MESSAGE_INSTANCE_ATTACHMENT_TABLE_ALL_PROPTAGS, exmdb_ext_pull_get_message_instance_attachment_table_all_proptags_response),
     (CALL_ID_QUERY_MESSAGE_INSTANCE_ATTACHMENT_TABLE, exmdb_ext_pull_query_message_instance_attachment_table_response),
     (CALL_ID_COPY_INSTANCE_ATTACHMENTS, exmdb_ext_pull_copy_instance_attachments_response),
     (CALL_ID_SET_MESSAGE_INSTANCE_CONFLICT, ret RESP_SET_MESSAGE_INSTANCE_CONFLICT)]"

primrec push_content_response :: "content_response \<Rightarrow> push" where
  "push_content_response RESP_EMPTY_MESSAGE_INSTANCE_RCPTS = ret ()"
| "push_content_response (RESP_GET_MESSAGE_INSTANCE_RCPTS_NUM num) =
     exmdb_ext_push_get_message_instance_rcpts_num_response num"
| "push_content_response (RESP_GET_MESSAGE_INSTANCE_RCPTS_ALL_PROPTAGS proptags) =
     exmdb_ext_push_get_message_instance_rcpts_all_proptags_response proptags"
| "push_content_response (RESP_GET_MESSAGE_INSTANCE_RCPTS tset) =
     exmdb_ext_push_get_message_instance_rcpts_response tset"
| "push_content_response RESP_UPDATE_MESSAGE_INSTANCE_RCPTS = ret ()"
| "push_content_response (RESP_COPY_INSTANCE_RCPTS b_result) =
     exmdb_ext_push_copy_instance_rcpts_response b_result"
| "push_content_response RESP_EMPTY_MESSAGE_INSTANCE_ATTACHMENTS = ret ()"
| "push_content_response (RESP_GET_MESSAGE_INSTANCE_ATTACHMENTS_NUM num) =
     exmdb_ext_push_get_message_instance_attachments_num_response num"
| "push_content_response (RESP_GET_MESSAGE_INSTANCE_ATTACHMENT_TABLE_ALL_PROPTAGS proptags) =
     exmdb_ext_push_get_message_instance_attachment_table_all_proptags_response proptags"
| "push_content_response (RESP_QUERY_MESSAGE_INSTANCE_ATTACHMENT_TABLE tset) =
     exmdb_ext_push_query_message_instance_attachment_table_response tset"
| "push_content_response (RESP_COPY_INSTANCE_ATTACHMENTS b_result) =
     exmdb_ext_push_copy_instance_attachments_response b_result"
| "push_content_response RESP_SET_MESSAGE_INSTANCE_CONFLICT = ret ()"

subsection \<open>Messages\<close>

definition exmdb_ext_pull_get_message_rcpts_response :: "message_response pull" where
  "exmdb_ext_pull_get_message_rcpts_response =
     bnd ext_buffer_pull_tarray_set (\<lambda>tset.
     ret (RESP_GET_MESSAGE_RCPTS tset))"

definition exmdb_ext_push_get_message_rcpts_response ::
    "tagged_propval list list \<Rightarrow> push" where
  "exmdb_ext_push_get_message_rcpts_response tset =
     ext_buffer_push_tarray_set tset"

definition exmdb_ext_pull_get_message_properties_response :: "message_response pull" where
  "exmdb_ext_pull_get_message_properties_response =
     bnd ext_buffer_pull_tpropval_array (\<lambda>propvals.
     ret (RESP_GET_MESSAGE_PROPERTIES propvals))"

definition exmdb_ext_push_get_message_properties_response ::
    "tagged_propval list \<Rightarrow> push" where
  "exmdb_ext_push_get_message_properties_response propvals =
     ext_buffer_push_tpropval_array propvals"

definition exmdb_ext_pull_set_message_properties_response :: "message_response pull" where
  "exmdb_ext_pull_set_message_properties_response =
     bnd ext_buffer_pull_problem_array (\<lambda>problems.
     ret (RESP_SET_MESSAGE_PROPERTIES problems))"

definition exmdb_ext_push_set_message_properties_response ::
    "property_problem list \<Rightarrow> push" where
  "exmdb_ext_push_set_message_properties_response problems =
     ext_buffer_push_problem_array problems"

definition exmdb_ext_pull_set_message_read_state_response :: "message_response pull" where
  "exmdb_ext_pull_set_message_read_state_response =
     bnd ext_buffer_pull_uint64 (\<lambda>read_cn.
     ret (RESP_SET_MESSAGE_READ_STATE read_cn))"

definition exmdb_ext_push_set_message_read_state_response :: "u64 \<Rightarrow> push" where
  "exmdb_ext_push_set_message_read_state_response read_cn =
     ext_buffer_push_uint64 read_cn"

definition exmdb_ext_pull_allocate_message_id_response :: "message_response pull" where
  "exmdb_ext_pull_allocate_message_id_response =
     bnd ext_buffer_pull_uint64 (\<lambda>message_id.
     ret (RESP_ALLOCATE_MESSAGE_ID message_id))"

definition exmdb_ext_push_allocate_message_id_response :: "u64 \<Rightarrow> push" where
  "exmdb_ext_push_allocate_message_id_response message_id =
     ext_buffer_push_uint64 message_id"

definition exmdb_ext_pull_allocate_cn_response :: "message_response pull" where
  "exmdb_ext_pull_allocate_cn_response =
     bnd ext_buffer_pull_uint64 (\<lambda>cn.
     ret (RESP_ALLOCATE_CN cn))"

definition exmdb_ext_push_allocate_cn_response :: "u64 \<Rightarrow> push" where
  "exmdb_ext_push_allocate_cn_response cn =
     ext_buffer_push_uint64 cn"

definition exmdb_ext_pull_get_message_group_id_response :: "message_response pull" where
  "exmdb_ext_pull_get_message_group_id_response =
     bnd (pull_optional (pull_pointer 4 ext_buffer_pull_uint32)) (\<lambda>pgroup_id.
     ret (RESP_GET_MESSAGE_GROUP_ID pgroup_id))"

definition exmdb_ext_push_get_message_group_id_response :: "u32 option \<Rightarrow> push" where
  "exmdb_ext_push_get_message_group_id_response pgroup_id =
     push_optional ext_buffer_push_uint32 pgroup_id"

definition exmdb_ext_pull_get_change_indices_response :: "message_response pull" where
  "exmdb_ext_pull_get_change_indices_response =
     bnd ext_buffer_pull_proptag_array (\<lambda>indices.
     bnd ext_buffer_pull_proptag_array (\<lambda>ungroup_proptags.
     ret (RESP_GET_CHANGE_INDICES indices ungroup_proptags)))"

definition exmdb_ext_push_get_change_indices_response ::
    "u32 list \<Rightarrow> u32 list \<Rightarrow> push" where
  "exmdb_ext_push_get_change_indices_response indices ungroup_proptags =
     seq (ext_buffer_push_proptag_array indices)
         (ext_buffer_push_proptag_array ungroup_proptags)"

definition exmdb_ext_pull_try_mark_submit_response :: "message_response pull" where
  "exmdb_ext_pull_try_mark_submit_response =
     bnd ext_buffer_pull_bool (\<lambda>b_marked.
     ret (RESP_TRY_MARK_SUBMIT b_marked))"

definition exmdb_ext_push_try_mark_submit_response :: "bool \<Rightarrow> push" where
  "exmdb_ext_push_try_mark_submit_response b_marked =
     push_BOOL b_marked"

definition exmdb_ext_pull_link_message_response :: "message_response pull" where
  "exmdb_ext_pull_link_message_response =
     bnd ext_buffer_pull_bool (\<lambda>b_result.
     ret (RESP_LINK_MESSAGE b_result))"

definition exmdb_ext_push_link_message_response :: "bool \<Rightarrow> push" where
  "exmdb_ext_push_link_message_response b_result =
     push_BOOL b_result"

definition exmdb_ext_pull_get_message_timer_response :: "message_response pull" where
  "exmdb_ext_pull_get_message_timer_response =
     bnd (pull_optional (pull_pointer 4 ext_buffer_pull_uint32)) (\<lambda>ptimer_id.
     ret (RESP_GET_MESSAGE_TIMER ptimer_id))"

definition exmdb_ext_push_get_message_timer_response :: "u32 option \<Rightarrow> push" where
  "exmdb_ext_push_get_message_timer_response ptimer_id =
     push_optional ext_buffer_push_uint32 ptimer_id"

definition message_response_cases :: "(u8 \<times> message_response pull) list" where
  "message_response_cases =
    [(CALL_ID_GET_MESSAGE_RCPTS, exmdb_ext_pull_get_message_rcpts_response),
     (CALL_ID_GET_MESSAGE_PROPERTIES, exmdb_ext_pull_get_message_properties_response),
     (CALL_ID_SET_MESSAGE_PROPERTIES, exmdb_ext_pull_set_message_properties_response),
     (CALL_ID_SET_MESSAGE_READ_STATE, exmdb_ext_pull_set_message_read_state_response),
     (CALL_ID_REMOVE_MESSAGE_PROPERTIES, ret RESP_REMOVE_MESSAGE_PROPERTIES),
     (CALL_ID_ALLOCATE_MESSAGE_ID, exmdb_ext_pull_allocate_message_id_response),
     (CALL_ID_ALLOCATE_CN, exmdb_ext_pull_allocate_cn_response),
     (CALL_ID_GET_MESSAGE_GROUP_ID, exmdb_ext_pull_get_message_group_id_response),
     (CALL_ID_SET_MESSAGE_GROUP_ID, ret RESP_SET_MESSAGE_GROUP_ID),
     (CALL_ID_SAVE_CHANGE_INDICES, ret RESP_SAVE_CHANGE_INDICES),
     (CALL_ID_GET_CHANGE_INDICES, exmdb_ext_pull_get_change_indices_response),
     (CALL_ID_MARK_MODIFIED, ret RESP_MARK_MODIFIED),
     (CALL_ID_TRY_MARK_SUBMIT, exmdb_ext_pull_try_mark_submit_response),
     (CALL_ID_CLEAR_SUBMIT, ret RESP_CLEAR_SUBMIT),
     (CALL_ID_LINK_MESSAGE, exmdb_ext_pull_link_message_response),
     (CALL_ID_UNLINK_MESSAGE, ret RESP_UNLINK_MESSAGE),
     (CALL_ID_RULE_NEW_MESSAGE, ret RESP_RULE_NEW_MESSAGE),
     (CALL_ID_SET_MESSAGE_TIMER, ret RESP_SET_MESSAGE_TIMER),
     (CALL_ID_GET_MESSAGE_TIMER, exmdb_ext_pull_get_message_timer_response)]"

primrec push_message_response :: "message_response \<Rightarrow> push" where
  "push_message_response (RESP_GET_MESSAGE_RCPTS tset) =
     exmdb_ext_push_get_message_rcpts_response tset"
| "push_message_response (RESP_GET_MESSAGE_PROPERTIES propvals) =
     exmdb_ext_push_get_message_properties_response propvals"
| "push_message_response (RESP_SET_MESSAGE_PROPERTIES problems) =
     exmdb_ext_push_set_message_properties_response problems"
| "push_message_response (RESP_SET_MESSAGE_READ_STATE read_cn) =
     exmdb_ext_push_set_message_read_state_response read_cn"
| "push_message_response RESP_REMOVE_MESSAGE_PROPERTIES = ret ()"
| "push_message_response (RESP_ALLOCATE_MESSAGE_ID message_id) =
     exmdb_ext_push_allocate_message_id_response message_id"
| "push_message_response (RESP_ALLOCATE_CN cn) = exmdb_ext_push_allocate_cn_response cn"
| "push_message_response (RESP_GET_MESSAGE_GROUP_ID pgroup_id) =
     exmdb_ext_push_get_message_group_id_response pgroup_id"
| "push_message_response RESP_SET_MESSAGE_GROUP_ID = ret ()"
| "push_message_response RESP_SAVE_CHANGE_INDICES = ret ()"
| "push_message_response (RESP_GET_CHANGE_INDICES indices ungroup_proptags) =
     exmdb_ext_push_get_change_indices_response indices ungroup_proptags"
| "push_message_response RESP_MARK_MODIFIED = ret ()"
| "push_message_response (RESP_TRY_MARK_SUBMIT b_marked) =
     exmdb_ext_push_try_mark_submit_response b_marked"
| "push_message_response RESP_CLEAR_SUBMIT = ret ()"
| "push_message_response (RESP_LINK_MESSAGE b_result) =
     exmdb_ext_push_link_message_response b_result"
| "push_message_response RESP_UNLINK_MESSAGE = ret ()"
| "push_message_response RESP_RULE_NEW_MESSAGE = ret ()"
| "push_message_response RESP_SET_MESSAGE_TIMER = ret ()"
| "push_message_response (RESP_GET_MESSAGE_TIMER ptimer_id) =
     exmdb_ext_push_get_message_timer_response ptimer_id"

subsection \<open>Permissions, rules, delivery, synchronization, notification\<close>

definition exmdb_ext_pull_update_folder_rule_response :: "service_response pull" where
  "exmdb_ext_pull_update_folder_rule_response =
     bnd ext_buffer_pull_bool (\<lambda>b_exceed.
     ret (RESP_UPDATE_FOLDER_RULE b_exceed))"

definition exmdb_ext_push_update_folder_rule_response :: "bool \<Rightarrow> push" where
  "exmdb_ext_push_update_folder_rule_response b_exceed =
     push_BOOL b_exceed"

definition exmdb_ext_pull_delivery_message_response :: "service_response pull" where
  "exmdb_ext_pull_delivery_message_response =
     bnd ext_buffer_pull_uint32 (\<lambda>result.
     ret (RESP_DELIVERY_MESSAGE result))"

definition exmdb_ext_push_delivery_message_response :: "u32 \<Rightarrow> push" where
  "exmdb_ext_push_delivery_message_response result =
     ext_buffer_push_uint32 result"

definition exmdb_ext_pull_write_message_response :: "service_response pull" where
  "exmdb_ext_pull_write_message_response =
     bnd ext_buffer_pull_bool (\<lambda>b_result.
     ret (RESP_WRITE_MESSAGE b_result))"

definition exmdb_ext_push_write_message_response :: "bool \<Rightarrow> push" where
  "exmdb_ext_push_write_message_response b_result =
     push_BOOL b_result"

definition exmdb_ext_pull_read_message_response :: "service_response pull" where
  "exmdb_ext_pull_read_message_response =
     bnd (pull_optional (pull_pointer 32 ext_buffer_pull_message_content)) (\<lambda>pmsgctnt.
     ret (RESP_READ_MESSAGE pmsgctnt))"

definition exmdb_ext_push_read_message_response :: "message_content option \<Rightarrow> push" where
  "exmdb_ext_push_read_message_response pmsgctnt =
     push_optional ext_buffer_push_message_content pmsgctnt"

definition exmdb_ext_pull_get_content_sync_response :: "service_response pull" where
  "exmdb_ext_pull_get_content_sync_response =
     bnd ext_buffer_pull_uint32 (\<lambda>fai_count.
     bnd ext_buffer_pull_uint64 (\<lambda>fai_total.
     bnd ext_buffer_pull_uint32 (\<lambda>normal_count.
     bnd ext_buffer_pull_uint64 (\<lambda>normal_total.
     bnd ext_buffer_pull_eid_array (\<lambda>updated_mids.
     bnd ext_buffer_pull_eid_array (\<lambda>chg_mids.
     bnd ext_buffer_pull_uint64 (\<lambda>last_cn.
     bnd ext_buffer_pull_eid_array (\<lambda>given_mids.
     bnd ext_buffer_pull_eid_array (\<lambda>deleted_mids.
     bnd ext_buffer_pull_eid_array (\<lambda>nolonger_mids.
     bnd ext_buffer_pull_eid_array (\<lambda>read_mids.
     bnd ext_buffer_pull_eid_array (\<lambda>unread_mids.
     bnd ext_buffer_pull_uint64 (\<lambda>last_readcn.
     ret (RESP_GET_CONTENT_SYNC fai_count fai_total normal_count normal_total updated_mids
       chg_mids last_cn given_mids deleted_mids nolonger_mids read_mids unread_mids
       last_readcn))))))))))))))"

definition exmdb_ext_push_get_content_sync_response ::
    "u32 \<Rightarrow> u64 \<Rightarrow> u32 \<Rightarrow> u64 \<Rightarrow>
       u64 list \<Rightarrow> u64 list \<Rightarrow> u64 \<Rightarrow> u64 list \<Rightarrow>
       u64 list \<Rightarrow> u64 list \<Rightarrow> u64 list \<Rightarrow>
       u64 list \<Rightarrow> u64 \<Rightarrow> push" where
  "exmdb_ext_push_get_content_sync_response fai_count fai_total normal_count normal_total
       updated_mids chg_mids last_cn given_mids deleted_mids nolonger_mids read_mids unread_mids
       last_readcn =
     seq (ext_buffer_push_uint32 fai_count)
    (seq (ext_buffer_push_uint64 fai_total)
    (seq (ext_buffer_push_uint32 normal_count)
    (seq (ext_buffer_push_uint64 normal_total)
    (seq (ext_buffer_push_eid_array updated_mids)
    (seq (ext_buffer_push_eid_array chg_mids)
    (seq (ext_buffer_push_uint64 last_cn)
    (seq (ext_buffer_push_eid_array given_mids)
    (seq (ext_buffer_push_eid_array deleted_mids)
    (seq (ext_buffer_push_eid_array nolonger_mids)
    (seq (ext_buffer_push_eid_array read_mids)
    (seq (ext_buffer_push_eid_array unread_mids)
         (ext_buffer_push_uint64 last_readcn))))))))))))"

definition exmdb_ext_pull_get_hierarchy_sync_response :: "service_response pull" where
  "exmdb_ext_pull_get_hierarchy_sync_response =
     bnd (pull_counted32 16 ext_buffer_pull_tpropval_array) (\<lambda>fldchgs.
     bnd ext_buffer_pull_uint64 (\<lambda>last_cn.
     bnd ext_buffer_pull_eid_array (\<lambda>given_fids.
     bnd ext_buffer_pull_eid_array (\<lambda>deleted_fids.
     ret (RESP_GET_HIERARCHY_SYNC fldchgs last_cn given_fids deleted_fids)))))"

definition exmdb_ext_push_get_hierarchy_sync_response ::
    "tagged_propval list list \<Rightarrow> u64 \<Rightarrow> u64 list \<Rightarrow>
       u64 list \<Rightarrow> push" where
  "exmdb_ext_push_get_hierarchy_sync_response fldchgs last_cn given_fids deleted_fids =
     seq (push_counted32 ext_buffer_push_tpropval_array fldchgs)
    (seq (ext_buffer_push_uint64 last_cn)
    (seq (ext_buffer_push_eid_array given_fids)
         (ext_buffer_push_eid_array deleted_fids)))"

definition exmdb_ext_pull_allocate_ids_response :: "service_response pull" where
  "exmdb_ext_pull_allocate_ids_response =
     bnd ext_buffer_pull_uint64 (\<lambda>begin_eid.
     ret (RESP_ALLOCATE_IDS begin_eid))"

definition exmdb_ext_push_allocate_ids_response :: "u64 \<Rightarrow> push" where
  "exmdb_ext_push_allocate_ids_response begin_eid =
     ext_buffer_push_uint64 begin_eid"

definition exmdb_ext_pull_subscribe_notification_response :: "service_response pull" where
  "exmdb_ext_pull_subscribe_notification_response =
     bnd ext_buffer_pull_uint32 (\<lambda>sub_id.
     ret (RESP_SUBSCRIBE_NOTIFICATION sub_id))"

definition exmdb_ext_push_subscribe_notification_response :: "u32 \<Rightarrow> push" where
  "exmdb_ext_push_subscribe_notification_response sub_id =
     ext_buffer_push_uint32 sub_id"

definition exmdb_ext_pull_check_contact_address_response :: "service_response pull" where
  "exmdb_ext_pull_check_contact_address_response =
     bnd ext_buffer_pull_bool (\<lambda>b_found.
     ret (RESP_CHECK_CONTACT_ADDRESS b_found))"

definition exmdb_ext_push_check_contact_address_response :: "bool \<Rightarrow> push" where
  "exmdb_ext_push_check_contact_address_response b_found =
     push_BOOL b_found"

definition exmdb_ext_pull_get_public_folder_unread_count_response :: "service_response pull" where
  "exmdb_ext_pull_get_public_folder_unread_count_response =
     bnd ext_buffer_pull_uint32 (\<lambda>count.
     ret (RESP_GET_PUBLIC_FOLDER_UNREAD_COUNT count))"

definition exmdb_ext_push_get_public_folder_unread_count_response :: "u32 \<Rightarrow> push" where
  "exmdb_ext_push_get_public_folder_unread_count_response count =
     ext_buffer_push_uint32 count"

definition service_response_cases :: "(u8 \<times> service_response pull) list" where
  "service_response_cases =
    [(CALL_ID_EMPTY_FOLDER_PERMISSION, ret RESP_EMPTY_FOLDER_PERMISSION),
     (CALL_ID_UPDATE_FOLDER_PERMISSION, ret RESP_UPDATE_FOLDER_PERMISSION),
     (CALL_ID_EMPTY_FOLDER_RULE, ret RESP_EMPTY_FOLDER_RULE),
     (CALL_ID_UPDATE_FOLDER_RULE, exmdb_ext_pull_update_folder_rule_response),
     (CALL_ID_DELIVERY_MESSAGE, exmdb_ext_pull_delivery_message_response),
     (CALL_ID_WRITE_MESSAGE, exmdb_ext_pull_write_message_response),
     (CALL_ID_READ_MESSAGE, exmdb_ext_pull_read_message_response),
     (CALL_ID_GET_CONTENT_SYNC, exmdb_ext_pull_get_content_sync_response),
     (CALL_ID_GET_HIERARCHY_SYNC, exmdb_ext_pull_get_hierarchy_sync_response),
     (CALL_ID_ALLOCATE_IDS, exmdb_ext_pull_allocate_ids_response),
     (CALL_ID_SUBSCRIBE_NOTIFICATION, exmdb_ext_pull_subscribe_notification_response),
     (CALL_ID_UNSUBSCRIBE_NOTIFICATION, ret RESP_UNSUBSCRIBE_NOTIFICATION),
     (CALL_ID_TRANSPORT_NEW_MAIL, ret RESP_TRANSPORT_NEW_MAIL),
     (CALL_ID_CHECK_CONTACT_ADDRESS, exmdb_ext_pull_check_contact_address_response),
     (CALL_ID_GET_PUBLIC_FOLDER_UNREAD_COUNT, exmdb_ext_pull_get_public_folder_unread_count_response),
     (CALL_ID_UNLOAD_STORE, ret RESP_UNLOAD_STORE)]"

primrec push_service_response :: "service_response \<Rightarrow> push" where
  "push_service_response RESP_EMPTY_FOLDER_PERMISSION = ret ()"
| "push_service_response RESP_UPDATE_FOLDER_PERMISSION = ret ()"
| "push_service_response RESP_EMPTY_FOLDER_RULE = ret ()"
| "push_service_response (RESP_UPDATE_FOLDER_RULE b_exceed) =
     exmdb_ext_push_update_folder_rule_response b_exceed"
| "push_service_response (RESP_DELIVERY_MESSAGE result) =
     exmdb_ext_push_delivery_message_response result"
| "push_service_response (RESP_WRITE_MESSAGE b_result) =
     exmdb_ext_push_write_message_response b_result"
| "push_service_response (RESP_READ_MESSAGE pmsgctnt) =
     exmdb_ext_push_read_message_response pmsgctnt"
| "push_service_response (RESP_GET_CONTENT_SYNC fai_count fai_total normal_count normal_total
       updated_mids chg_mids last_cn given_mids deleted_mids nolonger_mids read_mids unread_mids
       last_readcn) =
     exmdb_ext_push_get_content_sync_response fai_count fai_total normal_count normal_total
       updated_mids chg_mids last_cn given_mids deleted_mids nolonger_mids read_mids unread_mids
       last_readcn"
| "push_service_response (RESP_GET_HIERARCHY_SYNC fldchgs last_cn given_fids deleted_fids) =
     exmdb_ext_push_get_hierarchy_sync_response fldchgs last_cn given_fids deleted_fids"
| "push_service_response (RESP_ALLOCATE_IDS begin_eid) =
     exmdb_ext_push_allocate_ids_response begin_eid"
| "push_service_response (RESP_SUBSCRIBE_NOTIFICATION sub_id) =
     exmdb_ext_push_subscribe_notification_response sub_id"
| "push_service_response RESP_UNSUBSCRIBE_NOTIFICATION = ret ()"
| "push_service_response RESP_TRANSPORT_NEW_MAIL = ret ()"
| "push_service_response (RESP_CHECK_CONTACT_ADDRESS b_found) =
     exmdb_ext_push_check_contact_address_response b_found"
| "push_service_response (RESP_GET_PUBLIC_FOLDER_UNREAD_COUNT count) =
     exmdb_ext_push_get_public_folder_unread_count_response count"
| "push_service_response RESP_UNLOAD_STORE = ret ()"

subsection \<open>The switches\<close>

definition response_cases :: "exmdb_env \<Rightarrow> (u8 \<times> response_payload pull) list" where
  "response_cases env =
     map (pull_as STORE_RESPONSE) store_response_cases @
     map (pull_as FOLDER_RESPONSE) (folder_response_cases env) @
     map (pull_as TABLE_RESPONSE) table_response_cases @
     map (pull_as INSTANCE_RESPONSE) instance_response_cases @
     map (pull_as CONTENT_RESPONSE) content_response_cases @
     map (pull_as MESSAGE_RESPONSE) message_response_cases @
     map (pull_as SERVICE_RESPONSE) service_response_cases"

definition pull_response_payload :: "exmdb_env \<Rightarrow> u8 \<Rightarrow> response_payload pull" where
  "pull_response_payload env call_id =
     switch (response_cases env) (fail EXT_ERR_BAD_SWITCH) call_id"

primrec push_response_payload :: "response_payload \<Rightarrow> push" where
  "push_response_payload (STORE_RESPONSE p) = push_store_response p"
| "push_response_payload (FOLDER_RESPONSE p) = push_folder_response p"
| "push_response_payload (TABLE_RESPONSE p) = push_table_response p"
| "push_response_payload (INSTANCE_RESPONSE p) = push_instance_response p"
| "push_response_payload (CONTENT_RESPONSE p) = push_content_response p"
| "push_response_payload (MESSAGE_RESPONSE p) = push_message_response p"
| "push_response_payload (SERVICE_RESPONSE p) = push_service_response p"

end
