(* ===== verification/Exmdb_Response_Codec.thy ===== *)
theory Exmdb_Response_Codec
  imports Exmdb_Response
begin

text \<open>
  The same for the responses: reading stays within the buffer (\<open>safe_*\<close>) and gives back what was
  written (\<open>coded_*\<close>), where \<open>*_response_ok\<close> says which responses can be written.
\<close>

subsection \<open>The store\<close>

primrec store_response_ok :: "u32 \<Rightarrow> store_response \<Rightarrow> bool" where
  "store_response_ok f RESP_PING_STORE \<longleftrightarrow>
     True"
| "store_response_ok f (RESP_GET_ALL_NAMED_PROPIDS propids) \<longleftrightarrow>
     list_ok (2 ^ 16) any_ok f propids"
| "store_response_ok f (RESP_GET_NAMED_PROPIDS propids) \<longleftrightarrow>
     list_ok (2 ^ 16) any_ok f propids"
| "store_response_ok f (RESP_GET_NAMED_PROPNAMES propnames) \<longleftrightarrow>
     list_ok (2 ^ 16) property_name_ok f propnames"
| "store_response_ok f (RESP_GET_MAPPING_GUID b_found guid) \<longleftrightarrow>
     True"
| "store_response_ok f (RESP_GET_MAPPING_REPLID b_found replid) \<longleftrightarrow>
     True"
| "store_response_ok f (RESP_GET_STORE_ALL_PROPTAGS proptags) \<longleftrightarrow>
     list_ok (2 ^ 16) any_ok f proptags"
| "store_response_ok f (RESP_GET_STORE_PROPERTIES propvals) \<longleftrightarrow>
     props_ok f propvals"
| "store_response_ok f (RESP_SET_STORE_PROPERTIES problems) \<longleftrightarrow>
     list_ok (2 ^ 16) any_ok f problems"
| "store_response_ok f RESP_REMOVE_STORE_PROPERTIES \<longleftrightarrow>
     True"
| "store_response_ok f (RESP_CHECK_MAILBOX_PERMISSION permission) \<longleftrightarrow>
     True"
| "store_response_ok f (RESP_GET_FOLDER_BY_CLASS eid str_explicit) \<longleftrightarrow>
     string_ok f str_explicit"
| "store_response_ok f (RESP_SET_FOLDER_BY_CLASS b_result) \<longleftrightarrow>
     True"
| "store_response_ok f (RESP_GET_FOLDER_CLASS_TABLE table) \<longleftrightarrow>
     rows_ok f table"

lemmas store_response_readers =
  exmdb_ext_pull_get_all_named_propids_response_def
  exmdb_ext_pull_get_named_propids_response_def
  exmdb_ext_pull_get_named_propnames_response_def
  exmdb_ext_pull_get_mapping_guid_response_def
  exmdb_ext_pull_get_mapping_replid_response_def
  exmdb_ext_pull_get_store_all_proptags_response_def
  exmdb_ext_pull_get_store_properties_response_def
  exmdb_ext_pull_set_store_properties_response_def
  exmdb_ext_pull_check_mailbox_permission_response_def
  exmdb_ext_pull_get_folder_by_class_response_def
  exmdb_ext_pull_set_folder_by_class_response_def
  exmdb_ext_pull_get_folder_class_table_response_def

lemmas store_response_writers =
  exmdb_ext_push_get_all_named_propids_response_def
  exmdb_ext_push_get_named_propids_response_def
  exmdb_ext_push_get_named_propnames_response_def
  exmdb_ext_push_get_mapping_guid_response_def
  exmdb_ext_push_get_mapping_replid_response_def
  exmdb_ext_push_get_store_all_proptags_response_def
  exmdb_ext_push_get_store_properties_response_def
  exmdb_ext_push_set_store_properties_response_def
  exmdb_ext_push_check_mailbox_permission_response_def
  exmdb_ext_push_get_folder_by_class_response_def
  exmdb_ext_push_set_folder_by_class_response_def
  exmdb_ext_push_get_folder_class_table_response_def

lemma safe_store_responses [safe_rules]:
  "safe b exmdb_ext_pull_get_all_named_propids_response"
  "safe b exmdb_ext_pull_get_named_propids_response"
  "safe b exmdb_ext_pull_get_named_propnames_response"
  "safe b exmdb_ext_pull_get_mapping_guid_response"
  "safe b exmdb_ext_pull_get_mapping_replid_response"
  "safe b exmdb_ext_pull_get_store_all_proptags_response"
  "safe b exmdb_ext_pull_get_store_properties_response"
  "safe b exmdb_ext_pull_set_store_properties_response"
  "safe b exmdb_ext_pull_check_mailbox_permission_response"
  "safe b exmdb_ext_pull_get_folder_by_class_response"
  "safe b exmdb_ext_pull_set_folder_by_class_response"
  "safe b exmdb_ext_pull_get_folder_class_table_response"
  unfolding store_response_readers Let_def
  by (intro safe_rules)+

lemma coded_store_responses:
  "list_ok (2 ^ 16) any_ok f propids \<Longrightarrow>
     coded f exmdb_ext_pull_get_all_named_propids_response
       (exmdb_ext_push_get_all_named_propids_response propids)
       (RESP_GET_ALL_NAMED_PROPIDS propids)"
  "list_ok (2 ^ 16) any_ok f propids \<Longrightarrow>
     coded f exmdb_ext_pull_get_named_propids_response
       (exmdb_ext_push_get_named_propids_response propids)
       (RESP_GET_NAMED_PROPIDS propids)"
  "list_ok (2 ^ 16) property_name_ok f propnames \<Longrightarrow>
     coded f exmdb_ext_pull_get_named_propnames_response
       (exmdb_ext_push_get_named_propnames_response propnames)
       (RESP_GET_NAMED_PROPNAMES propnames)"
  "coded f exmdb_ext_pull_get_mapping_guid_response
       (exmdb_ext_push_get_mapping_guid_response b_found guid)
       (RESP_GET_MAPPING_GUID b_found guid)"
  "coded f exmdb_ext_pull_get_mapping_replid_response
       (exmdb_ext_push_get_mapping_replid_response b_found replid)
       (RESP_GET_MAPPING_REPLID b_found replid)"
  "list_ok (2 ^ 16) any_ok f proptags \<Longrightarrow>
     coded f exmdb_ext_pull_get_store_all_proptags_response
       (exmdb_ext_push_get_store_all_proptags_response proptags)
       (RESP_GET_STORE_ALL_PROPTAGS proptags)"
  "props_ok f propvals \<Longrightarrow>
     coded f exmdb_ext_pull_get_store_properties_response
       (exmdb_ext_push_get_store_properties_response propvals)
       (RESP_GET_STORE_PROPERTIES propvals)"
  "list_ok (2 ^ 16) any_ok f problems \<Longrightarrow>
     coded f exmdb_ext_pull_set_store_properties_response
       (exmdb_ext_push_set_store_properties_response problems)
       (RESP_SET_STORE_PROPERTIES problems)"
  "coded f exmdb_ext_pull_check_mailbox_permission_response
       (exmdb_ext_push_check_mailbox_permission_response permission)
       (RESP_CHECK_MAILBOX_PERMISSION permission)"
  "string_ok f str_explicit \<Longrightarrow>
     coded f exmdb_ext_pull_get_folder_by_class_response
       (exmdb_ext_push_get_folder_by_class_response eid str_explicit)
       (RESP_GET_FOLDER_BY_CLASS eid str_explicit)"
  "coded f exmdb_ext_pull_set_folder_by_class_response
       (exmdb_ext_push_set_folder_by_class_response b_result)
       (RESP_SET_FOLDER_BY_CLASS b_result)"
  "rows_ok f table \<Longrightarrow>
     coded f exmdb_ext_pull_get_folder_class_table_response
       (exmdb_ext_push_get_folder_class_table_response table)
       (RESP_GET_FOLDER_CLASS_TABLE table)"
  unfolding store_response_readers store_response_writers
  by (rule coded_alloc coded_bnd coded_last field_rules coded_pointer attachment_parts refl | assumption | simp)+

lemma sent_store_response:
  "store_response_ok f r \<Longrightarrow>
     \<exists>p. (store_response_id r, p) \<in> set store_response_cases \<and>
       sent f p (push_store_response r) r"
  by (cases r) (auto simp: store_response_cases_def call_ids
      intro!: coded_sent [OF coded_ret] coded_store_responses [THEN coded_sent])

subsection \<open>Folders\<close>

primrec folder_response_ok :: "u32 \<Rightarrow> folder_response \<Rightarrow> bool" where
  "folder_response_ok f (RESP_CHECK_FOLDER_ID b_exist) \<longleftrightarrow>
     True"
| "folder_response_ok f (RESP_QUERY_FOLDER_MESSAGES tset) \<longleftrightarrow>
     rows_ok f tset"
| "folder_response_ok f (RESP_CHECK_FOLDER_DELETED b_del) \<longleftrightarrow>
     True"
| "folder_response_ok f (RESP_GET_FOLDER_BY_NAME folder_id) \<longleftrightarrow>
     True"
| "folder_response_ok f (RESP_CHECK_FOLDER_PERMISSION permission) \<longleftrightarrow>
     True"
| "folder_response_ok f (RESP_CREATE_FOLDER_BY_PROPERTIES folder_id) \<longleftrightarrow>
     True"
| "folder_response_ok f (RESP_GET_FOLDER_ALL_PROPTAGS proptags) \<longleftrightarrow>
     list_ok (2 ^ 16) any_ok f proptags"
| "folder_response_ok f (RESP_GET_FOLDER_PROPERTIES propvals) \<longleftrightarrow>
     props_ok f propvals"
| "folder_response_ok f (RESP_SET_FOLDER_PROPERTIES problems) \<longleftrightarrow>
     list_ok (2 ^ 16) any_ok f problems"
| "folder_response_ok f RESP_REMOVE_FOLDER_PROPERTIES \<longleftrightarrow>
     True"
| "folder_response_ok f (RESP_DELETE_FOLDER b_result) \<longleftrightarrow>
     True"
| "folder_response_ok f (RESP_EMPTY_FOLDER b_partial) \<longleftrightarrow>
     True"
| "folder_response_ok f (RESP_CHECK_FOLDER_CYCLE b_cycle) \<longleftrightarrow>
     True"
| "folder_response_ok f (RESP_COPY_FOLDER_INTERNAL b_collid b_partial) \<longleftrightarrow>
     True"
| "folder_response_ok f (RESP_GET_SEARCH_CRITERIA search_status prestriction folder_ids)
       \<longleftrightarrow>
     option_ok restriction_ok f prestriction \<and> list_ok (2 ^ 32) any_ok f folder_ids"
| "folder_response_ok f (RESP_SET_SEARCH_CRITERIA b_result) \<longleftrightarrow>
     True"
| "folder_response_ok f (RESP_MOVECOPY_MESSAGE b_result) \<longleftrightarrow>
     True"
| "folder_response_ok f (RESP_MOVECOPY_MESSAGES b_partial) \<longleftrightarrow>
     True"
| "folder_response_ok f (RESP_MOVECOPY_FOLDER b_exist b_partial) \<longleftrightarrow>
     True"
| "folder_response_ok f (RESP_DELETE_MESSAGES b_partial) \<longleftrightarrow>
     True"
| "folder_response_ok f (RESP_GET_MESSAGE_BRIEF pbrief) \<longleftrightarrow>
     option_ok message_ok f pbrief"
| "folder_response_ok f (RESP_SUM_HIERARCHY count) \<longleftrightarrow>
     True"

lemmas folder_response_readers =
  exmdb_ext_pull_check_folder_id_response_def
  exmdb_ext_pull_query_folder_messages_response_def
  exmdb_ext_pull_check_folder_deleted_response_def
  exmdb_ext_pull_get_folder_by_name_response_def
  exmdb_ext_pull_check_folder_permission_response_def
  exmdb_ext_pull_create_folder_by_properties_response_def
  exmdb_ext_pull_get_folder_all_proptags_response_def
  exmdb_ext_pull_get_folder_properties_response_def
  exmdb_ext_pull_set_folder_properties_response_def
  exmdb_ext_pull_delete_folder_response_def
  exmdb_ext_pull_empty_folder_response_def
  exmdb_ext_pull_check_folder_cycle_response_def
  exmdb_ext_pull_copy_folder_internal_response_def
  exmdb_ext_pull_get_search_criteria_response_def
  exmdb_ext_pull_set_search_criteria_response_def
  exmdb_ext_pull_movecopy_message_response_def
  exmdb_ext_pull_movecopy_messages_response_def
  exmdb_ext_pull_movecopy_folder_response_def
  exmdb_ext_pull_delete_messages_response_def
  exmdb_ext_pull_get_message_brief_response_def
  exmdb_ext_pull_sum_hierarchy_response_def

lemmas folder_response_writers =
  exmdb_ext_push_check_folder_id_response_def
  exmdb_ext_push_query_folder_messages_response_def
  exmdb_ext_push_check_folder_deleted_response_def
  exmdb_ext_push_get_folder_by_name_response_def
  exmdb_ext_push_check_folder_permission_response_def
  exmdb_ext_push_create_folder_by_properties_response_def
  exmdb_ext_push_get_folder_all_proptags_response_def
  exmdb_ext_push_get_folder_properties_response_def
  exmdb_ext_push_set_folder_properties_response_def
  exmdb_ext_push_delete_folder_response_def
  exmdb_ext_push_empty_folder_response_def
  exmdb_ext_push_check_folder_cycle_response_def
  exmdb_ext_push_copy_folder_internal_response_def
  exmdb_ext_push_get_search_criteria_response_def
  exmdb_ext_push_set_search_criteria_response_def
  exmdb_ext_push_movecopy_message_response_def
  exmdb_ext_push_movecopy_messages_response_def
  exmdb_ext_push_movecopy_folder_response_def
  exmdb_ext_push_delete_messages_response_def
  exmdb_ext_push_get_message_brief_response_def
  exmdb_ext_push_sum_hierarchy_response_def

lemma safe_folder_responses [safe_rules]:
  "safe b exmdb_ext_pull_check_folder_id_response"
  "safe b exmdb_ext_pull_query_folder_messages_response"
  "safe b exmdb_ext_pull_check_folder_deleted_response"
  "safe b exmdb_ext_pull_get_folder_by_name_response"
  "safe b exmdb_ext_pull_check_folder_permission_response"
  "safe b exmdb_ext_pull_create_folder_by_properties_response"
  "safe b exmdb_ext_pull_get_folder_all_proptags_response"
  "safe b exmdb_ext_pull_get_folder_properties_response"
  "safe b exmdb_ext_pull_set_folder_properties_response"
  "safe b exmdb_ext_pull_delete_folder_response"
  "safe b exmdb_ext_pull_empty_folder_response"
  "safe b exmdb_ext_pull_check_folder_cycle_response"
  "safe b exmdb_ext_pull_copy_folder_internal_response"
  "safe b exmdb_ext_pull_get_search_criteria_response"
  "safe b exmdb_ext_pull_set_search_criteria_response"
  "safe b exmdb_ext_pull_movecopy_message_response"
  "safe b exmdb_ext_pull_movecopy_messages_response"
  "safe b exmdb_ext_pull_movecopy_folder_response"
  "safe b exmdb_ext_pull_delete_messages_response"
  "safe b (exmdb_ext_pull_get_message_brief_response env)"
  "safe b exmdb_ext_pull_sum_hierarchy_response"
  unfolding folder_response_readers Let_def
  by (intro safe_rules safe_or_quit safe_regardless tidy_scalars tidy_string)+

lemma coded_folder_responses:
  "coded f exmdb_ext_pull_check_folder_id_response
       (exmdb_ext_push_check_folder_id_response b_exist)
       (RESP_CHECK_FOLDER_ID b_exist)"
  "rows_ok f tset \<Longrightarrow>
     coded f exmdb_ext_pull_query_folder_messages_response
       (exmdb_ext_push_query_folder_messages_response tset)
       (RESP_QUERY_FOLDER_MESSAGES tset)"
  "coded f exmdb_ext_pull_check_folder_deleted_response
       (exmdb_ext_push_check_folder_deleted_response b_del)
       (RESP_CHECK_FOLDER_DELETED b_del)"
  "coded f exmdb_ext_pull_get_folder_by_name_response
       (exmdb_ext_push_get_folder_by_name_response folder_id)
       (RESP_GET_FOLDER_BY_NAME folder_id)"
  "coded f exmdb_ext_pull_check_folder_permission_response
       (exmdb_ext_push_check_folder_permission_response permission)
       (RESP_CHECK_FOLDER_PERMISSION permission)"
  "coded f exmdb_ext_pull_create_folder_by_properties_response
       (exmdb_ext_push_create_folder_by_properties_response folder_id)
       (RESP_CREATE_FOLDER_BY_PROPERTIES folder_id)"
  "list_ok (2 ^ 16) any_ok f proptags \<Longrightarrow>
     coded f exmdb_ext_pull_get_folder_all_proptags_response
       (exmdb_ext_push_get_folder_all_proptags_response proptags)
       (RESP_GET_FOLDER_ALL_PROPTAGS proptags)"
  "props_ok f propvals \<Longrightarrow>
     coded f exmdb_ext_pull_get_folder_properties_response
       (exmdb_ext_push_get_folder_properties_response propvals)
       (RESP_GET_FOLDER_PROPERTIES propvals)"
  "list_ok (2 ^ 16) any_ok f problems \<Longrightarrow>
     coded f exmdb_ext_pull_set_folder_properties_response
       (exmdb_ext_push_set_folder_properties_response problems)
       (RESP_SET_FOLDER_PROPERTIES problems)"
  "coded f exmdb_ext_pull_delete_folder_response
       (exmdb_ext_push_delete_folder_response b_result)
       (RESP_DELETE_FOLDER b_result)"
  "coded f exmdb_ext_pull_empty_folder_response
       (exmdb_ext_push_empty_folder_response b_partial)
       (RESP_EMPTY_FOLDER b_partial)"
  "coded f exmdb_ext_pull_check_folder_cycle_response
       (exmdb_ext_push_check_folder_cycle_response b_cycle)
       (RESP_CHECK_FOLDER_CYCLE b_cycle)"
  "coded f exmdb_ext_pull_copy_folder_internal_response
       (exmdb_ext_push_copy_folder_internal_response b_collid b_partial)
       (RESP_COPY_FOLDER_INTERNAL b_collid b_partial)"
  "option_ok restriction_ok f prestriction \<Longrightarrow> list_ok (2 ^ 32) any_ok f folder_ids
       \<Longrightarrow>
     coded f exmdb_ext_pull_get_search_criteria_response
       (exmdb_ext_push_get_search_criteria_response search_status prestriction folder_ids)
       (RESP_GET_SEARCH_CRITERIA search_status prestriction folder_ids)"
  "coded f exmdb_ext_pull_set_search_criteria_response
       (exmdb_ext_push_set_search_criteria_response b_result)
       (RESP_SET_SEARCH_CRITERIA b_result)"
  "coded f exmdb_ext_pull_movecopy_message_response
       (exmdb_ext_push_movecopy_message_response b_result)
       (RESP_MOVECOPY_MESSAGE b_result)"
  "coded f exmdb_ext_pull_movecopy_messages_response
       (exmdb_ext_push_movecopy_messages_response b_partial)
       (RESP_MOVECOPY_MESSAGES b_partial)"
  "coded f exmdb_ext_pull_movecopy_folder_response
       (exmdb_ext_push_movecopy_folder_response b_exist b_partial)
       (RESP_MOVECOPY_FOLDER b_exist b_partial)"
  "coded f exmdb_ext_pull_delete_messages_response
       (exmdb_ext_push_delete_messages_response b_partial)
       (RESP_DELETE_MESSAGES b_partial)"
  "coded f exmdb_ext_pull_sum_hierarchy_response
       (exmdb_ext_push_sum_hierarchy_response count)
       (RESP_SUM_HIERARCHY count)"
  unfolding folder_response_readers folder_response_writers
  by (rule coded_alloc coded_bnd coded_last field_rules coded_pointer attachment_parts refl | assumption | simp)+

lemma coded_get_message_brief:
  "option_ok message_ok f pbrief \<Longrightarrow>
     coded f (exmdb_ext_pull_get_message_brief_response env)
       (exmdb_ext_push_get_message_brief_response pbrief) (RESP_GET_MESSAGE_BRIEF pbrief)"
  unfolding exmdb_ext_pull_get_message_brief_response_def
    exmdb_ext_push_get_message_brief_response_def push_optional_def option_ok_def
  by (cases pbrief) (auto intro!: coded_end [OF coded_regardless_pull [OF coded_uint8]]
      coded_bnd [OF coded_regardless_pull [OF coded_uint8]] coded_last [OF coded_pointer]
      coded_message)

lemma sent_folder_response:
  "folder_response_ok f r \<Longrightarrow>
     \<exists>p. (folder_response_id r, p) \<in> set (folder_response_cases env) \<and>
       sent f p (push_folder_response r) r"
  by (cases r) (auto simp: folder_response_cases_def call_ids
      intro!: coded_sent [OF coded_ret] coded_sent [OF coded_get_message_brief]
        coded_folder_responses [THEN coded_sent])

subsection \<open>Tables\<close>

primrec table_response_ok :: "u32 \<Rightarrow> table_response \<Rightarrow> bool" where
  "table_response_ok f (RESP_LOAD_HIERARCHY_TABLE table_id row_count) \<longleftrightarrow>
     True"
| "table_response_ok f (RESP_SUM_CONTENT count) \<longleftrightarrow>
     True"
| "table_response_ok f (RESP_LOAD_CONTENT_TABLE table_id row_count) \<longleftrightarrow>
     True"
| "table_response_ok f RESP_RELOAD_CONTENT_TABLE \<longleftrightarrow>
     True"
| "table_response_ok f (RESP_LOAD_PERMISSION_TABLE table_id row_count) \<longleftrightarrow>
     True"
| "table_response_ok f (RESP_LOAD_RULE_TABLE table_id row_count) \<longleftrightarrow>
     True"
| "table_response_ok f RESP_UNLOAD_TABLE \<longleftrightarrow>
     True"
| "table_response_ok f (RESP_SUM_TABLE rows) \<longleftrightarrow>
     True"
| "table_response_ok f (RESP_QUERY_TABLE tset) \<longleftrightarrow>
     rows_ok f tset"
| "table_response_ok f (RESP_MATCH_TABLE position propvals) \<longleftrightarrow>
     props_ok f propvals"
| "table_response_ok f (RESP_LOCATE_TABLE position row_type) \<longleftrightarrow>
     True"
| "table_response_ok f (RESP_READ_TABLE_ROW propvals) \<longleftrightarrow>
     props_ok f propvals"
| "table_response_ok f (RESP_MARK_TABLE inst_id inst_num row_type) \<longleftrightarrow>
     True"
| "table_response_ok f (RESP_GET_TABLE_ALL_PROPTAGS proptags) \<longleftrightarrow>
     list_ok (2 ^ 16) any_ok f proptags"
| "table_response_ok f (RESP_EXPAND_TABLE b_found position row_count) \<longleftrightarrow>
     True"
| "table_response_ok f (RESP_COLLAPSE_TABLE b_found position row_count) \<longleftrightarrow>
     True"
| "table_response_ok f (RESP_STORE_TABLE_STATE state_id) \<longleftrightarrow>
     True"
| "table_response_ok f (RESP_RESTORE_TABLE_STATE position) \<longleftrightarrow>
     True"

lemmas table_response_readers =
  exmdb_ext_pull_load_hierarchy_table_response_def
  exmdb_ext_pull_sum_content_response_def
  exmdb_ext_pull_load_content_table_response_def
  exmdb_ext_pull_load_permission_table_response_def
  exmdb_ext_pull_load_rule_table_response_def
  exmdb_ext_pull_sum_table_response_def
  exmdb_ext_pull_query_table_response_def
  exmdb_ext_pull_match_table_response_def
  exmdb_ext_pull_locate_table_response_def
  exmdb_ext_pull_read_table_row_response_def
  exmdb_ext_pull_mark_table_response_def
  exmdb_ext_pull_get_table_all_proptags_response_def
  exmdb_ext_pull_expand_table_response_def
  exmdb_ext_pull_collapse_table_response_def
  exmdb_ext_pull_store_table_state_response_def
  exmdb_ext_pull_restore_table_state_response_def

lemmas table_response_writers =
  exmdb_ext_push_load_hierarchy_table_response_def
  exmdb_ext_push_sum_content_response_def
  exmdb_ext_push_load_content_table_response_def
  exmdb_ext_push_load_permission_table_response_def
  exmdb_ext_push_load_rule_table_response_def
  exmdb_ext_push_sum_table_response_def
  exmdb_ext_push_query_table_response_def
  exmdb_ext_push_match_table_response_def
  exmdb_ext_push_locate_table_response_def
  exmdb_ext_push_read_table_row_response_def
  exmdb_ext_push_mark_table_response_def
  exmdb_ext_push_get_table_all_proptags_response_def
  exmdb_ext_push_expand_table_response_def
  exmdb_ext_push_collapse_table_response_def
  exmdb_ext_push_store_table_state_response_def
  exmdb_ext_push_restore_table_state_response_def

lemma safe_table_responses [safe_rules]:
  "safe b exmdb_ext_pull_load_hierarchy_table_response"
  "safe b exmdb_ext_pull_sum_content_response"
  "safe b exmdb_ext_pull_load_content_table_response"
  "safe b exmdb_ext_pull_load_permission_table_response"
  "safe b exmdb_ext_pull_load_rule_table_response"
  "safe b exmdb_ext_pull_sum_table_response"
  "safe b exmdb_ext_pull_query_table_response"
  "safe b exmdb_ext_pull_match_table_response"
  "safe b exmdb_ext_pull_locate_table_response"
  "safe b exmdb_ext_pull_read_table_row_response"
  "safe b exmdb_ext_pull_mark_table_response"
  "safe b exmdb_ext_pull_get_table_all_proptags_response"
  "safe b exmdb_ext_pull_expand_table_response"
  "safe b exmdb_ext_pull_collapse_table_response"
  "safe b exmdb_ext_pull_store_table_state_response"
  "safe b exmdb_ext_pull_restore_table_state_response"
  unfolding table_response_readers Let_def
  by (intro safe_rules)+

lemma coded_table_responses:
  "coded f exmdb_ext_pull_load_hierarchy_table_response
       (exmdb_ext_push_load_hierarchy_table_response table_id row_count)
       (RESP_LOAD_HIERARCHY_TABLE table_id row_count)"
  "coded f exmdb_ext_pull_sum_content_response
       (exmdb_ext_push_sum_content_response count)
       (RESP_SUM_CONTENT count)"
  "coded f exmdb_ext_pull_load_content_table_response
       (exmdb_ext_push_load_content_table_response table_id row_count)
       (RESP_LOAD_CONTENT_TABLE table_id row_count)"
  "coded f exmdb_ext_pull_load_permission_table_response
       (exmdb_ext_push_load_permission_table_response table_id row_count)
       (RESP_LOAD_PERMISSION_TABLE table_id row_count)"
  "coded f exmdb_ext_pull_load_rule_table_response
       (exmdb_ext_push_load_rule_table_response table_id row_count)
       (RESP_LOAD_RULE_TABLE table_id row_count)"
  "coded f exmdb_ext_pull_sum_table_response
       (exmdb_ext_push_sum_table_response rows)
       (RESP_SUM_TABLE rows)"
  "rows_ok f tset \<Longrightarrow>
     coded f exmdb_ext_pull_query_table_response
       (exmdb_ext_push_query_table_response tset)
       (RESP_QUERY_TABLE tset)"
  "props_ok f propvals \<Longrightarrow>
     coded f exmdb_ext_pull_match_table_response
       (exmdb_ext_push_match_table_response position propvals)
       (RESP_MATCH_TABLE position propvals)"
  "coded f exmdb_ext_pull_locate_table_response
       (exmdb_ext_push_locate_table_response position row_type)
       (RESP_LOCATE_TABLE position row_type)"
  "props_ok f propvals \<Longrightarrow>
     coded f exmdb_ext_pull_read_table_row_response
       (exmdb_ext_push_read_table_row_response propvals)
       (RESP_READ_TABLE_ROW propvals)"
  "coded f exmdb_ext_pull_mark_table_response
       (exmdb_ext_push_mark_table_response inst_id inst_num row_type)
       (RESP_MARK_TABLE inst_id inst_num row_type)"
  "list_ok (2 ^ 16) any_ok f proptags \<Longrightarrow>
     coded f exmdb_ext_pull_get_table_all_proptags_response
       (exmdb_ext_push_get_table_all_proptags_response proptags)
       (RESP_GET_TABLE_ALL_PROPTAGS proptags)"
  "coded f exmdb_ext_pull_expand_table_response
       (exmdb_ext_push_expand_table_response b_found position row_count)
       (RESP_EXPAND_TABLE b_found position row_count)"
  "coded f exmdb_ext_pull_collapse_table_response
       (exmdb_ext_push_collapse_table_response b_found position row_count)
       (RESP_COLLAPSE_TABLE b_found position row_count)"
  "coded f exmdb_ext_pull_store_table_state_response
       (exmdb_ext_push_store_table_state_response state_id)
       (RESP_STORE_TABLE_STATE state_id)"
  "coded f exmdb_ext_pull_restore_table_state_response
       (exmdb_ext_push_restore_table_state_response position)
       (RESP_RESTORE_TABLE_STATE position)"
  unfolding table_response_readers table_response_writers
  by (rule coded_alloc coded_bnd coded_last field_rules coded_pointer attachment_parts refl | assumption | simp)+

lemma sent_table_response:
  "table_response_ok f r \<Longrightarrow>
     \<exists>p. (table_response_id r, p) \<in> set table_response_cases \<and>
       sent f p (push_table_response r) r"
  by (cases r) (auto simp: table_response_cases_def call_ids
      intro!: coded_sent [OF coded_ret] coded_table_responses [THEN coded_sent])

subsection \<open>Message and attachment instances\<close>

primrec instance_response_ok :: "u32 \<Rightarrow> instance_response \<Rightarrow> bool" where
  "instance_response_ok f (RESP_CHECK_MESSAGE b_exist) \<longleftrightarrow>
     True"
| "instance_response_ok f (RESP_CHECK_MESSAGE_DELETED b_del) \<longleftrightarrow>
     True"
| "instance_response_ok f (RESP_LOAD_MESSAGE_INSTANCE instance_id) \<longleftrightarrow>
     True"
| "instance_response_ok f (RESP_LOAD_EMBEDDED_INSTANCE instance_id) \<longleftrightarrow>
     True"
| "instance_response_ok f (RESP_GET_EMBEDED_CN pcn) \<longleftrightarrow>
     True"
| "instance_response_ok f (RESP_RELOAD_MESSAGE_INSTANCE b_result) \<longleftrightarrow>
     True"
| "instance_response_ok f RESP_CLEAR_MESSAGE_INSTANCE \<longleftrightarrow>
     True"
| "instance_response_ok f (RESP_READ_MESSAGE_INSTANCE msgctnt) \<longleftrightarrow>
     message_ok f msgctnt"
| "instance_response_ok f (RESP_WRITE_MESSAGE_INSTANCE proptags problems) \<longleftrightarrow>
     list_ok (2 ^ 16) any_ok f proptags \<and> list_ok (2 ^ 16) any_ok f problems"
| "instance_response_ok f (RESP_LOAD_ATTACHMENT_INSTANCE instance_id) \<longleftrightarrow>
     True"
| "instance_response_ok f (RESP_CREATE_ATTACHMENT_INSTANCE instance_id attachment_num)
       \<longleftrightarrow>
     True"
| "instance_response_ok f (RESP_READ_ATTACHMENT_INSTANCE attctnt) \<longleftrightarrow>
     attachment_ok f attctnt"
| "instance_response_ok f (RESP_WRITE_ATTACHMENT_INSTANCE problems) \<longleftrightarrow>
     list_ok (2 ^ 16) any_ok f problems"
| "instance_response_ok f RESP_DELETE_MESSAGE_INSTANCE_ATTACHMENT \<longleftrightarrow>
     True"
| "instance_response_ok f (RESP_FLUSH_INSTANCE b_result) \<longleftrightarrow>
     True"
| "instance_response_ok f RESP_UNLOAD_INSTANCE \<longleftrightarrow>
     True"
| "instance_response_ok f (RESP_GET_INSTANCE_ALL_PROPTAGS proptags) \<longleftrightarrow>
     list_ok (2 ^ 16) any_ok f proptags"
| "instance_response_ok f (RESP_GET_INSTANCE_PROPERTIES propvals) \<longleftrightarrow>
     props_ok f propvals"
| "instance_response_ok f (RESP_SET_INSTANCE_PROPERTIES problems) \<longleftrightarrow>
     list_ok (2 ^ 16) any_ok f problems"
| "instance_response_ok f (RESP_REMOVE_INSTANCE_PROPERTIES problems) \<longleftrightarrow>
     list_ok (2 ^ 16) any_ok f problems"
| "instance_response_ok f (RESP_CHECK_INSTANCE_CYCLE b_cycle) \<longleftrightarrow>
     True"

lemmas instance_response_readers =
  exmdb_ext_pull_check_message_response_def
  exmdb_ext_pull_check_message_deleted_response_def
  exmdb_ext_pull_load_message_instance_response_def
  exmdb_ext_pull_load_embedded_instance_response_def
  exmdb_ext_pull_get_embeded_cn_response_def
  exmdb_ext_pull_reload_message_instance_response_def
  exmdb_ext_pull_read_message_instance_response_def
  exmdb_ext_pull_write_message_instance_response_def
  exmdb_ext_pull_load_attachment_instance_response_def
  exmdb_ext_pull_create_attachment_instance_response_def
  exmdb_ext_pull_read_attachment_instance_response_def
  exmdb_ext_pull_write_attachment_instance_response_def
  exmdb_ext_pull_flush_instance_response_def
  exmdb_ext_pull_get_instance_all_proptags_response_def
  exmdb_ext_pull_get_instance_properties_response_def
  exmdb_ext_pull_set_instance_properties_response_def
  exmdb_ext_pull_remove_instance_properties_response_def
  exmdb_ext_pull_check_instance_cycle_response_def

lemmas instance_response_writers =
  exmdb_ext_push_check_message_response_def
  exmdb_ext_push_check_message_deleted_response_def
  exmdb_ext_push_load_message_instance_response_def
  exmdb_ext_push_load_embedded_instance_response_def
  exmdb_ext_push_get_embeded_cn_response_def
  exmdb_ext_push_reload_message_instance_response_def
  exmdb_ext_push_read_message_instance_response_def
  exmdb_ext_push_write_message_instance_response_def
  exmdb_ext_push_load_attachment_instance_response_def
  exmdb_ext_push_create_attachment_instance_response_def
  exmdb_ext_push_read_attachment_instance_response_def
  exmdb_ext_push_write_attachment_instance_response_def
  exmdb_ext_push_flush_instance_response_def
  exmdb_ext_push_get_instance_all_proptags_response_def
  exmdb_ext_push_get_instance_properties_response_def
  exmdb_ext_push_set_instance_properties_response_def
  exmdb_ext_push_remove_instance_properties_response_def
  exmdb_ext_push_check_instance_cycle_response_def

lemma safe_instance_responses [safe_rules]:
  "safe b exmdb_ext_pull_check_message_response"
  "safe b exmdb_ext_pull_check_message_deleted_response"
  "safe b exmdb_ext_pull_load_message_instance_response"
  "safe b exmdb_ext_pull_load_embedded_instance_response"
  "safe b exmdb_ext_pull_get_embeded_cn_response"
  "safe b exmdb_ext_pull_reload_message_instance_response"
  "safe b exmdb_ext_pull_read_message_instance_response"
  "safe b exmdb_ext_pull_write_message_instance_response"
  "safe b exmdb_ext_pull_load_attachment_instance_response"
  "safe b exmdb_ext_pull_create_attachment_instance_response"
  "safe b exmdb_ext_pull_read_attachment_instance_response"
  "safe b exmdb_ext_pull_write_attachment_instance_response"
  "safe b exmdb_ext_pull_flush_instance_response"
  "safe b exmdb_ext_pull_get_instance_all_proptags_response"
  "safe b exmdb_ext_pull_get_instance_properties_response"
  "safe b exmdb_ext_pull_set_instance_properties_response"
  "safe b exmdb_ext_pull_remove_instance_properties_response"
  "safe b exmdb_ext_pull_check_instance_cycle_response"
  unfolding instance_response_readers Let_def
  by (intro safe_rules)+

lemma coded_instance_responses:
  "coded f exmdb_ext_pull_check_message_response
       (exmdb_ext_push_check_message_response b_exist)
       (RESP_CHECK_MESSAGE b_exist)"
  "coded f exmdb_ext_pull_check_message_deleted_response
       (exmdb_ext_push_check_message_deleted_response b_del)
       (RESP_CHECK_MESSAGE_DELETED b_del)"
  "coded f exmdb_ext_pull_load_message_instance_response
       (exmdb_ext_push_load_message_instance_response instance_id)
       (RESP_LOAD_MESSAGE_INSTANCE instance_id)"
  "coded f exmdb_ext_pull_load_embedded_instance_response
       (exmdb_ext_push_load_embedded_instance_response instance_id)
       (RESP_LOAD_EMBEDDED_INSTANCE instance_id)"
  "coded f exmdb_ext_pull_get_embeded_cn_response
       (exmdb_ext_push_get_embeded_cn_response pcn)
       (RESP_GET_EMBEDED_CN pcn)"
  "coded f exmdb_ext_pull_reload_message_instance_response
       (exmdb_ext_push_reload_message_instance_response b_result)
       (RESP_RELOAD_MESSAGE_INSTANCE b_result)"
  "message_ok f msgctnt \<Longrightarrow>
     coded f exmdb_ext_pull_read_message_instance_response
       (exmdb_ext_push_read_message_instance_response msgctnt)
       (RESP_READ_MESSAGE_INSTANCE msgctnt)"
  "list_ok (2 ^ 16) any_ok f proptags \<Longrightarrow> list_ok (2 ^ 16) any_ok f problems
       \<Longrightarrow>
     coded f exmdb_ext_pull_write_message_instance_response
       (exmdb_ext_push_write_message_instance_response proptags problems)
       (RESP_WRITE_MESSAGE_INSTANCE proptags problems)"
  "coded f exmdb_ext_pull_load_attachment_instance_response
       (exmdb_ext_push_load_attachment_instance_response instance_id)
       (RESP_LOAD_ATTACHMENT_INSTANCE instance_id)"
  "coded f exmdb_ext_pull_create_attachment_instance_response
       (exmdb_ext_push_create_attachment_instance_response instance_id attachment_num)
       (RESP_CREATE_ATTACHMENT_INSTANCE instance_id attachment_num)"
  "attachment_ok f attctnt \<Longrightarrow>
     coded f exmdb_ext_pull_read_attachment_instance_response
       (exmdb_ext_push_read_attachment_instance_response attctnt)
       (RESP_READ_ATTACHMENT_INSTANCE attctnt)"
  "list_ok (2 ^ 16) any_ok f problems \<Longrightarrow>
     coded f exmdb_ext_pull_write_attachment_instance_response
       (exmdb_ext_push_write_attachment_instance_response problems)
       (RESP_WRITE_ATTACHMENT_INSTANCE problems)"
  "coded f exmdb_ext_pull_flush_instance_response
       (exmdb_ext_push_flush_instance_response b_result)
       (RESP_FLUSH_INSTANCE b_result)"
  "list_ok (2 ^ 16) any_ok f proptags \<Longrightarrow>
     coded f exmdb_ext_pull_get_instance_all_proptags_response
       (exmdb_ext_push_get_instance_all_proptags_response proptags)
       (RESP_GET_INSTANCE_ALL_PROPTAGS proptags)"
  "props_ok f propvals \<Longrightarrow>
     coded f exmdb_ext_pull_get_instance_properties_response
       (exmdb_ext_push_get_instance_properties_response propvals)
       (RESP_GET_INSTANCE_PROPERTIES propvals)"
  "list_ok (2 ^ 16) any_ok f problems \<Longrightarrow>
     coded f exmdb_ext_pull_set_instance_properties_response
       (exmdb_ext_push_set_instance_properties_response problems)
       (RESP_SET_INSTANCE_PROPERTIES problems)"
  "list_ok (2 ^ 16) any_ok f problems \<Longrightarrow>
     coded f exmdb_ext_pull_remove_instance_properties_response
       (exmdb_ext_push_remove_instance_properties_response problems)
       (RESP_REMOVE_INSTANCE_PROPERTIES problems)"
  "coded f exmdb_ext_pull_check_instance_cycle_response
       (exmdb_ext_push_check_instance_cycle_response b_cycle)
       (RESP_CHECK_INSTANCE_CYCLE b_cycle)"
  unfolding instance_response_readers instance_response_writers
  by (rule coded_alloc coded_bnd coded_last field_rules coded_pointer attachment_parts refl | assumption | simp)+

lemma sent_instance_response:
  "instance_response_ok f r \<Longrightarrow>
     \<exists>p. (instance_response_id r, p) \<in> set instance_response_cases \<and>
       sent f p (push_instance_response r) r"
  by (cases r) (auto simp: instance_response_cases_def call_ids
      intro!: coded_sent [OF coded_ret] coded_instance_responses [THEN coded_sent])

subsection \<open>Recipients and attachments of an instance\<close>

primrec content_response_ok :: "u32 \<Rightarrow> content_response \<Rightarrow> bool" where
  "content_response_ok f RESP_EMPTY_MESSAGE_INSTANCE_RCPTS \<longleftrightarrow>
     True"
| "content_response_ok f (RESP_GET_MESSAGE_INSTANCE_RCPTS_NUM num) \<longleftrightarrow>
     True"
| "content_response_ok f (RESP_GET_MESSAGE_INSTANCE_RCPTS_ALL_PROPTAGS proptags) \<longleftrightarrow>
     list_ok (2 ^ 16) any_ok f proptags"
| "content_response_ok f (RESP_GET_MESSAGE_INSTANCE_RCPTS tset) \<longleftrightarrow>
     rows_ok f tset"
| "content_response_ok f RESP_UPDATE_MESSAGE_INSTANCE_RCPTS \<longleftrightarrow>
     True"
| "content_response_ok f (RESP_COPY_INSTANCE_RCPTS b_result) \<longleftrightarrow>
     True"
| "content_response_ok f RESP_EMPTY_MESSAGE_INSTANCE_ATTACHMENTS \<longleftrightarrow>
     True"
| "content_response_ok f (RESP_GET_MESSAGE_INSTANCE_ATTACHMENTS_NUM num) \<longleftrightarrow>
     True"
| "content_response_ok f (RESP_GET_MESSAGE_INSTANCE_ATTACHMENT_TABLE_ALL_PROPTAGS proptags)
       \<longleftrightarrow>
     list_ok (2 ^ 16) any_ok f proptags"
| "content_response_ok f (RESP_QUERY_MESSAGE_INSTANCE_ATTACHMENT_TABLE tset) \<longleftrightarrow>
     rows_ok f tset"
| "content_response_ok f (RESP_COPY_INSTANCE_ATTACHMENTS b_result) \<longleftrightarrow>
     True"
| "content_response_ok f RESP_SET_MESSAGE_INSTANCE_CONFLICT \<longleftrightarrow>
     True"

lemmas content_response_readers =
  exmdb_ext_pull_get_message_instance_rcpts_num_response_def
  exmdb_ext_pull_get_message_instance_rcpts_all_proptags_response_def
  exmdb_ext_pull_get_message_instance_rcpts_response_def
  exmdb_ext_pull_copy_instance_rcpts_response_def
  exmdb_ext_pull_get_message_instance_attachments_num_response_def
  exmdb_ext_pull_get_message_instance_attachment_table_all_proptags_response_def
  exmdb_ext_pull_query_message_instance_attachment_table_response_def
  exmdb_ext_pull_copy_instance_attachments_response_def

lemmas content_response_writers =
  exmdb_ext_push_get_message_instance_rcpts_num_response_def
  exmdb_ext_push_get_message_instance_rcpts_all_proptags_response_def
  exmdb_ext_push_get_message_instance_rcpts_response_def
  exmdb_ext_push_copy_instance_rcpts_response_def
  exmdb_ext_push_get_message_instance_attachments_num_response_def
  exmdb_ext_push_get_message_instance_attachment_table_all_proptags_response_def
  exmdb_ext_push_query_message_instance_attachment_table_response_def
  exmdb_ext_push_copy_instance_attachments_response_def

lemma safe_content_responses [safe_rules]:
  "safe b exmdb_ext_pull_get_message_instance_rcpts_num_response"
  "safe b exmdb_ext_pull_get_message_instance_rcpts_all_proptags_response"
  "safe b exmdb_ext_pull_get_message_instance_rcpts_response"
  "safe b exmdb_ext_pull_copy_instance_rcpts_response"
  "safe b exmdb_ext_pull_get_message_instance_attachments_num_response"
  "safe b exmdb_ext_pull_get_message_instance_attachment_table_all_proptags_response"
  "safe b exmdb_ext_pull_query_message_instance_attachment_table_response"
  "safe b exmdb_ext_pull_copy_instance_attachments_response"
  unfolding content_response_readers Let_def
  by (intro safe_rules)+

lemma coded_content_responses:
  "coded f exmdb_ext_pull_get_message_instance_rcpts_num_response
       (exmdb_ext_push_get_message_instance_rcpts_num_response num)
       (RESP_GET_MESSAGE_INSTANCE_RCPTS_NUM num)"
  "list_ok (2 ^ 16) any_ok f proptags \<Longrightarrow>
     coded f exmdb_ext_pull_get_message_instance_rcpts_all_proptags_response
       (exmdb_ext_push_get_message_instance_rcpts_all_proptags_response proptags)
       (RESP_GET_MESSAGE_INSTANCE_RCPTS_ALL_PROPTAGS proptags)"
  "rows_ok f tset \<Longrightarrow>
     coded f exmdb_ext_pull_get_message_instance_rcpts_response
       (exmdb_ext_push_get_message_instance_rcpts_response tset)
       (RESP_GET_MESSAGE_INSTANCE_RCPTS tset)"
  "coded f exmdb_ext_pull_copy_instance_rcpts_response
       (exmdb_ext_push_copy_instance_rcpts_response b_result)
       (RESP_COPY_INSTANCE_RCPTS b_result)"
  "coded f exmdb_ext_pull_get_message_instance_attachments_num_response
       (exmdb_ext_push_get_message_instance_attachments_num_response num)
       (RESP_GET_MESSAGE_INSTANCE_ATTACHMENTS_NUM num)"
  "list_ok (2 ^ 16) any_ok f proptags \<Longrightarrow>
     coded f exmdb_ext_pull_get_message_instance_attachment_table_all_proptags_response
       (exmdb_ext_push_get_message_instance_attachment_table_all_proptags_response proptags)
       (RESP_GET_MESSAGE_INSTANCE_ATTACHMENT_TABLE_ALL_PROPTAGS proptags)"
  "rows_ok f tset \<Longrightarrow>
     coded f exmdb_ext_pull_query_message_instance_attachment_table_response
       (exmdb_ext_push_query_message_instance_attachment_table_response tset)
       (RESP_QUERY_MESSAGE_INSTANCE_ATTACHMENT_TABLE tset)"
  "coded f exmdb_ext_pull_copy_instance_attachments_response
       (exmdb_ext_push_copy_instance_attachments_response b_result)
       (RESP_COPY_INSTANCE_ATTACHMENTS b_result)"
  unfolding content_response_readers content_response_writers
  by (rule coded_alloc coded_bnd coded_last field_rules coded_pointer attachment_parts refl | assumption | simp)+

lemma sent_content_response:
  "content_response_ok f r \<Longrightarrow>
     \<exists>p. (content_response_id r, p) \<in> set content_response_cases \<and>
       sent f p (push_content_response r) r"
  by (cases r) (auto simp: content_response_cases_def call_ids
      intro!: coded_sent [OF coded_ret] coded_content_responses [THEN coded_sent])

subsection \<open>Messages\<close>

primrec message_response_ok :: "u32 \<Rightarrow> message_response \<Rightarrow> bool" where
  "message_response_ok f (RESP_GET_MESSAGE_RCPTS tset) \<longleftrightarrow>
     rows_ok f tset"
| "message_response_ok f (RESP_GET_MESSAGE_PROPERTIES propvals) \<longleftrightarrow>
     props_ok f propvals"
| "message_response_ok f (RESP_SET_MESSAGE_PROPERTIES problems) \<longleftrightarrow>
     list_ok (2 ^ 16) any_ok f problems"
| "message_response_ok f (RESP_SET_MESSAGE_READ_STATE read_cn) \<longleftrightarrow>
     True"
| "message_response_ok f RESP_REMOVE_MESSAGE_PROPERTIES \<longleftrightarrow>
     True"
| "message_response_ok f (RESP_ALLOCATE_MESSAGE_ID message_id) \<longleftrightarrow>
     True"
| "message_response_ok f (RESP_ALLOCATE_CN cn) \<longleftrightarrow>
     True"
| "message_response_ok f (RESP_GET_MESSAGE_GROUP_ID pgroup_id) \<longleftrightarrow>
     True"
| "message_response_ok f RESP_SET_MESSAGE_GROUP_ID \<longleftrightarrow>
     True"
| "message_response_ok f RESP_SAVE_CHANGE_INDICES \<longleftrightarrow>
     True"
| "message_response_ok f (RESP_GET_CHANGE_INDICES indices ungroup_proptags) \<longleftrightarrow>
     list_ok (2 ^ 16) any_ok f indices \<and> list_ok (2 ^ 16) any_ok f ungroup_proptags"
| "message_response_ok f RESP_MARK_MODIFIED \<longleftrightarrow>
     True"
| "message_response_ok f (RESP_TRY_MARK_SUBMIT b_marked) \<longleftrightarrow>
     True"
| "message_response_ok f RESP_CLEAR_SUBMIT \<longleftrightarrow>
     True"
| "message_response_ok f (RESP_LINK_MESSAGE b_result) \<longleftrightarrow>
     True"
| "message_response_ok f RESP_UNLINK_MESSAGE \<longleftrightarrow>
     True"
| "message_response_ok f RESP_RULE_NEW_MESSAGE \<longleftrightarrow>
     True"
| "message_response_ok f RESP_SET_MESSAGE_TIMER \<longleftrightarrow>
     True"
| "message_response_ok f (RESP_GET_MESSAGE_TIMER ptimer_id) \<longleftrightarrow>
     True"

lemmas message_response_readers =
  exmdb_ext_pull_get_message_rcpts_response_def
  exmdb_ext_pull_get_message_properties_response_def
  exmdb_ext_pull_set_message_properties_response_def
  exmdb_ext_pull_set_message_read_state_response_def
  exmdb_ext_pull_allocate_message_id_response_def
  exmdb_ext_pull_allocate_cn_response_def
  exmdb_ext_pull_get_message_group_id_response_def
  exmdb_ext_pull_get_change_indices_response_def
  exmdb_ext_pull_try_mark_submit_response_def
  exmdb_ext_pull_link_message_response_def
  exmdb_ext_pull_get_message_timer_response_def

lemmas message_response_writers =
  exmdb_ext_push_get_message_rcpts_response_def
  exmdb_ext_push_get_message_properties_response_def
  exmdb_ext_push_set_message_properties_response_def
  exmdb_ext_push_set_message_read_state_response_def
  exmdb_ext_push_allocate_message_id_response_def
  exmdb_ext_push_allocate_cn_response_def
  exmdb_ext_push_get_message_group_id_response_def
  exmdb_ext_push_get_change_indices_response_def
  exmdb_ext_push_try_mark_submit_response_def
  exmdb_ext_push_link_message_response_def
  exmdb_ext_push_get_message_timer_response_def

lemma safe_message_responses [safe_rules]:
  "safe b exmdb_ext_pull_get_message_rcpts_response"
  "safe b exmdb_ext_pull_get_message_properties_response"
  "safe b exmdb_ext_pull_set_message_properties_response"
  "safe b exmdb_ext_pull_set_message_read_state_response"
  "safe b exmdb_ext_pull_allocate_message_id_response"
  "safe b exmdb_ext_pull_allocate_cn_response"
  "safe b exmdb_ext_pull_get_message_group_id_response"
  "safe b exmdb_ext_pull_get_change_indices_response"
  "safe b exmdb_ext_pull_try_mark_submit_response"
  "safe b exmdb_ext_pull_link_message_response"
  "safe b exmdb_ext_pull_get_message_timer_response"
  unfolding message_response_readers Let_def
  by (intro safe_rules)+

lemma coded_message_responses:
  "rows_ok f tset \<Longrightarrow>
     coded f exmdb_ext_pull_get_message_rcpts_response
       (exmdb_ext_push_get_message_rcpts_response tset)
       (RESP_GET_MESSAGE_RCPTS tset)"
  "props_ok f propvals \<Longrightarrow>
     coded f exmdb_ext_pull_get_message_properties_response
       (exmdb_ext_push_get_message_properties_response propvals)
       (RESP_GET_MESSAGE_PROPERTIES propvals)"
  "list_ok (2 ^ 16) any_ok f problems \<Longrightarrow>
     coded f exmdb_ext_pull_set_message_properties_response
       (exmdb_ext_push_set_message_properties_response problems)
       (RESP_SET_MESSAGE_PROPERTIES problems)"
  "coded f exmdb_ext_pull_set_message_read_state_response
       (exmdb_ext_push_set_message_read_state_response read_cn)
       (RESP_SET_MESSAGE_READ_STATE read_cn)"
  "coded f exmdb_ext_pull_allocate_message_id_response
       (exmdb_ext_push_allocate_message_id_response message_id)
       (RESP_ALLOCATE_MESSAGE_ID message_id)"
  "coded f exmdb_ext_pull_allocate_cn_response
       (exmdb_ext_push_allocate_cn_response cn)
       (RESP_ALLOCATE_CN cn)"
  "coded f exmdb_ext_pull_get_message_group_id_response
       (exmdb_ext_push_get_message_group_id_response pgroup_id)
       (RESP_GET_MESSAGE_GROUP_ID pgroup_id)"
  "list_ok (2 ^ 16) any_ok f indices \<Longrightarrow> list_ok (2 ^ 16) any_ok f ungroup_proptags
       \<Longrightarrow>
     coded f exmdb_ext_pull_get_change_indices_response
       (exmdb_ext_push_get_change_indices_response indices ungroup_proptags)
       (RESP_GET_CHANGE_INDICES indices ungroup_proptags)"
  "coded f exmdb_ext_pull_try_mark_submit_response
       (exmdb_ext_push_try_mark_submit_response b_marked)
       (RESP_TRY_MARK_SUBMIT b_marked)"
  "coded f exmdb_ext_pull_link_message_response
       (exmdb_ext_push_link_message_response b_result)
       (RESP_LINK_MESSAGE b_result)"
  "coded f exmdb_ext_pull_get_message_timer_response
       (exmdb_ext_push_get_message_timer_response ptimer_id)
       (RESP_GET_MESSAGE_TIMER ptimer_id)"
  unfolding message_response_readers message_response_writers
  by (rule coded_alloc coded_bnd coded_last field_rules coded_pointer attachment_parts refl | assumption | simp)+

lemma sent_message_response:
  "message_response_ok f r \<Longrightarrow>
     \<exists>p. (message_response_id r, p) \<in> set message_response_cases \<and>
       sent f p (push_message_response r) r"
  by (cases r) (auto simp: message_response_cases_def call_ids
      intro!: coded_sent [OF coded_ret] coded_message_responses [THEN coded_sent])

subsection \<open>Permissions, rules, delivery, synchronization, notification\<close>

primrec service_response_ok :: "u32 \<Rightarrow> service_response \<Rightarrow> bool" where
  "service_response_ok f RESP_EMPTY_FOLDER_PERMISSION \<longleftrightarrow>
     True"
| "service_response_ok f RESP_UPDATE_FOLDER_PERMISSION \<longleftrightarrow>
     True"
| "service_response_ok f RESP_EMPTY_FOLDER_RULE \<longleftrightarrow>
     True"
| "service_response_ok f (RESP_UPDATE_FOLDER_RULE b_exceed) \<longleftrightarrow>
     True"
| "service_response_ok f (RESP_DELIVERY_MESSAGE result) \<longleftrightarrow>
     True"
| "service_response_ok f (RESP_WRITE_MESSAGE b_result) \<longleftrightarrow>
     True"
| "service_response_ok f (RESP_READ_MESSAGE pmsgctnt) \<longleftrightarrow>
     option_ok message_ok f pmsgctnt"
| "service_response_ok f (RESP_GET_CONTENT_SYNC fai_count fai_total normal_count normal_total
       updated_mids chg_mids last_cn given_mids deleted_mids nolonger_mids read_mids unread_mids
       last_readcn) \<longleftrightarrow>
     list_ok (2 ^ 32) any_ok f updated_mids \<and> list_ok (2 ^ 32) any_ok f chg_mids \<and>
       list_ok (2 ^ 32) any_ok f given_mids \<and> list_ok (2 ^ 32) any_ok f deleted_mids \<and>
       list_ok (2 ^ 32) any_ok f nolonger_mids \<and> list_ok (2 ^ 32) any_ok f read_mids \<and>
       list_ok (2 ^ 32) any_ok f unread_mids"
| "service_response_ok f (RESP_GET_HIERARCHY_SYNC fldchgs last_cn given_fids deleted_fids)
       \<longleftrightarrow>
     list_ok (2 ^ 32) props_ok f fldchgs \<and> list_ok (2 ^ 32) any_ok f given_fids \<and>
       list_ok (2 ^ 32) any_ok f deleted_fids"
| "service_response_ok f (RESP_ALLOCATE_IDS begin_eid) \<longleftrightarrow>
     True"
| "service_response_ok f (RESP_SUBSCRIBE_NOTIFICATION sub_id) \<longleftrightarrow>
     True"
| "service_response_ok f RESP_UNSUBSCRIBE_NOTIFICATION \<longleftrightarrow>
     True"
| "service_response_ok f RESP_TRANSPORT_NEW_MAIL \<longleftrightarrow>
     True"
| "service_response_ok f (RESP_CHECK_CONTACT_ADDRESS b_found) \<longleftrightarrow>
     True"
| "service_response_ok f (RESP_GET_PUBLIC_FOLDER_UNREAD_COUNT count) \<longleftrightarrow>
     True"
| "service_response_ok f RESP_UNLOAD_STORE \<longleftrightarrow>
     True"

lemmas service_response_readers =
  exmdb_ext_pull_update_folder_rule_response_def
  exmdb_ext_pull_delivery_message_response_def
  exmdb_ext_pull_write_message_response_def
  exmdb_ext_pull_read_message_response_def
  exmdb_ext_pull_get_content_sync_response_def
  exmdb_ext_pull_get_hierarchy_sync_response_def
  exmdb_ext_pull_allocate_ids_response_def
  exmdb_ext_pull_subscribe_notification_response_def
  exmdb_ext_pull_check_contact_address_response_def
  exmdb_ext_pull_get_public_folder_unread_count_response_def

lemmas service_response_writers =
  exmdb_ext_push_update_folder_rule_response_def
  exmdb_ext_push_delivery_message_response_def
  exmdb_ext_push_write_message_response_def
  exmdb_ext_push_read_message_response_def
  exmdb_ext_push_get_content_sync_response_def
  exmdb_ext_push_get_hierarchy_sync_response_def
  exmdb_ext_push_allocate_ids_response_def
  exmdb_ext_push_subscribe_notification_response_def
  exmdb_ext_push_check_contact_address_response_def
  exmdb_ext_push_get_public_folder_unread_count_response_def

lemma safe_service_responses [safe_rules]:
  "safe b exmdb_ext_pull_update_folder_rule_response"
  "safe b exmdb_ext_pull_delivery_message_response"
  "safe b exmdb_ext_pull_write_message_response"
  "safe b exmdb_ext_pull_read_message_response"
  "safe b exmdb_ext_pull_get_content_sync_response"
  "safe b exmdb_ext_pull_get_hierarchy_sync_response"
  "safe b exmdb_ext_pull_allocate_ids_response"
  "safe b exmdb_ext_pull_subscribe_notification_response"
  "safe b exmdb_ext_pull_check_contact_address_response"
  "safe b exmdb_ext_pull_get_public_folder_unread_count_response"
  unfolding service_response_readers Let_def
  by (intro safe_rules)+

lemma coded_service_responses:
  "coded f exmdb_ext_pull_update_folder_rule_response
       (exmdb_ext_push_update_folder_rule_response b_exceed)
       (RESP_UPDATE_FOLDER_RULE b_exceed)"
  "coded f exmdb_ext_pull_delivery_message_response
       (exmdb_ext_push_delivery_message_response result)
       (RESP_DELIVERY_MESSAGE result)"
  "coded f exmdb_ext_pull_write_message_response
       (exmdb_ext_push_write_message_response b_result)
       (RESP_WRITE_MESSAGE b_result)"
  "option_ok message_ok f pmsgctnt \<Longrightarrow>
     coded f exmdb_ext_pull_read_message_response
       (exmdb_ext_push_read_message_response pmsgctnt)
       (RESP_READ_MESSAGE pmsgctnt)"
  "list_ok (2 ^ 32) any_ok f updated_mids \<Longrightarrow> list_ok (2 ^ 32) any_ok f chg_mids
       \<Longrightarrow> list_ok (2 ^ 32) any_ok f given_mids \<Longrightarrow> list_ok (2 ^ 32)
       any_ok f deleted_mids \<Longrightarrow> list_ok (2 ^ 32) any_ok f nolonger_mids
       \<Longrightarrow> list_ok (2 ^ 32) any_ok f read_mids \<Longrightarrow> list_ok (2 ^ 32)
       any_ok f unread_mids \<Longrightarrow>
     coded f exmdb_ext_pull_get_content_sync_response
       (exmdb_ext_push_get_content_sync_response fai_count fai_total normal_count normal_total
       updated_mids chg_mids last_cn given_mids deleted_mids nolonger_mids read_mids unread_mids
       last_readcn)
       (RESP_GET_CONTENT_SYNC fai_count fai_total normal_count normal_total updated_mids chg_mids
       last_cn given_mids deleted_mids nolonger_mids read_mids unread_mids last_readcn)"
  "list_ok (2 ^ 32) props_ok f fldchgs \<Longrightarrow> list_ok (2 ^ 32) any_ok f given_fids
       \<Longrightarrow> list_ok (2 ^ 32) any_ok f deleted_fids \<Longrightarrow>
     coded f exmdb_ext_pull_get_hierarchy_sync_response
       (exmdb_ext_push_get_hierarchy_sync_response fldchgs last_cn given_fids deleted_fids)
       (RESP_GET_HIERARCHY_SYNC fldchgs last_cn given_fids deleted_fids)"
  "coded f exmdb_ext_pull_allocate_ids_response
       (exmdb_ext_push_allocate_ids_response begin_eid)
       (RESP_ALLOCATE_IDS begin_eid)"
  "coded f exmdb_ext_pull_subscribe_notification_response
       (exmdb_ext_push_subscribe_notification_response sub_id)
       (RESP_SUBSCRIBE_NOTIFICATION sub_id)"
  "coded f exmdb_ext_pull_check_contact_address_response
       (exmdb_ext_push_check_contact_address_response b_found)
       (RESP_CHECK_CONTACT_ADDRESS b_found)"
  "coded f exmdb_ext_pull_get_public_folder_unread_count_response
       (exmdb_ext_push_get_public_folder_unread_count_response count)
       (RESP_GET_PUBLIC_FOLDER_UNREAD_COUNT count)"
  unfolding service_response_readers service_response_writers
  by (rule coded_alloc coded_bnd coded_last field_rules coded_pointer attachment_parts refl | assumption | simp)+

lemma sent_service_response:
  "service_response_ok f r \<Longrightarrow>
     \<exists>p. (service_response_id r, p) \<in> set service_response_cases \<and>
       sent f p (push_service_response r) r"
  by (cases r) (auto simp: service_response_cases_def call_ids
      intro!: coded_sent [OF coded_ret] coded_service_responses [THEN coded_sent])

end
