(* ===== verification/Exmdb_Notify.thy ===== *)
theory Exmdb_Notify
  imports Exmdb_Types
begin

text \<open>
  Notifications of the store: \<open>exmdb_ext_pull_db_notify\<close> and
       \<open>exmdb_ext_push_db_notify\<close> of
  \<open>exmdb_ext.c\<close>, one definition for each case of their switches.

  The type of a notification says which structure \<open>pdata\<close> points to; here the
       constructor
  carries the structure and determines the type.
\<close>

subsection \<open>Data\<close>

definition DB_NOTIFY_TYPE_NEW_MAIL :: u8 where "DB_NOTIFY_TYPE_NEW_MAIL = 0x01"
definition DB_NOTIFY_TYPE_FOLDER_CREATED :: u8 where "DB_NOTIFY_TYPE_FOLDER_CREATED = 0x02"
definition DB_NOTIFY_TYPE_MESSAGE_CREATED :: u8 where "DB_NOTIFY_TYPE_MESSAGE_CREATED = 0x03"
definition DB_NOTIFY_TYPE_LINK_CREATED :: u8 where "DB_NOTIFY_TYPE_LINK_CREATED = 0x04"
definition DB_NOTIFY_TYPE_FOLDER_DELETED :: u8 where "DB_NOTIFY_TYPE_FOLDER_DELETED = 0x05"
definition DB_NOTIFY_TYPE_MESSAGE_DELETED :: u8 where "DB_NOTIFY_TYPE_MESSAGE_DELETED = 0x06"
definition DB_NOTIFY_TYPE_LINK_DELETED :: u8 where "DB_NOTIFY_TYPE_LINK_DELETED = 0x07"
definition DB_NOTIFY_TYPE_FOLDER_MODIFIED :: u8 where "DB_NOTIFY_TYPE_FOLDER_MODIFIED = 0x08"
definition DB_NOTIFY_TYPE_MESSAGE_MODIFIED :: u8 where "DB_NOTIFY_TYPE_MESSAGE_MODIFIED = 0x09"
definition DB_NOTIFY_TYPE_FOLDER_MOVED :: u8 where "DB_NOTIFY_TYPE_FOLDER_MOVED = 0x0a"
definition DB_NOTIFY_TYPE_MESSAGE_MOVED :: u8 where "DB_NOTIFY_TYPE_MESSAGE_MOVED = 0x0b"
definition DB_NOTIFY_TYPE_FOLDER_COPIED :: u8 where "DB_NOTIFY_TYPE_FOLDER_COPIED = 0x0c"
definition DB_NOTIFY_TYPE_MESSAGE_COPIED :: u8 where "DB_NOTIFY_TYPE_MESSAGE_COPIED = 0x0d"
definition DB_NOTIFY_TYPE_SEARCH_COMPLETED :: u8 where "DB_NOTIFY_TYPE_SEARCH_COMPLETED = 0x0e"
definition DB_NOTIFY_TYPE_HIERARCHY_TABLE_CHANGED :: u8 where
       "DB_NOTIFY_TYPE_HIERARCHY_TABLE_CHANGED = 0x0f"
definition DB_NOTIFY_TYPE_CONTENT_TABLE_CHANGED :: u8 where "DB_NOTIFY_TYPE_CONTENT_TABLE_CHANGED
       = 0x10"
definition DB_NOTIFY_TYPE_HIERARCHY_TABLE_ROW_ADDED :: u8 where
       "DB_NOTIFY_TYPE_HIERARCHY_TABLE_ROW_ADDED = 0x12"
definition DB_NOTIFY_TYPE_CONTENT_TABLE_ROW_ADDED :: u8 where
       "DB_NOTIFY_TYPE_CONTENT_TABLE_ROW_ADDED = 0x13"
definition DB_NOTIFY_TYPE_HIERARCHY_TABLE_ROW_DELETED :: u8 where
       "DB_NOTIFY_TYPE_HIERARCHY_TABLE_ROW_DELETED = 0x15"
definition DB_NOTIFY_TYPE_CONTENT_TABLE_ROW_DELETED :: u8 where
       "DB_NOTIFY_TYPE_CONTENT_TABLE_ROW_DELETED = 0x16"
definition DB_NOTIFY_TYPE_HIERARCHY_TABLE_ROW_MODIFIED :: u8 where
       "DB_NOTIFY_TYPE_HIERARCHY_TABLE_ROW_MODIFIED = 0x18"
definition DB_NOTIFY_TYPE_CONTENT_TABLE_ROW_MODIFIED :: u8 where
       "DB_NOTIFY_TYPE_CONTENT_TABLE_ROW_MODIFIED = 0x19"

lemmas notify_types =
  DB_NOTIFY_TYPE_NEW_MAIL_def DB_NOTIFY_TYPE_FOLDER_CREATED_def
  DB_NOTIFY_TYPE_MESSAGE_CREATED_def DB_NOTIFY_TYPE_LINK_CREATED_def
  DB_NOTIFY_TYPE_FOLDER_DELETED_def DB_NOTIFY_TYPE_MESSAGE_DELETED_def
  DB_NOTIFY_TYPE_LINK_DELETED_def DB_NOTIFY_TYPE_FOLDER_MODIFIED_def
  DB_NOTIFY_TYPE_MESSAGE_MODIFIED_def DB_NOTIFY_TYPE_FOLDER_MOVED_def
  DB_NOTIFY_TYPE_MESSAGE_MOVED_def DB_NOTIFY_TYPE_FOLDER_COPIED_def
  DB_NOTIFY_TYPE_MESSAGE_COPIED_def DB_NOTIFY_TYPE_SEARCH_COMPLETED_def
  DB_NOTIFY_TYPE_HIERARCHY_TABLE_CHANGED_def DB_NOTIFY_TYPE_CONTENT_TABLE_CHANGED_def
  DB_NOTIFY_TYPE_HIERARCHY_TABLE_ROW_ADDED_def DB_NOTIFY_TYPE_CONTENT_TABLE_ROW_ADDED_def
  DB_NOTIFY_TYPE_HIERARCHY_TABLE_ROW_DELETED_def DB_NOTIFY_TYPE_CONTENT_TABLE_ROW_DELETED_def
  DB_NOTIFY_TYPE_HIERARCHY_TABLE_ROW_MODIFIED_def DB_NOTIFY_TYPE_CONTENT_TABLE_ROW_MODIFIED_def

datatype (plugins only: code) db_notify =
    NOTIFY_NEW_MAIL u64 u64 u32 bytes
  | NOTIFY_FOLDER_CREATED u64 u64 "u32 list"
  | NOTIFY_MESSAGE_CREATED u64 u64 "u32 list"
  | NOTIFY_LINK_CREATED u64 u64 u64 "u32 list"
  | NOTIFY_FOLDER_DELETED u64 u64
  | NOTIFY_MESSAGE_DELETED u64 u64
  | NOTIFY_LINK_DELETED u64 u64 u64
  | NOTIFY_FOLDER_MODIFIED u64 "u32 option" "u32 option" "u32 list"
  | NOTIFY_MESSAGE_MODIFIED u64 u64 "u32 list"
  | NOTIFY_FOLDER_MOVED u64 u64 u64 u64
  | NOTIFY_FOLDER_COPIED u64 u64 u64 u64
  | NOTIFY_MESSAGE_MOVED u64 u64 u64 u64
  | NOTIFY_MESSAGE_COPIED u64 u64 u64 u64
  | NOTIFY_SEARCH_COMPLETED u64
  | NOTIFY_HIERARCHY_TABLE_CHANGED
  | NOTIFY_CONTENT_TABLE_CHANGED
  | NOTIFY_HIERARCHY_TABLE_ROW_ADDED u64 u64
  | NOTIFY_CONTENT_TABLE_ROW_ADDED u64 u64 u64 u64 u64 u64
  | NOTIFY_HIERARCHY_TABLE_ROW_DELETED u64
  | NOTIFY_CONTENT_TABLE_ROW_DELETED u64 u64 u64
  | NOTIFY_HIERARCHY_TABLE_ROW_MODIFIED u64 u64
  | NOTIFY_CONTENT_TABLE_ROW_MODIFIED u64 u64 u64 u64 u64 u64

primrec db_notify_type :: "db_notify \<Rightarrow> u8" where
  "db_notify_type (NOTIFY_NEW_MAIL folder_id message_id message_flags pmessage_class) =
       DB_NOTIFY_TYPE_NEW_MAIL"
| "db_notify_type (NOTIFY_FOLDER_CREATED folder_id parent_id proptags) =
       DB_NOTIFY_TYPE_FOLDER_CREATED"
| "db_notify_type (NOTIFY_MESSAGE_CREATED folder_id message_id proptags) =
       DB_NOTIFY_TYPE_MESSAGE_CREATED"
| "db_notify_type (NOTIFY_LINK_CREATED folder_id message_id parent_id proptags) =
       DB_NOTIFY_TYPE_LINK_CREATED"
| "db_notify_type (NOTIFY_FOLDER_DELETED folder_id parent_id) = DB_NOTIFY_TYPE_FOLDER_DELETED"
| "db_notify_type (NOTIFY_MESSAGE_DELETED folder_id message_id) = DB_NOTIFY_TYPE_MESSAGE_DELETED"
| "db_notify_type (NOTIFY_LINK_DELETED folder_id message_id parent_id) =
       DB_NOTIFY_TYPE_LINK_DELETED"
| "db_notify_type (NOTIFY_FOLDER_MODIFIED folder_id ptotal punread proptags) =
       DB_NOTIFY_TYPE_FOLDER_MODIFIED"
| "db_notify_type (NOTIFY_MESSAGE_MODIFIED folder_id message_id proptags) =
       DB_NOTIFY_TYPE_MESSAGE_MODIFIED"
| "db_notify_type (NOTIFY_FOLDER_MOVED folder_id parent_id old_folder_id old_parent_id) =
       DB_NOTIFY_TYPE_FOLDER_MOVED"
| "db_notify_type (NOTIFY_FOLDER_COPIED folder_id parent_id old_folder_id old_parent_id) =
       DB_NOTIFY_TYPE_FOLDER_COPIED"
| "db_notify_type (NOTIFY_MESSAGE_MOVED folder_id message_id old_folder_id old_message_id) =
       DB_NOTIFY_TYPE_MESSAGE_MOVED"
| "db_notify_type (NOTIFY_MESSAGE_COPIED folder_id message_id old_folder_id old_message_id) =
       DB_NOTIFY_TYPE_MESSAGE_COPIED"
| "db_notify_type (NOTIFY_SEARCH_COMPLETED folder_id) = DB_NOTIFY_TYPE_SEARCH_COMPLETED"
| "db_notify_type NOTIFY_HIERARCHY_TABLE_CHANGED = DB_NOTIFY_TYPE_HIERARCHY_TABLE_CHANGED"
| "db_notify_type NOTIFY_CONTENT_TABLE_CHANGED = DB_NOTIFY_TYPE_CONTENT_TABLE_CHANGED"
| "db_notify_type (NOTIFY_HIERARCHY_TABLE_ROW_ADDED row_folder_id after_folder_id) =
       DB_NOTIFY_TYPE_HIERARCHY_TABLE_ROW_ADDED"
| "db_notify_type (NOTIFY_CONTENT_TABLE_ROW_ADDED row_folder_id row_message_id row_instance
       after_folder_id after_row_id after_instance) = DB_NOTIFY_TYPE_CONTENT_TABLE_ROW_ADDED"
| "db_notify_type (NOTIFY_HIERARCHY_TABLE_ROW_DELETED row_folder_id) =
       DB_NOTIFY_TYPE_HIERARCHY_TABLE_ROW_DELETED"
| "db_notify_type (NOTIFY_CONTENT_TABLE_ROW_DELETED row_folder_id row_message_id row_instance) =
       DB_NOTIFY_TYPE_CONTENT_TABLE_ROW_DELETED"
| "db_notify_type (NOTIFY_HIERARCHY_TABLE_ROW_MODIFIED row_folder_id after_folder_id) =
       DB_NOTIFY_TYPE_HIERARCHY_TABLE_ROW_MODIFIED"
| "db_notify_type (NOTIFY_CONTENT_TABLE_ROW_MODIFIED row_folder_id row_message_id row_instance
       after_folder_id after_row_id after_instance) = DB_NOTIFY_TYPE_CONTENT_TABLE_ROW_MODIFIED"

datatype db_notify_datagram =
  DB_NOTIFY_DATAGRAM (nd_dir: bytes) (nd_b_table: bool) (nd_id_array: "u32 list")
    (nd_notify: db_notify)

subsection \<open>Reading\<close>

definition pull_notify_new_mail :: "db_notify pull" where
  "pull_notify_new_mail =
     bnd (pull_alloc 32) (\<lambda>_.
     bnd ext_buffer_pull_uint64 (\<lambda>folder_id.
     bnd ext_buffer_pull_uint64 (\<lambda>message_id.
     bnd ext_buffer_pull_uint32 (\<lambda>message_flags.
     bnd ext_buffer_pull_string (\<lambda>pmessage_class.
     ret (NOTIFY_NEW_MAIL folder_id message_id message_flags pmessage_class))))))"

definition pull_notify_folder_created :: "db_notify pull" where
  "pull_notify_folder_created =
     bnd (pull_alloc 32) (\<lambda>_.
     bnd ext_buffer_pull_uint64 (\<lambda>folder_id.
     bnd ext_buffer_pull_uint64 (\<lambda>parent_id.
     bnd ext_buffer_pull_proptag_array (\<lambda>proptags.
     ret (NOTIFY_FOLDER_CREATED folder_id parent_id proptags)))))"

definition pull_notify_message_created :: "db_notify pull" where
  "pull_notify_message_created =
     bnd (pull_alloc 32) (\<lambda>_.
     bnd ext_buffer_pull_uint64 (\<lambda>folder_id.
     bnd ext_buffer_pull_uint64 (\<lambda>message_id.
     bnd ext_buffer_pull_proptag_array (\<lambda>proptags.
     ret (NOTIFY_MESSAGE_CREATED folder_id message_id proptags)))))"

definition pull_notify_link_created :: "db_notify pull" where
  "pull_notify_link_created =
     bnd (pull_alloc 40) (\<lambda>_.
     bnd ext_buffer_pull_uint64 (\<lambda>folder_id.
     bnd ext_buffer_pull_uint64 (\<lambda>message_id.
     bnd ext_buffer_pull_uint64 (\<lambda>parent_id.
     bnd ext_buffer_pull_proptag_array (\<lambda>proptags.
     ret (NOTIFY_LINK_CREATED folder_id message_id parent_id proptags))))))"

definition pull_notify_folder_deleted :: "db_notify pull" where
  "pull_notify_folder_deleted =
     bnd (pull_alloc 16) (\<lambda>_.
     bnd ext_buffer_pull_uint64 (\<lambda>folder_id.
     bnd ext_buffer_pull_uint64 (\<lambda>parent_id.
     ret (NOTIFY_FOLDER_DELETED folder_id parent_id))))"

definition pull_notify_message_deleted :: "db_notify pull" where
  "pull_notify_message_deleted =
     bnd (pull_alloc 16) (\<lambda>_.
     bnd ext_buffer_pull_uint64 (\<lambda>folder_id.
     bnd ext_buffer_pull_uint64 (\<lambda>message_id.
     ret (NOTIFY_MESSAGE_DELETED folder_id message_id))))"

definition pull_notify_link_deleted :: "db_notify pull" where
  "pull_notify_link_deleted =
     bnd (pull_alloc 24) (\<lambda>_.
     bnd ext_buffer_pull_uint64 (\<lambda>folder_id.
     bnd ext_buffer_pull_uint64 (\<lambda>message_id.
     bnd ext_buffer_pull_uint64 (\<lambda>parent_id.
     ret (NOTIFY_LINK_DELETED folder_id message_id parent_id)))))"

definition pull_notify_folder_modified :: "db_notify pull" where
  "pull_notify_folder_modified =
     bnd (pull_alloc 40) (\<lambda>_.
     bnd ext_buffer_pull_uint64 (\<lambda>folder_id.
     bnd (pull_optional (pull_pointer 4 ext_buffer_pull_uint32)) (\<lambda>ptotal.
     bnd (pull_optional (pull_pointer 4 ext_buffer_pull_uint32)) (\<lambda>punread.
     bnd ext_buffer_pull_proptag_array (\<lambda>proptags.
     ret (NOTIFY_FOLDER_MODIFIED folder_id ptotal punread proptags))))))"

definition pull_notify_message_modified :: "db_notify pull" where
  "pull_notify_message_modified =
     bnd (pull_alloc 32) (\<lambda>_.
     bnd ext_buffer_pull_uint64 (\<lambda>folder_id.
     bnd ext_buffer_pull_uint64 (\<lambda>message_id.
     bnd ext_buffer_pull_proptag_array (\<lambda>proptags.
     ret (NOTIFY_MESSAGE_MODIFIED folder_id message_id proptags)))))"

definition pull_notify_folder_mvcp ::
    "(u64 \<Rightarrow> u64 \<Rightarrow> u64 \<Rightarrow> u64 \<Rightarrow>
       db_notify) \<Rightarrow> db_notify pull" where
  "pull_notify_folder_mvcp c =
     bnd (pull_alloc 32) (\<lambda>_.
     bnd ext_buffer_pull_uint64 (\<lambda>folder_id.
     bnd ext_buffer_pull_uint64 (\<lambda>parent_id.
     bnd ext_buffer_pull_uint64 (\<lambda>old_folder_id.
     bnd ext_buffer_pull_uint64 (\<lambda>old_parent_id.
     ret (c folder_id parent_id old_folder_id old_parent_id))))))"

definition pull_notify_message_mvcp ::
    "(u64 \<Rightarrow> u64 \<Rightarrow> u64 \<Rightarrow> u64 \<Rightarrow>
       db_notify) \<Rightarrow> db_notify pull" where
  "pull_notify_message_mvcp c =
     bnd (pull_alloc 32) (\<lambda>_.
     bnd ext_buffer_pull_uint64 (\<lambda>folder_id.
     bnd ext_buffer_pull_uint64 (\<lambda>message_id.
     bnd ext_buffer_pull_uint64 (\<lambda>old_folder_id.
     bnd ext_buffer_pull_uint64 (\<lambda>old_message_id.
     ret (c folder_id message_id old_folder_id old_message_id))))))"

definition pull_notify_search_completed :: "db_notify pull" where
  "pull_notify_search_completed =
     bnd (pull_alloc 8) (\<lambda>_.
     bnd ext_buffer_pull_uint64 (\<lambda>folder_id.
     ret (NOTIFY_SEARCH_COMPLETED folder_id)))"

definition pull_notify_hierarchy_table_row_added :: "db_notify pull" where
  "pull_notify_hierarchy_table_row_added =
     bnd (pull_alloc 16) (\<lambda>_.
     bnd ext_buffer_pull_uint64 (\<lambda>row_folder_id.
     bnd ext_buffer_pull_uint64 (\<lambda>after_folder_id.
     ret (NOTIFY_HIERARCHY_TABLE_ROW_ADDED row_folder_id after_folder_id))))"

definition pull_notify_content_table_row_added :: "db_notify pull" where
  "pull_notify_content_table_row_added =
     bnd (pull_alloc 48) (\<lambda>_.
     bnd ext_buffer_pull_uint64 (\<lambda>row_folder_id.
     bnd ext_buffer_pull_uint64 (\<lambda>row_message_id.
     bnd ext_buffer_pull_uint64 (\<lambda>row_instance.
     bnd ext_buffer_pull_uint64 (\<lambda>after_folder_id.
     bnd ext_buffer_pull_uint64 (\<lambda>after_row_id.
     bnd ext_buffer_pull_uint64 (\<lambda>after_instance.
     ret (NOTIFY_CONTENT_TABLE_ROW_ADDED row_folder_id row_message_id row_instance after_folder_id
       after_row_id after_instance))))))))"

definition pull_notify_hierarchy_table_row_deleted :: "db_notify pull" where
  "pull_notify_hierarchy_table_row_deleted =
     bnd (pull_alloc 8) (\<lambda>_.
     bnd ext_buffer_pull_uint64 (\<lambda>row_folder_id.
     ret (NOTIFY_HIERARCHY_TABLE_ROW_DELETED row_folder_id)))"

definition pull_notify_content_table_row_deleted :: "db_notify pull" where
  "pull_notify_content_table_row_deleted =
     bnd (pull_alloc 24) (\<lambda>_.
     bnd ext_buffer_pull_uint64 (\<lambda>row_folder_id.
     bnd ext_buffer_pull_uint64 (\<lambda>row_message_id.
     bnd ext_buffer_pull_uint64 (\<lambda>row_instance.
     ret (NOTIFY_CONTENT_TABLE_ROW_DELETED row_folder_id row_message_id row_instance)))))"

definition pull_notify_hierarchy_table_row_modified :: "db_notify pull" where
  "pull_notify_hierarchy_table_row_modified =
     bnd (pull_alloc 16) (\<lambda>_.
     bnd ext_buffer_pull_uint64 (\<lambda>row_folder_id.
     bnd ext_buffer_pull_uint64 (\<lambda>after_folder_id.
     ret (NOTIFY_HIERARCHY_TABLE_ROW_MODIFIED row_folder_id after_folder_id))))"

definition pull_notify_content_table_row_modified :: "db_notify pull" where
  "pull_notify_content_table_row_modified =
     bnd (pull_alloc 48) (\<lambda>_.
     bnd ext_buffer_pull_uint64 (\<lambda>row_folder_id.
     bnd ext_buffer_pull_uint64 (\<lambda>row_message_id.
     bnd ext_buffer_pull_uint64 (\<lambda>row_instance.
     bnd ext_buffer_pull_uint64 (\<lambda>after_folder_id.
     bnd ext_buffer_pull_uint64 (\<lambda>after_row_id.
     bnd ext_buffer_pull_uint64 (\<lambda>after_instance.
     ret (NOTIFY_CONTENT_TABLE_ROW_MODIFIED row_folder_id row_message_id row_instance
       after_folder_id after_row_id after_instance))))))))"

definition notify_cases :: "(u8 \<times> db_notify pull) list" where
  "notify_cases =
    [(DB_NOTIFY_TYPE_NEW_MAIL, pull_notify_new_mail),
     (DB_NOTIFY_TYPE_FOLDER_CREATED, pull_notify_folder_created),
     (DB_NOTIFY_TYPE_MESSAGE_CREATED, pull_notify_message_created),
     (DB_NOTIFY_TYPE_LINK_CREATED, pull_notify_link_created),
     (DB_NOTIFY_TYPE_FOLDER_DELETED, pull_notify_folder_deleted),
     (DB_NOTIFY_TYPE_MESSAGE_DELETED, pull_notify_message_deleted),
     (DB_NOTIFY_TYPE_LINK_DELETED, pull_notify_link_deleted),
     (DB_NOTIFY_TYPE_FOLDER_MODIFIED, pull_notify_folder_modified),
     (DB_NOTIFY_TYPE_MESSAGE_MODIFIED, pull_notify_message_modified),
     (DB_NOTIFY_TYPE_FOLDER_MOVED, pull_notify_folder_mvcp NOTIFY_FOLDER_MOVED),
     (DB_NOTIFY_TYPE_FOLDER_COPIED, pull_notify_folder_mvcp NOTIFY_FOLDER_COPIED),
     (DB_NOTIFY_TYPE_MESSAGE_MOVED, pull_notify_message_mvcp NOTIFY_MESSAGE_MOVED),
     (DB_NOTIFY_TYPE_MESSAGE_COPIED, pull_notify_message_mvcp NOTIFY_MESSAGE_COPIED),
     (DB_NOTIFY_TYPE_SEARCH_COMPLETED, pull_notify_search_completed),
     (DB_NOTIFY_TYPE_HIERARCHY_TABLE_CHANGED, ret NOTIFY_HIERARCHY_TABLE_CHANGED),
     (DB_NOTIFY_TYPE_CONTENT_TABLE_CHANGED, ret NOTIFY_CONTENT_TABLE_CHANGED),
     (DB_NOTIFY_TYPE_HIERARCHY_TABLE_ROW_ADDED, pull_notify_hierarchy_table_row_added),
     (DB_NOTIFY_TYPE_CONTENT_TABLE_ROW_ADDED, pull_notify_content_table_row_added),
     (DB_NOTIFY_TYPE_HIERARCHY_TABLE_ROW_DELETED, pull_notify_hierarchy_table_row_deleted),
     (DB_NOTIFY_TYPE_CONTENT_TABLE_ROW_DELETED, pull_notify_content_table_row_deleted),
     (DB_NOTIFY_TYPE_HIERARCHY_TABLE_ROW_MODIFIED, pull_notify_hierarchy_table_row_modified),
     (DB_NOTIFY_TYPE_CONTENT_TABLE_ROW_MODIFIED, pull_notify_content_table_row_modified)]"

definition pull_db_notify :: "db_notify_datagram pull" where
  "pull_db_notify =
     bnd ext_buffer_pull_string (\<lambda>dir.
     bnd ext_buffer_pull_bool (\<lambda>b_table.
     bnd ext_buffer_pull_long_array (\<lambda>id_array.
     bnd ext_buffer_pull_uint8 (\<lambda>type.
     bnd (switch notify_cases (fail EXT_ERR_BAD_SWITCH) type) (\<lambda>notify.
     ret (DB_NOTIFY_DATAGRAM dir b_table id_array notify))))))"

subsection \<open>Writing\<close>

definition push_notify_new_mail ::
    "u64 \<Rightarrow> u64 \<Rightarrow> u32 \<Rightarrow> bytes \<Rightarrow> push" where
  "push_notify_new_mail folder_id message_id message_flags pmessage_class =
     seq (ext_buffer_push_uint64 folder_id)
    (seq (ext_buffer_push_uint64 message_id)
    (seq (ext_buffer_push_uint32 message_flags)
         (ext_buffer_push_string pmessage_class)))"

definition push_notify_folder_created ::
    "u64 \<Rightarrow> u64 \<Rightarrow> u32 list \<Rightarrow> push" where
  "push_notify_folder_created folder_id parent_id proptags =
     seq (ext_buffer_push_uint64 folder_id)
    (seq (ext_buffer_push_uint64 parent_id)
         (ext_buffer_push_proptag_array proptags))"

definition push_notify_message_created ::
    "u64 \<Rightarrow> u64 \<Rightarrow> u32 list \<Rightarrow> push" where
  "push_notify_message_created folder_id message_id proptags =
     seq (ext_buffer_push_uint64 folder_id)
    (seq (ext_buffer_push_uint64 message_id)
         (ext_buffer_push_proptag_array proptags))"

definition push_notify_link_created ::
    "u64 \<Rightarrow> u64 \<Rightarrow> u64 \<Rightarrow> u32 list \<Rightarrow> push" where
  "push_notify_link_created folder_id message_id parent_id proptags =
     seq (ext_buffer_push_uint64 folder_id)
    (seq (ext_buffer_push_uint64 message_id)
    (seq (ext_buffer_push_uint64 parent_id)
         (ext_buffer_push_proptag_array proptags)))"

definition push_notify_folder_deleted :: "u64 \<Rightarrow> u64 \<Rightarrow> push" where
  "push_notify_folder_deleted folder_id parent_id =
     seq (ext_buffer_push_uint64 folder_id)
         (ext_buffer_push_uint64 parent_id)"

definition push_notify_message_deleted :: "u64 \<Rightarrow> u64 \<Rightarrow> push" where
  "push_notify_message_deleted folder_id message_id =
     seq (ext_buffer_push_uint64 folder_id)
         (ext_buffer_push_uint64 message_id)"

definition push_notify_link_deleted ::
    "u64 \<Rightarrow> u64 \<Rightarrow> u64 \<Rightarrow> push" where
  "push_notify_link_deleted folder_id message_id parent_id =
     seq (ext_buffer_push_uint64 folder_id)
    (seq (ext_buffer_push_uint64 message_id)
         (ext_buffer_push_uint64 parent_id))"

definition push_notify_folder_modified ::
    "u64 \<Rightarrow> u32 option \<Rightarrow> u32 option \<Rightarrow> u32 list \<Rightarrow>
       push" where
  "push_notify_folder_modified folder_id ptotal punread proptags =
     seq (ext_buffer_push_uint64 folder_id)
    (seq (push_optional ext_buffer_push_uint32 ptotal)
    (seq (push_optional ext_buffer_push_uint32 punread)
         (ext_buffer_push_proptag_array proptags)))"

definition push_notify_message_modified ::
    "u64 \<Rightarrow> u64 \<Rightarrow> u32 list \<Rightarrow> push" where
  "push_notify_message_modified folder_id message_id proptags =
     seq (ext_buffer_push_uint64 folder_id)
    (seq (ext_buffer_push_uint64 message_id)
         (ext_buffer_push_proptag_array proptags))"

definition push_notify_folder_mvcp ::
    "u64 \<Rightarrow> u64 \<Rightarrow> u64 \<Rightarrow> u64 \<Rightarrow> push" where
  "push_notify_folder_mvcp folder_id parent_id old_folder_id old_parent_id =
     seq (ext_buffer_push_uint64 folder_id)
    (seq (ext_buffer_push_uint64 parent_id)
    (seq (ext_buffer_push_uint64 old_folder_id)
         (ext_buffer_push_uint64 old_parent_id)))"

definition push_notify_message_mvcp ::
    "u64 \<Rightarrow> u64 \<Rightarrow> u64 \<Rightarrow> u64 \<Rightarrow> push" where
  "push_notify_message_mvcp folder_id message_id old_folder_id old_message_id =
     seq (ext_buffer_push_uint64 folder_id)
    (seq (ext_buffer_push_uint64 message_id)
    (seq (ext_buffer_push_uint64 old_folder_id)
         (ext_buffer_push_uint64 old_message_id)))"

definition push_notify_search_completed :: "u64 \<Rightarrow> push" where
  "push_notify_search_completed folder_id =
     ext_buffer_push_uint64 folder_id"

definition push_notify_hierarchy_table_row_added :: "u64 \<Rightarrow> u64 \<Rightarrow> push" where
  "push_notify_hierarchy_table_row_added row_folder_id after_folder_id =
     seq (ext_buffer_push_uint64 row_folder_id)
         (ext_buffer_push_uint64 after_folder_id)"

definition push_notify_content_table_row_added ::
    "u64 \<Rightarrow> u64 \<Rightarrow> u64 \<Rightarrow> u64 \<Rightarrow> u64 \<Rightarrow>
       u64 \<Rightarrow> push" where
  "push_notify_content_table_row_added row_folder_id row_message_id row_instance after_folder_id
       after_row_id after_instance =
     seq (ext_buffer_push_uint64 row_folder_id)
    (seq (ext_buffer_push_uint64 row_message_id)
    (seq (ext_buffer_push_uint64 row_instance)
    (seq (ext_buffer_push_uint64 after_folder_id)
    (seq (ext_buffer_push_uint64 after_row_id)
         (ext_buffer_push_uint64 after_instance)))))"

definition push_notify_hierarchy_table_row_deleted :: "u64 \<Rightarrow> push" where
  "push_notify_hierarchy_table_row_deleted row_folder_id =
     ext_buffer_push_uint64 row_folder_id"

definition push_notify_content_table_row_deleted ::
    "u64 \<Rightarrow> u64 \<Rightarrow> u64 \<Rightarrow> push" where
  "push_notify_content_table_row_deleted row_folder_id row_message_id row_instance =
     seq (ext_buffer_push_uint64 row_folder_id)
    (seq (ext_buffer_push_uint64 row_message_id)
         (ext_buffer_push_uint64 row_instance))"

definition push_notify_hierarchy_table_row_modified ::
    "u64 \<Rightarrow> u64 \<Rightarrow> push" where
  "push_notify_hierarchy_table_row_modified row_folder_id after_folder_id =
     seq (ext_buffer_push_uint64 row_folder_id)
         (ext_buffer_push_uint64 after_folder_id)"

definition push_notify_content_table_row_modified ::
    "u64 \<Rightarrow> u64 \<Rightarrow> u64 \<Rightarrow> u64 \<Rightarrow> u64 \<Rightarrow>
       u64 \<Rightarrow> push" where
  "push_notify_content_table_row_modified row_folder_id row_message_id row_instance
       after_folder_id after_row_id after_instance =
     seq (ext_buffer_push_uint64 row_folder_id)
    (seq (ext_buffer_push_uint64 row_message_id)
    (seq (ext_buffer_push_uint64 row_instance)
    (seq (ext_buffer_push_uint64 after_folder_id)
    (seq (ext_buffer_push_uint64 after_row_id)
         (ext_buffer_push_uint64 after_instance)))))"

primrec push_notify :: "db_notify \<Rightarrow> push" where
  "push_notify (NOTIFY_NEW_MAIL folder_id message_id message_flags pmessage_class) =
     push_notify_new_mail folder_id message_id message_flags pmessage_class"
| "push_notify (NOTIFY_FOLDER_CREATED folder_id parent_id proptags) =
     push_notify_folder_created folder_id parent_id proptags"
| "push_notify (NOTIFY_MESSAGE_CREATED folder_id message_id proptags) =
     push_notify_message_created folder_id message_id proptags"
| "push_notify (NOTIFY_LINK_CREATED folder_id message_id parent_id proptags) =
     push_notify_link_created folder_id message_id parent_id proptags"
| "push_notify (NOTIFY_FOLDER_DELETED folder_id parent_id) =
     push_notify_folder_deleted folder_id parent_id"
| "push_notify (NOTIFY_MESSAGE_DELETED folder_id message_id) =
     push_notify_message_deleted folder_id message_id"
| "push_notify (NOTIFY_LINK_DELETED folder_id message_id parent_id) =
     push_notify_link_deleted folder_id message_id parent_id"
| "push_notify (NOTIFY_FOLDER_MODIFIED folder_id ptotal punread proptags) =
     push_notify_folder_modified folder_id ptotal punread proptags"
| "push_notify (NOTIFY_MESSAGE_MODIFIED folder_id message_id proptags) =
     push_notify_message_modified folder_id message_id proptags"
| "push_notify (NOTIFY_FOLDER_MOVED folder_id parent_id old_folder_id old_parent_id) =
     push_notify_folder_mvcp folder_id parent_id old_folder_id old_parent_id"
| "push_notify (NOTIFY_FOLDER_COPIED folder_id parent_id old_folder_id old_parent_id) =
     push_notify_folder_mvcp folder_id parent_id old_folder_id old_parent_id"
| "push_notify (NOTIFY_MESSAGE_MOVED folder_id message_id old_folder_id old_message_id) =
     push_notify_message_mvcp folder_id message_id old_folder_id old_message_id"
| "push_notify (NOTIFY_MESSAGE_COPIED folder_id message_id old_folder_id old_message_id) =
     push_notify_message_mvcp folder_id message_id old_folder_id old_message_id"
| "push_notify (NOTIFY_SEARCH_COMPLETED folder_id) = push_notify_search_completed folder_id"
| "push_notify NOTIFY_HIERARCHY_TABLE_CHANGED = ret ()"
| "push_notify NOTIFY_CONTENT_TABLE_CHANGED = ret ()"
| "push_notify (NOTIFY_HIERARCHY_TABLE_ROW_ADDED row_folder_id after_folder_id) =
     push_notify_hierarchy_table_row_added row_folder_id after_folder_id"
| "push_notify (NOTIFY_CONTENT_TABLE_ROW_ADDED row_folder_id row_message_id row_instance
       after_folder_id after_row_id after_instance) =
     push_notify_content_table_row_added row_folder_id row_message_id row_instance after_folder_id
       after_row_id after_instance"
| "push_notify (NOTIFY_HIERARCHY_TABLE_ROW_DELETED row_folder_id) =
     push_notify_hierarchy_table_row_deleted row_folder_id"
| "push_notify (NOTIFY_CONTENT_TABLE_ROW_DELETED row_folder_id row_message_id row_instance) =
     push_notify_content_table_row_deleted row_folder_id row_message_id row_instance"
| "push_notify (NOTIFY_HIERARCHY_TABLE_ROW_MODIFIED row_folder_id after_folder_id) =
     push_notify_hierarchy_table_row_modified row_folder_id after_folder_id"
| "push_notify (NOTIFY_CONTENT_TABLE_ROW_MODIFIED row_folder_id row_message_id row_instance
       after_folder_id after_row_id after_instance) =
     push_notify_content_table_row_modified row_folder_id row_message_id row_instance
       after_folder_id after_row_id after_instance"

definition push_db_notify :: "db_notify_datagram \<Rightarrow> push" where
  "push_db_notify n =
     seq (ext_buffer_push_string (nd_dir n))
    (seq (push_BOOL (nd_b_table n))
    (seq (ext_buffer_push_long_array (nd_id_array n))
    (seq (ext_buffer_push_uint8 (db_notify_type (nd_notify n)))
         (push_notify (nd_notify n)))))"

subsection \<open>Safety and round trip\<close>

lemmas notify_readers =
  pull_notify_new_mail_def
  pull_notify_folder_created_def
  pull_notify_message_created_def
  pull_notify_link_created_def
  pull_notify_folder_deleted_def
  pull_notify_message_deleted_def
  pull_notify_link_deleted_def
  pull_notify_folder_modified_def
  pull_notify_message_modified_def
  pull_notify_folder_mvcp_def
  pull_notify_message_mvcp_def
  pull_notify_search_completed_def
  pull_notify_hierarchy_table_row_added_def
  pull_notify_content_table_row_added_def
  pull_notify_hierarchy_table_row_deleted_def
  pull_notify_content_table_row_deleted_def
  pull_notify_hierarchy_table_row_modified_def
  pull_notify_content_table_row_modified_def

lemmas notify_writers =
  push_notify_new_mail_def
  push_notify_folder_created_def
  push_notify_message_created_def
  push_notify_link_created_def
  push_notify_folder_deleted_def
  push_notify_message_deleted_def
  push_notify_link_deleted_def
  push_notify_folder_modified_def
  push_notify_message_modified_def
  push_notify_folder_mvcp_def
  push_notify_message_mvcp_def
  push_notify_search_completed_def
  push_notify_hierarchy_table_row_added_def
  push_notify_content_table_row_added_def
  push_notify_hierarchy_table_row_deleted_def
  push_notify_content_table_row_deleted_def
  push_notify_hierarchy_table_row_modified_def
  push_notify_content_table_row_modified_def

lemma safe_notify_cases [safe_rules]:
  "safe b pull_notify_new_mail"
  "safe b pull_notify_folder_created"
  "safe b pull_notify_message_created"
  "safe b pull_notify_link_created"
  "safe b pull_notify_folder_deleted"
  "safe b pull_notify_message_deleted"
  "safe b pull_notify_link_deleted"
  "safe b pull_notify_folder_modified"
  "safe b pull_notify_message_modified"
  "safe b (pull_notify_folder_mvcp c9)"
  "safe b (pull_notify_message_mvcp c10)"
  "safe b pull_notify_search_completed"
  "safe b pull_notify_hierarchy_table_row_added"
  "safe b pull_notify_content_table_row_added"
  "safe b pull_notify_hierarchy_table_row_deleted"
  "safe b pull_notify_content_table_row_deleted"
  "safe b pull_notify_hierarchy_table_row_modified"
  "safe b pull_notify_content_table_row_modified"
  unfolding notify_readers by (intro safe_rules)+

primrec notify_ok :: "u32 \<Rightarrow> db_notify \<Rightarrow> bool" where
  "notify_ok f (NOTIFY_NEW_MAIL folder_id message_id message_flags pmessage_class)
       \<longleftrightarrow>
     string_ok f pmessage_class"
| "notify_ok f (NOTIFY_FOLDER_CREATED folder_id parent_id proptags) \<longleftrightarrow>
     list_ok (2 ^ 16) any_ok f proptags"
| "notify_ok f (NOTIFY_MESSAGE_CREATED folder_id message_id proptags) \<longleftrightarrow>
     list_ok (2 ^ 16) any_ok f proptags"
| "notify_ok f (NOTIFY_LINK_CREATED folder_id message_id parent_id proptags) \<longleftrightarrow>
     list_ok (2 ^ 16) any_ok f proptags"
| "notify_ok f (NOTIFY_FOLDER_DELETED folder_id parent_id) \<longleftrightarrow>
     True"
| "notify_ok f (NOTIFY_MESSAGE_DELETED folder_id message_id) \<longleftrightarrow>
     True"
| "notify_ok f (NOTIFY_LINK_DELETED folder_id message_id parent_id) \<longleftrightarrow>
     True"
| "notify_ok f (NOTIFY_FOLDER_MODIFIED folder_id ptotal punread proptags) \<longleftrightarrow>
     list_ok (2 ^ 16) any_ok f proptags"
| "notify_ok f (NOTIFY_MESSAGE_MODIFIED folder_id message_id proptags) \<longleftrightarrow>
     list_ok (2 ^ 16) any_ok f proptags"
| "notify_ok f (NOTIFY_FOLDER_MOVED folder_id parent_id old_folder_id old_parent_id)
       \<longleftrightarrow>
     True"
| "notify_ok f (NOTIFY_FOLDER_COPIED folder_id parent_id old_folder_id old_parent_id)
       \<longleftrightarrow>
     True"
| "notify_ok f (NOTIFY_MESSAGE_MOVED folder_id message_id old_folder_id old_message_id)
       \<longleftrightarrow>
     True"
| "notify_ok f (NOTIFY_MESSAGE_COPIED folder_id message_id old_folder_id old_message_id)
       \<longleftrightarrow>
     True"
| "notify_ok f (NOTIFY_SEARCH_COMPLETED folder_id) \<longleftrightarrow>
     True"
| "notify_ok f NOTIFY_HIERARCHY_TABLE_CHANGED \<longleftrightarrow>
     True"
| "notify_ok f NOTIFY_CONTENT_TABLE_CHANGED \<longleftrightarrow>
     True"
| "notify_ok f (NOTIFY_HIERARCHY_TABLE_ROW_ADDED row_folder_id after_folder_id) \<longleftrightarrow>
     True"
| "notify_ok f (NOTIFY_CONTENT_TABLE_ROW_ADDED row_folder_id row_message_id row_instance
       after_folder_id after_row_id after_instance) \<longleftrightarrow>
     True"
| "notify_ok f (NOTIFY_HIERARCHY_TABLE_ROW_DELETED row_folder_id) \<longleftrightarrow>
     True"
| "notify_ok f (NOTIFY_CONTENT_TABLE_ROW_DELETED row_folder_id row_message_id row_instance)
       \<longleftrightarrow>
     True"
| "notify_ok f (NOTIFY_HIERARCHY_TABLE_ROW_MODIFIED row_folder_id after_folder_id)
       \<longleftrightarrow>
     True"
| "notify_ok f (NOTIFY_CONTENT_TABLE_ROW_MODIFIED row_folder_id row_message_id row_instance
       after_folder_id after_row_id after_instance) \<longleftrightarrow>
     True"

lemma coded_notify_cases:
  "string_ok f pmessage_class \<Longrightarrow> coded f pull_notify_new_mail
       (push_notify_new_mail folder_id message_id message_flags pmessage_class)
       (NOTIFY_NEW_MAIL folder_id message_id message_flags pmessage_class)"
  "list_ok (2 ^ 16) any_ok f proptags \<Longrightarrow> coded f pull_notify_folder_created
       (push_notify_folder_created folder_id parent_id proptags)
       (NOTIFY_FOLDER_CREATED folder_id parent_id proptags)"
  "list_ok (2 ^ 16) any_ok f proptags \<Longrightarrow> coded f pull_notify_message_created
       (push_notify_message_created folder_id message_id proptags)
       (NOTIFY_MESSAGE_CREATED folder_id message_id proptags)"
  "list_ok (2 ^ 16) any_ok f proptags \<Longrightarrow> coded f pull_notify_link_created
       (push_notify_link_created folder_id message_id parent_id proptags)
       (NOTIFY_LINK_CREATED folder_id message_id parent_id proptags)"
  "coded f pull_notify_folder_deleted
       (push_notify_folder_deleted folder_id parent_id)
       (NOTIFY_FOLDER_DELETED folder_id parent_id)"
  "coded f pull_notify_message_deleted
       (push_notify_message_deleted folder_id message_id)
       (NOTIFY_MESSAGE_DELETED folder_id message_id)"
  "coded f pull_notify_link_deleted
       (push_notify_link_deleted folder_id message_id parent_id)
       (NOTIFY_LINK_DELETED folder_id message_id parent_id)"
  "list_ok (2 ^ 16) any_ok f proptags \<Longrightarrow> coded f pull_notify_folder_modified
       (push_notify_folder_modified folder_id ptotal punread proptags)
       (NOTIFY_FOLDER_MODIFIED folder_id ptotal punread proptags)"
  "list_ok (2 ^ 16) any_ok f proptags \<Longrightarrow> coded f pull_notify_message_modified
       (push_notify_message_modified folder_id message_id proptags)
       (NOTIFY_MESSAGE_MODIFIED folder_id message_id proptags)"
  "coded f (pull_notify_folder_mvcp c9)
       (push_notify_folder_mvcp folder_id parent_id old_folder_id old_parent_id)
       (c9 folder_id parent_id old_folder_id old_parent_id)"
  "coded f (pull_notify_message_mvcp c10)
       (push_notify_message_mvcp folder_id message_id old_folder_id old_message_id)
       (c10 folder_id message_id old_folder_id old_message_id)"
  "coded f pull_notify_search_completed
       (push_notify_search_completed folder_id)
       (NOTIFY_SEARCH_COMPLETED folder_id)"
  "coded f pull_notify_hierarchy_table_row_added
       (push_notify_hierarchy_table_row_added row_folder_id after_folder_id)
       (NOTIFY_HIERARCHY_TABLE_ROW_ADDED row_folder_id after_folder_id)"
  "coded f pull_notify_content_table_row_added
       (push_notify_content_table_row_added row_folder_id row_message_id row_instance after_folder_id after_row_id after_instance)
       (NOTIFY_CONTENT_TABLE_ROW_ADDED row_folder_id row_message_id row_instance after_folder_id after_row_id after_instance)"
  "coded f pull_notify_hierarchy_table_row_deleted
       (push_notify_hierarchy_table_row_deleted row_folder_id)
       (NOTIFY_HIERARCHY_TABLE_ROW_DELETED row_folder_id)"
  "coded f pull_notify_content_table_row_deleted
       (push_notify_content_table_row_deleted row_folder_id row_message_id row_instance)
       (NOTIFY_CONTENT_TABLE_ROW_DELETED row_folder_id row_message_id row_instance)"
  "coded f pull_notify_hierarchy_table_row_modified
       (push_notify_hierarchy_table_row_modified row_folder_id after_folder_id)
       (NOTIFY_HIERARCHY_TABLE_ROW_MODIFIED row_folder_id after_folder_id)"
  "coded f pull_notify_content_table_row_modified
       (push_notify_content_table_row_modified row_folder_id row_message_id row_instance after_folder_id after_row_id after_instance)
       (NOTIFY_CONTENT_TABLE_ROW_MODIFIED row_folder_id row_message_id row_instance after_folder_id after_row_id after_instance)"
  unfolding notify_readers notify_writers
  by (rule coded_alloc coded_bnd coded_last field_rules refl | assumption)+

lemma coded_notify:
  "notify_ok f n \<Longrightarrow>
     \<exists>p. (db_notify_type n, p) \<in> set notify_cases \<and> coded f p (push_notify n) n"
  by (cases n) (auto simp: notify_cases_def notify_types intro!: coded_ret coded_notify_cases)

lemma distinct_notify_cases: "distinct (map fst notify_cases)"
  by (simp add: notify_cases_def notify_types)

definition db_notify_ok :: "u32 \<Rightarrow> db_notify_datagram \<Rightarrow> bool" where
  "db_notify_ok f n \<longleftrightarrow>
     string_ok f (nd_dir n) \<and> list_ok (2 ^ 32) any_ok f (nd_id_array n) \<and> notify_ok f (nd_notify n)"

lemma coded_db_notify:
  assumes "db_notify_ok f n"
  shows "coded f pull_db_notify (push_db_notify n) n"
proof -
  obtain dir b_table id_array notify where n: "n = DB_NOTIFY_DATAGRAM dir b_table id_array notify"
    by (cases n)
  obtain p where p: "(db_notify_type notify, p) \<in> set notify_cases" "coded f p (push_notify notify) notify"
    using coded_notify assms n by (auto simp: db_notify_ok_def)
  then have "switch notify_cases (fail EXT_ERR_BAD_SWITCH) (db_notify_type notify) = p"
    by (intro switch_hit distinct_notify_cases)
  with p(2) assms show ?thesis
    unfolding pull_db_notify_def push_db_notify_def n
    by (auto simp: db_notify_ok_def n intro!: coded_bnd [OF coded_string] coded_bnd [OF coded_BOOL]
        coded_bnd [OF coded_arrays(2)] coded_bnd [OF coded_uint8] coded_last)
qed

lemma safe_pull_db_notify [safe_rules]: "safe b pull_db_notify"
  unfolding pull_db_notify_def
  by (intro safe_rules safe_switch; auto simp: notify_cases_def intro!: safe_rules)

end
