(* ===== verification/Exmdb_Datagram.thy ===== *)
theory Exmdb_Datagram
  imports Exmdb_Request_Codec Exmdb_Response_Codec Exmdb_Notify
begin

text \<open>
  The functions of \<open>exmdb_ext.h\<close>: whole datagrams in fresh buffers.

  A writer leaves room for the length of what follows and fills it in at the end; the reader
  gets the bytes behind the length, which the connection has used up (and, of a response,
  behind the response code).  \<open>alloc\<close> answers \<open>common_util_alloc\<close>, \<open>realloc\<close> the C library.
\<close>

subsection \<open>Writing\<close>

text \<open>
  The length is written at \<open>off\<close> in front of the \<open>n\<close> bytes it does not count; the status of
  that write is not looked at.  \<open>write_length\<close> is the store through a \<open>uint32_t *\<close> by which a
  notification gets its length.
\<close>

definition finish_datagram :: "(u32 \<Rightarrow> push) \<Rightarrow> u32 \<Rightarrow> u32 \<Rightarrow> ext_push \<Rightarrow> ext_err + bytes" where
  "finish_datagram hdr off n e =
     (let cb = ps_offset e in
      case push_regardless (hdr (cb - n)) (e\<lparr>ps_offset := off\<rparr>) of
        (Inl err, _) \<Rightarrow> Inl err
      | (Inr _, e') \<Rightarrow> Inr (take (unat cb) (ps_data e')))"

definition write_datagram ::
    "(u32 \<Rightarrow> push) \<Rightarrow> u32 \<Rightarrow> u32 \<Rightarrow> push \<Rightarrow> (nat \<Rightarrow> nat \<Rightarrow> bool) \<Rightarrow> (nat \<Rightarrow> u8) \<Rightarrow> ext_err + bytes" where
  "write_datagram hdr off n body realloc junk =
     (case ext_buffer_push_init None 0 EXT_FLAG_WCOUNT realloc junk of
        None \<Rightarrow> Inl EXT_ERR_ALLOC
      | Some e \<Rightarrow>
          (case body e of
             (Inl err, _) \<Rightarrow> Inl err
           | (Inr _, e') \<Rightarrow> finish_datagram hdr off n e'))"

definition exmdb_ext_push_request ::
    "exmdb_env \<Rightarrow> exmdb_request \<Rightarrow> (nat \<Rightarrow> nat \<Rightarrow> bool) \<Rightarrow> (nat \<Rightarrow> u8) \<Rightarrow> ext_err + bytes" where
  "exmdb_ext_push_request env r =
     write_datagram ext_buffer_push_uint32 0 4
       (seq (ext_buffer_push_advance 4) (push_request env r))"

definition RESPONSE_CODE_SUCCESS :: u8 where "RESPONSE_CODE_SUCCESS = 0"

definition exmdb_ext_push_response ::
    "response_payload \<Rightarrow> (nat \<Rightarrow> nat \<Rightarrow> bool) \<Rightarrow> (nat \<Rightarrow> u8) \<Rightarrow> ext_err + bytes" where
  "exmdb_ext_push_response r =
     write_datagram ext_buffer_push_uint32 1 5
       (seq (ext_buffer_push_uint8 RESPONSE_CODE_SUCCESS)
         (seq (ext_buffer_push_advance 4) (push_response_payload r)))"

definition write_length :: "u32 \<Rightarrow> push" where
  "write_length v = put_bytes (SIVAL v)"

definition exmdb_ext_push_db_notify ::
    "db_notify_datagram \<Rightarrow> (nat \<Rightarrow> nat \<Rightarrow> bool) \<Rightarrow> (nat \<Rightarrow> u8) \<Rightarrow> ext_err + bytes" where
  "exmdb_ext_push_db_notify n =
     write_datagram write_length 0 4 (seq (ext_buffer_push_advance 4) (push_db_notify n))"

subsection \<open>Reading\<close>

definition read_datagram :: "'a pull \<Rightarrow> (nat \<Rightarrow> nat \<Rightarrow> bool) \<Rightarrow> bytes \<Rightarrow> ext_err + 'a" where
  "read_datagram p alloc pbin =
     fst (p (ext_buffer_pull_init pbin (of_nat (length pbin)) alloc EXT_FLAG_WCOUNT))"

definition exmdb_ext_pull_request ::
    "exmdb_env \<Rightarrow> (nat \<Rightarrow> nat \<Rightarrow> bool) \<Rightarrow> bytes \<Rightarrow> ext_err + exmdb_request" where
  "exmdb_ext_pull_request env = read_datagram (pull_request env)"

definition exmdb_ext_pull_response ::
    "exmdb_env \<Rightarrow> u8 \<Rightarrow> (nat \<Rightarrow> nat \<Rightarrow> bool) \<Rightarrow> bytes \<Rightarrow> ext_err + response_payload" where
  "exmdb_ext_pull_response env call_id = read_datagram (pull_response_payload env call_id)"

definition exmdb_ext_pull_db_notify ::
    "(nat \<Rightarrow> nat \<Rightarrow> bool) \<Rightarrow> bytes \<Rightarrow> ext_err + db_notify_datagram" where
  "exmdb_ext_pull_db_notify = read_datagram pull_db_notify"

subsection \<open>The datagram that is written\<close>

lemma push_init_ok:
  assumes "\<forall>n s. realloc n s"
  shows "\<exists>e. ext_buffer_push_init None 0 f realloc junk = Some e \<and> push_inv e \<and> obliging e \<and>
    ps_flags e = f \<and> ps_offset e = 0 \<and> capacity e = 2 ^ 32 - 2 ^ 19 \<and> growing e \<and> written e = []"
  using assms
  by (simp add: ext_buffer_push_init_def push_inv_def obliging_def growing_def capacity_def
      last_size_def written_def)

text \<open>
  A header that writes the \<open>n\<close> bytes \<open>h k\<close> where there is room for them lands in front of the
  body.
\<close>

lemma finish_ok:
  assumes "writes f body bs" "\<And>k. length (h k) = unat n"
    "\<And>k e. unat (ps_offset e) + unat n \<le> unat (ps_alloc_size e) \<Longrightarrow> push_inv e \<Longrightarrow>
       hdr k e = put_bytes (h k) e"
    "push_inv e" "obliging e" "ps_flags e = f" "unat (ps_offset e) + unat n + length bs \<le> capacity e"
  shows "\<exists>e'. seq (ext_buffer_push_advance n) body e = (Inr (), e') \<and>
    finish_datagram hdr (ps_offset e) (ps_offset e + n) e' =
      Inr (written e @ h (of_nat (length bs)) @ bs)"
proof -
  let ?off = "ps_offset e"
  obtain e1 where e1: "ext_buffer_push_advance n e = (Inr (), e1)" "push_inv e1" "obliging e1"
      "ps_flags e1 = f" "capacity e1 = capacity e" "ps_offset e1 = ?off + n"
      "unat (ps_offset e1) = unat ?off + unat n" "take (unat ?off) (ps_data e1) = written e"
    using advance_ok [OF assms(4,5), of n] assms(6,7) by auto
  then obtain e' where e': "body e1 = (Inr (), e')" "pushed bs e1 e'"
    using writesE [OF assms(1) e1(2-4)] assms(7) by auto
  then have inv: "push_inv e'" and end': "unat (ps_offset e') = unat ?off + unat n + length bs"
      and data: "written e' = written e1 @ bs"
    using e1(7) by (auto simp: pushed_def)
  have len: "unat ?off + unat n + length bs \<le> length (ps_data e')"
      "length (ps_data e') = unat (ps_alloc_size e')"
    using inv end' by (auto simp: push_inv_def)
  have "ps_offset e' = ps_offset e1 + of_nat (length bs)"
    using end' e1(7) word_bounds(3) [of "ps_offset e'"] unat_add_of_nat [of "ps_offset e1" "length bs"]
    by (simp add: word_unat_eq_iff)
  then have k: "ps_offset e' - (?off + n) = of_nat (length bs)"
    by (simp add: e1(6))
  let ?d = "take (unat ?off) (ps_data e') @ h (of_nat (length bs)) @
    drop (unat ?off + unat n) (ps_data e')"
  have "hdr (of_nat (length bs)) (e'\<lparr>ps_offset := ?off\<rparr>) =
      (Inr (), e'\<lparr>ps_offset := ?off + of_nat (unat n), ps_data := ?d\<rparr>)"
    using len inv assms(2) by (subst assms(3)) (auto simp: push_inv_def put_bytes_def Let_def)
  then have "finish_datagram hdr ?off (?off + n) e' = Inr (take (unat (ps_offset e')) ?d)"
    by (simp add: finish_datagram_def push_regardless_def push_or_quit_def ret_def Let_def k)
  moreover have "take (unat (ps_offset e')) ?d = written e @ h (of_nat (length bs)) @ bs"
  proof -
    have len1: "length (written e1) = unat ?off + unat n"
      using e1(2,7) by (simp add: written_def push_inv_def)
    have "take (unat ?off) (ps_data e') = take (unat ?off) (written e')"
      by (simp add: written_def end' min_def)
    also have "\<dots> = take (unat ?off) (written e1)"
      by (simp add: data len1)
    also have "\<dots> = written e"
      using e1(7,8) by (simp add: written_def min_def)
    finally have "take (unat ?off) (ps_data e') = written e" .
    moreover have "take (length bs) (drop (unat ?off + unat n) (ps_data e')) =
        drop (unat ?off + unat n) (written e')"
      by (simp add: written_def end' drop_take)
    then have "take (length bs) (drop (unat ?off + unat n) (ps_data e')) = bs"
      by (simp add: data len1)
    moreover have "length (written e) = unat ?off"
      using assms(4) by (simp add: written_def push_inv_def)
    ultimately show ?thesis
      using len assms(2) by (simp add: end')
  qed
  ultimately show ?thesis
    using e1(1) e'(1) by (auto simp: seq_def bnd_def)
qed

lemma overrun_advance_body:
  assumes "writes f body bs" "push_inv e" "obliging e" "ps_flags e = f" "growing e" "unat n \<le> 4"
    "capacity e < unat (ps_offset e) + unat n + length bs"
  shows "overrun (seq (ext_buffer_push_advance n) body) e"
proof (cases "unat (ps_offset e) + unat n \<le> capacity e")
  case True
  then obtain e1 where e1: "ext_buffer_push_advance n e = (Inr (), e1)" "push_inv e1" "obliging e1"
      "ps_flags e1 = ps_flags e" "capacity e1 = capacity e" "ps_b_alloc e1 = ps_b_alloc e"
      "unat (ps_offset e1) = unat (ps_offset e) + unat n"
    using advance_ok [OF assms(2,3)] by blast
  then have "overrun body e1"
    using assms by (intro writes_overrun [OF assms(1)]) (auto simp: growing_def)
  with e1(1) show ?thesis by (rule overrun_seq2)
next
  case False
  then have "overrun (need_room n) e"
    using in_capacity [OF assms(2)] assms(5,6)
    by (intro need_room_overrun assms(2)) (auto simp: growing_def)
  then show ?thesis
    by (simp add: overrun_seq ext_buffer_push_advance_def)
qed

text \<open>The datagram: it fits, or it would need more than the address space.\<close>

definition too_long :: "ext_err + bytes \<Rightarrow> bool" where
  "too_long r \<longleftrightarrow> r \<in> {Inl NOT_RETURNING, Inl UNDEFINED_BEHAVIOUR}"

definition is_datagram :: "bytes \<Rightarrow> bytes \<Rightarrow> ext_err + bytes \<Rightarrow> bool" where
  "is_datagram head payload r \<longleftrightarrow>
     (if length head + 4 + length payload \<le> 2 ^ 32 - 2 ^ 19
      then r = Inr (head @ SIVAL (of_nat (length payload)) @ payload) else too_long r)"

lemma too_longI:
  "ext_buffer_push_init None 0 EXT_FLAG_WCOUNT realloc junk = Some e \<Longrightarrow> overrun body e \<Longrightarrow>
     too_long (write_datagram hdr off n body realloc junk)"
  by (cases "body e") (auto simp: too_long_def overrun_def write_datagram_def)

lemma written_datagrams:
  assumes "writes EXT_FLAG_WCOUNT body bs" "\<forall>n s. realloc n s"
  shows "is_datagram [] bs
      (write_datagram ext_buffer_push_uint32 0 4 (seq (ext_buffer_push_advance 4) body) realloc junk)"
    "is_datagram [] bs
      (write_datagram write_length 0 4 (seq (ext_buffer_push_advance 4) body) realloc junk)"
    "is_datagram [c] bs
      (write_datagram ext_buffer_push_uint32 1 5 (seq (ext_buffer_push_uint8 c)
        (seq (ext_buffer_push_advance 4) body)) realloc junk)"
proof -
  obtain e where e: "ext_buffer_push_init None 0 EXT_FLAG_WCOUNT realloc junk = Some e"
      "push_inv e" "obliging e" "ps_flags e = EXT_FLAG_WCOUNT" "ps_offset e = 0"
      "capacity e = 2 ^ 32 - 2 ^ 19" "growing e" "written e = []"
    using push_init_ok [OF assms(2)] by blast
  have room: "need_room 4 e' = (Inr (), e')"
    if "unat (ps_offset e') + 4 \<le> unat (ps_alloc_size e')" for e'
  proof -
    have "unat (4 + ps_offset e') = 4 + unat (ps_offset e')"
      using that word_bounds(3) [of "ps_alloc_size e'"] by (subst unat_add_word) simp_all
    with that show ?thesis
      by (simp add: need_room_def ext_buffer_push_check_overflow_def Let_def bnd_def ret_def
          word_le_nat_alt)
  qed
  have hdr: "ext_buffer_push_uint32 k e' = put_bytes (SIVAL k) e'"
    if "unat (ps_offset e') + unat (4 :: u32) \<le> unat (ps_alloc_size e')" for k e'
    using room [of e'] that by (simp add: ext_buffer_push_uint32_def seq_def bnd_def)
  have fin: "\<exists>e''. seq (ext_buffer_push_advance 4) body e' = (Inr (), e'') \<and>
      finish_datagram hdr (ps_offset e') (ps_offset e' + 4) e'' =
        Inr (written e' @ SIVAL (of_nat (length bs)) @ bs)"
    if "push_inv e'" "obliging e'" "ps_flags e' = EXT_FLAG_WCOUNT"
      "unat (ps_offset e') + 4 + length bs \<le> capacity e'"
      "hdr = ext_buffer_push_uint32 \<or> hdr = write_length" for e' hdr
    using that hdr by (intro finish_ok [OF assms(1)]) (auto simp: write_length_def)
  have plain: "is_datagram [] bs
      (write_datagram hdr 0 4 (seq (ext_buffer_push_advance 4) body) realloc junk)"
    if "hdr = ext_buffer_push_uint32 \<or> hdr = write_length" for hdr
  proof (cases "4 + length bs \<le> 2 ^ 32 - 2 ^ 19")
    case True
    with that show ?thesis
      using fin [OF e(2-4), of hdr] e
      by (auto simp: is_datagram_def write_datagram_def)
  next
    case False
    then have "overrun (seq (ext_buffer_push_advance 4) body) e"
      using e by (intro overrun_advance_body [OF assms(1)]) auto
    with e(1) False show ?thesis by (auto simp: is_datagram_def intro: too_longI)
  qed
  show "is_datagram [] bs
      (write_datagram ext_buffer_push_uint32 0 4 (seq (ext_buffer_push_advance 4) body) realloc junk)"
    "is_datagram [] bs
      (write_datagram write_length 0 4 (seq (ext_buffer_push_advance 4) body) realloc junk)"
    by (simp_all add: plain)
  obtain e2 where e2: "ext_buffer_push_uint8 c e = (Inr (), e2)" "pushed [c] e e2"
    using writesE [OF writes_scalars(1) e(2-4), of c] e(5,6) by auto
  then have off2: "ps_offset e2 = 1" and written2: "written e2 = [c]"
    using e(5,8) by (auto simp: pushed_def word_unat_eq_iff)
  have ctx2: "push_inv e2" "obliging e2" "ps_flags e2 = EXT_FLAG_WCOUNT" "growing e2"
      "capacity e2 = 2 ^ 32 - 2 ^ 19"
    using e e2(2) pushed_context [OF e2(2)] pushed_obliging [OF e2(2) e(3)]
    by (auto simp: growing_def pushed_def same_target_def)
  show "is_datagram [c] bs
      (write_datagram ext_buffer_push_uint32 1 5 (seq (ext_buffer_push_uint8 c)
        (seq (ext_buffer_push_advance 4) body)) realloc junk)"
  proof (cases "5 + length bs \<le> 2 ^ 32 - 2 ^ 19")
    case True
    then obtain e3 where "seq (ext_buffer_push_advance 4) body e2 = (Inr (), e3)"
        "finish_datagram ext_buffer_push_uint32 1 5 e3 = Inr (c # SIVAL (of_nat (length bs)) @ bs)"
      using fin [OF ctx2(1-3)] ctx2(5) off2 written2 by auto
    with e2(1) True show ?thesis
      by (simp add: is_datagram_def write_datagram_def e(1) seq_def bnd_def)
  next
    case False
    then have "overrun (seq (ext_buffer_push_advance 4) body) e2"
      using ctx2(5) off2 by (intro overrun_advance_body [OF assms(1) ctx2(1-4)]) auto
    with e2(1) have "overrun (seq (ext_buffer_push_uint8 c) (seq (ext_buffer_push_advance 4) body)) e"
      by (rule overrun_seq2)
    with e(1) False show ?thesis by (auto simp: is_datagram_def intro: too_longI)
  qed
qed

subsection \<open>The datagram that is read\<close>

lemma read_datagram_prefix:
  assumes "reads EXT_FLAG_WCOUNT p bs x" "length (bs @ js) < 2 ^ 30" "\<forall>n s. alloc n s"
  shows "read_datagram p alloc (bs @ js) = Inr x"
proof -
  let ?e = "ext_buffer_pull_init (bs @ js) (of_nat (length (bs @ js))) alloc EXT_FLAG_WCOUNT"
  have "unat (of_nat (length (bs @ js)) :: u32) = length (bs @ js)"
    using assms(2) by (intro unat_of_nat_u32) simp
  then have "pull_inv ?e" "willing ?e" "pl_flags ?e = EXT_FLAG_WCOUNT" "in_front bs ?e"
    using assms(2,3) by (simp_all add: ext_buffer_pull_init_def pull_inv_def willing_def in_front_def)
  from readsE [OF assms(1) this] show ?thesis
    by (metis read_datagram_def fst_conv)
qed

text \<open>From end to end.\<close>

lemma sent_datagram:
  assumes "sent EXT_FLAG_WCOUNT p q x"
  shows "\<exists>payload. writes EXT_FLAG_WCOUNT q payload \<and>
    (length payload < 2 ^ 30 \<longrightarrow> (\<forall>alloc. (\<forall>n s. alloc n s) \<longrightarrow> read_datagram p alloc payload = Inr x))"
  using assms read_datagram_prefix unfolding sent_def by metis

text \<open>Within bounds.\<close>

definition out_of_bounds :: "ext_err + 'a \<Rightarrow> bool" where
  "out_of_bounds r \<longleftrightarrow> r \<in> {Inl UNDEFINED_BEHAVIOUR, Inl OUT_OF_FUEL, Inl NOT_RETURNING}"

lemma read_datagram_safe:
  assumes "\<And>b. safe b p" "length pbin < 2 ^ 30"
  shows "\<not> out_of_bounds (read_datagram p alloc pbin) \<and>
    ((\<forall>n s. alloc n s) \<longrightarrow> read_datagram p alloc pbin \<noteq> Inl NULL_WRITE)"
proof -
  have "reader p" using assms(1) by unfold_locales (rule bounded_safe)
  from reader.in_bounds [OF this, of "of_nat (length pbin)" pbin alloc EXT_FLAG_WCOUNT] show ?thesis
    using assms(2) unat_of_nat_u32 [of "length pbin"]
    by (simp add: read_datagram_def out_of_bounds_def)
qed

end
