(* ===== verification/Exmdb_Protocol.thy ===== *)
theory Exmdb_Protocol
  imports Exmdb_Datagram
begin

text \<open>
  The protocol as a whole: which requests and responses can be sent, what arrives, and which
  calls can be read from arbitrary bytes.

  The locale \<open>datagram_codec\<close> is what the two ends of a connection rely on; it is interpreted on
  the requests, the responses of each call and the notifications.
\<close>

subsection \<open>What can be sent\<close>

primrec request_payload_ok :: "u32 \<Rightarrow> request_payload \<Rightarrow> bool" where
  "request_payload_ok f (STORE_REQUEST p) \<longleftrightarrow> store_request_ok f p"
| "request_payload_ok f (FOLDER_REQUEST p) \<longleftrightarrow> folder_request_ok f p"
| "request_payload_ok f (TABLE_REQUEST p) \<longleftrightarrow> table_request_ok f p"
| "request_payload_ok f (INSTANCE_REQUEST p) \<longleftrightarrow> instance_request_ok f p"
| "request_payload_ok f (CONTENT_REQUEST p) \<longleftrightarrow> content_request_ok f p"
| "request_payload_ok f (MESSAGE_REQUEST p) \<longleftrightarrow> message_request_ok f p"
| "request_payload_ok f (SERVICE_REQUEST p) \<longleftrightarrow> service_request_ok f p"

definition request_ok :: "exmdb_request \<Rightarrow> bool" where
  "request_ok r \<longleftrightarrow> request_payload_ok EXT_FLAG_WCOUNT (rq_payload r) \<and>
     (if without_store (request_call_id (rq_payload r)) then rq_dir r = None
      else rq_dir r \<noteq> None \<and> option_ok string_ok EXT_FLAG_WCOUNT (rq_dir r))"

primrec payload_received :: "request_payload \<Rightarrow> request_payload" where
  "payload_received (STORE_REQUEST p) = STORE_REQUEST p"
| "payload_received (FOLDER_REQUEST p) = FOLDER_REQUEST p"
| "payload_received (TABLE_REQUEST p) = TABLE_REQUEST p"
| "payload_received (INSTANCE_REQUEST p) = INSTANCE_REQUEST p"
| "payload_received (CONTENT_REQUEST p) = CONTENT_REQUEST p"
| "payload_received (MESSAGE_REQUEST p) = MESSAGE_REQUEST p"
| "payload_received (SERVICE_REQUEST p) = SERVICE_REQUEST (service_received p)"

text \<open>Everything arrives as it was sent, but for the state of the sets of identifiers.\<close>

definition request_received :: "exmdb_request \<Rightarrow> exmdb_request" where
  "request_received r = EXMDB_REQUEST (rq_dir r) (payload_received (rq_payload r))"

primrec response_ok :: "u32 \<Rightarrow> response_payload \<Rightarrow> bool" where
  "response_ok f (STORE_RESPONSE p) \<longleftrightarrow> store_response_ok f p"
| "response_ok f (FOLDER_RESPONSE p) \<longleftrightarrow> folder_response_ok f p"
| "response_ok f (TABLE_RESPONSE p) \<longleftrightarrow> table_response_ok f p"
| "response_ok f (INSTANCE_RESPONSE p) \<longleftrightarrow> instance_response_ok f p"
| "response_ok f (CONTENT_RESPONSE p) \<longleftrightarrow> content_response_ok f p"
| "response_ok f (MESSAGE_RESPONSE p) \<longleftrightarrow> message_response_ok f p"
| "response_ok f (SERVICE_RESPONSE p) \<longleftrightarrow> service_response_ok f p"

subsection \<open>The switches\<close>

lemmas request_groups =
  store_request_cases_def folder_request_cases_def table_request_cases_def
  instance_request_cases_def content_request_cases_def message_request_cases_def
  service_request_cases_def

lemmas response_groups =
  store_response_cases_def folder_response_cases_def table_response_cases_def
  instance_response_cases_def content_response_cases_def message_response_cases_def
  service_response_cases_def

text \<open>No label occurs twice.\<close>

lemma distinct_words: "distinct (map unat ws) \<Longrightarrow> distinct ws"
  by (simp add: distinct_map)

lemma distinct_request_cases: "distinct (map fst (request_cases env))"
  by (rule distinct_words)
    (simp add: request_cases_def request_groups call_ids pull_as_def)

lemma distinct_response_cases: "distinct (map fst (response_cases env))"
  by (rule distinct_words)
    (simp add: response_cases_def response_groups call_ids pull_as_def)

lemma pick_case:
  assumes "\<exists>p. (k, p) \<in> set cases \<and> sent f p q x"
    "set (map (pull_as c) cases) \<subseteq> set all_cases" "distinct (map fst all_cases)"
  shows "sent f (switch all_cases d k) q (c x)"
proof -
  from assms(1) obtain p where p: "(k, p) \<in> set cases" "sent f p q x" by blast
  have "(k, bnd p (\<lambda>x. ret (c x))) \<in> set all_cases"
    using pull_as_mem [OF p(1), of c] assms(2) by blast
  with assms(3) show ?thesis
    by (simp add: switch_hit sent_last [OF p(2)])
qed

lemma request_cases_sub:
  "set (map (pull_as STORE_REQUEST) store_request_cases) \<subseteq> set (request_cases env)"
  "set (map (pull_as FOLDER_REQUEST) folder_request_cases) \<subseteq> set (request_cases env)"
  "set (map (pull_as TABLE_REQUEST) table_request_cases) \<subseteq> set (request_cases env)"
  "set (map (pull_as INSTANCE_REQUEST) instance_request_cases) \<subseteq> set (request_cases env)"
  "set (map (pull_as CONTENT_REQUEST) content_request_cases) \<subseteq> set (request_cases env)"
  "set (map (pull_as MESSAGE_REQUEST) (message_request_cases env)) \<subseteq> set (request_cases env)"
  "set (map (pull_as SERVICE_REQUEST) (service_request_cases env)) \<subseteq> set (request_cases env)"
  by (auto simp: request_cases_def)

text \<open>The reader behind a label.\<close>

lemma request_payload_at:
  "(k, p) \<in> set store_request_cases \<Longrightarrow>
     pull_request_payload env k = bnd p (\<lambda>x. ret (STORE_REQUEST x))"
  "(k, q) \<in> set (message_request_cases env) \<Longrightarrow>
     pull_request_payload env k = bnd q (\<lambda>x. ret (MESSAGE_REQUEST x))"
  "(k, r) \<in> set (service_request_cases env) \<Longrightarrow>
     pull_request_payload env k = bnd r (\<lambda>x. ret (SERVICE_REQUEST x))"
  unfolding pull_request_payload_def
  by (intro switch_hit distinct_request_cases subsetD [OF request_cases_sub(1)]
      subsetD [OF request_cases_sub(6)] subsetD [OF request_cases_sub(7)] pull_as_mem;
    assumption)+

lemmas request_picks =
  pick_case [OF sent_store_request request_cases_sub(1) distinct_request_cases]
  pick_case [OF sent_folder_request request_cases_sub(2) distinct_request_cases]
  pick_case [OF sent_table_request request_cases_sub(3) distinct_request_cases]
  pick_case [OF sent_instance_request request_cases_sub(4) distinct_request_cases]
  pick_case [OF sent_content_request request_cases_sub(5) distinct_request_cases]
  pick_case [OF sent_message_request request_cases_sub(6) distinct_request_cases]
  pick_case [OF sent_service_request request_cases_sub(7) distinct_request_cases]

lemma sent_request_payload:
  assumes "idset_mem env = (\<lambda>_ _. True)" "request_payload_ok f p"
  shows "sent f (pull_request_payload env (request_call_id p)) (push_request_payload env p)
    (payload_received p)"
  using assms unfolding pull_request_payload_def
  by (cases p) (simp_all add: request_picks)

lemma response_cases_sub:
  "set (map (pull_as STORE_RESPONSE) store_response_cases) \<subseteq> set (response_cases env)"
  "set (map (pull_as FOLDER_RESPONSE) (folder_response_cases env)) \<subseteq> set (response_cases env)"
  "set (map (pull_as TABLE_RESPONSE) table_response_cases) \<subseteq> set (response_cases env)"
  "set (map (pull_as INSTANCE_RESPONSE) instance_response_cases) \<subseteq> set (response_cases env)"
  "set (map (pull_as CONTENT_RESPONSE) content_response_cases) \<subseteq> set (response_cases env)"
  "set (map (pull_as MESSAGE_RESPONSE) message_response_cases) \<subseteq> set (response_cases env)"
  "set (map (pull_as SERVICE_RESPONSE) service_response_cases) \<subseteq> set (response_cases env)"
  by (auto simp: response_cases_def)

lemmas response_picks =
  pick_case [OF sent_store_response response_cases_sub(1) distinct_response_cases]
  pick_case [OF sent_folder_response response_cases_sub(2) distinct_response_cases]
  pick_case [OF sent_table_response response_cases_sub(3) distinct_response_cases]
  pick_case [OF sent_instance_response response_cases_sub(4) distinct_response_cases]
  pick_case [OF sent_content_response response_cases_sub(5) distinct_response_cases]
  pick_case [OF sent_message_response response_cases_sub(6) distinct_response_cases]
  pick_case [OF sent_service_response response_cases_sub(7) distinct_response_cases]

lemma sent_response_payload:
  assumes "response_ok f p"
  shows "sent f (pull_response_payload env (response_call_id p)) (push_response_payload p) p"
  using assms unfolding pull_response_payload_def
  by (cases p) (simp_all add: response_picks)

subsection \<open>Safety of the switches\<close>

lemma safe_pull_as:
  "(k, p) \<in> set (map (pull_as c) cases) \<Longrightarrow>
     (\<And>q. (k, q) \<in> set cases \<Longrightarrow> safe b q) \<Longrightarrow> safe b p"
  by (auto simp: pull_as_def intro!: safe_bnd safe_ret)

lemma safe_switch_at:
  "(\<And>p. (k, p) \<in> set cases \<Longrightarrow> safe b p) \<Longrightarrow> safe b d \<Longrightarrow> safe b (switch cases d k)"
  by (auto simp: switch_def split: option.split dest: map_of_SomeD)

lemma safe_store_request_case: "(k, p) \<in> set store_request_cases \<Longrightarrow> safe b p"
  by (auto simp: store_request_cases_def intro!: safe_rules)

lemma safe_folder_request_case: "(k, p) \<in> set folder_request_cases \<Longrightarrow> safe b p"
  by (auto simp: folder_request_cases_def intro!: safe_rules)

lemma safe_table_request_case: "(k, p) \<in> set table_request_cases \<Longrightarrow> safe b p"
  by (auto simp: table_request_cases_def intro!: safe_rules)

lemma safe_instance_request_case: "(k, p) \<in> set instance_request_cases \<Longrightarrow> safe b p"
  by (auto simp: instance_request_cases_def intro!: safe_rules)

lemma safe_content_request_case: "(k, p) \<in> set content_request_cases \<Longrightarrow> safe b p"
  by (auto simp: content_request_cases_def intro!: safe_rules)

lemma safe_message_request_case: "(k, p) \<in> set (message_request_cases env) \<Longrightarrow> safe b p"
  by (auto simp: message_request_cases_def intro!: safe_rules)

lemma safe_service_request_case:
  "(k, p) \<in> set (service_request_cases env) \<Longrightarrow> k \<noteq> CALL_ID_GET_CONTENT_SYNC \<Longrightarrow>
     k \<noteq> CALL_ID_GET_HIERARCHY_SYNC \<Longrightarrow> safe b p"
  by (auto simp: service_request_cases_def intro!: safe_rules)

lemma safe_store_response_case: "(k, p) \<in> set store_response_cases \<Longrightarrow> safe b p"
  by (auto simp: store_response_cases_def intro!: safe_rules)

lemma safe_folder_response_case: "(k, p) \<in> set (folder_response_cases env) \<Longrightarrow> safe b p"
  by (auto simp: folder_response_cases_def intro!: safe_rules)

lemma safe_table_response_case: "(k, p) \<in> set table_response_cases \<Longrightarrow> safe b p"
  by (auto simp: table_response_cases_def intro!: safe_rules)

lemma safe_instance_response_case: "(k, p) \<in> set instance_response_cases \<Longrightarrow> safe b p"
  by (auto simp: instance_response_cases_def intro!: safe_rules)

lemma safe_content_response_case: "(k, p) \<in> set content_response_cases \<Longrightarrow> safe b p"
  by (auto simp: content_response_cases_def intro!: safe_rules)

lemma safe_message_response_case: "(k, p) \<in> set message_response_cases \<Longrightarrow> safe b p"
  by (auto simp: message_response_cases_def intro!: safe_rules)

lemma safe_service_response_case: "(k, p) \<in> set service_response_cases \<Longrightarrow> safe b p"
  by (auto simp: service_response_cases_def intro!: safe_rules)

lemma safe_request_payload:
  assumes "k \<noteq> CALL_ID_GET_CONTENT_SYNC" "k \<noteq> CALL_ID_GET_HIERARCHY_SYNC"
  shows "safe b (pull_request_payload env k)"
  unfolding pull_request_payload_def
proof (rule safe_switch_at)
  fix p assume "(k, p) \<in> set (request_cases env)"
  then show "safe b p"
    unfolding request_cases_def set_append
    using assms
    by (elim UnE; elim safe_pull_as; blast intro: safe_store_request_case safe_folder_request_case
        safe_table_request_case safe_instance_request_case safe_content_request_case
        safe_message_request_case safe_service_request_case)
qed (intro safe_rules; simp)

lemma safe_response_payload: "safe b (pull_response_payload env k)"
  unfolding pull_response_payload_def
proof (rule safe_switch_at)
  fix p assume "(k, p) \<in> set (response_cases env)"
  then show "safe b p"
    unfolding response_cases_def set_append
    by (elim UnE; elim safe_pull_as; blast intro: safe_store_response_case safe_folder_response_case
        safe_table_response_case safe_instance_response_case safe_content_response_case
        safe_message_response_case safe_service_response_case)
qed (intro safe_rules; simp)

text \<open>The call id is the first byte, so it is known what is going to be read.\<close>

lemma pull_uint8_first:
  assumes "pbin \<noteq> []" "length pbin < 2 ^ 30"
  shows "\<exists>e'. ext_buffer_pull_uint8 (ext_buffer_pull_init pbin (of_nat (length pbin)) alloc f) =
      (Inr (hd pbin), e') \<and> pull_inv e' \<and> pl_alloc e' = alloc"
proof -
  have "unat (of_nat (length pbin) :: u32) = length pbin"
    using assms(2) by (intro unat_of_nat_u32) simp
  moreover have "0 < length pbin" using assms(1) by simp
  ultimately show ?thesis
    using assms
    by (cases pbin) (auto simp: ext_buffer_pull_uint8_def pull_fixed_def Let_def bnd_def ret_def
        ext_buffer_pull_init_def pull_inv_def)
qed

subsection \<open>From end to end\<close>

text \<open>
  What writes a request does not look at the old contents of the reader's structure; of the
  surroundings only the memory of the sets matters.
\<close>

lemma push_request_mem:
  assumes "idset_mem env = idset_mem env'"
  shows "push_request_payload env p = push_request_payload env' p"
proof -
  have "push_service_request env q = push_service_request env' q" for q
    by (cases q) (simp_all add: assms exmdb_ext_push_get_content_sync_request_def
        exmdb_ext_push_get_hierarchy_sync_request_def)
  then show ?thesis by (cases p) simp_all
qed

lemma call_id_received: "request_call_id (payload_received p) = request_call_id p"
proof -
  have "service_request_id (service_received q) = service_request_id q" for q
    by (cases q) (simp_all add: service_received_def)
  then show ?thesis by (cases p) simp_all
qed

lemma sent_request:
  assumes "idset_mem env = (\<lambda>_ _. True)" "idset_mem env' = (\<lambda>_ _. True)" "request_ok r"
  shows "sent EXT_FLAG_WCOUNT (pull_request env) (push_request env' r) (request_received r)"
proof -
  obtain dir p where r: "r = EXMDB_REQUEST dir p" by (cases r)
  have p: "sent EXT_FLAG_WCOUNT (pull_request_payload env (request_call_id p))
      (push_request_payload env' p) (payload_received p)"
    using sent_request_payload [OF assms(1)] assms push_request_mem [of env env']
    by (simp add: request_ok_def r)
  show ?thesis
  proof (cases "without_store (request_call_id p)")
    case True
    with assms(3) p show ?thesis
      by (auto simp: request_ok_def r pull_request_def push_request_def request_received_def
          intro!: sent_bnd [OF coded_uint8] sent_last)
  next
    case False
    with assms(3) obtain d where "dir = Some d" "string_ok EXT_FLAG_WCOUNT d"
      by (cases dir) (auto simp: request_ok_def r option_ok_def)
    with p False show ?thesis
      by (auto simp: r pull_request_def push_request_def request_received_def
          intro!: sent_bnd [OF coded_uint8] sent_bnd [OF coded_string] sent_last)
  qed
qed

subsection \<open>The two ends of a connection\<close>

text \<open>
  \<open>datagram_codec\<close>: what is written is a datagram behind \<open>head\<close> (or would exceed 4 GiB), and the
  part of it behind the length is read as \<open>arrived\<close>.
\<close>

locale datagram_codec =
  fixes head :: bytes
    and send :: "'a \<Rightarrow> (nat \<Rightarrow> nat \<Rightarrow> bool) \<Rightarrow> (nat \<Rightarrow> u8) \<Rightarrow> ext_err + bytes"
    and receive :: "'a \<Rightarrow> (nat \<Rightarrow> nat \<Rightarrow> bool) \<Rightarrow> bytes \<Rightarrow> ext_err + 'a"
    and arrived :: "'a \<Rightarrow> 'a" and ok :: "'a \<Rightarrow> bool"
  assumes delivered: "ok x \<Longrightarrow>
    \<exists>payload.
      (\<forall>realloc junk. (\<forall>n s. realloc n s) \<longrightarrow> is_datagram head payload (send x realloc junk)) \<and>
      (length payload < 2 ^ 30 \<longrightarrow>
         (\<forall>alloc. (\<forall>n s. alloc n s) \<longrightarrow> receive x alloc payload = Inr (arrived x)))"
begin

lemma transfer:
  assumes "ok x" "\<forall>n s. realloc n s" "send x realloc junk = Inr bs" "length bs < 2 ^ 30"
  shows "\<exists>payload. bs = head @ SIVAL (of_nat (length payload)) @ payload \<and>
    (\<forall>alloc. (\<forall>n s. alloc n s) \<longrightarrow> receive x alloc payload = Inr (arrived x))"
proof -
  obtain payload where
    w: "\<forall>realloc junk. (\<forall>n s. realloc n s) \<longrightarrow> is_datagram head payload (send x realloc junk)" and
    r: "length payload < 2 ^ 30 \<longrightarrow>
         (\<forall>alloc. (\<forall>n s. alloc n s) \<longrightarrow> receive x alloc payload = Inr (arrived x))"
    using delivered [OF assms(1)] by (elim exE conjE)
  have "is_datagram head payload (send x realloc junk)"
    using w assms(2) by simp
  with assms(3) have "bs = head @ SIVAL (of_nat (length payload)) @ payload"
    by (simp add: is_datagram_def too_long_def split: if_splits)
  with r assms(4) show ?thesis by auto
qed

text \<open>Each datagram is as long as it says.\<close>

lemma written_length:
  assumes "ok x" "\<forall>n s. realloc n s" "send x realloc junk = Inr bs" "length bs < 2 ^ 30"
  shows "length head + 4 \<le> length bs \<and> take (length head) bs = head \<and>
    unat (IVAL bs (length head)) = length bs - length head - 4"
proof -
  obtain payload where bs: "bs = head @ SIVAL (of_nat (length payload)) @ payload"
    using transfer [OF assms] by blast
  have "IVAL bs (length head) = of_nat (length payload)"
    using IVAL_shift [of head "length head" "SIVAL (of_nat (length payload)) @ payload" 0]
    by (simp add: bs)
  with bs assms(4) show ?thesis by (simp add: unat_of_nat_u32)
qed

end

lemma request_delivered:
  assumes "idset_mem env = (\<lambda>_ _. True)" "idset_mem env' = (\<lambda>_ _. True)" "request_ok r"
  shows "\<exists>payload.
    (\<forall>realloc junk. (\<forall>n s. realloc n s) \<longrightarrow>
       is_datagram [] payload (exmdb_ext_push_request env' r realloc junk)) \<and>
    (length payload < 2 ^ 30 \<longrightarrow>
       (\<forall>alloc. (\<forall>n s. alloc n s) \<longrightarrow>
          exmdb_ext_pull_request env alloc payload = Inr (request_received r)))"
  using sent_datagram [OF sent_request [OF assms]] written_datagrams(1)
  unfolding exmdb_ext_push_request_def exmdb_ext_pull_request_def by metis

lemma response_delivered:
  assumes "response_ok EXT_FLAG_WCOUNT r"
  shows "\<exists>payload.
    (\<forall>realloc junk. (\<forall>n s. realloc n s) \<longrightarrow>
       is_datagram [RESPONSE_CODE_SUCCESS] payload (exmdb_ext_push_response r realloc junk)) \<and>
    (length payload < 2 ^ 30 \<longrightarrow>
       (\<forall>alloc. (\<forall>n s. alloc n s) \<longrightarrow>
          exmdb_ext_pull_response env (response_call_id r) alloc payload = Inr r))"
  using sent_datagram [OF sent_response_payload [OF assms]] written_datagrams(3)
  unfolding exmdb_ext_push_response_def exmdb_ext_pull_response_def by metis

lemma notify_delivered:
  assumes "db_notify_ok EXT_FLAG_WCOUNT n"
  shows "\<exists>payload.
    (\<forall>realloc junk. (\<forall>k s. realloc k s) \<longrightarrow>
       is_datagram [] payload (exmdb_ext_push_db_notify n realloc junk)) \<and>
    (length payload < 2 ^ 30 \<longrightarrow>
       (\<forall>alloc. (\<forall>k s. alloc k s) \<longrightarrow> exmdb_ext_pull_db_notify alloc payload = Inr n))"
  using sent_datagram [OF coded_sent [OF coded_db_notify [OF assms]]] written_datagrams(2)
  unfolding exmdb_ext_push_db_notify_def exmdb_ext_pull_db_notify_def by metis

text \<open>Surroundings in which the sets of identifiers get their memory.\<close>

definition fresh_env :: exmdb_env where
  "fresh_env = \<lparr>stale_username = None, stale_account = [], stale_cpid = 0, stale_folder_id = 0,
     stale_message_id = 0, stale_timer_id = 0, stale_byte = 0, idset_mem = (\<lambda>_ _. True)\<rparr>"

interpretation dg_request: datagram_codec "[]" "exmdb_ext_push_request fresh_env"
    "\<lambda>_. exmdb_ext_pull_request fresh_env" request_received request_ok
  by unfold_locales (intro request_delivered; simp add: fresh_env_def)

interpretation dg_response: datagram_codec "[RESPONSE_CODE_SUCCESS]" exmdb_ext_push_response
    "\<lambda>r. exmdb_ext_pull_response fresh_env (response_call_id r)" "\<lambda>r. r"
    "response_ok EXT_FLAG_WCOUNT"
  by unfold_locales (intro response_delivered)

interpretation dg_notify: datagram_codec "[]" exmdb_ext_push_db_notify
    "\<lambda>_. exmdb_ext_pull_db_notify" "\<lambda>n. n" "db_notify_ok EXT_FLAG_WCOUNT"
  by unfold_locales (intro notify_delivered)

subsection \<open>Reading a request from any bytes\<close>

lemma request_reader_safe:
  assumes "length pbin < 2 ^ 30"
    "pbin = [] \<or> hd pbin \<notin> {CALL_ID_GET_CONTENT_SYNC, CALL_ID_GET_HIERARCHY_SYNC}"
  shows "\<not> out_of_bounds (exmdb_ext_pull_request env alloc pbin) \<and>
    ((\<forall>n s. alloc n s) \<longrightarrow> exmdb_ext_pull_request env alloc pbin \<noteq> Inl NULL_WRITE)"
proof -
  define rest where "rest call_id =
    (if without_store call_id
     then bnd (pull_request_payload env call_id) (\<lambda>payload. ret (EXMDB_REQUEST None payload))
     else bnd ext_buffer_pull_string (\<lambda>dir. bnd (pull_request_payload env call_id) (\<lambda>payload.
       ret (EXMDB_REQUEST (Some dir) payload))))" for call_id
  have safe_rest: "safe b (rest k)"
    if "k \<notin> {CALL_ID_GET_CONTENT_SYNC, CALL_ID_GET_HIERARCHY_SYNC}" for b k
    using that unfolding rest_def by (auto intro!: safe_rules safe_request_payload)
  text \<open>A reader that is safe for every call id and agrees on the one in front.\<close>
  let ?k = "if pbin = [] then 0 else hd pbin"
  let ?p = "bnd ext_buffer_pull_uint8 (\<lambda>_. rest ?k)"
  have "?k \<notin> {CALL_ID_GET_CONTENT_SYNC, CALL_ID_GET_HIERARCHY_SYNC}"
    using assms(2) by (auto simp: call_ids)
  then have "safe b ?p" for b
    by (intro safe_rules safe_rest)
  moreover have "exmdb_ext_pull_request env alloc pbin = read_datagram ?p alloc pbin"
  proof (cases "pbin = []")
    case True
    then show ?thesis
      by (simp add: exmdb_ext_pull_request_def read_datagram_def pull_request_def
          ext_buffer_pull_uint8_def pull_fixed_def bnd_def ext_buffer_pull_init_def Let_def)
  next
    case False
    then show ?thesis
      using pull_uint8_first [OF False assms(1), of alloc EXT_FLAG_WCOUNT]
      by (auto simp: exmdb_ext_pull_request_def read_datagram_def pull_request_def rest_def bnd_def)
  qed
  ultimately show ?thesis
    using read_datagram_safe [of ?p pbin alloc] assms(1) by simp
qed

subsection \<open>Two short requests\<close>

lemmas reading_steps =
  exmdb_ext_pull_request_def read_datagram_def pull_request_def ext_buffer_pull_init_def
  pull_scalar_defs pull_fixed_def bnd_def ret_def fail_def Let_def ext_buffer_pull_string_def
  pull_alloc_def ext_buffer_pull_advance_def INT_MAX_def without_store_def
  word_le_nat_alt word_less_nat_alt

lemma stale_reader_accepts:
  "exmdb_ext_pull_request env (\<lambda>_ _. True) [0x67, 0] =
     Inr (EXMDB_REQUEST (Some []) (MESSAGE_REQUEST
       (REQ_SET_MESSAGE_TIMER (stale_message_id env) (stale_timer_id env))))"
proof -
  have "pull_request_payload env 0x67 =
      bnd (exmdb_ext_pull_set_message_timer_request env) (\<lambda>x. ret (MESSAGE_REQUEST x))"
    by (rule request_payload_at(2)) (simp add: message_request_cases_def call_ids)
  then show ?thesis
    by (simp add: reading_steps call_ids exmdb_ext_pull_set_message_timer_request_def
        pull_or_quit_def fault_def)
qed

lemma sync_reader_leaves:
  "exmdb_ext_pull_request fresh_env (\<lambda>_ _. True)
     [0x71, 0, 1, 2, 3, 4, 5, 6, 7, 8, 0, 3, 0, 0, 0, 5, 0, 1] = Inl UNDEFINED_BEHAVIOUR"
proof -
  have "case idset_deserialize (\<lambda>_. True) (idset_init False REPL_TYPE_ID) [5, 0, 1] of
      Inl err \<Rightarrow> err = UNDEFINED_BEHAVIOUR | Inr _ \<Rightarrow> False"
    by code_simp
  then have set: "idset_deserialize (\<lambda>_. True) (idset_init False REPL_TYPE_ID) [5, 0, 1] =
      Inl UNDEFINED_BEHAVIOUR"
    by (simp split: sum.splits)
  have len: "IVAL [3, 0, 0, 0] 0 = 3" by code_simp
  have "pull_request_payload fresh_env 0x71 =
      bnd (exmdb_ext_pull_get_hierarchy_sync_request fresh_env) (\<lambda>x. ret (SERVICE_REQUEST x))"
    by (rule request_payload_at(3)) (simp add: service_request_cases_def call_ids)
  then show ?thesis
    by (simp add: reading_steps call_ids exmdb_ext_pull_get_hierarchy_sync_request_def
        pull_optional_def pull_idset_def ext_buffer_pull_exbinary_def pull_blob_def
        ext_buffer_pull_bytes_def fresh_env_def set len)
qed

end
