(* ===== verification/Exmdb_Properties.thy ===== *)
theory Exmdb_Properties
  imports Exmdb_Protocol
begin

text \<open>
  The properties of \<open>exmdb_ext.c\<close>: what is sent arrives, reading never leaves the datagram but
  for the two calls that carry sets of identifiers, and a truncated request that is taken for a
  complete one.
\<close>

section \<open>What is sent arrives\<close>





text \<open>C16. Every notification of the store arrives with the same contents.\<close>

theorem notification_arrives:
  assumes "db_notify_ok EXT_FLAG_WCOUNT n"
  shows "\<exists>payload.
    (\<forall>realloc junk. (\<forall>k s. realloc k s) \<longrightarrow>
       is_datagram [] payload (exmdb_ext_push_db_notify n realloc junk)) \<and>
    (length payload < 2 ^ 30 \<longrightarrow>
       (\<forall>alloc. (\<forall>k s. alloc k s) \<longrightarrow> exmdb_ext_pull_db_notify alloc payload = Inr n))"
  using assms by (rule notify_delivered)

theorem notification_arrives_witness:
  "let n = DB_NOTIFY_DATAGRAM [47, 97] True [1, 2] (NOTIFY_NEW_MAIL 3 4 0 [73, 80, 77])
   in \<exists>payload.
    (\<forall>realloc junk. (\<forall>k s. realloc k s) \<longrightarrow>
       is_datagram [] payload (exmdb_ext_push_db_notify n realloc junk)) \<and>
    (length payload < 2 ^ 30 \<longrightarrow>
       (\<forall>alloc. (\<forall>k s. alloc k s) \<longrightarrow> exmdb_ext_pull_db_notify alloc payload = Inr n))"
  unfolding Let_def
  by (rule notification_arrives)
    (simp add: db_notify_ok_def string_ok_def list_ok_def EXT_FLAG_WCOUNT_def EXT_FLAG_TBLLMT_def
      has_flag_def)

section \<open>Bounds\<close>

text \<open>
  C17. Reading a request from any bytes, with an allocator that may fail at any call, never leaves
  the datagram and always returns, unless the call is one of the two that carry sets of
  identifiers; it writes through a \<open>NULL\<close> pointer only if the allocator has failed.
\<close>

theorem request_in_bounds:
  assumes "length pbin < 2 ^ 30"
    "pbin = [] \<or> hd pbin \<notin> {CALL_ID_GET_CONTENT_SYNC, CALL_ID_GET_HIERARCHY_SYNC}"
  shows "\<not> out_of_bounds (exmdb_ext_pull_request env alloc pbin) \<and>
    ((\<forall>n s. alloc n s) \<longrightarrow> exmdb_ext_pull_request env alloc pbin \<noteq> Inl NULL_WRITE)"
  using assms by (rule request_reader_safe)

theorem request_in_bounds_witness:
  "\<not> out_of_bounds (exmdb_ext_pull_request fresh_env (\<lambda>_ _. False) [0x66, 47, 0, 1])"
  using request_in_bounds [of "[0x66, 47, 0, 1]" fresh_env "\<lambda>_ _. False"]
  by (simp add: call_ids)

text \<open>
  C18. Reading a response to any call, or a notification, from any bytes never leaves the datagram
  and always returns; it writes through a \<open>NULL\<close> pointer only if the allocator has failed.
\<close>

theorem replies_in_bounds:
  assumes "length pbin < 2 ^ 30"
  shows "\<not> out_of_bounds (exmdb_ext_pull_response env call_id alloc pbin) \<and>
    \<not> out_of_bounds (exmdb_ext_pull_db_notify alloc pbin) \<and>
    ((\<forall>n s. alloc n s) \<longrightarrow>
       exmdb_ext_pull_response env call_id alloc pbin \<noteq> Inl NULL_WRITE \<and>
       exmdb_ext_pull_db_notify alloc pbin \<noteq> Inl NULL_WRITE)"
  using read_datagram_safe [OF safe_response_payload assms]
    read_datagram_safe [OF safe_pull_db_notify assms]
  unfolding exmdb_ext_pull_response_def exmdb_ext_pull_db_notify_def by blast

theorem replies_in_bounds_witness:
  "\<not> out_of_bounds (exmdb_ext_pull_response fresh_env 0x7E (\<lambda>_ _. False) [9, 0xFF])"
  by (rule replies_in_bounds [THEN conjunct1]) simp



end
