(* ===== verification/Exmdb_Parser.thy ===== *)
theory Exmdb_Parser
  imports Exmdb_Protocol
begin

text \<open>
  A connection of the store: \<open>thread_work_func\<close> of \<open>exmdb_parser.c\<close>.

  One turn of its loop is the function \<open>iterate\<close> of what the system calls of that turn answer
  (\<open>answers\<close>); a run is a list of answers, so nothing is assumed about how the bytes of a
  connection arrive or how many of them a call takes.  \<open>exmdb_parser_dispatch\<close> hands a request
  to the functions of \<open>exmdb_server.c\<close>; its result is one of the answers.

  The fields \<open>th_received\<close>, \<open>th_sent\<close>, \<open>th_done\<close> and \<open>th_starved\<close> are not in the code: they
  record what has passed through the socket, which exchanges are complete, and whether memory
  for a request was refused.
\<close>

subsection \<open>Response codes\<close>

definition RESPONSE_CODE_MAX_REACHED :: u8 where "RESPONSE_CODE_MAX_REACHED = 0x02"
definition RESPONSE_CODE_LACK_MEMORY :: u8 where "RESPONSE_CODE_LACK_MEMORY = 0x03"
definition RESPONSE_CODE_MISCONFIG_PREFIX :: u8 where "RESPONSE_CODE_MISCONFIG_PREFIX = 0x04"
definition RESPONSE_CODE_MISCONFIG_MODE :: u8 where "RESPONSE_CODE_MISCONFIG_MODE = 0x05"
definition RESPONSE_CODE_CONNECT_UNCOMPLETE :: u8 where "RESPONSE_CODE_CONNECT_UNCOMPLETE = 0x06"
definition RESPONSE_CODE_PULL_ERROR :: u8 where "RESPONSE_CODE_PULL_ERROR = 0x07"
definition RESPONSE_CODE_DISPATCH_ERROR :: u8 where "RESPONSE_CODE_DISPATCH_ERROR = 0x08"
definition RESPONSE_CODE_PUSH_ERROR :: u8 where "RESPONSE_CODE_PUSH_ERROR = 0x09"

subsection \<open>State\<close>

text \<open>What a connection and its peer have done with each other.\<close>

datatype exchange =
    PING
  | HELLO (ex_datagram: bytes) (ex_request: exmdb_request)
  | CALL (ex_datagram: bytes) (ex_request: exmdb_request) (ex_response: response_payload)
      (ex_answer: bytes)

text \<open>
  \<open>LEFT code\<close>: the loop is left, after \<open>code\<close> has been sent or, where it is \<open>None\<close>, without a
  word.  \<open>ROUTER\<close>: the thread has become one that delivers notifications.  \<open>BROKEN\<close>: memory
  that does not belong to the thread has been touched, or a call does not return.
\<close>

datatype status = RUNNING | LEFT "u8 option" | ROUTER bytes | BROKEN ext_err

record thread =
  th_status :: status
  th_b_stop :: bool
  th_pbuff :: "bytes option"
  th_offset :: u32
  th_buff_len :: u32
  th_is_writing :: bool
  th_is_connected :: bool
  th_b_private :: bool
  th_remote_id :: bytes
  th_received :: bytes
  th_sent :: bytes
  th_done :: "exchange list"
  th_starved :: bool

definition new_thread :: thread where
  "new_thread = \<lparr>th_status = RUNNING, th_b_stop = False, th_pbuff = None, th_offset = 0,
     th_buff_len = 0, th_is_writing = False, th_is_connected = False, th_b_private = False,
     th_remote_id = [], th_received = [], th_sent = [], th_done = [], th_starved = False\<rparr>"

text \<open>
  \<open>ans_read\<close> is \<open>None\<close> where \<open>read\<close> returns -1; the end of the stream is \<open>Some []\<close>.
\<close>

record answers =
  ans_poll :: int
  ans_read :: "bytes option"
  ans_write :: int
  ans_malloc :: bool
  ans_block :: "nat \<Rightarrow> u8"
  ans_env :: exmdb_env
  ans_alloc :: "nat \<Rightarrow> nat \<Rightarrow> bool"
  ans_dispatch :: "exmdb_request \<Rightarrow> response_payload option"
  ans_realloc :: "nat \<Rightarrow> nat \<Rightarrow> bool"
  ans_junk :: "nat \<Rightarrow> u8"

text \<open>What the thread sees of the rest: the prefixes it serves and the connected routers.\<close>

record surroundings =
  g_local_list :: "(bytes \<times> bool) list"
  g_max_routers :: int
  g_routers_num :: int

fun exmdb_parser_check_local :: "(bytes \<times> bool) list \<Rightarrow> bytes \<Rightarrow> bool option" where
  "exmdb_parser_check_local [] prefix = None"
| "exmdb_parser_check_local ((p, b_private) # svrs) prefix =
     (if p = prefix then Some b_private else exmdb_parser_check_local svrs prefix)"

subsection \<open>One turn of the loop\<close>

definition put_out :: "int \<Rightarrow> bytes \<Rightarrow> thread \<Rightarrow> thread" where
  "put_out n bs t = t\<lparr>th_sent := th_sent t @ take (nat n) bs\<rparr>"

definition leave :: "u8 option \<Rightarrow> thread \<Rightarrow> thread" where
  "leave code t = t\<lparr>th_status := LEFT code\<rparr>"

text \<open>The end of the body of the loop: the response code is written, whatever comes of it.\<close>

definition reject :: "answers \<Rightarrow> u8 \<Rightarrow> thread \<Rightarrow> thread" where
  "reject a code t = leave (Some code) (put_out (ans_write a) [code] t)"

definition work_write :: "answers \<Rightarrow> thread \<Rightarrow> thread" where
  "work_write a t =
     (case th_pbuff t of
        None \<Rightarrow> t\<lparr>th_status := BROKEN UNDEFINED_BEHAVIOUR\<rparr>
      | Some pbuff \<Rightarrow>
          (let written_len = ans_write a;
               t' = put_out written_len (drop (unat (th_offset t)) pbuff) t;
               offset = th_offset t + of_int written_len
           in if written_len \<le> 0 then leave None t
              else if offset = th_buff_len t
              then t'\<lparr>th_pbuff := None, th_buff_len := 0, th_offset := 0, th_is_writing := False\<rparr>
              else t'\<lparr>th_offset := offset\<rparr>))"

definition work_length :: "answers \<Rightarrow> bytes \<Rightarrow> thread \<Rightarrow> thread" where
  "work_length a bs t =
     (let buff_len = IVAL bs 0 in
      if length bs \<noteq> 4 then leave None t
      else if buff_len = 0
      then (if ans_write a \<noteq> 1 then leave None (put_out (ans_write a) [RESPONSE_CODE_SUCCESS] t)
            else (put_out 1 [RESPONSE_CODE_SUCCESS] t)\<lparr>th_buff_len := 0, th_done := th_done t @ [PING]\<rparr>)
      else if ans_malloc a
      then t\<lparr>th_buff_len := buff_len, th_pbuff := Some (map (ans_block a) [0..<unat buff_len]),
             th_offset := 0\<rparr>
      else
        (let t' = (put_out (ans_write a) [RESPONSE_CODE_LACK_MEMORY] t)\<lparr>th_starved := True\<rparr>
         in if \<not> th_is_connected t then leave (Some RESPONSE_CODE_LACK_MEMORY) t'
            else t'\<lparr>th_buff_len := 0, th_offset := 0\<rparr>))"

text \<open>The first request of a connection; \<open>remote_id\<close> is copied into an array of 128 bytes.\<close>

definition fits_remote_id :: "bytes \<Rightarrow> bool" where
  "fits_remote_id remote_id \<longleftrightarrow> length remote_id + 1 \<le> 128"

definition work_connect :: "surroundings \<Rightarrow> answers \<Rightarrow> bytes \<Rightarrow> exmdb_request \<Rightarrow> thread \<Rightarrow> thread" where
  "work_connect g a pbuff request t =
     (case rq_payload request of
        STORE_REQUEST (REQ_CONNECT prefix remote_id b_private) \<Rightarrow>
          (case exmdb_parser_check_local (g_local_list g) prefix of
             None \<Rightarrow> reject a RESPONSE_CODE_MISCONFIG_PREFIX t
           | Some b \<Rightarrow>
               if b \<noteq> b_private
               then reject a RESPONSE_CODE_MISCONFIG_MODE (t\<lparr>th_b_private := b\<rparr>)
               else if \<not> fits_remote_id remote_id then t\<lparr>th_status := BROKEN UNDEFINED_BEHAVIOUR\<rparr>
               else
                 (let t' = (put_out (ans_write a) (replicate 5 0) t)
                        \<lparr>th_b_private := b, th_remote_id := remote_id, th_is_connected := True\<rparr>
                  in if ans_write a \<noteq> 5 then leave None t'
                     else t'\<lparr>th_offset := 0, th_buff_len := 0,
                             th_done := th_done t @ [HELLO pbuff request]\<rparr>))
      | STORE_REQUEST (REQ_LISTEN_NOTIFICATION remote_id) \<Rightarrow>
          if \<not> ans_malloc a then reject a RESPONSE_CODE_LACK_MEMORY t
          else if g_max_routers g \<noteq> 0 \<and> g_max_routers g \<le> g_routers_num g
          then reject a RESPONSE_CODE_MAX_REACHED t
          else if \<not> fits_remote_id remote_id then t\<lparr>th_status := BROKEN UNDEFINED_BEHAVIOUR\<rparr>
          else if ans_write a \<noteq> 5 then leave None (put_out (ans_write a) (replicate 5 0) t)
          else (put_out 5 (replicate 5 0) t)\<lparr>th_status := ROUTER remote_id\<rparr>
      | _ \<Rightarrow> reject a RESPONSE_CODE_CONNECT_UNCOMPLETE t)"

text \<open>
  The later ones.  \<open>th_done\<close> gets the exchange as soon as the response is there; its bytes are
  sent in the turns that follow.
\<close>

definition work_call :: "answers \<Rightarrow> bytes \<Rightarrow> exmdb_request \<Rightarrow> thread \<Rightarrow> thread" where
  "work_call a pbuff request t =
     (case ans_dispatch a request of
        None \<Rightarrow> reject a RESPONSE_CODE_DISPATCH_ERROR t
      | Some response \<Rightarrow>
          (case exmdb_ext_push_response response (ans_realloc a) (ans_junk a) of
             Inl err \<Rightarrow>
               if fault err then t\<lparr>th_status := BROKEN err\<rparr>
               else reject a RESPONSE_CODE_PUSH_ERROR t
           | Inr pb \<Rightarrow>
               t\<lparr>th_offset := 0, th_pbuff := Some pb, th_buff_len := of_nat (length pb),
                 th_is_writing := True, th_done := th_done t @ [CALL pbuff request response pb]\<rparr>))"

definition work_request :: "surroundings \<Rightarrow> answers \<Rightarrow> bytes \<Rightarrow> thread \<Rightarrow> thread" where
  "work_request g a pbuff t =
     (case exmdb_ext_pull_request (ans_env a) (ans_alloc a) pbuff of
        Inl err \<Rightarrow>
          if fault err then t\<lparr>th_status := BROKEN err\<rparr>
          else reject a RESPONSE_CODE_PULL_ERROR (t\<lparr>th_pbuff := None\<rparr>)
      | Inr request \<Rightarrow>
          if th_is_connected t then work_call a pbuff request (t\<lparr>th_pbuff := None\<rparr>)
          else work_connect g a pbuff request (t\<lparr>th_pbuff := None\<rparr>))"

definition work_body :: "surroundings \<Rightarrow> answers \<Rightarrow> bytes \<Rightarrow> bytes \<Rightarrow> thread \<Rightarrow> thread" where
  "work_body g a pbuff bs t =
     (let off = unat (th_offset t);
          pbuff' = take off pbuff @ bs @ drop (off + length bs) pbuff;
          offset = th_offset t + of_nat (length bs);
          t' = t\<lparr>th_pbuff := Some pbuff', th_offset := offset\<rparr>
      in if bs = [] then leave None t
         else if offset < th_buff_len t then t'
         else work_request g a pbuff' t')"

definition iterate :: "surroundings \<Rightarrow> answers \<Rightarrow> thread \<Rightarrow> thread" where
  "iterate g a t =
     (if th_b_stop t then leave None t
      else if th_is_writing t then work_write a t
      else if ans_poll a \<noteq> 1 then leave None t
      else case ans_read a of
          None \<Rightarrow> leave None t
        | Some bs \<Rightarrow>
            (let t' = t\<lparr>th_received := th_received t @ bs\<rparr>
             in case th_pbuff t of
                  None \<Rightarrow> work_length a bs t'
                | Some pbuff \<Rightarrow> work_body g a pbuff bs t'))"

subsection \<open>Runs\<close>

text \<open>
  The system calls keep to the sizes they are given: \<open>room_left\<close> is the last argument of \<open>read\<close>
  and \<open>write\<close>.  \<open>exmdb_parser_stop\<close> may raise the flag at any time.
\<close>

definition room_left :: "thread \<Rightarrow> nat" where
  "room_left t =
     (case th_pbuff t of None \<Rightarrow> 4 | Some _ \<Rightarrow> unat (th_buff_len t - th_offset t))"

definition answers_ok :: "answers \<Rightarrow> thread \<Rightarrow> bool" where
  "answers_ok a t \<longleftrightarrow>
     (case ans_read a of None \<Rightarrow> True | Some bs \<Rightarrow> length bs \<le> room_left t) \<and>
     (th_is_writing t \<longrightarrow> ans_write a \<le> int (room_left t))"

inductive reachable :: "(bytes \<times> bool) list \<Rightarrow> thread \<Rightarrow> bool" for local_list where
  start: "reachable local_list new_thread"
| turn: "reachable local_list t \<Longrightarrow> th_status t = RUNNING \<Longrightarrow> answers_ok a t \<Longrightarrow>
     g_local_list g = local_list \<Longrightarrow> reachable local_list (iterate g a t)"
| stop: "reachable local_list t \<Longrightarrow> reachable local_list (t\<lparr>th_b_stop := True\<rparr>)"

definition run :: "surroundings \<Rightarrow> answers list \<Rightarrow> thread \<Rightarrow> thread" where
  "run g as t = fold (iterate g) as t"

subsection \<open>The service\<close>

text \<open>
  What a connection is for: pings at any time, one greeting for a prefix that is served in the
  mode the peer expects, and after it calls, each with its answer.  \<open>service\<close> is the contract;
  \<open>bytes_in\<close> and \<open>bytes_out\<close> say what an exchange looks like on the wire.
\<close>

inductive service :: "(bytes \<times> bool) list \<Rightarrow> bool \<Rightarrow> exchange list \<Rightarrow> bool" for local_list where
  silent: "service local_list False []"
| ping: "service local_list c es \<Longrightarrow> service local_list c (es @ [PING])"
| hello: "service local_list False es \<Longrightarrow>
     exmdb_ext_pull_request env alloc f = Inr r \<Longrightarrow>
     rq_payload r = STORE_REQUEST (REQ_CONNECT prefix remote_id b_private) \<Longrightarrow>
     exmdb_parser_check_local local_list prefix = Some b_private \<Longrightarrow>
     service local_list True (es @ [HELLO f r])"
| call: "service local_list True es \<Longrightarrow>
     exmdb_ext_pull_request env alloc f = Inr r \<Longrightarrow>
     exmdb_ext_push_response response realloc junk = Inr bs \<Longrightarrow>
     service local_list True (es @ [CALL f r response bs])"

primrec bytes_in :: "exchange \<Rightarrow> bytes" where
  "bytes_in PING = SIVAL 0"
| "bytes_in (HELLO f r) = SIVAL (of_nat (length f)) @ f"
| "bytes_in (CALL f r response bs) = SIVAL (of_nat (length f)) @ f"

primrec bytes_out :: "exchange \<Rightarrow> bytes" where
  "bytes_out PING = [RESPONSE_CODE_SUCCESS]"
| "bytes_out (HELLO f r) = replicate 5 0"
| "bytes_out (CALL f r response bs) = bs"

text \<open>What has been read of a request that is not complete, and what is still to be sent.\<close>

definition partial_in :: "thread \<Rightarrow> bytes" where
  "partial_in t =
     (case th_pbuff t of
        None \<Rightarrow> []
      | Some pbuff \<Rightarrow>
          if th_is_writing t then [] else SIVAL (th_buff_len t) @ take (unat (th_offset t)) pbuff)"

definition pending_out :: "thread \<Rightarrow> bytes" where
  "pending_out t =
     (case th_pbuff t of
        None \<Rightarrow> []
      | Some pbuff \<Rightarrow> if th_is_writing t then drop (unat (th_offset t)) pbuff else [])"

end
