(* ===== verification/Parser_Logic.thy ===== *)
theory Parser_Logic
  imports Exmdb_Parser
begin

text \<open>
  The connection of \<open>exmdb_parser.c\<close> keeps its fields consistent, stays inside its buffer, and
  does with its peer what the contract \<open>service\<close> says, however the bytes arrive; and a call that
  has arrived is answered after as many turns as the system calls take.
\<close>

lemmas thread_defs =
  iterate_def work_write_def work_length_def work_body_def work_request_def work_call_def
  work_connect_def reject_def leave_def put_out_def Let_def

subsection \<open>Fields\<close>

definition thread_inv :: "thread \<Rightarrow> bool" where
  "thread_inv t \<longleftrightarrow>
     (case th_pbuff t of
        None \<Rightarrow> \<not> th_is_writing t \<and> th_offset t = 0 \<and> th_buff_len t = 0
      | Some pbuff \<Rightarrow> length pbuff = unat (th_buff_len t) \<and> th_offset t \<le> th_buff_len t \<and>
          (\<not> th_is_writing t \<longrightarrow> th_offset t < th_buff_len t)) \<and>
     (th_is_writing t \<longrightarrow> th_is_connected t)"

lemma thread_inv_start: "thread_inv new_thread"
  by (simp add: thread_inv_def new_thread_def)

lemma thread_inv_frame [simp]:
  "thread_inv (t\<lparr>th_b_stop := b\<rparr>) \<longleftrightarrow> thread_inv t"
  "thread_inv (t\<lparr>th_received := bs\<rparr>) \<longleftrightarrow> thread_inv t"
  by (simp_all add: thread_inv_def split: option.split)

lemma pushed_response_length:
  "exmdb_ext_push_response r realloc junk = Inr bs \<Longrightarrow> length bs < 2 ^ 32"
proof -
  have "length (take (unat cb) xs) < 2 ^ 32" for cb :: u32 and xs :: bytes
    using word_bounds(3) [of cb] by simp
  then show "exmdb_ext_push_response r realloc junk = Inr bs \<Longrightarrow> length bs < 2 ^ 32"
    by (auto simp: exmdb_ext_push_response_def write_datagram_def finish_datagram_def Let_def
        split: option.splits prod.splits sum.splits)
qed

text \<open>The offset after so many bytes.\<close>

lemma offset_after:
  assumes "n \<le> unat (len - off)" "off \<le> (len :: u32)"
  shows "unat (off + of_nat n) = unat off + n" "off + of_nat n \<le> len"
proof -
  have le: "unat off \<le> unat len" "unat (len - off) = unat len - unat off"
    using assms(2) by (simp_all add: unat_sub word_le_nat_alt)
  then have "unat off + n \<le> unat len" using assms(1) by simp
  moreover from this show "unat (off + of_nat n) = unat off + n"
    using word_bounds(3) [of len] by (intro unat_add_of_nat) simp
  ultimately show "off + of_nat n \<le> len" by (simp add: word_le_nat_alt)
qed

lemma of_int_nat: "0 < n \<Longrightarrow> (of_int n :: u32) = of_nat (nat n)"
  by simp

lemma write_inv:
  assumes "thread_inv t" "th_is_writing t" "ans_write a \<le> int (room_left t)"
    "th_status (work_write a t) = RUNNING"
  shows "thread_inv (work_write a t)"
proof -
  obtain pbuff where p: "th_pbuff t = Some pbuff"
    using assms(1,2) by (auto simp: thread_inv_def split: option.splits)
  show ?thesis
  proof (cases "ans_write a \<le> 0")
    case True
    with p assms show ?thesis by (simp add: thread_defs)
  next
    case False
    then have "nat (ans_write a) \<le> unat (th_buff_len t - th_offset t)"
      using assms(3) p by (simp add: room_left_def nat_le_iff)
    then have "th_offset t + of_nat (nat (ans_write a)) \<le> th_buff_len t"
      using assms(1) p by (intro offset_after(2)) (auto simp: thread_inv_def)
    with False assms(1,2) p show ?thesis
      by (auto simp: thread_defs thread_inv_def)
  qed
qed

lemma length_inv:
  "thread_inv t \<Longrightarrow> th_pbuff t = None \<Longrightarrow> thread_inv (work_length a bs t)"
  by (auto simp: thread_defs thread_inv_def word_less_nat_alt unat_gt_0)

text \<open>The only ways to go on once a request is complete.\<close>

lemma connect_running:
  assumes "th_status (work_connect g a pbuff r t) = RUNNING"
  obtains prefix remote_id b_private where
    "rq_payload r = STORE_REQUEST (REQ_CONNECT prefix remote_id b_private)"
    "exmdb_parser_check_local (g_local_list g) prefix = Some b_private"
    "fits_remote_id remote_id" "ans_write a = 5"
    "work_connect g a pbuff r t = t\<lparr>th_sent := th_sent t @ replicate 5 0,
       th_b_private := b_private, th_remote_id := remote_id, th_is_connected := True,
       th_offset := 0, th_buff_len := 0, th_done := th_done t @ [HELLO pbuff r]\<rparr>"
proof (cases "rq_payload r")
  case (STORE_REQUEST p)
  show thesis
  proof (cases p)
    case (REQ_CONNECT prefix remote_id b_private)
    with assms STORE_REQUEST that show thesis
      by (auto simp: work_connect_def reject_def leave_def put_out_def Let_def numeral_eq_Suc
          split: option.splits if_splits)
  qed (use assms STORE_REQUEST in \<open>auto simp: work_connect_def reject_def leave_def put_out_def
      split: if_splits\<close>)
qed (use assms in \<open>auto simp: work_connect_def reject_def leave_def put_out_def\<close>)

lemma call_running:
  assumes "th_status (work_call a pbuff r t) = RUNNING"
  obtains response pb where "ans_dispatch a r = Some response"
    "exmdb_ext_push_response response (ans_realloc a) (ans_junk a) = Inr pb"
    "work_call a pbuff r t = t\<lparr>th_offset := 0, th_pbuff := Some pb,
       th_buff_len := of_nat (length pb), th_is_writing := True,
       th_done := th_done t @ [CALL pbuff r response pb]\<rparr>"
  using assms
  by (auto simp: work_call_def reject_def leave_def put_out_def split: option.splits sum.splits if_splits)

lemma request_running:
  assumes "th_status (work_request g a pbuff t) = RUNNING"
  obtains r where "exmdb_ext_pull_request (ans_env a) (ans_alloc a) pbuff = Inr r"
    "work_request g a pbuff t =
      (if th_is_connected t then work_call a pbuff r (t\<lparr>th_pbuff := None\<rparr>)
       else work_connect g a pbuff r (t\<lparr>th_pbuff := None\<rparr>))"
  using assms
  by (auto simp: work_request_def reject_def leave_def put_out_def split: sum.splits if_splits)

lemma request_inv:
  assumes "\<not> th_is_writing t" "th_status (work_request g a pbuff t) = RUNNING"
  shows "thread_inv (work_request g a pbuff t)"
proof -
  obtain r where r: "work_request g a pbuff t =
      (if th_is_connected t then work_call a pbuff r (t\<lparr>th_pbuff := None\<rparr>)
       else work_connect g a pbuff r (t\<lparr>th_pbuff := None\<rparr>))"
    using request_running [OF assms(2)] by metis
  show ?thesis
  proof (cases "th_is_connected t")
    case True
    with r assms(2) have "th_status (work_call a pbuff r (t\<lparr>th_pbuff := None\<rparr>)) = RUNNING" by simp
    with r True show ?thesis
      by (elim call_running)
        (auto simp: thread_inv_def unat_of_nat_u32 dest!: pushed_response_length)
  next
    case False
    with r assms(2) have "th_status (work_connect g a pbuff r (t\<lparr>th_pbuff := None\<rparr>)) = RUNNING" by simp
    with r False assms(1) show ?thesis
      by (elim connect_running) (simp add: thread_inv_def)
  qed
qed

lemma body_inv:
  assumes "thread_inv t" "th_pbuff t = Some pbuff" "\<not> th_is_writing t"
    "length bs \<le> unat (th_buff_len t - th_offset t)"
    "th_status (work_body g a pbuff bs t) = RUNNING"
  shows "thread_inv (work_body g a pbuff bs t)"
proof -
  have "unat (th_offset t + of_nat (length bs)) = unat (th_offset t) + length bs"
    "th_offset t + of_nat (length bs) \<le> th_buff_len t"
    using offset_after [OF assms(4)] assms(1,2) by (auto simp: thread_inv_def)
  with assms show ?thesis
    by (auto simp: work_body_def Let_def leave_def thread_inv_def word_le_nat_alt
        intro!: request_inv [unfolded thread_inv_def])
qed

lemma iterate_inv:
  assumes "thread_inv t" "answers_ok a t" "th_status t = RUNNING"
    "th_status (iterate g a t) = RUNNING"
  shows "thread_inv (iterate g a t)"
  using assms
  by (auto simp: iterate_def leave_def Let_def answers_ok_def room_left_def
      intro!: write_inv length_inv body_inv split: if_splits option.splits)


theorem reachable_inv:
  "reachable L t \<Longrightarrow> th_status t = RUNNING \<Longrightarrow> thread_inv t"
proof (induction rule: reachable.induct)
  case (turn t a g)
  then show ?case by (blast intro: iterate_inv)
qed (simp_all add: thread_inv_start)

subsection \<open>The contract\<close>

lemma low_half: "ucast ((ucast (x :: u32) OR push_bit 32 y) AND 0xFFFFFFFF :: u64) = x"
proof -
  have "(0xFFFFFFFF :: u64) = mask 32" by (simp add: mask_eq_exp_minus_1)
  then show ?thesis unfolding \<open>0xFFFFFFFF = mask 32\<close> by (auto intro!: bit_word_eqI simp: bit_simps)
qed

lemma SIVAL_IVAL:
  assumes "length bs = 4"
  shows "SIVAL (IVAL bs 0) = bs"
proof -
  let ?bs = "bs @ replicate 4 0"
  have "take 4 (SBVAL (BVAL ?bs 0)) = bs" using assms by (simp add: SBVAL_BVAL)
  moreover have "take 4 (SBVAL (BVAL ?bs 0)) = SIVAL (IVAL ?bs 0)"
    by (simp add: SBVAL_def BVAL_def low_half)
  moreover have "IVAL ?bs 0 = IVAL bs 0"
    using assms by (simp add: IVAL_def SVAL_def nth_append)
  ultimately show ?thesis by simp
qed

text \<open>How the history of a connection and what has passed through its socket belong together.\<close>

definition follows :: "(bytes \<times> bool) list \<Rightarrow> thread \<Rightarrow> bool" where
  "follows L t \<longleftrightarrow> service L (th_is_connected t) (th_done t) \<and>
     th_received t = concat (map bytes_in (th_done t)) @ partial_in t \<and>
     th_sent t @ pending_out t = concat (map bytes_out (th_done t))"

lemma follows_stop [simp]: "follows L (t\<lparr>th_b_stop := b\<rparr>) \<longleftrightarrow> follows L t"
  by (simp add: follows_def partial_in_def pending_out_def split: option.split)

lemma follows_start: "follows L new_thread"
  by (simp add: follows_def new_thread_def partial_in_def pending_out_def service.silent)

lemma write_follows:
  assumes "thread_inv t" "follows L t" "th_is_writing t" "ans_write a \<le> int (room_left t)"
    "th_status (work_write a t) = RUNNING"
  shows "follows L (work_write a t)"
proof -
  obtain pbuff where p: "th_pbuff t = Some pbuff" "length pbuff = unat (th_buff_len t)"
      "th_offset t \<le> th_buff_len t"
    using assms(1,3) by (auto simp: thread_inv_def split: option.splits)
  show ?thesis
  proof (cases "ans_write a \<le> 0")
    case True
    with p assms show ?thesis by (simp add: thread_defs)
  next
    case False
    then obtain n where n: "ans_write a = int n" "0 < n"
      by (metis int_nat_eq linorder_not_le of_nat_0_less_iff zero_less_imp_eq_int)
    have "nat (ans_write a) \<le> unat (th_buff_len t - th_offset t)"
      using assms(4) p by (simp add: room_left_def nat_le_iff)
    with n have "n \<le> unat (th_buff_len t - th_offset t)" by simp
    note after = offset_after [OF this p(3)]
    show ?thesis
    proof (cases "th_offset t + of_nat n = th_buff_len t")
      case True
      with after p have "drop (unat (th_offset t) + n) pbuff = []" by simp
      then have "drop n (drop (unat (th_offset t)) pbuff) = []" by (simp add: add.commute)
      then have "take n (drop (unat (th_offset t)) pbuff) = drop (unat (th_offset t)) pbuff"
        by (metis append_Nil2 append_take_drop_id)
      with True n p assms(2,3) show ?thesis
        by (simp add: thread_defs follows_def partial_in_def pending_out_def)
    next
      case False
      have "take n (drop (unat (th_offset t)) pbuff) @ drop (unat (th_offset t) + n) pbuff =
          drop (unat (th_offset t)) pbuff"
        by (metis add.commute append_take_drop_id drop_drop)
      with False n p after assms(2,3) show ?thesis
        by (simp add: thread_defs follows_def partial_in_def pending_out_def)
    qed
  qed
qed

lemma length_follows:
  assumes "follows L t" "th_pbuff t = None" "\<not> th_is_writing t"
    "th_status (work_length a bs (t\<lparr>th_received := th_received t @ bs\<rparr>)) = RUNNING"
    "\<not> th_starved (work_length a bs (t\<lparr>th_received := th_received t @ bs\<rparr>))"
  shows "follows L (work_length a bs (t\<lparr>th_received := th_received t @ bs\<rparr>))"
proof -
  have "length bs = 4" using assms(4) by (auto simp: thread_defs split: if_splits)
  then have "SIVAL (IVAL bs 0) = bs" by (rule SIVAL_IVAL)
  moreover from this have "IVAL bs 0 = 0 \<Longrightarrow> bs = SIVAL 0" by metis
  ultimately show ?thesis
    using assms
    by (auto simp: thread_defs follows_def partial_in_def pending_out_def service.ping
        split: if_splits)
qed

lemma body_follows:
  assumes "thread_inv t" "follows L t" "th_pbuff t = Some pbuff" "\<not> th_is_writing t"
    "length bs \<le> unat (th_buff_len t - th_offset t)" "g_local_list g = L"
    "th_status (work_body g a pbuff bs (t\<lparr>th_received := th_received t @ bs\<rparr>)) = RUNNING"
  shows "follows L (work_body g a pbuff bs (t\<lparr>th_received := th_received t @ bs\<rparr>))"
proof -
  let ?off = "unat (th_offset t)"
  let ?pbuff = "take ?off pbuff @ bs @ drop (?off + length bs) pbuff"
  let ?t = "t\<lparr>th_received := th_received t @ bs, th_pbuff := Some ?pbuff,
    th_offset := th_offset t + of_nat (length bs)\<rparr>"
  have inv: "length pbuff = unat (th_buff_len t)" "th_offset t \<le> th_buff_len t"
    using assms(1,3) by (simp_all add: thread_inv_def)
  note after = offset_after [OF assms(5) inv(2)]
  have le: "?off + length bs \<le> length pbuff"
    using after inv by (simp add: word_le_nat_alt)
  have received: "th_received ?t = concat (map bytes_in (th_done t)) @ SIVAL (th_buff_len t) @
      take (?off + length bs) ?pbuff"
    and sent: "th_sent t = concat (map bytes_out (th_done t))"
    using assms(2-4) le by (simp_all add: follows_def partial_in_def pending_out_def)
  have step: "work_body g a pbuff bs (t\<lparr>th_received := th_received t @ bs\<rparr>) =
      (if bs = [] then leave None (t\<lparr>th_received := th_received t @ bs\<rparr>)
       else if th_offset ?t < th_buff_len t then ?t else work_request g a ?pbuff ?t)"
    by (simp add: work_body_def Let_def)
  show ?thesis
  proof (cases "th_offset ?t < th_buff_len t")
    case True
    with step received sent assms after show ?thesis
      by (auto simp: follows_def partial_in_def pending_out_def leave_def)
  next
    case False
    with after have "th_offset t + of_nat (length bs) = th_buff_len t" by simp
    with after inv le have all: "?off + length bs = length ?pbuff"
        "of_nat (length ?pbuff) = th_buff_len t"
      by (simp_all add: word_unat_eq_iff)
    from False step assms(7) have run: "th_status (work_request g a ?pbuff ?t) = RUNNING"
      and to: "work_body g a pbuff bs (t\<lparr>th_received := th_received t @ bs\<rparr>) = work_request g a ?pbuff ?t"
      by (auto simp: leave_def split: if_splits)
    have "follows L (work_request g a ?pbuff ?t)"
    using run proof (rule request_running)
      fix r
      assume pull: "exmdb_ext_pull_request (ans_env a) (ans_alloc a) ?pbuff = Inr r"
        and req: "work_request g a ?pbuff ?t =
          (if th_is_connected ?t then work_call a ?pbuff r (?t\<lparr>th_pbuff := None\<rparr>)
           else work_connect g a ?pbuff r (?t\<lparr>th_pbuff := None\<rparr>))"
      show ?thesis
      proof (cases "th_is_connected t")
        case True
        with run req have "th_status (work_call a ?pbuff r (?t\<lparr>th_pbuff := None\<rparr>)) = RUNNING"
          by simp
        then show ?thesis
        proof (rule call_running)
          fix response pb
          assume push: "exmdb_ext_push_response response (ans_realloc a) (ans_junk a) = Inr pb"
            and call: "work_call a ?pbuff r (?t\<lparr>th_pbuff := None\<rparr>) =
              ?t\<lparr>th_pbuff := None\<rparr>\<lparr>th_offset := 0, th_pbuff := Some pb,
                th_buff_len := of_nat (length pb), th_is_writing := True,
                th_done := th_done (?t\<lparr>th_pbuff := None\<rparr>) @ [CALL ?pbuff r response pb]\<rparr>"
          show ?thesis
            unfolding req call if_P [OF True]
            using True assms(2) received sent all pull push
            by (simp add: follows_def partial_in_def pending_out_def service.call)
        qed
      next
        case False
        with run req have "th_status (work_connect g a ?pbuff r (?t\<lparr>th_pbuff := None\<rparr>)) = RUNNING"
          by simp
        then show ?thesis
        proof (rule connect_running)
          fix prefix remote_id b_private
          assume c: "rq_payload r = STORE_REQUEST (REQ_CONNECT prefix remote_id b_private)"
              "exmdb_parser_check_local (g_local_list g) prefix = Some b_private"
            and connect: "work_connect g a ?pbuff r (?t\<lparr>th_pbuff := None\<rparr>) =
              ?t\<lparr>th_pbuff := None\<rparr>\<lparr>th_sent := th_sent (?t\<lparr>th_pbuff := None\<rparr>) @ replicate 5 0,
                th_b_private := b_private, th_remote_id := remote_id, th_is_connected := True,
                th_offset := 0, th_buff_len := 0,
                th_done := th_done (?t\<lparr>th_pbuff := None\<rparr>) @ [HELLO ?pbuff r]\<rparr>"
          show ?thesis
            unfolding req connect if_not_P [OF False]
            using False assms(2,4,6) received sent all pull c
            by (auto simp: follows_def partial_in_def pending_out_def intro: service.hello)
        qed
      qed
    qed
    with to show ?thesis by simp
  qed
qed


lemma iterate_follows:
  assumes "thread_inv t" "follows L t" "answers_ok a t" "g_local_list g = L"
    "th_status (iterate g a t) = RUNNING" "\<not> th_starved (iterate g a t)"
  shows "follows L (iterate g a t)"
proof (cases "th_is_writing t")
  case True
  with assms show ?thesis
    by (auto simp: iterate_def leave_def answers_ok_def intro!: write_follows split: if_splits)
next
  case False
  with assms(5) obtain bs where bs: "ans_read a = Some bs"
    by (auto simp: iterate_def leave_def split: if_splits option.splits)
  show ?thesis
  proof (cases "th_pbuff t")
    case None
    with False bs assms show ?thesis
      by (auto simp: iterate_def leave_def Let_def intro!: length_follows split: if_splits)
  next
    case (Some pbuff)
    with False bs assms show ?thesis
      by (auto simp: iterate_def leave_def Let_def answers_ok_def room_left_def
          intro!: body_follows split: if_splits)
  qed
qed

lemma starved_connect: "th_starved (work_connect g a pbuff r t) = th_starved t"
proof (cases "rq_payload r")
  case (STORE_REQUEST p)
  then show ?thesis
    by (cases p) (simp_all add: work_connect_def reject_def leave_def put_out_def Let_def
        split: option.split)
qed (simp_all add: work_connect_def reject_def leave_def put_out_def)

lemma starved_request: "th_starved (work_request g a pbuff t) = th_starved t"
  by (simp add: work_request_def work_call_def reject_def leave_def put_out_def starved_connect
      split: sum.split option.split)

lemma starved_iterate: "th_starved t \<Longrightarrow> th_starved (iterate g a t)"
  by (simp add: iterate_def work_write_def work_length_def work_body_def starved_request leave_def
      put_out_def Let_def split: option.split)

lemma reachable_follows:
  "reachable L t \<Longrightarrow> th_status t = RUNNING \<Longrightarrow> \<not> th_starved t \<Longrightarrow> follows L t"
proof (induction rule: reachable.induct)
  case start
  show ?case by (rule follows_start)
next
  case (turn t a g)
  then show ?case by (meson iterate_follows reachable_inv starved_iterate)
next
  case (stop t)
  then show ?case by simp
qed


subsection \<open>A call is answered\<close>

text \<open>
  What the system calls answer while a call comes in and its response goes out: the four bytes of
  the length at once, then the request in any pieces, then the response in any pieces.
\<close>

definition receives :: "bytes \<Rightarrow> answers \<Rightarrow> bool" where
  "receives bs a \<longleftrightarrow> ans_poll a = 1 \<and> ans_read a = Some bs"

definition pieces :: "answers list \<Rightarrow> bytes \<Rightarrow> bool" where
  "pieces as f \<longleftrightarrow> (\<exists>ps. list_all2 receives ps as \<and> [] \<notin> set ps \<and> concat ps = f)"

definition takes_all :: "answers list \<Rightarrow> bytes \<Rightarrow> bool" where
  "takes_all as bs \<longleftrightarrow> (\<forall>a\<in>set as. 0 < ans_write a) \<and> sum_list (map ans_write as) = int (length bs)"

definition idle :: "thread \<Rightarrow> bool" where
  "idle t \<longleftrightarrow> th_status t = RUNNING \<and> \<not> th_b_stop t \<and> th_pbuff t = None \<and> \<not> th_is_writing t \<and>
     th_offset t = 0 \<and> th_buff_len t = 0"

lemma run_simps [simp]:
  "run g [] t = t" "run g (a # as) t = run g as (iterate g a t)"
  "run g (as @ bs) t = run g bs (run g as t)"
  by (simp_all add: run_def)

lemma run_body:
  assumes "list_all2 receives ps as" "[] \<notin> set ps" "\<not> th_b_stop t" "\<not> th_is_writing t"
    "th_pbuff t = Some (got @ rest)" "th_offset t = of_nat (length got)"
    "length got + length (concat ps) < unat (th_buff_len t)"
    "length got + length rest = unat (th_buff_len t)"
  shows "run g as t = t\<lparr>th_received := th_received t @ concat ps,
    th_pbuff := Some (got @ concat ps @ drop (length (concat ps)) rest),
    th_offset := of_nat (length (got @ concat ps))\<rparr>"
  using assms
proof (induction ps as arbitrary: t got rest rule: list_all2_induct)
  case Nil
  then show ?case by simp
next
  case (Cons p ps a as)
  have small: "length got + length p < 2 ^ 32"
    using Cons.prems(6) word_bounds(3) [of "th_buff_len t"] by simp
  have off: "unat (th_offset t) = length got"
    using Cons.prems(5) small by (simp add: unat_of_nat_u32)
  have "unat (of_nat (length got + length p) :: u32) < unat (th_buff_len t)"
    using small Cons.prems(6) by (simp add: unat_of_nat_u32 del: of_nat_add)
  then have less: "th_offset t + of_nat (length p) < th_buff_len t"
    using Cons.prems(5) by (simp add: word_less_nat_alt)
  have "iterate g a t = t\<lparr>th_received := th_received t @ p,
      th_pbuff := Some ((got @ p) @ drop (length p) rest), th_offset := of_nat (length (got @ p))\<rparr>"
    using Cons.prems(1-5) Cons.hyps(1) off less
    by (auto simp: iterate_def receives_def work_body_def Let_def)
  moreover have "length p \<le> length rest" using Cons.prems(6,7) by simp
  ultimately show ?case
    using Cons.prems by (simp add: Cons.IH [where got = "got @ p" and rest = "drop (length p) rest"] add.commute)
qed

lemma positive_sum:
  "\<forall>x\<in>set xs. 0 < (h x :: int) \<Longrightarrow> 0 \<le> sum_list (map h xs) \<and> (sum_list (map h xs) = 0 \<longrightarrow> xs = [])"
  by (induction xs) auto

lemma run_write:
  assumes "\<forall>a\<in>set as. 0 < ans_write a" "sum_list (map ans_write as) = int (length bs)" "bs \<noteq> []"
    "\<not> th_b_stop t" "th_is_writing t" "th_pbuff t = Some (gone @ bs)"
    "th_offset t = of_nat (length gone)" "th_buff_len t = of_nat (length gone + length bs)"
    "length gone + length bs < 2 ^ 32"
  shows "run g as t = t\<lparr>th_sent := th_sent t @ bs, th_pbuff := None, th_buff_len := 0,
    th_offset := 0, th_is_writing := False\<rparr>"
  using assms
proof (induction as arbitrary: t gone bs)
  case Nil
  then show ?case by simp
next
  case (Cons a as)
  define n where "n = nat (ans_write a)"
  have n: "ans_write a = int n" "0 < n" using Cons.prems(1) by (simp_all add: n_def)
  have rest: "sum_list (map ans_write as) = int (length bs) - int n" "0 \<le> sum_list (map ans_write as)"
    using Cons.prems(1,2) n positive_sum [of as ans_write] by simp_all
  then have le: "n \<le> length bs" by simp
  have off: "unat (th_offset t) = length gone"
    using Cons.prems(7,9) by (simp add: unat_of_nat_u32)
  have step: "th_offset t + of_nat n = of_nat (length (gone @ take n bs))"
    using Cons.prems(7) le by simp
  show ?case
  proof (cases "n = length bs")
    case True
    with rest have "sum_list (map ans_write as) = 0" by simp
    with Cons.prems(1) have "as = []" using positive_sum [of as ans_write] by simp
    with True n off step Cons.prems show ?thesis
      by (simp add: iterate_def work_write_def put_out_def Let_def)
  next
    case False
    with le have less: "n < length bs" by simp
    have "th_offset t + of_nat n \<noteq> th_buff_len t"
    proof
      assume "th_offset t + of_nat n = th_buff_len t"
      then have "unat (of_nat (length gone + n) :: u32) = unat (of_nat (length gone + length bs) :: u32)"
        using Cons.prems(7,8) by simp
      with less Cons.prems(9) show False by (simp add: unat_of_nat_u32 del: of_nat_add)
    qed
    with n off step Cons.prems have "iterate g a t = t\<lparr>th_sent := th_sent t @ take n bs,
        th_offset := of_nat (length (gone @ take n bs))\<rparr>"
      by (simp add: iterate_def work_write_def put_out_def Let_def)
    moreover have "run g as (t\<lparr>th_sent := th_sent t @ take n bs,
          th_offset := of_nat (length (gone @ take n bs))\<rparr>) =
        (t\<lparr>th_sent := th_sent t @ take n bs, th_offset := of_nat (length (gone @ take n bs))\<rparr>)
        \<lparr>th_sent := (th_sent t @ take n bs) @ drop n bs, th_pbuff := None, th_buff_len := 0,
          th_offset := 0, th_is_writing := False\<rparr>"
      using Cons.prems rest(1) less by (subst Cons.IH [of "drop n bs" _ "gone @ take n bs"]) simp_all
    ultimately show ?thesis by simp
  qed
qed


lemma run_length:
  assumes "idle t" "receives (SIVAL (of_nat n)) a" "ans_malloc a" "0 < n" "n < 2 ^ 32"
  shows "iterate g a t = t\<lparr>th_received := th_received t @ SIVAL (of_nat n),
    th_buff_len := of_nat n, th_pbuff := Some (map (ans_block a) [0..<n]), th_offset := 0\<rparr>"
proof -
  have "(of_nat n :: u32) \<noteq> 0" using assms(4,5) by (simp add: word_unat_eq_iff unat_of_nat_u32)
  with assms show ?thesis
    by (simp add: iterate_def idle_def receives_def work_length_def unat_of_nat_u32 Let_def)
qed

lemma run_request:
  assumes "\<not> th_b_stop t" "\<not> th_is_writing t" "th_pbuff t = Some pbuff" "length pbuff = length f"
    "th_offset t = 0" "th_buff_len t = of_nat (length f)" "f \<noteq> []" "length f < 2 ^ 32"
    "pieces as f"
  shows "as \<noteq> [] \<and> run g as t = work_request g (last as) f
    (t\<lparr>th_received := th_received t @ f, th_pbuff := Some f, th_offset := of_nat (length f)\<rparr>)"
proof -
  obtain ps where ps: "list_all2 receives ps as" "[] \<notin> set ps" "concat ps = f"
    using assms(9) by (auto simp: pieces_def)
  with assms(7) have "ps \<noteq> []" by auto
  then obtain qs p where snoc: "ps = qs @ [p]" by (metis rev_exhaust)
  with ps(1) obtain bs a where as: "as = bs @ [a]" "list_all2 receives qs bs" "receives p a"
    by (auto simp: list_all2_append1 list_all2_Cons1)
  have f: "f = concat qs @ p" "p \<noteq> []" "[] \<notin> set qs" using ps snoc by auto
  let ?n = "length (concat qs)"
  have len: "unat (th_buff_len t) = length f" using assms(6,8) by (simp add: unat_of_nat_u32)
  let ?t = "t\<lparr>th_received := th_received t @ concat qs,
    th_pbuff := Some (concat qs @ drop ?n pbuff), th_offset := of_nat ?n\<rparr>"
  have run: "run g bs t = ?t"
    using run_body [OF as(2) f(3) assms(1,2), of "[]" pbuff g] assms(3-5) len f by simp
  have off: "unat (of_nat ?n :: u32) = ?n" using f(1) assms(8) by (simp add: unat_of_nat_u32)
  have drop: "drop (?n + length p) pbuff = []" using f(1) assms(4) by simp
  have "iterate g a ?t = work_request g a f
      (t\<lparr>th_received := th_received t @ f, th_pbuff := Some f, th_offset := of_nat (length f)\<rparr>)"
    using as(3) f assms(1,2,6) off drop
    by (simp add: iterate_def receives_def work_body_def Let_def)
  with run as(1) show ?thesis by simp
qed

text \<open>How a call runs: \<open>hd\<close>, \<open>body\<close> and \<open>out\<close> are the answers to its three parts.\<close>

lemma call_runs:
  assumes "idle t" "th_is_connected t" "f \<noteq> []" "length f < 2 ^ 32"
    "receives (SIVAL (of_nat (length f))) header" "ans_malloc header" "pieces body f"
    "exmdb_ext_pull_request (ans_env (last body)) (ans_alloc (last body)) f = Inr r"
    "ans_dispatch (last body) r = Some response"
    "exmdb_ext_push_response response (ans_realloc (last body)) (ans_junk (last body)) = Inr bs"
    "bs \<noteq> []" "takes_all out bs"
  shows "run g (header # body @ out) t =
    t\<lparr>th_received := th_received t @ SIVAL (of_nat (length f)) @ f, th_sent := th_sent t @ bs,
      th_done := th_done t @ [CALL f r response bs]\<rparr>"
proof -
  let ?f = "th_received t @ SIVAL (of_nat (length f))"
  let ?t = "t\<lparr>th_received := ?f, th_buff_len := of_nat (length f),
    th_pbuff := Some (map (ans_block header) [0..<length f]), th_offset := 0\<rparr>"
  have 1: "iterate g header t = ?t"
    using run_length [OF assms(1,5,6)] assms(3,4) by simp
  have 2: "run g body ?t = ?t\<lparr>th_received := ?f @ f, th_offset := 0, th_pbuff := Some bs,
      th_buff_len := of_nat (length bs), th_is_writing := True,
      th_done := th_done t @ [CALL f r response bs]\<rparr>"
    using run_request [of ?t "map (ans_block header) [0..<length f]" f body g] assms
    by (simp add: idle_def work_request_def work_call_def)
  have 3: "run g out (?t\<lparr>th_received := ?f @ f, th_offset := 0, th_pbuff := Some bs,
      th_buff_len := of_nat (length bs), th_is_writing := True,
      th_done := th_done t @ [CALL f r response bs]\<rparr>) =
    ?t\<lparr>th_received := ?f @ f, th_done := th_done t @ [CALL f r response bs],
      th_sent := th_sent t @ bs, th_pbuff := None, th_buff_len := 0, th_offset := 0,
      th_is_writing := False\<rparr>"
    using assms(1,11,12) pushed_response_length [OF assms(10)]
    by (subst run_write [where gone = "[]" and bs = bs]) (simp_all add: idle_def takes_all_def)
  show ?thesis
    unfolding run_simps 1 2 3 using assms(1) by (intro thread.equality) (simp_all add: idle_def)
qed

end
