(* ===== verification/Exmdb_Client.thy ===== *)
theory Exmdb_Client
  imports Exmdb_Parser
begin

text \<open>
  The other end of a connection: \<open>exmdb_client.c\<close>, as far as it moves requests and responses.
  The client keeps for every server that it knows a pool of connections; a call takes one out,
  sends, waits for the response and puts it back, and a connection that has failed waits in a
  list of its own until \<open>scan_work_func\<close> has opened it again.

  As in the parser, what the system calls answer is an argument: a list with one entry for every
  turn of a loop over \<open>poll\<close>.  \<open>WAITING\<close> says that the entries have not been enough.
\<close>

subsection \<open>Sockets\<close>

datatype 'a outcome = WAITING | FAILS | BREAKS | GETS 'a

record socket_answer =
  io_poll :: int
  io_read :: "bytes option"
  io_write :: int
  io_alloc :: bool

text \<open>\<open>got\<close> is what the buffer holds before \<open>offset\<close>.\<close>

fun read_rest :: "u32 \<Rightarrow> bytes \<Rightarrow> socket_answer list \<Rightarrow> bytes outcome" where
  "read_rest cb got [] = WAITING"
| "read_rest cb got (a # as) =
     (if io_poll a \<noteq> 1 then FAILS
      else case io_read a of
          None \<Rightarrow> FAILS
        | Some bs \<Rightarrow>
            if bs = [] then FAILS
            else if of_nat (length got) + of_nat (length bs) = cb then GETS (got @ bs)
            else read_rest cb (got @ bs) as)"

text \<open>
  The first \<open>read\<close> asks for five bytes.  A length that wraps gives a buffer of less than five
  bytes, into which five are copied.
\<close>

fun exmdb_client_read_socket :: "socket_answer list \<Rightarrow> bytes outcome" where
  "exmdb_client_read_socket [] = WAITING"
| "exmdb_client_read_socket (a # as) =
     (if io_poll a \<noteq> 1 then FAILS
      else case io_read a of
          None \<Rightarrow> FAILS
        | Some resp_buff \<Rightarrow>
            if length resp_buff = 1 then (if io_alloc a then GETS resp_buff else FAILS)
            else if length resp_buff = 5
            then (let cb = IVAL resp_buff 1 + 5
                  in if \<not> io_alloc a then FAILS
                     else if cb < 5 then BREAKS
                     else if cb = 5 then GETS resp_buff
                     else read_rest cb resp_buff as)
            else FAILS)"

fun exmdb_client_write_socket :: "bytes \<Rightarrow> u32 \<Rightarrow> socket_answer list \<Rightarrow> unit outcome" where
  "exmdb_client_write_socket pbin off [] = WAITING"
| "exmdb_client_write_socket pbin off (a # as) =
     (if io_poll a \<noteq> 1 then FAILS
      else if io_write a \<le> 0 then FAILS
      else if off + of_int (io_write a) = of_nat (length pbin) then GETS ()
      else exmdb_client_write_socket pbin (off + of_int (io_write a)) as)"

subsection \<open>State\<close>

text \<open>\<open>cn_node\<close> is the address of a \<open>REMOTE_CONN\<close>, \<open>cn_psvr\<close> the position of its server.\<close>

record remote_conn =
  cn_node :: nat
  cn_last_time :: int
  cn_psvr :: nat
  cn_sockd :: int

record remote_svr =
  sv_conn_list :: "remote_conn list"
  sv_prefix :: bytes
  sv_b_private :: bool

record client =
  g_server_list :: "remote_svr list"
  g_lost_list :: "remote_conn list"
  g_client_local_list :: "(bytes \<times> bool) list"

text \<open>\<open>strncmp\<close> with the length of a prefix without zero bytes.\<close>

definition has_prefix :: "bytes \<Rightarrow> bytes \<Rightarrow> bool" where
  "has_prefix p dir \<longleftrightarrow> take (length p) dir = p"

fun exmdb_client_check_local :: "(bytes \<times> bool) list \<Rightarrow> bytes \<Rightarrow> bool option" where
  "exmdb_client_check_local [] dir = None"
| "exmdb_client_check_local ((p, b_private) # svrs) dir =
     (if has_prefix p dir then Some b_private else exmdb_client_check_local svrs dir)"

fun get_from_head :: "bytes \<Rightarrow> remote_svr list \<Rightarrow> (remote_conn \<times> remote_svr list) option" where
  "get_from_head dir [] = None"
| "get_from_head dir (sv # svrs) =
     (if has_prefix (sv_prefix sv) dir
      then (case sv_conn_list sv of
              [] \<Rightarrow> None
            | pconn # conns \<Rightarrow> Some (pconn, sv\<lparr>sv_conn_list := conns\<rparr> # svrs))
      else map_option (\<lambda>(pconn, svrs). (pconn, sv # svrs)) (get_from_head dir svrs))"

definition exmdb_client_get_connection :: "bytes \<Rightarrow> client \<Rightarrow> (remote_conn \<times> client) option" where
  "exmdb_client_get_connection dir c =
     map_option (\<lambda>(pconn, svrs). (pconn, c\<lparr>g_server_list := svrs\<rparr>)) (get_from_head dir (g_server_list c))"

definition pool_append :: "remote_conn \<Rightarrow> remote_svr list \<Rightarrow> remote_svr list" where
  "pool_append pconn svrs =
     svrs[cn_psvr pconn := (svrs ! cn_psvr pconn)
            \<lparr>sv_conn_list := sv_conn_list (svrs ! cn_psvr pconn) @ [pconn]\<rparr>]"

definition exmdb_client_put_connection :: "remote_conn \<Rightarrow> bool \<Rightarrow> client \<Rightarrow> client" where
  "exmdb_client_put_connection pconn b_lost c =
     (if \<not> b_lost then c\<lparr>g_server_list := pool_append pconn (g_server_list c)\<rparr>
      else c\<lparr>g_lost_list := g_lost_list c @ [pconn\<lparr>cn_sockd := -1\<rparr>]\<rparr>)"

subsection \<open>Calls\<close>

record rpc_answers =
  rp_env :: exmdb_env
  rp_realloc :: "nat \<Rightarrow> nat \<Rightarrow> bool"
  rp_junk :: "nat \<Rightarrow> u8"
  rp_writes :: "socket_answer list"
  rp_reads :: "socket_answer list"
  rp_time :: int
  rp_alloc :: "nat \<Rightarrow> nat \<Rightarrow> bool"

text \<open>The response without its head, read as a response to the call that has been made.\<close>

definition take_response :: "rpc_answers \<Rightarrow> u8 \<Rightarrow> bytes \<Rightarrow> response_payload outcome" where
  "take_response a call_id pb =
     (if length pb < 5 \<or> hd pb \<noteq> RESPONSE_CODE_SUCCESS then FAILS
      else case exmdb_ext_pull_response (rp_env a) call_id (rp_alloc a) (drop 5 pb) of
          Inl err \<Rightarrow> if fault err then BREAKS else FAILS
        | Inr response \<Rightarrow> GETS response)"

definition exmdb_client_do_rpc ::
    "rpc_answers \<Rightarrow> bytes \<Rightarrow> exmdb_request \<Rightarrow> client \<Rightarrow> response_payload outcome \<times> client" where
  "exmdb_client_do_rpc a dir request c =
     (case exmdb_ext_push_request (rp_env a) request (rp_realloc a) (rp_junk a) of
        Inl err \<Rightarrow> (if fault err then BREAKS else FAILS, c)
      | Inr pbin \<Rightarrow>
          (case exmdb_client_get_connection dir c of
             None \<Rightarrow> (FAILS, c)
           | Some (pconn, c') \<Rightarrow>
               (case exmdb_client_write_socket pbin 0 (rp_writes a) of
                  WAITING \<Rightarrow> (WAITING, c')
                | BREAKS \<Rightarrow> (BREAKS, c')
                | FAILS \<Rightarrow> (FAILS, exmdb_client_put_connection pconn True c')
                | GETS _ \<Rightarrow>
                    (case exmdb_client_read_socket (rp_reads a) of
                       WAITING \<Rightarrow> (WAITING, c')
                     | BREAKS \<Rightarrow> (BREAKS, c')
                     | FAILS \<Rightarrow> (FAILS, exmdb_client_put_connection pconn True c')
                     | GETS pb \<Rightarrow>
                         (take_response a (request_call_id (rq_payload request)) pb,
                          exmdb_client_put_connection (pconn\<lparr>cn_last_time := rp_time a\<rparr>) False c')))))"

subsection \<open>Opening a connection\<close>

text \<open>
  What follows the \<open>connect\<close> of a new socket, with the \<open>remote_id\<close> of this process.  The result is
  whether the socket can be used.
\<close>

definition connect_request :: "remote_svr \<Rightarrow> bool \<Rightarrow> bytes \<Rightarrow> exmdb_request" where
  "connect_request sv b_listen remote_id =
     EXMDB_REQUEST None (STORE_REQUEST
       (if \<not> b_listen then REQ_CONNECT (sv_prefix sv) remote_id (sv_b_private sv)
        else REQ_LISTEN_NOTIFICATION remote_id))"

definition exmdb_client_connect_exmdb ::
    "rpc_answers \<Rightarrow> remote_svr \<Rightarrow> bool \<Rightarrow> bytes \<Rightarrow> unit outcome" where
  "exmdb_client_connect_exmdb a sv b_listen remote_id =
     (case exmdb_ext_push_request (rp_env a) (connect_request sv b_listen remote_id)
             (rp_realloc a) (rp_junk a) of
        Inl err \<Rightarrow> if fault err then BREAKS else FAILS
      | Inr pbin \<Rightarrow>
          (case exmdb_client_write_socket pbin 0 (rp_writes a) of
             GETS _ \<Rightarrow>
               (case exmdb_client_read_socket (rp_reads a) of
                  GETS pb \<Rightarrow>
                    if hd pb = RESPONSE_CODE_SUCCESS \<and> length pb = 5 \<and> IVAL pb 1 = 0
                    then GETS () else FAILS
                | WAITING \<Rightarrow> WAITING | FAILS \<Rightarrow> FAILS | BREAKS \<Rightarrow> BREAKS)
           | WAITING \<Rightarrow> WAITING | FAILS \<Rightarrow> FAILS | BREAKS \<Rightarrow> BREAKS))"

subsection \<open>Keeping connections alive\<close>

definition SOCKET_TIMEOUT :: int where "SOCKET_TIMEOUT = 60"

text \<open>
  \<open>scan_work_func\<close>, one pass: the connections that have been idle for long are taken out of the
  pools and pinged; what fails joins the lost ones, and every lost one is opened again.  Calls may
  come in between, where the lock is not held.  That the pass gives everything up once
  \<open>g_notify_stop\<close> is raised is left out.
\<close>

definition due :: "int \<Rightarrow> remote_conn \<Rightarrow> bool" where
  "due now_time pconn \<longleftrightarrow> now_time - cn_last_time pconn \<ge> SOCKET_TIMEOUT - 3"

definition collect_due :: "int \<Rightarrow> client \<Rightarrow> remote_conn list \<times> client" where
  "collect_due now_time c =
     (concat (map (\<lambda>sv. filter (due now_time) (sv_conn_list sv)) (g_server_list c)),
      c\<lparr>g_server_list := map (\<lambda>sv. sv\<lparr>sv_conn_list :=
          filter (\<lambda>pconn. \<not> due now_time pconn) (sv_conn_list sv)\<rparr>) (g_server_list c)\<rparr>)"

definition ping_ok :: "socket_answer \<Rightarrow> bool" where
  "ping_ok a \<longleftrightarrow> io_write a = 4 \<and> io_poll a = 1 \<and>
     (case io_read a of None \<Rightarrow> False | Some bs \<Rightarrow> bs = [RESPONSE_CODE_SUCCESS])"

definition ping_one :: "socket_answer \<Rightarrow> int \<Rightarrow> remote_conn \<Rightarrow> client \<Rightarrow> client" where
  "ping_one a now pconn c =
     (if \<not> ping_ok a then c\<lparr>g_lost_list := g_lost_list c @ [pconn\<lparr>cn_sockd := -1\<rparr>]\<rparr>
      else c\<lparr>g_server_list := pool_append (pconn\<lparr>cn_last_time := now\<rparr>) (g_server_list c)\<rparr>)"

definition collect_lost :: "client \<Rightarrow> remote_conn list \<times> client" where
  "collect_lost c = (g_lost_list c, c\<lparr>g_lost_list := []\<rparr>)"

text \<open>\<open>sockd\<close> is the new socket, or \<open>None\<close> where \<open>connect\<close> has failed.\<close>

definition open_one ::
    "int option \<Rightarrow> rpc_answers \<Rightarrow> bytes \<Rightarrow> remote_conn \<Rightarrow> client \<Rightarrow> client outcome" where
  "open_one sockd a remote_id pconn c =
     (let lost = c\<lparr>g_lost_list := g_lost_list c @ [pconn\<lparr>cn_sockd := -1\<rparr>]\<rparr>
      in case sockd of
          None \<Rightarrow> GETS lost
        | Some fd \<Rightarrow>
            (case exmdb_client_connect_exmdb a (g_server_list c ! cn_psvr pconn) False remote_id of
               WAITING \<Rightarrow> WAITING
             | BREAKS \<Rightarrow> BREAKS
             | FAILS \<Rightarrow> GETS lost
             | GETS _ \<Rightarrow> GETS (c\<lparr>g_server_list :=
                 pool_append (pconn\<lparr>cn_sockd := fd, cn_last_time := rp_time a\<rparr>) (g_server_list c)\<rparr>)))"

end
