(* ===== verification/Client_Pool.thy ===== *)
theory Client_Pool
  imports Exmdb_Client "HOL-Library.Multiset"
begin

text \<open>
  The connections of a client, with every thread that makes calls and the one that scans: a step
  is what happens between taking the lock and giving it back, so the steps of all threads mix in
  any order.  No connection is lost or in two places, none is put into the pool of another
  server, and no call is made on a closed socket.
\<close>

subsection \<open>Steps\<close>

text \<open>The connections in the pools, and those that calls, pings and attempts to open hold.\<close>

record clients =
  cs_client :: client
  cs_calls :: "remote_conn list"
  cs_pings :: "remote_conn list"
  cs_opens :: "remote_conn list"

inductive client_step :: "clients \<Rightarrow> clients \<Rightarrow> bool" where
  get: "exmdb_client_get_connection dir (cs_client s) = Some (pconn, c) \<Longrightarrow>
     client_step s (s\<lparr>cs_client := c, cs_calls := pconn # cs_calls s\<rparr>)"
| put: "cs_calls s = xs @ pconn # ys \<Longrightarrow> now = cn_last_time pconn \<or> \<not> b_lost \<Longrightarrow>
     client_step s (s\<lparr>cs_calls := xs @ ys, cs_client :=
       exmdb_client_put_connection (pconn\<lparr>cn_last_time := now\<rparr>) b_lost (cs_client s)\<rparr>)"
| scan_due: "cs_pings s = [] \<Longrightarrow> cs_opens s = [] \<Longrightarrow> collect_due now (cs_client s) = (xs, c) \<Longrightarrow>
     client_step s (s\<lparr>cs_client := c, cs_pings := xs\<rparr>)"
| ping: "cs_pings s = pconn # xs \<Longrightarrow>
     client_step s (s\<lparr>cs_pings := xs, cs_client := ping_one a now pconn (cs_client s)\<rparr>)"
| scan_lost: "cs_pings s = [] \<Longrightarrow> cs_opens s = [] \<Longrightarrow> collect_lost (cs_client s) = (xs, c) \<Longrightarrow>
     client_step s (s\<lparr>cs_client := c, cs_opens := xs\<rparr>)"
| reopen: "cs_opens s = pconn # xs \<Longrightarrow> sockd \<noteq> Some (-1) \<Longrightarrow>
     open_one sockd a remote_id pconn (cs_client s) = GETS c \<Longrightarrow>
     client_step s (s\<lparr>cs_opens := xs, cs_client := c\<rparr>)"

definition pooled :: "client \<Rightarrow> remote_conn list" where
  "pooled c = concat (map sv_conn_list (g_server_list c))"

definition all_conns :: "clients \<Rightarrow> remote_conn list" where
  "all_conns s = pooled (cs_client s) @ g_lost_list (cs_client s) @ cs_calls s @ cs_pings s @ cs_opens s"

text \<open>Who a connection is, whatever its socket and time.\<close>

definition identity :: "remote_conn \<Rightarrow> nat \<times> nat" where
  "identity pconn = (cn_node pconn, cn_psvr pconn)"

definition placed :: "remote_svr list \<Rightarrow> bool" where
  "placed svrs \<longleftrightarrow> (\<forall>i < length svrs. \<forall>pconn\<in>set (sv_conn_list (svrs ! i)). cn_psvr pconn = i)"

definition pool_inv :: "clients \<Rightarrow> bool" where
  "pool_inv s \<longleftrightarrow>
     placed (g_server_list (cs_client s)) \<and>
     (\<forall>pconn\<in>set (all_conns s). cn_psvr pconn < length (g_server_list (cs_client s))) \<and>
     (\<forall>pconn\<in>set (pooled (cs_client s) @ cs_calls s @ cs_pings s). cn_sockd pconn \<noteq> -1) \<and>
     (\<forall>pconn\<in>set (g_lost_list (cs_client s) @ cs_opens s). cn_sockd pconn = -1)"

text \<open>The client after \<open>exmdb_client_run\<close>: every connection still has to be opened.\<close>

definition fresh_clients :: "clients \<Rightarrow> bool" where
  "fresh_clients s \<longleftrightarrow> cs_calls s = [] \<and> cs_pings s = [] \<and> cs_opens s = [] \<and>
     (\<forall>sv\<in>set (g_server_list (cs_client s)). sv_conn_list sv = []) \<and>
     (\<forall>pconn\<in>set (g_lost_list (cs_client s)).
        cn_sockd pconn = -1 \<and> cn_psvr pconn < length (g_server_list (cs_client s)))"

subsection \<open>The pools\<close>

lemma append_conns:
  assumes "cn_psvr pconn < length svrs"
  shows "mset (concat (map sv_conn_list (pool_append pconn svrs))) =
      add_mset pconn (mset (concat (map sv_conn_list svrs)))"
    "length (pool_append pconn svrs) = length svrs"
proof -
  let ?i = "cn_psvr pconn"
  have "svrs = take ?i svrs @ svrs ! ?i # drop (Suc ?i) svrs"
    using assms by (rule id_take_nth_drop)
  then have "mset (concat (map sv_conn_list svrs)) =
      mset (concat (map sv_conn_list (take ?i svrs @ svrs ! ?i # drop (Suc ?i) svrs)))"
    by simp
  then show "mset (concat (map sv_conn_list (pool_append pconn svrs))) =
      add_mset pconn (mset (concat (map sv_conn_list svrs)))"
    using assms by (simp add: pool_append_def upd_conv_take_nth_drop)
  show "length (pool_append pconn svrs) = length svrs" by (simp add: pool_append_def)
qed

lemma append_nth:
  assumes "cn_psvr pconn < length svrs" "i < length svrs"
  shows "set (sv_conn_list (pool_append pconn svrs ! i)) =
    (if i = cn_psvr pconn then insert pconn (set (sv_conn_list (svrs ! i)))
     else set (sv_conn_list (svrs ! i)))"
  using assms by (simp add: pool_append_def nth_list_update)

lemma get_conns:
  "get_from_head dir svrs = Some (pconn, svrs') \<Longrightarrow>
    mset (concat (map sv_conn_list svrs)) = add_mset pconn (mset (concat (map sv_conn_list svrs'))) \<and>
    length svrs' = length svrs \<and>
    (\<exists>i < length svrs. pconn \<in> set (sv_conn_list (svrs ! i))) \<and>
    (\<forall>i < length svrs. set (sv_conn_list (svrs' ! i)) \<subseteq> set (sv_conn_list (svrs ! i)))"
proof (induction dir svrs arbitrary: svrs' rule: get_from_head.induct)
  case (2 dir sv svrs)
  show ?case
  proof (cases "has_prefix (sv_prefix sv) dir")
    case True
    with 2(2) show ?thesis by (force simp: nth_Cons split: list.splits nat.split)
  next
    case False
    with 2(2) obtain svrs1 where "get_from_head dir svrs = Some (pconn, svrs1)" "svrs' = sv # svrs1"
      by auto
    with 2(1) [OF False] show ?thesis
      by (force simp: nth_Cons less_Suc_eq_0_disj split: nat.split)
  qed
qed simp

lemma due_conns:
  "mset (concat (map (\<lambda>sv. filter P (sv_conn_list sv)) svrs)) +
   mset (concat (map (\<lambda>sv. filter (\<lambda>x. \<not> P x) (sv_conn_list sv)) svrs)) =
   mset (concat (map sv_conn_list svrs))"
proof (induction svrs)
  case (Cons sv svrs)
  have "mset (sv_conn_list sv) = filter_mset P (mset (sv_conn_list sv)) +
      filter_mset (\<lambda>x. \<not> P x) (mset (sv_conn_list sv))"
    by (rule multiset_partition)
  with Cons show ?case by (simp add: ac_simps)
qed simp


subsection \<open>The invariant\<close>

definition moved :: "clients \<Rightarrow> clients \<Rightarrow> bool" where
  "moved s s' \<longleftrightarrow>
     image_mset identity (mset (all_conns s')) = image_mset identity (mset (all_conns s)) \<and>
     length (g_server_list (cs_client s')) = length (g_server_list (cs_client s))"

lemma append_placed:
  "placed svrs \<Longrightarrow> cn_psvr pconn < length svrs \<Longrightarrow> placed (pool_append pconn svrs)"
  unfolding placed_def by (auto simp: append_conns(2) append_nth)

lemma get_placed:
  assumes "get_from_head dir svrs = Some (pconn, svrs')" "placed svrs"
  shows "placed svrs'"
  unfolding placed_def
proof (intro allI impI ballI)
  fix i x
  assume "i < length svrs'" "x \<in> set (sv_conn_list (svrs' ! i))"
  with get_conns [OF assms(1)] have "i < length svrs" "x \<in> set (sv_conn_list (svrs ! i))" by auto
  with assms(2) show "cn_psvr x = i" by (simp add: placed_def)
qed

lemma append_set:
  assumes "cn_psvr pconn < length svrs"
  shows "(\<Union>sv\<in>set (pool_append pconn svrs). set (sv_conn_list sv)) =
    insert pconn (\<Union>sv\<in>set svrs. set (sv_conn_list sv))"
  using arg_cong [OF append_conns(1) [OF assms], of set_mset] by simp

lemma append_ball:
  assumes "cn_psvr pconn < length svrs"
  shows "(\<forall>sv\<in>set (pool_append pconn svrs). \<forall>x\<in>set (sv_conn_list sv). P x) \<longleftrightarrow>
    P pconn \<and> (\<forall>sv\<in>set svrs. \<forall>x\<in>set (sv_conn_list sv). P x)"
  using append_set [OF assms] by auto

lemma identity_update [simp]:
  "identity (pconn\<lparr>cn_last_time := t\<rparr>) = identity pconn"
  "identity (pconn\<lparr>cn_sockd := k\<rparr>) = identity pconn"
  by (simp_all add: identity_def)

lemmas pool_defs = pool_inv_def all_conns_def pooled_def moved_def

lemma step_moves:
  assumes "client_step s s'" "pool_inv s"
  shows "pool_inv s' \<and> moved s s'"
  using assms(1)
proof (cases rule: client_step.cases)
  case (get dir pconn c)
  then obtain svrs where svrs: "get_from_head dir (g_server_list (cs_client s)) = Some (pconn, svrs)"
      "c = cs_client s\<lparr>g_server_list := svrs\<rparr>"
    by (auto simp: exmdb_client_get_connection_def)
  note conns = get_conns [OF svrs(1)]
  have "(\<Union>sv\<in>set (g_server_list (cs_client s)). set (sv_conn_list sv)) =
      insert pconn (\<Union>sv\<in>set svrs. set (sv_conn_list sv))"
    using arg_cong [OF conjunct1 [OF conns], of set_mset] by simp
  moreover have "placed svrs"
    using svrs(1) assms(2) by (simp add: pool_inv_def get_placed)
  ultimately show ?thesis
    using assms(2) conns get(1) svrs(2) by (simp add: pool_defs)
next
  case (put xs pconn ys now b_lost)
  then have "cn_psvr pconn < length (g_server_list (cs_client s))"
    using assms(2) by (simp add: pool_defs)
  with put assms(2) show ?thesis
    by (simp add: pool_defs exmdb_client_put_connection_def append_conns append_set append_placed)
next
  case (scan_due now xs c)
  let ?svrs = "g_server_list (cs_client s)"
  have split: "mset xs + mset (pooled c) = mset (pooled (cs_client s))"
    using due_conns [of "due now" ?svrs] scan_due(4)
    by (auto simp: collect_due_def pooled_def comp_def)
  from arg_cong [OF split, of set_mset]
  have "set xs \<union> set (pooled c) = set (pooled (cs_client s))" by simp
  moreover from arg_cong [OF split, of "image_mset identity"]
  have "image_mset identity (mset (pooled c)) + image_mset identity (mset xs) =
      image_mset identity (mset (pooled (cs_client s)))"
    by (simp add: add.commute)
  moreover have "placed (g_server_list c)" "length (g_server_list c) = length ?svrs"
      "g_lost_list c = g_lost_list (cs_client s)"
    using assms(2) scan_due(4) by (auto simp: pool_inv_def placed_def collect_due_def)
  ultimately show ?thesis
    using assms(2) scan_due(1-3) by (auto simp: pool_defs)
next
  case (ping pconn xs a now)
  then have "cn_psvr pconn < length (g_server_list (cs_client s))"
    using assms(2) by (simp add: pool_defs)
  with ping assms(2) show ?thesis
    by (cases "ping_ok a") (simp_all add: pool_defs ping_one_def append_conns append_set append_placed)
next
  case (scan_lost xs c)
  then have "c = cs_client s\<lparr>g_lost_list := []\<rparr>" "xs = g_lost_list (cs_client s)"
    by (simp_all add: collect_lost_def)
  with scan_lost(1-3) assms(2) show ?thesis by (simp add: pool_defs ball_Un)
next
  case (reopen pconn xs sockd a remote_id c)
  then have psvr: "cn_psvr pconn < length (g_server_list (cs_client s))"
    using assms(2) by (simp add: pool_defs)
  from reopen(3,4) consider
      "c = cs_client s\<lparr>g_lost_list := g_lost_list (cs_client s) @ [pconn\<lparr>cn_sockd := -1\<rparr>]\<rparr>"
    | fd where "fd \<noteq> -1" "c = cs_client s\<lparr>g_server_list := pool_append
        (pconn\<lparr>cn_sockd := fd, cn_last_time := rp_time a\<rparr>) (g_server_list (cs_client s))\<rparr>"
    by (auto simp: open_one_def Let_def split: option.splits outcome.splits)
  then show ?thesis
    using reopen(1,2) psvr assms(2)
    by cases (simp_all add: pool_defs append_conns append_ball append_placed ball_Un)
qed


lemma fresh_pool_inv: "fresh_clients s \<Longrightarrow> pool_inv s"
  by (auto simp: fresh_clients_def pool_defs placed_def)

lemma steps_move:
  assumes "client_step\<^sup>*\<^sup>* s s'" "pool_inv s"
  shows "pool_inv s' \<and> moved s s'"
  using assms by (induction rule: rtranclp_induct) (auto simp: moved_def dest: step_moves)

subsection \<open>A call\<close>

text \<open>
  A call that returns has made two of these steps, or none; the pair may be separated by steps of
  other threads.
\<close>

lemma rpc_steps:
  assumes "exmdb_client_do_rpc a dir request (cs_client s) = (r, c)" "r \<noteq> WAITING" "r \<noteq> BREAKS"
  shows "client_step\<^sup>*\<^sup>* s (s\<lparr>cs_client := c\<rparr>)"
proof (cases "exmdb_client_get_connection dir (cs_client s)")
  case None
  with assms have "c = cs_client s"
    by (auto simp: exmdb_client_do_rpc_def split: sum.splits)
  then show ?thesis by simp
next
  case (Some x)
  then obtain pconn c1 where x: "exmdb_client_get_connection dir (cs_client s) = Some (pconn, c1)"
    by (cases x) auto
  have lost: "\<exists>now b_lost. (now = cn_last_time pconn \<or> \<not> b_lost) \<and>
      exmdb_client_put_connection pconn True c1 =
        exmdb_client_put_connection (pconn\<lparr>cn_last_time := now\<rparr>) b_lost c1"
    by (intro exI [of _ "cn_last_time pconn"] exI [of _ True]) simp
  from assms x consider "c = cs_client s" | "(\<exists>now b_lost. (now = cn_last_time pconn \<or> \<not> b_lost) \<and>
      c = exmdb_client_put_connection (pconn\<lparr>cn_last_time := now\<rparr>) b_lost c1)"
    by (auto simp: exmdb_client_do_rpc_def lost split: sum.splits outcome.splits if_splits)
  then show ?thesis
  proof cases
    case 2
    then obtain now b_lost where put: "now = cn_last_time pconn \<or> \<not> b_lost"
        "c = exmdb_client_put_connection (pconn\<lparr>cn_last_time := now\<rparr>) b_lost c1"
      by blast
    let ?s = "s\<lparr>cs_client := c1, cs_calls := pconn # cs_calls s\<rparr>"
    have 1: "client_step s ?s" using x by (rule client_step.get)
    have "client_step ?s (?s\<lparr>cs_calls := [] @ cs_calls s, cs_client :=
        exmdb_client_put_connection (pconn\<lparr>cn_last_time := now\<rparr>) b_lost (cs_client ?s)\<rparr>)"
      using put(1) by (intro client_step.put) auto
    with put(2) have 2: "client_step ?s (s\<lparr>cs_client := c\<rparr>)" by simp
    from 1 2 show ?thesis by (meson converse_rtranclp_into_rtranclp r_into_rtranclp)
  qed simp
qed

end
