(* ===== verification/Client_Logic.thy ===== *)
theory Client_Logic
  imports Parser_Logic Client_Pool
begin

text \<open>
  A client and a connection of the parser together: a greeting that is accepted leaves both ends
  connected, and a call returns at the client what has been dispatched at the server.
\<close>

subsection \<open>The sockets of the client\<close>

text \<open>\<open>write\<close> takes all of it, in any pieces; \<open>read\<close> gives the head at once, then any pieces.\<close>

definition accepts :: "socket_answer list \<Rightarrow> bytes \<Rightarrow> bool" where
  "accepts as bs \<longleftrightarrow> (\<forall>a\<in>set as. io_poll a = 1 \<and> 0 < io_write a) \<and>
     sum_list (map io_write as) = int (length bs)"

definition brings :: "bytes \<Rightarrow> socket_answer \<Rightarrow> bool" where
  "brings bs a \<longleftrightarrow> io_poll a = 1 \<and> io_read a = Some bs"

definition gives :: "socket_answer list \<Rightarrow> bytes \<Rightarrow> bool" where
  "gives as bs \<longleftrightarrow> (\<exists>a as' ps. as = a # as' \<and> brings (take 5 bs) a \<and> io_alloc a \<and>
     list_all2 brings ps as' \<and> [] \<notin> set ps \<and> concat ps = drop 5 bs)"

lemma write_socket_gets:
  assumes "\<forall>a\<in>set as. io_poll a = 1 \<and> 0 < io_write a"
    "sum_list (map io_write as) = int (length pbin) - int n" "n < length pbin" "length pbin < 2 ^ 32"
  shows "exmdb_client_write_socket pbin (of_nat n) as = GETS ()"
  using assms
proof (induction as arbitrary: n)
  case Nil
  then show ?case by simp
next
  case (Cons a as)
  define k where "k = nat (io_write a)"
  have k: "io_write a = int k" "0 < k" using Cons.prems(1) by (simp_all add: k_def)
  have sum: "sum_list (map io_write as) = int (length pbin) - int (n + k)"
    using Cons.prems(2) k by simp
  have le: "n + k \<le> length pbin"
    using positive_sum [of as io_write] Cons.prems(1) sum by simp
  have eq: "(of_nat n + of_int (io_write a) :: u32) = of_nat (n + k)" using k by simp
  show ?case
  proof (cases "n + k = length pbin")
    case True
    with Cons.prems(1) k eq show ?thesis by simp
  next
    case False
    with le have "n + k < length pbin" by simp
    moreover from this Cons.prems(4) have "(of_nat (n + k) :: u32) \<noteq> of_nat (length pbin)"
      by (metis less_imp_neq order.strict_trans unat_of_nat_u32)
    ultimately show ?thesis
      using Cons.IH [of "n + k"] Cons.prems sum k eq by simp
  qed
qed

lemma read_rest_gets:
  assumes "list_all2 brings ps as" "[] \<notin> set ps" "ps \<noteq> []"
    "length got + length (concat ps) = n" "n < 2 ^ 32"
  shows "read_rest (of_nat n) got as = GETS (got @ concat ps)"
  using assms
proof (induction ps as arbitrary: got rule: list_all2_induct)
  case Nil
  then show ?case by simp
next
  case (Cons p ps a as)
  have eq: "(of_nat (length got) + of_nat (length p) :: u32) = of_nat (length (got @ p))" by simp
  show ?case
  proof (cases "ps = []")
    case True
    with Cons show ?thesis by (auto simp: brings_def)
  next
    case False
    with Cons.prems(1) have "concat ps \<noteq> []" by (cases ps) auto
    then obtain k where "length (concat ps) = Suc k" by (cases "concat ps") auto
    then have "length (got @ p) < n" using Cons.prems(3) by simp
    then have "(of_nat (length (got @ p)) :: u32) \<noteq> of_nat n"
      using Cons.prems(4) by (metis less_imp_neq order.strict_trans unat_of_nat_u32)
    moreover have "read_rest (of_nat n) (got @ p) as = GETS ((got @ p) @ concat ps)"
      using Cons.prems False by (intro Cons.IH) simp_all
    ultimately show ?thesis
      using Cons.prems(1) Cons.hyps(1) unfolding brings_def by (auto simp del: of_nat_add length_append simp: eq)
  qed
qed

lemma read_socket_gets:
  assumes "gives as bs" "5 \<le> length bs" "length bs < 2 ^ 32"
    "unat (IVAL bs 1) = length bs - 5"
  shows "exmdb_client_read_socket as = GETS bs"
proof -
  obtain a as' ps where as: "as = a # as'" "brings (take 5 bs) a" "io_alloc a"
      "list_all2 brings ps as'" "[] \<notin> set ps" "concat ps = drop 5 bs"
    using assms(1) by (auto simp: gives_def)
  have "IVAL (take 5 bs) 1 = IVAL bs 1"
    using assms(2) by (simp add: IVAL_def SVAL_def nth_append)
  moreover have "IVAL bs 1 + 5 = of_nat (length bs)"
    using assms(2-4) by (simp add: word_unat_eq_iff unat_of_nat_u32 unat_word_ariths)
  ultimately have cb: "IVAL (take 5 bs) 1 + 5 = of_nat (length bs)" by simp
  have small: "\<not> of_nat (length bs) < (5 :: u32)"
    using assms(2,3) by (simp add: word_less_nat_alt unat_of_nat_u32)
  show ?thesis
  proof (cases "length bs = 5")
    case True
    with as cb show ?thesis by (simp add: brings_def)
  next
    case False
    with assms(2,3) have "(of_nat (length bs) :: u32) \<noteq> 5"
      by (simp add: word_unat_eq_iff unat_of_nat_u32)
    moreover have "ps \<noteq> []" using as(6) False assms(2) by auto
    ultimately show ?thesis
      using as cb small assms(2,3) read_rest_gets [OF as(4,5), of "take 5 bs" "length bs"]
      by (simp add: brings_def Let_def min_absorb2)
  qed
qed


subsection \<open>The greeting\<close>

lemma hello_runs:
  assumes "idle t" "\<not> th_is_connected t" "f \<noteq> []" "length f < 2 ^ 32"
    "receives (SIVAL (of_nat (length f))) header" "ans_malloc header" "pieces body f"
    "exmdb_ext_pull_request (ans_env (last body)) (ans_alloc (last body)) f = Inr r"
    "rq_payload r = STORE_REQUEST (REQ_CONNECT prefix remote_id b_private)"
    "exmdb_parser_check_local (g_local_list g) prefix = Some b_private"
    "fits_remote_id remote_id" "ans_write (last body) = 5"
  shows "run g (header # body) t =
    t\<lparr>th_received := th_received t @ SIVAL (of_nat (length f)) @ f,
      th_sent := th_sent t @ replicate 5 0, th_b_private := b_private, th_remote_id := remote_id,
      th_is_connected := True, th_done := th_done t @ [HELLO f r]\<rparr>"
proof -
  let ?f = "th_received t @ SIVAL (of_nat (length f))"
  let ?t = "t\<lparr>th_received := ?f, th_buff_len := of_nat (length f),
    th_pbuff := Some (map (ans_block header) [0..<length f]), th_offset := 0\<rparr>"
  have 1: "iterate g header t = ?t"
    using run_length [OF assms(1,5,6)] assms(3,4) by simp
  have 2: "run g body ?t = work_request g (last body) f
      (?t\<lparr>th_received := ?f @ f, th_pbuff := Some f, th_offset := of_nat (length f)\<rparr>)"
    using run_request [of ?t "map (ans_block header) [0..<length f]" f body g] assms
    by (simp add: idle_def)
  show ?thesis
    unfolding run_simps 1 2 using assms(1,2,8-12)
    by (intro thread.equality)
      (simp_all add: work_request_def work_connect_def put_out_def idle_def Let_def)
qed

subsection \<open>A call from end to end\<close>

lemma codec_request:
  assumes "idset_mem env = (\<lambda>_ _. True)" "idset_mem env' = (\<lambda>_ _. True)"
  shows "datagram_codec [] (exmdb_ext_push_request env') (\<lambda>_. exmdb_ext_pull_request env)
    request_received request_ok"
  using assms by unfold_locales (rule request_delivered)

lemma codec_response:
  "datagram_codec [RESPONSE_CODE_SUCCESS] exmdb_ext_push_response
    (\<lambda>r. exmdb_ext_pull_response env (response_call_id r)) (\<lambda>r. r) (response_ok EXT_FLAG_WCOUNT)"
  by unfold_locales (rule response_delivered)

lemma request_not_empty: "exmdb_ext_pull_request env alloc [] \<noteq> Inr r"
  by (simp add: exmdb_ext_pull_request_def read_datagram_def pull_request_def
      ext_buffer_pull_uint8_def pull_fixed_def bnd_def ext_buffer_pull_init_def fail_def Let_def)

theorem rpc_runs:
  assumes q: "request_ok q" "idset_mem (rp_env a) = (\<lambda>_ _. True)"
      "idset_mem (ans_env (last body)) = (\<lambda>_ _. True)" "\<forall>n s. ans_alloc (last body) n s"
    and frame: "\<forall>n s. rp_realloc a n s" "length frame < 2 ^ 30"
      "exmdb_ext_push_request (rp_env a) q (rp_realloc a) (rp_junk a) = Inr frame"
    and conn: "exmdb_client_get_connection dir c = Some (pconn, c')"
      "accepts (rp_writes a) frame"
    and server: "idle t" "th_is_connected t" "receives (take 4 frame) header" "ans_malloc header"
      "pieces body (drop 4 frame)" "ans_dispatch (last body) (request_received q) = Some response"
    and response: "response_ok EXT_FLAG_WCOUNT response"
      "response_call_id response = request_call_id (rq_payload q)"
      "\<forall>n s. ans_realloc (last body) n s" "length answer < 2 ^ 30"
      "exmdb_ext_push_response response (ans_realloc (last body)) (ans_junk (last body)) = Inr answer"
    and arrival: "takes_all out answer" "gives (rp_reads a) answer" "\<forall>n s. rp_alloc a n s"
  shows "run g (header # body @ out) t =
      t\<lparr>th_received := th_received t @ frame, th_sent := th_sent t @ answer,
        th_done := th_done t @ [CALL (drop 4 frame) (request_received q) response answer]\<rparr> \<and>
    exmdb_client_do_rpc a dir q c =
      (GETS response, exmdb_client_put_connection (pconn\<lparr>cn_last_time := rp_time a\<rparr>) False c')"
proof -
  obtain f where f: "frame = SIVAL (of_nat (length f)) @ f"
      "exmdb_ext_pull_request (ans_env (last body)) (ans_alloc (last body)) f = Inr (request_received q)"
    using datagram_codec.transfer [OF codec_request [OF q(3,2)] q(1) frame(1,3,2)] q(4) by auto
  then have "f \<noteq> []" using request_not_empty by metis
  obtain p where p: "answer = RESPONSE_CODE_SUCCESS # SIVAL (of_nat (length p)) @ p"
      "exmdb_ext_pull_response (rp_env a) (response_call_id response) (rp_alloc a) p = Inr response"
    using datagram_codec.transfer [OF codec_response [of "rp_env a"] response(1,3,5,4)]
      arrival(3) by auto
  have "run g (header # body @ out) t =
      t\<lparr>th_received := th_received t @ SIVAL (of_nat (length f)) @ f, th_sent := th_sent t @ answer,
        th_done := th_done t @ [CALL f (request_received q) response answer]\<rparr>"
    using server f frame(2) p(1) response arrival(1) \<open>f \<noteq> []\<close>
    by (intro call_runs) (simp_all add: f(1))
  moreover have "exmdb_client_write_socket frame 0 (rp_writes a) = GETS ()"
    using write_socket_gets [of "rp_writes a" frame 0] conn(2) frame(2) f(1)
    by (simp add: accepts_def)
  moreover have "exmdb_client_read_socket (rp_reads a) = GETS answer"
  proof (rule read_socket_gets)
    have "IVAL answer 1 = of_nat (length p)"
      using IVAL_shift [of "[RESPONSE_CODE_SUCCESS]" 1 "SIVAL (of_nat (length p)) @ p" 0]
      by (simp add: p(1))
    with response(4) p(1) show "unat (IVAL answer 1) = length answer - 5"
      by (simp add: unat_of_nat_u32)
  qed (use arrival(2) response(4) p(1) in simp_all)
  moreover have "take_response a (request_call_id (rq_payload q)) answer = GETS response"
    using p response(2) by (simp add: take_response_def eval_nat_numeral)
  ultimately show ?thesis
    using frame(3) conn(1) f(1) by (simp add: exmdb_client_do_rpc_def)
qed


theorem greeting_runs:
  assumes names: "string_ok EXT_FLAG_WCOUNT (sv_prefix sv)" "string_ok EXT_FLAG_WCOUNT remote_id"
      "fits_remote_id remote_id"
      "exmdb_parser_check_local (g_local_list g) (sv_prefix sv) = Some (sv_b_private sv)"
    and mem: "idset_mem (rp_env a) = (\<lambda>_ _. True)" "idset_mem (ans_env (last body)) = (\<lambda>_ _. True)"
      "\<forall>n s. rp_realloc a n s" "\<forall>n s. ans_alloc (last body) n s"
    and frame: "exmdb_ext_push_request (rp_env a) (connect_request sv False remote_id) (rp_realloc a)
        (rp_junk a) = Inr frame" "length frame < 2 ^ 30" "accepts (rp_writes a) frame"
    and server: "idle t" "\<not> th_is_connected t" "receives (take 4 frame) header" "ans_malloc header"
      "pieces body (drop 4 frame)" "ans_write (last body) = 5" "gives (rp_reads a) (replicate 5 0)"
  shows "exmdb_client_connect_exmdb a sv False remote_id = GETS () \<and>
    run g (header # body) t = t\<lparr>th_received := th_received t @ frame,
      th_sent := th_sent t @ replicate 5 0, th_b_private := sv_b_private sv,
      th_remote_id := remote_id, th_is_connected := True,
      th_done := th_done t @ [HELLO (drop 4 frame) (connect_request sv False remote_id)]\<rparr>"
proof -
  let ?q = "connect_request sv False remote_id"
  have "request_ok ?q"
    using names(1,2) by (simp add: request_ok_def connect_request_def without_store_def)
  from datagram_codec.transfer [OF codec_request [OF mem(2,1)] this mem(3) frame(1,2)] mem(4)
  obtain f where f: "frame = SIVAL (of_nat (length f)) @ f"
      "exmdb_ext_pull_request (ans_env (last body)) (ans_alloc (last body)) f = Inr ?q"
    by (auto simp: request_received_def connect_request_def)
  then have "f \<noteq> []" using request_not_empty by metis
  have "run g (header # body) t = t\<lparr>th_received := th_received t @ SIVAL (of_nat (length f)) @ f,
      th_sent := th_sent t @ replicate 5 0, th_b_private := sv_b_private sv,
      th_remote_id := remote_id, th_is_connected := True, th_done := th_done t @ [HELLO f ?q]\<rparr>"
    using server names f(2) frame(2) \<open>f \<noteq> []\<close>
    by (intro hello_runs [where prefix = "sv_prefix sv"]) (simp_all add: f(1) connect_request_def)
  moreover have "exmdb_client_write_socket frame 0 (rp_writes a) = GETS ()"
    using write_socket_gets [of "rp_writes a" frame 0] frame f(1) by (simp add: accepts_def)
  moreover have "IVAL (replicate 5 0) 1 = 0" by code_simp
  moreover from this have "exmdb_client_read_socket (rp_reads a) = GETS (replicate 5 0)"
    using server(7) by (intro read_socket_gets) simp_all
  ultimately show ?thesis
    using frame(1) f(1) by (simp add: exmdb_client_connect_exmdb_def RESPONSE_CODE_SUCCESS_def)
qed

text \<open>A name that does not fit into the 128 bytes of the connection is written behind them.\<close>

theorem long_name_overflows:
  assumes "exmdb_ext_pull_request (ans_env a) (ans_alloc a) f = Inr r"
    "rq_payload r = STORE_REQUEST (REQ_CONNECT prefix remote_id b_private)"
    "exmdb_parser_check_local (g_local_list g) prefix = Some b_private" "128 \<le> length remote_id"
    "\<not> th_is_connected t"
  shows "th_status (work_request g a f t) = BROKEN UNDEFINED_BEHAVIOUR"
  using assms by (simp add: work_request_def work_connect_def fits_remote_id_def)

text \<open>
  Where memory for a request is refused, a connection that has been greeted goes on, and takes the
  first bytes of the request for the length of the next one.
\<close>

theorem refused_request_desynchronises:
  assumes "idle t" "th_is_connected t" "receives (SIVAL (of_nat n)) header" "\<not> ans_malloc header"
    "0 < n" "n < 2 ^ 32" "receives bs next_turn" "length bs = 4" "IVAL bs 0 \<noteq> 0" "ans_malloc next_turn"
  shows "th_status (run g [header, next_turn] t) = RUNNING \<and>
    th_buff_len (run g [header, next_turn] t) = IVAL bs 0"
proof -
  have "(of_nat n :: u32) \<noteq> 0" using assms(5,6) by (simp add: word_unat_eq_iff unat_of_nat_u32)
  with assms show ?thesis
    by (simp add: iterate_def idle_def receives_def work_length_def put_out_def Let_def)
qed

end
