(* ===== verification/Connection_Properties.thy ===== *)
theory Connection_Properties
  imports Client_Logic
begin

text \<open>
  The properties of \<open>exmdb_parser.c\<close> and \<open>exmdb_client.c\<close>: what a connection does with its peer,
  that a greeting and a call succeed at both ends, and that no connection of a client is lost.
\<close>

section \<open>The connection\<close>

text \<open>
  C3. A connection serves its contract, however the bytes arrive and leave: while it runs (and
  memory for a request has not been refused), what it has received is one datagram after the
  other, of pings at any time, one greeting for a prefix that is served in the mode the peer
  expects, and after it calls that have been read and answered; what it has sent is the answers
  in the same order; and its offset never leaves its buffer.
\<close>

theorem connection_serves:
  assumes "reachable local_list t" "th_status t = RUNNING" "\<not> th_starved t"
  shows "service local_list (th_is_connected t) (th_done t) \<and>
    th_received t = concat (map bytes_in (th_done t)) @ partial_in t \<and>
    th_sent t @ pending_out t = concat (map bytes_out (th_done t)) \<and>
    (case th_pbuff t of
       None \<Rightarrow> \<not> th_is_writing t \<and> th_offset t = 0
     | Some pbuff \<Rightarrow> length pbuff = unat (th_buff_len t) \<and> th_offset t \<le> th_buff_len t)"
  using reachable_follows [OF assms] reachable_inv [OF assms(1,2)]
  by (auto simp: follows_def thread_inv_def split: option.split)

text \<open>Answers of the system calls for the runs below: \<open>in_out bs n\<close> reads \<open>bs\<close>, or writes \<open>n\<close>.\<close>

definition in_out :: "bytes \<Rightarrow> int \<Rightarrow> answers" where
  "in_out bs n = \<lparr>ans_poll = 1, ans_read = Some bs, ans_write = n, ans_malloc = True,
     ans_block = (\<lambda>_. 0xAA), ans_env = fresh_env, ans_alloc = (\<lambda>_ _. True),
     ans_dispatch = (\<lambda>_. Some (STORE_RESPONSE RESP_PING_STORE)), ans_realloc = (\<lambda>_ _. True),
     ans_junk = (\<lambda>_. 0)\<rparr>"

definition no_routers :: "(bytes \<times> bool) list \<Rightarrow> surroundings" where
  "no_routers local_list = \<lparr>g_local_list = local_list, g_max_routers = 0, g_routers_num = 0\<rparr>"

theorem connection_serves_witness:
  "let t = run (no_routers []) [in_out [0, 0, 0, 0] 1, in_out [7, 0, 0, 0] 0, in_out [1, 2] 0] new_thread
   in reachable [] t \<and> th_done t = [PING] \<and> th_sent t = [0] \<and> partial_in t = [7, 0, 0, 0, 1, 2] \<and>
      th_received t = bytes_in PING @ partial_in t \<and> th_offset t \<le> th_buff_len t"
proof -
  let ?g = "no_routers []"
  let ?t1 = "iterate ?g (in_out [0, 0, 0, 0] 1) new_thread"
  let ?t2 = "iterate ?g (in_out [7, 0, 0, 0] 0) ?t1"
  let ?t3 = "iterate ?g (in_out [1, 2] 0) ?t2"
  have g: "g_local_list ?g = []" by (simp add: no_routers_def)
  have 1: "th_status ?t1 = RUNNING" "th_status ?t2 = RUNNING" "th_status ?t3 = RUNNING"
      "answers_ok (in_out [0, 0, 0, 0] 1) new_thread" "answers_ok (in_out [7, 0, 0, 0] 0) ?t1"
      "answers_ok (in_out [1, 2] 0) ?t2" "\<not> th_starved ?t3" "th_status new_thread = RUNNING"
      "case th_done ?t3 of [PING] \<Rightarrow> True | _ \<Rightarrow> False"
      "th_sent ?t3 = [0]" "partial_in ?t3 = [7, 0, 0, 0, 1, 2]"
    by code_simp+
  have t3: "reachable [] ?t3"
    by (intro reachable.turn [OF _ _ _ g] reachable.start 1)
  have pinged: "th_done ?t3 = [PING]"
    using 1(9) by (auto split: list.splits exchange.splits)
  from connection_serves [OF t3 1(3,7)] t3 pinged 1 show ?thesis
    by (auto simp: run_def partial_in_def split: option.splits)
qed


section \<open>A greeting and a call\<close>

definition sock :: "bytes \<Rightarrow> int \<Rightarrow> socket_answer" where
  "sock bs n = \<lparr>io_poll = 1, io_read = Some bs, io_write = n, io_alloc = True\<rparr>"

lemma pieces_in:
  "\<forall>a\<in>set as. ans_poll a = 1 \<and> ans_read a \<noteq> None \<and> ans_read a \<noteq> Some [] \<Longrightarrow>
     concat (map (the \<circ> ans_read) as) = f \<Longrightarrow> pieces as f"
  unfolding pieces_def receives_def
  by (intro exI [of _ "map (the \<circ> ans_read) as"]) (auto simp: list_all2_conv_all_nth)

text \<open>The bytes of short requests and responses, for the runs below.\<close>

lemma writes_string:
  "length bs < 2 ^ 16 \<Longrightarrow> writes EXT_FLAG_WCOUNT (ext_buffer_push_string bs) (bs @ [0])"
  unfolding ext_buffer_push_string_def
  by (rule writes_gets) (simp add: has_flag_def EXT_FLAG_WCOUNT_def EXT_FLAG_TBLLMT_def writes_bytes)

lemma writes_bool: "writes f (push_BOOL b) [if b then 1 else 0]"
  using writes_scalars(1) [of f "if b then 1 else 0"]
  by (simp add: push_BOOL_def ext_buffer_push_bool_def ext_buffer_push_uint8_def split: if_splits)

lemma request_frame:
  assumes "writes EXT_FLAG_WCOUNT (push_request fresh_env q) f" "length f < 2 ^ 16"
  shows "exmdb_ext_push_request fresh_env q (\<lambda>_ _. True) (\<lambda>_. 0) = Inr (SIVAL (of_nat (length f)) @ f)"
  using written_datagrams(1) [OF assms(1), of "\<lambda>_ _. True" "\<lambda>_. 0"] assms(2)
  by (simp add: exmdb_ext_push_request_def is_datagram_def)

lemma five_zeros: "replicate 5 (0 :: u8) = [0, 0, 0, 0, 0]"
  by (simp add: eval_nat_numeral)

lemma connect_frame:
  "exmdb_ext_push_request fresh_env (EXMDB_REQUEST None (STORE_REQUEST (REQ_CONNECT [47] [104] True)))
     (\<lambda>_ _. True) (\<lambda>_. 0) = Inr [6, 0, 0, 0, 0, 47, 0, 104, 0, 1]"
proof -
  have "writes EXT_FLAG_WCOUNT
      (push_request fresh_env (EXMDB_REQUEST None (STORE_REQUEST (REQ_CONNECT [47] [104] True))))
      ([0] @ [47, 0] @ [104, 0] @ [1])"
    unfolding push_request_def exmdb_request.sel request_call_id.simps store_request_id.simps
      push_request_payload.simps push_store_request.simps exmdb_ext_push_connect_request_def
    using writes_bool [of EXT_FLAG_WCOUNT True] writes_string [of "[47]"] writes_string [of "[104]"]
      writes_scalars(1) [of EXT_FLAG_WCOUNT 0]
    by (simp only: without_store_def if_True if_P insert_iff simp_thms)
      (intro writes_seq; simp add: call_ids)
  from request_frame [OF this] show ?thesis by (simp add: SIVAL_def SSVAL_def)
qed


text \<open>
  C5. A client that greets with a prefix which the server serves in the same mode is connected at
  both ends, whatever pieces its request arrives in, if its name fits and the five bytes of the
  answer are sent and arrive at once.
\<close>

theorem greeting_accepted:
  assumes "string_ok EXT_FLAG_WCOUNT (sv_prefix sv)" "string_ok EXT_FLAG_WCOUNT remote_id"
    "fits_remote_id remote_id"
    "exmdb_parser_check_local (g_local_list g) (sv_prefix sv) = Some (sv_b_private sv)"
    and "idset_mem (rp_env a) = (\<lambda>_ _. True)" "idset_mem (ans_env (last body)) = (\<lambda>_ _. True)"
    "\<forall>n s. rp_realloc a n s" "\<forall>n s. ans_alloc (last body) n s"
    and "exmdb_ext_push_request (rp_env a) (connect_request sv False remote_id) (rp_realloc a)
      (rp_junk a) = Inr frame" "length frame < 2 ^ 30" "accepts (rp_writes a) frame"
    and "idle t" "\<not> th_is_connected t" "receives (take 4 frame) header" "ans_malloc header"
    "pieces body (drop 4 frame)" "ans_write (last body) = 5" "gives (rp_reads a) (replicate 5 0)"
  shows "exmdb_client_connect_exmdb a sv False remote_id = GETS () \<and>
    run g (header # body) t = t\<lparr>th_received := th_received t @ frame,
      th_sent := th_sent t @ replicate 5 0, th_b_private := sv_b_private sv,
      th_remote_id := remote_id, th_is_connected := True,
      th_done := th_done t @ [HELLO (drop 4 frame) (connect_request sv False remote_id)]\<rparr>"
  using assms by (rule greeting_runs)


theorem greeting_accepted_witness:
  "let frame = [6, 0, 0, 0, 0, 47, 0, 104, 0, 1];
       sv = \<lparr>sv_conn_list = [], sv_prefix = [47], sv_b_private = True\<rparr>;
       a = \<lparr>rp_env = fresh_env, rp_realloc = (\<lambda>_ _. True), rp_junk = (\<lambda>_. 0),
         rp_writes = [sock [] 4, sock [] 6], rp_reads = [sock (replicate 5 0) 0], rp_time = 0,
         rp_alloc = (\<lambda>_ _. True)\<rparr>;
       t = run (no_routers [([47], True)])
         [in_out [6, 0, 0, 0] 0, in_out [0, 47, 0, 104] 0, in_out [0, 1] 5] new_thread
   in exmdb_client_connect_exmdb a sv False [104] = GETS () \<and>
     th_is_connected t \<and> th_received t = frame \<and> th_sent t = [0, 0, 0, 0, 0] \<and>
     th_remote_id t = [104]"
proof -
  let ?sv = "\<lparr>sv_conn_list = [], sv_prefix = [47], sv_b_private = True\<rparr>"
  let ?a = "\<lparr>rp_env = fresh_env, rp_realloc = (\<lambda>_ _. True), rp_junk = (\<lambda>_. 0),
    rp_writes = [sock [] 4, sock [] 6], rp_reads = [sock (replicate 5 0) 0], rp_time = 0,
    rp_alloc = (\<lambda>_ _. True)\<rparr>"
  let ?g = "no_routers [([47], True)]"
  let ?frame = "[6, 0, 0, 0, 0, 47, 0, 104, 0, 1]"
  note names = string_ok_def has_flag_def EXT_FLAG_WCOUNT_def EXT_FLAG_TBLLMT_def fits_remote_id_def
  have "exmdb_client_connect_exmdb ?a ?sv False [104] = GETS () \<and>
    run ?g (in_out [6, 0, 0, 0] 0 # [in_out [0, 47, 0, 104] 0, in_out [0, 1] 5]) new_thread =
      new_thread\<lparr>th_received := th_received new_thread @ ?frame,
        th_sent := th_sent new_thread @ replicate 5 0, th_b_private := sv_b_private ?sv,
        th_remote_id := [104], th_is_connected := True,
        th_done := th_done new_thread @ [HELLO (drop 4 ?frame) (connect_request ?sv False [104])]\<rparr>"
    by (rule greeting_accepted)
      (simp_all add: names no_routers_def fresh_env_def in_out_def connect_request_def
        connect_frame [unfolded fresh_env_def] accepts_def sock_def idle_def new_thread_def
        receives_def pieces_in gives_def brings_def)
  then show ?thesis by (simp add: Let_def new_thread_def five_zeros)
qed




section \<open>The connections of a client\<close>

text \<open>
  C6. Whatever calls and scans the threads of a client make, in any order, every connection that
  it was started with is in exactly one place: the pool of its own server, the list of the lost
  ones, or the hands of one thread; and what a pool or a call holds is open.
\<close>

theorem connections_conserved:
  assumes "fresh_clients s" "client_step\<^sup>*\<^sup>* s s'"
  shows "pool_inv s' \<and>
    image_mset identity (mset (all_conns s')) = image_mset identity (mset (all_conns s))"
  using steps_move [OF assms(2) fresh_pool_inv [OF assms(1)]] by (simp add: moved_def)


theorem connections_conserved_witness:
  "let conn = (\<lambda>t fd. \<lparr>cn_node = 1, cn_last_time = t, cn_psvr = 0, cn_sockd = fd\<rparr>);
       c = (\<lambda>conns lost. \<lparr>g_server_list =
         [\<lparr>sv_conn_list = conns, sv_prefix = [47], sv_b_private = True\<rparr>], g_lost_list = lost,
         g_client_local_list = []\<rparr>);
       s = (\<lambda>conns lost opens. \<lparr>cs_client = c conns lost, cs_calls = [], cs_pings = [], cs_opens = opens\<rparr>)
   in client_step\<^sup>*\<^sup>* (s [] [conn 0 (-1)] []) (s [conn 7 3] [] []) \<and> pool_inv (s [conn 7 3] [] [])"
proof -
  let ?conn = "\<lambda>t fd. \<lparr>cn_node = 1, cn_last_time = t, cn_psvr = 0, cn_sockd = fd\<rparr>"
  let ?c = "\<lambda>conns lost. \<lparr>g_server_list =
    [\<lparr>sv_conn_list = conns, sv_prefix = [47], sv_b_private = True\<rparr>], g_lost_list = lost,
    g_client_local_list = []\<rparr>"
  let ?s = "\<lambda>conns lost opens. \<lparr>cs_client = ?c conns lost, cs_calls = [], cs_pings = [], cs_opens = opens\<rparr>"
  let ?a = "\<lparr>rp_env = fresh_env, rp_realloc = (\<lambda>_ _. True), rp_junk = (\<lambda>_. 0),
    rp_writes = [sock [] 10], rp_reads = [sock (replicate 5 0) 0], rp_time = 7,
    rp_alloc = (\<lambda>_ _. True)\<rparr>"
  have connected: "exmdb_client_connect_exmdb ?a
      \<lparr>sv_conn_list = [], sv_prefix = [47], sv_b_private = True\<rparr> False [104] = GETS ()"
    by (simp add: exmdb_client_connect_exmdb_def connect_request_def connect_frame sock_def
        five_zeros RESPONSE_CODE_SUCCESS_def IVAL_def SVAL_def)
  have "client_step (?s [] [?conn 0 (-1)] [])
      ((?s [] [?conn 0 (-1)] [])\<lparr>cs_client := ?c [] [], cs_opens := [?conn 0 (-1)]\<rparr>)"
    by (intro client_step.scan_lost) (simp_all add: collect_lost_def)
  moreover have "open_one (Some 3) ?a [104] (?conn 0 (-1)) (?c [] []) = GETS (?c [?conn 7 3] [])"
    using connected by (simp add: open_one_def pool_append_def)
  then have "client_step (?s [] [] [?conn 0 (-1)])
      ((?s [] [] [?conn 0 (-1)])\<lparr>cs_opens := [], cs_client := ?c [?conn 7 3] []\<rparr>)"
    by (intro client_step.reopen) simp_all
  ultimately have "client_step\<^sup>*\<^sup>* (?s [] [?conn 0 (-1)] []) (?s [?conn 7 3] [] [])"
    by simp
  moreover have "fresh_clients (?s [] [?conn 0 (-1)] [])" by (simp add: fresh_clients_def)
  ultimately show ?thesis
    using connections_conserved by (simp add: Let_def)
qed

end
