(* ===== verification/Exmdb_Server.thy ===== *)
theory Exmdb_Server
  imports Exmdb_Types
begin

text \<open>
  The interface of the store: the functions of \<open>exmdb_server.h\<close> that serve a call, as far as the
  parser and the client see them, and \<open>exmdb_parser_dispatch\<close>, which hands a request to one of
  them and collects what it returns.

  Each function is a field of a record: from the directory of the store and the arguments of the
  call to a step on the state \<open>'db\<close> of the store, which may fail.  What they do to the database is
  not in these theories.
\<close>

type_synonym ('db, 'a) effect = "'db \<Rightarrow> 'a option \<times> 'db"

definition answer :: "('a \<Rightarrow> 'b) \<Rightarrow> ('db, 'a) effect \<Rightarrow> ('db, 'b) effect" where
  "answer f m db = (case m db of (r, db') \<Rightarrow> (map_option f r, db'))"

definition refuse :: "('db, 'a) effect" where
  "refuse db = (None, db)"

subsection \<open>The store\<close>

record 'db store_server =
  exmdb_server_ping_store ::
    "bytes option \<Rightarrow> ('db, unit) effect"
  exmdb_server_get_all_named_propids ::
    "bytes option \<Rightarrow> ('db, u16 list) effect"
  exmdb_server_get_named_propids ::
    "bytes option \<Rightarrow> bool \<Rightarrow> property_name list \<Rightarrow> ('db, u16 list) effect"
  exmdb_server_get_named_propnames ::
    "bytes option \<Rightarrow> u16 list \<Rightarrow> ('db, property_name list) effect"
  exmdb_server_get_mapping_guid ::
    "bytes option \<Rightarrow> u16 \<Rightarrow> ('db, bool \<times> guid) effect"
  exmdb_server_get_mapping_replid ::
    "bytes option \<Rightarrow> guid \<Rightarrow> ('db, bool \<times> u16) effect"
  exmdb_server_get_store_all_proptags ::
    "bytes option \<Rightarrow> ('db, u32 list) effect"
  exmdb_server_get_store_properties ::
    "bytes option \<Rightarrow> u32 \<Rightarrow> u32 list \<Rightarrow> ('db, tagged_propval list) effect"
  exmdb_server_set_store_properties ::
    "bytes option \<Rightarrow> u32 \<Rightarrow> tagged_propval list \<Rightarrow> ('db, property_problem list) effect"
  exmdb_server_remove_store_properties ::
    "bytes option \<Rightarrow> u32 list \<Rightarrow> ('db, unit) effect"
  exmdb_server_check_mailbox_permission ::
    "bytes option \<Rightarrow> bytes \<Rightarrow> ('db, u32) effect"
  exmdb_server_get_folder_by_class ::
    "bytes option \<Rightarrow> bytes \<Rightarrow> ('db, u64 \<times> bytes) effect"
  exmdb_server_set_folder_by_class ::
    "bytes option \<Rightarrow> u64 \<Rightarrow> bytes \<Rightarrow> ('db, bool) effect"
  exmdb_server_get_folder_class_table ::
    "bytes option \<Rightarrow> ('db, tagged_propval list list) effect"

primrec dispatch_store ::
    "'db store_server \<Rightarrow> bool \<Rightarrow> bytes option \<Rightarrow> store_request \<Rightarrow> ('db, store_response) effect" where
  "dispatch_store sv mem dir (REQ_CONNECT prefix remote_id b_private) = refuse"
| "dispatch_store sv mem dir (REQ_LISTEN_NOTIFICATION remote_id) = refuse"
| "dispatch_store sv mem dir REQ_PING_STORE =
     answer (\<lambda>_. RESP_PING_STORE)
       (exmdb_server_ping_store sv dir)"
| "dispatch_store sv mem dir REQ_GET_ALL_NAMED_PROPIDS =
     answer RESP_GET_ALL_NAMED_PROPIDS
       (exmdb_server_get_all_named_propids sv dir)"
| "dispatch_store sv mem dir (REQ_GET_NAMED_PROPIDS b_create ppropnames) =
     answer RESP_GET_NAMED_PROPIDS
       (exmdb_server_get_named_propids sv dir b_create ppropnames)"
| "dispatch_store sv mem dir (REQ_GET_NAMED_PROPNAMES ppropids) =
     answer RESP_GET_NAMED_PROPNAMES
       (exmdb_server_get_named_propnames sv dir ppropids)"
| "dispatch_store sv mem dir (REQ_GET_MAPPING_GUID replid) =
     answer (\<lambda>(b_found, guid). RESP_GET_MAPPING_GUID b_found guid)
       (exmdb_server_get_mapping_guid sv dir replid)"
| "dispatch_store sv mem dir (REQ_GET_MAPPING_REPLID guid) =
     answer (\<lambda>(b_found, replid). RESP_GET_MAPPING_REPLID b_found replid)
       (exmdb_server_get_mapping_replid sv dir guid)"
| "dispatch_store sv mem dir REQ_GET_STORE_ALL_PROPTAGS =
     answer RESP_GET_STORE_ALL_PROPTAGS
       (exmdb_server_get_store_all_proptags sv dir)"
| "dispatch_store sv mem dir (REQ_GET_STORE_PROPERTIES cpid pproptags) =
     answer RESP_GET_STORE_PROPERTIES
       (exmdb_server_get_store_properties sv dir cpid pproptags)"
| "dispatch_store sv mem dir (REQ_SET_STORE_PROPERTIES cpid ppropvals) =
     answer RESP_SET_STORE_PROPERTIES
       (exmdb_server_set_store_properties sv dir cpid ppropvals)"
| "dispatch_store sv mem dir (REQ_REMOVE_STORE_PROPERTIES pproptags) =
     answer (\<lambda>_. RESP_REMOVE_STORE_PROPERTIES)
       (exmdb_server_remove_store_properties sv dir pproptags)"
| "dispatch_store sv mem dir (REQ_CHECK_MAILBOX_PERMISSION username) =
     answer RESP_CHECK_MAILBOX_PERMISSION
       (exmdb_server_check_mailbox_permission sv dir username)"
| "dispatch_store sv mem dir (REQ_GET_FOLDER_BY_CLASS str_class) =
     (if mem then answer (\<lambda>(eid, str_explicit). RESP_GET_FOLDER_BY_CLASS eid str_explicit)
       (exmdb_server_get_folder_by_class sv dir str_class) else refuse)"
| "dispatch_store sv mem dir (REQ_SET_FOLDER_BY_CLASS folder_id str_class) =
     answer RESP_SET_FOLDER_BY_CLASS
       (exmdb_server_set_folder_by_class sv dir folder_id str_class)"
| "dispatch_store sv mem dir REQ_GET_FOLDER_CLASS_TABLE =
     answer RESP_GET_FOLDER_CLASS_TABLE
       (exmdb_server_get_folder_class_table sv dir)"

subsection \<open>Folders and messages in them\<close>

record 'db folder_server =
  exmdb_server_check_folder_id ::
    "bytes option \<Rightarrow> u64 \<Rightarrow> ('db, bool) effect"
  exmdb_server_query_folder_messages ::
    "bytes option \<Rightarrow> u64 \<Rightarrow> ('db, tagged_propval list list) effect"
  exmdb_server_check_folder_deleted ::
    "bytes option \<Rightarrow> u64 \<Rightarrow> ('db, bool) effect"
  exmdb_server_get_folder_by_name ::
    "bytes option \<Rightarrow> u64 \<Rightarrow> bytes \<Rightarrow> ('db, u64) effect"
  exmdb_server_check_folder_permission ::
    "bytes option \<Rightarrow> u64 \<Rightarrow> bytes \<Rightarrow> ('db, u32) effect"
  exmdb_server_create_folder_by_properties ::
    "bytes option \<Rightarrow> u32 \<Rightarrow> tagged_propval list \<Rightarrow> ('db, u64) effect"
  exmdb_server_get_folder_all_proptags ::
    "bytes option \<Rightarrow> u64 \<Rightarrow> ('db, u32 list) effect"
  exmdb_server_get_folder_properties ::
    "bytes option \<Rightarrow> u32 \<Rightarrow> u64 \<Rightarrow> u32 list \<Rightarrow> ('db, tagged_propval list) effect"
  exmdb_server_set_folder_properties ::
    "bytes option \<Rightarrow> u32 \<Rightarrow> u64 \<Rightarrow> tagged_propval list \<Rightarrow> ('db, property_problem list) effect"
  exmdb_server_remove_folder_properties ::
    "bytes option \<Rightarrow> u64 \<Rightarrow> u32 list \<Rightarrow> ('db, unit) effect"
  exmdb_server_delete_folder ::
    "bytes option \<Rightarrow> u32 \<Rightarrow> u64 \<Rightarrow> bool \<Rightarrow> ('db, bool) effect"
  exmdb_server_empty_folder ::
    "bytes option \<Rightarrow> u32 \<Rightarrow> bytes option \<Rightarrow> u64 \<Rightarrow> bool \<Rightarrow> bool \<Rightarrow> bool \<Rightarrow> bool \<Rightarrow> ('db, bool) effect"
  exmdb_server_check_folder_cycle ::
    "bytes option \<Rightarrow> u64 \<Rightarrow> u64 \<Rightarrow> ('db, bool) effect"
  exmdb_server_copy_folder_internal ::
    "bytes option \<Rightarrow> u32 \<Rightarrow> u32 \<Rightarrow> bool \<Rightarrow> bytes option \<Rightarrow> u64 \<Rightarrow> bool \<Rightarrow> bool \<Rightarrow> bool \<Rightarrow> u64 \<Rightarrow>
      ('db, bool \<times> bool) effect"
  exmdb_server_get_search_criteria ::
    "bytes option \<Rightarrow> u64 \<Rightarrow> ('db, u32 \<times> restriction option \<times> u64 list) effect"
  exmdb_server_set_search_criteria ::
    "bytes option \<Rightarrow> u32 \<Rightarrow> u64 \<Rightarrow> u32 \<Rightarrow> restriction option \<Rightarrow> u64 list \<Rightarrow> ('db, bool) effect"
  exmdb_server_movecopy_message ::
    "bytes option \<Rightarrow> u32 \<Rightarrow> u32 \<Rightarrow> u64 \<Rightarrow> u64 \<Rightarrow> u64 \<Rightarrow> bool \<Rightarrow> ('db, bool) effect"
  exmdb_server_movecopy_messages ::
    "bytes option \<Rightarrow> u32 \<Rightarrow> u32 \<Rightarrow> bool \<Rightarrow> bytes option \<Rightarrow> u64 \<Rightarrow> u64 \<Rightarrow> bool \<Rightarrow> u64 list \<Rightarrow> ('db, bool)
      effect"
  exmdb_server_movecopy_folder ::
    "bytes option \<Rightarrow> u32 \<Rightarrow> u32 \<Rightarrow> bool \<Rightarrow> bytes option \<Rightarrow> u64 \<Rightarrow> u64 \<Rightarrow> u64 \<Rightarrow> bytes \<Rightarrow> bool \<Rightarrow>
      ('db, bool \<times> bool) effect"
  exmdb_server_delete_messages ::
    "bytes option \<Rightarrow> u32 \<Rightarrow> u32 \<Rightarrow> bytes option \<Rightarrow> u64 \<Rightarrow> u64 list \<Rightarrow> bool \<Rightarrow> ('db, bool) effect"
  exmdb_server_get_message_brief ::
    "bytes option \<Rightarrow> u32 \<Rightarrow> u64 \<Rightarrow> ('db, message_content option) effect"
  exmdb_server_sum_hierarchy ::
    "bytes option \<Rightarrow> u64 \<Rightarrow> bytes option \<Rightarrow> bool \<Rightarrow> ('db, u32) effect"

primrec dispatch_folder ::
    "'db folder_server \<Rightarrow> bytes option \<Rightarrow> folder_request \<Rightarrow> ('db, folder_response) effect" where
  "dispatch_folder sv dir (REQ_CHECK_FOLDER_ID folder_id) =
     answer RESP_CHECK_FOLDER_ID
       (exmdb_server_check_folder_id sv dir folder_id)"
| "dispatch_folder sv dir (REQ_QUERY_FOLDER_MESSAGES folder_id) =
     answer RESP_QUERY_FOLDER_MESSAGES
       (exmdb_server_query_folder_messages sv dir folder_id)"
| "dispatch_folder sv dir (REQ_CHECK_FOLDER_DELETED folder_id) =
     answer RESP_CHECK_FOLDER_DELETED
       (exmdb_server_check_folder_deleted sv dir folder_id)"
| "dispatch_folder sv dir (REQ_GET_FOLDER_BY_NAME parent_id str_name) =
     answer RESP_GET_FOLDER_BY_NAME
       (exmdb_server_get_folder_by_name sv dir parent_id str_name)"
| "dispatch_folder sv dir (REQ_CHECK_FOLDER_PERMISSION folder_id username) =
     answer RESP_CHECK_FOLDER_PERMISSION
       (exmdb_server_check_folder_permission sv dir folder_id username)"
| "dispatch_folder sv dir (REQ_CREATE_FOLDER_BY_PROPERTIES cpid pproperties) =
     answer RESP_CREATE_FOLDER_BY_PROPERTIES
       (exmdb_server_create_folder_by_properties sv dir cpid pproperties)"
| "dispatch_folder sv dir (REQ_GET_FOLDER_ALL_PROPTAGS folder_id) =
     answer RESP_GET_FOLDER_ALL_PROPTAGS
       (exmdb_server_get_folder_all_proptags sv dir folder_id)"
| "dispatch_folder sv dir (REQ_GET_FOLDER_PROPERTIES cpid folder_id pproptags) =
     answer RESP_GET_FOLDER_PROPERTIES
       (exmdb_server_get_folder_properties sv dir cpid folder_id pproptags)"
| "dispatch_folder sv dir (REQ_SET_FOLDER_PROPERTIES cpid folder_id pproperties) =
     answer RESP_SET_FOLDER_PROPERTIES
       (exmdb_server_set_folder_properties sv dir cpid folder_id pproperties)"
| "dispatch_folder sv dir (REQ_REMOVE_FOLDER_PROPERTIES folder_id pproptags) =
     answer (\<lambda>_. RESP_REMOVE_FOLDER_PROPERTIES)
       (exmdb_server_remove_folder_properties sv dir folder_id pproptags)"
| "dispatch_folder sv dir (REQ_DELETE_FOLDER cpid folder_id b_hard) =
     answer RESP_DELETE_FOLDER
       (exmdb_server_delete_folder sv dir cpid folder_id b_hard)"
| "dispatch_folder sv dir (REQ_EMPTY_FOLDER cpid username folder_id b_hard b_normal b_fai b_sub) =
     answer RESP_EMPTY_FOLDER
       (exmdb_server_empty_folder sv dir cpid username folder_id b_hard b_normal b_fai b_sub)"
| "dispatch_folder sv dir (REQ_CHECK_FOLDER_CYCLE src_fid dst_fid) =
     answer RESP_CHECK_FOLDER_CYCLE
       (exmdb_server_check_folder_cycle sv dir src_fid dst_fid)"
| "dispatch_folder sv dir (REQ_COPY_FOLDER_INTERNAL account_id cpid b_guest username src_fid
  b_normal b_fai b_sub dst_fid) =
     answer (\<lambda>(b_collid, b_partial). RESP_COPY_FOLDER_INTERNAL b_collid b_partial)
       (exmdb_server_copy_folder_internal sv dir account_id cpid b_guest username src_fid
         b_normal b_fai b_sub dst_fid)"
| "dispatch_folder sv dir (REQ_GET_SEARCH_CRITERIA folder_id) =
     answer (\<lambda>(search_status, prestriction, folder_ids). RESP_GET_SEARCH_CRITERIA search_status
       prestriction folder_ids)
       (exmdb_server_get_search_criteria sv dir folder_id)"
| "dispatch_folder sv dir (REQ_SET_SEARCH_CRITERIA cpid folder_id search_flags prestriction
  pfolder_ids) =
     answer RESP_SET_SEARCH_CRITERIA
       (exmdb_server_set_search_criteria sv dir cpid folder_id search_flags prestriction
         pfolder_ids)"
| "dispatch_folder sv dir (REQ_MOVECOPY_MESSAGE account_id cpid message_id dst_fid dst_id b_move)
  =
     answer RESP_MOVECOPY_MESSAGE
       (exmdb_server_movecopy_message sv dir account_id cpid message_id dst_fid dst_id b_move)"
| "dispatch_folder sv dir (REQ_MOVECOPY_MESSAGES account_id cpid b_guest username src_fid dst_fid
  b_copy pmessage_ids) =
     answer RESP_MOVECOPY_MESSAGES
       (exmdb_server_movecopy_messages sv dir account_id cpid b_guest username src_fid dst_fid
         b_copy pmessage_ids)"
| "dispatch_folder sv dir (REQ_MOVECOPY_FOLDER account_id cpid b_guest username src_pid src_fid
  dst_fid str_new b_copy) =
     answer (\<lambda>(b_exist, b_partial). RESP_MOVECOPY_FOLDER b_exist b_partial)
       (exmdb_server_movecopy_folder sv dir account_id cpid b_guest username src_pid src_fid
         dst_fid str_new b_copy)"
| "dispatch_folder sv dir (REQ_DELETE_MESSAGES account_id cpid username folder_id pmessage_ids
  b_hard) =
     answer RESP_DELETE_MESSAGES
       (exmdb_server_delete_messages sv dir account_id cpid username folder_id pmessage_ids
         b_hard)"
| "dispatch_folder sv dir (REQ_GET_MESSAGE_BRIEF cpid message_id) =
     answer RESP_GET_MESSAGE_BRIEF
       (exmdb_server_get_message_brief sv dir cpid message_id)"
| "dispatch_folder sv dir (REQ_SUM_HIERARCHY folder_id username b_depth) =
     answer RESP_SUM_HIERARCHY
       (exmdb_server_sum_hierarchy sv dir folder_id username b_depth)"

subsection \<open>Tables\<close>

record 'db table_server =
  exmdb_server_load_hierarchy_table ::
    "bytes option \<Rightarrow> u64 \<Rightarrow> bytes option \<Rightarrow> u8 \<Rightarrow> restriction option \<Rightarrow> ('db, u32 \<times> u32) effect"
  exmdb_server_sum_content ::
    "bytes option \<Rightarrow> u64 \<Rightarrow> bool \<Rightarrow> bool \<Rightarrow> ('db, u32) effect"
  exmdb_server_load_content_table ::
    "bytes option \<Rightarrow> u32 \<Rightarrow> u64 \<Rightarrow> bytes option \<Rightarrow> u8 \<Rightarrow> restriction option \<Rightarrow> sortorder_set option \<Rightarrow>
      ('db, u32 \<times> u32) effect"
  exmdb_server_load_permission_table ::
    "bytes option \<Rightarrow> u64 \<Rightarrow> u8 \<Rightarrow> ('db, u32 \<times> u32) effect"
  exmdb_server_load_rule_table ::
    "bytes option \<Rightarrow> u64 \<Rightarrow> u8 \<Rightarrow> restriction option \<Rightarrow> ('db, u32 \<times> u32) effect"
  exmdb_server_unload_table ::
    "bytes option \<Rightarrow> u32 \<Rightarrow> ('db, unit) effect"
  exmdb_server_sum_table ::
    "bytes option \<Rightarrow> u32 \<Rightarrow> ('db, u32) effect"
  exmdb_server_query_table ::
    "bytes option \<Rightarrow> bytes option \<Rightarrow> u32 \<Rightarrow> u32 \<Rightarrow> u32 list \<Rightarrow> u32 \<Rightarrow> u32 \<Rightarrow>
      ('db, tagged_propval list list) effect"
  exmdb_server_match_table ::
    "bytes option \<Rightarrow> bytes option \<Rightarrow> u32 \<Rightarrow> u32 \<Rightarrow> bool \<Rightarrow> u32 \<Rightarrow> restriction \<Rightarrow> u32 list \<Rightarrow>
      ('db, u32 \<times> tagged_propval list) effect"
  exmdb_server_locate_table ::
    "bytes option \<Rightarrow> u32 \<Rightarrow> u64 \<Rightarrow> u32 \<Rightarrow> ('db, u32 \<times> u32) effect"
  exmdb_server_read_table_row ::
    "bytes option \<Rightarrow> bytes option \<Rightarrow> u32 \<Rightarrow> u32 \<Rightarrow> u32 list \<Rightarrow> u64 \<Rightarrow> u32 \<Rightarrow> ('db, tagged_propval list)
      effect"
  exmdb_server_mark_table ::
    "bytes option \<Rightarrow> u32 \<Rightarrow> u32 \<Rightarrow> ('db, u64 \<times> u32 \<times> u32) effect"
  exmdb_server_get_table_all_proptags ::
    "bytes option \<Rightarrow> u32 \<Rightarrow> ('db, u32 list) effect"
  exmdb_server_expand_table ::
    "bytes option \<Rightarrow> u32 \<Rightarrow> u64 \<Rightarrow> ('db, bool \<times> u32 \<times> u32) effect"
  exmdb_server_collapse_table ::
    "bytes option \<Rightarrow> u32 \<Rightarrow> u64 \<Rightarrow> ('db, bool \<times> u32 \<times> u32) effect"
  exmdb_server_store_table_state ::
    "bytes option \<Rightarrow> u32 \<Rightarrow> u64 \<Rightarrow> u32 \<Rightarrow> ('db, u32) effect"
  exmdb_server_restore_table_state ::
    "bytes option \<Rightarrow> u32 \<Rightarrow> u32 \<Rightarrow> ('db, u32) effect"
  exmdb_server_reload_content_table ::
    "bytes option \<Rightarrow> u32 \<Rightarrow> ('db, unit) effect"

primrec dispatch_table ::
    "'db table_server \<Rightarrow> bytes option \<Rightarrow> table_request \<Rightarrow> ('db, table_response) effect" where
  "dispatch_table sv dir (REQ_LOAD_HIERARCHY_TABLE folder_id username table_flags prestriction) =
     answer (\<lambda>(table_id, row_count). RESP_LOAD_HIERARCHY_TABLE table_id row_count)
       (exmdb_server_load_hierarchy_table sv dir folder_id username table_flags prestriction)"
| "dispatch_table sv dir (REQ_SUM_CONTENT folder_id b_fai b_deleted) =
     answer RESP_SUM_CONTENT
       (exmdb_server_sum_content sv dir folder_id b_fai b_deleted)"
| "dispatch_table sv dir (REQ_LOAD_CONTENT_TABLE cpid folder_id username table_flags prestriction
  psorts) =
     answer (\<lambda>(table_id, row_count). RESP_LOAD_CONTENT_TABLE table_id row_count)
       (exmdb_server_load_content_table sv dir cpid folder_id username table_flags prestriction
         psorts)"
| "dispatch_table sv dir (REQ_LOAD_PERMISSION_TABLE folder_id table_flags) =
     answer (\<lambda>(table_id, row_count). RESP_LOAD_PERMISSION_TABLE table_id row_count)
       (exmdb_server_load_permission_table sv dir folder_id table_flags)"
| "dispatch_table sv dir (REQ_LOAD_RULE_TABLE folder_id table_flags prestriction) =
     answer (\<lambda>(table_id, row_count). RESP_LOAD_RULE_TABLE table_id row_count)
       (exmdb_server_load_rule_table sv dir folder_id table_flags prestriction)"
| "dispatch_table sv dir (REQ_UNLOAD_TABLE table_id) =
     answer (\<lambda>_. RESP_UNLOAD_TABLE)
       (exmdb_server_unload_table sv dir table_id)"
| "dispatch_table sv dir (REQ_SUM_TABLE table_id) =
     answer RESP_SUM_TABLE
       (exmdb_server_sum_table sv dir table_id)"
| "dispatch_table sv dir (REQ_QUERY_TABLE username cpid table_id pproptags start_pos row_needed) =
     answer RESP_QUERY_TABLE
       (exmdb_server_query_table sv dir username cpid table_id pproptags start_pos row_needed)"
| "dispatch_table sv dir (REQ_MATCH_TABLE username cpid table_id b_forward start_pos pres
  pproptags) =
     answer (\<lambda>(position, propvals). RESP_MATCH_TABLE position propvals)
       (exmdb_server_match_table sv dir username cpid table_id b_forward start_pos pres
         pproptags)"
| "dispatch_table sv dir (REQ_LOCATE_TABLE table_id inst_id inst_num) =
     answer (\<lambda>(position, row_type). RESP_LOCATE_TABLE position row_type)
       (exmdb_server_locate_table sv dir table_id inst_id inst_num)"
| "dispatch_table sv dir (REQ_READ_TABLE_ROW username cpid table_id pproptags inst_id inst_num) =
     answer RESP_READ_TABLE_ROW
       (exmdb_server_read_table_row sv dir username cpid table_id pproptags inst_id inst_num)"
| "dispatch_table sv dir (REQ_MARK_TABLE table_id position) =
     answer (\<lambda>(inst_id, inst_num, row_type). RESP_MARK_TABLE inst_id inst_num row_type)
       (exmdb_server_mark_table sv dir table_id position)"
| "dispatch_table sv dir (REQ_GET_TABLE_ALL_PROPTAGS table_id) =
     answer RESP_GET_TABLE_ALL_PROPTAGS
       (exmdb_server_get_table_all_proptags sv dir table_id)"
| "dispatch_table sv dir (REQ_EXPAND_TABLE table_id inst_id) =
     answer (\<lambda>(b_found, position, row_count). RESP_EXPAND_TABLE b_found position row_count)
       (exmdb_server_expand_table sv dir table_id inst_id)"
| "dispatch_table sv dir (REQ_COLLAPSE_TABLE table_id inst_id) =
     answer (\<lambda>(b_found, position, row_count). RESP_COLLAPSE_TABLE b_found position row_count)
       (exmdb_server_collapse_table sv dir table_id inst_id)"
| "dispatch_table sv dir (REQ_STORE_TABLE_STATE table_id inst_id inst_num) =
     answer RESP_STORE_TABLE_STATE
       (exmdb_server_store_table_state sv dir table_id inst_id inst_num)"
| "dispatch_table sv dir (REQ_RESTORE_TABLE_STATE table_id state_id) =
     answer RESP_RESTORE_TABLE_STATE
       (exmdb_server_restore_table_state sv dir table_id state_id)"
| "dispatch_table sv dir (REQ_RELOAD_CONTENT_TABLE table_id) =
     answer (\<lambda>_. RESP_RELOAD_CONTENT_TABLE)
       (exmdb_server_reload_content_table sv dir table_id)"

subsection \<open>Instances of messages and attachments\<close>

record 'db instance_server =
  exmdb_server_check_message ::
    "bytes option \<Rightarrow> u64 \<Rightarrow> u64 \<Rightarrow> ('db, bool) effect"
  exmdb_server_check_message_deleted ::
    "bytes option \<Rightarrow> u64 \<Rightarrow> ('db, bool) effect"
  exmdb_server_load_message_instance ::
    "bytes option \<Rightarrow> bytes option \<Rightarrow> u32 \<Rightarrow> bool \<Rightarrow> u64 \<Rightarrow> u64 \<Rightarrow> ('db, u32) effect"
  exmdb_server_load_embedded_instance ::
    "bytes option \<Rightarrow> bool \<Rightarrow> u32 \<Rightarrow> ('db, u32) effect"
  exmdb_server_get_embeded_cn ::
    "bytes option \<Rightarrow> u32 \<Rightarrow> ('db, u64 option) effect"
  exmdb_server_reload_message_instance ::
    "bytes option \<Rightarrow> u32 \<Rightarrow> ('db, bool) effect"
  exmdb_server_clear_message_instance ::
    "bytes option \<Rightarrow> u32 \<Rightarrow> ('db, unit) effect"
  exmdb_server_read_message_instance ::
    "bytes option \<Rightarrow> u32 \<Rightarrow> ('db, message_content) effect"
  exmdb_server_write_message_instance ::
    "bytes option \<Rightarrow> u32 \<Rightarrow> message_content \<Rightarrow> bool \<Rightarrow> ('db, u32 list \<times> property_problem list)
      effect"
  exmdb_server_load_attachment_instance ::
    "bytes option \<Rightarrow> u32 \<Rightarrow> u32 \<Rightarrow> ('db, u32) effect"
  exmdb_server_create_attachment_instance ::
    "bytes option \<Rightarrow> u32 \<Rightarrow> ('db, u32 \<times> u32) effect"
  exmdb_server_read_attachment_instance ::
    "bytes option \<Rightarrow> u32 \<Rightarrow> ('db, attachment_content) effect"
  exmdb_server_write_attachment_instance ::
    "bytes option \<Rightarrow> u32 \<Rightarrow> attachment_content \<Rightarrow> bool \<Rightarrow> ('db, property_problem list) effect"
  exmdb_server_delete_message_instance_attachment ::
    "bytes option \<Rightarrow> u32 \<Rightarrow> u32 \<Rightarrow> ('db, unit) effect"
  exmdb_server_flush_instance ::
    "bytes option \<Rightarrow> u32 \<Rightarrow> bytes option \<Rightarrow> ('db, bool) effect"
  exmdb_server_unload_instance ::
    "bytes option \<Rightarrow> u32 \<Rightarrow> ('db, unit) effect"
  exmdb_server_get_instance_all_proptags ::
    "bytes option \<Rightarrow> u32 \<Rightarrow> ('db, u32 list) effect"
  exmdb_server_get_instance_properties ::
    "bytes option \<Rightarrow> u32 \<Rightarrow> u32 \<Rightarrow> u32 list \<Rightarrow> ('db, tagged_propval list) effect"
  exmdb_server_set_instance_properties ::
    "bytes option \<Rightarrow> u32 \<Rightarrow> tagged_propval list \<Rightarrow> ('db, property_problem list) effect"
  exmdb_server_remove_instance_properties ::
    "bytes option \<Rightarrow> u32 \<Rightarrow> u32 list \<Rightarrow> ('db, property_problem list) effect"
  exmdb_server_check_instance_cycle ::
    "bytes option \<Rightarrow> u32 \<Rightarrow> u32 \<Rightarrow> ('db, bool) effect"

primrec dispatch_instance ::
    "'db instance_server \<Rightarrow> bytes option \<Rightarrow> instance_request \<Rightarrow> ('db, instance_response) effect" where
  "dispatch_instance sv dir (REQ_CHECK_MESSAGE folder_id message_id) =
     answer RESP_CHECK_MESSAGE
       (exmdb_server_check_message sv dir folder_id message_id)"
| "dispatch_instance sv dir (REQ_CHECK_MESSAGE_DELETED message_id) =
     answer RESP_CHECK_MESSAGE_DELETED
       (exmdb_server_check_message_deleted sv dir message_id)"
| "dispatch_instance sv dir (REQ_LOAD_MESSAGE_INSTANCE username cpid b_new folder_id message_id) =
     answer RESP_LOAD_MESSAGE_INSTANCE
       (exmdb_server_load_message_instance sv dir username cpid b_new folder_id message_id)"
| "dispatch_instance sv dir (REQ_LOAD_EMBEDDED_INSTANCE b_new attachment_instance_id) =
     answer RESP_LOAD_EMBEDDED_INSTANCE
       (exmdb_server_load_embedded_instance sv dir b_new attachment_instance_id)"
| "dispatch_instance sv dir (REQ_GET_EMBEDED_CN instance_id) =
     answer RESP_GET_EMBEDED_CN
       (exmdb_server_get_embeded_cn sv dir instance_id)"
| "dispatch_instance sv dir (REQ_RELOAD_MESSAGE_INSTANCE instance_id) =
     answer RESP_RELOAD_MESSAGE_INSTANCE
       (exmdb_server_reload_message_instance sv dir instance_id)"
| "dispatch_instance sv dir (REQ_CLEAR_MESSAGE_INSTANCE instance_id) =
     answer (\<lambda>_. RESP_CLEAR_MESSAGE_INSTANCE)
       (exmdb_server_clear_message_instance sv dir instance_id)"
| "dispatch_instance sv dir (REQ_READ_MESSAGE_INSTANCE instance_id) =
     answer RESP_READ_MESSAGE_INSTANCE
       (exmdb_server_read_message_instance sv dir instance_id)"
| "dispatch_instance sv dir (REQ_WRITE_MESSAGE_INSTANCE instance_id pmsgctnt b_force) =
     answer (\<lambda>(proptags, problems). RESP_WRITE_MESSAGE_INSTANCE proptags problems)
       (exmdb_server_write_message_instance sv dir instance_id pmsgctnt b_force)"
| "dispatch_instance sv dir (REQ_LOAD_ATTACHMENT_INSTANCE message_instance_id attachment_num) =
     answer RESP_LOAD_ATTACHMENT_INSTANCE
       (exmdb_server_load_attachment_instance sv dir message_instance_id attachment_num)"
| "dispatch_instance sv dir (REQ_CREATE_ATTACHMENT_INSTANCE message_instance_id) =
     answer (\<lambda>(instance_id, attachment_num). RESP_CREATE_ATTACHMENT_INSTANCE instance_id
       attachment_num)
       (exmdb_server_create_attachment_instance sv dir message_instance_id)"
| "dispatch_instance sv dir (REQ_READ_ATTACHMENT_INSTANCE instance_id) =
     answer RESP_READ_ATTACHMENT_INSTANCE
       (exmdb_server_read_attachment_instance sv dir instance_id)"
| "dispatch_instance sv dir (REQ_WRITE_ATTACHMENT_INSTANCE instance_id pattctnt b_force) =
     answer RESP_WRITE_ATTACHMENT_INSTANCE
       (exmdb_server_write_attachment_instance sv dir instance_id pattctnt b_force)"
| "dispatch_instance sv dir (REQ_DELETE_MESSAGE_INSTANCE_ATTACHMENT message_instance_id
  attachment_num) =
     answer (\<lambda>_. RESP_DELETE_MESSAGE_INSTANCE_ATTACHMENT)
       (exmdb_server_delete_message_instance_attachment sv dir message_instance_id
         attachment_num)"
| "dispatch_instance sv dir (REQ_FLUSH_INSTANCE instance_id account) =
     answer RESP_FLUSH_INSTANCE
       (exmdb_server_flush_instance sv dir instance_id account)"
| "dispatch_instance sv dir (REQ_UNLOAD_INSTANCE instance_id) =
     answer (\<lambda>_. RESP_UNLOAD_INSTANCE)
       (exmdb_server_unload_instance sv dir instance_id)"
| "dispatch_instance sv dir (REQ_GET_INSTANCE_ALL_PROPTAGS instance_id) =
     answer RESP_GET_INSTANCE_ALL_PROPTAGS
       (exmdb_server_get_instance_all_proptags sv dir instance_id)"
| "dispatch_instance sv dir (REQ_GET_INSTANCE_PROPERTIES size_limit instance_id pproptags) =
     answer RESP_GET_INSTANCE_PROPERTIES
       (exmdb_server_get_instance_properties sv dir size_limit instance_id pproptags)"
| "dispatch_instance sv dir (REQ_SET_INSTANCE_PROPERTIES instance_id pproperties) =
     answer RESP_SET_INSTANCE_PROPERTIES
       (exmdb_server_set_instance_properties sv dir instance_id pproperties)"
| "dispatch_instance sv dir (REQ_REMOVE_INSTANCE_PROPERTIES instance_id pproptags) =
     answer RESP_REMOVE_INSTANCE_PROPERTIES
       (exmdb_server_remove_instance_properties sv dir instance_id pproptags)"
| "dispatch_instance sv dir (REQ_CHECK_INSTANCE_CYCLE src_instance_id dst_instance_id) =
     answer RESP_CHECK_INSTANCE_CYCLE
       (exmdb_server_check_instance_cycle sv dir src_instance_id dst_instance_id)"

subsection \<open>The parts of an instance\<close>

record 'db content_server =
  exmdb_server_empty_message_instance_rcpts ::
    "bytes option \<Rightarrow> u32 \<Rightarrow> ('db, unit) effect"
  exmdb_server_get_message_instance_rcpts_num ::
    "bytes option \<Rightarrow> u32 \<Rightarrow> ('db, u16) effect"
  exmdb_server_get_message_instance_rcpts_all_proptags ::
    "bytes option \<Rightarrow> u32 \<Rightarrow> ('db, u32 list) effect"
  exmdb_server_get_message_instance_rcpts ::
    "bytes option \<Rightarrow> u32 \<Rightarrow> u32 \<Rightarrow> u16 \<Rightarrow> ('db, tagged_propval list list) effect"
  exmdb_server_update_message_instance_rcpts ::
    "bytes option \<Rightarrow> u32 \<Rightarrow> tagged_propval list list \<Rightarrow> ('db, unit) effect"
  exmdb_server_empty_message_instance_attachments ::
    "bytes option \<Rightarrow> u32 \<Rightarrow> ('db, unit) effect"
  exmdb_server_get_message_instance_attachments_num ::
    "bytes option \<Rightarrow> u32 \<Rightarrow> ('db, u16) effect"
  exmdb_server_get_message_instance_attachment_table_all_proptags ::
    "bytes option \<Rightarrow> u32 \<Rightarrow> ('db, u32 list) effect"
  exmdb_server_query_message_instance_attachment_table ::
    "bytes option \<Rightarrow> u32 \<Rightarrow> u32 list \<Rightarrow> u32 \<Rightarrow> u32 \<Rightarrow> ('db, tagged_propval list list) effect"
  exmdb_server_copy_instance_attachments ::
    "bytes option \<Rightarrow> bool \<Rightarrow> u32 \<Rightarrow> u32 \<Rightarrow> ('db, bool) effect"
  exmdb_server_set_message_instance_conflict ::
    "bytes option \<Rightarrow> u32 \<Rightarrow> message_content \<Rightarrow> ('db, unit) effect"
  exmdb_server_copy_instance_rcpts ::
    "bytes option \<Rightarrow> bool \<Rightarrow> u32 \<Rightarrow> u32 \<Rightarrow> ('db, bool) effect"

primrec dispatch_content ::
    "'db content_server \<Rightarrow> bytes option \<Rightarrow> content_request \<Rightarrow> ('db, content_response) effect" where
  "dispatch_content sv dir (REQ_EMPTY_MESSAGE_INSTANCE_RCPTS instance_id) =
     answer (\<lambda>_. RESP_EMPTY_MESSAGE_INSTANCE_RCPTS)
       (exmdb_server_empty_message_instance_rcpts sv dir instance_id)"
| "dispatch_content sv dir (REQ_GET_MESSAGE_INSTANCE_RCPTS_NUM instance_id) =
     answer RESP_GET_MESSAGE_INSTANCE_RCPTS_NUM
       (exmdb_server_get_message_instance_rcpts_num sv dir instance_id)"
| "dispatch_content sv dir (REQ_GET_MESSAGE_INSTANCE_RCPTS_ALL_PROPTAGS instance_id) =
     answer RESP_GET_MESSAGE_INSTANCE_RCPTS_ALL_PROPTAGS
       (exmdb_server_get_message_instance_rcpts_all_proptags sv dir instance_id)"
| "dispatch_content sv dir (REQ_GET_MESSAGE_INSTANCE_RCPTS instance_id row_id need_count) =
     answer RESP_GET_MESSAGE_INSTANCE_RCPTS
       (exmdb_server_get_message_instance_rcpts sv dir instance_id row_id need_count)"
| "dispatch_content sv dir (REQ_UPDATE_MESSAGE_INSTANCE_RCPTS instance_id pset) =
     answer (\<lambda>_. RESP_UPDATE_MESSAGE_INSTANCE_RCPTS)
       (exmdb_server_update_message_instance_rcpts sv dir instance_id pset)"
| "dispatch_content sv dir (REQ_EMPTY_MESSAGE_INSTANCE_ATTACHMENTS instance_id) =
     answer (\<lambda>_. RESP_EMPTY_MESSAGE_INSTANCE_ATTACHMENTS)
       (exmdb_server_empty_message_instance_attachments sv dir instance_id)"
| "dispatch_content sv dir (REQ_GET_MESSAGE_INSTANCE_ATTACHMENTS_NUM instance_id) =
     answer RESP_GET_MESSAGE_INSTANCE_ATTACHMENTS_NUM
       (exmdb_server_get_message_instance_attachments_num sv dir instance_id)"
| "dispatch_content sv dir (REQ_GET_MESSAGE_INSTANCE_ATTACHMENT_TABLE_ALL_PROPTAGS instance_id) =
     answer RESP_GET_MESSAGE_INSTANCE_ATTACHMENT_TABLE_ALL_PROPTAGS
       (exmdb_server_get_message_instance_attachment_table_all_proptags sv dir instance_id)"
| "dispatch_content sv dir (REQ_QUERY_MESSAGE_INSTANCE_ATTACHMENT_TABLE instance_id pproptags
  start_pos row_needed) =
     answer RESP_QUERY_MESSAGE_INSTANCE_ATTACHMENT_TABLE
       (exmdb_server_query_message_instance_attachment_table sv dir instance_id pproptags
         start_pos row_needed)"
| "dispatch_content sv dir (REQ_COPY_INSTANCE_ATTACHMENTS b_force src_instance_id dst_instance_id)
  =
     answer RESP_COPY_INSTANCE_ATTACHMENTS
       (exmdb_server_copy_instance_attachments sv dir b_force src_instance_id dst_instance_id)"
| "dispatch_content sv dir (REQ_SET_MESSAGE_INSTANCE_CONFLICT instance_id pmsgctnt) =
     answer (\<lambda>_. RESP_SET_MESSAGE_INSTANCE_CONFLICT)
       (exmdb_server_set_message_instance_conflict sv dir instance_id pmsgctnt)"
| "dispatch_content sv dir (REQ_COPY_INSTANCE_RCPTS b_force src_instance_id dst_instance_id) =
     answer RESP_COPY_INSTANCE_RCPTS
       (exmdb_server_copy_instance_rcpts sv dir b_force src_instance_id dst_instance_id)"

subsection \<open>Messages\<close>

record 'db message_server =
  exmdb_server_get_message_rcpts ::
    "bytes option \<Rightarrow> u64 \<Rightarrow> ('db, tagged_propval list list) effect"
  exmdb_server_get_message_properties ::
    "bytes option \<Rightarrow> bytes option \<Rightarrow> u32 \<Rightarrow> u64 \<Rightarrow> u32 list \<Rightarrow> ('db, tagged_propval list) effect"
  exmdb_server_set_message_properties ::
    "bytes option \<Rightarrow> bytes option \<Rightarrow> u32 \<Rightarrow> u64 \<Rightarrow> tagged_propval list \<Rightarrow>
      ('db, property_problem list) effect"
  exmdb_server_set_message_read_state ::
    "bytes option \<Rightarrow> bytes option \<Rightarrow> u64 \<Rightarrow> u8 \<Rightarrow> ('db, u64) effect"
  exmdb_server_remove_message_properties ::
    "bytes option \<Rightarrow> u32 \<Rightarrow> u64 \<Rightarrow> u32 list \<Rightarrow> ('db, unit) effect"
  exmdb_server_allocate_message_id ::
    "bytes option \<Rightarrow> u64 \<Rightarrow> ('db, u64) effect"
  exmdb_server_allocate_cn ::
    "bytes option \<Rightarrow> ('db, u64) effect"
  exmdb_server_get_message_group_id ::
    "bytes option \<Rightarrow> u64 \<Rightarrow> ('db, u32 option) effect"
  exmdb_server_set_message_group_id ::
    "bytes option \<Rightarrow> u64 \<Rightarrow> u32 \<Rightarrow> ('db, unit) effect"
  exmdb_server_save_change_indices ::
    "bytes option \<Rightarrow> u64 \<Rightarrow> u64 \<Rightarrow> u32 list \<Rightarrow> u32 list \<Rightarrow> ('db, unit) effect"
  exmdb_server_get_change_indices ::
    "bytes option \<Rightarrow> u64 \<Rightarrow> u64 \<Rightarrow> ('db, u32 list \<times> u32 list) effect"
  exmdb_server_mark_modified ::
    "bytes option \<Rightarrow> u64 \<Rightarrow> ('db, unit) effect"
  exmdb_server_try_mark_submit ::
    "bytes option \<Rightarrow> u64 \<Rightarrow> ('db, bool) effect"
  exmdb_server_clear_submit ::
    "bytes option \<Rightarrow> u64 \<Rightarrow> bool \<Rightarrow> ('db, unit) effect"
  exmdb_server_link_message ::
    "bytes option \<Rightarrow> u32 \<Rightarrow> u64 \<Rightarrow> u64 \<Rightarrow> ('db, bool) effect"
  exmdb_server_unlink_message ::
    "bytes option \<Rightarrow> u32 \<Rightarrow> u64 \<Rightarrow> u64 \<Rightarrow> ('db, unit) effect"
  exmdb_server_rule_new_message ::
    "bytes option \<Rightarrow> bytes option \<Rightarrow> bytes \<Rightarrow> u32 \<Rightarrow> u64 \<Rightarrow> u64 \<Rightarrow> ('db, unit) effect"
  exmdb_server_set_message_timer ::
    "bytes option \<Rightarrow> u64 \<Rightarrow> u32 \<Rightarrow> ('db, unit) effect"
  exmdb_server_get_message_timer ::
    "bytes option \<Rightarrow> u64 \<Rightarrow> ('db, u32 option) effect"

primrec dispatch_message ::
    "'db message_server \<Rightarrow> bytes option \<Rightarrow> message_request \<Rightarrow> ('db, message_response) effect" where
  "dispatch_message sv dir (REQ_GET_MESSAGE_RCPTS message_id) =
     answer RESP_GET_MESSAGE_RCPTS
       (exmdb_server_get_message_rcpts sv dir message_id)"
| "dispatch_message sv dir (REQ_GET_MESSAGE_PROPERTIES username cpid message_id pproptags) =
     answer RESP_GET_MESSAGE_PROPERTIES
       (exmdb_server_get_message_properties sv dir username cpid message_id pproptags)"
| "dispatch_message sv dir (REQ_SET_MESSAGE_PROPERTIES username cpid message_id pproperties) =
     answer RESP_SET_MESSAGE_PROPERTIES
       (exmdb_server_set_message_properties sv dir username cpid message_id pproperties)"
| "dispatch_message sv dir (REQ_SET_MESSAGE_READ_STATE username message_id mark_as_read) =
     answer RESP_SET_MESSAGE_READ_STATE
       (exmdb_server_set_message_read_state sv dir username message_id mark_as_read)"
| "dispatch_message sv dir (REQ_REMOVE_MESSAGE_PROPERTIES cpid message_id pproptags) =
     answer (\<lambda>_. RESP_REMOVE_MESSAGE_PROPERTIES)
       (exmdb_server_remove_message_properties sv dir cpid message_id pproptags)"
| "dispatch_message sv dir (REQ_ALLOCATE_MESSAGE_ID folder_id) =
     answer RESP_ALLOCATE_MESSAGE_ID
       (exmdb_server_allocate_message_id sv dir folder_id)"
| "dispatch_message sv dir REQ_ALLOCATE_CN =
     answer RESP_ALLOCATE_CN
       (exmdb_server_allocate_cn sv dir)"
| "dispatch_message sv dir (REQ_GET_MESSAGE_GROUP_ID message_id) =
     answer RESP_GET_MESSAGE_GROUP_ID
       (exmdb_server_get_message_group_id sv dir message_id)"
| "dispatch_message sv dir (REQ_SET_MESSAGE_GROUP_ID message_id group_id) =
     answer (\<lambda>_. RESP_SET_MESSAGE_GROUP_ID)
       (exmdb_server_set_message_group_id sv dir message_id group_id)"
| "dispatch_message sv dir (REQ_SAVE_CHANGE_INDICES message_id cn pindices pungroup_proptags) =
     answer (\<lambda>_. RESP_SAVE_CHANGE_INDICES)
       (exmdb_server_save_change_indices sv dir message_id cn pindices pungroup_proptags)"
| "dispatch_message sv dir (REQ_GET_CHANGE_INDICES message_id cn) =
     answer (\<lambda>(indices, ungroup_proptags). RESP_GET_CHANGE_INDICES indices ungroup_proptags)
       (exmdb_server_get_change_indices sv dir message_id cn)"
| "dispatch_message sv dir (REQ_MARK_MODIFIED message_id) =
     answer (\<lambda>_. RESP_MARK_MODIFIED)
       (exmdb_server_mark_modified sv dir message_id)"
| "dispatch_message sv dir (REQ_TRY_MARK_SUBMIT message_id) =
     answer RESP_TRY_MARK_SUBMIT
       (exmdb_server_try_mark_submit sv dir message_id)"
| "dispatch_message sv dir (REQ_CLEAR_SUBMIT message_id b_unsent) =
     answer (\<lambda>_. RESP_CLEAR_SUBMIT)
       (exmdb_server_clear_submit sv dir message_id b_unsent)"
| "dispatch_message sv dir (REQ_LINK_MESSAGE cpid folder_id message_id) =
     answer RESP_LINK_MESSAGE
       (exmdb_server_link_message sv dir cpid folder_id message_id)"
| "dispatch_message sv dir (REQ_UNLINK_MESSAGE cpid folder_id message_id) =
     answer (\<lambda>_. RESP_UNLINK_MESSAGE)
       (exmdb_server_unlink_message sv dir cpid folder_id message_id)"
| "dispatch_message sv dir (REQ_RULE_NEW_MESSAGE username account cpid folder_id message_id) =
     answer (\<lambda>_. RESP_RULE_NEW_MESSAGE)
       (exmdb_server_rule_new_message sv dir username account cpid folder_id message_id)"
| "dispatch_message sv dir (REQ_SET_MESSAGE_TIMER message_id timer_id) =
     answer (\<lambda>_. RESP_SET_MESSAGE_TIMER)
       (exmdb_server_set_message_timer sv dir message_id timer_id)"
| "dispatch_message sv dir (REQ_GET_MESSAGE_TIMER message_id) =
     answer RESP_GET_MESSAGE_TIMER
       (exmdb_server_get_message_timer sv dir message_id)"

subsection \<open>Permissions, rules, delivery and synchronization\<close>

record 'db service_server =
  exmdb_server_empty_folder_permission ::
    "bytes option \<Rightarrow> u64 \<Rightarrow> ('db, unit) effect"
  exmdb_server_update_folder_permission ::
    "bytes option \<Rightarrow> u64 \<Rightarrow> bool \<Rightarrow> permission_data list \<Rightarrow> ('db, unit) effect"
  exmdb_server_empty_folder_rule ::
    "bytes option \<Rightarrow> u64 \<Rightarrow> ('db, unit) effect"
  exmdb_server_update_folder_rule ::
    "bytes option \<Rightarrow> u64 \<Rightarrow> rule_data list \<Rightarrow> ('db, bool) effect"
  exmdb_server_delivery_message ::
    "bytes option \<Rightarrow> bytes \<Rightarrow> bytes \<Rightarrow> u32 \<Rightarrow> message_content \<Rightarrow> bytes \<Rightarrow> ('db, u32) effect"
  exmdb_server_write_message ::
    "bytes option \<Rightarrow> bytes \<Rightarrow> u32 \<Rightarrow> u64 \<Rightarrow> message_content \<Rightarrow> ('db, bool) effect"
  exmdb_server_read_message ::
    "bytes option \<Rightarrow> bytes option \<Rightarrow> u32 \<Rightarrow> u64 \<Rightarrow> ('db, message_content option) effect"
  exmdb_server_get_content_sync ::
    "bytes option \<Rightarrow> u64 \<Rightarrow> bytes option \<Rightarrow> idset \<Rightarrow> idset option \<Rightarrow> idset option \<Rightarrow> idset option \<Rightarrow>
      u32 \<Rightarrow> restriction option \<Rightarrow> bool \<Rightarrow>
        ('db, u32 \<times> u64 \<times> u32 \<times> u64 \<times> u64 list \<times> u64 list \<times> u64 \<times> u64 list \<times> u64 list \<times> u64 list
          \<times> u64 list \<times> u64 list \<times> u64) effect"
  exmdb_server_get_hierarchy_sync ::
    "bytes option \<Rightarrow> u64 \<Rightarrow> bytes option \<Rightarrow> idset \<Rightarrow> idset option \<Rightarrow>
      ('db, tagged_propval list list \<times> u64 \<times> u64 list \<times> u64 list) effect"
  exmdb_server_allocate_ids ::
    "bytes option \<Rightarrow> u32 \<Rightarrow> ('db, u64) effect"
  exmdb_server_subscribe_notification ::
    "bytes option \<Rightarrow> u16 \<Rightarrow> bool \<Rightarrow> u64 \<Rightarrow> u64 \<Rightarrow> ('db, u32) effect"
  exmdb_server_unsubscribe_notification ::
    "bytes option \<Rightarrow> u32 \<Rightarrow> ('db, unit) effect"
  exmdb_server_transport_new_mail ::
    "bytes option \<Rightarrow> u64 \<Rightarrow> u64 \<Rightarrow> u32 \<Rightarrow> bytes \<Rightarrow> ('db, unit) effect"
  exmdb_server_check_contact_address ::
    "bytes option \<Rightarrow> bytes \<Rightarrow> ('db, bool) effect"
  exmdb_server_get_public_folder_unread_count ::
    "bytes option \<Rightarrow> bytes \<Rightarrow> u64 \<Rightarrow> ('db, u32) effect"
  exmdb_server_unload_store ::
    "bytes option \<Rightarrow> ('db, unit) effect"

primrec dispatch_service ::
    "'db service_server \<Rightarrow> bytes option \<Rightarrow> service_request \<Rightarrow> ('db, service_response) effect" where
  "dispatch_service sv dir (REQ_EMPTY_FOLDER_PERMISSION folder_id) =
     answer (\<lambda>_. RESP_EMPTY_FOLDER_PERMISSION)
       (exmdb_server_empty_folder_permission sv dir folder_id)"
| "dispatch_service sv dir (REQ_UPDATE_FOLDER_PERMISSION folder_id b_freebusy prow) =
     answer (\<lambda>_. RESP_UPDATE_FOLDER_PERMISSION)
       (exmdb_server_update_folder_permission sv dir folder_id b_freebusy prow)"
| "dispatch_service sv dir (REQ_EMPTY_FOLDER_RULE folder_id) =
     answer (\<lambda>_. RESP_EMPTY_FOLDER_RULE)
       (exmdb_server_empty_folder_rule sv dir folder_id)"
| "dispatch_service sv dir (REQ_UPDATE_FOLDER_RULE folder_id prow) =
     answer RESP_UPDATE_FOLDER_RULE
       (exmdb_server_update_folder_rule sv dir folder_id prow)"
| "dispatch_service sv dir (REQ_DELIVERY_MESSAGE from_address account cpid pmsg pdigest) =
     answer RESP_DELIVERY_MESSAGE
       (exmdb_server_delivery_message sv dir from_address account cpid pmsg pdigest)"
| "dispatch_service sv dir (REQ_WRITE_MESSAGE account cpid folder_id pmsgctnt) =
     answer RESP_WRITE_MESSAGE
       (exmdb_server_write_message sv dir account cpid folder_id pmsgctnt)"
| "dispatch_service sv dir (REQ_READ_MESSAGE username cpid message_id) =
     answer RESP_READ_MESSAGE
       (exmdb_server_read_message sv dir username cpid message_id)"
| "dispatch_service sv dir (REQ_GET_CONTENT_SYNC folder_id username pgiven pseen pseen_fai pread
  cpid prestriction b_ordered) =
     answer (\<lambda>(fai_count, fai_total, normal_count, normal_total, updated_mids, chg_mids,
       last_cn, given_mids, deleted_mids, nolonger_mids, read_mids, unread_mids, last_readcn).
         RESP_GET_CONTENT_SYNC fai_count fai_total normal_count normal_total updated_mids
           chg_mids last_cn given_mids deleted_mids nolonger_mids read_mids unread_mids
             last_readcn)
       (exmdb_server_get_content_sync sv dir folder_id username pgiven pseen pseen_fai pread
         cpid prestriction b_ordered)"
| "dispatch_service sv dir (REQ_GET_HIERARCHY_SYNC folder_id username pgiven pseen) =
     answer (\<lambda>(fldchgs, last_cn, given_fids, deleted_fids). RESP_GET_HIERARCHY_SYNC fldchgs
       last_cn given_fids deleted_fids)
       (exmdb_server_get_hierarchy_sync sv dir folder_id username pgiven pseen)"
| "dispatch_service sv dir (REQ_ALLOCATE_IDS cnt) =
     answer RESP_ALLOCATE_IDS
       (exmdb_server_allocate_ids sv dir cnt)"
| "dispatch_service sv dir (REQ_SUBSCRIBE_NOTIFICATION notificaton_type b_whole folder_id
  message_id) =
     answer RESP_SUBSCRIBE_NOTIFICATION
       (exmdb_server_subscribe_notification sv dir notificaton_type b_whole folder_id
         message_id)"
| "dispatch_service sv dir (REQ_UNSUBSCRIBE_NOTIFICATION sub_id) =
     answer (\<lambda>_. RESP_UNSUBSCRIBE_NOTIFICATION)
       (exmdb_server_unsubscribe_notification sv dir sub_id)"
| "dispatch_service sv dir (REQ_TRANSPORT_NEW_MAIL folder_id message_id message_flags pstr_class)
  =
     answer (\<lambda>_. RESP_TRANSPORT_NEW_MAIL)
       (exmdb_server_transport_new_mail sv dir folder_id message_id message_flags pstr_class)"
| "dispatch_service sv dir (REQ_CHECK_CONTACT_ADDRESS paddress) =
     answer RESP_CHECK_CONTACT_ADDRESS
       (exmdb_server_check_contact_address sv dir paddress)"
| "dispatch_service sv dir (REQ_GET_PUBLIC_FOLDER_UNREAD_COUNT username folder_id) =
     answer RESP_GET_PUBLIC_FOLDER_UNREAD_COUNT
       (exmdb_server_get_public_folder_unread_count sv dir username folder_id)"
| "dispatch_service sv dir REQ_UNLOAD_STORE =
     answer (\<lambda>_. RESP_UNLOAD_STORE)
       (exmdb_server_unload_store sv dir)"

subsection \<open>All calls\<close>

record 'db exmdb_server =
  store_calls :: "'db store_server"
  folder_calls :: "'db folder_server"
  table_calls :: "'db table_server"
  instance_calls :: "'db instance_server"
  content_calls :: "'db content_server"
  message_calls :: "'db message_server"
  service_calls :: "'db service_server"

text \<open>
  \<open>mem\<close> is the answer of the only allocation, for the name of a receive folder.  The request has
  been read before, so that \<open>dir\<close> is there unless the call is one of the first two.
\<close>

primrec dispatch_payload ::
    "'db exmdb_server \<Rightarrow> bool \<Rightarrow> bytes option \<Rightarrow> request_payload \<Rightarrow> ('db, response_payload) effect" where
  "dispatch_payload sv mem dir (STORE_REQUEST p) =
     answer STORE_RESPONSE (dispatch_store (store_calls sv) mem dir p)"
| "dispatch_payload sv mem dir (FOLDER_REQUEST p) =
     answer FOLDER_RESPONSE (dispatch_folder (folder_calls sv) dir p)"
| "dispatch_payload sv mem dir (TABLE_REQUEST p) =
     answer TABLE_RESPONSE (dispatch_table (table_calls sv) dir p)"
| "dispatch_payload sv mem dir (INSTANCE_REQUEST p) =
     answer INSTANCE_RESPONSE (dispatch_instance (instance_calls sv) dir p)"
| "dispatch_payload sv mem dir (CONTENT_REQUEST p) =
     answer CONTENT_RESPONSE (dispatch_content (content_calls sv) dir p)"
| "dispatch_payload sv mem dir (MESSAGE_REQUEST p) =
     answer MESSAGE_RESPONSE (dispatch_message (message_calls sv) dir p)"
| "dispatch_payload sv mem dir (SERVICE_REQUEST p) =
     answer SERVICE_RESPONSE (dispatch_service (service_calls sv) dir p)"

definition exmdb_parser_dispatch ::
    "'db exmdb_server \<Rightarrow> bool \<Rightarrow> exmdb_request \<Rightarrow> ('db, response_payload) effect" where
  "exmdb_parser_dispatch sv mem request = dispatch_payload sv mem (rq_dir request) (rq_payload request)"

subsection \<open>The response fits the call\<close>

lemma answer_Some: "fst (answer f m db) = Some y \<longleftrightarrow> (\<exists>x. fst (m db) = Some x \<and> y = f x)"
  by (auto simp: answer_def split: prod.split)

lemma dispatch_store_id:
  "fst (dispatch_store sv mem dir p db) = Some r \<Longrightarrow> store_response_id r = store_request_id p"
  by (cases p) (auto simp: answer_Some refuse_def split: if_splits)

lemma dispatch_folder_id:
  "fst (dispatch_folder sv dir p db) = Some r \<Longrightarrow> folder_response_id r = folder_request_id p"
  by (cases p) (auto simp: answer_Some refuse_def split: if_splits)

lemma dispatch_table_id:
  "fst (dispatch_table sv dir p db) = Some r \<Longrightarrow> table_response_id r = table_request_id p"
  by (cases p) (auto simp: answer_Some refuse_def split: if_splits)

lemma dispatch_instance_id:
  "fst (dispatch_instance sv dir p db) = Some r \<Longrightarrow> instance_response_id r = instance_request_id p"
  by (cases p) (auto simp: answer_Some refuse_def split: if_splits)

lemma dispatch_content_id:
  "fst (dispatch_content sv dir p db) = Some r \<Longrightarrow> content_response_id r = content_request_id p"
  by (cases p) (auto simp: answer_Some refuse_def split: if_splits)

lemma dispatch_message_id:
  "fst (dispatch_message sv dir p db) = Some r \<Longrightarrow> message_response_id r = message_request_id p"
  by (cases p) (auto simp: answer_Some refuse_def split: if_splits)

lemma dispatch_service_id:
  "fst (dispatch_service sv dir p db) = Some r \<Longrightarrow> service_response_id r = service_request_id p"
  by (cases p) (auto simp: answer_Some refuse_def split: if_splits)

lemma dispatch_id:
  "fst (exmdb_parser_dispatch sv mem request db) = Some response \<Longrightarrow>
     response_call_id response = request_call_id (rq_payload request)"
  by (cases "rq_payload request")
    (auto simp: exmdb_parser_dispatch_def answer_Some
      dest: dispatch_store_id dispatch_folder_id dispatch_table_id dispatch_instance_id dispatch_content_id dispatch_message_id dispatch_service_id)

end
