(* ===== verification/Exmdb_Calls.thy ===== *)
theory Exmdb_Calls
  imports Exmdb_Client Exmdb_Server
begin

text \<open>
  The calls of \<open>exmdb_client.c\<close>.  Each of them looks for the store among those of this server,
  where it is the function of \<open>exmdb_server.h\<close>; otherwise it fills in a request, makes the call,
  and takes what it wants from the response.  The response is a union: to take another part of
  it than the one that has been read would be undefined (it does not happen: the call id decides).

  Three functions leave fields of the request as they are: these are further arguments here,
  named \<open>junk_\<close> after the field.
\<close>

subsection \<open>What the calls have in common\<close>

definition client_call ::
    "rpc_answers \<Rightarrow> bytes \<Rightarrow> ('db, 'a) effect \<Rightarrow> request_payload \<Rightarrow>
     (response_payload \<Rightarrow> 'a option) \<Rightarrow> client \<times> 'db \<Rightarrow> 'a outcome \<times> client \<times> 'db" where
  "client_call a dir local request out s =
     (case s of (c, db) \<Rightarrow>
        (case exmdb_client_check_local (g_client_local_list c) dir of
           Some b_private \<Rightarrow>
             (case local db of
                (None, db') \<Rightarrow> (FAILS, c, db')
              | (Some x, db') \<Rightarrow> (GETS x, c, db'))
         | None \<Rightarrow>
             (case exmdb_client_do_rpc a dir (EXMDB_REQUEST (Some dir) request) c of
                (WAITING, c') \<Rightarrow> (WAITING, c', db)
              | (FAILS, c') \<Rightarrow> (FAILS, c', db)
              | (BREAKS, c') \<Rightarrow> (BREAKS, c', db)
              | (GETS response, c') \<Rightarrow>
                  (case out response of
                     None \<Rightarrow> BREAKS
                   | Some x \<Rightarrow> GETS x, c', db))))"

type_synonym ('db, 'a) call = "client \<times> 'db \<Rightarrow> 'a outcome \<times> client \<times> 'db"

subsection \<open>The store\<close>

definition exmdb_client_ping_store ::
    "rpc_answers \<Rightarrow> 'db exmdb_server \<Rightarrow> bytes \<Rightarrow> ('db, unit) call" where
  "exmdb_client_ping_store a sv dir =
     client_call a dir
       (exmdb_server_ping_store (store_calls sv) (Some dir))
       (STORE_REQUEST REQ_PING_STORE)
       (\<lambda>response. case response of
            STORE_RESPONSE RESP_PING_STORE \<Rightarrow> Some ()
          | _ \<Rightarrow> None)"

definition exmdb_client_get_all_named_propids ::
    "rpc_answers \<Rightarrow> 'db exmdb_server \<Rightarrow> bytes \<Rightarrow> ('db, u16 list) call" where
  "exmdb_client_get_all_named_propids a sv dir =
     client_call a dir
       (exmdb_server_get_all_named_propids (store_calls sv) (Some dir))
       (STORE_REQUEST REQ_GET_ALL_NAMED_PROPIDS)
       (\<lambda>response. case response of
            STORE_RESPONSE (RESP_GET_ALL_NAMED_PROPIDS propids) \<Rightarrow> Some propids
          | _ \<Rightarrow> None)"

definition exmdb_client_get_named_propids ::
    "rpc_answers \<Rightarrow> 'db exmdb_server \<Rightarrow> bytes \<Rightarrow> bool \<Rightarrow> property_name list \<Rightarrow> ('db, u16 list) call"
      where
  "exmdb_client_get_named_propids a sv dir b_create ppropnames =
     client_call a dir
       (exmdb_server_get_named_propids (store_calls sv) (Some dir) b_create ppropnames)
       (STORE_REQUEST (REQ_GET_NAMED_PROPIDS b_create ppropnames))
       (\<lambda>response. case response of
            STORE_RESPONSE (RESP_GET_NAMED_PROPIDS propids) \<Rightarrow> Some propids
          | _ \<Rightarrow> None)"

definition exmdb_client_get_named_propnames ::
    "rpc_answers \<Rightarrow> 'db exmdb_server \<Rightarrow> bytes \<Rightarrow> u16 list \<Rightarrow> ('db, property_name list) call" where
  "exmdb_client_get_named_propnames a sv dir ppropids =
     client_call a dir
       (exmdb_server_get_named_propnames (store_calls sv) (Some dir) ppropids)
       (STORE_REQUEST (REQ_GET_NAMED_PROPNAMES ppropids))
       (\<lambda>response. case response of
            STORE_RESPONSE (RESP_GET_NAMED_PROPNAMES propnames) \<Rightarrow> Some propnames
          | _ \<Rightarrow> None)"

definition exmdb_client_get_mapping_guid ::
    "rpc_answers \<Rightarrow> 'db exmdb_server \<Rightarrow> bytes \<Rightarrow> u16 \<Rightarrow> ('db, bool \<times> guid) call" where
  "exmdb_client_get_mapping_guid a sv dir replid =
     client_call a dir
       (exmdb_server_get_mapping_guid (store_calls sv) (Some dir) replid)
       (STORE_REQUEST (REQ_GET_MAPPING_GUID replid))
       (\<lambda>response. case response of
            STORE_RESPONSE (RESP_GET_MAPPING_GUID b_found guid) \<Rightarrow> Some (b_found, guid)
          | _ \<Rightarrow> None)"

definition exmdb_client_get_mapping_replid ::
    "rpc_answers \<Rightarrow> 'db exmdb_server \<Rightarrow> bytes \<Rightarrow> guid \<Rightarrow> ('db, bool \<times> u16) call" where
  "exmdb_client_get_mapping_replid a sv dir guid =
     client_call a dir
       (exmdb_server_get_mapping_replid (store_calls sv) (Some dir) guid)
       (STORE_REQUEST (REQ_GET_MAPPING_REPLID guid))
       (\<lambda>response. case response of
            STORE_RESPONSE (RESP_GET_MAPPING_REPLID b_found replid) \<Rightarrow> Some (b_found, replid)
          | _ \<Rightarrow> None)"

definition exmdb_client_get_store_all_proptags ::
    "rpc_answers \<Rightarrow> 'db exmdb_server \<Rightarrow> bytes \<Rightarrow> ('db, u32 list) call" where
  "exmdb_client_get_store_all_proptags a sv dir =
     client_call a dir
       (exmdb_server_get_store_all_proptags (store_calls sv) (Some dir))
       (STORE_REQUEST REQ_GET_STORE_ALL_PROPTAGS)
       (\<lambda>response. case response of
            STORE_RESPONSE (RESP_GET_STORE_ALL_PROPTAGS proptags) \<Rightarrow> Some proptags
          | _ \<Rightarrow> None)"

definition exmdb_client_get_store_properties ::
    "rpc_answers \<Rightarrow> 'db exmdb_server \<Rightarrow> bytes \<Rightarrow> u32 \<Rightarrow> u32 list \<Rightarrow> ('db, tagged_propval list) call"
      where
  "exmdb_client_get_store_properties a sv dir cpid pproptags =
     client_call a dir
       (exmdb_server_get_store_properties (store_calls sv) (Some dir) cpid pproptags)
       (STORE_REQUEST (REQ_GET_STORE_PROPERTIES cpid pproptags))
       (\<lambda>response. case response of
            STORE_RESPONSE (RESP_GET_STORE_PROPERTIES propvals) \<Rightarrow> Some propvals
          | _ \<Rightarrow> None)"

definition exmdb_client_set_store_properties ::
    "rpc_answers \<Rightarrow> 'db exmdb_server \<Rightarrow> bytes \<Rightarrow> u32 \<Rightarrow> tagged_propval list \<Rightarrow>
      ('db, property_problem list) call" where
  "exmdb_client_set_store_properties a sv dir cpid ppropvals =
     client_call a dir
       (exmdb_server_set_store_properties (store_calls sv) (Some dir) cpid ppropvals)
       (STORE_REQUEST (REQ_SET_STORE_PROPERTIES cpid ppropvals))
       (\<lambda>response. case response of
            STORE_RESPONSE (RESP_SET_STORE_PROPERTIES problems) \<Rightarrow> Some problems
          | _ \<Rightarrow> None)"

definition exmdb_client_remove_store_properties ::
    "rpc_answers \<Rightarrow> 'db exmdb_server \<Rightarrow> bytes \<Rightarrow> u32 list \<Rightarrow> ('db, unit) call" where
  "exmdb_client_remove_store_properties a sv dir pproptags =
     client_call a dir
       (exmdb_server_remove_store_properties (store_calls sv) (Some dir) pproptags)
       (STORE_REQUEST (REQ_REMOVE_STORE_PROPERTIES pproptags))
       (\<lambda>response. case response of
            STORE_RESPONSE RESP_REMOVE_STORE_PROPERTIES \<Rightarrow> Some ()
          | _ \<Rightarrow> None)"

definition exmdb_client_check_mailbox_permission ::
    "rpc_answers \<Rightarrow> 'db exmdb_server \<Rightarrow> bytes \<Rightarrow> bytes \<Rightarrow> ('db, u32) call" where
  "exmdb_client_check_mailbox_permission a sv dir username =
     client_call a dir
       (exmdb_server_check_mailbox_permission (store_calls sv) (Some dir) username)
       (STORE_REQUEST (REQ_CHECK_MAILBOX_PERMISSION username))
       (\<lambda>response. case response of
            STORE_RESPONSE (RESP_CHECK_MAILBOX_PERMISSION permission) \<Rightarrow> Some permission
          | _ \<Rightarrow> None)"

definition exmdb_client_get_folder_by_class ::
    "rpc_answers \<Rightarrow> 'db exmdb_server \<Rightarrow> bytes \<Rightarrow> bytes \<Rightarrow> ('db, u64 \<times> bytes) call" where
  "exmdb_client_get_folder_by_class a sv dir str_class =
     client_call a dir
       (exmdb_server_get_folder_by_class (store_calls sv) (Some dir) str_class)
       (STORE_REQUEST (REQ_GET_FOLDER_BY_CLASS str_class))
       (\<lambda>response. case response of
            STORE_RESPONSE (RESP_GET_FOLDER_BY_CLASS eid str_explicit) \<Rightarrow>
              Some (eid, str_explicit)
          | _ \<Rightarrow> None)"

definition exmdb_client_set_folder_by_class ::
    "rpc_answers \<Rightarrow> 'db exmdb_server \<Rightarrow> bytes \<Rightarrow> u64 \<Rightarrow> bytes \<Rightarrow> u64 \<Rightarrow> ('db, bool) call" where
  "exmdb_client_set_folder_by_class a sv dir folder_id str_class junk_folder_id =
     client_call a dir
       (exmdb_server_set_folder_by_class (store_calls sv) (Some dir) folder_id str_class)
       (STORE_REQUEST (REQ_SET_FOLDER_BY_CLASS junk_folder_id str_class))
       (\<lambda>response. case response of
            STORE_RESPONSE (RESP_SET_FOLDER_BY_CLASS b_result) \<Rightarrow> Some b_result
          | _ \<Rightarrow> None)"

definition exmdb_client_get_folder_class_table ::
    "rpc_answers \<Rightarrow> 'db exmdb_server \<Rightarrow> bytes \<Rightarrow> ('db, tagged_propval list list) call" where
  "exmdb_client_get_folder_class_table a sv dir =
     client_call a dir
       (exmdb_server_get_folder_class_table (store_calls sv) (Some dir))
       (STORE_REQUEST REQ_GET_FOLDER_CLASS_TABLE)
       (\<lambda>response. case response of
            STORE_RESPONSE (RESP_GET_FOLDER_CLASS_TABLE table) \<Rightarrow> Some table
          | _ \<Rightarrow> None)"

subsection \<open>Folders and messages in them\<close>

definition exmdb_client_check_folder_id ::
    "rpc_answers \<Rightarrow> 'db exmdb_server \<Rightarrow> bytes \<Rightarrow> u64 \<Rightarrow> ('db, bool) call" where
  "exmdb_client_check_folder_id a sv dir folder_id =
     client_call a dir
       (exmdb_server_check_folder_id (folder_calls sv) (Some dir) folder_id)
       (FOLDER_REQUEST (REQ_CHECK_FOLDER_ID folder_id))
       (\<lambda>response. case response of
            FOLDER_RESPONSE (RESP_CHECK_FOLDER_ID b_exist) \<Rightarrow> Some b_exist
          | _ \<Rightarrow> None)"

definition exmdb_client_query_folder_messages ::
    "rpc_answers \<Rightarrow> 'db exmdb_server \<Rightarrow> bytes \<Rightarrow> u64 \<Rightarrow> ('db, tagged_propval list list) call" where
  "exmdb_client_query_folder_messages a sv dir folder_id =
     client_call a dir
       (exmdb_server_query_folder_messages (folder_calls sv) (Some dir) folder_id)
       (FOLDER_REQUEST (REQ_QUERY_FOLDER_MESSAGES folder_id))
       (\<lambda>response. case response of
            FOLDER_RESPONSE (RESP_QUERY_FOLDER_MESSAGES tset) \<Rightarrow> Some tset
          | _ \<Rightarrow> None)"

definition exmdb_client_check_folder_deleted ::
    "rpc_answers \<Rightarrow> 'db exmdb_server \<Rightarrow> bytes \<Rightarrow> u64 \<Rightarrow> ('db, bool) call" where
  "exmdb_client_check_folder_deleted a sv dir folder_id =
     client_call a dir
       (exmdb_server_check_folder_deleted (folder_calls sv) (Some dir) folder_id)
       (FOLDER_REQUEST (REQ_CHECK_FOLDER_DELETED folder_id))
       (\<lambda>response. case response of
            FOLDER_RESPONSE (RESP_CHECK_FOLDER_DELETED b_del) \<Rightarrow> Some b_del
          | _ \<Rightarrow> None)"

definition exmdb_client_get_folder_by_name ::
    "rpc_answers \<Rightarrow> 'db exmdb_server \<Rightarrow> bytes \<Rightarrow> u64 \<Rightarrow> bytes \<Rightarrow> ('db, u64) call" where
  "exmdb_client_get_folder_by_name a sv dir parent_id str_name =
     client_call a dir
       (exmdb_server_get_folder_by_name (folder_calls sv) (Some dir) parent_id str_name)
       (FOLDER_REQUEST (REQ_GET_FOLDER_BY_NAME parent_id str_name))
       (\<lambda>response. case response of
            FOLDER_RESPONSE (RESP_GET_FOLDER_BY_NAME folder_id) \<Rightarrow> Some folder_id
          | _ \<Rightarrow> None)"

definition exmdb_client_check_folder_permission ::
    "rpc_answers \<Rightarrow> 'db exmdb_server \<Rightarrow> bytes \<Rightarrow> u64 \<Rightarrow> bytes \<Rightarrow> ('db, u32) call" where
  "exmdb_client_check_folder_permission a sv dir folder_id username =
     client_call a dir
       (exmdb_server_check_folder_permission (folder_calls sv) (Some dir) folder_id username)
       (FOLDER_REQUEST (REQ_CHECK_FOLDER_PERMISSION folder_id username))
       (\<lambda>response. case response of
            FOLDER_RESPONSE (RESP_CHECK_FOLDER_PERMISSION permission) \<Rightarrow> Some permission
          | _ \<Rightarrow> None)"

definition exmdb_client_create_folder_by_properties ::
    "rpc_answers \<Rightarrow> 'db exmdb_server \<Rightarrow> bytes \<Rightarrow> u32 \<Rightarrow> tagged_propval list \<Rightarrow> ('db, u64) call" where
  "exmdb_client_create_folder_by_properties a sv dir cpid pproperties =
     client_call a dir
       (exmdb_server_create_folder_by_properties (folder_calls sv) (Some dir) cpid pproperties)
       (FOLDER_REQUEST (REQ_CREATE_FOLDER_BY_PROPERTIES cpid pproperties))
       (\<lambda>response. case response of
            FOLDER_RESPONSE (RESP_CREATE_FOLDER_BY_PROPERTIES folder_id) \<Rightarrow> Some folder_id
          | _ \<Rightarrow> None)"

definition exmdb_client_get_folder_all_proptags ::
    "rpc_answers \<Rightarrow> 'db exmdb_server \<Rightarrow> bytes \<Rightarrow> u64 \<Rightarrow> ('db, u32 list) call" where
  "exmdb_client_get_folder_all_proptags a sv dir folder_id =
     client_call a dir
       (exmdb_server_get_folder_all_proptags (folder_calls sv) (Some dir) folder_id)
       (FOLDER_REQUEST (REQ_GET_FOLDER_ALL_PROPTAGS folder_id))
       (\<lambda>response. case response of
            FOLDER_RESPONSE (RESP_GET_FOLDER_ALL_PROPTAGS proptags) \<Rightarrow> Some proptags
          | _ \<Rightarrow> None)"

definition exmdb_client_get_folder_properties ::
    "rpc_answers \<Rightarrow> 'db exmdb_server \<Rightarrow> bytes \<Rightarrow> u32 \<Rightarrow> u64 \<Rightarrow> u32 list \<Rightarrow> ('db, tagged_propval list)
      call" where
  "exmdb_client_get_folder_properties a sv dir cpid folder_id pproptags =
     client_call a dir
       (exmdb_server_get_folder_properties (folder_calls sv) (Some dir) cpid folder_id
         pproptags)
       (FOLDER_REQUEST (REQ_GET_FOLDER_PROPERTIES cpid folder_id pproptags))
       (\<lambda>response. case response of
            FOLDER_RESPONSE (RESP_GET_FOLDER_PROPERTIES propvals) \<Rightarrow> Some propvals
          | _ \<Rightarrow> None)"

definition exmdb_client_set_folder_properties ::
    "rpc_answers \<Rightarrow> 'db exmdb_server \<Rightarrow> bytes \<Rightarrow> u32 \<Rightarrow> u64 \<Rightarrow> tagged_propval list \<Rightarrow>
      ('db, property_problem list) call" where
  "exmdb_client_set_folder_properties a sv dir cpid folder_id pproperties =
     client_call a dir
       (exmdb_server_set_folder_properties (folder_calls sv) (Some dir) cpid folder_id
         pproperties)
       (FOLDER_REQUEST (REQ_SET_FOLDER_PROPERTIES cpid folder_id pproperties))
       (\<lambda>response. case response of
            FOLDER_RESPONSE (RESP_SET_FOLDER_PROPERTIES problems) \<Rightarrow> Some problems
          | _ \<Rightarrow> None)"

definition exmdb_client_remove_folder_properties ::
    "rpc_answers \<Rightarrow> 'db exmdb_server \<Rightarrow> bytes \<Rightarrow> u64 \<Rightarrow> u32 list \<Rightarrow> ('db, unit) call" where
  "exmdb_client_remove_folder_properties a sv dir folder_id pproptags =
     client_call a dir
       (exmdb_server_remove_folder_properties (folder_calls sv) (Some dir) folder_id pproptags)
       (FOLDER_REQUEST (REQ_REMOVE_FOLDER_PROPERTIES folder_id pproptags))
       (\<lambda>response. case response of
            FOLDER_RESPONSE RESP_REMOVE_FOLDER_PROPERTIES \<Rightarrow> Some ()
          | _ \<Rightarrow> None)"

definition exmdb_client_delete_folder ::
    "rpc_answers \<Rightarrow> 'db exmdb_server \<Rightarrow> bytes \<Rightarrow> u32 \<Rightarrow> u64 \<Rightarrow> bool \<Rightarrow> ('db, bool) call" where
  "exmdb_client_delete_folder a sv dir cpid folder_id b_hard =
     client_call a dir
       (exmdb_server_delete_folder (folder_calls sv) (Some dir) cpid folder_id b_hard)
       (FOLDER_REQUEST (REQ_DELETE_FOLDER cpid folder_id b_hard))
       (\<lambda>response. case response of
            FOLDER_RESPONSE (RESP_DELETE_FOLDER b_result) \<Rightarrow> Some b_result
          | _ \<Rightarrow> None)"

definition exmdb_client_empty_folder ::
    "rpc_answers \<Rightarrow> 'db exmdb_server \<Rightarrow> bytes \<Rightarrow> u32 \<Rightarrow> bytes option \<Rightarrow> u64 \<Rightarrow> bool \<Rightarrow> bool \<Rightarrow> bool \<Rightarrow>
      bool \<Rightarrow> ('db, bool) call" where
  "exmdb_client_empty_folder a sv dir cpid username folder_id b_hard b_normal b_fai b_sub =
     client_call a dir
       (exmdb_server_empty_folder (folder_calls sv) (Some dir) cpid username folder_id b_hard
         b_normal b_fai b_sub)
       (FOLDER_REQUEST (REQ_EMPTY_FOLDER cpid username folder_id b_hard b_normal b_fai b_sub))
       (\<lambda>response. case response of
            FOLDER_RESPONSE (RESP_EMPTY_FOLDER b_partial) \<Rightarrow> Some b_partial
          | _ \<Rightarrow> None)"

definition exmdb_client_check_folder_cycle ::
    "rpc_answers \<Rightarrow> 'db exmdb_server \<Rightarrow> bytes \<Rightarrow> u64 \<Rightarrow> u64 \<Rightarrow> u64 \<Rightarrow> u64 \<Rightarrow> ('db, bool) call" where
  "exmdb_client_check_folder_cycle a sv dir src_fid dst_fid junk_src_fid junk_dst_fid =
     client_call a dir
       (exmdb_server_check_folder_cycle (folder_calls sv) (Some dir) src_fid dst_fid)
       (FOLDER_REQUEST (REQ_CHECK_FOLDER_CYCLE junk_src_fid junk_dst_fid))
       (\<lambda>response. case response of
            FOLDER_RESPONSE (RESP_CHECK_FOLDER_CYCLE b_cycle) \<Rightarrow> Some b_cycle
          | _ \<Rightarrow> None)"

definition exmdb_client_copy_folder_internal ::
    "rpc_answers \<Rightarrow> 'db exmdb_server \<Rightarrow> bytes \<Rightarrow> u32 \<Rightarrow> u32 \<Rightarrow> bool \<Rightarrow> bytes option \<Rightarrow> u64 \<Rightarrow> bool \<Rightarrow>
      bool \<Rightarrow> bool \<Rightarrow> u64 \<Rightarrow> ('db, bool \<times> bool) call" where
  "exmdb_client_copy_folder_internal a sv dir account_id cpid b_guest username src_fid b_normal
    b_fai b_sub dst_fid =
     client_call a dir
       (exmdb_server_copy_folder_internal (folder_calls sv) (Some dir) account_id cpid b_guest
         username src_fid b_normal b_fai b_sub dst_fid)
       (FOLDER_REQUEST (REQ_COPY_FOLDER_INTERNAL account_id cpid b_guest username src_fid
         b_normal b_fai b_sub dst_fid))
       (\<lambda>response. case response of
            FOLDER_RESPONSE (RESP_COPY_FOLDER_INTERNAL b_collid b_partial) \<Rightarrow>
              Some (b_collid, b_partial)
          | _ \<Rightarrow> None)"

definition exmdb_client_get_search_criteria ::
    "rpc_answers \<Rightarrow> 'db exmdb_server \<Rightarrow> bytes \<Rightarrow> u64 \<Rightarrow> ('db, u32 \<times> restriction option \<times> u64 list)
      call" where
  "exmdb_client_get_search_criteria a sv dir folder_id =
     client_call a dir
       (exmdb_server_get_search_criteria (folder_calls sv) (Some dir) folder_id)
       (FOLDER_REQUEST (REQ_GET_SEARCH_CRITERIA folder_id))
       (\<lambda>response. case response of
            FOLDER_RESPONSE (RESP_GET_SEARCH_CRITERIA search_status prestriction folder_ids) \<Rightarrow>
              Some (search_status, prestriction, folder_ids)
          | _ \<Rightarrow> None)"

definition exmdb_client_set_search_criteria ::
    "rpc_answers \<Rightarrow> 'db exmdb_server \<Rightarrow> bytes \<Rightarrow> u32 \<Rightarrow> u64 \<Rightarrow> u32 \<Rightarrow> restriction option \<Rightarrow> u64 list \<Rightarrow>
      ('db, bool) call" where
  "exmdb_client_set_search_criteria a sv dir cpid folder_id search_flags prestriction
    pfolder_ids =
     client_call a dir
       (exmdb_server_set_search_criteria (folder_calls sv) (Some dir) cpid folder_id
         search_flags prestriction pfolder_ids)
       (FOLDER_REQUEST (REQ_SET_SEARCH_CRITERIA cpid folder_id search_flags prestriction
         pfolder_ids))
       (\<lambda>response. case response of
            FOLDER_RESPONSE (RESP_SET_SEARCH_CRITERIA b_result) \<Rightarrow> Some b_result
          | _ \<Rightarrow> None)"

definition exmdb_client_movecopy_message ::
    "rpc_answers \<Rightarrow> 'db exmdb_server \<Rightarrow> bytes \<Rightarrow> u32 \<Rightarrow> u32 \<Rightarrow> u64 \<Rightarrow> u64 \<Rightarrow> u64 \<Rightarrow> bool \<Rightarrow> ('db, bool)
      call" where
  "exmdb_client_movecopy_message a sv dir account_id cpid message_id dst_fid dst_id b_move =
     client_call a dir
       (exmdb_server_movecopy_message (folder_calls sv) (Some dir) account_id cpid message_id
         dst_fid dst_id b_move)
       (FOLDER_REQUEST (REQ_MOVECOPY_MESSAGE account_id cpid message_id dst_fid dst_id b_move))
       (\<lambda>response. case response of
            FOLDER_RESPONSE (RESP_MOVECOPY_MESSAGE b_result) \<Rightarrow> Some b_result
          | _ \<Rightarrow> None)"

definition exmdb_client_movecopy_messages ::
    "rpc_answers \<Rightarrow> 'db exmdb_server \<Rightarrow> bytes \<Rightarrow> u32 \<Rightarrow> u32 \<Rightarrow> bool \<Rightarrow> bytes option \<Rightarrow> u64 \<Rightarrow> u64 \<Rightarrow> bool
      \<Rightarrow> u64 list \<Rightarrow> ('db, bool) call" where
  "exmdb_client_movecopy_messages a sv dir account_id cpid b_guest username src_fid dst_fid
    b_copy pmessage_ids =
     client_call a dir
       (exmdb_server_movecopy_messages (folder_calls sv) (Some dir) account_id cpid b_guest
         username src_fid dst_fid b_copy pmessage_ids)
       (FOLDER_REQUEST (REQ_MOVECOPY_MESSAGES account_id cpid b_guest username src_fid dst_fid
         b_copy pmessage_ids))
       (\<lambda>response. case response of
            FOLDER_RESPONSE (RESP_MOVECOPY_MESSAGES b_partial) \<Rightarrow> Some b_partial
          | _ \<Rightarrow> None)"

definition exmdb_client_movecopy_folder ::
    "rpc_answers \<Rightarrow> 'db exmdb_server \<Rightarrow> bytes \<Rightarrow> u32 \<Rightarrow> u32 \<Rightarrow> bool \<Rightarrow> bytes option \<Rightarrow> u64 \<Rightarrow> u64 \<Rightarrow> u64
      \<Rightarrow> bytes \<Rightarrow> bool \<Rightarrow> ('db, bool \<times> bool) call" where
  "exmdb_client_movecopy_folder a sv dir account_id cpid b_guest username src_pid src_fid
    dst_fid str_new b_copy =
     client_call a dir
       (exmdb_server_movecopy_folder (folder_calls sv) (Some dir) account_id cpid b_guest
         username src_pid src_fid dst_fid str_new b_copy)
       (FOLDER_REQUEST (REQ_MOVECOPY_FOLDER account_id cpid b_guest username src_pid src_fid
         dst_fid str_new b_copy))
       (\<lambda>response. case response of
            FOLDER_RESPONSE (RESP_MOVECOPY_FOLDER b_exist b_partial) \<Rightarrow>
              Some (b_exist, b_partial)
          | _ \<Rightarrow> None)"

definition exmdb_client_delete_messages ::
    "rpc_answers \<Rightarrow> 'db exmdb_server \<Rightarrow> bytes \<Rightarrow> u32 \<Rightarrow> u32 \<Rightarrow> bytes option \<Rightarrow> u64 \<Rightarrow> u64 list \<Rightarrow> bool \<Rightarrow>
      ('db, bool) call" where
  "exmdb_client_delete_messages a sv dir account_id cpid username folder_id pmessage_ids b_hard
    =
     client_call a dir
       (exmdb_server_delete_messages (folder_calls sv) (Some dir) account_id cpid username
         folder_id pmessage_ids b_hard)
       (FOLDER_REQUEST (REQ_DELETE_MESSAGES account_id cpid username folder_id pmessage_ids
         b_hard))
       (\<lambda>response. case response of
            FOLDER_RESPONSE (RESP_DELETE_MESSAGES b_partial) \<Rightarrow> Some b_partial
          | _ \<Rightarrow> None)"

definition exmdb_client_get_message_brief ::
    "rpc_answers \<Rightarrow> 'db exmdb_server \<Rightarrow> bytes \<Rightarrow> u32 \<Rightarrow> u64 \<Rightarrow> ('db, message_content option) call"
      where
  "exmdb_client_get_message_brief a sv dir cpid message_id =
     client_call a dir
       (exmdb_server_get_message_brief (folder_calls sv) (Some dir) cpid message_id)
       (FOLDER_REQUEST (REQ_GET_MESSAGE_BRIEF cpid message_id))
       (\<lambda>response. case response of
            FOLDER_RESPONSE (RESP_GET_MESSAGE_BRIEF pbrief) \<Rightarrow> Some pbrief
          | _ \<Rightarrow> None)"

definition exmdb_client_sum_hierarchy ::
    "rpc_answers \<Rightarrow> 'db exmdb_server \<Rightarrow> bytes \<Rightarrow> u64 \<Rightarrow> bytes option \<Rightarrow> bool \<Rightarrow> ('db, u32) call" where
  "exmdb_client_sum_hierarchy a sv dir folder_id username b_depth =
     client_call a dir
       (exmdb_server_sum_hierarchy (folder_calls sv) (Some dir) folder_id username b_depth)
       (FOLDER_REQUEST (REQ_SUM_HIERARCHY folder_id username b_depth))
       (\<lambda>response. case response of
            FOLDER_RESPONSE (RESP_SUM_HIERARCHY cnt) \<Rightarrow> Some cnt
          | _ \<Rightarrow> None)"

subsection \<open>Tables\<close>

definition exmdb_client_load_hierarchy_table ::
    "rpc_answers \<Rightarrow> 'db exmdb_server \<Rightarrow> bytes \<Rightarrow> u64 \<Rightarrow> bytes option \<Rightarrow> u8 \<Rightarrow> restriction option \<Rightarrow>
      ('db, u32 \<times> u32) call" where
  "exmdb_client_load_hierarchy_table a sv dir folder_id username table_flags prestriction =
     client_call a dir
       (exmdb_server_load_hierarchy_table (table_calls sv) (Some dir) folder_id username
         table_flags prestriction)
       (TABLE_REQUEST (REQ_LOAD_HIERARCHY_TABLE folder_id username table_flags prestriction))
       (\<lambda>response. case response of
            TABLE_RESPONSE (RESP_LOAD_HIERARCHY_TABLE table_id row_count) \<Rightarrow>
              Some (table_id, row_count)
          | _ \<Rightarrow> None)"

definition exmdb_client_sum_content ::
    "rpc_answers \<Rightarrow> 'db exmdb_server \<Rightarrow> bytes \<Rightarrow> u64 \<Rightarrow> bool \<Rightarrow> bool \<Rightarrow> ('db, u32) call" where
  "exmdb_client_sum_content a sv dir folder_id b_fai b_deleted =
     client_call a dir
       (exmdb_server_sum_content (table_calls sv) (Some dir) folder_id b_fai b_deleted)
       (TABLE_REQUEST (REQ_SUM_CONTENT folder_id b_fai b_deleted))
       (\<lambda>response. case response of
            TABLE_RESPONSE (RESP_SUM_CONTENT cnt) \<Rightarrow> Some cnt
          | _ \<Rightarrow> None)"

definition exmdb_client_load_content_table ::
    "rpc_answers \<Rightarrow> 'db exmdb_server \<Rightarrow> bytes \<Rightarrow> u32 \<Rightarrow> u64 \<Rightarrow> bytes option \<Rightarrow> u8 \<Rightarrow> restriction option
      \<Rightarrow> sortorder_set option \<Rightarrow> ('db, u32 \<times> u32) call" where
  "exmdb_client_load_content_table a sv dir cpid folder_id username table_flags prestriction
    psorts =
     client_call a dir
       (exmdb_server_load_content_table (table_calls sv) (Some dir) cpid folder_id username
         table_flags prestriction psorts)
       (TABLE_REQUEST (REQ_LOAD_CONTENT_TABLE cpid folder_id username table_flags prestriction
         psorts))
       (\<lambda>response. case response of
            TABLE_RESPONSE (RESP_LOAD_CONTENT_TABLE table_id row_count) \<Rightarrow>
              Some (table_id, row_count)
          | _ \<Rightarrow> None)"

definition exmdb_client_reload_content_table ::
    "rpc_answers \<Rightarrow> 'db exmdb_server \<Rightarrow> bytes \<Rightarrow> u32 \<Rightarrow> ('db, unit) call" where
  "exmdb_client_reload_content_table a sv dir table_id =
     client_call a dir
       (exmdb_server_reload_content_table (table_calls sv) (Some dir) table_id)
       (TABLE_REQUEST (REQ_RELOAD_CONTENT_TABLE table_id))
       (\<lambda>response. case response of
            TABLE_RESPONSE RESP_RELOAD_CONTENT_TABLE \<Rightarrow> Some ()
          | _ \<Rightarrow> None)"

definition exmdb_client_load_permission_table ::
    "rpc_answers \<Rightarrow> 'db exmdb_server \<Rightarrow> bytes \<Rightarrow> u64 \<Rightarrow> u8 \<Rightarrow> ('db, u32 \<times> u32) call" where
  "exmdb_client_load_permission_table a sv dir folder_id table_flags =
     client_call a dir
       (exmdb_server_load_permission_table (table_calls sv) (Some dir) folder_id table_flags)
       (TABLE_REQUEST (REQ_LOAD_PERMISSION_TABLE folder_id table_flags))
       (\<lambda>response. case response of
            TABLE_RESPONSE (RESP_LOAD_PERMISSION_TABLE table_id row_count) \<Rightarrow>
              Some (table_id, row_count)
          | _ \<Rightarrow> None)"

definition exmdb_client_load_rule_table ::
    "rpc_answers \<Rightarrow> 'db exmdb_server \<Rightarrow> bytes \<Rightarrow> u64 \<Rightarrow> u8 \<Rightarrow> restriction option \<Rightarrow> ('db, u32 \<times> u32)
      call" where
  "exmdb_client_load_rule_table a sv dir folder_id table_flags prestriction =
     client_call a dir
       (exmdb_server_load_rule_table (table_calls sv) (Some dir) folder_id table_flags
         prestriction)
       (TABLE_REQUEST (REQ_LOAD_RULE_TABLE folder_id table_flags prestriction))
       (\<lambda>response. case response of
            TABLE_RESPONSE (RESP_LOAD_RULE_TABLE table_id row_count) \<Rightarrow>
              Some (table_id, row_count)
          | _ \<Rightarrow> None)"

definition exmdb_client_unload_table ::
    "rpc_answers \<Rightarrow> 'db exmdb_server \<Rightarrow> bytes \<Rightarrow> u32 \<Rightarrow> ('db, unit) call" where
  "exmdb_client_unload_table a sv dir table_id =
     client_call a dir
       (exmdb_server_unload_table (table_calls sv) (Some dir) table_id)
       (TABLE_REQUEST (REQ_UNLOAD_TABLE table_id))
       (\<lambda>response. case response of
            TABLE_RESPONSE RESP_UNLOAD_TABLE \<Rightarrow> Some ()
          | _ \<Rightarrow> None)"

definition exmdb_client_sum_table ::
    "rpc_answers \<Rightarrow> 'db exmdb_server \<Rightarrow> bytes \<Rightarrow> u32 \<Rightarrow> ('db, u32) call" where
  "exmdb_client_sum_table a sv dir table_id =
     client_call a dir
       (exmdb_server_sum_table (table_calls sv) (Some dir) table_id)
       (TABLE_REQUEST (REQ_SUM_TABLE table_id))
       (\<lambda>response. case response of
            TABLE_RESPONSE (RESP_SUM_TABLE rows) \<Rightarrow> Some rows
          | _ \<Rightarrow> None)"

definition exmdb_client_query_table ::
    "rpc_answers \<Rightarrow> 'db exmdb_server \<Rightarrow> bytes \<Rightarrow> bytes option \<Rightarrow> u32 \<Rightarrow> u32 \<Rightarrow> u32 list \<Rightarrow> u32 \<Rightarrow> u32 \<Rightarrow>
      ('db, tagged_propval list list) call" where
  "exmdb_client_query_table a sv dir username cpid table_id pproptags start_pos row_needed =
     client_call a dir
       (exmdb_server_query_table (table_calls sv) (Some dir) username cpid table_id pproptags
         start_pos row_needed)
       (TABLE_REQUEST (REQ_QUERY_TABLE username cpid table_id pproptags start_pos row_needed))
       (\<lambda>response. case response of
            TABLE_RESPONSE (RESP_QUERY_TABLE tset) \<Rightarrow> Some tset
          | _ \<Rightarrow> None)"

definition exmdb_client_match_table ::
    "rpc_answers \<Rightarrow> 'db exmdb_server \<Rightarrow> bytes \<Rightarrow> bytes option \<Rightarrow> u32 \<Rightarrow> u32 \<Rightarrow> bool \<Rightarrow> u32 \<Rightarrow>
      restriction \<Rightarrow> u32 list \<Rightarrow> ('db, u32 \<times> tagged_propval list) call" where
  "exmdb_client_match_table a sv dir username cpid table_id b_forward start_pos pres pproptags =
     client_call a dir
       (exmdb_server_match_table (table_calls sv) (Some dir) username cpid table_id b_forward
         start_pos pres pproptags)
       (TABLE_REQUEST (REQ_MATCH_TABLE username cpid table_id b_forward start_pos pres
         pproptags))
       (\<lambda>response. case response of
            TABLE_RESPONSE (RESP_MATCH_TABLE position propvals) \<Rightarrow> Some (position, propvals)
          | _ \<Rightarrow> None)"

definition exmdb_client_locate_table ::
    "rpc_answers \<Rightarrow> 'db exmdb_server \<Rightarrow> bytes \<Rightarrow> u32 \<Rightarrow> u64 \<Rightarrow> u32 \<Rightarrow> ('db, u32 \<times> u32) call" where
  "exmdb_client_locate_table a sv dir table_id inst_id inst_num =
     client_call a dir
       (exmdb_server_locate_table (table_calls sv) (Some dir) table_id inst_id inst_num)
       (TABLE_REQUEST (REQ_LOCATE_TABLE table_id inst_id inst_num))
       (\<lambda>response. case response of
            TABLE_RESPONSE (RESP_LOCATE_TABLE position row_type) \<Rightarrow> Some (position, row_type)
          | _ \<Rightarrow> None)"

definition exmdb_client_read_table_row ::
    "rpc_answers \<Rightarrow> 'db exmdb_server \<Rightarrow> bytes \<Rightarrow> bytes option \<Rightarrow> u32 \<Rightarrow> u32 \<Rightarrow> u32 list \<Rightarrow> u64 \<Rightarrow> u32 \<Rightarrow>
      ('db, tagged_propval list) call" where
  "exmdb_client_read_table_row a sv dir username cpid table_id pproptags inst_id inst_num =
     client_call a dir
       (exmdb_server_read_table_row (table_calls sv) (Some dir) username cpid table_id pproptags
         inst_id inst_num)
       (TABLE_REQUEST (REQ_READ_TABLE_ROW username cpid table_id pproptags inst_id inst_num))
       (\<lambda>response. case response of
            TABLE_RESPONSE (RESP_READ_TABLE_ROW propvals) \<Rightarrow> Some propvals
          | _ \<Rightarrow> None)"

definition exmdb_client_mark_table ::
    "rpc_answers \<Rightarrow> 'db exmdb_server \<Rightarrow> bytes \<Rightarrow> u32 \<Rightarrow> u32 \<Rightarrow> ('db, u64 \<times> u32 \<times> u32) call" where
  "exmdb_client_mark_table a sv dir table_id position =
     client_call a dir
       (exmdb_server_mark_table (table_calls sv) (Some dir) table_id position)
       (TABLE_REQUEST (REQ_MARK_TABLE table_id position))
       (\<lambda>response. case response of
            TABLE_RESPONSE (RESP_MARK_TABLE inst_id inst_num row_type) \<Rightarrow>
              Some (inst_id, inst_num, row_type)
          | _ \<Rightarrow> None)"

definition exmdb_client_get_table_all_proptags ::
    "rpc_answers \<Rightarrow> 'db exmdb_server \<Rightarrow> bytes \<Rightarrow> u32 \<Rightarrow> ('db, u32 list) call" where
  "exmdb_client_get_table_all_proptags a sv dir table_id =
     client_call a dir
       (exmdb_server_get_table_all_proptags (table_calls sv) (Some dir) table_id)
       (TABLE_REQUEST (REQ_GET_TABLE_ALL_PROPTAGS table_id))
       (\<lambda>response. case response of
            TABLE_RESPONSE (RESP_GET_TABLE_ALL_PROPTAGS proptags) \<Rightarrow> Some proptags
          | _ \<Rightarrow> None)"

definition exmdb_client_expand_table ::
    "rpc_answers \<Rightarrow> 'db exmdb_server \<Rightarrow> bytes \<Rightarrow> u32 \<Rightarrow> u64 \<Rightarrow> ('db, bool \<times> u32 \<times> u32) call" where
  "exmdb_client_expand_table a sv dir table_id inst_id =
     client_call a dir
       (exmdb_server_expand_table (table_calls sv) (Some dir) table_id inst_id)
       (TABLE_REQUEST (REQ_EXPAND_TABLE table_id inst_id))
       (\<lambda>response. case response of
            TABLE_RESPONSE (RESP_EXPAND_TABLE b_found position row_count) \<Rightarrow>
              Some (b_found, position, row_count)
          | _ \<Rightarrow> None)"

definition exmdb_client_collapse_table ::
    "rpc_answers \<Rightarrow> 'db exmdb_server \<Rightarrow> bytes \<Rightarrow> u32 \<Rightarrow> u64 \<Rightarrow> ('db, bool \<times> u32 \<times> u32) call" where
  "exmdb_client_collapse_table a sv dir table_id inst_id =
     client_call a dir
       (exmdb_server_collapse_table (table_calls sv) (Some dir) table_id inst_id)
       (TABLE_REQUEST (REQ_COLLAPSE_TABLE table_id inst_id))
       (\<lambda>response. case response of
            TABLE_RESPONSE (RESP_COLLAPSE_TABLE b_found position row_count) \<Rightarrow>
              Some (b_found, position, row_count)
          | _ \<Rightarrow> None)"

definition exmdb_client_store_table_state ::
    "rpc_answers \<Rightarrow> 'db exmdb_server \<Rightarrow> bytes \<Rightarrow> u32 \<Rightarrow> u64 \<Rightarrow> u32 \<Rightarrow> u64 \<Rightarrow> u32 \<Rightarrow> ('db, u32) call"
      where
  "exmdb_client_store_table_state a sv dir table_id inst_id inst_num junk_inst_id junk_inst_num
    =
     client_call a dir
       (exmdb_server_store_table_state (table_calls sv) (Some dir) table_id inst_id inst_num)
       (TABLE_REQUEST (REQ_STORE_TABLE_STATE inst_num junk_inst_id junk_inst_num))
       (\<lambda>response. case response of
            TABLE_RESPONSE (RESP_STORE_TABLE_STATE state_id) \<Rightarrow> Some state_id
          | _ \<Rightarrow> None)"

definition exmdb_client_restore_table_state ::
    "rpc_answers \<Rightarrow> 'db exmdb_server \<Rightarrow> bytes \<Rightarrow> u32 \<Rightarrow> u32 \<Rightarrow> ('db, u32) call" where
  "exmdb_client_restore_table_state a sv dir table_id state_id =
     client_call a dir
       (exmdb_server_restore_table_state (table_calls sv) (Some dir) table_id state_id)
       (TABLE_REQUEST (REQ_RESTORE_TABLE_STATE table_id state_id))
       (\<lambda>response. case response of
            TABLE_RESPONSE (RESP_RESTORE_TABLE_STATE position) \<Rightarrow> Some position
          | _ \<Rightarrow> None)"

subsection \<open>Instances of messages and attachments\<close>

definition exmdb_client_check_message ::
    "rpc_answers \<Rightarrow> 'db exmdb_server \<Rightarrow> bytes \<Rightarrow> u64 \<Rightarrow> u64 \<Rightarrow> ('db, bool) call" where
  "exmdb_client_check_message a sv dir folder_id message_id =
     client_call a dir
       (exmdb_server_check_message (instance_calls sv) (Some dir) folder_id message_id)
       (INSTANCE_REQUEST (REQ_CHECK_MESSAGE folder_id message_id))
       (\<lambda>response. case response of
            INSTANCE_RESPONSE (RESP_CHECK_MESSAGE b_exist) \<Rightarrow> Some b_exist
          | _ \<Rightarrow> None)"

definition exmdb_client_check_message_deleted ::
    "rpc_answers \<Rightarrow> 'db exmdb_server \<Rightarrow> bytes \<Rightarrow> u64 \<Rightarrow> ('db, bool) call" where
  "exmdb_client_check_message_deleted a sv dir message_id =
     client_call a dir
       (exmdb_server_check_message_deleted (instance_calls sv) (Some dir) message_id)
       (INSTANCE_REQUEST (REQ_CHECK_MESSAGE_DELETED message_id))
       (\<lambda>response. case response of
            INSTANCE_RESPONSE (RESP_CHECK_MESSAGE_DELETED b_del) \<Rightarrow> Some b_del
          | _ \<Rightarrow> None)"

definition exmdb_client_load_message_instance ::
    "rpc_answers \<Rightarrow> 'db exmdb_server \<Rightarrow> bytes \<Rightarrow> bytes option \<Rightarrow> u32 \<Rightarrow> bool \<Rightarrow> u64 \<Rightarrow> u64 \<Rightarrow> ('db, u32)
      call" where
  "exmdb_client_load_message_instance a sv dir username cpid b_new folder_id message_id =
     client_call a dir
       (exmdb_server_load_message_instance (instance_calls sv) (Some dir) username cpid b_new
         folder_id message_id)
       (INSTANCE_REQUEST (REQ_LOAD_MESSAGE_INSTANCE username cpid b_new folder_id message_id))
       (\<lambda>response. case response of
            INSTANCE_RESPONSE (RESP_LOAD_MESSAGE_INSTANCE instance_id) \<Rightarrow> Some instance_id
          | _ \<Rightarrow> None)"

definition exmdb_client_load_embedded_instance ::
    "rpc_answers \<Rightarrow> 'db exmdb_server \<Rightarrow> bytes \<Rightarrow> bool \<Rightarrow> u32 \<Rightarrow> ('db, u32) call" where
  "exmdb_client_load_embedded_instance a sv dir b_new attachment_instance_id =
     client_call a dir
       (exmdb_server_load_embedded_instance (instance_calls sv) (Some dir) b_new
         attachment_instance_id)
       (INSTANCE_REQUEST (REQ_LOAD_EMBEDDED_INSTANCE b_new attachment_instance_id))
       (\<lambda>response. case response of
            INSTANCE_RESPONSE (RESP_LOAD_EMBEDDED_INSTANCE instance_id) \<Rightarrow> Some instance_id
          | _ \<Rightarrow> None)"

definition exmdb_client_get_embeded_cn ::
    "rpc_answers \<Rightarrow> 'db exmdb_server \<Rightarrow> bytes \<Rightarrow> u32 \<Rightarrow> ('db, u64 option) call" where
  "exmdb_client_get_embeded_cn a sv dir instance_id =
     client_call a dir
       (exmdb_server_get_embeded_cn (instance_calls sv) (Some dir) instance_id)
       (INSTANCE_REQUEST (REQ_GET_EMBEDED_CN instance_id))
       (\<lambda>response. case response of
            INSTANCE_RESPONSE (RESP_GET_EMBEDED_CN pcn) \<Rightarrow> Some pcn
          | _ \<Rightarrow> None)"

definition exmdb_client_reload_message_instance ::
    "rpc_answers \<Rightarrow> 'db exmdb_server \<Rightarrow> bytes \<Rightarrow> u32 \<Rightarrow> ('db, bool) call" where
  "exmdb_client_reload_message_instance a sv dir instance_id =
     client_call a dir
       (exmdb_server_reload_message_instance (instance_calls sv) (Some dir) instance_id)
       (INSTANCE_REQUEST (REQ_RELOAD_MESSAGE_INSTANCE instance_id))
       (\<lambda>response. case response of
            INSTANCE_RESPONSE (RESP_RELOAD_MESSAGE_INSTANCE b_result) \<Rightarrow> Some b_result
          | _ \<Rightarrow> None)"

definition exmdb_client_clear_message_instance ::
    "rpc_answers \<Rightarrow> 'db exmdb_server \<Rightarrow> bytes \<Rightarrow> u32 \<Rightarrow> ('db, unit) call" where
  "exmdb_client_clear_message_instance a sv dir instance_id =
     client_call a dir
       (exmdb_server_clear_message_instance (instance_calls sv) (Some dir) instance_id)
       (INSTANCE_REQUEST (REQ_CLEAR_MESSAGE_INSTANCE instance_id))
       (\<lambda>response. case response of
            INSTANCE_RESPONSE RESP_CLEAR_MESSAGE_INSTANCE \<Rightarrow> Some ()
          | _ \<Rightarrow> None)"

definition exmdb_client_read_message_instance ::
    "rpc_answers \<Rightarrow> 'db exmdb_server \<Rightarrow> bytes \<Rightarrow> u32 \<Rightarrow> ('db, message_content) call" where
  "exmdb_client_read_message_instance a sv dir instance_id =
     client_call a dir
       (exmdb_server_read_message_instance (instance_calls sv) (Some dir) instance_id)
       (INSTANCE_REQUEST (REQ_READ_MESSAGE_INSTANCE instance_id))
       (\<lambda>response. case response of
            INSTANCE_RESPONSE (RESP_READ_MESSAGE_INSTANCE msgctnt) \<Rightarrow> Some msgctnt
          | _ \<Rightarrow> None)"

definition exmdb_client_write_message_instance ::
    "rpc_answers \<Rightarrow> 'db exmdb_server \<Rightarrow> bytes \<Rightarrow> u32 \<Rightarrow> message_content \<Rightarrow> bool \<Rightarrow>
      ('db, u32 list \<times> property_problem list) call" where
  "exmdb_client_write_message_instance a sv dir instance_id pmsgctnt b_force =
     client_call a dir
       (exmdb_server_write_message_instance (instance_calls sv) (Some dir) instance_id pmsgctnt
         b_force)
       (INSTANCE_REQUEST (REQ_WRITE_MESSAGE_INSTANCE instance_id pmsgctnt b_force))
       (\<lambda>response. case response of
            INSTANCE_RESPONSE (RESP_WRITE_MESSAGE_INSTANCE proptags problems) \<Rightarrow>
              Some (proptags, problems)
          | _ \<Rightarrow> None)"

definition exmdb_client_load_attachment_instance ::
    "rpc_answers \<Rightarrow> 'db exmdb_server \<Rightarrow> bytes \<Rightarrow> u32 \<Rightarrow> u32 \<Rightarrow> ('db, u32) call" where
  "exmdb_client_load_attachment_instance a sv dir message_instance_id attachment_num =
     client_call a dir
       (exmdb_server_load_attachment_instance (instance_calls sv) (Some dir) message_instance_id
         attachment_num)
       (INSTANCE_REQUEST (REQ_LOAD_ATTACHMENT_INSTANCE message_instance_id attachment_num))
       (\<lambda>response. case response of
            INSTANCE_RESPONSE (RESP_LOAD_ATTACHMENT_INSTANCE instance_id) \<Rightarrow> Some instance_id
          | _ \<Rightarrow> None)"

definition exmdb_client_create_attachment_instance ::
    "rpc_answers \<Rightarrow> 'db exmdb_server \<Rightarrow> bytes \<Rightarrow> u32 \<Rightarrow> ('db, u32 \<times> u32) call" where
  "exmdb_client_create_attachment_instance a sv dir message_instance_id =
     client_call a dir
       (exmdb_server_create_attachment_instance (instance_calls sv) (Some dir)
         message_instance_id)
       (INSTANCE_REQUEST (REQ_CREATE_ATTACHMENT_INSTANCE message_instance_id))
       (\<lambda>response. case response of
            INSTANCE_RESPONSE (RESP_CREATE_ATTACHMENT_INSTANCE instance_id attachment_num) \<Rightarrow>
              Some (instance_id, attachment_num)
          | _ \<Rightarrow> None)"

definition exmdb_client_read_attachment_instance ::
    "rpc_answers \<Rightarrow> 'db exmdb_server \<Rightarrow> bytes \<Rightarrow> u32 \<Rightarrow> ('db, attachment_content) call" where
  "exmdb_client_read_attachment_instance a sv dir instance_id =
     client_call a dir
       (exmdb_server_read_attachment_instance (instance_calls sv) (Some dir) instance_id)
       (INSTANCE_REQUEST (REQ_READ_ATTACHMENT_INSTANCE instance_id))
       (\<lambda>response. case response of
            INSTANCE_RESPONSE (RESP_READ_ATTACHMENT_INSTANCE attctnt) \<Rightarrow> Some attctnt
          | _ \<Rightarrow> None)"

definition exmdb_client_write_attachment_instance ::
    "rpc_answers \<Rightarrow> 'db exmdb_server \<Rightarrow> bytes \<Rightarrow> u32 \<Rightarrow> attachment_content \<Rightarrow> bool \<Rightarrow>
      ('db, property_problem list) call" where
  "exmdb_client_write_attachment_instance a sv dir instance_id pattctnt b_force =
     client_call a dir
       (exmdb_server_write_attachment_instance (instance_calls sv) (Some dir) instance_id
         pattctnt b_force)
       (INSTANCE_REQUEST (REQ_WRITE_ATTACHMENT_INSTANCE instance_id pattctnt b_force))
       (\<lambda>response. case response of
            INSTANCE_RESPONSE (RESP_WRITE_ATTACHMENT_INSTANCE problems) \<Rightarrow> Some problems
          | _ \<Rightarrow> None)"

definition exmdb_client_delete_message_instance_attachment ::
    "rpc_answers \<Rightarrow> 'db exmdb_server \<Rightarrow> bytes \<Rightarrow> u32 \<Rightarrow> u32 \<Rightarrow> ('db, unit) call" where
  "exmdb_client_delete_message_instance_attachment a sv dir message_instance_id attachment_num =
     client_call a dir
       (exmdb_server_delete_message_instance_attachment (instance_calls sv) (Some dir)
         message_instance_id attachment_num)
       (INSTANCE_REQUEST (REQ_DELETE_MESSAGE_INSTANCE_ATTACHMENT message_instance_id
         attachment_num))
       (\<lambda>response. case response of
            INSTANCE_RESPONSE RESP_DELETE_MESSAGE_INSTANCE_ATTACHMENT \<Rightarrow> Some ()
          | _ \<Rightarrow> None)"

definition exmdb_client_flush_instance ::
    "rpc_answers \<Rightarrow> 'db exmdb_server \<Rightarrow> bytes \<Rightarrow> u32 \<Rightarrow> bytes option \<Rightarrow> ('db, bool) call" where
  "exmdb_client_flush_instance a sv dir instance_id account =
     client_call a dir
       (exmdb_server_flush_instance (instance_calls sv) (Some dir) instance_id account)
       (INSTANCE_REQUEST (REQ_FLUSH_INSTANCE instance_id account))
       (\<lambda>response. case response of
            INSTANCE_RESPONSE (RESP_FLUSH_INSTANCE b_result) \<Rightarrow> Some b_result
          | _ \<Rightarrow> None)"

definition exmdb_client_unload_instance ::
    "rpc_answers \<Rightarrow> 'db exmdb_server \<Rightarrow> bytes \<Rightarrow> u32 \<Rightarrow> ('db, unit) call" where
  "exmdb_client_unload_instance a sv dir instance_id =
     client_call a dir
       (exmdb_server_unload_instance (instance_calls sv) (Some dir) instance_id)
       (INSTANCE_REQUEST (REQ_UNLOAD_INSTANCE instance_id))
       (\<lambda>response. case response of
            INSTANCE_RESPONSE RESP_UNLOAD_INSTANCE \<Rightarrow> Some ()
          | _ \<Rightarrow> None)"

definition exmdb_client_get_instance_all_proptags ::
    "rpc_answers \<Rightarrow> 'db exmdb_server \<Rightarrow> bytes \<Rightarrow> u32 \<Rightarrow> ('db, u32 list) call" where
  "exmdb_client_get_instance_all_proptags a sv dir instance_id =
     client_call a dir
       (exmdb_server_get_instance_all_proptags (instance_calls sv) (Some dir) instance_id)
       (INSTANCE_REQUEST (REQ_GET_INSTANCE_ALL_PROPTAGS instance_id))
       (\<lambda>response. case response of
            INSTANCE_RESPONSE (RESP_GET_INSTANCE_ALL_PROPTAGS proptags) \<Rightarrow> Some proptags
          | _ \<Rightarrow> None)"

definition exmdb_client_get_instance_properties ::
    "rpc_answers \<Rightarrow> 'db exmdb_server \<Rightarrow> bytes \<Rightarrow> u32 \<Rightarrow> u32 \<Rightarrow> u32 list \<Rightarrow> ('db, tagged_propval list)
      call" where
  "exmdb_client_get_instance_properties a sv dir size_limit instance_id pproptags =
     client_call a dir
       (exmdb_server_get_instance_properties (instance_calls sv) (Some dir) size_limit
         instance_id pproptags)
       (INSTANCE_REQUEST (REQ_GET_INSTANCE_PROPERTIES size_limit instance_id pproptags))
       (\<lambda>response. case response of
            INSTANCE_RESPONSE (RESP_GET_INSTANCE_PROPERTIES propvals) \<Rightarrow> Some propvals
          | _ \<Rightarrow> None)"

definition exmdb_client_set_instance_properties ::
    "rpc_answers \<Rightarrow> 'db exmdb_server \<Rightarrow> bytes \<Rightarrow> u32 \<Rightarrow> tagged_propval list \<Rightarrow>
      ('db, property_problem list) call" where
  "exmdb_client_set_instance_properties a sv dir instance_id pproperties =
     client_call a dir
       (exmdb_server_set_instance_properties (instance_calls sv) (Some dir) instance_id
         pproperties)
       (INSTANCE_REQUEST (REQ_SET_INSTANCE_PROPERTIES instance_id pproperties))
       (\<lambda>response. case response of
            INSTANCE_RESPONSE (RESP_SET_INSTANCE_PROPERTIES problems) \<Rightarrow> Some problems
          | _ \<Rightarrow> None)"

definition exmdb_client_remove_instance_properties ::
    "rpc_answers \<Rightarrow> 'db exmdb_server \<Rightarrow> bytes \<Rightarrow> u32 \<Rightarrow> u32 list \<Rightarrow> ('db, property_problem list)
      call" where
  "exmdb_client_remove_instance_properties a sv dir instance_id pproptags =
     client_call a dir
       (exmdb_server_remove_instance_properties (instance_calls sv) (Some dir) instance_id
         pproptags)
       (INSTANCE_REQUEST (REQ_REMOVE_INSTANCE_PROPERTIES instance_id pproptags))
       (\<lambda>response. case response of
            INSTANCE_RESPONSE (RESP_REMOVE_INSTANCE_PROPERTIES problems) \<Rightarrow> Some problems
          | _ \<Rightarrow> None)"

definition exmdb_client_check_instance_cycle ::
    "rpc_answers \<Rightarrow> 'db exmdb_server \<Rightarrow> bytes \<Rightarrow> u32 \<Rightarrow> u32 \<Rightarrow> ('db, bool) call" where
  "exmdb_client_check_instance_cycle a sv dir src_instance_id dst_instance_id =
     client_call a dir
       (exmdb_server_check_instance_cycle (instance_calls sv) (Some dir) src_instance_id
         dst_instance_id)
       (INSTANCE_REQUEST (REQ_CHECK_INSTANCE_CYCLE src_instance_id dst_instance_id))
       (\<lambda>response. case response of
            INSTANCE_RESPONSE (RESP_CHECK_INSTANCE_CYCLE b_cycle) \<Rightarrow> Some b_cycle
          | _ \<Rightarrow> None)"

subsection \<open>The parts of an instance\<close>

definition exmdb_client_empty_message_instance_rcpts ::
    "rpc_answers \<Rightarrow> 'db exmdb_server \<Rightarrow> bytes \<Rightarrow> u32 \<Rightarrow> ('db, unit) call" where
  "exmdb_client_empty_message_instance_rcpts a sv dir instance_id =
     client_call a dir
       (exmdb_server_empty_message_instance_rcpts (content_calls sv) (Some dir) instance_id)
       (CONTENT_REQUEST (REQ_EMPTY_MESSAGE_INSTANCE_RCPTS instance_id))
       (\<lambda>response. case response of
            CONTENT_RESPONSE RESP_EMPTY_MESSAGE_INSTANCE_RCPTS \<Rightarrow> Some ()
          | _ \<Rightarrow> None)"

definition exmdb_client_get_message_instance_rcpts_num ::
    "rpc_answers \<Rightarrow> 'db exmdb_server \<Rightarrow> bytes \<Rightarrow> u32 \<Rightarrow> ('db, u16) call" where
  "exmdb_client_get_message_instance_rcpts_num a sv dir instance_id =
     client_call a dir
       (exmdb_server_get_message_instance_rcpts_num (content_calls sv) (Some dir) instance_id)
       (CONTENT_REQUEST (REQ_GET_MESSAGE_INSTANCE_RCPTS_NUM instance_id))
       (\<lambda>response. case response of
            CONTENT_RESPONSE (RESP_GET_MESSAGE_INSTANCE_RCPTS_NUM num) \<Rightarrow> Some num
          | _ \<Rightarrow> None)"

definition exmdb_client_get_message_instance_rcpts_all_proptags ::
    "rpc_answers \<Rightarrow> 'db exmdb_server \<Rightarrow> bytes \<Rightarrow> u32 \<Rightarrow> ('db, u32 list) call" where
  "exmdb_client_get_message_instance_rcpts_all_proptags a sv dir instance_id =
     client_call a dir
       (exmdb_server_get_message_instance_rcpts_all_proptags (content_calls sv) (Some dir)
         instance_id)
       (CONTENT_REQUEST (REQ_GET_MESSAGE_INSTANCE_RCPTS_ALL_PROPTAGS instance_id))
       (\<lambda>response. case response of
            CONTENT_RESPONSE (RESP_GET_MESSAGE_INSTANCE_RCPTS_ALL_PROPTAGS proptags) \<Rightarrow>
              Some proptags
          | _ \<Rightarrow> None)"

definition exmdb_client_get_message_instance_rcpts ::
    "rpc_answers \<Rightarrow> 'db exmdb_server \<Rightarrow> bytes \<Rightarrow> u32 \<Rightarrow> u32 \<Rightarrow> u16 \<Rightarrow> ('db, tagged_propval list list)
      call" where
  "exmdb_client_get_message_instance_rcpts a sv dir instance_id row_id need_count =
     client_call a dir
       (exmdb_server_get_message_instance_rcpts (content_calls sv) (Some dir) instance_id row_id
         need_count)
       (CONTENT_REQUEST (REQ_GET_MESSAGE_INSTANCE_RCPTS instance_id row_id need_count))
       (\<lambda>response. case response of
            CONTENT_RESPONSE (RESP_GET_MESSAGE_INSTANCE_RCPTS tset) \<Rightarrow> Some tset
          | _ \<Rightarrow> None)"

definition exmdb_client_update_message_instance_rcpts ::
    "rpc_answers \<Rightarrow> 'db exmdb_server \<Rightarrow> bytes \<Rightarrow> u32 \<Rightarrow> tagged_propval list list \<Rightarrow> ('db, unit) call"
      where
  "exmdb_client_update_message_instance_rcpts a sv dir instance_id pset =
     client_call a dir
       (exmdb_server_update_message_instance_rcpts (content_calls sv) (Some dir) instance_id
         pset)
       (CONTENT_REQUEST (REQ_UPDATE_MESSAGE_INSTANCE_RCPTS instance_id pset))
       (\<lambda>response. case response of
            CONTENT_RESPONSE RESP_UPDATE_MESSAGE_INSTANCE_RCPTS \<Rightarrow> Some ()
          | _ \<Rightarrow> None)"

definition exmdb_client_copy_instance_rcpts ::
    "rpc_answers \<Rightarrow> 'db exmdb_server \<Rightarrow> bytes \<Rightarrow> bool \<Rightarrow> u32 \<Rightarrow> u32 \<Rightarrow> ('db, bool) call" where
  "exmdb_client_copy_instance_rcpts a sv dir b_force src_instance_id dst_instance_id =
     client_call a dir
       (exmdb_server_copy_instance_rcpts (content_calls sv) (Some dir) b_force src_instance_id
         dst_instance_id)
       (CONTENT_REQUEST (REQ_COPY_INSTANCE_RCPTS b_force src_instance_id dst_instance_id))
       (\<lambda>response. case response of
            CONTENT_RESPONSE (RESP_COPY_INSTANCE_RCPTS b_result) \<Rightarrow> Some b_result
          | _ \<Rightarrow> None)"

definition exmdb_client_empty_message_instance_attachments ::
    "rpc_answers \<Rightarrow> 'db exmdb_server \<Rightarrow> bytes \<Rightarrow> u32 \<Rightarrow> ('db, unit) call" where
  "exmdb_client_empty_message_instance_attachments a sv dir instance_id =
     client_call a dir
       (exmdb_server_empty_message_instance_attachments (content_calls sv) (Some dir)
         instance_id)
       (CONTENT_REQUEST (REQ_EMPTY_MESSAGE_INSTANCE_ATTACHMENTS instance_id))
       (\<lambda>response. case response of
            CONTENT_RESPONSE RESP_EMPTY_MESSAGE_INSTANCE_ATTACHMENTS \<Rightarrow> Some ()
          | _ \<Rightarrow> None)"

definition exmdb_client_get_message_instance_attachments_num ::
    "rpc_answers \<Rightarrow> 'db exmdb_server \<Rightarrow> bytes \<Rightarrow> u32 \<Rightarrow> ('db, u16) call" where
  "exmdb_client_get_message_instance_attachments_num a sv dir instance_id =
     client_call a dir
       (exmdb_server_get_message_instance_attachments_num (content_calls sv) (Some dir)
         instance_id)
       (CONTENT_REQUEST (REQ_GET_MESSAGE_INSTANCE_ATTACHMENTS_NUM instance_id))
       (\<lambda>response. case response of
            CONTENT_RESPONSE (RESP_GET_MESSAGE_INSTANCE_ATTACHMENTS_NUM num) \<Rightarrow> Some num
          | _ \<Rightarrow> None)"

definition exmdb_client_get_message_instance_attachment_table_all_proptags ::
    "rpc_answers \<Rightarrow> 'db exmdb_server \<Rightarrow> bytes \<Rightarrow> u32 \<Rightarrow> ('db, u32 list) call" where
  "exmdb_client_get_message_instance_attachment_table_all_proptags a sv dir instance_id =
     client_call a dir
       (exmdb_server_get_message_instance_attachment_table_all_proptags (content_calls sv)
         (Some dir) instance_id)
       (CONTENT_REQUEST (REQ_GET_MESSAGE_INSTANCE_ATTACHMENT_TABLE_ALL_PROPTAGS instance_id))
       (\<lambda>response. case response of
            CONTENT_RESPONSE (RESP_GET_MESSAGE_INSTANCE_ATTACHMENT_TABLE_ALL_PROPTAGS proptags)
              \<Rightarrow>
              Some proptags
          | _ \<Rightarrow> None)"

definition exmdb_client_query_message_instance_attachment_table ::
    "rpc_answers \<Rightarrow> 'db exmdb_server \<Rightarrow> bytes \<Rightarrow> u32 \<Rightarrow> u32 list \<Rightarrow> u32 \<Rightarrow> u32 \<Rightarrow>
      ('db, tagged_propval list list) call" where
  "exmdb_client_query_message_instance_attachment_table a sv dir instance_id pproptags start_pos
    row_needed =
     client_call a dir
       (exmdb_server_query_message_instance_attachment_table (content_calls sv) (Some dir)
         instance_id pproptags start_pos row_needed)
       (CONTENT_REQUEST (REQ_QUERY_MESSAGE_INSTANCE_ATTACHMENT_TABLE instance_id pproptags
         start_pos row_needed))
       (\<lambda>response. case response of
            CONTENT_RESPONSE (RESP_QUERY_MESSAGE_INSTANCE_ATTACHMENT_TABLE tset) \<Rightarrow> Some tset
          | _ \<Rightarrow> None)"

definition exmdb_client_copy_instance_attachments ::
    "rpc_answers \<Rightarrow> 'db exmdb_server \<Rightarrow> bytes \<Rightarrow> bool \<Rightarrow> u32 \<Rightarrow> u32 \<Rightarrow> ('db, bool) call" where
  "exmdb_client_copy_instance_attachments a sv dir b_force src_instance_id dst_instance_id =
     client_call a dir
       (exmdb_server_copy_instance_attachments (content_calls sv) (Some dir) b_force
         src_instance_id dst_instance_id)
       (CONTENT_REQUEST (REQ_COPY_INSTANCE_ATTACHMENTS b_force src_instance_id dst_instance_id))
       (\<lambda>response. case response of
            CONTENT_RESPONSE (RESP_COPY_INSTANCE_ATTACHMENTS b_result) \<Rightarrow> Some b_result
          | _ \<Rightarrow> None)"

definition exmdb_client_set_message_instance_conflict ::
    "rpc_answers \<Rightarrow> 'db exmdb_server \<Rightarrow> bytes \<Rightarrow> u32 \<Rightarrow> message_content \<Rightarrow> ('db, unit) call" where
  "exmdb_client_set_message_instance_conflict a sv dir instance_id pmsgctnt =
     client_call a dir
       (exmdb_server_set_message_instance_conflict (content_calls sv) (Some dir) instance_id
         pmsgctnt)
       (CONTENT_REQUEST (REQ_SET_MESSAGE_INSTANCE_CONFLICT instance_id pmsgctnt))
       (\<lambda>response. case response of
            CONTENT_RESPONSE RESP_SET_MESSAGE_INSTANCE_CONFLICT \<Rightarrow> Some ()
          | _ \<Rightarrow> None)"

subsection \<open>Messages\<close>

definition exmdb_client_get_message_rcpts ::
    "rpc_answers \<Rightarrow> 'db exmdb_server \<Rightarrow> bytes \<Rightarrow> u64 \<Rightarrow> ('db, tagged_propval list list) call" where
  "exmdb_client_get_message_rcpts a sv dir message_id =
     client_call a dir
       (exmdb_server_get_message_rcpts (message_calls sv) (Some dir) message_id)
       (MESSAGE_REQUEST (REQ_GET_MESSAGE_RCPTS message_id))
       (\<lambda>response. case response of
            MESSAGE_RESPONSE (RESP_GET_MESSAGE_RCPTS tset) \<Rightarrow> Some tset
          | _ \<Rightarrow> None)"

definition exmdb_client_get_message_properties ::
    "rpc_answers \<Rightarrow> 'db exmdb_server \<Rightarrow> bytes \<Rightarrow> bytes option \<Rightarrow> u32 \<Rightarrow> u64 \<Rightarrow> u32 list \<Rightarrow>
      ('db, tagged_propval list) call" where
  "exmdb_client_get_message_properties a sv dir username cpid message_id pproptags =
     client_call a dir
       (exmdb_server_get_message_properties (message_calls sv) (Some dir) username cpid
         message_id pproptags)
       (MESSAGE_REQUEST (REQ_GET_MESSAGE_PROPERTIES username cpid message_id pproptags))
       (\<lambda>response. case response of
            MESSAGE_RESPONSE (RESP_GET_MESSAGE_PROPERTIES propvals) \<Rightarrow> Some propvals
          | _ \<Rightarrow> None)"

definition exmdb_client_set_message_properties ::
    "rpc_answers \<Rightarrow> 'db exmdb_server \<Rightarrow> bytes \<Rightarrow> bytes option \<Rightarrow> u32 \<Rightarrow> u64 \<Rightarrow> tagged_propval list \<Rightarrow>
      ('db, property_problem list) call" where
  "exmdb_client_set_message_properties a sv dir username cpid message_id pproperties =
     client_call a dir
       (exmdb_server_set_message_properties (message_calls sv) (Some dir) username cpid
         message_id pproperties)
       (MESSAGE_REQUEST (REQ_SET_MESSAGE_PROPERTIES username cpid message_id pproperties))
       (\<lambda>response. case response of
            MESSAGE_RESPONSE (RESP_SET_MESSAGE_PROPERTIES problems) \<Rightarrow> Some problems
          | _ \<Rightarrow> None)"

definition exmdb_client_set_message_read_state ::
    "rpc_answers \<Rightarrow> 'db exmdb_server \<Rightarrow> bytes \<Rightarrow> bytes option \<Rightarrow> u64 \<Rightarrow> u8 \<Rightarrow> ('db, u64) call" where
  "exmdb_client_set_message_read_state a sv dir username message_id mark_as_read =
     client_call a dir
       (exmdb_server_set_message_read_state (message_calls sv) (Some dir) username message_id
         mark_as_read)
       (MESSAGE_REQUEST (REQ_SET_MESSAGE_READ_STATE username message_id mark_as_read))
       (\<lambda>response. case response of
            MESSAGE_RESPONSE (RESP_SET_MESSAGE_READ_STATE read_cn) \<Rightarrow> Some read_cn
          | _ \<Rightarrow> None)"

definition exmdb_client_remove_message_properties ::
    "rpc_answers \<Rightarrow> 'db exmdb_server \<Rightarrow> bytes \<Rightarrow> u32 \<Rightarrow> u64 \<Rightarrow> u32 list \<Rightarrow> ('db, unit) call" where
  "exmdb_client_remove_message_properties a sv dir cpid message_id pproptags =
     client_call a dir
       (exmdb_server_remove_message_properties (message_calls sv) (Some dir) cpid message_id
         pproptags)
       (MESSAGE_REQUEST (REQ_REMOVE_MESSAGE_PROPERTIES cpid message_id pproptags))
       (\<lambda>response. case response of
            MESSAGE_RESPONSE RESP_REMOVE_MESSAGE_PROPERTIES \<Rightarrow> Some ()
          | _ \<Rightarrow> None)"

definition exmdb_client_allocate_message_id ::
    "rpc_answers \<Rightarrow> 'db exmdb_server \<Rightarrow> bytes \<Rightarrow> u64 \<Rightarrow> ('db, u64) call" where
  "exmdb_client_allocate_message_id a sv dir folder_id =
     client_call a dir
       (exmdb_server_allocate_message_id (message_calls sv) (Some dir) folder_id)
       (MESSAGE_REQUEST (REQ_ALLOCATE_MESSAGE_ID folder_id))
       (\<lambda>response. case response of
            MESSAGE_RESPONSE (RESP_ALLOCATE_MESSAGE_ID message_id) \<Rightarrow> Some message_id
          | _ \<Rightarrow> None)"

definition exmdb_client_allocate_cn ::
    "rpc_answers \<Rightarrow> 'db exmdb_server \<Rightarrow> bytes \<Rightarrow> ('db, u64) call" where
  "exmdb_client_allocate_cn a sv dir =
     client_call a dir
       (exmdb_server_allocate_cn (message_calls sv) (Some dir))
       (MESSAGE_REQUEST REQ_ALLOCATE_CN)
       (\<lambda>response. case response of
            MESSAGE_RESPONSE (RESP_ALLOCATE_CN cn) \<Rightarrow> Some cn
          | _ \<Rightarrow> None)"

definition exmdb_client_get_message_group_id ::
    "rpc_answers \<Rightarrow> 'db exmdb_server \<Rightarrow> bytes \<Rightarrow> u64 \<Rightarrow> ('db, u32 option) call" where
  "exmdb_client_get_message_group_id a sv dir message_id =
     client_call a dir
       (exmdb_server_get_message_group_id (message_calls sv) (Some dir) message_id)
       (MESSAGE_REQUEST (REQ_GET_MESSAGE_GROUP_ID message_id))
       (\<lambda>response. case response of
            MESSAGE_RESPONSE (RESP_GET_MESSAGE_GROUP_ID pgroup_id) \<Rightarrow> Some pgroup_id
          | _ \<Rightarrow> None)"

definition exmdb_client_set_message_group_id ::
    "rpc_answers \<Rightarrow> 'db exmdb_server \<Rightarrow> bytes \<Rightarrow> u64 \<Rightarrow> u32 \<Rightarrow> ('db, unit) call" where
  "exmdb_client_set_message_group_id a sv dir message_id group_id =
     client_call a dir
       (exmdb_server_set_message_group_id (message_calls sv) (Some dir) message_id group_id)
       (MESSAGE_REQUEST (REQ_SET_MESSAGE_GROUP_ID message_id group_id))
       (\<lambda>response. case response of
            MESSAGE_RESPONSE RESP_SET_MESSAGE_GROUP_ID \<Rightarrow> Some ()
          | _ \<Rightarrow> None)"

definition exmdb_client_save_change_indices ::
    "rpc_answers \<Rightarrow> 'db exmdb_server \<Rightarrow> bytes \<Rightarrow> u64 \<Rightarrow> u64 \<Rightarrow> u32 list \<Rightarrow> u32 list \<Rightarrow> ('db, unit)
      call" where
  "exmdb_client_save_change_indices a sv dir message_id cn pindices pungroup_proptags =
     client_call a dir
       (exmdb_server_save_change_indices (message_calls sv) (Some dir) message_id cn pindices
         pungroup_proptags)
       (MESSAGE_REQUEST (REQ_SAVE_CHANGE_INDICES message_id cn pindices pungroup_proptags))
       (\<lambda>response. case response of
            MESSAGE_RESPONSE RESP_SAVE_CHANGE_INDICES \<Rightarrow> Some ()
          | _ \<Rightarrow> None)"

definition exmdb_client_get_change_indices ::
    "rpc_answers \<Rightarrow> 'db exmdb_server \<Rightarrow> bytes \<Rightarrow> u64 \<Rightarrow> u64 \<Rightarrow> ('db, u32 list \<times> u32 list) call" where
  "exmdb_client_get_change_indices a sv dir message_id cn =
     client_call a dir
       (exmdb_server_get_change_indices (message_calls sv) (Some dir) message_id cn)
       (MESSAGE_REQUEST (REQ_GET_CHANGE_INDICES message_id cn))
       (\<lambda>response. case response of
            MESSAGE_RESPONSE (RESP_GET_CHANGE_INDICES indices ungroup_proptags) \<Rightarrow>
              Some (indices, ungroup_proptags)
          | _ \<Rightarrow> None)"

definition exmdb_client_mark_modified ::
    "rpc_answers \<Rightarrow> 'db exmdb_server \<Rightarrow> bytes \<Rightarrow> u64 \<Rightarrow> ('db, unit) call" where
  "exmdb_client_mark_modified a sv dir message_id =
     client_call a dir
       (exmdb_server_mark_modified (message_calls sv) (Some dir) message_id)
       (MESSAGE_REQUEST (REQ_MARK_MODIFIED message_id))
       (\<lambda>response. case response of
            MESSAGE_RESPONSE RESP_MARK_MODIFIED \<Rightarrow> Some ()
          | _ \<Rightarrow> None)"

definition exmdb_client_try_mark_submit ::
    "rpc_answers \<Rightarrow> 'db exmdb_server \<Rightarrow> bytes \<Rightarrow> u64 \<Rightarrow> ('db, bool) call" where
  "exmdb_client_try_mark_submit a sv dir message_id =
     client_call a dir
       (exmdb_server_try_mark_submit (message_calls sv) (Some dir) message_id)
       (MESSAGE_REQUEST (REQ_TRY_MARK_SUBMIT message_id))
       (\<lambda>response. case response of
            MESSAGE_RESPONSE (RESP_TRY_MARK_SUBMIT b_marked) \<Rightarrow> Some b_marked
          | _ \<Rightarrow> None)"

definition exmdb_client_clear_submit ::
    "rpc_answers \<Rightarrow> 'db exmdb_server \<Rightarrow> bytes \<Rightarrow> u64 \<Rightarrow> bool \<Rightarrow> ('db, unit) call" where
  "exmdb_client_clear_submit a sv dir message_id b_unsent =
     client_call a dir
       (exmdb_server_clear_submit (message_calls sv) (Some dir) message_id b_unsent)
       (MESSAGE_REQUEST (REQ_CLEAR_SUBMIT message_id b_unsent))
       (\<lambda>response. case response of
            MESSAGE_RESPONSE RESP_CLEAR_SUBMIT \<Rightarrow> Some ()
          | _ \<Rightarrow> None)"

definition exmdb_client_link_message ::
    "rpc_answers \<Rightarrow> 'db exmdb_server \<Rightarrow> bytes \<Rightarrow> u32 \<Rightarrow> u64 \<Rightarrow> u64 \<Rightarrow> ('db, bool) call" where
  "exmdb_client_link_message a sv dir cpid folder_id message_id =
     client_call a dir
       (exmdb_server_link_message (message_calls sv) (Some dir) cpid folder_id message_id)
       (MESSAGE_REQUEST (REQ_LINK_MESSAGE cpid folder_id message_id))
       (\<lambda>response. case response of
            MESSAGE_RESPONSE (RESP_LINK_MESSAGE b_result) \<Rightarrow> Some b_result
          | _ \<Rightarrow> None)"

definition exmdb_client_unlink_message ::
    "rpc_answers \<Rightarrow> 'db exmdb_server \<Rightarrow> bytes \<Rightarrow> u32 \<Rightarrow> u64 \<Rightarrow> u64 \<Rightarrow> ('db, unit) call" where
  "exmdb_client_unlink_message a sv dir cpid folder_id message_id =
     client_call a dir
       (exmdb_server_unlink_message (message_calls sv) (Some dir) cpid folder_id message_id)
       (MESSAGE_REQUEST (REQ_UNLINK_MESSAGE cpid folder_id message_id))
       (\<lambda>response. case response of
            MESSAGE_RESPONSE RESP_UNLINK_MESSAGE \<Rightarrow> Some ()
          | _ \<Rightarrow> None)"

definition exmdb_client_rule_new_message ::
    "rpc_answers \<Rightarrow> 'db exmdb_server \<Rightarrow> bytes \<Rightarrow> bytes option \<Rightarrow> bytes \<Rightarrow> u32 \<Rightarrow> u64 \<Rightarrow> u64 \<Rightarrow>
      ('db, unit) call" where
  "exmdb_client_rule_new_message a sv dir username account cpid folder_id message_id =
     client_call a dir
       (exmdb_server_rule_new_message (message_calls sv) (Some dir) username account cpid
         folder_id message_id)
       (MESSAGE_REQUEST (REQ_RULE_NEW_MESSAGE username account cpid folder_id message_id))
       (\<lambda>response. case response of
            MESSAGE_RESPONSE RESP_RULE_NEW_MESSAGE \<Rightarrow> Some ()
          | _ \<Rightarrow> None)"

definition exmdb_client_set_message_timer ::
    "rpc_answers \<Rightarrow> 'db exmdb_server \<Rightarrow> bytes \<Rightarrow> u64 \<Rightarrow> u32 \<Rightarrow> ('db, unit) call" where
  "exmdb_client_set_message_timer a sv dir message_id timer_id =
     client_call a dir
       (exmdb_server_set_message_timer (message_calls sv) (Some dir) message_id timer_id)
       (MESSAGE_REQUEST (REQ_SET_MESSAGE_TIMER message_id timer_id))
       (\<lambda>response. case response of
            MESSAGE_RESPONSE RESP_SET_MESSAGE_TIMER \<Rightarrow> Some ()
          | _ \<Rightarrow> None)"

definition exmdb_client_get_message_timer ::
    "rpc_answers \<Rightarrow> 'db exmdb_server \<Rightarrow> bytes \<Rightarrow> u64 \<Rightarrow> ('db, u32 option) call" where
  "exmdb_client_get_message_timer a sv dir message_id =
     client_call a dir
       (exmdb_server_get_message_timer (message_calls sv) (Some dir) message_id)
       (MESSAGE_REQUEST (REQ_GET_MESSAGE_TIMER message_id))
       (\<lambda>response. case response of
            MESSAGE_RESPONSE (RESP_GET_MESSAGE_TIMER ptimer_id) \<Rightarrow> Some ptimer_id
          | _ \<Rightarrow> None)"

subsection \<open>Permissions, rules, delivery and synchronization\<close>

definition exmdb_client_empty_folder_permission ::
    "rpc_answers \<Rightarrow> 'db exmdb_server \<Rightarrow> bytes \<Rightarrow> u64 \<Rightarrow> ('db, unit) call" where
  "exmdb_client_empty_folder_permission a sv dir folder_id =
     client_call a dir
       (exmdb_server_empty_folder_permission (service_calls sv) (Some dir) folder_id)
       (SERVICE_REQUEST (REQ_EMPTY_FOLDER_PERMISSION folder_id))
       (\<lambda>response. case response of
            SERVICE_RESPONSE RESP_EMPTY_FOLDER_PERMISSION \<Rightarrow> Some ()
          | _ \<Rightarrow> None)"

definition exmdb_client_update_folder_permission ::
    "rpc_answers \<Rightarrow> 'db exmdb_server \<Rightarrow> bytes \<Rightarrow> u64 \<Rightarrow> bool \<Rightarrow> permission_data list \<Rightarrow> ('db, unit)
      call" where
  "exmdb_client_update_folder_permission a sv dir folder_id b_freebusy prow =
     client_call a dir
       (exmdb_server_update_folder_permission (service_calls sv) (Some dir) folder_id b_freebusy
         prow)
       (SERVICE_REQUEST (REQ_UPDATE_FOLDER_PERMISSION folder_id b_freebusy prow))
       (\<lambda>response. case response of
            SERVICE_RESPONSE RESP_UPDATE_FOLDER_PERMISSION \<Rightarrow> Some ()
          | _ \<Rightarrow> None)"

definition exmdb_client_empty_folder_rule ::
    "rpc_answers \<Rightarrow> 'db exmdb_server \<Rightarrow> bytes \<Rightarrow> u64 \<Rightarrow> ('db, unit) call" where
  "exmdb_client_empty_folder_rule a sv dir folder_id =
     client_call a dir
       (exmdb_server_empty_folder_rule (service_calls sv) (Some dir) folder_id)
       (SERVICE_REQUEST (REQ_EMPTY_FOLDER_RULE folder_id))
       (\<lambda>response. case response of
            SERVICE_RESPONSE RESP_EMPTY_FOLDER_RULE \<Rightarrow> Some ()
          | _ \<Rightarrow> None)"

definition exmdb_client_update_folder_rule ::
    "rpc_answers \<Rightarrow> 'db exmdb_server \<Rightarrow> bytes \<Rightarrow> u64 \<Rightarrow> rule_data list \<Rightarrow> ('db, bool) call" where
  "exmdb_client_update_folder_rule a sv dir folder_id prow =
     client_call a dir
       (exmdb_server_update_folder_rule (service_calls sv) (Some dir) folder_id prow)
       (SERVICE_REQUEST (REQ_UPDATE_FOLDER_RULE folder_id prow))
       (\<lambda>response. case response of
            SERVICE_RESPONSE (RESP_UPDATE_FOLDER_RULE b_exceed) \<Rightarrow> Some b_exceed
          | _ \<Rightarrow> None)"

definition exmdb_client_relay_delivery ::
    "rpc_answers \<Rightarrow> 'db exmdb_server \<Rightarrow> bytes \<Rightarrow> bytes \<Rightarrow> bytes \<Rightarrow> u32 \<Rightarrow> message_content \<Rightarrow> bytes \<Rightarrow>
      ('db, u32) call" where
  "exmdb_client_relay_delivery a sv dir from_address account cpid pmsg pdigest =
     client_call a dir
       (exmdb_server_delivery_message (service_calls sv) (Some dir) from_address account cpid
         pmsg pdigest)
       (SERVICE_REQUEST (REQ_DELIVERY_MESSAGE from_address account cpid pmsg pdigest))
       (\<lambda>response. case response of
            SERVICE_RESPONSE (RESP_DELIVERY_MESSAGE result) \<Rightarrow> Some result
          | _ \<Rightarrow> None)"

definition exmdb_client_delivery_message ::
    "rpc_answers \<Rightarrow> 'db exmdb_server \<Rightarrow> bytes \<Rightarrow> bytes \<Rightarrow> bytes \<Rightarrow> u32 \<Rightarrow> message_content \<Rightarrow> bytes \<Rightarrow>
      ('db, u32) call" where
  "exmdb_client_delivery_message a sv dir from_address account cpid pmsg pdigest =
     client_call a dir
       (exmdb_server_delivery_message (service_calls sv) (Some dir) from_address account cpid
         pmsg pdigest)
       (SERVICE_REQUEST (REQ_DELIVERY_MESSAGE from_address account cpid pmsg pdigest))
       (\<lambda>response. case response of
            SERVICE_RESPONSE (RESP_DELIVERY_MESSAGE result) \<Rightarrow> Some result
          | _ \<Rightarrow> None)"

definition exmdb_client_write_message ::
    "rpc_answers \<Rightarrow> 'db exmdb_server \<Rightarrow> bytes \<Rightarrow> bytes \<Rightarrow> u32 \<Rightarrow> u64 \<Rightarrow> message_content \<Rightarrow> ('db, bool)
      call" where
  "exmdb_client_write_message a sv dir account cpid folder_id pmsgctnt =
     client_call a dir
       (exmdb_server_write_message (service_calls sv) (Some dir) account cpid folder_id
         pmsgctnt)
       (SERVICE_REQUEST (REQ_WRITE_MESSAGE account cpid folder_id pmsgctnt))
       (\<lambda>response. case response of
            SERVICE_RESPONSE (RESP_WRITE_MESSAGE b_result) \<Rightarrow> Some b_result
          | _ \<Rightarrow> None)"

definition exmdb_client_read_message ::
    "rpc_answers \<Rightarrow> 'db exmdb_server \<Rightarrow> bytes \<Rightarrow> bytes option \<Rightarrow> u32 \<Rightarrow> u64 \<Rightarrow>
      ('db, message_content option) call" where
  "exmdb_client_read_message a sv dir username cpid message_id =
     client_call a dir
       (exmdb_server_read_message (service_calls sv) (Some dir) username cpid message_id)
       (SERVICE_REQUEST (REQ_READ_MESSAGE username cpid message_id))
       (\<lambda>response. case response of
            SERVICE_RESPONSE (RESP_READ_MESSAGE pmsgctnt) \<Rightarrow> Some pmsgctnt
          | _ \<Rightarrow> None)"

definition exmdb_client_get_content_sync ::
    "rpc_answers \<Rightarrow> 'db exmdb_server \<Rightarrow> bytes \<Rightarrow> u64 \<Rightarrow> bytes option \<Rightarrow> idset \<Rightarrow> idset option \<Rightarrow> idset
      option \<Rightarrow> idset option \<Rightarrow> u32 \<Rightarrow> restriction option \<Rightarrow> bool \<Rightarrow>
        ('db, u32 \<times> u64 \<times> u32 \<times> u64 \<times> u64 list \<times> u64 list \<times> u64 \<times> u64 list \<times> u64 list \<times> u64 list
          \<times> u64 list \<times> u64 list \<times> u64) call" where
  "exmdb_client_get_content_sync a sv dir folder_id username pgiven pseen pseen_fai pread cpid
    prestriction b_ordered =
     client_call a dir
       (exmdb_server_get_content_sync (service_calls sv) (Some dir) folder_id username pgiven
         pseen pseen_fai pread cpid prestriction b_ordered)
       (SERVICE_REQUEST (REQ_GET_CONTENT_SYNC folder_id username pgiven pseen pseen_fai pread
         cpid prestriction b_ordered))
       (\<lambda>response. case response of
            SERVICE_RESPONSE (RESP_GET_CONTENT_SYNC fai_count fai_total normal_count
              normal_total updated_mids chg_mids last_cn given_mids deleted_mids nolonger_mids
                read_mids unread_mids last_readcn) \<Rightarrow>
              Some (fai_count, fai_total, normal_count, normal_total, updated_mids, chg_mids,
                last_cn, given_mids, deleted_mids, nolonger_mids, read_mids, unread_mids,
                  last_readcn)
          | _ \<Rightarrow> None)"

definition exmdb_client_get_hierarchy_sync ::
    "rpc_answers \<Rightarrow> 'db exmdb_server \<Rightarrow> bytes \<Rightarrow> u64 \<Rightarrow> bytes option \<Rightarrow> idset \<Rightarrow> idset option \<Rightarrow>
      ('db, tagged_propval list list \<times> u64 \<times> u64 list \<times> u64 list) call" where
  "exmdb_client_get_hierarchy_sync a sv dir folder_id username pgiven pseen =
     client_call a dir
       (exmdb_server_get_hierarchy_sync (service_calls sv) (Some dir) folder_id username pgiven
         pseen)
       (SERVICE_REQUEST (REQ_GET_HIERARCHY_SYNC folder_id username pgiven pseen))
       (\<lambda>response. case response of
            SERVICE_RESPONSE (RESP_GET_HIERARCHY_SYNC fldchgs last_cn given_fids deleted_fids) \<Rightarrow>
              Some (fldchgs, last_cn, given_fids, deleted_fids)
          | _ \<Rightarrow> None)"

definition exmdb_client_allocate_ids ::
    "rpc_answers \<Rightarrow> 'db exmdb_server \<Rightarrow> bytes \<Rightarrow> u32 \<Rightarrow> ('db, u64) call" where
  "exmdb_client_allocate_ids a sv dir cnt =
     client_call a dir
       (exmdb_server_allocate_ids (service_calls sv) (Some dir) cnt)
       (SERVICE_REQUEST (REQ_ALLOCATE_IDS cnt))
       (\<lambda>response. case response of
            SERVICE_RESPONSE (RESP_ALLOCATE_IDS begin_eid) \<Rightarrow> Some begin_eid
          | _ \<Rightarrow> None)"

definition exmdb_client_subscribe_notification ::
    "rpc_answers \<Rightarrow> 'db exmdb_server \<Rightarrow> bytes \<Rightarrow> u16 \<Rightarrow> bool \<Rightarrow> u64 \<Rightarrow> u64 \<Rightarrow> ('db, u32) call" where
  "exmdb_client_subscribe_notification a sv dir notificaton_type b_whole folder_id message_id =
     client_call a dir
       (exmdb_server_subscribe_notification (service_calls sv) (Some dir) notificaton_type
         b_whole folder_id message_id)
       (SERVICE_REQUEST (REQ_SUBSCRIBE_NOTIFICATION notificaton_type b_whole folder_id
         message_id))
       (\<lambda>response. case response of
            SERVICE_RESPONSE (RESP_SUBSCRIBE_NOTIFICATION sub_id) \<Rightarrow> Some sub_id
          | _ \<Rightarrow> None)"

definition exmdb_client_unsubscribe_notification ::
    "rpc_answers \<Rightarrow> 'db exmdb_server \<Rightarrow> bytes \<Rightarrow> u32 \<Rightarrow> ('db, unit) call" where
  "exmdb_client_unsubscribe_notification a sv dir sub_id =
     client_call a dir
       (exmdb_server_unsubscribe_notification (service_calls sv) (Some dir) sub_id)
       (SERVICE_REQUEST (REQ_UNSUBSCRIBE_NOTIFICATION sub_id))
       (\<lambda>response. case response of
            SERVICE_RESPONSE RESP_UNSUBSCRIBE_NOTIFICATION \<Rightarrow> Some ()
          | _ \<Rightarrow> None)"

definition exmdb_client_transport_new_mail ::
    "rpc_answers \<Rightarrow> 'db exmdb_server \<Rightarrow> bytes \<Rightarrow> u64 \<Rightarrow> u64 \<Rightarrow> u32 \<Rightarrow> bytes \<Rightarrow> ('db, unit) call" where
  "exmdb_client_transport_new_mail a sv dir folder_id message_id message_flags pstr_class =
     client_call a dir
       (exmdb_server_transport_new_mail (service_calls sv) (Some dir) folder_id message_id
         message_flags pstr_class)
       (SERVICE_REQUEST (REQ_TRANSPORT_NEW_MAIL folder_id message_id message_flags pstr_class))
       (\<lambda>response. case response of
            SERVICE_RESPONSE RESP_TRANSPORT_NEW_MAIL \<Rightarrow> Some ()
          | _ \<Rightarrow> None)"

definition exmdb_client_check_contact_address ::
    "rpc_answers \<Rightarrow> 'db exmdb_server \<Rightarrow> bytes \<Rightarrow> bytes \<Rightarrow> ('db, bool) call" where
  "exmdb_client_check_contact_address a sv dir paddress =
     client_call a dir
       (exmdb_server_check_contact_address (service_calls sv) (Some dir) paddress)
       (SERVICE_REQUEST (REQ_CHECK_CONTACT_ADDRESS paddress))
       (\<lambda>response. case response of
            SERVICE_RESPONSE (RESP_CHECK_CONTACT_ADDRESS b_found) \<Rightarrow> Some b_found
          | _ \<Rightarrow> None)"

definition exmdb_client_get_public_folder_unread_count ::
    "rpc_answers \<Rightarrow> 'db exmdb_server \<Rightarrow> bytes \<Rightarrow> bytes \<Rightarrow> u64 \<Rightarrow> ('db, u32) call" where
  "exmdb_client_get_public_folder_unread_count a sv dir username folder_id =
     client_call a dir
       (exmdb_server_get_public_folder_unread_count (service_calls sv) (Some dir) username
         folder_id)
       (SERVICE_REQUEST (REQ_GET_PUBLIC_FOLDER_UNREAD_COUNT username folder_id))
       (\<lambda>response. case response of
            SERVICE_RESPONSE (RESP_GET_PUBLIC_FOLDER_UNREAD_COUNT cnt) \<Rightarrow> Some cnt
          | _ \<Rightarrow> None)"

definition exmdb_client_unload_store ::
    "rpc_answers \<Rightarrow> 'db exmdb_server \<Rightarrow> bytes \<Rightarrow> ('db, unit) call" where
  "exmdb_client_unload_store a sv dir =
     client_call a dir
       (exmdb_server_unload_store (service_calls sv) (Some dir))
       (SERVICE_REQUEST REQ_UNLOAD_STORE)
       (\<lambda>response. case response of
            SERVICE_RESPONSE RESP_UNLOAD_STORE \<Rightarrow> Some ()
          | _ \<Rightarrow> None)"

end
