(* ===== verification/Calls_Logic.thy ===== *)
theory Calls_Logic
  imports Client_Logic Exmdb_Calls
begin

text \<open>
  A call to a store on another server returns what the same call returns on the server that has
  the store.  \<open>store_call\<close> says what this needs of a call: that the parser hands its request to the
  function that is called for a local store, and that the client takes from the response what
  this function has returned.  It is interpreted on the calls of \<open>exmdb_client.c\<close>; the
  three that send something else, and the two whose sets of identifiers arrive in another state,
  are left out.
\<close>

locale store_call =
  fixes local :: "'db exmdb_server \<Rightarrow> bytes option \<Rightarrow> ('db, 'a) effect"
    and request :: request_payload
    and out :: "response_payload \<Rightarrow> 'a option"
  assumes handed_on: "\<exists>wrap. (\<forall>x. out (wrap x) = Some x) \<and>
      (\<forall>sv dir db. exmdb_parser_dispatch sv True (EXMDB_REQUEST dir request) db =
         answer wrap (local sv dir) db)"
    and arrives: "payload_received request = request"
begin

text \<open>What the client makes of the outcome of the dispatcher is the outcome of the function.\<close>

lemma outcome:
  "(case fst (exmdb_parser_dispatch sv True (request_received (EXMDB_REQUEST dir request)) db) of
      None \<Rightarrow> None | Some response \<Rightarrow> out response) = fst (local sv dir db)"
proof -
  obtain wrap where "\<forall>x. out (wrap x) = Some x"
      "\<forall>sv dir db. exmdb_parser_dispatch sv True (EXMDB_REQUEST dir request) db = answer wrap (local sv dir) db"
    using handed_on by blast
  then show ?thesis
    by (cases "local sv dir db"; cases "fst (local sv dir db)")
      (auto simp: request_received_def arrives answer_def)
qed

lemma taken:
  assumes "fst (exmdb_parser_dispatch (sv :: 'db exmdb_server) True (request_received (EXMDB_REQUEST dir request)) db) = Some response"
  shows "out response \<noteq> None"
proof -
  obtain wrap where "\<forall>x. out (wrap x) = Some x"
      "\<forall>sv dir db. exmdb_parser_dispatch sv True (EXMDB_REQUEST dir request) db = answer wrap (local sv dir) db"
    using handed_on by blast
  with assms show ?thesis by (auto simp: request_received_def arrives answer_Some)
qed

end

subsection \<open>The calls\<close>

lemma store_callI:
  "(\<And>x. out (wrap x) = Some x) \<Longrightarrow>
   (\<And>sv dir db. exmdb_parser_dispatch sv True (EXMDB_REQUEST dir request) db = answer wrap (local sv dir) db) \<Longrightarrow>
   payload_received request = request \<Longrightarrow> store_call local request out"
  by unfold_locales blast+

lemma answer_answer: "answer f (answer g m) db = answer (f \<circ> g) m db"
  by (simp add: answer_def option.map_comp split: prod.split)

interpretation call_ping_store: store_call
  "\<lambda>sv dir. exmdb_server_ping_store (store_calls sv) dir"
  "STORE_REQUEST REQ_PING_STORE"
  "\<lambda>response. case response of
       STORE_RESPONSE RESP_PING_STORE \<Rightarrow> Some ()
     | _ \<Rightarrow> None"
  by (rule store_callI [where wrap = "STORE_RESPONSE \<circ> (\<lambda>_. RESP_PING_STORE)"])
    (auto simp: exmdb_parser_dispatch_def answer_answer)

interpretation call_get_all_named_propids: store_call
  "\<lambda>sv dir. exmdb_server_get_all_named_propids (store_calls sv) dir"
  "STORE_REQUEST REQ_GET_ALL_NAMED_PROPIDS"
  "\<lambda>response. case response of
       STORE_RESPONSE (RESP_GET_ALL_NAMED_PROPIDS propids) \<Rightarrow> Some propids
     | _ \<Rightarrow> None"
  by (rule store_callI [where wrap = "STORE_RESPONSE \<circ> RESP_GET_ALL_NAMED_PROPIDS"])
    (auto simp: exmdb_parser_dispatch_def answer_answer)

interpretation call_get_named_propids: store_call
  "\<lambda>sv dir. exmdb_server_get_named_propids (store_calls sv) dir b_create ppropnames"
  "STORE_REQUEST (REQ_GET_NAMED_PROPIDS b_create ppropnames)"
  "\<lambda>response. case response of
       STORE_RESPONSE (RESP_GET_NAMED_PROPIDS propids) \<Rightarrow> Some propids
     | _ \<Rightarrow> None"
  for b_create ppropnames
  by (rule store_callI [where wrap = "STORE_RESPONSE \<circ> RESP_GET_NAMED_PROPIDS"])
    (auto simp: exmdb_parser_dispatch_def answer_answer)

interpretation call_get_named_propnames: store_call
  "\<lambda>sv dir. exmdb_server_get_named_propnames (store_calls sv) dir ppropids"
  "STORE_REQUEST (REQ_GET_NAMED_PROPNAMES ppropids)"
  "\<lambda>response. case response of
       STORE_RESPONSE (RESP_GET_NAMED_PROPNAMES propnames) \<Rightarrow> Some propnames
     | _ \<Rightarrow> None"
  for ppropids
  by (rule store_callI [where wrap = "STORE_RESPONSE \<circ> RESP_GET_NAMED_PROPNAMES"])
    (auto simp: exmdb_parser_dispatch_def answer_answer)

interpretation call_get_mapping_guid: store_call
  "\<lambda>sv dir. exmdb_server_get_mapping_guid (store_calls sv) dir replid"
  "STORE_REQUEST (REQ_GET_MAPPING_GUID replid)"
  "\<lambda>response. case response of
       STORE_RESPONSE (RESP_GET_MAPPING_GUID b_found guid) \<Rightarrow> Some (b_found, guid)
     | _ \<Rightarrow> None"
  for replid
  by (rule store_callI [where wrap = "STORE_RESPONSE \<circ>
      (\<lambda>(b_found, guid). RESP_GET_MAPPING_GUID b_found guid)"])
    (auto simp: exmdb_parser_dispatch_def answer_answer)

interpretation call_get_mapping_replid: store_call
  "\<lambda>sv dir. exmdb_server_get_mapping_replid (store_calls sv) dir guid"
  "STORE_REQUEST (REQ_GET_MAPPING_REPLID guid)"
  "\<lambda>response. case response of
       STORE_RESPONSE (RESP_GET_MAPPING_REPLID b_found replid) \<Rightarrow> Some (b_found, replid)
     | _ \<Rightarrow> None"
  for guid
  by (rule store_callI [where wrap = "STORE_RESPONSE \<circ>
      (\<lambda>(b_found, replid). RESP_GET_MAPPING_REPLID b_found replid)"])
    (auto simp: exmdb_parser_dispatch_def answer_answer)

interpretation call_get_store_all_proptags: store_call
  "\<lambda>sv dir. exmdb_server_get_store_all_proptags (store_calls sv) dir"
  "STORE_REQUEST REQ_GET_STORE_ALL_PROPTAGS"
  "\<lambda>response. case response of
       STORE_RESPONSE (RESP_GET_STORE_ALL_PROPTAGS proptags) \<Rightarrow> Some proptags
     | _ \<Rightarrow> None"
  by (rule store_callI [where wrap = "STORE_RESPONSE \<circ> RESP_GET_STORE_ALL_PROPTAGS"])
    (auto simp: exmdb_parser_dispatch_def answer_answer)

interpretation call_get_store_properties: store_call
  "\<lambda>sv dir. exmdb_server_get_store_properties (store_calls sv) dir cpid pproptags"
  "STORE_REQUEST (REQ_GET_STORE_PROPERTIES cpid pproptags)"
  "\<lambda>response. case response of
       STORE_RESPONSE (RESP_GET_STORE_PROPERTIES propvals) \<Rightarrow> Some propvals
     | _ \<Rightarrow> None"
  for cpid pproptags
  by (rule store_callI [where wrap = "STORE_RESPONSE \<circ> RESP_GET_STORE_PROPERTIES"])
    (auto simp: exmdb_parser_dispatch_def answer_answer)

interpretation call_set_store_properties: store_call
  "\<lambda>sv dir. exmdb_server_set_store_properties (store_calls sv) dir cpid ppropvals"
  "STORE_REQUEST (REQ_SET_STORE_PROPERTIES cpid ppropvals)"
  "\<lambda>response. case response of
       STORE_RESPONSE (RESP_SET_STORE_PROPERTIES problems) \<Rightarrow> Some problems
     | _ \<Rightarrow> None"
  for cpid ppropvals
  by (rule store_callI [where wrap = "STORE_RESPONSE \<circ> RESP_SET_STORE_PROPERTIES"])
    (auto simp: exmdb_parser_dispatch_def answer_answer)

interpretation call_remove_store_properties: store_call
  "\<lambda>sv dir. exmdb_server_remove_store_properties (store_calls sv) dir pproptags"
  "STORE_REQUEST (REQ_REMOVE_STORE_PROPERTIES pproptags)"
  "\<lambda>response. case response of
       STORE_RESPONSE RESP_REMOVE_STORE_PROPERTIES \<Rightarrow> Some ()
     | _ \<Rightarrow> None"
  for pproptags
  by (rule store_callI [where wrap = "STORE_RESPONSE \<circ> (\<lambda>_. RESP_REMOVE_STORE_PROPERTIES)"])
    (auto simp: exmdb_parser_dispatch_def answer_answer)

interpretation call_check_mailbox_permission: store_call
  "\<lambda>sv dir. exmdb_server_check_mailbox_permission (store_calls sv) dir username"
  "STORE_REQUEST (REQ_CHECK_MAILBOX_PERMISSION username)"
  "\<lambda>response. case response of
       STORE_RESPONSE (RESP_CHECK_MAILBOX_PERMISSION permission) \<Rightarrow> Some permission
     | _ \<Rightarrow> None"
  for username
  by (rule store_callI [where wrap = "STORE_RESPONSE \<circ> RESP_CHECK_MAILBOX_PERMISSION"])
    (auto simp: exmdb_parser_dispatch_def answer_answer)

interpretation call_get_folder_by_class: store_call
  "\<lambda>sv dir. exmdb_server_get_folder_by_class (store_calls sv) dir str_class"
  "STORE_REQUEST (REQ_GET_FOLDER_BY_CLASS str_class)"
  "\<lambda>response. case response of
       STORE_RESPONSE (RESP_GET_FOLDER_BY_CLASS eid str_explicit) \<Rightarrow>
              Some (eid, str_explicit)
     | _ \<Rightarrow> None"
  for str_class
  by (rule store_callI [where wrap = "STORE_RESPONSE \<circ>
      (\<lambda>(eid, str_explicit). RESP_GET_FOLDER_BY_CLASS eid str_explicit)"])
    (auto simp: exmdb_parser_dispatch_def answer_answer)

interpretation call_get_folder_class_table: store_call
  "\<lambda>sv dir. exmdb_server_get_folder_class_table (store_calls sv) dir"
  "STORE_REQUEST REQ_GET_FOLDER_CLASS_TABLE"
  "\<lambda>response. case response of
       STORE_RESPONSE (RESP_GET_FOLDER_CLASS_TABLE table) \<Rightarrow> Some table
     | _ \<Rightarrow> None"
  by (rule store_callI [where wrap = "STORE_RESPONSE \<circ> RESP_GET_FOLDER_CLASS_TABLE"])
    (auto simp: exmdb_parser_dispatch_def answer_answer)

interpretation call_check_folder_id: store_call
  "\<lambda>sv dir. exmdb_server_check_folder_id (folder_calls sv) dir folder_id"
  "FOLDER_REQUEST (REQ_CHECK_FOLDER_ID folder_id)"
  "\<lambda>response. case response of
       FOLDER_RESPONSE (RESP_CHECK_FOLDER_ID b_exist) \<Rightarrow> Some b_exist
     | _ \<Rightarrow> None"
  for folder_id
  by (rule store_callI [where wrap = "FOLDER_RESPONSE \<circ> RESP_CHECK_FOLDER_ID"])
    (auto simp: exmdb_parser_dispatch_def answer_answer)

interpretation call_query_folder_messages: store_call
  "\<lambda>sv dir. exmdb_server_query_folder_messages (folder_calls sv) dir folder_id"
  "FOLDER_REQUEST (REQ_QUERY_FOLDER_MESSAGES folder_id)"
  "\<lambda>response. case response of
       FOLDER_RESPONSE (RESP_QUERY_FOLDER_MESSAGES tset) \<Rightarrow> Some tset
     | _ \<Rightarrow> None"
  for folder_id
  by (rule store_callI [where wrap = "FOLDER_RESPONSE \<circ> RESP_QUERY_FOLDER_MESSAGES"])
    (auto simp: exmdb_parser_dispatch_def answer_answer)

interpretation call_check_folder_deleted: store_call
  "\<lambda>sv dir. exmdb_server_check_folder_deleted (folder_calls sv) dir folder_id"
  "FOLDER_REQUEST (REQ_CHECK_FOLDER_DELETED folder_id)"
  "\<lambda>response. case response of
       FOLDER_RESPONSE (RESP_CHECK_FOLDER_DELETED b_del) \<Rightarrow> Some b_del
     | _ \<Rightarrow> None"
  for folder_id
  by (rule store_callI [where wrap = "FOLDER_RESPONSE \<circ> RESP_CHECK_FOLDER_DELETED"])
    (auto simp: exmdb_parser_dispatch_def answer_answer)

interpretation call_get_folder_by_name: store_call
  "\<lambda>sv dir. exmdb_server_get_folder_by_name (folder_calls sv) dir parent_id str_name"
  "FOLDER_REQUEST (REQ_GET_FOLDER_BY_NAME parent_id str_name)"
  "\<lambda>response. case response of
       FOLDER_RESPONSE (RESP_GET_FOLDER_BY_NAME folder_id) \<Rightarrow> Some folder_id
     | _ \<Rightarrow> None"
  for parent_id str_name
  by (rule store_callI [where wrap = "FOLDER_RESPONSE \<circ> RESP_GET_FOLDER_BY_NAME"])
    (auto simp: exmdb_parser_dispatch_def answer_answer)

interpretation call_check_folder_permission: store_call
  "\<lambda>sv dir. exmdb_server_check_folder_permission (folder_calls sv) dir folder_id username"
  "FOLDER_REQUEST (REQ_CHECK_FOLDER_PERMISSION folder_id username)"
  "\<lambda>response. case response of
       FOLDER_RESPONSE (RESP_CHECK_FOLDER_PERMISSION permission) \<Rightarrow> Some permission
     | _ \<Rightarrow> None"
  for folder_id username
  by (rule store_callI [where wrap = "FOLDER_RESPONSE \<circ> RESP_CHECK_FOLDER_PERMISSION"])
    (auto simp: exmdb_parser_dispatch_def answer_answer)

interpretation call_create_folder_by_properties: store_call
  "\<lambda>sv dir. exmdb_server_create_folder_by_properties (folder_calls sv) dir cpid pproperties"
  "FOLDER_REQUEST (REQ_CREATE_FOLDER_BY_PROPERTIES cpid pproperties)"
  "\<lambda>response. case response of
       FOLDER_RESPONSE (RESP_CREATE_FOLDER_BY_PROPERTIES folder_id) \<Rightarrow> Some folder_id
     | _ \<Rightarrow> None"
  for cpid pproperties
  by (rule store_callI [where wrap = "FOLDER_RESPONSE \<circ> RESP_CREATE_FOLDER_BY_PROPERTIES"])
    (auto simp: exmdb_parser_dispatch_def answer_answer)

interpretation call_get_folder_all_proptags: store_call
  "\<lambda>sv dir. exmdb_server_get_folder_all_proptags (folder_calls sv) dir folder_id"
  "FOLDER_REQUEST (REQ_GET_FOLDER_ALL_PROPTAGS folder_id)"
  "\<lambda>response. case response of
       FOLDER_RESPONSE (RESP_GET_FOLDER_ALL_PROPTAGS proptags) \<Rightarrow> Some proptags
     | _ \<Rightarrow> None"
  for folder_id
  by (rule store_callI [where wrap = "FOLDER_RESPONSE \<circ> RESP_GET_FOLDER_ALL_PROPTAGS"])
    (auto simp: exmdb_parser_dispatch_def answer_answer)

interpretation call_get_folder_properties: store_call
  "\<lambda>sv dir. exmdb_server_get_folder_properties (folder_calls sv) dir cpid folder_id pproptags"
  "FOLDER_REQUEST (REQ_GET_FOLDER_PROPERTIES cpid folder_id pproptags)"
  "\<lambda>response. case response of
       FOLDER_RESPONSE (RESP_GET_FOLDER_PROPERTIES propvals) \<Rightarrow> Some propvals
     | _ \<Rightarrow> None"
  for cpid folder_id pproptags
  by (rule store_callI [where wrap = "FOLDER_RESPONSE \<circ> RESP_GET_FOLDER_PROPERTIES"])
    (auto simp: exmdb_parser_dispatch_def answer_answer)

interpretation call_set_folder_properties: store_call
  "\<lambda>sv dir. exmdb_server_set_folder_properties (folder_calls sv) dir cpid folder_id pproperties"
  "FOLDER_REQUEST (REQ_SET_FOLDER_PROPERTIES cpid folder_id pproperties)"
  "\<lambda>response. case response of
       FOLDER_RESPONSE (RESP_SET_FOLDER_PROPERTIES problems) \<Rightarrow> Some problems
     | _ \<Rightarrow> None"
  for cpid folder_id pproperties
  by (rule store_callI [where wrap = "FOLDER_RESPONSE \<circ> RESP_SET_FOLDER_PROPERTIES"])
    (auto simp: exmdb_parser_dispatch_def answer_answer)

interpretation call_remove_folder_properties: store_call
  "\<lambda>sv dir. exmdb_server_remove_folder_properties (folder_calls sv) dir folder_id pproptags"
  "FOLDER_REQUEST (REQ_REMOVE_FOLDER_PROPERTIES folder_id pproptags)"
  "\<lambda>response. case response of
       FOLDER_RESPONSE RESP_REMOVE_FOLDER_PROPERTIES \<Rightarrow> Some ()
     | _ \<Rightarrow> None"
  for folder_id pproptags
  by (rule store_callI [where wrap = "FOLDER_RESPONSE \<circ> (\<lambda>_. RESP_REMOVE_FOLDER_PROPERTIES)"])
    (auto simp: exmdb_parser_dispatch_def answer_answer)

interpretation call_delete_folder: store_call
  "\<lambda>sv dir. exmdb_server_delete_folder (folder_calls sv) dir cpid folder_id b_hard"
  "FOLDER_REQUEST (REQ_DELETE_FOLDER cpid folder_id b_hard)"
  "\<lambda>response. case response of
       FOLDER_RESPONSE (RESP_DELETE_FOLDER b_result) \<Rightarrow> Some b_result
     | _ \<Rightarrow> None"
  for cpid folder_id b_hard
  by (rule store_callI [where wrap = "FOLDER_RESPONSE \<circ> RESP_DELETE_FOLDER"])
    (auto simp: exmdb_parser_dispatch_def answer_answer)

interpretation call_empty_folder: store_call
  "\<lambda>sv dir. exmdb_server_empty_folder (folder_calls sv) dir cpid username folder_id b_hard
    b_normal b_fai b_sub"
  "FOLDER_REQUEST (REQ_EMPTY_FOLDER cpid username folder_id b_hard b_normal b_fai b_sub)"
  "\<lambda>response. case response of
       FOLDER_RESPONSE (RESP_EMPTY_FOLDER b_partial) \<Rightarrow> Some b_partial
     | _ \<Rightarrow> None"
  for cpid username folder_id b_hard b_normal b_fai b_sub
  by (rule store_callI [where wrap = "FOLDER_RESPONSE \<circ> RESP_EMPTY_FOLDER"])
    (auto simp: exmdb_parser_dispatch_def answer_answer)

interpretation call_copy_folder_internal: store_call
  "\<lambda>sv dir. exmdb_server_copy_folder_internal (folder_calls sv) dir account_id cpid b_guest
    username src_fid b_normal b_fai b_sub dst_fid"
  "FOLDER_REQUEST (REQ_COPY_FOLDER_INTERNAL account_id cpid b_guest username src_fid b_normal
    b_fai b_sub dst_fid)"
  "\<lambda>response. case response of
       FOLDER_RESPONSE (RESP_COPY_FOLDER_INTERNAL b_collid b_partial) \<Rightarrow>
              Some (b_collid, b_partial)
     | _ \<Rightarrow> None"
  for account_id cpid b_guest username src_fid b_normal b_fai b_sub dst_fid
  by (rule store_callI [where wrap = "FOLDER_RESPONSE \<circ>
      (\<lambda>(b_collid, b_partial). RESP_COPY_FOLDER_INTERNAL b_collid b_partial)"])
    (auto simp: exmdb_parser_dispatch_def answer_answer)

interpretation call_get_search_criteria: store_call
  "\<lambda>sv dir. exmdb_server_get_search_criteria (folder_calls sv) dir folder_id"
  "FOLDER_REQUEST (REQ_GET_SEARCH_CRITERIA folder_id)"
  "\<lambda>response. case response of
       FOLDER_RESPONSE (RESP_GET_SEARCH_CRITERIA search_status prestriction folder_ids) \<Rightarrow>
              Some (search_status, prestriction, folder_ids)
     | _ \<Rightarrow> None"
  for folder_id
  by (rule store_callI [where wrap = "FOLDER_RESPONSE \<circ>
      (\<lambda>(search_status, prestriction, folder_ids). RESP_GET_SEARCH_CRITERIA search_status
        prestriction folder_ids)"])
    (auto simp: exmdb_parser_dispatch_def answer_answer)

interpretation call_set_search_criteria: store_call
  "\<lambda>sv dir. exmdb_server_set_search_criteria (folder_calls sv) dir cpid folder_id search_flags
    prestriction pfolder_ids"
  "FOLDER_REQUEST (REQ_SET_SEARCH_CRITERIA cpid folder_id search_flags prestriction
    pfolder_ids)"
  "\<lambda>response. case response of
       FOLDER_RESPONSE (RESP_SET_SEARCH_CRITERIA b_result) \<Rightarrow> Some b_result
     | _ \<Rightarrow> None"
  for cpid folder_id search_flags prestriction pfolder_ids
  by (rule store_callI [where wrap = "FOLDER_RESPONSE \<circ> RESP_SET_SEARCH_CRITERIA"])
    (auto simp: exmdb_parser_dispatch_def answer_answer)

interpretation call_movecopy_message: store_call
  "\<lambda>sv dir. exmdb_server_movecopy_message (folder_calls sv) dir account_id cpid message_id
    dst_fid dst_id b_move"
  "FOLDER_REQUEST (REQ_MOVECOPY_MESSAGE account_id cpid message_id dst_fid dst_id b_move)"
  "\<lambda>response. case response of
       FOLDER_RESPONSE (RESP_MOVECOPY_MESSAGE b_result) \<Rightarrow> Some b_result
     | _ \<Rightarrow> None"
  for account_id cpid message_id dst_fid dst_id b_move
  by (rule store_callI [where wrap = "FOLDER_RESPONSE \<circ> RESP_MOVECOPY_MESSAGE"])
    (auto simp: exmdb_parser_dispatch_def answer_answer)

interpretation call_movecopy_messages: store_call
  "\<lambda>sv dir. exmdb_server_movecopy_messages (folder_calls sv) dir account_id cpid b_guest
    username src_fid dst_fid b_copy pmessage_ids"
  "FOLDER_REQUEST (REQ_MOVECOPY_MESSAGES account_id cpid b_guest username src_fid dst_fid b_copy
    pmessage_ids)"
  "\<lambda>response. case response of
       FOLDER_RESPONSE (RESP_MOVECOPY_MESSAGES b_partial) \<Rightarrow> Some b_partial
     | _ \<Rightarrow> None"
  for account_id cpid b_guest username src_fid dst_fid b_copy pmessage_ids
  by (rule store_callI [where wrap = "FOLDER_RESPONSE \<circ> RESP_MOVECOPY_MESSAGES"])
    (auto simp: exmdb_parser_dispatch_def answer_answer)

interpretation call_movecopy_folder: store_call
  "\<lambda>sv dir. exmdb_server_movecopy_folder (folder_calls sv) dir account_id cpid b_guest username
    src_pid src_fid dst_fid str_new b_copy"
  "FOLDER_REQUEST (REQ_MOVECOPY_FOLDER account_id cpid b_guest username src_pid src_fid dst_fid
    str_new b_copy)"
  "\<lambda>response. case response of
       FOLDER_RESPONSE (RESP_MOVECOPY_FOLDER b_exist b_partial) \<Rightarrow>
              Some (b_exist, b_partial)
     | _ \<Rightarrow> None"
  for account_id cpid b_guest username src_pid src_fid dst_fid str_new b_copy
  by (rule store_callI [where wrap = "FOLDER_RESPONSE \<circ>
      (\<lambda>(b_exist, b_partial). RESP_MOVECOPY_FOLDER b_exist b_partial)"])
    (auto simp: exmdb_parser_dispatch_def answer_answer)

interpretation call_delete_messages: store_call
  "\<lambda>sv dir. exmdb_server_delete_messages (folder_calls sv) dir account_id cpid username
    folder_id pmessage_ids b_hard"
  "FOLDER_REQUEST (REQ_DELETE_MESSAGES account_id cpid username folder_id pmessage_ids b_hard)"
  "\<lambda>response. case response of
       FOLDER_RESPONSE (RESP_DELETE_MESSAGES b_partial) \<Rightarrow> Some b_partial
     | _ \<Rightarrow> None"
  for account_id cpid username folder_id pmessage_ids b_hard
  by (rule store_callI [where wrap = "FOLDER_RESPONSE \<circ> RESP_DELETE_MESSAGES"])
    (auto simp: exmdb_parser_dispatch_def answer_answer)

interpretation call_get_message_brief: store_call
  "\<lambda>sv dir. exmdb_server_get_message_brief (folder_calls sv) dir cpid message_id"
  "FOLDER_REQUEST (REQ_GET_MESSAGE_BRIEF cpid message_id)"
  "\<lambda>response. case response of
       FOLDER_RESPONSE (RESP_GET_MESSAGE_BRIEF pbrief) \<Rightarrow> Some pbrief
     | _ \<Rightarrow> None"
  for cpid message_id
  by (rule store_callI [where wrap = "FOLDER_RESPONSE \<circ> RESP_GET_MESSAGE_BRIEF"])
    (auto simp: exmdb_parser_dispatch_def answer_answer)

interpretation call_sum_hierarchy: store_call
  "\<lambda>sv dir. exmdb_server_sum_hierarchy (folder_calls sv) dir folder_id username b_depth"
  "FOLDER_REQUEST (REQ_SUM_HIERARCHY folder_id username b_depth)"
  "\<lambda>response. case response of
       FOLDER_RESPONSE (RESP_SUM_HIERARCHY cnt) \<Rightarrow> Some cnt
     | _ \<Rightarrow> None"
  for folder_id username b_depth
  by (rule store_callI [where wrap = "FOLDER_RESPONSE \<circ> RESP_SUM_HIERARCHY"])
    (auto simp: exmdb_parser_dispatch_def answer_answer)

interpretation call_load_hierarchy_table: store_call
  "\<lambda>sv dir. exmdb_server_load_hierarchy_table (table_calls sv) dir folder_id username
    table_flags prestriction"
  "TABLE_REQUEST (REQ_LOAD_HIERARCHY_TABLE folder_id username table_flags prestriction)"
  "\<lambda>response. case response of
       TABLE_RESPONSE (RESP_LOAD_HIERARCHY_TABLE table_id row_count) \<Rightarrow>
              Some (table_id, row_count)
     | _ \<Rightarrow> None"
  for folder_id username table_flags prestriction
  by (rule store_callI [where wrap = "TABLE_RESPONSE \<circ>
      (\<lambda>(table_id, row_count). RESP_LOAD_HIERARCHY_TABLE table_id row_count)"])
    (auto simp: exmdb_parser_dispatch_def answer_answer)

interpretation call_sum_content: store_call
  "\<lambda>sv dir. exmdb_server_sum_content (table_calls sv) dir folder_id b_fai b_deleted"
  "TABLE_REQUEST (REQ_SUM_CONTENT folder_id b_fai b_deleted)"
  "\<lambda>response. case response of
       TABLE_RESPONSE (RESP_SUM_CONTENT cnt) \<Rightarrow> Some cnt
     | _ \<Rightarrow> None"
  for folder_id b_fai b_deleted
  by (rule store_callI [where wrap = "TABLE_RESPONSE \<circ> RESP_SUM_CONTENT"])
    (auto simp: exmdb_parser_dispatch_def answer_answer)

interpretation call_load_content_table: store_call
  "\<lambda>sv dir. exmdb_server_load_content_table (table_calls sv) dir cpid folder_id username
    table_flags prestriction psorts"
  "TABLE_REQUEST (REQ_LOAD_CONTENT_TABLE cpid folder_id username table_flags prestriction
    psorts)"
  "\<lambda>response. case response of
       TABLE_RESPONSE (RESP_LOAD_CONTENT_TABLE table_id row_count) \<Rightarrow>
              Some (table_id, row_count)
     | _ \<Rightarrow> None"
  for cpid folder_id username table_flags prestriction psorts
  by (rule store_callI [where wrap = "TABLE_RESPONSE \<circ>
      (\<lambda>(table_id, row_count). RESP_LOAD_CONTENT_TABLE table_id row_count)"])
    (auto simp: exmdb_parser_dispatch_def answer_answer)

interpretation call_reload_content_table: store_call
  "\<lambda>sv dir. exmdb_server_reload_content_table (table_calls sv) dir table_id"
  "TABLE_REQUEST (REQ_RELOAD_CONTENT_TABLE table_id)"
  "\<lambda>response. case response of
       TABLE_RESPONSE RESP_RELOAD_CONTENT_TABLE \<Rightarrow> Some ()
     | _ \<Rightarrow> None"
  for table_id
  by (rule store_callI [where wrap = "TABLE_RESPONSE \<circ> (\<lambda>_. RESP_RELOAD_CONTENT_TABLE)"])
    (auto simp: exmdb_parser_dispatch_def answer_answer)

interpretation call_load_permission_table: store_call
  "\<lambda>sv dir. exmdb_server_load_permission_table (table_calls sv) dir folder_id table_flags"
  "TABLE_REQUEST (REQ_LOAD_PERMISSION_TABLE folder_id table_flags)"
  "\<lambda>response. case response of
       TABLE_RESPONSE (RESP_LOAD_PERMISSION_TABLE table_id row_count) \<Rightarrow>
              Some (table_id, row_count)
     | _ \<Rightarrow> None"
  for folder_id table_flags
  by (rule store_callI [where wrap = "TABLE_RESPONSE \<circ>
      (\<lambda>(table_id, row_count). RESP_LOAD_PERMISSION_TABLE table_id row_count)"])
    (auto simp: exmdb_parser_dispatch_def answer_answer)

interpretation call_load_rule_table: store_call
  "\<lambda>sv dir. exmdb_server_load_rule_table (table_calls sv) dir folder_id table_flags
    prestriction"
  "TABLE_REQUEST (REQ_LOAD_RULE_TABLE folder_id table_flags prestriction)"
  "\<lambda>response. case response of
       TABLE_RESPONSE (RESP_LOAD_RULE_TABLE table_id row_count) \<Rightarrow>
              Some (table_id, row_count)
     | _ \<Rightarrow> None"
  for folder_id table_flags prestriction
  by (rule store_callI [where wrap = "TABLE_RESPONSE \<circ>
      (\<lambda>(table_id, row_count). RESP_LOAD_RULE_TABLE table_id row_count)"])
    (auto simp: exmdb_parser_dispatch_def answer_answer)

interpretation call_unload_table: store_call
  "\<lambda>sv dir. exmdb_server_unload_table (table_calls sv) dir table_id"
  "TABLE_REQUEST (REQ_UNLOAD_TABLE table_id)"
  "\<lambda>response. case response of
       TABLE_RESPONSE RESP_UNLOAD_TABLE \<Rightarrow> Some ()
     | _ \<Rightarrow> None"
  for table_id
  by (rule store_callI [where wrap = "TABLE_RESPONSE \<circ> (\<lambda>_. RESP_UNLOAD_TABLE)"])
    (auto simp: exmdb_parser_dispatch_def answer_answer)

interpretation call_sum_table: store_call
  "\<lambda>sv dir. exmdb_server_sum_table (table_calls sv) dir table_id"
  "TABLE_REQUEST (REQ_SUM_TABLE table_id)"
  "\<lambda>response. case response of
       TABLE_RESPONSE (RESP_SUM_TABLE rows) \<Rightarrow> Some rows
     | _ \<Rightarrow> None"
  for table_id
  by (rule store_callI [where wrap = "TABLE_RESPONSE \<circ> RESP_SUM_TABLE"])
    (auto simp: exmdb_parser_dispatch_def answer_answer)

interpretation call_query_table: store_call
  "\<lambda>sv dir. exmdb_server_query_table (table_calls sv) dir username cpid table_id pproptags
    start_pos row_needed"
  "TABLE_REQUEST (REQ_QUERY_TABLE username cpid table_id pproptags start_pos row_needed)"
  "\<lambda>response. case response of
       TABLE_RESPONSE (RESP_QUERY_TABLE tset) \<Rightarrow> Some tset
     | _ \<Rightarrow> None"
  for username cpid table_id pproptags start_pos row_needed
  by (rule store_callI [where wrap = "TABLE_RESPONSE \<circ> RESP_QUERY_TABLE"])
    (auto simp: exmdb_parser_dispatch_def answer_answer)

interpretation call_match_table: store_call
  "\<lambda>sv dir. exmdb_server_match_table (table_calls sv) dir username cpid table_id b_forward
    start_pos pres pproptags"
  "TABLE_REQUEST (REQ_MATCH_TABLE username cpid table_id b_forward start_pos pres pproptags)"
  "\<lambda>response. case response of
       TABLE_RESPONSE (RESP_MATCH_TABLE position propvals) \<Rightarrow> Some (position, propvals)
     | _ \<Rightarrow> None"
  for username cpid table_id b_forward start_pos pres pproptags
  by (rule store_callI [where wrap = "TABLE_RESPONSE \<circ>
      (\<lambda>(position, propvals). RESP_MATCH_TABLE position propvals)"])
    (auto simp: exmdb_parser_dispatch_def answer_answer)

interpretation call_locate_table: store_call
  "\<lambda>sv dir. exmdb_server_locate_table (table_calls sv) dir table_id inst_id inst_num"
  "TABLE_REQUEST (REQ_LOCATE_TABLE table_id inst_id inst_num)"
  "\<lambda>response. case response of
       TABLE_RESPONSE (RESP_LOCATE_TABLE position row_type) \<Rightarrow> Some (position, row_type)
     | _ \<Rightarrow> None"
  for table_id inst_id inst_num
  by (rule store_callI [where wrap = "TABLE_RESPONSE \<circ>
      (\<lambda>(position, row_type). RESP_LOCATE_TABLE position row_type)"])
    (auto simp: exmdb_parser_dispatch_def answer_answer)

interpretation call_read_table_row: store_call
  "\<lambda>sv dir. exmdb_server_read_table_row (table_calls sv) dir username cpid table_id pproptags
    inst_id inst_num"
  "TABLE_REQUEST (REQ_READ_TABLE_ROW username cpid table_id pproptags inst_id inst_num)"
  "\<lambda>response. case response of
       TABLE_RESPONSE (RESP_READ_TABLE_ROW propvals) \<Rightarrow> Some propvals
     | _ \<Rightarrow> None"
  for username cpid table_id pproptags inst_id inst_num
  by (rule store_callI [where wrap = "TABLE_RESPONSE \<circ> RESP_READ_TABLE_ROW"])
    (auto simp: exmdb_parser_dispatch_def answer_answer)

interpretation call_mark_table: store_call
  "\<lambda>sv dir. exmdb_server_mark_table (table_calls sv) dir table_id position"
  "TABLE_REQUEST (REQ_MARK_TABLE table_id position)"
  "\<lambda>response. case response of
       TABLE_RESPONSE (RESP_MARK_TABLE inst_id inst_num row_type) \<Rightarrow>
              Some (inst_id, inst_num, row_type)
     | _ \<Rightarrow> None"
  for table_id position
  by (rule store_callI [where wrap = "TABLE_RESPONSE \<circ>
      (\<lambda>(inst_id, inst_num, row_type). RESP_MARK_TABLE inst_id inst_num row_type)"])
    (auto simp: exmdb_parser_dispatch_def answer_answer)

interpretation call_get_table_all_proptags: store_call
  "\<lambda>sv dir. exmdb_server_get_table_all_proptags (table_calls sv) dir table_id"
  "TABLE_REQUEST (REQ_GET_TABLE_ALL_PROPTAGS table_id)"
  "\<lambda>response. case response of
       TABLE_RESPONSE (RESP_GET_TABLE_ALL_PROPTAGS proptags) \<Rightarrow> Some proptags
     | _ \<Rightarrow> None"
  for table_id
  by (rule store_callI [where wrap = "TABLE_RESPONSE \<circ> RESP_GET_TABLE_ALL_PROPTAGS"])
    (auto simp: exmdb_parser_dispatch_def answer_answer)

interpretation call_expand_table: store_call
  "\<lambda>sv dir. exmdb_server_expand_table (table_calls sv) dir table_id inst_id"
  "TABLE_REQUEST (REQ_EXPAND_TABLE table_id inst_id)"
  "\<lambda>response. case response of
       TABLE_RESPONSE (RESP_EXPAND_TABLE b_found position row_count) \<Rightarrow>
              Some (b_found, position, row_count)
     | _ \<Rightarrow> None"
  for table_id inst_id
  by (rule store_callI [where wrap = "TABLE_RESPONSE \<circ>
      (\<lambda>(b_found, position, row_count). RESP_EXPAND_TABLE b_found position row_count)"])
    (auto simp: exmdb_parser_dispatch_def answer_answer)

interpretation call_collapse_table: store_call
  "\<lambda>sv dir. exmdb_server_collapse_table (table_calls sv) dir table_id inst_id"
  "TABLE_REQUEST (REQ_COLLAPSE_TABLE table_id inst_id)"
  "\<lambda>response. case response of
       TABLE_RESPONSE (RESP_COLLAPSE_TABLE b_found position row_count) \<Rightarrow>
              Some (b_found, position, row_count)
     | _ \<Rightarrow> None"
  for table_id inst_id
  by (rule store_callI [where wrap = "TABLE_RESPONSE \<circ>
      (\<lambda>(b_found, position, row_count). RESP_COLLAPSE_TABLE b_found position row_count)"])
    (auto simp: exmdb_parser_dispatch_def answer_answer)

interpretation call_restore_table_state: store_call
  "\<lambda>sv dir. exmdb_server_restore_table_state (table_calls sv) dir table_id state_id"
  "TABLE_REQUEST (REQ_RESTORE_TABLE_STATE table_id state_id)"
  "\<lambda>response. case response of
       TABLE_RESPONSE (RESP_RESTORE_TABLE_STATE position) \<Rightarrow> Some position
     | _ \<Rightarrow> None"
  for table_id state_id
  by (rule store_callI [where wrap = "TABLE_RESPONSE \<circ> RESP_RESTORE_TABLE_STATE"])
    (auto simp: exmdb_parser_dispatch_def answer_answer)

interpretation call_check_message: store_call
  "\<lambda>sv dir. exmdb_server_check_message (instance_calls sv) dir folder_id message_id"
  "INSTANCE_REQUEST (REQ_CHECK_MESSAGE folder_id message_id)"
  "\<lambda>response. case response of
       INSTANCE_RESPONSE (RESP_CHECK_MESSAGE b_exist) \<Rightarrow> Some b_exist
     | _ \<Rightarrow> None"
  for folder_id message_id
  by (rule store_callI [where wrap = "INSTANCE_RESPONSE \<circ> RESP_CHECK_MESSAGE"])
    (auto simp: exmdb_parser_dispatch_def answer_answer)

interpretation call_check_message_deleted: store_call
  "\<lambda>sv dir. exmdb_server_check_message_deleted (instance_calls sv) dir message_id"
  "INSTANCE_REQUEST (REQ_CHECK_MESSAGE_DELETED message_id)"
  "\<lambda>response. case response of
       INSTANCE_RESPONSE (RESP_CHECK_MESSAGE_DELETED b_del) \<Rightarrow> Some b_del
     | _ \<Rightarrow> None"
  for message_id
  by (rule store_callI [where wrap = "INSTANCE_RESPONSE \<circ> RESP_CHECK_MESSAGE_DELETED"])
    (auto simp: exmdb_parser_dispatch_def answer_answer)

interpretation call_load_message_instance: store_call
  "\<lambda>sv dir. exmdb_server_load_message_instance (instance_calls sv) dir username cpid b_new
    folder_id message_id"
  "INSTANCE_REQUEST (REQ_LOAD_MESSAGE_INSTANCE username cpid b_new folder_id message_id)"
  "\<lambda>response. case response of
       INSTANCE_RESPONSE (RESP_LOAD_MESSAGE_INSTANCE instance_id) \<Rightarrow> Some instance_id
     | _ \<Rightarrow> None"
  for username cpid b_new folder_id message_id
  by (rule store_callI [where wrap = "INSTANCE_RESPONSE \<circ> RESP_LOAD_MESSAGE_INSTANCE"])
    (auto simp: exmdb_parser_dispatch_def answer_answer)

interpretation call_load_embedded_instance: store_call
  "\<lambda>sv dir. exmdb_server_load_embedded_instance (instance_calls sv) dir b_new
    attachment_instance_id"
  "INSTANCE_REQUEST (REQ_LOAD_EMBEDDED_INSTANCE b_new attachment_instance_id)"
  "\<lambda>response. case response of
       INSTANCE_RESPONSE (RESP_LOAD_EMBEDDED_INSTANCE instance_id) \<Rightarrow> Some instance_id
     | _ \<Rightarrow> None"
  for b_new attachment_instance_id
  by (rule store_callI [where wrap = "INSTANCE_RESPONSE \<circ> RESP_LOAD_EMBEDDED_INSTANCE"])
    (auto simp: exmdb_parser_dispatch_def answer_answer)

interpretation call_get_embeded_cn: store_call
  "\<lambda>sv dir. exmdb_server_get_embeded_cn (instance_calls sv) dir instance_id"
  "INSTANCE_REQUEST (REQ_GET_EMBEDED_CN instance_id)"
  "\<lambda>response. case response of
       INSTANCE_RESPONSE (RESP_GET_EMBEDED_CN pcn) \<Rightarrow> Some pcn
     | _ \<Rightarrow> None"
  for instance_id
  by (rule store_callI [where wrap = "INSTANCE_RESPONSE \<circ> RESP_GET_EMBEDED_CN"])
    (auto simp: exmdb_parser_dispatch_def answer_answer)

interpretation call_reload_message_instance: store_call
  "\<lambda>sv dir. exmdb_server_reload_message_instance (instance_calls sv) dir instance_id"
  "INSTANCE_REQUEST (REQ_RELOAD_MESSAGE_INSTANCE instance_id)"
  "\<lambda>response. case response of
       INSTANCE_RESPONSE (RESP_RELOAD_MESSAGE_INSTANCE b_result) \<Rightarrow> Some b_result
     | _ \<Rightarrow> None"
  for instance_id
  by (rule store_callI [where wrap = "INSTANCE_RESPONSE \<circ> RESP_RELOAD_MESSAGE_INSTANCE"])
    (auto simp: exmdb_parser_dispatch_def answer_answer)

interpretation call_clear_message_instance: store_call
  "\<lambda>sv dir. exmdb_server_clear_message_instance (instance_calls sv) dir instance_id"
  "INSTANCE_REQUEST (REQ_CLEAR_MESSAGE_INSTANCE instance_id)"
  "\<lambda>response. case response of
       INSTANCE_RESPONSE RESP_CLEAR_MESSAGE_INSTANCE \<Rightarrow> Some ()
     | _ \<Rightarrow> None"
  for instance_id
  by (rule store_callI [where wrap = "INSTANCE_RESPONSE \<circ> (\<lambda>_. RESP_CLEAR_MESSAGE_INSTANCE)"])
    (auto simp: exmdb_parser_dispatch_def answer_answer)

interpretation call_read_message_instance: store_call
  "\<lambda>sv dir. exmdb_server_read_message_instance (instance_calls sv) dir instance_id"
  "INSTANCE_REQUEST (REQ_READ_MESSAGE_INSTANCE instance_id)"
  "\<lambda>response. case response of
       INSTANCE_RESPONSE (RESP_READ_MESSAGE_INSTANCE msgctnt) \<Rightarrow> Some msgctnt
     | _ \<Rightarrow> None"
  for instance_id
  by (rule store_callI [where wrap = "INSTANCE_RESPONSE \<circ> RESP_READ_MESSAGE_INSTANCE"])
    (auto simp: exmdb_parser_dispatch_def answer_answer)

interpretation call_write_message_instance: store_call
  "\<lambda>sv dir. exmdb_server_write_message_instance (instance_calls sv) dir instance_id pmsgctnt
    b_force"
  "INSTANCE_REQUEST (REQ_WRITE_MESSAGE_INSTANCE instance_id pmsgctnt b_force)"
  "\<lambda>response. case response of
       INSTANCE_RESPONSE (RESP_WRITE_MESSAGE_INSTANCE proptags problems) \<Rightarrow>
              Some (proptags, problems)
     | _ \<Rightarrow> None"
  for instance_id pmsgctnt b_force
  by (rule store_callI [where wrap = "INSTANCE_RESPONSE \<circ>
      (\<lambda>(proptags, problems). RESP_WRITE_MESSAGE_INSTANCE proptags problems)"])
    (auto simp: exmdb_parser_dispatch_def answer_answer)

interpretation call_load_attachment_instance: store_call
  "\<lambda>sv dir. exmdb_server_load_attachment_instance (instance_calls sv) dir message_instance_id
    attachment_num"
  "INSTANCE_REQUEST (REQ_LOAD_ATTACHMENT_INSTANCE message_instance_id attachment_num)"
  "\<lambda>response. case response of
       INSTANCE_RESPONSE (RESP_LOAD_ATTACHMENT_INSTANCE instance_id) \<Rightarrow> Some instance_id
     | _ \<Rightarrow> None"
  for message_instance_id attachment_num
  by (rule store_callI [where wrap = "INSTANCE_RESPONSE \<circ> RESP_LOAD_ATTACHMENT_INSTANCE"])
    (auto simp: exmdb_parser_dispatch_def answer_answer)

interpretation call_create_attachment_instance: store_call
  "\<lambda>sv dir. exmdb_server_create_attachment_instance (instance_calls sv) dir message_instance_id"
  "INSTANCE_REQUEST (REQ_CREATE_ATTACHMENT_INSTANCE message_instance_id)"
  "\<lambda>response. case response of
       INSTANCE_RESPONSE (RESP_CREATE_ATTACHMENT_INSTANCE instance_id attachment_num) \<Rightarrow>
              Some (instance_id, attachment_num)
     | _ \<Rightarrow> None"
  for message_instance_id
  by (rule store_callI [where wrap = "INSTANCE_RESPONSE \<circ>
      (\<lambda>(instance_id, attachment_num). RESP_CREATE_ATTACHMENT_INSTANCE instance_id
        attachment_num)"])
    (auto simp: exmdb_parser_dispatch_def answer_answer)

interpretation call_read_attachment_instance: store_call
  "\<lambda>sv dir. exmdb_server_read_attachment_instance (instance_calls sv) dir instance_id"
  "INSTANCE_REQUEST (REQ_READ_ATTACHMENT_INSTANCE instance_id)"
  "\<lambda>response. case response of
       INSTANCE_RESPONSE (RESP_READ_ATTACHMENT_INSTANCE attctnt) \<Rightarrow> Some attctnt
     | _ \<Rightarrow> None"
  for instance_id
  by (rule store_callI [where wrap = "INSTANCE_RESPONSE \<circ> RESP_READ_ATTACHMENT_INSTANCE"])
    (auto simp: exmdb_parser_dispatch_def answer_answer)

interpretation call_write_attachment_instance: store_call
  "\<lambda>sv dir. exmdb_server_write_attachment_instance (instance_calls sv) dir instance_id pattctnt
    b_force"
  "INSTANCE_REQUEST (REQ_WRITE_ATTACHMENT_INSTANCE instance_id pattctnt b_force)"
  "\<lambda>response. case response of
       INSTANCE_RESPONSE (RESP_WRITE_ATTACHMENT_INSTANCE problems) \<Rightarrow> Some problems
     | _ \<Rightarrow> None"
  for instance_id pattctnt b_force
  by (rule store_callI [where wrap = "INSTANCE_RESPONSE \<circ> RESP_WRITE_ATTACHMENT_INSTANCE"])
    (auto simp: exmdb_parser_dispatch_def answer_answer)

interpretation call_delete_message_instance_attachment: store_call
  "\<lambda>sv dir. exmdb_server_delete_message_instance_attachment (instance_calls sv) dir
    message_instance_id attachment_num"
  "INSTANCE_REQUEST (REQ_DELETE_MESSAGE_INSTANCE_ATTACHMENT message_instance_id attachment_num)"
  "\<lambda>response. case response of
       INSTANCE_RESPONSE RESP_DELETE_MESSAGE_INSTANCE_ATTACHMENT \<Rightarrow> Some ()
     | _ \<Rightarrow> None"
  for message_instance_id attachment_num
  by (rule store_callI [where wrap = "INSTANCE_RESPONSE \<circ>
    (\<lambda>_. RESP_DELETE_MESSAGE_INSTANCE_ATTACHMENT)"])
    (auto simp: exmdb_parser_dispatch_def answer_answer)

interpretation call_flush_instance: store_call
  "\<lambda>sv dir. exmdb_server_flush_instance (instance_calls sv) dir instance_id account"
  "INSTANCE_REQUEST (REQ_FLUSH_INSTANCE instance_id account)"
  "\<lambda>response. case response of
       INSTANCE_RESPONSE (RESP_FLUSH_INSTANCE b_result) \<Rightarrow> Some b_result
     | _ \<Rightarrow> None"
  for instance_id account
  by (rule store_callI [where wrap = "INSTANCE_RESPONSE \<circ> RESP_FLUSH_INSTANCE"])
    (auto simp: exmdb_parser_dispatch_def answer_answer)

interpretation call_unload_instance: store_call
  "\<lambda>sv dir. exmdb_server_unload_instance (instance_calls sv) dir instance_id"
  "INSTANCE_REQUEST (REQ_UNLOAD_INSTANCE instance_id)"
  "\<lambda>response. case response of
       INSTANCE_RESPONSE RESP_UNLOAD_INSTANCE \<Rightarrow> Some ()
     | _ \<Rightarrow> None"
  for instance_id
  by (rule store_callI [where wrap = "INSTANCE_RESPONSE \<circ> (\<lambda>_. RESP_UNLOAD_INSTANCE)"])
    (auto simp: exmdb_parser_dispatch_def answer_answer)

interpretation call_get_instance_all_proptags: store_call
  "\<lambda>sv dir. exmdb_server_get_instance_all_proptags (instance_calls sv) dir instance_id"
  "INSTANCE_REQUEST (REQ_GET_INSTANCE_ALL_PROPTAGS instance_id)"
  "\<lambda>response. case response of
       INSTANCE_RESPONSE (RESP_GET_INSTANCE_ALL_PROPTAGS proptags) \<Rightarrow> Some proptags
     | _ \<Rightarrow> None"
  for instance_id
  by (rule store_callI [where wrap = "INSTANCE_RESPONSE \<circ> RESP_GET_INSTANCE_ALL_PROPTAGS"])
    (auto simp: exmdb_parser_dispatch_def answer_answer)

interpretation call_get_instance_properties: store_call
  "\<lambda>sv dir. exmdb_server_get_instance_properties (instance_calls sv) dir size_limit instance_id
    pproptags"
  "INSTANCE_REQUEST (REQ_GET_INSTANCE_PROPERTIES size_limit instance_id pproptags)"
  "\<lambda>response. case response of
       INSTANCE_RESPONSE (RESP_GET_INSTANCE_PROPERTIES propvals) \<Rightarrow> Some propvals
     | _ \<Rightarrow> None"
  for size_limit instance_id pproptags
  by (rule store_callI [where wrap = "INSTANCE_RESPONSE \<circ> RESP_GET_INSTANCE_PROPERTIES"])
    (auto simp: exmdb_parser_dispatch_def answer_answer)

interpretation call_set_instance_properties: store_call
  "\<lambda>sv dir. exmdb_server_set_instance_properties (instance_calls sv) dir instance_id
    pproperties"
  "INSTANCE_REQUEST (REQ_SET_INSTANCE_PROPERTIES instance_id pproperties)"
  "\<lambda>response. case response of
       INSTANCE_RESPONSE (RESP_SET_INSTANCE_PROPERTIES problems) \<Rightarrow> Some problems
     | _ \<Rightarrow> None"
  for instance_id pproperties
  by (rule store_callI [where wrap = "INSTANCE_RESPONSE \<circ> RESP_SET_INSTANCE_PROPERTIES"])
    (auto simp: exmdb_parser_dispatch_def answer_answer)

interpretation call_remove_instance_properties: store_call
  "\<lambda>sv dir. exmdb_server_remove_instance_properties (instance_calls sv) dir instance_id
    pproptags"
  "INSTANCE_REQUEST (REQ_REMOVE_INSTANCE_PROPERTIES instance_id pproptags)"
  "\<lambda>response. case response of
       INSTANCE_RESPONSE (RESP_REMOVE_INSTANCE_PROPERTIES problems) \<Rightarrow> Some problems
     | _ \<Rightarrow> None"
  for instance_id pproptags
  by (rule store_callI [where wrap = "INSTANCE_RESPONSE \<circ> RESP_REMOVE_INSTANCE_PROPERTIES"])
    (auto simp: exmdb_parser_dispatch_def answer_answer)

interpretation call_check_instance_cycle: store_call
  "\<lambda>sv dir. exmdb_server_check_instance_cycle (instance_calls sv) dir src_instance_id
    dst_instance_id"
  "INSTANCE_REQUEST (REQ_CHECK_INSTANCE_CYCLE src_instance_id dst_instance_id)"
  "\<lambda>response. case response of
       INSTANCE_RESPONSE (RESP_CHECK_INSTANCE_CYCLE b_cycle) \<Rightarrow> Some b_cycle
     | _ \<Rightarrow> None"
  for src_instance_id dst_instance_id
  by (rule store_callI [where wrap = "INSTANCE_RESPONSE \<circ> RESP_CHECK_INSTANCE_CYCLE"])
    (auto simp: exmdb_parser_dispatch_def answer_answer)

interpretation call_empty_message_instance_rcpts: store_call
  "\<lambda>sv dir. exmdb_server_empty_message_instance_rcpts (content_calls sv) dir instance_id"
  "CONTENT_REQUEST (REQ_EMPTY_MESSAGE_INSTANCE_RCPTS instance_id)"
  "\<lambda>response. case response of
       CONTENT_RESPONSE RESP_EMPTY_MESSAGE_INSTANCE_RCPTS \<Rightarrow> Some ()
     | _ \<Rightarrow> None"
  for instance_id
  by (rule store_callI [where wrap = "CONTENT_RESPONSE \<circ>
    (\<lambda>_. RESP_EMPTY_MESSAGE_INSTANCE_RCPTS)"])
    (auto simp: exmdb_parser_dispatch_def answer_answer)

interpretation call_get_message_instance_rcpts_num: store_call
  "\<lambda>sv dir. exmdb_server_get_message_instance_rcpts_num (content_calls sv) dir instance_id"
  "CONTENT_REQUEST (REQ_GET_MESSAGE_INSTANCE_RCPTS_NUM instance_id)"
  "\<lambda>response. case response of
       CONTENT_RESPONSE (RESP_GET_MESSAGE_INSTANCE_RCPTS_NUM num) \<Rightarrow> Some num
     | _ \<Rightarrow> None"
  for instance_id
  by (rule store_callI [where wrap = "CONTENT_RESPONSE \<circ> RESP_GET_MESSAGE_INSTANCE_RCPTS_NUM"])
    (auto simp: exmdb_parser_dispatch_def answer_answer)

interpretation call_get_message_instance_rcpts_all_proptags: store_call
  "\<lambda>sv dir. exmdb_server_get_message_instance_rcpts_all_proptags (content_calls sv) dir
    instance_id"
  "CONTENT_REQUEST (REQ_GET_MESSAGE_INSTANCE_RCPTS_ALL_PROPTAGS instance_id)"
  "\<lambda>response. case response of
       CONTENT_RESPONSE (RESP_GET_MESSAGE_INSTANCE_RCPTS_ALL_PROPTAGS proptags) \<Rightarrow>
              Some proptags
     | _ \<Rightarrow> None"
  for instance_id
  by (rule store_callI [where wrap = "CONTENT_RESPONSE \<circ>
    RESP_GET_MESSAGE_INSTANCE_RCPTS_ALL_PROPTAGS"])
    (auto simp: exmdb_parser_dispatch_def answer_answer)

interpretation call_get_message_instance_rcpts: store_call
  "\<lambda>sv dir. exmdb_server_get_message_instance_rcpts (content_calls sv) dir instance_id row_id
    need_count"
  "CONTENT_REQUEST (REQ_GET_MESSAGE_INSTANCE_RCPTS instance_id row_id need_count)"
  "\<lambda>response. case response of
       CONTENT_RESPONSE (RESP_GET_MESSAGE_INSTANCE_RCPTS tset) \<Rightarrow> Some tset
     | _ \<Rightarrow> None"
  for instance_id row_id need_count
  by (rule store_callI [where wrap = "CONTENT_RESPONSE \<circ> RESP_GET_MESSAGE_INSTANCE_RCPTS"])
    (auto simp: exmdb_parser_dispatch_def answer_answer)

interpretation call_update_message_instance_rcpts: store_call
  "\<lambda>sv dir. exmdb_server_update_message_instance_rcpts (content_calls sv) dir instance_id pset"
  "CONTENT_REQUEST (REQ_UPDATE_MESSAGE_INSTANCE_RCPTS instance_id pset)"
  "\<lambda>response. case response of
       CONTENT_RESPONSE RESP_UPDATE_MESSAGE_INSTANCE_RCPTS \<Rightarrow> Some ()
     | _ \<Rightarrow> None"
  for instance_id pset
  by (rule store_callI [where wrap = "CONTENT_RESPONSE \<circ>
    (\<lambda>_. RESP_UPDATE_MESSAGE_INSTANCE_RCPTS)"])
    (auto simp: exmdb_parser_dispatch_def answer_answer)

interpretation call_copy_instance_rcpts: store_call
  "\<lambda>sv dir. exmdb_server_copy_instance_rcpts (content_calls sv) dir b_force src_instance_id
    dst_instance_id"
  "CONTENT_REQUEST (REQ_COPY_INSTANCE_RCPTS b_force src_instance_id dst_instance_id)"
  "\<lambda>response. case response of
       CONTENT_RESPONSE (RESP_COPY_INSTANCE_RCPTS b_result) \<Rightarrow> Some b_result
     | _ \<Rightarrow> None"
  for b_force src_instance_id dst_instance_id
  by (rule store_callI [where wrap = "CONTENT_RESPONSE \<circ> RESP_COPY_INSTANCE_RCPTS"])
    (auto simp: exmdb_parser_dispatch_def answer_answer)

interpretation call_empty_message_instance_attachments: store_call
  "\<lambda>sv dir. exmdb_server_empty_message_instance_attachments (content_calls sv) dir instance_id"
  "CONTENT_REQUEST (REQ_EMPTY_MESSAGE_INSTANCE_ATTACHMENTS instance_id)"
  "\<lambda>response. case response of
       CONTENT_RESPONSE RESP_EMPTY_MESSAGE_INSTANCE_ATTACHMENTS \<Rightarrow> Some ()
     | _ \<Rightarrow> None"
  for instance_id
  by (rule store_callI [where wrap = "CONTENT_RESPONSE \<circ>
    (\<lambda>_. RESP_EMPTY_MESSAGE_INSTANCE_ATTACHMENTS)"])
    (auto simp: exmdb_parser_dispatch_def answer_answer)

interpretation call_get_message_instance_attachments_num: store_call
  "\<lambda>sv dir. exmdb_server_get_message_instance_attachments_num (content_calls sv) dir
    instance_id"
  "CONTENT_REQUEST (REQ_GET_MESSAGE_INSTANCE_ATTACHMENTS_NUM instance_id)"
  "\<lambda>response. case response of
       CONTENT_RESPONSE (RESP_GET_MESSAGE_INSTANCE_ATTACHMENTS_NUM num) \<Rightarrow> Some num
     | _ \<Rightarrow> None"
  for instance_id
  by (rule store_callI [where wrap = "CONTENT_RESPONSE \<circ>
    RESP_GET_MESSAGE_INSTANCE_ATTACHMENTS_NUM"])
    (auto simp: exmdb_parser_dispatch_def answer_answer)

interpretation call_get_message_instance_attachment_table_all_proptags: store_call
  "\<lambda>sv dir. exmdb_server_get_message_instance_attachment_table_all_proptags (content_calls sv)
    dir instance_id"
  "CONTENT_REQUEST (REQ_GET_MESSAGE_INSTANCE_ATTACHMENT_TABLE_ALL_PROPTAGS instance_id)"
  "\<lambda>response. case response of
       CONTENT_RESPONSE (RESP_GET_MESSAGE_INSTANCE_ATTACHMENT_TABLE_ALL_PROPTAGS proptags) \<Rightarrow>
              Some proptags
     | _ \<Rightarrow> None"
  for instance_id
  by (rule store_callI [where wrap = "CONTENT_RESPONSE \<circ>
    RESP_GET_MESSAGE_INSTANCE_ATTACHMENT_TABLE_ALL_PROPTAGS"])
    (auto simp: exmdb_parser_dispatch_def answer_answer)

interpretation call_query_message_instance_attachment_table: store_call
  "\<lambda>sv dir. exmdb_server_query_message_instance_attachment_table (content_calls sv) dir
    instance_id pproptags start_pos row_needed"
  "CONTENT_REQUEST (REQ_QUERY_MESSAGE_INSTANCE_ATTACHMENT_TABLE instance_id pproptags start_pos
    row_needed)"
  "\<lambda>response. case response of
       CONTENT_RESPONSE (RESP_QUERY_MESSAGE_INSTANCE_ATTACHMENT_TABLE tset) \<Rightarrow> Some tset
     | _ \<Rightarrow> None"
  for instance_id pproptags start_pos row_needed
  by (rule store_callI [where wrap = "CONTENT_RESPONSE \<circ>
    RESP_QUERY_MESSAGE_INSTANCE_ATTACHMENT_TABLE"])
    (auto simp: exmdb_parser_dispatch_def answer_answer)

interpretation call_copy_instance_attachments: store_call
  "\<lambda>sv dir. exmdb_server_copy_instance_attachments (content_calls sv) dir b_force
    src_instance_id dst_instance_id"
  "CONTENT_REQUEST (REQ_COPY_INSTANCE_ATTACHMENTS b_force src_instance_id dst_instance_id)"
  "\<lambda>response. case response of
       CONTENT_RESPONSE (RESP_COPY_INSTANCE_ATTACHMENTS b_result) \<Rightarrow> Some b_result
     | _ \<Rightarrow> None"
  for b_force src_instance_id dst_instance_id
  by (rule store_callI [where wrap = "CONTENT_RESPONSE \<circ> RESP_COPY_INSTANCE_ATTACHMENTS"])
    (auto simp: exmdb_parser_dispatch_def answer_answer)

interpretation call_set_message_instance_conflict: store_call
  "\<lambda>sv dir. exmdb_server_set_message_instance_conflict (content_calls sv) dir instance_id
    pmsgctnt"
  "CONTENT_REQUEST (REQ_SET_MESSAGE_INSTANCE_CONFLICT instance_id pmsgctnt)"
  "\<lambda>response. case response of
       CONTENT_RESPONSE RESP_SET_MESSAGE_INSTANCE_CONFLICT \<Rightarrow> Some ()
     | _ \<Rightarrow> None"
  for instance_id pmsgctnt
  by (rule store_callI [where wrap = "CONTENT_RESPONSE \<circ>
    (\<lambda>_. RESP_SET_MESSAGE_INSTANCE_CONFLICT)"])
    (auto simp: exmdb_parser_dispatch_def answer_answer)

interpretation call_get_message_rcpts: store_call
  "\<lambda>sv dir. exmdb_server_get_message_rcpts (message_calls sv) dir message_id"
  "MESSAGE_REQUEST (REQ_GET_MESSAGE_RCPTS message_id)"
  "\<lambda>response. case response of
       MESSAGE_RESPONSE (RESP_GET_MESSAGE_RCPTS tset) \<Rightarrow> Some tset
     | _ \<Rightarrow> None"
  for message_id
  by (rule store_callI [where wrap = "MESSAGE_RESPONSE \<circ> RESP_GET_MESSAGE_RCPTS"])
    (auto simp: exmdb_parser_dispatch_def answer_answer)

interpretation call_get_message_properties: store_call
  "\<lambda>sv dir. exmdb_server_get_message_properties (message_calls sv) dir username cpid message_id
    pproptags"
  "MESSAGE_REQUEST (REQ_GET_MESSAGE_PROPERTIES username cpid message_id pproptags)"
  "\<lambda>response. case response of
       MESSAGE_RESPONSE (RESP_GET_MESSAGE_PROPERTIES propvals) \<Rightarrow> Some propvals
     | _ \<Rightarrow> None"
  for username cpid message_id pproptags
  by (rule store_callI [where wrap = "MESSAGE_RESPONSE \<circ> RESP_GET_MESSAGE_PROPERTIES"])
    (auto simp: exmdb_parser_dispatch_def answer_answer)

interpretation call_set_message_properties: store_call
  "\<lambda>sv dir. exmdb_server_set_message_properties (message_calls sv) dir username cpid message_id
    pproperties"
  "MESSAGE_REQUEST (REQ_SET_MESSAGE_PROPERTIES username cpid message_id pproperties)"
  "\<lambda>response. case response of
       MESSAGE_RESPONSE (RESP_SET_MESSAGE_PROPERTIES problems) \<Rightarrow> Some problems
     | _ \<Rightarrow> None"
  for username cpid message_id pproperties
  by (rule store_callI [where wrap = "MESSAGE_RESPONSE \<circ> RESP_SET_MESSAGE_PROPERTIES"])
    (auto simp: exmdb_parser_dispatch_def answer_answer)

interpretation call_set_message_read_state: store_call
  "\<lambda>sv dir. exmdb_server_set_message_read_state (message_calls sv) dir username message_id
    mark_as_read"
  "MESSAGE_REQUEST (REQ_SET_MESSAGE_READ_STATE username message_id mark_as_read)"
  "\<lambda>response. case response of
       MESSAGE_RESPONSE (RESP_SET_MESSAGE_READ_STATE read_cn) \<Rightarrow> Some read_cn
     | _ \<Rightarrow> None"
  for username message_id mark_as_read
  by (rule store_callI [where wrap = "MESSAGE_RESPONSE \<circ> RESP_SET_MESSAGE_READ_STATE"])
    (auto simp: exmdb_parser_dispatch_def answer_answer)

interpretation call_remove_message_properties: store_call
  "\<lambda>sv dir. exmdb_server_remove_message_properties (message_calls sv) dir cpid message_id
    pproptags"
  "MESSAGE_REQUEST (REQ_REMOVE_MESSAGE_PROPERTIES cpid message_id pproptags)"
  "\<lambda>response. case response of
       MESSAGE_RESPONSE RESP_REMOVE_MESSAGE_PROPERTIES \<Rightarrow> Some ()
     | _ \<Rightarrow> None"
  for cpid message_id pproptags
  by (rule store_callI [where wrap = "MESSAGE_RESPONSE \<circ> (\<lambda>_. RESP_REMOVE_MESSAGE_PROPERTIES)"])
    (auto simp: exmdb_parser_dispatch_def answer_answer)

interpretation call_allocate_message_id: store_call
  "\<lambda>sv dir. exmdb_server_allocate_message_id (message_calls sv) dir folder_id"
  "MESSAGE_REQUEST (REQ_ALLOCATE_MESSAGE_ID folder_id)"
  "\<lambda>response. case response of
       MESSAGE_RESPONSE (RESP_ALLOCATE_MESSAGE_ID message_id) \<Rightarrow> Some message_id
     | _ \<Rightarrow> None"
  for folder_id
  by (rule store_callI [where wrap = "MESSAGE_RESPONSE \<circ> RESP_ALLOCATE_MESSAGE_ID"])
    (auto simp: exmdb_parser_dispatch_def answer_answer)

interpretation call_allocate_cn: store_call
  "\<lambda>sv dir. exmdb_server_allocate_cn (message_calls sv) dir"
  "MESSAGE_REQUEST REQ_ALLOCATE_CN"
  "\<lambda>response. case response of
       MESSAGE_RESPONSE (RESP_ALLOCATE_CN cn) \<Rightarrow> Some cn
     | _ \<Rightarrow> None"
  by (rule store_callI [where wrap = "MESSAGE_RESPONSE \<circ> RESP_ALLOCATE_CN"])
    (auto simp: exmdb_parser_dispatch_def answer_answer)

interpretation call_get_message_group_id: store_call
  "\<lambda>sv dir. exmdb_server_get_message_group_id (message_calls sv) dir message_id"
  "MESSAGE_REQUEST (REQ_GET_MESSAGE_GROUP_ID message_id)"
  "\<lambda>response. case response of
       MESSAGE_RESPONSE (RESP_GET_MESSAGE_GROUP_ID pgroup_id) \<Rightarrow> Some pgroup_id
     | _ \<Rightarrow> None"
  for message_id
  by (rule store_callI [where wrap = "MESSAGE_RESPONSE \<circ> RESP_GET_MESSAGE_GROUP_ID"])
    (auto simp: exmdb_parser_dispatch_def answer_answer)

interpretation call_set_message_group_id: store_call
  "\<lambda>sv dir. exmdb_server_set_message_group_id (message_calls sv) dir message_id group_id"
  "MESSAGE_REQUEST (REQ_SET_MESSAGE_GROUP_ID message_id group_id)"
  "\<lambda>response. case response of
       MESSAGE_RESPONSE RESP_SET_MESSAGE_GROUP_ID \<Rightarrow> Some ()
     | _ \<Rightarrow> None"
  for message_id group_id
  by (rule store_callI [where wrap = "MESSAGE_RESPONSE \<circ> (\<lambda>_. RESP_SET_MESSAGE_GROUP_ID)"])
    (auto simp: exmdb_parser_dispatch_def answer_answer)

interpretation call_save_change_indices: store_call
  "\<lambda>sv dir. exmdb_server_save_change_indices (message_calls sv) dir message_id cn pindices
    pungroup_proptags"
  "MESSAGE_REQUEST (REQ_SAVE_CHANGE_INDICES message_id cn pindices pungroup_proptags)"
  "\<lambda>response. case response of
       MESSAGE_RESPONSE RESP_SAVE_CHANGE_INDICES \<Rightarrow> Some ()
     | _ \<Rightarrow> None"
  for message_id cn pindices pungroup_proptags
  by (rule store_callI [where wrap = "MESSAGE_RESPONSE \<circ> (\<lambda>_. RESP_SAVE_CHANGE_INDICES)"])
    (auto simp: exmdb_parser_dispatch_def answer_answer)

interpretation call_get_change_indices: store_call
  "\<lambda>sv dir. exmdb_server_get_change_indices (message_calls sv) dir message_id cn"
  "MESSAGE_REQUEST (REQ_GET_CHANGE_INDICES message_id cn)"
  "\<lambda>response. case response of
       MESSAGE_RESPONSE (RESP_GET_CHANGE_INDICES indices ungroup_proptags) \<Rightarrow>
              Some (indices, ungroup_proptags)
     | _ \<Rightarrow> None"
  for message_id cn
  by (rule store_callI [where wrap = "MESSAGE_RESPONSE \<circ>
      (\<lambda>(indices, ungroup_proptags). RESP_GET_CHANGE_INDICES indices ungroup_proptags)"])
    (auto simp: exmdb_parser_dispatch_def answer_answer)

interpretation call_mark_modified: store_call
  "\<lambda>sv dir. exmdb_server_mark_modified (message_calls sv) dir message_id"
  "MESSAGE_REQUEST (REQ_MARK_MODIFIED message_id)"
  "\<lambda>response. case response of
       MESSAGE_RESPONSE RESP_MARK_MODIFIED \<Rightarrow> Some ()
     | _ \<Rightarrow> None"
  for message_id
  by (rule store_callI [where wrap = "MESSAGE_RESPONSE \<circ> (\<lambda>_. RESP_MARK_MODIFIED)"])
    (auto simp: exmdb_parser_dispatch_def answer_answer)

interpretation call_try_mark_submit: store_call
  "\<lambda>sv dir. exmdb_server_try_mark_submit (message_calls sv) dir message_id"
  "MESSAGE_REQUEST (REQ_TRY_MARK_SUBMIT message_id)"
  "\<lambda>response. case response of
       MESSAGE_RESPONSE (RESP_TRY_MARK_SUBMIT b_marked) \<Rightarrow> Some b_marked
     | _ \<Rightarrow> None"
  for message_id
  by (rule store_callI [where wrap = "MESSAGE_RESPONSE \<circ> RESP_TRY_MARK_SUBMIT"])
    (auto simp: exmdb_parser_dispatch_def answer_answer)

interpretation call_clear_submit: store_call
  "\<lambda>sv dir. exmdb_server_clear_submit (message_calls sv) dir message_id b_unsent"
  "MESSAGE_REQUEST (REQ_CLEAR_SUBMIT message_id b_unsent)"
  "\<lambda>response. case response of
       MESSAGE_RESPONSE RESP_CLEAR_SUBMIT \<Rightarrow> Some ()
     | _ \<Rightarrow> None"
  for message_id b_unsent
  by (rule store_callI [where wrap = "MESSAGE_RESPONSE \<circ> (\<lambda>_. RESP_CLEAR_SUBMIT)"])
    (auto simp: exmdb_parser_dispatch_def answer_answer)

interpretation call_link_message: store_call
  "\<lambda>sv dir. exmdb_server_link_message (message_calls sv) dir cpid folder_id message_id"
  "MESSAGE_REQUEST (REQ_LINK_MESSAGE cpid folder_id message_id)"
  "\<lambda>response. case response of
       MESSAGE_RESPONSE (RESP_LINK_MESSAGE b_result) \<Rightarrow> Some b_result
     | _ \<Rightarrow> None"
  for cpid folder_id message_id
  by (rule store_callI [where wrap = "MESSAGE_RESPONSE \<circ> RESP_LINK_MESSAGE"])
    (auto simp: exmdb_parser_dispatch_def answer_answer)

interpretation call_unlink_message: store_call
  "\<lambda>sv dir. exmdb_server_unlink_message (message_calls sv) dir cpid folder_id message_id"
  "MESSAGE_REQUEST (REQ_UNLINK_MESSAGE cpid folder_id message_id)"
  "\<lambda>response. case response of
       MESSAGE_RESPONSE RESP_UNLINK_MESSAGE \<Rightarrow> Some ()
     | _ \<Rightarrow> None"
  for cpid folder_id message_id
  by (rule store_callI [where wrap = "MESSAGE_RESPONSE \<circ> (\<lambda>_. RESP_UNLINK_MESSAGE)"])
    (auto simp: exmdb_parser_dispatch_def answer_answer)

interpretation call_rule_new_message: store_call
  "\<lambda>sv dir. exmdb_server_rule_new_message (message_calls sv) dir username account cpid folder_id
    message_id"
  "MESSAGE_REQUEST (REQ_RULE_NEW_MESSAGE username account cpid folder_id message_id)"
  "\<lambda>response. case response of
       MESSAGE_RESPONSE RESP_RULE_NEW_MESSAGE \<Rightarrow> Some ()
     | _ \<Rightarrow> None"
  for username account cpid folder_id message_id
  by (rule store_callI [where wrap = "MESSAGE_RESPONSE \<circ> (\<lambda>_. RESP_RULE_NEW_MESSAGE)"])
    (auto simp: exmdb_parser_dispatch_def answer_answer)

interpretation call_set_message_timer: store_call
  "\<lambda>sv dir. exmdb_server_set_message_timer (message_calls sv) dir message_id timer_id"
  "MESSAGE_REQUEST (REQ_SET_MESSAGE_TIMER message_id timer_id)"
  "\<lambda>response. case response of
       MESSAGE_RESPONSE RESP_SET_MESSAGE_TIMER \<Rightarrow> Some ()
     | _ \<Rightarrow> None"
  for message_id timer_id
  by (rule store_callI [where wrap = "MESSAGE_RESPONSE \<circ> (\<lambda>_. RESP_SET_MESSAGE_TIMER)"])
    (auto simp: exmdb_parser_dispatch_def answer_answer)

interpretation call_get_message_timer: store_call
  "\<lambda>sv dir. exmdb_server_get_message_timer (message_calls sv) dir message_id"
  "MESSAGE_REQUEST (REQ_GET_MESSAGE_TIMER message_id)"
  "\<lambda>response. case response of
       MESSAGE_RESPONSE (RESP_GET_MESSAGE_TIMER ptimer_id) \<Rightarrow> Some ptimer_id
     | _ \<Rightarrow> None"
  for message_id
  by (rule store_callI [where wrap = "MESSAGE_RESPONSE \<circ> RESP_GET_MESSAGE_TIMER"])
    (auto simp: exmdb_parser_dispatch_def answer_answer)

interpretation call_empty_folder_permission: store_call
  "\<lambda>sv dir. exmdb_server_empty_folder_permission (service_calls sv) dir folder_id"
  "SERVICE_REQUEST (REQ_EMPTY_FOLDER_PERMISSION folder_id)"
  "\<lambda>response. case response of
       SERVICE_RESPONSE RESP_EMPTY_FOLDER_PERMISSION \<Rightarrow> Some ()
     | _ \<Rightarrow> None"
  for folder_id
  by (rule store_callI [where wrap = "SERVICE_RESPONSE \<circ> (\<lambda>_. RESP_EMPTY_FOLDER_PERMISSION)"])
    (auto simp: exmdb_parser_dispatch_def answer_answer service_received_def)

interpretation call_update_folder_permission: store_call
  "\<lambda>sv dir. exmdb_server_update_folder_permission (service_calls sv) dir folder_id b_freebusy
    prow"
  "SERVICE_REQUEST (REQ_UPDATE_FOLDER_PERMISSION folder_id b_freebusy prow)"
  "\<lambda>response. case response of
       SERVICE_RESPONSE RESP_UPDATE_FOLDER_PERMISSION \<Rightarrow> Some ()
     | _ \<Rightarrow> None"
  for folder_id b_freebusy prow
  by (rule store_callI [where wrap = "SERVICE_RESPONSE \<circ> (\<lambda>_. RESP_UPDATE_FOLDER_PERMISSION)"])
    (auto simp: exmdb_parser_dispatch_def answer_answer service_received_def)

interpretation call_empty_folder_rule: store_call
  "\<lambda>sv dir. exmdb_server_empty_folder_rule (service_calls sv) dir folder_id"
  "SERVICE_REQUEST (REQ_EMPTY_FOLDER_RULE folder_id)"
  "\<lambda>response. case response of
       SERVICE_RESPONSE RESP_EMPTY_FOLDER_RULE \<Rightarrow> Some ()
     | _ \<Rightarrow> None"
  for folder_id
  by (rule store_callI [where wrap = "SERVICE_RESPONSE \<circ> (\<lambda>_. RESP_EMPTY_FOLDER_RULE)"])
    (auto simp: exmdb_parser_dispatch_def answer_answer service_received_def)

interpretation call_update_folder_rule: store_call
  "\<lambda>sv dir. exmdb_server_update_folder_rule (service_calls sv) dir folder_id prow"
  "SERVICE_REQUEST (REQ_UPDATE_FOLDER_RULE folder_id prow)"
  "\<lambda>response. case response of
       SERVICE_RESPONSE (RESP_UPDATE_FOLDER_RULE b_exceed) \<Rightarrow> Some b_exceed
     | _ \<Rightarrow> None"
  for folder_id prow
  by (rule store_callI [where wrap = "SERVICE_RESPONSE \<circ> RESP_UPDATE_FOLDER_RULE"])
    (auto simp: exmdb_parser_dispatch_def answer_answer service_received_def)

interpretation call_delivery_message: store_call
  "\<lambda>sv dir. exmdb_server_delivery_message (service_calls sv) dir from_address account cpid pmsg
    pdigest"
  "SERVICE_REQUEST (REQ_DELIVERY_MESSAGE from_address account cpid pmsg pdigest)"
  "\<lambda>response. case response of
       SERVICE_RESPONSE (RESP_DELIVERY_MESSAGE result) \<Rightarrow> Some result
     | _ \<Rightarrow> None"
  for from_address account cpid pmsg pdigest
  by (rule store_callI [where wrap = "SERVICE_RESPONSE \<circ> RESP_DELIVERY_MESSAGE"])
    (auto simp: exmdb_parser_dispatch_def answer_answer service_received_def)

interpretation call_write_message: store_call
  "\<lambda>sv dir. exmdb_server_write_message (service_calls sv) dir account cpid folder_id pmsgctnt"
  "SERVICE_REQUEST (REQ_WRITE_MESSAGE account cpid folder_id pmsgctnt)"
  "\<lambda>response. case response of
       SERVICE_RESPONSE (RESP_WRITE_MESSAGE b_result) \<Rightarrow> Some b_result
     | _ \<Rightarrow> None"
  for account cpid folder_id pmsgctnt
  by (rule store_callI [where wrap = "SERVICE_RESPONSE \<circ> RESP_WRITE_MESSAGE"])
    (auto simp: exmdb_parser_dispatch_def answer_answer service_received_def)

interpretation call_read_message: store_call
  "\<lambda>sv dir. exmdb_server_read_message (service_calls sv) dir username cpid message_id"
  "SERVICE_REQUEST (REQ_READ_MESSAGE username cpid message_id)"
  "\<lambda>response. case response of
       SERVICE_RESPONSE (RESP_READ_MESSAGE pmsgctnt) \<Rightarrow> Some pmsgctnt
     | _ \<Rightarrow> None"
  for username cpid message_id
  by (rule store_callI [where wrap = "SERVICE_RESPONSE \<circ> RESP_READ_MESSAGE"])
    (auto simp: exmdb_parser_dispatch_def answer_answer service_received_def)

interpretation call_allocate_ids: store_call
  "\<lambda>sv dir. exmdb_server_allocate_ids (service_calls sv) dir cnt"
  "SERVICE_REQUEST (REQ_ALLOCATE_IDS cnt)"
  "\<lambda>response. case response of
       SERVICE_RESPONSE (RESP_ALLOCATE_IDS begin_eid) \<Rightarrow> Some begin_eid
     | _ \<Rightarrow> None"
  for cnt
  by (rule store_callI [where wrap = "SERVICE_RESPONSE \<circ> RESP_ALLOCATE_IDS"])
    (auto simp: exmdb_parser_dispatch_def answer_answer service_received_def)

interpretation call_subscribe_notification: store_call
  "\<lambda>sv dir. exmdb_server_subscribe_notification (service_calls sv) dir notificaton_type b_whole
    folder_id message_id"
  "SERVICE_REQUEST (REQ_SUBSCRIBE_NOTIFICATION notificaton_type b_whole folder_id message_id)"
  "\<lambda>response. case response of
       SERVICE_RESPONSE (RESP_SUBSCRIBE_NOTIFICATION sub_id) \<Rightarrow> Some sub_id
     | _ \<Rightarrow> None"
  for notificaton_type b_whole folder_id message_id
  by (rule store_callI [where wrap = "SERVICE_RESPONSE \<circ> RESP_SUBSCRIBE_NOTIFICATION"])
    (auto simp: exmdb_parser_dispatch_def answer_answer service_received_def)

interpretation call_unsubscribe_notification: store_call
  "\<lambda>sv dir. exmdb_server_unsubscribe_notification (service_calls sv) dir sub_id"
  "SERVICE_REQUEST (REQ_UNSUBSCRIBE_NOTIFICATION sub_id)"
  "\<lambda>response. case response of
       SERVICE_RESPONSE RESP_UNSUBSCRIBE_NOTIFICATION \<Rightarrow> Some ()
     | _ \<Rightarrow> None"
  for sub_id
  by (rule store_callI [where wrap = "SERVICE_RESPONSE \<circ> (\<lambda>_. RESP_UNSUBSCRIBE_NOTIFICATION)"])
    (auto simp: exmdb_parser_dispatch_def answer_answer service_received_def)

interpretation call_transport_new_mail: store_call
  "\<lambda>sv dir. exmdb_server_transport_new_mail (service_calls sv) dir folder_id message_id
    message_flags pstr_class"
  "SERVICE_REQUEST (REQ_TRANSPORT_NEW_MAIL folder_id message_id message_flags pstr_class)"
  "\<lambda>response. case response of
       SERVICE_RESPONSE RESP_TRANSPORT_NEW_MAIL \<Rightarrow> Some ()
     | _ \<Rightarrow> None"
  for folder_id message_id message_flags pstr_class
  by (rule store_callI [where wrap = "SERVICE_RESPONSE \<circ> (\<lambda>_. RESP_TRANSPORT_NEW_MAIL)"])
    (auto simp: exmdb_parser_dispatch_def answer_answer service_received_def)

interpretation call_check_contact_address: store_call
  "\<lambda>sv dir. exmdb_server_check_contact_address (service_calls sv) dir paddress"
  "SERVICE_REQUEST (REQ_CHECK_CONTACT_ADDRESS paddress)"
  "\<lambda>response. case response of
       SERVICE_RESPONSE (RESP_CHECK_CONTACT_ADDRESS b_found) \<Rightarrow> Some b_found
     | _ \<Rightarrow> None"
  for paddress
  by (rule store_callI [where wrap = "SERVICE_RESPONSE \<circ> RESP_CHECK_CONTACT_ADDRESS"])
    (auto simp: exmdb_parser_dispatch_def answer_answer service_received_def)

interpretation call_get_public_folder_unread_count: store_call
  "\<lambda>sv dir. exmdb_server_get_public_folder_unread_count (service_calls sv) dir username
    folder_id"
  "SERVICE_REQUEST (REQ_GET_PUBLIC_FOLDER_UNREAD_COUNT username folder_id)"
  "\<lambda>response. case response of
       SERVICE_RESPONSE (RESP_GET_PUBLIC_FOLDER_UNREAD_COUNT cnt) \<Rightarrow> Some cnt
     | _ \<Rightarrow> None"
  for username folder_id
  by (rule store_callI [where wrap = "SERVICE_RESPONSE \<circ> RESP_GET_PUBLIC_FOLDER_UNREAD_COUNT"])
    (auto simp: exmdb_parser_dispatch_def answer_answer service_received_def)

interpretation call_unload_store: store_call
  "\<lambda>sv dir. exmdb_server_unload_store (service_calls sv) dir"
  "SERVICE_REQUEST REQ_UNLOAD_STORE"
  "\<lambda>response. case response of
       SERVICE_RESPONSE RESP_UNLOAD_STORE \<Rightarrow> Some ()
     | _ \<Rightarrow> None"
  by (rule store_callI [where wrap = "SERVICE_RESPONSE \<circ> (\<lambda>_. RESP_UNLOAD_STORE)"])
    (auto simp: exmdb_parser_dispatch_def answer_answer service_received_def)

end
