(* ===== verification/Remote_Calls.thy ===== *)
theory Remote_Calls
  imports Calls_Logic
begin

text \<open>
  A call from one server to another, from the function that makes it to the function that serves
  it.  \<open>conversation\<close> says that nothing goes wrong on the way: the request leaves and arrives, memory
  suffices, and the answer comes back, be it the response or the code of a call that has failed.
\<close>

definition conversation ::
    "'db exmdb_server \<Rightarrow> 'db \<Rightarrow> rpc_answers \<Rightarrow> client \<Rightarrow> bytes \<Rightarrow> exmdb_request \<Rightarrow>
     thread \<Rightarrow> answers \<Rightarrow> answers list \<Rightarrow> answers list \<Rightarrow> bool" where
  "conversation sv db a c dir q t header body out \<longleftrightarrow>
     request_ok q \<and> idset_mem (rp_env a) = (\<lambda>_ _. True) \<and>
     idset_mem (ans_env (last body)) = (\<lambda>_ _. True) \<and>
     (\<forall>n s. ans_alloc (last body) n s \<and> rp_realloc a n s \<and> ans_realloc (last body) n s \<and> rp_alloc a n s) \<and>
     ans_malloc header \<and> idle t \<and> th_is_connected t \<and>
     exmdb_client_get_connection dir c \<noteq> None \<and>
     (\<exists>frame. exmdb_ext_push_request (rp_env a) q (rp_realloc a) (rp_junk a) = Inr frame \<and>
        length frame < 2 ^ 30 \<and> accepts (rp_writes a) frame \<and>
        receives (take 4 frame) header \<and> pieces body (drop 4 frame)) \<and>
     ans_dispatch (last body) = (\<lambda>r. fst (exmdb_parser_dispatch sv True r db)) \<and>
     (case fst (exmdb_parser_dispatch sv True (request_received q) db) of
        None \<Rightarrow> out = [] \<and> ans_write (last body) = 1 \<and>
          (\<exists>s ss. rp_reads a = s # ss \<and> brings [RESPONSE_CODE_DISPATCH_ERROR] s \<and> io_alloc s)
      | Some response \<Rightarrow> response_ok EXT_FLAG_WCOUNT response \<and>
          (\<exists>answer. exmdb_ext_push_response response (ans_realloc (last body)) (ans_junk (last body)) =
               Inr answer \<and>
             length answer < 2 ^ 30 \<and> takes_all out answer \<and> gives (rp_reads a) answer))"

subsection \<open>A call that fails at the server\<close>

lemma refused_runs:
  assumes "idle t" "th_is_connected t" "f \<noteq> []" "length f < 2 ^ 32"
    "receives (SIVAL (of_nat (length f))) header" "ans_malloc header" "pieces body f"
    "exmdb_ext_pull_request (ans_env (last body)) (ans_alloc (last body)) f = Inr r"
    "ans_dispatch (last body) r = None" "ans_write (last body) = 1"
  shows "th_sent (run g (header # body) t) = th_sent t @ [RESPONSE_CODE_DISPATCH_ERROR] \<and>
    th_status (run g (header # body) t) = LEFT (Some RESPONSE_CODE_DISPATCH_ERROR)"
proof -
  let ?f = "th_received t @ SIVAL (of_nat (length f))"
  let ?t = "t\<lparr>th_received := ?f, th_buff_len := of_nat (length f),
    th_pbuff := Some (map (ans_block header) [0..<length f]), th_offset := 0\<rparr>"
  have 1: "iterate g header t = ?t"
    using run_length [OF assms(1,5,6)] assms(3,4) by simp
  have 2: "run g body ?t = work_request g (last body) f
      (?t\<lparr>th_received := ?f @ f, th_pbuff := Some f, th_offset := of_nat (length f)\<rparr>)"
    using run_request [of ?t "map (ans_block header) [0..<length f]" f body g] assms
    by (simp add: idle_def)
  show ?thesis
    unfolding run_simps 1 2 using assms(2,8-10)
    by (simp add: work_request_def work_call_def reject_def leave_def put_out_def)
qed

subsection \<open>A call from end to end\<close>

theorem conversation_outcome:
  assumes "conversation sv db a c dir q t header body out"
  shows "fst (exmdb_client_do_rpc a dir q c) =
      (case fst (exmdb_parser_dispatch sv True (request_received q) db) of
         None \<Rightarrow> FAILS | Some response \<Rightarrow> GETS response) \<and>
    (\<exists>bs. th_sent (run g (header # body @ out) t) = th_sent t @ bs \<and>
       (case fst (exmdb_parser_dispatch sv True (request_received q) db) of
          None \<Rightarrow> bs = [RESPONSE_CODE_DISPATCH_ERROR] \<and>
            th_status (run g (header # body @ out) t) = LEFT (Some RESPONSE_CODE_DISPATCH_ERROR)
        | Some response \<Rightarrow> gives (rp_reads a) bs \<and> idle (run g (header # body @ out) t)))"
proof -
  from assms obtain frame where
    q: "request_ok q" "idset_mem (rp_env a) = (\<lambda>_ _. True)"
      "idset_mem (ans_env (last body)) = (\<lambda>_ _. True)" "\<forall>n s. ans_alloc (last body) n s" and
    frame: "\<forall>n s. rp_realloc a n s" "length frame < 2 ^ 30"
      "exmdb_ext_push_request (rp_env a) q (rp_realloc a) (rp_junk a) = Inr frame"
      "accepts (rp_writes a) frame" and
    server: "idle t" "th_is_connected t" "receives (take 4 frame) header" "ans_malloc header"
      "pieces body (drop 4 frame)"
      "ans_dispatch (last body) = (\<lambda>r. fst (exmdb_parser_dispatch sv True r db))"
    unfolding conversation_def by blast
  obtain pconn c' where conn: "exmdb_client_get_connection dir c = Some (pconn, c')"
    using assms unfolding conversation_def by (metis not_None_eq old.prod.exhaust)
  show ?thesis
  proof (cases "fst (exmdb_parser_dispatch sv True (request_received q) db)")
    case None
    from assms None obtain s ss where out: "out = []" "ans_write (last body) = 1"
        "rp_reads a = s # ss" "brings [RESPONSE_CODE_DISPATCH_ERROR] s" "io_alloc s"
      unfolding conversation_def by auto
    obtain f where f: "frame = SIVAL (of_nat (length f)) @ f"
        "exmdb_ext_pull_request (ans_env (last body)) (ans_alloc (last body)) f = Inr (request_received q)"
      using datagram_codec.transfer [OF codec_request [OF q(3,2)] q(1) frame(1,3,2)] q(4) by auto
    then have "f \<noteq> []" using request_not_empty by metis
    have "th_sent (run g (header # body) t) = th_sent t @ [RESPONSE_CODE_DISPATCH_ERROR] \<and>
        th_status (run g (header # body) t) = LEFT (Some RESPONSE_CODE_DISPATCH_ERROR)"
      using server f(2) frame(2) None out(2) \<open>f \<noteq> []\<close>
      by (intro refused_runs [where f = f and r = "request_received q"]) (simp_all add: f(1))
    moreover have "exmdb_client_write_socket frame 0 (rp_writes a) = GETS ()"
      using write_socket_gets [of "rp_writes a" frame 0] frame(2,4) f(1)
      by (simp add: accepts_def)
    moreover have "exmdb_client_read_socket (rp_reads a) = GETS [RESPONSE_CODE_DISPATCH_ERROR]"
      using out(3-5) by (simp add: brings_def)
    ultimately show ?thesis
      using frame(3) conn out(1) None
      by (simp add: exmdb_client_do_rpc_def take_response_def)
  next
    case (Some response)
    with assms obtain answer where response: "response_ok EXT_FLAG_WCOUNT response"
        "\<forall>n s. ans_realloc (last body) n s" "length answer < 2 ^ 30"
        "exmdb_ext_push_response response (ans_realloc (last body)) (ans_junk (last body)) = Inr answer"
        "takes_all out answer" "gives (rp_reads a) answer" "\<forall>n s. rp_alloc a n s"
      unfolding conversation_def by auto
    have "response_call_id response = request_call_id (rq_payload (request_received q))"
      using Some by (rule dispatch_id)
    then have "response_call_id response = request_call_id (rq_payload q)"
      by (simp add: request_received_def call_id_received)
    from rpc_runs [OF q frame(1,2,3) conn frame(4) server(1-5) _ response(1) this response(2-7), of g]
      server(1,6) Some response(6) show ?thesis by (auto simp: idle_def)
  qed
qed

text \<open>The store is on another server for the first client, on this one for the second.\<close>

theorem remote_equals_local:
  assumes "store_call local request out"
    and "conversation sv db a c dir (EXMDB_REQUEST (Some dir) request) t header body turns"
    and "exmdb_client_check_local (g_client_local_list c) dir = None"
    and "exmdb_client_check_local (g_client_local_list here) dir \<noteq> None"
  shows "fst (client_call a dir elsewhere request out (c, db')) =
    fst (client_call a' dir (local sv (Some dir)) request' out' (here, db))"
proof -
  let ?q = "EXMDB_REQUEST (Some dir) request"
  let ?answer = "fst (exmdb_parser_dispatch sv True (request_received ?q) db)"
  note outcome = store_call.outcome [OF assms(1), of sv "Some dir" db]
  obtain r c' where rpc: "exmdb_client_do_rpc a dir ?q c = (r, c')" by fastforce
  have r: "r = (case ?answer of None \<Rightarrow> FAILS | Some response \<Rightarrow> GETS response)"
    using conversation_outcome [OF assms(2)] rpc by simp
  have here: "fst (client_call a' dir (local sv (Some dir)) request' out' (here, db)) =
      (case fst (local sv (Some dir) db) of None \<Rightarrow> FAILS | Some x \<Rightarrow> GETS x)"
    using assms(4) by (auto simp: client_call_def split: prod.split option.split)
  show ?thesis
  proof (cases ?answer)
    case None
    with outcome r rpc assms(3) here show ?thesis by (simp add: client_call_def)
  next
    case (Some response)
    then obtain x where out: "out response = Some x"
      using store_call.taken [OF assms(1)] by blast
    with Some outcome have there: "fst (local sv (Some dir) db) = Some x" by simp
    have "fst (client_call a dir elsewhere request out (c, db')) = GETS x"
      using Some r rpc assms(3) out by (simp add: client_call_def)
    then show ?thesis unfolding here there by simp
  qed
qed

end
