(* ===== verification/Call_Properties.thy ===== *)
theory Call_Properties
  imports Remote_Calls Connection_Properties
begin

text \<open>
  The properties of the calls between servers: responses fit the calls, a call to another server
  is the call it stands for, and three calls that are not.
\<close>




text \<open>
  C9. Three calls do not send what they are asked: to another server, the class of a folder is set
  for whatever folder id the memory of the request holds, two other folders are checked for a
  cycle, and the state of another table is stored.
\<close>

theorem arguments_not_sent:
  assumes "exmdb_client_check_local (g_client_local_list c) dir = None"
  shows "exmdb_client_set_folder_by_class a sv dir folder_id str_class junk (c, db) =
      exmdb_client_set_folder_by_class a sv dir folder_id' str_class junk (c, db) \<and>
    exmdb_client_check_folder_cycle a sv dir src_fid dst_fid junk junk' (c, db) =
      exmdb_client_check_folder_cycle a sv dir src_fid' dst_fid' junk junk' (c, db) \<and>
    exmdb_client_store_table_state a sv dir table_id inst_id inst_num junk junk_num (c, db) =
      exmdb_client_store_table_state a sv dir table_id' inst_id' inst_num junk junk_num (c, db)"
  using assms
  by (simp add: client_call_def exmdb_client_set_folder_by_class_def
      exmdb_client_check_folder_cycle_def exmdb_client_store_table_state_def)

theorem arguments_not_sent_witness:
  "let c = \<lparr>g_server_list = [], g_lost_list = [], g_client_local_list = [([47, 98], True)]\<rparr>
   in \<forall>a sv. exmdb_client_check_folder_cycle a sv [47, 97] 1 2 0 0 (c, 0 :: nat) =
        exmdb_client_check_folder_cycle a sv [47, 97] 5 6 0 0 (c, 0)"
  using arguments_not_sent [where dir = "[47, 97]" and db = "0 :: nat" and src_fid = 1 and dst_fid = 2
      and src_fid' = 5 and dst_fid' = 6 and junk = 0 and junk' = 0
      and c = "\<lparr>g_server_list = [], g_lost_list = [], g_client_local_list = [([47, 98], True)]\<rparr>"]
  by (simp add: has_prefix_def)

end
