(* ===== verification/Notification_Agent.thy ===== *)
theory Notification_Agent
  imports Exmdb_Client
begin

text \<open>
  How a store tells other servers what has happened in it: the routers of \<open>exmdb_parser.c\<close>, the
  threads of \<open>notification_agent.c\<close> that send to them, and the threads of \<open>exmdb_client.c\<close> that
  listen at the other end.

  A router is shared by the thread that sends and by every thread of the store that has something
  to tell, so routers live in a memory of their own (\<open>ag_routers\<close>, from addresses to what is
  there) and a released one is not there any more.  \<open>rt_accepted\<close>, \<open>rt_delivered\<close>, \<open>gt_replies\<close>
  and \<open>gt_events\<close> are not in the code: they record which datagrams have been put into the list of
  a router, which its peer has confirmed, what the listener has sent, and which events it has
  raised.
\<close>

subsection \<open>Events\<close>

text \<open>The calls of \<open>exmdb_server_event_proc\<close> that a notification leads to.\<close>

datatype event = EVENT (ev_dir: bytes) (ev_b_table: bool) (ev_notify_id: u32) (ev_notify: db_notify)

definition event_procs :: "db_notify_datagram \<Rightarrow> event list" where
  "event_procs pnotify =
     map (\<lambda>notify_id. EVENT (nd_dir pnotify) (nd_b_table pnotify) notify_id (nd_notify pnotify))
       (nd_id_array pnotify)"

subsection \<open>Routers\<close>

text \<open>
  Where the thread of a router is: in front of the wait, with a datagram that it has taken out of
  the list, or behind \<open>EXIT_THREAD\<close>.
\<close>

datatype phase = LOOKING | SENDING bytes | LEAVING

record router =
  rt_remote_id :: bytes
  rt_b_stop :: bool
  rt_datagram_list :: "bytes list"
  rt_phase :: phase
  rt_accepted :: "bytes list"
  rt_delivered :: "bytes list"

text \<open>
  \<open>ag_notifiers\<close>: the threads between \<open>exmdb_parser_get_router\<close> and \<open>exmdb_parser_put_router\<close>,
  each with the router that it holds and, until that is done, the notification it has for it.
\<close>

record agency =
  g_router_list :: "nat list"
  ag_routers :: "nat \<rightharpoonup> router"
  ag_notifiers :: "(nat \<times> db_notify_datagram option) list"

definition new_agency :: agency where
  "new_agency = \<lparr>g_router_list = [], ag_routers = (\<lambda>_. None), ag_notifiers = []\<rparr>"

definition change_router :: "nat \<Rightarrow> (router \<Rightarrow> router) \<Rightarrow> agency \<Rightarrow> agency" where
  "change_router p f ag = ag\<lparr>ag_routers := (ag_routers ag)(p := map_option f (ag_routers ag p))\<rparr>"

text \<open>What a connection does once it has answered a listen request.\<close>

definition new_router :: "bytes \<Rightarrow> router" where
  "new_router remote_id = \<lparr>rt_remote_id = remote_id, rt_b_stop = False, rt_datagram_list = [],
     rt_phase = LOOKING, rt_accepted = [], rt_delivered = []\<rparr>"

definition append_router :: "nat \<Rightarrow> bytes \<Rightarrow> agency \<Rightarrow> agency" where
  "append_router p remote_id ag =
     ag\<lparr>ag_routers := (ag_routers ag)(p \<mapsto> new_router remote_id),
        g_router_list := g_router_list ag @ [p]\<rparr>"

text \<open>The first router of the list with the name, and the list without it.\<close>

fun take_router :: "(nat \<rightharpoonup> router) \<Rightarrow> bytes \<Rightarrow> nat list \<Rightarrow> (nat \<times> nat list) option" where
  "take_router routers remote_id [] = None"
| "take_router routers remote_id (p # ps) =
     (if map_option rt_remote_id (routers p) = Some remote_id then Some (p, ps)
      else map_option (\<lambda>(q, qs). (q, p # qs)) (take_router routers remote_id ps))"

definition exmdb_parser_get_router :: "bytes \<Rightarrow> agency \<Rightarrow> (nat \<times> agency) option" where
  "exmdb_parser_get_router remote_id ag =
     map_option (\<lambda>(p, ps). (p, ag\<lparr>g_router_list := ps\<rparr>))
       (take_router (ag_routers ag) remote_id (g_router_list ag))"

definition exmdb_parser_put_router :: "nat \<Rightarrow> agency \<Rightarrow> agency" where
  "exmdb_parser_put_router p ag = ag\<lparr>g_router_list := g_router_list ag @ [p]\<rparr>"

definition exmdb_parser_remove_router :: "nat \<Rightarrow> agency \<Rightarrow> bool \<times> agency" where
  "exmdb_parser_remove_router p ag =
     (if p \<in> set (g_router_list ag) then (True, ag\<lparr>g_router_list := remove1 p (g_router_list ag)\<rparr>)
      else (False, ag))"

text \<open>The part of \<open>exmdb_parser_stop\<close> that stops the routers.\<close>

definition stop_routers :: "agency \<Rightarrow> agency" where
  "stop_routers ag = fold (\<lambda>p. change_router p (\<lambda>r. r\<lparr>rt_b_stop := True\<rparr>)) (g_router_list ag) ag"

subsection \<open>Telling\<close>

text \<open>
  \<open>backward_notify_append\<close> is what happens while a router is held: \<open>mem\<close> is whether there
  is memory for the node of the list, \<open>realloc\<close> and \<open>junk\<close> answer for the datagram.  It
  \<open>BREAKS\<close> where the router is not there any more.
\<close>

definition append_datagram :: "bytes \<Rightarrow> router \<Rightarrow> router" where
  "append_datagram d r =
     r\<lparr>rt_datagram_list := rt_datagram_list r @ [d], rt_accepted := rt_accepted r @ [d]\<rparr>"

definition backward_notify_append ::
    "bool \<Rightarrow> (nat \<Rightarrow> nat \<Rightarrow> bool) \<Rightarrow> (nat \<Rightarrow> u8) \<Rightarrow> nat \<Rightarrow> db_notify_datagram \<Rightarrow> agency \<Rightarrow>
     agency outcome" where
  "backward_notify_append mem realloc junk p pnotify ag =
     (if \<not> mem then GETS ag
      else case exmdb_ext_push_db_notify pnotify realloc junk of
          Inl err \<Rightarrow> if fault err then BREAKS else GETS ag
        | Inr d \<Rightarrow>
            if ag_routers ag p = None then BREAKS
            else GETS (change_router p (append_datagram d) ag))"

text \<open>The whole, with nothing in between.\<close>

definition notification_agent_backward_notify ::
    "bool \<Rightarrow> (nat \<Rightarrow> nat \<Rightarrow> bool) \<Rightarrow> (nat \<Rightarrow> u8) \<Rightarrow> bytes option \<Rightarrow> db_notify_datagram \<Rightarrow> agency \<Rightarrow>
     (event list \<times> agency) outcome" where
  "notification_agent_backward_notify mem realloc junk remote_id pnotify ag =
     (case remote_id of
        None \<Rightarrow> GETS (event_procs pnotify, ag)
      | Some name \<Rightarrow>
          (case exmdb_parser_get_router name ag of
             None \<Rightarrow> GETS ([], ag)
           | Some (p, ag') \<Rightarrow>
               (case backward_notify_append mem realloc junk p pnotify ag' of
                  GETS ag'' \<Rightarrow> GETS ([], exmdb_parser_put_router p ag'')
                | WAITING \<Rightarrow> WAITING | FAILS \<Rightarrow> FAILS | BREAKS \<Rightarrow> BREAKS)))"

subsection \<open>The thread of a router\<close>

definition notification_agent_read_response :: "socket_answer \<Rightarrow> bool" where
  "notification_agent_read_response a \<longleftrightarrow> io_poll a = 1 \<and> io_read a = Some [RESPONSE_CODE_SUCCESS]"

text \<open>
  The outer loop behind the wait, which ends by a signal or by itself: a list without datagrams
  is the occasion for a ping.
\<close>

definition router_look :: "socket_answer \<Rightarrow> router \<Rightarrow> router" where
  "router_look a r =
     (if rt_b_stop r then r\<lparr>rt_phase := LEAVING\<rparr>
      else case rt_datagram_list r of
          [] \<Rightarrow>
            if io_write a \<noteq> 4 \<or> \<not> notification_agent_read_response a then r\<lparr>rt_phase := LEAVING\<rparr>
            else r
        | d # ds \<Rightarrow> r\<lparr>rt_datagram_list := ds, rt_phase := SENDING d\<rparr>)"

text \<open>The inner loop: one datagram, then the next one of the list.\<close>

definition router_send :: "socket_answer \<Rightarrow> bytes \<Rightarrow> router \<Rightarrow> router" where
  "router_send a d r =
     (if io_write a \<noteq> int (length d) \<or> \<not> notification_agent_read_response a
      then r\<lparr>rt_phase := LEAVING\<rparr>
      else
        (let r' = r\<lparr>rt_delivered := rt_delivered r @ [d]\<rparr>
         in case rt_datagram_list r of
              [] \<Rightarrow> r'\<lparr>rt_phase := LOOKING\<rparr>
            | d' # ds \<Rightarrow> r'\<lparr>rt_datagram_list := ds, rt_phase := SENDING d'\<rparr>))"

definition router_turn :: "socket_answer \<Rightarrow> router \<Rightarrow> router" where
  "router_turn a r =
     (case rt_phase r of LOOKING \<Rightarrow> router_look a r | SENDING d \<Rightarrow> router_send a d r | LEAVING \<Rightarrow> r)"

text \<open>\<open>EXIT_THREAD\<close>: one attempt to take the router out of the list; then everything is released.\<close>

definition router_exit :: "nat \<Rightarrow> agency \<Rightarrow> agency" where
  "router_exit p ag =
     (case exmdb_parser_remove_router p ag of
        (False, _) \<Rightarrow> ag
      | (True, ag') \<Rightarrow> ag'\<lparr>ag_routers := (ag_routers ag')(p := None)\<rparr>)"

text \<open>
  All threads together.  A step is what happens under a lock, or in one thread alone: the
  notifiers look a router up, append and give it back, in between other threads may do anything.
\<close>

inductive agency_step :: "agency \<Rightarrow> agency \<Rightarrow> bool" where
  listen: "ag_routers ag p = None \<Longrightarrow> agency_step ag (append_router p remote_id ag)"
| take_out: "exmdb_parser_get_router remote_id ag = Some (p, ag') \<Longrightarrow>
     agency_step ag (ag'\<lparr>ag_notifiers := (p, Some n) # ag_notifiers ag'\<rparr>)"
| append: "ag_notifiers ag = xs @ (p, Some n) # ys \<Longrightarrow>
     backward_notify_append mem realloc junk p n ag = GETS ag' \<Longrightarrow>
     agency_step ag (ag'\<lparr>ag_notifiers := xs @ (p, None) # ys\<rparr>)"
| put_back: "ag_notifiers ag = xs @ (p, None) # ys \<Longrightarrow>
     agency_step ag (exmdb_parser_put_router p (ag\<lparr>ag_notifiers := xs @ ys\<rparr>))"
| turn: "agency_step ag (change_router p (router_turn a) ag)"
| leave: "map_option rt_phase (ag_routers ag p) = Some LEAVING \<Longrightarrow> agency_step ag (router_exit p ag)"
| stop: "agency_step ag (stop_routers ag)"

subsection \<open>Listening\<close>

text \<open>
  The thread of \<open>exmdb_client.c\<close> that is connected to a router.  \<open>gt_buff\<close> is what its array of
  0x8000 bytes holds in front of \<open>offset\<close>; \<open>OVERRUN\<close>: more than that has been read into it,
  or reading the datagram has left it.
\<close>

datatype listening = LISTENING | DISCONNECTED | OVERRUN

record listener =
  gt_status :: listening
  gt_buff_len :: u32
  gt_buff :: bytes
  gt_replies :: bytes
  gt_events :: "event list"

definition new_listener :: listener where
  "new_listener = \<lparr>gt_status = LISTENING, gt_buff_len = 0, gt_buff = [], gt_replies = [],
     gt_events = []\<rparr>"

definition close_listener :: "listener \<Rightarrow> listener" where
  "close_listener g = g\<lparr>gt_status := DISCONNECTED\<rparr>"

definition reply :: "u8 \<Rightarrow> listener \<Rightarrow> listener" where
  "reply code g = g\<lparr>gt_replies := gt_replies g @ [code]\<rparr>"

definition listener_length :: "socket_answer \<Rightarrow> bytes \<Rightarrow> listener \<Rightarrow> listener" where
  "listener_length a bs g =
     (if length bs \<noteq> 4 then close_listener g
      else if IVAL bs 0 = 0
      then (if io_write a \<noteq> 1 then close_listener g
            else (reply RESPONSE_CODE_SUCCESS g)\<lparr>gt_buff := []\<rparr>)
      else g\<lparr>gt_buff_len := IVAL bs 0, gt_buff := []\<rparr>)"

text \<open>A notification is confirmed before its events are raised.\<close>

definition listener_datagram ::
    "socket_answer \<Rightarrow> (nat \<Rightarrow> nat \<Rightarrow> bool) \<Rightarrow> bytes \<Rightarrow> listener \<Rightarrow> listener" where
  "listener_datagram a alloc pbin g =
     (case exmdb_ext_pull_db_notify alloc pbin of
        Inl err \<Rightarrow>
          if fault err then g\<lparr>gt_status := OVERRUN\<rparr>
          else if io_write a \<noteq> 1 then close_listener g
          else (reply RESPONSE_CODE_PULL_ERROR g)\<lparr>gt_buff_len := 0, gt_buff := []\<rparr>
      | Inr notify \<Rightarrow>
          if io_write a \<noteq> 1 then close_listener g
          else (reply RESPONSE_CODE_SUCCESS g)
            \<lparr>gt_buff_len := 0, gt_buff := [], gt_events := gt_events g @ event_procs notify\<rparr>)"

definition listener_body ::
    "socket_answer \<Rightarrow> (nat \<Rightarrow> nat \<Rightarrow> bool) \<Rightarrow> bytes \<Rightarrow> listener \<Rightarrow> listener" where
  "listener_body a alloc bs g =
     (let buff = gt_buff g @ bs
      in if bs = [] then close_listener g
         else if 0x8000 < length buff then g\<lparr>gt_status := OVERRUN\<rparr>
         else if of_nat (length buff) = gt_buff_len g then listener_datagram a alloc buff g
         else g\<lparr>gt_buff := buff\<rparr>)"

definition listener_turn ::
    "(nat \<Rightarrow> nat \<Rightarrow> bool) \<Rightarrow> socket_answer \<Rightarrow> listener \<Rightarrow> listener" where
  "listener_turn alloc a g =
     (if gt_status g \<noteq> LISTENING then g
      else if io_poll a \<noteq> 1 then close_listener g
      else case io_read a of
          None \<Rightarrow> close_listener g
        | Some bs \<Rightarrow>
            if gt_buff_len g = 0 then listener_length a bs g else listener_body a alloc bs g)"

text \<open>The outer loop: a connection that cannot be had is asked for again after a second.\<close>

fun open_listener :: "remote_svr \<Rightarrow> bytes \<Rightarrow> rpc_answers list \<Rightarrow> listener outcome" where
  "open_listener sv remote_id [] = WAITING"
| "open_listener sv remote_id (a # as) =
     (case exmdb_client_connect_exmdb a sv True remote_id of
        GETS _ \<Rightarrow> GETS new_listener
      | FAILS \<Rightarrow> open_listener sv remote_id as
      | WAITING \<Rightarrow> WAITING
      | BREAKS \<Rightarrow> BREAKS)"

end
