(* ===== verification/Notification_Logic.thy ===== *)
theory Notification_Logic
  imports Notification_Agent Client_Logic
begin

text \<open>
  What the notification threads keep to: no router is touched after it has been released, each
  delivers in order what it has been given, and the server that listens raises the events that
  the store would have raised for itself.
\<close>

subsection \<open>Routers and the threads that hold them\<close>

text \<open>
  What has been delivered, what is on its way and what waits are what has been accepted, in this
  order; a router that is leaving may have lost the one that was on its way.
\<close>

definition in_order :: "router \<Rightarrow> bool" where
  "in_order r \<longleftrightarrow>
     (case rt_phase r of
        LOOKING \<Rightarrow> rt_accepted r = rt_delivered r @ rt_datagram_list r
      | SENDING d \<Rightarrow> rt_accepted r = rt_delivered r @ d # rt_datagram_list r
      | LEAVING \<Rightarrow> \<exists>lost. length lost \<le> 1 \<and>
          rt_accepted r = rt_delivered r @ lost @ rt_datagram_list r)"

definition places :: "agency \<Rightarrow> nat list" where
  "places ag = g_router_list ag @ map fst (ag_notifiers ag)"

definition agency_inv :: "agency \<Rightarrow> bool" where
  "agency_inv ag \<longleftrightarrow> distinct (places ag) \<and> set (places ag) = dom (ag_routers ag) \<and>
     (\<forall>p r. ag_routers ag p = Some r \<longrightarrow> in_order r)"

lemma in_order_new: "in_order (new_router remote_id)"
  by (simp add: in_order_def new_router_def)

lemma in_order_append: "in_order r \<Longrightarrow> in_order (append_datagram d r)"
  by (auto simp: in_order_def append_datagram_def split: phase.splits)

lemma in_order_stop: "in_order r \<Longrightarrow> in_order (r\<lparr>rt_b_stop := True\<rparr>)"
  by (simp add: in_order_def split: phase.splits)

lemma in_order_turn:
  assumes "in_order r"
  shows "in_order (router_turn a r)"
proof (cases "rt_phase r")
  case LOOKING
  with assms show ?thesis
    by (cases "rt_datagram_list r")
      (auto simp: in_order_def router_turn_def router_look_def intro!: exI [of _ "[]"])
next
  case (SENDING d)
  with assms show ?thesis
    by (cases "rt_datagram_list r")
      (auto simp: in_order_def router_turn_def router_send_def Let_def
        intro!: exI [of _ "[d]"])
qed (use assms in \<open>simp add: router_turn_def\<close>)

lemma change_router_simps [simp]:
  "g_router_list (change_router p f ag) = g_router_list ag"
  "ag_notifiers (change_router p f ag) = ag_notifiers ag"
  "places (change_router p f ag) = places ag"
  "dom (ag_routers (change_router p f ag)) = dom (ag_routers ag)"
  by (auto simp: change_router_def places_def dom_def)

lemma change_router_inv:
  "agency_inv ag \<Longrightarrow> (\<And>r. in_order r \<Longrightarrow> in_order (f r)) \<Longrightarrow> agency_inv (change_router p f ag)"
  by (simp add: agency_inv_def) (auto simp: change_router_def)

lemma stop_routers_inv: "agency_inv ag \<Longrightarrow> agency_inv (stop_routers ag)"
proof -
  have "agency_inv ag \<Longrightarrow>
      agency_inv (fold (\<lambda>p. change_router p (\<lambda>r. r\<lparr>rt_b_stop := True\<rparr>)) ps ag)" for ps ag
    by (induction ps arbitrary: ag) (simp_all add: change_router_inv in_order_stop)
  then show "agency_inv ag \<Longrightarrow> agency_inv (stop_routers ag)" by (simp add: stop_routers_def)
qed

lemma take_router_split:
  "take_router routers remote_id ps = Some (p, qs) \<Longrightarrow>
     \<exists>us vs. ps = us @ p # vs \<and> qs = us @ vs \<and> map_option rt_remote_id (routers p) = Some remote_id"
proof (induction ps arbitrary: qs)
  case (Cons q ps)
  show ?case
  proof (cases "map_option rt_remote_id (routers q) = Some remote_id")
    case False
    with Cons.prems obtain qs'
      where qs': "take_router routers remote_id ps = Some (p, qs')" "qs = q # qs'"
      unfolding take_router.simps if_not_P [OF False] by auto
    from Cons.IH [OF qs'(1)] obtain us vs where "ps = us @ p # vs" "qs' = us @ vs"
        "map_option rt_remote_id (routers p) = Some remote_id" by blast
    with qs'(2) show ?thesis by (metis append_Cons)
  next
    case True
    with Cons.prems have "q = p" "ps = qs" by auto
    with True show ?thesis by (metis append_Nil)
  qed
qed simp

text \<open>No step of a notifier reaches a router that is not there.\<close>

lemma held_router_alive:
  assumes "agency_inv ag" "(p, n) \<in> set (ag_notifiers ag)"
  shows "ag_routers ag p \<noteq> None"
proof -
  have "p \<in> set (places ag)" using image_eqI [of p fst "(p, n)"] assms(2) by (simp add: places_def)
  with assms(1) show ?thesis by (auto simp: agency_inv_def)
qed

text \<open>Taking a router out and putting it back only moves it.\<close>

lemma moved_inv:
  assumes "agency_inv ag" "ag_routers ag' = ag_routers ag" "mset (places ag') = mset (places ag)"
  shows "agency_inv ag'"
  using assms mset_eq_imp_distinct_iff [OF assms(3)] mset_eq_setD [OF assms(3)]
  by (simp add: agency_inv_def)

lemma append_inv:
  assumes "agency_inv ag" "ag_notifiers ag = xs @ (p, Some n) # ys"
    "backward_notify_append mem realloc junk p n ag = GETS ag'"
  shows "agency_inv (ag'\<lparr>ag_notifiers := xs @ (p, None) # ys\<rparr>)"
proof -
  have "agency_inv ag'" "ag_notifiers ag' = xs @ (p, Some n) # ys"
    using assms
    by (auto simp: backward_notify_append_def change_router_inv in_order_append
        split: if_splits sum.splits)
  then show ?thesis by (simp add: agency_inv_def places_def)
qed

lemma exit_inv: "agency_inv ag \<Longrightarrow> agency_inv (router_exit p ag)"
  by (auto simp: router_exit_def exmdb_parser_remove_router_def agency_inv_def places_def
      split: prod.splits if_splits)

lemma step_inv: "agency_step ag ag' \<Longrightarrow> agency_inv ag \<Longrightarrow> agency_inv ag'"
proof (induction rule: agency_step.induct)
  case (listen ag p remote_id)
  then have "p \<notin> set (places ag)" by (auto simp: agency_inv_def)
  with listen.prems show ?case
    by (auto simp: agency_inv_def places_def append_router_def in_order_new)
next
  case (take_out remote_id ag p ag' n)
  then obtain ps where ps: "take_router (ag_routers ag) remote_id (g_router_list ag) = Some (p, ps)"
      "ag' = ag\<lparr>g_router_list := ps\<rparr>"
    by (auto simp: exmdb_parser_get_router_def)
  from take_router_split [OF ps(1)] ps(2) show ?case
    by (intro moved_inv [OF take_out.prems]) (auto simp: places_def)
next
  case (append ag xs p n ys mem realloc junk ag')
  then show ?case by (blast intro: append_inv)
next
  case (put_back ag xs p ys)
  show ?case
    by (rule moved_inv [OF put_back.prems])
      (simp_all add: places_def exmdb_parser_put_router_def put_back.hyps)
qed (simp_all add: change_router_inv in_order_turn exit_inv stop_routers_inv)

lemma new_agency_inv: "agency_inv new_agency"
  by (simp add: agency_inv_def places_def new_agency_def)

lemma steps_inv: "agency_step\<^sup>*\<^sup>* ag ag' \<Longrightarrow> agency_inv ag \<Longrightarrow> agency_inv ag'"
  by (induction rule: rtranclp_induct) (blast intro: step_inv)+

text \<open>A router that is leaving goes as soon as nobody holds it.\<close>

lemma leaving_router_released:
  assumes "agency_inv ag" "ag_routers ag p = Some r" "\<forall>n. (p, n) \<notin> set (ag_notifiers ag)"
  shows "ag_routers (router_exit p ag) p = None"
proof -
  have "p \<in> set (places ag)" using assms(1,2) by (auto simp: agency_inv_def)
  with assms(3) have "p \<in> set (g_router_list ag)" by (auto simp: places_def)
  then show ?thesis by (simp add: router_exit_def exmdb_parser_remove_router_def)
qed

text \<open>While it is held, another notification for the same name finds nothing and is dropped.\<close>

lemma take_router_none:
  "\<forall>p\<in>set ps. map_option rt_remote_id (routers p) \<noteq> Some remote_id \<Longrightarrow>
     take_router routers remote_id ps = None"
  by (induction ps) auto

lemma held_router_missed:
  assumes "agency_inv ag"
    "\<And>p r. ag_routers ag p = Some r \<Longrightarrow> rt_remote_id r = remote_id \<Longrightarrow>
       p \<in> fst ` set (ag_notifiers ag)"
  shows "notification_agent_backward_notify mem realloc junk (Some remote_id) n ag = GETS ([], ag)"
proof -
  have "p \<notin> fst ` set (ag_notifiers ag)" if "p \<in> set (g_router_list ag)" for p
    using assms(1) that by (auto simp: agency_inv_def places_def)
  with assms(2)
  have "\<forall>p\<in>set (g_router_list ag). map_option rt_remote_id (ag_routers ag p) \<noteq> Some remote_id"
    by (auto simp del: map_option_eq_Some simp: map_option_case split: option.split)
  then show ?thesis
    by (simp add: notification_agent_backward_notify_def exmdb_parser_get_router_def
        take_router_none)
qed

subsection \<open>The listener\<close>

definition quiet :: "listener \<Rightarrow> bool" where
  "quiet g \<longleftrightarrow> gt_status g = LISTENING \<and> gt_buff_len g = 0"

text \<open>How one datagram arrives: the length at once, the rest in any pieces.\<close>

definition arrives :: "bytes \<Rightarrow> socket_answer list \<Rightarrow> bool" where
  "arrives d as \<longleftrightarrow> (\<exists>header body ps. as = header # body \<and> brings (take 4 d) header \<and>
     list_all2 brings ps body \<and> [] \<notin> set ps \<and> concat ps = drop 4 d \<and> io_write (last body) = 1)"

definition raised :: "db_notify_datagram \<Rightarrow> listener \<Rightarrow> listener" where
  "raised n g = g\<lparr>gt_buff_len := 0, gt_buff := [], gt_replies := gt_replies g @ [RESPONSE_CODE_SUCCESS],
     gt_events := gt_events g @ event_procs n\<rparr>"

lemma quiet_raised: "quiet g \<Longrightarrow> quiet (raised n g)"
  by (simp add: quiet_def raised_def)

lemma listener_pieces:
  assumes "list_all2 brings ps body" "[] \<notin> set ps" "ps \<noteq> []"
    "gt_status g = LISTENING" "gt_buff_len g = of_nat (length (gt_buff g @ concat ps))"
    "length (gt_buff g @ concat ps) \<le> 0x8000"
  shows "fold (listener_turn alloc) body g =
    listener_datagram (last body) alloc (gt_buff g @ concat ps)
      (g\<lparr>gt_buff := gt_buff g @ concat (butlast ps)\<rparr>)"
  using assms
proof (induction ps arbitrary: g body)
  case (Cons p ps)
  then obtain a as where body: "body = a # as" "brings p a" "list_all2 brings ps as"
    by (auto simp: list_all2_Cons1)
  have p: "p \<noteq> []" using Cons.prems(2) by auto
  let ?n = "length (gt_buff g @ concat (p # ps))"
  have "unat (of_nat ?n :: u32) = ?n" using Cons.prems(6) by (intro unat_of_nat_u32) simp
  then have len: "unat (gt_buff_len g) = ?n" by (simp only: Cons.prems(5))
  then have "gt_buff_len g \<noteq> 0" using p by auto
  have turn: "listener_turn alloc a g = listener_body a alloc p g"
    using body(2) Cons.prems(4) \<open>gt_buff_len g \<noteq> 0\<close> by (simp add: listener_turn_def brings_def)
  show ?case
  proof (cases "ps = []")
    case True
    with body turn p Cons.prems show ?thesis
      by (simp add: listener_body_def Let_def)
  next
    case False
    then have "concat ps \<noteq> []" using Cons.prems(2) by (cases ps) auto
    then have "length (gt_buff g @ p) < ?n" by simp
    then have "of_nat (length (gt_buff g @ p)) \<noteq> gt_buff_len g"
      using len Cons.prems(6) unat_of_nat_u32 [of "length (gt_buff g @ p)"] by auto
    then have "listener_body a alloc p g = g\<lparr>gt_buff := gt_buff g @ p\<rparr>"
      using p Cons.prems(6) by (simp add: listener_body_def Let_def)
    moreover have "last body = last as" "as \<noteq> []"
      using body(1,3) False by auto
    ultimately show ?thesis
      using Cons.IH [OF body(3), of "g\<lparr>gt_buff := gt_buff g @ p\<rparr>"] Cons.prems False body(1) turn
      by simp
  qed
qed simp

lemma datagram_raised:
  assumes "db_notify_ok EXT_FLAG_WCOUNT n" "\<forall>k s. realloc k s" "\<forall>k s. alloc k s"
    "exmdb_ext_push_db_notify n realloc junk = Inr d" "length d \<le> 0x8004"
    "arrives d as" "quiet g"
  shows "fold (listener_turn alloc) as g = raised n g"
proof -
  obtain payload where d: "d = SIVAL (of_nat (length payload)) @ payload"
      "\<forall>alloc. (\<forall>k s. alloc k s) \<longrightarrow> exmdb_ext_pull_db_notify alloc payload = Inr n"
    using dg_notify.transfer [OF assms(1,2,4)] assms(5) by auto
  then have payload: "length payload \<le> 0x8000" "drop 4 d = payload"
    using assms(5) by auto
  have "exmdb_ext_pull_db_notify alloc [] \<noteq> Inr n"
    by (simp add: exmdb_ext_pull_db_notify_def read_datagram_def pull_db_notify_def
        ext_buffer_pull_string_def bnd_def ext_buffer_pull_init_def fail_def Let_def)
  with d(2) assms(3) have "payload \<noteq> []" by auto
  obtain header body ps where as: "as = header # body" "brings (take 4 d) header"
      "list_all2 brings ps body" "[] \<notin> set ps" "concat ps = payload" "io_write (last body) = 1"
    using assms(6) payload(2) by (auto simp: arrives_def)
  have "ps \<noteq> []" using as(5) \<open>payload \<noteq> []\<close> by auto
  let ?len = "of_nat (length payload) :: u32"
  have "unat ?len = length payload" using payload(1) by (intro unat_of_nat_u32) simp
  then have "?len \<noteq> 0" using \<open>payload \<noteq> []\<close> by auto
  moreover have "IVAL (SIVAL ?len) 0 = ?len" using d(1) by (simp add: IVAL_SIVAL)
  ultimately have "listener_turn alloc header g = g\<lparr>gt_buff_len := ?len, gt_buff := []\<rparr>"
    using as(2) assms(7) d(1) by (simp add: listener_turn_def listener_length_def quiet_def brings_def)
  moreover have "fold (listener_turn alloc) body (g\<lparr>gt_buff_len := ?len, gt_buff := []\<rparr>) =
      listener_datagram (last body) alloc payload
        (g\<lparr>gt_buff_len := ?len, gt_buff := concat (butlast ps)\<rparr>)"
    using listener_pieces [OF as(3,4) \<open>ps \<noteq> []\<close>, of "g\<lparr>gt_buff_len := ?len, gt_buff := []\<rparr>" alloc]
      as(5) payload(1) assms(7) by (simp add: quiet_def)
  moreover have "exmdb_ext_pull_db_notify alloc payload = Inr n" using d(2) assms(3) by simp
  ultimately show ?thesis
    using as(1,6) by (simp add: listener_datagram_def raised_def reply_def)
qed

text \<open>More than the array holds: the reading does not stop at its end.\<close>

lemma overrun_stays: "gt_status g = OVERRUN \<Longrightarrow> fold (listener_turn alloc) as g = g"
  by (induction as) (simp_all add: listener_turn_def)

lemma listener_overrun:
  assumes "list_all2 brings ps body" "[] \<notin> set ps" "gt_status g = LISTENING"
    "gt_buff_len g = of_nat (length (gt_buff g @ concat ps))"
    "length (gt_buff g @ concat ps) < 2 ^ 32" "0x8000 < length (gt_buff g @ concat ps)"
    "length (gt_buff g) \<le> 0x8000"
  shows "gt_status (fold (listener_turn alloc) body g) = OVERRUN"
  using assms
proof (induction ps arbitrary: g body)
  case (Cons p ps)
  then obtain a as where body: "body = a # as" "brings p a" "list_all2 brings ps as"
    by (auto simp: list_all2_Cons1)
  have p: "p \<noteq> []" using Cons.prems(2) by auto
  let ?n = "length (gt_buff g @ concat (p # ps))"
  have "unat (of_nat ?n :: u32) = ?n" using Cons.prems(5) by (intro unat_of_nat_u32) simp
  then have len: "unat (gt_buff_len g) = ?n" by (simp only: Cons.prems(4))
  then have "gt_buff_len g \<noteq> 0" using p by auto
  then have turn: "listener_turn alloc a g = listener_body a alloc p g"
    using body(2) Cons.prems(3) by (simp add: listener_turn_def brings_def)
  show ?case
  proof (cases "0x8000 < length (gt_buff g @ p)")
    case True
    then have "gt_status (listener_body a alloc p g) = OVERRUN"
      using p by (simp add: listener_body_def Let_def)
    with turn body(1) show ?thesis by (simp add: overrun_stays)
  next
    case False
    then have "length (gt_buff g @ p) < ?n" using Cons.prems(6) by linarith
    then have "of_nat (length (gt_buff g @ p)) \<noteq> gt_buff_len g"
      using len Cons.prems(5) unat_of_nat_u32 [of "length (gt_buff g @ p)"] by auto
    with False p have "listener_turn alloc a g = g\<lparr>gt_buff := gt_buff g @ p\<rparr>"
      by (simp add: turn listener_body_def Let_def)
    with Cons.IH [OF body(3), of "g\<lparr>gt_buff := gt_buff g @ p\<rparr>"] Cons.prems False body(1)
    show ?thesis by simp
  qed
qed simp

lemma oversized_datagram:
  assumes "db_notify_ok EXT_FLAG_WCOUNT n" "\<forall>k s. realloc k s"
    "exmdb_ext_push_db_notify n realloc junk = Inr d" "0x8004 < length d" "length d < 2 ^ 30"
    "arrives d as" "quiet g"
  shows "gt_status (fold (listener_turn alloc) as g) = OVERRUN"
proof -
  obtain payload where d: "d = SIVAL (of_nat (length payload)) @ payload"
    using dg_notify.transfer [OF assms(1-3,5)] by auto
  then have payload: "0x8000 < length payload" "length payload < 2 ^ 30" "drop 4 d = payload"
    using assms(4,5) by auto
  obtain header body ps where as: "as = header # body" "brings (take 4 d) header"
      "list_all2 brings ps body" "[] \<notin> set ps" "concat ps = payload"
    using assms(6) payload(3) by (auto simp: arrives_def)
  let ?len = "of_nat (length payload) :: u32"
  let ?g = "g\<lparr>gt_buff_len := ?len, gt_buff := []\<rparr>"
  have "unat ?len = length payload" using payload(2) by (intro unat_of_nat_u32) simp
  then have "?len \<noteq> 0" using payload(1) by auto
  moreover have "IVAL (SIVAL ?len) 0 = ?len" by simp
  ultimately have "listener_turn alloc header g = ?g"
    using as(2) assms(7) d(1) by (simp add: listener_turn_def listener_length_def quiet_def brings_def)
  moreover have "gt_status (fold (listener_turn alloc) body ?g) = OVERRUN"
    using as(5) payload(1,2) assms(7) by (intro listener_overrun [OF as(3,4)]) (simp_all add: quiet_def)
  ultimately show ?thesis using as(1) by simp
qed

subsection \<open>From the store to the listener\<close>

text \<open>Telling one notification after the other.\<close>

fun tell :: "(db_notify_datagram \<Rightarrow> agency \<Rightarrow> (event list \<times> agency) outcome) \<Rightarrow>
    db_notify_datagram list \<Rightarrow> agency \<Rightarrow> (event list \<times> agency) outcome" where
  "tell notify [] ag = GETS ([], ag)"
| "tell notify (n # ns) ag =
     (case notify n ag of
        GETS (es, ag') \<Rightarrow>
          (case tell notify ns ag' of
             GETS (es', ag'') \<Rightarrow> GETS (es @ es', ag'')
           | WAITING \<Rightarrow> WAITING | FAILS \<Rightarrow> FAILS | BREAKS \<Rightarrow> BREAKS)
      | WAITING \<Rightarrow> WAITING | FAILS \<Rightarrow> FAILS | BREAKS \<Rightarrow> BREAKS)"

lemma told_locally:
  "tell (notification_agent_backward_notify mem realloc junk None) ns ag =
     GETS (concat (map event_procs ns), ag)"
  by (induction ns) (simp_all add: notification_agent_backward_notify_def)

text \<open>The only router with a name.\<close>

definition routed :: "bytes \<Rightarrow> nat \<Rightarrow> agency \<Rightarrow> bool" where
  "routed name p ag \<longleftrightarrow> p \<in> set (g_router_list ag) \<and> (\<forall>q\<in>set (g_router_list ag).
     map_option rt_remote_id (ag_routers ag q) = Some name \<longleftrightarrow> q = p)"

lemma take_routed:
  assumes "p \<in> set ps" "\<forall>q\<in>set ps. map_option rt_remote_id (routers q) = Some name \<longleftrightarrow> q = p"
  shows "take_router routers name ps = Some (p, remove1 p ps)"
  using assms by (induction ps) auto

lemma told_once:
  assumes "routed name p ag" "ag_routers ag p = Some r"
    "exmdb_ext_push_db_notify n realloc junk = Inr d"
  shows "\<exists>ag'. notification_agent_backward_notify True realloc junk (Some name) n ag = GETS ([], ag') \<and>
    routed name p ag' \<and> ag_routers ag' = (ag_routers ag)(p \<mapsto> append_datagram d r)"
proof -
  let ?ag = "ag\<lparr>g_router_list := remove1 p (g_router_list ag) @ [p],
    ag_routers := (ag_routers ag)(p \<mapsto> append_datagram d r)\<rparr>"
  have "take_router (ag_routers ag) name (g_router_list ag) = Some (p, remove1 p (g_router_list ag))"
    using assms(1) by (intro take_routed) (auto simp: routed_def)
  then have "notification_agent_backward_notify True realloc junk (Some name) n ag = GETS ([], ?ag)"
    using assms(2,3)
    by (simp add: notification_agent_backward_notify_def exmdb_parser_get_router_def
        backward_notify_append_def change_router_def exmdb_parser_put_router_def)
  moreover have "routed name p ?ag"
    using assms(1,2) by (auto simp: routed_def append_datagram_def dest: notin_set_remove1 set_remove1_subset [THEN subsetD])
  ultimately show ?thesis by auto
qed

lemma told_to_router:
  assumes "list_all2 (\<lambda>n d. exmdb_ext_push_db_notify n realloc junk = Inr d) ns ds"
    "routed name p ag" "ag_routers ag p = Some r"
  shows "\<exists>ag'. tell (notification_agent_backward_notify True realloc junk (Some name)) ns ag =
      GETS ([], ag') \<and>
    ag_routers ag' = (ag_routers ag)(p \<mapsto> r\<lparr>rt_datagram_list := rt_datagram_list r @ ds,
      rt_accepted := rt_accepted r @ ds\<rparr>)"
  using assms
proof (induction ns ds arbitrary: ag r rule: list_all2_induct)
  case Nil
  then show ?case by (auto simp: fun_upd_idem)
next
  case (Cons n ns d ds)
  obtain ag1 where ag1: "routed name p ag1"
      "notification_agent_backward_notify True realloc junk (Some name) n ag = GETS ([], ag1)"
      "ag_routers ag1 = (ag_routers ag)(p \<mapsto> append_datagram d r)"
    using told_once [OF Cons.prems Cons.hyps(1)] by blast
  then have "ag_routers ag1 p = Some (append_datagram d r)" by simp
  from Cons.IH [OF ag1(1) this] ag1(2,3) show ?case
    by (fastforce simp: append_datagram_def fun_upd_upd)
qed

text \<open>The peer takes a datagram and confirms it.\<close>

definition confirms :: "bytes \<Rightarrow> socket_answer \<Rightarrow> bool" where
  "confirms d a \<longleftrightarrow> io_write a = int (length d) \<and> notification_agent_read_response a"

lemma router_sends:
  assumes "list_all2 confirms (d # ds) as" "rt_phase r = SENDING d" "rt_datagram_list r = ds"
  shows "fold router_turn as r = r\<lparr>rt_datagram_list := [], rt_phase := LOOKING,
    rt_delivered := rt_delivered r @ d # ds\<rparr>"
  using assms
proof (induction ds arbitrary: d as r)
  case Nil
  then show ?case
    by (auto simp: list_all2_Cons1 router_turn_def router_send_def confirms_def)
next
  case (Cons e ds)
  then obtain a as' where as: "as = a # as'" "confirms d a" "list_all2 confirms (e # ds) as'"
    by (auto simp: list_all2_Cons1)
  have "router_turn a r = r\<lparr>rt_delivered := rt_delivered r @ [d], rt_datagram_list := ds,
      rt_phase := SENDING e\<rparr>"
    using as(2) Cons.prems(2,3) by (simp add: router_turn_def router_send_def confirms_def)
  with Cons.IH [OF as(3), of "router_turn a r"] as(1) show ?case by simp
qed

lemma router_delivers:
  assumes "list_all2 confirms ds as" "ds \<noteq> []" "rt_phase r = LOOKING" "\<not> rt_b_stop r"
    "rt_datagram_list r = ds"
  shows "fold router_turn (a # as) r = r\<lparr>rt_datagram_list := [],
    rt_delivered := rt_delivered r @ ds\<rparr>"
proof -
  obtain d ds' where ds: "ds = d # ds'" using assms(2) by (cases ds) auto
  have "router_turn a r = r\<lparr>rt_datagram_list := ds', rt_phase := SENDING d\<rparr>"
    using assms(3-5) by (simp add: router_turn_def router_look_def ds)
  with router_sends [of d ds' as "router_turn a r"] assms(1,3) show ?thesis
    by (simp add: ds)
qed

lemma datagrams_raised:
  assumes "list_all2 (\<lambda>n d. exmdb_ext_push_db_notify n realloc junk = Inr d) ns ds"
    "\<forall>n\<in>set ns. db_notify_ok EXT_FLAG_WCOUNT n" "\<forall>d\<in>set ds. length d \<le> 0x8004"
    "\<forall>k s. realloc k s" "\<forall>k s. alloc k s" "list_all2 arrives ds ass" "quiet g"
  shows "fold (listener_turn alloc) (concat ass) g = fold raised ns g"
  using assms
proof (induction ns ds arbitrary: g ass rule: list_all2_induct)
  case (Cons n ns d ds)
  then obtain as ass' where ass: "ass = as # ass'" "arrives d as" "list_all2 arrives ds ass'"
    by (auto simp: list_all2_Cons1)
  have "fold (listener_turn alloc) as g = raised n g"
    using Cons.prems Cons.hyps(1) ass(2) by (intro datagram_raised) auto
  moreover have "fold (listener_turn alloc) (concat ass') (raised n g) = fold raised ns (raised n g)"
    using Cons.prems ass(3) by (intro Cons.IH) (simp_all add: quiet_raised)
  ultimately show ?case by (simp add: ass(1))
qed simp

lemma all_raised:
  "gt_events (fold raised ns g) = gt_events g @ concat (map event_procs ns)"
  "quiet g \<Longrightarrow> quiet (fold raised ns g)"
proof (induction ns arbitrary: g)
  case (Cons n ns)
  { case 1 then show ?case by (simp add: Cons.IH) (simp add: raised_def) }
  { case 2 then show ?case by (simp add: Cons.IH quiet_raised) }
qed simp_all

end
