(* ===== verification/Notification_Properties.thy ===== *)
theory Notification_Properties
  imports Notification_Logic Connection_Properties
begin

text \<open>
  What is true of the notifications that stores send to each other.
\<close>

text \<open>
  C10. Whatever the threads of a store do, in any order: a router is in the list or in the hands of
  one notifier, never in both and never released meanwhile; what its peer has confirmed, what is on
  its way and what waits are the notifications it was given, in order, and at most one is lost when
  it leaves; and it is released as soon as it has left and nobody holds it.
\<close>

theorem routers_in_order:
  assumes "agency_step\<^sup>*\<^sup>* new_agency ag"
  shows "distinct (places ag) \<and> set (places ag) = dom (ag_routers ag) \<and>
    (\<forall>p r. ag_routers ag p = Some r \<longrightarrow> in_order r \<and>
       (rt_phase r = LEAVING \<and> (\<forall>n. (p, n) \<notin> set (ag_notifiers ag)) \<longrightarrow>
          ag_routers (router_exit p ag) p = None))"
  using steps_inv [OF assms new_agency_inv] leaving_router_released
  by (simp add: agency_inv_def)

text \<open>
  C11. A server that listens raises the events that the store raises for itself: notifications
  told to the only router with a name reach it as datagrams, and if these fit into its array and
  arrive, each length at once and the rest in any pieces, the events are those of telling locally,
  in the same order, and the router has all of them confirmed.
\<close>

theorem remote_events_equal_local:
  assumes "\<forall>n\<in>set ns. db_notify_ok EXT_FLAG_WCOUNT n" "\<forall>k s. realloc k s" "\<forall>k s. alloc k s"
    and "list_all2 (\<lambda>n d. exmdb_ext_push_db_notify n realloc junk = Inr d) ns ds"
    "\<forall>d\<in>set ds. length d \<le> 0x8004" "ns \<noteq> []"
    and "routed name p ag" "ag_routers ag p = Some r" "rt_phase r = LOOKING" "\<not> rt_b_stop r"
    "rt_datagram_list r = []"
    and "list_all2 confirms ds as" "list_all2 arrives ds ass" "quiet g" "gt_events g = []"
  shows "\<exists>ag' r'.
    tell (notification_agent_backward_notify True realloc junk (Some name)) ns ag = GETS ([], ag') \<and>
    ag_routers ag' p = Some r' \<and>
    rt_datagram_list (fold router_turn (a # as) r') = [] \<and>
    rt_delivered (fold router_turn (a # as) r') = rt_delivered r @ ds \<and>
    tell (notification_agent_backward_notify True realloc junk None) ns ag =
      GETS (gt_events (fold (listener_turn alloc) (concat ass) g), ag)"
proof -
  obtain ag' where ag': "tell (notification_agent_backward_notify True realloc junk (Some name)) ns ag =
        GETS ([], ag')"
      "ag_routers ag' p = Some (r\<lparr>rt_datagram_list := ds, rt_accepted := rt_accepted r @ ds\<rparr>)"
    using told_to_router [OF assms(4,7,8)] assms(11) by auto
  have "ds \<noteq> []" using assms(4,6) by auto
  with router_delivers [OF assms(12), of "r\<lparr>rt_datagram_list := ds, rt_accepted := rt_accepted r @ ds\<rparr>"]
    datagrams_raised [OF assms(4,1,5,2,3,13,14)] assms(9,10,15) ag' show ?thesis
    by (simp add: told_locally all_raised)
qed

text \<open>
  C12. While another thread holds every router with a name, a notification for that name is dropped
  without a trace.
\<close>

theorem concurrent_notification_dropped:
  assumes "agency_step\<^sup>*\<^sup>* new_agency ag"
    "\<forall>p r. ag_routers ag p = Some r \<and> rt_remote_id r = name \<longrightarrow> p \<in> fst ` set (ag_notifiers ag)"
  shows "notification_agent_backward_notify mem realloc junk (Some name) n ag = GETS ([], ag)"
  using steps_inv [OF assms(1) new_agency_inv] assms(2) by (intro held_router_missed) blast+

text \<open>
  C13. A notification that the store can send, but whose datagram is longer than the array of the
  listener, is read past the end of that array, in whatever pieces it arrives.
\<close>

theorem oversized_notification_overruns:
  assumes "db_notify_ok EXT_FLAG_WCOUNT n" "\<forall>k s. realloc k s"
    "exmdb_ext_push_db_notify n realloc junk = Inr d" "0x8004 < length d" "length d < 2 ^ 30"
    "arrives d as" "quiet g"
  shows "gt_status (fold (listener_turn alloc) as g) = OVERRUN"
  using assms by (rule oversized_datagram)

section \<open>Witnesses\<close>

text \<open>Two servers with one name: the second notification finds no router.\<close>

lemma held_reached:
  "agency_step\<^sup>*\<^sup>* new_agency
     \<lparr>g_router_list = [], ag_routers = [3 \<mapsto> new_router [104]],
      ag_notifiers = [(3, Some (DB_NOTIFY_DATAGRAM [47, 97] False [1] (NOTIFY_SEARCH_COMPLETED 9)))]\<rparr>"
proof -
  let ?n = "DB_NOTIFY_DATAGRAM [47, 97] False [1] (NOTIFY_SEARCH_COMPLETED 9)"
  let ?ag = "append_router 3 [104] new_agency"
  have "agency_step new_agency ?ag"
    by (rule agency_step.listen) (simp add: new_agency_def)
  moreover have "exmdb_parser_get_router [104] ?ag = Some (3, ?ag\<lparr>g_router_list := []\<rparr>)"
    by (simp add: exmdb_parser_get_router_def append_router_def new_agency_def new_router_def)
  from agency_step.take_out [OF this, of ?n]
  have "agency_step ?ag (?ag\<lparr>g_router_list := [], ag_notifiers := [(3, Some ?n)]\<rparr>)"
    by (simp add: append_router_def new_agency_def)
  ultimately show ?thesis
    by (simp add: append_router_def new_agency_def)
qed

theorem routers_in_order_witness:
  "let n = DB_NOTIFY_DATAGRAM [47, 97] False [1] (NOTIFY_SEARCH_COMPLETED 9);
       ag = \<lparr>g_router_list = [], ag_routers = [3 \<mapsto> new_router [104]], ag_notifiers = [(3, Some n)]\<rparr>
   in distinct (places ag) \<and> in_order (new_router [104])"
  using routers_in_order [OF held_reached] by (simp add: Let_def)

theorem concurrent_notification_dropped_witness:
  "let n = DB_NOTIFY_DATAGRAM [47, 97] False [1] (NOTIFY_SEARCH_COMPLETED 9);
       ag = \<lparr>g_router_list = [], ag_routers = [3 \<mapsto> new_router [104]], ag_notifiers = [(3, Some n)]\<rparr>
   in notification_agent_backward_notify True (\<lambda>_ _. True) (\<lambda>_. 0) (Some [104]) n ag = GETS ([], ag)"
  using concurrent_notification_dropped [OF held_reached, of "[104]"] by (simp add: Let_def)

text \<open>The datagram of a notification that a search is complete.\<close>

definition search_completed :: "bytes \<Rightarrow> u64 \<Rightarrow> db_notify_datagram" where
  "search_completed dir folder_id = DB_NOTIFY_DATAGRAM dir False [1] (NOTIFY_SEARCH_COMPLETED folder_id)"

definition search_completed_frame :: "bytes \<Rightarrow> u64 \<Rightarrow> bytes" where
  "search_completed_frame dir folder_id =
     SIVAL (of_nat (length dir + 19)) @ dir @ [0, 0, 1, 0, 0, 0, 1, 0, 0, 0, 0x0e] @ SBVAL folder_id"

lemma search_completed_pushed:
  assumes "length dir < 2 ^ 16"
  shows "exmdb_ext_push_db_notify (search_completed dir folder_id) (\<lambda>_ _. True) (\<lambda>_. 0) =
    Inr (search_completed_frame dir folder_id)"
proof -
  let ?f = EXT_FLAG_WCOUNT
  have "SIVAL 1 = [1, 0, 0, 0]" by (simp add: SIVAL_def SSVAL_def)
  then have one: "writes ?f (ext_buffer_push_uint32 1) [1, 0, 0, 0]"
    using writes_scalars(3) [of ?f 1] by simp
  have array: "writes ?f (ext_buffer_push_long_array [1]) ([1, 0, 0, 0] @ [1, 0, 0, 0] @ [])"
    using writes_seq [OF one writes_seq [OF one writes_ret]]
    by (simp add: ext_buffer_push_long_array_def)
  have "writes ?f (push_db_notify (search_completed dir folder_id))
      ((dir @ [0]) @ [0] @ ([1, 0, 0, 0] @ [1, 0, 0, 0] @ []) @ [0x0e] @ SBVAL folder_id)"
    unfolding push_db_notify_def search_completed_def db_notify_datagram.sel push_notify.simps
      push_notify_search_completed_def db_notify_type.simps DB_NOTIFY_TYPE_SEARCH_COMPLETED_def
    using writes_bool [of ?f False] array
    by (intro writes_seq writes_string [OF assms] writes_scalars) simp_all
  from written_datagrams(2) [OF this, of "\<lambda>_ _. True" "\<lambda>_. 0"] assms show ?thesis
    by (simp add: exmdb_ext_push_db_notify_def is_datagram_def search_completed_frame_def)
qed

lemma search_completed_ok: "dir \<noteq> [] \<Longrightarrow> 0 \<notin> set dir \<Longrightarrow> length dir < 2 ^ 16 \<Longrightarrow>
    db_notify_ok EXT_FLAG_WCOUNT (search_completed dir folder_id)"
  by (simp add: search_completed_def db_notify_ok_def string_ok_def list_ok_def EXT_FLAG_WCOUNT_def
      EXT_FLAG_TBLLMT_def has_flag_def)

text \<open>A datagram that comes in three pieces.\<close>

definition in_pieces :: "bytes \<Rightarrow> socket_answer list" where
  "in_pieces d = [sock (take 4 d) 0, sock (take 7 (drop 4 d)) 0, sock (drop 11 d) 1]"

lemma arrives_in_pieces:
  assumes "11 < length d"
  shows "arrives d (in_pieces d)"
  unfolding arrives_def in_pieces_def
  using assms append_take_drop_id [of 7 "drop 4 d"]
  by (intro exI [of _ "sock (take 4 d) 0"]
      exI [of _ "[sock (take 7 (drop 4 d)) 0, sock (drop 11 d) 1]"]
      exI [of _ "[take 7 (drop 4 d), drop 11 d]"])
    (auto simp: brings_def sock_def)

theorem oversized_notification_overruns_witness:
  "let dir = replicate 0x8000 47
   in exmdb_ext_push_db_notify (search_completed dir 9) (\<lambda>_ _. True) (\<lambda>_. 0) =
        Inr (search_completed_frame dir 9) \<and>
      gt_status (fold (listener_turn (\<lambda>_ _. True)) (in_pieces (search_completed_frame dir 9))
        new_listener) = OVERRUN"
proof -
  define dir where "dir = replicate 0x8000 (47 :: u8)"
  have "length dir = 0x8000" unfolding dir_def by (rule length_replicate)
  moreover have "set dir = {47}" unfolding dir_def by (rule set_replicate) simp
  ultimately have dir: "dir \<noteq> []" "0 \<notin> set dir" "length dir < 2 ^ 16" by auto
  let ?d = "search_completed_frame dir 9"
  have "length ?d = 0x8000 + 23"
    using \<open>length dir = 0x8000\<close> by (simp add: search_completed_frame_def)
  then have len: "0x8004 < length ?d" "length ?d < 2 ^ 30" "11 < length ?d" by simp_all
  have "gt_status (fold (listener_turn (\<lambda>_ _. True)) (in_pieces ?d) new_listener) = OVERRUN"
    by (rule oversized_notification_overruns [OF search_completed_ok [OF dir] _
          search_completed_pushed [OF dir(3)] len(1,2) arrives_in_pieces [OF len(3)]])
      (simp_all add: quiet_def new_listener_def)
  with search_completed_pushed [OF dir(3)] show ?thesis
    unfolding Let_def dir_def [symmetric] by blast
qed

theorem remote_events_equal_local_witness:
  "let ns = [search_completed [47, 97] 8, search_completed [47, 97] 9];
       ds = [search_completed_frame [47, 97] 8, search_completed_frame [47, 97] 9]
   in gt_events (fold (listener_turn (\<lambda>_ _. True)) (concat (map in_pieces ds)) new_listener) =
     [EVENT [47, 97] False 1 (NOTIFY_SEARCH_COMPLETED 8),
      EVENT [47, 97] False 1 (NOTIFY_SEARCH_COMPLETED 9)]"
proof -
  let ?ns = "[search_completed [47, 97] 8, search_completed [47, 97] 9]"
  let ?ds = "[search_completed_frame [47, 97] 8, search_completed_frame [47, 97] 9]"
  let ?ag = "append_router 3 [104] new_agency"
  let ?as = "map (\<lambda>d. sock [RESPONSE_CODE_SUCCESS] (int (length d))) ?ds"
  have len: "length (search_completed_frame [47, 97] fid) = 25" for fid
    by (simp add: search_completed_frame_def)
  have "tell (notification_agent_backward_notify True (\<lambda>_ _. True) (\<lambda>_. 0) None) ?ns ?ag =
    GETS (gt_events (fold (listener_turn (\<lambda>_ _. True)) (concat (map in_pieces ?ds)) new_listener), ?ag)"
    by (rule remote_events_equal_local [of ?ns "\<lambda>_ _. True" "\<lambda>_ _. True" "\<lambda>_. 0" ?ds "[104]" 3 ?ag
          "new_router [104]" ?as "map in_pieces ?ds" new_listener "sock [] 0", THEN exE])
      (auto simp: search_completed_ok search_completed_pushed len arrives_in_pieces routed_def
        append_router_def new_agency_def new_router_def quiet_def new_listener_def confirms_def sock_def
        notification_agent_read_response_def)
  then show ?thesis
    unfolding told_locally by (simp add: event_procs_def search_completed_def)
qed

end
