(* ===== verification/Spec2Isabelle.thy ===== *)
theory Spec2Isabelle
  imports Wire_Properties Id_Properties Idset_Properties Value_Properties Array_Properties
    Exmdb_Properties Connection_Properties Call_Properties Notification_Properties
begin

text \<open>
  The data layer of the STEEP mail system and the protocol of its message store.

  \<^bold>\<open>The program.\<close>  Steep keeps mailboxes in stores, and the programs that serve Outlook, IMAP and
  the web reach a store through a binary protocol.  Below the servers lies \<open>LIBRARY/mapi_lib\<close>:
  the MAPI data types, their serialisation (\<open>ext_buffer.c\<close>), copying and comparing
  (\<open>propval.c\<close>, \<open>restriction.c\<close>, \<open>rule_actions.c\<close>), growing arrays of them, and the identifiers
  that synchronization works on (\<open>rop_util.c\<close>, \<open>pcl.c\<close>, \<open>idset.c\<close>).  On top of it, under
  \<open>EXCHANGE_SYSTEM/service_plugins/exmdb_provider\<close>, \<open>exmdb_ext.c\<close> puts the calls of a store
  into datagrams, \<open>exmdb_parser.c\<close> serves a connection \<open>exmdb_client.c\<close> makes calls to
  another server and \<open>notification_agent.c\<close> tells other servers what has changed.  A call goes
  \<open>exmdb_client_do_rpc\<close> -- \<open>exmdb_ext_push_request\<close> -- socket -- \<open>thread_work_func\<close> --
  \<open>exmdb_ext_pull_request\<close> -- the store -- \<open>exmdb_ext_push_response\<close> -- socket --
  \<open>exmdb_ext_pull_response\<close>, and every step of it but the store itself is modelled here.

  \<^bold>\<open>Reading the models.\<close>  A definition has the name of the function, type or constant it
  translates, or names a part of one (a loop, a branch of a switch).  A context structure is a
  record (\<open>EXT_PULL\<close> is \<open>ext_pull\<close>), a tagged union a datatype, a counted array a list, an
  integer a word of its width, so that sums wrap as they do in C.  A function that returns a
  status is a state transformer into \<open>ext_err + 'a\<close>; \<open>ext_err\<close> has, besides the codes of
  \<open>ext_buffer.h\<close>, the ends that C does not return from: \<open>UNDEFINED_BEHAVIOUR\<close> (outside an object,
  or through a pointer of another type), \<open>NULL_WRITE\<close>, \<open>NOT_RETURNING\<close> (a loop without an end) and
  \<open>OUT_OF_FUEL\<close> (of the model only).  Allocators, \<open>realloc\<close>, the contents of fresh memory and the
  answers of sockets and clocks are arguments: functions, or lists with an entry for each call.

  \<^bold>\<open>The theories.\<close>
  \<^item> \<open>Prelude\<close>: words, status codes, the monad, \<open>endian_macro.h\<close>.  \<open>Utf_Conv\<close>: \<open>common/util.c\<close>.
    \<open>Mapi_Types\<close>, \<open>Prop_Types\<close>, \<open>Struct_Types\<close>: \<open>mapi_types.h\<close>.
  \<^item> \<open>Ext_Pull\<close>, \<open>Ext_Pull_Prop\<close>, \<open>Ext_Pull_Struct\<close>, \<open>Ext_Push\<close>, \<open>Ext_Push_Prop\<close>,
    \<open>Ext_Push_Struct\<close>, \<open>Ext_Message\<close>: \<open>ext_buffer.c\<close>.  \<open>Pull_Logic\<close> and \<open>Codec\<close> hold the
    relations that the proofs are made of (\<open>safe\<close>: a reader stays inside the buffer; \<open>writes\<close>,
    \<open>reads\<close>, \<open>coded\<close>: what a writer appends a reader gives back), with one rule for each building
    block; \<open>Base_Codec\<close>, \<open>Prop_Codec\<close>, \<open>Struct_Codec\<close> instantiate the interface \<open>codec\<close> for each
    type.  \<open>Wire_Properties\<close> and this theory state the results.
  \<^item> \<open>Rop_Util\<close>, \<open>Pcl\<close>, with \<open>Id_Properties\<close>: \<open>rop_util.c\<close>, \<open>pcl.c\<close>.  \<open>Idset\<close>, \<open>Idset_Codec\<close>:
    \<open>idset.c\<close>; \<open>Idset_Logic\<close> relates range lists to sets of numbers, \<open>Idset_History\<close> runs sequences
    of operations, \<open>Idset_Roundtrip\<close> follows the encoder command by command;
    \<open>Idset_Properties\<close>.  \<open>Id_Collection\<close> is the contract that sets and arrays of identifiers share.
  \<^item> \<open>Prop_Dup\<close>, \<open>Prop_Dup_Logic\<close>, \<open>Prop_Compare\<close>, with \<open>Value_Properties\<close>: \<open>propval.c\<close>,
    \<open>restriction.c\<close>, \<open>rule_actions.c\<close>, \<open>guid.c\<close>, on a heap that counts blocks.  \<open>Dyn_Arrays\<close>,
    \<open>Dyn_Logic\<close>, \<open>Dyn_Ids\<close>, \<open>Dyn_Values\<close>, with \<open>Array_Properties\<close>: \<open>eid_array.c\<close>,
    \<open>proptag_array.c\<close>, \<open>tpropval_array.c\<close>, \<open>tarray_set.c\<close>, \<open>sortorder_set.c\<close>.
  \<^item> \<open>Exmdb_Types\<close>, \<open>Exmdb_Base\<close>, \<open>Exmdb_Request\<close>, \<open>Exmdb_Response\<close>, \<open>Exmdb_Notify\<close>,
    \<open>Exmdb_Datagram\<close>: \<open>exmdb_ext.c\<close>, with the 113 calls of the store, the response to each and the
    notifications; \<open>Exmdb_Request_Codec\<close>, \<open>Exmdb_Response_Codec\<close>, \<open>Exmdb_Protocol\<close> show that they
    arrive, the last through the interface \<open>datagram_codec\<close>; \<open>Exmdb_Properties\<close>.
  \<^item> \<open>Exmdb_Parser\<close>: \<open>thread_work_func\<close> of \<open>exmdb_parser.c\<close>, one turn of the loop as \<open>iterate\<close>, and
    the contract of a connection as \<open>service\<close>; \<open>Parser_Logic\<close> has the invariant and the simulation.
    \<open>Exmdb_Client\<close>: \<open>exmdb_client.c\<close>; \<open>Client_Pool\<close> interleaves its threads, \<open>Client_Logic\<close> runs
    client and parser against each other; \<open>Connection_Properties\<close>.
  \<^item> \<open>Exmdb_Server\<close>: the functions of \<open>exmdb_server.h\<close> as records of parameters, and
    \<open>exmdb_parser_dispatch\<close> over them; \<open>Exmdb_Calls\<close>: the 123 calls of \<open>exmdb_client.c\<close>.
    \<open>Calls_Logic\<close> interprets the interface \<open>store_call\<close> on the calls; \<open>Remote_Calls\<close> puts the whole
    way of a call together; \<open>Call_Properties\<close>.
  \<^item> \<open>Notification_Agent\<close>: the list of routers (\<open>exmdb_parser_get_router\<close> and its neighbours),
    \<open>notification_agent.c\<close>, and the thread of \<open>exmdb_client.c\<close> that listens; \<open>agency_step\<close>
    interleaves the threads of a store.  \<open>Notification_Logic\<close> has the invariant and follows a
    notification from the store to the events at the other end; \<open>Notification_Properties\<close>.

  \<^bold>\<open>What is shown.\<close>  Round trips: property values, restrictions, rule actions, rows, strings,
  change lists, sets of identifiers, requests, responses and notifications come back as they were
  sent, and the reader stops where the writer has.  Bounds: reading from arbitrary bytes, with an
  allocator that may fail at any call, stays inside the data and ends; the exceptions are stated
  as errors (\<open>sync_request_out_of_bounds\<close>, \<open>pcl_serialize_overflows\<close>).  Refinement: change lists
  are maps from replicas to versions with their join, range lists are sets of numbers, the arrays
  are lists, sets and maps with their memory accounted for.  Connections: what passes through a
  socket is a history that the contract allows, in whatever pieces it comes; a greeting and a
  call succeed at both ends; no connection of a client is lost or used twice; and a call to a store
  on another server returns what it returns on the server that has the store.  Notifications:
  none overtakes another on its way through a router, no router is used after its release, and
  the server that listens raises the events that the store would raise for itself.

  \<^bold>\<open>Fuel and bounds.\<close>  Nested values are read with fuel, one or two units for each byte that is
  left, and \<open>restriction_reader_terminates\<close> shows that more changes nothing.  The loop of
  \<open>pcl_deserialize\<close>, whose 16-bit offset wraps, is a \<open>partial_function\<close>, shown to return below
  64 KiB.  The loop that grows a buffer has no fuel: where it wraps, its result is
  \<open>NOT_RETURNING\<close>.  Readers are taken for less than 2^30 bytes, below the limit
  that \<open>int\<close> arithmetic in the code sets; what would need more than 4 GiB to write is shown to fail.
  The arrays are taken below the number of elements that their 16-bit or 32-bit counts hold.

  \<^bold>\<open>Assumptions.\<close>  \<open>iconv\<close> converts between UTF-8 and UTF-16LE as Unicode says.  \<open>read\<close> and \<open>write\<close>
  move at most what they are asked to (\<open>answers_ok\<close>).  For a call to succeed, \<open>rpc_answered\<close>
  assumes the four bytes of a length (and the head of a response) to come in one piece: the code
  gives the connection up otherwise.

  \<^bold>\<open>What modelling has shown.\<close>  Some functions do not do what they mean to; the models do as the code
  does.  A request that ends too early can be taken for complete (\<open>stale_request_accepted\<close>); the
  sets in a synchronization request are read without a bound; a connection loses its place in the
  stream when memory runs out (\<open>refused_request_desynchronises\<close>); the name in a greeting is
  copied into 128 bytes whatever its length (\<open>long_name_overflows\<close>); a long notification is read
  past the end of an array (\<open>oversized_notification_overruns\<close>), and one is dropped where another
  thread holds the router (\<open>concurrent_notification_dropped\<close>); three calls leave out what
  they are about (\<open>arguments_not_sent\<close>); taking an identifier
  out of the interior of a range spoils a set (\<open>interior_removal_loses_all\<close>); the length byte is
  missing from the check in \<open>pcl_serialize\<close>.

  \<^bold>\<open>Not modelled.\<close>  The store behind the calls (\<open>exmdb_server\<close>, \<open>db_engine\<close>): SQL text for SQLite;
  the models take its functions as arguments.  Starting and stopping of threads,
  the time that a wait takes.  In \<open>ext_buffer.c\<close>
  recipient rows, address book entry ids, recurrence patterns, persist data.  In \<open>propval.c\<close> and its
  neighbours the computation of sizes.  The compression of \<open>lzxpress.c\<close> and \<open>rtfcp.c\<close>, the
  converters between mail and message objects, the generic containers of \<open>LIBRARY/common\<close>, and the
  servers for HTTP, SMTP, IMAP and administration, which are input and output around these parts.
\<close>

section \<open>The wire format of MAPI values\<close>


text \<open>
  C2. Reading a property value from any bytes whatsoever, with an allocator that may fail
  at any call, never accesses memory outside the buffer and always returns; it writes
  through a \<open>NULL\<close> pointer only if the allocator has failed.
\<close>

theorem tagged_propval_in_bounds:
  assumes "unat n \<le> length bs" "unat n < 2 ^ 30"
  shows "fst (ext_buffer_pull_tagged_propval (ext_buffer_pull_init bs n alloc f))
      \<notin> {Inl UNDEFINED_BEHAVIOUR, Inl OUT_OF_FUEL, Inl NOT_RETURNING} \<and>
    ((\<forall>k s. alloc k s) \<longrightarrow>
       fst (ext_buffer_pull_tagged_propval (ext_buffer_pull_init bs n alloc f)) \<noteq> Inl NULL_WRITE)"
  using assms by (rule ctagged.in_bounds)


theorem tagged_propval_in_bounds_witness:
  "fst (ext_buffer_pull_tagged_propval (ext_buffer_pull_init [3, 0, 1, 0, 9] 5 (\<lambda>_ _. False) 0))
     \<notin> {Inl UNDEFINED_BEHAVIOUR, Inl OUT_OF_FUEL, Inl NOT_RETURNING}"
  using tagged_propval_in_bounds [of 5 "[3, 0, 1, 0, 9]" "\<lambda>_ _. False" 0] by simp

end
